(* ===== verification/Go_Prelude.thy ===== *)
theory Go_Prelude
  imports Main "HOL-Library.Word" "HOL-Library.AList" "HOL-Library.Sublist"
    "HOL-Library.List_Lexorder" "HOL-Library.Char_ord"
begin

text \<open>
  The part of Go and of its standard library that the exporter's sources use, as HOL
  definitions, and the lemmas on them that several components share.

  \<^item> Machine integers are words of their width; Go strings are byte strings (\<^typ>\<open>string\<close>).
  \<^item> A Go map is an association list with distinct keys (\<open>wf_map\<close>). The order of the list
    is the order in which one particular \<open>range\<close> over the map visits it, which Go leaves
    open: a theorem about an arbitrary list is a theorem about every iteration order.
  \<^item> A panic, or a read outside a buffer, is the value \<^term>\<open>None\<close> of an option type.
\<close>

section \<open>Collections of facts\<close>

named_theorems go_string \<open>equations for the models of package strings\<close>
named_theorems go_err \<open>evaluation of errors.Is and errors.Join\<close>
named_theorems go_map \<open>lookup, update and deletion on Go maps\<close>
named_theorems le_codec \<open>little-endian encoding and decoding\<close>

section \<open>Machine integers\<close>

type_synonym u8 = "8 word"
type_synonym u16 = "16 word"
type_synonym u32 = "32 word"
type_synonym u64 = "64 word"
type_synonym bytes = "8 word list"

text \<open>Go's integer division and remainder truncate towards zero.\<close>

definition go_quot :: "int \<Rightarrow> int \<Rightarrow> int" where
  "go_quot a b = sgn a * sgn b * (\<bar>a\<bar> div \<bar>b\<bar>)"

definition go_rem :: "int \<Rightarrow> int \<Rightarrow> int" where
  "go_rem a b = a - b * go_quot a b"

lemma go_quot_nonneg [simp]: "0 \<le> a \<Longrightarrow> 0 < b \<Longrightarrow> go_quot a b = a div b"
  by (cases "a = 0") (simp_all add: go_quot_def)

lemma go_rem_nonneg [simp]: "0 \<le> a \<Longrightarrow> 0 < b \<Longrightarrow> go_rem a b = a mod b"
  by (simp add: go_rem_def minus_mult_div_eq_mod)

text \<open>Arithmetic that does not wrap around.\<close>

lemma unat_u32_less: "unat (a :: u32) < 2 ^ 32"
  using unsigned_less [of a, where ?'a = nat] by simp

lemma unat_u32_add: "unat a + unat b < 2 ^ 32 \<Longrightarrow> unat (a + b :: u32) = unat a + unat b"
  by (simp add: unat_word_ariths)

lemma unat_u32_of_nat: "n < 2 ^ 32 \<Longrightarrow> unat (word_of_nat n :: u32) = n"
  by (simp add: unat_of_nat)

lemma unat_u32_diff: "b \<le> a \<Longrightarrow> unat (a - b :: u32) = unat a - unat b"
  by (rule unat_sub)

section \<open>Little-endian bytes\<close>

fun le_nat :: "bytes \<Rightarrow> nat" where
  "le_nat [] = 0"
| "le_nat (b # bs) = unat b + 256 * le_nat bs"

fun to_le :: "nat \<Rightarrow> nat \<Rightarrow> bytes" where
  "to_le 0 x = []"
| "to_le (Suc n) x = word_of_nat x # to_le n (x div 256)"

lemma length_to_le [simp, le_codec]: "length (to_le n x) = n"
  by (induction n arbitrary: x) auto

lemma unat_u8_of_nat: "unat (word_of_nat x :: u8) = x mod 256"
  by (simp add: unat_of_nat)

lemma le_nat_to_le [le_codec]: "le_nat (to_le n x) = x mod 256 ^ n"
proof (induction n arbitrary: x)
  case 0
  then show ?case by simp
next
  case (Suc n)
  have "le_nat (to_le (Suc n) x) = x mod 256 + 256 * ((x div 256) mod 256 ^ n)"
    by (simp add: Suc unat_u8_of_nat)
  also have "\<dots> = x mod (256 * 256 ^ n)"
    by (simp add: mod_mult2_eq)
  finally show ?case by simp
qed

lemma le_nat_bound: "le_nat bs < 256 ^ length bs"
proof (induction bs)
  case Nil
  then show ?case by simp
next
  case (Cons b bs)
  have "unat b < 256"
    using unsigned_less [of b, where ?'a = nat] by simp
  with Cons show ?case by simp
qed

lemma to_le_le_nat [le_codec]: "to_le (length bs) (le_nat bs) = bs"
proof (induction bs)
  case Nil
  then show ?case by simp
next
  case (Cons b bs)
  have b: "unat b < 256"
    using unsigned_less [of b, where ?'a = nat] by simp
  then have "(unat b + 256 * le_nat bs) div 256 = le_nat bs" by simp
  moreover have "(word_of_nat (unat b + 256 * le_nat bs) :: u8) = b"
  proof -
    have "unat (word_of_nat (unat b + 256 * le_nat bs) :: u8) = unat b"
      unfolding unat_u8_of_nat using b by simp
    then show ?thesis by (simp only: word_unat_eq_iff)
  qed
  ultimately show ?case using Cons by simp
qed

text \<open>Reading one little-endian integer from the front of a byte list.\<close>

definition get_u16 :: "bytes \<Rightarrow> u16" where
  "get_u16 bs = word_of_nat (le_nat (take 2 bs))"

definition get_u32 :: "bytes \<Rightarrow> u32" where
  "get_u32 bs = word_of_nat (le_nat (take 4 bs))"

definition get_u64 :: "bytes \<Rightarrow> u64" where
  "get_u64 bs = word_of_nat (le_nat (take 8 bs))"

definition put_u16 :: "u16 \<Rightarrow> bytes" where
  "put_u16 w = to_le 2 (unat w)"

definition put_u32 :: "u32 \<Rightarrow> bytes" where
  "put_u32 w = to_le 4 (unat w)"

definition put_u64 :: "u64 \<Rightarrow> bytes" where
  "put_u64 w = to_le 8 (unat w)"

lemma length_put [simp, le_codec]:
  "length (put_u16 a) = 2" "length (put_u32 b) = 4" "length (put_u64 c) = 8"
  by (simp_all add: put_u16_def put_u32_def put_u64_def)

lemma get_put_u16 [simp, le_codec]: "get_u16 (put_u16 w @ bs) = w"
proof -
  have "unat w < 256 ^ 2" using unsigned_less [of w, where ?'a = nat] by simp
  then show ?thesis by (simp add: get_u16_def put_u16_def le_nat_to_le)
qed

lemma get_put_u32 [simp, le_codec]: "get_u32 (put_u32 w @ bs) = w"
proof -
  have "unat w < 256 ^ 4" using unsigned_less [of w, where ?'a = nat] by simp
  then show ?thesis by (simp add: get_u32_def put_u32_def le_nat_to_le)
qed

lemma get_put_u64 [simp, le_codec]: "get_u64 (put_u64 w @ bs) = w"
proof -
  have "unat w < 256 ^ 8" using unsigned_less [of w, where ?'a = nat] by simp
  then show ?thesis by (simp add: get_u64_def put_u64_def le_nat_to_le)
qed

lemma get_put_last [simp, le_codec]:
  "get_u16 (put_u16 a) = a" "get_u32 (put_u32 b) = b" "get_u64 (put_u64 c) = c"
  using get_put_u16 [of a "[]"] get_put_u32 [of b "[]"] get_put_u64 [of c "[]"] by simp_all

lemma drop_put [simp, le_codec]:
  "drop 2 (put_u16 a @ bs) = bs" "drop 4 (put_u32 b @ bs) = bs" "drop 8 (put_u64 c @ bs) = bs"
  by (simp_all add: put_u16_def put_u32_def put_u64_def)

section \<open>Go maps\<close>

type_synonym ('k, 'v) gomap = "('k \<times> 'v) list"

definition wf_map :: "('k, 'v) gomap \<Rightarrow> bool" where
  "wf_map m \<longleftrightarrow> distinct (map fst m)"

abbreviation map_get :: "('k, 'v) gomap \<Rightarrow> 'k \<Rightarrow> 'v option" where
  "map_get m k \<equiv> map_of m k"

abbreviation map_set :: "'k \<Rightarrow> 'v \<Rightarrow> ('k, 'v) gomap \<Rightarrow> ('k, 'v) gomap" where
  "map_set \<equiv> AList.update"

abbreviation map_keys :: "('k, 'v) gomap \<Rightarrow> 'k list" where
  "map_keys m \<equiv> map fst m"

text \<open>\<open>m[k]\<close> without the comma-ok form: the zero value of the element type for a missing key.\<close>

definition map_get0 :: "'v \<Rightarrow> ('k, 'v) gomap \<Rightarrow> 'k \<Rightarrow> 'v" where
  "map_get0 z m k = (case map_of m k of None \<Rightarrow> z | Some v \<Rightarrow> v)"

lemma map_get_set [simp, go_map]: "map_get (map_set k v m) k' = (if k' = k then Some v else map_get m k')"
  by (simp add: update_conv)

lemma wf_map_Nil [simp, go_map]: "wf_map []"
  by (simp add: wf_map_def)

lemma wf_map_set [simp, go_map]: "wf_map m \<Longrightarrow> wf_map (map_set k v m)"
  by (simp add: wf_map_def distinct_update)

lemma wf_map_filter [simp, go_map]: "wf_map m \<Longrightarrow> wf_map (filter P m)"
  by (simp add: wf_map_def distinct_map_filter)

lemma map_keys_set [simp, go_map]: "fst ` set (map_set k v m) = insert k (fst ` set m)"
  using dom_update [of k v m] by (simp add: dom_map_of_conv_image_fst)

lemma map_get_filter_key: "map_get (filter (\<lambda>(k, v). P k) m) k = (if P k then map_get m k else None)"
  by (induction m) auto

lemma map_get_eq_Some_iff: "wf_map m \<Longrightarrow> map_get m k = Some v \<longleftrightarrow> (k, v) \<in> set m"
  by (simp add: wf_map_def)

text \<open>
  A store of values under keys, in which several operations of the program count: the entry
  of a key is replaced by its increment, a missing entry starts from \<open>zero\<close>. The number of
  increments a key received is all that its entry depends on.
\<close>

locale counting_store =
  fixes lookup :: "'m \<Rightarrow> 'k \<Rightarrow> 'v option"
    and upd :: "'k \<Rightarrow> 'v \<Rightarrow> 'm \<Rightarrow> 'm"
    and invar :: "'m \<Rightarrow> bool"
  assumes lookup_upd: "lookup (upd k v m) k' = (if k' = k then Some v else lookup m k')"
    and invar_upd: "invar m \<Longrightarrow> invar (upd k v m)"
begin

definition bump :: "('v \<Rightarrow> 'v) \<Rightarrow> 'v \<Rightarrow> 'k \<Rightarrow> 'm \<Rightarrow> 'm" where
  "bump inc zero k m = upd k (inc (case lookup m k of None \<Rightarrow> zero | Some v \<Rightarrow> v)) m"

definition entry :: "'v \<Rightarrow> 'm \<Rightarrow> 'k \<Rightarrow> 'v" where
  "entry zero m k = (case lookup m k of None \<Rightarrow> zero | Some v \<Rightarrow> v)"

lemma entry_bump: "entry zero (bump inc zero k m) k' = (if k' = k then inc (entry zero m k) else entry zero m k')"
  by (simp add: entry_def bump_def lookup_upd)

lemma entry_bumps:
  "entry zero (fold (bump inc zero) ks m) k = (inc ^^ count_list ks k) (entry zero m k)"
proof (induction ks arbitrary: m)
  case Nil
  then show ?case by simp
next
  case (Cons x ks)
  then show ?case by (simp add: entry_bump funpow_swap1)
qed

lemma invar_bumps: "invar m \<Longrightarrow> invar (fold (bump inc zero) ks m)"
  by (induction ks arbitrary: m) (auto simp: bump_def invar_upd)

lemma lookup_bumps_None: "lookup (fold (bump inc zero) ks m) k = None \<longleftrightarrow> lookup m k = None \<and> k \<notin> set ks"
  by (induction ks arbitrary: m) (auto simp: bump_def lookup_upd)

end

interpretation gm: counting_store "map_of :: ('k, 'v) gomap \<Rightarrow> 'k \<Rightarrow> 'v option" map_set wf_map
  by unfold_locales simp_all

text \<open>\<open>m[k]++\<close> on a map whose values are incremented by \<open>inc\<close>.\<close>

definition map_inc :: "('v \<Rightarrow> 'v) \<Rightarrow> 'v \<Rightarrow> 'k \<Rightarrow> ('k, 'v) gomap \<Rightarrow> ('k, 'v) gomap" where
  "map_inc inc zero k m = map_set k (inc (map_get0 zero m k)) m"

lemma map_inc_bump: "map_inc inc zero = gm.bump inc zero"
  by (simp add: fun_eq_iff map_inc_def gm.bump_def map_get0_def)

lemma map_get0_entry: "map_get0 zero m k = gm.entry zero m k"
  by (simp add: map_get0_def gm.entry_def)

lemma map_get0_incs [go_map]:
  "map_get0 zero (fold (map_inc inc zero) ks m) k = (inc ^^ count_list ks k) (map_get0 zero m k)"
  by (simp add: map_inc_bump map_get0_entry gm.entry_bumps)

lemma wf_map_inc [simp, go_map]: "wf_map m \<Longrightarrow> wf_map (map_inc inc zero k m)"
  by (simp add: map_inc_def)

lemma map_keys_incs: "set (map_keys (fold (map_inc inc zero) ks m)) = set (map_keys m) \<union> set ks"
  by (induction ks arbitrary: m) (auto simp: map_inc_def)

section \<open>Lists\<close>

text \<open>The slice \<open>buf[i : i+n]\<close> of a byte buffer: \<^term>\<open>None\<close> is Go's slice-bounds panic.\<close>

definition slice :: "'a list \<Rightarrow> nat \<Rightarrow> nat \<Rightarrow> 'a list option" where
  "slice xs i n = (if i + n \<le> length xs then Some (take n (drop i xs)) else None)"

lemma slice_append_exact [simp]:
  "length xs = i \<Longrightarrow> length ys = n \<Longrightarrow> slice (xs @ ys @ zs) i n = Some ys"
  by (simp add: slice_def)

lemma slice_Some_length: "slice xs i n = Some ys \<Longrightarrow> length ys = n"
  by (auto simp: slice_def split: if_splits)

lemma slice_eq_None_iff: "slice xs i n = None \<longleftrightarrow> length xs < i + n"
  by (auto simp: slice_def)

text \<open>
  The outcome of running code that may loop: it returned, it panicked, or it was still running
  after the steps it was given.
\<close>

datatype 'a exec = Returns 'a | Panics | StillRunning

text \<open>
  A structure of fixed size in a byte buffer: \<open>binary.Read\<close> of a Go struct, or a cast of
  \<open>&buf[i]\<close> to a pointer to one. The provider gives an encoder and the decoder; its two laws
  say that decoding the front of a buffer inverts encoding.
\<close>

definition read_struct :: "nat \<Rightarrow> (bytes \<Rightarrow> 'a) \<Rightarrow> bytes \<Rightarrow> nat \<Rightarrow> 'a option" where
  "read_struct sz dec buf i = map_option dec (slice buf i sz)"

locale binary_struct =
  fixes sz :: nat
    and enc :: "'a \<Rightarrow> bytes"
    and dec :: "bytes \<Rightarrow> 'a"
  assumes length_enc: "length (enc x) = sz"
    and dec_enc: "dec (enc x) = x"
begin

lemma read_enc: "length pre = i \<Longrightarrow> read_struct sz dec (pre @ enc x @ post) i = Some x"
  by (simp add: read_struct_def length_enc dec_enc)

lemma read_short: "length buf < i + sz \<Longrightarrow> read_struct sz dec buf i = None"
  by (simp add: read_struct_def slice_def)

lemma enc_inj: "enc x = enc y \<Longrightarrow> x = y"
  by (metis dec_enc)

end

end
