(* ===== verification/Go_Strings.thy ===== *)
theory Go_Strings
  imports Go_Prelude
begin

text \<open>
  The functions of the packages \<open>strings\<close>, \<open>slices\<close> and \<open>strconv\<close> that the
  exporter calls, on byte strings.
\<close>

section \<open>Package strings\<close>

definition HasPrefix :: "string \<Rightarrow> string \<Rightarrow> bool" where
  "HasPrefix s p \<longleftrightarrow> prefix p s"

definition HasSuffix :: "string \<Rightarrow> string \<Rightarrow> bool" where
  "HasSuffix s p \<longleftrightarrow> suffix p s"

definition Contains :: "string \<Rightarrow> string \<Rightarrow> bool" where
  "Contains s sub \<longleftrightarrow> sublist sub s"

definition TrimPrefix :: "string \<Rightarrow> string \<Rightarrow> string" where
  "TrimPrefix s p = (if HasPrefix s p then drop (length p) s else s)"

definition TrimSuffix :: "string \<Rightarrow> string \<Rightarrow> string" where
  "TrimSuffix s p = (if HasSuffix s p then take (length s - length p) s else s)"

lemma TrimPrefix_append [simp, go_string]: "TrimPrefix (p @ s) p = s"
  by (simp add: TrimPrefix_def HasPrefix_def)

lemma TrimSuffix_append [simp, go_string]: "TrimSuffix (s @ p) p = s"
  by (auto simp: TrimSuffix_def HasSuffix_def suffix_def)

text \<open>\<open>strings.IndexByte\<close>; \<^term>\<open>None\<close> is the result -1.\<close>

fun IndexByte :: "string \<Rightarrow> char \<Rightarrow> nat option" where
  "IndexByte [] c = None"
| "IndexByte (x # xs) c = (if x = c then Some 0 else map_option Suc (IndexByte xs c))"

text \<open>\<open>strings.LastIndexAny\<close> for an ASCII set of bytes; \<^term>\<open>None\<close> is the result -1.\<close>

fun LastIndexAny :: "string \<Rightarrow> string \<Rightarrow> nat option" where
  "LastIndexAny [] cs = None"
| "LastIndexAny (x # xs) cs =
     (case LastIndexAny xs cs of
        Some i \<Rightarrow> Some (Suc i)
      | None \<Rightarrow> if x \<in> set cs then Some 0 else None)"

lemma IndexByte_None [go_string]: "IndexByte s c = None \<longleftrightarrow> c \<notin> set s"
  by (induction s) auto

lemma IndexByte_take: "IndexByte s c = Some i \<Longrightarrow> take i s = takeWhile (\<lambda>x. x \<noteq> c) s"
  by (induction s arbitrary: i) (auto split: if_splits)

lemma IndexByte_split: "IndexByte (p @ c # q) c = Some (length p) \<longleftrightarrow> c \<notin> set p"
  by (induction p) auto

lemma IndexByte_Some_split:
  "IndexByte s c = Some i \<Longrightarrow> s = take i s @ c # drop (Suc i) s \<and> c \<notin> set (take i s)"
  by (induction s arbitrary: i) (auto split: if_splits)

lemma LastIndexAny_None [go_string]: "LastIndexAny s cs = None \<longleftrightarrow> set s \<inter> set cs = {}"
  by (induction s) (auto split: option.splits)

lemma LastIndexAny_drop: "LastIndexAny s cs = Some i \<Longrightarrow> set (drop (Suc i) s) \<inter> set cs = {}"
  by (induction s arbitrary: i) (auto split: option.splits if_splits simp: LastIndexAny_None)

text \<open>\<open>strings.Split\<close> with a separator of one byte, and \<open>strings.Join\<close>.\<close>

fun Split :: "string \<Rightarrow> char \<Rightarrow> string list" where
  "Split [] c = [[]]"
| "Split (x # xs) c =
     (if x = c then [] # Split xs c
      else (case Split xs c of [] \<Rightarrow> [[x]] | y # ys \<Rightarrow> (x # y) # ys))"

fun Join :: "string list \<Rightarrow> string \<Rightarrow> string" where
  "Join [] sep = []"
| "Join [x] sep = x"
| "Join (x # y # zs) sep = x @ sep @ Join (y # zs) sep"

lemma Split_nonempty [simp, go_string]: "Split s c \<noteq> []"
  by (induction s) (auto split: list.splits)

lemma Split_no_sep: "c \<notin> set s \<Longrightarrow> Split s c = [s]"
  by (induction s) auto

lemma Split_append: "c \<notin> set p \<Longrightarrow> Split (p @ c # s) c = p # Split s c"
  by (induction p) auto

lemma Split_elems: "x \<in> set (Split s c) \<Longrightarrow> c \<notin> set x"
proof (induction s arbitrary: x)
  case Nil
  then show ?case by simp
next
  case (Cons y ys)
  then show ?case by (cases "Split ys c") (auto split: if_splits)
qed

lemma Split_Join [go_string]:
  "xs \<noteq> [] \<Longrightarrow> \<forall>x\<in>set xs. c \<notin> set x \<Longrightarrow> Split (Join xs [c]) c = xs"
  by (induction xs "[c]" rule: Join.induct) (auto simp: Split_no_sep Split_append)

lemma Join_Cons: "ys \<noteq> [] \<Longrightarrow> Join (x # ys) sep = x @ sep @ Join ys sep"
  by (cases ys) auto

lemma Join_Split [go_string]: "Join (Split s c) [c] = s"
proof (induction s)
  case Nil
  then show ?case by simp
next
  case (Cons x xs)
  obtain y ys where yys: "Split xs c = y # ys"
    by (cases "Split xs c") auto
  show ?case
  proof (cases "x = c")
    case True
    then show ?thesis using Cons by (simp add: Join_Cons)
  next
    case False
    then show ?thesis using Cons yys by (cases ys) auto
  qed
qed

text \<open>\<open>strings.ReplaceAll\<close> with a non-empty pattern: left to right, without overlap.\<close>

function ReplaceAll :: "string \<Rightarrow> string \<Rightarrow> string \<Rightarrow> string" where
  "ReplaceAll [] old new = []"
| "ReplaceAll (x # xs) old new =
     (if old \<noteq> [] \<and> prefix old (x # xs)
      then new @ ReplaceAll (drop (length old) (x # xs)) old new
      else x # ReplaceAll xs old new)"
  by pat_completeness auto
termination
  by (relation "measure (\<lambda>(s, old, new). length s)") (auto simp: Suc_le_eq)

lemma ReplaceAll_no_occurrence: "\<not> sublist old s \<Longrightarrow> ReplaceAll s old new = s"
proof (induction s)
  case Nil
  then show ?case by simp
next
  case (Cons x xs)
  then have "\<not> prefix old (x # xs)" and "\<not> sublist old xs"
    by (auto simp: sublist_Cons_right)
  with Cons show ?case by simp
qed

text \<open>
  \<open>strings.TrimSpace\<close>. White space is what \<open>unicode.IsSpace\<close> accepts: six ASCII bytes and
  the UTF-8 encodings of U+0085, U+00A0, U+1680, U+2000 to U+200A, U+2028, U+2029, U+202F,
  U+205F and U+3000.
\<close>

definition white_space :: "string list" where
  "white_space =
     map (\<lambda>c. [c]) [CHR 0x09, CHR 0x0A, CHR 0x0B, CHR 0x0C, CHR 0x0D, CHR 0x20] @
     [[CHR 0xC2, CHR 0x85], [CHR 0xC2, CHR 0xA0], [CHR 0xE1, CHR 0x9A, CHR 0x80]] @
     map (\<lambda>c. [CHR 0xE2, CHR 0x80, c])
       [CHR 0x80, CHR 0x81, CHR 0x82, CHR 0x83, CHR 0x84, CHR 0x85, CHR 0x86, CHR 0x87,
        CHR 0x88, CHR 0x89, CHR 0x8A, CHR 0xA8, CHR 0xA9, CHR 0xAF] @
     [[CHR 0xE2, CHR 0x81, CHR 0x9F], [CHR 0xE3, CHR 0x80, CHR 0x80]]"

function trim_front :: "string list \<Rightarrow> string \<Rightarrow> string" where
  "trim_front ps s =
     (case find (\<lambda>p. p \<noteq> [] \<and> prefix p s) ps of
        None \<Rightarrow> s
      | Some p \<Rightarrow> trim_front ps (drop (length p) s))"
  by pat_completeness auto
termination
proof (relation "measure (\<lambda>(ps, s). length s)", goal_cases)
  case 1
  then show ?case by simp
next
  case (2 ps s p)
  then have "p \<noteq> []" "prefix p s"
    by (auto simp: find_Some_iff)
  then show ?case by (auto simp: prefix_def)
qed

declare trim_front.simps [simp del]

definition TrimSpace :: "string \<Rightarrow> string" where
  "TrimSpace s = rev (trim_front (map rev white_space) (rev (trim_front white_space s)))"

definition TrimRight1 :: "string \<Rightarrow> char \<Rightarrow> string" where
  "TrimRight1 s c = rev (dropWhile (\<lambda>x. x = c) (rev s))"

lemma trim_front_suffix: "suffix (trim_front ps s) s"
proof (induction ps s rule: trim_front.induct)
  case (1 ps s)
  then show ?case
    by (auto simp: trim_front.simps [of ps s] split: option.splits
        intro: suffix_order.trans suffix_drop)
qed

lemma TrimSpace_sublist: "sublist (TrimSpace s) s"
proof -
  let ?t = "trim_front white_space s"
  have "suffix (rev (TrimSpace s)) (rev ?t)"
    by (simp add: TrimSpace_def trim_front_suffix)
  then obtain us where us: "?t = TrimSpace s @ us"
    by (auto simp: suffix_to_prefix prefix_def)
  obtain vs where "s = vs @ ?t"
    using trim_front_suffix by (auto simp: suffix_def)
  then have "s = vs @ TrimSpace s @ us" using us by simp
  then show ?thesis unfolding sublist_def by blast
qed

lemma set_TrimSpace: "set (TrimSpace s) \<subseteq> set s"
  using TrimSpace_sublist by (rule set_mono_sublist)

lemma set_TrimRight1: "set (TrimRight1 s c) \<subseteq> set s"
  using set_dropWhileD by (fastforce simp: TrimRight1_def)

lemma trim_front_none: "\<forall>p\<in>set ps. p = [] \<or> \<not> prefix p s \<Longrightarrow> trim_front ps s = s"
  by (subst trim_front.simps) (simp add: find_None_iff [THEN iffD2] disj_not1)

section \<open>Package strconv\<close>

definition is_digit :: "char \<Rightarrow> bool" where
  "is_digit c \<longleftrightarrow> 48 \<le> (of_char c :: nat) \<and> (of_char c :: nat) \<le> 57"

definition digit_val :: "char \<Rightarrow> nat" where
  "digit_val c = of_char c - 48"

datatype num_error = ErrSyntax | ErrRange

text \<open>\<open>strconv.ParseUint(s, 10, bits)\<close>: the loop over the digits, which reports a value that
  is out of range as soon as it sees it.\<close>

fun parse_digits :: "nat \<Rightarrow> nat \<Rightarrow> string \<Rightarrow> num_error + nat" where
  "parse_digits maxVal n [] = Inr n"
| "parse_digits maxVal n (c # cs) =
     (if \<not> is_digit c then Inl ErrSyntax
      else if maxVal < 10 * n + digit_val c then Inl ErrRange
      else parse_digits maxVal (10 * n + digit_val c) cs)"

definition ParseUint :: "string \<Rightarrow> nat \<Rightarrow> num_error + nat" where
  "ParseUint s bits = (if s = [] then Inl ErrSyntax else parse_digits (2 ^ bits - 1) 0 s)"

text \<open>\<open>strconv.Itoa\<close> and \<open>strconv.FormatUint\<close> in base 10, on non-negative values.\<close>

fun show_nat :: "nat \<Rightarrow> string" where
  "show_nat n = (if n < 10 then [char_of (48 + n)] else show_nat (n div 10) @ [char_of (48 + n mod 10)])"

declare show_nat.simps [simp del]

lemma digit_char [simp]:
  "d < 10 \<Longrightarrow> is_digit (char_of (48 + d :: nat))" "d < 10 \<Longrightarrow> digit_val (char_of (48 + d :: nat)) = d"
  by (simp_all add: is_digit_def digit_val_def)

lemma show_nat_digits: "list_all is_digit (show_nat n)"
proof (induction n rule: show_nat.induct)
  case (1 n)
  then show ?case by (subst show_nat.simps) auto
qed

lemma show_nat_nonempty [simp]: "show_nat n \<noteq> []"
  by (subst show_nat.simps) simp

definition dec_val :: "nat \<Rightarrow> string \<Rightarrow> nat" where
  "dec_val n s = fold (\<lambda>c n. 10 * n + digit_val c) s n"

lemma dec_val_simps [simp]:
  "dec_val n [] = n" "dec_val n (c # cs) = dec_val (10 * n + digit_val c) cs"
  "dec_val n (s @ t) = dec_val (dec_val n s) t"
  by (simp_all add: dec_val_def)

lemma dec_val_mono: "n \<le> dec_val n s"
proof (induction s arbitrary: n)
  case Nil
  then show ?case by simp
next
  case (Cons c cs)
  have "n \<le> 10 * n + digit_val c" by simp
  also have "\<dots> \<le> dec_val (10 * n + digit_val c) cs" by (rule Cons)
  finally show ?case by simp
qed

lemma parse_digits_Inr:
  "parse_digits maxVal n s = Inr v \<longleftrightarrow> list_all is_digit s \<and> v = dec_val n s \<and> (s = [] \<or> v \<le> maxVal)"
proof (induction s arbitrary: n)
  case Nil
  then show ?case by auto
next
  case (Cons c cs)
  let ?m = "10 * n + digit_val c"
  have le: "?m \<le> dec_val ?m cs" by (rule dec_val_mono)
  show ?case
  proof (cases "is_digit c \<and> ?m \<le> maxVal")
    case True
    then show ?thesis by (simp add: Cons.IH) (metis dec_val_simps(1))
  next
    case False
    then show ?thesis using le by simp linarith
  qed
qed

lemma ParseUint_Inr:
  "ParseUint s bits = Inr v \<longleftrightarrow> s \<noteq> [] \<and> list_all is_digit s \<and> v = dec_val 0 s \<and> v < 2 ^ bits"
proof -
  have "(0::nat) < 2 ^ bits" by simp
  then have "v \<le> 2 ^ bits - 1 \<longleftrightarrow> v < 2 ^ bits" by linarith
  then show ?thesis
    by (simp add: ParseUint_def parse_digits_Inr)
qed

lemma dec_val_show_nat [simp]: "dec_val 0 (show_nat n) = n"
proof (induction n rule: show_nat.induct)
  case (1 n)
  then show ?case by (subst show_nat.simps) auto
qed

lemma ParseUint_show_nat: "n < 2 ^ bits \<Longrightarrow> ParseUint (show_nat n) bits = Inr n"
  by (simp add: ParseUint_Inr show_nat_digits)

lemma show_nat_inj [simp]: "show_nat m = show_nat n \<longleftrightarrow> m = n"
  by (metis dec_val_show_nat)

lemma show_nat_no_char: "\<not> is_digit c \<Longrightarrow> c \<notin> set (show_nat n)"
  using show_nat_digits by (auto simp: list_all_iff)

section \<open>ASCII strings\<close>

text \<open>\<open>strings.ToLower\<close>, \<open>strings.FieldsFunc\<close> and \<open>strings.Fields\<close>, for strings of ASCII characters.\<close>

definition asciiLower :: "char \<Rightarrow> char" where
  "asciiLower c = (if CHR ''A'' \<le> c \<and> c \<le> CHR ''Z'' then char_of (of_char c + (32 :: nat)) else c)"

definition ToLower :: "string \<Rightarrow> string" where
  "ToLower s = map asciiLower s"

fun splitBy :: "(char \<Rightarrow> bool) \<Rightarrow> string \<Rightarrow> string list" where
  "splitBy f [] = [[]]"
| "splitBy f (x # xs) = (if f x then [] # splitBy f xs else (case splitBy f xs of [] \<Rightarrow> [[x]] | y # ys \<Rightarrow> (x # y) # ys))"

definition FieldsFunc :: "(char \<Rightarrow> bool) \<Rightarrow> string \<Rightarrow> string list" where
  "FieldsFunc f s = filter (\<lambda>x. x \<noteq> []) (splitBy f s)"

definition asciiSpace :: "char \<Rightarrow> bool" where
  "asciiSpace c \<longleftrightarrow> c \<in> {CHR 0x09, CHR 0x0A, CHR 0x0B, CHR 0x0C, CHR 0x0D, CHR '' ''}"

definition Fields :: "string \<Rightarrow> string list" where
  "Fields = FieldsFunc asciiSpace"

text \<open>\<open>strings.Replace(s, old, new, 1)\<close> with a non-empty \<open>old\<close>.\<close>

fun ReplaceFirst :: "string \<Rightarrow> string \<Rightarrow> string \<Rightarrow> string" where
  "ReplaceFirst [] old new = []"
| "ReplaceFirst (x # xs) old new =
     (if take (length old) (x # xs) = old then new @ drop (length old) (x # xs) else x # ReplaceFirst xs old new)"

end
