(* ===== verification/Go_Errors.thy ===== *)
theory Go_Errors
  imports Go_Strings
begin

text \<open>
  Error values. An exported error variable is a \<open>Sentinel\<close>, identified by its qualified
  name; \<open>PdhError\<close> is \<open>*pdh.Error\<close> (internal/pdh/error.go), \<open>MiError\<close> is
  \<open>mi.ResultError\<close> (internal/mi/result.go), \<open>Errno\<close> is \<open>syscall.Errno\<close>. A value made
  with \<open>errors.New\<close> or with \<open>fmt.Errorf\<close> without \<open>%w\<close> is an \<open>ErrorText\<close> of its format string and
  arguments, one with \<open>%w\<close> a \<open>Wrapf\<close>; \<open>Joined\<close> is \<open>errors.Join\<close>. The type \<open>error\<close> is
  \<open>go_error option\<close> where \<open>nil\<close> is possible.
\<close>

datatype go_error =
    Sentinel string
  | PdhError u32
  | MiError u32
  | Errno u32
  | ErrorText string "string list"
  | Wrapf string "string list" go_error
  | Joined "go_error list"

text \<open>\<open>errors.As(err, &e)\<close> with \<open>e\<close> of type \<open>*pdh.Error\<close>: the code of the first one in the tree.\<close>

fun errors_As_pdh :: "go_error \<Rightarrow> u32 option"
  and errors_As_pdhs :: "go_error list \<Rightarrow> u32 option" where
  "errors_As_pdh (PdhError c) = Some c"
| "errors_As_pdh (Wrapf f as e) = errors_As_pdh e"
| "errors_As_pdh (Joined es) = errors_As_pdhs es"
| "errors_As_pdh (Sentinel s) = None"
| "errors_As_pdh (MiError c) = None"
| "errors_As_pdh (Errno c) = None"
| "errors_As_pdh (ErrorText f as) = None"
| "errors_As_pdhs [] = None"
| "errors_As_pdhs (e # es) = (case errors_As_pdh e of Some c \<Rightarrow> Some c | None \<Rightarrow> errors_As_pdhs es)"

text \<open>
  The comparison \<open>err == target\<close> of \<open>errors.Is\<close>: values of type \<open>ResultError\<close> and
  \<open>Errno\<close> compare by value, sentinels by identity; every other error is a fresh pointer.
\<close>

fun same_error :: "go_error \<Rightarrow> go_error \<Rightarrow> bool" where
  "same_error (Sentinel s) (Sentinel t) \<longleftrightarrow> s = t"
| "same_error (MiError c) (MiError d) \<longleftrightarrow> c = d"
| "same_error (Errno c) (Errno d) \<longleftrightarrow> c = d"
| "same_error _ _ \<longleftrightarrow> False"

text \<open>The method \<open>(*pdh.Error).Is\<close>: the target's chain holds a \<open>*pdh.Error\<close> of the same code.\<close>

definition pdh_Error_Is :: "u32 \<Rightarrow> go_error \<Rightarrow> bool" where
  "pdh_Error_Is c target \<longleftrightarrow> (case errors_As_pdh target of None \<Rightarrow> False | Some d \<Rightarrow> c = d)"

fun errors_is :: "go_error \<Rightarrow> go_error \<Rightarrow> bool" where
  "errors_is (PdhError c) t \<longleftrightarrow> pdh_Error_Is c t"
| "errors_is (Wrapf f as e) t \<longleftrightarrow> errors_is e t"
| "errors_is (Joined es) t \<longleftrightarrow> (\<exists>e\<in>set es. errors_is e t)"
| "errors_is (Sentinel s) t \<longleftrightarrow> same_error (Sentinel s) t"
| "errors_is (MiError c) t \<longleftrightarrow> same_error (MiError c) t"
| "errors_is (Errno c) t \<longleftrightarrow> same_error (Errno c) t"
| "errors_is (ErrorText f as) t \<longleftrightarrow> False"

definition errors_Join :: "go_error list \<Rightarrow> go_error option" where
  "errors_Join es = (if es = [] then None else Some (Joined es))"

text \<open>Discarding the \<open>nil\<close>s of a list of results.\<close>

definition non_nil :: "go_error option list \<Rightarrow> go_error list" where
  "non_nil rs = List.map_filter id rs"

lemma errors_Join_None [simp, go_err]: "errors_Join es = None \<longleftrightarrow> es = []"
  by (simp add: errors_Join_def)

lemma non_nil_simps [simp, go_err]:
  "non_nil [] = []" "non_nil (None # rs) = non_nil rs" "non_nil (Some e # rs) = e # non_nil rs"
  by (simp_all add: non_nil_def map_filter_simps)

lemma non_nil_eq_Nil: "non_nil rs = [] \<longleftrightarrow> (\<forall>r\<in>set rs. r = None)"
proof (induction rs)
  case Nil
  then show ?case by simp
next
  case (Cons r rs)
  then show ?case by (cases r) auto
qed

lemma set_non_nil: "e \<in> set (non_nil rs) \<longleftrightarrow> Some e \<in> set rs"
proof (induction rs)
  case Nil
  then show ?case by simp
next
  case (Cons r rs)
  then show ?case by (cases r) auto
qed

lemma pdh_Error_Is_code [simp, go_err]: "pdh_Error_Is c (PdhError d) \<longleftrightarrow> c = d"
  "pdh_Error_Is c (Sentinel s) = False" "pdh_Error_Is c (MiError w) = False"
  "pdh_Error_Is c (Errno w) = False"
  by (simp_all add: pdh_Error_Is_def)

text \<open>The branch an \<open>errors.Is\<close> check takes is not affected by wrapping with \<open>%w\<close>.\<close>

lemma errors_is_Wrapf: "errors_is (Wrapf f as e) t = errors_is e t"
  by simp

section \<open>Status codes\<close>

text \<open>The constants of internal/pdh/pdh.go and internal/mi/result.go that the checks name.\<close>

definition ErrorSuccess :: u32 where "ErrorSuccess = 0"
definition CstatusValidData :: u32 where "CstatusValidData = 0"
definition CstatusNewData :: u32 where "CstatusNewData = 1"
definition CstatusNoInstance :: u32 where "CstatusNoInstance = 0x800007D1"
definition MoreData :: u32 where "MoreData = 0x800007D2"
definition NoData :: u32 where "NoData = 0x800007D5"
definition CalcNegativeDenominator :: u32 where "CalcNegativeDenominator = 0x800007D6"
definition CalcNegativeValue :: u32 where "CalcNegativeValue = 0x800007D8"
definition CstatusNoObject :: u32 where "CstatusNoObject = 0xC0000BB8"
definition CstatusNoCounter :: u32 where "CstatusNoCounter = 0xC0000BB9"
definition CstatusInvalidData :: u32 where "CstatusInvalidData = 0xC0000BBA"
definition InvalidData :: u32 where "InvalidData = 0xC0000BC6"
definition MI_RESULT_OK :: u32 where "MI_RESULT_OK = 0"
definition MI_RESULT_INVALID_NAMESPACE :: u32 where "MI_RESULT_INVALID_NAMESPACE = 3"
definition MI_RESULT_NO_SUCH_PROPERTY :: u32 where "MI_RESULT_NO_SUCH_PROPERTY = 12"

lemmas status_codes = ErrorSuccess_def CstatusValidData_def CstatusNewData_def
  CstatusNoInstance_def MoreData_def NoData_def CalcNegativeDenominator_def
  CalcNegativeValue_def CstatusNoObject_def CstatusNoCounter_def CstatusInvalidData_def
  InvalidData_def MI_RESULT_OK_def MI_RESULT_INVALID_NAMESPACE_def MI_RESULT_NO_SUCH_PROPERTY_def

abbreviation pdh_ErrNoData :: go_error where
  "pdh_ErrNoData \<equiv> PdhError NoData"

abbreviation types_ErrNoData :: go_error where
  "types_ErrNoData \<equiv> Sentinel ''types.ErrNoData''"

abbreviation ErrPerformanceCounterNotInitialized :: go_error where
  "ErrPerformanceCounterNotInitialized \<equiv> Sentinel ''pdh.ErrPerformanceCounterNotInitialized''"

abbreviation mi_ErrNotInitialized :: go_error where
  "mi_ErrNotInitialized \<equiv> Sentinel ''mi.ErrNotInitialized''"

abbreviation mi_ErrInvalidEntityType :: go_error where
  "mi_ErrInvalidEntityType \<equiv> Sentinel ''mi.ErrInvalidEntityType''"

text \<open>\<open>registry.ErrNotExist\<close> of golang.org/x/sys is \<open>syscall.ERROR_FILE_NOT_FOUND\<close>.\<close>

abbreviation registry_ErrNotExist :: go_error where
  "registry_ErrNotExist \<equiv> Errno 2"

end
