(* ===== verification/Float64.thy ===== *)
theory Float64
  imports Complex_Main "HOL-Library.Log_Nat" Go_Prelude
begin

text \<open>
  Go's \<open>float64\<close>: IEEE 754 binary64 with round-to-nearest, ties to even. A finite value is
  the rational number it stands for; the two zeros are identified, so the sign of a zero
  result is not modelled. Overflow, infinities and the not-a-number value are.

  The main facts are \<open>round64_exact\<close> (a value with a 53-bit significand is not rounded) and
  what follows from it for the counters of the exporter: integers up to $2^{53}$ are exact, and so
  are increments below that bound.
\<close>

named_theorems f64 \<open>exact float64 arithmetic\<close>

datatype f64 = F_NaN | F_Inf bool | F_Fin rat

section \<open>Rounding\<close>

text \<open>The exponent \<open>e\<close> with \<open>2\<^sup>e \<le> x < 2\<^sup>e\<^sup>+\<^sup>1\<close> of a positive rational.\<close>

definition rat_log2 :: "rat \<Rightarrow> int" where
  "rat_log2 x = (let (n, d) = quotient_of x; k = bitlen n - bitlen d
                 in if 2 powi k \<le> x then k else k - 1)"

definition round_half_even :: "rat \<Rightarrow> int" where
  "round_half_even x =
     (let f = \<lfloor>x\<rfloor>; r = x - of_int f
      in if r < 1 / 2 then f else if 1 / 2 < r then f + 1 else if even f then f else f + 1)"

definition ulp_exp :: "rat \<Rightarrow> int" where
  "ulp_exp x = max (- 1074) (rat_log2 \<bar>x\<bar> - 52)"

definition round64 :: "rat \<Rightarrow> f64" where
  "round64 x =
     (if x = 0 then F_Fin 0
      else let q = 2 powi (ulp_exp x); y = of_int (round_half_even (x / q)) * q
           in if 2 ^ 1024 \<le> \<bar>y\<bar> then F_Inf (x < 0) else F_Fin y)"

lemma round_half_even_int [simp]: "round_half_even (of_int n) = n"
  by (simp add: round_half_even_def)

lemma rat_log2_le:
  assumes "0 < x"
  shows "2 powi (rat_log2 x) \<le> x"
proof -
  obtain n d where q: "quotient_of x = (n, d)" by fastforce
  then have d: "0 < d" and x: "x = of_int n / of_int d"
    by (auto dest: quotient_of_denom_pos quotient_of_div)
  from assms x d have n: "0 < n"
    by (simp add: zero_less_divide_iff)
  let ?k = "bitlen n - bitlen d"
  have "bitlen n \<noteq> 0" using n by (simp add: bitlen_eq_zero_iff)
  with bitlen_nonneg [of n] have bn: "0 \<le> bitlen n - 1" by linarith
  have bd: "0 \<le> bitlen d" by (rule bitlen_nonneg)
  have "of_int (2 ^ nat (bitlen n - 1)) \<le> (of_int n :: rat)"
    using bitlen_bounds [OF n] by (simp only: of_int_le_iff)
  then have 1: "(2::rat) powi (bitlen n - 1) \<le> of_int n"
    using bn by (simp add: power_int_nonneg_exp)
  have "(of_int d :: rat) \<le> of_int (2 ^ nat (bitlen d))"
    using bitlen_bounds [OF d] by (simp only: of_int_le_iff less_imp_le)
  then have 2: "of_int d \<le> (2::rat) powi (bitlen d)"
    using bd by (simp add: power_int_nonneg_exp)
  have "(2::rat) powi (?k - 1) = 2 powi (bitlen n - 1) / 2 powi (bitlen d)"
    by (simp add: power_int_diff [symmetric] algebra_simps)
  also have "\<dots> \<le> of_int n / of_int d"
    using 1 2 d n by (intro frac_le) auto
  finally have "(2::rat) powi (?k - 1) \<le> x" using x by simp
  then show ?thesis by (simp add: rat_log2_def q Let_def)
qed

lemma ulp_exp_le:
  assumes "x = of_int m * 2 powi j" and "m \<noteq> 0" and "\<bar>m\<bar> < 2 ^ 53" and "- 1074 \<le> j"
  shows "ulp_exp x \<le> j"
proof -
  have pos: "0 < \<bar>x\<bar>" using assms(1,2) by simp
  have "(2::rat) powi (rat_log2 \<bar>x\<bar>) \<le> \<bar>x\<bar>" by (rule rat_log2_le [OF pos])
  also have "\<dots> = of_int \<bar>m\<bar> * 2 powi j"
    by (simp add: assms(1) abs_mult power_int_abs)
  also have "\<dots> < of_int (2 ^ 53) * 2 powi j"
  proof (rule mult_strict_right_mono)
    show "(of_int \<bar>m\<bar> :: rat) < of_int (2 ^ 53)" using assms(3) by (simp only: of_int_less_iff)
  qed simp
  also have "\<dots> = 2 powi (53 + j)"
    by (simp add: power_int_add)
  finally have lt: "(2::rat) powi (rat_log2 \<bar>x\<bar>) < 2 powi (53 + j)" .
  have "rat_log2 \<bar>x\<bar> < 53 + j"
  proof (rule ccontr)
    assume "\<not> ?thesis"
    then have "(2::rat) powi (53 + j) \<le> 2 powi (rat_log2 \<bar>x\<bar>)"
      by (intro power_int_increasing) auto
    with lt show False by simp
  qed
  then show ?thesis using assms(4) by (simp add: ulp_exp_def)
qed

lemma round64_exact:
  assumes "x = of_int m * 2 powi j" and "\<bar>m\<bar> < 2 ^ 53" and "- 1074 \<le> j" and "\<bar>x\<bar> < 2 ^ 1024"
  shows "round64 x = F_Fin x"
proof (cases "x = 0")
  case True
  then show ?thesis by (simp add: round64_def)
next
  case False
  then have m: "m \<noteq> 0" using assms(1) by auto
  let ?e = "ulp_exp x"
  have le: "?e \<le> j" by (rule ulp_exp_le [OF assms(1) m assms(2,3)])
  have "x / 2 powi ?e = of_int m * 2 powi (j - ?e)"
    by (simp add: assms(1) power_int_diff)
  also have "\<dots> = of_int (m * 2 ^ nat (j - ?e))"
    using le by (simp add: power_int_nonneg_exp)
  finally have int: "x / 2 powi ?e = of_int (m * 2 ^ nat (j - ?e))" .
  have "of_int (round_half_even (x / 2 powi ?e)) * 2 powi ?e = x / 2 powi ?e * 2 powi ?e"
    by (simp only: int round_half_even_int)
  also have "\<dots> = x" by simp
  finally show ?thesis
    using False assms(4) by (simp add: round64_def Let_def)
qed

lemma round64_of_int [simp, f64]:
  assumes "\<bar>n\<bar> \<le> 2 ^ 53"
  shows "round64 (of_int n) = F_Fin (of_int n)"
proof -
  have big: "\<bar>of_int n :: rat\<bar> < 2 ^ 1024"
  proof -
    have "\<bar>of_int n :: rat\<bar> = of_int \<bar>n\<bar>" by simp
    also have "\<dots> \<le> of_int (2 ^ 53)" using assms by (simp only: of_int_le_iff)
    also have "\<dots> < 2 ^ 1024" by simp
    finally show ?thesis .
  qed
  show ?thesis
  proof (cases "\<bar>n\<bar> < 2 ^ 53")
    case True
    show ?thesis by (rule round64_exact [of _ n 0]) (use True big in simp_all)
  next
    case False
    with assms have "n = 2 ^ 53 \<or> n = - (2 ^ 53)" by linarith
    then have "(of_int n :: rat) = of_int (n div 2) * 2 powi 1" by auto
    then show ?thesis
      by (rule round64_exact) (use \<open>n = 2 ^ 53 \<or> n = - (2 ^ 53)\<close> big in auto)
  qed
qed

section \<open>Operations\<close>

fun f64_neg :: "f64 \<Rightarrow> f64" where
  "f64_neg F_NaN = F_NaN"
| "f64_neg (F_Inf s) = F_Inf (\<not> s)"
| "f64_neg (F_Fin x) = F_Fin (- x)"

fun f64_add :: "f64 \<Rightarrow> f64 \<Rightarrow> f64" where
  "f64_add F_NaN b = F_NaN"
| "f64_add a F_NaN = F_NaN"
| "f64_add (F_Inf s) (F_Inf t) = (if s = t then F_Inf s else F_NaN)"
| "f64_add (F_Inf s) (F_Fin y) = F_Inf s"
| "f64_add (F_Fin x) (F_Inf t) = F_Inf t"
| "f64_add (F_Fin x) (F_Fin y) = round64 (x + y)"

definition f64_sub :: "f64 \<Rightarrow> f64 \<Rightarrow> f64" where
  "f64_sub a b = f64_add a (f64_neg b)"

fun f64_mul :: "f64 \<Rightarrow> f64 \<Rightarrow> f64" where
  "f64_mul F_NaN b = F_NaN"
| "f64_mul a F_NaN = F_NaN"
| "f64_mul (F_Inf s) (F_Inf t) = F_Inf (s \<noteq> t)"
| "f64_mul (F_Inf s) (F_Fin y) = (if y = 0 then F_NaN else F_Inf (s \<noteq> (y < 0)))"
| "f64_mul (F_Fin x) (F_Inf t) = (if x = 0 then F_NaN else F_Inf ((x < 0) \<noteq> t))"
| "f64_mul (F_Fin x) (F_Fin y) = round64 (x * y)"

fun f64_div :: "f64 \<Rightarrow> f64 \<Rightarrow> f64" where
  "f64_div F_NaN b = F_NaN"
| "f64_div a F_NaN = F_NaN"
| "f64_div (F_Inf s) (F_Inf t) = F_NaN"
| "f64_div (F_Inf s) (F_Fin y) = F_Inf (s \<noteq> (y < 0))"
| "f64_div (F_Fin x) (F_Inf t) = F_Fin 0"
| "f64_div (F_Fin x) (F_Fin y) =
     (if y = 0 then (if x = 0 then F_NaN else F_Inf (x < 0)) else round64 (x / y))"

text \<open>The conversion \<open>float64(n)\<close> of an integer.\<close>

definition f64_of_int :: "int \<Rightarrow> f64" where
  "f64_of_int n = round64 (of_int n)"

text \<open>
  The conversion \<open>int64(x)\<close> discards the fraction. Go leaves the result for a value that
  int64 cannot hold to the implementation: \<^term>\<open>None\<close>.
\<close>

definition f64_to_int64 :: "f64 \<Rightarrow> int option" where
  "f64_to_int64 x =
     (case x of
        F_Fin r \<Rightarrow>
          (let t = (if 0 \<le> r then \<lfloor>r\<rfloor> else - \<lfloor>- r\<rfloor>)
           in if - (2 ^ 63) \<le> t \<and> t < 2 ^ 63 then Some t else None)
      | _ \<Rightarrow> None)"

definition f64_inc :: "f64 \<Rightarrow> f64" where
  "f64_inc x = f64_add x (F_Fin 1)"

abbreviation f64_nat :: "nat \<Rightarrow> f64" where
  "f64_nat n \<equiv> F_Fin (of_nat n)"

lemma f64_add_nat [f64]:
  assumes "m + n \<le> 2 ^ 53"
  shows "f64_add (f64_nat m) (f64_nat n) = f64_nat (m + n)"
proof -
  have "int (m + n) \<le> int (2 ^ 53)" using assms by (simp only: of_nat_le_iff)
  then have "\<bar>int (m + n)\<bar> \<le> 2 ^ 53" by simp
  then have "round64 (of_int (int (m + n))) = F_Fin (of_int (int (m + n)))"
    by (rule round64_of_int)
  then show ?thesis by simp
qed

lemma f64_inc_nat [f64]: "n < 2 ^ 53 \<Longrightarrow> f64_inc (f64_nat n) = f64_nat (Suc n)"
  using f64_add_nat [of n 1] by (simp add: f64_inc_def)

lemma f64_incs_nat [f64]: "m + n \<le> 2 ^ 53 \<Longrightarrow> (f64_inc ^^ n) (f64_nat m) = f64_nat (m + n)"
proof (induction n)
  case 0
  then show ?case by simp
next
  case (Suc n)
  then have "(f64_inc ^^ Suc n) (f64_nat m) = f64_inc (f64_nat (m + n))" by simp
  also have "\<dots> = f64_nat (Suc (m + n))"
    using Suc.prems by (intro f64_inc_nat) linarith
  finally show ?case by simp
qed

lemma f64_of_int_nat [f64]: "n \<le> 2 ^ 53 \<Longrightarrow> f64_of_int (int n) = f64_nat n"
proof -
  assume "n \<le> 2 ^ 53"
  then have "int n \<le> int (2 ^ 53)" by (simp only: of_nat_le_iff)
  then have "\<bar>int n\<bar> \<le> 2 ^ 53" by simp
  then have "round64 (of_int (int n)) = F_Fin (of_int (int n))" by (rule round64_of_int)
  then show ?thesis by (simp add: f64_of_int_def)
qed

text \<open>The bound is sharp: at $2^{53}$ an increment is lost.\<close>

lemma f64_inc_saturates: "f64_inc (F_Fin (2 ^ 53)) = F_Fin (2 ^ 53)"
proof -
  have "rat_log2 9007199254740993 = 53"
    by (simp add: rat_log2_def compute_bitlen)
  then have "ulp_exp 9007199254740993 = 1"
    by (simp add: ulp_exp_def)
  moreover have "\<lfloor>9007199254740993 / 2 :: rat\<rfloor> = 4503599627370496"
    by (rule floor_unique) simp_all
  then have "round_half_even (9007199254740993 / 2) = 4503599627370496"
    by (simp add: round_half_even_def)
  ultimately show ?thesis
    by (simp add: f64_inc_def round64_def)
qed

end
