(* ===== verification/Utils.thy ===== *)
theory Utils
  imports Go_Errors Float64
begin

text \<open>
  Package internal/utils: the wrap-around counter of counter.go, and the conversions and
  error helpers of utils.go.
\<close>

section \<open>Counter\<close>

record Counter =
  lastValue :: u32
  totalValue :: f64

definition NewCounter :: "u32 \<Rightarrow> Counter" where
  "NewCounter v = \<lparr>lastValue = v, totalValue = F_Fin 0\<rparr>"

definition AddValue :: "u32 \<Rightarrow> Counter \<Rightarrow> Counter" where
  "AddValue v c =
     c\<lparr>totalValue := f64_add (totalValue c) (f64_of_int (uint (v - lastValue c))), lastValue := v\<rparr>"

definition Value :: "Counter \<Rightarrow> f64" where
  "Value c = totalValue c"

text \<open>Successive increments of a list of readings, each taken modulo $2^{32}$.\<close>

fun increments :: "u32 \<Rightarrow> u32 list \<Rightarrow> nat list" where
  "increments prev [] = []"
| "increments prev (v # vs) = unat (v - prev) # increments v vs"

lemma u32_float_exact: "f64_of_int (uint (w :: u32)) = f64_nat (unat w)"
proof -
  have eq: "uint w = int (unat w)" by simp
  have "unat w < 2 ^ 32" using unsigned_less [of w, where ?'a = nat] by simp
  then have "unat w \<le> 2 ^ 53" by simp
  then show ?thesis unfolding eq by (rule f64_of_int_nat)
qed

lemma AddValue_lastValue [simp]: "lastValue (AddValue v c) = v"
  by (simp add: AddValue_def)

lemma AddValue_totalValue:
  assumes "totalValue c = f64_nat n" and "n + unat (v - lastValue c) \<le> 2 ^ 53"
  shows "totalValue (AddValue v c) = f64_nat (n + unat (v - lastValue c))"
  using f64_add_nat [OF assms(2)] assms(1) by (simp add: AddValue_def u32_float_exact)

lemma fold_AddValue:
  assumes "totalValue c = f64_nat n" and "n + sum_list (increments (lastValue c) vs) \<le> 2 ^ 53"
  shows "totalValue (fold AddValue vs c) = f64_nat (n + sum_list (increments (lastValue c) vs))"
  using assms
proof (induction vs arbitrary: c n)
  case Nil
  then show ?case by simp
next
  case (Cons v vs)
  let ?d = "unat (v - lastValue c)"
  have "totalValue (AddValue v c) = f64_nat (n + ?d)"
    using Cons.prems by (intro AddValue_totalValue) auto
  then have "totalValue (fold AddValue vs (AddValue v c)) = f64_nat (n + ?d + sum_list (increments v vs))"
    using Cons.prems Cons.IH [of "AddValue v c" "n + ?d"] by (simp add: add.assoc)
  then show ?case by (simp add: add.assoc)
qed

text \<open>
  A monotone quantity that advances by less than $2^{32}$ between two readings: its readings
  modulo $2^{32}$ determine how far it advanced.
\<close>

fun slow :: "nat \<Rightarrow> nat list \<Rightarrow> bool" where
  "slow t [] \<longleftrightarrow> True"
| "slow t (t' # ts) \<longleftrightarrow> t \<le> t' \<and> t' - t < 2 ^ 32 \<and> slow t' ts"

lemma reading_increment:
  assumes "t \<le> t'" and "t' - t < 2 ^ 32"
  shows "unat (word_of_nat t' - word_of_nat t :: u32) = t' - t"
proof -
  have "(word_of_nat t' - word_of_nat t :: u32) = word_of_nat (t' - t)"
    using assms(1) by (simp add: of_nat_diff)
  then show ?thesis using assms(2) by (simp add: unat_of_nat)
qed

lemma increments_readings:
  "slow t ts \<Longrightarrow> sum_list (increments (word_of_nat t) (map word_of_nat ts)) = last (t # ts) - t \<and> t \<le> last (t # ts)"
proof (induction ts arbitrary: t)
  case Nil
  then show ?case by simp
next
  case (Cons t' ts)
  then have "t \<le> t'" and d: "t' - t < 2 ^ 32" and "slow t' ts" by auto
  with Cons.IH [of t'] show ?case
    by (auto simp: reading_increment)
qed

lemma counter_distance:
  assumes "slow t ts" and "last (t # ts) - t \<le> 2 ^ 53"
  shows "Value (fold AddValue (map word_of_nat ts) (NewCounter (word_of_nat t))) = f64_nat (last (t # ts) - t)"
proof -
  let ?c = "NewCounter (word_of_nat t)"
  have inc: "sum_list (increments (lastValue ?c) (map word_of_nat ts)) = last (t # ts) - t"
    using increments_readings [OF assms(1)] by (simp add: NewCounter_def)
  have "totalValue ?c = f64_nat 0" by (simp add: NewCounter_def)
  from fold_AddValue [OF this, of "map word_of_nat ts"] assms(2) show ?thesis
    unfolding Value_def inc by simp
qed

text \<open>C14: whatever the wrap-arounds of the 32-bit readings, the value of a counter that was
  created at reading \<open>t\<close> and fed the readings of \<open>ts\<close> is the exact distance that the
  underlying quantity advanced, as long as it advances by less than $2^{32}$ between two readings
  and by at most $2^{53}$ in all.\<close>

theorem counter_tracks_quantity:
  assumes "slow t ts" and "last (t # ts) - t \<le> 2 ^ 53"
  shows "Value (fold AddValue (map word_of_nat ts) (NewCounter (word_of_nat t))) = f64_nat (last (t # ts) - t)"
  using assms by (rule counter_distance)

theorem counter_tracks_quantity_witness:
  "Value (fold AddValue (map word_of_nat [10, 50, 4294967285, 4294967316]) (NewCounter (word_of_nat 0)))
     = f64_nat 4294967316"
  using counter_tracks_quantity [of 0 "[10, 50, 4294967285, 4294967316]"] by simp

section \<open>utils.go\<close>

definition MilliSecToSec :: "f64 \<Rightarrow> f64" where
  "MilliSecToSec t = f64_div t (F_Fin 1000)"

definition MBToBytes :: "f64 \<Rightarrow> f64" where
  "MBToBytes mb = f64_mul (f64_mul mb (F_Fin 1024)) (F_Fin 1024)"

definition BoolToFloat :: "bool \<Rightarrow> f64" where
  "BoolToFloat b = (if b then F_Fin 1 else F_Fin 0)"

definition PercentageToRatio :: "f64 \<Rightarrow> f64" where
  "PercentageToRatio p = f64_div p (F_Fin 100)"

text \<open>\<open>Must\<close>: \<^term>\<open>None\<close> is the panic.\<close>

definition Must :: "'a \<Rightarrow> go_error option \<Rightarrow> 'a option" where
  "Must v err = (case err of None \<Rightarrow> Some v | Some e \<Rightarrow> None)"

text \<open>\<open>SplitError\<close>: only the value that \<open>errors.Join\<close> returns has \<open>Unwrap() []error\<close>.\<close>

definition SplitError :: "go_error \<Rightarrow> go_error list" where
  "SplitError err = (case err of Joined es \<Rightarrow> es | _ \<Rightarrow> [err])"

lemma SplitError_Join: "errors_Join es = Some e \<Longrightarrow> SplitError e = es"
  by (auto simp: errors_Join_def SplitError_def split: if_splits)

end
