(* ===== verification/Eventlog_Filter.thy ===== *)
theory Eventlog_Filter
  imports Go_Errors
begin

text \<open>
  The event-ID filter of internal/collector/eventlog/eventlog.go: the parser of the
  \<open>event-ids\<close> option and the containment check.
\<close>

record eventIDFilter =
  ids :: "u32 set"
  ranges :: "(u32 \<times> u32) list"

text \<open>The error of a failed \<open>strconv.ParseUint\<close>: a \<open>*strconv.NumError\<close>, which wraps a sentinel.\<close>

definition NumError :: "string \<Rightarrow> num_error \<Rightarrow> go_error" where
  "NumError s e =
     Wrapf ''strconv.ParseUint: parsing %q: %w'' [s]
       (Sentinel (case e of ErrSyntax \<Rightarrow> ''strconv.ErrSyntax'' | ErrRange \<Rightarrow> ''strconv.ErrRange''))"

text \<open>One round of the loop over the specs.\<close>

definition addSpec :: "string \<Rightarrow> eventIDFilter \<Rightarrow> go_error + eventIDFilter" where
  "addSpec spec0 f =
     (let spec = TrimSpace spec0 in
      if spec = [] then Inr f
      else (case IndexByte spec (CHR ''-'') of
          None \<Rightarrow>
            (case ParseUint spec 32 of
               Inl e \<Rightarrow> Inl (Wrapf ''invalid event ID %q: %w'' [spec] (NumError spec e))
             | Inr i \<Rightarrow> Inr (f\<lparr>ids := insert (word_of_nat i) (ids f)\<rparr>))
        | Some idx \<Rightarrow>
            (case ParseUint (take idx spec) 32 of
               Inl e \<Rightarrow> Inl (Wrapf ''invalid event ID range %q: %w'' [spec] (NumError (take idx spec) e))
             | Inr lo \<Rightarrow>
                 (case ParseUint (drop (Suc idx) spec) 32 of
                    Inl e \<Rightarrow> Inl (Wrapf ''invalid event ID range %q: %w'' [spec] (NumError (drop (Suc idx) spec) e))
                  | Inr hi \<Rightarrow>
                      if hi < lo then Inl (ErrorText ''invalid event ID range %q: low > high'' [spec])
                      else Inr (f\<lparr>ranges := ranges f @ [(word_of_nat lo, word_of_nat hi)]\<rparr>)))))"

fun addSpecs :: "string list \<Rightarrow> eventIDFilter \<Rightarrow> go_error + eventIDFilter" where
  "addSpecs [] f = Inr f"
| "addSpecs (s # ss) f = (case addSpec s f of Inl e \<Rightarrow> Inl e | Inr f' \<Rightarrow> addSpecs ss f')"

definition newEventIDFilter :: "string list \<Rightarrow> go_error + eventIDFilter" where
  "newEventIDFilter specs = addSpecs specs \<lparr>ids = {}, ranges = []\<rparr>"

definition contains :: "eventIDFilter \<Rightarrow> u32 \<Rightarrow> bool" where
  "contains f i =
     (if ids f = {} \<and> ranges f = [] then True
      else if i \<in> ids f then True
      else list_ex (\<lambda>r. fst r \<le> i \<and> i \<le> snd r) (ranges f))"

section \<open>What a list of specs means\<close>

text \<open>
  A spec is blank, a decimal number, or two decimal numbers around a dash, the first not
  larger than the second; every number is below $2^{32}$.
\<close>

datatype id_spec = Blank | Single nat | Range nat nat

definition spec_denotes :: "string \<Rightarrow> id_spec \<Rightarrow> bool" where
  "spec_denotes s d \<longleftrightarrow>
     (let t = TrimSpace s in
      case d of
        Blank \<Rightarrow> t = []
      | Single n \<Rightarrow> ParseUint t 32 = Inr n
      | Range lo hi \<Rightarrow> lo \<le> hi \<and>
          (\<exists>p q. t = p @ CHR ''-'' # q \<and> ParseUint p 32 = Inr lo \<and> ParseUint q 32 = Inr hi))"

fun accepts :: "id_spec \<Rightarrow> nat \<Rightarrow> bool" where
  "accepts Blank n \<longleftrightarrow> False"
| "accepts (Single m) n \<longleftrightarrow> n = m"
| "accepts (Range lo hi) n \<longleftrightarrow> lo \<le> n \<and> n \<le> hi"

lemma dash_not_digit: "\<not> is_digit (CHR ''-'')"
  by (simp add: is_digit_def)

lemma ParseUint_no_dash: "ParseUint s b = Inr n \<Longrightarrow> CHR ''-'' \<notin> set s"
  using dash_not_digit by (auto simp: ParseUint_Inr list_all_iff)

lemma unat_parsed: "ParseUint s 32 = Inr n \<Longrightarrow> unat (word_of_nat n :: u32) = n"
  by (simp add: ParseUint_Inr unat_of_nat)

text \<open>The effect of one spec on the filter.\<close>

fun add_denoted :: "id_spec \<Rightarrow> eventIDFilter \<Rightarrow> eventIDFilter" where
  "add_denoted Blank f = f"
| "add_denoted (Single n) f = f\<lparr>ids := insert (word_of_nat n) (ids f)\<rparr>"
| "add_denoted (Range lo hi) f = f\<lparr>ranges := ranges f @ [(word_of_nat lo, word_of_nat hi)]\<rparr>"

lemma addSpec_denotes:
  assumes "spec_denotes s d"
  shows "addSpec s f = Inr (add_denoted d f)"
proof (cases d)
  case Blank
  then show ?thesis using assms by (simp add: spec_denotes_def addSpec_def)
next
  case (Single n)
  then have p: "ParseUint (TrimSpace s) 32 = Inr n"
    using assms by (simp add: spec_denotes_def)
  then have "IndexByte (TrimSpace s) (CHR ''-'') = None" "TrimSpace s \<noteq> []"
    using ParseUint_no_dash [OF p] p by (auto simp: IndexByte_None ParseUint_Inr)
  then show ?thesis using Single p by (simp add: addSpec_def)
next
  case (Range lo hi)
  then obtain p q where t: "TrimSpace s = p @ CHR ''-'' # q" and lo: "ParseUint p 32 = Inr lo"
    and hi: "ParseUint q 32 = Inr hi" and le: "lo \<le> hi"
    using assms by (auto simp: spec_denotes_def)
  have "IndexByte (TrimSpace s) (CHR ''-'') = Some (length p)"
    using ParseUint_no_dash [OF lo] by (simp add: t IndexByte_split)
  then show ?thesis using Range t lo hi le by (simp add: addSpec_def)
qed

lemma addSpec_Inr_denotes:
  assumes "addSpec s f = Inr f'"
  shows "\<exists>d. spec_denotes s d"
proof (cases "TrimSpace s = []")
  case True
  then have "spec_denotes s Blank" by (simp add: spec_denotes_def)
  then show ?thesis ..
next
  case False
  show ?thesis
  proof (cases "IndexByte (TrimSpace s) (CHR ''-'')")
    case None
    then obtain n where "ParseUint (TrimSpace s) 32 = Inr n"
      using assms False by (auto simp: addSpec_def Let_def split: sum.splits)
    then have "spec_denotes s (Single n)" by (simp add: spec_denotes_def)
    then show ?thesis ..
  next
    case (Some i)
    then obtain lo hi where lo: "ParseUint (take i (TrimSpace s)) 32 = Inr lo"
      and hi: "ParseUint (drop (Suc i) (TrimSpace s)) 32 = Inr hi" and "lo \<le> hi"
      using assms False by (auto simp: addSpec_def Let_def split: sum.splits if_splits)
    moreover have "TrimSpace s = take i (TrimSpace s) @ CHR ''-'' # drop (Suc i) (TrimSpace s)"
      using IndexByte_Some_split [OF Some] by blast
    ultimately have "spec_denotes s (Range lo hi)"
      unfolding spec_denotes_def Let_def by auto
    then show ?thesis ..
  qed
qed

lemma addSpecs_denotes:
  "list_all2 spec_denotes ss ds \<Longrightarrow> addSpecs ss f = Inr (fold add_denoted ds f)"
  by (induction ss ds arbitrary: f rule: list_all2_induct) (simp_all add: addSpec_denotes)

lemma addSpecs_Inr:
  "addSpecs ss f = Inr f' \<Longrightarrow> \<exists>ds. list_all2 spec_denotes ss ds"
proof (induction ss arbitrary: f)
  case Nil
  then show ?case by auto
next
  case (Cons s ss)
  then obtain f1 where "addSpec s f = Inr f1" and "addSpecs ss f1 = Inr f'"
    by (auto split: sum.splits)
  then show ?case
    using addSpec_Inr_denotes Cons.IH by (metis list_all2_Cons)
qed

text \<open>What the fields of the resulting filter hold.\<close>

lemma denoted_ids:
  "i \<in> ids (fold add_denoted ds f) \<longleftrightarrow> i \<in> ids f \<or> (\<exists>n. Single n \<in> set ds \<and> i = word_of_nat n)"
proof (induction ds arbitrary: f)
  case Nil
  then show ?case by simp
next
  case (Cons d ds)
  then show ?case by (cases d) auto
qed

lemma denoted_ranges:
  "r \<in> set (ranges (fold add_denoted ds f)) \<longleftrightarrow>
     r \<in> set (ranges f) \<or> (\<exists>lo hi. Range lo hi \<in> set ds \<and> r = (word_of_nat lo, word_of_nat hi))"
proof (induction ds arbitrary: f)
  case Nil
  then show ?case by simp
next
  case (Cons d ds)
  then show ?case by (cases d) auto
qed

lemma denoted_empty:
  assumes "ids f = {}" "ranges f = []"
  shows "ids (fold add_denoted ds f) = {} \<and> ranges (fold add_denoted ds f) = [] \<longleftrightarrow> list_all (\<lambda>d. d = Blank) ds"
proof -
  let ?g = "fold add_denoted ds f"
  have 1: "ids ?g = {} \<longleftrightarrow> (\<forall>n. Single n \<notin> set ds)"
    using denoted_ids [of _ ds f] assms(1) by auto
  have "ranges ?g = [] \<longleftrightarrow> (\<forall>r. r \<notin> set (ranges ?g))"
    by (cases "ranges ?g") auto
  also have "\<dots> \<longleftrightarrow> (\<forall>lo hi. Range lo hi \<notin> set ds)"
    by (simp only: denoted_ranges assms(2) list.set empty_iff simp_thms) blast
  finally have 2: "ranges ?g = [] \<longleftrightarrow> (\<forall>lo hi. Range lo hi \<notin> set ds)" .
  have "list_all (\<lambda>d. d = Blank) ds \<longleftrightarrow> (\<forall>n. Single n \<notin> set ds) \<and> (\<forall>lo hi. Range lo hi \<notin> set ds)"
    unfolding list_all_iff by (metis id_spec.distinct(1,3) id_spec.exhaust)
  with 1 2 show ?thesis by simp
qed

text \<open>A denoted number fits in 32 bits, so the conversion to uint32 keeps it.\<close>

fun small_spec :: "id_spec \<Rightarrow> bool" where
  "small_spec Blank \<longleftrightarrow> True"
| "small_spec (Single n) \<longleftrightarrow> n < 2 ^ 32"
| "small_spec (Range lo hi) \<longleftrightarrow> lo < 2 ^ 32 \<and> hi < 2 ^ 32"

lemma spec_denotes_small: "spec_denotes s d \<Longrightarrow> small_spec d"
  by (cases d) (auto simp: spec_denotes_def ParseUint_Inr Let_def)

lemma specs_denote_small: "list_all2 spec_denotes ss ds \<Longrightarrow> d \<in> set ds \<Longrightarrow> small_spec d"
  by (metis in_set_conv_nth list_all2_conv_all_nth spec_denotes_small)

lemma accepts_denoted_id:
  "small_spec (Single n) \<Longrightarrow> i = (word_of_nat n :: u32) \<longleftrightarrow> accepts (Single n) (unat i)"
  by (auto simp: unat_of_nat word_unat_eq_iff)

lemma accepts_denoted_range:
  "small_spec (Range lo hi) \<Longrightarrow>
     (word_of_nat lo :: u32) \<le> i \<and> i \<le> word_of_nat hi \<longleftrightarrow> accepts (Range lo hi) (unat i)"
  by (auto simp: word_le_nat_alt unat_of_nat)

lemma list_ex_accepts:
  "list_ex (\<lambda>d. accepts d n) ds \<longleftrightarrow>
     (\<exists>m. Single m \<in> set ds \<and> accepts (Single m) n) \<or> (\<exists>lo hi. Range lo hi \<in> set ds \<and> accepts (Range lo hi) n)"
  unfolding list_ex_iff by (metis accepts.simps(1) id_spec.exhaust)

lemma contains_denoted:
  assumes "list_all2 spec_denotes ss ds"
  shows "contains (fold add_denoted ds \<lparr>ids = {}, ranges = []\<rparr>) i \<longleftrightarrow>
     list_all (\<lambda>d. d = Blank) ds \<or> list_ex (\<lambda>d. accepts d (unat i)) ds"
proof -
  let ?f = "\<lparr>ids = {}, ranges = []\<rparr> :: eventIDFilter" and ?g = "fold add_denoted ds \<lparr>ids = {}, ranges = []\<rparr>"
  note small = specs_denote_small [OF assms]
  have "i \<in> ids ?g \<longleftrightarrow> (\<exists>n. Single n \<in> set ds \<and> i = word_of_nat n)"
    by (simp add: denoted_ids)
  also have "\<dots> \<longleftrightarrow> (\<exists>n. Single n \<in> set ds \<and> accepts (Single n) (unat i))"
    using small accepts_denoted_id by blast
  finally have 1: "i \<in> ids ?g \<longleftrightarrow> (\<exists>n. Single n \<in> set ds \<and> accepts (Single n) (unat i))" .
  have "list_ex (\<lambda>r. fst r \<le> i \<and> i \<le> snd r) (ranges ?g) \<longleftrightarrow>
      (\<exists>lo hi. Range lo hi \<in> set ds \<and> word_of_nat lo \<le> i \<and> i \<le> word_of_nat hi)"
    unfolding list_ex_iff Bex_def denoted_ranges by force
  also have "\<dots> \<longleftrightarrow> (\<exists>lo hi. Range lo hi \<in> set ds \<and> accepts (Range lo hi) (unat i))"
    using small accepts_denoted_range by blast
  finally have 2: "list_ex (\<lambda>r. fst r \<le> i \<and> i \<le> snd r) (ranges ?g) \<longleftrightarrow>
      (\<exists>lo hi. Range lo hi \<in> set ds \<and> accepts (Range lo hi) (unat i))" .
  have "contains ?g i \<longleftrightarrow> (ids ?g = {} \<and> ranges ?g = []) \<or> i \<in> ids ?g
      \<or> list_ex (\<lambda>r. fst r \<le> i \<and> i \<le> snd r) (ranges ?g)"
    unfolding contains_def by argo
  then show ?thesis
    unfolding 1 2 list_ex_accepts using denoted_empty [of ?f ds] by simp
qed

text \<open>C7: the filter is built exactly when every spec is blank, a 32-bit decimal number or a
  range of two of them in order, and it then accepts exactly the event IDs that some spec
  names; with nothing but blank specs it accepts all of them.\<close>

theorem event_filter_correct:
  "case newEventIDFilter specs of
     Inl e \<Rightarrow> \<nexists>ds. list_all2 spec_denotes specs ds
   | Inr f \<Rightarrow> \<exists>ds. list_all2 spec_denotes specs ds \<and>
       (\<forall>i. contains f i \<longleftrightarrow> list_all (\<lambda>d. d = Blank) ds \<or> list_ex (\<lambda>d. accepts d (unat i)) ds)"
proof (cases "newEventIDFilter specs")
  case (Inl e)
  then show ?thesis by (auto simp: newEventIDFilter_def addSpecs_denotes)
next
  case (Inr f)
  then obtain ds where ds: "list_all2 spec_denotes specs ds"
    unfolding newEventIDFilter_def using addSpecs_Inr by blast
  then have "f = fold add_denoted ds \<lparr>ids = {}, ranges = []\<rparr>"
    using Inr by (simp add: newEventIDFilter_def addSpecs_denotes)
  with ds Inr show ?thesis using contains_denoted [OF ds] by auto
qed

end
