(* ===== verification/Sanitize.thy ===== *)
theory Sanitize
  imports Go_Strings
begin

text \<open>
  internal/collector/eventlog/sanitize.go: the label value for the application named in an
  event record.
\<close>

definition maxLabelLength :: nat where
  "maxLabelLength = 128"

definition sanitizeFaultingApplication :: "string \<Rightarrow> string" where
  "sanitizeFaultingApplication s =
     (let s1 = (case IndexByte s (CHR 0x0A) of None \<Rightarrow> s | Some i \<Rightarrow> take i s);
          s2 = TrimRight1 s1 (CHR 0x0D);
          s3 = (case LastIndexAny s2 (''/'' @ [CHR 0x5C]) of None \<Rightarrow> s2 | Some i \<Rightarrow> drop (Suc i) s2);
          s4 = TrimSpace s3
      in if maxLabelLength < length s4 then take maxLabelLength s4 else s4)"

text \<open>The line and path steps, before white space is trimmed.\<close>

definition first_line :: "string \<Rightarrow> string" where
  "first_line s = TrimRight1 (case IndexByte s (CHR 0x0A) of None \<Rightarrow> s | Some i \<Rightarrow> take i s) (CHR 0x0D)"

definition base_name :: "string \<Rightarrow> string" where
  "base_name s = (case LastIndexAny s (''/'' @ [CHR 0x5C]) of None \<Rightarrow> s | Some i \<Rightarrow> drop (Suc i) s)"

lemma sanitize_alt: "sanitizeFaultingApplication s = take maxLabelLength (TrimSpace (base_name (first_line s)))"
  by (simp add: sanitizeFaultingApplication_def base_name_def first_line_def Let_def)

lemma first_line_no_newline: "CHR 0x0A \<notin> set (first_line s)"
proof -
  have "CHR 0x0A \<notin> set (case IndexByte s (CHR 0x0A) of None \<Rightarrow> s | Some i \<Rightarrow> take i s)"
    by (auto simp: IndexByte_None IndexByte_take dest: set_takeWhileD split: option.splits)
  with set_TrimRight1 show ?thesis unfolding first_line_def by blast
qed

lemma set_base_name: "set (base_name s) \<subseteq> set s"
  by (auto simp: base_name_def dest: in_set_dropD split: option.splits)

lemma base_name_no_separator: "set (base_name s) \<inter> {CHR ''/'', CHR 0x5C} = {}"
proof (cases "LastIndexAny s (''/'' @ [CHR 0x5C])")
  case None
  then have "set s \<inter> set (''/'' @ [CHR 0x5C]) = {}" by (simp only: LastIndexAny_None)
  with None show ?thesis by (simp add: base_name_def)
next
  case (Some i)
  from LastIndexAny_drop [OF this] Some show ?thesis by (simp add: base_name_def)
qed

lemma LastIndexAny_append:
  "c \<in> set cs \<Longrightarrow> set q \<inter> set cs = {} \<Longrightarrow> LastIndexAny (p @ c # q) cs = Some (length p)"
  by (induction p) (auto simp: LastIndexAny_None [THEN iffD2])

lemma base_name_append:
  "c \<in> {CHR ''/'', CHR 0x5C} \<Longrightarrow> set q \<inter> {CHR ''/'', CHR 0x5C} = {} \<Longrightarrow> base_name (p @ c # q) = q"
  using LastIndexAny_append [of c "''/'' @ [CHR 0x5C]" q p] by (auto simp: base_name_def)

lemma first_line_append:
  assumes "CHR 0x0A \<notin> set s" and "s = [] \<or> last s \<noteq> CHR 0x0D"
  shows "first_line (s @ replicate n (CHR 0x0D) @ CHR 0x0A # rest) = s"
proof -
  let ?r = "replicate n (CHR 0x0D)"
  have "IndexByte ((s @ ?r) @ CHR 0x0A # rest) (CHR 0x0A) = Some (length (s @ ?r))"
    unfolding IndexByte_split using assms(1) by auto
  then have "first_line (s @ ?r @ CHR 0x0A # rest) = TrimRight1 (s @ ?r) (CHR 0x0D)"
    by (simp add: first_line_def)
  also have "\<dots> = s"
  proof -
    have "dropWhile (\<lambda>x. x = CHR 0x0D) (?r @ rev s) = dropWhile (\<lambda>x. x = CHR 0x0D) (rev s)"
      by (induction n) auto
    also have "\<dots> = rev s"
      using assms(2) by (cases s rule: rev_cases) auto
    finally show ?thesis by (simp add: TrimRight1_def)
  qed
  finally show ?thesis .
qed

text \<open>C15: a sanitized application name is at most 128 bytes long, lies on one line and holds no
  path separator, whatever the insertion string was.\<close>

theorem sanitize_label_safe:
  "length (sanitizeFaultingApplication s) \<le> 128 \<and>
   set (sanitizeFaultingApplication s) \<inter> {CHR 0x0A, CHR ''/'', CHR 0x5C} = {}"
proof -
  have "set (sanitizeFaultingApplication s) \<subseteq> set (base_name (first_line s))"
    using set_take_subset set_TrimSpace by (fastforce simp: sanitize_alt)
  moreover have "set (base_name (first_line s)) \<subseteq> set (first_line s)" by (rule set_base_name)
  ultimately show ?thesis
    using first_line_no_newline base_name_no_separator [of "first_line s"]
    by (auto simp: sanitize_alt maxLabelLength_def)
qed

text \<open>from a path followed by a line end and further lines, the sanitizer returns the file
  name, trimmed of white space and cut to 128 bytes.\<close>

theorem sanitize_path:
  assumes "CHR 0x0A \<notin> set dir" and "sep \<in> {CHR ''/'', CHR 0x5C}"
    and "set name \<inter> {CHR 0x0A, CHR ''/'', CHR 0x5C} = {}" and "name \<noteq> []" and "last name \<noteq> CHR 0x0D"
  shows "sanitizeFaultingApplication (dir @ sep # name @ replicate n (CHR 0x0D) @ CHR 0x0A # rest)
           = take 128 (TrimSpace name)"
proof -
  have "first_line ((dir @ sep # name) @ replicate n (CHR 0x0D) @ CHR 0x0A # rest) = dir @ sep # name"
    by (rule first_line_append) (use assms in auto)
  moreover have "base_name (dir @ sep # name) = name"
    by (rule base_name_append) (use assms in auto)
  ultimately show ?thesis by (simp add: sanitize_alt maxLabelLength_def)
qed

theorem sanitize_path_witness:
  "sanitizeFaultingApplication (''C:'' @ CHR 0x5C # ''app.exe'' @ replicate 1 (CHR 0x0D) @ CHR 0x0A # ''stack'')
     = take 128 (TrimSpace ''app.exe'')"
  by (rule sanitize_path) simp_all

section \<open>The cut in the middle of a character\<close>

text \<open>
  The encoding of one character in UTF-8, as \<open>unicode/utf8\<close> accepts it: a byte of ASCII, or a leading byte and as many continuation bytes as it asks for, without overlong forms and surrogates.
\<close>

definition byteOf :: "char \<Rightarrow> nat" where "byteOf c = of_char c"

definition continuation :: "char \<Rightarrow> bool" where
  "continuation c \<longleftrightarrow> 0x80 \<le> byteOf c \<and> byteOf c \<le> 0xBF"

definition runeLen :: "char \<Rightarrow> nat" where
  "runeLen c = (if byteOf c < 0x80 then 1 else if byteOf c < 0xE0 then 2 else if byteOf c < 0xF0 then 3 else 4)"

definition second_ok :: "nat \<Rightarrow> nat \<Rightarrow> bool" where
  "second_ok a b \<longleftrightarrow>
     (if a = 0xE0 then 0xA0 \<le> b else if a = 0xED then b \<le> 0x9F else if a = 0xF0 then 0x90 \<le> b else if a = 0xF4 then b \<le> 0x8F else True)"

definition rune_ok :: "string \<Rightarrow> bool" where
  "rune_ok r \<longleftrightarrow>
     r \<noteq> [] \<and> length r = runeLen (hd r) \<and> list_all continuation (tl r) \<and>
     (byteOf (hd r) < 0x80 \<or> 0xC2 \<le> byteOf (hd r) \<and> byteOf (hd r) \<le> 0xF4 \<and> second_ok (byteOf (hd r)) (byteOf (hd (tl r))))"

inductive utf8_valid :: "string \<Rightarrow> bool" where
  empty: "utf8_valid []"
| rune: "rune_ok r \<Longrightarrow> utf8_valid s \<Longrightarrow> utf8_valid (r @ s)"

lemma rune_first: "rune_ok r \<Longrightarrow> \<not> continuation (hd r)"
  by (auto simp: rune_ok_def continuation_def)

lemma utf8_first: "utf8_valid s \<Longrightarrow> s \<noteq> [] \<Longrightarrow> \<not> continuation (hd s)"
  by (cases rule: utf8_valid.cases) (auto simp: rune_first rune_ok_def [of "_ :: string"] hd_append dest: rune_first)

lemma rune_unique: "rune_ok r \<Longrightarrow> rune_ok r' \<Longrightarrow> r @ s = r' @ s' \<Longrightarrow> r = r' \<and> s = s'"
proof -
  assume ok: "rune_ok r" "rune_ok r'" and eq: "r @ s = r' @ s'"
  then have "hd r = hd r'" by (metis hd_append2 rune_ok_def)
  then have "length r = length r'" using ok by (simp add: rune_ok_def)
  then show ?thesis using eq by simp
qed

text \<open>A valid string can be cut in front of a byte that is not a continuation byte, and a valid part can be taken from its front.\<close>

lemma utf8_split:
  "utf8_valid t \<Longrightarrow> n < length t \<Longrightarrow> \<not> continuation (t ! n) \<Longrightarrow> utf8_valid (take n t) \<and> utf8_valid (drop n t)"
proof (induction arbitrary: n rule: utf8_valid.induct)
  case (rune r s)
  show ?case
  proof (cases "n < length r")
    case True
    have "n = 0"
    proof (rule ccontr)
      assume "n \<noteq> 0"
      then have "continuation (r ! n)" using True rune.hyps(1) by (cases r) (auto simp: rune_ok_def list_all_length nth_Cons')
      then show False using rune.prems(2) True by (simp add: nth_append)
    qed
    then show ?thesis using rune utf8_valid.intros by simp
  next
    case False
    then show ?thesis using rune.IH [of "n - length r"] rune.prems rune.hyps(1) utf8_valid.rune by (simp add: nth_append)
  qed
qed simp

lemma utf8_cancel: "utf8_valid p \<Longrightarrow> utf8_valid (p @ q) \<Longrightarrow> utf8_valid q"
proof (induction arbitrary: q rule: utf8_valid.induct)
  case (rune r s)
  from rune.prems show ?case
  proof (cases rule: utf8_valid.cases)
    case empty
    then show ?thesis using rune.hyps(1) by (simp add: rune_ok_def)
  next
    case (rune r' s')
    then have "s @ q = s'" using rune_unique [OF \<open>rune_ok r\<close> rune(2), of "s @ q" s'] by simp
    then show ?thesis using rune.IH rune(3) by simp
  qed
qed simp

lemma utf8_take_iff:
  assumes "utf8_valid t"
  shows "utf8_valid (take n t) \<longleftrightarrow> length t \<le> n \<or> \<not> continuation (t ! n)"
proof (cases "n < length t")
  case True
  have "\<not> continuation (t ! n)" if "utf8_valid (take n t)"
  proof -
    have "utf8_valid (drop n t)" using utf8_cancel [OF that, of "drop n t"] assms by simp
    then show ?thesis using utf8_first True by (fastforce simp: hd_drop_conv_nth)
  qed
  then show ?thesis using utf8_split [OF assms True] True by auto
qed (use assms in simp)

text \<open>The steps of the sanitizer before the cut keep a valid string valid.\<close>

lemma ascii_rune: "byteOf c < 0x80 \<Longrightarrow> \<not> continuation c \<and> utf8_valid [c]"
  using utf8_valid.rune [of "[c]", OF _ utf8_valid.empty] by (auto simp: rune_ok_def runeLen_def continuation_def)

lemma utf8_TrimRight1:
  assumes "utf8_valid s" and "byteOf c < 0x80"
  shows "utf8_valid (TrimRight1 s c)"
proof -
  let ?u = "takeWhile (\<lambda>x. x = c) (rev s)"
  have s: "s = TrimRight1 s c @ rev ?u" by (simp add: TrimRight1_def flip: rev_append)
  show ?thesis
  proof (cases "?u = []")
    case False
    have "s ! length (TrimRight1 s c) = last ?u" using False by (subst s) (simp add: nth_append hd_conv_nth [symmetric] hd_rev)
    moreover have "last ?u = c" using False by (meson last_in_set set_takeWhileD)
    moreover have "length (TrimRight1 s c) < length s" using False by (subst (2) s) simp
    ultimately have "utf8_valid (take (length (TrimRight1 s c)) s)" using utf8_split [OF assms(1)] ascii_rune [OF assms(2)] by simp
    then show ?thesis by (subst (asm) (2) s) simp
  next
    case True
    then show ?thesis using s assms(1) by simp
  qed
qed

lemma utf8_cut:
  assumes "utf8_valid (p @ c # q)" and "byteOf c < 0x80"
  shows "utf8_valid p \<and> utf8_valid q"
proof -
  have "utf8_valid p \<and> utf8_valid ([c] @ q)" using utf8_split [OF assms(1), of "length p"] ascii_rune [OF assms(2)] by simp
  then show ?thesis using utf8_cancel [of "[c]" q] ascii_rune [OF assms(2)] by blast
qed

lemma utf8_first_line: "utf8_valid s \<Longrightarrow> utf8_valid (first_line s)"
proof -
  assume v: "utf8_valid s"
  have "utf8_valid (case IndexByte s (CHR 0x0A) of None \<Rightarrow> s | Some i \<Rightarrow> take i s)"
  proof (cases "IndexByte s (CHR 0x0A)")
    case (Some i)
    then have s: "s = take i s @ CHR 0x0A # drop (Suc i) s" using IndexByte_Some_split by blast
    have "utf8_valid (take i s)" using utf8_cut [of "take i s" "CHR 0x0A" "drop (Suc i) s"] s v by (simp add: byteOf_def)
    then show ?thesis using Some by simp
  qed (use v in simp)
  then show ?thesis unfolding first_line_def by (rule utf8_TrimRight1) (simp add: byteOf_def)
qed

lemma LastIndexAny_Some_split: "LastIndexAny s cs = Some i \<Longrightarrow> \<exists>c \<in> set cs. s = take i s @ c # drop (Suc i) s"
  by (induction s arbitrary: i) (auto split: option.splits if_splits)

lemma utf8_base_name: "utf8_valid s \<Longrightarrow> utf8_valid (base_name s)"
proof (cases "LastIndexAny s (''/'' @ [CHR 0x5C])")
  case (Some i)
  assume v: "utf8_valid s"
  obtain c where c: "c \<in> set (''/'' @ [CHR 0x5C])" "s = take i s @ c # drop (Suc i) s" using LastIndexAny_Some_split [OF Some] by blast
  then have "byteOf c < 0x80" by (auto simp: byteOf_def)
  then have "utf8_valid (drop (Suc i) s)" using utf8_cut [of "take i s" c "drop (Suc i) s"] c(2) v by simp
  then show ?thesis using Some by (simp add: base_name_def)
qed (simp add: base_name_def)

lemma white_space_runes: "list_all rune_ok white_space"
  by code_simp

lemma trim_front_keeps:
  "(\<And>p x. p \<in> set ps \<Longrightarrow> P (p @ x) \<Longrightarrow> P x) \<Longrightarrow> P s \<Longrightarrow> P (trim_front ps s)"
proof (induction ps s rule: trim_front.induct)
  case (1 ps s)
  show ?case
  proof (cases "find (\<lambda>p. p \<noteq> [] \<and> prefix p s) ps")
    case None
    then show ?thesis using "1.prems"(2) by (simp add: trim_front.simps [of ps s])
  next
    case (Some p)
    then have p: "p \<in> set ps" "prefix p s" by (auto simp: find_Some_iff)
    then have "P (drop (length p) s)" using "1.prems" by (auto simp: prefix_def)
    then show ?thesis using "1.IH" [OF Some] "1.prems"(1) Some by (simp add: trim_front.simps [of ps s])
  qed
qed

lemma utf8_TrimSpace: "utf8_valid s \<Longrightarrow> utf8_valid (TrimSpace s)"
proof -
  assume v: "utf8_valid s"
  have rune: "rune_ok p" if "p \<in> set white_space" for p using white_space_runes that by (simp add: list_all_iff)
  have "utf8_valid x" if "p \<in> set white_space" "utf8_valid (p @ x)" for p x
    using utf8_cancel [of p x] utf8_valid.rune [OF rune [OF that(1)] utf8_valid.empty] that(2) by simp
  then have front: "utf8_valid (trim_front white_space s)" using trim_front_keeps [of white_space utf8_valid] v by blast
  have back_rune: "utf8_valid (rev x)" if p: "p \<in> set (map rev white_space)" and px: "utf8_valid (rev (p @ x))" for p x
  proof -
    obtain q where q: "q \<in> set white_space" "p = rev q" using p by auto
    then have "q \<noteq> []" "\<not> continuation (hd q)" using rune [OF q(1)] rune_first by (auto simp: rune_ok_def)
    then show ?thesis using utf8_split [OF px, of "length x"] q(2) by (cases q) (simp_all add: nth_append)
  qed
  have "utf8_valid (rev (rev (trim_front white_space s)))" using front by simp
  then have "utf8_valid (rev (trim_front (map rev white_space) (rev (trim_front white_space s))))"
    using trim_front_keeps [of "map rev white_space" "\<lambda>x. utf8_valid (rev x)" "rev (trim_front white_space s)"] back_rune by blast
  then show ?thesis by (simp add: TrimSpace_def)
qed

text \<open>
  C17: The cut at 128 bytes can go through a character: from a valid text the sanitizer makes a valid label exactly when the name has no more than 128 bytes or its byte after the cut begins a
  character. Otherwise the label is not valid UTF-8, which \<open>MustNewConstMetric\<close> answers with a panic. (The comment speaks of characters, and not of bytes.)
\<close>

theorem sanitize_utf8_iff:
  assumes "utf8_valid s" and "name = TrimSpace (base_name (first_line s))"
  shows "utf8_valid (sanitizeFaultingApplication s) \<longleftrightarrow> length name \<le> 128 \<or> \<not> continuation (name ! 128)"
  using utf8_take_iff [OF utf8_TrimSpace [OF utf8_base_name [OF utf8_first_line [OF assms(1)]]]]
  by (simp add: sanitize_alt maxLabelLength_def assms(2))

text \<open>An accented letter across the cut.\<close>

definition splitName :: string where
  "splitName = replicate 127 (CHR ''a'') @ [CHR 0xC3, CHR 0xA9]"

lemma utf8_letters: "utf8_valid s \<Longrightarrow> byteOf c < 0x80 \<Longrightarrow> utf8_valid (replicate n c @ s)"
proof (induction n)
  case (Suc n)
  then show ?case using utf8_valid.rune [of "[c]"] by (simp add: rune_ok_def runeLen_def)
qed simp

lemma splitName_trimmed: "TrimSpace (base_name (first_line splitName)) = splitName"
  by code_simp

theorem sanitize_utf8_iff_witness:
  "utf8_valid splitName \<and> \<not> utf8_valid (sanitizeFaultingApplication splitName)"
proof -
  have "utf8_valid ([CHR 0xC3, CHR 0xA9] @ [])"
    by (rule utf8_valid.rune [OF _ utf8_valid.empty]) (simp add: rune_ok_def runeLen_def continuation_def byteOf_def second_ok_def)
  then have v: "utf8_valid splitName" using utf8_letters [of "[CHR 0xC3, CHR 0xA9]" "CHR ''a''" 127] by (simp add: splitName_def byteOf_def)
  have "length splitName = 129" "continuation (splitName ! 128)" by (simp_all add: splitName_def nth_append continuation_def byteOf_def)
  then show ?thesis using sanitize_utf8_iff [OF v refl] v unfolding splitName_trimmed by simp
qed

end
