(* ===== verification/Prom.thy ===== *)
theory Prom
  imports Float64 Go_Strings
begin

text \<open>
  What the exporter hands to the Prometheus client library, kept as the data of the call:
  \<open>prometheus.NewDesc(prometheus.BuildFQName(namespace, subsystem, name), help, labels, const)\<close> is a
  \<open>Desc\<close>, and a \<open>MustNewConst...\<close> call with the descriptor and its values is a \<open>metric\<close>. The
  library documents that such a call panics when the number of label values differs from the
  number of variable labels, and that a registry refuses two metrics with the same name and
  the same labels in one scrape; \<open>arity_ok\<close> and \<open>series\<close> state these two conditions.
\<close>

datatype fqname = BuildFQName string string string | FullName string

record Desc =
  fqName :: fqname
  helpText :: string
  variableLabels :: "string list"
  constLabels :: "(string \<times> string) list"

datatype valueType = CounterValue | GaugeValue | UntypedValue

datatype metric =
    ConstMetric Desc valueType f64 "string list"
  | ConstSummary Desc nat f64 "(f64 \<times> f64) list" "string list"
  | ConstHistogram Desc nat f64 "(f64 \<times> nat) list" "string list"

fun metric_desc :: "metric \<Rightarrow> Desc" where
  "metric_desc (ConstMetric d vt v ls) = d"
| "metric_desc (ConstSummary d n s qs ls) = d"
| "metric_desc (ConstHistogram d n s bs ls) = d"

fun label_values :: "metric \<Rightarrow> string list" where
  "label_values (ConstMetric d vt v ls) = ls"
| "label_values (ConstSummary d n s qs ls) = ls"
| "label_values (ConstHistogram d n s bs ls) = ls"

definition arity_ok :: "metric \<Rightarrow> bool" where
  "arity_ok m \<longleftrightarrow> length (label_values m) = length (variableLabels (metric_desc m))"

text \<open>The identity of the time series a metric belongs to.\<close>

definition series :: "metric \<Rightarrow> fqname \<times> string list \<times> (string \<times> string) list \<times> string list" where
  "series m = (fqName (metric_desc m), variableLabels (metric_desc m), constLabels (metric_desc m), label_values m)"

abbreviation Namespace :: string where
  "Namespace \<equiv> ''windows''"

definition NewDesc :: "fqname \<Rightarrow> string \<Rightarrow> string list \<Rightarrow> Desc" where
  "NewDesc n h ls = \<lparr>fqName = n, helpText = h, variableLabels = ls, constLabels = []\<rparr>"

lemma NewDesc_sel [simp]:
  "fqName (NewDesc n h ls) = n" "helpText (NewDesc n h ls) = h"
  "variableLabels (NewDesc n h ls) = ls" "constLabels (NewDesc n h ls) = []"
  by (simp_all add: NewDesc_def)

text \<open>
  The contract of a collector towards the library: every metric it emits is built with the
  right number of label values and from a descriptor it owns, and no two of them are the same
  series.
\<close>

locale emitter =
  fixes descs :: "Desc list"
    and emits :: "'s \<Rightarrow> metric list"
    and invar :: "'s \<Rightarrow> bool"
  assumes emits_arity: "m \<in> set (emits s) \<Longrightarrow> arity_ok m"
    and emits_descs: "m \<in> set (emits s) \<Longrightarrow> metric_desc m \<in> set descs"
    and emits_distinct: "invar s \<Longrightarrow> distinct (map series (emits s))"
begin

lemma emission_accepted:
  "invar s \<Longrightarrow> list_all arity_ok (emits s) \<and> distinct (map series (emits s)) \<and> metric_desc ` set (emits s) \<subseteq> set descs"
  using emits_arity emits_descs emits_distinct by (auto simp: list_all_iff)

end

text \<open>Two runs of metrics from disjoint sets of metric names do not clash.\<close>

lemma distinct_series_append:
  assumes "distinct (map series xs)" and "distinct (map series ys)"
    and "(fqName \<circ> metric_desc) ` set xs \<inter> (fqName \<circ> metric_desc) ` set ys = {}"
  shows "distinct (map series (xs @ ys))"
proof -
  let ?n = "fqName \<circ> metric_desc"
  have key: "series x = series y \<Longrightarrow> ?n x = ?n y" for x y by (simp add: series_def)
  have "series x \<noteq> series y" if "x \<in> set xs" and "y \<in> set ys" for x y
  proof
    assume "series x = series y"
    then have "?n x \<in> ?n ` set ys" using key that(2) by (metis imageI)
    moreover have "?n x \<in> ?n ` set xs" using that(1) by (rule imageI)
    ultimately show False using assms(3) by blast
  qed
  then have "series ` set xs \<inter> series ` set ys = {}" by blast
  with assms(1,2) show ?thesis by simp
qed

lemma distinct_series_names:
  assumes "distinct (map series xs)" and "distinct (map series ys)"
    and "(fqName \<circ> metric_desc) ` set xs \<subseteq> A" and "(fqName \<circ> metric_desc) ` set ys \<subseteq> B" and "A \<inter> B = {}"
  shows "distinct (map series (xs @ ys))"
  using assms(3-5) by (intro distinct_series_append assms(1,2)) blast

lemma distinct_series_concat:
  assumes "distinct (map (\<lambda>x. fqName (d x)) xs)"
    and "\<And>x. x \<in> set xs \<Longrightarrow> distinct (map series (ms x))"
    and "\<And>x m. x \<in> set xs \<Longrightarrow> m \<in> set (ms x) \<Longrightarrow> metric_desc m = d x"
  shows "distinct (map series (concat (map ms xs)))"
  using assms
proof (induction xs)
  case Nil
  then show ?case by simp
next
  case (Cons x xs)
  have "distinct (map series (ms x @ concat (map ms xs)))"
  proof (rule distinct_series_names)
    show "(fqName \<circ> metric_desc) ` set (ms x) \<subseteq> {fqName (d x)}" using Cons.prems(3) [of x] by auto
    show "(fqName \<circ> metric_desc) ` set (concat (map ms xs)) \<subseteq> (\<lambda>x. fqName (d x)) ` set xs" using Cons.prems(3) by force
    show "{fqName (d x)} \<inter> (\<lambda>x. fqName (d x)) ` set xs = {}" using Cons.prems(1) by auto
    show "distinct (map series (ms x))" using Cons.prems(2) by simp
    show "distinct (map series (concat (map ms xs)))" using Cons by simp
  qed
  then show ?case by simp
qed

end
