(* ===== verification/Eventlog.thy ===== *)
theory Eventlog
  imports Eventlog_Filter Sanitize Prom
begin

text \<open>
  The collector of internal/collector/eventlog/eventlog.go: the decoding of event records in
  the buffer that \<open>ReadEventLogW\<close> fills, the counters it keeps, and the loop that reads a log
  to its end.

  The system calls are the parameter \<open>api\<close>, a record of functions on an abstract system state;
  \<open>windows.UTF16ToString\<close> is the parameter \<open>utf16\<close>. Offsets and lengths are 32-bit words, as in
  the code: their sums wrap around. An index out of range, or a read outside the buffer through
  \<open>unsafe.Slice\<close>, is \<^term>\<open>None\<close> (\<^term>\<open>Panics\<close> in a loop). Logging is left out.
\<close>

section \<open>Event records\<close>

record eventLogRecord =
  Length :: u32
  Reserved :: u32
  RecordNumber :: u32
  TimeGenerated :: u32
  TimeWritten :: u32
  EventID :: u32
  EventType :: u16
  NumStrings :: u16
  EventCategory :: u16
  ReservedFlags :: u16
  ClosingRecordNumber :: u32
  StringOffset :: u32
  UserSidLength :: u32
  UserSidOffset :: u32
  DataLength :: u32
  DataOffset :: u32

text \<open>The size of the structure, and its layout in memory on a little-endian machine.\<close>

definition recSize :: nat where
  "recSize = 56"

definition decodeRecord :: "bytes \<Rightarrow> eventLogRecord" where
  "decodeRecord bs =
     \<lparr>Length = get_u32 bs, Reserved = get_u32 (drop 4 bs), RecordNumber = get_u32 (drop 8 bs),
      TimeGenerated = get_u32 (drop 12 bs), TimeWritten = get_u32 (drop 16 bs),
      EventID = get_u32 (drop 20 bs), EventType = get_u16 (drop 24 bs),
      NumStrings = get_u16 (drop 26 bs), EventCategory = get_u16 (drop 28 bs),
      ReservedFlags = get_u16 (drop 30 bs), ClosingRecordNumber = get_u32 (drop 32 bs),
      StringOffset = get_u32 (drop 36 bs), UserSidLength = get_u32 (drop 40 bs),
      UserSidOffset = get_u32 (drop 44 bs), DataLength = get_u32 (drop 48 bs),
      DataOffset = get_u32 (drop 52 bs)\<rparr>"

definition encodeRecord :: "eventLogRecord \<Rightarrow> bytes" where
  "encodeRecord r =
     put_u32 (Length r) @ put_u32 (Reserved r) @ put_u32 (RecordNumber r) @
     put_u32 (TimeGenerated r) @ put_u32 (TimeWritten r) @ put_u32 (EventID r) @
     put_u16 (EventType r) @ put_u16 (NumStrings r) @ put_u16 (EventCategory r) @
     put_u16 (ReservedFlags r) @ put_u32 (ClosingRecordNumber r) @ put_u32 (StringOffset r) @
     put_u32 (UserSidLength r) @ put_u32 (UserSidOffset r) @ put_u32 (DataLength r) @
     put_u32 (DataOffset r)"

text \<open>\<open>unsafe.Slice((*uint16)(&buf[i]), n)\<close>, read: the index must be in range and the slice in the buffer.\<close>

definition wordsAt :: "bytes \<Rightarrow> nat \<Rightarrow> nat \<Rightarrow> u16 list option" where
  "wordsAt buf i n =
     (if i < length buf \<and> i + 2 * n \<le> length buf
      then Some (map (\<lambda>k. get_u16 (drop (i + 2 * k) buf)) [0..<n]) else None)"

definition utf16CharSize :: u32 where
  "utf16CharSize = 2"

definition extractSourceName :: "(u16 list \<Rightarrow> string) \<Rightarrow> bytes \<Rightarrow> u32 \<Rightarrow> u32 \<Rightarrow> string option" where
  "extractSourceName utf16 buf recordOffset recLen =
     (let start = recordOffset + word_of_nat recSize;
          end0 = recordOffset + recLen;
          end1 = (if length buf < unat end0 then word_of_nat (length buf) else end0)
      in if end1 < start + utf16CharSize then Some []
         else map_option utf16 (wordsAt buf (unat start) (unat ((end1 - start) div utf16CharSize))))"

text \<open>The loop that cuts the words at each NUL, at most \<open>n\<close> times.\<close>

fun splitStrings :: "nat \<Rightarrow> u16 list \<Rightarrow> u16 list list" where
  "splitStrings 0 ws = []"
| "splitStrings (Suc n) [] = []"
| "splitStrings (Suc n) (w # ws) =
     takeWhile (\<lambda>x. x \<noteq> 0) (w # ws) # splitStrings n (drop 1 (dropWhile (\<lambda>x. x \<noteq> 0) (w # ws)))"

definition extractInsertionStrings :: "(u16 list \<Rightarrow> string) \<Rightarrow> bytes \<Rightarrow> u32 \<Rightarrow> eventLogRecord \<Rightarrow> string list option" where
  "extractInsertionStrings utf16 buf recordOffset rec =
     (if NumStrings rec = 0 \<or> StringOffset rec = 0 then Some []
      else let strStart = recordOffset + StringOffset rec;
               strEnd0 = recordOffset + Length rec;
               strEnd = (if length buf < unat strEnd0 then word_of_nat (length buf) else strEnd0)
           in if strEnd < strStart + utf16CharSize then Some []
              else map_option (\<lambda>words. map utf16 (splitStrings (unat (NumStrings rec)) words))
                     (wordsAt buf (unat strStart) (unat ((strEnd - strStart) div utf16CharSize))))"

section \<open>State\<close>

record eventKey =
  eventType :: u16
  eventID :: u32
  source :: string
  faultingApplication :: string

record logReadState =
  handle :: u64
  nextRecordNumber :: u32
  counts :: "(eventKey, f64) gomap"

record Collector =
  filt :: eventIDFilter
  logState :: "(string, logReadState) gomap"
  explorerCrashTotal :: f64
  appHangTotal :: f64
  displayResetTotal :: f64
  unexpectedShutdownTotal :: f64
  kernelPowerCrashTotal :: f64
  appCrashCounts :: "(string, f64) gomap"

definition eventlogError :: u16 where "eventlogError = 1"
definition eventIDApplicationError :: u32 where "eventIDApplicationError = 1000"
definition eventIDApplicationHang :: u32 where "eventIDApplicationHang = 1002"
definition eventIDKernelPowerCrash :: u32 where "eventIDKernelPowerCrash = 41"
definition eventIDDisplayTDR :: u32 where "eventIDDisplayTDR = 4101"
definition eventIDUnexpectedShutdown :: u32 where "eventIDUnexpectedShutdown = 6008"

lemmas event_ids = eventIDApplicationError_def eventIDApplicationHang_def eventIDKernelPowerCrash_def
  eventIDDisplayTDR_def eventIDUnexpectedShutdown_def

text \<open>
  \<open>strings.EqualFold(s, "Explorer.EXE")\<close>. No letter of that name has a case folding outside
  ASCII, so the comparison is the one on ASCII letters.
\<close>

definition lower_ascii :: "char \<Rightarrow> char" where
  "lower_ascii c = (let n = of_char c :: nat in if 65 \<le> n \<and> n \<le> 90 then char_of (n + 32) else c)"

definition isExplorer :: "string \<Rightarrow> bool" where
  "isExplorer s \<longleftrightarrow> map lower_ascii s = ''explorer.exe''"

section \<open>Operations on one record\<close>

definition updateDerivedCounters ::
  "(u16 list \<Rightarrow> string) \<Rightarrow> bytes \<Rightarrow> u32 \<Rightarrow> u32 \<Rightarrow> eventLogRecord \<Rightarrow> Collector \<Rightarrow> Collector option" where
  "updateDerivedCounters utf16 buf offset evID rec c =
     (if evID = eventIDKernelPowerCrash then Some (c\<lparr>kernelPowerCrashTotal := f64_inc (kernelPowerCrashTotal c)\<rparr>)
      else if evID = eventIDApplicationError then
        (case extractInsertionStrings utf16 buf offset rec of
           None \<Rightarrow> None
         | Some [] \<Rightarrow> Some c
         | Some (s # _) \<Rightarrow>
             (let appName = sanitizeFaultingApplication s in
              if appName = [] then Some c
              else let c1 = c\<lparr>appCrashCounts := map_inc f64_inc (F_Fin 0) appName (appCrashCounts c)\<rparr>
                   in Some (if isExplorer appName then c1\<lparr>explorerCrashTotal := f64_inc (explorerCrashTotal c1)\<rparr> else c1)))
      else if evID = eventIDApplicationHang then Some (c\<lparr>appHangTotal := f64_inc (appHangTotal c)\<rparr>)
      else if evID = eventIDDisplayTDR then Some (c\<lparr>displayResetTotal := f64_inc (displayResetTotal c)\<rparr>)
      else if evID = eventIDUnexpectedShutdown then Some (c\<lparr>unexpectedShutdownTotal := f64_inc (unexpectedShutdownTotal c)\<rparr>)
      else Some c)"

text \<open>The faulting application of a record: set for event 1000 only.\<close>

definition faultingApplicationOf :: "(u16 list \<Rightarrow> string) \<Rightarrow> bytes \<Rightarrow> u32 \<Rightarrow> u32 \<Rightarrow> eventLogRecord \<Rightarrow> string option" where
  "faultingApplicationOf utf16 buf offset evID rec =
     (if evID = eventIDApplicationError then
        (case extractInsertionStrings utf16 buf offset rec of
           None \<Rightarrow> None
         | Some [] \<Rightarrow> Some []
         | Some (s # _) \<Rightarrow> Some (sanitizeFaultingApplication s))
      else Some [])"

text \<open>
  The body of the inner loop of \<open>collectLog\<close> after the record was found: everything up to the
  advance of \<open>offset\<close>.
\<close>

definition eventIDOf :: "eventLogRecord \<Rightarrow> u32" where
  "eventIDOf rec = and (EventID rec) 0xFFFF"

definition countRecord ::
  "(u16 list \<Rightarrow> string) \<Rightarrow> bytes \<Rightarrow> u32 \<Rightarrow> eventLogRecord \<Rightarrow> Collector \<Rightarrow> logReadState \<Rightarrow> logReadState option" where
  "countRecord utf16 buf offset rec c st =
     (let evID = eventIDOf rec in
      if contains (filt c) evID \<and> EventType rec = eventlogError then
        (case extractSourceName utf16 buf offset (Length rec) of
           None \<Rightarrow> None
         | Some src \<Rightarrow>
             (case faultingApplicationOf utf16 buf offset evID rec of
                None \<Rightarrow> None
              | Some app \<Rightarrow>
                  Some (st\<lparr>counts := map_inc f64_inc (F_Fin 0)
                     \<lparr>eventType = EventType rec, eventID = evID, source = src, faultingApplication = app\<rparr>
                     (counts st)\<rparr>)))
      else Some st)"

definition processRecord ::
  "(u16 list \<Rightarrow> string) \<Rightarrow> bytes \<Rightarrow> u32 \<Rightarrow> eventLogRecord \<Rightarrow> Collector \<times> logReadState \<Rightarrow> (Collector \<times> logReadState) option" where
  "processRecord utf16 buf offset rec cst =
     (case updateDerivedCounters utf16 buf offset (eventIDOf rec) rec (fst cst) of
        None \<Rightarrow> None
      | Some c' \<Rightarrow>
          (case countRecord utf16 buf offset rec c' (snd cst) of
             None \<Rightarrow> None
           | Some st' \<Rightarrow> Some (c', st'\<lparr>nextRecordNumber := RecordNumber rec + 1\<rparr>)))"

section \<open>The loops of collectLog\<close>

text \<open>The inner loop over the records in the buffer. Its fuel counts iterations.\<close>

fun readRecords ::
  "nat \<Rightarrow> (u16 list \<Rightarrow> string) \<Rightarrow> bytes \<Rightarrow> u32 \<Rightarrow> u32 \<Rightarrow> Collector \<times> logReadState \<Rightarrow> (Collector \<times> logReadState) exec" where
  "readRecords 0 utf16 buf bytesRead offset cst = StillRunning"
| "readRecords (Suc fuel) utf16 buf bytesRead offset cst =
     (if \<not> offset < bytesRead then Returns cst
      else if bytesRead < offset + word_of_nat recSize then Returns cst
      else (case read_struct recSize decodeRecord buf (unat offset) of
              None \<Rightarrow> Panics
            | Some rec \<Rightarrow>
                if Length rec = 0 then Returns cst
                else (case processRecord utf16 buf offset rec cst of
                        None \<Rightarrow> Panics
                      | Some cst' \<Rightarrow> readRecords fuel utf16 buf bytesRead (offset + Length rec) cst')))"

datatype read_result = ReadOK bytes | ReadFail u32 u32

record 'w advapi =
  OpenEventLogW :: "string \<Rightarrow> 'w \<Rightarrow> (u32 + u64) \<times> 'w"
  CloseEventLog :: "u64 \<Rightarrow> 'w \<Rightarrow> u32 option \<times> 'w"
  GetNumberOfEventLogRecords :: "u64 \<Rightarrow> 'w \<Rightarrow> (u32 + u32) \<times> 'w"
  GetOldestEventLogRecord :: "u64 \<Rightarrow> 'w \<Rightarrow> (u32 + u32) \<times> 'w"
  ReadEventLogW :: "u64 \<Rightarrow> u32 \<Rightarrow> u32 \<Rightarrow> nat \<Rightarrow> 'w \<Rightarrow> read_result \<times> 'w"

definition openEventLog :: "'w advapi \<Rightarrow> string \<Rightarrow> 'w \<Rightarrow> (go_error + u64) \<times> 'w" where
  "openEventLog api logName w =
     (if CHR 0x00 \<in> set logName then (Inl (Wrapf ''convert log name: %w'' [] (Sentinel ''syscall.EINVAL'')), w)
      else case OpenEventLogW api logName w of
             (Inl e, w') \<Rightarrow> (Inl (Wrapf ''OpenEventLogW: %w'' [] (Errno e)), w')
           | (Inr h, w') \<Rightarrow> (Inr h, w'))"

definition closeEventLog :: "'w advapi \<Rightarrow> u64 \<Rightarrow> 'w \<Rightarrow> go_error option \<times> 'w" where
  "closeEventLog api h w =
     (case CloseEventLog api h w of
        (None, w') \<Rightarrow> (None, w')
      | (Some e, w') \<Rightarrow> (Some (Wrapf ''CloseEventLog: %w'' [] (Errno e)), w'))"

definition getNumberOfEventLogRecords :: "'w advapi \<Rightarrow> u64 \<Rightarrow> 'w \<Rightarrow> (go_error + u32) \<times> 'w" where
  "getNumberOfEventLogRecords api h w =
     (case GetNumberOfEventLogRecords api h w of
        (Inl e, w') \<Rightarrow> (Inl (Wrapf ''GetNumberOfEventLogRecords: %w'' [] (Errno e)), w')
      | (Inr n, w') \<Rightarrow> (Inr n, w'))"

definition getOldestEventLogRecord :: "'w advapi \<Rightarrow> u64 \<Rightarrow> 'w \<Rightarrow> (go_error + u32) \<times> 'w" where
  "getOldestEventLogRecord api h w =
     (case GetOldestEventLogRecord api h w of
        (Inl e, w') \<Rightarrow> (Inl (Wrapf ''GetOldestEventLogRecord: %w'' [] (Errno e)), w')
      | (Inr n, w') \<Rightarrow> (Inr n, w'))"

text \<open>
  \<open>readEventLog\<close> fills the front of the buffer; the rest of it keeps its bytes. The result is
  the number of bytes read or the error with the size that the call asks for.
\<close>

definition readEventLog :: "'w advapi \<Rightarrow> u64 \<Rightarrow> u32 \<Rightarrow> u32 \<Rightarrow> bytes \<Rightarrow> 'w \<Rightarrow> ((u32 \<times> u32) + u32) \<times> bytes \<times> 'w" where
  "readEventLog api h readFlags recordOffset buf w =
     (case ReadEventLogW api h readFlags recordOffset (length buf) w of
        (ReadFail e minNeeded, w') \<Rightarrow> (Inl (e, minNeeded), buf, w')
      | (ReadOK bs, w') \<Rightarrow> (Inr (word_of_nat (length bs)), bs @ drop (length bs) buf, w'))"

definition ERROR_HANDLE_EOF :: u32 where "ERROR_HANDLE_EOF = 38"
definition ERROR_INSUFFICIENT_BUFFER :: u32 where "ERROR_INSUFFICIENT_BUFFER = 122"
definition ERROR_EVENTLOG_FILE_CHANGED :: u32 where "ERROR_EVENTLOG_FILE_CHANGED = 1503"

definition initialReadBufferSize :: nat where
  "initialReadBufferSize = 64 * 1024"

definition reopenLog :: "'w advapi \<Rightarrow> string \<Rightarrow> logReadState \<Rightarrow> 'w \<Rightarrow> go_error option \<times> logReadState \<times> 'w" where
  "reopenLog api logName st w =
     (let w1 = snd (closeEventLog api (handle st) w);
          st1 = st\<lparr>handle := 0\<rparr>
      in case openEventLog api logName w1 of
           (Inl e, w2) \<Rightarrow> (Some (Wrapf ''reopen event log %q: %w'' [logName] e), st1, w2)
         | (Inr h, w2) \<Rightarrow>
             (case getOldestEventLogRecord api h w2 of
                (Inl e, w3) \<Rightarrow>
                  (Some (Wrapf ''get oldest event log record for %q after reopen: %w'' [logName] e), st1,
                   snd (closeEventLog api h w3))
              | (Inr oldest, w3) \<Rightarrow> (None, st1\<lparr>handle := h, nextRecordNumber := oldest\<rparr>, w3)))"

text \<open>
  The outer loop: \<open>fuel\<close> counts calls of \<open>readEventLog\<close>, \<open>ifuel\<close> bounds the iterations of the
  inner loop for one buffer.
\<close>

definition readFlags :: u32 where
  "readFlags = or 0x0001 0x0004"

fun collectLogLoop ::
  "nat \<Rightarrow> nat \<Rightarrow> 'w advapi \<Rightarrow> (u16 list \<Rightarrow> string) \<Rightarrow> string \<Rightarrow> bytes \<Rightarrow> Collector \<times> logReadState \<Rightarrow> 'w \<Rightarrow>
     (go_error option \<times> (Collector \<times> logReadState) \<times> 'w) exec" where
  "collectLogLoop 0 ifuel api utf16 logName buf cst w = StillRunning"
| "collectLogLoop (Suc fuel) ifuel api utf16 logName buf cst w =
     (case readEventLog api (handle (snd cst)) readFlags (nextRecordNumber (snd cst)) buf w of
        (Inl (e, minNeeded), _, w') \<Rightarrow>
          (if e = ERROR_HANDLE_EOF then Returns (None, cst, w')
           else if e = ERROR_INSUFFICIENT_BUFFER then
             collectLogLoop fuel ifuel api utf16 logName
               (replicate (if 0 < minNeeded then unat minNeeded else length buf * 2) 0) cst w'
           else if e = ERROR_EVENTLOG_FILE_CHANGED then
             (case reopenLog api logName (snd cst) w' of
                (err, st', w2) \<Rightarrow> Returns (err, (fst cst, st'), w2))
           else Returns (Some (Wrapf ''ReadEventLog: %w'' [] (Errno e)), cst, w'))
      | (Inr bytesRead, buf', w') \<Rightarrow>
          (case readRecords ifuel utf16 buf' bytesRead 0 cst of
             Returns cst' \<Rightarrow> collectLogLoop fuel ifuel api utf16 logName buf' cst' w'
           | Panics \<Rightarrow> Panics
           | StillRunning \<Rightarrow> StillRunning))"

definition collectLog ::
  "nat \<Rightarrow> nat \<Rightarrow> 'w advapi \<Rightarrow> (u16 list \<Rightarrow> string) \<Rightarrow> string \<Rightarrow> Collector \<times> logReadState \<Rightarrow> 'w \<Rightarrow>
     (go_error option \<times> (Collector \<times> logReadState) \<times> 'w) exec" where
  "collectLog fuel ifuel api utf16 logName cst w =
     collectLogLoop fuel ifuel api utf16 logName (replicate initialReadBufferSize 0) cst w"

section \<open>Build and Close\<close>

definition emptyCollector :: Collector where
  "emptyCollector =
     \<lparr>filt = \<lparr>ids = {}, ranges = []\<rparr>, logState = [], explorerCrashTotal = F_Fin 0, appHangTotal = F_Fin 0,
      displayResetTotal = F_Fin 0, unexpectedShutdownTotal = F_Fin 0, kernelPowerCrashTotal = F_Fin 0,
      appCrashCounts = []\<rparr>"

text \<open>The loop of \<open>Build\<close> over the configured log names; it stops at the first error.\<close>

fun buildLogs :: "'w advapi \<Rightarrow> string list \<Rightarrow> (string, logReadState) gomap \<Rightarrow> 'w \<Rightarrow>
    go_error option \<times> (string, logReadState) gomap \<times> 'w" where
  "buildLogs api [] m w = (None, m, w)"
| "buildLogs api (logName # names) m w =
     (case openEventLog api logName w of
        (Inl e, w1) \<Rightarrow> (Some (Wrapf ''open event log %q: %w'' [logName] e), m, w1)
      | (Inr h, w1) \<Rightarrow>
          (case getNumberOfEventLogRecords api h w1 of
             (Inl e, w2) \<Rightarrow>
               (Some (Wrapf ''get number of event log records for %q: %w'' [logName] e), m, snd (closeEventLog api h w2))
           | (Inr numRecords, w2) \<Rightarrow>
               (if numRecords = 0 then
                  buildLogs api names (map_set logName \<lparr>handle = h, nextRecordNumber = 1, counts = []\<rparr> m) w2
                else
                  (case getOldestEventLogRecord api h w2 of
                     (Inl e, w3) \<Rightarrow>
                       (Some (Wrapf ''get oldest event log record for %q: %w'' [logName] e), m, snd (closeEventLog api h w3))
                   | (Inr oldest, w3) \<Rightarrow>
                       buildLogs api names
                         (map_set logName \<lparr>handle = h, nextRecordNumber = oldest + numRecords, counts = []\<rparr> m) w3))))"

definition Build :: "'w advapi \<Rightarrow> string list \<Rightarrow> string list \<Rightarrow> Collector \<Rightarrow> 'w \<Rightarrow> go_error option \<times> Collector \<times> 'w" where
  "Build api logNames eventIDs c w =
     (case newEventIDFilter eventIDs of
        Inl e \<Rightarrow> (Some (Wrapf ''parse event ID filter: %w'' [] e), c, w)
      | Inr f \<Rightarrow>
          (case buildLogs api logNames [] w of
             (err, m, w') \<Rightarrow> (err, c\<lparr>filt := f, appCrashCounts := [], logState := m\<rparr>, w')))"

fun closeLogs :: "'w advapi \<Rightarrow> (string, logReadState) gomap \<Rightarrow> 'w \<Rightarrow> 'w" where
  "closeLogs api [] w = w"
| "closeLogs api ((logName, st) # m) w = closeLogs api m (snd (closeEventLog api (handle st) w))"

definition Close :: "'w advapi \<Rightarrow> Collector \<Rightarrow> 'w \<Rightarrow> go_error option \<times> 'w" where
  "Close api c w = (None, closeLogs api (logState c) w)"

section \<open>Descriptors and emission\<close>

abbreviation winDesc :: "string \<Rightarrow> string \<Rightarrow> string list \<Rightarrow> Desc" where
  "winDesc name h ls \<equiv> NewDesc (BuildFQName Namespace [] name) h ls"

definition eventTotal :: Desc where
  "eventTotal = NewDesc (BuildFQName Namespace ''eventlog'' ''event_total'')
     ''Total number of Windows Event Log events since the exporter started''
     [''channel'', ''level'', ''event_id'', ''source'', ''faulting_application'']"

definition explorerCrashCount :: Desc where
  "explorerCrashCount = winDesc ''explorer_crash_count''
     ''Total explorer.exe crash events (Application log Event 1000, faulting_application=Explorer.EXE) since the exporter started.'' []"

definition appHangCount :: Desc where
  "appHangCount = winDesc ''application_hang_count''
     ''Total application-hang events (Application log Event 1002) since the exporter started.'' []"

definition displayResetCount :: Desc where
  "displayResetCount = winDesc ''display_reset_count''
     ''Total display driver TDR recovery events (System log Event 4101) since the exporter started.'' []"

definition unexpectedShutdownCount :: Desc where
  "unexpectedShutdownCount = winDesc ''unexpected_shutdown_count''
     ''Total unexpected-shutdown events (System log Event 6008) since the exporter started.'' []"

definition kernelPowerCrashCount :: Desc where
  "kernelPowerCrashCount = winDesc ''kernel_power_crash_count''
     ''Total kernel-power crash events (System log Event 41, e.g. BSOD or hard power loss) since the exporter started.'' []"

definition appCrashTotal :: Desc where
  "appCrashTotal = winDesc ''app_crash_total''
     ''Total application crash events (Application log Event 1000) grouped by faulting application name since the exporter started.''
     [''application'']"

text \<open>The boot metrics: descriptor, field of the event, in the order they are emitted.\<close>

definition bootDescs :: "(Desc \<times> string) list" where
  "bootDescs =
     [(winDesc ''boot_time_ms''
        ''Total boot duration in milliseconds from Microsoft-Windows-Diagnostics-Performance/Operational Event 100, field BootTime.'' [],
       ''BootTime''),
      (winDesc ''mainpath_boot_time_ms''
        ''Main boot path duration in milliseconds from Microsoft-Windows-Diagnostics-Performance/Operational Event 100, field MainPathBootTime.'' [],
       ''MainPathBootTime''),
      (winDesc ''post_boot_time_ms''
        ''Post-boot duration in milliseconds from Microsoft-Windows-Diagnostics-Performance/Operational Event 100, field BootPostBootTime.'' [],
       ''BootPostBootTime''),
      (winDesc ''boot_startup_apps''
        ''Number of startup applications recorded during boot from Microsoft-Windows-Diagnostics-Performance/Operational Event 100, field BootNumStartupApps.'' [],
       ''BootNumStartupApps''),
      (winDesc ''boot_driver_init_time_ms''
        ''Driver initialization duration in milliseconds from Microsoft-Windows-Diagnostics-Performance/Operational Event 100, field BootDriverInitTime.'' [],
       ''BootDriverInitTime''),
      (winDesc ''boot_user_profile_time_ms''
        ''User profile processing duration in milliseconds from Microsoft-Windows-Diagnostics-Performance/Operational Event 100, field BootUserProfileProcessingTime.'' [],
       ''BootUserProfileProcessingTime'')]"

definition eventLevelNames :: "(u16, string) gomap" where
  "eventLevelNames =
     [(0x0000, ''success''), (0x0001, ''error''), (0x0002, ''warning''), (0x0004, ''information''),
      (0x0008, ''audit_success''), (0x0010, ''audit_failure'')]"

definition levelName :: "u16 \<Rightarrow> string" where
  "levelName t = (case map_get eventLevelNames t of None \<Rightarrow> ''unknown'' | Some n \<Rightarrow> n)"

definition emitCounts :: "string \<Rightarrow> logReadState \<Rightarrow> metric list" where
  "emitCounts logName st =
     map (\<lambda>(key, count). ConstMetric eventTotal CounterValue count
            [logName, levelName (eventType key), show_nat (unat (eventID key)), source key, faultingApplication key])
         (counts st)"

definition emitDerivedCounters :: "Collector \<Rightarrow> metric list" where
  "emitDerivedCounters c =
     [ConstMetric explorerCrashCount CounterValue (explorerCrashTotal c) [],
      ConstMetric appHangCount CounterValue (appHangTotal c) [],
      ConstMetric displayResetCount CounterValue (displayResetTotal c) [],
      ConstMetric unexpectedShutdownCount CounterValue (unexpectedShutdownTotal c) [],
      ConstMetric kernelPowerCrashCount CounterValue (kernelPowerCrashTotal c) []] @
     map (\<lambda>(appName, count). ConstMetric appCrashTotal CounterValue count [appName]) (appCrashCounts c)"

text \<open>
  \<open>parseBootPerformanceValues\<close>, with \<open>strconv.ParseFloat(_, 64)\<close> as a parameter: the value of one
  field, absent when the event has no such field or its text is not a number.
\<close>

definition parseBootField :: "(string \<Rightarrow> f64 option) \<Rightarrow> (string, string) gomap \<Rightarrow> string \<Rightarrow> f64 option" where
  "parseBootField parseFloat flds name =
     (case map_get flds name of None \<Rightarrow> None | Some raw \<Rightarrow> parseFloat (TrimSpace raw))"

text \<open>
  \<open>collectBootPerformanceMetrics\<close>; \<open>query\<close> is the result of \<open>wevtapi.QueryLatestEventData\<close>.
\<close>

definition collectBootPerformanceMetrics :: "(string \<Rightarrow> f64 option) \<Rightarrow> go_error + (string, string) gomap \<Rightarrow> metric list" where
  "collectBootPerformanceMetrics parseFloat query =
     (case query of
        Inl e \<Rightarrow> []
      | Inr flds \<Rightarrow>
          concat (map (\<lambda>(d, name). case parseBootField parseFloat flds name of
                                     None \<Rightarrow> []
                                   | Some v \<Rightarrow> [ConstMetric d GaugeValue v []]) bootDescs))"

text \<open>
  \<open>Collect\<close>: every log is read and its counts are emitted, whether the reading failed or not.
\<close>

fun collectLogs ::
  "nat \<Rightarrow> nat \<Rightarrow> 'w advapi \<Rightarrow> (u16 list \<Rightarrow> string) \<Rightarrow> (string, logReadState) gomap \<Rightarrow> Collector \<Rightarrow> 'w \<Rightarrow>
     ((string, logReadState) gomap \<times> Collector \<times> 'w \<times> metric list) exec" where
  "collectLogs fuel ifuel api utf16 [] c w = Returns ([], c, w, [])"
| "collectLogs fuel ifuel api utf16 ((logName, st) # m) c w =
     (case collectLog fuel ifuel api utf16 logName (c, st) w of
        Returns (err, (c1, st1), w1) \<Rightarrow>
          (case collectLogs fuel ifuel api utf16 m c1 w1 of
             Returns (m', c2, w2, ms) \<Rightarrow> Returns ((logName, st1) # m', c2, w2, emitCounts logName st1 @ ms)
           | Panics \<Rightarrow> Panics
           | StillRunning \<Rightarrow> StillRunning)
      | Panics \<Rightarrow> Panics
      | StillRunning \<Rightarrow> StillRunning)"

definition Collect ::
  "nat \<Rightarrow> nat \<Rightarrow> 'w advapi \<Rightarrow> (u16 list \<Rightarrow> string) \<Rightarrow> (string \<Rightarrow> f64 option) \<Rightarrow> go_error + (string, string) gomap \<Rightarrow>
     Collector \<Rightarrow> 'w \<Rightarrow> (go_error option \<times> Collector \<times> 'w \<times> metric list) exec" where
  "Collect fuel ifuel api utf16 parseFloat query c w =
     (case collectLogs fuel ifuel api utf16 (logState c) c w of
        Returns (m, c1, w1, ms) \<Rightarrow>
          Returns (None, c1\<lparr>logState := m\<rparr>, w1,
                   ms @ emitDerivedCounters c1 @ collectBootPerformanceMetrics parseFloat query)
      | Panics \<Rightarrow> Panics
      | StillRunning \<Rightarrow> StillRunning)"

end
