(* ===== verification/Eventlog_Records.thy ===== *)
theory Eventlog_Records
  imports Eventlog
begin

text \<open>
  Reading event records: a buffer that holds the bytes of well-formed records is processed as
  the list of these records, each one on its own bytes, and the counters then hold the number
  of records of each kind. The loops end on such buffers; on a buffer whose length fields wrap
  around they need not.
\<close>

named_theorems record_offset \<open>offsets inside one record\<close>

section \<open>Records in a buffer\<close>

lemma length_encodeRecord [simp]: "length (encodeRecord r) = recSize"
  by (simp add: encodeRecord_def recSize_def)

lemma decode_encodeRecord: "decodeRecord (encodeRecord r) = r"
  by (simp add: decodeRecord_def encodeRecord_def)

interpretation event_record: binary_struct recSize encodeRecord decodeRecord
  by unfold_locales (simp_all add: decode_encodeRecord)

text \<open>A record with the bytes that follow its header.\<close>

type_synonym event = "eventLogRecord \<times> bytes"

definition event_bytes :: "event \<Rightarrow> bytes" where
  "event_bytes e = encodeRecord (fst e) @ snd e"

definition wf_event :: "event \<Rightarrow> bool" where
  "wf_event e \<longleftrightarrow> unat (Length (fst e)) = length (event_bytes e) \<and>
     unat (StringOffset (fst e)) \<le> unat (Length (fst e))"

lemma length_event_bytes: "length (event_bytes e) = recSize + length (snd e)"
  by (simp add: event_bytes_def)

lemma get_u16_append: "2 \<le> length bs \<Longrightarrow> get_u16 (bs @ cs) = get_u16 bs"
  by (simp add: get_u16_def)

lemma wordsAt_local:
  assumes "i < length mid" and "i + 2 * n \<le> length mid"
  shows "wordsAt (pre @ mid @ post) (length pre + i) n = wordsAt mid i n"
proof -
  have "get_u16 (drop (length pre + i + 2 * k) (pre @ mid @ post)) = get_u16 (drop (i + 2 * k) mid)" if "k < n" for k
  proof -
    have "drop (length pre + i + 2 * k) (pre @ mid @ post) = drop (i + 2 * k) mid @ post"
      using assms that by simp
    then show ?thesis using assms that by (simp add: get_u16_append)
  qed
  then show ?thesis using assms by (simp add: wordsAt_def)
qed

text \<open>
  The range of 16-bit words from \<open>s\<close> bytes after the record's start to the record's end, in the
  whole buffer and in the record alone: \<open>extractSourceName\<close> reads it for \<open>s = 56\<close>, and
  \<open>extractInsertionStrings\<close> for the record's string offset.
\<close>

definition wordRange :: "bytes \<Rightarrow> u32 \<Rightarrow> u32 \<Rightarrow> u32 \<Rightarrow> u16 list option option" where
  "wordRange buf off s len =
     (let start = off + s; end0 = off + len;
          end1 = (if length buf < unat end0 then word_of_nat (length buf) else end0)
      in if end1 < start + utf16CharSize then None
         else Some (wordsAt buf (unat start) (unat ((end1 - start) div utf16CharSize))))"

lemma extractSourceName_wordRange:
  "extractSourceName utf16 buf off len =
     (case wordRange buf off (word_of_nat recSize) len of None \<Rightarrow> Some [] | Some ws \<Rightarrow> map_option utf16 ws)"
  by (simp add: extractSourceName_def wordRange_def Let_def)

lemma extractInsertionStrings_wordRange:
  "extractInsertionStrings utf16 buf off rec =
     (if NumStrings rec = 0 \<or> StringOffset rec = 0 then Some []
      else case wordRange buf off (StringOffset rec) (Length rec) of
             None \<Rightarrow> Some []
           | Some ws \<Rightarrow> map_option (\<lambda>words. map utf16 (splitStrings (unat (NumStrings rec)) words)) ws)"
  by (simp add: extractInsertionStrings_def wordRange_def Let_def)

lemma wordRange_inside:
  assumes "length buf + 2 < 2 ^ 32" and "unat off + unat len \<le> length buf" and "unat s \<le> unat len"
  shows "wordRange buf off s len =
    (if unat len < unat s + 2 then None
     else Some (wordsAt buf (unat off + unat s) ((unat len - unat s) div 2)))"
proof -
  have us: "unat (off + s) = unat off + unat s" and ue: "unat (off + len) = unat off + unat len"
    using assms by (auto intro: unat_u32_add)
  have two: "unat utf16CharSize = 2" by (simp add: utf16CharSize_def)
  have us2: "unat (off + s + utf16CharSize) = unat off + unat s + 2"
    using assms us two by (subst unat_u32_add) auto
  have lt: "off + len < off + s + utf16CharSize \<longleftrightarrow> unat len < unat s + 2"
    using us2 ue by (simp add: word_less_nat_alt)
  have "s \<le> len" using assms(3) by (simp add: word_le_nat_alt)
  then have "unat (len - s) = unat len - unat s" by (rule unat_u32_diff)
  moreover have "off + len - (off + s) = len - s" by simp
  ultimately have "unat ((off + len - (off + s)) div utf16CharSize) = (unat len - unat s) div 2"
    using two by (simp add: unat_div)
  then show ?thesis
    using lt us ue assms(2) by (simp add: wordRange_def Let_def)
qed

lemma wordRange_local:
  assumes "length (pre @ rb @ post) + 2 < 2 ^ 32" and "unat len = length rb" and "unat s \<le> unat len"
  shows "wordRange (pre @ rb @ post) (word_of_nat (length pre)) s len = wordRange rb 0 s len"
proof -
  have off: "unat (word_of_nat (length pre) :: u32) = length pre"
    using assms(1) by (intro unat_u32_of_nat) simp
  have 1: "wordRange (pre @ rb @ post) (word_of_nat (length pre)) s len =
      (if unat len < unat s + 2 then None
       else Some (wordsAt (pre @ rb @ post) (length pre + unat s) ((unat len - unat s) div 2)))"
    using assms off by (subst wordRange_inside) auto
  have 2: "wordRange rb 0 s len =
      (if unat len < unat s + 2 then None
       else Some (wordsAt rb (unat s) ((unat len - unat s) div 2)))"
    using assms by (subst wordRange_inside) auto
  show ?thesis
  proof (cases "unat len < unat s + 2")
    case True
    then show ?thesis by (simp only: 1 2 if_True)
  next
    case False
    then have "wordsAt (pre @ rb @ post) (length pre + unat s) ((unat len - unat s) div 2)
        = wordsAt rb (unat s) ((unat len - unat s) div 2)"
      using assms(2) by (intro wordsAt_local) auto
    with False show ?thesis by (simp only: 1 2 if_False)
  qed
qed

lemma wordRange_no_panic:
  assumes "length rb + 2 < 2 ^ 32" and "unat len = length rb" and "unat s \<le> unat len"
  shows "wordRange rb 0 s len \<noteq> Some None"
  using assms by (subst wordRange_inside) (auto simp: wordsAt_def)

text \<open>So what is read for a record depends on the record's own bytes only.\<close>

lemma extract_local:
  assumes "length (pre @ event_bytes e @ post) + 2 < 2 ^ 32" and "wf_event e"
  defines "off \<equiv> word_of_nat (length pre) :: u32"
  shows "extractSourceName utf16 (pre @ event_bytes e @ post) off (Length (fst e)) =
           extractSourceName utf16 (event_bytes e) 0 (Length (fst e))"
    and "extractInsertionStrings utf16 (pre @ event_bytes e @ post) off (fst e) =
           extractInsertionStrings utf16 (event_bytes e) 0 (fst e)"
proof -
  have len: "unat (Length (fst e)) = length (event_bytes e)"
    and str: "unat (StringOffset (fst e)) \<le> unat (Length (fst e))"
    using assms(2) by (auto simp: wf_event_def)
  have hdr: "unat (word_of_nat recSize :: u32) \<le> unat (Length (fst e))"
    using len by (simp add: length_event_bytes recSize_def)
  show "extractSourceName utf16 (pre @ event_bytes e @ post) off (Length (fst e)) =
      extractSourceName utf16 (event_bytes e) 0 (Length (fst e))"
    unfolding extractSourceName_wordRange off_def wordRange_local [OF assms(1) len hdr] ..
  show "extractInsertionStrings utf16 (pre @ event_bytes e @ post) off (fst e) =
      extractInsertionStrings utf16 (event_bytes e) 0 (fst e)"
    unfolding extractInsertionStrings_wordRange off_def wordRange_local [OF assms(1) len str] ..
qed

lemma extract_no_panic:
  assumes "length (event_bytes e) + 2 < 2 ^ 32" and "wf_event e"
  shows "\<exists>s. extractSourceName utf16 (event_bytes e) 0 (Length (fst e)) = Some s"
    and "\<exists>ss. extractInsertionStrings utf16 (event_bytes e) 0 (fst e) = Some ss"
proof -
  have len: "unat (Length (fst e)) = length (event_bytes e)"
    and str: "unat (StringOffset (fst e)) \<le> unat (Length (fst e))"
    using assms(2) by (auto simp: wf_event_def)
  have hdr: "unat (word_of_nat recSize :: u32) \<le> unat (Length (fst e))"
    using len by (simp add: length_event_bytes recSize_def)
  show "\<exists>s. extractSourceName utf16 (event_bytes e) 0 (Length (fst e)) = Some s"
    using wordRange_no_panic [OF assms(1) len hdr]
    by (auto simp: extractSourceName_wordRange split: option.splits)
  show "\<exists>ss. extractInsertionStrings utf16 (event_bytes e) 0 (fst e) = Some ss"
    using wordRange_no_panic [OF assms(1) len str]
    by (auto simp: extractInsertionStrings_wordRange split: option.splits)
qed

section \<open>The inner loop\<close>

text \<open>What one record does to the collector and to the state of its log.\<close>

definition processEvent :: "(u16 list \<Rightarrow> string) \<Rightarrow> event \<Rightarrow> Collector \<times> logReadState \<Rightarrow> Collector \<times> logReadState" where
  "processEvent utf16 e cst =
     (case processRecord utf16 (event_bytes e) 0 (fst e) cst of None \<Rightarrow> cst | Some cst' \<Rightarrow> cst')"

lemma processRecord_event:
  assumes "length (pre @ event_bytes e @ post) + 2 < 2 ^ 32" and "wf_event e"
  shows "processRecord utf16 (pre @ event_bytes e @ post) (word_of_nat (length pre)) (fst e) cst
           = Some (processEvent utf16 e cst)"
proof -
  note loc = extract_local [OF assms]
  have eq: "processRecord utf16 (pre @ event_bytes e @ post) (word_of_nat (length pre)) (fst e) cst
      = processRecord utf16 (event_bytes e) 0 (fst e) cst"
    by (simp only: processRecord_def updateDerivedCounters_def countRecord_def faultingApplicationOf_def loc)
  have small: "length (event_bytes e) + 2 < 2 ^ 32" using assms(1) by simp
  obtain s ss where "extractSourceName utf16 (event_bytes e) 0 (Length (fst e)) = Some s"
    and "extractInsertionStrings utf16 (event_bytes e) 0 (fst e) = Some ss"
    using extract_no_panic [OF small assms(2)] by blast
  then have "\<exists>cst'. processRecord utf16 (event_bytes e) 0 (fst e) cst = Some cst'"
    by (auto simp: processRecord_def updateDerivedCounters_def countRecord_def faultingApplicationOf_def
        Let_def split: option.split list.split)
  then show ?thesis using eq by (auto simp: processEvent_def)
qed

lemma readRecords_events:
  assumes "length (pre @ concat (map event_bytes es) @ post) + 2 < 2 ^ 32" and "\<forall>e\<in>set es. wf_event e"
    and "length es < fuel" and "bytesRead = word_of_nat (length (pre @ concat (map event_bytes es)))"
  shows "readRecords fuel utf16 (pre @ concat (map event_bytes es) @ post) bytesRead (word_of_nat (length pre)) cst
           = Returns (fold (processEvent utf16) es cst)"
  using assms
proof (induction es arbitrary: pre fuel cst)
  case Nil
  then show ?case by (cases fuel) auto
next
  case (Cons e es)
  then obtain fuel' where fuel: "fuel = Suc fuel'" by (cases fuel) auto
  let ?rest = "concat (map event_bytes es) @ post"
  let ?buf = "pre @ event_bytes e @ ?rest"
  have wf: "wf_event e" and tot: "length ?buf + 2 < 2 ^ 32" using Cons.prems by auto
  have len: "unat (Length (fst e)) = length (event_bytes e)" using wf by (simp add: wf_event_def)
  have upre: "unat (word_of_nat (length pre) :: u32) = length pre"
    using tot by (intro unat_u32_of_nat) simp
  let ?n = "length (pre @ concat (map event_bytes (e # es)))"
  have ubr: "unat bytesRead = length pre + length (event_bytes e) + length (concat (map event_bytes es))"
  proof -
    have "unat bytesRead = ?n"
      unfolding Cons.prems(4) using Cons.prems(1) by (intro unat_u32_of_nat) simp
    then show ?thesis by simp
  qed
  have lb: "recSize \<le> length (event_bytes e)" by (simp add: length_event_bytes)
  have urec: "unat (word_of_nat (length pre) + word_of_nat recSize :: u32) = length pre + recSize"
    using tot lb upre by (subst unat_u32_add) (auto simp: recSize_def)
  have guards: "word_of_nat (length pre) < bytesRead" "\<not> bytesRead < word_of_nat (length pre) + word_of_nat recSize"
    using upre ubr urec lb by (auto simp: word_less_nat_alt recSize_def)
  have read: "read_struct recSize decodeRecord ?buf (unat (word_of_nat (length pre) :: u32)) = Some (fst e)"
    using event_record.read_enc [of pre "length pre" "fst e" "snd e @ ?rest"]
    by (simp add: upre event_bytes_def)
  have nz: "Length (fst e) \<noteq> 0" using len lb by (auto simp: recSize_def)
  have step: "word_of_nat (length pre) + Length (fst e) = (word_of_nat (length (pre @ event_bytes e)) :: u32)"
    using len by (simp flip: len)
  have "readRecords fuel utf16 ?buf bytesRead (word_of_nat (length pre)) cst
      = readRecords fuel' utf16 ?buf bytesRead (word_of_nat (length (pre @ event_bytes e))) (processEvent utf16 e cst)"
    using guards read nz processRecord_event [OF tot wf] step by (simp add: fuel)
  also have "\<dots> = Returns (fold (processEvent utf16) es (processEvent utf16 e cst))"
    using Cons.IH [of "pre @ event_bytes e" fuel' "processEvent utf16 e cst"] Cons.prems fuel by simp
  finally show ?case by simp
qed

section \<open>The outer loop\<close>

text \<open>
  The answers of a log to the reads of its handle: a buffer of records, or the size of the
  buffer that the next record needs (0 when the call does not say). \<open>answers\<close> says that the
  system gives these answers, one after the other, to the buffers that the loop then offers,
  and then the end of the file, when each read asks for the record right behind the last one
  that was delivered. A call never writes more than the buffer's size.
\<close>

datatype answer = Records "event list" | NeedBuffer u32

definition nextAfter :: "u32 \<Rightarrow> event list \<Rightarrow> u32" where
  "nextAfter n es = (if es = [] then n else RecordNumber (fst (last es)) + 1)"

lemma nextAfter_simps [simp]: "nextAfter n [] = n" "nextAfter n (e # es) = nextAfter (RecordNumber (fst e) + 1) es"
  by (simp_all add: nextAfter_def)

lemma nextAfter_append [simp]: "nextAfter n (es @ fs) = nextAfter (nextAfter n es) fs"
  by (simp add: nextAfter_def)

fun answers :: "'w advapi \<Rightarrow> u64 \<Rightarrow> u32 \<Rightarrow> answer list \<Rightarrow> nat \<Rightarrow> 'w \<Rightarrow> 'w \<Rightarrow> bool" where
  "answers api h n [] bl w w' \<longleftrightarrow>
     (\<exists>m. ReadEventLogW api h readFlags n bl w = (ReadFail ERROR_HANDLE_EOF m, w'))"
| "answers api h n (Records es # as) bl w w' \<longleftrightarrow>
     length (concat (map event_bytes es)) \<le> bl \<and> bl + 2 < 2 ^ 32 \<and>
     (\<exists>w1. ReadEventLogW api h readFlags n bl w = (ReadOK (concat (map event_bytes es)), w1)
        \<and> answers api h (nextAfter n es) as bl w1 w')"
| "answers api h n (NeedBuffer k # as) bl w w' \<longleftrightarrow>
     (\<exists>w1. ReadEventLogW api h readFlags n bl w = (ReadFail ERROR_INSUFFICIENT_BUFFER k, w1)
        \<and> answers api h n as (if 0 < k then unat k else bl * 2) w1 w')"

fun answer_events :: "answer \<Rightarrow> event list" where
  "answer_events (Records es) = es"
| "answer_events (NeedBuffer k) = []"

abbreviation log_events :: "answer list \<Rightarrow> event list" where
  "log_events as \<equiv> concat (map answer_events as)"

lemma processEvent_handle [simp]: "handle (snd (processEvent utf16 e cst)) = handle (snd cst)"
  by (auto simp: processEvent_def processRecord_def countRecord_def Let_def split: option.splits if_splits)

lemma processEvents_handle [simp]: "handle (snd (fold (processEvent utf16) es cst)) = handle (snd cst)"
  by (induction es arbitrary: cst) auto

lemma events_small:
  "length (concat (map event_bytes es)) + 2 < 2 ^ 32 \<Longrightarrow> list_all (\<lambda>e. length (event_bytes e) + 2 < 2 ^ 32) es"
  by (induction es) auto

lemma processEvent_next:
  assumes "length (event_bytes e) + 2 < 2 ^ 32" and "wf_event e"
  shows "nextRecordNumber (snd (processEvent utf16 e cst)) = RecordNumber (fst e) + 1"
  using processRecord_event [of "[]" e "[]" utf16 cst] assms
  by (auto simp: processRecord_def split: option.splits) (drule sym, simp)

lemma processEvents_next:
  assumes "list_all (\<lambda>e. wf_event e \<and> length (event_bytes e) + 2 < 2 ^ 32) es"
  shows "nextRecordNumber (snd (fold (processEvent utf16) es cst)) = nextAfter (nextRecordNumber (snd cst)) es"
  using assms by (induction es arbitrary: cst) (simp_all add: processEvent_next)

lemma collectLogLoop_answers:
  assumes "answers api (handle (snd cst)) (nextRecordNumber (snd cst)) as (length buf) w w'"
    and "list_all wf_event (log_events as)"
    and "length as < fuel" and "length (log_events as) < ifuel"
  shows "collectLogLoop fuel ifuel api utf16 logName buf cst w
           = Returns (None, fold (processEvent utf16) (log_events as) cst, w')"
  using assms
proof (induction as arbitrary: fuel buf cst w)
  case Nil
  then obtain fuel' where "fuel = Suc fuel'" by (cases fuel) auto
  moreover obtain m where "ReadEventLogW api (handle (snd cst)) readFlags (nextRecordNumber (snd cst)) (length buf) w
      = (ReadFail ERROR_HANDLE_EOF m, w')"
    using Nil.prems(1) by force
  ultimately show ?case by (simp add: readEventLog_def)
next
  case (Cons a as)
  then obtain fuel' where fuel: "fuel = Suc fuel'" by (cases fuel) auto
  show ?case
  proof (cases a)
    case (Records es)
    let ?bs = "concat (map event_bytes es)"
    obtain w1 where read: "ReadEventLogW api (handle (snd cst)) readFlags (nextRecordNumber (snd cst)) (length buf) w = (ReadOK ?bs, w1)"
      and rest: "answers api (handle (snd cst)) (nextAfter (nextRecordNumber (snd cst)) es) as (length buf) w1 w'"
      and len: "length ?bs \<le> length buf" "length buf + 2 < 2 ^ 32"
      using Cons.prems(1) Records by auto
    let ?buf = "?bs @ drop (length ?bs) buf"
    have inner: "readRecords ifuel utf16 ?buf (word_of_nat (length ?bs)) 0 cst
        = Returns (fold (processEvent utf16) es cst)"
      using readRecords_events [of "[]" es "drop (length ?bs) buf" ifuel _ utf16 cst, OF _ _ _ refl] Cons.prems(2,4) Records len
      by (simp add: list_all_iff)
    have "length ?buf = length buf" using len by simp
    moreover have "nextRecordNumber (snd (fold (processEvent utf16) es cst)) = nextAfter (nextRecordNumber (snd cst)) es"
      using events_small [of es] len Cons.prems(2) Records by (intro processEvents_next) (simp add: list_all_iff)
    ultimately have "collectLogLoop fuel' ifuel api utf16 logName ?buf (fold (processEvent utf16) es cst) w1
        = Returns (None, fold (processEvent utf16) (log_events as) (fold (processEvent utf16) es cst), w')"
      using Cons.prems Records rest fuel by (intro Cons.IH) auto
    then show ?thesis
      using fuel read inner by (simp add: readEventLog_def Records del: map_concat)
  next
    case (NeedBuffer k)
    obtain w1 where read: "ReadEventLogW api (handle (snd cst)) readFlags (nextRecordNumber (snd cst)) (length buf) w
        = (ReadFail ERROR_INSUFFICIENT_BUFFER k, w1)"
      and rest: "answers api (handle (snd cst)) (nextRecordNumber (snd cst)) as (if 0 < k then unat k else length buf * 2) w1 w'"
      using Cons.prems(1) NeedBuffer by auto
    let ?buf = "replicate (if 0 < k then unat k else length buf * 2) 0"
    have "collectLogLoop fuel' ifuel api utf16 logName ?buf cst w1
        = Returns (None, fold (processEvent utf16) (log_events as) cst, w')"
      using Cons.prems NeedBuffer rest fuel by (intro Cons.IH) auto
    then show ?thesis
      using fuel read by (simp add: readEventLog_def NeedBuffer ERROR_HANDLE_EOF_def ERROR_INSUFFICIENT_BUFFER_def)
  qed
qed

section \<open>What the counters hold\<close>

text \<open>What the collector reads of one event, and the key it is counted under.\<close>

definition eventApp :: "(u16 list \<Rightarrow> string) \<Rightarrow> event \<Rightarrow> string" where
  "eventApp utf16 e =
     (case extractInsertionStrings utf16 (event_bytes e) 0 (fst e) of
        Some (s # _) \<Rightarrow> sanitizeFaultingApplication s
      | _ \<Rightarrow> [])"

definition eventSource :: "(u16 list \<Rightarrow> string) \<Rightarrow> event \<Rightarrow> string" where
  "eventSource utf16 e =
     (case extractSourceName utf16 (event_bytes e) 0 (Length (fst e)) of Some s \<Rightarrow> s | None \<Rightarrow> [])"

definition selected :: "eventIDFilter \<Rightarrow> event \<Rightarrow> bool" where
  "selected f e \<longleftrightarrow> contains f (eventIDOf (fst e)) \<and> EventType (fst e) = eventlogError"

definition keyOf :: "(u16 list \<Rightarrow> string) \<Rightarrow> event \<Rightarrow> eventKey" where
  "keyOf utf16 e =
     \<lparr>eventType = EventType (fst e), eventID = eventIDOf (fst e), source = eventSource utf16 e,
      faultingApplication = (if eventIDOf (fst e) = eventIDApplicationError then eventApp utf16 e else [])\<rparr>"

definition isCrashOf :: "(u16 list \<Rightarrow> string) \<Rightarrow> string \<Rightarrow> event \<Rightarrow> bool" where
  "isCrashOf utf16 app e \<longleftrightarrow>
     eventIDOf (fst e) = eventIDApplicationError \<and> app \<noteq> [] \<and> eventApp utf16 e = app"

definition hasID :: "u32 \<Rightarrow> event \<Rightarrow> bool" where
  "hasID i e \<longleftrightarrow> eventIDOf (fst e) = i"

definition isExplorerCrash :: "(u16 list \<Rightarrow> string) \<Rightarrow> event \<Rightarrow> bool" where
  "isExplorerCrash utf16 e \<longleftrightarrow> hasID eventIDApplicationError e \<and> isExplorer (eventApp utf16 e)"

text \<open>
  The abstract state: the events seen in all the logs (\<open>seen\<close>) and in this one (\<open>own\<close>). The
  counters represent it when each of them is the number of the events it is meant to count.
\<close>

definition howMany :: "('a \<Rightarrow> bool) \<Rightarrow> 'a list \<Rightarrow> f64" where
  "howMany P xs = f64_nat (length (filter P xs))"

definition derived_represent :: "(u16 list \<Rightarrow> string) \<Rightarrow> event list \<Rightarrow> Collector \<Rightarrow> bool" where
  "derived_represent utf16 seen c \<longleftrightarrow>
     explorerCrashTotal c = howMany (isExplorerCrash utf16) seen \<and>
     appHangTotal c = howMany (hasID eventIDApplicationHang) seen \<and>
     displayResetTotal c = howMany (hasID eventIDDisplayTDR) seen \<and>
     unexpectedShutdownTotal c = howMany (hasID eventIDUnexpectedShutdown) seen \<and>
     kernelPowerCrashTotal c = howMany (hasID eventIDKernelPowerCrash) seen \<and>
     (\<forall>app. map_get0 (F_Fin 0) (appCrashCounts c) app = howMany (isCrashOf utf16 app) seen)"

definition counts_represent :: "(u16 list \<Rightarrow> string) \<Rightarrow> eventIDFilter \<Rightarrow> event list \<Rightarrow> logReadState \<Rightarrow> bool" where
  "counts_represent utf16 f own st \<longleftrightarrow>
     (\<forall>k. map_get0 (F_Fin 0) (counts st) k = howMany (\<lambda>e. selected f e \<and> keyOf utf16 e = k) own)"

lemma howMany_snoc: "length xs < 2 ^ 53 \<Longrightarrow>
    howMany P (xs @ [x]) = (if P x then f64_inc (howMany P xs) else howMany P xs)"
  using f64_inc_nat [of "length (filter P xs)"] length_filter_le [of P xs] by (simp add: howMany_def)

lemma map_get0_inc: "map_get0 z (map_inc inc z k m) k' = (if k' = k then inc (map_get0 z m k) else map_get0 z m k')"
  by (simp add: map_inc_def map_get0_def)

text \<open>One event: the detailed code implements the addition of the event to what was seen.\<close>

lemma processEvent_updates:
  assumes "length (event_bytes e) + 2 < 2 ^ 32" and "wf_event e"
  shows "\<exists>c'. updateDerivedCounters utf16 (event_bytes e) 0 (eventIDOf (fst e)) (fst e) (fst cst) = Some c' \<and>
       fst (processEvent utf16 e cst) = c' \<and>
       counts (snd (processEvent utf16 e cst)) =
         (if selected (filt c') e then map_inc f64_inc (F_Fin 0) (keyOf utf16 e) (counts (snd cst)) else counts (snd cst))"
proof -
  obtain s ss where "extractSourceName utf16 (event_bytes e) 0 (Length (fst e)) = Some s"
    and "extractInsertionStrings utf16 (event_bytes e) 0 (fst e) = Some ss"
    using extract_no_panic [OF assms] by blast
  note read = this
  have "updateDerivedCounters utf16 (event_bytes e) 0 (eventIDOf (fst e)) (fst e) (fst cst) \<noteq> None"
    using read(2) by (cases ss) (simp_all add: updateDerivedCounters_def Let_def)
  then obtain c' where upd: "updateDerivedCounters utf16 (event_bytes e) 0 (eventIDOf (fst e)) (fst e) (fst cst) = Some c'"
    by blast
  have app: "faultingApplicationOf utf16 (event_bytes e) 0 (eventIDOf (fst e)) (fst e)
      = Some (faultingApplication (keyOf utf16 e))"
    using read(2) by (simp add: faultingApplicationOf_def keyOf_def eventApp_def split: list.split)
  have "countRecord utf16 (event_bytes e) 0 (fst e) c' (snd cst) =
      Some (if selected (filt c') e then (snd cst)\<lparr>counts := map_inc f64_inc (F_Fin 0) (keyOf utf16 e) (counts (snd cst))\<rparr>
            else snd cst)"
    using read(1) app by (simp add: countRecord_def selected_def keyOf_def eventSource_def Let_def)
  then show ?thesis using upd by (simp add: processEvent_def processRecord_def)
qed

lemma derived_represent_snoc:
  assumes "derived_represent utf16 seen c" and "length seen < 2 ^ 53"
    and "updateDerivedCounters utf16 (event_bytes e) 0 (eventIDOf (fst e)) (fst e) c = Some c'"
  shows "derived_represent utf16 (seen @ [e]) c' \<and> filt c' = filt c"
proof -
  have empty: "\<not> isExplorer []" by (simp add: isExplorer_def)
  show ?thesis
  proof (cases "eventIDOf (fst e) = eventIDApplicationError")
    case True
    then obtain ss where ss: "extractInsertionStrings utf16 (event_bytes e) 0 (fst e) = Some ss"
      using assms(3) by (auto simp: updateDerivedCounters_def event_ids split: option.splits)
    show ?thesis
      using assms True ss empty
      by (cases ss; cases "eventApp utf16 e = []")
         (auto simp: updateDerivedCounters_def derived_represent_def howMany_snoc isCrashOf_def
            isExplorerCrash_def hasID_def eventApp_def map_get0_inc Let_def event_ids)
  next
    case False
    then show ?thesis
      using assms by (auto simp: updateDerivedCounters_def derived_represent_def howMany_snoc isCrashOf_def
          isExplorerCrash_def hasID_def event_ids split: if_splits)
  qed
qed

lemma processEvents_represent:
  assumes "derived_represent utf16 seen (fst cst)" and "counts_represent utf16 f own (snd cst)" and "filt (fst cst) = f"
    and "length seen + length es \<le> 2 ^ 53" and "length own + length es \<le> 2 ^ 53"
    and "list_all (\<lambda>e. wf_event e \<and> length (event_bytes e) + 2 < 2 ^ 32) es"
  shows "derived_represent utf16 (seen @ es) (fst (fold (processEvent utf16) es cst)) \<and>
         counts_represent utf16 f (own @ es) (snd (fold (processEvent utf16) es cst)) \<and>
         filt (fst (fold (processEvent utf16) es cst)) = f"
  using assms
proof (induction es arbitrary: seen own cst)
  case Nil
  then show ?case by simp
next
  case (Cons e es)
  have small: "length (event_bytes e) + 2 < 2 ^ 32" "wf_event e" using Cons.prems by auto
  obtain c' where upd: "updateDerivedCounters utf16 (event_bytes e) 0 (eventIDOf (fst e)) (fst e) (fst cst) = Some c'"
    and fst': "fst (processEvent utf16 e cst) = c'"
    and cnt: "counts (snd (processEvent utf16 e cst)) =
         (if selected (filt c') e then map_inc f64_inc (F_Fin 0) (keyOf utf16 e) (counts (snd cst)) else counts (snd cst))"
    using processEvent_updates [OF small] by blast
  have der: "derived_represent utf16 (seen @ [e]) c'" and flt: "filt c' = f"
    using derived_represent_snoc [OF Cons.prems(1) _ upd] Cons.prems(3,4) by auto
  have "counts_represent utf16 f (own @ [e]) (snd (processEvent utf16 e cst))"
    using Cons.prems(2,5) cnt flt by (auto simp: counts_represent_def howMany_snoc map_get0_inc)
  then show ?case
    using Cons.IH [of "seen @ [e]" "processEvent utf16 e cst" "own @ [e]"] der flt fst' Cons.prems(4-6) by simp
qed

lemma answers_small:
  assumes "answers api h n as bl w w'"
  shows "list_all (\<lambda>e. length (event_bytes e) + 2 < 2 ^ 32) (log_events as)"
  using assms
proof (induction as arbitrary: n bl w)
  case Nil
  then show ?case by simp
next
  case (Cons a as)
  show ?case
  proof (cases a)
    case (Records es)
    then have "list_all (\<lambda>e. length (event_bytes e) + 2 < 2 ^ 32) es"
      using Cons.prems by (intro events_small) auto
    with Records Cons show ?thesis by auto
  next
    case (NeedBuffer k)
    with Cons show ?thesis by auto
  qed
qed

lemma collectLog_represents:
  assumes "answers api (handle st) (nextRecordNumber st) as initialReadBufferSize w w'" and "list_all wf_event (log_events as)"
    and "length as < fuel" and "length (log_events as) < ifuel"
    and "derived_represent utf16 seen c" and "counts_represent utf16 (filt c) own st"
    and "length seen + length (log_events as) \<le> 2 ^ 53" and "length own + length (log_events as) \<le> 2 ^ 53"
  shows "\<exists>c' st'. collectLog fuel ifuel api utf16 logName (c, st) w = Returns (None, (c', st'), w') \<and>
           derived_represent utf16 (seen @ log_events as) c' \<and> filt c' = filt c \<and>
           counts_represent utf16 (filt c) (own @ log_events as) st' \<and>
           nextRecordNumber st' = nextAfter (nextRecordNumber st) (log_events as)"
proof -
  let ?r = "fold (processEvent utf16) (log_events as) (c, st)"
  have "collectLog fuel ifuel api utf16 logName (c, st) w = Returns (None, ?r, w')"
    unfolding collectLog_def using assms(1-4) by (intro collectLogLoop_answers) auto
  moreover have small: "list_all (\<lambda>e. wf_event e \<and> length (event_bytes e) + 2 < 2 ^ 32) (log_events as)"
    using answers_small [OF assms(1)] assms(2) by (simp add: list_all_iff)
  moreover have "nextRecordNumber (snd ?r) = nextAfter (nextRecordNumber st) (log_events as)"
    using processEvents_next [OF small, of utf16 "(c, st)"] by simp
  moreover have "derived_represent utf16 (seen @ log_events as) (fst ?r) \<and>
      counts_represent utf16 (filt c) (own @ log_events as) (snd ?r) \<and> filt (fst ?r) = filt c"
    using assms small by (intro processEvents_represent) auto
  ultimately show ?thesis by (intro exI [of _ "fst ?r"] exI [of _ "snd ?r"]) simp
qed

text \<open>All the logs of the collector, read one after the other.\<close>

fun logs_answer :: "'w advapi \<Rightarrow> (string, logReadState) gomap \<Rightarrow> answer list list \<Rightarrow> 'w \<Rightarrow> 'w \<Rightarrow> bool" where
  "logs_answer api [] [] w w' \<longleftrightarrow> w' = w"
| "logs_answer api ((n, st) # m) (as # ass) w w' \<longleftrightarrow>
     (\<exists>w1. answers api (handle st) (nextRecordNumber st) as initialReadBufferSize w w1 \<and> logs_answer api m ass w1 w')"
| "logs_answer api _ _ w w' \<longleftrightarrow> False"

definition cursors :: "(string, logReadState) gomap \<Rightarrow> u32 list" where
  "cursors m = map (\<lambda>(n, st). nextRecordNumber st) m"

definition all_events :: "answer list list \<Rightarrow> event list" where
  "all_events ass = concat (map log_events ass)"

lemma all_events_simps [simp]: "all_events [] = []" "all_events (as # ass) = log_events as @ all_events ass"
  by (simp_all add: all_events_def)

definition logs_represent :: "(u16 list \<Rightarrow> string) \<Rightarrow> eventIDFilter \<Rightarrow> event list list \<Rightarrow> (string, logReadState) gomap \<Rightarrow> bool" where
  "logs_represent utf16 f owns m \<longleftrightarrow> list_all2 (\<lambda>own (n, st). counts_represent utf16 f own st) owns m"

definition emitLogs :: "(string, logReadState) gomap \<Rightarrow> metric list" where
  "emitLogs m = concat (map (\<lambda>(n, st). emitCounts n st) m)"

lemma collectLogs_represents:
  assumes "logs_answer api m ass w w'" and "list_all wf_event (all_events ass)"
    and "list_all (\<lambda>as. length as < fuel) ass" and "length (all_events ass) < ifuel"
    and "derived_represent utf16 seen c" and "logs_represent utf16 (filt c) owns m"
    and "length seen + length (all_events ass) \<le> 2 ^ 53"
    and "list_all (\<lambda>own. length own + length (all_events ass) \<le> 2 ^ 53) owns"
  shows "\<exists>m' c'. collectLogs fuel ifuel api utf16 m c w = Returns (m', c', w', emitLogs m') \<and>
           map_keys m' = map_keys m \<and> derived_represent utf16 (seen @ all_events ass) c' \<and> filt c' = filt c \<and>
           logs_represent utf16 (filt c) (map2 (\<lambda>own as. own @ log_events as) owns ass) m' \<and>
           cursors m' = map2 nextAfter (cursors m) (map log_events ass)"
  using assms
proof (induction api m ass w w' arbitrary: seen c owns rule: logs_answer.induct)
  case (1 api w w')
  then show ?case by (simp add: logs_represent_def emitLogs_def cursors_def)
next
  case (2 api n st m as ass w w')
  obtain w1 where ans: "answers api (handle st) (nextRecordNumber st) as initialReadBufferSize w w1" and rest: "logs_answer api m ass w1 w'"
    using "2.prems"(1) by auto
  obtain own owns' where owns: "owns = own # owns'" and own: "counts_represent utf16 (filt c) own st"
    and owns': "logs_represent utf16 (filt c) owns' m"
    using "2.prems"(6) by (auto simp: logs_represent_def list_all2_Cons2)
  have "\<exists>c1 st1. collectLog fuel ifuel api utf16 n (c, st) w = Returns (None, (c1, st1), w1) \<and>
      derived_represent utf16 (seen @ log_events as) c1 \<and> filt c1 = filt c \<and>
      counts_represent utf16 (filt c) (own @ log_events as) st1 \<and>
      nextRecordNumber st1 = nextAfter (nextRecordNumber st) (log_events as)"
    using "2.prems" owns own ans by (intro collectLog_represents) auto
  then obtain c1 st1 where one: "collectLog fuel ifuel api utf16 n (c, st) w = Returns (None, (c1, st1), w1)"
    "derived_represent utf16 (seen @ log_events as) c1" "filt c1 = filt c"
    "counts_represent utf16 (filt c) (own @ log_events as) st1"
    "nextRecordNumber st1 = nextAfter (nextRecordNumber st) (log_events as)"
    by blast
  have "\<exists>m' c'. collectLogs fuel ifuel api utf16 m c1 w1 = Returns (m', c', w', emitLogs m') \<and>
      map_keys m' = map_keys m \<and> derived_represent utf16 ((seen @ log_events as) @ all_events ass) c' \<and> filt c' = filt c1 \<and>
      logs_represent utf16 (filt c1) (map2 (\<lambda>own as. own @ log_events as) owns' ass) m' \<and>
      cursors m' = map2 nextAfter (cursors m) (map log_events ass)"
    using "2.prems" owns owns' one rest by (intro "2.IH") (auto simp: list_all_iff)
  then show ?case
    using one owns by (auto simp: logs_represent_def emitLogs_def cursors_def)
qed simp_all


definition sampleEvent :: event where
  "sampleEvent =
     (\<lparr>Length = 56, Reserved = 0, RecordNumber = 1, TimeGenerated = 0, TimeWritten = 0, EventID = 41,
       EventType = 1, NumStrings = 0, EventCategory = 0, ReservedFlags = 0, ClosingRecordNumber = 0,
       StringOffset = 0, UserSidLength = 0, UserSidOffset = 0, DataLength = 0, DataOffset = 0\<rparr>, [])"

definition sampleApi :: "nat advapi" where
  "sampleApi =
     \<lparr>OpenEventLogW = \<lambda>n w. (Inr 7, w), CloseEventLog = \<lambda>h w. (None, w),
      GetNumberOfEventLogRecords = \<lambda>h w. (Inr 1, w), GetOldestEventLogRecord = \<lambda>h w. (Inr 1, w),
      ReadEventLogW = \<lambda>h fl n bl w. if w = 0 then (ReadOK (event_bytes sampleEvent), 1)
                                    else (ReadFail ERROR_HANDLE_EOF 0, 1)\<rparr>"

definition sampleCollector :: Collector where
  "sampleCollector = emptyCollector\<lparr>logState := [(''System'', \<lparr>handle = 7, nextRecordNumber = 1, counts = []\<rparr>)]\<rparr>"

lemma sample_represents [simp]:
  "derived_represent utf16 [] sampleCollector" "logs_represent utf16 f [[]] (logState sampleCollector)"
  by (simp_all add: derived_represent_def sampleCollector_def emptyCollector_def howMany_def map_get0_def
      logs_represent_def counts_represent_def)

lemma wf_sampleEvent [simp]: "wf_event sampleEvent" "length (event_bytes sampleEvent) = 56"
  by (simp_all add: wf_event_def length_event_bytes sampleEvent_def recSize_def)


end
