(* ===== verification/Eventlog_Emission.thy ===== *)
theory Eventlog_Emission
  imports Eventlog_Records
begin

text \<open>
  What the event log collector emits has the labels of its descriptors and no series twice, whatever the system
  calls answer; and what malformed records do to the loops.
\<close>

section \<open>The collector as an emitter\<close>

definition eventlogDescs :: "Desc list" where
  "eventlogDescs = [eventTotal, explorerCrashCount, appHangCount, displayResetCount, unexpectedShutdownCount,
     kernelPowerCrashCount, appCrashTotal] @ map fst bootDescs"

lemmas eventlog_desc_defs = eventTotal_def explorerCrashCount_def appHangCount_def displayResetCount_def
  unexpectedShutdownCount_def kernelPowerCrashCount_def appCrashTotal_def

definition emitAll :: "(string \<Rightarrow> f64 option) \<Rightarrow> Collector \<times> (go_error + (string, string) gomap) \<Rightarrow> metric list" where
  "emitAll parseFloat s =
     emitLogs (logState (fst s)) @ emitDerivedCounters (fst s) @ collectBootPerformanceMetrics parseFloat (snd s)"

text \<open>The maps have no double keys, and only error events were counted.\<close>

definition wf_log :: "logReadState \<Rightarrow> bool" where
  "wf_log st \<longleftrightarrow> wf_map (counts st) \<and> list_all (\<lambda>(k, v). eventType k = eventlogError) (counts st)"

definition wf_Collector :: "Collector \<Rightarrow> bool" where
  "wf_Collector c \<longleftrightarrow> wf_map (logState c) \<and> wf_map (appCrashCounts c) \<and> list_all (\<lambda>(n, st). wf_log st) (logState c)"

lemma emitCounts_distinct: "wf_log st \<Longrightarrow> distinct (map series (emitCounts n st))"
proof -
  assume wf: "wf_log st"
  have "map series (emitCounts n st) = map (\<lambda>(k, v). (fqName eventTotal, variableLabels eventTotal, [],
      [n, levelName (eventType k), show_nat (unat (eventID k)), source k, faultingApplication k])) (counts st)"
    by (simp add: emitCounts_def series_def eventTotal_def split_beta comp_def)
  moreover have "inj_on (\<lambda>(k, v). (fqName eventTotal, variableLabels eventTotal, [] :: (string \<times> string) list,
      [n, levelName (eventType k), show_nat (unat (eventID k)), source k, faultingApplication k])) (set (counts st))"
  proof (rule inj_onI, clarsimp simp del: show_nat.simps)
    fix k1 v1 k2 v2
    assume in12: "(k1, v1) \<in> set (counts st)" "(k2, v2) \<in> set (counts st)"
      and eq: "unat (eventID k1) = unat (eventID k2)" "source k1 = source k2"
        "faultingApplication k1 = faultingApplication k2"
    have "eventType k = eventlogError" if "(k, v) \<in> set (counts st)" for k v
      using wf that by (auto simp: wf_log_def list_all_iff)
    then have "eventType k1 = eventType k2" using in12 by metis
    then have "k1 = k2" using eq by (auto intro: eventKey.equality simp: word_unat_eq_iff)
    moreover have "v1 = v2" using wf in12 \<open>k1 = k2\<close> unfolding wf_log_def by (metis map_get_eq_Some_iff option.inject)
    ultimately show "k1 = k2 \<and> v1 = v2" by simp
  qed
  moreover have "distinct (counts st)"
    using wf by (simp add: wf_log_def wf_map_def distinct_map)
  ultimately show ?thesis by (simp add: distinct_map)
qed

lemma emitLogs_distinct:
  "wf_map m \<Longrightarrow> list_all (\<lambda>(n, st). wf_log st) m \<Longrightarrow> distinct (map series (emitLogs m))"
proof (induction m)
  case Nil
  then show ?case by (simp add: emitLogs_def)
next
  case (Cons p m)
  obtain n st where p: "p = (n, st)" by (cases p)
  have hd: "hd (label_values x) = k" if "x \<in> set (emitCounts k s)" for x k s
    using that by (auto simp: emitCounts_def)
  have "series x \<noteq> series y" if "x \<in> set (emitCounts n st)" and "y \<in> set (emitLogs m)" for x y
  proof
    assume "series x = series y"
    then have "label_values x = label_values y" by (simp add: series_def)
    moreover from that(2) obtain n' st' where "(n', st') \<in> set m" "y \<in> set (emitCounts n' st')"
      by (auto simp: emitLogs_def)
    ultimately have "n \<in> fst ` set m" using hd \<open>x \<in> set (emitCounts n st)\<close> by (metis fst_conv image_eqI)
    then show False using Cons.prems(1) p by (simp add: wf_map_def)
  qed
  then have "series ` set (emitCounts n st) \<inter> series ` set (emitLogs m) = {}" by blast
  then show ?case
    using Cons p emitCounts_distinct by (auto simp: emitLogs_def wf_map_def)
qed

lemma emitDerivedCounters_distinct: "wf_map (appCrashCounts c) \<Longrightarrow> distinct (map series (emitDerivedCounters c))"
proof -
  assume wf: "wf_map (appCrashCounts c)"
  have "map series (map (\<lambda>(a, v). ConstMetric appCrashTotal CounterValue v [a]) (appCrashCounts c))
      = map (\<lambda>a. (fqName appCrashTotal, variableLabels appCrashTotal, [], [a])) (map_keys (appCrashCounts c))"
    by (simp add: series_def appCrashTotal_def split_beta comp_def)
  also have "distinct \<dots>"
    using wf by (simp add: wf_map_def distinct_map inj_on_def)
  finally show ?thesis
    by (auto simp: emitDerivedCounters_def series_def eventlog_desc_defs)
qed

lemma boot_distinct: "distinct (map series (collectBootPerformanceMetrics parseFloat q))"
proof (cases q)
  case (Inr flds)
  have "distinct (map (\<lambda>p. fqName (fst p)) bootDescs)" by (simp add: bootDescs_def)
  then show ?thesis
    unfolding collectBootPerformanceMetrics_def Inr sum.case
    by (rule distinct_series_concat) (auto split: option.splits)
qed (simp add: collectBootPerformanceMetrics_def)

abbreviation derivedNames :: "fqname set" where
  "derivedNames \<equiv> fqName ` {explorerCrashCount, appHangCount, displayResetCount, unexpectedShutdownCount,
     kernelPowerCrashCount, appCrashTotal}"

lemma emitLogs_descs: "m \<in> set (emitLogs l) \<Longrightarrow> metric_desc m = eventTotal"
  by (auto simp: emitLogs_def emitCounts_def)

lemma emitDerived_descs: "m \<in> set (emitDerivedCounters c) \<Longrightarrow> metric_desc m \<in> {explorerCrashCount, appHangCount,
    displayResetCount, unexpectedShutdownCount, kernelPowerCrashCount, appCrashTotal}"
  by (auto simp: emitDerivedCounters_def)

lemma boot_descs: "m \<in> set (collectBootPerformanceMetrics parseFloat q) \<Longrightarrow> metric_desc m \<in> fst ` set bootDescs"
  by (auto simp: collectBootPerformanceMetrics_def image_iff split: sum.splits option.splits) force

lemma boot_arity: "m \<in> set (collectBootPerformanceMetrics parseFloat q) \<Longrightarrow> label_values m = []"
  by (auto simp: collectBootPerformanceMetrics_def split: sum.splits option.splits)

lemma emission_names:
  "(fqName \<circ> metric_desc) ` set (emitLogs m) \<subseteq> {fqName eventTotal}"
  "(fqName \<circ> metric_desc) ` set (emitDerivedCounters c) \<subseteq> derivedNames"
  "(fqName \<circ> metric_desc) ` set (collectBootPerformanceMetrics parseFloat q) \<subseteq> fqName ` fst ` set bootDescs"
  using emitLogs_descs emitDerived_descs boot_descs by (auto simp del: insert_iff image_insert intro!: imageI)

lemma emission_names_disjoint:
  "derivedNames \<inter> fqName ` fst ` set bootDescs = {}" "{fqName eventTotal} \<inter> (derivedNames \<union> fqName ` fst ` set bootDescs) = {}"
  by (simp_all add: eventlog_desc_defs bootDescs_def)

lemma boot_no_labels: "d \<in> fst ` set bootDescs \<Longrightarrow> variableLabels d = []"
  by (auto simp: bootDescs_def)

interpretation eventlog: emitter eventlogDescs "emitAll parseFloat" "\<lambda>s. wf_Collector (fst s)"
proof
  fix m s
  assume m: "m \<in> set (emitAll parseFloat s)"
  then consider "m \<in> set (emitLogs (logState (fst s)))" | "m \<in> set (emitDerivedCounters (fst s))"
    | "m \<in> set (collectBootPerformanceMetrics parseFloat (snd s))"
    by (auto simp: emitAll_def)
  then show "arity_ok m"
    by cases (auto simp: emitLogs_def emitCounts_def emitDerivedCounters_def arity_ok_def eventlog_desc_defs
        boot_arity boot_no_labels [OF boot_descs])
  show "metric_desc m \<in> set eventlogDescs"
    using m emitLogs_descs [of m] emitDerived_descs [of m] boot_descs [of m]
    by (auto simp: emitAll_def eventlogDescs_def)
next
  fix s :: "Collector \<times> (go_error + (string, string) gomap)"
  assume "wf_Collector (fst s)"
  moreover have "(fqName \<circ> metric_desc) ` set (emitDerivedCounters (fst s) @ collectBootPerformanceMetrics parseFloat (snd s))
      \<subseteq> derivedNames \<union> fqName ` fst ` set bootDescs"
    unfolding set_append image_Un by (intro Un_mono emission_names)
  ultimately show "distinct (map series (emitAll parseFloat s))"
    unfolding emitAll_def wf_Collector_def
    by (intro distinct_series_names [OF _ _ emission_names(1) _ emission_names_disjoint(2)]
          distinct_series_names [OF _ _ emission_names(2,3) emission_names_disjoint(1)]
          emitLogs_distinct emitDerivedCounters_distinct boot_distinct) auto
qed

section \<open>The invariant of the maps\<close>

definition wf_state :: "Collector \<times> logReadState \<Rightarrow> bool" where
  "wf_state cst \<longleftrightarrow> wf_map (appCrashCounts (fst cst)) \<and> wf_log (snd cst)"

lemma wf_log_inc:
  assumes "wf_log st" and "eventType k = eventlogError"
  shows "wf_log (st\<lparr>counts := map_inc f64_inc (F_Fin 0) k (counts st)\<rparr>)"
proof -
  have "fst ` set (map_inc f64_inc (F_Fin 0) k (counts st)) = insert k (fst ` set (counts st))"
    by (simp add: map_inc_def)
  moreover have "eventType k' = eventlogError" if "k' \<in> fst ` set (counts st)" for k'
    using assms(1) that unfolding wf_log_def list_all_iff split_beta by auto
  ultimately have "eventType k' = eventlogError" if "k' \<in> fst ` set (map_inc f64_inc (F_Fin 0) k (counts st))" for k'
    using that assms(2) by (simp only: insert_iff) metis
  then have "list_all (\<lambda>(k, v). eventType k = eventlogError) (map_inc f64_inc (F_Fin 0) k (counts st))"
    unfolding list_all_iff split_beta by simp
  then show ?thesis using assms(1) by (simp add: wf_log_def)
qed

lemma wf_processRecord: "wf_state cst \<Longrightarrow> processRecord utf16 buf off rec cst = Some cst' \<Longrightarrow> wf_state cst'"
proof -
  assume wf: "wf_state cst" and step: "processRecord utf16 buf off rec cst = Some cst'"
  obtain c' st' where c': "updateDerivedCounters utf16 buf off (eventIDOf rec) rec (fst cst) = Some c'"
    and st': "countRecord utf16 buf off rec c' (snd cst) = Some st'"
    and cst': "cst' = (c', st'\<lparr>nextRecordNumber := RecordNumber rec + 1\<rparr>)"
    using step by (auto simp: processRecord_def split: option.splits)
  have "wf_map (appCrashCounts c')"
    using c' wf by (auto simp: wf_state_def updateDerivedCounters_def Let_def split: if_splits option.splits list.splits)
  moreover have "wf_log st'"
    using st' wf by (auto simp: wf_state_def countRecord_def Let_def intro: wf_log_inc split: if_splits option.splits)
  ultimately show ?thesis by (simp add: cst' wf_state_def wf_log_def)
qed

lemma wf_readRecords: "readRecords fuel utf16 buf n off cst = Returns cst' \<Longrightarrow> wf_state cst \<Longrightarrow> wf_state cst'"
proof (induction fuel arbitrary: off cst)
  case 0
  then show ?case by simp
next
  case (Suc fuel)
  then show ?case using wf_processRecord by (fastforce split: if_splits option.splits)
qed

lemma wf_reopenLog: "reopenLog api n st w = (err, st', w') \<Longrightarrow> wf_log st \<Longrightarrow> wf_log st'"
  by (auto simp: reopenLog_def wf_log_def Let_def split: prod.splits sum.splits)

lemma wf_collectLogLoop:
  "collectLogLoop fuel ifuel api utf16 n buf cst w = Returns (err, cst', w') \<Longrightarrow> wf_state cst \<Longrightarrow> wf_state cst'"
proof (induction fuel arbitrary: buf cst w)
  case 0
  then show ?case by simp
next
  case (Suc fuel)
  obtain r buf' w1 where read: "readEventLog api (handle (snd cst)) readFlags (nextRecordNumber (snd cst)) buf w = (r, buf', w1)"
    by (cases "readEventLog api (handle (snd cst)) readFlags (nextRecordNumber (snd cst)) buf w")
  show ?case
  proof (cases r)
    case (Inl e)
    then obtain code need where "r = Inl (code, need)" by (cases e) auto
    note r = this
    consider "code = ERROR_HANDLE_EOF" | "code = ERROR_INSUFFICIENT_BUFFER" "code \<noteq> ERROR_HANDLE_EOF"
      | "code = ERROR_EVENTLOG_FILE_CHANGED" "code \<noteq> ERROR_HANDLE_EOF" "code \<noteq> ERROR_INSUFFICIENT_BUFFER"
      | "code \<notin> {ERROR_HANDLE_EOF, ERROR_INSUFFICIENT_BUFFER, ERROR_EVENTLOG_FILE_CHANGED}"
      by blast
    then show ?thesis
    proof cases
      case 2
      then have "collectLogLoop fuel ifuel api utf16 n
          (replicate (if 0 < need then unat need else length buf * 2) 0) cst w1 = Returns (err, cst', w')"
        using Suc.prems(1) read r by simp
      then show ?thesis using Suc.IH Suc.prems(2) by blast
    next
      case 3
      then show ?thesis
        using Suc.prems read r by (auto simp: wf_state_def split: prod.splits dest: wf_reopenLog)
    qed (use Suc.prems read r in auto)
  next
    case (Inr n)
    then show ?thesis using Suc read wf_readRecords by (auto split: exec.splits)
  qed
qed

lemma wf_collectLogs:
  "collectLogs fuel ifuel api utf16 m c w = Returns (m', c', w', ms) \<Longrightarrow>
     wf_map (appCrashCounts c) \<Longrightarrow> list_all (\<lambda>(n, st). wf_log st) m \<Longrightarrow>
     wf_map (appCrashCounts c') \<and> list_all (\<lambda>(n, st). wf_log st) m' \<and> map_keys m' = map_keys m \<and> ms = emitLogs m'"
proof (induction m arbitrary: c w m' c' w' ms)
  case Nil
  then show ?case by (auto simp: emitLogs_def)
next
  case (Cons p m)
  obtain n st where p: "p = (n, st)" by (cases p)
  obtain err c1 st1 w1 m2 ms2 where one: "collectLog fuel ifuel api utf16 n (c, st) w = Returns (err, (c1, st1), w1)"
    and rest: "collectLogs fuel ifuel api utf16 m c1 w1 = Returns (m2, c', w', ms2)"
    and eq: "m' = (n, st1) # m2" "ms = emitCounts n st1 @ ms2"
    using Cons.prems(1) p by (auto split: exec.splits prod.splits)
  have "wf_state (c1, st1)"
    using one Cons.prems(2,3) p by (auto simp: collectLog_def wf_state_def dest!: wf_collectLogLoop)
  then show ?case using Cons.IH [OF rest] Cons.prems(3) p eq by (auto simp: wf_state_def emitLogs_def)
qed

text \<open>Whatever the system calls answer, a scrape that returns keeps the invariant and emits metrics with the right labels, no series twice.\<close>

lemma Collect_emission:
  assumes "wf_Collector c" and "Collect fuel ifuel api utf16 parseFloat query c w = Returns (err, c', w', ms)"
  shows "wf_Collector c' \<and> err = None \<and> list_all arity_ok ms \<and> distinct (map series ms) \<and>
         metric_desc ` set ms \<subseteq> set eventlogDescs"
proof -
  obtain m c1 where logs: "collectLogs fuel ifuel api utf16 (logState c) c w = Returns (m, c1, w', emitLogs m)"
    and eq: "err = None" "c' = c1\<lparr>logState := m\<rparr>"
      "ms = emitLogs m @ emitDerivedCounters c1 @ collectBootPerformanceMetrics parseFloat query"
    and wf: "wf_map (appCrashCounts c1)" "list_all (\<lambda>(n, st). wf_log st) m" "map_keys m = map_keys (logState c)"
    using assms by (auto simp: Collect_def wf_Collector_def split: exec.splits dest!: wf_collectLogs)
  have "wf_Collector c'" using assms(1) wf eq by (simp add: wf_Collector_def wf_map_def)
  moreover have "ms = emitAll parseFloat (c', query)" using eq by (simp add: emitAll_def emitDerivedCounters_def)
  ultimately show ?thesis using eventlog.emission_accepted [of "(c', query)" parseFloat] eq by simp
qed



section \<open>Malformed records\<close>

text \<open>
  Two records of 56 bytes; the second one has the length field \<open>2\<^sup>3\<^sup>2 - 56\<close>, so that the offset
  after it wraps around to 0.
\<close>

definition plainRecord :: "u32 \<Rightarrow> eventLogRecord" where
  "plainRecord len =
     \<lparr>Length = len, Reserved = 0, RecordNumber = 1, TimeGenerated = 0, TimeWritten = 0, EventID = 7,
       EventType = 4, NumStrings = 0, EventCategory = 0, ReservedFlags = 0, ClosingRecordNumber = 0,
       StringOffset = 0, UserSidLength = 0, UserSidOffset = 0, DataLength = 0, DataOffset = 0\<rparr>"

definition wrappingBuffer :: bytes where
  "wrappingBuffer = encodeRecord (plainRecord 56) @ encodeRecord (plainRecord 0xFFFFFFC8)"

lemma processRecord_plain:
  "\<exists>cst'. processRecord utf16 buf off (plainRecord len) cst = Some cst'"
  by (simp add: processRecord_def updateDerivedCounters_def countRecord_def eventIDOf_def plainRecord_def
      event_ids eventlogError_def Let_def)

lemma read_wrappingBuffer:
  "read_struct recSize decodeRecord wrappingBuffer 0 = Some (plainRecord 56)"
  "read_struct recSize decodeRecord wrappingBuffer 56 = Some (plainRecord 0xFFFFFFC8)"
  using event_record.read_enc [of "[]" 0 "plainRecord 56" "encodeRecord (plainRecord 0xFFFFFFC8)"]
    event_record.read_enc [of "encodeRecord (plainRecord 56)" 56 "plainRecord 0xFFFFFFC8" "[]"]
  by (simp_all add: wrappingBuffer_def recSize_def)

text \<open>
  The inner loop of \<open>collectLog\<close> checks only that a record's length is not 0. With the two
  records of the buffer above the offset goes from 0 to 56 and back to 0, and the loop never
  ends, however many iterations it is given.
\<close>

theorem readRecords_may_not_end:
  "readRecords fuel utf16 wrappingBuffer 112 0 cst = StillRunning"
proof -
  have "readRecords fuel utf16 wrappingBuffer 112 0 cst = StillRunning \<and>
        readRecords fuel utf16 wrappingBuffer 112 56 cst = StillRunning"
  proof (induction fuel arbitrary: cst)
    case 0
    then show ?case by simp
  next
    case (Suc fuel)
    obtain c0 c1 where "processRecord utf16 wrappingBuffer 0 (plainRecord 56) cst = Some c0"
      and "processRecord utf16 wrappingBuffer 56 (plainRecord 0xFFFFFFC8) cst = Some c1"
      using processRecord_plain by meson
    moreover have "Length (plainRecord len) = len" for len by (simp add: plainRecord_def)
    moreover have "(word_of_nat recSize :: u32) = 56" by (simp add: recSize_def)
    moreover have wrap: "(4294967296 :: u32) = 0" using word_of_nat_eq_0_iff [of "2 ^ 32", where ?'a = 32] by simp
    ultimately show ?case using Suc by (simp add: read_wrappingBuffer wrap)
  qed
  then show ?thesis by simp
qed

text \<open>
  \<open>extractInsertionStrings\<close> compares \<open>strStart + 2\<close> with the end of the record after the sum
  has wrapped around: with a string offset in the last two values of its type, the check passes
  and the index into the buffer is out of range, which panics.
\<close>

theorem extractInsertionStrings_may_panic:
  assumes "0xFFFFFFFE \<le> StringOffset rec" and "NumStrings rec \<noteq> 0" and "0 < Length rec"
    and "0 < length buf" and "length buf < 0xFFFFFFFE"
  shows "extractInsertionStrings utf16 buf 0 rec = None"
proof -
  have big: "0xFFFFFFFE \<le> unat (StringOffset rec)" using assms(1) by (simp add: word_le_nat_alt)
  have len: "0 < unat (Length rec)" using assms(3) by (simp add: word_less_nat_alt)
  let ?strEnd = "if length buf < unat (Length rec) then word_of_nat (length buf) else Length rec"
  have "0 < unat ?strEnd"
    using len assms(4,5) unat_u32_of_nat [of "length buf"] by auto
  moreover have "unat (StringOffset rec + utf16CharSize) \<le> 1"
    using big unat_u32_less [of "StringOffset rec"] by (simp add: utf16CharSize_def unat_word_ariths mod_if; linarith)
  ultimately have "\<not> ?strEnd < StringOffset rec + utf16CharSize" by (simp only: word_less_nat_alt; linarith)
  moreover have "wordsAt buf (unat (StringOffset rec)) n = None" for n
    using big assms(5) by (simp add: wordsAt_def)
  moreover have "StringOffset rec \<noteq> 0" using big by auto
  ultimately show ?thesis using assms(2) by (simp add: extractInsertionStrings_def Let_def)
qed

theorem extractInsertionStrings_may_panic_witness:
  "extractInsertionStrings (\<lambda>ws. []) (replicate 60 0) 0 ((plainRecord 60)\<lparr>NumStrings := 1, StringOffset := 0xFFFFFFFF\<rparr>) = None"
  by (rule extractInsertionStrings_may_panic) (simp_all add: plainRecord_def)

end
