(* ===== verification/Mi.thy ===== *)
theory Mi
  imports Go_Errors Float64
begin

text \<open>
  Package internal/mi: the client of the Windows Management Infrastructure. The functions of
  mi.dll are the parameter \<open>native\<close>: the function called, its object and arguments, and the state of
  the system give the result code, an output handle and the next state. A pointer to an MI object
  is \<^term>\<open>None\<close> when it is nil or has no function table, which the code treats alike.

  The query results are modelled by what the callback receives: an instance is its element
  count and its elements by name, a destination struct is the list of its fields with the \<open>mi\<close> tag
  and kind of each.
\<close>

section \<open>Result codes\<close>

definition miResultNames :: "string list" where
  "miResultNames =
     [''MI_RESULT_OK'', ''MI_RESULT_FAILED'', ''MI_RESULT_ACCESS_DENIED'', ''MI_RESULT_INVALID_NAMESPACE'',
      ''MI_RESULT_INVALID_PARAMETER'', ''MI_RESULT_INVALID_CLASS'', ''MI_RESULT_NOT_FOUND'', ''MI_RESULT_NOT_SUPPORTED'',
      ''MI_RESULT_CLASS_HAS_CHILDREN'', ''MI_RESULT_CLASS_HAS_INSTANCES'', ''MI_RESULT_INVALID_SUPERCLASS'',
      ''MI_RESULT_ALREADY_EXISTS'', ''MI_RESULT_NO_SUCH_PROPERTY'', ''MI_RESULT_TYPE_MISMATCH'',
      ''MI_RESULT_QUERY_LANGUAGE_NOT_SUPPORTED'', ''MI_RESULT_INVALID_QUERY'', ''MI_RESULT_METHOD_NOT_AVAILABLE'',
      ''MI_RESULT_METHOD_NOT_FOUND'', ''MI_RESULT_NAMESPACE_NOT_EMPTY'', ''MI_RESULT_INVALID_ENUMERATION_CONTEXT'',
      ''MI_RESULT_INVALID_OPERATION_TIMEOUT'', ''MI_RESULT_PULL_HAS_BEEN_ABANDONED'',
      ''MI_RESULT_PULL_CANNOT_BE_ABANDONED'', ''MI_RESULT_FILTERED_ENUMERATION_NOT_SUPPORTED'',
      ''MI_RESULT_CONTINUATION_ON_ERROR_NOT_SUPPORTED'', ''MI_RESULT_SERVER_LIMITS_EXCEEDED'',
      ''MI_RESULT_SERVER_IS_SHUTTING_DOWN'']"

definition ResultError_String :: "u32 \<Rightarrow> string" where
  "ResultError_String r = (if unat r < length miResultNames then miResultNames ! unat r else ''MI_RESULT_UNKNOWN'')"

text \<open>\<open>if result := ResultError(r0); !errors.Is(result, MI_RESULT_OK) { return result }\<close>\<close>

definition resultErr :: "u32 \<Rightarrow> go_error option" where
  "resultErr r = (if errors_is (MiError r) (MiError MI_RESULT_OK) then None else Some (MiError r))"

section \<open>Objects\<close>

datatype mi_fn =
    ApplicationInitialize | ApplicationClose | NewSessionFn | NewOperationOptionsFn | NewDestinationOptionsFn
  | DestinationSetInterval | DestinationSetString | DestinationDelete
  | SessionClose | SessionGetApplication | SessionTestConnection | SessionQueryInstances
  | OperationClose | OperationOptionsSetInterval | OperationOptionsDelete

type_synonym 'w native = "mi_fn \<Rightarrow> u64 list \<Rightarrow> 'w \<Rightarrow> (u32 \<times> u64) \<times> 'w"

type_synonym object = "u64 option"

record Session =
  sessionHandle :: u64
  defaultOperationOptions :: object

text \<open>A method that calls one function of the object's table and returns its result code.\<close>

definition callMethod :: "'w native \<Rightarrow> mi_fn \<Rightarrow> object \<Rightarrow> u64 list \<Rightarrow> 'w \<Rightarrow> go_error option \<times> 'w" where
  "callMethod native f obj args w =
     (case obj of
        None \<Rightarrow> (Some mi_ErrNotInitialized, w)
      | Some h \<Rightarrow> (case native f (h # args) w of ((r, _), w') \<Rightarrow> (resultErr r, w')))"

text \<open>The same with an object as its output.\<close>

definition callNew :: "'w native \<Rightarrow> mi_fn \<Rightarrow> object \<Rightarrow> u64 list \<Rightarrow> 'w \<Rightarrow> (go_error + u64) \<times> 'w" where
  "callNew native f obj args w =
     (case obj of
        None \<Rightarrow> (Inl mi_ErrNotInitialized, w)
      | Some h \<Rightarrow>
          (case native f (h # args) w of
             ((r, out), w') \<Rightarrow> (case resultErr r of Some e \<Rightarrow> (Inl e, w') | None \<Rightarrow> (Inr out, w'))))"

text \<open>
  \<open>Application_Initialize\<close>; the first argument is the thread's last error after the call, which
  the code compares with \<open>windows.NOERROR\<close>.
\<close>

definition Application_Initialize :: "u32 \<Rightarrow> 'w native \<Rightarrow> 'w \<Rightarrow> (go_error + u64) \<times> 'w" where
  "Application_Initialize lastError native w =
     (case native ApplicationInitialize [] w of
        ((r, out), w') \<Rightarrow>
          (if lastError \<noteq> 0 then (Inl (Wrapf ''syscall returned: %w'' [] (Errno lastError)), w')
           else case resultErr r of Some e \<Rightarrow> (Inl e, w') | None \<Rightarrow> (Inr out, w')))"

definition Application_Close :: "'w native \<Rightarrow> object \<Rightarrow> 'w \<Rightarrow> go_error option \<times> 'w" where
  "Application_Close native app w = callMethod native ApplicationClose app [] w"

definition NewOperationOptions :: "'w native \<Rightarrow> object \<Rightarrow> 'w \<Rightarrow> (go_error + u64) \<times> 'w" where
  "NewOperationOptions native app w = callNew native NewOperationOptionsFn app [1] w"

definition NewDestinationOptions :: "'w native \<Rightarrow> object \<Rightarrow> 'w \<Rightarrow> (go_error + u64) \<times> 'w" where
  "NewDestinationOptions native app w = callNew native NewDestinationOptionsFn app [] w"

text \<open>
  \<open>NewInterval\<close>: the duration in nanoseconds as an interval. The conversions \<open>uint32(...)\<close> keep the
  low 32 bits.
\<close>

record Interval =
  Days :: u32
  Hours :: u32
  Minutes :: u32
  Seconds :: u32
  Microseconds :: u32

definition NewInterval :: "int \<Rightarrow> Interval" where
  "NewInterval interval =
     (let us = go_quot interval 1000 in
      \<lparr>Days = word_of_int (go_quot us (24 * 60 * 60 * 1000000)), Hours = word_of_int (go_quot us (60 * 60 * 1000000)),
       Minutes = word_of_int (go_quot us (60 * 1000000)), Seconds = word_of_int (go_quot us 1000000),
       Microseconds = word_of_int (go_rem us 1000000)\<rparr>)"

definition interval_args :: "Interval \<Rightarrow> u64 list" where
  "interval_args i = [ucast (Days i), ucast (Hours i), ucast (Minutes i), ucast (Seconds i), ucast (Microseconds i)]"

definition OperationOptions_SetTimeout :: "'w native \<Rightarrow> int \<Rightarrow> object \<Rightarrow> 'w \<Rightarrow> go_error option \<times> 'w" where
  "OperationOptions_SetTimeout native timeout opts w =
     callMethod native OperationOptionsSetInterval opts (interval_args (NewInterval timeout)) w"

definition OperationOptions_Delete :: "'w native \<Rightarrow> object \<Rightarrow> 'w \<Rightarrow> go_error option \<times> 'w" where
  "OperationOptions_Delete native opts w = callMethod native OperationOptionsDelete opts [] w"

definition DestinationOptions_SetTimeout :: "'w native \<Rightarrow> int \<Rightarrow> object \<Rightarrow> 'w \<Rightarrow> go_error option \<times> 'w" where
  "DestinationOptions_SetTimeout native timeout opts w =
     callMethod native DestinationSetInterval opts (interval_args (NewInterval timeout)) w"

text \<open>\<open>SetLocale\<close>, for a locale without a NUL character; \<open>locale\<close> is the address of its UTF-16 form.\<close>

definition DestinationOptions_SetLocale :: "'w native \<Rightarrow> u64 \<Rightarrow> object \<Rightarrow> 'w \<Rightarrow> go_error option \<times> 'w" where
  "DestinationOptions_SetLocale native loc opts w = callMethod native DestinationSetString opts [loc] w"

definition NewSession :: "'w native \<Rightarrow> object \<Rightarrow> object \<Rightarrow> 'w \<Rightarrow> (go_error + Session) \<times> 'w" where
  "NewSession native app options w =
     (case callNew native NewSessionFn app [case options of None \<Rightarrow> 0 | Some h \<Rightarrow> h] w of
        (Inl e, w1) \<Rightarrow> (Inl e, w1)
      | (Inr s, w1) \<Rightarrow>
          (case NewOperationOptions native app w1 of
             (Inl e, w2) \<Rightarrow> (Inl (Wrapf ''failed to create default operation options: %w'' [] e), w2)
           | (Inr opts, w2) \<Rightarrow>
               (case OperationOptions_SetTimeout native 5000000000 (Some opts) w2 of
                  (Some e, w3) \<Rightarrow> (Inl (Wrapf ''failed to set timeout: %w'' [] e), w3)
                | (None, w3) \<Rightarrow> (Inr \<lparr>sessionHandle = s, defaultOperationOptions = Some opts\<rparr>, w3))))"

definition Session_Close :: "'w native \<Rightarrow> Session option \<Rightarrow> 'w \<Rightarrow> go_error option \<times> 'w" where
  "Session_Close native s w =
     (case s of
        None \<Rightarrow> (Some mi_ErrNotInitialized, w)
      | Some se \<Rightarrow>
          (let w1 = (case defaultOperationOptions se of
                       None \<Rightarrow> w
                     | Some o1 \<Rightarrow> snd (OperationOptions_Delete native (Some o1) w))
           in callMethod native SessionClose (Some (sessionHandle se)) [0, 0] w1))"

definition GetApplication :: "'w native \<Rightarrow> Session option \<Rightarrow> 'w \<Rightarrow> (go_error + u64) \<times> 'w" where
  "GetApplication native s w = callNew native SessionGetApplication (map_option sessionHandle s) [] w"

text \<open>\<open>Close\<close> and \<open>Cancel\<close> of an operation: both call the table's \<open>Close\<close>.\<close>

definition Operation_Close :: "'w native \<Rightarrow> object \<Rightarrow> 'w \<Rightarrow> go_error option \<times> 'w" where
  "Operation_Close native op w = callMethod native OperationClose op [] w"

definition Operation_Cancel :: "'w native \<Rightarrow> object \<Rightarrow> 'w \<Rightarrow> go_error option \<times> 'w" where
  "Operation_Cancel native op w = callMethod native OperationClose op [0] w"

section \<open>Values\<close>

definition ValueTypeBOOLEAN :: int where "ValueTypeBOOLEAN = 0"
definition ValueTypeSTRING :: int where "ValueTypeSTRING = 13"

record Element =
  elemVal :: u64
  elemType :: int

text \<open>The kinds of struct fields, and their values. A field of \<open>n\<close> bits keeps the low \<open>n\<close> bits.\<close>

datatype fkind = KBool | KUint nat | KInt nat | KString | KFloat

datatype fval = VBool bool | VUint nat | VInt int | VString string | VFloat f64

record field =
  miTag :: string
  fkind :: fkind

datatype 'a setting = Set 'a | Keep | Unsupported | ReflectPanic

text \<open>
  The switch over the element's type: \<open>SetBool\<close>, \<open>SetUint\<close>, \<open>SetInt\<close>, \<open>SetString\<close> and \<open>SetFloat\<close> panic
  on a field of another kind. \<open>str\<close> reads the string at an address.
\<close>

definition setField :: "(u64 \<Rightarrow> string) \<Rightarrow> fkind \<Rightarrow> Element \<Rightarrow> fval setting" where
  "setField str k e =
     (if elemType e = 0 then (if k = KBool then Set (VBool (elemVal e = 1)) else ReflectPanic)
      else if elemType e \<in> {1, 3, 5, 7} then
        (case k of KUint n \<Rightarrow> Set (VUint (unat (elemVal e) mod 2 ^ n)) | _ \<Rightarrow> ReflectPanic)
      else if elemType e \<in> {2, 4, 6, 8} then
        (case k of KInt n \<Rightarrow> Set (VInt (signed_take_bit (n - 1) (uint (elemVal e)))) | _ \<Rightarrow> ReflectPanic)
      else if elemType e = 13 then
        (if elemVal e = 0 then Keep
         else if k = KString then Set (VString (str (elemVal e))) else ReflectPanic)
      else if elemType e \<in> {9, 10} then
        (if k = KFloat then Set (VFloat (f64_of_int (uint (elemVal e)))) else ReflectPanic)
      else Unsupported)"

section \<open>The callback\<close>

record mi_instance =
  elementCount :: "u32 + u32"
  getElement :: "string \<Rightarrow> u32 + Element"

text \<open>The state shared by the calls: the struct that is filled, the results, and \<open>errCh\<close>.\<close>

record unmarshal =
  elemValue :: "fval list"
  dv :: "fval list list"
  sentErrs :: "go_error list"
  errClosed :: bool

text \<open>The loop over the fields: the fields filled so far keep their values on an early return.\<close>

fun fillFields :: "(u64 \<Rightarrow> string) \<Rightarrow> mi_instance \<Rightarrow> field list \<Rightarrow> fval list \<Rightarrow> (go_error option \<times> fval list) option" where
  "fillFields str inst [] vs = Some (None, vs)"
| "fillFields str inst (f # fs) [] = Some (None, [])"
| "fillFields str inst (f # fs) (v # vs) =
     (if miTag f = [] then map_option (\<lambda>(e, vs'). (e, v # vs')) (fillFields str inst fs vs)
      else case getElement inst (miTag f) of
             Inl r \<Rightarrow>
               (if errors_is (MiError r) (MiError MI_RESULT_NO_SUCH_PROPERTY)
                then map_option (\<lambda>(e, vs'). (e, v # vs')) (fillFields str inst fs vs)
                else Some (Some (Wrapf ''failed to get element %s: %w'' [miTag f] (MiError r)), v # vs))
           | Inr el \<Rightarrow>
               (case setField str (fkind f) el of
                  Set v' \<Rightarrow> map_option (\<lambda>(e, vs'). (e, v' # vs')) (fillFields str inst fs vs)
                | Keep \<Rightarrow> map_option (\<lambda>(e, vs'). (e, v # vs')) (fillFields str inst fs vs)
                | Unsupported \<Rightarrow> Some (Some (ErrorText ''unsupported value type: %d'' []), v # vs)
                | ReflectPanic \<Rightarrow> None))"

record callback =
  cbInstance :: "mi_instance option"
  moreResults :: bool
  instanceResult :: u32
  errorMessage :: string

text \<open>Sending on \<open>errCh\<close> and closing it; both panic on a closed channel.\<close>

definition sendErr :: "go_error \<Rightarrow> unmarshal \<Rightarrow> unmarshal option" where
  "sendErr e u = (if errClosed u then None else Some (u\<lparr>sentErrs := sentErrs u @ [e]\<rparr>))"

definition closeErr :: "unmarshal \<Rightarrow> unmarshal option" where
  "closeErr u = (if errClosed u then None else Some (u\<lparr>errClosed := True\<rparr>))"

definition InstanceResult :: "(u64 \<Rightarrow> string) \<Rightarrow> field list \<Rightarrow> callback \<Rightarrow> unmarshal \<Rightarrow> unmarshal option" where
  "InstanceResult str flds cb u =
     Option.bind
       (if \<not> errors_is (MiError (instanceResult cb)) (MiError MI_RESULT_OK) then
          sendErr (Wrapf ''%w: %s'' [errorMessage cb] (MiError (instanceResult cb))) u
        else case cbInstance cb of
               None \<Rightarrow> Some u
             | Some inst \<Rightarrow>
                 (case elementCount inst of
                    Inl r \<Rightarrow> sendErr (Wrapf ''failed to get element count: %w'' [] (MiError r)) u
                  | Inr n \<Rightarrow>
                      (if n = 0 then Some u
                       else case fillFields str inst flds (elemValue u) of
                              None \<Rightarrow> None
                            | Some (Some e, vs) \<Rightarrow> sendErr e (u\<lparr>elemValue := vs\<rparr>)
                            | Some (None, vs) \<Rightarrow> Some (u\<lparr>elemValue := vs, dv := dv u @ [vs]\<rparr>))))
       (\<lambda>u'. if moreResults cb then Some u' else closeErr u')"

text \<open>The zero value of a struct, and the state \<open>NewUnmarshalOperationsCallbacks\<close> starts from.\<close>

fun zeroField :: "fkind \<Rightarrow> fval" where
  "zeroField KBool = VBool False" | "zeroField (KUint n) = VUint 0" | "zeroField (KInt n) = VInt 0"
| "zeroField KString = VString []" | "zeroField KFloat = VFloat (F_Fin 0)"

definition NewUnmarshalOperationsCallbacks :: "field list \<Rightarrow> unmarshal" where
  "NewUnmarshalOperationsCallbacks flds =
     \<lparr>elemValue = map (\<lambda>f. zeroField (fkind f)) flds, dv = [], sentErrs = [], errClosed = False\<rparr>"

text \<open>
  \<open>QueryUnmarshal\<close> with a valid destination: the system delivers the callbacks \<open>cbs\<close> one after the
  other, and the loop collects the errors until the channel is closed. \<^term>\<open>StillRunning\<close>: the channel is
  never closed and the loop waits.
\<close>

fun runCallbacks :: "(u64 \<Rightarrow> string) \<Rightarrow> field list \<Rightarrow> callback list \<Rightarrow> unmarshal \<Rightarrow> unmarshal option" where
  "runCallbacks str flds [] u = Some u"
| "runCallbacks str flds (cb # cbs) u =
     (case InstanceResult str flds cb u of None \<Rightarrow> None | Some u' \<Rightarrow> runCallbacks str flds cbs u')"

definition QueryUnmarshal ::
  "'w native \<Rightarrow> (u64 \<Rightarrow> string) \<Rightarrow> field list \<Rightarrow> callback list \<Rightarrow> Session option \<Rightarrow> object \<Rightarrow> u64 list \<Rightarrow>
     fval list list \<Rightarrow> 'w \<Rightarrow> (go_error option \<times> fval list list \<times> 'w) exec" where
  "QueryUnmarshal native str flds cbs s opts args dst w =
     (case s of
        None \<Rightarrow> Returns (Some mi_ErrNotInitialized, dst, w)
      | Some se \<Rightarrow>
          (let opts1 = (case opts of None \<Rightarrow> defaultOperationOptions se | Some o1 \<Rightarrow> Some o1) in
           case callMethod native SessionQueryInstances (Some (sessionHandle se))
                  ((case opts1 of None \<Rightarrow> 0 | Some h \<Rightarrow> h) # args) w of
             (Some e, w') \<Rightarrow> Returns (Some e, [], w')
           | (None, w') \<Rightarrow>
               (case runCallbacks str flds cbs (NewUnmarshalOperationsCallbacks flds) of
                  None \<Rightarrow> Panics
                | Some u \<Rightarrow> if errClosed u then Returns (errors_Join (sentErrs u), dv u, w') else StillRunning)))"

definition Query ::
  "'w native \<Rightarrow> (u64 \<Rightarrow> string) \<Rightarrow> field list \<Rightarrow> callback list \<Rightarrow> Session option \<Rightarrow> u64 list \<Rightarrow>
     fval list list \<Rightarrow> 'w \<Rightarrow> (go_error option \<times> fval list list \<times> 'w) exec" where
  "Query native str flds cbs s args dst w =
     (case QueryUnmarshal native str flds cbs s None args dst w of
        Returns (Some e, rows, w') \<Rightarrow> Returns (Some (Wrapf ''WMI query failed: %w'' [] e), rows, w')
      | r \<Rightarrow> r)"

section \<open>What a query returns\<close>

text \<open>
  What an element says, read from the layout of \<open>MI_Value\<close> and not from the code: a boolean is one or zero, an integer of \<open>w\<close> bits is in the low \<open>w\<close> bits, signed ones in two's
  complement, and a string is an address. Reals are left out: the code converts their bit pattern.
\<close>

datatype mi_value = MiBoolean bool | MiUnsigned nat | MiSigned nat int | MiString string

definition elementWidth :: "int \<Rightarrow> nat" where
  "elementWidth t = 2 ^ (nat ((t - 1) div 2) + 3)"

definition elementValue :: "(u64 \<Rightarrow> string) \<Rightarrow> Element \<Rightarrow> mi_value option" where
  "elementValue str el =
     (let w = elementWidth (elemType el); n = uint (elemVal el) in
      if elemType el = 0 then (if n = 0 then Some (MiBoolean False) else if n = 1 then Some (MiBoolean True) else None)
      else if elemType el \<in> {1, 3, 5, 7} \<and> n < 2 ^ w then Some (MiUnsigned (nat n))
      else if elemType el \<in> {2, 4, 6, 8} \<and> n < 2 ^ w then Some (MiSigned w (if n < 2 ^ (w - 1) then n else n - 2 ^ w))
      else if elemType el = 13 \<and> n \<noteq> 0 then Some (MiString (str (elemVal el)))
      else None)"

text \<open>
  The value as it is in a field of a kind that can hold it. A negative number needs a field that is not wider than the element: the code does not extend its sign.
\<close>

fun stored :: "fkind \<Rightarrow> mi_value \<Rightarrow> fval option" where
  "stored KBool (MiBoolean b) = Some (VBool b)"
| "stored (KUint n) (MiUnsigned m) = (if m < 2 ^ n then Some (VUint m) else None)"
| "stored (KInt n) (MiSigned w z) =
     (if 0 < n \<and> - (2 ^ (n - 1)) \<le> z \<and> z < 2 ^ (n - 1) \<and> (0 \<le> z \<or> n \<le> w) then Some (VInt z) else None)"
| "stored KString (MiString s) = Some (VString s)"
| "stored k v = None"

lemma signed_take_bit_low:
  fixes z :: int
  assumes "0 < n" and "n \<le> w" and "- (2 ^ (n - 1)) \<le> z" and "z < 2 ^ (n - 1)"
  shows "signed_take_bit (n - 1) (z + 2 ^ w) = z"
proof -
  have "take_bit n (z + 2 ^ w) = take_bit n z" using assms(2) by (simp add: take_bit_eq_mod mod_add_eq le_imp_power_dvd flip: mod_add_right_eq)
  then have "signed_take_bit (n - 1) (z + 2 ^ w) = signed_take_bit (n - 1) z"
    using assms(1) by (simp add: signed_take_bit_eq_iff_take_bit_eq)
  then show ?thesis using signed_take_bit_int_eq_self [OF assms(3,4)] by simp
qed

lemma setField_value:
  assumes "elementValue str el = Some v" and "stored k v = Some x"
  shows "setField str k el = Set x"
proof (cases v)
  case (MiSigned w z)
  then obtain n where k: "k = KInt n" and n: "0 < n" "- (2 ^ (n - 1)) \<le> z" "z < 2 ^ (n - 1)" "0 \<le> z \<or> n \<le> w" "x = VInt z"
    using assms(2) by (cases k) (auto split: if_splits)
  have e: "elemType el \<in> {2, 4, 6, 8}" "z = uint (elemVal el) \<or> z = uint (elemVal el) - 2 ^ w \<and> uint (elemVal el) < 2 ^ w"
    using assms(1) MiSigned by (auto simp: elementValue_def Let_def split: if_splits)
  have "signed_take_bit (n - 1) (uint (elemVal el)) = z"
  proof (cases "z = uint (elemVal el)")
    case True
    then show ?thesis using signed_take_bit_int_eq_self [OF n(2,3)] by simp
  next
    case False
    then have "uint (elemVal el) = z + 2 ^ w" "z < 0" using e(2) by auto
    then show ?thesis using signed_take_bit_low [OF n(1) _ n(2,3)] n(4) by simp
  qed
  then show ?thesis using e(1) k n(5) by (auto simp: setField_def)
next
  case (MiBoolean b)
  then have "k = KBool" "x = VBool b" using assms(2) by (cases k; simp)+
  moreover have "elemType el = 0" "uint (elemVal el) = (if b then 1 else 0)"
    using assms(1) MiBoolean by (auto simp: elementValue_def Let_def split: if_splits)
  moreover from this(2) have "elemVal el = 1 \<longleftrightarrow> b" by (simp add: word_uint_eq_iff)
  ultimately show ?thesis by (simp add: setField_def)
next
  case (MiUnsigned m)
  then obtain n where "k = KUint n" "m < 2 ^ n" "x = VUint m" using assms(2) by (cases k) (auto split: if_splits)
  moreover have "elemType el \<in> {1, 3, 5, 7}" "m = nat (uint (elemVal el))"
    using assms(1) MiUnsigned by (auto simp: elementValue_def Let_def split: if_splits)
  ultimately show ?thesis by (auto simp: setField_def)
next
  case (MiString s)
  then have "k = KString" "x = VString s" using assms(2) by (cases k; simp)+
  moreover have "elemType el = 13" "elemVal el \<noteq> 0" "s = str (elemVal el)"
    using assms(1) MiString by (auto simp: elementValue_def Let_def split: if_splits)
  ultimately show ?thesis by (simp add: setField_def)
qed

text \<open>The value of a field in an instance, where the instance has one of the field's kind.\<close>

definition fieldOf :: "(u64 \<Rightarrow> string) \<Rightarrow> mi_instance \<Rightarrow> field \<Rightarrow> fval option" where
  "fieldOf str inst f =
     (case getElement inst (miTag f) of Inl r \<Rightarrow> None | Inr el \<Rightarrow> Option.bind (elementValue str el) (stored (fkind f)))"

definition hasNot :: "field \<Rightarrow> mi_instance \<Rightarrow> bool" where
  "hasNot f inst \<longleftrightarrow> getElement inst (miTag f) = Inl MI_RESULT_NO_SUCH_PROPERTY"

text \<open>A callback with one instance; each tagged field has a value there or, in an incomplete one, no such property.\<close>

definition delivered :: "callback \<Rightarrow> mi_instance option" where
  "delivered cb =
     (if instanceResult cb = MI_RESULT_OK
      then Option.bind (cbInstance cb) (\<lambda>inst. case elementCount inst of Inl r \<Rightarrow> None | Inr n \<Rightarrow> if n = 0 then None else Some inst)
      else None)"

definition complete :: "(u64 \<Rightarrow> string) \<Rightarrow> field list \<Rightarrow> callback \<Rightarrow> bool" where
  "complete str flds cb \<longleftrightarrow>
     (case delivered cb of None \<Rightarrow> False | Some inst \<Rightarrow> list_all (\<lambda>f. miTag f \<noteq> [] \<longrightarrow> fieldOf str inst f \<noteq> None) flds)"

definition incomplete :: "(u64 \<Rightarrow> string) \<Rightarrow> field list \<Rightarrow> callback \<Rightarrow> bool" where
  "incomplete str flds cb \<longleftrightarrow>
     (case delivered cb of None \<Rightarrow> False
      | Some inst \<Rightarrow> list_all (\<lambda>f. miTag f \<noteq> [] \<longrightarrow> fieldOf str inst f \<noteq> None \<or> hasNot f inst) flds)"

text \<open>The row of an instance: what it has, and of what it has not the value \<open>old\<close> in the row before.\<close>

definition fieldNext :: "(u64 \<Rightarrow> string) \<Rightarrow> mi_instance \<Rightarrow> field \<Rightarrow> fval \<Rightarrow> fval" where
  "fieldNext str inst f old =
     (if miTag f = [] \<or> hasNot f inst then old else case fieldOf str inst f of None \<Rightarrow> old | Some v \<Rightarrow> v)"

fun rowsFrom :: "(u64 \<Rightarrow> string) \<Rightarrow> field list \<Rightarrow> fval list \<Rightarrow> mi_instance list \<Rightarrow> fval list list" where
  "rowsFrom str flds prev [] = []"
| "rowsFrom str flds prev (inst # insts) =
     (let row = map2 (fieldNext str inst) flds prev in row # rowsFrom str flds row insts)"

definition instances :: "callback list \<Rightarrow> mi_instance list" where
  "instances cbs = map (\<lambda>cb. the (delivered cb)) cbs"

lemma complete_incomplete: "complete str flds cb \<Longrightarrow> incomplete str flds cb"
  by (auto simp: complete_def incomplete_def list_all_iff split: option.splits)

lemma fillFields_next:
  "list_all (\<lambda>f. miTag f \<noteq> [] \<longrightarrow> fieldOf str inst f \<noteq> None \<or> hasNot f inst) flds \<Longrightarrow> length vs = length flds \<Longrightarrow>
     fillFields str inst flds vs = Some (None, map2 (fieldNext str inst) flds vs)"
proof (induction flds arbitrary: vs)
  case (Cons f flds)
  then obtain v vs' where vs: "vs = v # vs'" "length vs' = length flds" by (cases vs) auto
  have IH: "fillFields str inst flds vs' = Some (None, map2 (fieldNext str inst) flds vs')" using Cons.IH [OF _ vs(2)] Cons.prems(1) by simp
  show ?case
  proof (cases "miTag f = [] \<or> hasNot f inst")
    case True
    then show ?thesis using vs(1) IH by (auto simp: fieldNext_def hasNot_def)
  next
    case False
    then obtain x where x: "fieldOf str inst f = Some x" using Cons.prems(1) by auto
    then obtain el w where "getElement inst (miTag f) = Inr el" "elementValue str el = Some w" "stored (fkind f) w = Some x"
      by (auto simp: fieldOf_def bind_eq_Some_conv split: sum.splits)
    then show ?thesis using vs(1) IH False x setField_value by (simp add: fieldNext_def)
  qed
qed simp

lemma delivered_count:
  assumes "(case elementCount i of Inl r \<Rightarrow> None | Inr n \<Rightarrow> if n = 0 then None else Some i) = Some inst"
  obtains n where "i = inst" "elementCount inst = Inr n" "n \<noteq> 0"
  using assms by (cases "elementCount i") (auto split: if_splits)

lemma InstanceResult_next:
  assumes "incomplete str flds cb" and "length (elemValue u) = length flds" and "\<not> errClosed u"
  shows "InstanceResult str flds cb u =
     (let row = map2 (fieldNext str (the (delivered cb))) flds (elemValue u) in
      Some (u\<lparr>elemValue := row, dv := dv u @ [row], errClosed := \<not> moreResults cb\<rparr>))"
proof -
  obtain inst where d: "delivered cb = Some inst" and "list_all (\<lambda>f. miTag f \<noteq> [] \<longrightarrow> fieldOf str inst f \<noteq> None \<or> hasNot f inst) flds"
    using assms(1) by (auto simp: incomplete_def split: option.splits)
  note fill = fillFields_next [OF this(2) assms(2)]
  obtain n where "instanceResult cb = MI_RESULT_OK" "cbInstance cb = Some inst" "elementCount inst = Inr n" "n \<noteq> 0"
    using d by (auto simp: delivered_def bind_eq_Some_conv split: if_splits elim!: delivered_count)
  then show ?thesis using d fill assms(3) by (simp add: InstanceResult_def closeErr_def status_codes Let_def)
qed

text \<open>The callbacks of one query: only the last one says that there are no more results.\<close>

fun last_only :: "callback list \<Rightarrow> bool" where
  "last_only [] \<longleftrightarrow> False"
| "last_only [cb] \<longleftrightarrow> \<not> moreResults cb"
| "last_only (cb # cbs) \<longleftrightarrow> moreResults cb \<and> last_only cbs"

lemma runCallbacks_rows:
  assumes "list_all (incomplete str flds) cbs" and "last_only cbs" and "length (elemValue u) = length flds" and "\<not> errClosed u"
  shows "\<exists>u'. runCallbacks str flds cbs u = Some u' \<and> dv u' = dv u @ rowsFrom str flds (elemValue u) (instances cbs) \<and>
     sentErrs u' = sentErrs u \<and> errClosed u'"
  using assms
proof (induction cbs arbitrary: u rule: last_only.induct)
  case 1
  then show ?case by simp
next
  case (2 cb)
  then show ?case using InstanceResult_next [of str flds cb u] by (simp add: instances_def Let_def)
next
  case (3 cb cb' cbs)
  let ?row = "map2 (fieldNext str (the (delivered cb))) flds (elemValue u)"
  let ?u = "u\<lparr>elemValue := ?row, dv := dv u @ [?row], errClosed := \<not> moreResults cb\<rparr>"
  have step: "InstanceResult str flds cb u = Some ?u"
    using InstanceResult_next [of str flds cb u] "3.prems" by (simp add: Let_def)
  have "\<exists>u'. runCallbacks str flds (cb' # cbs) ?u = Some u' \<and> dv u' = dv ?u @ rowsFrom str flds (elemValue ?u) (instances (cb' # cbs)) \<and>
     sentErrs u' = sentErrs ?u \<and> errClosed u'"
    by (rule "3.IH") (use "3.prems" in auto)
  then show ?case using step by (simp add: instances_def Let_def)
qed

text \<open>The system accepts the query of the session.\<close>

definition accepts :: "'w native \<Rightarrow> Session \<Rightarrow> u64 list \<Rightarrow> 'w \<Rightarrow> bool" where
  "accepts native s args w \<longleftrightarrow>
     fst (fst (native SessionQueryInstances
       (sessionHandle s # (case defaultOperationOptions s of None \<Rightarrow> 0 | Some h \<Rightarrow> h) # args) w)) = MI_RESULT_OK"

lemma Query_rowsFrom:
  assumes "accepts native s args w" and "list_all (incomplete str flds) cbs" and "last_only cbs"
  shows "\<exists>w'. Query native str flds cbs (Some s) args dst w =
     Returns (None, rowsFrom str flds (map (\<lambda>f. zeroField (fkind f)) flds) (instances cbs), w')"
proof -
  obtain u' where "runCallbacks str flds cbs (NewUnmarshalOperationsCallbacks flds) = Some u'"
    and "dv u' = rowsFrom str flds (map (\<lambda>f. zeroField (fkind f)) flds) (instances cbs)" "sentErrs u' = []" "errClosed u'"
    using runCallbacks_rows [OF assms(2,3), of "NewUnmarshalOperationsCallbacks flds"]
    by (auto simp: NewUnmarshalOperationsCallbacks_def)
  moreover obtain x w' where "native SessionQueryInstances
      (sessionHandle s # (case defaultOperationOptions s of None \<Rightarrow> 0 | Some h \<Rightarrow> h) # args) w = ((MI_RESULT_OK, x), w')"
    using assms(1) unfolding accepts_def by (metis prod.collapse)
  ultimately show ?thesis
    by (cases "defaultOperationOptions s")
       (simp_all add: Query_def QueryUnmarshal_def callMethod_def resultErr_def errors_Join_def)
qed

text \<open>The row an instance stands for: its own values, and zero values in the fields without a tag.\<close>

definition rowOf :: "(u64 \<Rightarrow> string) \<Rightarrow> field list \<Rightarrow> mi_instance \<Rightarrow> fval list" where
  "rowOf str flds inst = map (\<lambda>f. if miTag f = [] then zeroField (fkind f) else the (fieldOf str inst f)) flds"

lemma rowsFrom_complete:
  assumes "list_all (complete str flds) cbs" and "list_all2 (\<lambda>f v. miTag f = [] \<longrightarrow> v = zeroField (fkind f)) flds prev"
  shows "rowsFrom str flds prev (instances cbs) = map (rowOf str flds) (instances cbs)"
  using assms
proof (induction cbs arbitrary: prev)
  case (Cons cb cbs)
  then obtain inst where d: "delivered cb = Some inst" "list_all (\<lambda>f. miTag f \<noteq> [] \<longrightarrow> fieldOf str inst f \<noteq> None) flds"
    by (auto simp: complete_def split: option.splits)
  have "fieldNext str inst (flds ! i) (prev ! i) = rowOf str flds inst ! i" if "i < length flds" for i
  proof -
    have "miTag (flds ! i) \<noteq> [] \<longrightarrow> fieldOf str inst (flds ! i) \<noteq> None" using d(2) that by (simp add: list_all_length)
    then show ?thesis using that Cons.prems(2)
      by (auto simp: rowOf_def fieldNext_def fieldOf_def hasNot_def list_all2_conv_all_nth)
  qed
  then have row: "map2 (fieldNext str inst) flds prev = rowOf str flds inst"
    using Cons.prems(2) by (intro nth_equalityI) (auto simp: rowOf_def list_all2_conv_all_nth)
  have "list_all2 (\<lambda>f v. miTag f = [] \<longrightarrow> v = zeroField (fkind f)) flds (rowOf str flds inst)"
    by (simp add: rowOf_def list_all2_conv_all_nth)
  then show ?case using Cons.IH Cons.prems(1) row d(1) by (simp add: instances_def Let_def)
qed (simp add: instances_def)

lemma rowsFrom_length: "length (rowsFrom str flds prev insts) = length insts"
  by (induction insts arbitrary: prev) (simp_all add: Let_def)

lemma rowsFrom_nth:
  assumes "length prev = length flds" and "k < length insts" and "i < length flds"
  shows "rowsFrom str flds prev insts ! k ! i =
     fieldNext str (insts ! k) (flds ! i) (if k = 0 then prev ! i else rowsFrom str flds prev insts ! (k - 1) ! i)"
  using assms
proof (induction insts arbitrary: prev k)
  case (Cons inst insts)
  show ?case
  proof (cases k)
    case (Suc k')
    then show ?thesis using Cons.IH [of "map2 (fieldNext str inst) flds prev" k'] Cons.prems by (cases k') (simp_all add: Let_def)
  qed (use Cons.prems in \<open>simp add: Let_def\<close>)
qed simp

text \<open>
  C13: A query whose callbacks each deliver an instance with a value for every tagged field fills the destination with exactly these instances, in order, and returns no error; it returns as soon
  as the last callback came. The values are those that the layout of \<open>MI_Value\<close> gives: booleans, unsigned and signed integers that the field can hold, and strings; a negative number in a field
  that is not wider than its element.
\<close>

theorem Query_returns_instances:
  assumes "accepts native s args w" and "list_all (complete str flds) cbs" and "last_only cbs"
  shows "\<exists>w'. Query native str flds cbs (Some s) args dst w = Returns (None, map (rowOf str flds) (instances cbs), w')"
proof -
  have "list_all (incomplete str flds) cbs" using assms(2) complete_incomplete by (auto simp: list_all_iff)
  moreover have "rowsFrom str flds (map (\<lambda>f. zeroField (fkind f)) flds) (instances cbs) = map (rowOf str flds) (instances cbs)"
    by (rule rowsFrom_complete [OF assms(2)]) (simp add: list_all2_conv_all_nth)
  ultimately show ?thesis using Query_rowsFrom [OF assms(1) _ assms(3)] by fastforce
qed

definition sampleNative :: "unit native" where
  "sampleNative f args w = ((MI_RESULT_OK, 0), w)"

definition sampleFields :: "field list" where
  "sampleFields = [\<lparr>miTag = ''Name'', fkind = KString\<rparr>, \<lparr>miTag = ''Size'', fkind = KUint 64\<rparr>, \<lparr>miTag = ''Delta'', fkind = KInt 16\<rparr>]"

definition sampleInstance :: "(string \<times> Element) list \<Rightarrow> mi_instance" where
  "sampleInstance els =
     \<lparr>elementCount = Inr (word_of_nat (length els)),
      getElement = (\<lambda>n. case map_get els n of None \<Rightarrow> Inl MI_RESULT_NO_SUCH_PROPERTY | Some e \<Rightarrow> Inr e)\<rparr>"

definition sampleCallback :: "bool \<Rightarrow> (string \<times> Element) list \<Rightarrow> callback" where
  "sampleCallback mo els =
     \<lparr>cbInstance = Some (sampleInstance els), moreResults = mo, instanceResult = MI_RESULT_OK, errorMessage = []\<rparr>"

definition sampleFull :: "bool \<Rightarrow> callback" where
  "sampleFull mo = sampleCallback mo
     [(''Name'', \<lparr>elemVal = 7, elemType = 13\<rparr>), (''Size'', \<lparr>elemVal = 42, elemType = 7\<rparr>), (''Delta'', \<lparr>elemVal = 65535, elemType = 4\<rparr>)]"

lemmas sample_simps = sampleFull_def sampleCallback_def sampleInstance_def sampleFields_def complete_def incomplete_def delivered_def instances_def
  rowOf_def fieldOf_def hasNot_def elementValue_def elementWidth_def accepts_def sampleNative_def

theorem Query_returns_instances_witness:
  "\<exists>w'. Query sampleNative (\<lambda>p. ''C:'') sampleFields [sampleFull False]
     (Some \<lparr>sessionHandle = 1, defaultOperationOptions = None\<rparr>) [] [] () = Returns (None, [[VString ''C:'', VUint 42, VInt (-1)]], w')"
  using Query_returns_instances [where native = sampleNative and str = "\<lambda>p. ''C:''" and flds = sampleFields and cbs = "[sampleFull False]"
      and s = "\<lparr>sessionHandle = 1, defaultOperationOptions = None\<rparr>" and args = "[]" and dst = "[]" and w = "()"]
  by (simp add: sample_simps)

text \<open>
  C19: The callbacks share one struct, and a property that an instance does not have is skipped: a query in which instances lack properties returns no error, and the row of each instance has the
  instance's own values where it has the property and, where it lacks it, the value of the row before, whatever that was; zero in the first row.
\<close>

theorem Query_missing_property_is_stale:
  assumes "accepts native s args w" and "list_all (incomplete str flds) cbs" and "last_only cbs"
  shows "\<exists>rows w'. Query native str flds cbs (Some s) args dst w = Returns (None, rows, w') \<and> length rows = length cbs \<and>
     (\<forall>k < length cbs. \<forall>i < length flds. miTag (flds ! i) \<noteq> [] \<longrightarrow>
        (if hasNot (flds ! i) (instances cbs ! k)
         then rows ! k ! i = (if k = 0 then zeroField (fkind (flds ! i)) else rows ! (k - 1) ! i)
         else Some (rows ! k ! i) = fieldOf str (instances cbs ! k) (flds ! i)))"
proof -
  let ?rows = "rowsFrom str flds (map (\<lambda>f. zeroField (fkind f)) flds) (instances cbs)"
  have nth: "?rows ! k ! i = fieldNext str (instances cbs ! k) (flds ! i) (if k = 0 then zeroField (fkind (flds ! i)) else ?rows ! (k - 1) ! i)"
    if "k < length cbs" "i < length flds" for k i
    using rowsFrom_nth [where prev = "map (\<lambda>f. zeroField (fkind f)) flds" and insts = "instances cbs" and k = k and i = i] that
    by (simp add: instances_def)
  have has: "fieldOf str (instances cbs ! k) (flds ! i) \<noteq> None \<or> hasNot (flds ! i) (instances cbs ! k)"
    if "k < length cbs" "i < length flds" "miTag (flds ! i) \<noteq> []" for k i
  proof -
    have "incomplete str flds (cbs ! k)" using assms(2) that(1) by (simp add: list_all_length)
    then show ?thesis using that by (cases "delivered (cbs ! k)") (auto simp: incomplete_def instances_def list_all_length)
  qed
  obtain w' where "Query native str flds cbs (Some s) args dst w = Returns (None, ?rows, w')" using Query_rowsFrom [OF assms] by blast
  moreover have "length ?rows = length cbs" by (simp add: rowsFrom_length instances_def)
  moreover have "Some (?rows ! k ! i) = fieldOf str (instances cbs ! k) (flds ! i)"
    if "k < length cbs" "i < length flds" "miTag (flds ! i) \<noteq> []" "\<not> hasNot (flds ! i) (instances cbs ! k)" for k i
    using nth [OF that(1,2)] has [OF that(1-3)] that(3,4) by (auto simp: fieldNext_def)
  moreover have "?rows ! k ! i = (if k = 0 then zeroField (fkind (flds ! i)) else ?rows ! (k - 1) ! i)"
    if "k < length cbs" "i < length flds" "hasNot (flds ! i) (instances cbs ! k)" for k i
    using nth [OF that(1,2)] that(3) by (simp add: fieldNext_def)
  ultimately show ?thesis by (intro exI [of _ ?rows] exI [of _ w'] conjI allI impI) (simp_all split: if_split)
qed

theorem Query_missing_property_is_stale_witness:
  "\<exists>rows w'. Query sampleNative (\<lambda>p. ''C:'') sampleFields
     [sampleFull True, sampleCallback False [(''Name'', \<lparr>elemVal = 7, elemType = 13\<rparr>), (''Delta'', \<lparr>elemVal = 3, elemType = 4\<rparr>)]]
     (Some \<lparr>sessionHandle = 1, defaultOperationOptions = None\<rparr>) [] [] () = Returns (None, rows, w') \<and>
   rows ! 1 ! 1 = VUint 42 \<and> rows ! 1 ! 2 = VInt 3"
proof -
  let ?cbs = "[sampleFull True, sampleCallback False [(''Name'', \<lparr>elemVal = 7, elemType = 13\<rparr>), (''Delta'', \<lparr>elemVal = 3, elemType = 4\<rparr>)]]"
  have pre: "accepts sampleNative \<lparr>sessionHandle = 1, defaultOperationOptions = None\<rparr> [] ()"
    "list_all (incomplete (\<lambda>p. ''C:'') sampleFields) ?cbs" "last_only ?cbs"
    by (simp_all add: sample_simps)
  obtain rows w' where rows: "Query sampleNative (\<lambda>p. ''C:'') sampleFields ?cbs (Some \<lparr>sessionHandle = 1, defaultOperationOptions = None\<rparr>) [] [] () = Returns (None, rows, w')"
    and spec: "\<forall>k < length ?cbs. \<forall>i < length sampleFields. miTag (sampleFields ! i) \<noteq> [] \<longrightarrow>
        (if hasNot (sampleFields ! i) (instances ?cbs ! k)
         then rows ! k ! i = (if k = 0 then zeroField (fkind (sampleFields ! i)) else rows ! (k - 1) ! i)
         else Some (rows ! k ! i) = fieldOf (\<lambda>p. ''C:'') (instances ?cbs ! k) (sampleFields ! i))"
    using Query_missing_property_is_stale [OF pre, of "[]"] by metis
  have "rows ! 0 ! 1 = VUint 42" using spec [rule_format, of 0 1] by (simp add: sample_simps)
  moreover have "rows ! 1 ! 1 = rows ! 0 ! 1" using spec [rule_format, of 1 1] by (simp add: sample_simps)
  moreover have "rows ! 1 ! 2 = VInt 3" using spec [rule_format, of 1 2] by (simp add: sample_simps)
  ultimately show ?thesis using rows by auto
qed

section \<open>Intervals\<close>

text \<open>The length in microseconds that the fields of an interval stand for.\<close>

definition interval_us :: "Interval \<Rightarrow> int" where
  "interval_us i = (((uint (Days i) * 24 + uint (Hours i)) * 60 + uint (Minutes i)) * 60 + uint (Seconds i)) * 1000000
     + uint (Microseconds i)"

lemma uint_u32_of_int: "0 \<le> n \<Longrightarrow> n < 2 ^ 32 \<Longrightarrow> uint (word_of_int n :: u32) = n"
  by (simp add: uint_word_of_int)

lemma interval_overcounts:
  fixes a b c s m u :: int
  assumes "0 \<le> a" and "0 \<le> b" and "1 \<le> c" and "s * 1000000 + m = u"
  shows "(((a * 24 + b) * 60 + c) * 60 + s) * 1000000 + m \<noteq> u"
proof -
  have "u < (((a * 24 + b) * 60 + c) * 60 + s) * 1000000 + m" using assms by (simp add: algebra_simps)
  then show ?thesis by simp
qed

text \<open>
  \<open>NewInterval\<close> gives the interval of the duration (to the microsecond) exactly when the
  duration is below a minute: every field is a total and not a remainder, so from one minute on the
  fields count the same time several times. The timeout of 5 s that sessions use is below.
\<close>

theorem NewInterval_exact_iff:
  assumes "0 \<le> d" and "d < 1000000000 * 2 ^ 32"
  shows "interval_us (NewInterval d) = d div 1000 \<longleftrightarrow> d < 60000000000"
proof -
  let ?u = "d div 1000"
  have u: "0 \<le> ?u" "?u < 1000000 * 2 ^ 32" using assms by simp_all
  have f: "uint (Days (NewInterval d)) = ?u div 86400000000" "uint (Hours (NewInterval d)) = ?u div 3600000000"
    "uint (Minutes (NewInterval d)) = ?u div 60000000" "uint (Seconds (NewInterval d)) = ?u div 1000000"
    "uint (Microseconds (NewInterval d)) = ?u mod 1000000"
    using u assms(1) by (simp_all add: NewInterval_def Let_def uint_u32_of_int)
  have "d = 1000 * ?u + d mod 1000" "0 \<le> d mod 1000" "d mod 1000 < 1000" by simp_all
  then have lt: "d < 60000000000 \<longleftrightarrow> ?u < 60000000" by linarith
  have sec: "?u div 1000000 * 1000000 + ?u mod 1000000 = ?u" by simp
  show ?thesis
  proof (cases "?u < 60000000")
    case True
    then have "?u div 86400000000 = 0" "?u div 3600000000 = 0" "?u div 60000000 = 0" using u by simp_all
    then show ?thesis unfolding interval_us_def f lt using True sec by simp
  next
    case False
    have "0 \<le> ?u div 86400000000" "0 \<le> ?u div 3600000000" using u by (simp_all add: pos_imp_zdiv_nonneg_iff)
    moreover have "1 \<le> ?u div 60000000" using zdiv_mono1 [of 60000000 ?u 60000000] False by simp
    ultimately have "interval_us (NewInterval d) \<noteq> ?u"
      unfolding interval_us_def f by (rule interval_overcounts) (rule sec)
    then show ?thesis using False lt by blast
  qed
qed

theorem NewInterval_exact_iff_witness:
  "interval_us (NewInterval 5000000000) = 5000000 \<and> interval_us (NewInterval 60000000000) \<noteq> 60000000"
  using NewInterval_exact_iff [of 5000000000] NewInterval_exact_iff [of 60000000000] by simp

end
