(* ===== verification/Step_System.thy ===== *)
theory Step_System
  imports Go_Prelude
begin

text \<open>
  Concurrent parts of the program are step relations on a record of the goroutines' positions
  and the channels and variables they share; one step is one operation of one goroutine. The
  locales below are what such a system promises: an invariant of its steps, and a bound on the
  steps it can make. What follows for all its runs is proved once here.
\<close>

locale invariant_system =
  fixes step :: "'s \<Rightarrow> 's \<Rightarrow> bool"
    and init :: "'s \<Rightarrow> bool"
    and inv :: "'s \<Rightarrow> bool"
  assumes inv_init: "init s \<Longrightarrow> inv s"
    and inv_step: "inv s \<Longrightarrow> step s s' \<Longrightarrow> inv s'"
begin

lemma inv_steps: "step\<^sup>*\<^sup>* s s' \<Longrightarrow> inv s \<Longrightarrow> inv s'"
  by (induction rule: rtranclp_induct) (auto intro: inv_step)

lemma inv_reachable: "init s \<Longrightarrow> step\<^sup>*\<^sup>* s s' \<Longrightarrow> inv s'"
  using inv_steps inv_init by blast

end

locale terminating_system = invariant_system +
  fixes weight :: "'s \<Rightarrow> nat"
  assumes weight_step: "inv s \<Longrightarrow> step s s' \<Longrightarrow> weight s' < weight s"
begin

lemma steps_bounded: "(step ^^ n) s s' \<Longrightarrow> inv s \<Longrightarrow> n + weight s' \<le> weight s"
proof (induction n arbitrary: s')
  case 0
  then show ?case by simp
next
  case (Suc n)
  then obtain t where t: "(step ^^ n) s t" "step t s'" by auto
  then have "inv t" using Suc.prems(2) inv_steps by (metis relpowp_imp_rtranclp)
  then show ?case using Suc t weight_step by fastforce
qed

text \<open>Every state can be run to its end, and no run goes on for ever.\<close>

lemma reaches_end: "inv s \<Longrightarrow> \<exists>t. step\<^sup>*\<^sup>* s t \<and> (\<nexists>u. step t u)"
proof (induction "weight s" arbitrary: s rule: less_induct)
  case less
  show ?case
  proof (cases "\<exists>s'. step s s'")
    case True
    then obtain s' where s': "step s s'" by blast
    then obtain t where "step\<^sup>*\<^sup>* s' t" "\<nexists>u. step t u"
      using less inv_step weight_step by blast
    then show ?thesis using s' converse_rtranclp_into_rtranclp by metis
  qed auto
qed

lemma no_infinite_run: "inv (r 0) \<Longrightarrow> \<not> (\<forall>i. step (r i) (r (Suc i)))"
proof
  assume inv0: "inv (r 0)" and run: "\<forall>i. step (r i) (r (Suc i))"
  have "(step ^^ n) (r 0) (r n)" for n using run by (induction n) auto
  from steps_bounded [OF this inv0] have "n \<le> weight (r 0)" for n using add_leD1 by blast
  then show False using Suc_n_not_le_n by blast
qed

end

end
