(* ===== verification/Scrape.thy ===== *)
theory Scrape
  imports Step_System Go_Errors Prom "HOL-Library.Multiset"
begin

text \<open>
  One scrape (pkg/collector/collect.go): \<open>collectCollector\<close> runs one collector in its own
  goroutine, forwards its metrics to the registry's channel and waits for its result or for the
  timeout; \<open>collectAll\<close> does so for every collector and reports each one's status.

  The collector is what it does: the metrics its \<open>Collect\<close> sends, in order, and then how it ends.
  One step of \<open>scrape_step\<close> is one channel operation or one access to the flag \<open>timeout\<close>;
  the goroutines are interleaved in every way. A buffered channel is the list of what it holds.
\<close>

section \<open>Status\<close>

datatype collectorStatusCode = Pending | Success | Failed

datatype outcome = Ended "go_error option" | Panicked string

record collector_run =
  runName :: string
  runMetrics :: "metric list"
  runOutcome :: outcome

definition runResult :: "collector_run \<Rightarrow> go_error option" where
  "runResult r =
     (case runOutcome r of
        Ended e \<Rightarrow> e
      | Panicked msg \<Rightarrow> Some (ErrorText ''panic in collector %s: %v. stack: %s'' [runName r, msg]))"

definition statusOf :: "go_error option \<Rightarrow> collectorStatusCode" where
  "statusOf err =
     (case err of
        None \<Rightarrow> Success
      | Some e \<Rightarrow> if \<not> errors_is e pdh_ErrNoData \<and> \<not> errors_is e types_ErrNoData then Failed else Success)"

section \<open>The goroutines of collectCollector\<close>

text \<open>
  \<^item> the collector's goroutine: sending metrics, result sent, channel closed;
  \<^item> the forwarder: at its \<open>select\<close>, with a metric received, past the check of \<open>timeout\<close>, ended;
  \<^item> the caller: at its \<open>select\<close>, in \<open>wg.Wait()\<close>, before it sends the duration, after the timeout,
    returned.
\<close>

datatype collector_pos = Collecting | ResultSent | Closed
datatype forwarder_pos = FSelect | FReceived metric | FSending metric | FEnded
datatype caller_pos = MSelect | MWait "go_error option" | MReport "go_error option" | MTimeout | MReturned collectorStatusCode

datatype item = Forwarded metric | Duration f64

record scrape =
  toSend :: "metric list"
  cpos :: collector_pos
  bufCh :: "metric list"
  errCh :: "go_error option option"
  ctxDone :: bool
  fpos :: forwarder_pos
  timeoutFlag :: bool
  mpos :: caller_pos
  draining :: bool
  outCh :: "item list"
  outClosed :: bool

definition bufCap :: nat where
  "bufCap = 1000"

definition scrape_init :: "collector_run \<Rightarrow> scrape" where
  "scrape_init r =
     \<lparr>toSend = runMetrics r, cpos = Collecting, bufCh = [], errCh = None, ctxDone = False, fpos = FSelect,
      timeoutFlag = False, mpos = MSelect, draining = False, outCh = [], outClosed = False\<rparr>"

inductive scrape_step :: "collector_run \<Rightarrow> scrape \<Rightarrow> scrape \<Rightarrow> bool" for r where
  send: "cpos s = Collecting \<Longrightarrow> toSend s = m # ms \<Longrightarrow> length (bufCh s) < bufCap \<Longrightarrow>
     scrape_step r s (s\<lparr>toSend := ms, bufCh := bufCh s @ [m]\<rparr>)"
| result: "cpos s = Collecting \<Longrightarrow> toSend s = [] \<Longrightarrow> errCh s = None \<Longrightarrow>
     scrape_step r s (s\<lparr>cpos := ResultSent, errCh := Some (runResult r)\<rparr>)"
| close: "cpos s = ResultSent \<Longrightarrow> scrape_step r s (s\<lparr>cpos := Closed\<rparr>)"
| expire: "\<not> ctxDone s \<Longrightarrow> scrape_step r s (s\<lparr>ctxDone := True\<rparr>)"
| f_done: "fpos s = FSelect \<Longrightarrow> ctxDone s \<Longrightarrow> scrape_step r s (s\<lparr>fpos := FEnded\<rparr>)"
| f_receive: "fpos s = FSelect \<Longrightarrow> bufCh s = m # ms \<Longrightarrow> scrape_step r s (s\<lparr>fpos := FReceived m, bufCh := ms\<rparr>)"
| f_closed: "fpos s = FSelect \<Longrightarrow> bufCh s = [] \<Longrightarrow> cpos s = Closed \<Longrightarrow> scrape_step r s (s\<lparr>fpos := FEnded\<rparr>)"
| f_check: "fpos s = FReceived m \<Longrightarrow>
     scrape_step r s (s\<lparr>fpos := (if timeoutFlag s then FSelect else FSending m)\<rparr>)"
| f_send: "fpos s = FSending m \<Longrightarrow> \<not> outClosed s \<Longrightarrow>
     scrape_step r s (s\<lparr>fpos := FSelect, outCh := outCh s @ [Forwarded m]\<rparr>)"
| f_panic: "fpos s = FSending m \<Longrightarrow> outClosed s \<Longrightarrow> scrape_step r s (s\<lparr>fpos := FEnded\<rparr>)"
| m_result: "mpos s = MSelect \<Longrightarrow> errCh s = Some e \<Longrightarrow> scrape_step r s (s\<lparr>mpos := MWait e, errCh := None\<rparr>)"
| m_waited: "mpos s = MWait e \<Longrightarrow> fpos s = FEnded \<Longrightarrow> scrape_step r s (s\<lparr>mpos := MReport e\<rparr>)"
| m_report: "mpos s = MReport e \<Longrightarrow>
     scrape_step r s (s\<lparr>mpos := MReturned (statusOf e), outCh := outCh s @ [Duration d]\<rparr>)"
| m_timeout: "mpos s = MSelect \<Longrightarrow> ctxDone s \<Longrightarrow> scrape_step r s (s\<lparr>mpos := MTimeout, timeoutFlag := True\<rparr>)"
| m_pending: "mpos s = MTimeout \<Longrightarrow>
     scrape_step r s (s\<lparr>mpos := MReturned Pending, draining := True, outCh := outCh s @ [Duration d]\<rparr>)"
| drain: "draining s \<Longrightarrow> bufCh s = m # ms \<Longrightarrow> scrape_step r s (s\<lparr>bufCh := ms\<rparr>)"
| registry_close: "mpos s = MReturned st \<Longrightarrow> \<not> outClosed s \<Longrightarrow> scrape_step r s (s\<lparr>outClosed := True\<rparr>)"

text \<open>What \<open>ch\<close> received of the collector's metrics.\<close>

fun forwarded :: "item list \<Rightarrow> metric list" where
  "forwarded [] = []"
| "forwarded (Forwarded m # is) = m # forwarded is"
| "forwarded (Duration d # is) = forwarded is"

lemma forwarded_append [simp]: "forwarded (xs @ ys) = forwarded xs @ forwarded ys"
  by (induction xs rule: forwarded.induct) auto

fun inFlight :: "forwarder_pos \<Rightarrow> metric list" where
  "inFlight FSelect = []"
| "inFlight (FReceived m) = [m]"
| "inFlight (FSending m) = [m]"
| "inFlight FEnded = []"

section \<open>Invariant\<close>

definition returned :: "caller_pos \<Rightarrow> bool" where
  "returned p \<longleftrightarrow> (case p of MReturned st \<Rightarrow> True | _ \<Rightarrow> False)"

text \<open>
  Without a timeout nothing is lost: what was forwarded, what is under way and what is still to
  be sent is the collector's output, in its order. The other parts say which positions of the
  goroutines go together.
\<close>

definition inv_data :: "collector_run \<Rightarrow> scrape \<Rightarrow> bool" where
  "inv_data r s \<longleftrightarrow>
     (\<not> timeoutFlag s \<longrightarrow> forwarded (outCh s) @ inFlight (fpos s) @ bufCh s @ toSend s = runMetrics r) \<and>
     prefix (forwarded (outCh s) @ (case fpos s of FSending m \<Rightarrow> [m] | _ \<Rightarrow> [])) (runMetrics r)"

definition inv_timeout :: "scrape \<Rightarrow> bool" where
  "inv_timeout s \<longleftrightarrow>
     (timeoutFlag s \<longleftrightarrow> mpos s = MTimeout \<or> mpos s = MReturned Pending) \<and>
     (timeoutFlag s \<longrightarrow> ctxDone s) \<and>
     (draining s \<longleftrightarrow> mpos s = MReturned Pending) \<and>
     (outClosed s \<longrightarrow> returned (mpos s))"

definition inv_result :: "collector_run \<Rightarrow> scrape \<Rightarrow> bool" where
  "inv_result r s \<longleftrightarrow>
     (cpos s = Collecting \<longrightarrow> errCh s = None) \<and>
     (cpos s \<noteq> Collecting \<longrightarrow> toSend s = []) \<and>
     (cpos s \<noteq> Collecting \<and> mpos s = MSelect \<longrightarrow> errCh s = Some (runResult r)) \<and>
     errCh s \<in> {None, Some (runResult r)} \<and>
     (case mpos s of
        MSelect \<Rightarrow> True
      | MWait e \<Rightarrow> e = runResult r \<and> cpos s \<noteq> Collecting
      | MReport e \<Rightarrow> e = runResult r \<and> cpos s \<noteq> Collecting \<and> fpos s = FEnded
      | MTimeout \<Rightarrow> True
      | MReturned st \<Rightarrow> st = Pending \<or> st = statusOf (runResult r) \<and> cpos s \<noteq> Collecting \<and> fpos s = FEnded)"

definition inv_forwarder :: "scrape \<Rightarrow> bool" where
  "inv_forwarder s \<longleftrightarrow> (fpos s = FEnded \<and> \<not> ctxDone s \<longrightarrow> bufCh s = [] \<and> cpos s = Closed) \<and> length (bufCh s) \<le> bufCap"

definition scrape_inv :: "collector_run \<Rightarrow> scrape \<Rightarrow> bool" where
  "scrape_inv r s \<longleftrightarrow> inv_data r s \<and> inv_timeout s \<and> inv_result r s \<and> inv_forwarder s"

lemma statusOf_not_Pending [simp]: "statusOf e \<noteq> Pending"
  by (simp add: statusOf_def split: option.split)

lemma returned_simps [simp]:
  "returned (MReturned st)" "\<not> returned MSelect" "\<not> returned (MWait e)" "\<not> returned (MReport e)" "\<not> returned MTimeout"
  by (simp_all add: returned_def)

lemma inv_timeout_step: "scrape_step r s s' \<Longrightarrow> inv_timeout s \<Longrightarrow> inv_timeout s'"
  by (induction rule: scrape_step.induct) (auto simp: inv_timeout_def)

lemma inv_result_step: "scrape_step r s s' \<Longrightarrow> inv_result r s \<Longrightarrow> inv_result r s'"
  by (induction rule: scrape_step.induct) (auto simp: inv_result_def split: caller_pos.splits)

lemma inv_forwarder_step:
  assumes "scrape_step r s s'" and "inv_forwarder s" and "inv_timeout s" and "inv_result r s"
  shows "inv_forwarder s'"
  using assms
  by (induction rule: scrape_step.induct)
     (auto simp: inv_forwarder_def inv_timeout_def inv_result_def split: caller_pos.splits if_splits)

lemma inv_data_step:
  assumes "scrape_step r s s'" and "inv_data r s" and "inv_timeout s" and "inv_result r s"
  shows "inv_data r s'"
  using assms
proof (induction rule: scrape_step.induct)
  case (f_panic s m)
  then show ?case
    by (cases "mpos s") (auto simp: inv_data_def inv_timeout_def inv_result_def dest: append_prefixD)
next
  case (f_check s m)
  then show ?case by (auto simp: inv_data_def prefix_def)
qed (auto simp: inv_data_def inv_timeout_def split: forwarder_pos.splits)

section \<open>Termination\<close>

fun collector_weight :: "collector_pos \<Rightarrow> nat" where
  "collector_weight Collecting = 2" | "collector_weight ResultSent = 1" | "collector_weight Closed = 0"

fun forwarder_weight :: "forwarder_pos \<Rightarrow> nat" where
  "forwarder_weight FSelect = 1" | "forwarder_weight (FReceived m) = 3" | "forwarder_weight (FSending m) = 2"
| "forwarder_weight FEnded = 0"

fun caller_weight :: "caller_pos \<Rightarrow> nat" where
  "caller_weight MSelect = 3" | "caller_weight (MWait e) = 2" | "caller_weight (MReport e) = 1"
| "caller_weight MTimeout = 1" | "caller_weight (MReturned st) = 0"

definition scrape_weight :: "scrape \<Rightarrow> nat" where
  "scrape_weight s =
     4 * length (toSend s) + 3 * length (bufCh s) + collector_weight (cpos s) + forwarder_weight (fpos s) +
     caller_weight (mpos s) + (if ctxDone s then 0 else 1) + (if outClosed s then 0 else 1)"

lemma weight_step: "scrape_step r s s' \<Longrightarrow> scrape_weight s' < scrape_weight s"
  by (induction rule: scrape_step.induct) (auto simp: scrape_weight_def)

interpretation scrape: terminating_system "scrape_step r" "\<lambda>s. s = scrape_init r" "scrape_inv r" scrape_weight
proof
  show "scrape_inv r s" if "s = scrape_init r" for s
    unfolding that
    by (simp add: scrape_inv_def inv_data_def inv_timeout_def inv_result_def inv_forwarder_def scrape_init_def)
  show "scrape_inv r s'" if "scrape_inv r s" and "scrape_step r s s'" for s s'
    using that inv_data_step inv_timeout_step inv_result_step inv_forwarder_step unfolding scrape_inv_def by blast
  show "scrape_weight s' < scrape_weight s" if "scrape_inv r s" and "scrape_step r s s'" for s s'
    using that(2) by (rule weight_step)
qed

inductive_simps scrape_step_iff: "scrape_step r s s'"

text \<open>A state without a next step: every goroutine has ended.\<close>

lemma stuck_all_ended:
  assumes "scrape_inv r s" and "\<nexists>s'. scrape_step r s s'"
  shows "returned (mpos s) \<and> cpos s = Closed \<and> fpos s = FEnded \<and> (draining s \<longrightarrow> bufCh s = [])"
proof -
  note stuck = assms(2)
  have ctx: "ctxDone s" using stuck scrape_step.expire by blast
  have fwd: "fpos s = FEnded"
    using stuck ctx scrape_step.f_done scrape_step.f_check scrape_step.f_send scrape_step.f_panic
    by (cases "fpos s") blast+
  have main: "returned (mpos s)"
    using stuck ctx fwd scrape_step.m_timeout scrape_step.m_waited scrape_step.m_report scrape_step.m_pending
    by (cases "mpos s") (auto simp: returned_def, blast+)
  have drained: "bufCh s = []" if "draining s"
    using that stuck scrape_step.drain by (cases "bufCh s") blast+
  have "cpos s = Closed"
  proof (cases "cpos s")
    case Collecting
    then have "draining s"
      using assms(1) main by (cases "mpos s") (auto simp: scrape_inv_def inv_result_def inv_timeout_def)
    then have "length (bufCh s) < bufCap" using drained by (simp add: bufCap_def)
    then have "toSend s = []" using Collecting stuck scrape_step.send by (cases "toSend s") blast+
    moreover have "errCh s = None" using assms(1) Collecting by (simp add: scrape_inv_def inv_result_def)
    ultimately show ?thesis using Collecting stuck scrape_step.result by blast
  next
    case ResultSent
    then show ?thesis using stuck scrape_step.close by blast
  qed
  then show ?thesis using fwd main drained by blast
qed

section \<open>Properties of one collector's scrape\<close>

text \<open>
  C2: A scrape of one collector comes to an end whatever the order of its goroutines' steps:
  no run goes on for ever, and where no step is possible any more the caller has returned and
  no goroutine is left, neither the collector's (with the channel closed) nor the forwarder.
\<close>

theorem collectCollector_ends:
  "\<not> (\<exists>run. run 0 = scrape_init r \<and> (\<forall>i. scrape_step r (run i) (run (Suc i)))) \<and>
   {s. (scrape_step r)\<^sup>*\<^sup>* (scrape_init r) s \<and> \<not> (\<exists>s'. scrape_step r s s')}
     \<subseteq> {s. returned (mpos s) \<and> cpos s = Closed \<and> fpos s = FEnded}"
proof (intro conjI subsetI notI)
  assume "\<exists>run. run 0 = scrape_init r \<and> (\<forall>i. scrape_step r (run i) (run (Suc i)))"
  then obtain run where "run 0 = scrape_init r" and "\<forall>i. scrape_step r (run i) (run (Suc i))" by blast
  then show False using scrape.no_infinite_run [of r run] scrape.inv_init by blast
next
  fix s
  assume "s \<in> {s. (scrape_step r)\<^sup>*\<^sup>* (scrape_init r) s \<and> \<not> (\<exists>s'. scrape_step r s s')}"
  then show "s \<in> {s. returned (mpos s) \<and> cpos s = Closed \<and> fpos s = FEnded}"
    using scrape.inv_reachable [of "scrape_init r" r s] stuck_all_ended [of r s] by blast
qed

text \<open>
  C3: If the context did not expire before \<open>collectCollector\<close> returned, then every metric of the
  collector has been passed on, in the order in which it was sent, and the status is the one of
  the collector's result: a panic or an error other than "no data" is a failure.
\<close>

theorem collectCollector_complete:
  assumes "(scrape_step r)\<^sup>*\<^sup>* (scrape_init r) s" and "mpos s = MReturned st" and "\<not> ctxDone s"
  shows "forwarded (outCh s) = runMetrics r \<and> st = statusOf (runResult r)"
proof -
  have "scrape_inv r s" using scrape.inv_reachable assms(1) by blast
  then show ?thesis
    using assms(2,3) by (auto simp: scrape_inv_def inv_data_def inv_timeout_def inv_result_def inv_forwarder_def)
qed

text \<open>
  C4: At any moment of any run, timeout or not, what was passed on is an initial part of the
  collector's output: no metric is reordered, repeated or made up. And when the caller has
  returned, its status is "pending", which happens only after the context expired, or the
  status of the collector's result.
\<close>

theorem collectCollector_safe:
  assumes "(scrape_step r)\<^sup>*\<^sup>* (scrape_init r) s"
  shows "prefix (forwarded (outCh s)) (runMetrics r) \<and>
    (case mpos s of MReturned Pending \<Rightarrow> ctxDone s | MReturned st \<Rightarrow> st = statusOf (runResult r) | _ \<Rightarrow> True)"
proof -
  have inv: "scrape_inv r s" using scrape.inv_reachable assms by blast
  then have "prefix (forwarded (outCh s)) (runMetrics r)"
    unfolding scrape_inv_def inv_data_def using append_prefixD by blast
  with inv show ?thesis
    by (auto simp: scrape_inv_def inv_timeout_def inv_result_def split: caller_pos.splits collectorStatusCode.splits)
qed

section \<open>Two runs\<close>

definition sampleRun :: collector_run where
  "sampleRun = \<lparr>runName = ''os'', runMetrics = [ConstMetric (NewDesc (FullName ''up'') [] []) GaugeValue (F_Fin 1) []],
     runOutcome = Ended None\<rparr>"

abbreviation sampleMetric :: metric where
  "sampleMetric \<equiv> ConstMetric (NewDesc (FullName ''up'') [] []) GaugeValue (F_Fin 1) []"

lemma steps_Cons: "scrape_step r s s' \<Longrightarrow> (scrape_step r)\<^sup>*\<^sup>* s' t \<Longrightarrow> (scrape_step r)\<^sup>*\<^sup>* s t"
  by (rule converse_rtranclp_into_rtranclp)

lemma sampleRun_complete:
  "(scrape_step sampleRun)\<^sup>*\<^sup>* (scrape_init sampleRun)
     \<lparr>toSend = [], cpos = Closed, bufCh = [], errCh = None, ctxDone = False, fpos = FEnded, timeoutFlag = False,
      mpos = MReturned Success, draining = False, outCh = [Forwarded sampleMetric, Duration (F_Fin 0)], outClosed = False\<rparr>"
  unfolding scrape_init_def
  apply (rule steps_Cons, rule scrape_step.send, simp, simp add: sampleRun_def, simp add: bufCap_def)
  apply (rule steps_Cons, rule scrape_step.result, simp, simp, simp)
  apply (rule steps_Cons, rule scrape_step.close, simp)
  apply (rule steps_Cons, rule scrape_step.f_receive, simp, simp)
  apply (rule steps_Cons, rule scrape_step.f_check, simp)
  apply (rule steps_Cons, rule scrape_step.f_send, simp, simp)
  apply (rule steps_Cons, rule scrape_step.f_closed, simp, simp, simp)
  apply (rule steps_Cons, rule scrape_step.m_result, simp, simp)
  apply (rule steps_Cons, rule scrape_step.m_waited, simp, simp)
  apply (rule steps_Cons, rule scrape_step.m_report [where d = "F_Fin 0"], simp)
  apply (simp add: statusOf_def runResult_def sampleRun_def)
  done

text \<open>The context expires after the result arrived, while the caller waits for the forwarder.\<close>

lemma sampleRun_lossy:
  "(scrape_step sampleRun)\<^sup>*\<^sup>* (scrape_init sampleRun)
     \<lparr>toSend = [], cpos = Closed, bufCh = [sampleMetric], errCh = None, ctxDone = True, fpos = FEnded, timeoutFlag = False,
      mpos = MReturned Success, draining = False, outCh = [Duration (F_Fin 0)], outClosed = False\<rparr>"
  unfolding scrape_init_def
  apply (rule steps_Cons, rule scrape_step.send, simp, simp add: sampleRun_def, simp add: bufCap_def)
  apply (rule steps_Cons, rule scrape_step.result, simp, simp, simp)
  apply (rule steps_Cons, rule scrape_step.close, simp)
  apply (rule steps_Cons, rule scrape_step.m_result, simp, simp)
  apply (rule steps_Cons, rule scrape_step.expire, simp)
  apply (rule steps_Cons, rule scrape_step.f_done, simp, simp)
  apply (rule steps_Cons, rule scrape_step.m_waited, simp, simp)
  apply (rule steps_Cons, rule scrape_step.m_report [where d = "F_Fin 0"], simp)
  apply (simp add: statusOf_def runResult_def sampleRun_def)
  done

theorem collectCollector_complete_witness:
  "\<exists>s. (scrape_step sampleRun)\<^sup>*\<^sup>* (scrape_init sampleRun) s \<and> mpos s = MReturned Success \<and>
     forwarded (outCh s) = [sampleMetric]"
  using collectCollector_complete [OF sampleRun_complete] sampleRun_complete by (auto simp: sampleRun_def)

theorem collectCollector_safe_witness:
  "\<exists>s. (scrape_step sampleRun)\<^sup>*\<^sup>* (scrape_init sampleRun) s \<and> ctxDone s \<and> prefix (forwarded (outCh s)) (runMetrics sampleRun)"
  using collectCollector_safe [OF sampleRun_lossy] sampleRun_lossy by auto

text \<open>
  C18: A collector can be reported as successful although its metrics were not passed on: when
  the context expires after the caller has received the result, the forwarder may leave its
  loop with metrics still in the buffer, and the caller returns the success.
\<close>

theorem success_with_lost_metrics:
  "\<exists>r s. (scrape_step r)\<^sup>*\<^sup>* (scrape_init r) s \<and> mpos s = MReturned Success \<and>
     forwarded (outCh s) = [] \<and> runMetrics r \<noteq> [] \<and> \<not> (\<exists>s'. scrape_step r s s' \<and> forwarded (outCh s') \<noteq> [])"
proof -
  let ?s = "\<lparr>toSend = [], cpos = Closed, bufCh = [sampleMetric], errCh = None, ctxDone = True, fpos = FEnded, timeoutFlag = False,
      mpos = MReturned Success, draining = False, outCh = [Duration (F_Fin 0)], outClosed = False\<rparr>"
  have "forwarded (outCh s') = []" if "scrape_step sampleRun ?s s'" for s'
    using that by (auto simp: scrape_step_iff)
  moreover have "runMetrics sampleRun \<noteq> []" by (simp add: sampleRun_def)
  ultimately show ?thesis using sampleRun_lossy by (intro exI [of _ sampleRun] exI [of _ ?s]) auto
qed

section \<open>collectAll\<close>

definition scrapeDurationDesc :: Desc where
  "scrapeDurationDesc = NewDesc (BuildFQName Namespace ''exporter'' ''scrape_duration_seconds'')
     ''windows_exporter: Total scrape duration.'' []"

definition collectorScrapeDurationDesc :: Desc where
  "collectorScrapeDurationDesc = NewDesc (BuildFQName Namespace ''exporter'' ''collector_duration_seconds'')
     ''windows_exporter: Duration of a collection.'' [''collector'']"

definition collectorScrapeSuccessDesc :: Desc where
  "collectorScrapeSuccessDesc = NewDesc (BuildFQName Namespace ''exporter'' ''collector_success'')
     ''windows_exporter: Whether the collector was successful.'' [''collector'']"

definition collectorScrapeTimeoutDesc :: Desc where
  "collectorScrapeTimeoutDesc = NewDesc (BuildFQName Namespace ''exporter'' ''collector_timeout'')
     ''windows_exporter: Whether the collector timed out.'' [''collector'']"

lemmas scrape_descs = scrapeDurationDesc_def collectorScrapeDurationDesc_def collectorScrapeSuccessDesc_def
  collectorScrapeTimeoutDesc_def

text \<open>The metrics an entry of \<open>ch\<close> stands for, for the collector named \<open>name\<close>.\<close>

fun itemMetric :: "string \<Rightarrow> item \<Rightarrow> metric" where
  "itemMetric name (Forwarded m) = m"
| "itemMetric name (Duration d) = ConstMetric collectorScrapeDurationDesc GaugeValue d [name]"

text \<open>The loop of \<open>collectAll\<close> over the statuses, in the order in which they arrived.\<close>

definition statusMetrics :: "string \<times> collectorStatusCode \<Rightarrow> metric list" where
  "statusMetrics ns =
     (let timeoutValue = (if snd ns = Pending then F_Fin 1 else F_Fin 0);
          successValue = (if snd ns = Success then F_Fin 1 else F_Fin 0)
      in [ConstMetric collectorScrapeSuccessDesc GaugeValue successValue [fst ns],
          ConstMetric collectorScrapeTimeoutDesc GaugeValue timeoutValue [fst ns]])"

definition collectAllStatus :: "(string \<times> collectorStatusCode) list \<Rightarrow> f64 \<Rightarrow> metric list" where
  "collectAllStatus statuses d = concat (map statusMetrics statuses) @ [ConstMetric scrapeDurationDesc GaugeValue d []]"

text \<open>
  What a concurrent execution leaves in \<open>ch\<close>. For every collector there is its state when
  \<open>collectCollector\<close> returned and its state at the end; up to the last return, \<open>ch\<close> holds an interleaving
  of what the collectors' goroutines sent, and after it the metrics of the status loop, mixed
  with what a forwarder that was past its check still sends.
\<close>

inductive interleave :: "'a list list \<Rightarrow> 'a list \<Rightarrow> bool" where
  finish: "list_all (\<lambda>xs. xs = []) xss \<Longrightarrow> interleave xss []"
| pick: "i < length xss \<Longrightarrow> xss ! i = x # xs \<Longrightarrow> interleave (xss[i := xs]) ys \<Longrightarrow> interleave xss (x # ys)"

record finished =
  fin_run :: collector_run
  fin_return :: scrape
  fin_end :: scrape
  fin_status :: collectorStatusCode
  fin_late :: "item list"

definition finished_ok :: "finished \<Rightarrow> bool" where
  "finished_ok f \<longleftrightarrow>
     (scrape_step (fin_run f))\<^sup>*\<^sup>* (scrape_init (fin_run f)) (fin_return f) \<and> mpos (fin_return f) = MReturned (fin_status f) \<and>
     (scrape_step (fin_run f))\<^sup>*\<^sup>* (fin_return f) (fin_end f) \<and> outCh (fin_end f) = outCh (fin_return f) @ fin_late f"

abbreviation sent :: "finished \<Rightarrow> item list \<Rightarrow> metric list" where
  "sent f is \<equiv> map (itemMetric (runName (fin_run f))) is"

definition nameStatus :: "finished \<Rightarrow> string \<times> collectorStatusCode" where
  "nameStatus f = (runName (fin_run f), fin_status f)"

inductive collectAll :: "finished list \<Rightarrow> metric list \<Rightarrow> bool" where
  "list_all finished_ok fs \<Longrightarrow>
   interleave (map (\<lambda>f. sent f (outCh (fin_return f))) fs) body \<Longrightarrow>
   mset arrived = mset (map nameStatus fs) \<Longrightarrow>
   interleave (collectAllStatus arrived d # map (\<lambda>f. sent f (fin_late f)) fs) tail \<Longrightarrow>
   collectAll fs (body @ tail)"

lemma mset_interleave: "interleave xss ys \<Longrightarrow> mset ys = mset (concat xss)"
proof (induction rule: interleave.induct)
  case (finish xss)
  then show ?case by (simp add: list_all_iff)
next
  case (pick i xss x xs ys)
  have split: "xss = take i xss @ (x # xs) # drop (Suc i) xss"
    using pick.hyps(1,2) by (metis id_take_nth_drop)
  have "xss[i := xs] = take i xss @ xs # drop (Suc i) xss"
    using pick.hyps(1) by (rule upd_conv_take_nth_drop)
  then have "mset (x # ys) = add_mset x (mset (concat (take i xss @ xs # drop (Suc i) xss)))" using pick.IH by simp
  also have "\<dots> = mset (concat (take i xss @ (x # xs) # drop (Suc i) xss))" by simp
  finally show ?case using split by simp
qed

definition ownDescs :: "Desc set" where
  "ownDescs = {collectorScrapeSuccessDesc, collectorScrapeTimeoutDesc, scrapeDurationDesc, collectorScrapeDurationDesc}"

definition isStatus :: "metric \<Rightarrow> bool" where
  "isStatus m \<longleftrightarrow> metric_desc m = collectorScrapeSuccessDesc \<or> metric_desc m = collectorScrapeTimeoutDesc"

lemma set_forwarded: "Forwarded m \<in> set is \<longleftrightarrow> m \<in> set (forwarded is)"
  by (induction "is" rule: forwarded.induct) auto

lemma finished_sent_not_status:
  assumes "finished_ok f" and "list_all (\<lambda>m. metric_desc m \<notin> ownDescs) (runMetrics (fin_run f))"
  shows "filter isStatus (sent f (outCh (fin_return f) @ fin_late f)) = []"
proof -
  let ?s = "fin_end f"
  have "(scrape_step (fin_run f))\<^sup>*\<^sup>* (scrape_init (fin_run f)) ?s"
    using assms(1) unfolding finished_ok_def by (meson rtranclp_trans)
  then have "prefix (forwarded (outCh ?s)) (runMetrics (fin_run f))"
    using scrape.inv_reachable [of _ "fin_run f" ?s] append_prefixD unfolding scrape_inv_def inv_data_def by blast
  then have "\<not> isStatus m" if "Forwarded m \<in> set (outCh ?s)" for m
    using that assms(2) set_mono_prefix unfolding set_forwarded
    by (fastforce simp: list_all_iff isStatus_def ownDescs_def)
  moreover have "\<not> isStatus (itemMetric n (Duration d))" for n d
    by (simp add: isStatus_def scrape_descs NewDesc_def)
  ultimately have "\<not> isStatus (itemMetric n i)" if "i \<in> set (outCh ?s)" for n i
    using that by (cases i) auto
  then show ?thesis
    using assms(1) unfolding finished_ok_def by (auto simp: filter_empty_conv)
qed

lemma filter_status_statusMetrics: "filter isStatus (collectAllStatus arrived d) = concat (map statusMetrics arrived)"
proof -
  have "filter isStatus (statusMetrics ns) = statusMetrics ns" for ns
    by (simp add: statusMetrics_def isStatus_def Let_def)
  then have "filter isStatus (concat (map statusMetrics arrived)) = concat (map statusMetrics arrived)"
    by (simp add: filter_concat comp_def)
  then show ?thesis by (simp add: collectAllStatus_def isStatus_def scrape_descs NewDesc_def)
qed

lemma filter_concat_Nil: "(\<And>x. x \<in> set xs \<Longrightarrow> filter P (g x) = []) \<Longrightarrow> filter P (concat (map g xs)) = []"
  by (induction xs) auto

text \<open>A collector's run is no failure when it ended without an error or with one that only says that there is no data.\<close>

definition noFailure :: "outcome \<Rightarrow> bool" where
  "noFailure r =
     (case r of
        Ended None \<Rightarrow> True
      | Ended (Some e) \<Rightarrow> errors_is e pdh_ErrNoData \<or> errors_is e types_ErrNoData
      | Panicked msg \<Rightarrow> False)"

lemma statusOf_Success: "statusOf (runResult r) = Success \<longleftrightarrow> noFailure (runOutcome r)"
  by (auto simp: statusOf_def runResult_def noFailure_def split: outcome.splits option.splits)

lemma finished_status:
  assumes "finished_ok f"
  shows "fin_status f = Success \<longleftrightarrow> fin_status f \<noteq> Pending \<and> noFailure (runOutcome (fin_run f))"
    and "fin_status f = Pending \<Longrightarrow> ctxDone (fin_return f)"
proof -
  have inv: "scrape_inv (fin_run f) (fin_return f)" "mpos (fin_return f) = MReturned (fin_status f)"
    using assms scrape.inv_reachable by (auto simp: finished_ok_def)
  then have "fin_status f = Pending \<or> fin_status f = statusOf (runResult (fin_run f))" by (auto simp: scrape_inv_def inv_result_def)
  then show "fin_status f = Success \<longleftrightarrow> fin_status f \<noteq> Pending \<and> noFailure (runOutcome (fin_run f))"
    unfolding statusOf_Success [symmetric] by auto
  show "ctxDone (fin_return f)" if "fin_status f = Pending" using inv that by (auto simp: scrape_inv_def inv_timeout_def)
qed

text \<open>
  C5: A whole scrape reports every collector exactly once. Whatever the interleaving, the status
  metrics in the channel are, for each collector, one success and one timeout metric with its name: the timeout
  metric is 1 if the collector was cut off and 0 otherwise, the success metric is 1 if it was not cut off and ended
  without an error (or with "no data") and 0 otherwise, and a collector is cut off only when the time is over.
\<close>

theorem collectAll_reports_each_collector:
  assumes "collectAll fs ch"
    and "list_all (\<lambda>f. list_all (\<lambda>m. metric_desc m \<notin> ownDescs) (runMetrics (fin_run f))) fs"
  shows "mset (filter isStatus ch) = mset (concat (map (\<lambda>f.
       [ConstMetric collectorScrapeSuccessDesc GaugeValue
          (if fin_status f \<noteq> Pending \<and> noFailure (runOutcome (fin_run f)) then F_Fin 1 else F_Fin 0) [runName (fin_run f)],
        ConstMetric collectorScrapeTimeoutDesc GaugeValue (if fin_status f = Pending then F_Fin 1 else F_Fin 0) [runName (fin_run f)]]) fs)) \<and>
    list_all (\<lambda>f. fin_status f = Pending \<longrightarrow> ctxDone (fin_return f)) fs"
  using assms(1)
proof cases
  case (1 body arrived d tail)
  have none: "filter isStatus (sent f (outCh (fin_return f))) = [] \<and> filter isStatus (sent f (fin_late f)) = []"
    if "f \<in> set fs" for f
    using finished_sent_not_status [of f] 1(2) assms(2) that by (simp add: list_all_iff)
  have "mset (filter isStatus body) = mset (filter isStatus (concat (map (\<lambda>f. sent f (outCh (fin_return f))) fs)))"
    using mset_interleave [OF 1(3)] by (metis mset_filter)
  also have "\<dots> = {#}" using none filter_concat_Nil [of fs isStatus] by simp
  finally have body: "mset (filter isStatus body) = {#}" .
  have "mset (filter isStatus tail) =
      mset (filter isStatus (concat (collectAllStatus arrived d # map (\<lambda>f. sent f (fin_late f)) fs)))"
    using mset_interleave [OF 1(5)] by (metis mset_filter)
  also have "\<dots> = mset (filter isStatus (collectAllStatus arrived d))"
    using none filter_concat_Nil [of fs isStatus "\<lambda>f. sent f (fin_late f)"] by simp
  also have "\<dots> = mset (concat (map statusMetrics arrived))"
    unfolding filter_status_statusMetrics ..
  also have "\<dots> = mset (concat (map statusMetrics (map nameStatus fs)))"
    unfolding mset_concat using 1(4) by (metis mset_map sum_mset_sum_list)
  finally have "mset (filter isStatus ch) = mset (concat (map (\<lambda>f. statusMetrics (nameStatus f)) fs))"
    using 1(1) body by (simp add: comp_def)
  also have "map (\<lambda>f. statusMetrics (nameStatus f)) fs = map (\<lambda>f.
       [ConstMetric collectorScrapeSuccessDesc GaugeValue
          (if fin_status f \<noteq> Pending \<and> noFailure (runOutcome (fin_run f)) then F_Fin 1 else F_Fin 0) [runName (fin_run f)],
        ConstMetric collectorScrapeTimeoutDesc GaugeValue (if fin_status f = Pending then F_Fin 1 else F_Fin 0) [runName (fin_run f)]]) fs"
    using 1(2) finished_status(1) by (auto simp: list_all_iff statusMetrics_def nameStatus_def Let_def)
  finally show ?thesis using 1(2) finished_status(2) by (auto simp: list_all_iff)
qed

lemma interleave_first: "list_all (\<lambda>ys. ys = []) yss \<Longrightarrow> interleave (xs # yss) xs"
proof (induction xs)
  case Nil
  then show ?case by (intro interleave.finish) simp
next
  case (Cons x xs)
  then show ?case using interleave.pick [of 0 "(x # xs) # yss" x xs xs] by simp
qed

abbreviation sampleEnd :: scrape where
  "sampleEnd \<equiv> \<lparr>toSend = [], cpos = Closed, bufCh = [], errCh = None, ctxDone = False, fpos = FEnded, timeoutFlag = False,
     mpos = MReturned Success, draining = False, outCh = [Forwarded sampleMetric, Duration (F_Fin 0)], outClosed = False\<rparr>"

definition sampleFinished :: finished where
  "sampleFinished = \<lparr>fin_run = sampleRun, fin_return = sampleEnd, fin_end = sampleEnd, fin_status = Success, fin_late = []\<rparr>"

lemma sampleFinished_sel [simp]:
  "fin_run sampleFinished = sampleRun" "fin_return sampleFinished = sampleEnd" "fin_end sampleFinished = sampleEnd"
  "fin_status sampleFinished = Success" "fin_late sampleFinished = []" "runName sampleRun = ''os''"
  by (simp_all add: sampleFinished_def sampleRun_def)

lemma collectAll_sample:
  "collectAll [sampleFinished] (sent sampleFinished (outCh sampleEnd) @ collectAllStatus [(''os'', Success)] (F_Fin 0))"
  by (rule collectAll.intros [where arrived = "[(''os'', Success)]" and d = "F_Fin 0"])
     (simp_all add: finished_ok_def sampleRun_complete nameStatus_def interleave_first)

theorem collectAll_reports_each_collector_witness:
  "\<exists>ch. collectAll [sampleFinished] ch \<and>
     mset (filter isStatus ch) = {# ConstMetric collectorScrapeSuccessDesc GaugeValue (F_Fin 1) [''os''],
                                    ConstMetric collectorScrapeTimeoutDesc GaugeValue (F_Fin 0) [''os''] #}"
proof -
  have "metric_desc sampleMetric \<notin> ownDescs" by (simp add: ownDescs_def scrape_descs NewDesc_def)
  then have own: "list_all (\<lambda>f. list_all (\<lambda>m. metric_desc m \<notin> ownDescs) (runMetrics (fin_run f))) [sampleFinished]"
    by (simp add: sampleRun_def)
  show ?thesis
    using collectAll_reports_each_collector [OF collectAll_sample own] collectAll_sample
    by (intro exI conjI) (auto simp: noFailure_def sampleRun_def)
qed

end
