(* ===== verification/Collection.thy ===== *)
theory Collection
  imports Mi Scrape
begin

text \<open>
  The set of collectors (pkg/collector: collection.go, map.go, types.go, handler.go): which
  collectors there are, how a subset is chosen, how all of them are built concurrently and
  closed, and the mutex that lets one scrape run at a time.

  A collector is seen through its interface: its name, what its \<open>Build\<close> and \<open>Close\<close> return and what its
  \<open>Collect\<close> does.
\<close>

section \<open>Collectors and collections\<close>

definition BuildersWithFlags :: "string list" where
  "BuildersWithFlags =
     [''ad'', ''adcs'', ''adfs'', ''cache'', ''container'', ''cpu'', ''cpu_info'', ''cs'', ''dfsr'', ''dhcp'', ''diskdrive'',
      ''dns'', ''eventlog'', ''exchange'', ''filetime'', ''fsrmquota'', ''hyperv'', ''iis'', ''license'', ''logical_disk'',
      ''logon'', ''memory'', ''mscluster'', ''msmq'', ''mssql'', ''net'', ''netframework'', ''nps'', ''os'', ''pagefile'',
      ''performancecounter'', ''physical_disk'', ''printer'', ''process'', ''remote_fx'', ''scheduled_task'', ''service'',
      ''smb'', ''smbclient'', ''smtp'', ''system'', ''tcp'', ''terminal_services'', ''textfile'', ''thermalzone'', ''time'',
      ''udp'', ''update'', ''vmware'']"

definition DefaultCollectors :: string where
  "DefaultCollectors = ''cpu,cs,memory,logical_disk,physical_disk,net,os,service,system,eventlog''"

text \<open>Strings in the order of Go's \<open><\<close>: bytes, lexicographically.\<close>

definition Available :: "string list" where
  "Available = sort BuildersWithFlags"

record CollectorIf =
  GetName :: string
  buildResult :: "Session option \<Rightarrow> go_error option"
  closeResult :: "go_error option"
  collectRun :: collector_run

record Collection =
  collectors :: "(string, CollectorIf) gomap"
  miSession :: "Session option"
  startTime :: int

definition New :: "(string, CollectorIf) gomap \<Rightarrow> Collection" where
  "New cs = \<lparr>collectors = cs, miSession = None, startTime = 0\<rparr>"

definition NewWithFlags :: "(string \<Rightarrow> CollectorIf) \<Rightarrow> Collection" where
  "NewWithFlags builder = New (map (\<lambda>n. (n, builder n)) BuildersWithFlags)"

definition Enable :: "string list \<Rightarrow> Collection \<Rightarrow> go_error option \<times> Collection" where
  "Enable enabledCollectors c =
     (case find (\<lambda>name. map_get (collectors c) name = None) enabledCollectors of
        Some name \<Rightarrow> (Some (ErrorText ''unknown collector %s'' [name]), c)
      | None \<Rightarrow> (None, c\<lparr>collectors := filter (\<lambda>(name, _). name \<in> set enabledCollectors) (collectors c)\<rparr>))"

definition WithCollectors :: "string list \<Rightarrow> Collection \<Rightarrow> go_error + Collection" where
  "WithCollectors names c = (case Enable names c of (Some e, _) \<Rightarrow> Inl e | (None, c') \<Rightarrow> Inr c')"

definition NewHandler :: "string list \<Rightarrow> Collection \<Rightarrow> go_error + Collection" where
  "NewHandler names c =
     (if names \<noteq> [] then
        (case WithCollectors names c of
           Inl e \<Rightarrow> Inl (Wrapf ''failed to create handler with collectors: %w'' [] e)
         | Inr c' \<Rightarrow> Inr c')
      else Inr c)"

section \<open>MI session and closing\<close>

definition initMI :: "u32 \<Rightarrow> 'w native \<Rightarrow> u64 \<Rightarrow> Collection \<Rightarrow> 'w \<Rightarrow> go_error option \<times> Collection \<times> 'w" where
  "initMI lastError native localeEnglish c w =
     (case Application_Initialize lastError native w of
        (Inl e, w1) \<Rightarrow> (Some (Wrapf ''error from initialize MI application: %w'' [] e), c, w1)
      | (Inr app, w1) \<Rightarrow>
          (case NewDestinationOptions native (Some app) w1 of
             (Inl e, w2) \<Rightarrow> (Some (Wrapf ''error from create NewDestinationOptions: %w'' [] e), c, w2)
           | (Inr opts, w2) \<Rightarrow>
               (case DestinationOptions_SetLocale native localeEnglish (Some opts) w2 of
                  (Some e, w3) \<Rightarrow> (Some (Wrapf ''error from set locale: %w'' [] e), c, w3)
                | (None, w3) \<Rightarrow>
                    (case NewSession native (Some app) (Some opts) w3 of
                       (Inl e, w4) \<Rightarrow> (Some (Wrapf ''error from create NewSession: %w'' [] e), c\<lparr>miSession := None\<rparr>, w4)
                     | (Inr s, w4) \<Rightarrow> (None, c\<lparr>miSession := Some s\<rparr>, w4)))))"

definition unless_not_initialized :: "string \<Rightarrow> go_error option \<Rightarrow> go_error option" where
  "unless_not_initialized msg err =
     (case err of
        None \<Rightarrow> None
      | Some e \<Rightarrow> if errors_is e mi_ErrNotInitialized then None else Some (Wrapf msg [] e))"

definition Close :: "'w native \<Rightarrow> Collection \<Rightarrow> 'w \<Rightarrow> go_error option \<times> 'w" where
  "Close native c w =
     (let closeErrs = map (\<lambda>(_, col). map_option (Wrapf ''error from close collector %s: %w'' [GetName col]) (closeResult col))
                        (collectors c);
          (app, w1) = GetApplication native (miSession c) w;
          (e2, w2) = Session_Close native (miSession c) w1;
          (e3, w3) = Application_Close native (case app of Inl _ \<Rightarrow> None | Inr a \<Rightarrow> Some a) w2
      in (errors_Join (non_nil (closeErrs @
             [unless_not_initialized ''error from get MI application: %w'' (case app of Inl e \<Rightarrow> Some e | Inr _ \<Rightarrow> None),
              unless_not_initialized ''error from close MI session: %w'' e2,
              unless_not_initialized ''error from close MI application: %w'' e3])), w3))"

section \<open>Building\<close>

text \<open>Errors of \<open>Build\<close> that only mean that the collector has nothing to report on this machine.\<close>

definition ignoredBuildError :: "go_error \<Rightarrow> bool" where
  "ignoredBuildError e \<longleftrightarrow>
     errors_is e pdh_ErrNoData \<or> errors_is e registry_ErrNotExist \<or> errors_is e (PdhError CstatusNoObject) \<or>
     errors_is e (PdhError CstatusNoCounter) \<or> errors_is e (MiError MI_RESULT_INVALID_NAMESPACE)"

definition wrapBuild :: "string \<Rightarrow> go_error option \<Rightarrow> go_error" where
  "wrapBuild name err =
     (case err of
        None \<Rightarrow> ErrorText ''error build collector %s: %w'' [name]
      | Some e \<Rightarrow> Wrapf ''error build collector %s: %w'' [name] e)"

text \<open>
  The goroutines of \<open>Build\<close>. The variable \<open>err\<close> is the one of the enclosing function, so all of
  them assign to it and read it: once for the test and once more for the message. Accesses
  are taken to be atomic. A goroutine that has an error sends it to \<open>errCh\<close>, which blocks while the channel is full, and calls
  \<open>wg.Done()\<close> when it returns; \<open>Build\<close> itself waits until the counter of \<open>wg\<close> is zero and then closes the channel, after which
  a send would panic.
\<close>

datatype build_pos = BStart | BAssigned | BFailed | BReturning | BDone

record building =
  positions :: "build_pos list"
  sharedErr :: "go_error option"
  buildErrs :: "go_error list"
  wgCounter :: nat
  errChClosed :: bool
  sendPanic :: bool

text \<open>\<open>errCh := make(chan error, len(c.collectors))\<close>\<close>

definition errChCap :: "CollectorIf list \<Rightarrow> nat" where
  "errChCap cs = length cs"

definition build_init :: "CollectorIf list \<Rightarrow> building" where
  "build_init cs = \<lparr>positions = replicate (length cs) BStart, sharedErr = None, buildErrs = [], wgCounter = length cs, errChClosed = False, sendPanic = False\<rparr>"

inductive build_step :: "CollectorIf list \<Rightarrow> Session option \<Rightarrow> building \<Rightarrow> building \<Rightarrow> bool" for cs s where
  assign: "i < length cs \<Longrightarrow> positions b ! i = BStart \<Longrightarrow>
     build_step cs s b (b\<lparr>sharedErr := buildResult (cs ! i) s, positions := (positions b)[i := BAssigned]\<rparr>)"
| check: "i < length cs \<Longrightarrow> positions b ! i = BAssigned \<Longrightarrow>
     build_step cs s b (b\<lparr>positions := (positions b)[i := (if sharedErr b = None then BReturning else BFailed)]\<rparr>)"
| report: "i < length cs \<Longrightarrow> positions b ! i = BFailed \<Longrightarrow> \<not> errChClosed b \<Longrightarrow> length (buildErrs b) < errChCap cs \<Longrightarrow>
     build_step cs s b (b\<lparr>buildErrs := buildErrs b @ [wrapBuild (GetName (cs ! i)) (sharedErr b)],
                         positions := (positions b)[i := BReturning]\<rparr>)"
| report_closed: "i < length cs \<Longrightarrow> positions b ! i = BFailed \<Longrightarrow> errChClosed b \<Longrightarrow>
     build_step cs s b (b\<lparr>sendPanic := True, positions := (positions b)[i := BDone]\<rparr>)"
| wg_done: "i < length cs \<Longrightarrow> positions b ! i = BReturning \<Longrightarrow>
     build_step cs s b (b\<lparr>wgCounter := wgCounter b - 1, positions := (positions b)[i := BDone]\<rparr>)"
| wg_wait: "wgCounter b = 0 \<Longrightarrow> \<not> errChClosed b \<Longrightarrow> build_step cs s b (b\<lparr>errChClosed := True\<rparr>)"

text \<open>After \<open>close(errCh)\<close>: the errors that are not ignored, joined.\<close>

definition finishBuild :: "building \<Rightarrow> go_error option" where
  "finishBuild b = errors_Join (filter (\<lambda>e. \<not> ignoredBuildError e) (buildErrs b))"

definition all_built :: "building \<Rightarrow> bool" where
  "all_built b \<longleftrightarrow> errChClosed b \<and> list_all (\<lambda>p. p = BDone) (positions b)"

text \<open>What the documentation of \<open>Build\<close> promises: every collector's error, joined.\<close>

definition buildSpec :: "CollectorIf list \<Rightarrow> Session option \<Rightarrow> go_error list" where
  "buildSpec cs s = concat (map (\<lambda>c. case buildResult c s of None \<Rightarrow> [] | Some e \<Rightarrow> [wrapBuild (GetName c) (Some e)]) cs)"

text \<open>The whole operation, as a relation: \<open>initMI\<close>, then some run of the goroutines.\<close>

inductive Build :: "u32 \<Rightarrow> 'w native \<Rightarrow> u64 \<Rightarrow> int \<Rightarrow> Collection \<Rightarrow> 'w \<Rightarrow> go_error option \<Rightarrow> Collection \<Rightarrow> 'w \<Rightarrow> bool" where
  no_MI: "initMI lastError native loc (c\<lparr>startTime := now\<rparr>) w = (Some e, c', w') \<Longrightarrow>
     Build lastError native loc now c w (Some (Wrapf ''error from initialize MI: %w'' [] e)) c' w'"
| built: "initMI lastError native loc (c\<lparr>startTime := now\<rparr>) w = (None, c', w') \<Longrightarrow>
     (build_step (map snd (collectors c')) (miSession c'))\<^sup>*\<^sup>* (build_init (map snd (collectors c'))) b \<Longrightarrow> all_built b \<Longrightarrow>
     Build lastError native loc now c w (finishBuild b) c' w'"

section \<open>Choosing collectors\<close>

lemma Enable_known:
  "list_all (\<lambda>n. map_get (collectors c) n \<noteq> None) names \<Longrightarrow>
     Enable names c = (None, c\<lparr>collectors := filter (\<lambda>(n, _). n \<in> set names) (collectors c)\<rparr>)"
proof -
  assume "list_all (\<lambda>n. map_get (collectors c) n \<noteq> None) names"
  then have "find (\<lambda>n. map_get (collectors c) n = None) names = None" by (auto simp: find_None_iff list_all_iff)
  then show ?thesis by (simp add: Enable_def)
qed

text \<open>
  C12: A request that names only enabled collectors is served by exactly these, unchanged, and a request that names
  none by all of them; a request with a name that is not an enabled collector is an error, and it names one of the
  unknown collectors.
\<close>

theorem NewHandler_selects:
  "case NewHandler names c of
     Inr c' \<Rightarrow> list_all (\<lambda>n. map_get (collectors c) n \<noteq> None) names \<and>
                map_get (collectors c') =
                (\<lambda>n. if names = [] \<or> n \<in> set names then map_get (collectors c) n else None) \<and> miSession c' = miSession c
   | Inl e \<Rightarrow> list_ex (\<lambda>n. map_get (collectors c) n = None \<and>
        e = Wrapf ''failed to create handler with collectors: %w'' [] (ErrorText ''unknown collector %s'' [n])) names"
proof (cases "find (\<lambda>n. map_get (collectors c) n = None) names")
  case None
  then have "list_all (\<lambda>n. map_get (collectors c) n \<noteq> None) names" by (auto simp: find_None_iff list_all_iff)
  with None show ?thesis
    by (auto simp: NewHandler_def WithCollectors_def Enable_def fun_eq_iff map_get_filter_key)
next
  case (Some n)
  then have "n \<in> set names" "map_get (collectors c) n = None" by (auto simp: find_Some_iff)
  then show ?thesis using Some by (auto simp: NewHandler_def WithCollectors_def Enable_def list_ex_iff)
qed

lemma map_of_map_pair: "map_of (map (\<lambda>n. (n, f n)) ns) k = (if k \<in> set ns then Some (f k) else None)"
  by (induction ns) auto

text \<open>
  The list of available collectors is sorted and has no duplicates, and the default
  collectors are among them: enabling the defaults succeeds and leaves the ten of them.
\<close>

theorem defaults_available:
  "sorted Available \<and> distinct Available \<and>
   Enable (Split DefaultCollectors (CHR '','')) (NewWithFlags builder) =
     (None, New (map (\<lambda>n. (n, builder n)) [''cpu'', ''cs'', ''eventlog'', ''logical_disk'', ''memory'', ''net'', ''os'',
        ''physical_disk'', ''service'', ''system'']))"
proof -
  have split: "Split DefaultCollectors (CHR '','') = [''cpu'', ''cs'', ''memory'', ''logical_disk'', ''physical_disk'', ''net'', ''os'',
      ''service'', ''system'', ''eventlog'']"
    by (simp add: DefaultCollectors_def)
  have "distinct BuildersWithFlags" by (simp add: BuildersWithFlags_def)
  moreover have "list_all (\<lambda>n. map_get (collectors (NewWithFlags builder)) n \<noteq> None) (Split DefaultCollectors (CHR '',''))"
    unfolding split by (simp add: NewWithFlags_def New_def BuildersWithFlags_def)
  from Enable_known [OF this] have "Enable (Split DefaultCollectors (CHR '','')) (NewWithFlags builder) =
     (None, New (map (\<lambda>n. (n, builder n)) [''cpu'', ''cs'', ''eventlog'', ''logical_disk'', ''memory'', ''net'', ''os'',
        ''physical_disk'', ''service'', ''system'']))"
    unfolding split by (simp add: NewWithFlags_def New_def BuildersWithFlags_def)
  ultimately show ?thesis by (simp add: Available_def)
qed

section \<open>Runs of Build\<close>

fun pos_weight :: "build_pos \<Rightarrow> nat" where
  "pos_weight BStart = 4" | "pos_weight BAssigned = 3" | "pos_weight BFailed = 2" | "pos_weight BReturning = 1" | "pos_weight BDone = 0"

definition build_weight :: "building \<Rightarrow> nat" where
  "build_weight b = sum_list (map pos_weight (positions b)) + (if errChClosed b then 0 else 1)"

text \<open>
  A message may have been made while another goroutine cleared the error, or from the error of
  another collector; but it is never made up.
\<close>

definition build_msg :: "CollectorIf list \<Rightarrow> Session option \<Rightarrow> go_error \<Rightarrow> bool" where
  "build_msg cs s e \<longleftrightarrow> list_ex (\<lambda>c. list_ex (\<lambda>d. e = wrapBuild (GetName c) (buildResult d s)) cs) cs"

text \<open>The goroutines that have not called \<open>wg.Done()\<close>, and those that may still send.\<close>

definition notDone :: "build_pos list \<Rightarrow> nat" where
  "notDone ps = sum_list (map (\<lambda>p. if p = BDone then 0 else 1) ps)"

definition maySend :: "build_pos list \<Rightarrow> nat" where
  "maySend ps = sum_list (map (\<lambda>p. if p = BReturning \<or> p = BDone then 0 else 1) ps)"

definition build_inv :: "CollectorIf list \<Rightarrow> Session option \<Rightarrow> building \<Rightarrow> bool" where
  "build_inv cs s b \<longleftrightarrow>
     length (positions b) = length cs \<and>
     (list_all (\<lambda>p. p = BStart) (positions b) \<or> sharedErr b \<in> (\<lambda>c. buildResult c s) ` set cs) \<and>
     list_all (build_msg cs s) (buildErrs b) \<and>
     (list_all (\<lambda>c. buildResult c s = None) cs \<longrightarrow> list_all (\<lambda>p. p \<noteq> BFailed) (positions b) \<and> buildErrs b = []) \<and>
     wgCounter b = notDone (positions b) \<and> length (buildErrs b) + maySend (positions b) \<le> errChCap cs \<and>
     (errChClosed b \<longrightarrow> notDone (positions b) = 0) \<and> \<not> sendPanic b"

lemma sum_list_update_add:
  "i < length xs \<Longrightarrow> sum_list (map f (xs[i := y])) + f (xs ! i) = (sum_list (map f xs) + f y :: nat)"
  by (induction xs arbitrary: i) (auto split: nat.split simp: nth_Cons')

lemma positive_at: "i < length xs \<Longrightarrow> f (xs ! i) \<le> (sum_list (map f xs) :: nat)"
  using member_le_sum_list [of "f (xs ! i)" "map f xs"] by simp

lemma build_weight_step: "build_inv cs s b \<Longrightarrow> build_step cs s b b' \<Longrightarrow> build_weight b' < build_weight b"
proof -
  assume inv: "build_inv cs s b" and step: "build_step cs s b b'"
  have less: "sum_list (map pos_weight ((positions b)[i := p])) < sum_list (map pos_weight (positions b))"
    if "i < length cs" "pos_weight p < pos_weight (positions b ! i)" for i p
    using sum_list_update_add [of i "positions b" pos_weight p] that inv by (simp add: build_inv_def)
  from step show ?thesis by cases (auto simp: build_weight_def less)
qed

lemma list_all_update: "list_all P xs \<Longrightarrow> P y \<Longrightarrow> list_all P (xs[i := y])"
  using set_update_subset_insert [of xs i y] by (auto simp: list_all_iff)

lemma build_inv_started:
  assumes "build_inv cs s b" and "i < length cs" and "positions b ! i \<noteq> BStart"
  shows "\<exists>d\<in>set cs. sharedErr b = buildResult d s"
  using assms by (auto simp: build_inv_def list_all_length)

text \<open>What moving one goroutine does to the two numbers.\<close>

lemma notDone_move:
  "i < length ps \<Longrightarrow> ps ! i \<noteq> BDone \<Longrightarrow> notDone (ps[i := p]) = (if p = BDone then notDone ps - 1 else notDone ps) \<and> 0 < notDone ps"
  using sum_list_update_add [of i ps "\<lambda>p. if p = BDone then 0 else 1" p]
    positive_at [of i ps "\<lambda>p. if p = BDone then 0 else 1"] by (auto simp: notDone_def)

lemma maySend_move:
  "i < length ps \<Longrightarrow> ps ! i \<noteq> BDone \<Longrightarrow> ps ! i \<noteq> BReturning \<Longrightarrow>
     maySend (ps[i := p]) = (if p = BReturning \<or> p = BDone then maySend ps - 1 else maySend ps) \<and> 0 < maySend ps"
  using sum_list_update_add [of i ps "\<lambda>p. if p = BReturning \<or> p = BDone then 0 else 1" p]
    positive_at [of i ps "\<lambda>p. if p = BReturning \<or> p = BDone then 0 else 1"] by (auto simp: maySend_def)

lemma maySend_return: "i < length ps \<Longrightarrow> ps ! i = BReturning \<Longrightarrow> maySend (ps[i := BDone]) = maySend ps"
  using sum_list_update_add [of i ps "\<lambda>p. if p = BReturning \<or> p = BDone then 0 else 1" BDone] by (auto simp: maySend_def)

lemma notDone_zero: "notDone ps = 0 \<longleftrightarrow> list_all (\<lambda>p. p = BDone) ps"
  by (induction ps) (auto simp: notDone_def)

lemma build_inv_step: "build_step cs s b b' \<Longrightarrow> build_inv cs s b \<Longrightarrow> build_inv cs s b'"
proof (induction rule: build_step.induct)
  case (assign i b)
  then have "i < length (positions b)" "positions b ! i \<noteq> BDone" "positions b ! i \<noteq> BReturning" by (auto simp: build_inv_def)
  then show ?case using assign notDone_move [of i "positions b" BAssigned] maySend_move [of i "positions b" BAssigned]
    by (auto simp: build_inv_def list_all_update)
next
  case (check i b)
  let ?p = "if sharedErr b = None then BReturning else BFailed"
  obtain d where d: "d \<in> set cs" "sharedErr b = buildResult d s"
    using build_inv_started [OF check.prems check.hyps(1)] check.hyps(2) by auto
  have "i < length (positions b)" "positions b ! i \<noteq> BDone" "positions b ! i \<noteq> BReturning" using check by (auto simp: build_inv_def)
  from notDone_move [OF this(1,2), of ?p] maySend_move [OF this, of ?p]
  show ?case using check.prems d by (auto simp: build_inv_def list_all_update list_all_iff [of _ cs])
next
  case (report i b)
  obtain d where d: "d \<in> set cs" "sharedErr b = buildResult d s"
    using build_inv_started [OF report.prems report.hyps(1)] report.hyps(2) by auto
  then have "build_msg cs s (wrapBuild (GetName (cs ! i)) (sharedErr b))"
    using nth_mem [OF report.hyps(1)] unfolding build_msg_def list_ex_iff by metis
  moreover have "\<not> list_all (\<lambda>c. buildResult c s = None) cs"
    using report by (auto simp: build_inv_def list_all_length)
  moreover have "i < length (positions b)" "positions b ! i \<noteq> BDone" "positions b ! i \<noteq> BReturning" using report by (auto simp: build_inv_def)
  note notDone_move [OF this(1,2), of BReturning] maySend_move [OF this, of BReturning]
  ultimately show ?case using report.prems report.hyps(3) d by (auto simp: build_inv_def)
next
  case (report_closed i b)
  then have "0 < notDone (positions b)" using notDone_move [of i "positions b"] by (auto simp: build_inv_def)
  then show ?case using report_closed by (simp add: build_inv_def)
next
  case (wg_done i b)
  then have i: "i < length (positions b)" by (simp add: build_inv_def)
  obtain d where d: "d \<in> set cs" "sharedErr b = buildResult d s"
    using build_inv_started [OF wg_done.prems wg_done.hyps(1)] wg_done.hyps(2) by auto
  then show ?case
    using wg_done notDone_move [OF i, of BDone] maySend_return [OF i] by (auto simp: build_inv_def list_all_update)
next
  case (wg_wait b)
  then show ?case by (simp add: build_inv_def)
qed

lemma replicate_counts [simp]: "notDone (replicate n BStart) = n" "maySend (replicate n BStart) = n"
  by (simp_all add: notDone_def maySend_def sum_list_replicate)

interpretation build: terminating_system "build_step cs s" "\<lambda>b. b = build_init cs" "build_inv cs s" build_weight
proof
  show "build_inv cs s b" if "b = build_init cs" for b
    using that by (simp add: build_inv_def build_init_def errChCap_def list_all_iff)
  show "build_inv cs s b'" if "build_inv cs s b" and "build_step cs s b b'" for b b'
    using that(2,1) by (rule build_inv_step)
  show "build_weight b' < build_weight b" if "build_inv cs s b" and "build_step cs s b b'" for b b'
    using that by (rule build_weight_step)
qed

text \<open>A goroutine that wants to send finds room in the channel, so that only the end is a state without a step.\<close>

lemma build_stuck: "build_inv cs s b \<Longrightarrow> \<nexists>b'. build_step cs s b b' \<Longrightarrow> all_built b"
proof -
  assume inv: "build_inv cs s b" and stuck: "\<nexists>b'. build_step cs s b b'"
  have "positions b ! i = BDone" if i: "i < length cs" for i
  proof (cases "positions b ! i")
    case BFailed
    then have "0 < maySend (positions b)" using inv i maySend_move [of i "positions b"] by (simp add: build_inv_def)
    then have "length (buildErrs b) < errChCap cs" using inv by (simp add: build_inv_def)
    then show ?thesis using stuck i BFailed build_step.report [of i cs b s] build_step.report_closed [of i cs b s] by blast
  qed (use stuck i build_step.assign [of i cs b s] build_step.check [of i cs b s] build_step.wg_done [of i cs b s] in blast)+
  then have all: "list_all (\<lambda>p. p = BDone) (positions b)" using inv by (simp add: build_inv_def list_all_length)
  then have "wgCounter b = 0" using inv notDone_zero by (simp add: build_inv_def)
  then show ?thesis using all stuck build_step.wg_wait [of b cs s] by (auto simp: all_built_def)
qed

text \<open>
  C10: The concurrent part of \<open>Build\<close> ends on every schedule: no goroutine blocks on the channel for errors, no one sends on
  it after it was closed, \<open>wg.Wait()\<close> comes back and all goroutines are done. If no
  collector's \<open>Build\<close> fails the result is no error, and otherwise every message is the name of a collector with the result of one.
\<close>

theorem Build_ends:
  "\<not> (\<exists>run. run 0 = build_init cs \<and> (\<forall>i. build_step cs s (run i) (run (Suc i)))) \<and>
   {b. (build_step cs s)\<^sup>*\<^sup>* (build_init cs) b \<and> \<not> (\<exists>b'. build_step cs s b b')} \<subseteq>
     {b. all_built b \<and> wgCounter b = 0 \<and> \<not> sendPanic b \<and>
         (if list_all (\<lambda>c. buildResult c s = None) cs then finishBuild b = None else list_all (build_msg cs s) (buildErrs b))}"
proof (intro conjI subsetI notI)
  assume "\<exists>run. run 0 = build_init cs \<and> (\<forall>i. build_step cs s (run i) (run (Suc i)))"
  then show False using build.no_infinite_run [of cs s] build.inv_init by metis
next
  fix b
  assume "b \<in> {b. (build_step cs s)\<^sup>*\<^sup>* (build_init cs) b \<and> \<not> (\<exists>b'. build_step cs s b b')}"
  then have inv: "build_inv cs s b" and "all_built b"
    using build.inv_reachable [of "build_init cs" cs s b] build_stuck [of cs s b] by blast+
  then show "b \<in> {b. all_built b \<and> wgCounter b = 0 \<and> \<not> sendPanic b \<and>
      (if list_all (\<lambda>c. buildResult c s = None) cs then finishBuild b = None else list_all (build_msg cs s) (buildErrs b))}"
    by (simp add: build_inv_def finishBuild_def all_built_def)
qed

text \<open>One goroutine after the other: the errors are the ones that \<open>buildSpec\<close> asks for.\<close>

lemma build_one:
  assumes "i < length cs" and "build_inv cs s b" and "positions b ! i = BStart" and "\<not> errChClosed b"
  shows "\<exists>b'. (build_step cs s)\<^sup>*\<^sup>* b b' \<and> positions b' = (positions b)[i := BDone] \<and> \<not> errChClosed b' \<and>
    buildErrs b' = buildErrs b @ (case buildResult (cs ! i) s of None \<Rightarrow> [] | Some e \<Rightarrow> [wrapBuild (GetName (cs ! i)) (Some e)])"
proof -
  have len: "length (positions b) = length cs" using assms(2) by (simp add: build_inv_def)
  let ?b1 = "b\<lparr>sharedErr := buildResult (cs ! i) s, positions := (positions b)[i := BAssigned]\<rparr>"
  let ?b2 = "?b1\<lparr>positions := (positions ?b1)[i := (if sharedErr ?b1 = None then BReturning else BFailed)]\<rparr>"
  have "build_step cs s b ?b1" using assms by (intro build_step.assign) auto
  moreover have "build_step cs s ?b1 ?b2" using assms len by (intro build_step.check) auto
  ultimately have two: "(build_step cs s)\<^sup>*\<^sup>* b ?b2" by (meson converse_rtranclp_into_rtranclp rtranclp.rtrancl_refl)
  have ret: "\<exists>b'. build_step cs s c b' \<and> positions b' = (positions b)[i := BDone] \<and> errChClosed b' = errChClosed c \<and> buildErrs b' = buildErrs c"
    if "positions c = (positions b)[i := BReturning]" for c
    using build_step.wg_done [of i cs c s] that assms(1) len
    by (intro exI [of _ "c\<lparr>wgCounter := wgCounter c - 1, positions := (positions c)[i := BDone]\<rparr>"]) simp
  show ?thesis
  proof (cases "buildResult (cs ! i) s")
    case None
    then obtain b' where "build_step cs s ?b2 b'" "positions b' = (positions b)[i := BDone]" "\<not> errChClosed b'" "buildErrs b' = buildErrs b"
      using ret [of ?b2] assms(4) by auto
    then show ?thesis using two None by (intro exI [of _ b']) auto
  next
    case (Some e)
    let ?b3 = "?b2\<lparr>buildErrs := buildErrs ?b2 @ [wrapBuild (GetName (cs ! i)) (sharedErr ?b2)], positions := (positions ?b2)[i := BReturning]\<rparr>"
    have "length (buildErrs b) < errChCap cs"
      using maySend_move [of i "positions b" BDone] assms len by (simp add: build_inv_def)
    then have "build_step cs s ?b2 ?b3" using assms len Some by (intro build_step.report) auto
    then have three: "(build_step cs s)\<^sup>*\<^sup>* b ?b3" using two by (rule rtranclp.rtrancl_into_rtrancl [rotated])
    obtain b' where "build_step cs s ?b3 b'" "positions b' = (positions b)[i := BDone]" "\<not> errChClosed b'" "buildErrs b' = buildErrs ?b3"
      using ret [of ?b3] assms(4) Some by auto
    then show ?thesis using three Some by (intro exI [of _ b']) auto
  qed
qed

lemma build_prefix:
  "k \<le> length cs \<Longrightarrow> \<exists>b. (build_step cs s)\<^sup>*\<^sup>* (build_init cs) b \<and> \<not> errChClosed b \<and>
     positions b = replicate k BDone @ replicate (length cs - k) BStart \<and> buildErrs b = buildSpec (take k cs) s"
proof (induction k)
  case 0
  then show ?case by (intro exI [of _ "build_init cs"]) (simp add: build_init_def buildSpec_def)
next
  case (Suc k)
  then obtain b where b: "(build_step cs s)\<^sup>*\<^sup>* (build_init cs) b" "\<not> errChClosed b"
    "positions b = replicate k BDone @ replicate (length cs - k) BStart" "buildErrs b = buildSpec (take k cs) s"
    by auto
  have "build_inv cs s b" using build.inv_reachable [OF refl b(1)] .
  moreover have "positions b ! k = BStart" using b(3) Suc.prems by (simp add: nth_append)
  ultimately obtain b' where b': "(build_step cs s)\<^sup>*\<^sup>* b b'" "positions b' = (positions b)[k := BDone]" "\<not> errChClosed b'"
    "buildErrs b' = buildErrs b @ (case buildResult (cs ! k) s of None \<Rightarrow> [] | Some e \<Rightarrow> [wrapBuild (GetName (cs ! k)) (Some e)])"
    using build_one [of k cs s b] Suc.prems b(2) by auto
  have "replicate (length cs - k) BStart = BStart # replicate (length cs - Suc k) BStart"
    using Suc.prems by (metis Suc_diff_Suc Suc_le_lessD replicate_Suc)
  then have "positions b' = replicate (Suc k) BDone @ replicate (length cs - Suc k) BStart"
    using b(3) b'(2) by (simp add: list_update_append replicate_append_same)
  moreover have "buildErrs b' = buildSpec (take (Suc k) cs) s"
    using b(4) b'(4) Suc.prems by (simp add: take_Suc_conv_app_nth buildSpec_def)
  ultimately show ?case using b(1) b'(1,3) by (meson rtranclp_trans)
qed

text \<open>
  There is a schedule of the goroutines (each one to its end before the next) on which \<open>Build\<close>
  does what its comment says: every collector's error, with its own name, and nothing else.
\<close>

theorem Build_sequential_correct:
  "\<exists>b. (build_step cs s)\<^sup>*\<^sup>* (build_init cs) b \<and> all_built b \<and> buildErrs b = buildSpec cs s"
proof -
  obtain b where b: "(build_step cs s)\<^sup>*\<^sup>* (build_init cs) b" "\<not> errChClosed b" "positions b = replicate (length cs) BDone" "buildErrs b = buildSpec cs s"
    using build_prefix [of "length cs" cs s] by auto
  have "build_inv cs s b" using build.inv_reachable [OF refl b(1)] .
  then have "wgCounter b = 0" using b(3) notDone_zero [of "positions b"] by (simp add: build_inv_def list_all_iff)
  then have "build_step cs s b (b\<lparr>errChClosed := True\<rparr>)" using b(2) by (intro build_step.wg_wait)
  then have "(build_step cs s)\<^sup>*\<^sup>* (build_init cs) (b\<lparr>errChClosed := True\<rparr>)" using b(1) by (rule rtranclp.rtrancl_into_rtrancl [rotated])
  moreover have "all_built (b\<lparr>errChClosed := True\<rparr>)" using b(3) by (simp add: all_built_def list_all_iff)
  ultimately show ?thesis using b(4) by (intro exI [of _ "b\<lparr>errChClosed := True\<rparr>"]) simp
qed

definition okCollector :: CollectorIf where
  "okCollector = \<lparr>GetName = ''os'', buildResult = \<lambda>s. None, closeResult = None, collectRun = sampleRun\<rparr>"

definition brokenCollector :: CollectorIf where
  "brokenCollector = \<lparr>GetName = ''cpu'', buildResult = \<lambda>s. Some (ErrorText ''access denied'' []), closeResult = None, collectRun = sampleRun\<rparr>"

text \<open>
  C11: There is also a schedule on which \<open>Build\<close> reports success although a collector failed to
  build: the goroutines share the variable \<open>err\<close>, and another collector's success can clear the error
  between its assignment and its test.
\<close>

theorem Build_may_lose_error:
  "\<exists>cs s b. (build_step cs s)\<^sup>*\<^sup>* (build_init cs) b \<and> all_built b \<and> finishBuild b = None \<and>
     filter (\<lambda>e. \<not> ignoredBuildError e) (buildSpec cs s) \<noteq> []"
proof -
  let ?cs = "[brokenCollector, okCollector]"
  let ?b = "\<lparr>positions = [BDone, BDone], sharedErr = None, buildErrs = [], wgCounter = 0, errChClosed = True, sendPanic = False\<rparr>"
  have "(build_step ?cs None)\<^sup>*\<^sup>* (build_init ?cs) ?b"
    unfolding build_init_def
    apply (rule converse_rtranclp_into_rtranclp, rule build_step.assign [of 0], simp, simp)
    apply (rule converse_rtranclp_into_rtranclp, rule build_step.assign [of 1], simp, simp)
    apply (rule converse_rtranclp_into_rtranclp, rule build_step.check [of 0], simp, simp)
    apply (rule converse_rtranclp_into_rtranclp, rule build_step.check [of 1], simp, simp)
    apply (rule converse_rtranclp_into_rtranclp, rule build_step.wg_done [of 0], simp, simp add: okCollector_def)
    apply (rule converse_rtranclp_into_rtranclp, rule build_step.wg_done [of 1], simp, simp add: okCollector_def)
    apply (rule converse_rtranclp_into_rtranclp, rule build_step.wg_wait, simp, simp)
    apply (simp add: okCollector_def)
    done
  then show ?thesis
    by (intro exI [of _ ?cs] exI [of _ None] exI [of _ ?b])
       (simp add: all_built_def finishBuild_def buildSpec_def brokenCollector_def okCollector_def wrapBuild_def
          ignoredBuildError_def)
qed

end
