(* ===== verification/Http.thy ===== *)
theory Http
  imports Collection Float64
begin

text \<open>
  The HTTP endpoints (internal/httphandler): the timeout of a scrape, the choice of collectors
  from the query, and the answers of /health and /version. The Prometheus HTTP handler itself
  is a library.
\<close>

definition defaultScrapeTimeout :: f64 where
  "defaultScrapeTimeout = F_Fin 10"

record Options =
  DisableExporterMetrics :: bool
  TimeoutMargin :: f64

definition defaultOptions :: Options where
  "defaultOptions = \<lparr>DisableExporterMetrics = False, TimeoutMargin = F_Fin (1 / 2)\<rparr>"

text \<open>
  \<open>getScrapeTimeout\<close> in nanoseconds. \<open>parseFloat\<close> gives the value that \<open>strconv.ParseFloat\<close> returns, which is used
  also when it comes with an error. The product of the whole seconds with \<open>time.Second\<close> is an
  \<open>int64\<close>. \<^term>\<open>None\<close>: the conversion to \<open>int64\<close> has no defined result.
\<close>

definition getScrapeTimeout :: "(string \<Rightarrow> f64) \<Rightarrow> Options \<Rightarrow> string \<Rightarrow> int option" where
  "getScrapeTimeout parseFloat opts header =
     (let t0 = (if header \<noteq> [] then parseFloat header else F_Fin 0);
          t1 = (if t0 = F_Fin 0 then defaultScrapeTimeout else t0);
          t2 = f64_sub t1 (TimeoutMargin opts)
      in map_option (\<lambda>s. signed_take_bit 63 (s * 1000000000)) (f64_to_int64 t2))"

text \<open>What is registered for a request: the collectors, and the exporter's own metrics or not.\<close>

record scrape_handler =
  shCollection :: Collection
  shTimeout :: "int option"
  shExporterMetrics :: bool

definition handlerFactory :: "Options \<Rightarrow> go_error option \<Rightarrow> Collection \<Rightarrow> int option \<Rightarrow> string list \<Rightarrow> go_error + scrape_handler" where
  "handlerFactory opts registerErr c timeout requested =
     (case NewHandler requested c of
        Inl e \<Rightarrow> Inl (Wrapf ''couldn't create collector handler: %w'' [] e)
      | Inr coll \<Rightarrow>
          (case registerErr of
             Some e \<Rightarrow> Inl (Wrapf ''couldn't register Prometheus collector: %w'' [] e)
           | None \<Rightarrow> Inr \<lparr>shCollection = coll, shTimeout = timeout, shExporterMetrics = \<not> DisableExporterMetrics opts\<rparr>))"

datatype response = BadRequest go_error | Serve scrape_handler

definition ServeHTTP :: "(string \<Rightarrow> f64) \<Rightarrow> Options \<Rightarrow> go_error option \<Rightarrow> Collection \<Rightarrow> string \<Rightarrow> string list \<Rightarrow> response" where
  "ServeHTTP parseFloat opts registerErr c header requested =
     (case handlerFactory opts registerErr c (getScrapeTimeout parseFloat opts header) requested of
        Inl e \<Rightarrow> BadRequest e
      | Inr h \<Rightarrow> Serve h)"

definition healthBody :: string where
  "healthBody = ''{\"status\":\"ok\"}''"

record prometheusVersion =
  Version :: string
  Revision :: string
  Branch :: string
  BuildUser :: string
  BuildDate :: string
  GoVersion :: string

definition versionResponse :: "(prometheusVersion \<Rightarrow> go_error + string) \<Rightarrow> prometheusVersion \<Rightarrow> go_error + string" where
  "versionResponse encodeJSON v =
     (case encodeJSON v of
        Inl e \<Rightarrow> Inl (Wrapf ''error encoding JSON: %s'' [] e)
      | Inr body \<Rightarrow> Inr body)"

section \<open>Properties\<close>

lemma f64_to_int64_floor:
  assumes "0 \<le> q" and "q < 2 ^ 33"
  shows "f64_to_int64 (F_Fin q) = Some \<lfloor>q\<rfloor>"
proof -
  have "0 \<le> \<lfloor>q\<rfloor>" using assms(1) by simp
  moreover have "\<lfloor>q\<rfloor> < 2 ^ 33" using assms(2) by (simp add: floor_less_iff)
  ultimately show ?thesis using assms(1) by (simp add: f64_to_int64_def Let_def)
qed

lemma seconds_in_range: "0 \<le> n \<Longrightarrow> n < 2 ^ 33 \<Longrightarrow> signed_take_bit 63 (n * 1000000000) = n * (1000000000 :: int)"
  by (rule signed_take_bit_int_eq_self) simp_all

lemma f64_sub_half:
  assumes "\<bar>n\<bar> < 2 ^ 51"
  shows "f64_sub (F_Fin (of_int n)) (F_Fin (1 / 2)) = F_Fin (of_int n - 1 / 2)"
proof -
  have "round64 (of_int n - 1 / 2) = F_Fin (of_int n - 1 / 2)"
  proof (rule round64_exact [where m = "2 * n - 1" and j = "- 1"])
    show "(of_int n - 1 / 2 :: rat) = of_int (2 * n - 1) * 2 powi (- 1)" by (simp add: power_int_minus field_simps)
    show "\<bar>2 * n - 1\<bar> < 2 ^ 53" "(- 1074 :: int) \<le> - 1" using assms by simp_all
    have "\<bar>of_int n :: rat\<bar> = of_int \<bar>n\<bar>" by simp
    also have "\<dots> < of_int (2 ^ 51)" using assms by (simp only: of_int_less_iff)
    finally have "\<bar>of_int n - 1 / 2 :: rat\<bar> < 2 ^ 52" by simp
    also have "\<dots> \<le> (2 :: rat) ^ 1024" by (rule power_increasing) simp_all
    finally show "\<bar>of_int n - 1 / 2 :: rat\<bar> < 2 ^ 1024" .
  qed
  then show ?thesis by (simp add: f64_sub_def)
qed

text \<open>
  C16: The timeout of a scrape is a whole number of seconds: with the header's value (or the default of 10
  seconds) minus the margin being \<open>q\<close> seconds, \<open>q\<close> not negative and below \<open>2^33\<close>, it is the greatest whole number of seconds that is at most \<open>q\<close>,
  in nanoseconds.
\<close>

theorem getScrapeTimeout_bounds:
  assumes "f64_sub (if header = [] \<or> parseFloat header = F_Fin 0 then F_Fin 10 else parseFloat header) (TimeoutMargin opts) = F_Fin q"
    and "0 \<le> q" and "q < 2 ^ 33"
  shows "\<exists>seconds. getScrapeTimeout parseFloat opts header = Some (seconds * 1000000000) \<and> 0 \<le> seconds \<and>
    of_int seconds \<le> q \<and> q < of_int seconds + 1"
proof -
  have "f64_sub (if (if header \<noteq> [] then parseFloat header else F_Fin 0) = F_Fin 0 then defaultScrapeTimeout
      else if header \<noteq> [] then parseFloat header else F_Fin 0) (TimeoutMargin opts) = F_Fin q"
    using assms(1) by (auto simp: defaultScrapeTimeout_def)
  then have "getScrapeTimeout parseFloat opts header = Some (signed_take_bit 63 (\<lfloor>q\<rfloor> * 1000000000))"
    by (simp add: getScrapeTimeout_def Let_def f64_to_int64_floor [OF assms(2,3)])
  moreover have b: "0 \<le> \<lfloor>q\<rfloor>" "\<lfloor>q\<rfloor> < 2 ^ 33" using assms by (simp_all add: floor_less_iff)
  then have "signed_take_bit 63 (\<lfloor>q\<rfloor> * 1000000000) = \<lfloor>q\<rfloor> * 1000000000"
    by (rule seconds_in_range)
  moreover have "of_int \<lfloor>q\<rfloor> \<le> q" "q < of_int \<lfloor>q\<rfloor> + 1" by linarith+
  ultimately show ?thesis using b(1) by (intro exI [of _ "\<lfloor>q\<rfloor>"]) simp
qed

theorem getScrapeTimeout_bounds_witness:
  "\<exists>seconds. getScrapeTimeout (\<lambda>s. F_NaN) defaultOptions [] = Some (seconds * 1000000000) \<and> 0 \<le> seconds \<and>
    rat_of_int seconds \<le> 19 / 2 \<and> 19 / 2 < rat_of_int seconds + 1"
  using getScrapeTimeout_bounds [of "[]" "\<lambda>s. F_NaN" defaultOptions "19 / 2"] f64_sub_half [of 10]
  by (simp add: defaultOptions_def)

text \<open>
  With the default margin of half a second a client that allows one second gets a timeout
  of zero: the conversion drops the fraction before the multiplication.
\<close>

theorem one_second_is_no_time:
  "getScrapeTimeout (\<lambda>s. F_Fin 1) defaultOptions ''1'' = Some 0"
proof -
  have "f64_sub (F_Fin 1) (F_Fin (1 / 2)) = F_Fin (1 / 2)" using f64_sub_half [of 1] by simp
  moreover have "f64_to_int64 (F_Fin (1 / 2)) = Some 0" using f64_to_int64_floor [of "1 / 2"] floor_unique [of 0 "1 / 2 :: rat"] by simp
  ultimately show ?thesis by (simp add: getScrapeTimeout_def defaultOptions_def Let_def)
qed

end
