(* ===== verification/Log.thy ===== *)
theory Log
  imports Go_Errors
begin

text \<open>
  Logging (internal/log): the log file flag with the writer behind it, the construction of the
  logger, and the writer to the Windows event log (internal/log/eventlog). Opening a log or
  a file is a parameter, as is the logging library, of which only the writer that it is given
  is kept.
\<close>

section \<open>The log file\<close>

datatype writer = Stdout | Stderr | EventLogWriter u64 | FileWriter u64

record AllowedFile =
  fileS :: string
  fileW :: "writer option"

definition emptyFile :: AllowedFile where
  "emptyFile = \<lparr>fileS = [], fileW = None\<rparr>"

text \<open>\<open>AllowedFile.String\<close>; \<^term>\<open>None\<close> is the nil pointer.\<close>

definition AllowedFile_String :: "AllowedFile option \<Rightarrow> string" where
  "AllowedFile_String f = (case f of None \<Rightarrow> [] | Some a \<Rightarrow> fileS a)"

text \<open>\<open>AllowedFile.Set\<close>: the name is replaced also when the file cannot be opened, and the writer then stays.\<close>

definition AllowedFile_Set ::
  "go_error + u64 \<Rightarrow> (string \<Rightarrow> go_error + u64) \<Rightarrow> string \<Rightarrow> AllowedFile \<Rightarrow> go_error option \<times> AllowedFile" where
  "AllowedFile_Set openEventLog openFile s f0 =
     (let f = f0\<lparr>fileS := s\<rparr> in
      if s = ''stdout'' then (None, f\<lparr>fileW := Some Stdout\<rparr>)
      else if s = ''stderr'' then (None, f\<lparr>fileW := Some Stderr\<rparr>)
      else if s = ''eventlog'' then
        (case openEventLog of
           Inl e \<Rightarrow> (Some (Wrapf ''failed to open event log: %w'' [] e), f)
         | Inr h \<Rightarrow> (None, f\<lparr>fileW := Some (EventLogWriter h)\<rparr>))
      else
        (case openFile s of
           Inl e \<Rightarrow> (Some (Wrapf ''failed to open log file: %w'' [] e), f)
         | Inr h \<Rightarrow> (None, f\<lparr>fileW := Some (FileWriter h)\<rparr>)))"

text \<open>\<open>log.New\<close>: the writer that the logging library is set up with.\<close>

definition log_New :: "AllowedFile option \<Rightarrow> go_error + writer option" where
  "log_New f = (case f of None \<Rightarrow> Inl (ErrorText ''log file undefined'' []) | Some a \<Rightarrow> Inr (fileW a))"

text \<open>\<open>flag.AddFlags\<close>: the log file that the configuration has afterwards, and the default of its flag.\<close>

definition log_AddFlags :: "AllowedFile option \<Rightarrow> AllowedFile \<times> string" where
  "log_AddFlags f = (let a = (case f of None \<Rightarrow> emptyFile | Some a \<Rightarrow> a) in (a, AllowedFile_String (Some a)))"

section \<open>The event log writer\<close>

text \<open>
  The regular expression \<open>^time=\S+ level=\S+ \<close> on the start of a message. The class \<open>\S\<close> excludes
  the space that follows it, so that there is one way to match at most.
\<close>

definition regexp_space :: "char \<Rightarrow> bool" where
  "regexp_space c \<longleftrightarrow> of_char c \<in> {9, 10, 12, 13, 32 :: nat}"

text \<open>\<open>p\S+ \<close> at the front: the rest behind it, if it is there.\<close>

definition stripField :: "string \<Rightarrow> string \<Rightarrow> string option" where
  "stripField p s =
     (if HasPrefix s p then
        (let r = drop (length p) s; v = takeWhile (\<lambda>c. \<not> regexp_space c) r; t = dropWhile (\<lambda>c. \<not> regexp_space c) r
         in if v \<noteq> [] \<and> HasPrefix t '' '' then Some (drop 1 t) else None)
      else None)"

definition reStripTimeAndLevel :: "string \<Rightarrow> string" where
  "reStripTimeAndLevel msg =
     (case stripField ''time='' msg of
        None \<Rightarrow> msg
      | Some r \<Rightarrow> (case stripField ''level='' r of None \<Rightarrow> msg | Some r' \<Rightarrow> r'))"

datatype eventlogCall = EventError nat string | EventWarning nat string | EventInfo nat string

text \<open>\<open>Writer.Write\<close>: the call to the event log and the number of bytes it reports as written.\<close>

definition Writer_Write :: "string \<Rightarrow> eventlogCall \<times> nat" where
  "Writer_Write p =
     (let msg = TrimSpace p; eventLogMsg = reStripTimeAndLevel msg
      in (if Contains msg '' level=ERROR'' \<or> Contains msg ''\"level\":\"error\"'' then EventError 102 eventLogMsg
          else if Contains msg '' level=WARN'' \<or> Contains msg ''\"level\":\"warn\"'' then EventWarning 101 eventLogMsg
          else EventInfo 100 eventLogMsg,
          length p))"

end
