(* ===== verification/Mux.thy ===== *)
theory Mux
  imports Go_Strings
begin

text \<open>
  \<open>http.ServeMux\<close> of Go's standard library, as far as the program registers handlers on it: \<open>Handle\<close> parses its pattern and panics when the pattern is not valid or
  conflicts with one that is registered. Wildcard names are those of ASCII letters, digits and underscores.
\<close>

section \<open>Patterns\<close>

text \<open>A segment of a path: a literal (\<open>{$}\<close> is the literal slash), a wildcard, or a wildcard for the rest, which a trailing slash is too.\<close>

datatype segment = Literal string | Wild | Multi

record pattern =
  patMethod :: string
  patHost :: string
  patSegments :: "segment list"

text \<open>\<open>cleanPath(p) == p\<close> for a path that begins with a slash: no empty segment but the last, and no dot segments.\<close>

definition isClean :: "string \<Rightarrow> bool" where
  "isClean p =
     (let segs = tl (Split p (CHR ''/'')) in
      list_all (\<lambda>s. s \<noteq> []) (butlast segs) \<and> list_all (\<lambda>s. s \<noteq> ''.'' \<and> s \<noteq> ''..'') segs)"

definition hexVal :: "char \<Rightarrow> nat option" where
  "hexVal c =
     (if is_digit c then Some (digit_val c)
      else if CHR ''a'' \<le> c \<and> c \<le> CHR ''f'' then Some (of_char c - 87)
      else if CHR ''A'' \<le> c \<and> c \<le> CHR ''F'' then Some (of_char c - 55)
      else None)"

text \<open>\<open>url.PathUnescape\<close>; \<^term>\<open>None\<close> is its error, for which the segment is kept as it is.\<close>

fun unescape :: "string \<Rightarrow> string option" where
  "unescape [] = Some []"
| "unescape (c # cs) =
     (if c \<noteq> CHR ''%'' then map_option ((#) c) (unescape cs)
      else case cs of
             a # b # rest \<Rightarrow>
               (case (hexVal a, hexVal b) of
                  (Some x, Some y) \<Rightarrow> map_option ((#) (char_of (16 * x + y))) (unescape rest)
                | _ \<Rightarrow> None)
           | _ \<Rightarrow> None)"

definition pathUnescape :: "string \<Rightarrow> string" where
  "pathUnescape s = (case unescape s of None \<Rightarrow> s | Some t \<Rightarrow> t)"

definition nameLetter :: "char \<Rightarrow> bool" where
  "nameLetter c \<longleftrightarrow> c = CHR ''_'' \<or> CHR ''a'' \<le> c \<and> c \<le> CHR ''z'' \<or> CHR ''A'' \<le> c \<and> c \<le> CHR ''Z''"

definition isValidWildcardName :: "string \<Rightarrow> bool" where
  "isValidWildcardName s = (case s of [] \<Rightarrow> False | c # cs \<Rightarrow> nameLetter c \<and> list_all (\<lambda>d. nameLetter d \<or> is_digit d) cs)"

text \<open>The segments between the slashes; \<open>seen\<close> are the names of the wildcards so far, and \<^term>\<open>None\<close> is an error.\<close>

fun parseSegments :: "string list \<Rightarrow> string list \<Rightarrow> segment list option" where
  "parseSegments seen [] = Some []"
| "parseSegments seen (s # rest) =
     (if s = [] \<and> rest = [] then Some [Multi]
      else if CHR ''{'' \<notin> set s then map_option ((#) (Literal (pathUnescape s))) (parseSegments seen rest)
      else if hd s \<noteq> CHR ''{'' \<or> last s \<noteq> CHR ''}'' then None
      else let inner = butlast (tl s) in
           if inner = ''$'' then (if rest = [] then Some [Literal ''/''] else None)
           else let multi = HasSuffix inner ''...''; name = TrimSuffix inner ''...'' in
                if multi \<and> rest \<noteq> [] \<or> \<not> isValidWildcardName name \<or> name \<in> set seen then None
                else map_option ((#) (if multi then Multi else Wild)) (parseSegments (name # seen) rest))"

text \<open>A pattern of the form \<open>METHOD [HOST]/PATH\<close>, as the program uses it.\<close>

definition parsePattern :: "string \<Rightarrow> string \<Rightarrow> pattern option" where
  "parsePattern meth hostPath =
     (let r = dropWhile (\<lambda>c. c = CHR '' '' \<or> c = CHR 0x09) hostPath;
          host = takeWhile (\<lambda>c. c \<noteq> CHR ''/'') r;
          path = dropWhile (\<lambda>c. c \<noteq> CHR ''/'') r
      in if path = [] \<or> CHR ''{'' \<in> set host \<or> \<not> isClean path then None
         else map_option (\<lambda>segs. \<lparr>patMethod = meth, patHost = host, patSegments = segs\<rparr>) (parseSegments [] (tl (Split path (CHR ''/'')))))"

section \<open>Conflicts\<close>

datatype relationship = Equivalent | MoreGeneral | MoreSpecific | Disjoint | Overlaps

fun compareSegments :: "segment \<Rightarrow> segment \<Rightarrow> relationship" where
  "compareSegments Multi Multi = Equivalent"
| "compareSegments Multi s = MoreGeneral"
| "compareSegments s Multi = MoreSpecific"
| "compareSegments Wild Wild = Equivalent"
| "compareSegments Wild (Literal t) = (if t = ''/'' then Disjoint else MoreGeneral)"
| "compareSegments (Literal t) Wild = (if t = ''/'' then Disjoint else MoreSpecific)"
| "compareSegments (Literal s) (Literal t) = (if s = t then Equivalent else Disjoint)"

fun combineRelationships :: "relationship \<Rightarrow> relationship \<Rightarrow> relationship" where
  "combineRelationships Equivalent r = r"
| "combineRelationships Disjoint r = Disjoint"
| "combineRelationships Overlaps r = (if r = Disjoint then Disjoint else Overlaps)"
| "combineRelationships MoreGeneral r = (if r = Equivalent then MoreGeneral else if r = MoreSpecific then Overlaps else r)"
| "combineRelationships MoreSpecific r = (if r = Equivalent then MoreSpecific else if r = MoreGeneral then Overlaps else r)"

text \<open>The loop of \<open>comparePaths\<close> and what follows it; \<open>m1\<close> and \<open>m2\<close> say whether the patterns end in a wildcard for the rest.\<close>

fun compareLoop :: "bool \<Rightarrow> bool \<Rightarrow> relationship \<Rightarrow> segment list \<Rightarrow> segment list \<Rightarrow> relationship" where
  "compareLoop m1 m2 rel (a # as) (b # bs) =
     (let r = combineRelationships rel (compareSegments a b) in if r = Disjoint then Disjoint else compareLoop m1 m2 r as bs)"
| "compareLoop m1 m2 rel [] [] = rel"
| "compareLoop m1 m2 rel [] (b # bs) = (if m1 then combineRelationships rel MoreGeneral else Disjoint)"
| "compareLoop m1 m2 rel (a # as) [] = (if m2 then combineRelationships rel MoreSpecific else Disjoint)"

definition comparePaths :: "segment list \<Rightarrow> segment list \<Rightarrow> relationship" where
  "comparePaths s1 s2 =
     (let m1 = (s1 \<noteq> [] \<and> last s1 = Multi); m2 = (s2 \<noteq> [] \<and> last s2 = Multi) in
      if length s1 \<noteq> length s2 \<and> \<not> m1 \<and> \<not> m2 then Disjoint else compareLoop m1 m2 Equivalent s1 s2)"

text \<open>For patterns of the same method, which all of the program's are.\<close>

definition conflictsWith :: "pattern \<Rightarrow> pattern \<Rightarrow> bool" where
  "conflictsWith p q \<longleftrightarrow> patHost p = patHost q \<and> comparePaths (patSegments p) (patSegments q) \<in> {Equivalent, Overlaps}"

text \<open>Registration in the order of the list: whether none of the calls of \<open>Handle\<close> panics.\<close>

fun registers :: "pattern list \<Rightarrow> string list \<Rightarrow> bool" where
  "registers done [] \<longleftrightarrow> True"
| "registers done (s # ss) \<longleftrightarrow>
     (case parsePattern ''GET'' s of
        None \<Rightarrow> False
      | Some p \<Rightarrow> list_all (\<lambda>q. \<not> conflictsWith p q) done \<and> registers (done @ [p]) ss)"

lemma conflictsWith_refl: "conflictsWith p p"
proof -
  have "compareSegments s s = Equivalent" for s by (cases s) simp_all
  then have "compareLoop m1 m2 Equivalent ss ss = Equivalent" for m1 m2 ss by (induction ss) simp_all
  then show ?thesis by (simp add: conflictsWith_def comparePaths_def Let_def)
qed

text \<open>Registering the same pattern twice panics, whatever is registered between.\<close>

lemma registers_conflict: "p \<in> set done \<Longrightarrow> parsePattern ''GET'' s = Some p \<Longrightarrow> s \<in> set ss \<Longrightarrow> \<not> registers done ss"
proof (induction ss arbitrary: "done")
  case Nil
  then show ?case by simp
next
  case (Cons t ss)
  show ?case
  proof (cases "t = s")
    case True
    then show ?thesis using Cons.prems conflictsWith_refl [of p] by (auto simp: list_all_iff)
  next
    case False
    then show ?thesis using Cons.IH [of "done @ [q]" for q] Cons.prems by (auto split: option.splits)
  qed
qed

lemma registers_twice: "\<not> distinct ss \<Longrightarrow> \<not> registers done ss"
proof (induction ss arbitrary: "done")
  case Nil
  then show ?case by simp
next
  case (Cons s ss)
  show ?case
  proof (cases "s \<in> set ss")
    case True
    then show ?thesis using registers_conflict [of p "done @ [p]" s ss for p] by (auto split: option.splits)
  next
    case False
    then show ?thesis using Cons by (auto split: option.splits)
  qed
qed

end
