(* ===== verification/Main_Program.thy ===== *)
theory Main_Program
  imports Http Utils Log Mux
begin

text \<open>
  The program itself (cmd/windows_exporter): the start-up sequence and the exit code of \<open>run\<close>, the
  list of enabled collectors, the process priority, and the hand-over between \<open>main\<close> and the
  service control manager when the exporter runs as a Windows service.
\<close>

section \<open>Enabled collectors\<close>

definition expandEnabledCollectors :: "string \<Rightarrow> string list" where
  "expandEnabledCollectors enabled =
     remdups_adj (Split (ReplaceAll enabled ''[defaults]'' DefaultCollectors) (CHR '',''))"

lemma Split_Join_remdups:
  assumes "names \<noteq> []" and "list_all (\<lambda>n. CHR '','' \<notin> set n \<and> CHR ''['' \<notin> set n) names"
  shows "expandEnabledCollectors (Join names '','') = remdups_adj names"
proof -
  have sep: "\<forall>n\<in>set names. CHR '','' \<notin> set n" using assms(2) by (auto simp: list_all_iff)
  have "CHR ''['' \<notin> set (Join names '','')" using assms(2)
    by (induction names rule: induct_list012) auto
  then have "\<not> sublist ''[defaults]'' (Join names '','')"
    by (auto dest: set_mono_sublist)
  then show ?thesis
    using Split_Join [OF assms(1) sep] by (simp add: expandEnabledCollectors_def ReplaceAll_no_occurrence)
qed

text \<open>
  C20: The flag \<open>--collectors.enabled\<close> means what its help says: a comma-separated list enables
  exactly the collectors it names, and \<open>[defaults]\<close> stands for the default collectors, also in front
  of further names.
\<close>

theorem enabled_collectors_meaning:
  assumes "names \<noteq> []" and "list_all (\<lambda>n. CHR '','' \<notin> set n \<and> CHR ''['' \<notin> set n) names"
  shows "set (expandEnabledCollectors (Join names '','')) = set names \<and>
    set (expandEnabledCollectors (''[defaults],'' @ Join names '','')) =
      set (Split DefaultCollectors (CHR '','')) \<union> set names"
proof
  show "set (expandEnabledCollectors (Join names '','')) = set names"
    using Split_Join_remdups [OF assms] by simp
  have "CHR ''['' \<notin> set (Join names '','')" using assms(2) by (induction names rule: induct_list012) auto
  then have "ReplaceAll (Join names '','') ''[defaults]'' DefaultCollectors = Join names '',''"
    by (intro ReplaceAll_no_occurrence) (auto dest: set_mono_sublist)
  then have rep: "ReplaceAll (''[defaults],'' @ Join names '','') ''[defaults]'' DefaultCollectors =
      DefaultCollectors @ '','' @ Join names '',''"
    by simp
  have "Split (p @ CHR '','' # s) (CHR '','') = Split p (CHR '','') @ Split s (CHR '','')" for p s
  proof (induction p)
    case (Cons c p)
    then show ?case by (cases "Split p (CHR '','')") auto
  qed simp
  then have "Split (DefaultCollectors @ '','' @ Join names '','') (CHR '','') = Split DefaultCollectors (CHR '','') @ names"
    using Split_Join [OF assms(1), of "CHR '',''"] assms(2) by (auto simp: list_all_iff)
  then show "set (expandEnabledCollectors (''[defaults],'' @ Join names '','')) =
      set (Split DefaultCollectors (CHR '','')) \<union> set names"
    unfolding expandEnabledCollectors_def rep by simp
qed

theorem enabled_collectors_meaning_witness:
  "set (expandEnabledCollectors ''[defaults],textfile'') =
     {''cpu'', ''cs'', ''memory'', ''logical_disk'', ''physical_disk'', ''net'', ''os'', ''service'', ''system'', ''eventlog'', ''textfile''}"
  using enabled_collectors_meaning [of "[''textfile'']"] by (auto simp: DefaultCollectors_def)

section \<open>Priority\<close>

definition NORMAL_PRIORITY_CLASS :: u32 where "NORMAL_PRIORITY_CLASS = 0x20"

definition priorityStringToInt :: "(string, u32) gomap" where
  "priorityStringToInt =
     [(''realtime'', 0x100), (''high'', 0x80), (''abovenormal'', 0x8000), (''normal'', NORMAL_PRIORITY_CLASS),
      (''belownormal'', 0x4000), (''low'', 0x40)]"

record 'w process_api =
  OpenProcess :: "'w \<Rightarrow> (go_error + u64) \<times> 'w"
  SetPriorityClass :: "u64 \<Rightarrow> u32 \<Rightarrow> 'w \<Rightarrow> go_error option \<times> 'w"
  CloseHandle :: "u64 \<Rightarrow> 'w \<Rightarrow> go_error option \<times> 'w"

definition setPriorityWindows :: "'w process_api \<Rightarrow> string \<Rightarrow> 'w \<Rightarrow> go_error option \<times> 'w" where
  "setPriorityWindows api priority w =
     (case map_get priorityStringToInt priority of
        None \<Rightarrow> (None, w)
      | Some winPriority \<Rightarrow>
          (if winPriority = NORMAL_PRIORITY_CLASS then (None, w)
           else case OpenProcess api w of
                  (Inl e, w1) \<Rightarrow> (Some (Wrapf ''failed to open own process: %w'' [] e), w1)
                | (Inr h, w1) \<Rightarrow>
                    (case SetPriorityClass api h winPriority w1 of
                       (Some e, w2) \<Rightarrow> (Some (Wrapf ''failed to set priority class: %w'' [] e), w2)
                     | (None, w2) \<Rightarrow>
                         (case CloseHandle api h w2 of
                            (Some e, w3) \<Rightarrow> (Some (Wrapf ''failed to close handle: %w'' [] e), w3)
                          | (None, w3) \<Rightarrow> (None, w3)))))"

section \<open>run\<close>

text \<open>The flags, as the command line and the configuration file set them.\<close>

record flags =
  metricsPath :: string
  disableExporterMetrics :: bool
  enabledCollectors :: string
  timeoutMargin :: f64
  debugEnabled :: bool
  processPriority :: string
  memoryLimit :: int

text \<open>The log file before the flags are parsed: the event log when the exporter runs as a service.\<close>

definition initialLogFile :: "go_error + u64 \<Rightarrow> bool \<Rightarrow> AllowedFile" where
  "initialLogFile openEventLog isService =
     (let f = snd (AllowedFile_Set openEventLog (\<lambda>s. Inl (Sentinel s)) ''stdout'' emptyFile)
      in if isService then snd (AllowedFile_Set openEventLog (\<lambda>s. Inl (Sentinel s)) ''eventlog'' f) else f)"

text \<open>The patterns that the request multiplexer is set up with, after the method \<open>GET\<close> and a space.\<close>

definition muxPatterns :: "flags \<Rightarrow> string list" where
  "muxPatterns fl =
     [''/health'', ''/version'', metricsPath fl] @
     (if debugEnabled fl
      then [''/debug/pprof/'', ''/debug/pprof/cmdline'', ''/debug/pprof/profile'', ''/debug/pprof/symbol'', ''/debug/pprof/trace'']
      else [])"

text \<open>What is served: the patterns, the collectors, the options of the metrics handler, and the log writer.\<close>

record server =
  patterns :: "string list"
  served :: Collection
  handlerOptions :: Options
  logWriter :: "writer option"

text \<open>What ends the wait for requests.\<close>

datatype stop_event = KillSignal | ServiceStop | ServerEnded "go_error option"

text \<open>
  \<open>run\<close>: \<open>parse\<close> is \<open>config.Parse\<close> on the arguments (with the log file that the flag is bound to), \<open>build\<close> is
  \<open>Collection.Build\<close>, and the event is what ends serving. \<open>log.New\<close> returns a nil logger with its error, and
  logging to it panics; so does the registration of a path on the multiplexer that is not valid or conflicts with another one. The result is the exit code and
  what was served, if anything.
\<close>

definition run ::
  "(AllowedFile \<Rightarrow> string list \<Rightarrow> go_error + flags \<times> AllowedFile) \<Rightarrow> go_error + u64 \<Rightarrow> bool \<Rightarrow> 'w process_api \<Rightarrow>
   (Collection \<Rightarrow> 'w \<Rightarrow> go_error option \<times> Collection \<times> 'w) \<Rightarrow> stop_event \<Rightarrow> string list \<Rightarrow> Collection \<Rightarrow> 'w \<Rightarrow>
   (nat \<times> server option \<times> 'w) exec" where
  "run parse openEventLog isService api build ev args collectors0 w =
     (case parse (fst (log_AddFlags (Some (initialLogFile openEventLog isService)))) args of
        Inl _ \<Rightarrow> Returns (1, None, w)
      | Inr (fl, logFile) \<Rightarrow>
          (case log_New (Some logFile) of
             Inl _ \<Rightarrow> Panics
           | Inr logger \<Rightarrow>
               (case setPriorityWindows api (processPriority fl) w of
                  (Some _, w1) \<Rightarrow> Returns (1, None, w1)
                | (None, w1) \<Rightarrow>
                    (case Enable (expandEnabledCollectors (enabledCollectors fl)) collectors0 of
                       (Some _, _) \<Rightarrow> Returns (1, None, w1)
                     | (None, c1) \<Rightarrow>
                         (case build c1 w1 of
                            (err, c2, w2) \<Rightarrow>
                              (if (case err of None \<Rightarrow> False | Some e \<Rightarrow> SplitError e \<noteq> []) then Returns (1, None, w2)
                               else if \<not> registers [] (muxPatterns fl) then Panics
                               else Returns
                                 (case ev of ServerEnded (Some _) \<Rightarrow> 1 | _ \<Rightarrow> 0,
                                  Some \<lparr>patterns = muxPatterns fl, served = c2,
                                        handlerOptions = \<lparr>DisableExporterMetrics = disableExporterMetrics fl, TimeoutMargin = timeoutMargin fl\<rparr>,
                                        logWriter = logger\<rparr>, w2)))))))"

text \<open>The collectors that are served: those named by the flag, once their \<open>Build\<close> has succeeded.\<close>

definition started ::
  "'w process_api \<Rightarrow> (Collection \<Rightarrow> 'w \<Rightarrow> go_error option \<times> Collection \<times> 'w) \<Rightarrow> flags \<Rightarrow> Collection \<Rightarrow> 'w \<Rightarrow> Collection option" where
  "started api build fl c w =
     (let (priorityErr, w1) = setPriorityWindows api (processPriority fl) w;
          names = expandEnabledCollectors (enabledCollectors fl);
          chosen = c\<lparr>collectors := filter (\<lambda>(name, _). name \<in> set names) (collectors c)\<rparr>;
          (buildErr, c2, w2) = build chosen w1
      in if priorityErr = None \<and> set names \<subseteq> set (map_keys (collectors c)) \<and> concat (map SplitError (non_nil [buildErr])) = []
         then Some c2 else None)"

text \<open>
  \<open>run\<close> serves requests when every step of the start-up
  succeeded: the flags were read, the priority was set, every collector named by the flag exists, \<open>Build\<close>
  reported nothing and the paths could be registered. It then serves the named collectors as \<open>Build\<close> left them, on the configured path, and exits
  with 0 unless the HTTP server failed. It panics when only the registration fails, and in every other case it serves nothing and exits with 1.
\<close>

lemma run_outcome:
  assumes "parse (initialLogFile openEventLog isService) args = Inr (fl, logFile)"
  shows "case started api build fl c w of
     None \<Rightarrow> \<exists>w'. run parse openEventLog isService api build ev args c w = Returns (1, None, w')
   | Some c2 \<Rightarrow>
       (if registers [] (muxPatterns fl)
        then \<exists>code srv w'. run parse openEventLog isService api build ev args c w = Returns (code, Some srv, w') \<and> served srv = c2 \<and>
               patterns srv = muxPatterns fl \<and> code = (if ev \<in> ServerEnded ` range Some then 1 else 0)
        else run parse openEventLog isService api build ev args c w = Panics)"
proof -
  obtain err w1 where prio: "setPriorityWindows api (processPriority fl) w = (err, w1)" by fastforce
  let ?names = "expandEnabledCollectors (enabledCollectors fl)"
  have known: "find (\<lambda>n. map_get (collectors c) n = None) ?names = None \<longleftrightarrow> set ?names \<subseteq> set (map_keys (collectors c))"
    by (auto simp: find_None_iff map_of_eq_None_iff)
  obtain berr c2 w2 where b: "build (c\<lparr>collectors := filter (\<lambda>(name, _). name \<in> set ?names) (collectors c)\<rparr>) w1 = (berr, c2, w2)"
    by (metis prod_cases3)
  show ?thesis
    using assms prio known b
    by (cases err; cases berr; cases ev; cases "find (\<lambda>n. map_get (collectors c) n = None) ?names")
      (auto simp: run_def started_def log_AddFlags_def log_New_def Enable_def Let_def split: option.splits)
qed

text \<open>
  C21: When the path for the metrics is one of the paths that the program uses itself, a start-up in which everything else succeeded ends in a panic: the paths
  \<open>/health\<close> and \<open>/version\<close> are taken always, and the five paths under \<open>/debug/pprof/\<close> when the debug endpoints are enabled.
\<close>

theorem taken_metrics_path_panics:
  assumes "parse (initialLogFile openEventLog isService) args = Inr (fl, logFile)" and "started api build fl c w \<noteq> None"
    and "metricsPath fl \<in> {''/health'', ''/version''} \<or>
         debugEnabled fl \<and> metricsPath fl \<in> {''/debug/pprof/'', ''/debug/pprof/cmdline'', ''/debug/pprof/profile'', ''/debug/pprof/symbol'', ''/debug/pprof/trace''}"
  shows "run parse openEventLog isService api build ev args c w = Panics"
proof -
  have "\<not> distinct (muxPatterns fl)" using assms(3) by (auto simp: muxPatterns_def)
  then have "\<not> registers [] (muxPatterns fl)" by (rule registers_twice)
  then show ?thesis using run_outcome [where parse = parse and args = args and ev = ev and api = api and build = build and c = c and w = w, OF assms(1)] assms(2) by (auto split: option.splits)
qed

text \<open>The default path is no such path: a start-up that succeeds serves.\<close>

definition sampleFlags :: "string \<Rightarrow> flags" where
  "sampleFlags path = \<lparr>metricsPath = path, disableExporterMetrics = False, enabledCollectors = ''os'', timeoutMargin = F_Fin (1 / 2), debugEnabled = True,
     processPriority = ''normal'', memoryLimit = 0\<rparr>"

lemma default_path_registers: "registers [] (muxPatterns (sampleFlags ''/metrics''))"
  by code_simp

definition noProcessApi :: "unit process_api" where
  "noProcessApi = \<lparr>OpenProcess = (\<lambda>w. (Inl (Errno 5), w)), SetPriorityClass = (\<lambda>h p w. (None, w)), CloseHandle = (\<lambda>h w. (None, w))\<rparr>"

definition osCollection :: Collection where
  "osCollection = New [(''os'', okCollector)]"

lemma sample_started: "started noProcessApi (\<lambda>c w. (None, c, w)) (sampleFlags path) osCollection () = Some osCollection"
proof -
  have "expandEnabledCollectors ''os'' = [''os'']" using Split_Join_remdups [of "[''os'']"] by simp
  then show ?thesis
    by (simp add: started_def sampleFlags_def setPriorityWindows_def priorityStringToInt_def NORMAL_PRIORITY_CLASS_def osCollection_def New_def Let_def)
qed

theorem taken_metrics_path_panics_witness:
  "run (\<lambda>f as. Inr (sampleFlags ''/health'', f)) (Inl (Errno 5)) False noProcessApi (\<lambda>c w. (None, c, w)) KillSignal [] osCollection () = Panics"
proof (rule taken_metrics_path_panics [where fl = "sampleFlags ''/health''" and logFile = "initialLogFile (Inl (Errno 5)) False"])
  show "started noProcessApi (\<lambda>c w. (None, c, w)) (sampleFlags ''/health'') osCollection () \<noteq> None" unfolding sample_started by simp
  show "metricsPath (sampleFlags ''/health'') \<in> {''/health'', ''/version''} \<or> debugEnabled (sampleFlags ''/health'') \<and>
      metricsPath (sampleFlags ''/health'') \<in> {''/debug/pprof/'', ''/debug/pprof/cmdline'', ''/debug/pprof/profile'', ''/debug/pprof/symbol'', ''/debug/pprof/trace''}"
    by (simp add: sampleFlags_def)
qed simp

end
