(* ===== verification/Service.thy ===== *)
theory Service
  imports Step_System
begin

text \<open>
  The exporter as a Windows service (cmd/windows_exporter/0_service.go and \<open>main\<close>): the goroutine
  of the service control manager runs \<open>Execute\<close> while \<open>main\<close> runs the program; they talk over the
  channels \<open>stopCh\<close> (unbuffered), \<open>exitCodeCh\<close> and \<open>serviceManagerFinishedCh\<close> (one place each). The control
  requests that will arrive are a list; a step of \<open>Execute\<close> takes the next one, at any time.
\<close>

datatype control = Interrogate | Stop | Shutdown | OtherControl nat

datatype service_status = StartPending | Running | StopPending | CurrentStatus

text \<open>\<open>main\<close>: in the start-up of \<open>run\<close>, in its final select, with an exit code, after sending it, ended.\<close>

datatype main_pos = Starting | Serving | Exiting nat | Waiting | MainEnded

text \<open>
  \<open>Execute\<close>: at its select, at the send on \<open>stopCh\<close>, waiting for the exit code, returned with its two
  results, and the end of \<open>svc.Run\<close>.
\<close>

datatype exec_pos = ESelect | ESignal | EAwaitCode | EReturned bool nat | ESvcEnded bool nat

record service =
  mainPos :: main_pos
  execPos :: exec_pos
  exitCodeCh :: "nat option"
  finishedCh :: bool
  controls :: "control list"
  changes :: "service_status list"
  serverEnd :: "nat option"

text \<open>
  \<open>logFailed\<close>: the message about the start could not be written to the event log, and the exit code 2 is in the channel. \<open>serverEnd\<close> is
  how serving ends without a stop request: never, or with the exit code of \<open>run\<close> (1 when the HTTP server failed, 0 when it was closed or the process got a kill signal).
\<close>

definition service_init :: "bool \<Rightarrow> nat option \<Rightarrow> control list \<Rightarrow> service" where
  "service_init logFailed ends cs = \<lparr>mainPos = Starting, execPos = ESelect, exitCodeCh = (if logFailed then Some 2 else None),
     finishedCh = False, controls = cs,
     changes = [StartPending, Running], serverEnd = ends\<rparr>"

inductive service_step :: "service \<Rightarrow> service \<Rightarrow> bool" where
  start_failed: "mainPos s = Starting \<Longrightarrow> service_step s (s\<lparr>mainPos := Exiting 1\<rparr>)"
| start_done: "mainPos s = Starting \<Longrightarrow> service_step s (s\<lparr>mainPos := Serving\<rparr>)"
| server_ended: "mainPos s = Serving \<Longrightarrow> serverEnd s = Some code \<Longrightarrow> service_step s (s\<lparr>mainPos := Exiting code\<rparr>)"
| stop: "mainPos s = Serving \<Longrightarrow> execPos s = ESignal \<Longrightarrow> service_step s (s\<lparr>mainPos := Exiting 0, execPos := EAwaitCode\<rparr>)"
| send_code: "mainPos s = Exiting code \<Longrightarrow> exitCodeCh s = None \<Longrightarrow>
     service_step s (s\<lparr>mainPos := Waiting, exitCodeCh := Some code\<rparr>)"
| main_end: "mainPos s = Waiting \<Longrightarrow> finishedCh s \<Longrightarrow> service_step s (s\<lparr>mainPos := MainEnded, finishedCh := False\<rparr>)"
| exec_code: "execPos s = ESelect \<Longrightarrow> exitCodeCh s = Some code \<Longrightarrow>
     service_step s (s\<lparr>execPos := EReturned True code, exitCodeCh := None, changes := changes s @ [StopPending]\<rparr>)"
| exec_interrogate: "execPos s = ESelect \<Longrightarrow> controls s = Interrogate # cs \<Longrightarrow>
     service_step s (s\<lparr>controls := cs, changes := changes s @ [CurrentStatus]\<rparr>)"
| exec_stop: "execPos s = ESelect \<Longrightarrow> controls s = c # cs \<Longrightarrow> c \<in> {Stop, Shutdown} \<Longrightarrow>
     service_step s (s\<lparr>controls := cs, execPos := ESignal, changes := changes s @ [StopPending]\<rparr>)"
| exec_other: "execPos s = ESelect \<Longrightarrow> controls s = OtherControl n # cs \<Longrightarrow> service_step s (s\<lparr>controls := cs\<rparr>)"
| exec_await: "execPos s = EAwaitCode \<Longrightarrow> exitCodeCh s = Some code \<Longrightarrow>
     service_step s (s\<lparr>execPos := EReturned False code, exitCodeCh := None\<rparr>)"
| svc_end: "execPos s = EReturned b code \<Longrightarrow> service_step s (s\<lparr>execPos := ESvcEnded b code, finishedCh := True\<rparr>)"

inductive_cases service_stepE: "service_step s s'"

section \<open>Invariant and termination\<close>

text \<open>Which positions of the two goroutines go together, and where the exit code is.\<close>

definition service_inv :: "service \<Rightarrow> bool" where
  "service_inv s \<longleftrightarrow>
     (case execPos s of
        ESelect \<Rightarrow> mainPos s \<noteq> MainEnded \<and> (mainPos s = Waiting \<longrightarrow> exitCodeCh s \<noteq> None) \<and> \<not> finishedCh s
      | ESignal \<Rightarrow> mainPos s \<noteq> MainEnded \<and> (mainPos s = Waiting \<longrightarrow> exitCodeCh s \<noteq> None) \<and> \<not> finishedCh s
      | EAwaitCode \<Rightarrow> ((\<exists>c. mainPos s = Exiting c) \<or> mainPos s = Waiting \<and> exitCodeCh s \<noteq> None) \<and> \<not> finishedCh s
      | EReturned b c \<Rightarrow> mainPos s \<noteq> MainEnded \<and> (exitCodeCh s \<noteq> None \<longrightarrow> mainPos s = Waiting) \<and> \<not> finishedCh s
      | ESvcEnded b c \<Rightarrow> (exitCodeCh s \<noteq> None \<longrightarrow> mainPos s = Waiting \<or> mainPos s = MainEnded) \<and> (mainPos s \<noteq> MainEnded \<longrightarrow> finishedCh s))"

fun main_weight :: "main_pos \<Rightarrow> nat" where
  "main_weight Starting = 4" | "main_weight Serving = 3" | "main_weight (Exiting c) = 2" | "main_weight Waiting = 1"
| "main_weight MainEnded = 0"

fun exec_weight :: "exec_pos \<Rightarrow> nat" where
  "exec_weight ESelect = 4" | "exec_weight ESignal = 3" | "exec_weight EAwaitCode = 2" | "exec_weight (EReturned b c) = 1"
| "exec_weight (ESvcEnded b c) = 0"

definition service_weight :: "service \<Rightarrow> nat" where
  "service_weight s = main_weight (mainPos s) + exec_weight (execPos s) + length (controls s)"

lemma service_inv_step: "service_step s s' \<Longrightarrow> service_inv s \<Longrightarrow> service_inv s'"
  by (induction rule: service_step.induct) (auto simp: service_inv_def split: exec_pos.splits)

lemma service_weight_step: "service_step s s' \<Longrightarrow> service_weight s' < service_weight s"
  by (induction rule: service_step.induct) (auto simp: service_weight_def)

interpretation svc: terminating_system service_step "\<lambda>s. s = service_init logFailed ends cs" service_inv service_weight
proof
  show "service_inv s" if "s = service_init logFailed ends cs" for s
    using that by (simp add: service_inv_def service_init_def)
  show "service_inv s'" if "service_inv s" and "service_step s s'" for s s'
    using that(2,1) by (rule service_inv_step)
  show "service_weight s' < service_weight s" if "service_inv s" and "service_step s s'" for s s'
    using that(2) by (rule service_weight_step)
qed

text \<open>
  The states without a step: both sides ended; \<open>Execute\<close> waits for \<open>main\<close> to take the stop signal, which it will not do; or \<open>main\<close> serves for ever, while \<open>Execute\<close> waits
  for requests or has returned.
\<close>

definition properEnd :: "service \<Rightarrow> bool" where
  "properEnd s \<longleftrightarrow> mainPos s = MainEnded \<and> (case execPos s of ESvcEnded b c \<Rightarrow> True | _ \<Rightarrow> False)"

definition deadlocked :: "service \<Rightarrow> bool" where
  "deadlocked s \<longleftrightarrow> execPos s = ESignal \<and> mainPos s \<notin> {Starting, Serving, MainEnded} \<and> exitCodeCh s \<noteq> None"

definition servesOn :: "service \<Rightarrow> bool" where
  "servesOn s \<longleftrightarrow> mainPos s = Serving \<and> execPos s = ESelect \<and> controls s = []"

definition orphaned :: "service \<Rightarrow> bool" where
  "orphaned s \<longleftrightarrow> mainPos s = Serving \<and> (case execPos s of ESvcEnded b c \<Rightarrow> True | _ \<Rightarrow> False)"

lemma service_stuck:
  assumes "service_inv s" and "\<nexists>s'. service_step s s'"
  shows "properEnd s \<or> deadlocked s \<or> serverEnd s = None \<and> (servesOn s \<or> orphaned s)"
proof -
  have main: "(\<exists>c. mainPos s = Exiting c) \<and> exitCodeCh s \<noteq> None \<or> mainPos s = Waiting \<or> mainPos s = MainEnded \<or> mainPos s = Serving \<and> serverEnd s = None"
  proof (cases "mainPos s")
    case (Exiting code)
    then show ?thesis using assms(2) service_step.send_code by blast
  next
    case Starting
    then show ?thesis using assms(2) service_step.start_done by blast
  next
    case Serving
    then show ?thesis using assms(2) service_step.server_ended by (cases "serverEnd s") blast+
  qed simp_all
  show ?thesis
  proof (cases "execPos s")
    case ESelect
    then have "exitCodeCh s = None" using assms(2) service_step.exec_code by (cases "exitCodeCh s") blast+
    then have serving: "mainPos s = Serving" "serverEnd s = None" using ESelect assms(1) main by (auto simp: service_inv_def)
    moreover have "controls s = []"
    proof (cases "controls s")
      case (Cons c cs)
      then show ?thesis
        using ESelect assms(2) service_step.exec_interrogate service_step.exec_stop service_step.exec_other by (cases c) blast+
    qed
    ultimately show ?thesis using ESelect by (simp add: servesOn_def)
  next
    case ESignal
    then have "mainPos s \<noteq> Serving" using assms(2) service_step.stop by blast
    then show ?thesis using ESignal assms(1) main by (auto simp: service_inv_def deadlocked_def)
  next
    case EAwaitCode
    then have "exitCodeCh s \<noteq> None" using assms(1) main by (auto simp: service_inv_def)
    then show ?thesis using EAwaitCode assms(2) service_step.exec_await by blast
  next
    case (EReturned b c)
    then show ?thesis using assms(2) service_step.svc_end by blast
  next
    case (ESvcEnded b c)
    then have "mainPos s = Waiting \<Longrightarrow> finishedCh s" using assms(1) by (simp add: service_inv_def)
    then have "mainPos s = MainEnded \<or> mainPos s = Serving \<and> serverEnd s = None"
      using main assms ESvcEnded service_step.main_end by (auto simp: service_inv_def)
    then show ?thesis using ESvcEnded by (auto simp: properEnd_def orphaned_def)
  qed
qed

text \<open>Which of them can be reached depends on the requests and on the log at the start: the exit code comes from \<open>main\<close> unless the log failed.\<close>

definition service_source :: "bool \<Rightarrow> nat option \<Rightarrow> control list \<Rightarrow> service \<Rightarrow> bool" where
  "service_source logFailed ends cs s \<longleftrightarrow>
     serverEnd s = ends \<and> set (controls s) \<subseteq> set cs \<and>
     (Stop \<notin> set cs \<and> Shutdown \<notin> set cs \<longrightarrow> execPos s \<noteq> ESignal) \<and>
     (\<not> logFailed \<and> mainPos s \<in> {Starting, Serving} \<longrightarrow> exitCodeCh s = None \<and> execPos s \<in> {ESelect, ESignal})"

lemma service_source_step: "service_step s s' \<Longrightarrow> service_source logFailed ends cs s \<Longrightarrow> service_source logFailed ends cs s'"
  by (induction rule: service_step.induct) (auto simp: service_source_def)

interpretation svc_source: invariant_system service_step "\<lambda>s. s = service_init logFailed ends cs" "service_source logFailed ends cs"
proof
  show "service_source logFailed ends cs s" if "s = service_init logFailed ends cs" for s
    using that by (simp add: service_source_def service_init_def)
  show "service_source logFailed ends cs s'" if "service_source logFailed ends cs s" and "service_step s s'" for s s'
    using that(2,1) by (rule service_source_step)
qed

section \<open>Properties\<close>

text \<open>
  C22: What becomes of the service. No run goes on for ever without a step of the program's environment, and a run rests in one of four ways: \<open>main\<close> has ended and the service control
  manager was told; \<open>main\<close> goes on to serve while \<open>Execute\<close> waits for a request; \<open>Execute\<close> waits for ever for \<open>main\<close> to take the stop signal after \<open>run\<close> has returned, which takes a stop or
  shutdown request; or the service control manager was told that the service ended while \<open>main\<close> goes on to serve, which takes a failed write to the event log at the start. The program
  goes on to serve only if the server does not end.
\<close>

theorem service_ends:
  "\<not> (\<exists>r. r 0 = service_init logFailed ends cs \<and> (\<forall>i. service_step (r i) (r (Suc i)))) \<and>
   {s. service_step\<^sup>*\<^sup>* (service_init logFailed ends cs) s \<and> \<not> (\<exists>s'. service_step s s')} \<subseteq>
     {s. properEnd s} \<union>
     (if Stop \<in> set cs \<or> Shutdown \<in> set cs then {s. deadlocked s} else {}) \<union>
     (if ends = None then {s. servesOn s} else {}) \<union>
     (if ends = None \<and> logFailed then {s. orphaned s} else {})"
proof (intro conjI subsetI notI)
  assume "\<exists>r. r 0 = service_init logFailed ends cs \<and> (\<forall>i. service_step (r i) (r (Suc i)))"
  then show False using svc.no_infinite_run svc.inv_init by metis
next
  fix s
  assume "s \<in> {s. service_step\<^sup>*\<^sup>* (service_init logFailed ends cs) s \<and> \<not> (\<exists>s'. service_step s s')}"
  then have reach: "service_step\<^sup>*\<^sup>* (service_init logFailed ends cs) s" and stuck: "\<not> (\<exists>s'. service_step s s')" by auto
  have "service_source logFailed ends cs s" by (rule svc_source.inv_reachable [OF refl reach])
  then show "s \<in> {s. properEnd s} \<union> (if Stop \<in> set cs \<or> Shutdown \<in> set cs then {s. deadlocked s} else {}) \<union>
     (if ends = None then {s. servesOn s} else {}) \<union> (if ends = None \<and> logFailed then {s. orphaned s} else {})"
    using service_stuck [OF svc.inv_reachable [OF refl reach] stuck]
    by (auto simp: service_source_def deadlocked_def orphaned_def split: exec_pos.splits)
qed

text \<open>
  C23: The deadlock is reachable: a stop request that \<open>Execute\<close> takes after the start-up failed, before
  it sees the exit code, leaves both sides waiting for ever.
\<close>

theorem service_stop_deadlock:
  "\<exists>s. service_step\<^sup>*\<^sup>* (service_init False ends [Stop]) s \<and> \<not> (\<exists>s'. service_step s s') \<and> mainPos s \<noteq> MainEnded \<and> deadlocked s"
proof -
  let ?s = "\<lparr>mainPos = Waiting, execPos = ESignal, exitCodeCh = Some 1, finishedCh = False, controls = [],
     changes = [StartPending, Running, StopPending], serverEnd = ends\<rparr>"
  have "service_step\<^sup>*\<^sup>* (service_init False ends [Stop]) ?s"
    unfolding service_init_def
    apply (rule converse_rtranclp_into_rtranclp, rule service_step.start_failed, simp)
    apply (rule converse_rtranclp_into_rtranclp, rule service_step.send_code, simp, simp)
    apply (rule converse_rtranclp_into_rtranclp, rule service_step.exec_stop, simp, simp, simp)
    apply simp
    done
  moreover have "\<not> service_step ?s s'" for s' by (auto elim: service_stepE)
  ultimately show ?thesis by (intro exI [of _ ?s]) (auto simp: deadlocked_def)
qed

text \<open>
  C36: When the message about the start cannot be written to the event log, the exit code 2 is put into the channel but \<open>main\<close> starts all the same: there is a run in which the service control
  manager is told that the service ended with the code 2 while the program goes on to serve for ever, and takes no stop request any more.
\<close>

theorem service_log_failure_orphans_main:
  "\<exists>s. service_step\<^sup>*\<^sup>* (service_init True None cs) s \<and> \<not> (\<exists>s'. service_step s s') \<and> mainPos s = Serving \<and> execPos s = ESvcEnded True 2"
proof -
  let ?s = "\<lparr>mainPos = Serving, execPos = ESvcEnded True 2, exitCodeCh = None, finishedCh = True, controls = cs,
     changes = [StartPending, Running, StopPending], serverEnd = None\<rparr>"
  have "service_step\<^sup>*\<^sup>* (service_init True None cs) ?s"
    unfolding service_init_def
    apply (rule converse_rtranclp_into_rtranclp, rule service_step.start_done, simp)
    apply (rule converse_rtranclp_into_rtranclp, rule service_step.exec_code, simp, simp)
    apply (rule converse_rtranclp_into_rtranclp, rule service_step.svc_end, simp)
    apply simp
    done
  moreover have "\<not> service_step ?s s'" for s' by (auto elim: service_stepE)
  ultimately show ?thesis by (intro exI [of _ ?s]) auto
qed

end
