(* ===== verification/Textfile.thy ===== *)
theory Textfile
  imports Prom Go_Errors
begin

text \<open>
  The textfile collector (internal/collector/textfile/textfile.go): it reads the metric files
  of some directories and passes their metrics on. The parser of the exposition format, the
  byte-order-mark detection and the file system are parameters; what the parser returns is a
  list of metric families, in the order of one iteration over its map.
\<close>

section \<open>Metric families\<close>

datatype metricType = COUNTER | GAUGE | SUMMARY | UNTYPED | HISTOGRAM | GAUGE_HISTOGRAM

datatype sample =
    SCounter f64
  | SGauge f64
  | SUntyped f64
  | SSummary nat f64 "(f64 \<times> f64) list"
  | SHistogram nat f64 "(f64 \<times> nat) list"

record dtoMetric =
  labelPairs :: "(string \<times> string) list"
  timestampMs :: "int option"
  sample :: sample

record metricFamily =
  familyName :: string
  familyHelp :: "string option"
  familyType :: metricType
  familyMetrics :: "dtoMetric list"

text \<open>The getters give the zero value where the message has no such part.\<close>

fun counterOf :: "sample \<Rightarrow> f64" where "counterOf (SCounter v) = v" | "counterOf _ = F_Fin 0"
fun gaugeOf :: "sample \<Rightarrow> f64" where "gaugeOf (SGauge v) = v" | "gaugeOf _ = F_Fin 0"
fun untypedOf :: "sample \<Rightarrow> f64" where "untypedOf (SUntyped v) = v" | "untypedOf _ = F_Fin 0"

fun summaryOf :: "sample \<Rightarrow> nat \<times> f64 \<times> (f64 \<times> f64) list" where
  "summaryOf (SSummary n s qs) = (n, s, qs)" | "summaryOf _ = (0, F_Fin 0, [])"

fun histogramOf :: "sample \<Rightarrow> nat \<times> f64 \<times> (f64 \<times> nat) list" where
  "histogramOf (SHistogram n s bs) = (n, s, bs)" | "histogramOf _ = (0, F_Fin 0, [])"

definition toMap :: "('k \<times> 'v) list \<Rightarrow> ('k, 'v) gomap" where
  "toMap ps = fold (\<lambda>(k, v). map_set k v) ps []"

section \<open>Duplicates\<close>

text \<open>\<open>reflect.DeepEqual\<close> on two maps of strings: the same entries.\<close>

definition deepEqual :: "(string, string) gomap \<Rightarrow> (string, string) gomap \<Rightarrow> bool" where
  "deepEqual m1 m2 \<longleftrightarrow> set m1 = set m2"

text \<open>The two loops, over the pairs of a family's name and a metric's labels.\<close>

fun duplicateEntries :: "(string, (string, string) gomap) gomap \<Rightarrow> (string \<times> (string, string) gomap) list \<Rightarrow> bool" where
  "duplicateEntries unique [] \<longleftrightarrow> False"
| "duplicateEntries unique ((name, labels) # es) \<longleftrightarrow>
     (if (case map_get unique name of None \<Rightarrow> False | Some old \<Rightarrow> deepEqual old labels) then True
      else duplicateEntries (map_set name labels unique) es)"

definition metricEntries :: "metricFamily list \<Rightarrow> (string \<times> (string, string) gomap) list" where
  "metricEntries fs = concat (map (\<lambda>f. map (\<lambda>m. (familyName f, toMap (labelPairs m))) (familyMetrics f)) fs)"

definition duplicateMetricEntry :: "metricFamily list \<Rightarrow> bool" where
  "duplicateMetricEntry fs = duplicateEntries [] (metricEntries fs)"

text \<open>
  Two entries of the same name with the same labels, the second the next one of that name after
  the first: \<open>map_of\<close> finds the first entry of a name in the rest of the list.
\<close>

fun adjacentDuplicate :: "(string \<times> (string, string) gomap) list \<Rightarrow> bool" where
  "adjacentDuplicate [] \<longleftrightarrow> False"
| "adjacentDuplicate ((name, labels) # es) \<longleftrightarrow>
     (case map_of es name of None \<Rightarrow> False | Some labels' \<Rightarrow> deepEqual labels labels') \<or> adjacentDuplicate es"

lemma duplicateEntries_iff:
  "duplicateEntries unique es \<longleftrightarrow>
     adjacentDuplicate es \<or> (\<exists>n l1 l2. map_get unique n = Some l1 \<and> map_of es n = Some l2 \<and> deepEqual l1 l2)"
proof (induction es arbitrary: unique)
  case Nil
  then show ?case by simp
next
  case (Cons e es)
  obtain name labels where e: "e = (name, labels)" by (cases e)
  have "duplicateEntries unique (e # es) \<longleftrightarrow>
      (\<exists>old. map_get unique name = Some old \<and> deepEqual old labels) \<or> duplicateEntries (map_set name labels unique) es"
    by (auto simp: e split: option.splits)
  also have "\<dots> \<longleftrightarrow> (\<exists>old. map_get unique name = Some old \<and> deepEqual old labels) \<or> adjacentDuplicate es \<or>
      (\<exists>l2. map_of es name = Some l2 \<and> deepEqual labels l2) \<or>
      (\<exists>n l1 l2. n \<noteq> name \<and> map_get unique n = Some l1 \<and> map_of es n = Some l2 \<and> deepEqual l1 l2)"
    unfolding Cons.IH by (auto split: if_splits)
  also have "\<dots> \<longleftrightarrow> adjacentDuplicate (e # es) \<or>
      (\<exists>n l1 l2. map_get unique n = Some l1 \<and> map_of (e # es) n = Some l2 \<and> deepEqual l1 l2)"
    by (auto simp: e split: option.splits if_splits)
  finally show ?case .
qed

text \<open>
  C24: \<open>duplicateMetricEntry\<close> finds a duplicate exactly when two metrics of one name that follow each
  other (with only metrics of other names between them) have the same labels and values.
\<close>

theorem duplicateMetricEntry_iff: "duplicateMetricEntry fs \<longleftrightarrow> adjacentDuplicate (metricEntries fs)"
  unfolding duplicateMetricEntry_def using duplicateEntries_iff [of "[]"] by simp

text \<open>
  A duplicate with another metric of the same name in between is not found, although the
  comment of \<open>duplicateMetricEntry\<close> says that any two entries with the same name and labels are
  duplicates: the map keeps the labels of the last metric of a name only.
\<close>

theorem duplicate_missed:
  "duplicateMetricEntry
     [\<lparr>familyName = ''up'', familyHelp = None, familyType = GAUGE,
       familyMetrics = map (\<lambda>v. \<lparr>labelPairs = [(''job'', v)], timestampMs = None, sample = SGauge (F_Fin 1)\<rparr>) [''a'', ''b'', ''a'']\<rparr>]
   = False"
  by (simp add: duplicateMetricEntry_def metricEntries_def toMap_def deepEqual_def)

section \<open>Conversion\<close>

text \<open>All label names of a family, each once.\<close>

definition allLabelNames :: "metricFamily \<Rightarrow> string list" where
  "allLabelNames f = map_keys (toMap (concat (map (\<lambda>m. map (\<lambda>(n, v). (n, ())) (labelPairs m)) (familyMetrics f))))"

text \<open>The labels of a metric, then the names it lacks with the empty value.\<close>

definition completeLabels :: "metricFamily \<Rightarrow> dtoMetric \<Rightarrow> (string \<times> string) list" where
  "completeLabels f m =
     labelPairs m @ map (\<lambda>k. (k, [])) (filter (\<lambda>k. k \<notin> fst ` set (labelPairs m)) (allLabelNames f))"

definition getHelp :: "metricFamily \<Rightarrow> string" where
  "getHelp f = (case familyHelp f of None \<Rightarrow> [] | Some h \<Rightarrow> h)"

definition convertMetric :: "metricFamily \<Rightarrow> dtoMetric \<Rightarrow> metric list" where
  "convertMetric f m =
     (let names = map fst (completeLabels f m); values = map snd (completeLabels f m);
          d = NewDesc (FullName (familyName f)) (getHelp f) names
      in case familyType f of
           COUNTER \<Rightarrow> [ConstMetric d CounterValue (counterOf (sample m)) values]
         | GAUGE \<Rightarrow> [ConstMetric d GaugeValue (gaugeOf (sample m)) values]
         | UNTYPED \<Rightarrow> [ConstMetric d UntypedValue (untypedOf (sample m)) values]
         | SUMMARY \<Rightarrow> (case summaryOf (sample m) of (n, s, qs) \<Rightarrow> [ConstSummary d n s (toMap qs) values])
         | HISTOGRAM \<Rightarrow> (case histogramOf (sample m) of (n, s, bs) \<Rightarrow> [ConstHistogram d n s (toMap bs) values])
         | GAUGE_HISTOGRAM \<Rightarrow> [])"

definition convertMetricFamily :: "metricFamily \<Rightarrow> metric list" where
  "convertMetricFamily f = concat (map (convertMetric f) (familyMetrics f))"

lemma keys_toMap: "fst ` set (toMap ps) = fst ` set ps"
proof -
  have "fst ` set (fold (\<lambda>(k, v). map_set k v) ps m) = fst ` set m \<union> fst ` set ps" for m
    by (induction ps arbitrary: m) (simp_all add: split_beta)
  then show ?thesis by (simp add: toMap_def)
qed

lemma set_allLabelNames: "set (allLabelNames f) = (\<Union>m\<in>set (familyMetrics f). fst ` set (labelPairs m))"
  unfolding allLabelNames_def set_map keys_toMap by force

lemma convertMetric_labels:
  assumes "m \<in> set (familyMetrics f)" and "x \<in> set (convertMetric f m)"
  shows "variableLabels (metric_desc x) = map fst (completeLabels f m) \<and> label_values x = map snd (completeLabels f m) \<and>
    fqName (metric_desc x) = FullName (familyName f)"
  using assms(2) by (auto simp: convertMetric_def Let_def split: metricType.splits prod.splits)

text \<open>
  All the metrics that a family is converted to are of the family's name, have as many label
  values as labels, and have the same set of labels, which is every label that occurs in the
  family: what the registry asks of metrics of one name.
\<close>

theorem convertMetricFamily_consistent:
  "list_all (\<lambda>x. arity_ok x \<and> fqName (metric_desc x) = FullName (familyName f) \<and>
      set (variableLabels (metric_desc x)) = set (allLabelNames f)) (convertMetricFamily f)"
proof -
  have "arity_ok x \<and> fqName (metric_desc x) = FullName (familyName f) \<and> set (variableLabels (metric_desc x)) = set (allLabelNames f)"
    if m: "m \<in> set (familyMetrics f)" and x: "x \<in> set (convertMetric f m)" for x m
  proof -
    have "set (map fst (completeLabels f m)) = set (allLabelNames f)"
      using m by (auto simp: completeLabels_def set_allLabelNames image_Un image_image)
    then show ?thesis using convertMetric_labels [OF m x] by (simp add: arity_ok_def)
  qed
  then show ?thesis by (auto simp: convertMetricFamily_def list_all_iff)
qed

section \<open>Files\<close>

text \<open>\<open>carriageReturnFilteringReader.Read\<close>: what one read of the underlying file becomes.\<close>

definition crFilter :: "bytes \<Rightarrow> bytes" where
  "crFilter bs = filter (\<lambda>b. b \<noteq> 0x0D) bs"

datatype bom = UnknownBOM | UTF8 | OtherBOM string

definition checkBOM :: "bom \<Rightarrow> go_error option" where
  "checkBOM b = (case b of UnknownBOM \<Rightarrow> None | UTF8 \<Rightarrow> None | OtherBOM n \<Rightarrow> Some (ErrorText n []))"

definition withDefaultHelp :: "string \<Rightarrow> metricFamily \<Rightarrow> metricFamily" where
  "withDefaultHelp path f = (if familyHelp f = None then f\<lparr>familyHelp := Some (''Metric read from '' @ path)\<rparr> else f)"

text \<open>
  \<open>scrapeFile\<close> on the content of the file (or the error of opening it); the second result says
  whether the file that was opened is closed again.
\<close>

definition scrapeFile ::
  "(bytes \<Rightarrow> bom \<times> bytes) \<Rightarrow> (bytes \<Rightarrow> go_error + metricFamily list) \<Rightarrow> string \<Rightarrow> go_error + bytes \<Rightarrow>
     (go_error + metricFamily list) \<times> bool" where
  "scrapeFile skipBOM parse path content =
     (case content of
        Inl e \<Rightarrow> (Inl e, True)
      | Inr bs \<Rightarrow>
          (let (encoding, r) = skipBOM (crFilter bs) in
           case checkBOM encoding of
             Some e \<Rightarrow> (Inl e, False)
           | None \<Rightarrow>
               (case parse r of
                  Inl e \<Rightarrow> (Inl e, True)
                | Inr fs \<Rightarrow>
                    (if list_ex (\<lambda>f. list_ex (\<lambda>m. timestampMs m \<noteq> None) (familyMetrics f)) fs
                     then (Inl (ErrorText ''textfile contains unsupported client-side timestamps'' []), True)
                     else let fs' = map (withDefaultHelp path) fs
                          in if duplicateMetricEntry fs' then (Inl (ErrorText ''duplicate metrics detected'' []), True)
                             else (Inr fs', True)))))"

record fileVisit =
  visitPath :: string
  visitName :: string
  visitIsDir :: bool
  visitErr :: "go_error option"
  visitScrape :: "go_error + metricFamily list"
  visitStat :: "go_error + string \<times> int"

record textState =
  mTimes :: "(string, int) gomap"
  families :: "metricFamily list"
  textErrs :: "go_error list"

text \<open>The callback of \<open>filepath.WalkDir\<close>; an error it returns ends the walk.\<close>

definition visitFile :: "fileVisit \<Rightarrow> textState \<Rightarrow> go_error option \<times> textState" where
  "visitFile v st =
     (case visitErr v of
        Some e \<Rightarrow> (Some (Wrapf ''error reading directory: %w'' [] e), st)
      | None \<Rightarrow>
          (if \<not> visitIsDir v \<and> HasSuffix (visitName v) ''.prom'' then
             (case visitScrape v of
                Inl e \<Rightarrow> (None, st\<lparr>textErrs := textErrs st @ [Wrapf ''error scraping file %q: %w'' [visitPath v] e]\<rparr>)
              | Inr fs \<Rightarrow>
                  (case visitStat v of
                     Inl e \<Rightarrow> (None, st\<lparr>textErrs := textErrs st @ [Wrapf ''error reading file info %q: %w'' [visitPath v] e]\<rparr>)
                   | Inr (name, modTime) \<Rightarrow>
                       (if map_get (mTimes st) name \<noteq> None
                        then (None, st\<lparr>textErrs := textErrs st @ [ErrorText ''duplicate filename detected: %q'' [visitPath v]]\<rparr>)
                        else (None, st\<lparr>mTimes := map_set name modTime (mTimes st), families := families st @ fs\<rparr>))))
           else (None, st)))"

fun walkDir :: "fileVisit list \<Rightarrow> textState \<Rightarrow> go_error option \<times> textState" where
  "walkDir [] st = (None, st)"
| "walkDir (v # vs) st = (case visitFile v st of (Some e, st') \<Rightarrow> (Some e, st') | (None, st') \<Rightarrow> walkDir vs st')"

fun walkDirs :: "(string \<times> fileVisit list) list \<Rightarrow> textState \<Rightarrow> textState" where
  "walkDirs [] st = st"
| "walkDirs ((directory, vs) # ds) st =
     (case walkDir vs st of
        (err, st') \<Rightarrow>
          walkDirs ds (if err \<noteq> None \<and> directory \<noteq> []
            then st'\<lparr>textErrs := textErrs st' @ [Wrapf ''error reading textfile directory %q: %w'' [directory] (the err)]\<rparr> else st'))"

definition modTimeDesc :: Desc where
  "modTimeDesc = NewDesc (BuildFQName Namespace ''textfile'' ''mtime_seconds'')
     ''Unixtime mtime of textfiles successfully read.'' [''file'']"

text \<open>\<open>exportMTimes\<close>: the time in whole seconds, by file name.\<close>

definition exportMTimes :: "(string, int) gomap \<Rightarrow> metric list" where
  "exportMTimes m =
     map (\<lambda>n. ConstMetric modTimeDesc GaugeValue (f64_of_int (go_quot (map_get0 0 m n) 1000000000)) [n]) (sort (map_keys m))"

definition Collect :: "(string \<times> fileVisit list) list \<Rightarrow> go_error option \<times> metric list" where
  "Collect dirs =
     (let st = walkDirs dirs \<lparr>mTimes = [], families = [], textErrs = []\<rparr>
      in (errors_Join (textErrs st),
          exportMTimes (mTimes st) @
          (if duplicateMetricEntry (families st) then [] else concat (map convertMetricFamily (families st)))))"

section \<open>Properties of Collect\<close>

text \<open>The files that are used: the first one of each name among those that can be read.\<close>

definition readable :: "fileVisit \<Rightarrow> bool" where
  "readable v \<longleftrightarrow> \<not> visitIsDir v \<and> HasSuffix (visitName v) ''.prom'' \<and>
     (case visitScrape v of Inl e \<Rightarrow> False | Inr fs \<Rightarrow> True) \<and> (case visitStat v of Inl e \<Rightarrow> False | Inr r \<Rightarrow> True)"

definition fileName :: "fileVisit \<Rightarrow> string" where
  "fileName v = (case visitStat v of Inl e \<Rightarrow> [] | Inr (n, t) \<Rightarrow> n)"

definition fileFamilies :: "fileVisit \<Rightarrow> metricFamily list" where
  "fileFamilies v = (case visitScrape v of Inl e \<Rightarrow> [] | Inr fs \<Rightarrow> fs)"

fun firstByName :: "string list \<Rightarrow> fileVisit list \<Rightarrow> fileVisit list" where
  "firstByName seen [] = []"
| "firstByName seen (v # vs) =
     (if readable v \<and> fileName v \<notin> set seen then v # firstByName (fileName v # seen) vs else firstByName seen vs)"

lemma visitFile_skips:
  assumes "visitErr v = None" and "\<not> (readable v \<and> map_get (mTimes st) (fileName v) = None)"
  shows "visitFile v st = (None, st\<lparr>textErrs := textErrs (snd (visitFile v st))\<rparr>)"
proof (cases "visitScrape v")
  case (Inl e)
  then show ?thesis using assms by (simp add: visitFile_def)
next
  case (Inr fs)
  then show ?thesis
    using assms by (cases "visitStat v") (auto simp: visitFile_def readable_def fileName_def)
qed

lemma walkDir_families:
  assumes "list_all (\<lambda>v. visitErr v = None) vs" and "set seen = fst ` set (mTimes st)"
  shows "\<exists>st'. walkDir vs st = (None, st') \<and>
    families st' = families st @ concat (map fileFamilies (firstByName seen vs)) \<and>
    fst ` set (mTimes st') = fst ` set (mTimes st) \<union> fileName ` set (firstByName seen vs) \<and>
    (wf_map (mTimes st) \<longrightarrow> wf_map (mTimes st'))"
  using assms
proof (induction vs arbitrary: seen st)
  case Nil
  then show ?case by simp
next
  case (Cons v vs)
  have ok: "visitErr v = None" and rest: "list_all (\<lambda>v. visitErr v = None) vs" using Cons.prems(1) by auto
  show ?case
  proof (cases "readable v \<and> fileName v \<notin> set seen")
    case True
    then obtain fs n t where r: "visitScrape v = Inr fs" "visitStat v = Inr (n, t)" "\<not> visitIsDir v" "HasSuffix (visitName v) ''.prom''"
      by (auto simp: readable_def split: sum.splits)
    let ?st = "st\<lparr>mTimes := map_set n t (mTimes st), families := families st @ fs\<rparr>"
    have new: "map_get (mTimes st) n = None" using True r Cons.prems(2) by (auto simp: fileName_def map_of_eq_None_iff)
    then have step: "visitFile v st = (None, ?st)" using ok r by (simp add: visitFile_def)
    have "set (n # seen) = fst ` set (mTimes ?st)" using Cons.prems(2) by simp
    from Cons.IH [OF rest this] show ?thesis
      using step True r by (auto simp: fileName_def fileFamilies_def)
  next
    case False
    then have "\<not> (readable v \<and> map_get (mTimes st) (fileName v) = None)"
      using Cons.prems(2) by (simp add: map_of_eq_None_iff)
    then obtain errs where "visitFile v st = (None, st\<lparr>textErrs := errs\<rparr>)" using visitFile_skips [OF ok] by blast
    then show ?thesis using False Cons.IH [OF rest, of seen "st\<lparr>textErrs := errs\<rparr>"] Cons.prems(2) by auto
  qed
qed

lemma walkDirs_families:
  assumes "list_all (\<lambda>(d, vs). list_all (\<lambda>v. visitErr v = None) vs) dirs" and "set seen = fst ` set (mTimes st)"
  shows "families (walkDirs dirs st) = families st @ concat (map fileFamilies (firstByName seen (concat (map snd dirs)))) \<and>
    (wf_map (mTimes st) \<longrightarrow> wf_map (mTimes (walkDirs dirs st))) \<and>
    fst ` set (mTimes (walkDirs dirs st)) = fst ` set (mTimes st) \<union> fileName ` set (firstByName seen (concat (map snd dirs)))"
  using assms
proof (induction dirs arbitrary: seen st)
  case Nil
  then show ?case by simp
next
  case (Cons d dirs)
  obtain n vs where d: "d = (n, vs)" by (cases d)
  have app: "firstByName seen (vs @ ws) = firstByName seen vs @ firstByName (rev (map fileName (firstByName seen vs)) @ seen) ws" for ws seen
    by (induction vs arbitrary: seen) auto
  obtain st' where st': "walkDir vs st = (None, st')" "families st' = families st @ concat (map fileFamilies (firstByName seen vs))"
    "fst ` set (mTimes st') = fst ` set (mTimes st) \<union> fileName ` set (firstByName seen vs)" "wf_map (mTimes st) \<longrightarrow> wf_map (mTimes st')"
    using walkDir_families [of vs seen st] Cons.prems d by auto
  have "set (rev (map fileName (firstByName seen vs)) @ seen) = fst ` set (mTimes st')"
    using st'(3) Cons.prems(2) by auto
  from Cons.IH [OF _ this] show ?case
    using st' Cons.prems(1) d app by auto
qed

text \<open>
  C25: One bad file does not keep the others from being exported: if the directories can be
  listed, then \<open>Collect\<close> exports the modification time of every file that can be read (the first of each
  name) and, unless they contain a duplicate, the metrics of exactly these files in order;
  every other file is left out, whatever was wrong with it.
\<close>

theorem Collect_skips_bad_files:
  assumes "list_all (\<lambda>(d, vs). list_all (\<lambda>v. visitErr v = None) vs) dirs"
  defines "good \<equiv> firstByName [] (concat (map snd dirs))"
  shows "\<exists>times. map label_values times = map (\<lambda>n. [n]) (sorted_list_of_set (fileName ` set good)) \<and>
    list_all (\<lambda>m. metric_desc m = modTimeDesc) times \<and>
    snd (Collect dirs) = times @ (if duplicateMetricEntry (concat (map fileFamilies good)) then []
                                  else concat (map convertMetricFamily (concat (map fileFamilies good))))"
proof -
  let ?st = "walkDirs dirs \<lparr>mTimes = [], families = [], textErrs = []\<rparr>"
  have st: "families ?st = concat (map fileFamilies good)" "wf_map (mTimes ?st)" "fst ` set (mTimes ?st) = fileName ` set good"
    using walkDirs_families [OF assms(1), of "[]" "\<lparr>mTimes = [], families = [], textErrs = []\<rparr>"] by (simp_all add: good_def)
  have "sort (map_keys (mTimes ?st)) = sorted_list_of_set (fileName ` set good)"
    using st(2,3) by (simp add: wf_map_def sorted_list_of_set.idem_if_sorted_distinct flip: sorted_list_of_set_sort_remdups)
      (metis distinct_remdups_id list.set_map sorted_list_of_set_sort_remdups)
  then have "map label_values (exportMTimes (mTimes ?st)) = map (\<lambda>n. [n]) (sorted_list_of_set (fileName ` set good))"
    by (simp add: exportMTimes_def comp_def)
  moreover have "list_all (\<lambda>m. metric_desc m = modTimeDesc) (exportMTimes (mTimes ?st))"
    by (simp add: exportMTimes_def list_all_iff)
  ultimately show ?thesis
    by (intro exI [of _ "exportMTimes (mTimes ?st)"]) (simp add: Collect_def Let_def st(1))
qed

definition sampleVisit :: "string \<Rightarrow> go_error + metricFamily list \<Rightarrow> fileVisit" where
  "sampleVisit n r = \<lparr>visitPath = n, visitName = n, visitIsDir = False, visitErr = None, visitScrape = r, visitStat = Inr (n, 0)\<rparr>"

theorem Collect_skips_bad_files_witness:
  "\<exists>times. map label_values times = [[''b.prom'']] \<and>
     snd (Collect [(''d'', [sampleVisit ''a.prom'' (Inl (ErrorText ''bad'' [])), sampleVisit ''b.prom'' (Inr [])])]) = times"
proof -
  have good: "firstByName [] [sampleVisit ''a.prom'' (Inl (ErrorText ''bad'' [])), sampleVisit ''b.prom'' (Inr [])] =
      [sampleVisit ''b.prom'' (Inr [])]"
    by (simp add: readable_def sampleVisit_def HasSuffix_def suffix_def)
  have "list_all (\<lambda>(d, vs). list_all (\<lambda>v. visitErr v = None) vs)
      [(''d'', [sampleVisit ''a.prom'' (Inl (ErrorText ''bad'' [])), sampleVisit ''b.prom'' (Inr [])])]"
    by (simp add: sampleVisit_def)
  moreover have all: "concat (map snd [(''d'', [sampleVisit ''a.prom'' (Inl (ErrorText ''bad'' [])), sampleVisit ''b.prom'' (Inr [])])]) =
      [sampleVisit ''a.prom'' (Inl (ErrorText ''bad'' [])), sampleVisit ''b.prom'' (Inr [])]" by simp
  moreover have "fileName (sampleVisit ''b.prom'' (Inr [])) = ''b.prom''" "fileFamilies (sampleVisit ''b.prom'' (Inr [])) = []"
    by (simp_all add: fileName_def fileFamilies_def sampleVisit_def)
  ultimately show ?thesis
    using Collect_skips_bad_files [of "[(''d'', [sampleVisit ''a.prom'' (Inl (ErrorText ''bad'' [])), sampleVisit ''b.prom'' (Inr [])])]",
        unfolded all good]
    by (auto simp: duplicateMetricEntry_def metricEntries_def)
qed

end
