(* ===== verification/Config.thy ===== *)
theory Config
  imports Go_Errors
begin

text \<open>
  The configuration file (internal/config): finding its name on the command line, flattening
  its YAML tree to flag names, and using the values as the flags' defaults. Reading files and
  URLs, the YAML parser and kingpin are parameters.
\<close>

section \<open>Flattening\<close>

text \<open>
  A value as \<open>yaml.Unmarshal\<close> gives it: a map with string keys, a map whose keys may be of any
  type (\<^term>\<open>None\<close> for a key that is not a string), a list, or a scalar with the text that
  \<open>fmt.Sprint\<close> gives for it. A map's entries come in the order of one iteration.
\<close>

datatype yaml =
    YMap "(string \<times> yaml) list"
  | YAnyMap "(string option \<times> yaml) list"
  | YList "yaml list"
  | YScalar string

text \<open>\<open>convertMap\<close> keeps the entries with a string key.\<close>

fun convertMap :: "(string option \<times> yaml) list \<Rightarrow> (string \<times> yaml) list" where
  "convertMap [] = []"
| "convertMap ((None, v) # m) = convertMap m"
| "convertMap ((Some k, v) # m) = (k, v) # convertMap m"

lemma size_convertMap [termination_simp]:
  "size_list (size_prod (\<lambda>x. 0) size) (convertMap m) \<le> size_list (size_prod (\<lambda>x. 0) size) m"
  by (induction m rule: convertMap.induct) auto

text \<open>The entries of a nested result, each under its prefix.\<close>

definition addPrefixed :: "string \<Rightarrow> (string, string) gomap \<Rightarrow> (string, string) gomap \<Rightarrow> (string, string) gomap" where
  "addPrefixed p sub ret = fold (\<lambda>(fk, fv). map_set (p @ fk) fv) sub ret"

function (sequential) flattenInto :: "(string, string) gomap \<Rightarrow> (string \<times> yaml) list \<Rightarrow> (string, string) gomap"
  and flattenSliceInto :: "(string, string) gomap \<Rightarrow> nat \<Rightarrow> yaml list \<Rightarrow> (string, string) gomap" where
  "flattenInto ret [] = ret"
| "flattenInto ret ((k, YAnyMap m) # d) = flattenInto (addPrefixed (k @ ''.'') (flattenInto [] (convertMap m)) ret) d"
| "flattenInto ret ((k, YMap m) # d) = flattenInto (addPrefixed (k @ ''.'') (flattenInto [] m) ret) d"
| "flattenInto ret ((k, YList vs) # d) = flattenInto (addPrefixed (k @ ''.'') (flattenSliceInto [] 0 vs) ret) d"
| "flattenInto ret ((k, YScalar s) # d) = flattenInto (map_set k s ret) d"
| "flattenSliceInto ret idx [] = ret"
| "flattenSliceInto ret idx (YAnyMap m # vs) =
     flattenSliceInto (addPrefixed (show_nat idx @ '','') (flattenInto [] (convertMap m)) ret) (Suc idx) vs"
| "flattenSliceInto ret idx (YMap m # vs) =
     flattenSliceInto (addPrefixed (show_nat idx @ '','') (flattenInto [] m) ret) (Suc idx) vs"
| "flattenSliceInto ret idx (YList ws # vs) =
     flattenSliceInto (addPrefixed (show_nat idx @ '','') (flattenSliceInto [] 0 ws) ret) (Suc idx) vs"
| "flattenSliceInto ret idx (YScalar s # vs) = flattenSliceInto (map_set (show_nat idx) s ret) (Suc idx) vs"
  by pat_completeness auto
termination
proof (relation "measure (\<lambda>x. case x of Inl (ret, d) \<Rightarrow> size_list (size_prod (\<lambda>x. 0) size) d
                                     | Inr (ret, idx, vs) \<Rightarrow> size_list size vs)", goal_cases)
qed (auto simp: le_imp_less_Suc size_convertMap trans_le_add1 intro: le_less_trans [OF size_convertMap])

definition flatten :: "(string \<times> yaml) list \<Rightarrow> (string, string) gomap" where
  "flatten data = flattenInto [] data"

definition flattenSlice :: "yaml list \<Rightarrow> (string, string) gomap" where
  "flattenSlice data = flattenSliceInto [] 0 data"

section \<open>What flatten computes\<close>

text \<open>A path into the tree, the value it leads to, and the flag name it is written as.\<close>

datatype step = Key string | Idx nat

fun lookup_path :: "yaml \<Rightarrow> step list \<Rightarrow> string option" where
  "lookup_path (YScalar s) [] = Some s"
| "lookup_path (YMap d) (Key k # p) = (case map_of d k of None \<Rightarrow> None | Some v \<Rightarrow> lookup_path v p)"
| "lookup_path (YAnyMap m) (Key k # p) = (case map_of (convertMap m) k of None \<Rightarrow> None | Some v \<Rightarrow> lookup_path v p)"
| "lookup_path (YList vs) (Idx i # p) = (if i < length vs then lookup_path (vs ! i) p else None)"
| "lookup_path _ _ = None"

fun render_path :: "step list \<Rightarrow> string" where
  "render_path [] = []"
| "render_path (Key k # p) = k @ (if p = [] then [] else CHR ''.'' # render_path p)"
| "render_path (Idx i # p) = show_nat i @ (if p = [] then [] else CHR '','' # render_path p)"

abbreviation separator :: "char \<Rightarrow> bool" where
  "separator c \<equiv> c = CHR ''.'' \<or> c = CHR '',''"

definition clean :: "string \<Rightarrow> bool" where
  "clean k \<longleftrightarrow> list_all (\<lambda>c. \<not> separator c) k"

text \<open>Trees in which the keys of a map are distinct, as in every Go map, and free of separators.\<close>

inductive wf_yaml :: "yaml \<Rightarrow> bool" where
  "wf_yaml (YScalar s)"
| "distinct (map fst d) \<Longrightarrow> (\<And>k v. (k, v) \<in> set d \<Longrightarrow> clean k \<and> wf_yaml v) \<Longrightarrow> wf_yaml (YMap d)"
| "wf_yaml (YMap (convertMap m)) \<Longrightarrow> wf_yaml (YAnyMap m)"
| "(\<And>v. v \<in> set vs \<Longrightarrow> wf_yaml v) \<Longrightarrow> wf_yaml (YList vs)"

text \<open>What one entry adds to the result, after its own key.\<close>

fun entries :: "char \<Rightarrow> yaml \<Rightarrow> (string, string) gomap" where
  "entries sep (YScalar s) = [([], s)]"
| "entries sep (YMap m) = map (\<lambda>(k, v). (sep # k, v)) (flattenInto [] m)"
| "entries sep (YAnyMap m) = map (\<lambda>(k, v). (sep # k, v)) (flattenInto [] (convertMap m))"
| "entries sep (YList vs) = map (\<lambda>(k, v). (sep # k, v)) (flattenSliceInto [] 0 vs)"

lemma addPrefixed_sep: "addPrefixed (p @ [c]) sub ret = addPrefixed p (map (\<lambda>(k, v). (c # k, v)) sub) ret"
  by (induction sub arbitrary: ret) (auto simp: addPrefixed_def)

lemma flattenInto_Cons: "flattenInto ret ((k, v) # d) = flattenInto (addPrefixed k (entries (CHR ''.'') v) ret) d"
proof (cases v)
  case (YScalar s)
  then show ?thesis by (simp add: addPrefixed_def)
qed (simp_all add: addPrefixed_sep)

lemma flattenSliceInto_Cons:
  "flattenSliceInto ret i (v # vs) = flattenSliceInto (addPrefixed (show_nat i) (entries (CHR '','') v) ret) (Suc i) vs"
proof (cases v)
  case (YScalar s)
  then show ?thesis by (simp add: addPrefixed_def del: show_nat.simps)
qed (simp_all add: addPrefixed_sep del: show_nat.simps)

lemma flattenSlice_as_map:
  "flattenSliceInto ret i vs = fold (\<lambda>(k, v). addPrefixed k (entries (CHR '','') v)) (zip (map show_nat [i..<i + length vs]) vs) ret"
proof (induction vs arbitrary: i ret)
  case Nil
  then show ?case by simp
next
  case (Cons v vs)
  have "[i..<i + length (v # vs)] = i # [Suc i..<Suc i + length vs]" by (simp add: upt_rec)
  then show ?case by (simp add: flattenSliceInto_Cons Cons del: show_nat.simps upt_Suc)
qed

lemma flatten_as_map:
  "flattenInto ret d = fold (\<lambda>(k, v). addPrefixed k (entries (CHR ''.'') v)) d ret"
  by (induction d arbitrary: ret) (auto simp: flattenInto_Cons)

lemma wf_addPrefixed: "wf_map ret \<Longrightarrow> wf_map (addPrefixed p sub ret)"
  unfolding addPrefixed_def by (induction sub arbitrary: ret) auto

lemma wf_fold_addPrefixed: "wf_map ret \<Longrightarrow> wf_map (fold (\<lambda>(k, v). addPrefixed k (E v)) d ret)"
  by (induction d arbitrary: ret) (auto simp: wf_addPrefixed)

lemma wf_flatten: "wf_map (flattenInto [] d)" "wf_map (flattenSliceInto [] i vs)"
  by (simp_all add: flatten_as_map flattenSlice_as_map wf_fold_addPrefixed)

lemma wf_entries: "wf_map (entries sep v)"
proof -
  have "wf_map (map (\<lambda>(k, v). (sep # k, v)) m)" if "wf_map m" for m :: "(string, string) gomap"
  proof -
    have eq: "map fst (map (\<lambda>(k, v). (sep # k, v)) m) = map ((#) sep) (map fst m)" by auto
    show ?thesis using that unfolding wf_map_def eq by (subst distinct_map) simp
  qed
  then show ?thesis by (cases v) (simp_all add: wf_flatten, simp add: wf_map_def)
qed

definition tail_ok :: "string \<Rightarrow> bool" where
  "tail_ok t \<longleftrightarrow> (case t of [] \<Rightarrow> True | c # _ \<Rightarrow> separator c)"

lemma entries_tails: "separator sep \<Longrightarrow> (t, s) \<in> set (entries sep v) \<Longrightarrow> tail_ok t"
  by (cases v) (auto simp: tail_ok_def)

lemma split_unique:
  assumes "clean k" and "clean k'" and "tail_ok t" and "tail_ok t'"
  shows "k @ t = k' @ t' \<longleftrightarrow> k = k' \<and> t = t'"
proof
  have head: "takeWhile (\<lambda>c. \<not> separator c) (k @ t) = k" if "clean k" "tail_ok t" for k t
    using that by (cases t) (auto simp: clean_def tail_ok_def list_all_iff takeWhile_append2)
  assume eq: "k @ t = k' @ t'"
  then have "k = k'" using head [of k t] head [of k' t'] assms by metis
  with eq show "k = k' \<and> t = t'" by simp
qed simp

lemma map_get_addPrefixed:
  assumes "wf_map sub" and "clean p" and "list_all (\<lambda>(t, s). tail_ok t) sub" and "clean k" and "tail_ok t"
  shows "map_get (addPrefixed p sub ret) (k @ t) =
    (if k = p then case map_get sub t of Some s \<Rightarrow> Some s | None \<Rightarrow> map_get ret (k @ t) else map_get ret (k @ t))"
  using assms(1,3)
proof (induction sub arbitrary: ret)
  case Nil
  then show ?case by (simp add: addPrefixed_def)
next
  case (Cons e sub)
  obtain t0 s0 where e: "e = (t0, s0)" by (cases e)
  have "map_get (addPrefixed p (e # sub) ret) (k @ t) = map_get (addPrefixed p sub (map_set (p @ t0) s0 ret)) (k @ t)"
    by (simp add: addPrefixed_def e)
  also have "\<dots> = (if k = p then case map_get sub t of Some s \<Rightarrow> Some s | None \<Rightarrow> map_get (map_set (p @ t0) s0 ret) (k @ t)
      else map_get (map_set (p @ t0) s0 ret) (k @ t))"
    using Cons.prems by (intro Cons.IH) (auto simp: wf_map_def)
  also have "\<dots> = (if k = p then case map_get (e # sub) t of Some s \<Rightarrow> Some s | None \<Rightarrow> map_get ret (k @ t) else map_get ret (k @ t))"
    using Cons.prems e split_unique [OF assms(4,2,5), of t0]
    by (auto simp: wf_map_def split: option.split dest: map_of_SomeD intro: rev_image_eqI)
  finally show ?case .
qed

lemma map_get_fold_addPrefixed:
  assumes "distinct (map fst d)" and "list_all (\<lambda>(k, v). clean k) d" and "separator sep" and "clean k" and "tail_ok t"
  shows "map_get (fold (\<lambda>(k, v). addPrefixed k (entries sep v)) d ret) (k @ t) =
    (case map_of d k of None \<Rightarrow> map_get ret (k @ t)
     | Some v \<Rightarrow> (case map_get (entries sep v) t of Some s \<Rightarrow> Some s | None \<Rightarrow> map_get ret (k @ t)))"
  using assms(1,2)
proof (induction d arbitrary: ret)
  case Nil
  then show ?case by simp
next
  case (Cons e d)
  obtain k0 v0 where e: "e = (k0, v0)" by (cases e)
  have tails: "list_all (\<lambda>(t, s). tail_ok t) (entries sep v0)"
    using entries_tails [OF assms(3)] by (auto simp: list_all_iff)
  have new: "map_get (addPrefixed k0 (entries sep v0) ret) (k @ t) =
      (if k = k0 then case map_get (entries sep v0) t of Some s \<Rightarrow> Some s | None \<Rightarrow> map_get ret (k @ t) else map_get ret (k @ t))"
    using Cons.prems e by (intro map_get_addPrefixed wf_entries tails assms(4,5)) simp
  have "map_get (fold (\<lambda>(k, v). addPrefixed k (entries sep v)) (e # d) ret) (k @ t) =
      (case map_of d k of None \<Rightarrow> map_get (addPrefixed k0 (entries sep v0) ret) (k @ t)
       | Some v \<Rightarrow> (case map_get (entries sep v) t of Some s \<Rightarrow> Some s | None \<Rightarrow> map_get (addPrefixed k0 (entries sep v0) ret) (k @ t)))"
    using Cons e by simp
  then show ?case
    unfolding new using Cons.prems e by (auto split: option.split dest: map_of_SomeD intro: rev_image_eqI)
qed

text \<open>Every name is a component and what follows it.\<close>

definition head_of :: "string \<Rightarrow> string" where
  "head_of x = takeWhile (\<lambda>c. \<not> separator c) x"

definition tail_of :: "string \<Rightarrow> string" where
  "tail_of x = dropWhile (\<lambda>c. \<not> separator c) x"

lemma head_tail: "x = head_of x @ tail_of x" "clean (head_of x)" "tail_ok (tail_of x)"
  unfolding head_of_def tail_of_def clean_def tail_ok_def
  by (auto simp: list_all_iff dest: set_takeWhileD split: list.split dest!: dropWhile_eq_Cons_conv [THEN iffD1])

lemma map_get_sep_map: "map_get (map (\<lambda>(k, v). (sep # k, v)) m) t = (case t of [] \<Rightarrow> None | c # x \<Rightarrow> if c = sep then map_get m x else None)"
  by (induction m) (auto split: list.split)

lemma flatten_lookup_step:
  assumes "wf_yaml (YMap d)"
  shows "map_get (flattenInto [] d) x =
    (case map_of d (head_of x) of None \<Rightarrow> None | Some v \<Rightarrow> map_get (entries (CHR ''.'') v) (tail_of x))"
proof -
  have d: "distinct (map fst d)" "list_all (\<lambda>(k, v). clean k) d" using assms by (auto elim: wf_yaml.cases simp: list_all_iff)
  have "map_get (flattenInto [] d) x = map_get (flattenInto [] d) (head_of x @ tail_of x)" using head_tail(1) by simp
  then show ?thesis
    unfolding flatten_as_map
    using map_get_fold_addPrefixed [OF d, of "CHR ''.''" "head_of x" "tail_of x" "[]"] head_tail(2,3)
    by (simp split: option.split)
qed

lemma clean_show_nat: "clean (show_nat n)"
  using show_nat_no_char [of "CHR ''.''" n] show_nat_no_char [of "CHR '',''" n]
  by (auto simp: clean_def list_all_iff is_digit_def)

lemma map_of_zip_show:
  "map_of (zip (map show_nat [i..<i + length vs]) vs) k =
     (if \<exists>j < length vs. k = show_nat (i + j) then Some (vs ! (THE j. j < length vs \<and> k = show_nat (i + j))) else None)"
proof -
  have inj: "distinct (map show_nat [i..<i + length vs])" by (simp add: distinct_map inj_on_def del: show_nat.simps)
  show ?thesis
  proof (cases "\<exists>j < length vs. k = show_nat (i + j)")
    case True
    then obtain j where j: "j < length vs" "k = show_nat (i + j)" by blast
    then have the: "(THE j. j < length vs \<and> k = show_nat (i + j)) = j" by (intro the_equality) (auto simp del: show_nat.simps)
    have "map_of (zip (map show_nat [i..<i + length vs]) vs) (map show_nat [i..<i + length vs] ! j) = Some (vs ! j)"
      using inj j(1) by (intro map_of_zip_nth) (auto simp del: show_nat.simps)
    then show ?thesis using True the j by (simp del: show_nat.simps)
  next
    case False
    have "k \<notin> set (map show_nat [i..<i + length vs])"
    proof
      assume "k \<in> set (map show_nat [i..<i + length vs])"
      then obtain n where "i \<le> n" "n < i + length vs" "k = show_nat n" by (auto simp del: show_nat.simps)
      then have "n - i < length vs \<and> k = show_nat (i + (n - i))" by (simp del: show_nat.simps)
      with False show False by blast
    qed
    then have "map_of (zip (map show_nat [i..<i + length vs]) vs) k = None"
      by (auto simp: map_of_eq_None_iff simp del: set_map dest: set_zip_leftD)
    then show ?thesis using False by (simp only: if_False)
  qed
qed

lemma flattenSlice_lookup_step:
  "map_get (flattenSliceInto [] 0 vs) x = Some s \<longleftrightarrow>
     (\<exists>i < length vs. head_of x = show_nat i \<and> map_get (entries (CHR '','') (vs ! i)) (tail_of x) = Some s)"
proof -
  let ?d = "zip (map show_nat [0..<0 + length vs]) vs"
  have d: "distinct (map fst ?d)" "list_all (\<lambda>(k, v). clean k) ?d"
    by (auto simp: distinct_map inj_on_def list_all_iff clean_show_nat dest!: set_zip_leftD simp del: show_nat.simps)
  have "map_get (flattenSliceInto [] 0 vs) x = map_get (flattenSliceInto [] 0 vs) (head_of x @ tail_of x)"
    using head_tail(1) by simp
  also have "\<dots> = (case map_of ?d (head_of x) of None \<Rightarrow> None | Some v \<Rightarrow> map_get (entries (CHR '','') v) (tail_of x))"
    unfolding flattenSlice_as_map map_get_fold_addPrefixed [OF d disjI2 [OF refl] head_tail(2,3)] map_of.simps
    by (cases "map_of ?d (head_of x)") (simp_all only: option.case split: option.split, simp)
  finally have eq: "map_get (flattenSliceInto [] 0 vs) x =
      (case map_of ?d (head_of x) of None \<Rightarrow> None | Some v \<Rightarrow> map_get (entries (CHR '','') v) (tail_of x))" .
  show ?thesis
  proof (cases "\<exists>j < length vs. head_of x = show_nat (0 + j)")
    case True
    then obtain j where j: "j < length vs" "head_of x = show_nat j" by auto
    have "map_of ?d (head_of x) = Some (vs ! j)"
      unfolding map_of_zip_show j(2) using j(1)
      by (auto simp del: show_nat.simps intro!: arg_cong [of _ _ "nth vs"] the_equality)
    then show ?thesis unfolding eq using j by (auto simp del: show_nat.simps)
  next
    case False
    then have "map_of ?d (head_of x) = None" unfolding map_of_zip_show by (simp only: if_False)
    then have "map_get (flattenSliceInto [] 0 vs) x = None" unfolding eq by (simp only: option.case)
    then show ?thesis using False by (auto simp del: show_nat.simps)
  qed
qed

text \<open>The tail of a name that a path leaves after its first step.\<close>

definition path_tail :: "char \<Rightarrow> step list \<Rightarrow> string" where
  "path_tail sep p = (if p = [] then [] else sep # render_path p)"

lemma head_tail_unique: "clean k \<Longrightarrow> tail_ok t \<Longrightarrow> x = k @ t \<longleftrightarrow> head_of x = k \<and> tail_of x = t"
  using split_unique [of "head_of x" k "tail_of x" t] head_tail [of x] by auto

lemma tail_ok_path_tail: "separator sep \<Longrightarrow> tail_ok (path_tail sep p)"
  by (simp add: tail_ok_def path_tail_def)

lemma map_entries:
  assumes "wf_yaml (YMap d)"
    and IH: "\<And>k v sep t s. (k, v) \<in> set d \<Longrightarrow> separator sep \<Longrightarrow>
      map_get (entries sep v) t = Some s \<longleftrightarrow> (\<exists>p. lookup_path v p = Some s \<and> t = path_tail sep p)"
  shows "map_get (flattenInto [] d) x = Some s \<longleftrightarrow> (\<exists>p. p \<noteq> [] \<and> lookup_path (YMap d) p = Some s \<and> x = render_path p)"
proof -
  have "map_get (flattenInto [] d) x = Some s \<longleftrightarrow>
      (\<exists>v. map_of d (head_of x) = Some v \<and> map_get (entries (CHR ''.'') v) (tail_of x) = Some s)"
    unfolding flatten_lookup_step [OF assms(1)] by (auto split: option.splits)
  also have "\<dots> \<longleftrightarrow> (\<exists>v p. map_of d (head_of x) = Some v \<and> lookup_path v p = Some s \<and> tail_of x = path_tail (CHR ''.'') p)"
    using IH by (metis map_of_SomeD)
  also have "\<dots> \<longleftrightarrow> (\<exists>k v p. map_of d k = Some v \<and> lookup_path v p = Some s \<and> x = k @ path_tail (CHR ''.'') p)"
  proof -
    have "clean k" if "map_of d k = Some v" for k v
      using assms(1) map_of_SomeD [OF that] by (auto elim: wf_yaml.cases)
    then show ?thesis using head_tail_unique tail_ok_path_tail by metis
  qed
  also have "\<dots> \<longleftrightarrow> (\<exists>p. p \<noteq> [] \<and> lookup_path (YMap d) p = Some s \<and> x = render_path p)"
  proof
    assume "\<exists>k v p. map_of d k = Some v \<and> lookup_path v p = Some s \<and> x = k @ path_tail (CHR ''.'') p"
    then obtain k v p where "map_of d k = Some v" "lookup_path v p = Some s" "x = k @ path_tail (CHR ''.'') p" by blast
    then show "\<exists>p. p \<noteq> [] \<and> lookup_path (YMap d) p = Some s \<and> x = render_path p"
      by (intro exI [of _ "Key k # p"]) (auto simp: path_tail_def)
  next
    assume "\<exists>p. p \<noteq> [] \<and> lookup_path (YMap d) p = Some s \<and> x = render_path p"
    then obtain st p where p: "lookup_path (YMap d) (st # p) = Some s" "x = render_path (st # p)" by (metis neq_Nil_conv)
    then show "\<exists>k v p. map_of d k = Some v \<and> lookup_path v p = Some s \<and> x = k @ path_tail (CHR ''.'') p"
      by (cases st) (auto simp: path_tail_def split: option.splits)
  qed
  finally show ?thesis .
qed

lemma slice_entries:
  assumes IH: "\<And>v sep t s. v \<in> set vs \<Longrightarrow> separator sep \<Longrightarrow>
      map_get (entries sep v) t = Some s \<longleftrightarrow> (\<exists>p. lookup_path v p = Some s \<and> t = path_tail sep p)"
  shows "map_get (flattenSliceInto [] 0 vs) x = Some s \<longleftrightarrow>
    (\<exists>p. p \<noteq> [] \<and> lookup_path (YList vs) p = Some s \<and> x = render_path p)"
proof -
  have "map_get (flattenSliceInto [] 0 vs) x = Some s \<longleftrightarrow>
      (\<exists>i < length vs. \<exists>p. head_of x = show_nat i \<and> lookup_path (vs ! i) p = Some s \<and> tail_of x = path_tail (CHR '','') p)"
    unfolding flattenSlice_lookup_step using IH by (metis nth_mem)
  also have "\<dots> \<longleftrightarrow> (\<exists>i < length vs. \<exists>p. lookup_path (vs ! i) p = Some s \<and> x = show_nat i @ path_tail (CHR '','') p)"
    using head_tail_unique [OF clean_show_nat tail_ok_path_tail] by metis
  also have "\<dots> \<longleftrightarrow> (\<exists>p. p \<noteq> [] \<and> lookup_path (YList vs) p = Some s \<and> x = render_path p)"
  proof
    assume "\<exists>i < length vs. \<exists>p. lookup_path (vs ! i) p = Some s \<and> x = show_nat i @ path_tail (CHR '','') p"
    then obtain i p where "i < length vs" "lookup_path (vs ! i) p = Some s" "x = show_nat i @ path_tail (CHR '','') p" by blast
    then show "\<exists>p. p \<noteq> [] \<and> lookup_path (YList vs) p = Some s \<and> x = render_path p"
      by (intro exI [of _ "Idx i # p"]) (auto simp: path_tail_def simp del: show_nat.simps)
  next
    assume "\<exists>p. p \<noteq> [] \<and> lookup_path (YList vs) p = Some s \<and> x = render_path p"
    then obtain st p where p: "lookup_path (YList vs) (st # p) = Some s" "x = render_path (st # p)" by (metis neq_Nil_conv)
    then show "\<exists>i < length vs. \<exists>p. lookup_path (vs ! i) p = Some s \<and> x = show_nat i @ path_tail (CHR '','') p"
      by (cases st) (auto simp: path_tail_def simp del: show_nat.simps split: if_splits)
  qed
  finally show ?thesis .
qed

lemma entries_nonscalar:
  assumes "\<And>x. map_get m x = Some s \<longleftrightarrow> (\<exists>p. p \<noteq> [] \<and> lookup_path v p = Some s \<and> x = render_path p)"
    and "lookup_path v [] = None"
  shows "map_get (map (\<lambda>(k, v). (sep # k, v)) m) t = Some s \<longleftrightarrow> (\<exists>p. lookup_path v p = Some s \<and> t = path_tail sep p)"
proof -
  have "map_get (map (\<lambda>(k, v). (sep # k, v)) m) t = Some s \<longleftrightarrow> (\<exists>x. t = sep # x \<and> map_get m x = Some s)"
    unfolding map_get_sep_map by (auto split: list.splits)
  also have "\<dots> \<longleftrightarrow> (\<exists>p. p \<noteq> [] \<and> lookup_path v p = Some s \<and> t = sep # render_path p)" using assms(1) by blast
  finally show ?thesis using assms(2) by (auto simp: path_tail_def)
qed

lemma entries_lookup:
  "wf_yaml v \<Longrightarrow> separator sep \<Longrightarrow>
     map_get (entries sep v) t = Some s \<longleftrightarrow> (\<exists>p. lookup_path v p = Some s \<and> t = path_tail sep p)"
proof (induction v arbitrary: sep t s rule: wf_yaml.induct)
  case (1 a)
  have "lookup_path (YScalar a) p = Some s \<longleftrightarrow> p = [] \<and> s = a" for p by (cases p) auto
  then show ?case by (auto simp: path_tail_def)
next
  case (2 d)
  have "wf_yaml (YMap d)" using 2 by (intro wf_yaml.intros) auto
  then show ?case unfolding entries.simps using 2 by (intro entries_nonscalar map_entries) auto
next
  case (3 m)
  have "lookup_path (YAnyMap m) p = lookup_path (YMap (convertMap m)) p" for p
    by (cases "(YAnyMap m, p)" rule: lookup_path.cases) auto
  then show ?case using 3 by simp
next
  case (4 vs)
  then show ?case unfolding entries.simps by (intro entries_nonscalar slice_entries) auto
qed

text \<open>
  C8: \<open>flatten\<close> turns a configuration tree into flags without loss and without confusion: for a
  tree whose keys contain no separator, the flag \<open>x\<close> gets the value \<open>s\<close> exactly if some path of the
  tree is written as \<open>x\<close> (keys followed by a dot, list positions by a comma) and leads to \<open>s\<close>. In
  particular the result does not depend on the order in which Go iterates over the maps.
\<close>

theorem flatten_correct:
  assumes "wf_yaml (YMap d)"
  shows "map_get (flatten d) x = Some s \<longleftrightarrow> (\<exists>p. lookup_path (YMap d) p = Some s \<and> x = render_path p)"
proof -
  have "clean k \<and> wf_yaml v" if "(k, v) \<in> set d" for k v using assms that by (auto elim: wf_yaml.cases)
  then have "map_get (flattenInto [] d) x = Some s \<longleftrightarrow> (\<exists>p. p \<noteq> [] \<and> lookup_path (YMap d) p = Some s \<and> x = render_path p)"
    by (intro map_entries assms entries_lookup) auto
  moreover have "lookup_path (YMap d) [] = None" by simp
  ultimately show ?thesis unfolding flatten_def by (metis option.distinct(1))
qed

theorem flatten_correct_witness:
  "map_get (flatten [(''collector'', YMap [(''logs'', YList [YScalar ''System'', YScalar ''Application''])])])
     ''collector.logs.1'' = Some ''Application''"
proof -
  let ?d = "[(''collector'', YMap [(''logs'', YList [YScalar ''System'', YScalar ''Application''])])]"
  have "wf_yaml (YMap ?d)"
    by (auto simp: clean_def intro!: wf_yaml.intros)
  moreover have "lookup_path (YMap ?d) [Key ''collector'', Key ''logs'', Idx 1] = Some ''Application''" by simp
  moreover have "''collector.logs.1'' = render_path [Key ''collector'', Key ''logs'', Idx 1]" by code_simp
  ultimately show ?thesis using flatten_correct by blast
qed

section \<open>The command line\<close>

text \<open>
  \<open>ParseConfigFile(args)\<close>; \<open>osArgs\<close> is \<open>os.Args\<close>, which the loop indexes in the case of a separate
  argument.
\<close>

fun parseConfigFrom :: "string list \<Rightarrow> nat \<Rightarrow> string list \<Rightarrow> string" where
  "parseConfigFrom osArgs i [] = []"
| "parseConfigFrom osArgs i (cliFlag # args) =
     (if HasPrefix cliFlag ''--config.file='' then TrimPrefix cliFlag ''--config.file=''
      else if HasPrefix cliFlag ''-config.file='' then TrimPrefix cliFlag ''-config.file=''
      else if HasSuffix cliFlag ''-config.file'' then (if length osArgs \<le> i + 1 then [] else osArgs ! (i + 1))
      else parseConfigFrom osArgs (i + 1) args)"

definition ParseConfigFile :: "string list \<Rightarrow> string list \<Rightarrow> string" where
  "ParseConfigFile osArgs args = parseConfigFrom osArgs 0 args"

text \<open>A flag that is not about the configuration file.\<close>

definition otherFlag :: "string \<Rightarrow> bool" where
  "otherFlag a \<longleftrightarrow> \<not> HasPrefix a ''--config.file='' \<and> \<not> HasPrefix a ''-config.file='' \<and> \<not> HasSuffix a ''-config.file''"

lemma parseConfigFrom_skip:
  "list_all otherFlag pre \<Longrightarrow> parseConfigFrom osArgs i (pre @ args) = parseConfigFrom osArgs (i + length pre) args"
  by (induction pre arbitrary: i) (auto simp: otherFlag_def)

lemma parseConfigFrom_none: "list_all otherFlag args \<Longrightarrow> parseConfigFrom osArgs i args = []"
  by (induction args arbitrary: i) (auto simp: otherFlag_def)

text \<open>
  \<open>ParseConfigFile\<close> on the arguments \<open>os.Args[1:]\<close>: with \<open>--config.file=x\<close> it returns \<open>x\<close>; with the
  two arguments \<open>--config.file x\<close>, which the flag parser accepts too, it returns not \<open>x\<close> but
  the text of the flag itself, because it adds 1 to an index into \<open>args\<close> and uses it on \<open>os.Args\<close>.
\<close>

theorem ParseConfigFile_forms:
  assumes "list_all otherFlag pre"
  shows "ParseConfigFile (prog # pre @ (''--config.file='' @ x) # post) (pre @ (''--config.file='' @ x) # post) = x \<and>
         ParseConfigFile (prog # pre @ ''--config.file'' # x # post) (pre @ ''--config.file'' # x # post) = ''--config.file''"
proof -
  have "HasPrefix (''--config.file='' @ x) ''--config.file=''" by (simp add: HasPrefix_def)
  moreover have "\<not> HasPrefix ''--config.file'' ''--config.file=''" "\<not> HasPrefix ''--config.file'' ''-config.file=''"
    "HasSuffix ''--config.file'' ''-config.file''"
    by (simp_all add: HasPrefix_def HasSuffix_def suffix_def)
  ultimately show ?thesis
    using parseConfigFrom_skip [OF assms] TrimPrefix_append [of "''--config.file=''" x]
    by (simp add: ParseConfigFile_def nth_append)
qed

theorem ParseConfigFile_forms_witness:
  "ParseConfigFile [''exe'', ''--log.level=info'', ''--config.file=c.yml''] [''--log.level=info'', ''--config.file=c.yml''] = ''c.yml'' \<and>
   ParseConfigFile [''exe'', ''--log.level=info'', ''--config.file'', ''c.yml''] [''--log.level=info'', ''--config.file'', ''c.yml''] = ''--config.file''"
proof -
  have "list_all otherFlag [''--log.level=info'']"
    by (simp add: otherFlag_def HasPrefix_def HasSuffix_def suffix_def)
  from ParseConfigFile_forms [OF this, of "''exe''" "''c.yml''" "[]"] show ?thesis by simp
qed

section \<open>The resolver\<close>

text \<open>
  The parts of kingpin that are used: the flags of the application and of its subcommands with
  their defaults, \<open>ParseContext\<close> and \<open>Parse\<close> as functions.
\<close>

record kapp =
  appFlags :: "(string, string list) gomap"
  cmdFlags :: "(string, (string, string list) gomap) gomap"

definition setDefault :: "(string, string) gomap \<Rightarrow> (string, string list) gomap \<Rightarrow> (string, string list) gomap" where
  "setDefault flags fs = fold (\<lambda>(name, val) fs. if map_get fs name = None then fs else map_set name [val] fs) flags fs"

definition Bind :: "(kapp \<Rightarrow> string list \<Rightarrow> go_error + string option) \<Rightarrow> (string, string) gomap \<Rightarrow> kapp \<Rightarrow> string list \<Rightarrow> go_error + kapp" where
  "Bind parseContext flags app args =
     (case parseContext app args of
        Inl e \<Rightarrow> Inl e
      | Inr sel \<Rightarrow>
          (let app1 = app\<lparr>appFlags := setDefault flags (appFlags app)\<rparr> in
           case sel of
             None \<Rightarrow> Inr app1
           | Some cmd \<Rightarrow>
               Inr (app1\<lparr>cmdFlags := map (\<lambda>(n, fs). (n, if n = cmd then setDefault flags fs else fs)) (cmdFlags app1)\<rparr>)))"

text \<open>
  \<open>NewConfigFileResolver\<close>: the bytes from the URL or the file, parsed and flattened.
\<close>

definition readFromFile :: "(string \<Rightarrow> go_error option) \<Rightarrow> (string \<Rightarrow> go_error + bytes) \<Rightarrow> string \<Rightarrow> go_error + bytes" where
  "readFromFile stat readFile file =
     (case stat file of
        Some e \<Rightarrow> Inl (Wrapf ''failed to read configuration file: %w'' [] e)
      | None \<Rightarrow>
          (case readFile file of
             Inl e \<Rightarrow> Inl (Wrapf ''failed to read configuration file: %w'' [] e)
           | Inr bs \<Rightarrow> Inr bs))"

definition NewConfigFileResolver ::
  "(string \<Rightarrow> go_error + bytes) \<Rightarrow> (string \<Rightarrow> go_error + bytes) \<Rightarrow> (bytes \<Rightarrow> go_error + (string \<times> yaml) list) \<Rightarrow> string \<Rightarrow>
     go_error + (string, string) gomap" where
  "NewConfigFileResolver readURL readFile unmarshal file =
     (case (if HasPrefix file ''http://'' \<or> HasPrefix file ''https://'' then readURL file else readFile file) of
        Inl e \<Rightarrow> Inl e
      | Inr bs \<Rightarrow>
          (case unmarshal bs of
             Inl e \<Rightarrow> Inl (Wrapf ''failed to unmarshal configuration file: %w'' [] e)
           | Inr raw \<Rightarrow>
               Inr (fold (\<lambda>(k, v) flags. if map_get flags k = None then map_set k v flags else flags) (flatten raw) [])))"

definition Parse ::
  "(string \<Rightarrow> go_error + (string, string) gomap) \<Rightarrow> (kapp \<Rightarrow> string list \<Rightarrow> go_error + string option) \<Rightarrow>
   (kapp \<Rightarrow> string list \<Rightarrow> go_error option) \<Rightarrow> string list \<Rightarrow> string list \<Rightarrow> kapp \<Rightarrow> go_error + kapp" where
  "Parse newResolver parseContext appParse osArgs args app =
     (let configFile = ParseConfigFile osArgs args;
          bound = (if configFile \<noteq> [] then
                     (case newResolver configFile of
                        Inl e \<Rightarrow> Inl (Wrapf ''failed to load configuration file: %w'' [] e)
                      | Inr flags \<Rightarrow>
                          (case Bind parseContext flags app args of
                             Inl e \<Rightarrow> Inl (Wrapf ''failed to bind configuration: %w'' [] e)
                           | Inr app' \<Rightarrow> Inr app'))
                   else Inr app)
      in case bound of
           Inl e \<Rightarrow> Inl e
         | Inr app' \<Rightarrow>
             (case appParse app' args of
                Some e \<Rightarrow> Inl (Wrapf ''failed to parse flags: %w'' [] e)
              | None \<Rightarrow> Inr app'))"

lemma map_get_setDefault:
  "wf_map flags \<Longrightarrow> map_get (setDefault flags fs) n =
     (case map_get fs n of None \<Rightarrow> None | Some old \<Rightarrow> Some (case map_get flags n of Some v \<Rightarrow> [v] | None \<Rightarrow> old))"
proof (induction flags arbitrary: fs)
  case Nil
  then show ?case by (simp add: setDefault_def split: option.split)
next
  case (Cons f flags)
  obtain k v where f: "f = (k, v)" by (cases f)
  have "k \<notin> fst ` set flags" "wf_map flags" using Cons.prems f by (auto simp: wf_map_def)
  then have k: "map_get flags k = None" by (simp add: map_of_eq_None_iff)
  have "map_get (setDefault (f # flags) fs) n = map_get (setDefault flags (if map_get fs k = None then fs else map_set k [v] fs)) n"
    by (simp add: setDefault_def f)
  then show ?case
    using Cons.IH [OF \<open>wf_map flags\<close>] k f by (auto split: option.split)
qed

text \<open>The loop of \<open>NewConfigFileResolver\<close> copies the flattened map.\<close>

lemma resolver_flags:
  assumes "wf_map m" and "fst ` set m \<inter> fst ` set acc = {}"
  shows "map_get (fold (\<lambda>(k, v) flags. if map_get flags k = None then map_set k v flags else flags) m acc) n =
    (case map_get m n of Some v \<Rightarrow> Some v | None \<Rightarrow> map_get acc n)"
  using assms
proof (induction m arbitrary: acc)
  case Nil
  then show ?case by simp
next
  case (Cons f m)
  obtain k v where f: "f = (k, v)" by (cases f)
  then have "k \<notin> fst ` set m" "wf_map m" "map_get acc k = None"
    using Cons.prems by (auto simp: wf_map_def map_of_eq_None_iff)
  moreover from this have "map_get m k = None" by (simp add: map_of_eq_None_iff)
  ultimately show ?case using Cons.IH [of "map_set k v acc"] Cons.prems(2) f by (auto split: option.split)
qed

lemma wf_resolver_flags:
  "wf_map acc \<Longrightarrow> wf_map (fold (\<lambda>(k, v) flags. if map_get flags k = None then map_set k v flags else flags) m acc)"
  by (induction m arbitrary: acc) (auto split: prod.split)

text \<open>
  C9: A configuration file sets the defaults of the flags it names and of no others: if the
  file is read and parsed to the tree \<open>d\<close> and the command line names no subcommand, then after
  \<open>Parse\<close> a flag of the application that the flattened tree has a value for has this value as
  its default, every other flag has the default it had, and no flag is added.
\<close>

theorem Parse_sets_defaults:
  assumes "ParseConfigFile osArgs args = file" and "file \<noteq> []"
    and "(if HasPrefix file ''http://'' \<or> HasPrefix file ''https://'' then readURL file else readFile file) = Inr bs"
    and "unmarshal bs = Inr d" and "parseContext app args = Inr None"
    and "Parse (NewConfigFileResolver readURL readFile unmarshal) parseContext appParse osArgs args app = Inr app'"
  shows "map_get (appFlags app') x =
    (case map_get (appFlags app) x of
       None \<Rightarrow> None
     | Some old \<Rightarrow> Some (case map_get (flatten d) x of Some s \<Rightarrow> [s] | None \<Rightarrow> old))"
proof -
  let ?flags = "fold (\<lambda>(k, v) flags. if map_get flags k = None then map_set k v flags else flags) (flatten d) []"
  have wf: "wf_map (flatten d)" by (simp add: flatten_def wf_flatten)
  have flags: "map_get ?flags x = map_get (flatten d) x"
    using resolver_flags [OF wf, of "[]" x] by (simp split: option.splits)
  have app': "app' = app\<lparr>appFlags := setDefault ?flags (appFlags app)\<rparr>"
    using assms by (auto simp: Parse_def NewConfigFileResolver_def Bind_def Let_def split: option.splits)
  have wf': "wf_map ?flags" by (rule wf_resolver_flags) simp
  show ?thesis using map_get_setDefault [OF wf', of "appFlags app" x] unfolding flags app' by simp
qed

theorem Parse_sets_defaults_witness:
  "\<exists>app'. Parse (NewConfigFileResolver (\<lambda>f. Inl (Sentinel f)) (\<lambda>f. Inr []) (\<lambda>bs. Inr [(''log'', YMap [(''level'', YScalar ''debug'')])]))
       (\<lambda>a args. Inr None) (\<lambda>a args. None) [''exe'', ''--config.file=c.yml''] [''--config.file=c.yml'']
       \<lparr>appFlags = [(''log.level'', [''info''])], cmdFlags = []\<rparr> = Inr app' \<and>
     map_get (appFlags app') ''log.level'' = Some [''debug'']"
proof -
  have http: "\<not> HasPrefix ''c.yml'' ''http://''" "\<not> HasPrefix ''c.yml'' ''https://''" by (simp_all add: HasPrefix_def)
  have named: "ParseConfigFile [''exe'', ''--config.file=c.yml''] [''--config.file=c.yml''] = ''c.yml''"
    by (simp add: ParseConfigFile_def HasPrefix_def TrimPrefix_def)
  let ?P = "Parse (NewConfigFileResolver (\<lambda>f. Inl (Sentinel f)) (\<lambda>f. Inr []) (\<lambda>bs. Inr [(''log'', YMap [(''level'', YScalar ''debug'')])]))
       (\<lambda>a args. Inr None) (\<lambda>a args. None) [''exe'', ''--config.file=c.yml''] [''--config.file=c.yml'']
       \<lparr>appFlags = [(''log.level'', [''info''])], cmdFlags = []\<rparr>"
  obtain app' where app': "?P = Inr app'"
    using http named by (simp add: Parse_def NewConfigFileResolver_def Bind_def Let_def)
  have "map_get (flatten [(''log'', YMap [(''level'', YScalar ''debug'')])]) ''log.level'' = Some ''debug''"
    by (simp add: flatten_def addPrefixed_def)
  then show ?thesis
    using Parse_sets_defaults [OF named _ _ _ _ app', where x = "''log.level''" and bs = "[]"] http app' by simp
qed

end
