(* ===== verification/Pdh.thy ===== *)
theory Pdh
  imports Prom Go_Errors
begin

text \<open>
  The client of the performance data helper (internal/pdh): counter types, the collector object
  that \<open>NewCollectorWithReflection\<close> builds from the tags of a struct type, and its worker, which turns
  the arrays of the PDH functions into rows of that type. The PDH functions are a record of
  operations on an unknown system state.
\<close>

section \<open>Constants and types\<close>

definition InstanceEmpty :: string where "InstanceEmpty = ''------''"
definition InstanceTotal :: string where "InstanceTotal = ''_Total''"

definition TicksToSecondScaleFactor :: f64 where
  "TicksToSecondScaleFactor = round64 (1 / 10000000)"

definition PERF_100NSEC_TIMER :: u32 where "PERF_100NSEC_TIMER = 0x20510500"
definition PERF_PRECISION_100NS_TIMER :: u32 where "PERF_PRECISION_100NS_TIMER = 0x20570500"
definition PERF_ELAPSED_TIME :: u32 where "PERF_ELAPSED_TIME = 0x30240500"

definition SupportedCounterTypes :: "(u32, valueType) gomap" where
  "SupportedCounterTypes =
     [(0x00000000, GaugeValue), (0x00000100, GaugeValue), (0x00010000, GaugeValue), (0x00010100, GaugeValue),
      (0x00400400, CounterValue), (0x10410400, CounterValue), (0x10410500, CounterValue),
      (0x20020400, GaugeValue), (0x20020500, GaugeValue),
      (PERF_100NSEC_TIMER, CounterValue), (PERF_PRECISION_100NS_TIMER, CounterValue),
      (0x20c20400, GaugeValue), (0x21510500, CounterValue), (PERF_ELAPSED_TIME, GaugeValue),
      (0x40030401, GaugeValue), (0x40030403, GaugeValue), (0x40030503, GaugeValue)]"

definition metricTypeOf :: "u32 \<Rightarrow> valueType" where
  "metricTypeOf t = (case map_get SupportedCounterTypes t of Some vt \<Rightarrow> vt | None \<Rightarrow> GaugeValue)"

text \<open>\<open>isKnownCounterDataError\<close>: errors of one counter that do not fail the whole collection.\<close>

definition isKnownCounterDataError :: "go_error \<Rightarrow> bool" where
  "isKnownCounterDataError err =
     (case errors_As_pdh err of
        None \<Rightarrow> False
      | Some c \<Rightarrow> c \<in> {InvalidData, CalcNegativeDenominator, CalcNegativeValue, CstatusInvalidData, CstatusNoInstance, NoData})"

definition formatCounterPath :: "string \<Rightarrow> string \<Rightarrow> string \<Rightarrow> string" where
  "formatCounterPath object inst counterName =
     (if inst = InstanceEmpty then [CHR 0x5C] @ object @ [CHR 0x5C] @ counterName
      else [CHR 0x5C] @ object @ ''('' @ inst @ '')'' @ [CHR 0x5C] @ counterName)"

text \<open>
  A struct type as reflection sees it: its fields in order, with their kind and the two tags.
  The structs of the collectors have no embedded fields, so that a field's index is its position,
  and a field \<open>MetricType\<close> of kind \<open>int\<close> is a \<open>prometheus.ValueType\<close>.
\<close>

datatype fieldKind = KString | KFloat64 | KValueType | KOther

record structField =
  fName :: string
  fKind :: fieldKind
  perfdata :: "string option"
  perfdata_min_build :: "string option"

datatype fieldVal = VString string | VFloat f64 | VType "valueType option" | VOther

fun zeroVal :: "fieldKind \<Rightarrow> fieldVal" where
  "zeroVal KString = VString []"
| "zeroVal KFloat64 = VFloat (F_Fin 0)"
| "zeroVal KValueType = VType None"
| "zeroVal KOther = VOther"

type_synonym row = "fieldVal list"

definition zeroElem :: "structField list \<Rightarrow> row" where
  "zeroElem fs = map (\<lambda>f. zeroVal (fKind f)) fs"

text \<open>\<open>pdh.Counter\<close>; an index of -1 is \<^term>\<open>None\<close>, the metric type 0 as well.\<close>

record perfCounter =
  ctrName :: string
  ctrMetricType :: "valueType option"
  ctrInstances :: "(string, u64) gomap"
  ctrType :: u32
  ctrFrequency :: u64
  fieldIndexValue :: "nat option"
  fieldIndexSecondValue :: "nat option"

text \<open>
  An item of the arrays that PDH fills in: the address of the name, the text that is at this
  address when the array is read, the status and the value.
\<close>

record 'v counterItem =
  szName :: u64
  szText :: string
  cStatus :: u32
  itemValue :: 'v

type_synonym rawValue = "u64 \<times> u64"

record 'v arrayAnswer =
  ansRet :: u32
  ansNeeded :: u32
  ansWritten :: "(u32 \<times> (nat \<Rightarrow> 'v counterItem)) option"

text \<open>
  The PDH functions. \<open>GetRawCounterArray\<close> and its formatted variant get the size of the buffer, and answer with
  the return code, the size they need and, when they wrote, the item count and the buffer as an
  array of items.
\<close>

record 'w pdh_api =
  OpenQuery :: "'w \<Rightarrow> u32 \<times> u64 \<times> 'w"
  AddEnglishCounter :: "u64 \<Rightarrow> string \<Rightarrow> 'w \<Rightarrow> u32 \<times> u64 \<times> 'w"
  CounterInfoSize :: "u64 \<Rightarrow> 'w \<Rightarrow> u32 \<times> u32 \<times> 'w"
  GetCounterInfo :: "u64 \<Rightarrow> u32 \<Rightarrow> 'w \<Rightarrow> u32 \<times> u32 \<times> 'w"
  GetCounterTimeBase :: "u64 \<Rightarrow> 'w \<Rightarrow> u32 \<times> u64 \<times> 'w"
  CollectQueryData :: "u64 \<Rightarrow> 'w \<Rightarrow> u32 \<times> 'w"
  GetRawCounterArray :: "u64 \<Rightarrow> u32 \<Rightarrow> 'w \<Rightarrow> rawValue arrayAnswer \<times> 'w"
  GetFormattedCounterArrayDouble :: "u64 \<Rightarrow> u32 \<Rightarrow> 'w \<Rightarrow> f64 arrayAnswer \<times> 'w"
  CloseQuery :: "u64 \<Rightarrow> 'w \<Rightarrow> u32 \<times> 'w"

section \<open>The worker\<close>

text \<open>The variables of a worker goroutine, which live as long as the collector.\<close>

record 'v worker =
  bufCap :: u32
  itemCount :: u32
  bufMem :: "nat \<Rightarrow> 'v counterItem"

definition zeroItem :: "'v \<Rightarrow> 'v counterItem" where
  "zeroItem z = \<lparr>szName = 0, szText = [], cStatus = 0, itemValue = z\<rparr>"

definition newWorker :: "'v \<Rightarrow> 'v worker" where
  "newWorker z = \<lparr>bufCap = 1, itemCount = 0, bufMem = (\<lambda>i. zeroItem z)\<rparr>"

definition written :: "'v arrayAnswer \<Rightarrow> 'v worker \<Rightarrow> 'v worker" where
  "written ans wk = (case ansWritten ans of None \<Rightarrow> wk | Some (n, mem) \<Rightarrow> wk\<lparr>itemCount := n, bufMem := mem\<rparr>)"

text \<open>
  The inner loop around one array function: the buffer grows as long as it is too small. It
  ends because the buffer grows within the range of \<open>uint32\<close>.
\<close>

function fetchArray ::
  "string \<Rightarrow> (u64 \<Rightarrow> u32 \<Rightarrow> 'w \<Rightarrow> 'v arrayAnswer \<times> 'w) \<Rightarrow> 'v \<Rightarrow> u64 \<Rightarrow> 'v worker \<Rightarrow> 'w \<Rightarrow> go_error option \<times> 'v worker \<times> 'w" where
  "fetchArray fname getArray z h wk w =
     (case getArray h (bufCap wk) w of
        (ans, w1) \<Rightarrow>
          (let wk1 = written ans wk in
           if ansRet ans = ErrorSuccess then (None, wk1, w1)
           else if ansRet ans \<noteq> MoreData then
             (if isKnownCounterDataError (PdhError (ansRet ans)) then (None, wk1, w1)
              else (Some (Wrapf (fname @ '': %w'') [] (PdhError (ansRet ans))), wk1, w1))
           else if ansNeeded ans \<le> bufCap wk then
             (Some (Wrapf (fname @ '' reports buffer too small (%d), but buffer is large enough (%d): %w'') [] (PdhError (ansRet ans))), wk1, w1)
           else fetchArray fname getArray z h (wk1\<lparr>bufCap := ansNeeded ans, bufMem := (\<lambda>i. zeroItem z)\<rparr>) w1))"
  by pat_completeness auto
termination
proof (relation "measure (\<lambda>(fname, getArray, z, h, wk, w). 2 ^ 32 - unat (bufCap wk))", goal_cases)
  case (2 fname getArray z h wk w ans w1 wk1)
  have "unat (bufCap wk) < unat (ansNeeded ans)" using 2 by (simp add: not_le word_less_nat_alt)
  moreover have "unat (ansNeeded ans) < 2 ^ 32" by (rule unat_u32_less)
  ultimately show ?case by simp
qed simp

declare fetchArray.simps [simp del]

text \<open>
  The state of one collection: the rows so far, the row index of each instance name, and the names
  already read, by their address.
\<close>

record gather =
  rows :: "row list"
  indexMap :: "(string, nat) gomap"
  stringMap :: "(u64, string) gomap"

text \<open>\<open>elemValue\<close> with the fields \<open>Name\<close> and \<open>MetricType\<close> set, as it is appended for a new instance.\<close>

definition setField :: "nat option \<Rightarrow> fieldVal \<Rightarrow> row \<Rightarrow> row" where
  "setField i v r = (case i of None \<Rightarrow> r | Some k \<Rightarrow> r[k := v])"

record layout =
  elemFields :: "structField list"
  nameIndexValue :: "nat option"
  metricsTypeIndexValue :: "nat option"
  totalCounterRequested :: bool

definition newRow :: "layout \<Rightarrow> valueType \<Rightarrow> string \<Rightarrow> row" where
  "newRow l vt name = setField (metricsTypeIndexValue l) (VType (Some vt)) (setField (nameIndexValue l) (VString name) (zeroElem (elemFields l)))"

text \<open>\<open>reflect.Value.Field(i).SetFloat(v)\<close>: an index outside the struct panics.\<close>

definition setFloat :: "nat option \<Rightarrow> f64 \<Rightarrow> row \<Rightarrow> row option" where
  "setFloat i v r = (case i of None \<Rightarrow> None | Some k \<Rightarrow> if k < length r then Some (r[k := VFloat v]) else None)"

definition setFloatIf :: "nat option \<Rightarrow> f64 \<Rightarrow> row \<Rightarrow> row option" where
  "setFloatIf i v r = (if i = None then Some r else setFloat i v r)"

text \<open>The conversion of a raw value by the counter's type; the difference of two \<open>int64\<close> wraps around.\<close>

definition storeRaw :: "perfCounter \<Rightarrow> rawValue \<Rightarrow> row \<Rightarrow> row option" where
  "storeRaw c v r =
     (let (firstValue, secondValue) = v in
      if ctrType c = PERF_ELAPSED_TIME then
        (if ctrFrequency c = 0 then None
         else setFloat (fieldIndexValue c) (f64_of_int (go_quot (sint (secondValue - firstValue)) (sint (ctrFrequency c)))) r)
      else if ctrType c = PERF_100NSEC_TIMER \<or> ctrType c = PERF_PRECISION_100NS_TIMER then
        setFloat (fieldIndexValue c) (f64_mul (f64_of_int (sint firstValue)) TicksToSecondScaleFactor) r
      else
        Option.bind (setFloatIf (fieldIndexSecondValue c) (f64_of_int (sint secondValue)) r)
          (setFloatIf (fieldIndexValue c) (f64_of_int (sint firstValue))))"

definition storeFormatted :: "perfCounter \<Rightarrow> f64 \<Rightarrow> row \<Rightarrow> row option" where
  "storeFormatted c v r = setFloatIf (fieldIndexValue c) v r"

text \<open>One item. \<^term>\<open>None\<close> is a panic.\<close>

definition instanceNameOf :: "string \<Rightarrow> string" where
  "instanceNameOf s = (if s = [] \<or> s = ''*'' then InstanceEmpty else s)"

definition processItem ::
  "layout \<Rightarrow> (perfCounter \<Rightarrow> valueType) \<Rightarrow> (perfCounter \<Rightarrow> 'v \<Rightarrow> row \<Rightarrow> row option) \<Rightarrow> perfCounter \<times> 'v counterItem \<Rightarrow> gather \<Rightarrow> gather option" where
  "processItem l typeOf store ci g =
     (let (c, item) = ci in
      if cStatus item \<noteq> CstatusValidData \<and> cStatus item \<noteq> CstatusNewData then Some g
      else
        (let known = map_get (stringMap g) (szName item);
             text = (case known of Some s \<Rightarrow> s | None \<Rightarrow> szText item);
             g1 = (if known = None then g\<lparr>stringMap := map_set (szName item) text (stringMap g)\<rparr> else g)
         in if HasSuffix text InstanceTotal \<and> \<not> totalCounterRequested l then Some g1
            else
              (let name = instanceNameOf text;
                   i = (case map_get (indexMap g1) name of Some i \<Rightarrow> i | None \<Rightarrow> length (rows g1));
                   g2 = (if map_get (indexMap g1) name = None
                         then g1\<lparr>indexMap := map_set name i (indexMap g1), rows := rows g1 @ [newRow l (typeOf c) name]\<rparr> else g1)
               in map_option (\<lambda>r. g2\<lparr>rows := (rows g2)[i := r]\<rparr>) (store c (itemValue item) (rows g2 ! i)))))"

fun processItems ::
  "layout \<Rightarrow> (perfCounter \<Rightarrow> valueType) \<Rightarrow> (perfCounter \<Rightarrow> 'v \<Rightarrow> row \<Rightarrow> row option) \<Rightarrow> (perfCounter \<times> 'v counterItem) list \<Rightarrow> gather \<Rightarrow> gather option" where
  "processItems l typeOf store [] g = Some g"
| "processItems l typeOf store (x # xs) g = Option.bind (processItem l typeOf store x g) (processItems l typeOf store xs)"

definition bufferItems :: "'v worker \<Rightarrow> 'v counterItem list" where
  "bufferItems wk = map (bufMem wk) [0..<unat (itemCount wk)]"

text \<open>
  The loops over the counters and their instances, flattened to the pairs that they visit. The
  result is the error (if any), the rows, the worker's variables and the system; \<^term>\<open>None\<close> is a panic.
\<close>

fun collectCounters ::
  "string \<Rightarrow> (u64 \<Rightarrow> u32 \<Rightarrow> 'w \<Rightarrow> 'v arrayAnswer \<times> 'w) \<Rightarrow> 'v \<Rightarrow> layout \<Rightarrow> (perfCounter \<Rightarrow> valueType) \<Rightarrow>
   (perfCounter \<Rightarrow> 'v \<Rightarrow> row \<Rightarrow> row option) \<Rightarrow> (perfCounter \<times> u64) list \<Rightarrow> gather \<Rightarrow> 'v worker \<Rightarrow> 'w \<Rightarrow>
   (go_error option \<times> gather \<times> 'v worker \<times> 'w) option" where
  "collectCounters fname getArray z l typeOf store [] g wk w = Some (None, g, wk, w)"
| "collectCounters fname getArray z l typeOf store ((c, h) # chs) g wk w =
     (case fetchArray fname getArray z h wk w of
        (Some e, wk1, w1) \<Rightarrow> Some (Some e, g, wk1, w1)
      | (None, wk1, w1) \<Rightarrow>
          (case processItems l typeOf store (map (Pair c) (bufferItems wk1)) g of
             None \<Rightarrow> None
           | Some g1 \<Rightarrow> collectCounters fname getArray z l typeOf store chs g1 wk1 w1))"

text \<open>The argument of \<open>Collect\<close>, as far as the worker inspects it; the last is a pointer to a slice of structs.\<close>

datatype dest = NotPointer string | NotSlice string | NotStruct string | Rows "structField list" "row list"

definition counterHandles :: "(string, perfCounter) gomap \<Rightarrow> (perfCounter \<times> u64) list" where
  "counterHandles cs = concat (map (\<lambda>(_, c). map (\<lambda>(_, h). (c, h)) (ctrInstances c)) cs)"

definition emptyGather :: gather where
  "emptyGather = \<lparr>rows = [], indexMap = [], stringMap = []\<rparr>"

definition collectWorker ::
  "string \<Rightarrow> 'w pdh_api \<Rightarrow> (u64 \<Rightarrow> u32 \<Rightarrow> 'w \<Rightarrow> 'v arrayAnswer \<times> 'w) \<Rightarrow> 'v \<Rightarrow> (perfCounter \<Rightarrow> valueType) \<Rightarrow>
   (perfCounter \<Rightarrow> 'v \<Rightarrow> row \<Rightarrow> row option) \<Rightarrow> u64 \<Rightarrow> (string, perfCounter) gomap \<Rightarrow> layout \<Rightarrow> dest \<Rightarrow> 'v worker \<Rightarrow> 'w \<Rightarrow>
   (go_error option \<times> dest \<times> 'v worker \<times> 'w) option" where
  "collectWorker fname api getArray z typeOf store h cs l dst wk w =
     (case CollectQueryData api h w of
        (ret, w1) \<Rightarrow>
          (if ret \<noteq> ErrorSuccess then Some (Some (Wrapf ''failed to collect query data: %w'' [] (PdhError ret)), dst, wk, w1)
           else case dst of
                  NotPointer k \<Rightarrow> Some (Some (Wrapf ''expected a pointer, got %s: %w'' [k] mi_ErrInvalidEntityType), dst, wk, w1)
                | NotSlice k \<Rightarrow> Some (Some (Wrapf ''expected a pointer to a slice, got %s: %w'' [k] mi_ErrInvalidEntityType), dst, wk, w1)
                | NotStruct k \<Rightarrow>
                    Some (Some (Wrapf ''expected a pointer to a slice of structs, got a slice of %s: %w'' [k] mi_ErrInvalidEntityType), dst, wk, w1)
                | Rows fs _ \<Rightarrow>
                    (case collectCounters fname getArray z (l\<lparr>elemFields := fs\<rparr>) typeOf store (counterHandles cs) emptyGather wk w1 of
                       None \<Rightarrow> None
                     | Some (Some e, g, wk1, w2) \<Rightarrow> Some (Some e, Rows fs (rows g), wk1, w2)
                     | Some (None, g, wk1, w2) \<Rightarrow>
                         Some (if rows g = [] then Some pdh_ErrNoData else None, Rows fs (rows g), wk1, w2))))"

definition collectWorkerRaw where
  "collectWorkerRaw api =
     collectWorker ''GetRawCounterArray'' api (GetRawCounterArray api) (0, 0) (\<lambda>c. metricTypeOf (ctrType c)) storeRaw"

definition collectWorkerFormatted where
  "collectWorkerFormatted api =
     collectWorker ''GetFormattedCounterArrayDouble'' api (GetFormattedCounterArrayDouble api) (F_Fin 0) (\<lambda>c. GaugeValue) storeFormatted"

end
