(* ===== verification/Pdh_Collector.thy ===== *)
theory Pdh_Collector
  imports Pdh
begin

text \<open>
  The PDH collector object (internal/pdh/collector.go): its construction from a struct type, the
  synchronous \<open>Collect\<close> over the worker's two channels, and \<open>Close\<close>.
\<close>

section \<open>Construction\<close>

text \<open>\<open>strconv.Atoi\<close> on a 64-bit platform.\<close>

definition Atoi :: "string \<Rightarrow> int option" where
  "Atoi s =
     (case s of
        CHR ''-'' # r \<Rightarrow> (case ParseUint r 64 of Inr n \<Rightarrow> if n \<le> 2 ^ 63 then Some (- int n) else None | Inl _ \<Rightarrow> None)
      | CHR ''+'' # r \<Rightarrow> (case ParseUint r 64 of Inr n \<Rightarrow> if n < 2 ^ 63 then Some (int n) else None | Inl _ \<Rightarrow> None)
      | _ \<Rightarrow> (case ParseUint s 64 of Inr n \<Rightarrow> if n < 2 ^ 63 then Some (int n) else None | Inl _ \<Rightarrow> None))"

text \<open>The counter exists only since a build of Windows that is newer than the running one.\<close>

definition newerBuild :: "u16 \<Rightarrow> structField \<Rightarrow> bool" where
  "newerBuild osBuild f =
     (case perfdata_min_build f of
        None \<Rightarrow> False
      | Some t \<Rightarrow> (case Atoi t of None \<Rightarrow> False | Some b \<Rightarrow> (word_of_int b :: u16) > osBuild))"

text \<open>The body of the loop over the instances: the counter, the errors so far, the system.\<close>

definition addInstance ::
  "'w pdh_api \<Rightarrow> u64 \<Rightarrow> u16 \<Rightarrow> string \<Rightarrow> structField \<Rightarrow> string \<Rightarrow> perfCounter \<times> go_error list \<times> 'w \<Rightarrow>
   perfCounter \<times> go_error list \<times> 'w" where
  "addInstance api handle osBuild object f inst st =
     (case st of (c, errs, w) \<Rightarrow>
        (let counterPath = formatCounterPath object inst (ctrName c) in
         case AddEnglishCounter api handle counterPath w of
           (ret, h, w1) \<Rightarrow>
             (if ret \<noteq> ErrorSuccess then
                (if ret = CstatusNoCounter \<and> newerBuild osBuild f then (c, errs, w1)
                 else (c, errs @ [Wrapf ''failed to add counter %s: %w'' [counterPath] (PdhError ret)], w1))
              else
                (let c1 = c\<lparr>ctrInstances := map_set inst h (ctrInstances c)\<rparr> in
                 if ctrType c1 \<noteq> 0 then (c1, errs, w1)
                 else
                   (case CounterInfoSize api h w1 of
                      (ret, bufLen, w2) \<Rightarrow>
                        (if ret \<noteq> MoreData then (c1, errs @ [Wrapf ''GetCounterInfo: %w'' [] (PdhError ret)], w2)
                         else if bufLen = 0 then (c1, errs @ [ErrorText ''GetCounterInfo: buffer length is zero'' []], w2)
                         else
                           (case GetCounterInfo api h bufLen w2 of
                              (ret, dwType, w3) \<Rightarrow>
                                (if ret \<noteq> ErrorSuccess then (c1, errs @ [Wrapf ''GetCounterInfo: %w'' [] (PdhError ret)], w3)
                                 else
                                   (let c2 = c1\<lparr>ctrType := dwType, ctrMetricType := Some (metricTypeOf dwType)\<rparr> in
                                    if dwType = PERF_ELAPSED_TIME then
                                      (case GetCounterTimeBase api h w3 of
                                         (ret, base, w4) \<Rightarrow>
                                           (c2\<lparr>ctrFrequency := base\<rparr>,
                                            if ret \<noteq> ErrorSuccess then errs @ [Wrapf ''GetCounterTimeBase: %w'' [] (PdhError ret)] else errs, w4))
                                    else (c2, errs, w3)))))))))) "

text \<open>The name of the counter that a tag asks for, and whether it asks for the second value.\<close>

definition tagCounter :: "string \<Rightarrow> string \<times> bool" where
  "tagCounter tag = (TrimSuffix tag '',secondvalue'', HasSuffix tag '',secondvalue'')"

definition newCounter :: "string \<Rightarrow> perfCounter" where
  "newCounter n = \<lparr>ctrName = n, ctrMetricType = None, ctrInstances = [], ctrType = 0, ctrFrequency = 0,
     fieldIndexValue = None, fieldIndexSecondValue = None\<rparr>"

text \<open>The body of the loop over the fields, for the field \<open>f\<close> at index \<open>i\<close>.\<close>

definition addField ::
  "'w pdh_api \<Rightarrow> u64 \<Rightarrow> u16 \<Rightarrow> string \<Rightarrow> string list \<Rightarrow> nat \<times> structField \<Rightarrow>
   (string, perfCounter) gomap \<times> go_error list \<times> 'w \<Rightarrow> (string, perfCounter) gomap \<times> go_error list \<times> 'w" where
  "addField api handle osBuild object insts fi st =
     (case fi of (i, f) \<Rightarrow> case st of (cs, errs, w) \<Rightarrow>
        (case perfdata f of
           None \<Rightarrow> (cs, errs, w)
         | Some tag \<Rightarrow>
             (if fKind f \<noteq> KFloat64 then (cs, errs @ [ErrorText ''field %s must be a float64'' [fName f]], w)
              else
                (case tagCounter tag of
                   (name, second) \<Rightarrow>
                     (let c = (case map_get cs name of Some c \<Rightarrow> c | None \<Rightarrow> newCounter name);
                          c1 = (if second then c\<lparr>fieldIndexSecondValue := Some i\<rparr> else c\<lparr>fieldIndexValue := Some i\<rparr>)
                      in if ctrInstances c1 \<noteq> [] then (map_set name c1 cs, errs, w)
                         else case fold (addInstance api handle osBuild object f) insts (c1, errs, w) of
                                (c2, errs', w') \<Rightarrow> (map_set name c2 cs, errs', w'))))))"

text \<open>\<open>valueType.FieldByName(n)\<close> with a check of the kind: the index of the field.\<close>

fun fieldIndex :: "string \<Rightarrow> fieldKind \<Rightarrow> nat \<Rightarrow> structField list \<Rightarrow> nat option" where
  "fieldIndex n k i [] = None"
| "fieldIndex n k i (f # fs) = (if fName f = n then (if fKind f = k then Some i else None) else fieldIndex n k (Suc i) fs)"

datatype resultType = CounterTypeRaw | CounterTypeFormatted | OtherType string

text \<open>\<open>pdh.Collector\<close>; \<open>chans\<close> says whether the two channels exist, the worker's variables are those of its goroutine.\<close>

record pdhCollector =
  object :: string
  counters :: "(string, perfCounter) gomap"
  queryHandle :: u64
  colLayout :: layout
  colType :: resultType
  chans :: bool
  rawWorker :: "rawValue worker"
  fmtWorker :: "f64 worker"

text \<open>\<open>Collect\<close>; \<^term>\<open>None\<close> in the result is a panic of the worker, the collector \<^term>\<open>None\<close> a nil pointer.\<close>

definition Collect :: "'w pdh_api \<Rightarrow> dest \<Rightarrow> pdhCollector option \<Rightarrow> 'w \<Rightarrow> (go_error option \<times> dest \<times> pdhCollector option \<times> 'w) option" where
  "Collect api dst c w =
     (case c of
        None \<Rightarrow> Some (Some ErrPerformanceCounterNotInitialized, dst, None, w)
      | Some p \<Rightarrow>
          (if counters p = [] \<or> queryHandle p = 0 \<or> \<not> chans p
           then Some (Some ErrPerformanceCounterNotInitialized, dst, Some p, w)
           else if colType p = CounterTypeRaw then
             (case collectWorkerRaw api (queryHandle p) (counters p) (colLayout p) dst (rawWorker p) w of
                None \<Rightarrow> None
              | Some (e, dst', wk, w') \<Rightarrow> Some (e, dst', Some (p\<lparr>rawWorker := wk\<rparr>), w'))
           else
             (case collectWorkerFormatted api (queryHandle p) (counters p) (colLayout p) dst (fmtWorker p) w of
                None \<Rightarrow> None
              | Some (e, dst', wk, w') \<Rightarrow> Some (e, dst', Some (p\<lparr>fmtWorker := wk\<rparr>), w'))))"

definition NewCollectorWithReflection ::
  "'w pdh_api \<Rightarrow> u16 \<Rightarrow> resultType \<Rightarrow> string \<Rightarrow> string list \<Rightarrow> structField list \<Rightarrow> 'w \<Rightarrow>
   (pdhCollector option \<times> go_error option \<times> 'w) option" where
  "NewCollectorWithReflection api osBuild rt obj insts0 fs w =
     (case OpenQuery api w of
        (ret, handle, w1) \<Rightarrow>
          (if ret \<noteq> ErrorSuccess then Some (None, Some (PdhError ret), w1)
           else
             (let insts = (if insts0 = [] then [InstanceEmpty] else insts0) in
              if rt \<noteq> CounterTypeRaw \<and> rt \<noteq> CounterTypeFormatted
              then Some (None, Some (ErrorText ''invalid result type: %v'' []), w1)
              else
                (case fold (addField api handle osBuild obj insts) (enumerate 0 fs) ([], [], w1) of
                   (cs, errs, w2) \<Rightarrow>
                     (let l = \<lparr>elemFields = fs, nameIndexValue = fieldIndex ''Name'' KString 0 fs,
                               metricsTypeIndexValue = fieldIndex ''MetricType'' KValueType 0 fs,
                               totalCounterRequested = (InstanceTotal \<in> set insts)\<rparr>;
                          p = \<lparr>object = obj, counters = cs, queryHandle = handle, colLayout = l, colType = rt, chans = False,
                               rawWorker = newWorker (0, 0), fmtWorker = newWorker (F_Fin 0)\<rparr>
                      in case errors_Join errs of
                           Some e \<Rightarrow> Some (Some p, Some (Wrapf ''failed to initialize collector: %w'' [] e), w2)
                         | None \<Rightarrow>
                             (if cs = [] then Some (None, Some (ErrorText ''no counters configured'' []), w2)
                              else
                                (case Collect api (Rows fs []) (Some (p\<lparr>chans := True\<rparr>)) w2 of
                                   None \<Rightarrow> None
                                 | Some (err, dst, p', w3) \<Rightarrow>
                                     (case err of
                                        None \<Rightarrow> Some (p', None, w3)
                                      | Some e \<Rightarrow>
                                          (if errors_is e pdh_ErrNoData then Some (p', None, w3)
                                           else Some (p', Some (Wrapf ''failed to collect initial data: %w'' [] e), w3))))))))))"

definition Close :: "'w pdh_api \<Rightarrow> pdhCollector option \<Rightarrow> 'w \<Rightarrow> pdhCollector option \<times> 'w" where
  "Close api c w =
     (case c of
        None \<Rightarrow> (None, w)
      | Some p \<Rightarrow> (Some (p\<lparr>queryHandle := 0, chans := False\<rparr>), snd (CloseQuery api (queryHandle p) w)))"

section \<open>The counters of a collector\<close>

text \<open>The last field that asks for a value (or the second value) of the counter \<open>n\<close>.\<close>

definition asksFor :: "string \<Rightarrow> bool \<Rightarrow> nat \<times> structField \<Rightarrow> bool" where
  "asksFor n second fi \<longleftrightarrow>
     fKind (snd fi) = KFloat64 \<and> (case perfdata (snd fi) of None \<Rightarrow> False | Some tag \<Rightarrow> tagCounter tag = (n, second))"

definition lastField :: "string \<Rightarrow> bool \<Rightarrow> (nat \<times> structField) list \<Rightarrow> nat option" where
  "lastField n second fis = (case filter (asksFor n second) fis of [] \<Rightarrow> None | xs \<Rightarrow> Some (fst (last xs)))"

lemma lastField_snoc: "lastField n b (fis @ [fi]) = (if asksFor n b fi then Some (fst fi) else lastField n b fis)"
  by (cases "filter (asksFor n b) fis") (simp_all add: lastField_def)

definition counter_ok :: "(nat \<times> structField) list \<Rightarrow> string \<Rightarrow> perfCounter option \<Rightarrow> bool" where
  "counter_ok fis n co =
     (case co of
        None \<Rightarrow> lastField n False fis = None \<and> lastField n True fis = None
      | Some c \<Rightarrow> ctrName c = n \<and> fieldIndexValue c = lastField n False fis \<and> fieldIndexSecondValue c = lastField n True fis \<and>
                  (fieldIndexValue c \<noteq> None \<or> fieldIndexSecondValue c \<noteq> None))"

definition counters_ok :: "(nat \<times> structField) list \<Rightarrow> (string, perfCounter) gomap \<Rightarrow> bool" where
  "counters_ok fis cs \<longleftrightarrow> wf_map cs \<and> (\<forall>n. counter_ok fis n (map_get cs n))"

lemma counter_ok_same:
  "(\<And>t. lastField n t fis = lastField n t gis) \<Longrightarrow> counter_ok fis n co = counter_ok gis n co"
  by (simp add: counter_ok_def split: option.splits)

lemma addInstance_fields:
  "addInstance api h b obj f inst (c, errs, w) = (c', errs', w') \<Longrightarrow>
     ctrName c' = ctrName c \<and> fieldIndexValue c' = fieldIndexValue c \<and> fieldIndexSecondValue c' = fieldIndexSecondValue c"
  by (auto simp: addInstance_def Let_def split: prod.splits if_splits)

lemma addInstances_fields:
  "fold (addInstance api h b obj f) insts (c, errs, w) = (c', errs', w') \<Longrightarrow>
     ctrName c' = ctrName c \<and> fieldIndexValue c' = fieldIndexValue c \<and> fieldIndexSecondValue c' = fieldIndexSecondValue c"
proof (induction insts arbitrary: c errs w)
  case Nil
  then show ?case by simp
next
  case (Cons x insts)
  obtain c1 errs1 w1 where step: "addInstance api h b obj f x (c, errs, w) = (c1, errs1, w1)" by (metis prod_cases3)
  then show ?case using Cons.IH [of c1 errs1 w1] Cons.prems addInstance_fields [OF step] by simp
qed

text \<open>What one field does to the map: nothing, or one counter with an index set.\<close>

lemma addField_cases:
  assumes "addField api h b obj insts (i, f) (cs, errs, w) = (cs', errs', w')"
  shows "(\<forall>n second. \<not> asksFor n second (i, f)) \<and> cs' = cs \<or>
    (\<exists>n second c. (\<forall>m t. asksFor m t (i, f) \<longleftrightarrow> m = n \<and> t = second) \<and> cs' = map_set n c cs \<and>
       (let old = (case map_get cs n of Some c0 \<Rightarrow> c0 | None \<Rightarrow> newCounter n) in
        ctrName c = ctrName old \<and> fieldIndexValue c = (if second then fieldIndexValue old else Some i) \<and>
        fieldIndexSecondValue c = (if second then Some i else fieldIndexSecondValue old)))"
proof (cases "perfdata f")
  case None
  then show ?thesis using assms by (simp add: addField_def asksFor_def)
next
  case (Some tag)
  show ?thesis
  proof (cases "fKind f = KFloat64")
    case False
    then show ?thesis using assms Some by (simp add: addField_def asksFor_def)
  next
    case True
    obtain n second where tag: "tagCounter tag = (n, second)" by fastforce
    let ?old = "case map_get cs n of Some c0 \<Rightarrow> c0 | None \<Rightarrow> newCounter n"
    let ?c1 = "if second then ?old\<lparr>fieldIndexSecondValue := Some i\<rparr> else ?old\<lparr>fieldIndexValue := Some i\<rparr>"
    obtain c2 errs2 w2 where f: "fold (addInstance api h b obj f) insts (?c1, errs, w) = (c2, errs2, w2)" by (metis prod_cases3)
    let ?c = "if ctrInstances ?c1 \<noteq> [] then ?c1 else c2"
    have "cs' = map_set n ?c cs" using assms Some True tag f by (auto simp: addField_def Let_def split: if_splits)
    moreover have "ctrName ?c = ctrName ?c1 \<and> fieldIndexValue ?c = fieldIndexValue ?c1 \<and> fieldIndexSecondValue ?c = fieldIndexSecondValue ?c1"
      using addInstances_fields [OF f] by simp
    moreover have "\<forall>m t. asksFor m t (i, f) \<longleftrightarrow> m = n \<and> t = second" using Some True tag by (auto simp: asksFor_def)
    ultimately show ?thesis by (intro disjI2 exI [of _ n] exI [of _ second] exI [of _ ?c]) (auto simp: Let_def)
  qed
qed

lemma addField_ok:
  assumes ok: "counters_ok fis cs" and add: "addField api h b obj insts fi (cs, errs, w) = (cs', errs', w')"
  shows "counters_ok (fis @ [fi]) cs'"
proof -
  obtain i f where fi: "fi = (i, f)" by (cases fi)
  from addField_cases [OF add [unfolded fi]] show ?thesis
  proof (elim disjE exE conjE)
    assume none: "\<forall>n second. \<not> asksFor n second (i, f)" and "cs' = cs"
    have "counter_ok (fis @ [fi]) n co = counter_ok fis n co" for n co
      using none by (intro counter_ok_same) (simp add: lastField_snoc fi)
    then show ?thesis using ok \<open>cs' = cs\<close> by (simp add: counters_ok_def)
  next
    fix n second c
    assume asks: "\<forall>m t. asksFor m t (i, f) \<longleftrightarrow> m = n \<and> t = second" and cs': "cs' = map_set n c cs"
      and c: "let old = (case map_get cs n of Some c0 \<Rightarrow> c0 | None \<Rightarrow> newCounter n) in
        ctrName c = ctrName old \<and> fieldIndexValue c = (if second then fieldIndexValue old else Some i) \<and>
        fieldIndexSecondValue c = (if second then Some i else fieldIndexSecondValue old)"
    have old: "counter_ok fis n (map_get cs n)" using ok by (simp add: counters_ok_def)
    have new: "lastField m t (fis @ [fi]) = (if m = n \<and> t = second then Some i else lastField m t fis)" for m t
      using asks by (simp add: lastField_snoc fi)
    have "counter_ok (fis @ [fi]) n (Some c)"
      using old c by (cases second; cases "map_get cs n") (auto simp: counter_ok_def newCounter_def new)
    moreover have "counter_ok (fis @ [fi]) m co = counter_ok fis m co" if "m \<noteq> n" for m co
      using that new by (intro counter_ok_same) simp
    ultimately show ?thesis using ok by (simp add: counters_ok_def cs')
  qed
qed

lemma addFields_ok:
  assumes "counters_ok fis cs" and "fold (addField api h b obj insts) gis (cs, errs, w) = (cs', errs', w')"
  shows "counters_ok (fis @ gis) cs'"
  using assms
proof (induction gis arbitrary: fis cs errs w)
  case Nil
  then show ?case by simp
next
  case (Cons fi gis)
  obtain cs1 errs1 w1 where step: "addField api h b obj insts fi (cs, errs, w) = (cs1, errs1, w1)" by (metis prod_cases3)
  show ?case using Cons.IH [OF addField_ok [OF Cons.prems(1) step]] Cons.prems(2) step by simp
qed

lemma Collect_counters:
  "Collect api dst (Some p) w = Some (e, dst', p', w') \<Longrightarrow>
     (\<exists>q. p' = Some q \<and> counters q = counters p \<and> chans q = chans p \<and> colLayout q = colLayout p)"
  by (auto simp: Collect_def split: if_splits option.splits)

end
