(* ===== verification/Perf.thy ===== *)
theory Perf
  imports Pdh_Collector
begin

text \<open>
  What the collectors of performance counters share: the rows that the PDH client fills for their
  struct, the metrics they send for a row, and the contract of the Prometheus library for
  them. A collector is then three tables (its struct, its descriptors, the metrics of a row)
  and the code that combines them.
\<close>

section \<open>Rows of a struct\<close>

definition perfField :: "string \<Rightarrow> string \<Rightarrow> structField" where
  "perfField n tag = \<lparr>fName = n, fKind = KFloat64, perfdata = Some tag, perfdata_min_build = None\<rparr>"

definition perfFieldSince :: "string \<Rightarrow> string \<Rightarrow> string \<Rightarrow> structField" where
  "perfFieldSince n tag b = \<lparr>fName = n, fKind = KFloat64, perfdata = Some tag, perfdata_min_build = Some b\<rparr>"

definition nameField :: structField where
  "nameField = \<lparr>fName = ''Name'', fKind = KString, perfdata = None, perfdata_min_build = None\<rparr>"

fun fieldPos :: "string \<Rightarrow> structField list \<Rightarrow> nat" where
  "fieldPos n [] = 0"
| "fieldPos n (f # fs) = (if fName f = n then 0 else Suc (fieldPos n fs))"

text \<open>\<open>data.F\<close> for a field of type \<open>float64\<close>, and \<open>data.Name\<close>.\<close>

definition num :: "structField list \<Rightarrow> row \<Rightarrow> string \<Rightarrow> f64" where
  "num fs r n = (if fieldPos n fs < length r then (case r ! fieldPos n fs of VFloat v \<Rightarrow> v | _ \<Rightarrow> F_Fin 0) else F_Fin 0)"

definition rowName :: "structField list \<Rightarrow> row \<Rightarrow> string" where
  "rowName fs r = (if fieldPos ''Name'' fs < length r then (case r ! fieldPos ''Name'' fs of VString s \<Rightarrow> s | _ \<Rightarrow> []) else [])"

section \<open>Metrics\<close>

text \<open>
  One \<open>MustNewConstMetric\<close> call: the field of the collector that holds the descriptor, the type, the
  value and the label values. It panics when the descriptor is nil or the number of label values is not that of the
  descriptor's labels.
\<close>

type_synonym line = "string \<times> valueType \<times> f64 \<times> string list"
type_synonym descTable = "(string \<times> Desc) list"

definition MustNewConstMetric :: "descTable \<Rightarrow> line \<Rightarrow> metric option" where
  "MustNewConstMetric ds li =
     (case li of (n, vt, v, ls) \<Rightarrow>
        (case map_of ds n of
           None \<Rightarrow> None
         | Some d \<Rightarrow> if length ls = length (variableLabels d) then Some (ConstMetric d vt v ls) else None))"

definition sendAll :: "descTable \<Rightarrow> line list \<Rightarrow> metric list option" where
  "sendAll ds lns = those (map (MustNewConstMetric ds) lns)"

text \<open>What the library accepts in one scrape: metrics of the right arity, each series once.\<close>

definition accepted :: "metric list option \<Rightarrow> bool" where
  "accepted r = (case r of None \<Rightarrow> False | Some ms \<Rightarrow> list_all arity_ok ms \<and> distinct (map series ms))"

lemma those_map_Some: "those (map Some xs) = Some xs"
  by (induction xs) simp_all

lemma sendAll_append:
  "sendAll ds (xs @ ys) = (case sendAll ds xs of None \<Rightarrow> None | Some a \<Rightarrow> map_option (\<lambda>b. a @ b) (sendAll ds ys))"
proof -
  have "those (us @ vs) = (case those us of None \<Rightarrow> None | Some a \<Rightarrow> map_option (\<lambda>b. a @ b) (those vs))" for us vs :: "metric option list"
  proof (induction us)
    case Nil
    then show ?case by (cases "those vs") simp_all
  next
    case (Cons u us)
    then show ?case by (cases u; cases "those us"; cases "those vs") simp_all
  qed
  then show ?thesis unfolding sendAll_def map_append .
qed

section \<open>The source of the rows\<close>

record perfSource =
  perfDataCollector :: "pdhCollector option"
  perfDataObject :: "row list"

abbreviation ErrNoDataUnexpected :: go_error where
  "ErrNoDataUnexpected \<equiv> Sentinel ''types.ErrNoDataUnexpected''"

text \<open>\<open>c.perfDataCollector.Collect(&c.perfDataObject)\<close>\<close>

definition perfCollect ::
  "'w pdh_api \<Rightarrow> structField list \<Rightarrow> perfSource \<Rightarrow> 'w \<Rightarrow> (go_error option \<times> perfSource \<times> 'w) option" where
  "perfCollect api fs src w =
     (case Collect api (Rows fs (perfDataObject src)) (perfDataCollector src) w of
        None \<Rightarrow> None
      | Some (err, dst, p, w') \<Rightarrow>
          Some (err, \<lparr>perfDataCollector = p, perfDataObject = (case dst of Rows _ rs \<Rightarrow> rs | _ \<Rightarrow> [])\<rparr>, w'))"

text \<open>The end of \<open>Build\<close>: the PDH collector is kept also when it comes with an error.\<close>

definition perfBuild ::
  "'w pdh_api \<Rightarrow> u16 \<Rightarrow> string \<Rightarrow> string \<Rightarrow> string list \<Rightarrow> structField list \<Rightarrow> 'w \<Rightarrow> (go_error option \<times> perfSource \<times> 'w) option" where
  "perfBuild api osBuild msg obj insts fs w =
     (case NewCollectorWithReflection api osBuild CounterTypeRaw obj insts fs w of
        None \<Rightarrow> None
      | Some (p, err, w') \<Rightarrow> Some (map_option (Wrapf msg []) err, \<lparr>perfDataCollector = p, perfDataObject = []\<rparr>, w'))"

definition perfClose :: "'w pdh_api \<Rightarrow> perfSource \<Rightarrow> 'w \<Rightarrow> perfSource \<times> 'w" where
  "perfClose api src w = (case Close api (perfDataCollector src) w of (p, w') \<Rightarrow> (src\<lparr>perfDataCollector := p\<rparr>, w'))"

text \<open>
  The result of a collector's \<open>Collect\<close>: its error, the metrics that it sent, its state and the system;
  \<^term>\<open>None\<close> is a panic.
\<close>

type_synonym ('s, 'w) collected = "(go_error option \<times> metric list \<times> 's \<times> 'w) option"

text \<open>Sending after the rows were read: \<open>lines\<close> gives the metrics for them, or the error that is returned instead.\<close>

definition collectWith ::
  "'w pdh_api \<Rightarrow> structField list \<Rightarrow> string \<Rightarrow> descTable \<Rightarrow> (row list \<Rightarrow> go_error + line list) \<Rightarrow> perfSource \<Rightarrow> 'w \<Rightarrow> (perfSource, 'w) collected" where
  "collectWith api fs msg ds lines src w =
     (case perfCollect api fs src w of
        None \<Rightarrow> None
      | Some (Some e, src', w') \<Rightarrow> Some (Some (Wrapf msg [] e), [], src', w')
      | Some (None, src', w') \<Rightarrow>
          (case lines (perfDataObject src') of
             Inl e \<Rightarrow> Some (Some e, [], src', w')
           | Inr lns \<Rightarrow> (case sendAll ds lns of None \<Rightarrow> None | Some ms \<Rightarrow> Some (None, ms, src', w'))))"

text \<open>Only the first row is used; no rows are an error.\<close>

definition firstRow :: "string \<Rightarrow> (row \<Rightarrow> line list) \<Rightarrow> row list \<Rightarrow> go_error + line list" where
  "firstRow msg lines rs = (case rs of [] \<Rightarrow> Inl (Wrapf msg [] ErrNoDataUnexpected) | r # _ \<Rightarrow> Inr (lines r))"

text \<open>Every row that passes the collector's filter.\<close>

definition eachRow :: "(row \<Rightarrow> bool) \<Rightarrow> (row \<Rightarrow> line list) \<Rightarrow> row list \<Rightarrow> go_error + line list" where
  "eachRow keep lines rs = Inr (concat (map lines (filter keep rs)))"

text \<open>The regular expressions of a collector's filter, as predicates.\<close>

definition included :: "(string \<Rightarrow> bool) \<Rightarrow> (string \<Rightarrow> bool) \<Rightarrow> string \<Rightarrow> bool" where
  "included exclude include n \<longleftrightarrow> \<not> (exclude n \<or> \<not> include n)"

section \<open>The contract of the tables\<close>

fun lineLabels :: "line \<Rightarrow> string list" where
  "lineLabels (n, vt, v, ls) = ls"

text \<open>
  The metrics of a row use descriptors of the table with the right number of labels, each
  combination of descriptor and labels once, and every one of them carries the key of the row as the
  label at position \<open>pos\<close>. Names of descriptors differ.
\<close>

definition table_ok :: "descTable \<Rightarrow> line list \<Rightarrow> bool" where
  "table_ok ds lns \<longleftrightarrow>
     list_all (\<lambda>(n, vt, v, ls). case map_of ds n of None \<Rightarrow> False | Some d \<Rightarrow> length ls = length (variableLabels d)) lns \<and>
     distinct (map (\<lambda>(n, vt, v, ls). (n, ls)) lns)"

text \<open>Both conditions follow from the names and numbers of labels alone when no descriptor is used twice.\<close>

definition arities_ok :: "descTable \<Rightarrow> (string \<times> nat) list \<Rightarrow> bool" where
  "arities_ok ds sk \<longleftrightarrow> list_all (\<lambda>(n, k). map_of (map (\<lambda>(m, d). (m, length (variableLabels d))) ds) n = Some k) sk"

definition callArity :: "line \<Rightarrow> string \<times> nat" where
  "callArity li = (case li of (n, vt, v, ls) \<Rightarrow> (n, length ls))"

definition callTail :: "line \<Rightarrow> string \<times> string list" where
  "callTail li = (case li of (n, vt, v, ls) \<Rightarrow> (n, tl ls))"

lemma call_simps: "callArity (n, vt, v, ls) = (n, length ls)" "callTail (n, vt, v, ls) = (n, tl ls)"
  by (simp_all add: callArity_def callTail_def)

lemma arities_table:
  assumes "arities_ok ds (map callArity lns)"
  shows "list_all (\<lambda>(n, vt, v, ls). case map_of ds n of None \<Rightarrow> False | Some d \<Rightarrow> length ls = length (variableLabels d)) lns"
proof -
  have "map_of (map (\<lambda>(m, d). (m, length (variableLabels d))) ds) n = map_option (\<lambda>d. length (variableLabels d)) (map_of ds n)" for n
    by (induction ds) auto
  then show ?thesis
    using assms by (fastforce simp: arities_ok_def list_all_iff callArity_def split: option.splits)
qed

lemma table_ok_names: "arities_ok ds (map callArity lns) \<Longrightarrow> distinct (map fst lns) \<Longrightarrow> table_ok ds lns"
proof -
  assume ar: "arities_ok ds (map callArity lns)" and names: "distinct (map fst lns)"
  have "map fst lns = map fst (map (\<lambda>(n, vt, v, ls). (n, ls)) lns)" by auto
  then have "distinct (map (\<lambda>(n, vt, v, ls). (n, ls)) lns)" using names distinct_map by metis
  then show ?thesis using arities_table [OF ar] by (simp add: table_ok_def)
qed

lemma table_ok_tails: "arities_ok ds (map callArity lns) \<Longrightarrow> distinct (map callTail lns) \<Longrightarrow> table_ok ds lns"
proof -
  assume ar: "arities_ok ds (map callArity lns)" and tails: "distinct (map callTail lns)"
  have "map callTail lns = map (\<lambda>(n, ls). (n, tl ls)) (map (\<lambda>(n, vt, v, ls). (n, ls)) lns)" by (auto simp: callTail_def)
  then have "distinct (map (\<lambda>(n, vt, v, ls). (n, ls)) lns)" using tails distinct_map by metis
  then show ?thesis using arities_table [OF ar] by (simp add: table_ok_def)
qed

definition callRest :: "nat \<Rightarrow> line \<Rightarrow> string \<times> string list" where
  "callRest k li = (case li of (n, vt, v, ls) \<Rightarrow> (n, drop k ls))"

lemma call_rest_simps: "callRest k (n, vt, v, ls) = (n, drop k ls)"
  by (simp add: callRest_def)

lemma table_ok_rests: "arities_ok ds (map callArity lns) \<Longrightarrow> distinct (map (callRest k) lns) \<Longrightarrow> table_ok ds lns"
proof -
  assume ar: "arities_ok ds (map callArity lns)" and rests: "distinct (map (callRest k) lns)"
  have "map (callRest k) lns = map (\<lambda>(n, ls). (n, drop k ls)) (map (\<lambda>(n, vt, v, ls). (n, ls)) lns)" by (auto simp: callRest_def)
  then have "distinct (map (\<lambda>(n, vt, v, ls). (n, ls)) lns)" using rests distinct_map by metis
  then show ?thesis using arities_table [OF ar] by (simp add: table_ok_def)
qed

lemmas line_simps = list.map fst_conv call_simps list.size list.sel
lemmas rest_simps = list.map call_rest_simps drop_Suc_Cons drop_0 drop_Nil

locale perf_table =
  fixes ds :: descTable
    and lines :: "'r \<Rightarrow> line list"
  assumes desc_names: "distinct (map (\<lambda>(n, d). fqName d) ds)"
    and lines_ok: "table_ok ds (lines r)"
begin

lemma map_of_fqName: "map_of ds n = Some d \<Longrightarrow> map_of ds m = Some d' \<Longrightarrow> fqName d = fqName d' \<Longrightarrow> n = m"
proof -
  assume nd: "map_of ds n = Some d" and md: "map_of ds m = Some d'" and eq: "fqName d = fqName d'"
  have "(n, d) \<in> set ds" "(m, d') \<in> set ds" using nd md by (auto dest: map_of_SomeD)
  with desc_names eq have "(n, d) = (m, d')" unfolding distinct_map inj_on_def split_def by fastforce
  then show ?thesis by simp
qed

text \<open>Metrics that are all in order and pairwise different calls are accepted.\<close>

lemma sendAll_accepted:
  assumes "table_ok ds lns"
  shows "accepted (sendAll ds lns)"
proof -
  let ?m = "\<lambda>(n, vt, v, ls). ConstMetric (the (map_of ds n)) vt v ls"
  have line: "MustNewConstMetric ds li = Some (?m li) \<and> arity_ok (?m li)" if "li \<in> set lns" for li
  proof -
    obtain n vt v ls where li: "li = (n, vt, v, ls)" by (metis prod_cases4)
    have "case map_of ds n of None \<Rightarrow> False | Some d \<Rightarrow> length ls = length (variableLabels d)"
      using assms that li by (fastforce simp: table_ok_def list_all_iff)
    then show ?thesis by (auto simp: li MustNewConstMetric_def arity_ok_def split: option.splits)
  qed
  then have "map (MustNewConstMetric ds) lns = map Some (map ?m lns)" by (induction lns) auto
  then have sent: "sendAll ds lns = Some (map ?m lns)"
    unfolding sendAll_def by (simp only: those_map_Some)
  have inj: "inj_on (\<lambda>li. series (?m li)) (set lns) \<and> distinct lns"
  proof
    show "distinct lns" using assms by (simp add: table_ok_def distinct_map)
    show "inj_on (\<lambda>li. series (?m li)) (set lns)"
    proof (rule inj_onI)
      fix x y assume x: "x \<in> set lns" and y: "y \<in> set lns" and eq: "series (?m x) = series (?m y)"
      obtain n vt v ls where xd: "x = (n, vt, v, ls)" by (metis prod_cases4)
      obtain n' vt' v' ls' where yd: "y = (n', vt', v', ls')" by (metis prod_cases4)
      obtain d d' where d: "map_of ds n = Some d" "map_of ds n' = Some d'"
        using line [OF x] line [OF y] xd yd by (auto simp: MustNewConstMetric_def split: option.splits)
      then have "n = n'" "ls = ls'" using eq map_of_fqName xd yd by (auto simp: series_def)
      moreover have "distinct (map (\<lambda>(n, vt, v, ls). (n, ls)) lns)" using assms by (simp add: table_ok_def)
      ultimately show "x = y" using x y xd yd by (auto simp: distinct_map inj_on_def)
    qed
  qed
  then show ?thesis using sent line by (auto simp: accepted_def list_all_iff distinct_map comp_def inj_on_def)
qed

lemma row_accepted: "accepted (sendAll ds (lines r))"
  by (rule sendAll_accepted [OF lines_ok])

end

text \<open>Several rows, told apart by their labels: \<open>keyOf\<close> reads the key of the row off the labels of a metric.\<close>

locale labelled_table = perf_table +
  fixes key :: "'a \<Rightarrow> 'k"
    and keyOf :: "string \<Rightarrow> string list \<Rightarrow> 'k"
  assumes labelled: "list_all (\<lambda>(n, vt, v, ls). keyOf n ls = key r) (lines r)"
begin

lemma rows_ok: "distinct (map key rs) \<Longrightarrow> table_ok ds (concat (map lines rs))"
proof (induction rs)
  case Nil
  then show ?case by (simp add: table_ok_def)
next
  case (Cons r rs)
  let ?k = "\<lambda>(n, vt, v, ls). (n, ls) :: string \<times> string list"
  have rs: "table_ok ds (concat (map lines rs))" using Cons by simp
  have "?k x \<noteq> ?k y" if xy: "x \<in> set (lines r)" "y \<in> set (concat (map lines rs))" for x y
  proof
    obtain n vt v ls where x: "x = (n, vt, v, ls)" by (metis prod_cases4)
    obtain n' vt' v' ls' where y: "y = (n', vt', v', ls')" by (metis prod_cases4)
    obtain r' where r': "r' \<in> set rs" "y \<in> set (lines r')" using xy(2) by auto
    assume "?k x = ?k y"
    then have "key r = key r'"
      using labelled [of r] labelled [of r'] xy(1) r'(2) x y by (fastforce simp: list_all_iff)
    then show False using Cons.prems r'(1) by auto
  qed
  then have "?k ` set (lines r) \<inter> ?k ` set (concat (map lines rs)) = {}" by blast
  then show ?case using rs lines_ok [of r] by (simp add: table_ok_def)
qed

lemma rows_accepted: "distinct (map key rs) \<Longrightarrow> accepted (sendAll ds (concat (map lines rs)))"
  by (intro sendAll_accepted rows_ok)

end

text \<open>The key is one of the labels.\<close>

locale keyed_table = perf_table +
  fixes key :: "'a \<Rightarrow> string"
    and pos :: "string \<Rightarrow> nat"
  assumes keyed: "list_all (\<lambda>(n, vt, v, ls). pos n < length ls \<and> ls ! pos n = key r) (lines r)"

sublocale keyed_table \<subseteq> labelled_table ds lines key "\<lambda>n ls. ls ! pos n"
proof
  show "list_all (\<lambda>(n, vt, v, ls). ls ! pos n = key r) (lines r)" for r
    using keyed [of r] by (auto simp: list_all_iff)
qed

end
