(* ===== verification/Pdh_Names.thy ===== *)
theory Pdh_Names
  imports Perf Step_System
begin

text \<open>
  The rows that a PDH collector delivers have different names, whatever the PDH functions
  answer: this is what the performance counter collectors rely on when they use the name as a label.
\<close>

section \<open>One row per name\<close>

definition rows_named :: "nat \<Rightarrow> nat \<Rightarrow> gather \<Rightarrow> bool" where
  "rows_named n k g \<longleftrightarrow>
     k < n \<and> (\<forall>r\<in>set (rows g). length r = n) \<and> (\<forall>r\<in>set (rows g). \<exists>s. r ! k = VString s) \<and>
     (\<forall>s i. map_get (indexMap g) s = Some i \<longleftrightarrow> i < length (rows g) \<and> rows g ! i ! k = VString s)"

definition keeps_name :: "nat \<Rightarrow> nat \<Rightarrow> (perfCounter \<Rightarrow> 'v \<Rightarrow> row \<Rightarrow> row option) \<Rightarrow> perfCounter \<Rightarrow> bool" where
  "keeps_name n k store c \<longleftrightarrow> (\<forall>v r r'. store c v r = Some r' \<longrightarrow> length r = n \<longrightarrow> length r' = n \<and> r' ! k = r ! k)"

lemma rows_named_distinct:
  assumes "rows_named n k g"
  shows "distinct (map (\<lambda>r. r ! k) (rows g))"
  unfolding distinct_conv_nth
proof (intro allI impI)
  fix i j assume ij: "i < length (map (\<lambda>r. r ! k) (rows g))" "j < length (map (\<lambda>r. r ! k) (rows g))" "i \<noteq> j"
  obtain s where s: "rows g ! i ! k = VString s" using assms ij(1) nth_mem [of i "rows g"] unfolding rows_named_def length_map by blast
  have "map_get (indexMap g) s = Some i" using assms s ij(1) by (auto simp: rows_named_def)
  then have "rows g ! j ! k \<noteq> VString s" using assms ij(2,3) unfolding rows_named_def by (metis length_map option.inject)
  then show "map (\<lambda>r. r ! k) (rows g) ! i \<noteq> map (\<lambda>r. r ! k) (rows g) ! j" using s ij by simp
qed

lemma rows_named_update:
  assumes g: "rows_named n k g" and i: "i < length (rows g)" and r: "length r = n" "r ! k = rows g ! i ! k"
    and g': "rows g' = (rows g)[i := r]" "indexMap g' = indexMap g"
  shows "rows_named n k g'"
proof -
  have at: "rows g' ! j ! k = rows g ! j ! k" for j using i r(2) g'(1) by (cases "j = i") auto
  have "x \<in> set (rows g') \<Longrightarrow> length x = n \<and> (\<exists>s. x ! k = VString s)" for x
    using g r g'(1) i set_update_subset_insert [of "rows g" i r] nth_mem [OF i] unfolding rows_named_def by auto
  then show ?thesis using g at g' unfolding rows_named_def by simp
qed

lemma rows_named_snoc:
  assumes g: "rows_named n k g" and new: "map_get (indexMap g) s = None" and r: "length r = n" "r ! k = VString s"
    and g': "rows g' = rows g @ [r]" "indexMap g' = map_set s (length (rows g)) (indexMap g)"
  shows "rows_named n k g'"
proof -
  have old: "i < length (rows g) \<Longrightarrow> rows g ! i ! k \<noteq> VString s" for i
    using g new unfolding rows_named_def by (metis option.distinct(1))
  have "map_get (indexMap g') t = Some i \<longleftrightarrow> i < length (rows g') \<and> rows g' ! i ! k = VString t" for t i
  proof (cases "t = s")
    case True
    then show ?thesis using old r(2) g' by (auto simp: nth_append less_Suc_eq)
  next
    case False
    then have "map_get (indexMap g') t = Some i \<longleftrightarrow> i < length (rows g) \<and> rows g ! i ! k = VString t"
      using g g'(2) by (simp add: rows_named_def)
    then show ?thesis using False r(2) g'(1) by (auto simp: nth_append less_Suc_eq)
  qed
  then show ?thesis using g r g'(1) unfolding rows_named_def by auto
qed

lemma newRow_name:
  assumes "nameIndexValue l = Some k" and "metricsTypeIndexValue l \<noteq> Some k" and "k < length (elemFields l)"
  shows "newRow l vt s ! k = VString s"
proof (cases "metricsTypeIndexValue l")
  case None
  then show ?thesis using assms by (simp add: newRow_def setField_def zeroElem_def)
next
  case (Some j)
  then show ?thesis using assms by (simp add: newRow_def setField_def zeroElem_def)
qed

lemma length_newRow': "length (newRow l vt s) = length (elemFields l)"
  by (simp add: newRow_def setField_def zeroElem_def split: option.splits)

text \<open>The layouts for which the name is stored where it is looked for.\<close>

definition name_at :: "nat \<Rightarrow> layout \<Rightarrow> bool" where
  "name_at k l \<longleftrightarrow> nameIndexValue l = Some k \<and> metricsTypeIndexValue l \<noteq> Some k \<and> k < length (elemFields l)"

lemma processItem_cases:
  assumes "processItem l typeOf store (c, it) g = Some g'"
  obtains (skip) "rows g' = rows g" "indexMap g' = indexMap g"
    | (known) s i r where "map_get (indexMap g) s = Some i" "store c (itemValue it) (rows g ! i) = Some r"
        "rows g' = (rows g)[i := r]" "indexMap g' = indexMap g"
    | (new) s r where "map_get (indexMap g) s = None" "store c (itemValue it) (newRow l (typeOf c) s) = Some r"
        "rows g' = rows g @ [r]" "indexMap g' = map_set s (length (rows g)) (indexMap g)"
proof -
  define t where "t = (case map_get (stringMap g) (szName it) of Some s \<Rightarrow> s | None \<Rightarrow> szText it)"
  define g1 where "g1 = (if map_get (stringMap g) (szName it) = None then g\<lparr>stringMap := map_set (szName it) t (stringMap g)\<rparr> else g)"
  define s where "s = instanceNameOf t"
  have g1: "rows g1 = rows g" "indexMap g1 = indexMap g" by (simp_all add: g1_def)
  have eq: "processItem l typeOf store (c, it) g =
      (if cStatus it \<noteq> CstatusValidData \<and> cStatus it \<noteq> CstatusNewData then Some g
       else if HasSuffix t InstanceTotal \<and> \<not> totalCounterRequested l then Some g1
       else case map_get (indexMap g) s of
              Some i \<Rightarrow> map_option (\<lambda>r. g1\<lparr>rows := (rows g)[i := r]\<rparr>) (store c (itemValue it) (rows g ! i))
            | None \<Rightarrow> map_option (\<lambda>r. g1\<lparr>indexMap := map_set s (length (rows g)) (indexMap g), rows := rows g @ [r]\<rparr>)
                        (store c (itemValue it) (newRow l (typeOf c) s)))"
  proof (cases "map_get (stringMap g) (szName it)")
    case None
    then have "t = szText it" "g1 = g\<lparr>stringMap := map_set (szName it) t (stringMap g)\<rparr>" by (simp_all add: t_def g1_def)
    then show ?thesis using None by (cases "map_get (indexMap g) s") (simp_all add: processItem_def Let_def s_def)
  next
    case (Some u)
    then have "t = u" "g1 = g" by (simp_all add: t_def g1_def)
    then show ?thesis using Some by (cases "map_get (indexMap g) s") (simp_all add: processItem_def Let_def s_def)
  qed
  show thesis
  proof (cases "cStatus it \<noteq> CstatusValidData \<and> cStatus it \<noteq> CstatusNewData \<or> HasSuffix t InstanceTotal \<and> \<not> totalCounterRequested l")
    case True
    then have "g' = g \<or> g' = g1" using assms unfolding eq by (simp split: if_splits)
    then have "rows g' = rows g" "indexMap g' = indexMap g" using g1 by auto
    then show thesis by (rule skip)
  next
    case False
    show thesis
    proof (cases "map_get (indexMap g) s")
      case None
      then obtain r where r: "store c (itemValue it) (newRow l (typeOf c) s) = Some r"
          "g' = g1\<lparr>indexMap := map_set s (length (rows g)) (indexMap g), rows := rows g @ [r]\<rparr>"
        using False assms unfolding eq by (auto simp only: if_False option.case map_option_eq_Some split: if_splits)
      show thesis by (rule new [OF None r(1)]) (simp_all add: r(2))
    next
      case (Some i)
      then obtain r where r: "store c (itemValue it) (rows g ! i) = Some r" "g' = g1\<lparr>rows := (rows g)[i := r]\<rparr>"
        using False assms unfolding eq by (auto simp only: if_False option.case map_option_eq_Some split: if_splits)
      show thesis by (rule known [OF Some r(1)]) (simp_all add: r(2) g1)
    qed
  qed
qed

lemma processItem_named:
  assumes l: "name_at k l" and g: "rows_named (length (elemFields l)) k g" and st: "keeps_name (length (elemFields l)) k store c"
    and p: "processItem l typeOf store (c, it) g = Some g'"
  shows "rows_named (length (elemFields l)) k g'"
  using p
proof (cases rule: processItem_cases)
  case skip
  then show ?thesis using g unfolding rows_named_def by simp
next
  case (known s i r)
  let ?n = "length (elemFields l)"
  have i: "i < length (rows g)" using g known(1) by (simp add: rows_named_def)
  then have "length (rows g ! i) = ?n" using g nth_mem [OF i] by (auto simp: rows_named_def)
  then have "length r = ?n" "r ! k = rows g ! i ! k" using st known(2) unfolding keeps_name_def by blast+
  then show ?thesis using rows_named_update [OF g i] known(3,4) by simp
next
  case (new s r)
  have "length (newRow l (typeOf c) s) = length (elemFields l)" "newRow l (typeOf c) s ! k = VString s"
    using l length_newRow' newRow_name by (simp_all add: name_at_def)
  then have "length r = length (elemFields l)" "r ! k = VString s" using st new(2) unfolding keeps_name_def by metis+
  then show ?thesis using rows_named_snoc [OF g new(1)] new(3,4) by simp
qed

lemma processItems_named:
  "name_at k l \<Longrightarrow> rows_named (length (elemFields l)) k g \<Longrightarrow>
     \<forall>(c, it)\<in>set xs. keeps_name (length (elemFields l)) k store c \<Longrightarrow>
     processItems l typeOf store xs g = Some g' \<Longrightarrow> rows_named (length (elemFields l)) k g'"
proof (induction xs arbitrary: g)
  case Nil
  then show ?case by simp
next
  case (Cons x xs)
  obtain c it where x: "x = (c, it)" by (cases x)
  obtain g1 where g1: "processItem l typeOf store x g = Some g1" "processItems l typeOf store xs g1 = Some g'"
    using Cons.prems(4) by (auto split: Option.bind_splits)
  have "rows_named (length (elemFields l)) k g1"
    using processItem_named [OF Cons.prems(1,2)] Cons.prems(3) g1(1) x by auto
  from Cons.IH [OF Cons.prems(1) this _ g1(2)] show ?case using Cons.prems(3) by auto
qed

lemma collectCounters_named:
  "name_at k l \<Longrightarrow> rows_named (length (elemFields l)) k g \<Longrightarrow>
     \<forall>(c, h)\<in>set chs. keeps_name (length (elemFields l)) k store c \<Longrightarrow>
     collectCounters fname getArray z l typeOf store chs g wk w = Some (e, g', wk', w') \<Longrightarrow> rows_named (length (elemFields l)) k g'"
proof (induction chs arbitrary: g wk w)
  case Nil
  then show ?case by simp
next
  case (Cons ch chs)
  obtain c h where ch: "ch = (c, h)" by (cases ch)
  obtain e1 wk1 w1 where f: "fetchArray fname getArray z h wk w = (e1, wk1, w1)" by (metis prod_cases3)
  show ?case
  proof (cases e1)
    case (Some e')
    then show ?thesis using Cons.prems f ch by simp
  next
    case None
    then obtain g1 where g1: "processItems l typeOf store (map (Pair c) (bufferItems wk1)) g = Some g1"
        "collectCounters fname getArray z l typeOf store chs g1 wk1 w1 = Some (e, g', wk', w')"
      using Cons.prems(4) f ch by (auto split: option.splits)
    have "rows_named (length (elemFields l)) k g1"
      using processItems_named [OF Cons.prems(1,2) _ g1(1)] Cons.prems(3) ch by auto
    from Cons.IH [OF Cons.prems(1) this _ g1(2)] show ?thesis using Cons.prems(3) by auto
  qed
qed


section \<open>Collectors\<close>

lemma setFloat_keeps: "setFloat i v r = Some r' \<Longrightarrow> i \<noteq> Some k \<Longrightarrow> length r' = length r \<and> r' ! k = r ! k"
  by (auto simp: setFloat_def split: option.splits if_splits)

lemma setFloatIf_keeps: "setFloatIf i v r = Some r' \<Longrightarrow> i \<noteq> Some k \<Longrightarrow> length r' = length r \<and> r' ! k = r ! k"
  by (auto simp: setFloatIf_def dest: setFloat_keeps split: if_splits)

lemma storeRaw_keeps:
  assumes "fieldIndexValue c \<noteq> Some k" and "fieldIndexSecondValue c \<noteq> Some k"
  shows "keeps_name n k storeRaw c"
  unfolding keeps_name_def
proof (intro allI impI)
  fix v r r' assume st: "storeRaw c v r = Some r'" and len: "length r = n"
  obtain a b where v: "v = (a, b)" by (cases v)
  have "length r' = length r \<and> r' ! k = r ! k"
    using st assms setFloat_keeps setFloatIf_keeps
    by (fastforce simp: storeRaw_def v split: if_splits Option.bind_splits)
  then show "length r' = n \<and> r' ! k = r ! k" using len by simp
qed

text \<open>What a successful construction establishes, and every collection keeps.\<close>

definition pdh_ok :: "structField list \<Rightarrow> pdhCollector \<Rightarrow> bool" where
  "pdh_ok fs p \<longleftrightarrow>
     counters_ok (enumerate 0 fs) (counters p) \<and> colType p = CounterTypeRaw \<and> elemFields (colLayout p) = fs \<and>
     nameIndexValue (colLayout p) = fieldIndex ''Name'' KString 0 fs \<and>
     metricsTypeIndexValue (colLayout p) = fieldIndex ''MetricType'' KValueType 0 fs"

lemma fieldIndex_at: "fieldIndex n k i fs = Some j \<Longrightarrow> i \<le> j \<and> j - i < length fs \<and> fKind (fs ! (j - i)) = k \<and> fName (fs ! (j - i)) = n"
proof (induction n k i fs rule: fieldIndex.induct)
  case (1 n k i)
  then show ?case by simp
next
  case (2 n k i f fs)
  show ?case
  proof (cases "fName f = n")
    case True
    then show ?thesis using 2(2) by (auto split: if_splits)
  next
    case False
    then have "Suc i \<le> j \<and> j - Suc i < length fs \<and> fKind (fs ! (j - Suc i)) = k \<and> fName (fs ! (j - Suc i)) = n" using 2 by simp
    then show ?thesis by (auto simp: nth_Cons' Suc_diff_Suc dest: Suc_le_lessD)
  qed
qed

lemma lastField_kind: "lastField n b (enumerate 0 fs) = Some i \<Longrightarrow> i < length fs \<and> fKind (fs ! i) = KFloat64"
proof -
  assume "lastField n b (enumerate 0 fs) = Some i"
  then have ne: "filter (asksFor n b) (enumerate 0 fs) \<noteq> []" and i: "i = fst (last (filter (asksFor n b) (enumerate 0 fs)))"
    by (auto simp: lastField_def split: list.splits)
  from last_in_set [OF ne] obtain fi where "fi \<in> set (enumerate 0 fs)" "asksFor n b fi" "fst fi = i" unfolding i set_filter by blast
  then show ?thesis by (auto simp: asksFor_def in_set_enumerate_eq)
qed

lemma fieldIndex_fieldPos: "fieldIndex n k i fs = Some j \<Longrightarrow> fieldPos n fs = j - i"
  by (induction n k i fs rule: fieldIndex.induct) (auto split: if_splits dest!: fieldIndex_at)

lemma pdh_ok_counters:
  assumes ok: "pdh_ok fs p" and c: "(n, c) \<in> set (counters p)" and k: "fieldIndex ''Name'' KString 0 fs = Some k"
  shows "keeps_name (length fs) k storeRaw c"
proof (rule storeRaw_keeps)
  have cs: "counters_ok (enumerate 0 fs) (counters p)" using ok by (simp add: pdh_ok_def)
  then have "map_get (counters p) n = Some c" using c by (simp add: counters_ok_def map_get_eq_Some_iff)
  then have "counter_ok (enumerate 0 fs) n (Some c)" using cs by (metis counters_ok_def)
  then have idx: "fieldIndexValue c = lastField n False (enumerate 0 fs)" "fieldIndexSecondValue c = lastField n True (enumerate 0 fs)"
    by (simp_all add: counter_ok_def)
  have "fKind (fs ! k) = KString" using fieldIndex_at [OF k] by simp
  then show "fieldIndexValue c \<noteq> Some k" "fieldIndexSecondValue c \<noteq> Some k"
    unfolding idx using lastField_kind by fastforce+
qed

lemma Collect_ok: "Collect api dst (Some p) w = Some (e, dst', p', w') \<Longrightarrow> pdh_ok fs p \<Longrightarrow> \<exists>q. p' = Some q \<and> pdh_ok fs q"
  by (auto simp: Collect_def pdh_ok_def split: if_splits option.splits)

lemma NewCollector_ok:
  assumes "NewCollectorWithReflection api osBuild CounterTypeRaw obj insts fs w = Some (Some p, None, w')"
  shows "pdh_ok fs p"
proof -
  obtain ret handle w1 where oq: "OpenQuery api w = (ret, handle, w1)" by (metis prod_cases3)
  let ?insts = "if insts = [] then [InstanceEmpty] else insts"
  obtain cs errs w2 where f: "fold (addField api handle osBuild obj ?insts) (enumerate 0 fs) ([], [], w1) = (cs, errs, w2)"
    by (metis prod_cases3)
  have "counters_ok [] ([] :: (string, perfCounter) gomap)" by (simp add: counters_ok_def counter_ok_def lastField_def)
  from addFields_ok [OF this f] have ok: "counters_ok (enumerate 0 fs) cs" by simp
  define p0 where "p0 = \<lparr>object = obj, counters = cs, queryHandle = handle,
      colLayout = \<lparr>elemFields = fs, nameIndexValue = fieldIndex ''Name'' KString 0 fs,
        metricsTypeIndexValue = fieldIndex ''MetricType'' KValueType 0 fs, totalCounterRequested = (InstanceTotal \<in> set ?insts)\<rparr>,
      colType = CounterTypeRaw, chans = True, rawWorker = newWorker (0, 0), fmtWorker = newWorker (F_Fin 0)\<rparr>"
  have p0: "pdh_ok fs p0" using ok by (simp add: pdh_ok_def p0_def)
  obtain e dst w3 where "Collect api (Rows fs []) (Some p0) w2 = Some (e, dst, Some p, w3)"
    using assms oq f by (auto simp: NewCollectorWithReflection_def Let_def p0_def split: if_splits option.splits)
  from Collect_ok [OF this p0] show ?thesis by simp
qed

text \<open>
  The rows of a successful collection have the length of the struct and different names.
\<close>

lemma Collect_names:
  assumes ok: "pdh_ok fs p" and k: "fieldIndex ''Name'' KString 0 fs = Some k"
    and c: "Collect api (Rows fs old) (Some p) w = Some (None, dst, p', w')"
  shows "\<exists>rs. dst = Rows fs rs \<and> distinct (map (rowName fs) rs)"
proof -
  obtain wk where coll: "collectWorkerRaw api (queryHandle p) (counters p) (colLayout p) (Rows fs old) (rawWorker p) w = Some (None, dst, wk, w')"
    using c ok by (auto simp: Collect_def pdh_ok_def split: if_splits option.splits)
  obtain w1 g where g: "collectCounters ''GetRawCounterArray'' (GetRawCounterArray api) (0, 0) (colLayout p) (\<lambda>c. metricTypeOf (ctrType c)) storeRaw
      (counterHandles (counters p)) emptyGather (rawWorker p) w1 = Some (None, g, wk, w')" "dst = Rows fs (rows g)"
  proof -
    have "(colLayout p)\<lparr>elemFields := fs\<rparr> = colLayout p" using ok by (simp add: pdh_ok_def)
    then show ?thesis using coll that
      by (auto simp: collectWorkerRaw_def collectWorker_def split: prod.splits if_splits option.splits)
  qed
  have kn: "k < length fs" "fKind (fs ! k) = KString" using fieldIndex_at [OF k] by auto
  have "metricsTypeIndexValue (colLayout p) \<noteq> Some k"
    using ok kn fieldIndex_at [of "''MetricType''" KValueType 0 fs k] by (auto simp: pdh_ok_def)
  then have l: "name_at k (colLayout p)" using ok k kn(1) by (simp add: name_at_def pdh_ok_def)
  have len: "length (elemFields (colLayout p)) = length fs" using ok by (simp add: pdh_ok_def)
  have init: "rows_named (length (elemFields (colLayout p))) k emptyGather" using kn(1) len by (simp add: rows_named_def emptyGather_def)
  have "\<forall>(c, h)\<in>set (counterHandles (counters p)). keeps_name (length (elemFields (colLayout p))) k storeRaw c"
    using pdh_ok_counters [OF ok _ k] unfolding len by (auto simp: counterHandles_def)
  from collectCounters_named [OF l init this g(1)] have named: "rows_named (length fs) k g" unfolding len .
  have "rows g ! i ! k = VString (rowName fs (rows g ! i))" if i: "i < length (rows g)" for i
  proof -
    obtain s where "rows g ! i ! k = VString s" "length (rows g ! i) = length fs"
      using named i nth_mem [OF i] unfolding rows_named_def by blast
    then show ?thesis using kn(1) fieldIndex_fieldPos [OF k] by (simp add: rowName_def)
  qed
  then have "map (\<lambda>r. r ! k) (rows g) = map VString (map (rowName fs) (rows g))" by (simp add: list_eq_iff_nth_eq)
  then have "distinct (map (rowName fs) (rows g))" using rows_named_distinct [OF named] by (metis distinct_map)
  then show ?thesis using g(2) by blast
qed

section \<open>Sources\<close>

definition source_ok :: "structField list \<Rightarrow> perfSource \<Rightarrow> bool" where
  "source_ok fs src = (case perfDataCollector src of None \<Rightarrow> True | Some p \<Rightarrow> pdh_ok fs p)"

lemma perfBuild_ok: "perfBuild api osBuild msg obj insts fs w = Some (None, src, w') \<Longrightarrow> source_ok fs src"
  by (auto simp: perfBuild_def source_ok_def dest: NewCollector_ok split: option.splits)

lemma perfCollect_names:
  assumes "source_ok fs src" and "fieldIndex ''Name'' KString 0 fs = Some k" and "perfCollect api fs src w = Some (None, src', w')"
  shows "distinct (map (rowName fs) (perfDataObject src'))"
proof (cases "perfDataCollector src")
  case None
  then show ?thesis using assms(3) by (auto simp: perfCollect_def Collect_def)
next
  case (Some p)
  then obtain dst p' where "Collect api (Rows fs (perfDataObject src)) (Some p) w = Some (None, dst, p', w')"
      "perfDataObject src' = (case dst of Rows _ rs \<Rightarrow> rs | _ \<Rightarrow> [])"
    using assms(3) by (auto simp: perfCollect_def split: option.splits)
  then show ?thesis using Collect_names assms(1,2) Some by (fastforce simp: source_ok_def)
qed

lemma collectWorker_nonempty:
  "collectWorker fname api getArray z typeOf store h cs l dst wk w = Some (None, dst', wk', w') \<Longrightarrow> \<exists>fs rs. dst' = Rows fs rs \<and> rs \<noteq> []"
  by (auto simp: collectWorker_def split: prod.splits if_splits option.splits dest.splits)

text \<open>A collection without an error has rows.\<close>

lemma perfCollect_nonempty: "perfCollect api fs src w = Some (None, src', w') \<Longrightarrow> perfDataObject src' \<noteq> []"
proof (cases "perfDataCollector src")
  case None
  assume "perfCollect api fs src w = Some (None, src', w')"
  then show ?thesis using None by (auto simp: perfCollect_def Collect_def)
next
  case (Some p)
  assume "perfCollect api fs src w = Some (None, src', w')"
  then obtain dst p' where c: "Collect api (Rows fs (perfDataObject src)) (Some p) w = Some (None, dst, p', w')"
      "perfDataObject src' = (case dst of Rows _ rs \<Rightarrow> rs | _ \<Rightarrow> [])"
    using Some by (auto simp: perfCollect_def split: option.splits)
  have "\<exists>gs rs. dst = Rows gs rs \<and> rs \<noteq> []"
    using c(1) by (auto simp: Collect_def collectWorkerRaw_def collectWorkerFormatted_def dest!: collectWorker_nonempty split: if_splits option.splits)
  then show ?thesis using c(2) by auto
qed

lemma perfCollect_ok: "source_ok fs src \<Longrightarrow> perfCollect api fs src w = Some (e, src', w') \<Longrightarrow> source_ok fs src'"
proof (cases "perfDataCollector src")
  case None
  assume "source_ok fs src" "perfCollect api fs src w = Some (e, src', w')"
  then show ?thesis using None by (auto simp: perfCollect_def Collect_def source_ok_def)
next
  case (Some p)
  assume "source_ok fs src" "perfCollect api fs src w = Some (e, src', w')"
  then show ?thesis using Some Collect_ok
    by (fastforce simp: perfCollect_def source_ok_def split: option.splits)
qed


section \<open>The contract of a collector\<close>

text \<open>
  The states of a collector: those that a successful \<open>Build\<close> gives, and what scrapes make of
  them, each with a system that may have changed in any way.
\<close>

definition built_by :: "('w \<Rightarrow> (go_error option \<times> 's \<times> 'w) option) \<Rightarrow> 's \<Rightarrow> bool" where
  "built_by build c \<longleftrightarrow> (\<exists>w w'. build w = Some (None, c, w'))"

definition scraped_by :: "('s \<Rightarrow> 'w \<Rightarrow> ('s, 'w) collected) \<Rightarrow> 's \<Rightarrow> 's \<Rightarrow> bool" where
  "scraped_by collect c c' \<longleftrightarrow> (\<exists>w err ms w'. collect c w = Some (err, ms, c', w'))"

definition reachable :: "('w \<Rightarrow> (go_error option \<times> 's \<times> 'w) option) \<Rightarrow> ('s \<Rightarrow> 'w \<Rightarrow> ('s, 'w) collected) \<Rightarrow> 's set" where
  "reachable build collect = {c. \<exists>c0. built_by build c0 \<and> (scraped_by collect)\<^sup>*\<^sup>* c0 c}"

text \<open>A scrape whose metrics are accepted; it panics only if the worker of the PDH client does.\<close>

definition scrape_ok :: "bool \<Rightarrow> ('s, 'w) collected \<Rightarrow> bool" where
  "scrape_ok workerPanics r =
     (case r of None \<Rightarrow> workerPanics | Some (err, ms, c', w') \<Rightarrow> list_all arity_ok ms \<and> distinct (map series ms))"

locale perf_contract =
  fixes build :: "'w \<Rightarrow> (go_error option \<times> 's \<times> 'w) option"
    and collect :: "'s \<Rightarrow> 'w \<Rightarrow> ('s, 'w) collected"
    and inv :: "'s \<Rightarrow> bool"
    and workerPanics :: "'s \<Rightarrow> 'w \<Rightarrow> bool"
  assumes build_inv: "build w = Some (None, c, w') \<Longrightarrow> inv c"
    and collect_inv: "inv c \<Longrightarrow> collect c w = Some (err, ms, c', w') \<Longrightarrow> inv c'"
    and collect_ok: "inv c \<Longrightarrow> scrape_ok (workerPanics c w) (collect c w)"

sublocale perf_contract \<subseteq> invariant_system "scraped_by collect" "built_by build" inv
  by unfold_locales (auto simp: built_by_def scraped_by_def dest: build_inv collect_inv)

context perf_contract begin

lemma reachable_ok: "reachable build collect \<subseteq> {c. \<forall>w. scrape_ok (workerPanics c w) (collect c w)}"
  using inv_reachable collect_ok by (auto simp: reachable_def)

end

text \<open>The contract for a collector that sends what a table says about its rows.\<close>

lemma collectWith_source:
  "source_ok fs src \<Longrightarrow> collectWith api fs msg ds lines src w = Some (err, ms, src', w') \<Longrightarrow> source_ok fs src'"
  by (auto simp: collectWith_def dest: perfCollect_ok split: option.splits sum.splits)

lemma collectWith_ok:
  assumes "source_ok fs src" and "fieldIndex ''Name'' KString 0 fs = Some k \<or> (\<forall>rs. rows_ok rs)"
    and "\<And>rs. fieldIndex ''Name'' KString 0 fs = Some k \<Longrightarrow> distinct (map (rowName fs) rs) \<Longrightarrow> rows_ok rs"
    and "\<And>rs lns. rows_ok rs \<Longrightarrow> lines rs = Inr lns \<Longrightarrow> accepted (sendAll ds lns)"
  shows "scrape_ok (perfCollect api fs src w = None) (collectWith api fs msg ds lines src w)"
proof (cases "perfCollect api fs src w")
  case None
  then show ?thesis by (simp add: collectWith_def scrape_ok_def)
next
  case (Some r)
  obtain err src' w' where r: "r = (err, src', w')" by (metis prod_cases3)
  show ?thesis
  proof (cases err)
    case (Some e)
    then show ?thesis using \<open>perfCollect api fs src w = Some r\<close> r by (simp add: collectWith_def scrape_ok_def)
  next
    case None
    then have "rows_ok (perfDataObject src')"
      using assms(2,3) perfCollect_names [OF assms(1)] Some r by metis
    then show ?thesis
      using Some r None assms(4) [of "perfDataObject src'"]
      by (cases "lines (perfDataObject src')") (auto simp: collectWith_def scrape_ok_def accepted_def split: option.splits)
  qed
qed

lemma distinct_filter_names: "distinct (map f rs) \<Longrightarrow> distinct (map f (filter P rs))"
  by (rule distinct_map_filter)

end
