(* ===== verification/Pdh_Rows.thy ===== *)
theory Pdh_Rows
  imports Pdh_Names
begin

text \<open>
  What the PDH worker computes: the items of all arrays, grouped by instance name. The grouping
  is the specification; the worker's loop with its two maps is shown to implement it for arrays whose names
  are told apart by their addresses, and two examples show what happens otherwise.
\<close>

section \<open>Grouping\<close>

definition kept :: "layout \<Rightarrow> 'v counterItem \<Rightarrow> bool" where
  "kept l it \<longleftrightarrow> (cStatus it = CstatusValidData \<or> cStatus it = CstatusNewData) \<and>
     \<not> (HasSuffix (szText it) InstanceTotal \<and> \<not> totalCounterRequested l)"

definition ofInstance :: "layout \<Rightarrow> string \<Rightarrow> (perfCounter \<times> 'v counterItem) list \<Rightarrow> (perfCounter \<times> 'v counterItem) list" where
  "ofInstance l n xs = filter (\<lambda>(c, it). kept l it \<and> instanceNameOf (szText it) = n) xs"

text \<open>The instances in the order in which they are first met.\<close>

definition instancesOf :: "layout \<Rightarrow> (perfCounter \<times> 'v counterItem) list \<Rightarrow> string list" where
  "instancesOf l xs = rev (remdups (rev (map (\<lambda>(c, it). instanceNameOf (szText it)) (filter (\<lambda>(c, it). kept l it) xs))))"

text \<open>The row of an instance: its values, stored into a new row in the order of the arrays.\<close>

definition instanceRow ::
  "layout \<Rightarrow> (perfCounter \<Rightarrow> valueType) \<Rightarrow> (perfCounter \<Rightarrow> 'v \<Rightarrow> row \<Rightarrow> row option) \<Rightarrow> (perfCounter \<times> 'v counterItem) list \<Rightarrow> string \<Rightarrow> row" where
  "instanceRow l typeOf store xs n =
     fold (\<lambda>(c, it) r. the (store c (itemValue it) r)) (ofInstance l n xs) (newRow l (typeOf (fst (hd (ofInstance l n xs)))) n)"

lemma instancesOf_snoc:
  "instancesOf l (xs @ [(c, it)]) =
     (if kept l it \<and> instanceNameOf (szText it) \<notin> set (instancesOf l xs) then instancesOf l xs @ [instanceNameOf (szText it)]
      else instancesOf l xs)"
  by (auto simp: instancesOf_def)

lemma distinct_instancesOf [simp]: "distinct (instancesOf l xs)"
  by (simp add: instancesOf_def)

lemma ofInstance_snoc:
  "ofInstance l n (xs @ [(c, it)]) =
     (if kept l it \<and> instanceNameOf (szText it) = n then ofInstance l n xs @ [(c, it)] else ofInstance l n xs)"
  by (simp add: ofInstance_def)

lemma ofInstance_Nil_iff: "ofInstance l n xs = [] \<longleftrightarrow> n \<notin> set (instancesOf l xs)"
  by (auto simp: ofInstance_def instancesOf_def filter_empty_conv)

lemma instanceRow_other:
  "\<not> (kept l it \<and> instanceNameOf (szText it) = n) \<Longrightarrow> instanceRow l typeOf store (xs @ [(c, it)]) n = instanceRow l typeOf store xs n"
  by (auto simp: instanceRow_def ofInstance_snoc)

lemma instanceRow_known:
  assumes "kept l it" and "instanceNameOf (szText it) = n" and "n \<in> set (instancesOf l xs)"
  shows "instanceRow l typeOf store (xs @ [(c, it)]) n = the (store c (itemValue it) (instanceRow l typeOf store xs n))"
  using assms by (auto simp: instanceRow_def ofInstance_snoc hd_append ofInstance_Nil_iff)

lemma instanceRow_new:
  assumes "kept l it" and "instanceNameOf (szText it) = n" and "n \<notin> set (instancesOf l xs)"
  shows "instanceRow l typeOf store (xs @ [(c, it)]) n = the (store c (itemValue it) (newRow l (typeOf c) n))"
  using assms by (simp add: instanceRow_def ofInstance_snoc flip: ofInstance_Nil_iff)

section \<open>Stores that do not panic\<close>

definition store_total :: "nat \<Rightarrow> (perfCounter \<Rightarrow> 'v \<Rightarrow> row \<Rightarrow> row option) \<Rightarrow> perfCounter \<Rightarrow> bool" where
  "store_total n store c \<longleftrightarrow> (\<forall>v r. length r = n \<longrightarrow> (\<exists>r'. store c v r = Some r' \<and> length r' = n))"

text \<open>The counters for which the worker stores without panicking.\<close>

definition wf_counter :: "nat \<Rightarrow> perfCounter \<Rightarrow> bool" where
  "wf_counter n c \<longleftrightarrow>
     (case fieldIndexValue c of None \<Rightarrow> False | Some i \<Rightarrow> i < n) \<and>
     (case fieldIndexSecondValue c of None \<Rightarrow> True | Some i \<Rightarrow> i < n) \<and>
     (ctrType c = PERF_ELAPSED_TIME \<longrightarrow> ctrFrequency c \<noteq> 0)"

lemma setFloat_total: "i = Some k \<Longrightarrow> k < length r \<Longrightarrow> setFloat i v r = Some (r[k := VFloat v])"
  by (simp add: setFloat_def)

lemma setFloatIf_total: "(case i of None \<Rightarrow> True | Some k \<Rightarrow> k < length r) \<Longrightarrow> \<exists>r'. setFloatIf i v r = Some r' \<and> length r' = length r"
  by (cases i) (auto simp: setFloatIf_def setFloat_def)

lemma storeRaw_total: "wf_counter n c \<Longrightarrow> store_total n storeRaw c"
proof -
  assume wf: "wf_counter n c"
  then obtain k where k: "fieldIndexValue c = Some k" "k < n" by (auto simp: wf_counter_def split: option.splits)
  have "\<exists>r'. storeRaw c v r = Some r' \<and> length r' = n" if len: "length r = n" for v r
  proof -
    obtain a b where v: "v = (a, b)" by (cases v)
    obtain r1 where r1: "setFloatIf (fieldIndexSecondValue c) (f64_of_int (sint b)) r = Some r1" "length r1 = n"
      using setFloatIf_total [where i = "fieldIndexSecondValue c" and r = r] wf len by (auto simp: wf_counter_def)
    obtain r2 where "setFloatIf (fieldIndexValue c) (f64_of_int (sint a)) r1 = Some r2" "length r2 = n"
      using setFloatIf_total [where i = "fieldIndexValue c" and r = r1] k r1(2) by auto
    then show ?thesis
      using r1 k wf len by (auto simp: storeRaw_def v setFloat_def wf_counter_def)
  qed
  then show ?thesis by (simp add: store_total_def)
qed

lemma storeFormatted_total: "wf_counter n c \<Longrightarrow> store_total n storeFormatted c"
  using setFloatIf_total by (fastforce simp: store_total_def storeFormatted_def wf_counter_def split: option.splits)

section \<open>The loop groups\<close>

lemma length_newRow [simp]: "length (newRow l vt n) = length (elemFields l)"
  by (simp add: newRow_def setField_def zeroElem_def split: option.splits)

text \<open>The state of the collection after the items \<open>xs\<close>; \<open>nm\<close> gives the name at an address.\<close>

definition gathered ::
  "(u64 \<Rightarrow> string) \<Rightarrow> layout \<Rightarrow> (perfCounter \<Rightarrow> valueType) \<Rightarrow> (perfCounter \<Rightarrow> 'v \<Rightarrow> row \<Rightarrow> row option) \<Rightarrow>
   (perfCounter \<times> 'v counterItem) list \<Rightarrow> gather \<Rightarrow> bool" where
  "gathered nm l typeOf store xs g \<longleftrightarrow>
     rows g = map (instanceRow l typeOf store xs) (instancesOf l xs) \<and>
     (\<forall>r\<in>set (rows g). length r = length (elemFields l)) \<and>
     (\<forall>n i. map_get (indexMap g) n = Some i \<longleftrightarrow> i < length (instancesOf l xs) \<and> instancesOf l xs ! i = n) \<and>
     (\<forall>p s. map_get (stringMap g) p = Some s \<longrightarrow> s = nm p)"

lemma gathered_indexMap:
  assumes "gathered nm l typeOf store xs g"
  shows "map_get (indexMap g) n = None \<longleftrightarrow> n \<notin> set (instancesOf l xs)"
proof -
  have "map_get (indexMap g) n \<noteq> None \<longleftrightarrow> (\<exists>i. i < length (instancesOf l xs) \<and> instancesOf l xs ! i = n)"
    using assms unfolding gathered_def not_None_eq by blast
  then show ?thesis by (auto simp: in_set_conv_nth)
qed


lemma gathered_skip:
  assumes "gathered nm l typeOf store xs g" and "\<not> kept l it"
    and "rows g' = rows g" "indexMap g' = indexMap g" and "\<And>p s. map_get (stringMap g') p = Some s \<Longrightarrow> s = nm p"
  shows "gathered nm l typeOf store (xs @ [(c, it)]) g'"
proof -
  have "instancesOf l (xs @ [(c, it)]) = instancesOf l xs" "instanceRow l typeOf store (xs @ [(c, it)]) = instanceRow l typeOf store xs"
    using assms(2) by (auto simp: instancesOf_snoc instanceRow_other)
  then show ?thesis using assms by (simp add: gathered_def)
qed

lemma gathered_known:
  assumes g: "gathered nm l typeOf store xs g" and k: "kept l it"
    and i: "map_get (indexMap g) (instanceNameOf (szText it)) = Some i"
    and st: "store_total (length (elemFields l)) store c"
    and g': "indexMap g' = indexMap g" "\<And>p s. map_get (stringMap g') p = Some s \<Longrightarrow> s = nm p"
      "rows g' = (rows g)[i := the (store c (itemValue it) (rows g ! i))]"
  shows "gathered nm l typeOf store (xs @ [(c, it)]) g' \<and> store c (itemValue it) (rows g ! i) \<noteq> None"
proof
  let ?n = "instanceNameOf (szText it)" and ?N = "instancesOf l xs"
  have pos: "i < length ?N" "?N ! i = ?n" using g i by (auto simp: gathered_def)
  have rowi: "rows g ! i = instanceRow l typeOf store xs ?n" using g pos by (simp add: gathered_def)
  have leni: "length (rows g ! i) = length (elemFields l)" using g pos(1) by (auto simp: gathered_def)
  obtain r' where r': "store c (itemValue it) (rows g ! i) = Some r'" "length r' = length (elemFields l)"
    using st leni unfolding store_total_def by blast
  then show "store c (itemValue it) (rows g ! i) \<noteq> None" by simp
  have N: "instancesOf l (xs @ [(c, it)]) = ?N" using pos by (metis instancesOf_snoc nth_mem)
  have "rows g' = map (instanceRow l typeOf store (xs @ [(c, it)])) ?N"
  proof (rule nth_equalityI)
    show "length (rows g') = length (map (instanceRow l typeOf store (xs @ [(c, it)])) ?N)" using g g'(3) by (simp add: gathered_def)
    fix j assume "j < length (rows g')"
    then have j: "j < length ?N" using g g'(3) by (simp add: gathered_def)
    show "rows g' ! j = map (instanceRow l typeOf store (xs @ [(c, it)])) ?N ! j"
    proof (cases "j = i")
      case True
      have "?n \<in> set ?N" using pos nth_mem by metis
      then have "instanceRow l typeOf store (xs @ [(c, it)]) ?n = the (store c (itemValue it) (rows g ! i))"
        unfolding rowi by (rule instanceRow_known [OF k refl])
      then show ?thesis using True g g'(3) pos by (simp add: gathered_def)
    next
      case False
      then have "?N ! j \<noteq> ?n" using pos j by (metis distinct_instancesOf nth_eq_iff_index_eq)
      then show ?thesis using False g g'(3) j by (auto simp: gathered_def instanceRow_other)
    qed
  qed
  moreover have "\<forall>r\<in>set (rows g'). length r = length (elemFields l)"
  proof
    fix r assume "r \<in> set (rows g')"
    then have "r \<in> insert r' (set (rows g))" using g'(3) r'(1) set_update_subset_insert by (metis option.sel subsetD)
    then show "length r = length (elemFields l)" using g r'(2) by (auto simp: gathered_def)
  qed
  ultimately show "gathered nm l typeOf store (xs @ [(c, it)]) g'"
    using g g'(1,2) N by (simp add: gathered_def)
qed

lemma gathered_new:
  assumes g: "gathered nm l typeOf store xs g" and k: "kept l it"
    and i: "map_get (indexMap g) (instanceNameOf (szText it)) = None"
    and st: "store_total (length (elemFields l)) store c"
    and g': "indexMap g' = map_set (instanceNameOf (szText it)) (length (rows g)) (indexMap g)"
      "\<And>p s. map_get (stringMap g') p = Some s \<Longrightarrow> s = nm p"
      "rows g' = rows g @ [the (store c (itemValue it) (newRow l (typeOf c) (instanceNameOf (szText it))))]"
  shows "gathered nm l typeOf store (xs @ [(c, it)]) g' \<and>
    store c (itemValue it) (newRow l (typeOf c) (instanceNameOf (szText it))) \<noteq> None"
proof
  let ?n = "instanceNameOf (szText it)" and ?N = "instancesOf l xs"
  have new: "?n \<notin> set ?N" using gathered_indexMap [OF g] i by simp
  obtain r' where r': "store c (itemValue it) (newRow l (typeOf c) ?n) = Some r'" "length r' = length (elemFields l)"
    using st unfolding store_total_def by (metis length_newRow)
  then show "store c (itemValue it) (newRow l (typeOf c) ?n) \<noteq> None" by simp
  have N: "instancesOf l (xs @ [(c, it)]) = ?N @ [?n]" using new k by (simp add: instancesOf_snoc)
  have "map (instanceRow l typeOf store (xs @ [(c, it)])) ?N = map (instanceRow l typeOf store xs) ?N"
    using new by (auto intro!: instanceRow_other)
  then have "rows g' = map (instanceRow l typeOf store (xs @ [(c, it)])) (?N @ [?n])"
    using g g'(3) new k by (simp add: gathered_def instanceRow_new)
  moreover have "\<forall>r\<in>set (rows g'). length r = length (elemFields l)"
    using g g'(3) r' by (auto simp: gathered_def)
  moreover have len: "length (rows g) = length ?N" using g by (simp add: gathered_def)
  moreover have "map_get (indexMap g') m = Some j \<longleftrightarrow> j < length (?N @ [?n]) \<and> (?N @ [?n]) ! j = m" for m j
  proof (cases "m = ?n")
    case True
    then show ?thesis using g'(1) len new by (auto simp: nth_append dest: nth_mem)
  next
    case False
    then have "map_get (indexMap g') m = Some j \<longleftrightarrow> j < length ?N \<and> ?N ! j = m" using g g'(1) by (simp add: gathered_def)
    then show ?thesis using False by (auto simp: nth_append less_Suc_eq)
  qed
  ultimately show "gathered nm l typeOf store (xs @ [(c, it)]) g'"
    using g'(2) N by (simp add: gathered_def)
qed

lemma processItem_gathered:
  assumes g: "gathered nm l typeOf store xs g" and nm: "szText it = nm (szName it)"
    and st: "store_total (length (elemFields l)) store c"
  shows "\<exists>g'. processItem l typeOf store (c, it) g = Some g' \<and> gathered nm l typeOf store (xs @ [(c, it)]) g'"
proof (cases "cStatus it = CstatusValidData \<or> cStatus it = CstatusNewData")
  case False
  then have "gathered nm l typeOf store (xs @ [(c, it)]) g"
    using g by (intro gathered_skip [OF g]) (auto simp: kept_def gathered_def)
  then show ?thesis using False by (simp add: processItem_def)
next
  case status: True
  let ?t = "case map_get (stringMap g) (szName it) of Some s \<Rightarrow> s | None \<Rightarrow> szText it"
  have t: "?t = szText it" using g nm by (auto simp: gathered_def split: option.splits)
  let ?g1 = "if map_get (stringMap g) (szName it) = None then g\<lparr>stringMap := map_set (szName it) ?t (stringMap g)\<rparr> else g"
  have sm: "map_get (stringMap ?g1) p = Some s \<Longrightarrow> s = nm p" for p s
    using g nm t by (auto simp: gathered_def split: if_splits)
  have same: "rows ?g1 = rows g" "indexMap ?g1 = indexMap g" by auto
  let ?n = "instanceNameOf (szText it)"
  show ?thesis
  proof (cases "kept l it")
    case False
    then have "HasSuffix (szText it) InstanceTotal \<and> \<not> totalCounterRequested l" using status by (auto simp: kept_def)
    then have "processItem l typeOf store (c, it) g = Some ?g1" using status t by (auto simp: processItem_def Let_def)
    then show ?thesis using gathered_skip [OF g False same] sm by blast
  next
    case True
    then have keep: "\<not> (HasSuffix (szText it) InstanceTotal \<and> \<not> totalCounterRequested l)" by (simp add: kept_def)
    show ?thesis
    proof (cases "map_get (indexMap g) ?n")
      case (Some i)
      let ?g' = "?g1\<lparr>rows := (rows g)[i := the (store c (itemValue it) (rows g ! i))]\<rparr>"
      have "gathered nm l typeOf store (xs @ [(c, it)]) ?g' \<and> store c (itemValue it) (rows g ! i) \<noteq> None"
        using sm same by (intro gathered_known [OF g True Some st]) auto
      moreover from this have "processItem l typeOf store (c, it) g = Some ?g'"
        using status keep t Some same by (auto simp: processItem_def Let_def)
      ultimately show ?thesis by blast
    next
      case None
      let ?r = "the (store c (itemValue it) (newRow l (typeOf c) ?n))"
      let ?g' = "?g1\<lparr>indexMap := map_set ?n (length (rows g)) (indexMap g), rows := rows g @ [?r]\<rparr>"
      have "gathered nm l typeOf store (xs @ [(c, it)]) ?g' \<and> store c (itemValue it) (newRow l (typeOf c) ?n) \<noteq> None"
        using sm same by (intro gathered_new [OF g True None st]) auto
      moreover from this have "processItem l typeOf store (c, it) g = Some ?g'"
        using status keep t None same by (auto simp: processItem_def Let_def)
      ultimately show ?thesis by blast
    qed
  qed
qed

lemma processItems_gathered:
  assumes "gathered nm l typeOf store xs g" and "\<forall>(c, it)\<in>set ys. szText it = nm (szName it)"
    and "\<forall>(c, it)\<in>set ys. store_total (length (elemFields l)) store c"
  shows "\<exists>g'. processItems l typeOf store ys g = Some g' \<and> gathered nm l typeOf store (xs @ ys) g'"
  using assms
proof (induction ys arbitrary: xs g)
  case Nil
  then show ?case by simp
next
  case (Cons y ys)
  obtain c it where y: "y = (c, it)" by (cases y)
  obtain g1 where g1: "processItem l typeOf store y g = Some g1" "gathered nm l typeOf store (xs @ [y]) g1"
    using processItem_gathered [OF Cons.prems(1), of it c] Cons.prems(2,3) y by auto
  from Cons.IH [OF g1(2)] show ?case using Cons.prems(2,3) g1(1) by auto
qed

lemma gathered_empty: "gathered nm l typeOf store [] emptyGather"
  by (simp add: gathered_def emptyGather_def instancesOf_def)


section \<open>The arrays that are read\<close>

text \<open>The items of the arrays that the loop fetches, up to the first array that is an error.\<close>

fun itemsRead ::
  "string \<Rightarrow> (u64 \<Rightarrow> u32 \<Rightarrow> 'w \<Rightarrow> 'v arrayAnswer \<times> 'w) \<Rightarrow> 'v \<Rightarrow> (perfCounter \<times> u64) list \<Rightarrow> 'v worker \<Rightarrow> 'w \<Rightarrow>
   go_error option \<times> (perfCounter \<times> 'v counterItem) list" where
  "itemsRead fname getArray z [] wk w = (None, [])"
| "itemsRead fname getArray z ((c, h) # chs) wk w =
     (case fetchArray fname getArray z h wk w of
        (Some e, wk1, w1) \<Rightarrow> (Some e, [])
      | (None, wk1, w1) \<Rightarrow>
          (case itemsRead fname getArray z chs wk1 w1 of (e, xs) \<Rightarrow> (e, map (Pair c) (bufferItems wk1) @ xs)))"

lemma collectCounters_gathered:
  assumes "gathered nm l typeOf store xs g" and "itemsRead fname getArray z chs wk w = (err, ys)"
    and "\<forall>(c, it)\<in>set ys. szText it = nm (szName it)" and "\<forall>(c, h)\<in>set chs. store_total (length (elemFields l)) store c"
  shows "\<exists>g' wk' w'. collectCounters fname getArray z l typeOf store chs g wk w = Some (err, g', wk', w') \<and>
    gathered nm l typeOf store (xs @ ys) g'"
  using assms
proof (induction chs arbitrary: xs g wk w ys)
  case Nil
  then show ?case by auto
next
  case (Cons ch chs)
  obtain c h where ch: "ch = (c, h)" by (cases ch)
  obtain e wk1 w1 where f: "fetchArray fname getArray z h wk w = (e, wk1, w1)" by (metis prod_cases3)
  show ?case
  proof (cases e)
    case (Some e')
    then show ?thesis using Cons.prems f ch by auto
  next
    case None
    obtain zs where zs: "itemsRead fname getArray z chs wk1 w1 = (err, zs)" "ys = map (Pair c) (bufferItems wk1) @ zs"
      using Cons.prems(2) f ch None by (auto split: prod.splits)
    have "\<exists>g1. processItems l typeOf store (map (Pair c) (bufferItems wk1)) g = Some g1 \<and>
        gathered nm l typeOf store (xs @ map (Pair c) (bufferItems wk1)) g1"
      using Cons.prems(3,4) zs(2) ch by (intro processItems_gathered [OF Cons.prems(1)]) auto
    then obtain g1 where g1: "processItems l typeOf store (map (Pair c) (bufferItems wk1)) g = Some g1"
        "gathered nm l typeOf store (xs @ map (Pair c) (bufferItems wk1)) g1" by blast
    from Cons.IH [OF g1(2) zs(1)] show ?thesis
      using Cons.prems(3,4) zs(2) g1(1) f ch None by auto
  qed
qed

lemma counterHandles_counters: "(c, h) \<in> set (counterHandles cs) \<Longrightarrow> \<exists>n. (n, c) \<in> set cs"
  by (auto simp: counterHandles_def)

lemma instancesOf_Nil_iff: "instancesOf l xs = [] \<longleftrightarrow> (\<forall>(c, it)\<in>set xs. \<not> kept l it)"
  by (auto simp: instancesOf_def filter_empty_conv)

text \<open>The result of a worker whose arrays are told apart by address, for either kind of value.\<close>

lemma collectWorker_groups:
  fixes l :: layout
  assumes "CollectQueryData api h w = (ErrorSuccess, w1)"
    and "itemsRead fname getArray z (counterHandles cs) wk w1 = (err, xs)"
    and "\<forall>(c, it)\<in>set xs. szText it = nm (szName it)"
    and "\<forall>(n, c)\<in>set cs. store_total (length fs) store c"
  defines "l' \<equiv> l\<lparr>elemFields := fs\<rparr>"
  shows "\<exists>wk' w'. collectWorker fname api getArray z typeOf store h cs l (Rows fs old) wk w =
    Some (if err = None \<and> instancesOf l' xs = [] then Some pdh_ErrNoData else err,
          Rows fs (map (instanceRow l' typeOf store xs) (instancesOf l' xs)), wk', w')"
proof -
  have "\<forall>(c, h)\<in>set (counterHandles cs). store_total (length (elemFields l')) store c"
    using assms(4) counterHandles_counters by (fastforce simp: l'_def)
  from collectCounters_gathered [OF gathered_empty assms(2,3) this, of typeOf]
  obtain g' wk' w' where g': "collectCounters fname getArray z l' typeOf store (counterHandles cs) emptyGather wk w1 = Some (err, g', wk', w')"
      "gathered nm l' typeOf store xs g'" by auto
  have "rows g' = map (instanceRow l' typeOf store xs) (instancesOf l' xs)" using g'(2) by (simp add: gathered_def)
  then show ?thesis
    using assms(1) g'(1) by (cases err) (auto simp: collectWorker_def l'_def)
qed

section \<open>Properties\<close>

text \<open>
  A raw collection returns the values of the arrays it read, grouped by instance: one row
  for every instance name with a valid value (the \<open>_Total\<close> instances only when they were asked for), in the order of
  first appearance, holding the name, the metric type and the converted value of every counter that has
  one. This holds for every order of the counters, and up to the first array that is an error, provided that
  an address always holds the same name while the arrays are read.
\<close>

theorem collectWorkerRaw_groups:
  assumes "CollectQueryData api h w = (ErrorSuccess, w1)"
    and "itemsRead ''GetRawCounterArray'' (GetRawCounterArray api) (0, 0) (counterHandles cs) wk w1 = (err, xs)"
    and "\<forall>(c, it)\<in>set xs. szText it = nm (szName it)"
    and "\<forall>(n, c)\<in>set cs. wf_counter (length fs) c"
  shows "\<exists>wk' w'. collectWorkerRaw api h cs l (Rows fs old) wk w =
    Some (if err = None \<and> instancesOf (l\<lparr>elemFields := fs\<rparr>) xs = [] then Some pdh_ErrNoData else err,
          Rows fs (map (instanceRow (l\<lparr>elemFields := fs\<rparr>) (\<lambda>c. metricTypeOf (ctrType c)) storeRaw xs)
                       (instancesOf (l\<lparr>elemFields := fs\<rparr>) xs)), wk', w')"
  using assms(4) storeRaw_total unfolding collectWorkerRaw_def
  by (intro collectWorker_groups [OF assms(1,2,3)]) fastforce


section \<open>A documented PDH\<close>

text \<open>
  The array functions as Windows documents them: with a buffer smaller than \<open>n\<close> bytes they answer
  \<open>PDH_MORE_DATA\<close> and \<open>n\<close>, otherwise with their result.
\<close>

definition documentedArray :: "u32 \<Rightarrow> (u64 \<Rightarrow> u32 \<times> (u32 \<times> (nat \<Rightarrow> 'v counterItem)) option) \<Rightarrow> u64 \<Rightarrow> u32 \<Rightarrow> 'w \<Rightarrow> 'v arrayAnswer \<times> 'w" where
  "documentedArray n result h cap w =
     ((if cap < n then \<lparr>ansRet = MoreData, ansNeeded = n, ansWritten = None\<rparr>
       else \<lparr>ansRet = fst (result h), ansNeeded = n, ansWritten = snd (result h)\<rparr>), w)"

lemma fetchArray_documented:
  assumes "fst (result h) = ErrorSuccess \<or> fst (result h) \<noteq> MoreData \<and> isKnownCounterDataError (PdhError (fst (result h)))"
  shows "fetchArray fname (documentedArray n result) z h wk w =
    (None, written \<lparr>ansRet = fst (result h), ansNeeded = n, ansWritten = snd (result h)\<rparr>
       (if bufCap wk < n then wk\<lparr>bufCap := n, bufMem := (\<lambda>i. zeroItem z)\<rparr> else wk), w)"
proof -
  have large: "fetchArray fname (documentedArray n result) z h wk w =
      (None, written \<lparr>ansRet = fst (result h), ansNeeded = n, ansWritten = snd (result h)\<rparr> wk, w)"
    if "\<not> bufCap wk < n" for wk
    using that assms by (subst fetchArray.simps) (auto simp: documentedArray_def Let_def)
  show ?thesis
  proof (cases "bufCap wk < n")
    case True
    let ?wk = "wk\<lparr>bufCap := n, bufMem := (\<lambda>i. zeroItem z)\<rparr>"
    have "fetchArray fname (documentedArray n result) z h wk w = fetchArray fname (documentedArray n result) z h ?wk w"
      by (subst fetchArray.simps) (use True in \<open>auto simp: documentedArray_def Let_def written_def status_codes\<close>)
    then show ?thesis using True large [of ?wk] by simp
  qed (use large in simp)
qed

definition sampleItem :: "u64 \<Rightarrow> string \<Rightarrow> nat \<Rightarrow> rawValue counterItem" where
  "sampleItem a s v = \<lparr>szName = a, szText = s, cStatus = CstatusValidData, itemValue = (word_of_nat v, 0)\<rparr>"

definition sampleArray :: "rawValue counterItem list \<Rightarrow> u32 \<times> (u32 \<times> (nat \<Rightarrow> rawValue counterItem)) option" where
  "sampleArray its = (ErrorSuccess, Some (word_of_nat (length its), (!) its))"

definition samplePdh :: "(u64 \<Rightarrow> u32 \<times> (u32 \<times> (nat \<Rightarrow> rawValue counterItem)) option) \<Rightarrow> unit pdh_api" where
  "samplePdh result =
     \<lparr>OpenQuery = (\<lambda>w. (ErrorSuccess, 1, w)), AddEnglishCounter = (\<lambda>q p w. (ErrorSuccess, 1, w)),
      CounterInfoSize = (\<lambda>h w. (MoreData, 88, w)), GetCounterInfo = (\<lambda>h n w. (ErrorSuccess, 0x10000, w)),
      GetCounterTimeBase = (\<lambda>h w. (ErrorSuccess, 10000000, w)), CollectQueryData = (\<lambda>h w. (ErrorSuccess, w)),
      GetRawCounterArray = documentedArray 200 result,
      GetFormattedCounterArrayDouble = documentedArray 200 (\<lambda>h. (NoData, None)), CloseQuery = (\<lambda>h w. (ErrorSuccess, w))\<rparr>"

definition sampleCounter :: "string \<Rightarrow> nat \<Rightarrow> (string \<times> u64) list \<Rightarrow> string \<times> perfCounter" where
  "sampleCounter n i hs = (n, \<lparr>ctrName = n, ctrMetricType = Some GaugeValue, ctrInstances = hs, ctrType = 0x10000, ctrFrequency = 0,
     fieldIndexValue = Some i, fieldIndexSecondValue = None\<rparr>)"

definition sampleFields :: "structField list" where
  "sampleFields =
     [\<lparr>fName = ''Name'', fKind = KString, perfdata = None, perfdata_min_build = None\<rparr>,
      \<lparr>fName = ''X'', fKind = KFloat64, perfdata = Some ''x'', perfdata_min_build = None\<rparr>,
      \<lparr>fName = ''Y'', fKind = KFloat64, perfdata = Some ''y'', perfdata_min_build = None\<rparr>]"

definition sampleLayout :: layout where
  "sampleLayout = \<lparr>elemFields = sampleFields, nameIndexValue = Some 0, metricsTypeIndexValue = None, totalCounterRequested = False\<rparr>"

lemmas sample_defs = samplePdh_def sampleArray_def sampleItem_def sampleCounter_def sampleFields_def sampleLayout_def

lemmas worker_defs = bufferItems_def newWorker_def written_def counterHandles_def zeroItem_def

lemma sample_items:
  "itemsRead ''GetRawCounterArray'' (GetRawCounterArray (samplePdh (\<lambda>h. sampleArray (its h)))) (0, 0)
     (counterHandles [sampleCounter ''x'' 1 [(''*'', 1)], sampleCounter ''y'' 2 [(''*'', 2)]]) (newWorker (0, 0)) () =
   (None, map (Pair (snd (sampleCounter ''x'' 1 [(''*'', 1)]))) (its 1) @ map (Pair (snd (sampleCounter ''y'' 2 [(''*'', 2)]))) (its 2))"
  if "length (its 1) < 2 ^ 32" and "length (its 2) < 2 ^ 32"
proof -
  have len: "unat (word_of_nat (length (its 1)) :: u32) = length (its 1)" "unat (word_of_nat (length (its 2)) :: u32) = length (its 2)"
    using that by (simp_all add: unat_u32_of_nat del: unat_of_nat)
  show ?thesis
    by (simp add: sample_defs worker_defs fetchArray_documented status_codes len map_nth del: unat_of_nat map_map)
qed


definition sampleResult :: "u64 \<Rightarrow> rawValue counterItem list" where
  "sampleResult h = (if h = 1 then [sampleItem 16 ''a'' 5, sampleItem 32 ''b'' 6, sampleItem 48 ''_Total'' 11]
                     else [sampleItem 16 ''a'' 7, sampleItem 32 ''b'' 8])"

lemma f64_of_small [simp]: "f64_of_int (numeral n) = F_Fin (numeral n)" if "(numeral n :: int) \<le> 2 ^ 53"
  unfolding f64_of_int_def using round64_of_int [of "numeral n"] that by simp

theorem collectWorkerRaw_groups_witness:
  "\<exists>wk' w'. collectWorkerRaw (samplePdh (\<lambda>h. sampleArray (sampleResult h))) 1
       [sampleCounter ''x'' 1 [(''*'', 1)], sampleCounter ''y'' 2 [(''*'', 2)]] sampleLayout (Rows sampleFields []) (newWorker (0, 0)) () =
     Some (None, Rows sampleFields [[VString ''a'', VFloat (F_Fin 5), VFloat (F_Fin 7)], [VString ''b'', VFloat (F_Fin 6), VFloat (F_Fin 8)]], wk', w')"
proof -
  let ?cs = "[sampleCounter ''x'' 1 [(''*'', 1)], sampleCounter ''y'' 2 [(''*'', 2)]]"
  let ?xs = "map (Pair (snd (sampleCounter ''x'' 1 [(''*'', 1)]))) (sampleResult 1) @
             map (Pair (snd (sampleCounter ''y'' 2 [(''*'', 2)]))) (sampleResult 2)"
  let ?nm = "(\<lambda>a. if a = 16 then ''a'' else if a = 32 then ''b'' else ''_Total'') :: u64 \<Rightarrow> string"
  have read: "itemsRead ''GetRawCounterArray'' (GetRawCounterArray (samplePdh (\<lambda>h. sampleArray (sampleResult h)))) (0, 0)
      (counterHandles ?cs) (newWorker (0, 0)) () = (None, ?xs)"
    by (rule sample_items) (simp_all add: sampleResult_def)
  have query: "CollectQueryData (samplePdh (\<lambda>h. sampleArray (sampleResult h))) 1 () = (ErrorSuccess, ())" by (simp add: samplePdh_def)
  have names: "\<forall>(c, it)\<in>set ?xs. szText it = ?nm (szName it)" by (simp add: sampleResult_def sampleItem_def)
  have wf: "\<forall>(n, c)\<in>set ?cs. wf_counter (length sampleFields) c" by (simp add: wf_counter_def sampleCounter_def sampleFields_def PERF_ELAPSED_TIME_def)
  have insts: "instancesOf sampleLayout ?xs = [''a'', ''b'']"
    by (simp add: instancesOf_def sampleResult_def sampleItem_def kept_def status_codes HasSuffix_def InstanceTotal_def suffix_def
        sampleLayout_def instanceNameOf_def)
  have rows: "map (instanceRow sampleLayout (\<lambda>c. metricTypeOf (ctrType c)) storeRaw ?xs) [''a'', ''b''] =
      [[VString ''a'', VFloat (F_Fin 5), VFloat (F_Fin 7)], [VString ''b'', VFloat (F_Fin 6), VFloat (F_Fin 8)]]"
    by (simp add: instanceRow_def ofInstance_def sampleResult_def sample_defs kept_def status_codes HasSuffix_def InstanceTotal_def suffix_def
        instanceNameOf_def newRow_def setField_def zeroElem_def storeRaw_def setFloatIf_def setFloat_def
        PERF_ELAPSED_TIME_def PERF_100NSEC_TIMER_def PERF_PRECISION_100NS_TIMER_def)
  have lay: "sampleLayout\<lparr>elemFields := sampleFields\<rparr> = sampleLayout" by (simp add: sampleLayout_def)
  show ?thesis
    using collectWorkerRaw_groups [OF query read names wf, of sampleLayout "[]"] unfolding lay insts rows by simp
qed


lemmas sample_eval = sample_defs worker_defs fetchArray_documented status_codes collectWorkerRaw_def collectWorker_def emptyGather_def
  processItem_def Let_def HasSuffix_def InstanceTotal_def suffix_def instanceNameOf_def newRow_def setField_def zeroElem_def storeRaw_def
  setFloatIf_def setFloat_def PERF_ELAPSED_TIME_def PERF_100NSEC_TIMER_def PERF_PRECISION_100NS_TIMER_def isKnownCounterDataError_def

text \<open>
  The names are cached by address although the buffer is overwritten between the arrays. When one counter is
  read for two instances that were named one by one, the two arrays have one item each and the name is
  at the same place of the buffer: the second value is then stored under the first name, and the second instance is lost.
\<close>

theorem name_cache_confuses_instances:
  "\<exists>wk' w'. collectWorkerRaw (samplePdh (\<lambda>h. sampleArray (if h = 1 then [sampleItem 56 ''a'' 5] else [sampleItem 56 ''b'' 6]))) 1
       [sampleCounter ''x'' 1 [(''a'', 1), (''b'', 2)]] sampleLayout (Rows sampleFields []) (newWorker (0, 0)) () =
     Some (None, Rows sampleFields [[VString ''a'', VFloat (F_Fin 6), VFloat (F_Fin 0)]], wk', w')"
  by (simp add: sample_eval)

text \<open>
  An array function that fails with one of the tolerated errors leaves the previous array in
  the buffer, and the loop reads it again: the values of one counter are reported for the other, although PDH
  said that it has no data.
\<close>

theorem tolerated_error_repeats_values:
  "\<exists>wk' w'. collectWorkerRaw (samplePdh (\<lambda>h. if h = 1 then sampleArray [sampleItem 56 ''a'' 5] else (NoData, None))) 1
       [sampleCounter ''x'' 1 [(''*'', 1)], sampleCounter ''y'' 2 [(''*'', 2)]] sampleLayout (Rows sampleFields []) (newWorker (0, 0)) () =
     Some (None, Rows sampleFields [[VString ''a'', VFloat (F_Fin 5), VFloat (F_Fin 5)]], wk', w')"
  by (simp add: sample_eval)

text \<open>
  A collector that was built without an error has exactly the counters that the tags of the struct name, each
  under its own name, with its value going to the last field tagged with it and its second value to the last
  field tagged with it and \<open>,secondvalue\<close>; it has at least one counter and a running worker.
\<close>

theorem NewCollector_counters:
  assumes "NewCollectorWithReflection api osBuild rt obj insts fs w = Some (Some p, None, w')"
  shows "chans p \<and> counters p \<noteq> [] \<and> counters_ok (enumerate 0 fs) (counters p) \<and> elemFields (colLayout p) = fs"
proof -
  obtain ret handle w1 where oq: "OpenQuery api w = (ret, handle, w1)" by (metis prod_cases3)
  let ?insts = "if insts = [] then [InstanceEmpty] else insts"
  obtain cs errs w2 where f: "fold (addField api handle osBuild obj ?insts) (enumerate 0 fs) ([], [], w1) = (cs, errs, w2)"
    by (metis prod_cases3)
  have "counters_ok [] ([] :: (string, perfCounter) gomap)" by (simp add: counters_ok_def counter_ok_def lastField_def)
  from addFields_ok [OF this f] have ok: "counters_ok (enumerate 0 fs) cs" by simp
  show ?thesis
    using assms oq f ok
    by (auto simp: NewCollectorWithReflection_def Let_def dest!: Collect_counters split: if_splits option.splits)
qed


lemma sample_tags: "tagCounter ''x'' = (''x'', False)" "tagCounter ''y'' = (''y'', False)"
  by (simp_all add: tagCounter_def TrimSuffix_def HasSuffix_def suffix_def)

lemma sample_metricType: "metricTypeOf 0x10000 = GaugeValue"
  by (simp add: metricTypeOf_def SupportedCounterTypes_def PERF_ELAPSED_TIME_def PERF_100NSEC_TIMER_def PERF_PRECISION_100NS_TIMER_def)

lemma sample_fields:
  "fold (addField (samplePdh res) 1 20348 ''Obj'' [''*'']) (enumerate 0 sampleFields) ([], [], ()) =
     ([sampleCounter ''x'' 1 [(''*'', 1)], sampleCounter ''y'' 2 [(''*'', 1)]], [], ())"
  by (simp add: addField_def addInstance_def newCounter_def sample_tags sample_metricType sample_defs status_codes PERF_ELAPSED_TIME_def Let_def)

lemma sample_collect:
  "\<exists>r wk. collectWorkerRaw (samplePdh (\<lambda>h. sampleArray [sampleItem 56 ''a'' 5])) 1
       [sampleCounter ''x'' 1 [(''*'', 1)], sampleCounter ''y'' 2 [(''*'', 1)]] sampleLayout (Rows sampleFields []) (newWorker (0, 0)) () =
     Some (None, r, wk, ())"
  by (simp add: sample_eval)

lemma sample_layout:
  "\<lparr>elemFields = sampleFields, nameIndexValue = fieldIndex ''Name'' KString 0 sampleFields,
    metricsTypeIndexValue = fieldIndex ''MetricType'' KValueType 0 sampleFields, totalCounterRequested = (InstanceTotal = ''*'')\<rparr> = sampleLayout"
  by (simp add: sampleFields_def sampleLayout_def InstanceTotal_def)

theorem NewCollector_counters_witness:
  "\<exists>p. NewCollectorWithReflection (samplePdh (\<lambda>h. sampleArray [sampleItem 56 ''a'' 5])) 20348 CounterTypeRaw ''Obj'' [''*''] sampleFields () =
     Some (Some p, None, ()) \<and> counters_ok (enumerate 0 sampleFields) (counters p)"
proof -
  let ?api = "samplePdh (\<lambda>h. sampleArray [sampleItem 56 ''a'' 5])"
  have open1: "OpenQuery ?api () = (ErrorSuccess, 1, ())" by (simp add: samplePdh_def)
  obtain r wk where coll: "collectWorkerRaw ?api 1 [sampleCounter ''x'' 1 [(''*'', 1)], sampleCounter ''y'' 2 [(''*'', 1)]] sampleLayout
      (Rows sampleFields []) (newWorker (0, 0)) () = Some (None, r, wk, ())"
    using sample_collect by blast
  have "\<exists>p. NewCollectorWithReflection ?api 20348 CounterTypeRaw ''Obj'' [''*''] sampleFields () = Some (Some p, None, ())"
    unfolding NewCollectorWithReflection_def open1 Let_def prod.case
    by (simp add: sample_fields sample_layout Pdh_Collector.Collect_def errors_Join_def coll [simplified])
  then obtain p where p: "NewCollectorWithReflection ?api 20348 CounterTypeRaw ''Obj'' [''*''] sampleFields () = Some (Some p, None, ())" ..
  show ?thesis using NewCollector_counters [OF p] p by blast
qed

section \<open>Different names\<close>

text \<open>A scrape between: the system may have changed in any way before it, and it may return an error.\<close>

definition perfScraped :: "'w pdh_api \<Rightarrow> structField list \<Rightarrow> perfSource \<Rightarrow> perfSource \<Rightarrow> bool" where
  "perfScraped api fs src src' \<longleftrightarrow> (\<exists>w e w'. perfCollect api fs src w = Some (e, src', w'))"

lemma perfScraped_ok: "(perfScraped api fs)\<^sup>*\<^sup>* src src' \<Longrightarrow> source_ok fs src \<Longrightarrow> source_ok fs src'"
  by (induction rule: rtranclp_induct) (auto simp: perfScraped_def dest: perfCollect_ok)

text \<open>
  C26: Whatever the functions of PDH answer, also when they fail, repeat an instance or deliver a name twice, the rows of a collection that returns no error have different names, and there is at least
  one: this is what the collectors rely on that label their metrics with the name of the instance. It holds after a successful construction for a struct with a string field \<open>Name\<close> and after any
  number of scrapes.
\<close>

theorem Collect_rows_differ:
  assumes "perfBuild api osBuild msg obj insts fs w0 = Some (None, src0, w1)" and "fieldIndex ''Name'' KString 0 fs = Some k"
    and "(perfScraped api fs)\<^sup>*\<^sup>* src0 src" and "perfCollect api fs src w = Some (None, src', w')"
  shows "perfDataObject src' \<noteq> [] \<and> distinct (map (rowName fs) (perfDataObject src'))"
  using perfCollect_nonempty [OF assms(4)] perfCollect_names [OF perfScraped_ok [OF assms(3) perfBuild_ok [OF assms(1)]] assms(2,4)] by blast

definition samplePair :: "unit pdh_api" where
  "samplePair = samplePdh (\<lambda>h. sampleArray [sampleItem 56 ''a'' 5, sampleItem 64 ''b'' 6])"

definition sampleBuilt :: "rawValue worker \<Rightarrow> pdhCollector" where
  "sampleBuilt wk = \<lparr>object = ''Obj'', counters = [sampleCounter ''x'' 1 [(''*'', 1)], sampleCounter ''y'' 2 [(''*'', 1)]], queryHandle = 1,
     colLayout = sampleLayout, colType = CounterTypeRaw, chans = True, rawWorker = wk, fmtWorker = newWorker (F_Fin 0)\<rparr>"

lemma two_items: "[0..<2] = [0, 1]"
  by (simp add: upt_rec)

lemma sample_collect_pair:
  "\<exists>wk'. collectWorkerRaw samplePair 1 [sampleCounter ''x'' 1 [(''*'', 1)], sampleCounter ''y'' 2 [(''*'', 1)]] sampleLayout (Rows sampleFields old) wk () =
     Some (None, Rows sampleFields [[VString ''a'', VFloat (F_Fin 5), VFloat (F_Fin 5)], [VString ''b'', VFloat (F_Fin 6), VFloat (F_Fin 6)]], wk', ())"
  by (cases "bufCap wk < 200") (simp_all add: samplePair_def sample_eval two_items)

lemma sample_Collect_pair:
  "\<exists>wk'. Pdh_Collector.Collect samplePair (Rows sampleFields old) (Some (sampleBuilt wk)) () =
     Some (None, Rows sampleFields [[VString ''a'', VFloat (F_Fin 5), VFloat (F_Fin 5)], [VString ''b'', VFloat (F_Fin 6), VFloat (F_Fin 6)]], Some (sampleBuilt wk'), ())"
  using sample_collect_pair [of old wk] by (auto simp: Pdh_Collector.Collect_def sampleBuilt_def)

theorem Collect_rows_differ_witness:
  "\<exists>src src'. perfBuild samplePair 20348 ''failed'' ''Obj'' [''*''] sampleFields () = Some (None, src, ()) \<and>
     perfCollect samplePair sampleFields src () = Some (None, src', ()) \<and>
     map (rowName sampleFields) (perfDataObject src') = [''a'', ''b''] \<and> distinct (map (rowName sampleFields) (perfDataObject src'))"
proof -
  obtain wk where c1: "Pdh_Collector.Collect samplePair (Rows sampleFields []) (Some (sampleBuilt (newWorker (0, 0)))) () =
     Some (None, Rows sampleFields [[VString ''a'', VFloat (F_Fin 5), VFloat (F_Fin 5)], [VString ''b'', VFloat (F_Fin 6), VFloat (F_Fin 6)]], Some (sampleBuilt wk), ())"
    using sample_Collect_pair by blast
  have open1: "OpenQuery samplePair () = (ErrorSuccess, 1, ())" by (simp add: samplePair_def samplePdh_def)
  have flds: "fold (addField samplePair 1 20348 ''Obj'' [''*'']) (enumerate 0 sampleFields) ([], [], ()) =
      ([sampleCounter ''x'' 1 [(''*'', 1)], sampleCounter ''y'' 2 [(''*'', 1)]], [], ())"
    unfolding samplePair_def by (rule sample_fields)
  have built: "perfBuild samplePair 20348 ''failed'' ''Obj'' [''*''] sampleFields () = Some (None, \<lparr>perfDataCollector = Some (sampleBuilt wk), perfDataObject = []\<rparr>, ())"
    unfolding perfBuild_def NewCollectorWithReflection_def open1 Let_def prod.case
    using c1 by (simp add: flds sample_layout errors_Join_def sampleBuilt_def)
  obtain wk' where c2: "perfCollect samplePair sampleFields \<lparr>perfDataCollector = Some (sampleBuilt wk), perfDataObject = []\<rparr> () =
      Some (None, \<lparr>perfDataCollector = Some (sampleBuilt wk'), perfDataObject = [[VString ''a'', VFloat (F_Fin 5), VFloat (F_Fin 5)], [VString ''b'', VFloat (F_Fin 6), VFloat (F_Fin 6)]]\<rparr>, ())"
    using sample_Collect_pair [of "[]" wk] by (auto simp: perfCollect_def)
  have "fieldIndex ''Name'' KString 0 sampleFields = Some 0" by (simp add: sampleFields_def)
  from Collect_rows_differ [OF built this rtranclp.rtrancl_refl c2] built c2 show ?thesis
    by (simp add: rowName_def sampleFields_def)
qed

end
