(* ===== verification/Perf_System.thy ===== *)
theory Perf_System
  imports Pdh_Names Utils
begin

text \<open>
  The collectors of the processor, the memory and the system (internal/collector/cpu, memory and
  system).
\<close>

section \<open>system\<close>

definition system_fields :: "structField list" where
  "system_fields =
     [perfField ''ContextSwitchesPerSec'' ''Context Switches/sec'',
      perfField ''ExceptionDispatchesPerSec'' ''Exception Dispatches/sec'',
      perfField ''ProcessorQueueLength'' ''Processor Queue Length'',
      perfField ''SystemCallsPerSec'' ''System Calls/sec'',
      perfField ''Processes'' ''Processes'',
      perfField ''Threads'' ''Threads'']"

definition system_descs :: descTable where
  "system_descs =
     [(''bootTime'', NewDesc (BuildFQName Namespace ''system'' ''boot_time_timestamp'')
        ''Unix timestamp of system boot time'' []),
      (''bootTimeSeconds'', NewDesc (BuildFQName Namespace ''system'' ''boot_time_timestamp_seconds'')
        ''Deprecated: Use windows_system_boot_time_timestamp instead'' []),
      (''contextSwitchesTotal'', NewDesc (BuildFQName Namespace ''system'' ''context_switches_total'')
        ''Total number of context switches (WMI source: PerfOS_System.ContextSwitchesPersec)'' []),
      (''exceptionDispatchesTotal'', NewDesc (BuildFQName Namespace ''system'' ''exception_dispatches_total'')
        ''Total number of exceptions dispatched (WMI source: PerfOS_System.ExceptionDispatchesPersec)'' []),
      (''processes'', NewDesc (BuildFQName Namespace ''system'' ''processes'')
        ''Current number of processes (WMI source: PerfOS_System.Processes)'' []),
      (''processesLimit'', NewDesc (BuildFQName Namespace ''system'' ''processes_limit'')
        ''Maximum number of processes.'' []),
      (''processorQueueLength'', NewDesc (BuildFQName Namespace ''system'' ''processor_queue_length'')
        ''Length of processor queue (WMI source: PerfOS_System.ProcessorQueueLength)'' []),
      (''systemCallsTotal'', NewDesc (BuildFQName Namespace ''system'' ''system_calls_total'')
        ''Total number of system calls (WMI source: PerfOS_System.SystemCallsPersec)'' []),
      (''threads'', NewDesc (BuildFQName Namespace ''system'' ''threads'')
        ''Current number of threads (WMI source: PerfOS_System.Threads)'' [])]"

definition system_lines :: "f64 \<Rightarrow> row \<Rightarrow> line list" where
  "system_lines bootTimeTimestamp r =
     [(''contextSwitchesTotal'', CounterValue, num system_fields r ''ContextSwitchesPerSec'', []),
      (''exceptionDispatchesTotal'', CounterValue, num system_fields r ''ExceptionDispatchesPerSec'', []),
      (''processorQueueLength'', GaugeValue, num system_fields r ''ProcessorQueueLength'', []),
      (''processes'', GaugeValue, num system_fields r ''Processes'', []),
      (''systemCallsTotal'', CounterValue, num system_fields r ''SystemCallsPerSec'', []),
      (''threads'', GaugeValue, num system_fields r ''Threads'', []),
      (''bootTimeSeconds'', GaugeValue, bootTimeTimestamp, []),
      (''bootTime'', GaugeValue, bootTimeTimestamp, []),
      (''processesLimit'', GaugeValue, F_Fin 4294967295, [])]"

record systemCollector =
  bootTime :: f64
  systemSource :: perfSource

text \<open>\<open>Build\<close> with the time of day in seconds and the milliseconds since the start of the system.\<close>

definition system_Build ::
  "'w pdh_api \<Rightarrow> u16 \<Rightarrow> int \<Rightarrow> u64 \<Rightarrow> 'w \<Rightarrow> (go_error option \<times> systemCollector \<times> 'w) option" where
  "system_Build api osBuild now ticks w =
     map_option (\<lambda>(err, src, w'). (err, \<lparr>bootTime = f64_of_int (signed_take_bit 63 (now - uint ticks div 1000)), systemSource = src\<rparr>, w'))
       (perfBuild api osBuild ''failed to create System collector: %w'' ''System'' [] system_fields w)"

definition system_Collect :: "'w pdh_api \<Rightarrow> systemCollector \<Rightarrow> 'w \<Rightarrow> (systemCollector, 'w) collected" where
  "system_Collect api c w =
     map_option (\<lambda>(err, ms, src, w'). (err, ms, c\<lparr>systemSource := src\<rparr>, w'))
       (collectWith api system_fields ''failed to collect System metrics: %w'' system_descs
          (firstRow ''failed to collect System metrics: %w'' (system_lines (bootTime c))) (systemSource c) w)"

section \<open>memory\<close>

definition memory_fields :: "structField list" where
  "memory_fields =
     [perfField ''AvailableBytes'' ''Available Bytes'',
      perfField ''AvailableKBytes'' ''Available KBytes'',
      perfField ''AvailableMBytes'' ''Available MBytes'',
      perfField ''CacheBytes'' ''Cache Bytes'',
      perfField ''CacheBytesPeak'' ''Cache Bytes Peak'',
      perfField ''CacheFaultsPerSec'' ''Cache Faults/sec'',
      perfField ''CommitLimit'' ''Commit Limit'',
      perfField ''CommittedBytes'' ''Committed Bytes'',
      perfField ''DemandZeroFaultsPerSec'' ''Demand Zero Faults/sec'',
      perfField ''FreeAndZeroPageListBytes'' ''Free & Zero Page List Bytes'',
      perfField ''FreeSystemPageTableEntries'' ''Free System Page Table Entries'',
      perfField ''ModifiedPageListBytes'' ''Modified Page List Bytes'',
      perfField ''PageFaultsPerSec'' ''Page Faults/sec'',
      perfField ''PageReadsPerSec'' ''Page Reads/sec'',
      perfField ''PagesInputPerSec'' ''Pages Input/sec'',
      perfField ''PagesOutputPerSec'' ''Pages Output/sec'',
      perfField ''PagesPerSec'' ''Pages/sec'',
      perfField ''PageWritesPerSec'' ''Page Writes/sec'',
      perfField ''PoolNonpagedAllocs'' ''Pool Nonpaged Allocs'',
      perfField ''PoolNonpagedBytes'' ''Pool Nonpaged Bytes'',
      perfField ''PoolPagedAllocs'' ''Pool Paged Allocs'',
      perfField ''PoolPagedBytes'' ''Pool Paged Bytes'',
      perfField ''PoolPagedResidentBytes'' ''Pool Paged Resident Bytes'',
      perfField ''StandbyCacheCoreBytes'' ''Standby Cache Core Bytes'',
      perfField ''StandbyCacheNormalPriorityBytes'' ''Standby Cache Normal Priority Bytes'',
      perfField ''StandbyCacheReserveBytes'' ''Standby Cache Reserve Bytes'',
      perfField ''SystemCacheResidentBytes'' ''System Cache Resident Bytes'',
      perfField ''SystemCodeResidentBytes'' ''System Code Resident Bytes'',
      perfField ''SystemCodeTotalBytes'' ''System Code Total Bytes'',
      perfField ''SystemDriverResidentBytes'' ''System Driver Resident Bytes'',
      perfField ''SystemDriverTotalBytes'' ''System Driver Total Bytes'',
      perfField ''TransitionFaultsPerSec'' ''Transition Faults/sec'',
      perfField ''TransitionPagesRePurposedPerSec'' ''Transition Pages RePurposed/sec'',
      perfField ''WriteCopiesPerSec'' ''Write Copies/sec'']"

definition memory_descs :: descTable where
  "memory_descs =
     [(''availableBytes'', NewDesc (BuildFQName Namespace ''memory'' ''available_bytes'')
        ''The amount of physical memory immediately available for allocation to a process or for system use. It is equal to the sum of memory assigned to the standby (cached), free and zero page lists (AvailableBytes)'' []),
      (''cacheBytes'', NewDesc (BuildFQName Namespace ''memory'' ''cache_bytes'')
        ''(CacheBytes)'' []),
      (''cacheBytesPeak'', NewDesc (BuildFQName Namespace ''memory'' ''cache_bytes_peak'')
        ''(CacheBytesPeak)'' []),
      (''cacheFaultsTotal'', NewDesc (BuildFQName Namespace ''memory'' ''cache_faults_total'')
        ''Number of faults which occur when a page sought in the file system cache is not found there and must be retrieved from elsewhere in memory (soft fault) or from disk (hard fault) (Cache Faults/sec)'' []),
      (''commitLimit'', NewDesc (BuildFQName Namespace ''memory'' ''commit_limit'')
        ''(CommitLimit)'' []),
      (''committedBytes'', NewDesc (BuildFQName Namespace ''memory'' ''committed_bytes'')
        ''(CommittedBytes)'' []),
      (''demandZeroFaultsTotal'', NewDesc (BuildFQName Namespace ''memory'' ''demand_zero_faults_total'')
        ''The number of zeroed pages required to satisfy faults. Zeroed pages, pages emptied of previously stored data and filled with zeros, are a security feature of Windows that prevent processes from seeing data stored by earlier processes that used the memory space (Demand Zero Faults/sec)'' []),
      (''freeAndZeroPageListBytes'', NewDesc (BuildFQName Namespace ''memory'' ''free_and_zero_page_list_bytes'')
        ''The amount of physical memory, in bytes, that is assigned to the free and zero page lists. This memory does not contain cached data. It is immediately available for allocation to a process or for system use (FreeAndZeroPageListBytes)'' []),
      (''freeSystemPageTableEntries'', NewDesc (BuildFQName Namespace ''memory'' ''free_system_page_table_entries'')
        ''(FreeSystemPageTableEntries)'' []),
      (''modifiedPageListBytes'', NewDesc (BuildFQName Namespace ''memory'' ''modified_page_list_bytes'')
        ''The amount of physical memory, in bytes, that is assigned to the modified page list. This memory contains cached data and code that is not actively in use by processes, the system and the system cache (ModifiedPageListBytes)'' []),
      (''pageFaultsTotal'', NewDesc (BuildFQName Namespace ''memory'' ''page_faults_total'')
        ''Overall rate at which faulted pages are handled by the processor (Page Faults/sec)'' []),
      (''swapPageReadsTotal'', NewDesc (BuildFQName Namespace ''memory'' ''swap_page_reads_total'')
        ''Number of disk page reads (a single read operation reading several pages is still only counted once) (PageReadsPerSec)'' []),
      (''swapPagesReadTotal'', NewDesc (BuildFQName Namespace ''memory'' ''swap_pages_read_total'')
        ''Number of pages read across all page reads (ie counting all pages read even if they are read in a single operation) (PagesInputPerSec)'' []),
      (''swapPagesWrittenTotal'', NewDesc (BuildFQName Namespace ''memory'' ''swap_pages_written_total'')
        ''Number of pages written across all page writes (ie counting all pages written even if they are written in a single operation) (PagesOutputPerSec)'' []),
      (''swapPageOperationsTotal'', NewDesc (BuildFQName Namespace ''memory'' ''swap_page_operations_total'')
        ''Total number of swap page read and writes (PagesPerSec)'' []),
      (''swapPageWritesTotal'', NewDesc (BuildFQName Namespace ''memory'' ''swap_page_writes_total'')
        ''Number of disk page writes (a single write operation writing several pages is still only counted once) (PageWritesPerSec)'' []),
      (''poolNonPagedAllocationsTotal'', NewDesc (BuildFQName Namespace ''memory'' ''pool_nonpaged_allocs_total'')
        ''The number of calls to allocate space in the nonpaged pool. The nonpaged pool is an area of system memory area for objects that cannot be written to disk, and must remain in physical memory as long as they are allocated (PoolNonpagedAllocs)'' []),
      (''poolNonPagedBytes'', NewDesc (BuildFQName Namespace ''memory'' ''pool_nonpaged_bytes'')
        ''Number of bytes in the non-paged pool, an area of the system virtual memory that is used for objects that cannot be written to disk, but must remain in physical memory as long as they are allocated (PoolNonpagedBytes)'' []),
      (''poolPagedAllocationsTotal'', NewDesc (BuildFQName Namespace ''memory'' ''pool_paged_allocs_total'')
        ''Number of calls to allocate space in the paged pool, regardless of the amount of space allocated in each call (PoolPagedAllocs)'' []),
      (''poolPagedBytes'', NewDesc (BuildFQName Namespace ''memory'' ''pool_paged_bytes'')
        ''(PoolPagedBytes)'' []),
      (''poolPagedResidentBytes'', NewDesc (BuildFQName Namespace ''memory'' ''pool_paged_resident_bytes'')
        ''The size, in bytes, of the portion of the paged pool that is currently resident and active in physical memory. The paged pool is an area of the system virtual memory that is used for objects that can be written to disk when they are not being used (PoolPagedResidentBytes)'' []),
      (''standbyCacheCoreBytes'', NewDesc (BuildFQName Namespace ''memory'' ''standby_cache_core_bytes'')
        ''The amount of physical memory, in bytes, that is assigned to the core standby cache page lists. This memory contains cached data and code that is not actively in use by processes, the system and the system cache (StandbyCacheCoreBytes)'' []),
      (''standbyCacheNormalPriorityBytes'', NewDesc (BuildFQName Namespace ''memory'' ''standby_cache_normal_priority_bytes'')
        ''The amount of physical memory, in bytes, that is assigned to the normal priority standby cache page lists. This memory contains cached data and code that is not actively in use by processes, the system and the system cache (StandbyCacheNormalPriorityBytes)'' []),
      (''standbyCacheReserveBytes'', NewDesc (BuildFQName Namespace ''memory'' ''standby_cache_reserve_bytes'')
        ''The amount of physical memory, in bytes, that is assigned to the reserve standby cache page lists. This memory contains cached data and code that is not actively in use by processes, the system and the system cache (StandbyCacheReserveBytes)'' []),
      (''systemCacheResidentBytes'', NewDesc (BuildFQName Namespace ''memory'' ''system_cache_resident_bytes'')
        ''The size, in bytes, of the portion of the system file cache which is currently resident and active in physical memory (SystemCacheResidentBytes)'' []),
      (''systemCodeResidentBytes'', NewDesc (BuildFQName Namespace ''memory'' ''system_code_resident_bytes'')
        ''The size, in bytes, of the pageable operating system code that is currently resident and active in physical memory (SystemCodeResidentBytes)'' []),
      (''systemCodeTotalBytes'', NewDesc (BuildFQName Namespace ''memory'' ''system_code_total_bytes'')
        ''The size, in bytes, of the pageable operating system code currently mapped into the system virtual address space (SystemCodeTotalBytes)'' []),
      (''systemDriverResidentBytes'', NewDesc (BuildFQName Namespace ''memory'' ''system_driver_resident_bytes'')
        ''The size, in bytes, of the pageable physical memory being used by device drivers. It is the working set (physical memory area) of the drivers (SystemDriverResidentBytes)'' []),
      (''systemDriverTotalBytes'', NewDesc (BuildFQName Namespace ''memory'' ''system_driver_total_bytes'')
        ''The size, in bytes, of the pageable virtual memory currently being used by device drivers. Pageable memory can be written to disk when it is not being used (SystemDriverTotalBytes)'' []),
      (''transitionFaultsTotal'', NewDesc (BuildFQName Namespace ''memory'' ''transition_faults_total'')
        ''Number of faults rate at which page faults are resolved by recovering pages that were being used by another process sharing the page, or were on the modified page list or the standby list, or were being written to disk at the time of the page fault (TransitionFaultsPerSec)'' []),
      (''transitionPagesRepurposedTotal'', NewDesc (BuildFQName Namespace ''memory'' ''transition_pages_repurposed_total'')
        ''Transition Pages RePurposed is the rate at which the number of transition cache pages were reused for a different purpose (TransitionPagesRePurposedPerSec)'' []),
      (''writeCopiesTotal'', NewDesc (BuildFQName Namespace ''memory'' ''write_copies_total'')
        ''The number of page faults caused by attempting to write that were satisfied by copying the page from elsewhere in physical memory (WriteCopiesPerSec)'' []),
      (''processMemoryLimitBytes'', NewDesc (BuildFQName Namespace ''memory'' ''process_memory_limit_bytes'')
        ''The size of the user-mode portion of the virtual address space of the calling process, in bytes. This value depends on the type of process, the type of processor, and the configuration of the operating system.'' []),
      (''physicalMemoryTotalBytes'', NewDesc (BuildFQName Namespace ''memory'' ''physical_total_bytes'')
        ''The amount of actual physical memory, in bytes.'' []),
      (''physicalMemoryFreeBytes'', NewDesc (BuildFQName Namespace ''memory'' ''physical_free_bytes'')
        ''The amount of physical memory currently available, in bytes. This is the amount of physical memory that can be immediately reused without having to write its contents to disk first. It is the sum of the size of the standby, free, and zero lists.'' [])]"

definition memory_lines :: "row \<Rightarrow> line list" where
  "memory_lines r =
     [(''availableBytes'', GaugeValue, num memory_fields r ''AvailableBytes'', []),
      (''cacheBytes'', GaugeValue, num memory_fields r ''CacheBytes'', []),
      (''cacheBytesPeak'', GaugeValue, num memory_fields r ''CacheBytesPeak'', []),
      (''cacheFaultsTotal'', CounterValue, num memory_fields r ''CacheFaultsPerSec'', []),
      (''commitLimit'', GaugeValue, num memory_fields r ''CommitLimit'', []),
      (''committedBytes'', GaugeValue, num memory_fields r ''CommittedBytes'', []),
      (''demandZeroFaultsTotal'', CounterValue, num memory_fields r ''DemandZeroFaultsPerSec'', []),
      (''freeAndZeroPageListBytes'', GaugeValue, num memory_fields r ''FreeAndZeroPageListBytes'', []),
      (''freeSystemPageTableEntries'', GaugeValue, num memory_fields r ''FreeSystemPageTableEntries'', []),
      (''modifiedPageListBytes'', GaugeValue, num memory_fields r ''ModifiedPageListBytes'', []),
      (''pageFaultsTotal'', CounterValue, num memory_fields r ''PageFaultsPerSec'', []),
      (''swapPageReadsTotal'', CounterValue, num memory_fields r ''PageReadsPerSec'', []),
      (''swapPagesReadTotal'', CounterValue, num memory_fields r ''PagesInputPerSec'', []),
      (''swapPagesWrittenTotal'', CounterValue, num memory_fields r ''PagesOutputPerSec'', []),
      (''swapPageOperationsTotal'', CounterValue, num memory_fields r ''PagesPerSec'', []),
      (''swapPageWritesTotal'', CounterValue, num memory_fields r ''PageWritesPerSec'', []),
      (''poolNonPagedAllocationsTotal'', GaugeValue, num memory_fields r ''PoolNonpagedAllocs'', []),
      (''poolNonPagedBytes'', GaugeValue, num memory_fields r ''PoolNonpagedBytes'', []),
      (''poolPagedAllocationsTotal'', CounterValue, num memory_fields r ''PoolPagedAllocs'', []),
      (''poolPagedBytes'', GaugeValue, num memory_fields r ''PoolPagedBytes'', []),
      (''poolPagedResidentBytes'', GaugeValue, num memory_fields r ''PoolPagedResidentBytes'', []),
      (''standbyCacheCoreBytes'', GaugeValue, num memory_fields r ''StandbyCacheCoreBytes'', []),
      (''standbyCacheNormalPriorityBytes'', GaugeValue, num memory_fields r ''StandbyCacheNormalPriorityBytes'', []),
      (''standbyCacheReserveBytes'', GaugeValue, num memory_fields r ''StandbyCacheReserveBytes'', []),
      (''systemCacheResidentBytes'', GaugeValue, num memory_fields r ''SystemCacheResidentBytes'', []),
      (''systemCodeResidentBytes'', GaugeValue, num memory_fields r ''SystemCodeResidentBytes'', []),
      (''systemCodeTotalBytes'', GaugeValue, num memory_fields r ''SystemCodeTotalBytes'', []),
      (''systemDriverResidentBytes'', GaugeValue, num memory_fields r ''SystemDriverResidentBytes'', []),
      (''systemDriverTotalBytes'', GaugeValue, num memory_fields r ''SystemDriverTotalBytes'', []),
      (''transitionFaultsTotal'', CounterValue, num memory_fields r ''TransitionFaultsPerSec'', []),
      (''transitionPagesRepurposedTotal'', CounterValue, num memory_fields r ''TransitionPagesRePurposedPerSec'', []),
      (''writeCopiesTotal'', CounterValue, num memory_fields r ''WriteCopiesPerSec'', [])]"

text \<open>\<open>GlobalMemoryStatusEx\<close>: the sizes that are reported.\<close>

record memoryStatusEx =
  TotalPhys :: u64
  AvailPhys :: u64
  TotalVirtual :: u64

definition memory_Build :: "'w pdh_api \<Rightarrow> u16 \<Rightarrow> 'w \<Rightarrow> (go_error option \<times> perfSource \<times> 'w) option" where
  "memory_Build api osBuild w =
     perfBuild api osBuild ''failed to create Memory collector: %w'' ''Memory'' [''*''] memory_fields w"

definition collectPDH :: "'w pdh_api \<Rightarrow> perfSource \<Rightarrow> 'w \<Rightarrow> (perfSource, 'w) collected" where
  "collectPDH api =
     collectWith api memory_fields ''failed to collect Memory metrics: %w'' memory_descs
       (firstRow ''failed to collect Memory metrics: %w'' memory_lines)"

definition memory_status_lines :: "memoryStatusEx \<Rightarrow> line list" where
  "memory_status_lines m =
     [(''processMemoryLimitBytes'', GaugeValue, f64_of_int (uint (TotalVirtual m)), []),
      (''physicalMemoryTotalBytes'', GaugeValue, f64_of_int (uint (TotalPhys m)), []),
      (''physicalMemoryFreeBytes'', GaugeValue, f64_of_int (uint (AvailPhys m)), [])]"

definition collectGlobalMemoryStatus :: "go_error + memoryStatusEx \<Rightarrow> (go_error option \<times> metric list) option" where
  "collectGlobalMemoryStatus r =
     (case r of
        Inl e \<Rightarrow> Some (Some (Wrapf ''failed to get memory status: %w'' [] e), [])
      | Inr m \<Rightarrow> map_option (Pair None) (sendAll memory_descs (memory_status_lines m)))"

definition memory_Collect ::
  "'w pdh_api \<Rightarrow> go_error + memoryStatusEx \<Rightarrow> perfSource \<Rightarrow> 'w \<Rightarrow> (perfSource, 'w) collected" where
  "memory_Collect api status src w =
     (case collectPDH api src w of
        None \<Rightarrow> None
      | Some (e1, ms1, src', w') \<Rightarrow>
          (case collectGlobalMemoryStatus status of
             None \<Rightarrow> None
           | Some (e2, ms2) \<Rightarrow>
               Some (errors_Join (non_nil [map_option (Wrapf ''failed collecting memory metrics: %w'' []) e1,
                                           map_option (Wrapf ''failed collecting global memory metrics: %w'' []) e2]),
                     ms1 @ ms2, src', w')))"

section \<open>cpu\<close>

definition cpu_fields :: "structField list" where
  "cpu_fields =
     [nameField,
      perfField ''C1TimeSeconds'' ''% C1 Time'',
      perfField ''C2TimeSeconds'' ''% C2 Time'',
      perfField ''C3TimeSeconds'' ''% C3 Time'',
      perfField ''C1TransitionsTotal'' ''C1 Transitions/sec'',
      perfField ''C2TransitionsTotal'' ''C2 Transitions/sec'',
      perfField ''C3TransitionsTotal'' ''C3 Transitions/sec'',
      perfField ''ClockInterruptsTotal'' ''Clock Interrupts/sec'',
      perfField ''DpcQueuedPerSecond'' ''DPCs Queued/sec'',
      perfField ''DpcTimeSeconds'' ''% DPC Time'',
      perfField ''IdleBreakEventsTotal'' ''Idle Break Events/sec'',
      perfField ''IdleTimeSeconds'' ''% Idle Time'',
      perfField ''InterruptsTotal'' ''Interrupts/sec'',
      perfField ''InterruptTimeSeconds'' ''% Interrupt Time'',
      perfField ''ParkingStatus'' ''Parking Status'',
      perfField ''PerformanceLimitPercent'' ''% Performance Limit'',
      perfField ''PriorityTimeSeconds'' ''% Priority Time'',
      perfField ''PrivilegedTimeSeconds'' ''% Privileged Time'',
      perfField ''PrivilegedUtilitySeconds'' ''% Privileged Utility'',
      perfField ''ProcessorFrequencyMHz'' ''Processor Frequency'',
      perfField ''ProcessorPerformance'' ''% Processor Performance'',
      perfField ''ProcessorPerformanceSecondValue'' ''% Processor Performance,secondvalue'',
      perfField ''ProcessorTimeSeconds'' ''% Processor Time'',
      perfField ''ProcessorUtilityRate'' ''% Processor Utility'',
      perfField ''ProcessorUtilityRateSecondValue'' ''% Processor Utility,secondvalue'',
      perfField ''UserTimeSeconds'' ''% User Time'']"

definition cpu_descs :: descTable where
  "cpu_descs =
     [(''logicalProcessors'', NewDesc (BuildFQName Namespace ''cpu'' ''logical_processor'')
        ''Total number of logical processors'' []),
      (''cStateSecondsTotal'', NewDesc (BuildFQName Namespace ''cpu'' ''cstate_seconds_total'')
        ''Time spent in low-power idle state'' [''core'', ''state'']),
      (''timeTotal'', NewDesc (BuildFQName Namespace ''cpu'' ''time_total'')
        ''Time that processor spent in different modes (dpc, idle, interrupt, privileged, user)'' [''core'', ''mode'']),
      (''interruptsTotal'', NewDesc (BuildFQName Namespace ''cpu'' ''interrupts_total'')
        ''Total number of received and serviced hardware interrupts'' [''core'']),
      (''dpcsTotal'', NewDesc (BuildFQName Namespace ''cpu'' ''dpcs_total'')
        ''Total number of received and serviced deferred procedure calls (DPCs)'' [''core'']),
      (''clockInterruptsTotal'', NewDesc (BuildFQName Namespace ''cpu'' ''clock_interrupts_total'')
        ''Total number of received and serviced clock tick interrupts'' [''core'']),
      (''idleBreakEventsTotal'', NewDesc (BuildFQName Namespace ''cpu'' ''idle_break_events_total'')
        ''Total number of time processor was woken from idle'' [''core'']),
      (''parkingStatus'', NewDesc (BuildFQName Namespace ''cpu'' ''parking_status'')
        ''Parking Status represents whether a processor is parked or not'' [''core'']),
      (''processorFrequencyMHz'', NewDesc (BuildFQName Namespace ''cpu'' ''core_frequency_mhz'')
        ''Core frequency in megahertz'' [''core'']),
      (''processorPerformance'', NewDesc (BuildFQName Namespace ''cpu'' ''processor_performance_total'')
        ''Processor Performance is the average performance of the processor while it is executing instructions, as a percentage of the nominal performance of the processor. On some processors, Processor Performance may exceed 100%'' [''core'']),
      (''processorMPerf'', NewDesc (BuildFQName Namespace ''cpu'' ''processor_mperf_total'')
        ''Processor MPerf is the number of TSC ticks incremented while executing instructions'' [''core'']),
      (''processorRTC'', NewDesc (BuildFQName Namespace ''cpu'' ''processor_rtc_total'')
        ''Processor RTC represents the number of RTC ticks made since the system booted. It should consistently be 64e6, and can be used to properly derive Processor Utility Rate'' [''core'']),
      (''processorUtility'', NewDesc (BuildFQName Namespace ''cpu'' ''processor_utility_total'')
        ''Processor Utility represents is the amount of time the core spends executing instructions'' [''core'']),
      (''processorPrivilegedUtility'', NewDesc (BuildFQName Namespace ''cpu'' ''processor_privileged_utility_total'')
        ''Processor Privileged Utility represents is the amount of time the core has spent executing instructions inside the kernel'' [''core''])]"

definition cpu_lines :: "Counter \<Rightarrow> Counter \<Rightarrow> row \<Rightarrow> line list" where
  "cpu_lines rtc mperf r =
     [(''cStateSecondsTotal'', CounterValue, num cpu_fields r ''C1TimeSeconds'', [rowName cpu_fields r, ''c1'']),
      (''cStateSecondsTotal'', CounterValue, num cpu_fields r ''C2TimeSeconds'', [rowName cpu_fields r, ''c2'']),
      (''cStateSecondsTotal'', CounterValue, num cpu_fields r ''C3TimeSeconds'', [rowName cpu_fields r, ''c3'']),
      (''timeTotal'', CounterValue, num cpu_fields r ''IdleTimeSeconds'', [rowName cpu_fields r, ''idle'']),
      (''timeTotal'', CounterValue, num cpu_fields r ''InterruptTimeSeconds'', [rowName cpu_fields r, ''interrupt'']),
      (''timeTotal'', CounterValue, num cpu_fields r ''DpcTimeSeconds'', [rowName cpu_fields r, ''dpc'']),
      (''timeTotal'', CounterValue, num cpu_fields r ''PrivilegedTimeSeconds'', [rowName cpu_fields r, ''privileged'']),
      (''timeTotal'', CounterValue, num cpu_fields r ''UserTimeSeconds'', [rowName cpu_fields r, ''user'']),
      (''interruptsTotal'', CounterValue, num cpu_fields r ''InterruptsTotal'', [rowName cpu_fields r]),
      (''dpcsTotal'', CounterValue, num cpu_fields r ''DpcQueuedPerSecond'', [rowName cpu_fields r]),
      (''clockInterruptsTotal'', CounterValue, num cpu_fields r ''ClockInterruptsTotal'', [rowName cpu_fields r]),
      (''idleBreakEventsTotal'', CounterValue, num cpu_fields r ''IdleBreakEventsTotal'', [rowName cpu_fields r]),
      (''parkingStatus'', GaugeValue, num cpu_fields r ''ParkingStatus'', [rowName cpu_fields r]),
      (''processorFrequencyMHz'', GaugeValue, num cpu_fields r ''ProcessorFrequencyMHz'', [rowName cpu_fields r]),
      (''processorPerformance'', CounterValue, num cpu_fields r ''ProcessorPerformance'', [rowName cpu_fields r]),
      (''processorMPerf'', CounterValue, Value mperf, [rowName cpu_fields r]),
      (''processorRTC'', CounterValue, Value rtc, [rowName cpu_fields r]),
      (''processorUtility'', CounterValue, num cpu_fields r ''ProcessorUtilityRate'', [rowName cpu_fields r]),
      (''processorPrivilegedUtility'', CounterValue, num cpu_fields r ''PrivilegedUtilitySeconds'', [rowName cpu_fields r])]"

record cpuCollector =
  cpuSource :: perfSource
  processorRTCValues :: "(string, Counter) gomap"
  processorMPerfValues :: "(string, Counter) gomap"

definition cpu_Build :: "'w pdh_api \<Rightarrow> u16 \<Rightarrow> 'w \<Rightarrow> (go_error option \<times> cpuCollector \<times> 'w) option" where
  "cpu_Build api osBuild w =
     map_option (\<lambda>(err, src, w'). (err, \<lparr>cpuSource = src, processorRTCValues = [], processorMPerfValues = []\<rparr>, w'))
       (perfBuild api osBuild ''failed to create Processor Information collector: %w'' ''Processor Information'' [''*''] cpu_fields w)"

text \<open>The counter of a core, advanced to a reading or created from the first one.\<close>

definition countReading :: "u32 \<Rightarrow> Counter option \<Rightarrow> Counter" where
  "countReading v c = (case c of Some c' \<Rightarrow> AddValue v c' | None \<Rightarrow> NewCounter v)"

text \<open>
  The body of the loop over the cores. \<open>toU32\<close> is the conversion \<open>uint32(x)\<close>, which Go defines for values
  that \<open>uint32\<close> can hold.
\<close>

definition cpu_row :: "(f64 \<Rightarrow> u32) \<Rightarrow> row \<Rightarrow> cpuCollector \<Rightarrow> line list \<times> cpuCollector" where
  "cpu_row toU32 r c =
     (let core = rowName cpu_fields r;
          rtc = countReading (toU32 (num cpu_fields r ''ProcessorUtilityRateSecondValue'')) (map_get (processorRTCValues c) core);
          mperf = countReading (toU32 (num cpu_fields r ''ProcessorPerformanceSecondValue'')) (map_get (processorMPerfValues c) core)
      in (cpu_lines rtc mperf r,
          c\<lparr>processorRTCValues := map_set core rtc (processorRTCValues c),
            processorMPerfValues := map_set core mperf (processorMPerfValues c)\<rparr>))"

fun cpu_rows :: "(f64 \<Rightarrow> u32) \<Rightarrow> row list \<Rightarrow> cpuCollector \<Rightarrow> line list \<times> cpuCollector" where
  "cpu_rows toU32 [] c = ([], c)"
| "cpu_rows toU32 (r # rs) c =
     (case cpu_row toU32 r c of
        (lns, c1) \<Rightarrow> (case cpu_rows toU32 rs c1 of (lns', c2) \<Rightarrow> (lns @ lns', c2)))"

definition logical_processor_line :: "row list \<Rightarrow> line" where
  "logical_processor_line rs = (''logicalProcessors'', GaugeValue, (f64_inc ^^ length rs) (F_Fin 0), [])"

definition cpu_Collect :: "(f64 \<Rightarrow> u32) \<Rightarrow> 'w pdh_api \<Rightarrow> cpuCollector \<Rightarrow> 'w \<Rightarrow> (cpuCollector, 'w) collected" where
  "cpu_Collect toU32 api c w =
     (case perfCollect api cpu_fields (cpuSource c) w of
        None \<Rightarrow> None
      | Some (Some e, src, w') \<Rightarrow>
          Some (Some (Wrapf ''failed to collect Processor Information metrics: %w'' [] e), [], c\<lparr>cpuSource := src\<rparr>, w')
      | Some (None, src, w') \<Rightarrow>
          (case cpu_rows toU32 (perfDataObject src) (c\<lparr>cpuSource := src\<rparr>) of
             (lns, c') \<Rightarrow>
               (case sendAll cpu_descs (lns @ [logical_processor_line (perfDataObject src)]) of
                  None \<Rightarrow> None
                | Some ms \<Rightarrow> Some (None, ms, c', w'))))"

section \<open>The tables\<close>

lemma system_names: "distinct (map (\<lambda>(n, d). fqName d) system_descs)" by code_simp

lemma memory_names: "distinct (map (\<lambda>(n, d). fqName d) memory_descs)" by code_simp

lemma cpu_names: "distinct (map (\<lambda>(n, d). fqName d) cpu_descs)" by code_simp

lemma system_table: "table_ok system_descs (system_lines b r)"
  by (rule table_ok_names; unfold system_lines_def line_simps) code_simp+

lemma memory_table: "table_ok memory_descs (memory_lines r)"
  by (rule table_ok_names; unfold memory_lines_def line_simps) code_simp+

lemma memory_status_table: "table_ok memory_descs (memory_status_lines r)"
  by (rule table_ok_names; unfold memory_status_lines_def line_simps) code_simp+

lemma cpu_table: "table_ok cpu_descs (cpu_lines rtc mperf r)"
  by (rule table_ok_tails; unfold cpu_lines_def line_simps) code_simp+

interpretation system: perf_table system_descs "system_lines b"
  by unfold_locales (rule system_names system_table)+

interpretation memory: perf_table memory_descs memory_lines
  by unfold_locales (rule memory_names memory_table)+

interpretation memory_status: perf_table memory_descs memory_status_lines
  by unfold_locales (rule memory_names memory_status_table)+

interpretation cpu: keyed_table cpu_descs "\<lambda>(rtc, mperf, r). cpu_lines rtc mperf r" "\<lambda>(rtc, mperf, r). rowName cpu_fields r" "\<lambda>n. 0"
proof unfold_locales
  show "distinct (map (\<lambda>(n, d). fqName d) cpu_descs)" by (rule cpu_names)
  show "table_ok cpu_descs (case x of (rtc, mperf, r) \<Rightarrow> cpu_lines rtc mperf r)" for x by (cases x) (simp add: cpu_table)
  show "list_all (\<lambda>(n, vt, v, ls). 0 < length ls \<and> ls ! 0 = (case x of (rtc, mperf, r) \<Rightarrow> rowName cpu_fields r))
      (case x of (rtc, mperf, r) \<Rightarrow> cpu_lines rtc mperf r)" for x by (cases x) (simp add: cpu_lines_def)
qed


section \<open>Properties of the cpu collector\<close>

lemma cpu_row_source [simp]: "cpuSource (snd (cpu_row toU32 r c)) = cpuSource c"
  by (simp add: cpu_row_def Let_def)

lemma cpu_rows_source [simp]: "cpuSource (snd (cpu_rows toU32 rs c)) = cpuSource c"
proof (induction rs arbitrary: c)
  case (Cons r rs)
  then show ?case by (auto split: prod.splits) (metis cpu_row_source snd_conv)
qed simp

lemma cpu_rows_sourceD: "cpu_rows toU32 rs c = (lns, c') \<Longrightarrow> cpuSource c' = cpuSource c"
  using cpu_rows_source [of toU32 rs c] by simp

text \<open>The metrics of the loop are those of the table, with some counters for every row.\<close>

lemma cpu_rows_lines:
  "\<exists>xs. fst (cpu_rows toU32 rs c) = concat (map (\<lambda>(rtc, mperf, r). cpu_lines rtc mperf r) xs) \<and> map (\<lambda>(rtc, mperf, r). r) xs = rs"
proof (induction rs arbitrary: c)
  case Nil
  then show ?case by simp
next
  case (Cons r rs)
  obtain lns c1 where step: "cpu_row toU32 r c = (lns, c1)" by fastforce
  then obtain rtc mperf where lns: "lns = cpu_lines rtc mperf r" by (auto simp: cpu_row_def Let_def)
  obtain xs where "fst (cpu_rows toU32 rs c1) = concat (map (\<lambda>(rtc, mperf, r). cpu_lines rtc mperf r) xs)" "map (\<lambda>(rtc, mperf, r). r) xs = rs"
    using Cons.IH by blast
  then show ?case using step lns by (intro exI [of _ "(rtc, mperf, r) # xs"]) (auto split: prod.splits)
qed

lemma cpu_total_accepted:
  assumes "distinct (map (rowName cpu_fields) rs)"
  shows "accepted (sendAll cpu_descs (fst (cpu_rows toU32 rs c) @ [logical_processor_line rs]))"
proof (rule cpu.sendAll_accepted)
  obtain xs where xs: "fst (cpu_rows toU32 rs c) = concat (map (\<lambda>(rtc, mperf, r). cpu_lines rtc mperf r) xs)" "map (\<lambda>(rtc, mperf, r). r) xs = rs"
    using cpu_rows_lines by blast
  have "map (\<lambda>(rtc, mperf, r). rowName cpu_fields r) xs = map (rowName cpu_fields) rs" unfolding xs(2) [symmetric] by auto
  then have rows: "table_ok cpu_descs (fst (cpu_rows toU32 rs c))"
    unfolding xs(1) using cpu.rows_ok assms by metis
  have "n \<noteq> ''logicalProcessors''" if "(n, vt, v, ls) \<in> set (fst (cpu_rows toU32 rs c))" for n vt v ls
    using that unfolding xs(1) by (auto simp: cpu_lines_def)
  moreover have "map_of cpu_descs ''logicalProcessors'' =
      Some (NewDesc (BuildFQName Namespace ''cpu'' ''logical_processor'') ''Total number of logical processors'' [])"
    by (simp add: cpu_descs_def)
  ultimately show "table_ok cpu_descs (fst (cpu_rows toU32 rs c) @ [logical_processor_line rs])"
    using rows by (auto simp: table_ok_def logical_processor_line_def)
qed

interpretation cpu_contract: perf_contract "cpu_Build api osBuild" "cpu_Collect toU32 api" "\<lambda>c. source_ok cpu_fields (cpuSource c)"
  "\<lambda>c w. perfCollect api cpu_fields (cpuSource c) w = None"
proof
  show "source_ok cpu_fields (cpuSource c)" if "cpu_Build api osBuild w = Some (None, c, w')" for w c w'
    using that by (auto simp: cpu_Build_def dest: perfBuild_ok)
next
  fix c c' :: cpuCollector and w err ms w'
  assume ok: "source_ok cpu_fields (cpuSource c)" and coll: "cpu_Collect toU32 api c w = Some (err, ms, c', w')"
  obtain e src w1 where p: "perfCollect api cpu_fields (cpuSource c) w = Some (e, src, w1)"
    using coll by (cases "perfCollect api cpu_fields (cpuSource c) w") (auto simp: cpu_Collect_def)
  have "cpuSource c' = src"
    using coll p by (auto simp: cpu_Collect_def dest: cpu_rows_sourceD split: option.splits prod.splits)
  then show "source_ok cpu_fields (cpuSource c')" using perfCollect_ok [OF ok p] by simp
next
  fix c :: cpuCollector and w
  assume ok: "source_ok cpu_fields (cpuSource c)"
  have name: "fieldIndex ''Name'' KString 0 cpu_fields = Some 0" by (simp add: cpu_fields_def nameField_def)
  show "scrape_ok (perfCollect api cpu_fields (cpuSource c) w = None) (cpu_Collect toU32 api c w)"
  proof (cases "\<exists>src w1. perfCollect api cpu_fields (cpuSource c) w = Some (None, src, w1)")
    case True
    then obtain src w1 where p: "perfCollect api cpu_fields (cpuSource c) w = Some (None, src, w1)" by blast
    obtain lns c' where l: "cpu_rows toU32 (perfDataObject src) (c\<lparr>cpuSource := src\<rparr>) = (lns, c')" by fastforce
    show ?thesis
      using cpu_total_accepted [OF perfCollect_names [OF ok name p], of toU32 "c\<lparr>cpuSource := src\<rparr>"] p l
      by (auto simp: cpu_Collect_def scrape_ok_def accepted_def split: option.splits)
  next
    case False
    then show ?thesis by (auto simp: cpu_Collect_def scrape_ok_def split: option.splits)
  qed
qed

text \<open>
  Whatever the PDH functions answer, every scrape of a cpu collector, in every state that it can
  reach after a \<open>Build\<close> without an error, is accepted by the Prometheus library: no panic in making the
  metrics, the right number of labels, and no series twice.
\<close>

theorem cpu_always_accepted:
  "reachable (cpu_Build api osBuild) (cpu_Collect toU32 api) \<subseteq>
     {c. \<forall>w. scrape_ok (perfCollect api cpu_fields (cpuSource c) w = None) (cpu_Collect toU32 api c w)}"
  by (rule cpu_contract.reachable_ok)


section \<open>The counters across scrapes\<close>

text \<open>The readings of a core's real-time counter, over the rows of several scrapes.\<close>

definition rtc_readings :: "(f64 \<Rightarrow> u32) \<Rightarrow> string \<Rightarrow> row list \<Rightarrow> u32 list" where
  "rtc_readings toU32 core rs =
     map (\<lambda>r. toU32 (num cpu_fields r ''ProcessorUtilityRateSecondValue'')) (filter (\<lambda>r. rowName cpu_fields r = core) rs)"

definition count_all :: "u32 list \<Rightarrow> Counter option \<Rightarrow> Counter option" where
  "count_all vs co = fold (\<lambda>v co. Some (countReading v co)) vs co"

lemma count_all_simps [simp]:
  "count_all [] co = co" "count_all (v # vs) co = count_all vs (Some (countReading v co))"
  "count_all (vs @ us) co = count_all us (count_all vs co)"
  by (simp_all add: count_all_def)

lemma count_all_Some: "count_all vs (Some c) = Some (fold AddValue vs c)"
  by (induction vs arbitrary: c) (simp_all add: countReading_def)

lemma cpu_rows_counts:
  "map_get (processorRTCValues (snd (cpu_rows toU32 rs c))) core = count_all (rtc_readings toU32 core rs) (map_get (processorRTCValues c) core)"
proof (induction rs arbitrary: c)
  case Nil
  then show ?case by (simp add: rtc_readings_def)
next
  case (Cons r rs)
  have "map_get (processorRTCValues (snd (cpu_row toU32 r c))) core = count_all (rtc_readings toU32 core [r]) (map_get (processorRTCValues c) core)"
    by (simp add: cpu_row_def rtc_readings_def Let_def)
  moreover have "rtc_readings toU32 core (r # rs) = rtc_readings toU32 core [r] @ rtc_readings toU32 core rs"
    by (simp add: rtc_readings_def)
  ultimately show ?case using Cons [of "snd (cpu_row toU32 r c)"] by (auto split: prod.splits)
qed

definition cpu_scrapes :: "(f64 \<Rightarrow> u32) \<Rightarrow> row list list \<Rightarrow> cpuCollector \<Rightarrow> cpuCollector" where
  "cpu_scrapes toU32 rss c = fold (\<lambda>rs c. snd (cpu_rows toU32 rs c)) rss c"

lemma cpu_scrapes_counts:
  "map_get (processorRTCValues (cpu_scrapes toU32 rss c)) core =
     count_all (rtc_readings toU32 core (concat rss)) (map_get (processorRTCValues c) core)"
  unfolding cpu_scrapes_def
  by (induction rss arbitrary: c) (simp_all add: cpu_rows_counts rtc_readings_def)

text \<open>The value that is sent for a core is that of its counter after the row.\<close>

lemma cpu_rows_sends:
  assumes "distinct (map (rowName cpu_fields) rs)" and "r \<in> set rs"
  shows "(''processorRTC'', CounterValue, Value (the (map_get (processorRTCValues (snd (cpu_rows toU32 rs c))) (rowName cpu_fields r))),
    [rowName cpu_fields r]) \<in> set (fst (cpu_rows toU32 rs c))"
  using assms
proof (induction rs arbitrary: c)
  case Nil
  then show ?case by simp
next
  case (Cons r' rs)
  let ?c1 = "snd (cpu_row toU32 r' c)"
  have split: "fst (cpu_rows toU32 (r' # rs) c) = fst (cpu_row toU32 r' c) @ fst (cpu_rows toU32 rs ?c1)"
    "snd (cpu_rows toU32 (r' # rs) c) = snd (cpu_rows toU32 rs ?c1)"
    by (simp_all split: prod.splits)
  show ?case
  proof (cases "r = r'")
    case False
    then show ?thesis using Cons.IH [of ?c1] Cons.prems unfolding split by simp
  next
    case True
    have "rtc_readings toU32 (rowName cpu_fields r) rs = []"
      using Cons.prems(1) True by (fastforce simp: rtc_readings_def filter_empty_conv image_iff)
    then have "map_get (processorRTCValues (snd (cpu_rows toU32 rs ?c1))) (rowName cpu_fields r) = map_get (processorRTCValues ?c1) (rowName cpu_fields r)"
      by (simp add: cpu_rows_counts)
    then show ?thesis unfolding split True by (simp add: cpu_row_def cpu_lines_def Let_def)
  qed
qed

text \<open>
  C27: The metric \<open>windows_cpu_processor_rtc_total\<close> of a core is the exact number of ticks since the core
  was first seen, although PDH delivers the tick count modulo $2^{32}$ only: the readings of
  the core over all scrapes, in any order of the cores in each of them, are put together by the counter that
  the collector keeps for the core. (The help text of the metric says since the system booted.)
\<close>

theorem cpu_rtc_exact:
  assumes "processorRTCValues c = []" and "distinct (map (rowName cpu_fields) rs)" and "r \<in> set rs"
    and "rtc_readings toU32 (rowName cpu_fields r) (concat rss @ rs) = map word_of_nat (t # ts)"
    and "slow t ts" and "last (t # ts) - t \<le> 2 ^ 53"
  shows "(''processorRTC'', CounterValue, f64_nat (last (t # ts) - t), [rowName cpu_fields r])
    \<in> set (fst (cpu_rows toU32 rs (cpu_scrapes toU32 rss c)))"
proof -
  let ?core = "rowName cpu_fields r"
  have "map_get (processorRTCValues (snd (cpu_rows toU32 rs (cpu_scrapes toU32 rss c)))) ?core =
      count_all (rtc_readings toU32 ?core (concat rss @ rs)) None"
    using assms(1) by (simp add: cpu_rows_counts cpu_scrapes_counts rtc_readings_def)
  also have "\<dots> = Some (fold AddValue (map word_of_nat ts) (NewCounter (word_of_nat t)))"
    unfolding assms(4) by (simp add: count_all_Some countReading_def)
  finally have "Value (the (map_get (processorRTCValues (snd (cpu_rows toU32 rs (cpu_scrapes toU32 rss c)))) ?core)) = f64_nat (last (t # ts) - t)"
    using counter_distance [OF assms(5,6)] by simp
  then show ?thesis using cpu_rows_sends [OF assms(2,3), of toU32 "cpu_scrapes toU32 rss c"] by simp
qed

definition sampleCore :: "string \<Rightarrow> nat \<Rightarrow> row" where
  "sampleCore n v = map (\<lambda>f. if fName f = ''Name'' then VString n
     else if fName f = ''ProcessorUtilityRateSecondValue'' then VFloat (f64_nat v) else VFloat (F_Fin 0)) cpu_fields"

definition sampleToU32 :: "f64 \<Rightarrow> u32" where
  "sampleToU32 x = (case f64_to_int64 x of Some n \<Rightarrow> word_of_int n | None \<Rightarrow> 0)"

lemma sample_core:
  "rowName cpu_fields (sampleCore n v) = n" "num cpu_fields (sampleCore n v) ''ProcessorUtilityRateSecondValue'' = f64_nat v"
  by (simp_all add: rowName_def num_def sampleCore_def cpu_fields_def perfField_def nameField_def)

theorem cpu_rtc_exact_witness:
  "(''processorRTC'', CounterValue, f64_nat 200, [''0,1''])
    \<in> set (fst (cpu_rows sampleToU32 [sampleCore ''0,0'' 7, sampleCore ''0,1'' 104]
        (cpu_scrapes sampleToU32 [[sampleCore ''0,1'' 4294967200, sampleCore ''0,0'' 5]]
           \<lparr>cpuSource = \<lparr>perfDataCollector = None, perfDataObject = []\<rparr>, processorRTCValues = [], processorMPerfValues = []\<rparr>)))"
proof -
  have conv: "sampleToU32 (F_Fin 104) = 104" "sampleToU32 (F_Fin 4294967200) = 4294967200" "(4294967400 :: u32) = 104"
    by (simp_all add: sampleToU32_def f64_to_int64_def)
  show ?thesis
    using cpu_rtc_exact [of "\<lparr>cpuSource = \<lparr>perfDataCollector = None, perfDataObject = []\<rparr>, processorRTCValues = [], processorMPerfValues = []\<rparr>"
        "[sampleCore ''0,0'' 7, sampleCore ''0,1'' 104]" "sampleCore ''0,1'' 104" sampleToU32
        "[[sampleCore ''0,1'' 4294967200, sampleCore ''0,0'' 5]]" 4294967200 "[4294967400]"]
    by (simp add: sample_core rtc_readings_def conv)
qed

end
