(* ===== verification/Perf_Net.thy ===== *)
theory Perf_Net
  imports Pdh_Names
begin

text \<open>
  The network collectors (internal/collector/net, tcp and udp) and the table of TCP connections
  (internal/headers/iphlpapi), whose system calls are parameters.
\<close>

section \<open>iphlpapi\<close>

text \<open>
  \<open>getExtendedTcpTable\<close>: the answers to the query of the size and to the query of the data. Only the state of a row
  matters to the callers here. A buffer of no bytes has no first element: \<^term>\<open>None\<close> is that panic.
\<close>

record tcpTable =
  sizeRet :: u32
  tableSize :: u32
  dataRet :: u32
  rowStates :: "u32 list"

definition ERROR_INSUFFICIENT_BUFFER :: u32 where "ERROR_INSUFFICIENT_BUFFER = 122"

definition getExtendedTcpTable :: "tcpTable \<Rightarrow> (go_error + u32 list) option" where
  "getExtendedTcpTable t =
     (if sizeRet t \<noteq> ERROR_INSUFFICIENT_BUFFER
      then Some (Inl (ErrorText ''getExtendedTcpTable (size query) failed with code %d'' []))
      else if tableSize t = 0 then None
      else if dataRet t \<noteq> 0 then Some (Inl (ErrorText ''getExtendedTcpTable (data query) failed with code %d'' []))
      else Some (Inr (rowStates t)))"

definition countStates :: "u32 list \<Rightarrow> (u32, u32) gomap" where
  "countStates ss = fold (map_inc (\<lambda>n. n + 1) 0) ss []"

definition AF_INET :: u32 where "AF_INET = 2"
definition AF_INET6 :: u32 where "AF_INET6 = 23"

definition GetTCPConnectionStates :: "(u32 \<Rightarrow> tcpTable) \<Rightarrow> u32 \<Rightarrow> (go_error + (u32, u32) gomap) option" where
  "GetTCPConnectionStates tables family =
     (if family = AF_INET \<or> family = AF_INET6
      then map_option (map_sum id countStates) (getExtendedTcpTable (tables family))
      else Some (Inl (ErrorText ''unsupported address family %d'' [show_nat (unat family)])))"

definition tcpStateNames :: "(u32 \<times> string) list" where
  "tcpStateNames =
     [(1, ''CLOSED''), (2, ''LISTENING''), (3, ''SYN_SENT''), (4, ''SYN_RECEIVED''), (5, ''ESTABLISHED''), (6, ''FIN_WAIT1''),
      (7, ''FIN_WAIT2''), (8, ''CLOSE_WAIT''), (9, ''CLOSING''), (10, ''LAST_ACK''), (11, ''TIME_WAIT''), (12, ''DELETE_TCB'')]"

definition MIB_TCP_STATE_String :: "u32 \<Rightarrow> string" where
  "MIB_TCP_STATE_String s = (case map_of tcpStateNames s of Some n \<Rightarrow> n | None \<Rightarrow> ''UNKNOWN_'' @ show_nat (unat s))"

section \<open>tcp\<close>

definition tcp_fields :: "structField list" where
  "tcp_fields =
     [perfField ''ConnectionFailures'' ''Connection Failures'',
      perfField ''ConnectionsActive'' ''Connections Active'',
      perfField ''ConnectionsEstablished'' ''Connections Established'',
      perfField ''ConnectionsPassive'' ''Connections Passive'',
      perfField ''ConnectionsReset'' ''Connections Reset'',
      perfField ''SegmentsPerSec'' ''Segments/sec'',
      perfField ''SegmentsReceivedPerSec'' ''Segments Received/sec'',
      perfField ''SegmentsRetransmittedPerSec'' ''Segments Retransmitted/sec'',
      perfField ''SegmentsSentPerSec'' ''Segments Sent/sec'']"

definition tcp_descs :: descTable where
  "tcp_descs =
     [(''connectionFailures'', NewDesc (BuildFQName Namespace ''tcp'' ''connection_failures_total'')
        ''(TCP.ConnectionFailures)'' [''af'']),
      (''connectionsActive'', NewDesc (BuildFQName Namespace ''tcp'' ''connections_active_total'')
        ''(TCP.ConnectionsActive)'' [''af'']),
      (''connectionsEstablished'', NewDesc (BuildFQName Namespace ''tcp'' ''connections_established'')
        ''(TCP.ConnectionsEstablished)'' [''af'']),
      (''connectionsPassive'', NewDesc (BuildFQName Namespace ''tcp'' ''connections_passive_total'')
        ''(TCP.ConnectionsPassive)'' [''af'']),
      (''connectionsReset'', NewDesc (BuildFQName Namespace ''tcp'' ''connections_reset_total'')
        ''(TCP.ConnectionsReset)'' [''af'']),
      (''segmentsTotal'', NewDesc (BuildFQName Namespace ''tcp'' ''segments_total'')
        ''(TCP.SegmentsTotal)'' [''af'']),
      (''segmentsReceivedTotal'', NewDesc (BuildFQName Namespace ''tcp'' ''segments_received_total'')
        ''(TCP.SegmentsReceivedTotal)'' [''af'']),
      (''segmentsRetransmittedTotal'', NewDesc (BuildFQName Namespace ''tcp'' ''segments_retransmitted_total'')
        ''(TCP.SegmentsRetransmittedTotal)'' [''af'']),
      (''segmentsSentTotal'', NewDesc (BuildFQName Namespace ''tcp'' ''segments_sent_total'')
        ''(TCP.SegmentsSentTotal)'' [''af'']),
      (''connectionsStateCount'', NewDesc (BuildFQName Namespace ''tcp'' ''connections_state_count'')
        ''Number of TCP connections by state and address family'' [''af'', ''state''])]"

definition tcp_lines :: "string list \<Rightarrow> row \<Rightarrow> line list" where
  "tcp_lines labels r =
     [(''connectionFailures'', CounterValue, num tcp_fields r ''ConnectionFailures'', labels),
      (''connectionsActive'', CounterValue, num tcp_fields r ''ConnectionsActive'', labels),
      (''connectionsEstablished'', GaugeValue, num tcp_fields r ''ConnectionsEstablished'', labels),
      (''connectionsPassive'', CounterValue, num tcp_fields r ''ConnectionsPassive'', labels),
      (''connectionsReset'', CounterValue, num tcp_fields r ''ConnectionsReset'', labels),
      (''segmentsTotal'', CounterValue, num tcp_fields r ''SegmentsPerSec'', labels),
      (''segmentsReceivedTotal'', CounterValue, num tcp_fields r ''SegmentsReceivedPerSec'', labels),
      (''segmentsRetransmittedTotal'', CounterValue, num tcp_fields r ''SegmentsRetransmittedPerSec'', labels),
      (''segmentsSentTotal'', CounterValue, num tcp_fields r ''SegmentsSentPerSec'', labels)]"

record tcpCollector =
  tcpEnabled :: "string list"
  tcpSource4 :: perfSource
  tcpSource6 :: perfSource

text \<open>\<open>Build\<close>; an error of the first object returns before the second is built.\<close>

definition buildPair ::
  "'w pdh_api \<Rightarrow> u16 \<Rightarrow> string \<times> string \<Rightarrow> string \<times> string \<Rightarrow> structField list \<Rightarrow> 'w \<Rightarrow>
   (go_error option \<times> (perfSource \<times> perfSource) \<times> 'w) option" where
  "buildPair api osBuild o4 o6 fs w =
     (case perfBuild api osBuild (snd o4) (fst o4) [] fs w of
        None \<Rightarrow> None
      | Some (Some e, s4, w1) \<Rightarrow> Some (Some e, (s4, \<lparr>perfDataCollector = None, perfDataObject = []\<rparr>), w1)
      | Some (None, s4, w1) \<Rightarrow>
          map_option (\<lambda>(err, s6, w2). (err, (s4, s6), w2)) (perfBuild api osBuild (snd o6) (fst o6) [] fs w1))"

definition tcp_Build :: "'w pdh_api \<Rightarrow> u16 \<Rightarrow> string list \<Rightarrow> 'w \<Rightarrow> (go_error option \<times> tcpCollector \<times> 'w) option" where
  "tcp_Build api osBuild enabled w =
     map_option (\<lambda>(err, (s4, s6), w'). (err, \<lparr>tcpEnabled = enabled, tcpSource4 = s4, tcpSource6 = s6\<rparr>, w'))
       (buildPair api osBuild (''TCPv4'', ''failed to create TCPv4 collector: %w'') (''TCPv6'', ''failed to create TCPv6 collector: %w'') tcp_fields w)"

text \<open>\<open>metrics[0]\<close>: no rows are a panic.\<close>

definition indexFirst :: "(row \<Rightarrow> line list) \<Rightarrow> row list \<Rightarrow> line list option" where
  "indexFirst lines rs = (case rs of [] \<Rightarrow> None | r # _ \<Rightarrow> Some (lines r))"

text \<open>The two address families in turn: what was sent for the first stays sent when the second fails.\<close>

definition collectPair ::
  "'w pdh_api \<Rightarrow> structField list \<Rightarrow> string \<Rightarrow> string \<Rightarrow> descTable \<Rightarrow> (string list \<Rightarrow> row \<Rightarrow> line list) \<Rightarrow> perfSource \<times> perfSource \<Rightarrow> 'w \<Rightarrow>
   (go_error option \<times> metric list \<times> (perfSource \<times> perfSource) \<times> 'w) option" where
  "collectPair api fs msg4 msg6 ds lines st w =
     (case perfCollect api fs (fst st) w of
        None \<Rightarrow> None
      | Some (Some e, s4, w1) \<Rightarrow> Some (Some (Wrapf msg4 [] e), [], (s4, snd st), w1)
      | Some (None, s4, w1) \<Rightarrow>
          (case Option.bind (indexFirst (lines [''ipv4'']) (perfDataObject s4)) (sendAll ds) of
             None \<Rightarrow> None
           | Some ms4 \<Rightarrow>
               (case perfCollect api fs (snd st) w1 of
                  None \<Rightarrow> None
                | Some (Some e, s6, w2) \<Rightarrow> Some (Some (Wrapf msg6 [] e), ms4, (s4, s6), w2)
                | Some (None, s6, w2) \<Rightarrow>
                    (case Option.bind (indexFirst (lines [''ipv6'']) (perfDataObject s6)) (sendAll ds) of
                       None \<Rightarrow> None
                     | Some ms6 \<Rightarrow> Some (None, ms4 @ ms6, (s4, s6), w2)))))"

text \<open>\<open>sendTCPStateMetrics\<close> and \<open>collectConnectionsState\<close>.\<close>

definition sendTCPStateMetrics :: "(u32, u32) gomap \<Rightarrow> string \<Rightarrow> metric list option" where
  "sendTCPStateMetrics counts af =
     sendAll tcp_descs
       (map (\<lambda>(s, n). (''connectionsStateCount'', GaugeValue, f64_of_int (uint n), [af, MIB_TCP_STATE_String s])) counts)"

definition collectConnectionsState :: "(u32 \<Rightarrow> tcpTable) \<Rightarrow> (go_error option \<times> metric list) option" where
  "collectConnectionsState tables =
     (case GetTCPConnectionStates tables AF_INET of
        None \<Rightarrow> None
      | Some (Inl e) \<Rightarrow> Some (Some (Wrapf ''failed to collect TCP connection states for %s: %w'' [''ipv4''] e), [])
      | Some (Inr counts4) \<Rightarrow>
          (case sendTCPStateMetrics counts4 ''ipv4'' of
             None \<Rightarrow> None
           | Some ms4 \<Rightarrow>
               (case GetTCPConnectionStates tables AF_INET6 of
                  None \<Rightarrow> None
                | Some (Inl e) \<Rightarrow> Some (Some (Wrapf ''failed to collect TCP6 connection states for %s: %w'' [''ipv6''] e), ms4)
                | Some (Inr counts6) \<Rightarrow>
                    map_option (\<lambda>ms6. (None, ms4 @ ms6)) (sendTCPStateMetrics counts6 ''ipv6''))))"

definition tcp_collect :: "'w pdh_api \<Rightarrow> tcpCollector \<Rightarrow> 'w \<Rightarrow> (tcpCollector, 'w) collected" where
  "tcp_collect api c w =
     map_option (\<lambda>(err, ms, (s4, s6), w'). (err, ms, c\<lparr>tcpSource4 := s4, tcpSource6 := s6\<rparr>, w'))
       (collectPair api tcp_fields ''failed to collect TCPv4 metrics[0]. %w'' ''failed to collect TCPv6 metrics[0]. %w'' tcp_descs tcp_lines
          (tcpSource4 c, tcpSource6 c) w)"

definition tcp_Collect :: "'w pdh_api \<Rightarrow> (u32 \<Rightarrow> tcpTable) \<Rightarrow> tcpCollector \<Rightarrow> 'w \<Rightarrow> (tcpCollector, 'w) collected" where
  "tcp_Collect api tables c w =
     (case (if ''metrics'' \<in> set (tcpEnabled c) then tcp_collect api c w else Some (None, [], c, w)) of
        None \<Rightarrow> None
      | Some (e1, ms1, c1, w1) \<Rightarrow>
          (case (if ''connections_state'' \<in> set (tcpEnabled c) then collectConnectionsState tables else Some (None, [])) of
             None \<Rightarrow> None
           | Some (e2, ms2) \<Rightarrow>
               Some (errors_Join (non_nil [map_option (Wrapf ''failed collecting tcp metrics: %w'' []) e1,
                                           map_option (Wrapf ''failed collecting tcp connection state metrics: %w'' []) e2]),
                     ms1 @ ms2, c1, w1)))"

section \<open>udp\<close>

definition udp_fields :: "structField list" where
  "udp_fields =
     [perfField ''DatagramsNoPortPerSec'' ''Datagrams No Port/sec'',
      perfField ''DatagramsReceivedPerSec'' ''Datagrams Received/sec'',
      perfField ''DatagramsReceivedErrors'' ''Datagrams Received Errors'',
      perfField ''DatagramsSentPerSec'' ''Datagrams Sent/sec'']"

definition udp_descs :: descTable where
  "udp_descs =
     [(''datagramsNoPortTotal'', NewDesc (BuildFQName Namespace ''udp'' ''datagram_no_port_total'')
        ''Number of received UDP datagrams for which there was no application at the destination port'' [''af'']),
      (''datagramsReceivedTotal'', NewDesc (BuildFQName Namespace ''udp'' ''datagram_received_total'')
        ''UDP datagrams are delivered to UDP users'' [''af'']),
      (''datagramsReceivedErrorsTotal'', NewDesc (BuildFQName Namespace ''udp'' ''datagram_received_errors_total'')
        ''Number of received UDP datagrams that could not be delivered for reasons other than the lack of an application at the destination port'' [''af'']),
      (''datagramsSentTotal'', NewDesc (BuildFQName Namespace ''udp'' ''datagram_sent_total'')
        ''UDP datagrams are sent from the entity'' [''af''])]"

definition udp_lines :: "string list \<Rightarrow> row \<Rightarrow> line list" where
  "udp_lines labels r =
     [(''datagramsNoPortTotal'', CounterValue, num udp_fields r ''DatagramsNoPortPerSec'', labels),
      (''datagramsReceivedErrorsTotal'', CounterValue, num udp_fields r ''DatagramsReceivedErrors'', labels),
      (''datagramsReceivedTotal'', GaugeValue, num udp_fields r ''DatagramsReceivedPerSec'', labels),
      (''datagramsSentTotal'', CounterValue, num udp_fields r ''DatagramsSentPerSec'', labels)]"

definition udp_Build :: "'w pdh_api \<Rightarrow> u16 \<Rightarrow> 'w \<Rightarrow> (go_error option \<times> (perfSource \<times> perfSource) \<times> 'w) option" where
  "udp_Build api osBuild =
     buildPair api osBuild (''UDPv4'', ''failed to create UDPv4 collector: %w'') (''UDPv6'', ''failed to create UDPv6 collector: %w'') udp_fields"

definition udp_Collect :: "'w pdh_api \<Rightarrow> perfSource \<times> perfSource \<Rightarrow> 'w \<Rightarrow> (perfSource \<times> perfSource, 'w) collected" where
  "udp_Collect api =
     collectPair api udp_fields ''failed to collect UDPv4 metrics: %w'' ''failed to collect UDPv6 metrics: %w'' udp_descs udp_lines"

section \<open>net\<close>

definition net_fields :: "structField list" where
  "net_fields =
     [nameField,
      perfField ''BytesReceivedPerSec'' ''Bytes Received/sec'',
      perfField ''BytesSentPerSec'' ''Bytes Sent/sec'',
      perfField ''BytesTotalPerSec'' ''Bytes Total/sec'',
      perfField ''CurrentBandwidth'' ''Current Bandwidth'',
      perfField ''OutputQueueLength'' ''Output Queue Length'',
      perfField ''PacketsOutboundDiscarded'' ''Packets Outbound Discarded'',
      perfField ''PacketsOutboundErrors'' ''Packets Outbound Errors'',
      perfField ''PacketsPerSec'' ''Packets/sec'',
      perfField ''PacketsReceivedDiscarded'' ''Packets Received Discarded'',
      perfField ''PacketsReceivedErrors'' ''Packets Received Errors'',
      perfField ''PacketsReceivedPerSec'' ''Packets Received/sec'',
      perfField ''PacketsReceivedUnknown'' ''Packets Received Unknown'',
      perfField ''PacketsSentPerSec'' ''Packets Sent/sec'']"

definition net_descs :: descTable where
  "net_descs =
     [(''bytesReceivedTotal'', NewDesc (BuildFQName Namespace ''net'' ''bytes_received_total'')
        ''(Network.BytesReceivedPerSec)'' [''nic'']),
      (''bytesSentTotal'', NewDesc (BuildFQName Namespace ''net'' ''bytes_sent_total'')
        ''(Network.BytesSentPerSec)'' [''nic'']),
      (''bytesTotal'', NewDesc (BuildFQName Namespace ''net'' ''bytes_total'')
        ''(Network.BytesTotalPerSec)'' [''nic'']),
      (''outputQueueLength'', NewDesc (BuildFQName Namespace ''net'' ''output_queue_length_packets'')
        ''(Network.OutputQueueLength)'' [''nic'']),
      (''packetsOutboundDiscarded'', NewDesc (BuildFQName Namespace ''net'' ''packets_outbound_discarded_total'')
        ''(Network.PacketsOutboundDiscarded)'' [''nic'']),
      (''packetsOutboundErrors'', NewDesc (BuildFQName Namespace ''net'' ''packets_outbound_errors_total'')
        ''(Network.PacketsOutboundErrors)'' [''nic'']),
      (''packetsReceivedDiscarded'', NewDesc (BuildFQName Namespace ''net'' ''packets_received_discarded_total'')
        ''(Network.PacketsReceivedDiscarded)'' [''nic'']),
      (''packetsReceivedErrors'', NewDesc (BuildFQName Namespace ''net'' ''packets_received_errors_total'')
        ''(Network.PacketsReceivedErrors)'' [''nic'']),
      (''packetsReceivedTotal'', NewDesc (BuildFQName Namespace ''net'' ''packets_received_total'')
        ''(Network.PacketsReceivedPerSec)'' [''nic'']),
      (''packetsReceivedUnknown'', NewDesc (BuildFQName Namespace ''net'' ''packets_received_unknown_total'')
        ''(Network.PacketsReceivedUnknown)'' [''nic'']),
      (''packetsTotal'', NewDesc (BuildFQName Namespace ''net'' ''packets_total'')
        ''(Network.PacketsPerSec)'' [''nic'']),
      (''packetsSentTotal'', NewDesc (BuildFQName Namespace ''net'' ''packets_sent_total'')
        ''(Network.PacketsSentPerSec)'' [''nic'']),
      (''currentBandwidth'', NewDesc (BuildFQName Namespace ''net'' ''current_bandwidth_bytes'')
        ''(Network.CurrentBandwidth)'' [''nic'']),
      (''nicAddressInfo'', NewDesc (BuildFQName Namespace ''net'' ''nic_address_info'')
        ''A metric with a constant '1' value labeled with the network interface's address information.'' [''nic'', ''friendly_name'', ''address'', ''family'']),
      (''routeInfo'', NewDesc (BuildFQName Namespace ''net'' ''route_info'')
        ''A metric with a constant '1' value labeled with the network interface's route information.'' [''nic'', ''src'', ''dest'', ''metric''])]"

definition net_lines :: "row \<Rightarrow> line list" where
  "net_lines r =
     [(''bytesReceivedTotal'', CounterValue, num net_fields r ''BytesReceivedPerSec'', [rowName net_fields r]),
      (''bytesSentTotal'', CounterValue, num net_fields r ''BytesSentPerSec'', [rowName net_fields r]),
      (''bytesTotal'', CounterValue, num net_fields r ''BytesTotalPerSec'', [rowName net_fields r]),
      (''outputQueueLength'', GaugeValue, num net_fields r ''OutputQueueLength'', [rowName net_fields r]),
      (''packetsOutboundDiscarded'', CounterValue, num net_fields r ''PacketsOutboundDiscarded'', [rowName net_fields r]),
      (''packetsOutboundErrors'', CounterValue, num net_fields r ''PacketsOutboundErrors'', [rowName net_fields r]),
      (''packetsTotal'', CounterValue, num net_fields r ''PacketsPerSec'', [rowName net_fields r]),
      (''packetsReceivedDiscarded'', CounterValue, num net_fields r ''PacketsReceivedDiscarded'', [rowName net_fields r]),
      (''packetsReceivedErrors'', CounterValue, num net_fields r ''PacketsReceivedErrors'', [rowName net_fields r]),
      (''packetsReceivedTotal'', CounterValue, num net_fields r ''PacketsReceivedPerSec'', [rowName net_fields r]),
      (''packetsReceivedUnknown'', CounterValue, num net_fields r ''PacketsReceivedUnknown'', [rowName net_fields r]),
      (''packetsSentTotal'', CounterValue, num net_fields r ''PacketsSentPerSec'', [rowName net_fields r]),
      (''currentBandwidth'', GaugeValue, f64_div (num net_fields r ''CurrentBandwidth'') (F_Fin 8), [rowName net_fields r])]"

text \<open>The network adapters, with the addresses of each of them.\<close>

record ipAddress =
  ipGlobalUnicast :: bool
  ipText :: string
  ipFamily :: u16

record adapter =
  FriendlyName :: string
  Description :: string
  UnicastAddresses :: "ipAddress option list"
  AnycastAddresses :: "ipAddress option list"

text \<open>
  \<open>adapterAddresses\<close>: the buffer grows until the call succeeds. The answer is the error or the adapters, and the size that the call
  wrote back.
\<close>

abbreviation ERROR_BUFFER_OVERFLOW :: go_error where
  "ERROR_BUFFER_OVERFLOW \<equiv> Errno 111"

function adapterAddresses :: "(u32 \<Rightarrow> 'w \<Rightarrow> (go_error + adapter list) \<times> u32 \<times> 'w) \<Rightarrow> u32 \<Rightarrow> 'w \<Rightarrow> (go_error + adapter list) \<times> 'w" where
  "adapterAddresses GetAdaptersAddresses l w =
     (case GetAdaptersAddresses l w of
        (Inr as, l', w1) \<Rightarrow> (Inr (if l' = 0 then [] else as), w1)
      | (Inl e, l', w1) \<Rightarrow>
          (if \<not> errors_is e ERROR_BUFFER_OVERFLOW \<or> l' \<le> l then (Inl (Wrapf ''getadaptersaddresses'' [] e), w1)
           else adapterAddresses GetAdaptersAddresses l' w1))"
  by pat_completeness auto
termination
proof (relation "measure (\<lambda>(f, l, w). 2 ^ 32 - unat l)", goal_cases)
  case (2 f l w a b e l' w1)
  then have "unat l < unat l'" by (auto simp: not_le word_less_nat_alt)
  moreover have "unat l' < 2 ^ 32" by (rule unat_u32_less)
  ultimately show ?case by simp
qed simp

declare adapterAddresses.simps [simp del]

text \<open>\<open>strings.NewReplacer("(", "[", ")", "]", "#", "_")\<close>\<close>

definition convertNicName :: "string \<Rightarrow> string" where
  "convertNicName = map (\<lambda>c. if c = CHR ''('' then CHR ''['' else if c = CHR '')'' then CHR '']'' else if c = CHR ''#'' then CHR ''_'' else c)"

definition addressFamily :: "(u16, string) gomap" where
  "addressFamily = [(2, ''ipv4''), (23, ''ipv6'')]"

definition addressLines :: "adapter \<Rightarrow> ipAddress option list \<Rightarrow> line list" where
  "addressLines a addrs =
     map (\<lambda>ip. (''nicAddressInfo'', GaugeValue, F_Fin 1,
                [convertNicName (Description a), FriendlyName a, ipText ip, map_get0 [] addressFamily (ipFamily ip)]))
       (filter ipGlobalUnicast (List.map_filter id addrs))"

definition collectNICAddresses ::
  "(string \<Rightarrow> bool) \<Rightarrow> (string \<Rightarrow> bool) \<Rightarrow> (u32 \<Rightarrow> 'w \<Rightarrow> (go_error + adapter list) \<times> u32 \<times> 'w) \<Rightarrow> 'w \<Rightarrow> (go_error option \<times> metric list \<times> 'w) option" where
  "collectNICAddresses exclude include GetAdaptersAddresses w =
     (case adapterAddresses GetAdaptersAddresses 15000 w of
        (Inl e, w') \<Rightarrow> Some (Some e, [], w')
      | (Inr as, w') \<Rightarrow>
          map_option (\<lambda>ms. (None, ms, w'))
            (sendAll net_descs
               (concat (map (\<lambda>a. addressLines a (UnicastAddresses a) @ addressLines a (AnycastAddresses a))
                          (filter (\<lambda>a. included exclude include (Description a)) as)))))"

record netCollector =
  netEnabled :: "string list"
  netSource :: perfSource

definition net_subCollectors :: "string list" where
  "net_subCollectors = [''metrics'', ''nic_addresses'']"

definition net_Build :: "'w pdh_api \<Rightarrow> u16 \<Rightarrow> string list \<Rightarrow> 'w \<Rightarrow> (go_error option \<times> netCollector \<times> 'w) option" where
  "net_Build api osBuild enabled w =
     (let none = \<lparr>perfDataCollector = None, perfDataObject = []\<rparr> in
      case find (\<lambda>s. s \<notin> set net_subCollectors) enabled of
        Some s \<Rightarrow> Some (Some (ErrorText ''unknown sub collector: %s. Possible values: %s'' [s, Join net_subCollectors '', '']),
                        \<lparr>netEnabled = enabled, netSource = none\<rparr>, w)
      | None \<Rightarrow>
          map_option (\<lambda>(err, src, w'). (err, \<lparr>netEnabled = enabled, netSource = src\<rparr>, w'))
            (perfBuild api osBuild ''failed to create Network Interface collector: %w'' ''Network Interface'' [''*''] net_fields w))"

definition net_collect :: "(string \<Rightarrow> bool) \<Rightarrow> (string \<Rightarrow> bool) \<Rightarrow> 'w pdh_api \<Rightarrow> perfSource \<Rightarrow> 'w \<Rightarrow> (perfSource, 'w) collected" where
  "net_collect exclude include api =
     collectWith api net_fields ''failed to collect Network Information metrics: %w'' net_descs
       (eachRow (\<lambda>r. included exclude include (rowName net_fields r)) net_lines)"

definition net_Collect ::
  "(string \<Rightarrow> bool) \<Rightarrow> (string \<Rightarrow> bool) \<Rightarrow> 'w pdh_api \<Rightarrow> (u32 \<Rightarrow> 'w \<Rightarrow> (go_error + adapter list) \<times> u32 \<times> 'w) \<Rightarrow>
   netCollector \<Rightarrow> 'w \<Rightarrow> (netCollector, 'w) collected" where
  "net_Collect exclude include api GetAdaptersAddresses c w =
     (case (if ''metrics'' \<in> set (netEnabled c) then net_collect exclude include api (netSource c) w else Some (None, [], netSource c, w)) of
        None \<Rightarrow> None
      | Some (e1, ms1, src, w1) \<Rightarrow>
          (case (if ''nic_addresses'' \<in> set (netEnabled c) then collectNICAddresses exclude include GetAdaptersAddresses w1
                 else Some (None, [], w1)) of
             None \<Rightarrow> None
           | Some (e2, ms2, w2) \<Rightarrow>
               Some (errors_Join (non_nil [map_option (Wrapf ''failed collecting metrics: %w'' []) e1,
                                           map_option (Wrapf ''failed collecting net addresses: %w'' []) e2]),
                     ms1 @ ms2, c\<lparr>netSource := src\<rparr>, w2)))"

section \<open>The tables\<close>

lemma tcp_names: "distinct (map (\<lambda>(n, d). fqName d) tcp_descs)" by code_simp

lemma udp_names: "distinct (map (\<lambda>(n, d). fqName d) udp_descs)" by code_simp

lemma net_names: "distinct (map (\<lambda>(n, d). fqName d) net_descs)" by code_simp

lemma tcp_table: "table_ok tcp_descs (tcp_lines [af] r)"
  by (rule table_ok_names; unfold tcp_lines_def line_simps) code_simp+

lemma udp_table: "table_ok udp_descs (udp_lines [af] r)"
  by (rule table_ok_names; unfold udp_lines_def line_simps) code_simp+

lemma net_table: "table_ok net_descs (net_lines r)"
  by (rule table_ok_names; unfold net_lines_def line_simps) code_simp+

text \<open>Two address families over one table: each metric carries the family as its only label.\<close>

locale pair_table =
  fixes ds :: descTable
    and lines :: "string list \<Rightarrow> row \<Rightarrow> line list"
  assumes names: "distinct (map (\<lambda>(n, d). fqName d) ds)"
    and table: "table_ok ds (lines [af] r)"
    and labels: "list_all (\<lambda>(n, vt, v, ls). ls = [af]) (lines [af] r)"

sublocale pair_table \<subseteq> keyed_table ds "\<lambda>(af, r). lines [af] r" fst "\<lambda>n. 0"
proof
  show "distinct (map (\<lambda>(n, d). fqName d) ds)" by (rule names)
  show "table_ok ds (case x of (af, r) \<Rightarrow> lines [af] r)" for x using table by (cases x) simp
  show "list_all (\<lambda>(n, vt, v, ls). 0 < length ls \<and> ls ! 0 = fst x) (case x of (af, r) \<Rightarrow> lines [af] r)" for x
  proof (cases x)
    case (Pair af r)
    have "list_all (\<lambda>(n, vt, v, ls). ls = [af]) (lines [af] r)" by (rule labels)
    then show ?thesis unfolding Pair by (auto simp: list_all_iff)
  qed
qed

definition pairPanics :: "'w pdh_api \<Rightarrow> structField list \<Rightarrow> perfSource \<times> perfSource \<Rightarrow> 'w \<Rightarrow> bool" where
  "pairPanics api fs st w =
     (case perfCollect api fs (fst st) w of
        None \<Rightarrow> True | Some (None, s4, w1) \<Rightarrow> perfCollect api fs (snd st) w1 = None | Some (Some e, s4, w1) \<Rightarrow> False)"

context pair_table begin

lemma family_sends:
  assumes "perfCollect api fs src w = Some (None, src', w')"
  shows "\<exists>r ms. indexFirst (lines [af]) (perfDataObject src') = Some (lines [af] r) \<and> sendAll ds (lines [af] r) = Some ms"
proof -
  obtain r rs where "perfDataObject src' = r # rs" using perfCollect_nonempty [OF assms] by (cases "perfDataObject src'") auto
  then show ?thesis using row_accepted [of "(af, r)"] by (auto simp: indexFirst_def accepted_def split: option.splits)
qed

text \<open>What \<open>collectPair\<close> sends is the table of the families that it got to, in order.\<close>

lemma collectPair_sends:
  assumes "collectPair api fs m4 m6 ds lines st w = Some (err, ms, st', w')"
  shows "\<exists>xs. distinct (map fst xs) \<and> set (map fst xs) \<subseteq> {''ipv4'', ''ipv6''} \<and> sendAll ds (concat (map (\<lambda>(af, r). lines [af] r) xs)) = Some ms"
proof (cases "perfCollect api fs (fst st) w")
  case None
  then show ?thesis using assms by (simp add: collectPair_def)
next
  case (Some x)
  obtain e4 s4 w1 where x: "x = (e4, s4, w1)" by (metis prod_cases3)
  show ?thesis
  proof (cases e4)
    case (Some e)
    then have "ms = []" using assms x \<open>perfCollect api fs (fst st) w = Some x\<close> by (simp add: collectPair_def)
    then show ?thesis by (intro exI [of _ "[]"]) (simp add: sendAll_def)
  next
    case None
    then have c4: "perfCollect api fs (fst st) w = Some (None, s4, w1)" using Some x by simp
    obtain r4 ms4 where r4: "indexFirst (lines [''ipv4'']) (perfDataObject s4) = Some (lines [''ipv4''] r4)" "sendAll ds (lines [''ipv4''] r4) = Some ms4"
      using family_sends [OF c4] by blast
    show ?thesis
    proof (cases "\<exists>s6 w2. perfCollect api fs (snd st) w1 = Some (None, s6, w2)")
      case False
      then have "ms = ms4" using assms c4 r4 by (auto simp: collectPair_def split: option.splits)
      then show ?thesis using r4(2) by (intro exI [of _ "[(''ipv4'', r4)]"]) simp
    next
      case True
      then obtain s6 w2 where c6: "perfCollect api fs (snd st) w1 = Some (None, s6, w2)" by blast
      obtain r6 ms6 where r6: "indexFirst (lines [''ipv6'']) (perfDataObject s6) = Some (lines [''ipv6''] r6)" "sendAll ds (lines [''ipv6''] r6) = Some ms6"
        using family_sends [OF c6] by blast
      have "ms = ms4 @ ms6" using assms c4 r4 c6 r6 by (simp add: collectPair_def)
      then show ?thesis using r4(2) r6(2) by (intro exI [of _ "[(''ipv4'', r4), (''ipv6'', r6)]"]) (simp add: sendAll_append)
    qed
  qed
qed

lemma collectPair_total:
  assumes "collectPair api fs m4 m6 ds lines st w = None"
  shows "pairPanics api fs st w"
proof (rule ccontr)
  assume "\<not> pairPanics api fs st w"
  then obtain s4 w1 e6 s6 w2 where c4: "perfCollect api fs (fst st) w = Some (None, s4, w1)" and c6: "perfCollect api fs (snd st) w1 = Some (e6, s6, w2)"
    using assms by (auto simp: pairPanics_def collectPair_def split: option.splits)
  obtain r4 ms4 where "indexFirst (lines [''ipv4'']) (perfDataObject s4) = Some (lines [''ipv4''] r4)" "sendAll ds (lines [''ipv4''] r4) = Some ms4"
    using family_sends [OF c4] by blast
  then show False
    using assms c4 c6 family_sends [of api fs "snd st" w1 s6 w2 "''ipv6''"] by (cases e6) (auto simp: collectPair_def)
qed

lemma collectPair_ok: "scrape_ok (pairPanics api fs st w) (collectPair api fs m4 m6 ds lines st w)"
proof (cases "collectPair api fs m4 m6 ds lines st w")
  case None
  then show ?thesis using collectPair_total by (simp add: scrape_ok_def)
next
  case (Some x)
  obtain err ms st' w' where x: "x = (err, ms, st', w')" by (metis prod_cases4)
  obtain xs where xs: "distinct (map fst xs)" "sendAll ds (concat (map (\<lambda>(af, r). lines [af] r) xs)) = Some ms"
    using collectPair_sends Some x by metis
  then show ?thesis using rows_accepted [OF xs(1)] Some x by (simp add: scrape_ok_def accepted_def)
qed

end

interpretation tcp: pair_table tcp_descs tcp_lines
  by unfold_locales (auto simp: tcp_names tcp_table, simp add: tcp_lines_def)

interpretation udp: pair_table udp_descs udp_lines
  by unfold_locales (auto simp: udp_names udp_table, simp add: udp_lines_def)

interpretation net: keyed_table net_descs net_lines "rowName net_fields" "\<lambda>n. 0"
  by unfold_locales (auto simp: net_names net_table, simp add: net_lines_def)


section \<open>Properties\<close>

lemma buildPair_ok:
  "buildPair api osBuild o4 o6 fs w = Some (None, (s4, s6), w') \<Longrightarrow> source_ok fs s4 \<and> source_ok fs s6"
  by (auto simp: buildPair_def dest: perfBuild_ok split: option.splits)

interpretation udp_contract: perf_contract "udp_Build api osBuild" "udp_Collect api" "\<lambda>st. True" "pairPanics api udp_fields"
  by unfold_locales (simp_all add: udp_Collect_def udp.collectPair_ok)

text \<open>
  Every scrape of the udp collector is accepted by the Prometheus library, whatever the PDH functions answer: the
  index \<open>metrics[0]\<close> is never out of range, and the two address families never send the same series.
\<close>

theorem udp_always_accepted:
  "reachable (udp_Build api osBuild) (udp_Collect api) \<subseteq> {st. \<forall>w. scrape_ok (pairPanics api udp_fields st w) (udp_Collect api st w)}"
  by (rule udp_contract.reachable_ok)

text \<open>States of connections have different names, the unknown ones included.\<close>

lemma tcpStateNames_known: "map_of tcpStateNames s = Some n \<Longrightarrow> hd n \<noteq> CHR ''U''"
  by (auto simp: tcpStateNames_def split: if_splits)

lemma tcpStateNames_inj: "map_of tcpStateNames s = Some n \<Longrightarrow> map_of tcpStateNames t = Some n \<Longrightarrow> s = t"
  by (auto simp: tcpStateNames_def split: if_splits)

lemma MIB_TCP_STATE_String_inj: "MIB_TCP_STATE_String s = MIB_TCP_STATE_String t \<longleftrightarrow> s = t"
proof
  assume eq: "MIB_TCP_STATE_String s = MIB_TCP_STATE_String t"
  show "s = t"
  proof (cases "map_of tcpStateNames s")
    case None
    then show ?thesis
      using eq tcpStateNames_known [of t] by (auto simp: MIB_TCP_STATE_String_def word_unat_eq_iff split: option.splits)
  next
    case (Some n)
    then show ?thesis
      using eq tcpStateNames_known [of s] tcpStateNames_inj by (auto simp: MIB_TCP_STATE_String_def split: option.splits)
  qed
qed simp

definition state_lines :: "string \<Rightarrow> (u32, u32) gomap \<Rightarrow> line list" where
  "state_lines af counts =
     map (\<lambda>(s, n). (''connectionsStateCount'', GaugeValue, f64_of_int (uint n), [af, MIB_TCP_STATE_String s])) counts"

lemma tcp_state_desc:
  "map_of tcp_descs ''connectionsStateCount'' =
     Some (NewDesc (BuildFQName Namespace ''tcp'' ''connections_state_count'') ''Number of TCP connections by state and address family'' [''af'', ''state''])"
  by (simp add: tcp_descs_def)

lemma state_lines_ok: "wf_map counts \<Longrightarrow> table_ok tcp_descs (state_lines af counts)"
proof -
  assume wf: "wf_map counts"
  have "distinct (map (\<lambda>(s, n). (''connectionsStateCount'', [af, MIB_TCP_STATE_String s])) counts)"
    using wf unfolding wf_map_def distinct_map by (fastforce simp: inj_on_def MIB_TCP_STATE_String_inj)
  then show ?thesis
    by (auto simp: table_ok_def state_lines_def tcp_state_desc list_all_iff comp_def split_def)
qed

lemma wf_countStates: "wf_map (countStates ss)"
proof -
  have "wf_map (fold (map_inc (\<lambda>n. n + 1) 0) ss m)" if "wf_map m" for m :: "(u32, u32) gomap"
    using that by (induction ss arbitrary: m) simp_all
  then show ?thesis by (simp add: countStates_def)
qed

text \<open>
  The connection table is counted exactly: the states that are reported are those that occur, and the
  number of a state is the number of connections in it (modulo $2^{32}$); the metrics of one address family
  are accepted by the library.
\<close>

theorem tcp_states_counted:
  "set (map_keys (countStates ss)) = set ss \<and> map_get0 0 (countStates ss) s = word_of_nat (count_list ss s) \<and>
   (\<exists>ms. sendTCPStateMetrics (countStates ss) af = Some ms \<and> list_all arity_ok ms \<and> distinct (map series ms) \<and>
      map label_values ms = map (\<lambda>(s, n). [af, MIB_TCP_STATE_String s]) (countStates ss))"
proof (intro conjI)
  show "set (map_keys (countStates ss)) = set ss" by (simp only: countStates_def map_keys_incs) simp
  have "((\<lambda>n. n + 1) ^^ k) 0 = (word_of_nat k :: u32)" for k by (induction k) simp_all
  then show "map_get0 0 (countStates ss) s = word_of_nat (count_list ss s)"
    by (simp add: countStates_def map_get0_incs map_get0_def [of 0 "[]"])
  have "accepted (sendAll tcp_descs (state_lines af (countStates ss)))"
    by (intro tcp.sendAll_accepted state_lines_ok wf_countStates)
  then obtain ms where ms: "sendAll tcp_descs (state_lines af (countStates ss)) = Some ms" "list_all arity_ok ms" "distinct (map series ms)"
    by (auto simp: accepted_def split: option.splits)
  have "map label_values ms = map (\<lambda>(s, n). [af, MIB_TCP_STATE_String s]) counts"
    if "sendAll tcp_descs (state_lines af counts) = Some ms" for counts ms
    using that
  proof (induction counts arbitrary: ms)
    case Nil
    then show ?case by (simp add: sendAll_def state_lines_def)
  next
    case (Cons x counts)
    then show ?case
      by (auto simp: sendAll_def state_lines_def MustNewConstMetric_def tcp_state_desc split: option.splits prod.splits)
  qed
  then show "\<exists>ms. sendTCPStateMetrics (countStates ss) af = Some ms \<and> list_all arity_ok ms \<and> distinct (map series ms) \<and>
      map label_values ms = map (\<lambda>(s, n). [af, MIB_TCP_STATE_String s]) (countStates ss)"
    using ms by (auto simp: sendTCPStateMetrics_def state_lines_def)
qed

interpretation net_contract: perf_contract
  "perfBuild api osBuild ''failed to create Network Interface collector: %w'' ''Network Interface'' [''*''] net_fields"
  "net_collect exclude include api" "source_ok net_fields" "\<lambda>src w. perfCollect api net_fields src w = None"
proof
  show "source_ok net_fields c" if "perfBuild api osBuild ''failed to create Network Interface collector: %w'' ''Network Interface'' [''*''] net_fields w =
      Some (None, c, w')" for w c w'
    using that by (rule perfBuild_ok)
  show "source_ok net_fields c'" if "source_ok net_fields c" "net_collect exclude include api c w = Some (err, ms, c', w')" for c w err ms c' w'
    using that unfolding net_collect_def by (rule collectWith_source)
  show "scrape_ok (perfCollect api net_fields c w = None) (net_collect exclude include api c w)" if "source_ok net_fields c" for c w
    unfolding net_collect_def
  proof (rule collectWith_ok [OF that, where k = 0 and rows_ok = "\<lambda>rs. distinct (map (rowName net_fields) rs)"])
    show "fieldIndex ''Name'' KString 0 net_fields = Some 0 \<or> (\<forall>rs. distinct (map (rowName net_fields) rs))"
      by (simp add: net_fields_def nameField_def)
    show "accepted (sendAll net_descs lns)"
      if "distinct (map (rowName net_fields) rs)" "eachRow (\<lambda>r. included exclude include (rowName net_fields r)) net_lines rs = Inr lns" for rs lns
      using that net.rows_accepted [OF distinct_filter_names] by (auto simp: eachRow_def)
  qed
qed

text \<open>
  Every scrape of the interface metrics of the net collector is accepted by the Prometheus library in every state
  that the collector can reach, for every filter and whatever the PDH functions answer.
\<close>

theorem net_always_accepted:
  "reachable (perfBuild api osBuild ''failed to create Network Interface collector: %w'' ''Network Interface'' [''*''] net_fields) (net_collect exclude include api)
     \<subseteq> {src. \<forall>w. scrape_ok (perfCollect api net_fields src w = None) (net_collect exclude include api src w)}"
  by (rule net_contract.reachable_ok)

end
