(* ===== verification/Perf_Disk.thy ===== *)
theory Perf_Disk
  imports Pdh_Names
begin

text \<open>
  The disk collectors (internal/collector/physical_disk and logical_disk), with the enumeration
  of volumes and the information on a volume that the second one adds. The volume functions of Windows are parameters.
\<close>

section \<open>physical\_disk\<close>

text \<open>\<open>strings.Cut(data.Name, " ")\<close>: the disk number in front of the mount points.\<close>

definition cutSpace :: "string \<Rightarrow> string" where
  "cutSpace s = takeWhile (\<lambda>c. c \<noteq> CHR '' '') s"

definition physical_disk_fields :: "structField list" where
  "physical_disk_fields =
     [nameField,
      perfField ''CurrentDiskQueueLength'' ''Current Disk Queue Length'',
      perfField ''DiskReadBytesPerSec'' ''Disk Read Bytes/sec'',
      perfField ''DiskReadsPerSec'' ''Disk Reads/sec'',
      perfField ''DiskWriteBytesPerSec'' ''Disk Write Bytes/sec'',
      perfField ''DiskWritesPerSec'' ''Disk Writes/sec'',
      perfField ''PercentDiskReadTime'' ''% Disk Read Time'',
      perfField ''PercentDiskWriteTime'' ''% Disk Write Time'',
      perfField ''PercentIdleTime'' ''% Idle Time'',
      perfField ''SplitIOPerSec'' ''Split IO/Sec'',
      perfField ''AvgDiskSecPerRead'' ''Avg. Disk sec/Read'',
      perfField ''AvgDiskSecPerWrite'' ''Avg. Disk sec/Write'',
      perfField ''AvgDiskSecPerTransfer'' ''Avg. Disk sec/Transfer'']"

definition disk_number :: "row \<Rightarrow> string" where
  "disk_number r = cutSpace (rowName physical_disk_fields r)"

definition physical_disk_descs :: descTable where
  "physical_disk_descs =
     [(''requestsQueued'', NewDesc (BuildFQName Namespace ''physical_disk'' ''requests_queued'')
        ''The number of requests queued to the disk (PhysicalDisk.CurrentDiskQueueLength)'' [''disk'']),
      (''readBytesTotal'', NewDesc (BuildFQName Namespace ''physical_disk'' ''read_bytes_total'')
        ''The number of bytes transferred from the disk during read operations (PhysicalDisk.DiskReadBytesPerSec)'' [''disk'']),
      (''readsTotal'', NewDesc (BuildFQName Namespace ''physical_disk'' ''reads_total'')
        ''The number of read operations on the disk (PhysicalDisk.DiskReadsPerSec)'' [''disk'']),
      (''writeBytesTotal'', NewDesc (BuildFQName Namespace ''physical_disk'' ''write_bytes_total'')
        ''The number of bytes transferred to the disk during write operations (PhysicalDisk.DiskWriteBytesPerSec)'' [''disk'']),
      (''writesTotal'', NewDesc (BuildFQName Namespace ''physical_disk'' ''writes_total'')
        ''The number of write operations on the disk (PhysicalDisk.DiskWritesPerSec)'' [''disk'']),
      (''readTime'', NewDesc (BuildFQName Namespace ''physical_disk'' ''read_seconds_total'')
        ''Seconds that the disk was busy servicing read requests (PhysicalDisk.PercentDiskReadTime)'' [''disk'']),
      (''writeTime'', NewDesc (BuildFQName Namespace ''physical_disk'' ''write_seconds_total'')
        ''Seconds that the disk was busy servicing write requests (PhysicalDisk.PercentDiskWriteTime)'' [''disk'']),
      (''idleTime'', NewDesc (BuildFQName Namespace ''physical_disk'' ''idle_seconds_total'')
        ''Seconds that the disk was idle (PhysicalDisk.PercentIdleTime)'' [''disk'']),
      (''splitIOs'', NewDesc (BuildFQName Namespace ''physical_disk'' ''split_ios_total'')
        ''The number of I/Os to the disk were split into multiple I/Os (PhysicalDisk.SplitIOPerSec)'' [''disk'']),
      (''readLatency'', NewDesc (BuildFQName Namespace ''physical_disk'' ''read_latency_seconds_total'')
        ''Shows the average time, in seconds, of a read operation from the disk (PhysicalDisk.AvgDiskSecPerRead)'' [''disk'']),
      (''writeLatency'', NewDesc (BuildFQName Namespace ''physical_disk'' ''write_latency_seconds_total'')
        ''Shows the average time, in seconds, of a write operation to the disk (PhysicalDisk.AvgDiskSecPerWrite)'' [''disk'']),
      (''readWriteLatency'', NewDesc (BuildFQName Namespace ''physical_disk'' ''read_write_latency_seconds_total'')
        ''Shows the time, in seconds, of the average disk transfer (PhysicalDisk.AvgDiskSecPerTransfer)'' [''disk''])]"

definition physical_disk_lines :: "row \<Rightarrow> line list" where
  "physical_disk_lines r =
     [(''requestsQueued'', GaugeValue, num physical_disk_fields r ''CurrentDiskQueueLength'', [disk_number r]),
      (''readBytesTotal'', CounterValue, num physical_disk_fields r ''DiskReadBytesPerSec'', [disk_number r]),
      (''readsTotal'', CounterValue, num physical_disk_fields r ''DiskReadsPerSec'', [disk_number r]),
      (''writeBytesTotal'', CounterValue, num physical_disk_fields r ''DiskWriteBytesPerSec'', [disk_number r]),
      (''writesTotal'', CounterValue, num physical_disk_fields r ''DiskWritesPerSec'', [disk_number r]),
      (''readTime'', CounterValue, num physical_disk_fields r ''PercentDiskReadTime'', [disk_number r]),
      (''writeTime'', CounterValue, num physical_disk_fields r ''PercentDiskWriteTime'', [disk_number r]),
      (''idleTime'', CounterValue, num physical_disk_fields r ''PercentIdleTime'', [disk_number r]),
      (''splitIOs'', CounterValue, num physical_disk_fields r ''SplitIOPerSec'', [disk_number r]),
      (''readLatency'', CounterValue, f64_mul (num physical_disk_fields r ''AvgDiskSecPerRead'') TicksToSecondScaleFactor, [disk_number r]),
      (''writeLatency'', CounterValue, f64_mul (num physical_disk_fields r ''AvgDiskSecPerWrite'') TicksToSecondScaleFactor, [disk_number r]),
      (''readWriteLatency'', CounterValue, f64_mul (num physical_disk_fields r ''AvgDiskSecPerTransfer'') TicksToSecondScaleFactor, [disk_number r])]"

definition physical_disk_Build :: "'w pdh_api \<Rightarrow> u16 \<Rightarrow> 'w \<Rightarrow> (go_error option \<times> perfSource \<times> 'w) option" where
  "physical_disk_Build api osBuild =
     perfBuild api osBuild ''failed to create PhysicalDisk collector: %w'' ''PhysicalDisk'' [''*''] physical_disk_fields"

definition physical_disk_Collect ::
  "(string \<Rightarrow> bool) \<Rightarrow> (string \<Rightarrow> bool) \<Rightarrow> 'w pdh_api \<Rightarrow> perfSource \<Rightarrow> 'w \<Rightarrow> (perfSource, 'w) collected" where
  "physical_disk_Collect exclude include api =
     collectWith api physical_disk_fields ''failed to collect PhysicalDisk metrics: %w'' physical_disk_descs
       (eachRow (\<lambda>r. included exclude include (rowName physical_disk_fields r)) physical_disk_lines)"

section \<open>Volumes\<close>

abbreviation ERROR_FILE_NOT_FOUND :: go_error where "ERROR_FILE_NOT_FOUND \<equiv> Errno 2"
abbreviation ERROR_NO_MORE_FILES :: go_error where "ERROR_NO_MORE_FILES \<equiv> Errno 18"

definition backslash :: char where "backslash = CHR 0x5C"

text \<open>
  The inner loop of \<open>getAllMountedVolumes\<close> on the answers that the calls for one volume will give: the error and the
  text in the buffer. It repeats the call as long as it gets the one error, and stops on the others.
\<close>

fun pathNames :: "(go_error option \<times> string) list \<Rightarrow> (go_error + string) exec" where
  "pathNames [] = StillRunning"
| "pathNames ((None, s) # as) = Returns (Inr s)"
| "pathNames ((Some e, s) # as) =
     (if errors_is e ERROR_FILE_NOT_FOUND then Returns (Inr s)
      else if errors_is e ERROR_NO_MORE_FILES then pathNames as
      else Returns (Inl (Wrapf ''GetVolumePathNamesForVolumeName: %w'' [] e)))"

text \<open>
  The outer loop on the volumes that are found (their name and the answers for their paths) and the error that ends
  the enumeration.
\<close>

fun volumeLoop :: "(string \<times> (go_error option \<times> string) list) list \<Rightarrow> go_error \<Rightarrow> (string, string) gomap \<Rightarrow> (go_error + (string, string) gomap) exec" where
  "volumeLoop [] e vols =
     Returns (if errors_is e ERROR_NO_MORE_FILES then Inr vols else Inl (Wrapf ''FindNextVolume: %w'' [] e))"
| "volumeLoop ((guid, answers) # found) e vols =
     (case pathNames answers of
        StillRunning \<Rightarrow> StillRunning
      | Panics \<Rightarrow> Panics
      | Returns (Inl e') \<Rightarrow> Returns (Inl e')
      | Returns (Inr mountPoint) \<Rightarrow>
          (if mountPoint = [] then volumeLoop found e vols
           else volumeLoop found e (map_set (TrimSuffix mountPoint [backslash]) (TrimSuffix guid [backslash]) vols)))"

definition getAllMountedVolumes ::
  "go_error + (string \<times> (go_error option \<times> string) list) list \<Rightarrow> go_error \<Rightarrow> (go_error + (string, string) gomap) exec" where
  "getAllMountedVolumes first e =
     (case first of Inl e' \<Rightarrow> Returns (Inl (Wrapf ''FindFirstVolume: %w'' [] e')) | Inr found \<Rightarrow> volumeLoop found e [])"

record volumeInfo =
  diskIDs :: string
  filesystem :: string
  serialNumber :: string
  volumeLabel :: string
  volumeType :: string
  readonly :: f64

definition noVolume :: volumeInfo where
  "noVolume = \<lparr>diskIDs = [], filesystem = [], serialNumber = [], volumeLabel = [], volumeType = [], readonly = F_Fin 0\<rparr>"

definition driveTypeNames :: "(u32 \<times> string) list" where
  "driveTypeNames = [(0, ''unknown''), (1, ''norootdir''), (2, ''removable''), (3, ''fixed''), (4, ''remote''), (5, ''cdrom''), (6, ''ramdisk'')]"

definition getDriveType :: "u32 \<Rightarrow> string" where
  "getDriveType t = (case map_of driveTypeNames t of Some n \<Rightarrow> n | None \<Rightarrow> ''unknown'')"

text \<open>\<open>fmt.Sprintf("%X", n)\<close>\<close>

fun show_hex :: "nat \<Rightarrow> string" where
  "show_hex n = (if n < 16 then [''0123456789ABCDEF'' ! n] else show_hex (n div 16) @ [''0123456789ABCDEF'' ! (n mod 16)])"

declare show_hex.simps [simp del]

text \<open>
  The disk numbers in the buffer that the volume's driver filled: the count, then one structure of 24 bytes
  for each. \<^term>\<open>None\<close> is the slice panic when the buffer does not hold that many.
\<close>

definition diskExtentSize :: nat where "diskExtentSize = 24"

definition readDiskIDs :: "bytes \<Rightarrow> u32 list option" where
  "readDiskIDs buf = those (map (\<lambda>i. map_option get_u32 (slice buf (8 + i * diskExtentSize) 4)) [0..<unat (get_u32 buf)])"

definition diskIDsText :: "u32 list \<Rightarrow> string" where
  "diskIDsText ids = Join (remdups_adj (sort (map (\<lambda>d. show_nat (unat d)) ids))) '';''"

record volume_api =
  openVolume :: "string \<Rightarrow> go_error + u64"
  volumeDiskExtents :: "u64 \<Rightarrow> go_error + bytes"
  driveTypeOf :: "string \<Rightarrow> u32"
  volumeInformation :: "string \<Rightarrow> go_error + (string \<times> u32 \<times> u32 \<times> string)"

definition FILE_READ_ONLY_VOLUME :: u32 where "FILE_READ_ONLY_VOLUME = 0x80000"

unbundle bit_operations_syntax

definition getVolumeInfo :: "volume_api \<Rightarrow> (string, string) gomap \<Rightarrow> string \<Rightarrow> (volumeInfo \<times> go_error option) option" where
  "getVolumeInfo api volumes rootDrive =
     (let bs = [backslash];
          volumePath = (case map_get volumes rootDrive of Some guid \<Rightarrow> TrimPrefix guid (bs @ bs @ ''?'' @ bs) | None \<Rightarrow> rootDrive)
      in case openVolume api (bs @ bs @ ''.'' @ bs @ volumePath) of
           Inl e \<Rightarrow> Some (noVolume, Some (Wrapf ''could not open volume for %s: %w'' [rootDrive] e))
         | Inr h \<Rightarrow>
             (case volumeDiskExtents api h of
                Inl e \<Rightarrow> Some (noVolume, Some (Wrapf ''could not identify physical drive for %s: %w'' [rootDrive] e))
              | Inr buf \<Rightarrow>
                  (if get_u32 buf < 1
                   then Some (noVolume, Some (ErrorText ''could not identify physical drive for %s: no disk IDs returned'' [rootDrive]))
                   else
                     (case readDiskIDs buf of
                        None \<Rightarrow> None
                      | Some ids \<Rightarrow>
                          (let root = (if Contains volumePath ''Volume'' then bs @ bs @ ''?'' @ bs else []) @ volumePath @ bs;
                               driveType = driveTypeOf api root
                           in case volumeInformation api root of
                                Inl e \<Rightarrow>
                                  (if driveType = 5 \<or> driveType = 2 then Some (noVolume, None)
                                   else Some (noVolume, Some (Wrapf ''could not get volume information for %s: %w'' [root] e)))
                              | Inr (label, serial, fsFlags, fsType) \<Rightarrow>
                                  Some (\<lparr>diskIDs = diskIDsText ids, filesystem = fsType, serialNumber = show_hex (unat serial),
                                         volumeLabel = label, volumeType = getDriveType driveType,
                                         readonly = f64_of_int (uint (fsFlags AND FILE_READ_ONLY_VOLUME))\<rparr>, None))))))"

section \<open>logical\_disk\<close>

definition logical_disk_fields :: "structField list" where
  "logical_disk_fields =
     [nameField,
      perfField ''AvgDiskReadQueueLength'' ''Avg. Disk Read Queue Length'',
      perfField ''AvgDiskSecPerRead'' ''Avg. Disk sec/Read'',
      perfField ''AvgDiskSecPerTransfer'' ''Avg. Disk sec/Transfer'',
      perfField ''AvgDiskSecPerWrite'' ''Avg. Disk sec/Write'',
      perfField ''AvgDiskWriteQueueLength'' ''Avg. Disk Write Queue Length'',
      perfField ''CurrentDiskQueueLength'' ''Current Disk Queue Length'',
      perfField ''FreeSpace'' ''Free Megabytes'',
      perfField ''DiskReadBytesPerSec'' ''Disk Read Bytes/sec'',
      perfField ''DiskReadsPerSec'' ''Disk Reads/sec'',
      perfField ''DiskWriteBytesPerSec'' ''Disk Write Bytes/sec'',
      perfField ''DiskWritesPerSec'' ''Disk Writes/sec'',
      perfField ''PercentDiskReadTime'' ''% Disk Read Time'',
      perfField ''PercentDiskWriteTime'' ''% Disk Write Time'',
      perfField ''PercentFreeSpace'' ''% Free Space,secondvalue'',
      perfField ''PercentIdleTime'' ''% Idle Time'',
      perfField ''SplitIOPerSec'' ''Split IO/Sec'']"

definition logical_disk_descs :: descTable where
  "logical_disk_descs =
     [(''information'', NewDesc (BuildFQName Namespace ''logical_disk'' ''info'')
        ''A metric with a constant '1' value labeled with logical disk information'' [''disk'', ''type'', ''volume'', ''volume_name'', ''filesystem'', ''serial_number'']),
      (''readOnly'', NewDesc (BuildFQName Namespace ''logical_disk'' ''readonly'')
        ''Whether the logical disk is read-only'' [''volume'']),
      (''requestsQueued'', NewDesc (BuildFQName Namespace ''logical_disk'' ''requests_queued'')
        ''The number of requests queued to the disk (LogicalDisk.CurrentDiskQueueLength)'' [''volume'']),
      (''avgReadQueue'', NewDesc (BuildFQName Namespace ''logical_disk'' ''avg_read_requests_queued'')
        ''Average number of read requests that were queued for the selected disk during the sample interval (LogicalDisk.AvgDiskReadQueueLength)'' [''volume'']),
      (''avgWriteQueue'', NewDesc (BuildFQName Namespace ''logical_disk'' ''avg_write_requests_queued'')
        ''Average number of write requests that were queued for the selected disk during the sample interval (LogicalDisk.AvgDiskWriteQueueLength)'' [''volume'']),
      (''readBytesTotal'', NewDesc (BuildFQName Namespace ''logical_disk'' ''read_bytes_total'')
        ''The number of bytes transferred from the disk during read operations (LogicalDisk.DiskReadBytesPerSec)'' [''volume'']),
      (''readsTotal'', NewDesc (BuildFQName Namespace ''logical_disk'' ''reads_total'')
        ''The number of read operations on the disk (LogicalDisk.DiskReadsPerSec)'' [''volume'']),
      (''writeBytesTotal'', NewDesc (BuildFQName Namespace ''logical_disk'' ''write_bytes_total'')
        ''The number of bytes transferred to the disk during write operations (LogicalDisk.DiskWriteBytesPerSec)'' [''volume'']),
      (''writesTotal'', NewDesc (BuildFQName Namespace ''logical_disk'' ''writes_total'')
        ''The number of write operations on the disk (LogicalDisk.DiskWritesPerSec)'' [''volume'']),
      (''readTime'', NewDesc (BuildFQName Namespace ''logical_disk'' ''read_seconds_total'')
        ''Seconds that the disk was busy servicing read requests (LogicalDisk.PercentDiskReadTime)'' [''volume'']),
      (''writeTime'', NewDesc (BuildFQName Namespace ''logical_disk'' ''write_seconds_total'')
        ''Seconds that the disk was busy servicing write requests (LogicalDisk.PercentDiskWriteTime)'' [''volume'']),
      (''freeSpace'', NewDesc (BuildFQName Namespace ''logical_disk'' ''free_bytes'')
        ''Free space in bytes, updates every 10-15 min (LogicalDisk.PercentFreeSpace)'' [''volume'']),
      (''totalSpace'', NewDesc (BuildFQName Namespace ''logical_disk'' ''size_bytes'')
        ''Total space in bytes, updates every 10-15 min (LogicalDisk.PercentFreeSpace_Base)'' [''volume'']),
      (''idleTime'', NewDesc (BuildFQName Namespace ''logical_disk'' ''idle_seconds_total'')
        ''Seconds that the disk was idle (LogicalDisk.PercentIdleTime)'' [''volume'']),
      (''splitIOs'', NewDesc (BuildFQName Namespace ''logical_disk'' ''split_ios_total'')
        ''The number of I/Os to the disk were split into multiple I/Os (LogicalDisk.SplitIOPerSec)'' [''volume'']),
      (''readLatency'', NewDesc (BuildFQName Namespace ''logical_disk'' ''read_latency_seconds_total'')
        ''Shows the average time, in seconds, of a read operation from the disk (LogicalDisk.AvgDiskSecPerRead)'' [''volume'']),
      (''writeLatency'', NewDesc (BuildFQName Namespace ''logical_disk'' ''write_latency_seconds_total'')
        ''Shows the average time, in seconds, of a write operation to the disk (LogicalDisk.AvgDiskSecPerWrite)'' [''volume'']),
      (''readWriteLatency'', NewDesc (BuildFQName Namespace ''logical_disk'' ''read_write_latency_seconds_total'')
        ''Shows the time, in seconds, of the average disk transfer (LogicalDisk.AvgDiskSecPerTransfer)'' [''volume''])]"

definition logical_disk_lines :: "volumeInfo \<Rightarrow> row \<Rightarrow> line list" where
  "logical_disk_lines info r =
     [(''information'', GaugeValue, F_Fin 1, [diskIDs info, volumeType info, rowName logical_disk_fields r, volumeLabel info, filesystem info, serialNumber info]),
      (''requestsQueued'', GaugeValue, num logical_disk_fields r ''CurrentDiskQueueLength'', [rowName logical_disk_fields r]),
      (''avgReadQueue'', GaugeValue, f64_mul (num logical_disk_fields r ''AvgDiskReadQueueLength'') TicksToSecondScaleFactor, [rowName logical_disk_fields r]),
      (''avgWriteQueue'', GaugeValue, f64_mul (num logical_disk_fields r ''AvgDiskWriteQueueLength'') TicksToSecondScaleFactor, [rowName logical_disk_fields r]),
      (''readBytesTotal'', CounterValue, num logical_disk_fields r ''DiskReadBytesPerSec'', [rowName logical_disk_fields r]),
      (''readsTotal'', CounterValue, num logical_disk_fields r ''DiskReadsPerSec'', [rowName logical_disk_fields r]),
      (''writeBytesTotal'', CounterValue, num logical_disk_fields r ''DiskWriteBytesPerSec'', [rowName logical_disk_fields r]),
      (''writesTotal'', CounterValue, num logical_disk_fields r ''DiskWritesPerSec'', [rowName logical_disk_fields r]),
      (''readTime'', CounterValue, num logical_disk_fields r ''PercentDiskReadTime'', [rowName logical_disk_fields r]),
      (''writeTime'', CounterValue, num logical_disk_fields r ''PercentDiskWriteTime'', [rowName logical_disk_fields r]),
      (''freeSpace'', GaugeValue, f64_mul (f64_mul (num logical_disk_fields r ''FreeSpace'') (F_Fin 1024)) (F_Fin 1024), [rowName logical_disk_fields r]),
      (''totalSpace'', GaugeValue, f64_mul (f64_mul (num logical_disk_fields r ''PercentFreeSpace'') (F_Fin 1024)) (F_Fin 1024), [rowName logical_disk_fields r]),
      (''idleTime'', CounterValue, num logical_disk_fields r ''PercentIdleTime'', [rowName logical_disk_fields r]),
      (''splitIOs'', CounterValue, num logical_disk_fields r ''SplitIOPerSec'', [rowName logical_disk_fields r]),
      (''readLatency'', CounterValue, f64_mul (num logical_disk_fields r ''AvgDiskSecPerRead'') TicksToSecondScaleFactor, [rowName logical_disk_fields r]),
      (''writeLatency'', CounterValue, f64_mul (num logical_disk_fields r ''AvgDiskSecPerWrite'') TicksToSecondScaleFactor, [rowName logical_disk_fields r]),
      (''readWriteLatency'', CounterValue, f64_mul (num logical_disk_fields r ''AvgDiskSecPerTransfer'') TicksToSecondScaleFactor, [rowName logical_disk_fields r])]"

definition logical_disk_Build :: "'w pdh_api \<Rightarrow> u16 \<Rightarrow> 'w \<Rightarrow> (go_error option \<times> perfSource \<times> 'w) option" where
  "logical_disk_Build api osBuild =
     perfBuild api osBuild ''failed to create LogicalDisk collector: %w'' ''LogicalDisk'' [''*''] logical_disk_fields"

text \<open>The loop over the rows; an error of \<open>getVolumeInfo\<close> is logged, and the empty information is used.\<close>

fun logical_disk_rows :: "volume_api \<Rightarrow> (string, string) gomap \<Rightarrow> row list \<Rightarrow> (volumeInfo \<times> row) list option" where
  "logical_disk_rows vapi volumes [] = Some []"
| "logical_disk_rows vapi volumes (r # rs) =
     (case getVolumeInfo vapi volumes (rowName logical_disk_fields r) of
        None \<Rightarrow> None
      | Some (info, err) \<Rightarrow> map_option ((#) (info, r)) (logical_disk_rows vapi volumes rs))"

definition logical_disk_Collect ::
  "(string \<Rightarrow> bool) \<Rightarrow> (string \<Rightarrow> bool) \<Rightarrow> volume_api \<Rightarrow> go_error + (string, string) gomap \<Rightarrow> 'w pdh_api \<Rightarrow> perfSource \<Rightarrow> 'w \<Rightarrow>
   (perfSource, 'w) collected" where
  "logical_disk_Collect exclude include vapi volumes api src w =
     (case perfCollect api logical_disk_fields src w of
        None \<Rightarrow> None
      | Some (Some e, src', w') \<Rightarrow> Some (Some (Wrapf ''failed to collect LogicalDisk metrics: %w'' [] e), [], src', w')
      | Some (None, src', w') \<Rightarrow>
          (case volumes of
             Inl e \<Rightarrow> Some (Some (Wrapf ''failed to get volumes: %w'' [] e), [], src', w')
           | Inr vols \<Rightarrow>
               (case logical_disk_rows vapi vols
                       (filter (\<lambda>r. included exclude include (rowName logical_disk_fields r)) (perfDataObject src')) of
                  None \<Rightarrow> None
                | Some xs \<Rightarrow>
                    (case sendAll logical_disk_descs (concat (map (\<lambda>(info, r). logical_disk_lines info r) xs)) of
                       None \<Rightarrow> None
                     | Some ms \<Rightarrow> Some (None, ms, src', w')))))"

section \<open>The tables\<close>

lemma physical_disk_names: "distinct (map (\<lambda>(n, d). fqName d) physical_disk_descs)" by code_simp

lemma logical_disk_names: "distinct (map (\<lambda>(n, d). fqName d) logical_disk_descs)" by code_simp

lemma physical_disk_table: "table_ok physical_disk_descs (physical_disk_lines r)"
  by (rule table_ok_names; unfold physical_disk_lines_def line_simps) code_simp+

lemma logical_disk_table: "table_ok logical_disk_descs (logical_disk_lines info r)"
  by (rule table_ok_names; unfold logical_disk_lines_def line_simps) code_simp+

interpretation physical_disk: keyed_table physical_disk_descs physical_disk_lines disk_number "\<lambda>n. 0"
  by unfold_locales (auto simp: physical_disk_names physical_disk_table, simp add: physical_disk_lines_def)

interpretation logical_disk: keyed_table logical_disk_descs "\<lambda>(info, r). logical_disk_lines info r" "\<lambda>(info, r). rowName logical_disk_fields r"
  "\<lambda>n. if n = ''information'' then 2 else 0"
proof
  show "distinct (map (\<lambda>(n, d). fqName d) logical_disk_descs)" by (rule logical_disk_names)
  show "table_ok logical_disk_descs (case x of (info, r) \<Rightarrow> logical_disk_lines info r)" for x by (cases x) (simp add: logical_disk_table)
  show "list_all (\<lambda>(n, vt, v, ls). (if n = ''information'' then 2 else 0) < length ls \<and>
      ls ! (if n = ''information'' then 2 else 0) = (case x of (info, r) \<Rightarrow> rowName logical_disk_fields r))
      (case x of (info, r) \<Rightarrow> logical_disk_lines info r)" for x
    by (cases x) (simp add: logical_disk_lines_def)
qed


section \<open>Properties\<close>

lemma logical_disk_rows_snd: "logical_disk_rows vapi vols rs = Some xs \<Longrightarrow> map snd xs = rs"
  by (induction rs arbitrary: xs) (auto split: option.splits)

text \<open>The scrape panics only in the PDH worker or when a volume reports more extents than its buffer holds.\<close>

definition diskPanics :: "(string \<Rightarrow> bool) \<Rightarrow> (string \<Rightarrow> bool) \<Rightarrow> volume_api \<Rightarrow> go_error + (string, string) gomap \<Rightarrow> 'w pdh_api \<Rightarrow> perfSource \<Rightarrow> 'w \<Rightarrow> bool" where
  "diskPanics exclude include vapi volumes api src w =
     (case perfCollect api logical_disk_fields src w of
        None \<Rightarrow> True
      | Some (err, src', w') \<Rightarrow>
          (case volumes of
             Inl e \<Rightarrow> False
           | Inr vols \<Rightarrow> list_ex (\<lambda>r. getVolumeInfo vapi vols (rowName logical_disk_fields r) = None) (perfDataObject src')))"

lemma logical_disk_rows_None:
  "logical_disk_rows vapi vols rs = None \<Longrightarrow> \<exists>r\<in>set rs. getVolumeInfo vapi vols (rowName logical_disk_fields r) = None"
  by (induction rs) (auto split: option.splits)

interpretation logical_disk_contract: perf_contract "logical_disk_Build api osBuild" "logical_disk_Collect exclude include vapi volumes api"
  "source_ok logical_disk_fields" "diskPanics exclude include vapi volumes api"
proof
  show "source_ok logical_disk_fields c" if "logical_disk_Build api osBuild w = Some (None, c, w')" for w c w'
    using that unfolding logical_disk_Build_def by (rule perfBuild_ok)
  show "source_ok logical_disk_fields c'"
    if "source_ok logical_disk_fields c" "logical_disk_Collect exclude include vapi volumes api c w = Some (err, ms, c', w')" for c w err ms c' w'
    using that by (auto simp: logical_disk_Collect_def dest: perfCollect_ok split: option.splits sum.splits)
next
  fix c w
  assume ok: "source_ok logical_disk_fields c"
  have name: "fieldIndex ''Name'' KString 0 logical_disk_fields = Some 0" by (simp add: logical_disk_fields_def nameField_def)
  show "scrape_ok (diskPanics exclude include vapi volumes api c w) (logical_disk_Collect exclude include vapi volumes api c w)"
  proof (cases "\<exists>src w1 vols xs. perfCollect api logical_disk_fields c w = Some (None, src, w1) \<and> volumes = Inr vols \<and>
      logical_disk_rows vapi vols (filter (\<lambda>r. included exclude include (rowName logical_disk_fields r)) (perfDataObject src)) = Some xs")
    case True
    then obtain src w1 vols xs where p: "perfCollect api logical_disk_fields c w = Some (None, src, w1)" "volumes = Inr vols"
        "logical_disk_rows vapi vols (filter (\<lambda>r. included exclude include (rowName logical_disk_fields r)) (perfDataObject src)) = Some xs"
      by blast
    have "map (\<lambda>(info, r). rowName logical_disk_fields r) xs =
        map (rowName logical_disk_fields) (filter (\<lambda>r. included exclude include (rowName logical_disk_fields r)) (perfDataObject src))"
      unfolding logical_disk_rows_snd [OF p(3), symmetric] by (simp add: split_def)
    moreover have "distinct \<dots>" by (intro distinct_filter_names perfCollect_names [OF ok name p(1)])
    ultimately have "accepted (sendAll logical_disk_descs (concat (map (\<lambda>(info, r). logical_disk_lines info r) xs)))"
      by (intro logical_disk.rows_accepted) simp
    then show ?thesis using p by (auto simp: logical_disk_Collect_def scrape_ok_def accepted_def split: option.splits)
  next
    case False
    then show ?thesis
      by (auto simp: logical_disk_Collect_def scrape_ok_def diskPanics_def list_ex_iff dest!: logical_disk_rows_None split: option.splits sum.splits)
  qed
qed

text \<open>
  Every scrape of the logical\_disk collector is accepted by the Prometheus library in every state that it can reach, for every
  filter, whatever PDH answers and whatever is known about the volumes: a volume whose information cannot be read
  does not keep the others from being reported.
\<close>

theorem logical_disk_always_accepted:
  "reachable (logical_disk_Build api osBuild) (logical_disk_Collect exclude include vapi volumes api) \<subseteq>
     {src. \<forall>w. scrape_ok (diskPanics exclude include vapi volumes api src w) (logical_disk_Collect exclude include vapi volumes api src w)}"
  by (rule logical_disk_contract.reachable_ok)

text \<open>A buffer with the extents of a volume, as the driver lays it out.\<close>

definition encodeExtents :: "(u32 \<times> bytes) list \<Rightarrow> bytes" where
  "encodeExtents xs = concat (map (\<lambda>(d, rest). put_u32 d @ rest) xs)"

definition volumeBuffer :: "(u32 \<times> bytes) list \<Rightarrow> bytes \<Rightarrow> bytes \<Rightarrow> bytes" where
  "volumeBuffer xs pad rest = put_u32 (word_of_nat (length xs)) @ pad @ encodeExtents xs @ rest"

lemma length_encodeExtents: "list_all (\<lambda>(d, r). length r = 20) xs \<Longrightarrow> length (encodeExtents xs) = 24 * length xs"
  by (induction xs) (auto simp: encodeExtents_def)

lemma encodeExtents_split:
  assumes "i < length xs"
  shows "encodeExtents xs = encodeExtents (take i xs) @ put_u32 (fst (xs ! i)) @ snd (xs ! i) @ encodeExtents (drop (Suc i) xs)"
proof -
  have "xs = take i xs @ xs ! i # drop (Suc i) xs" using assms by (rule id_take_nth_drop)
  then have "encodeExtents xs = encodeExtents (take i xs @ xs ! i # drop (Suc i) xs)" by simp
  then show ?thesis by (simp add: encodeExtents_def split_def del: append_take_drop_id)
qed

text \<open>
  Reading back the disk numbers inverts the layout of the buffer: for every list of extents (fewer than $2^{32}$), with any
  content of their other fields and any bytes after them, \<open>getVolumeInfo\<close> reads exactly their disk numbers.
\<close>

theorem readDiskIDs_roundtrip:
  assumes "list_all (\<lambda>(d, r). length r = 20) xs" and "length xs < 2 ^ 32" and "length pad = 4"
  shows "readDiskIDs (volumeBuffer xs pad rest) = Some (map fst xs)"
proof -
  have count: "unat (get_u32 (volumeBuffer xs pad rest)) = length xs"
    using assms(2) by (simp add: volumeBuffer_def unat_u32_of_nat del: unat_of_nat)
  have read: "map_option get_u32 (slice (volumeBuffer xs pad rest) (8 + i * diskExtentSize) 4) = Some (fst (xs ! i))" if "i < length xs" for i
  proof -
    let ?pre = "put_u32 (word_of_nat (length xs)) @ pad @ encodeExtents (take i xs)"
    have "list_all (\<lambda>(d, r). length r = 20) (take i xs)" using assms(1) by (auto simp: list_all_iff dest: in_set_takeD)
    then have "length (encodeExtents (take i xs)) = 24 * i" using length_encodeExtents [of "take i xs"] that by simp
    then have pre: "length ?pre = 8 + i * diskExtentSize" using assms(3) by (simp add: diskExtentSize_def)
    have "volumeBuffer xs pad rest = ?pre @ put_u32 (fst (xs ! i)) @ snd (xs ! i) @ encodeExtents (drop (Suc i) xs) @ rest"
      unfolding volumeBuffer_def by (subst encodeExtents_split [OF that]) simp
    then show ?thesis using slice_append_exact [OF pre, of "put_u32 (fst (xs ! i))" 4] by simp
  qed
  have "map (\<lambda>i. map_option get_u32 (slice (volumeBuffer xs pad rest) (8 + i * diskExtentSize) 4)) [0..<length xs] = map Some (map fst xs)"
    using read by (intro nth_equalityI) simp_all
  then show ?thesis unfolding readDiskIDs_def count by (simp only: those_map_Some)
qed

theorem readDiskIDs_roundtrip_witness:
  "readDiskIDs (volumeBuffer [(3, replicate 20 7), (1, replicate 20 0)] [0, 0, 0, 0] []) = Some [3, 1]"
  using readDiskIDs_roundtrip [of "[(3, replicate 20 7), (1, replicate 20 0)]" "[0, 0, 0, 0]" "[]"] by simp

text \<open>The buffer of 16384 bytes holds 683 extents; the loop panics exactly when the count is larger.\<close>

lemma readDiskIDs_panics:
  assumes "length buf = 16384"
  shows "readDiskIDs buf = None \<longleftrightarrow> 683 < unat (get_u32 buf)"
proof -
  have none: "slice buf (8 + i * diskExtentSize) 4 = None \<longleftrightarrow> 683 \<le> i" for i
    using assms by (auto simp: slice_def diskExtentSize_def)
  have "those ys = None \<longleftrightarrow> None \<in> set ys" for ys :: "u32 option list" by (induction ys) (auto split: option.splits)
  then have "readDiskIDs buf = None \<longleftrightarrow> (\<exists>i<unat (get_u32 buf). 683 \<le> i)"
    unfolding readDiskIDs_def by (auto simp: image_iff eq_commute [of None] none)
  also have "\<dots> \<longleftrightarrow> 683 < unat (get_u32 buf)" by auto
  finally show ?thesis .
qed

text \<open>The descriptor of \<open>windows_logical_disk_readonly\<close> is made but no metric of it is sent.\<close>

lemma logical_disk_no_readonly:
  "map_of logical_disk_descs ''readOnly'' \<noteq> None \<and> ''readOnly'' \<notin> set (map fst (logical_disk_lines info r))"
  by (simp add: logical_disk_descs_def logical_disk_lines_def)

end
