(* ===== verification/Perf_Services.thy ===== *)
theory Perf_Services
  imports Pdh_Names
begin

text \<open>
  The file cache and SMTP collectors (internal/collector/cache and smtp).
\<close>

section \<open>cache\<close>

definition cache_fields :: "structField list" where
  "cache_fields =
     [perfField ''AsyncCopyReadsTotal'' ''Async Copy Reads/sec'',
      perfField ''AsyncDataMapsTotal'' ''Async Data Maps/sec'',
      perfField ''AsyncFastReadsTotal'' ''Async Fast Reads/sec'',
      perfField ''AsyncMDLReadsTotal'' ''Async MDL Reads/sec'',
      perfField ''AsyncPinReadsTotal'' ''Async Pin Reads/sec'',
      perfField ''CopyReadHitsTotal'' ''Copy Read Hits %'',
      perfField ''CopyReadsTotal'' ''Copy Reads/sec'',
      perfField ''DataFlushesTotal'' ''Data Flushes/sec'',
      perfField ''DataFlushPagesTotal'' ''Data Flush Pages/sec'',
      perfField ''DataMapHitsPercent'' ''Data Map Hits %'',
      perfField ''DataMapPinsTotal'' ''Data Map Pins/sec'',
      perfField ''DataMapsTotal'' ''Data Maps/sec'',
      perfField ''DirtyPages'' ''Dirty Pages'',
      perfField ''DirtyPageThreshold'' ''Dirty Page Threshold'',
      perfField ''FastReadNotPossiblesTotal'' ''Fast Read Not Possibles/sec'',
      perfField ''FastReadResourceMissesTotal'' ''Fast Read Resource Misses/sec'',
      perfField ''FastReadsTotal'' ''Fast Reads/sec'',
      perfField ''LazyWriteFlushesTotal'' ''Lazy Write Flushes/sec'',
      perfField ''LazyWritePagesTotal'' ''Lazy Write Pages/sec'',
      perfField ''MdlReadHitsTotal'' ''MDL Read Hits %'',
      perfField ''MdlReadsTotal'' ''MDL Reads/sec'',
      perfField ''PinReadHitsTotal'' ''Pin Read Hits %'',
      perfField ''PinReadsTotal'' ''Pin Reads/sec'',
      perfField ''ReadAheadsTotal'' ''Read Aheads/sec'',
      perfField ''SyncCopyReadsTotal'' ''Sync Copy Reads/sec'',
      perfField ''SyncDataMapsTotal'' ''Sync Data Maps/sec'',
      perfField ''SyncFastReadsTotal'' ''Sync Fast Reads/sec'',
      perfField ''SyncMDLReadsTotal'' ''Sync MDL Reads/sec'',
      perfField ''SyncPinReadsTotal'' ''Sync Pin Reads/sec'']"

definition cache_descs :: descTable where
  "cache_descs =
     [(''asyncCopyReadsTotal'', NewDesc (BuildFQName Namespace ''cache'' ''async_copy_reads_total'')
        ''(AsyncCopyReadsTotal)'' []),
      (''asyncDataMapsTotal'', NewDesc (BuildFQName Namespace ''cache'' ''async_data_maps_total'')
        ''(AsyncDataMapsTotal)'' []),
      (''asyncFastReadsTotal'', NewDesc (BuildFQName Namespace ''cache'' ''async_fast_reads_total'')
        ''(AsyncFastReadsTotal)'' []),
      (''asyncMDLReadsTotal'', NewDesc (BuildFQName Namespace ''cache'' ''async_mdl_reads_total'')
        ''(AsyncMDLReadsTotal)'' []),
      (''asyncPinReadsTotal'', NewDesc (BuildFQName Namespace ''cache'' ''async_pin_reads_total'')
        ''(AsyncPinReadsTotal)'' []),
      (''copyReadHitsTotal'', NewDesc (BuildFQName Namespace ''cache'' ''copy_read_hits_total'')
        ''(CopyReadHitsTotal)'' []),
      (''copyReadsTotal'', NewDesc (BuildFQName Namespace ''cache'' ''copy_reads_total'')
        ''(CopyReadsTotal)'' []),
      (''dataFlushesTotal'', NewDesc (BuildFQName Namespace ''cache'' ''data_flushes_total'')
        ''(DataFlushesTotal)'' []),
      (''dataFlushPagesTotal'', NewDesc (BuildFQName Namespace ''cache'' ''data_flush_pages_total'')
        ''(DataFlushPagesTotal)'' []),
      (''dataMapHitsPercent'', NewDesc (BuildFQName Namespace ''cache'' ''data_map_hits_percent'')
        ''(DataMapHitsPercent)'' []),
      (''dataMapPinsTotal'', NewDesc (BuildFQName Namespace ''cache'' ''data_map_pins_total'')
        ''(DataMapPinsTotal)'' []),
      (''dataMapsTotal'', NewDesc (BuildFQName Namespace ''cache'' ''data_maps_total'')
        ''(DataMapsTotal)'' []),
      (''dirtyPages'', NewDesc (BuildFQName Namespace ''cache'' ''dirty_pages'')
        ''(DirtyPages)'' []),
      (''dirtyPageThreshold'', NewDesc (BuildFQName Namespace ''cache'' ''dirty_page_threshold'')
        ''(DirtyPageThreshold)'' []),
      (''fastReadNotPossiblesTotal'', NewDesc (BuildFQName Namespace ''cache'' ''fast_read_not_possibles_total'')
        ''(FastReadNotPossiblesTotal)'' []),
      (''fastReadResourceMissesTotal'', NewDesc (BuildFQName Namespace ''cache'' ''fast_read_resource_misses_total'')
        ''(FastReadResourceMissesTotal)'' []),
      (''fastReadsTotal'', NewDesc (BuildFQName Namespace ''cache'' ''fast_reads_total'')
        ''(FastReadsTotal)'' []),
      (''lazyWriteFlushesTotal'', NewDesc (BuildFQName Namespace ''cache'' ''lazy_write_flushes_total'')
        ''(LazyWriteFlushesTotal)'' []),
      (''lazyWritePagesTotal'', NewDesc (BuildFQName Namespace ''cache'' ''lazy_write_pages_total'')
        ''(LazyWritePagesTotal)'' []),
      (''mdlReadHitsTotal'', NewDesc (BuildFQName Namespace ''cache'' ''mdl_read_hits_total'')
        ''(MDLReadHitsTotal)'' []),
      (''mdlReadsTotal'', NewDesc (BuildFQName Namespace ''cache'' ''mdl_reads_total'')
        ''(MDLReadsTotal)'' []),
      (''pinReadHitsTotal'', NewDesc (BuildFQName Namespace ''cache'' ''pin_read_hits_total'')
        ''(PinReadHitsTotal)'' []),
      (''pinReadsTotal'', NewDesc (BuildFQName Namespace ''cache'' ''pin_reads_total'')
        ''(PinReadsTotal)'' []),
      (''readAheadsTotal'', NewDesc (BuildFQName Namespace ''cache'' ''read_aheads_total'')
        ''(ReadAheadsTotal)'' []),
      (''syncCopyReadsTotal'', NewDesc (BuildFQName Namespace ''cache'' ''sync_copy_reads_total'')
        ''(SyncCopyReadsTotal)'' []),
      (''syncDataMapsTotal'', NewDesc (BuildFQName Namespace ''cache'' ''sync_data_maps_total'')
        ''(SyncDataMapsTotal)'' []),
      (''syncFastReadsTotal'', NewDesc (BuildFQName Namespace ''cache'' ''sync_fast_reads_total'')
        ''(SyncFastReadsTotal)'' []),
      (''syncMDLReadsTotal'', NewDesc (BuildFQName Namespace ''cache'' ''sync_mdl_reads_total'')
        ''(SyncMDLReadsTotal)'' []),
      (''syncPinReadsTotal'', NewDesc (BuildFQName Namespace ''cache'' ''sync_pin_reads_total'')
        ''(SyncPinReadsTotal)'' [])]"

definition cache_lines :: "row \<Rightarrow> line list" where
  "cache_lines r =
     [(''asyncCopyReadsTotal'', CounterValue, num cache_fields r ''AsyncCopyReadsTotal'', []),
      (''asyncDataMapsTotal'', CounterValue, num cache_fields r ''AsyncDataMapsTotal'', []),
      (''asyncFastReadsTotal'', CounterValue, num cache_fields r ''AsyncFastReadsTotal'', []),
      (''asyncMDLReadsTotal'', CounterValue, num cache_fields r ''AsyncMDLReadsTotal'', []),
      (''asyncPinReadsTotal'', CounterValue, num cache_fields r ''AsyncPinReadsTotal'', []),
      (''copyReadHitsTotal'', GaugeValue, num cache_fields r ''CopyReadHitsTotal'', []),
      (''copyReadsTotal'', CounterValue, num cache_fields r ''CopyReadsTotal'', []),
      (''dataFlushesTotal'', CounterValue, num cache_fields r ''DataFlushesTotal'', []),
      (''dataFlushPagesTotal'', CounterValue, num cache_fields r ''DataFlushPagesTotal'', []),
      (''dataMapHitsPercent'', GaugeValue, num cache_fields r ''DataMapHitsPercent'', []),
      (''dataMapPinsTotal'', CounterValue, num cache_fields r ''DataMapPinsTotal'', []),
      (''dataMapsTotal'', CounterValue, num cache_fields r ''DataMapsTotal'', []),
      (''dirtyPages'', GaugeValue, num cache_fields r ''DirtyPages'', []),
      (''dirtyPageThreshold'', GaugeValue, num cache_fields r ''DirtyPageThreshold'', []),
      (''fastReadNotPossiblesTotal'', CounterValue, num cache_fields r ''FastReadNotPossiblesTotal'', []),
      (''fastReadResourceMissesTotal'', CounterValue, num cache_fields r ''FastReadResourceMissesTotal'', []),
      (''fastReadsTotal'', CounterValue, num cache_fields r ''FastReadsTotal'', []),
      (''lazyWriteFlushesTotal'', CounterValue, num cache_fields r ''LazyWriteFlushesTotal'', []),
      (''lazyWritePagesTotal'', CounterValue, num cache_fields r ''LazyWritePagesTotal'', []),
      (''mdlReadHitsTotal'', CounterValue, num cache_fields r ''MdlReadHitsTotal'', []),
      (''mdlReadsTotal'', CounterValue, num cache_fields r ''MdlReadsTotal'', []),
      (''pinReadHitsTotal'', CounterValue, num cache_fields r ''PinReadHitsTotal'', []),
      (''pinReadsTotal'', CounterValue, num cache_fields r ''PinReadsTotal'', []),
      (''readAheadsTotal'', CounterValue, num cache_fields r ''ReadAheadsTotal'', []),
      (''syncCopyReadsTotal'', CounterValue, num cache_fields r ''SyncCopyReadsTotal'', []),
      (''syncDataMapsTotal'', CounterValue, num cache_fields r ''SyncDataMapsTotal'', []),
      (''syncFastReadsTotal'', CounterValue, num cache_fields r ''SyncFastReadsTotal'', []),
      (''syncMDLReadsTotal'', CounterValue, num cache_fields r ''SyncMDLReadsTotal'', []),
      (''syncPinReadsTotal'', CounterValue, num cache_fields r ''SyncPinReadsTotal'', [])]"

definition cache_Build :: "'w pdh_api \<Rightarrow> u16 \<Rightarrow> 'w \<Rightarrow> (go_error option \<times> perfSource \<times> 'w) option" where
  "cache_Build api osBuild = perfBuild api osBuild ''failed to create Cache collector: %w'' ''Cache'' [''*''] cache_fields"

definition cache_Collect :: "'w pdh_api \<Rightarrow> perfSource \<Rightarrow> 'w \<Rightarrow> (perfSource, 'w) collected" where
  "cache_Collect api =
     collectWith api cache_fields ''failed to collect Cache metrics: %w'' cache_descs
       (firstRow ''failed to collect Cache metrics: %w'' cache_lines)"

section \<open>smtp\<close>

definition smtp_fields :: "structField list" where
  "smtp_fields =
     [nameField,
      perfField ''BadmailedMessagesBadPickupFileTotal'' ''Badmailed Messages (Bad Pickup File)'',
      perfField ''BadmailedMessagesGeneralFailureTotal'' ''Badmailed Messages (General Failure)'',
      perfField ''BadmailedMessagesHopCountExceededTotal'' ''Badmailed Messages (Hop Count Exceeded)'',
      perfField ''BadmailedMessagesNDROfDSNTotal'' ''Badmailed Messages (NDR of DSN)'',
      perfField ''BadmailedMessagesNoRecipientsTotal'' ''Badmailed Messages (No Recipients)'',
      perfField ''BadmailedMessagesTriggeredViaEventTotal'' ''Badmailed Messages (Triggered via Event)'',
      perfField ''BytesSentTotal'' ''Bytes Sent Total'',
      perfField ''BytesReceivedTotal'' ''Bytes Received Total'',
      perfField ''CategorizerQueueLength'' ''Categorizer Queue Length'',
      perfField ''ConnectionErrorsTotal'' ''Total Connection Errors'',
      perfField ''CurrentMessagesInLocalDelivery'' ''Current Messages in Local Delivery'',
      perfField ''DirectoryDropsTotal'' ''Directory Drops Total'',
      perfField ''DnsQueriesTotal'' ''DNS Queries Total'',
      perfField ''DsnFailuresTotal'' ''Total DSN Failures'',
      perfField ''EtrnMessagesTotal'' ''ETRN Messages Total'',
      perfField ''InboundConnectionsCurrent'' ''Inbound Connections Current'',
      perfField ''InboundConnectionsTotal'' ''Inbound Connections Total'',
      perfField ''LocalQueueLength'' ''Local Queue Length'',
      perfField ''LocalRetryQueueLength'' ''Local Retry Queue Length'',
      perfField ''MailFilesOpen'' ''Number of MailFiles Open'',
      perfField ''MessageBytesReceivedTotal'' ''Message Bytes Received Total'',
      perfField ''MessageBytesSentTotal'' ''Message Bytes Sent Total'',
      perfField ''MessageDeliveryRetriesTotal'' ''Message Delivery Retries'',
      perfField ''MessageSendRetriesTotal'' ''Message Send Retries'',
      perfField ''MessagesCurrentlyUndeliverable'' ''Messages Currently Undeliverable'',
      perfField ''MessagesDeliveredTotal'' ''Messages Delivered Total'',
      perfField ''MessagesPendingRouting'' ''Messages Pending Routing'',
      perfField ''MessagesReceivedTotal'' ''Messages Received Total'',
      perfField ''MessagesRefusedForAddressObjectsTotal'' ''Messages Refused for Address Objects'',
      perfField ''MessagesRefusedForMailObjectsTotal'' ''Messages Refused for Mail Objects'',
      perfField ''MessagesRefusedForSizeTotal'' ''Messages Refused for Size'',
      perfField ''MessagesSentTotal'' ''Messages Sent Total'',
      perfField ''MessagesSubmittedTotal'' ''Total messages submitted'',
      perfField ''NdrsGeneratedTotal'' ''NDRs Generated'',
      perfField ''OutboundConnectionsCurrent'' ''Outbound Connections Current'',
      perfField ''OutboundConnectionsRefusedTotal'' ''Outbound Connections Refused'',
      perfField ''OutboundConnectionsTotal'' ''Outbound Connections Total'',
      perfField ''QueueFilesOpen'' ''Number of QueueFiles Open'',
      perfField ''PickupDirectoryMessagesRetrievedTotal'' ''Pickup Directory Messages Retrieved Total'',
      perfField ''RemoteQueueLength'' ''Remote Queue Length'',
      perfField ''RemoteRetryQueueLength'' ''Remote Retry Queue Length'',
      perfField ''RoutingTableLookupsTotal'' ''Routing Table Lookups Total'']"

definition smtp_descs :: descTable where
  "smtp_descs =
     [(''badMailedMessagesBadPickupFileTotal'', NewDesc (BuildFQName Namespace ''smtp'' ''badmailed_messages_bad_pickup_file_total'')
        ''Total number of malformed pickup messages sent to badmail'' [''site'']),
      (''badMailedMessagesGeneralFailureTotal'', NewDesc (BuildFQName Namespace ''smtp'' ''badmailed_messages_general_failure_total'')
        ''Total number of messages sent to badmail for reasons not associated with a specific counter'' [''site'']),
      (''badMailedMessagesHopCountExceededTotal'', NewDesc (BuildFQName Namespace ''smtp'' ''badmailed_messages_hop_count_exceeded_total'')
        ''Total number of messages sent to badmail because they had exceeded the maximum hop count'' [''site'']),
      (''badMailedMessagesNDROfDSNTotal'', NewDesc (BuildFQName Namespace ''smtp'' ''badmailed_messages_ndr_of_dns_total'')
        ''Total number of Delivery Status Notifications sent to badmail because they could not be delivered'' [''site'']),
      (''badMailedMessagesNoRecipientsTotal'', NewDesc (BuildFQName Namespace ''smtp'' ''badmailed_messages_no_recipients_total'')
        ''Total number of messages sent to badmail because they had no recipients'' [''site'']),
      (''badMailedMessagesTriggeredViaEventTotal'', NewDesc (BuildFQName Namespace ''smtp'' ''badmailed_messages_triggered_via_event_total'')
        ''Total number of messages sent to badmail at the request of a server event sink'' [''site'']),
      (''bytesSentTotal'', NewDesc (BuildFQName Namespace ''smtp'' ''bytes_sent_total'')
        ''Total number of bytes sent'' [''site'']),
      (''bytesReceivedTotal'', NewDesc (BuildFQName Namespace ''smtp'' ''bytes_received_total'')
        ''Total number of bytes received'' [''site'']),
      (''categorizerQueueLength'', NewDesc (BuildFQName Namespace ''smtp'' ''categorizer_queue_length'')
        ''Number of messages in the categorizer queue'' [''site'']),
      (''connectionErrorsTotal'', NewDesc (BuildFQName Namespace ''smtp'' ''connection_errors_total'')
        ''Total number of connection errors'' [''site'']),
      (''currentMessagesInLocalDelivery'', NewDesc (BuildFQName Namespace ''smtp'' ''current_messages_in_local_delivery'')
        ''Number of messages that are currently being processed by a server event sink for local delivery'' [''site'']),
      (''directoryDropsTotal'', NewDesc (BuildFQName Namespace ''smtp'' ''directory_drops_total'')
        ''Total number of messages placed in a drop directory'' [''site'']),
      (''dsnFailuresTotal'', NewDesc (BuildFQName Namespace ''smtp'' ''dsn_failures_total'')
        ''Total number of failed DSN generation attempts'' [''site'']),
      (''dnsQueriesTotal'', NewDesc (BuildFQName Namespace ''smtp'' ''dns_queries_total'')
        ''Total number of DNS lookups'' [''site'']),
      (''etrnMessagesTotal'', NewDesc (BuildFQName Namespace ''smtp'' ''etrn_messages_total'')
        ''Total number of ETRN messages received by the server'' [''site'']),
      (''inboundConnectionsCurrent'', NewDesc (BuildFQName Namespace ''smtp'' ''inbound_connections_current'')
        ''Total number of connections currently inbound'' [''site'']),
      (''inboundConnectionsTotal'', NewDesc (BuildFQName Namespace ''smtp'' ''inbound_connections_total'')
        ''Total number of inbound connections received'' [''site'']),
      (''localQueueLength'', NewDesc (BuildFQName Namespace ''smtp'' ''local_queue_length'')
        ''Number of messages in the local queue'' [''site'']),
      (''localRetryQueueLength'', NewDesc (BuildFQName Namespace ''smtp'' ''local_retry_queue_length'')
        ''Number of messages in the local retry queue'' [''site'']),
      (''mailFilesOpen'', NewDesc (BuildFQName Namespace ''smtp'' ''mail_files_open'')
        ''Number of handles to open mail files'' [''site'']),
      (''messageBytesReceivedTotal'', NewDesc (BuildFQName Namespace ''smtp'' ''message_bytes_received_total'')
        ''Total number of bytes received in messages'' [''site'']),
      (''messageBytesSentTotal'', NewDesc (BuildFQName Namespace ''smtp'' ''message_bytes_sent_total'')
        ''Total number of bytes sent in messages'' [''site'']),
      (''messageDeliveryRetriesTotal'', NewDesc (BuildFQName Namespace ''smtp'' ''message_delivery_retries_total'')
        ''Total number of local deliveries that were retried'' [''site'']),
      (''messageSendRetriesTotal'', NewDesc (BuildFQName Namespace ''smtp'' ''message_send_retries_total'')
        ''Total number of outbound message sends that were retried'' [''site'']),
      (''messagesCurrentlyUndeliverable'', NewDesc (BuildFQName Namespace ''smtp'' ''messages_currently_undeliverable'')
        ''Number of messages that have been reported as currently undeliverable by routing'' [''site'']),
      (''messagesDeliveredTotal'', NewDesc (BuildFQName Namespace ''smtp'' ''messages_delivered_total'')
        ''Total number of messages delivered to local mailboxes'' [''site'']),
      (''messagesPendingRouting'', NewDesc (BuildFQName Namespace ''smtp'' ''messages_pending_routing'')
        ''Number of messages that have been categorized but not routed'' [''site'']),
      (''messagesReceivedTotal'', NewDesc (BuildFQName Namespace ''smtp'' ''messages_received_total'')
        ''Total number of inbound messages accepted'' [''site'']),
      (''messagesRefusedForAddressObjectsTotal'', NewDesc (BuildFQName Namespace ''smtp'' ''messages_refused_for_address_objects_total'')
        ''Total number of messages refused due to no address objects'' [''site'']),
      (''messagesRefusedForMailObjectsTotal'', NewDesc (BuildFQName Namespace ''smtp'' ''messages_refused_for_mail_objects_total'')
        ''Total number of messages refused due to no mail objects'' [''site'']),
      (''messagesRefusedForSizeTotal'', NewDesc (BuildFQName Namespace ''smtp'' ''messages_refused_for_size_total'')
        ''Total number of messages rejected because they were too big'' [''site'']),
      (''messagesSentTotal'', NewDesc (BuildFQName Namespace ''smtp'' ''messages_sent_total'')
        ''Total number of outbound messages sent'' [''site'']),
      (''messagesSubmittedTotal'', NewDesc (BuildFQName Namespace ''smtp'' ''messages_submitted_total'')
        ''Total number of messages submitted to queuing for delivery'' [''site'']),
      (''ndrsGeneratedTotal'', NewDesc (BuildFQName Namespace ''smtp'' ''ndrs_generated_total'')
        ''Total number of non-delivery reports that have been generated'' [''site'']),
      (''outboundConnectionsCurrent'', NewDesc (BuildFQName Namespace ''smtp'' ''outbound_connections_current'')
        ''Number of connections currently outbound'' [''site'']),
      (''outboundConnectionsRefusedTotal'', NewDesc (BuildFQName Namespace ''smtp'' ''outbound_connections_refused_total'')
        ''Total number of connection attempts refused by remote sites'' [''site'']),
      (''outboundConnectionsTotal'', NewDesc (BuildFQName Namespace ''smtp'' ''outbound_connections_total'')
        ''Total number of outbound connections attempted'' [''site'']),
      (''pickupDirectoryMessagesRetrievedTotal'', NewDesc (BuildFQName Namespace ''smtp'' ''pickup_directory_messages_retrieved_total'')
        ''Total number of messages retrieved from the mail pick-up directory'' [''site'']),
      (''queueFilesOpen'', NewDesc (BuildFQName Namespace ''smtp'' ''queue_files_open'')
        ''Number of handles to open queue files'' [''site'']),
      (''remoteQueueLength'', NewDesc (BuildFQName Namespace ''smtp'' ''remote_queue_length'')
        ''Number of messages in the remote queue'' [''site'']),
      (''remoteRetryQueueLength'', NewDesc (BuildFQName Namespace ''smtp'' ''remote_retry_queue_length'')
        ''Number of messages in the retry queue for remote delivery'' [''site'']),
      (''routingTableLookupsTotal'', NewDesc (BuildFQName Namespace ''smtp'' ''routing_table_lookups_total'')
        ''Total number of routing table lookups'' [''site''])]"

definition smtp_lines :: "row \<Rightarrow> line list" where
  "smtp_lines r =
     [(''badMailedMessagesBadPickupFileTotal'', CounterValue, num smtp_fields r ''BadmailedMessagesBadPickupFileTotal'', [rowName smtp_fields r]),
      (''badMailedMessagesHopCountExceededTotal'', CounterValue, num smtp_fields r ''BadmailedMessagesHopCountExceededTotal'', [rowName smtp_fields r]),
      (''badMailedMessagesNDROfDSNTotal'', CounterValue, num smtp_fields r ''BadmailedMessagesNDROfDSNTotal'', [rowName smtp_fields r]),
      (''badMailedMessagesNoRecipientsTotal'', CounterValue, num smtp_fields r ''BadmailedMessagesNoRecipientsTotal'', [rowName smtp_fields r]),
      (''badMailedMessagesTriggeredViaEventTotal'', CounterValue, num smtp_fields r ''BadmailedMessagesTriggeredViaEventTotal'', [rowName smtp_fields r]),
      (''bytesSentTotal'', CounterValue, num smtp_fields r ''BytesSentTotal'', [rowName smtp_fields r]),
      (''bytesReceivedTotal'', CounterValue, num smtp_fields r ''BytesReceivedTotal'', [rowName smtp_fields r]),
      (''categorizerQueueLength'', GaugeValue, num smtp_fields r ''CategorizerQueueLength'', [rowName smtp_fields r]),
      (''connectionErrorsTotal'', CounterValue, num smtp_fields r ''ConnectionErrorsTotal'', [rowName smtp_fields r]),
      (''currentMessagesInLocalDelivery'', GaugeValue, num smtp_fields r ''CurrentMessagesInLocalDelivery'', [rowName smtp_fields r]),
      (''directoryDropsTotal'', CounterValue, num smtp_fields r ''DirectoryDropsTotal'', [rowName smtp_fields r]),
      (''dsnFailuresTotal'', CounterValue, num smtp_fields r ''DsnFailuresTotal'', [rowName smtp_fields r]),
      (''dnsQueriesTotal'', CounterValue, num smtp_fields r ''DnsQueriesTotal'', [rowName smtp_fields r]),
      (''etrnMessagesTotal'', CounterValue, num smtp_fields r ''EtrnMessagesTotal'', [rowName smtp_fields r]),
      (''inboundConnectionsTotal'', CounterValue, num smtp_fields r ''InboundConnectionsTotal'', [rowName smtp_fields r]),
      (''inboundConnectionsCurrent'', GaugeValue, num smtp_fields r ''InboundConnectionsCurrent'', [rowName smtp_fields r]),
      (''localQueueLength'', GaugeValue, num smtp_fields r ''LocalQueueLength'', [rowName smtp_fields r]),
      (''localRetryQueueLength'', GaugeValue, num smtp_fields r ''LocalRetryQueueLength'', [rowName smtp_fields r]),
      (''mailFilesOpen'', GaugeValue, num smtp_fields r ''MailFilesOpen'', [rowName smtp_fields r]),
      (''messageBytesReceivedTotal'', CounterValue, num smtp_fields r ''MessageBytesReceivedTotal'', [rowName smtp_fields r]),
      (''messageBytesSentTotal'', CounterValue, num smtp_fields r ''MessageBytesSentTotal'', [rowName smtp_fields r]),
      (''messageDeliveryRetriesTotal'', CounterValue, num smtp_fields r ''MessageDeliveryRetriesTotal'', [rowName smtp_fields r]),
      (''messageSendRetriesTotal'', CounterValue, num smtp_fields r ''MessageSendRetriesTotal'', [rowName smtp_fields r]),
      (''messagesCurrentlyUndeliverable'', GaugeValue, num smtp_fields r ''MessagesCurrentlyUndeliverable'', [rowName smtp_fields r]),
      (''messagesDeliveredTotal'', CounterValue, num smtp_fields r ''MessagesDeliveredTotal'', [rowName smtp_fields r]),
      (''messagesPendingRouting'', GaugeValue, num smtp_fields r ''MessagesPendingRouting'', [rowName smtp_fields r]),
      (''messagesReceivedTotal'', CounterValue, num smtp_fields r ''MessagesReceivedTotal'', [rowName smtp_fields r]),
      (''messagesRefusedForAddressObjectsTotal'', CounterValue, num smtp_fields r ''MessagesRefusedForAddressObjectsTotal'', [rowName smtp_fields r]),
      (''messagesRefusedForMailObjectsTotal'', CounterValue, num smtp_fields r ''MessagesRefusedForMailObjectsTotal'', [rowName smtp_fields r]),
      (''messagesRefusedForSizeTotal'', CounterValue, num smtp_fields r ''MessagesRefusedForSizeTotal'', [rowName smtp_fields r]),
      (''messagesSentTotal'', CounterValue, num smtp_fields r ''MessagesSentTotal'', [rowName smtp_fields r]),
      (''messagesSubmittedTotal'', CounterValue, num smtp_fields r ''MessagesSubmittedTotal'', [rowName smtp_fields r]),
      (''ndrsGeneratedTotal'', CounterValue, num smtp_fields r ''NdrsGeneratedTotal'', [rowName smtp_fields r]),
      (''outboundConnectionsCurrent'', GaugeValue, num smtp_fields r ''OutboundConnectionsCurrent'', [rowName smtp_fields r]),
      (''outboundConnectionsRefusedTotal'', CounterValue, num smtp_fields r ''OutboundConnectionsRefusedTotal'', [rowName smtp_fields r]),
      (''outboundConnectionsTotal'', CounterValue, num smtp_fields r ''OutboundConnectionsTotal'', [rowName smtp_fields r]),
      (''queueFilesOpen'', GaugeValue, num smtp_fields r ''QueueFilesOpen'', [rowName smtp_fields r]),
      (''pickupDirectoryMessagesRetrievedTotal'', CounterValue, num smtp_fields r ''PickupDirectoryMessagesRetrievedTotal'', [rowName smtp_fields r]),
      (''remoteQueueLength'', GaugeValue, num smtp_fields r ''RemoteQueueLength'', [rowName smtp_fields r]),
      (''remoteRetryQueueLength'', GaugeValue, num smtp_fields r ''RemoteRetryQueueLength'', [rowName smtp_fields r]),
      (''routingTableLookupsTotal'', CounterValue, num smtp_fields r ''RoutingTableLookupsTotal'', [rowName smtp_fields r])]"

definition smtp_Build :: "'w pdh_api \<Rightarrow> u16 \<Rightarrow> 'w \<Rightarrow> (go_error option \<times> perfSource \<times> 'w) option" where
  "smtp_Build api osBuild = perfBuild api osBuild ''failed to create SMTP Server collector: %w'' ''SMTP Server'' [''*''] smtp_fields"

definition smtp_Collect ::
  "(string \<Rightarrow> bool) \<Rightarrow> (string \<Rightarrow> bool) \<Rightarrow> 'w pdh_api \<Rightarrow> perfSource \<Rightarrow> 'w \<Rightarrow> (perfSource, 'w) collected" where
  "smtp_Collect exclude include api =
     collectWith api smtp_fields ''failed to collect SMTP Server metrics: %w'' smtp_descs
       (eachRow (\<lambda>r. included exclude include (rowName smtp_fields r)) smtp_lines)"

section \<open>The tables and the contracts\<close>

lemma cache_names: "distinct (map (\<lambda>(n, d). fqName d) cache_descs)" by code_simp

lemma smtp_names: "distinct (map (\<lambda>(n, d). fqName d) smtp_descs)" by code_simp

lemma cache_table: "table_ok cache_descs (cache_lines r)"
  by (rule table_ok_names; unfold cache_lines_def line_simps) code_simp+

lemma smtp_table: "table_ok smtp_descs (smtp_lines r)"
  by (rule table_ok_names; unfold smtp_lines_def line_simps) code_simp+

interpretation cache: perf_table cache_descs cache_lines
  by unfold_locales (rule cache_names cache_table)+

interpretation smtp: keyed_table smtp_descs smtp_lines "rowName smtp_fields" "\<lambda>n. 0"
  by unfold_locales (auto simp: smtp_names smtp_table, simp add: smtp_lines_def)

interpretation cache_contract: perf_contract "cache_Build api osBuild" "cache_Collect api" "source_ok cache_fields"
  "\<lambda>src w. perfCollect api cache_fields src w = None"
  by unfold_locales (auto simp: cache_Build_def cache_Collect_def firstRow_def cache.row_accepted
      intro: perfBuild_ok collectWith_source intro!: collectWith_ok [where rows_ok = "\<lambda>rs. True"] split: list.splits)

interpretation smtp_contract: perf_contract "smtp_Build api osBuild" "smtp_Collect exclude include api" "source_ok smtp_fields"
  "\<lambda>src w. perfCollect api smtp_fields src w = None"
proof
  show "source_ok smtp_fields c" if "smtp_Build api osBuild w = Some (None, c, w')" for w c w'
    using that unfolding smtp_Build_def by (rule perfBuild_ok)
  show "source_ok smtp_fields c'" if "source_ok smtp_fields c" "smtp_Collect exclude include api c w = Some (err, ms, c', w')" for c w err ms c' w'
    using that unfolding smtp_Collect_def by (rule collectWith_source)
  show "scrape_ok (perfCollect api smtp_fields c w = None) (smtp_Collect exclude include api c w)" if "source_ok smtp_fields c" for c w
    unfolding smtp_Collect_def
  proof (rule collectWith_ok [OF that, where k = 0 and rows_ok = "\<lambda>rs. distinct (map (rowName smtp_fields) rs)"])
    show "fieldIndex ''Name'' KString 0 smtp_fields = Some 0 \<or> (\<forall>rs. distinct (map (rowName smtp_fields) rs))"
      by (simp add: smtp_fields_def nameField_def)
    show "accepted (sendAll smtp_descs lns)"
      if "distinct (map (rowName smtp_fields) rs)" "eachRow (\<lambda>r. included exclude include (rowName smtp_fields r)) smtp_lines rs = Inr lns" for rs lns
      using that smtp.rows_accepted [OF distinct_filter_names] by (auto simp: eachRow_def)
  qed
qed

text \<open>The descriptor of \<open>badMailedMessagesGeneralFailureTotal\<close> is made but no metric of it is sent.\<close>

lemma smtp_no_general_failure:
  "map_of smtp_descs ''badMailedMessagesGeneralFailureTotal'' \<noteq> None \<and>
   ''badMailedMessagesGeneralFailureTotal'' \<notin> set (map fst (smtp_lines r))"
  by (simp add: smtp_descs_def smtp_lines_def)

end
