(* ===== verification/Perflib_Raw.thy ===== *)
theory Perflib_Raw
  imports Pdh
begin

text \<open>
  The raw structures of the performance data in the registry (internal/pdh/registry/raw\_types.go),
  the readers of \<open>bytes\<close> and \<open>encoding/binary\<close> that the parser uses on them, and strings in UTF-16
  (utf16.go). \<open>windows.UTF16ToString\<close> is a parameter.
\<close>

section \<open>Readers\<close>

abbreviation io_EOF :: go_error where "io_EOF \<equiv> Sentinel ''io.EOF''"
abbreviation io_ErrUnexpectedEOF :: go_error where "io_ErrUnexpectedEOF \<equiv> Sentinel ''io.ErrUnexpectedEOF''"

text \<open>
  \<open>binary.Read\<close> from a \<open>bytes.Reader\<close> that stands at \<open>pos\<close>: a value of a fixed size, or one of the two errors of
  \<open>io.ReadFull\<close>. A position behind the end is not an error of \<open>Seek\<close>.
\<close>

definition binary_Read :: "nat \<Rightarrow> (bytes \<Rightarrow> 'a) \<Rightarrow> bytes \<Rightarrow> nat \<Rightarrow> go_error + 'a" where
  "binary_Read sz dec buf pos =
     (case read_struct sz dec buf pos of
        Some x \<Rightarrow> Inr x
      | None \<Rightarrow> Inl (if length buf \<le> pos then io_EOF else io_ErrUnexpectedEOF))"

text \<open>The 16-bit words of a byte string; \<open>binary.Read\<close> of a slice of them.\<close>

fun words16 :: "bytes \<Rightarrow> u16 list" where
  "words16 (a # b # bs) = get_u16 [a, b] # words16 bs"
| "words16 _ = []"

text \<open>
  \<open>readUTF16StringAtPos\<close>: half of \<open>length\<close> words. A read of no words does not touch the reader.
\<close>

definition readUTF16StringAtPos :: "(u16 list \<Rightarrow> string) \<Rightarrow> bytes \<Rightarrow> nat \<Rightarrow> u32 \<Rightarrow> go_error + string" where
  "readUTF16StringAtPos utf16 buf absPos len =
     (let n = unat len div 2 in
      if n = 0 then Inr (utf16 [])
      else map_sum id utf16 (binary_Read (2 * n) words16 buf absPos))"

text \<open>
  The loop of \<open>readUTF16String\<close> on the rest of the input. \<open>b\<close> is the buffer of the two bytes: \<open>Read\<close> fills as many as are left, and keeps
  the others as they were. The result has the error of the last read and the rest of the input.
\<close>

fun readWords :: "u8 \<times> u8 \<Rightarrow> u16 list \<Rightarrow> bytes \<Rightarrow> (go_error + u16 list) \<times> bytes" where
  "readWords b out [] =
     (Inl io_EOF, [])"
| "readWords b out [x] =
     (if x = 0 \<and> snd b = 0 then (Inr out, [])
      else readWords (x, snd b) (out @ [get_u16 [x, snd b]]) [])"
| "readWords b out (x # y # bs) =
     (if x = 0 \<and> y = 0 then (Inr out, bs) else readWords (x, y) (out @ [get_u16 [x, y]]) bs)"

definition readUTF16String :: "(u16 list \<Rightarrow> string) \<Rightarrow> bytes \<Rightarrow> (go_error + string) \<times> bytes" where
  "readUTF16String utf16 bs = (case readWords (0, 0) [] bs of (r, bs') \<Rightarrow> (map_sum id utf16 r, bs'))"

lemma readWords_shorter:
  "readWords b out bs = (r, bs') \<Longrightarrow> bs \<noteq> [] \<Longrightarrow> length bs' < length bs"
proof (induction b out bs rule: readWords.induct)
  case (2 b out x)
  then show ?case by (auto split: if_splits)
next
  case (3 b out x y bs)
  then show ?case by (cases bs) (auto split: if_splits)
qed simp

lemma readUTF16String_shorter:
  "readUTF16String utf16 bs = (Inr s, bs') \<Longrightarrow> length bs' < length bs"
  by (cases bs) (auto simp: readUTF16String_def split: prod.splits dest: readWords_shorter)

text \<open>A string without a zero word, in bytes, and read back.\<close>

definition utf16z :: "u16 list \<Rightarrow> bytes" where
  "utf16z ws = concat (map put_u16 ws) @ [0, 0]"

lemma put_u16_two: "\<exists>a b. put_u16 w = [a, b]"
proof -
  have "length (put_u16 w) = 2" by simp
  then show ?thesis by (auto simp: length_Suc_conv numeral_2_eq_2 simp del: length_put)
qed

lemma get_u16_zero: "get_u16 [0, 0] = 0"
  by (simp add: get_u16_def)

lemma readWords_utf16z: "0 \<notin> set ws \<Longrightarrow> readWords b out (utf16z ws @ bs) = (Inr (out @ ws), bs)"
proof (induction ws arbitrary: b out)
  case Nil
  then show ?case by (simp add: utf16z_def)
next
  case (Cons w ws)
  obtain x y where xy: "put_u16 w = [x, y]" using put_u16_two by blast
  then have w: "get_u16 [x, y] = w" using get_put_last(1) [of w] by simp
  then have "\<not> (x = 0 \<and> y = 0)" using Cons.prems by (auto simp: get_u16_zero)
  then show ?case using Cons xy w by (simp add: utf16z_def)
qed

lemma words16_put: "words16 (concat (map put_u16 ws)) = ws"
proof (induction ws)
  case (Cons w ws)
  obtain x y where xy: "put_u16 w = [x, y]" using put_u16_two by blast
  then have "get_u16 [x, y] = w" using get_put_last(1) [of w] by simp
  then show ?case using Cons xy by simp
qed simp

section \<open>The raw structures\<close>

record perfDataBlock =
  Signature :: "u16 list"
  LittleEndian :: u32
  Version :: u32
  Revision :: u32
  dbTotalByteLength :: u32
  dbHeaderLength :: u32
  NumObjectTypes :: u32
  DefaultObject :: u32
  SystemTime :: "u16 list"
  dbPerfTime :: u64
  dbPerfFreq :: u64
  PerfTime100nSec :: u64
  SystemNameLength :: u32
  SystemNameOffset :: u32

definition perfDataBlockSize :: nat where "perfDataBlockSize = 88"

definition decodeDataBlock :: "bytes \<Rightarrow> perfDataBlock" where
  "decodeDataBlock b =
     \<lparr>Signature = words16 (take 8 b), LittleEndian = get_u32 (drop 8 b), Version = get_u32 (drop 12 b),
      Revision = get_u32 (drop 16 b), dbTotalByteLength = get_u32 (drop 20 b), dbHeaderLength = get_u32 (drop 24 b),
      NumObjectTypes = get_u32 (drop 28 b), DefaultObject = get_u32 (drop 32 b), SystemTime = words16 (take 16 (drop 36 b)),
      dbPerfTime = get_u64 (drop 56 b), dbPerfFreq = get_u64 (drop 64 b), PerfTime100nSec = get_u64 (drop 72 b),
      SystemNameLength = get_u32 (drop 80 b), SystemNameOffset = get_u32 (drop 84 b)\<rparr>"

record perfObjectType =
  otTotalByteLength :: u32
  DefinitionLength :: u32
  otHeaderLength :: u32
  ObjectNameTitleIndex :: u32
  ObjectNameTitle :: u32
  ObjectHelpTitleIndex :: u32
  ObjectHelpTitle :: u32
  otDetailLevel :: u32
  NumCounters :: u32
  DefaultCounter :: u32
  NumInstances :: u32
  CodePage :: u32
  otPerfTime :: u64
  otPerfFreq :: u64

definition perfObjectTypeSize :: nat where "perfObjectTypeSize = 64"

definition decodeObjectType :: "bytes \<Rightarrow> perfObjectType" where
  "decodeObjectType b =
     \<lparr>otTotalByteLength = get_u32 b, DefinitionLength = get_u32 (drop 4 b), otHeaderLength = get_u32 (drop 8 b),
      ObjectNameTitleIndex = get_u32 (drop 12 b), ObjectNameTitle = get_u32 (drop 16 b),
      ObjectHelpTitleIndex = get_u32 (drop 20 b), ObjectHelpTitle = get_u32 (drop 24 b), otDetailLevel = get_u32 (drop 28 b),
      NumCounters = get_u32 (drop 32 b), DefaultCounter = get_u32 (drop 36 b), NumInstances = get_u32 (drop 40 b),
      CodePage = get_u32 (drop 44 b), otPerfTime = get_u64 (drop 48 b), otPerfFreq = get_u64 (drop 56 b)\<rparr>"

record perfCounterDefinition =
  cdByteLength :: u32
  CounterNameTitleIndex :: u32
  CounterNameTitle :: u32
  CounterHelpTitleIndex :: u32
  CounterHelpTitle :: u32
  DefaultScale :: u32
  cdDetailLevel :: u32
  rawCounterType :: u32
  CounterSize :: u32
  CounterOffset :: u32

definition perfCounterDefinitionSize :: nat where "perfCounterDefinitionSize = 40"

definition decodeCounterDefinition :: "bytes \<Rightarrow> perfCounterDefinition" where
  "decodeCounterDefinition b =
     \<lparr>cdByteLength = get_u32 b, CounterNameTitleIndex = get_u32 (drop 4 b), CounterNameTitle = get_u32 (drop 8 b),
      CounterHelpTitleIndex = get_u32 (drop 12 b), CounterHelpTitle = get_u32 (drop 16 b), DefaultScale = get_u32 (drop 20 b),
      cdDetailLevel = get_u32 (drop 24 b), rawCounterType = get_u32 (drop 28 b), CounterSize = get_u32 (drop 32 b),
      CounterOffset = get_u32 (drop 36 b)\<rparr>"

record perfInstanceDefinition =
  idByteLength :: u32
  ParentObjectTitleIndex :: u32
  ParentObjectInstance :: u32
  UniqueID :: u32
  NameOffset :: u32
  NameLength :: u32

definition perfInstanceDefinitionSize :: nat where "perfInstanceDefinitionSize = 24"

definition decodeInstanceDefinition :: "bytes \<Rightarrow> perfInstanceDefinition" where
  "decodeInstanceDefinition b =
     \<lparr>idByteLength = get_u32 b, ParentObjectTitleIndex = get_u32 (drop 4 b), ParentObjectInstance = get_u32 (drop 8 b),
      UniqueID = get_u32 (drop 12 b), NameOffset = get_u32 (drop 16 b), NameLength = get_u32 (drop 20 b)\<rparr>"

text \<open>\<open>perfCounterBlock\<close> has one field, its length in bytes.\<close>

definition perfCounterBlockSize :: nat where "perfCounterBlockSize = 4"

section \<open>Encoders\<close>

text \<open>The bytes of the structures as the system writes them, and that the decoders invert them.\<close>

definition encodeDataBlock :: "perfDataBlock \<Rightarrow> bytes" where
  "encodeDataBlock h =
     concat (map put_u16 (Signature h)) @ put_u32 (LittleEndian h) @ put_u32 (Version h) @ put_u32 (Revision h) @
     put_u32 (dbTotalByteLength h) @ put_u32 (dbHeaderLength h) @ put_u32 (NumObjectTypes h) @ put_u32 (DefaultObject h) @
     concat (map put_u16 (SystemTime h)) @ put_u32 0 @ put_u64 (dbPerfTime h) @ put_u64 (dbPerfFreq h) @
     put_u64 (PerfTime100nSec h) @ put_u32 (SystemNameLength h) @ put_u32 (SystemNameOffset h)"

definition encodeObjectType :: "perfObjectType \<Rightarrow> bytes" where
  "encodeObjectType t =
     put_u32 (otTotalByteLength t) @ put_u32 (DefinitionLength t) @ put_u32 (otHeaderLength t) @
     put_u32 (ObjectNameTitleIndex t) @ put_u32 (ObjectNameTitle t) @ put_u32 (ObjectHelpTitleIndex t) @
     put_u32 (ObjectHelpTitle t) @ put_u32 (otDetailLevel t) @ put_u32 (NumCounters t) @ put_u32 (DefaultCounter t) @
     put_u32 (NumInstances t) @ put_u32 (CodePage t) @ put_u64 (otPerfTime t) @ put_u64 (otPerfFreq t)"

definition encodeCounterDefinition :: "perfCounterDefinition \<Rightarrow> bytes" where
  "encodeCounterDefinition d =
     put_u32 (cdByteLength d) @ put_u32 (CounterNameTitleIndex d) @ put_u32 (CounterNameTitle d) @
     put_u32 (CounterHelpTitleIndex d) @ put_u32 (CounterHelpTitle d) @ put_u32 (DefaultScale d) @
     put_u32 (cdDetailLevel d) @ put_u32 (rawCounterType d) @ put_u32 (CounterSize d) @ put_u32 (CounterOffset d)"

definition encodeInstanceDefinition :: "perfInstanceDefinition \<Rightarrow> bytes" where
  "encodeInstanceDefinition i =
     put_u32 (idByteLength i) @ put_u32 (ParentObjectTitleIndex i) @ put_u32 (ParentObjectInstance i) @
     put_u32 (UniqueID i) @ put_u32 (NameOffset i) @ put_u32 (NameLength i)"

lemma drop_behind: "k \<le> n \<Longrightarrow> length xs = k \<Longrightarrow> drop n (xs @ ys) = drop (n - k) ys"
  by simp

lemma decode_encodeObjectType: "decodeObjectType (encodeObjectType t) = t"
  by (simp add: decodeObjectType_def encodeObjectType_def drop_behind)

interpretation object_type: binary_struct perfObjectTypeSize encodeObjectType decodeObjectType
  by unfold_locales (simp add: encodeObjectType_def perfObjectTypeSize_def, rule decode_encodeObjectType)

lemma decode_encodeCounterDefinition: "decodeCounterDefinition (encodeCounterDefinition t) = t"
  by (simp add: decodeCounterDefinition_def encodeCounterDefinition_def drop_behind)

interpretation counter_definition: binary_struct perfCounterDefinitionSize encodeCounterDefinition decodeCounterDefinition
  by unfold_locales (simp add: encodeCounterDefinition_def perfCounterDefinitionSize_def, rule decode_encodeCounterDefinition)

lemma decode_encodeInstanceDefinition: "decodeInstanceDefinition (encodeInstanceDefinition t) = t"
  by (simp add: decodeInstanceDefinition_def encodeInstanceDefinition_def drop_behind)

interpretation instance_definition: binary_struct perfInstanceDefinitionSize encodeInstanceDefinition decodeInstanceDefinition
  by unfold_locales (simp add: encodeInstanceDefinition_def perfInstanceDefinitionSize_def, rule decode_encodeInstanceDefinition)

interpretation counter_block: binary_struct perfCounterBlockSize put_u32 get_u32
  by unfold_locales (simp_all add: perfCounterBlockSize_def)

text \<open>The arrays of the header have a fixed number of elements.\<close>

definition wf_header :: "perfDataBlock \<Rightarrow> bool" where
  "wf_header h \<longleftrightarrow> length (Signature h) = 4 \<and> length (SystemTime h) = 8"

lemma length_concat_put_u16 [simp]: "length (concat (map put_u16 ws)) = 2 * length ws"
  by (induction ws) simp_all

lemma length_encodeDataBlock: "wf_header h \<Longrightarrow> length (encodeDataBlock h) = perfDataBlockSize"
  by (simp add: encodeDataBlock_def wf_header_def perfDataBlockSize_def del: length_concat)

lemma decode_encodeDataBlock: "wf_header h \<Longrightarrow> decodeDataBlock (encodeDataBlock h) = h"
  by (simp add: decodeDataBlock_def encodeDataBlock_def wf_header_def drop_behind words16_put del: length_concat)

lemma binary_Read_Inr: "read_struct sz dec buf pos = Some x \<Longrightarrow> binary_Read sz dec buf pos = Inr x"
  by (simp add: binary_Read_def)

lemma binary_Read_short: "length buf < pos + sz \<Longrightarrow> \<exists>e. binary_Read sz dec buf pos = Inl e"
  by (simp add: binary_Read_def read_struct_def slice_def)

end
