(* ===== verification/Perflib.thy ===== *)
theory Perflib
  imports Perflib_Raw
begin

text \<open>
  Performance data from the registry (internal/pdh/registry/perflib.go and nametable.go): the query of
  the raw bytes, the table of counter names, and the parser of the data block. The system's
  \<open>RegQueryValueEx\<close> is a parameter, an operation on an unknown system state.
\<close>

section \<open>Queries\<close>

text \<open>The two variables that remember the size of the largest answers.\<close>

record bufSizes =
  bufLenGlobal :: u32
  bufLenCostly :: u32

definition initialBufSizes :: bufSizes where
  "initialBufSizes = \<lparr>bufLenGlobal = 400000, bufLenCostly = 2000000\<rparr>"

text \<open>A call has the name and the buffer, and returns the error code, the buffer as it was left, and the length of the data.\<close>

type_synonym 'w reg_query = "string \<Rightarrow> bytes \<Rightarrow> 'w \<Rightarrow> (u32 \<times> bytes \<times> u32) \<times> 'w"

definition ERROR_MORE_DATA :: u32 where "ERROR_MORE_DATA = 234"
definition ERROR_BUSY :: u32 where "ERROR_BUSY = 170"

definition initialBufLen :: "bufSizes \<Rightarrow> string \<Rightarrow> u32" where
  "initialBufLen sizes query =
     (if query = ''Global'' then bufLenGlobal sizes
      else if query = ''Costly'' then bufLenCostly sizes
      else word_of_nat (150000 * length (Split query (CHR '' ''))))"

definition rememberBufLen :: "string \<Rightarrow> u32 \<Rightarrow> bufSizes \<Rightarrow> bufSizes" where
  "rememberBufLen query bufLen sizes =
     (if query = ''Global'' then (if bufLenGlobal sizes < bufLen then sizes\<lparr>bufLenGlobal := bufLen\<rparr> else sizes)
      else if query = ''Costly'' then (if bufLenCostly sizes < bufLen then sizes\<lparr>bufLenCostly := bufLen\<rparr> else sizes)
      else sizes)"

text \<open>The loop, with fuel for its iterations: it goes on as long as the buffer is too small or the system is busy.\<close>

fun queryLoop :: "nat \<Rightarrow> 'w reg_query \<Rightarrow> string \<Rightarrow> bytes \<Rightarrow> bufSizes \<Rightarrow> 'w \<Rightarrow> ((go_error + bytes) \<times> bufSizes \<times> 'w) exec" where
  "queryLoop 0 reg query buf sizes w = StillRunning"
| "queryLoop (Suc fuel) reg query buf sizes w =
     (if buf = [] then Panics
      else
        (case reg query buf w of
           ((err, buf', bufLen), w') \<Rightarrow>
             (if err = ERROR_MORE_DATA then queryLoop fuel reg query (buf' @ replicate 16384 0) sizes w'
              else if err = ERROR_BUSY then queryLoop fuel reg query buf' sizes w'
              else if err \<noteq> 0 then
                Returns (Inl (Wrapf ''ReqQueryValueEx failed: %w errno %d'' [show_nat (unat err)] (Errno err)), sizes, w')
              else if length buf' < unat bufLen then Panics
              else Returns (Inr (take (unat bufLen) buf'), rememberBufLen query bufLen sizes, w'))))"

definition queryRawData :: "nat \<Rightarrow> 'w reg_query \<Rightarrow> string \<Rightarrow> bufSizes \<Rightarrow> 'w \<Rightarrow> ((go_error + bytes) \<times> bufSizes \<times> 'w) exec" where
  "queryRawData fuel reg query sizes w =
     (if CHR 0x00 \<in> set query
      then Returns (Inl (Wrapf ''failed to encode query string: %w'' [] (Sentinel ''syscall.EINVAL'')), sizes, w)
      else queryLoop fuel reg query (replicate (unat (initialBufLen sizes query)) 0) sizes w)"

section \<open>The table of names\<close>

record NameTable =
  tabIndex :: "(u32, string) gomap"
  tabString :: "(string, u32) gomap"

definition LookupString :: "NameTable \<Rightarrow> u32 \<Rightarrow> string" where
  "LookupString t i = map_get0 [] (tabIndex t) i"

definition LookupIndex :: "NameTable \<Rightarrow> string \<Rightarrow> u32" where
  "LookupIndex t s = map_get0 0 (tabString t) s"

text \<open>
  The loop of \<open>initialize\<close>: pairs of strings up to the first read that fails. \<open>atoi\<close> is \<open>strconv.Atoi\<close> with its
  error dropped, converted to \<open>uint32\<close>.
\<close>

function readPairs :: "(u16 list \<Rightarrow> string) \<Rightarrow> (string \<Rightarrow> int) \<Rightarrow> bytes \<Rightarrow> NameTable \<Rightarrow> NameTable" where
  "readPairs utf16 atoi bs t =
     (case readUTF16String utf16 bs of
        (Inl e, _) \<Rightarrow> t
      | (Inr index, bs1) \<Rightarrow>
          (case readUTF16String utf16 bs1 of
             (Inl e, _) \<Rightarrow> t
           | (Inr desc, bs2) \<Rightarrow>
               readPairs utf16 atoi bs2
                 \<lparr>tabIndex = map_set (word_of_int (atoi index)) desc (tabIndex t),
                  tabString = map_set desc (word_of_int (atoi index)) (tabString t)\<rparr>))"
  by pat_completeness auto
termination
  by (relation "measure (\<lambda>(utf16, atoi, bs, t). length bs)")
     (auto dest!: readUTF16String_shorter [OF sym])

declare readPairs.simps [simp del]

text \<open>\<open>initialize\<close> panics when the query fails.\<close>

definition initialize ::
  "nat \<Rightarrow> 'w reg_query \<Rightarrow> (u16 list \<Rightarrow> string) \<Rightarrow> (string \<Rightarrow> int) \<Rightarrow> string \<Rightarrow> bufSizes \<Rightarrow> 'w \<Rightarrow> (NameTable \<times> bufSizes \<times> 'w) exec" where
  "initialize fuel reg utf16 atoi name sizes w =
     (case queryRawData fuel reg name sizes w of
        Returns (Inr buffer, sizes', w') \<Rightarrow> Returns (readPairs utf16 atoi buffer \<lparr>tabIndex = [], tabString = []\<rparr>, sizes', w')
      | Returns (Inl e, _, _) \<Rightarrow> Panics
      | Panics \<Rightarrow> Panics
      | StillRunning \<Rightarrow> StillRunning)"

definition MapCounterToIndex :: "NameTable \<Rightarrow> string \<Rightarrow> string" where
  "MapCounterToIndex t name = show_nat (unat (LookupIndex t name))"

section \<open>The parser\<close>

record PerfCounterDef =
  defName :: string
  defNameIndex :: u32
  CounterType :: u32
  IsCounter :: bool
  IsBaseValue :: bool
  IsNanosecondCounter :: bool
  HasSecondValue :: bool
  defRaw :: perfCounterDefinition

record PerfCounter =
  Value :: u64
  Def :: PerfCounterDef
  SecondValue :: u64

record PerfInstance =
  instName :: string
  Counters :: "PerfCounter list"

record PerfObject =
  objName :: string
  objNameIndex :: u32
  Instances :: "PerfInstance list"
  CounterDefs :: "PerfCounterDef list"
  Frequency :: u64

definition PERF_AVERAGE_BULK :: u32 where "PERF_AVERAGE_BULK = 0x40020500"

unbundle bit_operations_syntax

definition counterDefOf :: "(u32 \<Rightarrow> string) \<Rightarrow> perfCounterDefinition \<Rightarrow> PerfCounterDef" where
  "counterDefOf names def =
     \<lparr>defName = names (CounterNameTitleIndex def), defNameIndex = CounterNameTitleIndex def,
      CounterType = rawCounterType def,
      IsCounter = (rawCounterType def AND 0x400 = 0x400),
      IsBaseValue = (rawCounterType def AND 0x00030000 = 0x00030000),
      IsNanosecondCounter = (rawCounterType def AND 0x00100000 = 0x00100000),
      HasSecondValue = (rawCounterType def = PERF_AVERAGE_BULK), defRaw = def\<rparr>"

text \<open>\<open>convertCounterValue\<close>; \<^term>\<open>None\<close> is a slice out of range.\<close>

definition convertCounterValue :: "perfCounterDefinition \<Rightarrow> bytes \<Rightarrow> nat \<Rightarrow> u64 option" where
  "convertCounterValue def buffer valueOffset =
     (if CounterSize def = 4 then map_option (\<lambda>s. ucast (get_u32 s)) (slice buffer valueOffset 4)
      else if CounterSize def = 8 then map_option get_u64 (slice buffer valueOffset 8)
      else map_option (\<lambda>s. ucast (get_u32 s)) (slice buffer valueOffset 4))"

definition parseCounter :: "bytes \<Rightarrow> nat \<Rightarrow> PerfCounterDef \<Rightarrow> PerfCounter option" where
  "parseCounter b pos def =
     (let valueOffset = pos + unat (CounterOffset (defRaw def)) in
      case convertCounterValue (defRaw def) b valueOffset of
        None \<Rightarrow> None
      | Some v \<Rightarrow>
          (if HasSecondValue def
           then map_option (\<lambda>v2. \<lparr>Value = v, Def = def, SecondValue = v2\<rparr>) (convertCounterValue (defRaw def) b (valueOffset + 8))
           else Some \<lparr>Value = v, Def = def, SecondValue = 0\<rparr>))"

text \<open>Results: \<^term>\<open>None\<close> is a panic, \<^term>\<open>Inl\<close> an error.\<close>

type_synonym 'a fallible = "(go_error + 'a) option"

definition parseCounterBlock :: "bytes \<Rightarrow> nat \<Rightarrow> PerfCounterDef list \<Rightarrow> (u32 \<times> PerfCounter list) fallible" where
  "parseCounterBlock b pos defs =
     (case binary_Read perfCounterBlockSize get_u32 b pos of
        Inl e \<Rightarrow> Some (Inl e)
      | Inr len \<Rightarrow> map_option (\<lambda>cs. Inr (len, cs)) (those (map (parseCounter b pos) defs)))"

text \<open>The definitions of the counters follow the header of the object without a gap.\<close>

fun readCounterDefs :: "(u32 \<Rightarrow> string) \<Rightarrow> bytes \<Rightarrow> nat \<Rightarrow> nat \<Rightarrow> go_error + PerfCounterDef list" where
  "readCounterDefs names b pos 0 = Inr []"
| "readCounterDefs names b pos (Suc n) =
     (case binary_Read perfCounterDefinitionSize decodeCounterDefinition b pos of
        Inl e \<Rightarrow> Inl e
      | Inr def \<Rightarrow> map_sum id (\<lambda>ds. counterDefOf names def # ds) (readCounterDefs names b (pos + perfCounterDefinitionSize) n))"

definition parseInstance :: "(u16 list \<Rightarrow> string) \<Rightarrow> bytes \<Rightarrow> nat \<Rightarrow> PerfCounterDef list \<Rightarrow> (nat \<times> PerfInstance) fallible" where
  "parseInstance utf16 b instOffset defs =
     (case binary_Read perfInstanceDefinitionSize decodeInstanceDefinition b instOffset of
        Inl e \<Rightarrow> Some (Inl e)
      | Inr inst \<Rightarrow>
          (let name = (case readUTF16StringAtPos utf16 b (instOffset + unat (NameOffset inst)) (NameLength inst) of Inr s \<Rightarrow> s | Inl e \<Rightarrow> []);
               pos = instOffset + unat (idByteLength inst)
           in case parseCounterBlock b pos defs of
                None \<Rightarrow> None
              | Some (Inl e) \<Rightarrow> Some (Inl e)
              | Some (Inr (len, cs)) \<Rightarrow> Some (Inr (pos + unat len, \<lparr>instName = name, Counters = cs\<rparr>))))"

fun parseInstances :: "(u16 list \<Rightarrow> string) \<Rightarrow> bytes \<Rightarrow> nat \<Rightarrow> PerfCounterDef list \<Rightarrow> nat \<Rightarrow> PerfInstance list fallible" where
  "parseInstances utf16 b instOffset defs 0 = Some (Inr [])"
| "parseInstances utf16 b instOffset defs (Suc n) =
     (case parseInstance utf16 b instOffset defs of
        None \<Rightarrow> None
      | Some (Inl e) \<Rightarrow> Some (Inl e)
      | Some (Inr (next, inst)) \<Rightarrow> map_option (map_sum id (\<lambda>is. inst # is)) (parseInstances utf16 b next defs n))"

text \<open>The body of the loop over the objects, for an object that is not skipped. An object without instances gets one with an empty name.\<close>

definition parseObject :: "(u32 \<Rightarrow> string) \<Rightarrow> (u16 list \<Rightarrow> string) \<Rightarrow> bytes \<Rightarrow> nat \<Rightarrow> perfObjectType \<Rightarrow> PerfObject fallible" where
  "parseObject names utf16 b objOffset obj =
     (case readCounterDefs names b (objOffset + perfObjectTypeSize) (unat (NumCounters obj)) of
        Inl e \<Rightarrow> Some (Inl e)
      | Inr defs \<Rightarrow>
          (let dataOffset = objOffset + unat (DefinitionLength obj);
               object = (\<lambda>is. \<lparr>objName = names (ObjectNameTitleIndex obj), objNameIndex = ObjectNameTitleIndex obj, Instances = is,
                               CounterDefs = defs, Frequency = otPerfFreq obj\<rparr>)
           in if sint (NumInstances obj) \<le> 0 then
                (case parseCounterBlock b dataOffset defs of
                   None \<Rightarrow> None
                 | Some (Inl e) \<Rightarrow> Some (Inl e)
                 | Some (Inr (len, cs)) \<Rightarrow> Some (Inr (object [\<lparr>instName = [], Counters = cs\<rparr>])))
              else map_option (map_sum id object) (parseInstances utf16 b dataOffset defs (nat (sint (NumInstances obj))))))"

fun parseObjects ::
  "(u32 \<Rightarrow> string) \<Rightarrow> (u16 list \<Rightarrow> string) \<Rightarrow> string \<Rightarrow> bytes \<Rightarrow> nat \<Rightarrow> nat \<Rightarrow> PerfObject list fallible" where
  "parseObjects names utf16 counterName b objOffset 0 = Some (Inr [])"
| "parseObjects names utf16 counterName b objOffset (Suc n) =
     (case binary_Read perfObjectTypeSize decodeObjectType b objOffset of
        Inl e \<Rightarrow> Some (Inl e)
      | Inr obj \<Rightarrow>
          (if counterName \<noteq> [] \<and> names (ObjectNameTitleIndex obj) \<noteq> counterName
           then parseObjects names utf16 counterName b (objOffset + unat (otTotalByteLength obj)) n
           else
             (case parseObject names utf16 b objOffset obj of
                None \<Rightarrow> None
              | Some (Inl e) \<Rightarrow> Some (Inl e)
              | Some (Inr po) \<Rightarrow>
                  (if counterName \<noteq> [] then Some (Inr [po])
                   else map_option (map_sum id (\<lambda>pos. po # pos))
                          (parseObjects names utf16 counterName b (objOffset + unat (otTotalByteLength obj)) n)))))"

definition perfSignature :: "u16 list" where "perfSignature = [80, 69, 82, 70]"

text \<open>\<open>QueryPerformanceData\<close> after the query: a block with another signature panics.\<close>

definition parsePerformanceData :: "(u32 \<Rightarrow> string) \<Rightarrow> (u16 list \<Rightarrow> string) \<Rightarrow> string \<Rightarrow> string \<Rightarrow> bytes \<Rightarrow> PerfObject list fallible" where
  "parsePerformanceData names utf16 query counterName buffer =
     (case binary_Read perfDataBlockSize decodeDataBlock buffer 0 of
        Inl e \<Rightarrow> Some (Inl (Wrapf ''failed to read performance data block for %q with: %w'' [query] e))
      | Inr header \<Rightarrow>
          (if Signature header \<noteq> perfSignature then None
           else parseObjects names utf16 counterName buffer (unat (dbHeaderLength header)) (unat (NumObjectTypes header))))"

definition QueryPerformanceData ::
  "nat \<Rightarrow> 'w reg_query \<Rightarrow> NameTable \<Rightarrow> (u16 list \<Rightarrow> string) \<Rightarrow> string \<Rightarrow> string \<Rightarrow> bufSizes \<Rightarrow> 'w \<Rightarrow>
     ((go_error + PerfObject list) \<times> bufSizes \<times> 'w) exec" where
  "QueryPerformanceData fuel reg table utf16 query counterName sizes w =
     (case queryRawData fuel reg query sizes w of
        Returns (Inl e, sizes', w') \<Rightarrow> Returns (Inl e, sizes', w')
      | Returns (Inr buffer, sizes', w') \<Rightarrow>
          (case parsePerformanceData (LookupString table) utf16 query counterName buffer of
             None \<Rightarrow> Panics
           | Some r \<Rightarrow> Returns (r, sizes', w'))
      | Panics \<Rightarrow> Panics
      | StillRunning \<Rightarrow> StillRunning)"

end
