(* ===== verification/Perflib_Format.thy ===== *)
theory Perflib_Format
  imports Perflib
begin

text \<open>
  What the parser of the registry's performance data computes: on the bytes of a snapshot it
  returns the objects of the snapshot, wherever the optional gaps of the format are; on the bytes of
  a name table it returns the table; and the query ends when the system ends being busy.
\<close>

section \<open>Snapshots\<close>

text \<open>
  A counter block is its length and its data, from whose start the offsets of the counters
  count; an instance is its definition, the rest of the definition's bytes (with the name), and its block.
\<close>

record instImage =
  imgInst :: perfInstanceDefinition
  imgTail :: bytes
  imgBlock :: bytes

record objImage =
  imgType :: perfObjectType
  imgDefs :: "perfCounterDefinition list"
  imgPad :: bytes
  imgInsts :: "instImage list"
  imgSingle :: bytes
  imgRest :: bytes

definition block_bytes :: "bytes \<Rightarrow> bytes" where
  "block_bytes data = put_u32 (word_of_nat (4 + length data)) @ data"

definition inst_head :: "instImage \<Rightarrow> bytes" where
  "inst_head i = encodeInstanceDefinition (imgInst i) @ imgTail i"

definition inst_bytes :: "instImage \<Rightarrow> bytes" where
  "inst_bytes i = inst_head i @ block_bytes (imgBlock i)"

definition obj_head :: "objImage \<Rightarrow> bytes" where
  "obj_head ob = encodeObjectType (imgType ob) @ concat (map encodeCounterDefinition (imgDefs ob)) @ imgPad ob"

definition obj_body :: "objImage \<Rightarrow> bytes" where
  "obj_body ob = (if imgInsts ob = [] then block_bytes (imgSingle ob) else concat (map inst_bytes (imgInsts ob)))"

definition obj_bytes :: "objImage \<Rightarrow> bytes" where
  "obj_bytes ob = obj_head ob @ obj_body ob @ imgRest ob"

text \<open>The space that the parser reads for a counter: four bytes, or eight, and as much again behind them for a second value.\<close>

definition valueSize :: "perfCounterDefinition \<Rightarrow> nat" where
  "valueSize d = (if CounterSize d = 8 then 8 else 4)"

definition fits :: "bytes \<Rightarrow> perfCounterDefinition \<Rightarrow> bool" where
  "fits data d \<longleftrightarrow> unat (CounterOffset d) + (if rawCounterType d = PERF_AVERAGE_BULK then 8 else 0) + valueSize d \<le> 4 + length data"

definition wf_block :: "perfCounterDefinition list \<Rightarrow> bytes \<Rightarrow> bool" where
  "wf_block ds data \<longleftrightarrow> 4 + length data < 2 ^ 32 \<and> list_all (fits data) ds"

definition wf_inst :: "perfCounterDefinition list \<Rightarrow> instImage \<Rightarrow> bool" where
  "wf_inst ds i \<longleftrightarrow> unat (idByteLength (imgInst i)) = length (inst_head i) \<and>
     unat (NameOffset (imgInst i)) + unat (NameLength (imgInst i)) \<le> length (inst_head i) \<and> wf_block ds (imgBlock i)"

definition wf_obj :: "objImage \<Rightarrow> bool" where
  "wf_obj ob \<longleftrightarrow> unat (otTotalByteLength (imgType ob)) = length (obj_bytes ob) \<and>
     unat (DefinitionLength (imgType ob)) = length (obj_head ob) \<and>
     unat (NumCounters (imgType ob)) = length (imgDefs ob) \<and>
     (if imgInsts ob = [] then sint (NumInstances (imgType ob)) \<le> 0 \<and> wf_block (imgDefs ob) (imgSingle ob)
      else sint (NumInstances (imgType ob)) = int (length (imgInsts ob)) \<and> list_all (wf_inst (imgDefs ob)) (imgInsts ob))"

text \<open>What the pieces stand for, each read from its own bytes.\<close>

definition rawValueAt :: "perfCounterDefinition \<Rightarrow> bytes \<Rightarrow> nat \<Rightarrow> u64" where
  "rawValueAt d data off =
     (if CounterSize d = 8 then get_u64 (take 8 (drop off (block_bytes data)))
      else ucast (get_u32 (take 4 (drop off (block_bytes data)))))"

definition counterImage :: "(u32 \<Rightarrow> string) \<Rightarrow> bytes \<Rightarrow> perfCounterDefinition \<Rightarrow> PerfCounter" where
  "counterImage names data d =
     \<lparr>Value = rawValueAt d data (unat (CounterOffset d)), Def = counterDefOf names d,
      SecondValue = (if rawCounterType d = PERF_AVERAGE_BULK then rawValueAt d data (unat (CounterOffset d) + 8) else 0)\<rparr>"

definition instanceImage :: "(u32 \<Rightarrow> string) \<Rightarrow> (u16 list \<Rightarrow> string) \<Rightarrow> perfCounterDefinition list \<Rightarrow> instImage \<Rightarrow> PerfInstance" where
  "instanceImage names utf16 ds i =
     \<lparr>instName = utf16 (words16 (take (2 * (unat (NameLength (imgInst i)) div 2)) (drop (unat (NameOffset (imgInst i))) (inst_head i)))),
      Counters = map (counterImage names (imgBlock i)) ds\<rparr>"

definition objectImage :: "(u32 \<Rightarrow> string) \<Rightarrow> (u16 list \<Rightarrow> string) \<Rightarrow> objImage \<Rightarrow> PerfObject" where
  "objectImage names utf16 ob =
     \<lparr>objName = names (ObjectNameTitleIndex (imgType ob)), objNameIndex = ObjectNameTitleIndex (imgType ob),
      Instances = (if imgInsts ob = [] then [\<lparr>instName = [], Counters = map (counterImage names (imgSingle ob)) (imgDefs ob)\<rparr>]
                   else map (instanceImage names utf16 (imgDefs ob)) (imgInsts ob)),
      CounterDefs = map (counterDefOf names) (imgDefs ob), Frequency = otPerfFreq (imgType ob)\<rparr>"

section \<open>Parsing a snapshot\<close>

lemma slice_inside: "i + n \<le> length mid \<Longrightarrow> slice (pre @ mid @ post) (length pre + i) n = Some (take n (drop i mid))"
  by (simp add: slice_def)

lemma length_block_bytes [simp]: "length (block_bytes data) = 4 + length data"
  by (simp add: block_bytes_def)

lemma convertCounterValue_inside:
  "off + valueSize d \<le> 4 + length data \<Longrightarrow>
     convertCounterValue d (pre @ block_bytes data @ post) (length pre + off) = Some (rawValueAt d data off)"
  by (auto simp: convertCounterValue_def rawValueAt_def valueSize_def slice_inside split: if_splits)

lemma parseCounter_inside:
  assumes "fits data d"
  shows "parseCounter (pre @ block_bytes data @ post) (length pre) (counterDefOf names d) = Some (counterImage names data d)"
proof -
  have first: "unat (CounterOffset d) + valueSize d \<le> 4 + length data"
    using assms by (auto simp: fits_def split: if_splits)
  note conv = convertCounterValue_inside [OF first, of pre post]
  show ?thesis
  proof (cases "rawCounterType d = PERF_AVERAGE_BULK")
    case True
    then have "(unat (CounterOffset d) + 8) + valueSize d \<le> 4 + length data" using assms by (simp add: fits_def)
    from convertCounterValue_inside [OF this, of pre post]
    show ?thesis using True conv by (simp add: parseCounter_def counterDefOf_def counterImage_def ac_simps)
  next
    case False
    then show ?thesis using conv by (simp add: parseCounter_def counterDefOf_def counterImage_def)
  qed
qed

lemma those_map_all: "\<forall>x\<in>set xs. f x = Some (g x) \<Longrightarrow> those (map f xs) = Some (map g xs)"
  by (induction xs) auto

lemma parseCounterBlock_inside:
  assumes "wf_block ds data"
  shows "parseCounterBlock (pre @ block_bytes data @ post) (length pre) (map (counterDefOf names) ds) =
    Some (Inr (word_of_nat (4 + length data), map (counterImage names data) ds))"
proof -
  have "those (map (parseCounter (pre @ block_bytes data @ post) (length pre) \<circ> counterDefOf names) ds) = Some (map (counterImage names data) ds)"
    using assms parseCounter_inside by (intro those_map_all) (auto simp: wf_block_def list_all_iff)
  moreover have "binary_Read perfCounterBlockSize get_u32 (pre @ block_bytes data @ post) (length pre) = Inr (word_of_nat (4 + length data))"
    using counter_block.read_enc [of pre "length pre" "word_of_nat (4 + length data)" "data @ post"]
    by (intro binary_Read_Inr) (simp add: block_bytes_def)
  ultimately show ?thesis by (simp add: parseCounterBlock_def)
qed

lemma readCounterDefs_inside:
  "readCounterDefs names (pre @ concat (map encodeCounterDefinition ds) @ post) (length pre) (length ds) = Inr (map (counterDefOf names) ds)"
proof (induction ds arbitrary: pre)
  case Nil
  then show ?case by simp
next
  case (Cons d ds)
  let ?e = "encodeCounterDefinition d"
  let ?b = "pre @ ?e @ concat (map encodeCounterDefinition ds) @ post"
  have read: "binary_Read perfCounterDefinitionSize decodeCounterDefinition ?b (length pre) = Inr d"
    by (intro binary_Read_Inr counter_definition.read_enc) simp
  have "readCounterDefs names ?b (length pre + perfCounterDefinitionSize) (length ds) = Inr (map (counterDefOf names) ds)"
    using Cons [of "pre @ ?e"] by (simp add: counter_definition.length_enc)
  then show ?case using read by simp
qed

lemma parseInstance_inside:
  assumes "wf_inst ds i"
  shows "parseInstance utf16 (pre @ inst_bytes i @ post) (length pre) (map (counterDefOf names) ds) =
    Some (Inr (length (pre @ inst_bytes i), instanceImage names utf16 ds i))"
proof -
  let ?b = "pre @ inst_bytes i @ post"
  let ?n = "unat (NameLength (imgInst i)) div 2"
  have read: "binary_Read perfInstanceDefinitionSize decodeInstanceDefinition ?b (length pre) = Inr (imgInst i)"
    using instance_definition.read_enc [of pre "length pre" "imgInst i" "imgTail i @ block_bytes (imgBlock i) @ post"]
    by (intro binary_Read_Inr) (simp add: inst_bytes_def inst_head_def)
  have len: "unat (idByteLength (imgInst i)) = length (inst_head i)"
    and bound: "unat (NameOffset (imgInst i)) + 2 * ?n \<le> length (inst_head i)"
    and blk: "wf_block ds (imgBlock i)"
    using assms by (auto simp: wf_inst_def)
  have "slice (pre @ inst_head i @ block_bytes (imgBlock i) @ post) (length pre + unat (NameOffset (imgInst i))) (2 * ?n) =
      Some (take (2 * ?n) (drop (unat (NameOffset (imgInst i))) (inst_head i)))"
    using bound by (rule slice_inside)
  then have name: "readUTF16StringAtPos utf16 ?b (length pre + unat (NameOffset (imgInst i))) (NameLength (imgInst i)) =
      Inr (instName (instanceImage names utf16 ds i))"
    by (simp add: readUTF16StringAtPos_def binary_Read_def read_struct_def inst_bytes_def instanceImage_def Let_def)
  have "parseCounterBlock ((pre @ inst_head i) @ block_bytes (imgBlock i) @ post) (length (pre @ inst_head i)) (map (counterDefOf names) ds) =
      Some (Inr (word_of_nat (4 + length (imgBlock i)), map (counterImage names (imgBlock i)) ds))"
    by (rule parseCounterBlock_inside [OF blk])
  moreover have "unat (word_of_nat (4 + length (imgBlock i)) :: u32) = 4 + length (imgBlock i)"
    using blk by (intro unat_u32_of_nat) (simp add: wf_block_def)
  ultimately show ?thesis
    using read name len by (simp add: parseInstance_def inst_bytes_def instanceImage_def del: of_nat_add)
qed

lemma parseInstances_inside:
  assumes "list_all (wf_inst ds) is"
  shows "parseInstances utf16 (pre @ concat (map inst_bytes is) @ post) (length pre) (map (counterDefOf names) ds) (length is) =
    Some (Inr (map (instanceImage names utf16 ds) is))"
  using assms
proof (induction "is" arbitrary: pre)
  case Nil
  then show ?case by simp
next
  case (Cons i "is")
  let ?b = "pre @ inst_bytes i @ concat (map inst_bytes is) @ post"
  have "parseInstance utf16 ?b (length pre) (map (counterDefOf names) ds) =
      Some (Inr (length (pre @ inst_bytes i), instanceImage names utf16 ds i))"
    using Cons.prems by (intro parseInstance_inside) simp
  moreover have "parseInstances utf16 ?b (length (pre @ inst_bytes i)) (map (counterDefOf names) ds) (length is) =
      Some (Inr (map (instanceImage names utf16 ds) is))"
    using Cons.IH [of "pre @ inst_bytes i"] Cons.prems by simp
  ultimately show ?case by simp
qed

lemma parseObject_inside:
  assumes "wf_obj ob"
  shows "parseObject names utf16 (pre @ obj_bytes ob @ post) (length pre) (imgType ob) = Some (Inr (objectImage names utf16 ob))"
proof -
  let ?b = "pre @ obj_bytes ob @ post" and ?ds = "map (counterDefOf names) (imgDefs ob)"
  have defs: "readCounterDefs names ?b (length pre + perfObjectTypeSize) (unat (NumCounters (imgType ob))) = Inr ?ds"
    using readCounterDefs_inside [of names "pre @ encodeObjectType (imgType ob)" "imgDefs ob" "imgPad ob @ obj_body ob @ imgRest ob @ post"] assms
    by (simp add: obj_bytes_def obj_head_def wf_obj_def object_type.length_enc)
  have off: "length pre + unat (DefinitionLength (imgType ob)) = length (pre @ obj_head ob)"
    using assms by (simp add: wf_obj_def)
  show ?thesis
  proof (cases "imgInsts ob = []")
    case True
    then have "wf_block (imgDefs ob) (imgSingle ob)" and none: "sint (NumInstances (imgType ob)) \<le> 0" using assms by (auto simp: wf_obj_def)
    from parseCounterBlock_inside [OF this(1), of "pre @ obj_head ob" "imgRest ob @ post" names] True
    have "parseCounterBlock ?b (length (pre @ obj_head ob)) ?ds =
        Some (Inr (word_of_nat (4 + length (imgSingle ob)), map (counterImage names (imgSingle ob)) (imgDefs ob)))"
      by (simp add: obj_bytes_def obj_body_def)
    then show ?thesis using defs off True none by (simp add: parseObject_def objectImage_def del: length_append of_nat_add)
  next
    case False
    then have "list_all (wf_inst (imgDefs ob)) (imgInsts ob)" and num: "sint (NumInstances (imgType ob)) = int (length (imgInsts ob))"
      using assms by (auto simp: wf_obj_def)
    from parseInstances_inside [OF this(1), of utf16 "pre @ obj_head ob" "imgRest ob @ post" names] False
    have "parseInstances utf16 ?b (length (pre @ obj_head ob)) ?ds (length (imgInsts ob)) =
        Some (Inr (map (instanceImage names utf16 (imgDefs ob)) (imgInsts ob)))"
      by (simp add: obj_bytes_def obj_body_def)
    then show ?thesis using defs off False num by (simp add: parseObject_def objectImage_def del: length_append)
  qed
qed

text \<open>The objects that a query returns: all of them, or the first one of the name that is asked for.\<close>

definition wanted :: "string \<Rightarrow> PerfObject list \<Rightarrow> PerfObject list" where
  "wanted counterName objs = (if counterName = [] then objs else take 1 (filter (\<lambda>ob. objName ob = counterName) objs))"

lemma parseObjects_inside:
  assumes "list_all wf_obj obs"
  shows "parseObjects names utf16 counterName (pre @ concat (map obj_bytes obs) @ post) (length pre) (length obs) =
    Some (Inr (wanted counterName (map (objectImage names utf16) obs)))"
  using assms
proof (induction obs arbitrary: pre)
  case Nil
  then show ?case by (simp add: wanted_def)
next
  case (Cons ob obs)
  let ?b = "pre @ obj_bytes ob @ concat (map obj_bytes obs) @ post"
  have wf: "wf_obj ob" using Cons.prems by simp
  have read: "binary_Read perfObjectTypeSize decodeObjectType ?b (length pre) = Inr (imgType ob)"
    using object_type.read_enc [of pre "length pre" "imgType ob"
        "concat (map encodeCounterDefinition (imgDefs ob)) @ imgPad ob @ obj_body ob @ imgRest ob @ concat (map obj_bytes obs) @ post"]
    by (intro binary_Read_Inr) (simp add: obj_bytes_def obj_head_def)
  have one: "parseObject names utf16 ?b (length pre) (imgType ob) = Some (Inr (objectImage names utf16 ob))"
    by (rule parseObject_inside [OF wf])
  have "length pre + unat (otTotalByteLength (imgType ob)) = length (pre @ obj_bytes ob)" using wf by (simp add: wf_obj_def)
  then have rest: "parseObjects names utf16 counterName ?b (length pre + unat (otTotalByteLength (imgType ob))) (length obs) =
      Some (Inr (wanted counterName (map (objectImage names utf16) obs)))"
    using Cons.IH [of "pre @ obj_bytes ob"] Cons.prems by simp
  have name: "objName (objectImage names utf16 ob) = names (ObjectNameTitleIndex (imgType ob))" by (simp add: objectImage_def)
  show ?case using read one rest name by (cases "counterName = []") (simp_all add: wanted_def)
qed

text \<open>A whole answer of the registry: the header, a gap, and the objects.\<close>

definition snapshot :: "perfDataBlock \<Rightarrow> bytes \<Rightarrow> objImage list \<Rightarrow> bytes" where
  "snapshot h gap obs = encodeDataBlock h @ gap @ concat (map obj_bytes obs)"

definition wf_snapshot :: "perfDataBlock \<Rightarrow> bytes \<Rightarrow> objImage list \<Rightarrow> bool" where
  "wf_snapshot h gap obs \<longleftrightarrow> wf_header h \<and> Signature h = perfSignature \<and>
     unat (dbHeaderLength h) = perfDataBlockSize + length gap \<and> unat (NumObjectTypes h) = length obs \<and> list_all wf_obj obs"

lemma parsePerformanceData_snapshot:
  assumes "wf_snapshot h gap obs"
  shows "parsePerformanceData names utf16 query counterName (snapshot h gap obs @ post) =
    Some (Inr (wanted counterName (map (objectImage names utf16) obs)))"
proof -
  have h: "wf_header h" "Signature h = perfSignature" "list_all wf_obj obs" using assms by (auto simp: wf_snapshot_def)
  have "read_struct perfDataBlockSize decodeDataBlock (snapshot h gap obs @ post) 0 = Some h"
    using length_encodeDataBlock [OF h(1)] by (simp add: read_struct_def snapshot_def slice_def decode_encodeDataBlock [OF h(1)])
  then have read: "binary_Read perfDataBlockSize decodeDataBlock (snapshot h gap obs @ post) 0 = Inr h" by (rule binary_Read_Inr)
  have "unat (dbHeaderLength h) = length (encodeDataBlock h @ gap)" "unat (NumObjectTypes h) = length obs"
    using assms length_encodeDataBlock [OF h(1)] by (simp_all add: wf_snapshot_def)
  then have "parseObjects names utf16 counterName (snapshot h gap obs @ post) (unat (dbHeaderLength h)) (unat (NumObjectTypes h)) =
      Some (Inr (wanted counterName (map (objectImage names utf16) obs)))"
    using parseObjects_inside [OF h(3), of names utf16 counterName "encodeDataBlock h @ gap" post] by (simp add: snapshot_def)
  then show ?thesis using read h by (simp add: parsePerformanceData_def)
qed

section \<open>The name table\<close>

text \<open>A table of names in bytes: pairs of strings, each ended by a zero, and one more zero at the end.\<close>

definition pair_bytes :: "u16 list \<times> u16 list \<Rightarrow> bytes" where
  "pair_bytes p = utf16z (fst p) @ utf16z (snd p)"

definition table_bytes :: "(u16 list \<times> u16 list) list \<Rightarrow> bytes" where
  "table_bytes ps = concat (map pair_bytes ps) @ [0, 0]"

definition plain_pair :: "u16 list \<times> u16 list \<Rightarrow> bool" where
  "plain_pair p \<longleftrightarrow> 0 \<notin> set (fst p) \<and> 0 \<notin> set (snd p)"

definition addPair :: "(u16 list \<Rightarrow> string) \<Rightarrow> (string \<Rightarrow> int) \<Rightarrow> u16 list \<times> u16 list \<Rightarrow> NameTable \<Rightarrow> NameTable" where
  "addPair utf16 atoi p t =
     \<lparr>tabIndex = map_set (word_of_int (atoi (utf16 (fst p)))) (utf16 (snd p)) (tabIndex t),
      tabString = map_set (utf16 (snd p)) (word_of_int (atoi (utf16 (fst p)))) (tabString t)\<rparr>"

lemma readUTF16String_utf16z: "0 \<notin> set ws \<Longrightarrow> readUTF16String utf16 (utf16z ws @ bs) = (Inr (utf16 ws), bs)"
  by (simp add: readUTF16String_def readWords_utf16z)

lemma readPairs_table: "list_all plain_pair ps \<Longrightarrow> readPairs utf16 atoi (table_bytes ps) t = fold (addPair utf16 atoi) ps t"
proof (induction ps arbitrary: t)
  case Nil
  have "readUTF16String utf16 [0, 0] = (Inr (utf16 []), [])" "readUTF16String utf16 [] = (Inl io_EOF, [])"
    by (simp_all add: readUTF16String_def)
  then show ?case by (subst readPairs.simps) (simp add: table_bytes_def)
next
  case (Cons p ps)
  have "table_bytes (p # ps) = utf16z (fst p) @ utf16z (snd p) @ table_bytes ps" by (simp add: table_bytes_def pair_bytes_def)
  moreover have "0 \<notin> set (fst p)" "0 \<notin> set (snd p)" using Cons.prems by (simp_all add: plain_pair_def)
  ultimately show ?case using Cons
    by (subst readPairs.simps) (simp add: readUTF16String_utf16z flip: addPair_def)
qed

lemma map_get_fold_set:
  "map_get (fold (\<lambda>p. map_set (f p) (g p)) ps m) k = (case map_of (rev (map (\<lambda>p. (f p, g p)) ps)) k of None \<Rightarrow> map_get m k | Some v \<Rightarrow> Some v)"
  by (induction ps arbitrary: m) (simp_all add: map_add_def split: option.split)

lemma tabIndex_fold: "tabIndex (fold (addPair utf16 atoi) ps t) =
    fold (\<lambda>p. map_set (word_of_int (atoi (utf16 (fst p)))) (utf16 (snd p))) ps (tabIndex t)"
  by (induction ps arbitrary: t) (simp_all add: addPair_def)

lemma tabString_fold: "tabString (fold (addPair utf16 atoi) ps t) =
    fold (\<lambda>p. map_set (utf16 (snd p)) (word_of_int (atoi (utf16 (fst p))))) ps (tabString t)"
  by (induction ps arbitrary: t) (simp_all add: addPair_def)

section \<open>The query ends\<close>

text \<open>
  What the system promises for the value \<open>query\<close> with the content \<open>data\<close>: it is busy, or says that the buffer is too
  small, which is then so, or it delivers the data. \<open>busy\<close> counts how often it will still be busy.
\<close>

definition delivers :: "'w reg_query \<Rightarrow> string \<Rightarrow> bytes \<Rightarrow> ('w \<Rightarrow> nat) \<Rightarrow> bool" where
  "delivers reg query data busy \<longleftrightarrow>
     (\<forall>buf w. case reg query buf w of ((err, buf', n), w') \<Rightarrow>
        err = ERROR_BUSY \<and> length buf' = length buf \<and> busy w' < busy w \<or>
        err = ERROR_MORE_DATA \<and> length buf < length data \<and> length buf' = length buf \<and> busy w' \<le> busy w \<or>
        err = 0 \<and> length data \<le> length buf \<and> buf' = data @ drop (length data) buf \<and> unat n = length data)"

text \<open>The number of times that the buffer has to grow.\<close>

definition growths :: "nat \<Rightarrow> nat" where
  "growths missing = (missing + 16383) div 16384"

lemma growths_step: "0 < missing \<Longrightarrow> growths missing = Suc (growths (missing - 16384))"
  unfolding growths_def by (cases "16384 \<le> missing") (simp_all add: div_if)

lemma queryLoop_ends:
  assumes "delivers reg query data busy" and "busy w + growths (length data - length buf) < fuel" and "buf \<noteq> []"
  shows "\<exists>w'. queryLoop fuel reg query buf sizes w = Returns (Inr data, rememberBufLen query (word_of_nat (length data)) sizes, w')"
  using assms(2,3)
proof (induction fuel arbitrary: buf w)
  case 0
  then show ?case by simp
next
  case (Suc fuel)
  obtain err buf' n w' where call: "reg query buf w = ((err, buf', n), w')" by (metis prod.exhaust)
  with assms(1) consider
    (busy) "err = ERROR_BUSY" "length buf' = length buf" "busy w' < busy w"
  | (more) "err = ERROR_MORE_DATA" "length buf < length data" "length buf' = length buf" "busy w' \<le> busy w"
  | (ok) "err = 0" "length data \<le> length buf" "buf' = data @ drop (length data) buf" "unat n = length data"
    unfolding delivers_def by (force split: prod.splits)
  then show ?case
  proof cases
    case busy
    have ne: "buf' \<noteq> []" using busy(2) Suc.prems(2) by auto
    have "busy w' + growths (length data - length buf') < fuel" using Suc.prems(1) busy by simp
    then obtain w2 where "queryLoop fuel reg query buf' sizes w' = Returns (Inr data, rememberBufLen query (word_of_nat (length data)) sizes, w2)"
      using Suc.IH ne by blast
    then show ?thesis using call busy Suc.prems(2) by (simp add: ERROR_BUSY_def ERROR_MORE_DATA_def)
  next
    case more
    have "growths (length data - length buf) = Suc (growths (length data - length buf - 16384))"
      using more by (intro growths_step) simp
    then have "busy w' + growths (length data - length (buf' @ replicate 16384 0)) < fuel"
      using Suc.prems(1) more by simp
    then obtain w2 where "queryLoop fuel reg query (buf' @ replicate 16384 0) sizes w' =
        Returns (Inr data, rememberBufLen query (word_of_nat (length data)) sizes, w2)"
      using Suc.IH [of w' "buf' @ replicate 16384 0"] by auto
    then show ?thesis using call more Suc.prems(2) by simp
  next
    case ok
    have "n = word_of_nat (length data)" using ok(4) by (simp flip: ok(4))
    then show ?thesis using call ok Suc.prems(2) by (simp add: ERROR_BUSY_def ERROR_MORE_DATA_def)
  qed
qed

lemma queryRawData_ends:
  assumes "delivers reg query data busy" and "CHR 0x00 \<notin> set query" and "initialBufLen sizes query \<noteq> 0"
    and "busy w + growths (length data) < fuel"
  shows "\<exists>w'. queryRawData fuel reg query sizes w = Returns (Inr data, rememberBufLen query (word_of_nat (length data)) sizes, w')"
proof -
  let ?buf = "replicate (unat (initialBufLen sizes query)) (0 :: u8)"
  have "growths (length data - length ?buf) \<le> growths (length data)" unfolding growths_def by (intro div_le_mono) simp
  then have "busy w + growths (length data - length ?buf) < fuel" using assms(4) by linarith
  moreover have "?buf \<noteq> []" using assms(3) by (simp add: unat_eq_0)
  ultimately show ?thesis using queryLoop_ends [OF assms(1)] assms(2) by (simp add: queryRawData_def)
qed

end
