(* ===== verification/Perflib_Collector.thy ===== *)
theory Perflib_Collector
  imports Perflib_Format Perf
begin

text \<open>
  The collector of rows on top of the registry's performance data
  (internal/pdh/registry/collector.go), the counterpart of the PDH collector with the same tags.
\<close>

section \<open>The collector\<close>

text \<open>The fields of \<open>Counter\<close> that are set; an index of -1 is \<^term>\<open>None\<close>.\<close>

record regCounter =
  regName :: string
  FieldIndexValue :: "nat option"
  FieldIndexSecondValue :: "nat option"

record regCollector =
  regObject :: string
  regQuery :: string
  regCounters :: "(string, regCounter) gomap"
  regNameIndex :: "nat option"
  regFields :: "structField list"

text \<open>
  One field of the struct. The counter is looked up under the whole tag, but stored under the tag
  without its suffix.
\<close>

definition regAddField :: "nat \<times> structField \<Rightarrow> (string, regCounter) gomap \<Rightarrow> (string, regCounter) gomap" where
  "regAddField fi cs =
     (case fi of (i, f) \<Rightarrow>
        (case perfdata f of
           None \<Rightarrow> cs
         | Some tag \<Rightarrow>
             (let counter = (case map_get cs tag of
                               Some c \<Rightarrow> c
                             | None \<Rightarrow> \<lparr>regName = tag, FieldIndexValue = None, FieldIndexSecondValue = None\<rparr>)
              in if HasSuffix tag '',secondvalue''
                 then map_set (TrimSuffix tag '',secondvalue'') (counter\<lparr>FieldIndexSecondValue := Some i\<rparr>) cs
                 else map_set tag (counter\<lparr>FieldIndexValue := Some i\<rparr>) cs)))"

definition regCountersOf :: "structField list \<Rightarrow> (string, regCounter) gomap" where
  "regCountersOf fs = fold regAddField (enumerate 0 fs) []"

definition regLayout :: "NameTable \<Rightarrow> string \<Rightarrow> structField list \<Rightarrow> regCollector" where
  "regLayout table obj fs =
     \<lparr>regObject = obj, regQuery = MapCounterToIndex table obj, regCounters = regCountersOf fs,
      regNameIndex = fieldIndex ''Name'' KString 0 fs, regFields = fs\<rparr>"

text \<open>\<open>Field(i).SetFloat(v)\<close>: panics for an index outside the struct and for a field that is not a float.\<close>

definition setFloatField :: "nat option \<Rightarrow> f64 \<Rightarrow> row \<Rightarrow> row option" where
  "setFloatField i v r =
     (case i of
        None \<Rightarrow> None
      | Some k \<Rightarrow> if k < length r then (case r ! k of VFloat _ \<Rightarrow> Some (r[k := VFloat v]) | _ \<Rightarrow> None) else None)"

definition setFloatFieldIf :: "nat option \<Rightarrow> f64 \<Rightarrow> row \<Rightarrow> row option" where
  "setFloatFieldIf i v r = (if i = None then Some r else setFloatField i v r)"

definition WindowsEpoch :: u64 where "WindowsEpoch = 116444736000000000"

text \<open>The body of the loop over the counters of an instance; \<open>int64\<close> arithmetic wraps around, and a division by zero panics.\<close>

definition storeCounter :: "regCollector \<Rightarrow> u64 \<Rightarrow> PerfCounter \<Rightarrow> row \<Rightarrow> row option" where
  "storeCounter c freq pc r =
     (if IsBaseValue (Def pc) \<and> \<not> IsNanosecondCounter (Def pc) then Some r
      else case map_get (regCounters c) (defName (Def pc)) of
             None \<Rightarrow> Some r
           | Some counter \<Rightarrow>
               (if CounterType (Def pc) = PERF_ELAPSED_TIME then
                  (if freq = 0 then None
                   else setFloatField (FieldIndexValue counter) (f64_of_int (go_quot (sint (Value pc - WindowsEpoch)) (sint freq))) r)
                else if CounterType (Def pc) = PERF_100NSEC_TIMER \<or> CounterType (Def pc) = PERF_PRECISION_100NS_TIMER then
                  setFloatField (FieldIndexValue counter) (f64_mul (f64_of_int (sint (Value pc))) TicksToSecondScaleFactor) r
                else
                  Option.bind (setFloatFieldIf (FieldIndexSecondValue counter) (f64_of_int (sint (SecondValue pc))) r)
                    (setFloatFieldIf (FieldIndexValue counter) (f64_of_int (sint (Value pc))))))"

fun storeCounters :: "regCollector \<Rightarrow> u64 \<Rightarrow> PerfCounter list \<Rightarrow> row \<Rightarrow> row option" where
  "storeCounters c freq [] r = Some r"
| "storeCounters c freq (pc # pcs) r = Option.bind (storeCounter c freq pc r) (storeCounters c freq pcs)"

definition instanceRow :: "regCollector \<Rightarrow> u64 \<Rightarrow> PerfInstance \<Rightarrow> row option" where
  "instanceRow c freq inst =
     storeCounters c freq (Counters inst) (setField (regNameIndex c) (VString (instanceNameOf (instName inst))) (zeroElem (regFields c)))"

definition objectRows :: "regCollector \<Rightarrow> PerfObject list \<Rightarrow> row list option" where
  "objectRows c objs =
     those (concat (map (\<lambda>ob. if objName ob \<noteq> regObject c then []
                             else map (instanceRow c (Frequency ob)) (filter (\<lambda>i. \<not> HasSuffix (instName i) InstanceTotal) (Instances ob))) objs))"

text \<open>
  \<open>Collect\<close> for a pointer to a slice of the struct type, with the rows it holds. Without data the rows are
  left as they are.
\<close>

definition regCollect ::
  "nat \<Rightarrow> 'w reg_query \<Rightarrow> NameTable \<Rightarrow> (u16 list \<Rightarrow> string) \<Rightarrow> regCollector \<Rightarrow> row list \<Rightarrow> bufSizes \<Rightarrow> 'w \<Rightarrow>
     (go_error option \<times> row list \<times> bufSizes \<times> 'w) exec" where
  "regCollect fuel reg table utf16 c rs sizes w =
     (case QueryPerformanceData fuel reg table utf16 (regQuery c) (regObject c) sizes w of
        Returns (Inl e, sizes', w') \<Rightarrow> Returns (Some (Wrapf ''QueryPerformanceData: %w'' [] e), rs, sizes', w')
      | Returns (Inr objs, sizes', w') \<Rightarrow>
          (case objs of
             [] \<Rightarrow> Returns (None, rs, sizes', w')
           | ob # _ \<Rightarrow>
               (if Instances ob = [] then Returns (None, rs, sizes', w')
                else case objectRows c objs of
                       None \<Rightarrow> Panics
                     | Some rs' \<Rightarrow> Returns (None, rs', sizes', w')))
      | Panics \<Rightarrow> Panics
      | StillRunning \<Rightarrow> StillRunning)"

definition regNewCollector ::
  "nat \<Rightarrow> 'w reg_query \<Rightarrow> NameTable \<Rightarrow> (u16 list \<Rightarrow> string) \<Rightarrow> string \<Rightarrow> structField list \<Rightarrow> bufSizes \<Rightarrow> 'w \<Rightarrow>
     ((go_error + regCollector) \<times> bufSizes \<times> 'w) exec" where
  "regNewCollector fuel reg table utf16 obj fs sizes w =
     (let c = regLayout table obj fs in
      case regCollect fuel reg table utf16 c [] sizes w of
        Returns (None, rs, sizes', w') \<Rightarrow> Returns (Inr c, sizes', w')
      | Returns (Some e, rs, sizes', w') \<Rightarrow> Returns (Inl (Wrapf ''failed to collect initial data: %w'' [] e), sizes', w')
      | Panics \<Rightarrow> Panics
      | StillRunning \<Rightarrow> StillRunning)"

section \<open>Rows of a struct of counters\<close>

text \<open>
  The structs that the collectors use: a name, and numbers with different tags. The values of
  a row are then a function of the tag.
\<close>

definition perfStruct :: "(string \<times> string) list \<Rightarrow> structField list" where
  "perfStruct ps = nameField # map (\<lambda>(n, tag). perfField n tag) ps"

definition plain_tags :: "(string \<times> string) list \<Rightarrow> bool" where
  "plain_tags ps \<longleftrightarrow> distinct (map snd ps) \<and> list_all (\<lambda>(n, tag). n \<noteq> ''Name'' \<and> \<not> HasSuffix tag '',secondvalue'') ps"

definition rowOf :: "(string \<times> string) list \<Rightarrow> string \<Rightarrow> (string \<Rightarrow> f64) \<Rightarrow> row" where
  "rowOf ps nm val = VString nm # map (\<lambda>(n, tag). VFloat (val tag)) ps"

definition tagCounterAt :: "nat \<Rightarrow> string \<Rightarrow> regCounter" where
  "tagCounterAt i tag = \<lparr>regName = tag, FieldIndexValue = Some i, FieldIndexSecondValue = None\<rparr>"

lemma regAddFields_get:
  assumes "plain_tags ps" and "\<forall>tag\<in>set (map snd ps). map_get cs tag = None"
  shows "map_get (fold regAddField (enumerate k (map (\<lambda>(n, tag). perfField n tag) ps)) cs) t =
    (case map_of (zip (map snd ps) [k..<k + length ps]) t of None \<Rightarrow> map_get cs t | Some i \<Rightarrow> Some (tagCounterAt i t))"
  using assms
proof (induction ps arbitrary: k cs)
  case Nil
  then show ?case by simp
next
  case (Cons p ps)
  obtain n tag where p: "p = (n, tag)" by fastforce
  let ?cs = "regAddField (k, perfField n tag) cs"
  have add: "?cs = map_set tag (tagCounterAt k tag) cs"
    using Cons.prems p by (simp add: regAddField_def perfField_def plain_tags_def tagCounterAt_def)
  have "\<forall>tag\<in>set (map snd ps). map_get ?cs tag = None"
    using Cons.prems p add by (auto simp: plain_tags_def)
  moreover have "plain_tags ps" using Cons.prems by (simp add: plain_tags_def)
  ultimately have "map_get (fold regAddField (enumerate (Suc k) (map (\<lambda>(n, tag). perfField n tag) ps)) ?cs) t =
      (case map_of (zip (map snd ps) [Suc k..<Suc k + length ps]) t of None \<Rightarrow> map_get ?cs t | Some i \<Rightarrow> Some (tagCounterAt i t))"
    by (rule Cons.IH [rotated])
  moreover have "map_of (zip (map snd ps) [Suc k..<Suc k + length ps]) tag = None"
    using Cons.prems(1) p by (simp add: map_of_zip_is_None plain_tags_def del: upt_Suc)
  moreover have "[k..<k + length (p # ps)] = k # [Suc k..<Suc k + length ps]" by (simp add: upt_conv_Cons del: upt_Suc)
  ultimately show ?case using Cons.prems(2) p add by (cases "t = tag") (simp_all del: upt_Suc map_of_zip_is_None split: option.split)
qed

lemma regCountersOf_get:
  assumes "plain_tags ps"
  shows "map_get (regCountersOf (perfStruct ps)) t = map_option (\<lambda>i. tagCounterAt i t) (map_of (zip (map snd ps) [1..<1 + length ps]) t)"
  using regAddFields_get [OF assms, of "[]" 1 t]
  by (simp add: regCountersOf_def perfStruct_def regAddField_def nameField_def split: option.splits)

text \<open>The value that a counter stands for, and what the last counter of a name leaves in a row.\<close>

definition converted :: "u64 \<Rightarrow> PerfCounter \<Rightarrow> f64" where
  "converted freq pc =
     (if CounterType (Def pc) = PERF_ELAPSED_TIME then f64_of_int (go_quot (sint (Value pc - WindowsEpoch)) (sint freq))
      else if CounterType (Def pc) = PERF_100NSEC_TIMER \<or> CounterType (Def pc) = PERF_PRECISION_100NS_TIMER
      then f64_mul (f64_of_int (sint (Value pc))) TicksToSecondScaleFactor
      else f64_of_int (sint (Value pc)))"

definition counted :: "PerfCounter \<Rightarrow> bool" where
  "counted pc \<longleftrightarrow> \<not> (IsBaseValue (Def pc) \<and> \<not> IsNanosecondCounter (Def pc))"

definition reading :: "u64 \<Rightarrow> PerfCounter list \<Rightarrow> string \<Rightarrow> f64" where
  "reading freq pcs tag =
     (case rev (filter (\<lambda>pc. counted pc \<and> defName (Def pc) = tag) pcs) of [] \<Rightarrow> F_Fin 0 | pc # _ \<Rightarrow> converted freq pc)"

definition storeVal :: "u64 \<Rightarrow> PerfCounter \<Rightarrow> (string \<Rightarrow> f64) \<Rightarrow> string \<Rightarrow> f64" where
  "storeVal freq pc val = (if counted pc then val(defName (Def pc) := converted freq pc) else val)"

lemma fold_storeVal:
  "fold (storeVal freq) pcs val t =
     (case rev (filter (\<lambda>pc. counted pc \<and> defName (Def pc) = t) pcs) of [] \<Rightarrow> val t | pc # _ \<Rightarrow> converted freq pc)"
  by (induction pcs arbitrary: val) (auto simp: storeVal_def split: list.split)

lemma rowOf_nth: "i < length ps \<Longrightarrow> rowOf ps nm val ! Suc i = VFloat (val (snd (ps ! i)))"
  by (simp add: rowOf_def split_def)

lemma rowOf_update:
  assumes "plain_tags ps" and "i < length ps"
  shows "(rowOf ps nm val)[Suc i := VFloat v] = rowOf ps nm (val(snd (ps ! i) := v))"
proof (rule nth_equalityI)
  fix j assume "j < length ((rowOf ps nm val)[Suc i := VFloat v])"
  then have j: "j < Suc (length ps)" by (simp add: rowOf_def)
  have inj: "snd (ps ! j') = snd (ps ! i) \<longleftrightarrow> j' = i" if "j' < length ps" for j'
    using assms that nth_eq_iff_index_eq [of "map snd ps" j' i] by (simp add: plain_tags_def)
  show "(rowOf ps nm val)[Suc i := VFloat v] ! j = rowOf ps nm (val(snd (ps ! i) := v)) ! j"
  proof (cases j)
    case 0
    then show ?thesis by (simp add: rowOf_def)
  next
    case (Suc j')
    then show ?thesis using j inj assms(2) by (simp add: nth_list_update rowOf_nth rowOf_def) (auto simp: split_def)
  qed
qed (simp add: rowOf_def)

lemma rowOf_outside: "tag \<notin> set (map snd ps) \<Longrightarrow> rowOf ps nm (val(tag := v)) = rowOf ps nm val"
  by (force simp: rowOf_def)

lemma map_of_zip_upt: "map_of (zip ts [k..<k + length ts]) t = Some i \<Longrightarrow> k \<le> i \<and> i - k < length ts \<and> ts ! (i - k) = t"
proof -
  assume "map_of (zip ts [k..<k + length ts]) t = Some i"
  then have "(t, i) \<in> set (zip ts [k..<k + length ts])" by (rule map_of_SomeD)
  then show ?thesis by (auto simp: set_zip)
qed

lemma setFloatField_rowOf:
  assumes "plain_tags ps" and "i < length ps"
  shows "setFloatField (Some (Suc i)) v (rowOf ps nm val) = Some (rowOf ps nm (val(snd (ps ! i) := v)))"
  using assms rowOf_update [OF assms] rowOf_nth [OF assms(2)]
  by (simp add: setFloatField_def) (simp add: rowOf_def)

lemma storeCounter_rowOf:
  assumes "plain_tags ps" and "regCounters c = regCountersOf (perfStruct ps)" and "freq \<noteq> 0"
  shows "storeCounter c freq pc (rowOf ps nm val) = Some (rowOf ps nm (storeVal freq pc val))"
proof (cases "counted pc")
  case False
  then show ?thesis by (simp add: storeCounter_def storeVal_def counted_def)
next
  case True
  let ?t = "defName (Def pc)"
  show ?thesis
  proof (cases "map_of (zip (map snd ps) [1..<1 + length ps]) ?t")
    case None
    then have "?t \<notin> set (map snd ps)" by (simp add: map_of_zip_is_None del: upt_Suc)
    then show ?thesis using True None assms regCountersOf_get [OF assms(1), of ?t]
      by (auto simp: storeCounter_def storeVal_def counted_def rowOf_outside)
  next
    case (Some i)
    then have i: "1 \<le> i" "i - 1 < length ps" "map snd ps ! (i - 1) = ?t"
      using map_of_zip_upt [of "map snd ps" 1 ?t i] by simp_all
    then obtain j where j: "i = Suc j" "j < length ps" "snd (ps ! j) = ?t" by (cases i) simp_all
    have get: "map_get (regCounters c) ?t = Some (tagCounterAt (Suc j) ?t)"
      using Some j assms(2) regCountersOf_get [OF assms(1), of ?t] by simp
    have set: "setFloatField (Some (Suc j)) v (rowOf ps nm val) = Some (rowOf ps nm (val(?t := v)))" for v
      using setFloatField_rowOf [OF assms(1) j(2)] j(3) by simp
    show ?thesis using True get set assms(3)
      by (auto simp: storeCounter_def storeVal_def counted_def converted_def tagCounterAt_def setFloatFieldIf_def)
  qed
qed

lemma storeCounters_rowOf:
  assumes "plain_tags ps" and "regCounters c = regCountersOf (perfStruct ps)" and "freq \<noteq> 0"
  shows "storeCounters c freq pcs (rowOf ps nm val) = Some (rowOf ps nm (fold (storeVal freq) pcs val))"
  by (induction pcs arbitrary: val) (simp_all add: storeCounter_rowOf [OF assms])

lemma instanceRow_rowOf:
  assumes "plain_tags ps" and "freq \<noteq> 0"
  shows "instanceRow (regLayout table obj (perfStruct ps)) freq inst =
    Some (rowOf ps (instanceNameOf (instName inst)) (reading freq (Counters inst)))"
proof -
  have "setField (Some 0) (VString nm) (zeroElem (perfStruct ps)) = rowOf ps nm (\<lambda>t. F_Fin 0)" for nm
    by (auto simp: setField_def zeroElem_def perfStruct_def rowOf_def nameField_def perfField_def)
  moreover have "fieldIndex ''Name'' KString 0 (perfStruct ps) = Some 0" by (simp add: perfStruct_def nameField_def)
  moreover have "fold (storeVal freq) (Counters inst) (\<lambda>t. F_Fin 0) = reading freq (Counters inst)"
    by (rule ext) (simp add: fold_storeVal reading_def)
  ultimately show ?thesis
    using storeCounters_rowOf [OF assms(1) _ assms(2)] by (simp add: instanceRow_def regLayout_def)
qed

section \<open>Composition with the parser and the query\<close>

lemma index_query:
  "CHR 0x00 \<notin> set (MapCounterToIndex table obj)" "initialBufLen sizes (MapCounterToIndex table obj) \<noteq> 0"
proof -
  have digits: "\<forall>c\<in>set (MapCounterToIndex table obj). is_digit c" using show_nat_digits by (simp add: MapCounterToIndex_def list_all_iff)
  then show "CHR 0x00 \<notin> set (MapCounterToIndex table obj)" by (auto simp: is_digit_def)
  have "CHR '' '' \<notin> set (MapCounterToIndex table obj)" "CHR ''G'' \<notin> set (MapCounterToIndex table obj)" "CHR ''C'' \<notin> set (MapCounterToIndex table obj)"
    using digits by (auto simp: is_digit_def)
  then have "MapCounterToIndex table obj \<noteq> ''Global''" "MapCounterToIndex table obj \<noteq> ''Costly''"
    "Split (MapCounterToIndex table obj) (CHR '' '') = [MapCounterToIndex table obj]"
    by (auto simp: Split_no_sep)
  then show "initialBufLen sizes (MapCounterToIndex table obj) \<noteq> 0" by (simp add: initialBufLen_def)
qed

lemma objectRows_first:
  assumes "plain_tags ps" and "freq \<noteq> 0" and "objName ob = obj" and "Frequency ob = freq"
  shows "objectRows (regLayout table obj (perfStruct ps)) [ob] =
    Some (map (\<lambda>i. rowOf ps (instanceNameOf (instName i)) (reading freq (Counters i)))
           (filter (\<lambda>i. \<not> HasSuffix (instName i) InstanceTotal) (Instances ob)))"
  using assms instanceRow_rowOf [OF assms(1,2)]
  by (simp add: objectRows_def) (simp add: regLayout_def those_map_all)

lemma wanted_find:
  "find (\<lambda>ob. names (ObjectNameTitleIndex (imgType ob)) = obj) obs = Some ob \<Longrightarrow> obj \<noteq> [] \<Longrightarrow>
     wanted obj (map (objectImage names utf16) obs) = [objectImage names utf16 ob]"
  by (induction obs) (auto simp: wanted_def objectImage_def split: if_splits)

text \<open>
  C28: The rows that the registry collector delivers are the instances of the object that was asked for. When the registry
  delivers a well-formed snapshot, after being busy and asking for a larger buffer any finite number
  of times, and the snapshot has an object of the name, then \<open>Collect\<close> returns one row for each of the
  object's instances that is not a total, in their order: the instance's name, and in each field the converted
  value of the counter with the field's tag, read from the instance's own block.
\<close>

theorem regCollect_rows:
  assumes "plain_tags ps" and "obj \<noteq> []"
    and "delivers reg (MapCounterToIndex table obj) (snapshot h gap obs) busy" and "wf_snapshot h gap obs"
    and "find (\<lambda>ob. LookupString table (ObjectNameTitleIndex (imgType ob)) = obj) obs = Some ob"
    and "otPerfFreq (imgType ob) \<noteq> 0" and "busy w + growths (length (snapshot h gap obs)) < fuel"
  shows "\<exists>sizes' w'. regCollect fuel reg table utf16 (regLayout table obj (perfStruct ps)) rs sizes w =
    Returns (None, map (\<lambda>i. rowOf ps (instanceNameOf (instName i)) (reading (otPerfFreq (imgType ob)) (Counters i)))
      (filter (\<lambda>i. \<not> HasSuffix (instName i) InstanceTotal) (Instances (objectImage (LookupString table) utf16 ob))), sizes', w')"
proof -
  let ?o = "objectImage (LookupString table) utf16 ob" and ?c = "regLayout table obj (perfStruct ps)"
  obtain w' where raw: "queryRawData fuel reg (MapCounterToIndex table obj) sizes w =
      Returns (Inr (snapshot h gap obs), rememberBufLen (MapCounterToIndex table obj) (word_of_nat (length (snapshot h gap obs))) sizes, w')"
    using queryRawData_ends [OF assms(3) index_query assms(7)] by blast
  have "parsePerformanceData (LookupString table) utf16 (MapCounterToIndex table obj) obj (snapshot h gap obs) = Some (Inr [?o])"
    using parsePerformanceData_snapshot [OF assms(4), of "LookupString table" utf16 "MapCounterToIndex table obj" obj "[]"]
      wanted_find [OF assms(5,2)] by simp
  moreover have "Instances ?o \<noteq> []" by (simp add: objectImage_def)
  moreover have "objName ?o = obj" "Frequency ?o = otPerfFreq (imgType ob)"
    using assms(5) by (auto simp: objectImage_def find_Some_iff)
  note objectRows_first [OF assms(1,6) this, of table]
  ultimately show ?thesis using raw by (simp add: regCollect_def QueryPerformanceData_def regLayout_def)
qed

definition sampleDef :: perfCounterDefinition where
  "sampleDef = \<lparr>cdByteLength = 40, CounterNameTitleIndex = 952, CounterNameTitle = 0, CounterHelpTitleIndex = 953, CounterHelpTitle = 0,
     DefaultScale = 0, cdDetailLevel = 100, rawCounterType = 0x10000, CounterSize = 4, CounterOffset = 4\<rparr>"

definition sampleInst :: instImage where
  "sampleInst = \<lparr>imgInst = \<lparr>idByteLength = 28, ParentObjectTitleIndex = 0, ParentObjectInstance = 0, UniqueID = 0, NameOffset = 24, NameLength = 4\<rparr>,
     imgTail = [97, 0, 0, 0], imgBlock = [7, 0, 0, 0]\<rparr>"

definition sampleObj :: objImage where
  "sampleObj = \<lparr>imgType = \<lparr>otTotalByteLength = 140, DefinitionLength = 104, otHeaderLength = 64, ObjectNameTitleIndex = 230, ObjectNameTitle = 0,
       ObjectHelpTitleIndex = 231, ObjectHelpTitle = 0, otDetailLevel = 100, NumCounters = 1, DefaultCounter = 0, NumInstances = 1, CodePage = 0,
       otPerfTime = 0, otPerfFreq = 10000000\<rparr>,
     imgDefs = [sampleDef], imgPad = [], imgInsts = [sampleInst], imgSingle = [], imgRest = []\<rparr>"

definition sampleHeader :: perfDataBlock where
  "sampleHeader = \<lparr>Signature = perfSignature, LittleEndian = 1, Version = 1, Revision = 1, dbTotalByteLength = 228, dbHeaderLength = 88,
     NumObjectTypes = 1, DefaultObject = 230, SystemTime = replicate 8 0, dbPerfTime = 0, dbPerfFreq = 10000000, PerfTime100nSec = 0,
     SystemNameLength = 0, SystemNameOffset = 0\<rparr>"

definition sampleTable :: NameTable where
  "sampleTable = \<lparr>tabIndex = [(230, ''Process''), (952, ''Handle Count'')], tabString = [(''Process'', 230), (''Handle Count'', 952)]\<rparr>"

definition sampleReg :: "bytes \<Rightarrow> unit reg_query" where
  "sampleReg data query buf w =
     (if length buf < length data then ((ERROR_MORE_DATA, buf, 0), w)
      else ((0, data @ drop (length data) buf, word_of_nat (length data)), w))"

definition asciiOf :: "u16 list \<Rightarrow> string" where
  "asciiOf ws = map (\<lambda>w. char_of (unat w)) (takeWhile (\<lambda>w. w \<noteq> 0) ws)"

lemma sampleReg_delivers: "length data < 2 ^ 32 \<Longrightarrow> delivers (sampleReg data) query data (\<lambda>w. 0)"
  using unat_u32_of_nat [of "length data"] by (simp add: delivers_def sampleReg_def)

lemma sample_header: "wf_header sampleHeader"
  by (simp add: wf_header_def sampleHeader_def perfSignature_def)

lemma sample_lengths: "length (inst_head sampleInst) = 28" "length (obj_head sampleObj) = 104" "length (obj_bytes sampleObj) = 140"
  by (simp_all add: inst_head_def obj_head_def obj_bytes_def obj_body_def inst_bytes_def sampleObj_def sampleInst_def
      object_type.length_enc counter_definition.length_enc instance_definition.length_enc
      perfObjectTypeSize_def perfCounterDefinitionSize_def perfInstanceDefinitionSize_def)

lemma sample_wf_obj: "wf_obj sampleObj"
proof -
  have "wf_inst [sampleDef] sampleInst"
    unfolding wf_inst_def sample_lengths
    by (simp add: wf_block_def fits_def valueSize_def sampleDef_def sampleInst_def PERF_AVERAGE_BULK_def)
  then show ?thesis unfolding wf_obj_def sample_lengths by (simp add: sampleObj_def)
qed

lemma sample_wf: "wf_snapshot sampleHeader [] [sampleObj]"
  using sample_wf_obj sample_header by (simp add: wf_snapshot_def sampleHeader_def perfDataBlockSize_def)

lemma sample_length: "length (snapshot sampleHeader [] [sampleObj]) = 228"
  using sample_lengths length_encodeDataBlock [OF sample_header] by (simp add: snapshot_def perfDataBlockSize_def)

theorem regCollect_rows_witness:
  "\<exists>sizes' w' r. regCollect 3 (sampleReg (snapshot sampleHeader [] [sampleObj])) sampleTable asciiOf
       (regLayout sampleTable ''Process'' (perfStruct [(''HandleCount'', ''Handle Count'')])) [] initialBufSizes () =
     Returns (None, [VString ''a'' # r], sizes', w')"
proof -
  let ?d = "snapshot sampleHeader [] [sampleObj]"
  note len = sample_length
  have char_a: "char_of (97 :: nat) = CHR ''a''" by code_simp
  have "plain_tags [(''HandleCount'', ''Handle Count'')]" by code_simp
  moreover have "find (\<lambda>ob. LookupString sampleTable (ObjectNameTitleIndex (imgType ob)) = ''Process'') [sampleObj] = Some sampleObj"
    by (simp add: LookupString_def sampleTable_def sampleObj_def map_get0_def)
  moreover have "growths (length ?d) = 1" by (simp add: len growths_def)
  moreover have "otPerfFreq (imgType sampleObj) \<noteq> 0" by (simp add: sampleObj_def)
  moreover have "Instances (objectImage (LookupString sampleTable) asciiOf sampleObj) =
      [instanceImage (LookupString sampleTable) asciiOf [sampleDef] sampleInst]"
    by (simp add: objectImage_def sampleObj_def)
  moreover have "instName (instanceImage (LookupString sampleTable) asciiOf [sampleDef] sampleInst) = ''a''"
    using instance_definition.length_enc [of "imgInst sampleInst"] char_a
    by (simp add: instanceImage_def inst_head_def perfInstanceDefinitionSize_def sampleInst_def asciiOf_def get_u16_def)
  ultimately show ?thesis
    using regCollect_rows [OF _ _ sampleReg_delivers sample_wf, where ps = "[(''HandleCount'', ''Handle Count'')]" and obj = "''Process''" and table = sampleTable
        and ob = sampleObj and w = "()" and fuel = 3 and ?utf16.0 = asciiOf and rs = "[]" and sizes = initialBufSizes] len
    by (auto simp: rowOf_def instanceNameOf_def HasSuffix_def suffix_def InstanceTotal_def)
qed

text \<open>
  C29: The table of names holds what the registry says. When the registry delivers the bytes of a list of pairs of an index
  and a name, then \<open>initialize\<close> ends, \<open>LookupString\<close> gives the last name that the list has for an index, \<open>LookupIndex\<close>
  the last index that it has for a name, and what is not in the list is empty or zero.
\<close>

theorem initialize_names:
  assumes "delivers reg ''Counter 009'' (table_bytes ps) busy" and "list_all plain_pair ps"
    and "busy w + growths (length (table_bytes ps)) < fuel"
  shows "\<exists>t sizes' w'. initialize fuel reg utf16 atoi ''Counter 009'' sizes w = Returns (t, sizes', w') \<and>
    LookupString t i = map_get0 [] (rev (map (\<lambda>p. (word_of_int (atoi (utf16 (fst p))), utf16 (snd p))) ps)) i \<and>
    LookupIndex t s = map_get0 0 (rev (map (\<lambda>p. (utf16 (snd p), word_of_int (atoi (utf16 (fst p))))) ps)) s"
proof -
  have "initialBufLen sizes ''Counter 009'' \<noteq> 0" by (simp add: initialBufLen_def)
  then obtain sizes' w' where "queryRawData fuel reg ''Counter 009'' sizes w = Returns (Inr (table_bytes ps), sizes', w')"
    using queryRawData_ends [OF assms(1) _ _ assms(3)] by fastforce
  then show ?thesis
    using readPairs_table [OF assms(2), of utf16 atoi "\<lparr>tabIndex = [], tabString = []\<rparr>"]
    by (simp add: initialize_def LookupString_def LookupIndex_def map_get0_def tabIndex_fold tabString_fold map_get_fold_set split: option.split)
qed

theorem initialize_names_witness:
  "\<exists>t sizes' w'. initialize 2 (sampleReg (table_bytes [([50], [97, 98]), ([52], [99 :: u16])])) asciiOf (\<lambda>s. int (dec_val 0 s)) ''Counter 009'' initialBufSizes () =
       Returns (t, sizes', w') \<and> LookupString t 4 = ''c'' \<and> LookupIndex t ''ab'' = 2"
proof -
  let ?d = "table_bytes [([50], [97, 98]), ([52], [99])] :: bytes"
  have len: "length ?d = 20" by code_simp
  have "list_all plain_pair [([50], [97, 98]), ([52], [99])]" by code_simp
  moreover have "growths (length ?d) = 1" by (simp add: len growths_def)
  moreover have "asciiOf [50] = ''2''" "asciiOf [52] = ''4''" "asciiOf [97, 98] = ''ab''" "asciiOf [99] = ''c''" by code_simp+
  moreover have "dec_val 0 ''2'' = 2" "dec_val 0 ''4'' = 4" by code_simp+
  ultimately show ?thesis
    using initialize_names [OF sampleReg_delivers, where ps = "[([50], [97, 98]), ([52], [99])]" and w = "()" and fuel = 2 and sizes = initialBufSizes
        and ?utf16.0 = asciiOf and atoi = "\<lambda>s. int (dec_val 0 s)" and i = 4 and s = "''ab''"] len
    by (auto simp: map_get0_def)
qed

text \<open>
  A field for the second value of a counter hides the field for its value: the second field does not find the first one's entry, and replaces
  it. The value of the counter is then never stored.
\<close>

theorem second_value_hides_value:
  assumes "\<not> HasSuffix tag '',secondvalue''"
  shows "map_get (regCountersOf [perfField n tag, perfField m (tag @ '',secondvalue'')]) tag =
    Some \<lparr>regName = tag @ '',secondvalue'', FieldIndexValue = None, FieldIndexSecondValue = Some 1\<rparr>"
proof -
  have "HasSuffix (tag @ '',secondvalue'') '',secondvalue''" by (simp add: HasSuffix_def suffix_def)
  moreover have "TrimSuffix (tag @ '',secondvalue'') '',secondvalue'' = tag" by (simp add: TrimSuffix_def HasSuffix_def suffix_def)
  moreover have "tag @ '',secondvalue'' \<noteq> tag" by simp
  ultimately show ?thesis using assms by (simp add: regCountersOf_def regAddField_def perfField_def)
qed

end
