(* ===== verification/Process.thy ===== *)
theory Process
  imports Perflib_Collector Pdh_Names "HOL-Library.Multiset"
begin

text \<open>
  The process collector (internal/collector/process): two versions over different counter sets, one read
  through PDH and one through the registry, and worker goroutines that complete each row with
  information about the process. The system's functions are parameters. Processes are
  looked at independently of each other; only the names of the owners are cached for all of them.
\<close>

section \<open>The structs and the metrics\<close>

record procInfo =
  pName :: string
  pPid :: u64
  pParent :: u64
  pGroup :: u32
  pOwner :: string
  pCmdLine :: string

definition process_v1_fields :: "structField list" where
  "process_v1_fields =
     [nameField,
      perfField ''PercentProcessorTime'' ''% Processor Time'',
      perfField ''PercentPrivilegedTime'' ''% Privileged Time'',
      perfField ''PercentUserTime'' ''% User Time'',
      perfField ''CreatingProcessID'' ''Creating Process ID'',
      perfField ''ElapsedTime'' ''Elapsed Time'',
      perfField ''HandleCount'' ''Handle Count'',
      perfField ''IoDataBytesPerSec'' ''IO Data Bytes/sec'',
      perfField ''IoDataOperationsPerSec'' ''IO Data Operations/sec'',
      perfField ''IoOtherBytesPerSec'' ''IO Other Bytes/sec'',
      perfField ''IoOtherOperationsPerSec'' ''IO Other Operations/sec'',
      perfField ''IoReadBytesPerSec'' ''IO Read Bytes/sec'',
      perfField ''IoReadOperationsPerSec'' ''IO Read Operations/sec'',
      perfField ''IoWriteBytesPerSec'' ''IO Write Bytes/sec'',
      perfField ''IoWriteOperationsPerSec'' ''IO Write Operations/sec'',
      perfField ''PageFaultsPerSec'' ''Page Faults/sec'',
      perfField ''PageFileBytesPeak'' ''Page File Bytes Peak'',
      perfField ''PageFileBytes'' ''Page File Bytes'',
      perfField ''PoolNonPagedBytes'' ''Pool Nonpaged Bytes'',
      perfField ''PoolPagedBytes'' ''Pool Paged Bytes'',
      perfField ''PriorityBase'' ''Priority Base'',
      perfField ''PrivateBytes'' ''Private Bytes'',
      perfField ''ThreadCount'' ''Thread Count'',
      perfField ''VirtualBytesPeak'' ''Virtual Bytes Peak'',
      perfField ''VirtualBytes'' ''Virtual Bytes'',
      perfField ''WorkingSetPrivate'' ''Working Set - Private'',
      perfField ''WorkingSetPeak'' ''Working Set Peak'',
      perfField ''WorkingSet'' ''Working Set'',
      perfField ''IdProcess'' ''ID Process'']"

definition process_v2_fields :: "structField list" where
  "process_v2_fields =
     [nameField,
      perfField ''PercentProcessorTime'' ''% Processor Time'',
      perfField ''PercentPrivilegedTime'' ''% Privileged Time'',
      perfField ''PercentUserTime'' ''% User Time'',
      perfField ''CreatingProcessID'' ''Creating Process ID'',
      perfField ''ElapsedTime'' ''Elapsed Time'',
      perfField ''HandleCount'' ''Handle Count'',
      perfField ''IoDataBytesPerSec'' ''IO Data Bytes/sec'',
      perfField ''IoDataOperationsPerSec'' ''IO Data Operations/sec'',
      perfField ''IoOtherBytesPerSec'' ''IO Other Bytes/sec'',
      perfField ''IoOtherOperationsPerSec'' ''IO Other Operations/sec'',
      perfField ''IoReadBytesPerSec'' ''IO Read Bytes/sec'',
      perfField ''IoReadOperationsPerSec'' ''IO Read Operations/sec'',
      perfField ''IoWriteBytesPerSec'' ''IO Write Bytes/sec'',
      perfField ''IoWriteOperationsPerSec'' ''IO Write Operations/sec'',
      perfField ''PageFaultsPerSec'' ''Page Faults/sec'',
      perfField ''PageFileBytesPeak'' ''Page File Bytes Peak'',
      perfField ''PageFileBytes'' ''Page File Bytes'',
      perfField ''PoolNonPagedBytes'' ''Pool Nonpaged Bytes'',
      perfField ''PoolPagedBytes'' ''Pool Paged Bytes'',
      perfField ''PriorityBase'' ''Priority Base'',
      perfField ''PrivateBytes'' ''Private Bytes'',
      perfField ''ThreadCount'' ''Thread Count'',
      perfField ''VirtualBytesPeak'' ''Virtual Bytes Peak'',
      perfField ''VirtualBytes'' ''Virtual Bytes'',
      perfField ''WorkingSetPrivate'' ''Working Set - Private'',
      perfField ''WorkingSetPeak'' ''Working Set Peak'',
      perfField ''WorkingSet'' ''Working Set'',
      perfField ''ProcessID'' ''Process ID'']"

definition process_descs :: descTable where
  "process_descs =
     [(''info'', NewDesc (BuildFQName Namespace ''process'' ''info'')
        ''Process information.'' [''process'', ''process_id'', ''creating_process_id'', ''process_group_id'', ''owner'', ''cmdline'']),
      (''startTimeOld'', NewDesc (BuildFQName Namespace ''process'' ''start_time'')
        ''DEPRECATED: Use start_time_seconds_timestamp instead'' [''process'', ''process_id'']),
      (''startTime'', NewDesc (BuildFQName Namespace ''process'' ''start_time_seconds_timestamp'')
        ''Time of process start.'' [''process'', ''process_id'']),
      (''cpuTimeTotal'', NewDesc (BuildFQName Namespace ''process'' ''cpu_time_total'')
        ''Returns elapsed time that all of the threads of this process used the processor to execute instructions by mode (privileged, user).'' [''process'', ''process_id'', ''mode'']),
      (''handleCount'', NewDesc (BuildFQName Namespace ''process'' ''handles'')
        ''Total number of handles the process has open. This number is the sum of the handles currently open by each thread in the process.'' [''process'', ''process_id'']),
      (''ioBytesTotal'', NewDesc (BuildFQName Namespace ''process'' ''io_bytes_total'')
        ''Bytes issued to I/O operations in different modes (read, write, other).'' [''process'', ''process_id'', ''mode'']),
      (''ioOperationsTotal'', NewDesc (BuildFQName Namespace ''process'' ''io_operations_total'')
        ''I/O operations issued in different modes (read, write, other).'' [''process'', ''process_id'', ''mode'']),
      (''pageFaultsTotal'', NewDesc (BuildFQName Namespace ''process'' ''page_faults_total'')
        ''Page faults by the threads executing in this process.'' [''process'', ''process_id'']),
      (''pageFileBytes'', NewDesc (BuildFQName Namespace ''process'' ''page_file_bytes'')
        ''Current number of bytes this process has used in the paging file(s).'' [''process'', ''process_id'']),
      (''poolBytes'', NewDesc (BuildFQName Namespace ''process'' ''pool_bytes'')
        ''Pool Bytes is the last observed number of bytes in the paged or nonpaged pool.'' [''process'', ''process_id'', ''pool'']),
      (''priorityBase'', NewDesc (BuildFQName Namespace ''process'' ''priority_base'')
        ''Current base priority of this process. Threads within a process can raise and lower their own base priority relative to the process base priority of the process.'' [''process'', ''process_id'']),
      (''privateBytes'', NewDesc (BuildFQName Namespace ''process'' ''private_bytes'')
        ''Current number of bytes this process has allocated that cannot be shared with other processes.'' [''process'', ''process_id'']),
      (''threadCount'', NewDesc (BuildFQName Namespace ''process'' ''threads'')
        ''Number of threads currently active in this process.'' [''process'', ''process_id'']),
      (''virtualBytes'', NewDesc (BuildFQName Namespace ''process'' ''virtual_bytes'')
        ''Current size, in bytes, of the virtual address space that the process is using.'' [''process'', ''process_id'']),
      (''workingSetPrivate'', NewDesc (BuildFQName Namespace ''process'' ''working_set_private_bytes'')
        ''Size of the working set, in bytes, that is use for this process only and not shared nor shareable by other processes.'' [''process'', ''process_id'']),
      (''workingSetPeak'', NewDesc (BuildFQName Namespace ''process'' ''working_set_peak_bytes'')
        ''Maximum size, in bytes, of the Working Set of this process at any point in time. The Working Set is the set of memory pages touched recently by the threads in the process.'' [''process'', ''process_id'']),
      (''workingSet'', NewDesc (BuildFQName Namespace ''process'' ''working_set_bytes'')
        ''Maximum number of bytes in the working set of this process at any point in time. The working set is the set of memory pages touched recently by the threads in the process.'' [''process'', ''process_id''])]"

definition process_v1_lines :: "procInfo \<Rightarrow> row \<Rightarrow> line list" where
  "process_v1_lines i r =
     [(''info'', GaugeValue, F_Fin 1, [pName i, show_nat (unat (pPid i)), show_nat (unat (pParent i)), show_nat (unat (pGroup i)), pOwner i, pCmdLine i]),
      (''startTime'', GaugeValue, num process_v1_fields r ''ElapsedTime'', [pName i, show_nat (unat (pPid i))]),
      (''startTimeOld'', GaugeValue, num process_v1_fields r ''ElapsedTime'', [pName i, show_nat (unat (pPid i))]),
      (''handleCount'', GaugeValue, num process_v1_fields r ''HandleCount'', [pName i, show_nat (unat (pPid i))]),
      (''cpuTimeTotal'', CounterValue, num process_v1_fields r ''PercentPrivilegedTime'', [pName i, show_nat (unat (pPid i)), ''privileged'']),
      (''cpuTimeTotal'', CounterValue, num process_v1_fields r ''PercentUserTime'', [pName i, show_nat (unat (pPid i)), ''user'']),
      (''ioBytesTotal'', CounterValue, num process_v1_fields r ''IoOtherBytesPerSec'', [pName i, show_nat (unat (pPid i)), ''other'']),
      (''ioOperationsTotal'', CounterValue, num process_v1_fields r ''IoOtherOperationsPerSec'', [pName i, show_nat (unat (pPid i)), ''other'']),
      (''ioBytesTotal'', CounterValue, num process_v1_fields r ''IoReadBytesPerSec'', [pName i, show_nat (unat (pPid i)), ''read'']),
      (''ioOperationsTotal'', CounterValue, num process_v1_fields r ''IoReadOperationsPerSec'', [pName i, show_nat (unat (pPid i)), ''read'']),
      (''ioBytesTotal'', CounterValue, num process_v1_fields r ''IoWriteBytesPerSec'', [pName i, show_nat (unat (pPid i)), ''write'']),
      (''ioOperationsTotal'', CounterValue, num process_v1_fields r ''IoWriteOperationsPerSec'', [pName i, show_nat (unat (pPid i)), ''write'']),
      (''pageFaultsTotal'', CounterValue, num process_v1_fields r ''PageFaultsPerSec'', [pName i, show_nat (unat (pPid i))]),
      (''pageFileBytes'', GaugeValue, num process_v1_fields r ''PageFileBytes'', [pName i, show_nat (unat (pPid i))]),
      (''poolBytes'', GaugeValue, num process_v1_fields r ''PoolNonPagedBytes'', [pName i, show_nat (unat (pPid i)), ''nonpaged'']),
      (''poolBytes'', GaugeValue, num process_v1_fields r ''PoolPagedBytes'', [pName i, show_nat (unat (pPid i)), ''paged'']),
      (''priorityBase'', GaugeValue, num process_v1_fields r ''PriorityBase'', [pName i, show_nat (unat (pPid i))]),
      (''privateBytes'', GaugeValue, num process_v1_fields r ''PrivateBytes'', [pName i, show_nat (unat (pPid i))]),
      (''threadCount'', GaugeValue, num process_v1_fields r ''ThreadCount'', [pName i, show_nat (unat (pPid i))]),
      (''virtualBytes'', GaugeValue, num process_v1_fields r ''VirtualBytes'', [pName i, show_nat (unat (pPid i))]),
      (''workingSetPrivate'', GaugeValue, num process_v1_fields r ''WorkingSetPrivate'', [pName i, show_nat (unat (pPid i))]),
      (''workingSetPeak'', GaugeValue, num process_v1_fields r ''WorkingSetPeak'', [pName i, show_nat (unat (pPid i))]),
      (''workingSet'', GaugeValue, num process_v1_fields r ''WorkingSet'', [pName i, show_nat (unat (pPid i))])]"

definition process_v2_lines :: "f64 \<Rightarrow> procInfo \<Rightarrow> row \<Rightarrow> line list" where
  "process_v2_lines startTime i r =
     [(''info'', GaugeValue, F_Fin 1, [pName i, show_nat (unat (pPid i)), show_nat (unat (pParent i)), show_nat (unat (pGroup i)), pOwner i, pCmdLine i]),
      (''startTimeOld'', GaugeValue, startTime, [pName i, show_nat (unat (pPid i))]),
      (''startTime'', GaugeValue, startTime, [pName i, show_nat (unat (pPid i))]),
      (''handleCount'', GaugeValue, num process_v2_fields r ''HandleCount'', [pName i, show_nat (unat (pPid i))]),
      (''cpuTimeTotal'', CounterValue, num process_v2_fields r ''PercentPrivilegedTime'', [pName i, show_nat (unat (pPid i)), ''privileged'']),
      (''cpuTimeTotal'', CounterValue, num process_v2_fields r ''PercentUserTime'', [pName i, show_nat (unat (pPid i)), ''user'']),
      (''ioBytesTotal'', CounterValue, num process_v2_fields r ''IoOtherBytesPerSec'', [pName i, show_nat (unat (pPid i)), ''other'']),
      (''ioOperationsTotal'', CounterValue, num process_v2_fields r ''IoOtherOperationsPerSec'', [pName i, show_nat (unat (pPid i)), ''other'']),
      (''ioBytesTotal'', CounterValue, num process_v2_fields r ''IoReadBytesPerSec'', [pName i, show_nat (unat (pPid i)), ''read'']),
      (''ioOperationsTotal'', CounterValue, num process_v2_fields r ''IoReadOperationsPerSec'', [pName i, show_nat (unat (pPid i)), ''read'']),
      (''ioBytesTotal'', CounterValue, num process_v2_fields r ''IoWriteBytesPerSec'', [pName i, show_nat (unat (pPid i)), ''write'']),
      (''ioOperationsTotal'', CounterValue, num process_v2_fields r ''IoWriteOperationsPerSec'', [pName i, show_nat (unat (pPid i)), ''write'']),
      (''pageFaultsTotal'', CounterValue, num process_v2_fields r ''PageFaultsPerSec'', [pName i, show_nat (unat (pPid i))]),
      (''pageFileBytes'', GaugeValue, num process_v2_fields r ''PageFileBytes'', [pName i, show_nat (unat (pPid i))]),
      (''poolBytes'', GaugeValue, num process_v2_fields r ''PoolNonPagedBytes'', [pName i, show_nat (unat (pPid i)), ''nonpaged'']),
      (''poolBytes'', GaugeValue, num process_v2_fields r ''PoolPagedBytes'', [pName i, show_nat (unat (pPid i)), ''paged'']),
      (''priorityBase'', GaugeValue, num process_v2_fields r ''PriorityBase'', [pName i, show_nat (unat (pPid i))]),
      (''privateBytes'', GaugeValue, num process_v2_fields r ''PrivateBytes'', [pName i, show_nat (unat (pPid i))]),
      (''threadCount'', GaugeValue, num process_v2_fields r ''ThreadCount'', [pName i, show_nat (unat (pPid i))]),
      (''virtualBytes'', GaugeValue, num process_v2_fields r ''VirtualBytes'', [pName i, show_nat (unat (pPid i))]),
      (''workingSetPrivate'', GaugeValue, num process_v2_fields r ''WorkingSetPrivate'', [pName i, show_nat (unat (pPid i))]),
      (''workingSetPeak'', GaugeValue, num process_v2_fields r ''WorkingSetPeak'', [pName i, show_nat (unat (pPid i))]),
      (''workingSet'', GaugeValue, num process_v2_fields r ''WorkingSet'', [pName i, show_nat (unat (pPid i))])]"

section \<open>Information about a process\<close>

text \<open>
  The functions of Windows that are used: opening a process with full or limited rights, its token and the
  token's user, the name of an account, and the reads of the memory of the process.
\<close>

record proc_api =
  openFull :: "u32 \<Rightarrow> go_error + u64"
  openLimited :: "u32 \<Rightarrow> go_error + u64"
  openToken :: "u64 \<Rightarrow> go_error + u64"
  tokenUser :: "u64 \<Rightarrow> go_error + string"
  lookupAccount :: "string \<Rightarrow> go_error + string \<times> string"
  pebAddress :: "u64 \<Rightarrow> go_error + u64"
  parametersAddress :: "u64 \<Rightarrow> u64 \<Rightarrow> go_error + u64"
  parametersAt :: "u64 \<Rightarrow> u64 \<Rightarrow> go_error + u16 \<times> u64 \<times> u32"
  memoryAt :: "u64 \<Rightarrow> u64 \<Rightarrow> nat \<Rightarrow> go_error + bytes"

abbreviation ERROR_ACCESS_DENIED :: go_error where "ERROR_ACCESS_DENIED \<equiv> Errno 5"

definition openProcess :: "proc_api \<Rightarrow> u32 \<Rightarrow> go_error + u64 \<times> bool" where
  "openProcess api pid =
     (case openFull api pid of
        Inr h \<Rightarrow> Inr (h, True)
      | Inl err \<Rightarrow>
          (if \<not> errors_is err ERROR_ACCESS_DENIED then Inl (Wrapf ''failed to open process: %w'' [] err)
           else if errors_is err (Errno 0x57) then Inl (ErrorText ''process not found'' [])
           else
             (case openLimited api pid of
                Inl e \<Rightarrow> Inl (Wrapf ''failed to open process with limited permissions: %w'' [] e)
              | Inr h \<Rightarrow> Inr (h, False))))"

text \<open>The owner, and the cache of owners by their security identifier.\<close>

type_synonym ownerCache = "(string, string) gomap"

definition ownerName :: "proc_api \<Rightarrow> string \<Rightarrow> string" where
  "ownerName api sid = (case lookupAccount api sid of Inl e \<Rightarrow> sid | Inr (account, domain) \<Rightarrow> account @ [CHR 0x5C] @ domain)"

definition getProcessOwner :: "proc_api \<Rightarrow> u64 \<Rightarrow> ownerCache \<Rightarrow> (go_error + string) \<times> ownerCache" where
  "getProcessOwner api h cache =
     (case openToken api h of
        Inl e \<Rightarrow> (if errors_is e ERROR_ACCESS_DENIED then Inr [] else Inl (Wrapf ''failed to open process token: %w'' [] e), cache)
      | Inr tok \<Rightarrow>
          (case tokenUser api tok of
             Inl e \<Rightarrow> (Inl (Wrapf ''failed to get token user: %w'' [] e), cache)
           | Inr sid \<Rightarrow>
               (case map_get cache sid of
                  Some owner \<Rightarrow> (Inr owner, cache)
                | None \<Rightarrow> (Inr (ownerName api sid), map_set sid (ownerName api sid) cache))))"

text \<open>
  The command line: a slice of as many 16-bit words as the command line has bytes, filled to the half. \<^term>\<open>None\<close> is the
  panic of taking the address of the first element of an empty slice.
\<close>

definition getExtendedProcessInformation ::
  "(u16 list \<Rightarrow> string) \<Rightarrow> proc_api \<Rightarrow> u64 \<Rightarrow> (string \<times> u32 \<times> go_error option) option" where
  "getExtendedProcessInformation utf16 api h =
     (case pebAddress api h of
        Inl e \<Rightarrow> Some ([], 0, Some (Wrapf ''failed to query process basic information: %w'' [] e))
      | Inr peb \<Rightarrow>
          (case parametersAddress api h peb of
             Inl e \<Rightarrow> Some ([], 0, Some (Wrapf ''failed to read process memory: %w'' [] e))
           | Inr params \<Rightarrow>
               (case parametersAt api h params of
                  Inl e \<Rightarrow> Some ([], 0, Some (Wrapf ''failed to read process memory: %w'' [] e))
                | Inr (len, buf, groupID) \<Rightarrow>
                    (if len = 0 then None
                     else
                       (case memoryAt api h buf (unat len) of
                          Inl e \<Rightarrow> Some ([], groupID, Some (Wrapf ''failed to read process memory: %w'' [] e))
                        | Inr bs \<Rightarrow> Some (TrimSpace (utf16 (words16 (bs @ replicate (2 * unat len - length bs) 0))), groupID, None))))))"

text \<open>The results of \<open>getProcessInformation\<close>: command line, owner, group and error.\<close>

type_synonym procDetails = "string \<times> string \<times> u32 \<times> go_error option"

definition getProcessInformation ::
  "(u16 list \<Rightarrow> string) \<Rightarrow> proc_api \<Rightarrow> u32 \<Rightarrow> ownerCache \<Rightarrow> procDetails option \<times> ownerCache" where
  "getProcessInformation utf16 api pid cache =
     (if pid = 0 then (Some ([], [], 0, None), cache)
      else
        (case openProcess api pid of
           Inl e \<Rightarrow> (Some ([], [], 0, if errors_is e ERROR_ACCESS_DENIED then None else Some e), cache)
         | Inr (h, vmReadAccess) \<Rightarrow>
             (case getProcessOwner api h cache of
                (Inl e, cache') \<Rightarrow> (Some ([], [], 0, Some e), cache')
              | (Inr owner, cache') \<Rightarrow>
                  (if vmReadAccess then
                     (case getExtendedProcessInformation utf16 api h of
                        None \<Rightarrow> (None, cache')
                      | Some (cmdLine, groupID, Some e) \<Rightarrow> (Some ([], owner, groupID, Some e), cache')
                      | Some (cmdLine, groupID, None) \<Rightarrow> (Some (cmdLine, owner, groupID, None), cache'))
                   else (Some ([], owner, 0, None), cache')))))"

section \<open>The workers\<close>

record WorkerProcess =
  AppPoolName :: string
  ProcessId :: u64

record process_config =
  ProcessExclude :: "string \<Rightarrow> bool"
  ProcessInclude :: "string \<Rightarrow> bool"
  EnableWorkerProcess :: bool

text \<open>\<open>strings.Cut(s, ":")\<close>, its first result.\<close>

definition beforeColon :: "string \<Rightarrow> string" where
  "beforeColon s = takeWhile (\<lambda>c. c \<noteq> CHR '':'') s"

definition withPool :: "process_config \<Rightarrow> WorkerProcess list \<Rightarrow> u64 \<Rightarrow> string \<Rightarrow> string" where
  "withPool cfg wps pid name =
     (if EnableWorkerProcess cfg
      then (case find (\<lambda>wp. ProcessId wp = pid) wps of Some wp \<Rightarrow> Join [name, AppPoolName wp] ''_'' | None \<Rightarrow> name)
      else name)"

text \<open>
  What a worker does for one row: the name, the identifiers of the process and its parent, and the
  information of the system. An error of it is only logged; \<^term>\<open>None\<close> is a panic, after which the row
  has no metrics and the worker is started again.
\<close>

definition processInfo ::
  "(u16 list \<Rightarrow> string) \<Rightarrow> proc_api \<Rightarrow> process_config \<Rightarrow> WorkerProcess list \<Rightarrow> string \<Rightarrow> u64 \<Rightarrow> u64 \<Rightarrow> ownerCache \<Rightarrow> procInfo option \<times> ownerCache" where
  "processInfo utf16 api cfg wps name pid parent cache =
     (case getProcessInformation utf16 api (ucast pid) cache of
        (None, cache') \<Rightarrow> (None, cache')
      | (Some (cmdLine, owner, groupID, err), cache') \<Rightarrow>
          (Some \<lparr>pName = withPool cfg wps pid name, pPid = pid, pParent = parent, pGroup = groupID, pOwner = owner, pCmdLine = cmdLine\<rparr>, cache'))"

text \<open>The two versions differ in their struct, in the field with the process identifier, and in the start time.\<close>

record procVersion =
  versionFields :: "structField list"
  pidField :: string
  versionLines :: "procInfo \<Rightarrow> row \<Rightarrow> line list"

definition processV1 :: procVersion where
  "processV1 = \<lparr>versionFields = process_v1_fields, pidField = ''IdProcess'', versionLines = process_v1_lines\<rparr>"

text \<open>Version 2 computes the start time from the time that has elapsed; \<open>toI64\<close> is the conversion \<open>int64(x)\<close>, and \<open>now\<close> the current time in seconds.\<close>

definition processV2 :: "(f64 \<Rightarrow> int) \<Rightarrow> int \<Rightarrow> procVersion" where
  "processV2 toI64 now =
     \<lparr>versionFields = process_v2_fields, pidField = ''ProcessID'',
      versionLines = (\<lambda>i r. process_v2_lines (f64_of_int (signed_take_bit 63 (now - toI64 (num process_v2_fields r ''ElapsedTime'')))) i r)\<rparr>"

text \<open>The identifiers of a row; \<open>toU64\<close> is the conversion \<open>uint64(x)\<close> of a float, which Go defines for values in its range.\<close>

definition rowPid :: "(f64 \<Rightarrow> u64) \<Rightarrow> procVersion \<Rightarrow> row \<Rightarrow> u64" where
  "rowPid toU64 v r = toU64 (num (versionFields v) r (pidField v))"

definition workerRow ::
  "(f64 \<Rightarrow> u64) \<Rightarrow> (u16 list \<Rightarrow> string) \<Rightarrow> proc_api \<Rightarrow> process_config \<Rightarrow> WorkerProcess list \<Rightarrow> procVersion \<Rightarrow> row \<Rightarrow> ownerCache \<Rightarrow> line list \<times> ownerCache" where
  "workerRow toU64 utf16 api cfg wps v r cache =
     (case processInfo utf16 api cfg wps (beforeColon (rowName (versionFields v) r)) (rowPid toU64 v r)
             (toU64 (num (versionFields v) r ''CreatingProcessID'')) cache of
        (None, cache') \<Rightarrow> ([], cache')
      | (Some i, cache') \<Rightarrow> (versionLines v i r, cache'))"

definition processWanted :: "process_config \<Rightarrow> procVersion \<Rightarrow> row \<Rightarrow> bool" where
  "processWanted cfg v r \<longleftrightarrow> included (ProcessExclude cfg) (ProcessInclude cfg) (beforeColon (rowName (versionFields v) r))"

text \<open>The rows in the order in which the workers take them.\<close>

fun workerRows ::
  "(f64 \<Rightarrow> u64) \<Rightarrow> (u16 list \<Rightarrow> string) \<Rightarrow> proc_api \<Rightarrow> process_config \<Rightarrow> WorkerProcess list \<Rightarrow> procVersion \<Rightarrow> row list \<Rightarrow> ownerCache \<Rightarrow> line list \<times> ownerCache" where
  "workerRows toU64 utf16 api cfg wps v [] cache = ([], cache)"
| "workerRows toU64 utf16 api cfg wps v (r # rs) cache =
     (case workerRow toU64 utf16 api cfg wps v r cache of
        (lns, cache1) \<Rightarrow> (case workerRows toU64 utf16 api cfg wps v rs cache1 of (lns', cache2) \<Rightarrow> (lns @ lns', cache2)))"

section \<open>Build, Collect and Close\<close>

record processCollector =
  collectorVersion :: nat
  perfV1 :: "regCollector option"
  rowsV1 :: "row list"
  sourceV2 :: perfSource
  workersV1 :: bool
  workersV2 :: bool
  nameTable :: NameTable
  lookupCache :: ownerCache

definition newProcess :: processCollector where
  "newProcess = \<lparr>collectorVersion = 0, perfV1 = None, rowsV1 = [], sourceV2 = \<lparr>perfDataCollector = None, perfDataObject = []\<rparr>,
     workersV1 = False, workersV2 = False, nameTable = \<lparr>tabIndex = [], tabString = []\<rparr>, lookupCache = []\<rparr>"

text \<open>
  \<open>Build\<close>: version 2 where the counter set exists, and version 1 otherwise, for which the table of names is read on
  its first use. \<open>hasSession\<close> says whether there is an MI session, \<open>queryErr\<close> is the error of making the MI query.
\<close>

definition process_Build ::
  "nat \<Rightarrow> 'w pdh_api \<Rightarrow> u16 \<Rightarrow> 'w reg_query \<Rightarrow> (u16 list \<Rightarrow> string) \<Rightarrow> (string \<Rightarrow> int) \<Rightarrow> bool \<Rightarrow> go_error option \<Rightarrow> bufSizes \<Rightarrow> 'w \<Rightarrow>
   (go_error option \<times> processCollector \<times> bufSizes \<times> 'w) exec" where
  "process_Build fuel api osBuild reg utf16 atoi hasSession queryErr sizes w =
     (if \<not> hasSession then Returns (Some (ErrorText ''miSession is nil'' []), newProcess, sizes, w)
      else case queryErr of
        Some e \<Rightarrow> Returns (Some (Wrapf ''failed to create WMI query: %w'' [] e), newProcess, sizes, w)
      | None \<Rightarrow>
          (case NewCollectorWithReflection api osBuild CounterTypeRaw ''Process V2'' [''*''] process_v2_fields w of
             None \<Rightarrow> Panics
           | Some (p, err, w1) \<Rightarrow>
               (let c = newProcess\<lparr>collectorVersion := 2, sourceV2 := \<lparr>perfDataCollector = p, perfDataObject = []\<rparr>\<rparr> in
                case err of
                  None \<Rightarrow> Returns (None, c\<lparr>workersV2 := True\<rparr>, sizes, w1)
                | Some e \<Rightarrow>
                    (if \<not> errors_is e (PdhError CstatusNoObject)
                     then Returns (Some (Wrapf ''failed to create Process collector: %w'' [] e), c, sizes, w1)
                     else
                       (case initialize fuel reg utf16 atoi ''Counter 009'' sizes w1 of
                          Panics \<Rightarrow> Panics
                        | StillRunning \<Rightarrow> StillRunning
                        | Returns (table, sizes2, w2) \<Rightarrow>
                            (case regNewCollector fuel reg table utf16 ''Process'' process_v1_fields sizes2 w2 of
                               Panics \<Rightarrow> Panics
                             | StillRunning \<Rightarrow> StillRunning
                             | Returns (Inl e1, sizes3, w3) \<Rightarrow>
                                 Returns (Some (Wrapf ''failed to create Process collector: %w'' [] e1),
                                          c\<lparr>collectorVersion := 1, nameTable := table\<rparr>, sizes3, w3)
                             | Returns (Inr rc, sizes3, w3) \<Rightarrow>
                                 Returns (None, c\<lparr>collectorVersion := 1, perfV1 := Some rc, nameTable := table, workersV1 := True\<rparr>, sizes3, w3)))))))"

text \<open>
  The end of \<open>collectV1\<close> and \<open>collectV2\<close>: the rows that pass the filters are handed to the workers, which take them in some \<open>order\<close>, one after the other; their
  interleaving is in Process_Workers, with the same metrics up to the order.
  The result has the metrics that were sent; \<^term>\<open>None\<close> does not happen, since a panic of a worker only loses its row.
\<close>

definition sendRows ::
  "(row list \<Rightarrow> row list) \<Rightarrow> (f64 \<Rightarrow> u64) \<Rightarrow> (u16 list \<Rightarrow> string) \<Rightarrow> proc_api \<Rightarrow> process_config \<Rightarrow> WorkerProcess list \<Rightarrow> procVersion \<Rightarrow> row list \<Rightarrow>
   ownerCache \<Rightarrow> metric list option \<times> ownerCache" where
  "sendRows order toU64 utf16 papi cfg wps v rs cache =
     (case workerRows toU64 utf16 papi cfg wps v (order (filter (processWanted cfg v) rs)) cache of
        (lns, cache') \<Rightarrow> (sendAll process_descs lns, cache'))"

definition process_collectV1 ::
  "nat \<Rightarrow> 'w reg_query \<Rightarrow> (row list \<Rightarrow> row list) \<Rightarrow> (f64 \<Rightarrow> u64) \<Rightarrow> (u16 list \<Rightarrow> string) \<Rightarrow> proc_api \<Rightarrow> process_config \<Rightarrow> WorkerProcess list \<Rightarrow>
   regCollector \<Rightarrow> processCollector \<Rightarrow> bufSizes \<Rightarrow> 'w \<Rightarrow> (go_error option \<times> metric list option \<times> processCollector \<times> bufSizes \<times> 'w) exec" where
  "process_collectV1 fuel reg order toU64 utf16 papi cfg wps rc c sizes w =
     (case regCollect fuel reg (nameTable c) utf16 rc (rowsV1 c) sizes w of
        Returns (Some e, rs, sizes', w') \<Rightarrow> Returns (Some (Wrapf ''failed to collect metrics: %w'' [] e), Some [], c\<lparr>rowsV1 := rs\<rparr>, sizes', w')
      | Returns (None, rs, sizes', w') \<Rightarrow>
          (case sendRows order toU64 utf16 papi cfg wps processV1 rs (lookupCache c) of
             (ms, cache') \<Rightarrow> Returns (None, ms, c\<lparr>rowsV1 := rs, lookupCache := cache'\<rparr>, sizes', w'))
      | Panics \<Rightarrow> Panics
      | StillRunning \<Rightarrow> StillRunning)"

definition process_collectV2 ::
  "'w pdh_api \<Rightarrow> (row list \<Rightarrow> row list) \<Rightarrow> (f64 \<Rightarrow> u64) \<Rightarrow> (f64 \<Rightarrow> int) \<Rightarrow> int \<Rightarrow> (u16 list \<Rightarrow> string) \<Rightarrow> proc_api \<Rightarrow> process_config \<Rightarrow> WorkerProcess list \<Rightarrow>
   processCollector \<Rightarrow> 'w \<Rightarrow> (go_error option \<times> metric list option \<times> processCollector \<times> 'w) option" where
  "process_collectV2 api order toU64 toI64 now utf16 papi cfg wps c w =
     (case perfCollect api process_v2_fields (sourceV2 c) w of
        None \<Rightarrow> None
      | Some (Some e, src, w') \<Rightarrow> Some (Some (Wrapf ''failed to collect metrics: %w'' [] e), Some [], c\<lparr>sourceV2 := src\<rparr>, w')
      | Some (None, src, w') \<Rightarrow>
          (case sendRows order toU64 utf16 papi cfg wps (processV2 toI64 now) (perfDataObject src) (lookupCache c) of
             (ms, cache') \<Rightarrow> Some (None, ms, c\<lparr>sourceV2 := src, lookupCache := cache'\<rparr>, w')))"

text \<open>\<open>Collect\<close>: the application pools, when they are wanted, and then the version that \<open>Build\<close> chose.\<close>

definition process_Collect ::
  "nat \<Rightarrow> 'w pdh_api \<Rightarrow> 'w reg_query \<Rightarrow> (row list \<Rightarrow> row list) \<Rightarrow> (f64 \<Rightarrow> u64) \<Rightarrow> (f64 \<Rightarrow> int) \<Rightarrow> int \<Rightarrow> (u16 list \<Rightarrow> string) \<Rightarrow> proc_api \<Rightarrow>
   process_config \<Rightarrow> go_error + WorkerProcess list \<Rightarrow> processCollector \<Rightarrow> bufSizes \<Rightarrow> 'w \<Rightarrow>
   (go_error option \<times> metric list option \<times> processCollector \<times> bufSizes \<times> 'w) exec" where
  "process_Collect fuel api reg order toU64 toI64 now utf16 papi cfg pools c sizes w =
     (case (if EnableWorkerProcess cfg then pools else Inr []) of
        Inl e \<Rightarrow> Returns (Some (Wrapf ''WMI query failed: %w'' [] e), Some [], c, sizes, w)
      | Inr wps \<Rightarrow>
          (if collectorVersion c = 1 then
             (case perfV1 c of
                None \<Rightarrow> Panics
              | Some rc \<Rightarrow> process_collectV1 fuel reg order toU64 utf16 papi cfg wps rc c sizes w)
           else
             (case process_collectV2 api order toU64 toI64 now utf16 papi cfg wps c w of
                None \<Rightarrow> Panics
              | Some (e, ms, c', w') \<Rightarrow> Returns (e, ms, c', sizes, w'))))"

definition process_Close :: "'w pdh_api \<Rightarrow> processCollector \<Rightarrow> 'w \<Rightarrow> processCollector \<times> 'w" where
  "process_Close api c w =
     (case perfClose api (sourceV2 c) w of (src, w') \<Rightarrow> (c\<lparr>workersV1 := False, workersV2 := False, sourceV2 := src\<rparr>, w'))"

section \<open>What the workers send\<close>

text \<open>A cache holds what the system says about the accounts; then a row's information does not depend on it.\<close>

definition cache_ok :: "proc_api \<Rightarrow> ownerCache \<Rightarrow> bool" where
  "cache_ok api cache \<longleftrightarrow> (\<forall>sid owner. map_get cache sid = Some owner \<longrightarrow> owner = ownerName api sid)"

lemma getProcessOwner_cache:
  assumes "cache_ok api cache"
  shows "fst (getProcessOwner api h cache) = fst (getProcessOwner api h [])" "cache_ok api (snd (getProcessOwner api h cache))"
proof -
  have hit: "map_get cache sid = Some o' \<Longrightarrow> o' = ownerName api sid" for sid o'
    using assms by (simp add: cache_ok_def)
  then show "fst (getProcessOwner api h cache) = fst (getProcessOwner api h [])"
    by (auto simp: getProcessOwner_def split: sum.splits option.splits)
  show "cache_ok api (snd (getProcessOwner api h cache))"
    using assms by (auto simp: getProcessOwner_def cache_ok_def split: sum.splits option.splits)
qed

lemma getProcessInformation_cache:
  assumes "cache_ok api cache"
  shows "fst (getProcessInformation utf16 api pid cache) = fst (getProcessInformation utf16 api pid [])"
    and "cache_ok api (snd (getProcessInformation utf16 api pid cache))"
proof -
  have "fst (getProcessInformation utf16 api pid cache) = fst (getProcessInformation utf16 api pid []) \<and>
    cache_ok api (snd (getProcessInformation utf16 api pid cache))"
  proof (cases "openProcess api pid")
    case (Inl e)
    then show ?thesis using assms by (simp add: getProcessInformation_def)
  next
    case (Inr hv)
    obtain h v where hv: "hv = (h, v)" by fastforce
    show ?thesis
      using Inr hv assms getProcessOwner_cache [OF assms, of h]
      by (cases "getProcessOwner api h cache"; cases "getProcessOwner api h []"; cases "fst (getProcessOwner api h [])")
         (auto simp: getProcessInformation_def split: option.splits)
  qed
  then show "fst (getProcessInformation utf16 api pid cache) = fst (getProcessInformation utf16 api pid [])"
    "cache_ok api (snd (getProcessInformation utf16 api pid cache))" by simp_all
qed

definition infoOf :: "(f64 \<Rightarrow> u64) \<Rightarrow> (u16 list \<Rightarrow> string) \<Rightarrow> proc_api \<Rightarrow> process_config \<Rightarrow> WorkerProcess list \<Rightarrow> procVersion \<Rightarrow> row \<Rightarrow> procInfo option" where
  "infoOf toU64 utf16 api cfg wps v r =
     fst (processInfo utf16 api cfg wps (beforeColon (rowName (versionFields v) r)) (rowPid toU64 v r)
       (toU64 (num (versionFields v) r ''CreatingProcessID'')) [])"

definition rowLines :: "(f64 \<Rightarrow> u64) \<Rightarrow> (u16 list \<Rightarrow> string) \<Rightarrow> proc_api \<Rightarrow> process_config \<Rightarrow> WorkerProcess list \<Rightarrow> procVersion \<Rightarrow> row \<Rightarrow> line list" where
  "rowLines toU64 utf16 api cfg wps v r = (case infoOf toU64 utf16 api cfg wps v r of None \<Rightarrow> [] | Some i \<Rightarrow> versionLines v i r)"

lemma processInfo_cache:
  assumes "cache_ok api cache"
  shows "fst (processInfo utf16 api cfg wps nm pid par cache) = fst (processInfo utf16 api cfg wps nm pid par [])"
    and "cache_ok api (snd (processInfo utf16 api cfg wps nm pid par cache))"
  using getProcessInformation_cache [OF assms, of utf16 "ucast pid"]
  by (cases "getProcessInformation utf16 api (ucast pid) cache"; cases "getProcessInformation utf16 api (ucast pid) []";
      auto simp: processInfo_def split: option.splits)+

lemma workerRows_lines:
  assumes "cache_ok api cache"
  shows "fst (workerRows toU64 utf16 api cfg wps v rs cache) = concat (map (rowLines toU64 utf16 api cfg wps v) rs) \<and>
    cache_ok api (snd (workerRows toU64 utf16 api cfg wps v rs cache))"
  using assms
proof (induction rs arbitrary: cache)
  case Nil
  then show ?case by simp
next
  case (Cons r rs)
  have "fst (workerRow toU64 utf16 api cfg wps v r cache) = rowLines toU64 utf16 api cfg wps v r \<and>
      cache_ok api (snd (workerRow toU64 utf16 api cfg wps v r cache))"
    using processInfo_cache [OF Cons.prems, of utf16 cfg wps "beforeColon (rowName (versionFields v) r)" "rowPid toU64 v r"
        "toU64 (num (versionFields v) r ''CreatingProcessID'')"]
    by (auto simp: workerRow_def rowLines_def infoOf_def split: prod.splits option.splits)
  then show ?case using Cons.IH [of "snd (workerRow toU64 utf16 api cfg wps v r cache)"] by (simp add: split_def)
qed

lemma process_names: "distinct (map (\<lambda>(n, d). fqName d) process_descs)"
  by code_simp

lemma process_v1_table: "table_ok process_descs (process_v1_lines i r)"
  by (rule table_ok_rests [of _ _ 2]; unfold process_v1_lines_def line_simps rest_simps numeral_2_eq_2) code_simp+

lemma process_v2_table: "table_ok process_descs (process_v2_lines st i r)"
  by (rule table_ok_rests [of _ _ 2]; unfold process_v2_lines_def line_simps rest_simps numeral_2_eq_2) code_simp+

text \<open>Each version is a table of metrics for a process and its row, with the process identifier as the second label.\<close>

interpretation process_v1: keyed_table process_descs "\<lambda>(i, r). process_v1_lines i r" "\<lambda>(i, r). show_nat (unat (pPid i))" "\<lambda>n. 1"
proof
  show "distinct (map (\<lambda>(n, d). fqName d) process_descs)" by (rule process_names)
  show "table_ok process_descs (case x of (i, r) \<Rightarrow> process_v1_lines i r)" for x by (cases x) (simp add: process_v1_table)
  show "list_all (\<lambda>(n, vt, v, ls). 1 < length ls \<and> ls ! 1 = (case x of (i, r) \<Rightarrow> show_nat (unat (pPid i)))) (case x of (i, r) \<Rightarrow> process_v1_lines i r)" for x
    by (cases x) (simp add: process_v1_lines_def)
qed

interpretation process_v2: keyed_table process_descs "\<lambda>(st, i, r). process_v2_lines st i r" "\<lambda>(st, i, r). show_nat (unat (pPid i))" "\<lambda>n. 1"
proof
  show "distinct (map (\<lambda>(n, d). fqName d) process_descs)" by (rule process_names)
  show "table_ok process_descs (case x of (st, i, r) \<Rightarrow> process_v2_lines st i r)" for x by (cases x) (simp add: process_v2_table)
  show "list_all (\<lambda>(n, vt, v, ls). 1 < length ls \<and> ls ! 1 = (case x of (st, i, r) \<Rightarrow> show_nat (unat (pPid i)))) (case x of (st, i, r) \<Rightarrow> process_v2_lines st i r)" for x
    by (cases x) (simp add: process_v2_lines_def)
qed

text \<open>Rows for which there is information, with the information.\<close>

lemma concat_with_info:
  "concat (map (\<lambda>r. case f r of None \<Rightarrow> [] | Some i \<Rightarrow> L (g i r)) rs) = concat (map L (List.map_filter (\<lambda>r. map_option (\<lambda>i. g i r) (f r)) rs))"
  by (induction rs) (auto simp: map_filter_simps split: option.split)

lemma distinct_with_info:
  assumes "\<And>r i. f r = Some i \<Longrightarrow> key (g i r) = k r" and "distinct (map k rs)"
  shows "distinct (map key (List.map_filter (\<lambda>r. map_option (\<lambda>i. g i r) (f r)) rs))"
proof -
  have sub: "key ` set (List.map_filter (\<lambda>r. map_option (\<lambda>i. g i r) (f r)) rs) \<subseteq> k ` set rs" for rs
    using assms(1) by (force simp: map_filter_def)
  show ?thesis using assms(2)
  proof (induction rs)
    case Nil
    then show ?case by (simp add: map_filter_simps)
  next
    case (Cons r rs)
    then show ?case using sub [of rs] assms(1) [of r] by (auto simp: map_filter_simps split: option.split)
  qed
qed

lemma infoOf_pid: "infoOf toU64 utf16 api cfg wps v r = Some i \<Longrightarrow> pPid i = rowPid toU64 v r"
  by (auto simp: infoOf_def processInfo_def split: prod.splits option.splits)

lemma rowLines_accepted:
  assumes "distinct (map (rowPid toU64 v) rs)" and "v = processV1 \<or> v = processV2 toI64 now"
  shows "accepted (sendAll process_descs (concat (map (rowLines toU64 utf16 api cfg wps v) rs)))"
proof -
  let ?f = "infoOf toU64 utf16 api cfg wps v" and ?k = "\<lambda>r. show_nat (unat (rowPid toU64 v r))"
  have k: "distinct (map ?k rs)" using assms(1) by (auto simp: distinct_map inj_on_def word_unat_eq_iff)
  have rl: "rowLines toU64 utf16 api cfg wps v = (\<lambda>r. case ?f r of None \<Rightarrow> [] | Some i \<Rightarrow> versionLines v i r)"
    by (rule ext) (simp add: rowLines_def)
  show ?thesis
  proof (cases "v = processV1")
    case True
    then have "versionLines v i r = (\<lambda>(i, r). process_v1_lines i r) (i, r)" for i r by (simp add: processV1_def)
    note vl = this
    have "concat (map (rowLines toU64 utf16 api cfg wps v) rs) =
        concat (map (\<lambda>(i, r). process_v1_lines i r) (List.map_filter (\<lambda>r. map_option (\<lambda>i. (i, r)) (?f r)) rs))"
      using concat_with_info [of "\<lambda>(i, r). process_v1_lines i r" "\<lambda>i r. (i, r)" ?f rs] unfolding rl vl .
    then show ?thesis
      using process_v1.rows_accepted distinct_with_info [of ?f "\<lambda>(i, r). show_nat (unat (pPid i))" "\<lambda>i r. (i, r)" ?k, OF _ k] infoOf_pid by fastforce
  next
    case False
    then have "versionLines v i r = (\<lambda>(st, i, r). process_v2_lines st i r)
        (f64_of_int (signed_take_bit 63 (now - toI64 (num process_v2_fields r ''ElapsedTime''))), i, r)" for i r
      using assms(2) by (simp add: processV2_def)
    note vl = this
    let ?g = "\<lambda>i r. (f64_of_int (signed_take_bit 63 (now - toI64 (num process_v2_fields r ''ElapsedTime''))), i, r)"
    have "concat (map (rowLines toU64 utf16 api cfg wps v) rs) =
        concat (map (\<lambda>(st, i, r). process_v2_lines st i r) (List.map_filter (\<lambda>r. map_option (\<lambda>i. ?g i r) (?f r)) rs))"
      using concat_with_info [of "\<lambda>(st, i, r). process_v2_lines st i r" ?g ?f rs] unfolding rl vl .
    then show ?thesis
      using process_v2.rows_accepted distinct_with_info [of ?f "\<lambda>(st, i, r). show_nat (unat (pPid i))" ?g ?k, OF _ k] infoOf_pid by fastforce
  qed
qed

definition sampleRow :: row where
  "sampleRow = VString ''notepad:7'' # replicate 27 (VFloat (F_Fin 7))"

definition sampleProcApi :: proc_api where
  "sampleProcApi = \<lparr>openFull = \<lambda>p. Inl (Errno 5), openLimited = \<lambda>p. Inr 1, openToken = \<lambda>h. Inr 1, tokenUser = \<lambda>t. Inr ''S-1-5-18'',
     lookupAccount = \<lambda>s. Inr (''SYSTEM'', ''NT AUTHORITY''), pebAddress = \<lambda>h. Inl (Errno 5), parametersAddress = \<lambda>h a. Inl (Errno 5),
     parametersAt = \<lambda>h a. Inl (Errno 5), memoryAt = \<lambda>h a n. Inl (Errno 5)\<rparr>"

definition sampleProcConfig :: process_config where
  "sampleProcConfig = \<lparr>ProcessExclude = \<lambda>s. False, ProcessInclude = \<lambda>s. True, EnableWorkerProcess = False\<rparr>"

text \<open>
  A process whose command line is empty is not reported at all: the worker panics when it takes the address of the
  empty buffer, before it has sent anything.
\<close>

theorem empty_command_line_drops_process:
  assumes "openFull api (ucast (rowPid toU64 v r)) = Inr h" and "ucast (rowPid toU64 v r) \<noteq> (0 :: u32)"
    and "fst (getProcessOwner api h cache) = Inr owner"
    and "pebAddress api h = Inr peb" and "parametersAddress api h peb = Inr ps" and "parametersAt api h ps = Inr (0, buf, groupID)"
  shows "fst (workerRow toU64 utf16 api cfg wps v r cache) = []"
  using assms by (cases "getProcessOwner api h cache")
    (simp add: workerRow_def processInfo_def getProcessInformation_def openProcess_def getExtendedProcessInformation_def)

end
