(* ===== verification/Process_Workers.thy ===== *)
theory Process_Workers
  imports Process Step_System
begin

text \<open>
  The workers of the process collector (internal/collector/process): \<open>collectV1\<close> and \<open>collectV2\<close> send the wanted rows on a channel with 32 places and wait for their \<open>WaitGroup\<close>; four
  goroutines take the rows, read and write the cache of owners they share, and send the metrics of their row one by one. One step is one operation of one goroutine, and the load and
  the store of the cache are different steps. The answers of the system do not change during a scrape, and the receiver of the metrics takes every metric.
\<close>

definition workerCount :: nat where "workerCount = 4"
definition requestCap :: nat where "requestCap = 32"

text \<open>What does not change during a scrape.\<close>

record workerEnv =
  envToU64 :: "f64 \<Rightarrow> u64"
  envUtf16 :: "u16 list \<Rightarrow> string"
  envApi :: proc_api
  envConfig :: process_config
  envPools :: "WorkerProcess list"
  envVersion :: procVersion

definition envWanted :: "workerEnv \<Rightarrow> row \<Rightarrow> bool" where
  "envWanted E = processWanted (envConfig E) (envVersion E)"

definition envRow :: "workerEnv \<Rightarrow> row \<Rightarrow> ownerCache \<Rightarrow> line list \<times> ownerCache" where
  "envRow E = workerRow (envToU64 E) (envUtf16 E) (envApi E) (envConfig E) (envPools E) (envVersion E)"

definition envLines :: "workerEnv \<Rightarrow> row \<Rightarrow> line list" where
  "envLines E = rowLines (envToU64 E) (envUtf16 E) (envApi E) (envConfig E) (envPools E) (envVersion E)"

text \<open>The security identifier that a worker looks up and does not find: it asks the system for the name then, and stores it.\<close>

definition ownerMiss :: "proc_api \<Rightarrow> u32 \<Rightarrow> ownerCache \<Rightarrow> string option" where
  "ownerMiss api pid cache =
     (if pid = 0 then None
      else case openProcess api pid of
        Inl e \<Rightarrow> None
      | Inr (h, vmReadAccess) \<Rightarrow>
          (case openToken api h of
             Inl e \<Rightarrow> None
           | Inr tok \<Rightarrow>
               (case tokenUser api tok of
                  Inl e \<Rightarrow> None
                | Inr sid \<Rightarrow> if map_get cache sid = None then Some sid else None)))"

text \<open>
  A worker waits for a row, has one, has to store the owner it did not find and then has these metrics to send, or sends. A panic leaves nothing to send; the worker that is
  started again waits for a row as the others do.
\<close>

datatype worker = WIdle | WTaken row | WStoring string "line list" | WSending "line list"

record workers =
  unsent :: "row list"
  requestCh :: "row list"
  workerPos :: "worker list"
  inFlight :: nat
  ownersCache :: ownerCache
  sentLines :: "line list"
  collectReturned :: bool

definition workers_init :: "row list \<Rightarrow> ownerCache \<Rightarrow> workers" where
  "workers_init rs cache = \<lparr>unsent = rs, requestCh = [], workerPos = replicate workerCount WIdle, inFlight = 0, ownersCache = cache,
     sentLines = [], collectReturned = False\<rparr>"

inductive worker_step :: "workerEnv \<Rightarrow> workers \<Rightarrow> workers \<Rightarrow> bool" for E where
  skip: "unsent s = r # rs \<Longrightarrow> \<not> envWanted E r \<Longrightarrow> worker_step E s (s\<lparr>unsent := rs\<rparr>)"
| request: "unsent s = r # rs \<Longrightarrow> envWanted E r \<Longrightarrow> length (requestCh s) < requestCap \<Longrightarrow>
     worker_step E s (s\<lparr>unsent := rs, requestCh := requestCh s @ [r], inFlight := Suc (inFlight s)\<rparr>)"
| wait: "unsent s = [] \<Longrightarrow> inFlight s = 0 \<Longrightarrow> \<not> collectReturned s \<Longrightarrow> worker_step E s (s\<lparr>collectReturned := True\<rparr>)"
| take: "requestCh s = r # rs \<Longrightarrow> workerPos s = ws @ WIdle # ws' \<Longrightarrow>
     worker_step E s (s\<lparr>requestCh := rs, workerPos := ws @ WTaken r # ws'\<rparr>)"
| load: "workerPos s = ws @ WTaken r # ws' \<Longrightarrow> envRow E r (ownersCache s) = (lns, cache) \<Longrightarrow>
     ownerMiss (envApi E) (ucast (rowPid (envToU64 E) (envVersion E) r)) (ownersCache s) = None \<Longrightarrow>
     worker_step E s (s\<lparr>workerPos := ws @ WSending lns # ws'\<rparr>)"
| load_miss: "workerPos s = ws @ WTaken r # ws' \<Longrightarrow> envRow E r (ownersCache s) = (lns, cache) \<Longrightarrow>
     ownerMiss (envApi E) (ucast (rowPid (envToU64 E) (envVersion E) r)) (ownersCache s) = Some sid \<Longrightarrow>
     worker_step E s (s\<lparr>workerPos := ws @ WStoring sid lns # ws'\<rparr>)"
| store: "workerPos s = ws @ WStoring sid lns # ws' \<Longrightarrow>
     worker_step E s (s\<lparr>workerPos := ws @ WSending lns # ws', ownersCache := map_set sid (ownerName (envApi E) sid) (ownersCache s)\<rparr>)"
| send: "workerPos s = ws @ WSending (l # lns) # ws' \<Longrightarrow>
     worker_step E s (s\<lparr>workerPos := ws @ WSending lns # ws', sentLines := sentLines s @ [l]\<rparr>)"
| finished: "workerPos s = ws @ WSending [] # ws' \<Longrightarrow> inFlight s = Suc n \<Longrightarrow>
     worker_step E s (s\<lparr>workerPos := ws @ WIdle # ws', inFlight := n\<rparr>)"

text \<open>Without the other workers, the load and the store are what \<^const>\<open>workerRow\<close> does to the cache.\<close>

lemma getProcessOwner_miss:
  "snd (getProcessOwner api h cache) =
     (case openToken api h of
        Inl e \<Rightarrow> cache
      | Inr tok \<Rightarrow>
          (case tokenUser api tok of
             Inl e \<Rightarrow> cache
           | Inr sid \<Rightarrow> if map_get cache sid = None then map_set sid (ownerName api sid) cache else cache))"
  by (auto simp: getProcessOwner_def split: sum.splits option.splits)

lemma getProcessInformation_owner:
  "openProcess api pid = Inr (h, b) \<Longrightarrow> pid \<noteq> 0 \<Longrightarrow> snd (getProcessInformation utf16 api pid cache) = snd (getProcessOwner api h cache)"
  by (cases "getProcessOwner api h cache"; cases "fst (getProcessOwner api h cache)")
     (auto simp: getProcessInformation_def split: option.splits)

lemma workerRow_cache:
  "snd (workerRow toU64 utf16 api cfg wps v r cache) =
     (case ownerMiss api (ucast (rowPid toU64 v r)) cache of None \<Rightarrow> cache | Some sid \<Rightarrow> map_set sid (ownerName api sid) cache)"
proof -
  let ?pid = "ucast (rowPid toU64 v r) :: u32"
  have "snd (workerRow toU64 utf16 api cfg wps v r cache) = snd (getProcessInformation utf16 api ?pid cache)"
    by (auto simp: workerRow_def processInfo_def split: prod.splits option.splits)
  moreover have "snd (getProcessInformation utf16 api ?pid cache) =
      (case ownerMiss api ?pid cache of None \<Rightarrow> cache | Some sid \<Rightarrow> map_set sid (ownerName api sid) cache)"
  proof (cases "openProcess api ?pid")
    case (Inl e)
    then show ?thesis by (simp add: getProcessInformation_def ownerMiss_def)
  next
    case (Inr hb)
    then obtain h b where hb: "openProcess api ?pid = Inr (h, b)" by (cases hb) auto
    show ?thesis
    proof (cases "?pid = 0")
      case False
      then show ?thesis
        unfolding getProcessInformation_owner [OF hb False] getProcessOwner_miss
        using hb by (auto simp: ownerMiss_def split: sum.splits)
    qed (simp add: getProcessInformation_def ownerMiss_def)
  qed
  ultimately show ?thesis by simp
qed

section \<open>Invariant and termination\<close>

fun workLines :: "workerEnv \<Rightarrow> worker \<Rightarrow> line list" where
  "workLines E WIdle = []" | "workLines E (WTaken r) = envLines E r"
| "workLines E (WStoring sid lns) = lns" | "workLines E (WSending lns) = lns"

text \<open>The metrics that were sent and those that are still to come are together the same.\<close>

definition linesLeft :: "workerEnv \<Rightarrow> workers \<Rightarrow> line multiset" where
  "linesLeft E s = mset (concat (map (workLines E) (workerPos s))) +
     mset (concat (map (envLines E) (requestCh s @ filter (envWanted E) (unsent s))))"

definition workers_inv :: "workerEnv \<Rightarrow> line multiset \<Rightarrow> workers \<Rightarrow> bool" where
  "workers_inv E lns_all s \<longleftrightarrow>
     cache_ok (envApi E) (ownersCache s) \<and> length (workerPos s) = workerCount \<and>
     inFlight s = length (requestCh s) + length (filter (\<lambda>w. w \<noteq> WIdle) (workerPos s)) \<and>
     (collectReturned s \<longrightarrow> unsent s = [] \<and> inFlight s = 0) \<and> mset (sentLines s) + linesLeft E s = lns_all"

fun work_weight :: "workerEnv \<Rightarrow> worker \<Rightarrow> nat" where
  "work_weight E WIdle = 0" | "work_weight E (WTaken r) = 3 + length (envLines E r)"
| "work_weight E (WStoring sid lns) = 2 + length lns" | "work_weight E (WSending lns) = 1 + length lns"

definition workers_weight :: "workerEnv \<Rightarrow> workers \<Rightarrow> nat" where
  "workers_weight E s =
     sum_list (map (\<lambda>r. 5 + length (envLines E r)) (unsent s)) + sum_list (map (\<lambda>r. 4 + length (envLines E r)) (requestCh s)) +
     sum_list (map (work_weight E) (workerPos s)) + (if collectReturned s then 0 else 1)"

text \<open>With a correct cache a worker computes the metrics of its row whatever the cache holds, and what it stores is correct.\<close>

lemma envRow_lines: "cache_ok (envApi E) cache \<Longrightarrow> envRow E r cache = (lns, cache') \<Longrightarrow> lns = envLines E r"
  using workerRows_lines [of "envApi E" cache "envToU64 E" "envUtf16 E" "envConfig E" "envPools E" "envVersion E" "[r]"]
  by (auto simp: envRow_def envLines_def split: prod.splits)

lemma store_ok: "cache_ok api cache \<Longrightarrow> cache_ok api (map_set sid (ownerName api sid) cache)"
  by (simp add: cache_ok_def)

lemma workers_inv_step: "worker_step E s s' \<Longrightarrow> workers_inv E lns_all s \<Longrightarrow> workers_inv E lns_all s'"
proof (induction rule: worker_step.induct)
  case (load s ws r ws' lns cache)
  then show ?case using envRow_lines [of E "ownersCache s" r lns cache] by (auto simp: workers_inv_def linesLeft_def)
next
  case (load_miss s ws r ws' lns cache sid)
  then show ?case using envRow_lines [of E "ownersCache s" r lns cache] by (auto simp: workers_inv_def linesLeft_def)
next
  case (store s ws sid lns ws')
  then show ?case by (auto simp: workers_inv_def linesLeft_def intro: store_ok)
qed (auto simp: workers_inv_def linesLeft_def)

lemma workers_weight_step: "worker_step E s s' \<Longrightarrow> workers_inv E lns_all s \<Longrightarrow> workers_weight E s' < workers_weight E s"
proof (induction rule: worker_step.induct)
  case (load s ws r ws' lns cache)
  then show ?case using envRow_lines [of E "ownersCache s" r lns cache] by (auto simp: workers_inv_def workers_weight_def)
next
  case (load_miss s ws r ws' lns cache sid)
  then show ?case using envRow_lines [of E "ownersCache s" r lns cache] by (auto simp: workers_inv_def workers_weight_def)
qed (auto simp: workers_weight_def)

abbreviation wantedLines :: "workerEnv \<Rightarrow> row list \<Rightarrow> line list" where
  "wantedLines E rs \<equiv> concat (map (envLines E) (filter (envWanted E) rs))"

interpretation pw: terminating_system "worker_step E" "\<lambda>s. \<exists>cache. s = workers_init rs cache \<and> cache_ok (envApi E) cache"
  "workers_inv E (mset (wantedLines E rs))" "workers_weight E"
proof
  show "workers_inv E (mset (wantedLines E rs)) s" if "\<exists>cache. s = workers_init rs cache \<and> cache_ok (envApi E) cache" for s
    using that by (auto simp: workers_inv_def workers_init_def linesLeft_def)
  show "workers_inv E (mset (wantedLines E rs)) s'" if "workers_inv E (mset (wantedLines E rs)) s" and "worker_step E s s'" for s s'
    using that(2,1) by (rule workers_inv_step)
  show "workers_weight E s' < workers_weight E s" if "workers_inv E (mset (wantedLines E rs)) s" and "worker_step E s s'" for s s'
    using that(2,1) by (rule workers_weight_step)
qed

text \<open>A state without a step: every worker waits, the rows are all taken, and \<open>collectV1\<close> or \<open>collectV2\<close> has returned.\<close>

lemma stuck_idle:
  assumes "workers_inv E lns_all s" and "\<nexists>s'. worker_step E s s'" and "w \<in> set (workerPos s)"
  shows "w = WIdle"
proof (rule ccontr)
  assume "w \<noteq> WIdle"
  obtain ws ws' where ws: "workerPos s = ws @ w # ws'" using assms(3) split_list by fast
  then have "inFlight s \<noteq> 0" using \<open>w \<noteq> WIdle\<close> assms(1) by (simp add: workers_inv_def)
  then obtain n where n: "inFlight s = Suc n" by (cases "inFlight s") auto
  show False
  proof (cases w)
    case (WTaken r)
    obtain lns cache where "envRow E r (ownersCache s) = (lns, cache)" by fastforce
    then show False using ws WTaken assms(2) worker_step.load worker_step.load_miss
      by (cases "ownerMiss (envApi E) (ucast (rowPid (envToU64 E) (envVersion E) r)) (ownersCache s)") blast+
  next
    case (WStoring sid lns)
    then show False using ws assms(2) worker_step.store by blast
  next
    case (WSending lns)
    then show False using ws n assms(2) worker_step.send worker_step.finished by (cases lns) blast+
  qed (use \<open>w \<noteq> WIdle\<close> in simp)
qed

lemma stuck_returned:
  assumes "workers_inv E lns_all s" and "\<nexists>s'. worker_step E s s'"
  shows "collectReturned s"
proof -
  have idle: "filter (\<lambda>w. w \<noteq> WIdle) (workerPos s) = []" using stuck_idle [OF assms] by (auto simp: filter_empty_conv)
  have "workerPos s \<noteq> []" using assms(1) by (auto simp: workers_inv_def workerCount_def)
  then obtain ws where "workerPos s = [] @ WIdle # ws" using stuck_idle [OF assms] by (cases "workerPos s") auto
  then have queue: "requestCh s = []" using assms(2) worker_step.take by (cases "requestCh s") blast+
  then have room: "length (requestCh s) < requestCap" by (simp add: requestCap_def)
  have "unsent s = []"
  proof (cases "unsent s")
    case (Cons r rs)
    then show ?thesis using assms(2) room worker_step.skip worker_step.request by (cases "envWanted E r") blast+
  qed
  moreover have "inFlight s = 0" using assms(1) idle queue by (simp add: workers_inv_def)
  ultimately show ?thesis using assms(2) worker_step.wait by blast
qed

lemma returned_sent: "workers_inv E lns_all s \<Longrightarrow> collectReturned s \<Longrightarrow> mset (sentLines s) = lns_all"
  by (force simp: workers_inv_def linesLeft_def filter_empty_conv)

text \<open>What the library accepts does not depend on the order.\<close>

lemma those_map_SomeD: "those (map f xs) = Some ys \<Longrightarrow> ys = map (the \<circ> f) xs \<and> (\<forall>x \<in> set xs. f x \<noteq> None)"
  by (induction xs arbitrary: ys) (auto split: option.splits)

lemma those_permuted: "those (map f xs) = Some ys \<Longrightarrow> mset xs = mset zs \<Longrightarrow> \<exists>us. those (map f zs) = Some us \<and> mset us = mset ys"
proof -
  assume those: "those (map f xs) = Some ys" and perm: "mset xs = mset zs"
  from those_map_SomeD [OF those] have ys: "ys = map (the \<circ> f) xs" and ne: "\<forall>x \<in> set zs. f x \<noteq> None" using mset_eq_setD [OF perm] by simp_all
  from ne have "those (map f zs) = Some (map (the \<circ> f) zs)" by (induction zs) auto
  then show ?thesis using ys perm by (metis mset_map)
qed

lemma accepted_permuted:
  assumes "accepted (sendAll ds xs)" and "mset xs = mset zs"
  shows "accepted (sendAll ds zs)"
proof -
  obtain ms where ms: "sendAll ds xs = Some ms" "list_all arity_ok ms" "distinct (map series ms)"
    using assms(1) by (auto simp: accepted_def split: option.splits)
  then obtain us where us: "sendAll ds zs = Some us" "mset us = mset ms"
    using those_permuted [OF _ assms(2)] unfolding sendAll_def by blast
  then have "distinct (map series us)" using ms(3) by (metis mset_eq_imp_distinct_iff mset_map)
  then show ?thesis using us ms(2) mset_eq_setD [OF us(2)] by (simp add: accepted_def list_all_iff)
qed

section \<open>Properties\<close>

text \<open>
  C30: However the four workers interleave, a scrape of the process collector comes to its end, and once \<open>collectV1\<close> or \<open>collectV2\<close> returns every wanted row has been reported completely: what
  was sent is, up to the order, what each wanted row gives alone with an empty cache, the library accepts it, and the shared cache is still correct, although two workers may look up the same
  owner at the same time. The rows have different process identifiers, the cache was correct at the start, and the answers of the system do not change during the scrape.
\<close>

theorem process_workers_agree:
  assumes "distinct (map (rowPid (envToU64 E) (envVersion E)) rs)" and "envVersion E = processV1 \<or> envVersion E = processV2 toI64 now"
    and "cache_ok (envApi E) cache"
  shows "\<not> (\<exists>f. f 0 = workers_init rs cache \<and> (\<forall>i. worker_step E (f i) (f (Suc i)))) \<and>
    (\<forall>s. (worker_step E)\<^sup>*\<^sup>* (workers_init rs cache) s \<longrightarrow>
       ((\<exists>s'. worker_step E s s') \<or> collectReturned s) \<and>
       (collectReturned s \<longrightarrow>
          mset (sentLines s) = mset (wantedLines E rs) \<and> accepted (sendAll process_descs (sentLines s)) \<and> cache_ok (envApi E) (ownersCache s)))"
proof (intro conjI allI impI notI)
  have init: "\<exists>c. workers_init rs cache = workers_init rs c \<and> cache_ok (envApi E) c" using assms(3) by blast
  show False if "\<exists>f. f 0 = workers_init rs cache \<and> (\<forall>i. worker_step E (f i) (f (Suc i)))"
    using that pw.no_infinite_run pw.inv_init [OF init] by metis
  fix s
  assume "(worker_step E)\<^sup>*\<^sup>* (workers_init rs cache) s"
  then have inv: "workers_inv E (mset (wantedLines E rs)) s" using pw.inv_reachable [OF init] by blast
  show "(\<exists>s'. worker_step E s s') \<or> collectReturned s" using stuck_returned [OF inv] by blast
  assume "collectReturned s"
  then show sent: "mset (sentLines s) = mset (wantedLines E rs)" by (rule returned_sent [OF inv])
  have "distinct (map (rowPid (envToU64 E) (envVersion E)) (filter (envWanted E) rs))" using assms(1) by (rule distinct_filter_names)
  then have "accepted (sendAll process_descs (wantedLines E rs))" using assms(2) unfolding envLines_def by (rule rowLines_accepted)
  then show "accepted (sendAll process_descs (sentLines s))" by (rule accepted_permuted) (rule sent [symmetric])
  show "cache_ok (envApi E) (ownersCache s)" using inv by (simp add: workers_inv_def)
qed

definition sampleEnv :: workerEnv where
  "sampleEnv = \<lparr>envToU64 = (\<lambda>x. 7), envUtf16 = asciiOf, envApi = sampleProcApi, envConfig = sampleProcConfig, envPools = [], envVersion = processV1\<rparr>"

theorem process_workers_agree_witness:
  "\<exists>s. (worker_step sampleEnv)\<^sup>*\<^sup>* (workers_init [sampleRow] []) s \<and> collectReturned s \<and>
     mset (sentLines s) = mset (wantedLines sampleEnv [sampleRow]) \<and> wantedLines sampleEnv [sampleRow] \<noteq> []"
proof -
  have env: "distinct (map (rowPid (envToU64 sampleEnv) (envVersion sampleEnv)) [sampleRow])"
    "envVersion sampleEnv = processV1 \<or> envVersion sampleEnv = processV2 (\<lambda>x. 0) 0" "cache_ok (envApi sampleEnv) []"
    by (simp_all add: sampleEnv_def cache_ok_def)
  have "workers_inv sampleEnv (mset (wantedLines sampleEnv [sampleRow])) (workers_init [sampleRow] [])"
    using pw.inv_init env(3) by blast
  then obtain s where s: "(worker_step sampleEnv)\<^sup>*\<^sup>* (workers_init [sampleRow] []) s" "\<not> (\<exists>s'. worker_step sampleEnv s s')"
    using pw.reaches_end by blast
  have "wantedLines sampleEnv [sampleRow] \<noteq> []"
    by (simp add: envWanted_def processWanted_def envLines_def rowLines_def infoOf_def processInfo_def getProcessInformation_def openProcess_def getProcessOwner_def
        sampleEnv_def sampleProcConfig_def sampleProcApi_def included_def processV1_def process_v1_lines_def rowPid_def)
  then show ?thesis using s process_workers_agree [OF env] by blast
qed

end
