(* ===== verification/Perf_Table.thy ===== *)
theory Perf_Table
  imports Pdh_Names
begin

text \<open>
  The two shapes that most collectors of performance counters have, each with the contract that it gives: the metrics of
  the first row, and the metrics of every row with the row's name as a label.
\<close>

section \<open>Versions of Windows\<close>

text \<open>\<open>osversion.Build()\<close> and the build numbers that the package \<open>osversion\<close> names.\<close>

record osversion =
  winBuild :: u16
  LTSC2019 :: u16
  LTSC2022 :: u16

section \<open>Conversions\<close>

text \<open>
  \<open>uint32(v)\<close> and \<open>uint64(v)\<close> of a \<open>float64\<close> drop the fraction. For a value that the type cannot represent the language leaves the
  result to the implementation: \<open>other\<close> is that result.
\<close>

definition toUint :: "(f64 \<Rightarrow> 'a::len word) \<Rightarrow> f64 \<Rightarrow> 'a word" where
  "toUint other v =
     (case v of
        F_Fin q \<Rightarrow>
          (let t = (if q < 0 then \<lceil>q\<rceil> else \<lfloor>q\<rfloor>) in
           if 0 \<le> t \<and> t < 2 ^ LENGTH('a) then word_of_int t else other v)
      | _ \<Rightarrow> other v)"

section \<open>The first row\<close>

text \<open>\<open>rows[0]\<close> without a test of the length: \<^term>\<open>None\<close> is the panic of an empty slice.\<close>

definition collectIndex ::
  "'w pdh_api \<Rightarrow> structField list \<Rightarrow> string \<Rightarrow> descTable \<Rightarrow> (row \<Rightarrow> line list) \<Rightarrow> perfSource \<Rightarrow> 'w \<Rightarrow> (perfSource, 'w) collected" where
  "collectIndex api fs msg ds lines src w =
     (case perfCollect api fs src w of
        None \<Rightarrow> None
      | Some (Some e, src', w') \<Rightarrow> Some (Some (Wrapf msg [] e), [], src', w')
      | Some (None, src', w') \<Rightarrow>
          (case perfDataObject src' of
             [] \<Rightarrow> None
           | r # _ \<Rightarrow> (case sendAll ds (lines r) of None \<Rightarrow> None | Some ms \<Rightarrow> Some (None, ms, src', w'))))"

text \<open>The rows are never empty, so that the test makes no difference.\<close>

lemma collectIndex_firstRow: "collectIndex api fs msg ds lines = collectWith api fs msg ds (firstRow emsg lines)"
  by (intro ext) (auto simp: collectIndex_def collectWith_def firstRow_def dest: perfCollect_nonempty split: option.splits list.splits)

locale first_row_collector = perf_table ds lines
  for ds :: descTable and lines :: "row \<Rightarrow> line list"
begin

lemma first_row_contract:
  "perf_contract (perfBuild api osBuild bmsg obj insts fs) (collectWith api fs msg ds (firstRow emsg lines)) (source_ok fs)
     (\<lambda>src w. perfCollect api fs src w = None)"
  by unfold_locales (auto simp: firstRow_def row_accepted
      intro: perfBuild_ok collectWith_source intro!: collectWith_ok [where rows_ok = "\<lambda>rs. True"] split: list.splits)

lemma index_contract:
  "perf_contract (perfBuild api osBuild bmsg obj insts fs) (collectIndex api fs msg ds lines) (source_ok fs)
     (\<lambda>src w. perfCollect api fs src w = None)"
  using first_row_contract unfolding collectIndex_firstRow [where emsg = "[]"] .

end

section \<open>Every row\<close>

locale each_row_collector = keyed_table ds lines "rowName fs" pos
  for ds :: descTable and lines :: "row \<Rightarrow> line list" and fs :: "structField list" and pos :: "string \<Rightarrow> nat" +
  assumes named: "fieldIndex ''Name'' KString 0 fs = Some 0"
begin

lemma each_row_contract:
  "perf_contract (perfBuild api osBuild bmsg obj insts fs) (collectWith api fs msg ds (eachRow keep lines)) (source_ok fs)
     (\<lambda>src w. perfCollect api fs src w = None)"
proof
  show "source_ok fs c" if "perfBuild api osBuild bmsg obj insts fs w = Some (None, c, w')" for w c w'
    using that by (rule perfBuild_ok)
  show "source_ok fs c'" if "source_ok fs c" "collectWith api fs msg ds (eachRow keep lines) c w = Some (err, ms, c', w')" for c w err ms c' w'
    using that by (rule collectWith_source)
  show "scrape_ok (perfCollect api fs c w = None) (collectWith api fs msg ds (eachRow keep lines) c w)" if "source_ok fs c" for c w
  proof (rule collectWith_ok [OF that, where k = 0 and rows_ok = "\<lambda>rs. distinct (map (rowName fs) rs)"])
    show "fieldIndex ''Name'' KString 0 fs = Some 0 \<or> (\<forall>rs. distinct (map (rowName fs) rs))" using named by simp
    show "accepted (sendAll ds lns)" if "distinct (map (rowName fs) rs)" "eachRow keep lines rs = Inr lns" for rs lns
      using that rows_accepted [OF distinct_filter_names] by (auto simp: eachRow_def)
  qed
qed

lemmas always_accepted = perf_contract.reachable_ok [OF each_row_contract]

end

section \<open>Rows that may be refused\<close>

text \<open>The metrics of the rows up to the first row that is an error; they have been sent when the error is returned.\<close>

fun untilError :: "(row \<Rightarrow> go_error + line list) \<Rightarrow> row list \<Rightarrow> go_error option \<times> line list" where
  "untilError f [] = (None, [])"
| "untilError f (r # rs) =
     (case f r of Inl e \<Rightarrow> (Some e, []) | Inr ls \<Rightarrow> (case untilError f rs of (err, lns) \<Rightarrow> (err, ls @ lns)))"

definition collectLoop ::
  "'w pdh_api \<Rightarrow> structField list \<Rightarrow> string \<Rightarrow> descTable \<Rightarrow> (row \<Rightarrow> go_error + line list) \<Rightarrow> perfSource \<Rightarrow> 'w \<Rightarrow> (perfSource, 'w) collected" where
  "collectLoop api fs msg ds f src w =
     (case perfCollect api fs src w of
        None \<Rightarrow> None
      | Some (Some e, src', w') \<Rightarrow> Some (Some (Wrapf msg [] e), [], src', w')
      | Some (None, src', w') \<Rightarrow>
          (case untilError f (perfDataObject src') of
             (err, lns) \<Rightarrow> (case sendAll ds lns of None \<Rightarrow> None | Some ms \<Rightarrow> Some (err, ms, src', w'))))"

definition acceptedRow :: "(row \<Rightarrow> go_error + line list) \<Rightarrow> row \<Rightarrow> bool" where
  "acceptedRow f r = (case f r of Inl e \<Rightarrow> False | Inr ls \<Rightarrow> True)"

lemma untilError_lines: "snd (untilError f rs) = concat (map (\<lambda>r. case f r of Inl e \<Rightarrow> [] | Inr ls \<Rightarrow> ls) (takeWhile (acceptedRow f) rs))"
  by (induction rs) (auto simp: acceptedRow_def split: sum.splits prod.splits)

lemma untilError_none: "fst (untilError f rs) = None \<longleftrightarrow> list_all (acceptedRow f) rs"
  by (induction rs) (auto simp: acceptedRow_def split: sum.splits prod.splits)

text \<open>When no two rows have the same key, what was sent before the error is accepted.\<close>

locale loop_collector = perf_table ds "\<lambda>r. case f r of Inl e \<Rightarrow> [] | Inr ls \<Rightarrow> ls"
  for ds :: descTable and f :: "row \<Rightarrow> go_error + line list" +
  fixes key :: "row \<Rightarrow> 'k"
    and keyOf :: "string \<Rightarrow> string list \<Rightarrow> 'k"
  assumes loop_labelled: "f r = Inr lns \<Longrightarrow> list_all (\<lambda>(n, vt, v, ls). keyOf n ls = key r) lns"

sublocale loop_collector \<subseteq> labelled_table ds "\<lambda>r. case f r of Inl e \<Rightarrow> [] | Inr ls \<Rightarrow> ls" key keyOf
  by unfold_locales (auto intro: loop_labelled split: sum.splits)

context loop_collector begin

lemma loop_accepted: "distinct (map key rs) \<Longrightarrow> accepted (sendAll ds (snd (untilError f rs)))"
  unfolding untilError_lines by (rule rows_accepted) (metis distinct_append map_append takeWhile_dropWhile_id)

end

end
