(* ===== verification/Perf_Subs.thy ===== *)
theory Perf_Subs
  imports Perf_Table "HOL-Library.Multiset"
begin

text \<open>
  Collectors that are put together from sub collectors: a table of sub collectors by name, each with the performance
  data of its own, that \<open>Build\<close> sets up and \<open>Collect\<close> runs one after the other, or each in a goroutine. The contract
  says that what a scrape sends is accepted when the sub collectors keep the contract each for itself, send metrics
  of different names, and none of them runs twice.
\<close>

section \<open>The table\<close>

record 'w subCollector =
  subFields :: "structField list"
  subDescs :: descTable
  subBuild :: "'w \<Rightarrow> (go_error option \<times> perfSource \<times> 'w) option"
  subCollect :: "perfSource \<Rightarrow> 'w \<Rightarrow> (perfSource, 'w) collected"
  minBuildNumber :: u16

type_synonym 'w subTable = "(string \<times> 'w subCollector) list"

text \<open>
  The collector: the functions that \<open>Collect\<close> runs, by the name of the sub collector, the receivers of the \<open>Close\<close> method
  values, and the performance data of each sub collector.
\<close>

record subState =
  collectorFns :: "string list"
  closeFns :: "pdhCollector option list"
  sources :: "string \<Rightarrow> perfSource"

definition noSource :: perfSource where
  "noSource = \<lparr>perfDataCollector = None, perfDataObject = []\<rparr>"

definition noSubs :: subState where
  "noSubs = \<lparr>collectorFns = [], closeFns = [], sources = (\<lambda>n. noSource)\<rparr>"

section \<open>Build\<close>

text \<open>
  The loop over the enabled names. A name that the table does not have ends it, a sub collector that needs a later build
  of Windows is left out, and so is one that fails to build. The method values \<open>close\<close> were taken when the table was
  made: they are bound to the collectors \<open>recv\<close> that the struct held at that moment.
\<close>

fun buildSubs ::
  "'w subTable \<Rightarrow> u16 \<Rightarrow> (string \<Rightarrow> pdhCollector option) \<Rightarrow> string list \<Rightarrow> subState \<Rightarrow> 'w \<Rightarrow> ((go_error + go_error list) \<times> subState \<times> 'w) option" where
  "buildSubs tab osBuild recv [] st w = Some (Inr [], st, w)"
| "buildSubs tab osBuild recv (n # ns) st w =
     (case map_of tab n of
        None \<Rightarrow> Some (Inl (ErrorText ''unknown collector: %s'' [n]), st, w)
      | Some s \<Rightarrow>
          (if osBuild < minBuildNumber s then buildSubs tab osBuild recv ns st w
           else case subBuild s w of
                  None \<Rightarrow> None
                | Some (Some e, src, w1) \<Rightarrow>
                    map_option (\<lambda>(r, st2, w2). (map_sum id (\<lambda>es. Wrapf ''failed to build %s collector: %w'' [n] e # es) r, st2, w2))
                      (buildSubs tab osBuild recv ns (st\<lparr>sources := (sources st)(n := src)\<rparr>) w1)
                | Some (None, src, w1) \<Rightarrow>
                    buildSubs tab osBuild recv ns
                      (st\<lparr>sources := (sources st)(n := src), collectorFns := collectorFns st @ [n], closeFns := closeFns st @ [recv n]\<rparr>) w1))"

definition buildResult :: "((go_error + go_error list) \<times> 's \<times> 'w) option \<Rightarrow> (go_error option \<times> 's \<times> 'w) option" where
  "buildResult r = map_option (\<lambda>(e, st, w). (case e of Inl x \<Rightarrow> Some x | Inr es \<Rightarrow> errors_Join es, st, w)) r"

text \<open>The build that joins the errors of a fixed list of parts, each with a message of its own.\<close>

fun buildParts :: "'w subTable \<Rightarrow> string list \<Rightarrow> (string \<Rightarrow> perfSource) \<Rightarrow> 'w \<Rightarrow> (go_error list \<times> (string \<Rightarrow> perfSource) \<times> 'w) option" where
  "buildParts tab [] ss w = Some ([], ss, w)"
| "buildParts tab (n # ns) ss w =
     (case map_of tab n of
        None \<Rightarrow> None
      | Some s \<Rightarrow>
          (case subBuild s w of
             None \<Rightarrow> None
           | Some (err, src, w1) \<Rightarrow>
               map_option (\<lambda>(es, ss2, w2). (non_nil [err] @ es, ss2, w2)) (buildParts tab ns (ss(n := src)) w1)))"

definition partsResult :: "(go_error list \<times> 's \<times> 'w) option \<Rightarrow> (go_error option \<times> 's \<times> 'w) option" where
  "partsResult r = map_option (\<lambda>(es, ss, w). (errors_Join es, ss, w)) r"

text \<open>The build that ends at the first error.\<close>

fun buildUntil :: "'w subTable \<Rightarrow> string list \<Rightarrow> (string \<Rightarrow> perfSource) \<Rightarrow> 'w \<Rightarrow> (go_error option \<times> (string \<Rightarrow> perfSource) \<times> 'w) option" where
  "buildUntil tab [] ss w = Some (None, ss, w)"
| "buildUntil tab (n # ns) ss w =
     (case map_of tab n of
        None \<Rightarrow> None
      | Some s \<Rightarrow>
          (case subBuild s w of
             None \<Rightarrow> None
           | Some (Some e, src, w1) \<Rightarrow> Some (Some e, ss(n := src), w1)
           | Some (None, src, w1) \<Rightarrow> buildUntil tab ns (ss(n := src)) w1))"

section \<open>Collect\<close>

text \<open>The sub collectors in the order in which they run.\<close>

fun runSubs ::
  "'w subTable \<Rightarrow> string list \<Rightarrow> (string \<Rightarrow> perfSource) \<Rightarrow> 'w \<Rightarrow> (go_error list \<times> metric list \<times> (string \<Rightarrow> perfSource) \<times> 'w) option" where
  "runSubs tab [] ss w = Some ([], [], ss, w)"
| "runSubs tab (n # ns) ss w =
     (case map_of tab n of
        None \<Rightarrow> None
      | Some s \<Rightarrow>
          (case subCollect s (ss n) w of
             None \<Rightarrow> None
           | Some (err, ms, src, w1) \<Rightarrow>
               map_option (\<lambda>(es, ms2, ss2, w2). (non_nil [err] @ es, ms @ ms2, ss2, w2)) (runSubs tab ns (ss(n := src)) w1)))"

text \<open>
  \<open>Collect\<close> starts a goroutine for each function and waits for all of them; \<open>sched\<close> orders them. The error channel has room
  for all errors, which are read after the last goroutine has ended. A goroutine's calls of the PDH library are taken as one
  step: the sub collectors have queries of their own.
\<close>

definition collectSubs ::
  "'w subTable \<Rightarrow> (string list \<Rightarrow> string list) \<Rightarrow> subState \<Rightarrow> 'w \<Rightarrow> (subState, 'w) collected" where
  "collectSubs tab sched st w =
     map_option (\<lambda>(es, ms, ss, w'). (errors_Join es, ms, st\<lparr>sources := ss\<rparr>, w')) (runSubs tab (sched (collectorFns st)) (sources st) w)"

text \<open>A fixed list of parts, one after the other.\<close>

definition collectParts ::
  "'w subTable \<Rightarrow> string list \<Rightarrow> (string \<Rightarrow> perfSource) \<Rightarrow> 'w \<Rightarrow> (string \<Rightarrow> perfSource, 'w) collected" where
  "collectParts tab ns ss w = map_option (\<lambda>(es, ms, ss, w'). (errors_Join es, ms, ss, w')) (runSubs tab ns ss w)"

definition wrapErr :: "string \<Rightarrow> ('s, 'w) collected \<Rightarrow> ('s, 'w) collected" where
  "wrapErr msg r = map_option (\<lambda>(err, ms, s, w). (map_option (Wrapf msg []) err, ms, s, w)) r"

section \<open>Close\<close>

definition closeSubs :: "'w pdh_api \<Rightarrow> subState \<Rightarrow> 'w \<Rightarrow> 'w" where
  "closeSubs api st w = fold (\<lambda>p w. snd (Close api p w)) (closeFns st) w"

section \<open>The contract of a sub collector\<close>

definition descNames :: "descTable \<Rightarrow> fqname list" where
  "descNames ds = map (\<lambda>(n, d). fqName d) ds"

definition sends_only :: "descTable \<Rightarrow> ('s \<Rightarrow> 'w \<Rightarrow> ('s, 'w) collected) \<Rightarrow> bool" where
  "sends_only ds collect \<longleftrightarrow>
     (\<forall>s w. case collect s w of None \<Rightarrow> True | Some (err, ms, s', w') \<Rightarrow> fqName ` metric_desc ` set ms \<subseteq> set (descNames ds))"

definition sub_sound :: "'w pdh_api \<Rightarrow> 'w subCollector \<Rightarrow> bool" where
  "sub_sound api s \<longleftrightarrow>
     perf_contract (subBuild s) (subCollect s) (source_ok (subFields s)) (\<lambda>src w. perfCollect api (subFields s) src w = None) \<and>
     sends_only (subDescs s) (subCollect s)"

lemma sendAll_descs: "sendAll ds lns = Some ms \<Longrightarrow> metric_desc ` set ms \<subseteq> snd ` set ds"
proof (induction lns arbitrary: ms)
  case Nil
  then show ?case by (simp add: sendAll_def)
next
  case (Cons l lns)
  obtain m ms' where m: "MustNewConstMetric ds l = Some m" "sendAll ds lns = Some ms'" "ms = m # ms'"
    using Cons.prems by (auto simp: sendAll_def split: option.splits)
  have "metric_desc m \<in> snd ` set ds"
    using m(1) by (auto simp: MustNewConstMetric_def dest!: map_of_SomeD split: prod.splits option.splits if_splits) force
  then show ?case using Cons.IH [OF m(2)] m(3) by simp
qed

lemma sends_only_collectWith: "sends_only ds (collectWith api fs msg ds lines)"
proof -
  have "fqName ` metric_desc ` set ms \<subseteq> set (descNames ds)" if "sendAll ds lns = Some ms" for lns ms
    using image_mono [OF sendAll_descs [OF that], of fqName] by (simp add: descNames_def image_image split_def)
  then show ?thesis by (auto simp: sends_only_def collectWith_def split: option.splits sum.splits)
qed

lemma sends_only_collectIndex: "sends_only ds (collectIndex api fs msg ds lines)"
  unfolding collectIndex_firstRow [where emsg = "[]"] by (rule sends_only_collectWith)

text \<open>An error that is wrapped once more does not matter.\<close>

lemma sends_only_wrapErr: "sends_only ds collect \<Longrightarrow> sends_only ds (\<lambda>s w. wrapErr msg (collect s w))"
  by (fastforce simp: sends_only_def wrapErr_def split: option.splits)

lemma scrape_ok_wrapErr [simp]: "scrape_ok p (wrapErr msg r) = scrape_ok p r"
  by (simp add: scrape_ok_def wrapErr_def split: option.splits prod.splits)

lemma perf_contract_wrapErr: "perf_contract build collect I p \<Longrightarrow> perf_contract build (\<lambda>s w. wrapErr msg (collect s w)) I p"
  unfolding perf_contract_def scrape_ok_wrapErr by (fastforce simp: wrapErr_def)

text \<open>The two shapes of tables are sub collectors that keep the contract.\<close>

context first_row_collector begin

lemma index_sound:
  "sub_sound api \<lparr>subFields = fs, subDescs = ds, subBuild = perfBuild api osb bmsg obj insts fs,
     subCollect = collectIndex api fs msg ds lines, minBuildNumber = b\<rparr>"
  by (simp add: sub_sound_def index_contract sends_only_collectIndex)

lemma first_row_sound:
  "sub_sound api \<lparr>subFields = fs, subDescs = ds, subBuild = perfBuild api osb bmsg obj insts fs,
     subCollect = collectWith api fs msg ds (firstRow emsg lines), minBuildNumber = b\<rparr>"
  by (simp add: sub_sound_def first_row_contract sends_only_collectWith)

end

context each_row_collector begin

lemma each_row_sound:
  "sub_sound api \<lparr>subFields = fs, subDescs = ds, subBuild = perfBuild api osb bmsg obj insts fs,
     subCollect = collectWith api fs msg ds (eachRow keep lines), minBuildNumber = b\<rparr>"
  by (simp add: sub_sound_def each_row_contract sends_only_collectWith)

end

lemma sub_sound_wrapErr:
  "sub_sound api \<lparr>subFields = fs, subDescs = ds, subBuild = build, subCollect = collect, minBuildNumber = b\<rparr> \<Longrightarrow>
   sub_sound api \<lparr>subFields = fs, subDescs = ds, subBuild = build, subCollect = (\<lambda>s w. wrapErr msg (collect s w)), minBuildNumber = b\<rparr>"
  by (simp add: sub_sound_def perf_contract_wrapErr sends_only_wrapErr)

section \<open>Names of many descriptors\<close>

text \<open>A number for each name. Many names are compared by their numbers: two numbers differ as soon as one bit does.\<close>

definition codeBit :: "bool \<Rightarrow> num \<Rightarrow> num" where
  "codeBit b n = (if b then num.Bit1 n else num.Bit0 n)"

fun strCode :: "string \<Rightarrow> num" where
  "strCode [] = num.One"
| "strCode (Char b0 b1 b2 b3 b4 b5 b6 b7 # cs) =
     codeBit b0 (codeBit b1 (codeBit b2 (codeBit b3 (codeBit b4 (codeBit b5 (codeBit b6 (codeBit b7 (strCode cs))))))))"

fun nameCode :: "fqname \<Rightarrow> num" where
  "nameCode (BuildFQName ns sub n) = strCode n"
| "nameCode (FullName n) = strCode n"

lemma distinct_nameCodes: "distinct (map nameCode xs) \<Longrightarrow> distinct xs"
  by (simp add: distinct_map)

lemmas name_code_simps =
  list.map append.simps concat.simps append_Nil2 prod.case NewDesc_sel nameCode.simps strCode.simps codeBit_def if_True if_False
  distinct.simps list.set insert_iff empty_iff num.inject num.distinct simp_thms

text \<open>The lines of a large table are compared by the numbers of their names and labels.\<close>

definition lineCode :: "line \<Rightarrow> num list" where
  "lineCode li = (case li of (n, vt, v, ls) \<Rightarrow> strCode n # map strCode ls)"

definition arityCode :: "line \<Rightarrow> num \<times> nat" where
  "arityCode li = (case li of (n, vt, v, ls) \<Rightarrow> (strCode n, length ls))"

definition descCodes :: "descTable \<Rightarrow> (num \<times> nat) list" where
  "descCodes ds = map (\<lambda>(m, d). (strCode m, length (variableLabels d))) ds"

lemma strCode_inject: "strCode a = strCode b \<longleftrightarrow> a = b"
proof
  show "strCode a = strCode b \<Longrightarrow> a = b"
  proof (induction a arbitrary: b rule: strCode.induct)
    case 1
    then show ?case by (cases b rule: strCode.cases) (auto simp: codeBit_def split: if_splits)
  next
    case (2 b0 b1 b2 b3 b4 b5 b6 b7 cs)
    then show ?case by (cases b rule: strCode.cases) (auto simp: codeBit_def split: if_splits)
  qed
qed simp

lemma table_ok_codes:
  assumes "list_all (\<lambda>(c, k). map_of (descCodes ds) c = Some k) (map arityCode lns)" and "distinct (map lineCode lns)"
  shows "table_ok ds lns"
proof -
  have m: "map_of (descCodes ds) (strCode n) = map_option (\<lambda>d. length (variableLabels d)) (map_of ds n)" for n
    by (induction ds) (auto simp: descCodes_def strCode_inject)
  have "map lineCode lns = map (\<lambda>(n, ls). strCode n # map strCode ls) (map (\<lambda>(n, vt, v, ls). (n, ls)) lns)" by (auto simp: lineCode_def)
  then have "distinct (map (\<lambda>(n, vt, v, ls). (n, ls)) lns)" using assms(2) distinct_map by metis
  then show ?thesis
    using assms(1) by (fastforce simp: table_ok_def list_all_iff arityCode_def m split: option.splits)
qed

lemma line_code_simps: "lineCode (n, vt, v, ls) = strCode n # map strCode ls" "arityCode (n, vt, v, ls) = (strCode n, length ls)"
  by (simp_all add: lineCode_def arityCode_def)

lemmas table_code_simps = line_code_simps name_code_simps list.inject list.distinct descCodes_def list.pred_inject
  map_of_Cons_code length_Cons list.size(3) nat.inject nat.distinct option.inject prod.case

section \<open>The contract of the whole\<close>

definition subs_inv :: "'w subTable \<Rightarrow> (string \<Rightarrow> perfSource) \<Rightarrow> bool" where
  "subs_inv tab ss \<longleftrightarrow> (\<forall>n s. map_of tab n = Some s \<longrightarrow> source_ok (subFields s) (ss n))"

text \<open>The worker of the PDH client panics for one of the sub collectors that run.\<close>

fun subsPanic :: "'w pdh_api \<Rightarrow> 'w subTable \<Rightarrow> string list \<Rightarrow> (string \<Rightarrow> perfSource) \<Rightarrow> 'w \<Rightarrow> bool" where
  "subsPanic api tab [] ss w = False"
| "subsPanic api tab (n # ns) ss w =
     (case map_of tab n of
        None \<Rightarrow> False
      | Some s \<Rightarrow>
          perfCollect api (subFields s) (ss n) w = None \<or>
          (case subCollect s (ss n) w of None \<Rightarrow> False | Some (err, ms, src, w1) \<Rightarrow> subsPanic api tab ns (ss(n := src)) w1))"

lemma map_sum_Cons [simp]: "map_sum id ((#) x) r \<noteq> Inr []"
  by (cases r) simp_all

lemma subs_inv_upd: "subs_inv tab ss \<Longrightarrow> (\<And>s. map_of tab n = Some s \<Longrightarrow> source_ok (subFields s) src) \<Longrightarrow> subs_inv tab (ss(n := src))"
  by (simp add: subs_inv_def)

lemma subs_inv_none [simp]: "subs_inv tab (\<lambda>n. noSource)"
  by (simp add: subs_inv_def source_ok_def noSource_def)

lemma distinct_concat_disjoint:
  "distinct (concat (map f xs)) \<Longrightarrow> x \<in> set xs \<Longrightarrow> y \<in> set xs \<Longrightarrow> x \<noteq> y \<Longrightarrow> set (f x) \<inter> set (f y) = {}"
  by (induction xs) auto

definition namesOf :: "'w subTable \<Rightarrow> string \<Rightarrow> fqname set" where
  "namesOf tab n = (case map_of tab n of None \<Rightarrow> {} | Some s \<Rightarrow> set (descNames (subDescs s)))"

definition subState_ok :: "string set \<Rightarrow> 'w subTable \<Rightarrow> subState \<Rightarrow> bool" where
  "subState_ok good tab st \<longleftrightarrow> subs_inv tab (sources st) \<and> distinct (collectorFns st) \<and> set (collectorFns st) \<subseteq> dom (map_of tab) \<inter> good"

locale sub_table =
  fixes api :: "'w pdh_api"
    and tab :: "'w subTable"
    and good :: "string set"
  assumes sound: "list_all (\<lambda>(n, s). n \<in> good \<longrightarrow> sub_sound api s) tab"
    and names: "distinct (concat (map (\<lambda>(n, s). descNames (subDescs s)) tab))"
begin

lemma namesOf_disjoint: "n \<noteq> m \<Longrightarrow> namesOf tab n \<inter> namesOf tab m = {}"
  using distinct_concat_disjoint [OF names] by (fastforce simp: namesOf_def dest: map_of_SomeD split: option.splits)

lemma sub_of: "map_of tab n = Some s \<Longrightarrow> n \<in> good \<Longrightarrow> sub_sound api s"
  using sound by (auto simp: list_all_iff dest: map_of_SomeD)

lemma sub_contract:
  "map_of tab n = Some s \<Longrightarrow> n \<in> good \<Longrightarrow>
   perf_contract (subBuild s) (subCollect s) (source_ok (subFields s)) (\<lambda>src w. perfCollect api (subFields s) src w = None)"
  using sub_of by (simp add: sub_sound_def)

lemma sub_run:
  assumes "map_of tab n = Some s" "n \<in> good" "source_ok (subFields s) src" "subCollect s src w = Some (err, ms, src', w')"
  shows "source_ok (subFields s) src' \<and> list_all arity_ok ms \<and> distinct (map series ms) \<and> fqName ` metric_desc ` set ms \<subseteq> namesOf tab n"
proof -
  note c = sub_contract [OF assms(1,2)]
  have only: "sends_only (subDescs s) (subCollect s)" using sub_of [OF assms(1,2)] by (simp add: sub_sound_def)
  have "scrape_ok (perfCollect api (subFields s) src w = None) (subCollect s src w)"
    using perf_contract.collect_ok [OF c assms(3)] .
  moreover have "source_ok (subFields s) src'" using perf_contract.collect_inv [OF c assms(3,4)] .
  moreover have "fqName ` metric_desc ` set ms \<subseteq> namesOf tab n"
    using only assms(1,4) unfolding sends_only_def namesOf_def by (fastforce split: option.splits)
  ultimately show ?thesis using assms(4) by (simp add: scrape_ok_def)
qed

lemma sub_panics:
  "map_of tab n = Some s \<Longrightarrow> n \<in> good \<Longrightarrow> source_ok (subFields s) src \<Longrightarrow> subCollect s src w = None \<Longrightarrow> perfCollect api (subFields s) src w = None"
  using perf_contract.collect_ok [OF sub_contract, of n s src w] by (simp add: scrape_ok_def)

lemma runSubs_ok:
  "distinct ns \<Longrightarrow> set ns \<subseteq> dom (map_of tab) \<inter> good \<Longrightarrow> subs_inv tab ss \<Longrightarrow>
   (case runSubs tab ns ss w of
      None \<Rightarrow> subsPanic api tab ns ss w
    | Some (es, ms, ss', w') \<Rightarrow>
        subs_inv tab ss' \<and> list_all arity_ok ms \<and> distinct (map series ms) \<and> fqName ` metric_desc ` set ms \<subseteq> (\<Union>n\<in>set ns. namesOf tab n))"
proof (induction ns arbitrary: ss w)
  case Nil
  then show ?case by simp
next
  case (Cons n ns)
  obtain s where s: "map_of tab n = Some s" and g: "n \<in> good" using Cons.prems(2) by auto
  then have src: "source_ok (subFields s) (ss n)" using Cons.prems(3) by (simp add: subs_inv_def)
  show ?case
  proof (cases "subCollect s (ss n) w")
    case None
    then show ?thesis using s sub_panics [OF s g src] by simp
  next
    case (Some r)
    obtain err ms src' w1 where r: "subCollect s (ss n) w = Some (err, ms, src', w1)" using Some by (metis prod_cases4)
    note run = sub_run [OF s g src r]
    have inv: "subs_inv tab (ss(n := src'))" by (rule subs_inv_upd [OF Cons.prems(3)]) (use s run in simp)
    have IH: "case runSubs tab ns (ss(n := src')) w1 of
                None \<Rightarrow> subsPanic api tab ns (ss(n := src')) w1
              | Some (es, ms, ss', w') \<Rightarrow>
                  subs_inv tab ss' \<and> list_all arity_ok ms \<and> distinct (map series ms) \<and> fqName ` metric_desc ` set ms \<subseteq> (\<Union>n\<in>set ns. namesOf tab n)"
      by (rule Cons.IH [OF _ _ inv]) (use Cons.prems(1,2) in simp_all)
    have split: "namesOf tab n \<inter> (\<Union>n\<in>set ns. namesOf tab n) = {}"
    proof -
      have "namesOf tab n \<inter> namesOf tab m = {}" if "m \<in> set ns" for m
        using that Cons.prems(1) by (intro namesOf_disjoint) auto
      then show ?thesis by blast
    qed
    have apart: "series ` set ms \<inter> series ` set ms2 = {}" if "fqName ` metric_desc ` set ms2 \<subseteq> (\<Union>n\<in>set ns. namesOf tab n)" for ms2
    proof -
      have "fqName ` metric_desc ` set ms \<inter> fqName ` metric_desc ` set ms2 = {}" using split run that by blast
      then show ?thesis by (auto simp: series_def)
    qed
    show ?thesis
    proof (cases "runSubs tab ns (ss(n := src')) w1")
      case None
      then show ?thesis using IH s r by simp
    next
      case (Some x)
      obtain es ms2 ss2 w2 where x: "x = (es, ms2, ss2, w2)" by (metis prod_cases4)
      have sofar: "subs_inv tab ss2 \<and> list_all arity_ok ms2 \<and> distinct (map series ms2) \<and>
          fqName ` metric_desc ` set ms2 \<subseteq> (\<Union>n\<in>set ns. namesOf tab n)"
        using IH Some x by simp
      have "distinct (map series (ms @ ms2))" using run sofar apart [of ms2] by simp
      moreover have "fqName ` metric_desc ` set (ms @ ms2) \<subseteq> (\<Union>n\<in>set (n # ns). namesOf tab n)"
        unfolding set_append image_Un set_simps UN_insert using run sofar by (intro Un_mono) simp_all
      ultimately show ?thesis using sofar run s r Some x by simp
    qed
  qed
qed

lemma runSubs_scrape:
  assumes "distinct ns" "set ns \<subseteq> dom (map_of tab) \<inter> good" "subs_inv tab ss"
  shows "scrape_ok (subsPanic api tab ns ss w) (map_option (\<lambda>(es, ms, ss, w'). (errors_Join es, ms, f ss, w')) (runSubs tab ns ss w))"
  using runSubs_ok [OF assms, of w] by (auto simp: scrape_ok_def split: option.splits)

text \<open>Only sub collectors that were built without an error are run, each once.\<close>

lemma buildSubs_inv:
  "buildSubs tab osBuild recv ns st w = Some (Inr [], st', w') \<Longrightarrow>
   subs_inv tab (sources st) \<Longrightarrow> distinct (collectorFns st @ ns) \<Longrightarrow> set ns \<subseteq> good \<Longrightarrow> set (collectorFns st) \<subseteq> dom (map_of tab) \<inter> good \<Longrightarrow>
   subs_inv tab (sources st') \<and> distinct (collectorFns st') \<and> set (collectorFns st') \<subseteq> dom (map_of tab) \<inter> good"
proof (induction ns arbitrary: st w)
  case Nil
  then show ?case by simp
next
  case (Cons n ns)
  obtain s where s: "map_of tab n = Some s" using Cons.prems(1) by (auto split: option.splits)
  show ?case
  proof (cases "osBuild < minBuildNumber s")
    case True
    then show ?thesis using Cons s by simp
  next
    case False
    obtain src w1 where b: "subBuild s w = Some (None, src, w1)"
      using Cons.prems(1) s False by (auto split: option.splits sum.splits)
    let ?st = "st\<lparr>sources := (sources st)(n := src), collectorFns := collectorFns st @ [n], closeFns := closeFns st @ [recv n]\<rparr>"
    have "source_ok (subFields s) src"
      by (rule perf_contract.build_inv [OF sub_contract [OF s] b]) (use Cons.prems(4) in simp)
    then have inv: "subs_inv tab (sources ?st)" using s Cons.prems(2) by (simp add: subs_inv_def)
    have rest: "buildSubs tab osBuild recv ns ?st w1 = Some (Inr [], st', w')" using Cons.prems(1) s False b by simp
    show ?thesis by (rule Cons.IH [OF rest inv]) (use s Cons.prems(3,4,5) in auto)
  qed
qed

lemma buildParts_inv:
  "buildParts tab ns ss w = Some ([], ss', w') \<Longrightarrow> set ns \<subseteq> good \<Longrightarrow> subs_inv tab ss \<Longrightarrow> subs_inv tab ss'"
proof (induction ns arbitrary: ss w)
  case Nil
  then show ?case by simp
next
  case (Cons n ns)
  obtain s src w1 where s: "map_of tab n = Some s" and b: "subBuild s w = Some (None, src, w1)"
      and r: "buildParts tab ns (ss(n := src)) w1 = Some ([], ss', w')"
    using Cons.prems(1) by (auto simp: non_nil_def map_filter_simps split: option.splits)
  have inv: "subs_inv tab (ss(n := src))"
    using perf_contract.build_inv [OF sub_contract [OF s] b] s Cons.prems(2,3) by (simp add: subs_inv_def)
  show ?case by (rule Cons.IH [OF r _ inv]) (use Cons.prems(2) in simp)
qed

lemma buildUntil_inv:
  "buildUntil tab ns ss w = Some (None, ss', w') \<Longrightarrow> set ns \<subseteq> good \<Longrightarrow> subs_inv tab ss \<Longrightarrow> subs_inv tab ss'"
proof (induction ns arbitrary: ss w)
  case Nil
  then show ?case by simp
next
  case (Cons n ns)
  obtain s src w1 where s: "map_of tab n = Some s" and b: "subBuild s w = Some (None, src, w1)"
      and r: "buildUntil tab ns (ss(n := src)) w1 = Some (None, ss', w')"
    using Cons.prems(1) by (auto split: option.splits)
  have inv: "subs_inv tab (ss(n := src))"
    using perf_contract.build_inv [OF sub_contract [OF s] b] s Cons.prems(2,3) by (simp add: subs_inv_def)
  show ?case by (rule Cons.IH [OF r _ inv]) (use Cons.prems(2) in simp)
qed

text \<open>The contract for the sub collectors that run in goroutines, whatever their order.\<close>

lemma subs_contract:
  assumes "distinct enabled" "set enabled \<subseteq> good" and sched: "\<And>ns. mset (sched ns) = mset ns"
  shows "perf_contract (\<lambda>w. buildResult (buildSubs tab osBuild recv enabled noSubs w)) (collectSubs tab sched) (subState_ok good tab)
           (\<lambda>st w. subsPanic api tab (sched (collectorFns st)) (sources st) w)"
proof
  have order: "distinct (sched ns) = distinct ns" "set (sched ns) = set ns" for ns
    using mset_eq_imp_distinct_iff [OF sched [of ns]] mset_eq_setD [OF sched [of ns]] by simp_all
  show "subState_ok good tab c" if "buildResult (buildSubs tab osBuild recv enabled noSubs w) = Some (None, c, w')" for w c w'
  proof -
    have "buildSubs tab osBuild recv enabled noSubs w = Some (Inr [], c, w')"
      using that by (cases "buildSubs tab osBuild recv enabled noSubs w") (auto simp: buildResult_def split: sum.split_asm)
    then show ?thesis unfolding subState_ok_def by (rule buildSubs_inv) (simp_all add: noSubs_def assms(1,2))
  qed
  show "subState_ok good tab c'" if "subState_ok good tab c" "collectSubs tab sched c w = Some (err, ms, c', w')" for c w err ms c' w'
  proof -
    have "case runSubs tab (sched (collectorFns c)) (sources c) w of None \<Rightarrow> True | Some (es, ms, ss', w') \<Rightarrow> subs_inv tab ss'"
      using runSubs_ok [of "sched (collectorFns c)" "sources c" w] that(1) by (auto simp: subState_ok_def order split: option.splits)
    then show ?thesis using that by (auto simp: subState_ok_def collectSubs_def)
  qed
  show "scrape_ok (subsPanic api tab (sched (collectorFns c)) (sources c) w) (collectSubs tab sched c w)" if "subState_ok good tab c" for c w
    using that unfolding collectSubs_def subState_ok_def by (intro runSubs_scrape) (simp_all add: order)
qed

text \<open>And for the parts that run one after the other.\<close>

lemma parts_contract:
  assumes "distinct ns" "set ns \<subseteq> dom (map_of tab) \<inter> good"
    and "\<And>w ss w'. build w = Some (None, ss, w') \<Longrightarrow> subs_inv tab ss"
  shows "perf_contract build (collectParts tab ns) (subs_inv tab) (\<lambda>ss w. subsPanic api tab ns ss w)"
proof
  show "subs_inv tab c" if "build w = Some (None, c, w')" for w c w' using that by (rule assms(3))
  show "subs_inv tab c'" if "subs_inv tab c" "collectParts tab ns c w = Some (err, ms, c', w')" for c w err ms c' w'
    using that runSubs_ok [OF assms(1,2), of c w] by (auto simp: collectParts_def)
  show "scrape_ok (subsPanic api tab ns c w) (collectParts tab ns c w)" if "subs_inv tab c" for c w
    unfolding collectParts_def by (rule runSubs_scrape [OF assms(1,2) that])
qed

lemma joined_parts_contract:
  assumes "distinct ns" "set ns \<subseteq> dom (map_of tab) \<inter> good"
  shows "perf_contract (\<lambda>w. partsResult (buildParts tab ns (\<lambda>n. noSource) w)) (collectParts tab ns) (subs_inv tab) (\<lambda>ss w. subsPanic api tab ns ss w)"
proof (rule parts_contract [OF assms])
  show "subs_inv tab ss" if "partsResult (buildParts tab ns (\<lambda>n. noSource) w) = Some (None, ss, w')" for w ss w'
  proof -
    have "buildParts tab ns (\<lambda>n. noSource) w = Some ([], ss, w')"
      using that by (cases "buildParts tab ns (\<lambda>n. noSource) w") (auto simp: partsResult_def)
    then show ?thesis by (rule buildParts_inv) (use assms(2) in auto)
  qed
qed

lemma until_parts_contract:
  assumes "distinct ns" "set ns \<subseteq> dom (map_of tab) \<inter> good"
  shows "perf_contract (buildUntil tab ns (\<lambda>n. noSource)) (collectParts tab ns) (subs_inv tab) (\<lambda>ss w. subsPanic api tab ns ss w)"
proof (rule parts_contract [OF assms])
  show "subs_inv tab ss" if "buildUntil tab ns (\<lambda>n. noSource) w = Some (None, ss, w')" for w ss w'
    using that by (rule buildUntil_inv) (use assms(2) in auto)
qed

end

text \<open>
  The method values \<open>close\<close> of a collector that is built once are bound to nil pointers: closing it closes no query.
\<close>

lemma buildSubs_receivers:
  "buildSubs tab osBuild recv ns st w = Some (r, st', w') \<Longrightarrow> set (closeFns st') \<subseteq> set (closeFns st) \<union> range recv"
proof (induction ns arbitrary: st w r)
  case Nil
  then show ?case by simp
next
  case (Cons n ns)
  show ?case
  proof (cases "map_of tab n")
    case None
    then show ?thesis using Cons.prems by simp
  next
    case (Some s)
    show ?thesis
      by (rule subset_trans [OF _ Un_least [OF Un_upper1 Un_upper2]])
        (use Some Cons.prems in \<open>force split: if_splits option.splits dest!: Cons.IH\<close>)
  qed
qed

lemma closeSubs_nothing:
  assumes "buildSubs tab osBuild (\<lambda>n. None) ns noSubs w = Some (r, st, w')"
  shows "closeSubs api st w2 = w2"
proof -
  have "set (closeFns st) \<subseteq> {None}" using buildSubs_receivers [OF assms] by (simp add: noSubs_def)
  moreover have "set ps \<subseteq> {None} \<Longrightarrow> fold (\<lambda>p w. snd (Close api p w)) ps w2 = w2" for ps
    by (induction ps) (auto simp: Close_def)
  ultimately show ?thesis by (simp add: closeSubs_def)
qed

end
