(* ===== verification/Perf_Hyperv.thy ===== *)
theory Perf_Hyperv
  imports Perf_Subs Utils
begin

text \<open>
  The Hyper-V collector (internal/collector/hyperv): fifteen sub collectors, each with a struct, descriptors and metrics of its own.
  The first part holds the tables and the sub collectors in the order of \<open>hyperv.go\<close>, the second \<open>Build\<close>, \<open>Collect\<close> and \<open>Close\<close>, the third
  the contract.
\<close>

section \<open>datastore\<close>

definition hyperv_datastore_fields :: "structField list" where
  "hyperv_datastore_fields =
     [nameField,
      perfField ''DataStoreFragmentationRatio'' ''Fragmentation ratio'',
      perfField ''DataStoreSectorSize'' ''Sector size'',
      perfField ''DataStoreDataAlignment'' ''Data alignment'',
      perfField ''DataStoreCurrentReplayLogSize'' ''Current replay logSize'',
      perfField ''DataStoreAvailableEntries'' ''Number of available entries inside object tables'',
      perfField ''DataStoreEmptyEntries'' ''Number of empty entries inside object tables'',
      perfField ''DataStoreFreeBytes'' ''Number of free bytes inside key tables'',
      perfField ''DataStoreDataEnd'' ''Data end'',
      perfField ''DataStoreFileObjects'' ''Number of file objects'',
      perfField ''DataStoreObjectTables'' ''Number of object tables'',
      perfField ''DataStoreKeyTables'' ''Number of key tables'',
      perfField ''DataStoreFileDataSize'' ''File data size in bytes'',
      perfField ''DataStoreTableDataSize'' ''Table data size in bytes'',
      perfField ''DataStoreNamesSize'' ''Names size in bytes'',
      perfField ''DataStoreNumberOfKeys'' ''Number of keys'',
      perfField ''DataStoreReconnectLatencyMicro'' ''Reconnect latency microseconds'',
      perfField ''DataStoreDisconnectCount'' ''Disconnect count'',
      perfField ''DataStoreWriteToFileByteLatency'' ''Write to file byte latency microseconds'',
      perfField ''DataStoreWriteToFileByteCount'' ''Write to file byte count'',
      perfField ''DataStoreWriteToFileCount'' ''Write to file count'',
      perfField ''DataStoreReadFromFileByteLatency'' ''Read from file byte latency microseconds'',
      perfField ''DataStoreReadFromFileByteCount'' ''Read from file byte count'',
      perfField ''DataStoreReadFromFileCount'' ''Read from file count'',
      perfField ''DataStoreWriteToStorageByteLatency'' ''Write to storage byte latency microseconds'',
      perfField ''DataStoreWriteToStorageByteCount'' ''Write to storage byte count'',
      perfField ''DataStoreWriteToStorageCount'' ''Write to storage count'',
      perfField ''DataStoreReadFromStorageByteLatency'' ''Read from storage byte latency microseconds'',
      perfField ''DataStoreReadFromStorageByteCount'' ''Read from storage byte count'',
      perfField ''DataStoreReadFromStorageCount'' ''Read from storage count'',
      perfField ''DataStoreCommitByteLatency'' ''Commit byte latency microseconds'',
      perfField ''DataStoreCommitByteCount'' ''Commit byte count'',
      perfField ''DataStoreCommitCount'' ''Commit count'',
      perfField ''DataStoreCacheUpdateOperationLatency'' ''Cache update operation latency microseconds'',
      perfField ''DataStoreCacheUpdateOperationCount'' ''Cache update operation count'',
      perfField ''DataStoreCommitOperationLatency'' ''Commit operation latency microseconds'',
      perfField ''DataStoreCommitOperationCount'' ''Commit operation count'',
      perfField ''DataStoreCompactOperationLatency'' ''Compact operation latency microseconds'',
      perfField ''DataStoreCompactOperationCount'' ''Compact operation count'',
      perfField ''DataStoreLoadFileOperationLatency'' ''Load file operation latency microseconds'',
      perfField ''DataStoreLoadFileOperationCount'' ''Load file operation count'',
      perfField ''DataStoreRemoveOperationLatency'' ''Remove operation latency microseconds'',
      perfField ''DataStoreRemoveOperationCount'' ''Remove operation count'',
      perfField ''DataStoreQuerySizeOperationLatency'' ''Query size operation latency microseconds'',
      perfField ''DataStoreQuerySizeOperationCount'' ''Query size operation count'',
      perfField ''DataStoreSetOperationLatencyMicro'' ''Set operation latency microseconds'',
      perfField ''DataStoreSetOperationCount'' ''Set operation count'']"

definition hyperv_datastore_descs :: descTable where
  "hyperv_datastore_descs =
     [(''dataStoreFragmentationRatio'', NewDesc (BuildFQName Namespace ''hyperv'' ''datastore_fragmentation_ratio'')
        ''Represents the fragmentation ratio of the DataStore.'' [''datastore'']),
      (''dataStoreSectorSize'', NewDesc (BuildFQName Namespace ''hyperv'' ''datastore_sector_size_bytes'')
        ''Represents the sector size of the DataStore.'' [''datastore'']),
      (''dataStoreDataAlignment'', NewDesc (BuildFQName Namespace ''hyperv'' ''datastore_data_alignment_bytes'')
        ''Represents the data alignment of the DataStore.'' [''datastore'']),
      (''dataStoreCurrentReplayLogSize'', NewDesc (BuildFQName Namespace ''hyperv'' ''datastore_current_replay_log_size_bytes'')
        ''Represents the current replay log size of the DataStore.'' [''datastore'']),
      (''dataStoreAvailableEntries'', NewDesc (BuildFQName Namespace ''hyperv'' ''datastore_available_entries'')
        ''Represents the number of available entries inside object tables.'' [''datastore'']),
      (''dataStoreEmptyEntries'', NewDesc (BuildFQName Namespace ''hyperv'' ''datastore_empty_entries'')
        ''Represents the number of empty entries inside object tables.'' [''datastore'']),
      (''dataStoreFreeBytes'', NewDesc (BuildFQName Namespace ''hyperv'' ''datastore_free_bytes'')
        ''Represents the number of free bytes inside key tables.'' [''datastore'']),
      (''dataStoreDataEnd'', NewDesc (BuildFQName Namespace ''hyperv'' ''datastore_data_end_bytes'')
        ''Represents the data end of the DataStore.'' [''datastore'']),
      (''dataStoreFileObjects'', NewDesc (BuildFQName Namespace ''hyperv'' ''datastore_file_objects'')
        ''Represents the number of file objects in the DataStore.'' [''datastore'']),
      (''dataStoreObjectTables'', NewDesc (BuildFQName Namespace ''hyperv'' ''datastore_object_tables'')
        ''Represents the number of object tables in the DataStore.'' [''datastore'']),
      (''dataStoreKeyTables'', NewDesc (BuildFQName Namespace ''hyperv'' ''datastore_key_tables'')
        ''Represents the number of key tables in the DataStore.'' [''datastore'']),
      (''dataStoreFileDataSize'', NewDesc (BuildFQName Namespace ''hyperv'' ''datastore_file_data_size_bytes'')
        ''Represents the file data size in bytes of the DataStore.'' [''datastore'']),
      (''dataStoreTableDataSize'', NewDesc (BuildFQName Namespace ''hyperv'' ''datastore_table_data_size_bytes'')
        ''Represents the table data size in bytes of the DataStore.'' [''datastore'']),
      (''dataStoreNamesSize'', NewDesc (BuildFQName Namespace ''hyperv'' ''datastore_names_size_bytes'')
        ''Represents the names size in bytes of the DataStore.'' [''datastore'']),
      (''dataStoreNumberOfKeys'', NewDesc (BuildFQName Namespace ''hyperv'' ''datastore_number_of_keys'')
        ''Represents the number of keys in the DataStore.'' [''datastore'']),
      (''dataStoreReconnectLatencyMicro'', NewDesc (BuildFQName Namespace ''hyperv'' ''datastore_reconnect_latency_microseconds'')
        ''Represents the reconnect latency in microseconds of the DataStore.'' [''datastore'']),
      (''dataStoreDisconnectCount'', NewDesc (BuildFQName Namespace ''hyperv'' ''datastore_disconnect_count'')
        ''Represents the disconnect count of the DataStore.'' [''datastore'']),
      (''dataStoreWriteToFileByteLatency'', NewDesc (BuildFQName Namespace ''hyperv'' ''datastore_write_to_file_byte_latency_microseconds'')
        ''Represents the write to file byte latency in microseconds of the DataStore.'' [''datastore'']),
      (''dataStoreWriteToFileByteCount'', NewDesc (BuildFQName Namespace ''hyperv'' ''datastore_write_to_file_byte_count'')
        ''Represents the write to file byte count of the DataStore.'' [''datastore'']),
      (''dataStoreWriteToFileCount'', NewDesc (BuildFQName Namespace ''hyperv'' ''datastore_write_to_file_count'')
        ''Represents the write to file count of the DataStore.'' [''datastore'']),
      (''dataStoreReadFromFileByteLatency'', NewDesc (BuildFQName Namespace ''hyperv'' ''datastore_read_from_file_byte_latency_microseconds'')
        ''Represents the read from file byte latency in microseconds of the DataStore.'' [''datastore'']),
      (''dataStoreReadFromFileByteCount'', NewDesc (BuildFQName Namespace ''hyperv'' ''datastore_read_from_file_byte_count'')
        ''Represents the read from file byte count of the DataStore.'' [''datastore'']),
      (''dataStoreReadFromFileCount'', NewDesc (BuildFQName Namespace ''hyperv'' ''datastore_read_from_file_count'')
        ''Represents the read from file count of the DataStore.'' [''datastore'']),
      (''dataStoreWriteToStorageByteLatency'', NewDesc (BuildFQName Namespace ''hyperv'' ''datastore_write_to_storage_byte_latency_microseconds'')
        ''Represents the write to storage byte latency in microseconds of the DataStore.'' [''datastore'']),
      (''dataStoreWriteToStorageByteCount'', NewDesc (BuildFQName Namespace ''hyperv'' ''datastore_write_to_storage_byte_count'')
        ''Represents the write to storage byte count of the DataStore.'' [''datastore'']),
      (''dataStoreWriteToStorageCount'', NewDesc (BuildFQName Namespace ''hyperv'' ''datastore_write_to_storage_count'')
        ''Represents the write to storage count of the DataStore.'' [''datastore'']),
      (''dataStoreReadFromStorageByteLatency'', NewDesc (BuildFQName Namespace ''hyperv'' ''datastore_read_from_storage_byte_latency_microseconds'')
        ''Represents the read from storage byte latency in microseconds of the DataStore.'' [''datastore'']),
      (''dataStoreReadFromStorageByteCount'', NewDesc (BuildFQName Namespace ''hyperv'' ''datastore_read_from_storage_byte_count'')
        ''Represents the read from storage byte count of the DataStore.'' [''datastore'']),
      (''dataStoreReadFromStorageCount'', NewDesc (BuildFQName Namespace ''hyperv'' ''datastore_read_from_storage_count'')
        ''Represents the read from storage count of the DataStore.'' [''datastore'']),
      (''dataStoreCommitByteLatency'', NewDesc (BuildFQName Namespace ''hyperv'' ''datastore_commit_byte_latency_microseconds'')
        ''Represents the commit byte latency in microseconds of the DataStore.'' [''datastore'']),
      (''dataStoreCommitByteCount'', NewDesc (BuildFQName Namespace ''hyperv'' ''datastore_commit_byte_count'')
        ''Represents the commit byte count of the DataStore.'' [''datastore'']),
      (''dataStoreCommitCount'', NewDesc (BuildFQName Namespace ''hyperv'' ''datastore_commit_count'')
        ''Represents the commit count of the DataStore.'' [''datastore'']),
      (''dataStoreCacheUpdateOperationLatency'', NewDesc (BuildFQName Namespace ''hyperv'' ''datastore_cache_update_operation_latency_microseconds'')
        ''Represents the cache update operation latency in microseconds of the DataStore.'' [''datastore'']),
      (''dataStoreCacheUpdateOperationCount'', NewDesc (BuildFQName Namespace ''hyperv'' ''datastore_cache_update_operation_count'')
        ''Represents the cache update operation count of the DataStore.'' [''datastore'']),
      (''dataStoreCommitOperationLatency'', NewDesc (BuildFQName Namespace ''hyperv'' ''datastore_commit_operation_latency_microseconds'')
        ''Represents the commit operation latency in microseconds of the DataStore.'' [''datastore'']),
      (''dataStoreCommitOperationCount'', NewDesc (BuildFQName Namespace ''hyperv'' ''datastore_commit_operation_count'')
        ''Represents the commit operation count of the DataStore.'' [''datastore'']),
      (''dataStoreCompactOperationLatency'', NewDesc (BuildFQName Namespace ''hyperv'' ''datastore_compact_operation_latency_microseconds'')
        ''Represents the compact operation latency in microseconds of the DataStore.'' [''datastore'']),
      (''dataStoreCompactOperationCount'', NewDesc (BuildFQName Namespace ''hyperv'' ''datastore_compact_operation_count'')
        ''Represents the compact operation count of the DataStore.'' [''datastore'']),
      (''dataStoreLoadFileOperationLatency'', NewDesc (BuildFQName Namespace ''hyperv'' ''datastore_load_file_operation_latency_microseconds'')
        ''Represents the load file operation latency in microseconds of the DataStore.'' [''datastore'']),
      (''dataStoreLoadFileOperationCount'', NewDesc (BuildFQName Namespace ''hyperv'' ''datastore_load_file_operation_count'')
        ''Represents the load file operation count of the DataStore.'' [''datastore'']),
      (''dataStoreRemoveOperationLatency'', NewDesc (BuildFQName Namespace ''hyperv'' ''datastore_remove_operation_latency_microseconds'')
        ''Represents the remove operation latency in microseconds of the DataStore.'' [''datastore'']),
      (''dataStoreRemoveOperationCount'', NewDesc (BuildFQName Namespace ''hyperv'' ''datastore_remove_operation_count'')
        ''Represents the remove operation count of the DataStore.'' [''datastore'']),
      (''dataStoreQuerySizeOperationLatency'', NewDesc (BuildFQName Namespace ''hyperv'' ''datastore_query_size_operation_latency_microseconds'')
        ''Represents the query size operation latency in microseconds of the DataStore.'' [''datastore'']),
      (''dataStoreQuerySizeOperationCount'', NewDesc (BuildFQName Namespace ''hyperv'' ''datastore_query_size_operation_count'')
        ''Represents the query size operation count of the DataStore.'' [''datastore'']),
      (''dataStoreSetOperationLatencyMicro'', NewDesc (BuildFQName Namespace ''hyperv'' ''datastore_set_operation_latency_microseconds'')
        ''Represents the set operation latency in microseconds of the DataStore.'' [''datastore'']),
      (''dataStoreSetOperationCount'', NewDesc (BuildFQName Namespace ''hyperv'' ''datastore_set_operation_count'')
        ''Represents the set operation count of the DataStore.'' [''datastore''])]"

definition hyperv_datastore_lines :: "row \<Rightarrow> line list" where
  "hyperv_datastore_lines r =
     [(''dataStoreFragmentationRatio'', GaugeValue, num hyperv_datastore_fields r ''DataStoreFragmentationRatio'', [rowName hyperv_datastore_fields r]),
      (''dataStoreSectorSize'', GaugeValue, num hyperv_datastore_fields r ''DataStoreSectorSize'', [rowName hyperv_datastore_fields r]),
      (''dataStoreDataAlignment'', GaugeValue, num hyperv_datastore_fields r ''DataStoreDataAlignment'', [rowName hyperv_datastore_fields r]),
      (''dataStoreCurrentReplayLogSize'', GaugeValue, num hyperv_datastore_fields r ''DataStoreCurrentReplayLogSize'', [rowName hyperv_datastore_fields r]),
      (''dataStoreAvailableEntries'', GaugeValue, num hyperv_datastore_fields r ''DataStoreAvailableEntries'', [rowName hyperv_datastore_fields r]),
      (''dataStoreEmptyEntries'', GaugeValue, num hyperv_datastore_fields r ''DataStoreEmptyEntries'', [rowName hyperv_datastore_fields r]),
      (''dataStoreFreeBytes'', GaugeValue, num hyperv_datastore_fields r ''DataStoreFreeBytes'', [rowName hyperv_datastore_fields r]),
      (''dataStoreDataEnd'', GaugeValue, num hyperv_datastore_fields r ''DataStoreDataEnd'', [rowName hyperv_datastore_fields r]),
      (''dataStoreFileObjects'', GaugeValue, num hyperv_datastore_fields r ''DataStoreFileObjects'', [rowName hyperv_datastore_fields r]),
      (''dataStoreObjectTables'', GaugeValue, num hyperv_datastore_fields r ''DataStoreObjectTables'', [rowName hyperv_datastore_fields r]),
      (''dataStoreKeyTables'', GaugeValue, num hyperv_datastore_fields r ''DataStoreKeyTables'', [rowName hyperv_datastore_fields r]),
      (''dataStoreFileDataSize'', GaugeValue, num hyperv_datastore_fields r ''DataStoreFileDataSize'', [rowName hyperv_datastore_fields r]),
      (''dataStoreTableDataSize'', GaugeValue, num hyperv_datastore_fields r ''DataStoreTableDataSize'', [rowName hyperv_datastore_fields r]),
      (''dataStoreNamesSize'', GaugeValue, num hyperv_datastore_fields r ''DataStoreNamesSize'', [rowName hyperv_datastore_fields r]),
      (''dataStoreNumberOfKeys'', GaugeValue, num hyperv_datastore_fields r ''DataStoreNumberOfKeys'', [rowName hyperv_datastore_fields r]),
      (''dataStoreReconnectLatencyMicro'', GaugeValue, num hyperv_datastore_fields r ''DataStoreReconnectLatencyMicro'', [rowName hyperv_datastore_fields r]),
      (''dataStoreDisconnectCount'', CounterValue, num hyperv_datastore_fields r ''DataStoreDisconnectCount'', [rowName hyperv_datastore_fields r]),
      (''dataStoreWriteToFileByteLatency'', GaugeValue, num hyperv_datastore_fields r ''DataStoreWriteToFileByteLatency'', [rowName hyperv_datastore_fields r]),
      (''dataStoreWriteToFileByteCount'', CounterValue, num hyperv_datastore_fields r ''DataStoreWriteToFileByteCount'', [rowName hyperv_datastore_fields r]),
      (''dataStoreWriteToFileCount'', CounterValue, num hyperv_datastore_fields r ''DataStoreWriteToFileCount'', [rowName hyperv_datastore_fields r]),
      (''dataStoreReadFromFileByteLatency'', GaugeValue, num hyperv_datastore_fields r ''DataStoreReadFromFileByteLatency'', [rowName hyperv_datastore_fields r]),
      (''dataStoreReadFromFileByteCount'', CounterValue, num hyperv_datastore_fields r ''DataStoreReadFromFileByteCount'', [rowName hyperv_datastore_fields r]),
      (''dataStoreReadFromFileCount'', CounterValue, num hyperv_datastore_fields r ''DataStoreReadFromFileCount'', [rowName hyperv_datastore_fields r]),
      (''dataStoreWriteToStorageByteLatency'', GaugeValue, num hyperv_datastore_fields r ''DataStoreWriteToStorageByteLatency'', [rowName hyperv_datastore_fields r]),
      (''dataStoreWriteToStorageByteCount'', CounterValue, num hyperv_datastore_fields r ''DataStoreWriteToStorageByteCount'', [rowName hyperv_datastore_fields r]),
      (''dataStoreWriteToStorageCount'', CounterValue, num hyperv_datastore_fields r ''DataStoreWriteToStorageCount'', [rowName hyperv_datastore_fields r]),
      (''dataStoreReadFromStorageByteLatency'', GaugeValue, num hyperv_datastore_fields r ''DataStoreReadFromStorageByteLatency'', [rowName hyperv_datastore_fields r]),
      (''dataStoreReadFromStorageByteCount'', CounterValue, num hyperv_datastore_fields r ''DataStoreReadFromStorageByteCount'', [rowName hyperv_datastore_fields r]),
      (''dataStoreReadFromStorageCount'', CounterValue, num hyperv_datastore_fields r ''DataStoreReadFromStorageCount'', [rowName hyperv_datastore_fields r]),
      (''dataStoreCommitByteLatency'', GaugeValue, num hyperv_datastore_fields r ''DataStoreCommitByteLatency'', [rowName hyperv_datastore_fields r]),
      (''dataStoreCommitByteCount'', CounterValue, num hyperv_datastore_fields r ''DataStoreCommitByteCount'', [rowName hyperv_datastore_fields r]),
      (''dataStoreCommitCount'', CounterValue, num hyperv_datastore_fields r ''DataStoreCommitCount'', [rowName hyperv_datastore_fields r]),
      (''dataStoreCacheUpdateOperationLatency'', GaugeValue, num hyperv_datastore_fields r ''DataStoreCacheUpdateOperationLatency'', [rowName hyperv_datastore_fields r]),
      (''dataStoreCacheUpdateOperationCount'', CounterValue, num hyperv_datastore_fields r ''DataStoreCacheUpdateOperationCount'', [rowName hyperv_datastore_fields r]),
      (''dataStoreCommitOperationLatency'', GaugeValue, num hyperv_datastore_fields r ''DataStoreCommitOperationLatency'', [rowName hyperv_datastore_fields r]),
      (''dataStoreCommitOperationCount'', CounterValue, num hyperv_datastore_fields r ''DataStoreCommitOperationCount'', [rowName hyperv_datastore_fields r]),
      (''dataStoreCompactOperationLatency'', GaugeValue, num hyperv_datastore_fields r ''DataStoreCompactOperationLatency'', [rowName hyperv_datastore_fields r]),
      (''dataStoreCompactOperationCount'', CounterValue, num hyperv_datastore_fields r ''DataStoreCompactOperationCount'', [rowName hyperv_datastore_fields r]),
      (''dataStoreLoadFileOperationLatency'', GaugeValue, num hyperv_datastore_fields r ''DataStoreLoadFileOperationLatency'', [rowName hyperv_datastore_fields r]),
      (''dataStoreLoadFileOperationCount'', CounterValue, num hyperv_datastore_fields r ''DataStoreLoadFileOperationCount'', [rowName hyperv_datastore_fields r]),
      (''dataStoreRemoveOperationLatency'', GaugeValue, num hyperv_datastore_fields r ''DataStoreRemoveOperationLatency'', [rowName hyperv_datastore_fields r]),
      (''dataStoreRemoveOperationCount'', CounterValue, num hyperv_datastore_fields r ''DataStoreRemoveOperationCount'', [rowName hyperv_datastore_fields r]),
      (''dataStoreQuerySizeOperationLatency'', GaugeValue, num hyperv_datastore_fields r ''DataStoreQuerySizeOperationLatency'', [rowName hyperv_datastore_fields r]),
      (''dataStoreQuerySizeOperationCount'', CounterValue, num hyperv_datastore_fields r ''DataStoreQuerySizeOperationCount'', [rowName hyperv_datastore_fields r]),
      (''dataStoreSetOperationLatencyMicro'', GaugeValue, num hyperv_datastore_fields r ''DataStoreSetOperationLatencyMicro'', [rowName hyperv_datastore_fields r]),
      (''dataStoreSetOperationCount'', CounterValue, num hyperv_datastore_fields r ''DataStoreSetOperationCount'', [rowName hyperv_datastore_fields r])]"

definition hyperv_datastore_build :: "'w pdh_api \<Rightarrow> u16 \<Rightarrow> 'w \<Rightarrow> (go_error option \<times> perfSource \<times> 'w) option" where
  "hyperv_datastore_build api osBuild = perfBuild api osBuild ''failed to create Hyper-V DataStore collector: %w'' ''Hyper-V DataStore'' [''*''] hyperv_datastore_fields"

definition hyperv_datastore_collect :: "'w pdh_api \<Rightarrow> perfSource \<Rightarrow> 'w \<Rightarrow> (perfSource, 'w) collected" where
  "hyperv_datastore_collect api = collectWith api hyperv_datastore_fields ''failed to collect Hyper-V DataStore metrics: %w'' hyperv_datastore_descs (eachRow (\<lambda>r. True) hyperv_datastore_lines)"


section \<open>dynamic_memory_balancer\<close>

definition hyperv_dynamic_memory_balancer_fields :: "structField list" where
  "hyperv_dynamic_memory_balancer_fields =
     [nameField,
      perfField ''VmDynamicMemoryBalancerAvailableMemory'' ''Available Memory'',
      perfFieldSince ''VmDynamicMemoryBalancerAvailableMemoryForBalancing'' ''Available Memory For Balancing'' ''17763'',
      perfField ''VmDynamicMemoryBalancerAveragePressure'' ''Average Pressure'',
      perfField ''VmDynamicMemoryBalancerSystemCurrentPressure'' ''System Current Pressure'']"

definition hyperv_dynamic_memory_balancer_descs :: descTable where
  "hyperv_dynamic_memory_balancer_descs =
     [(''vmDynamicMemoryBalancerAvailableMemory'', NewDesc (BuildFQName Namespace ''hyperv'' ''dynamic_memory_balancer_available_memory_bytes'')
        ''Represents the amount of memory left on the node.'' [''balancer'']),
      (''vmDynamicMemoryBalancerAvailableMemoryForBalancing'', NewDesc (BuildFQName Namespace ''hyperv'' ''dynamic_memory_balancer_available_memory_for_balancing_bytes'')
        ''Represents the available memory for balancing purposes.'' [''balancer'']),
      (''vmDynamicMemoryBalancerAveragePressure'', NewDesc (BuildFQName Namespace ''hyperv'' ''dynamic_memory_balancer_average_pressure_ratio'')
        ''Represents the average system pressure on the balancer node among all balanced objects.'' [''balancer'']),
      (''vmDynamicMemoryBalancerSystemCurrentPressure'', NewDesc (BuildFQName Namespace ''hyperv'' ''dynamic_memory_balancer_system_current_pressure_ratio'')
        ''Represents the current pressure in the system.'' [''balancer''])]"

definition hyperv_dynamic_memory_balancer_lines :: "osversion \<Rightarrow> row \<Rightarrow> line list" where
  "hyperv_dynamic_memory_balancer_lines os r =
     [(''vmDynamicMemoryBalancerAvailableMemory'', GaugeValue, MBToBytes (num hyperv_dynamic_memory_balancer_fields r ''VmDynamicMemoryBalancerAvailableMemory''), [rowName hyperv_dynamic_memory_balancer_fields r])] @
     (if LTSC2019 os \<le> winBuild os then [(''vmDynamicMemoryBalancerAvailableMemoryForBalancing'', GaugeValue, MBToBytes (num hyperv_dynamic_memory_balancer_fields r ''VmDynamicMemoryBalancerAvailableMemoryForBalancing''), [rowName hyperv_dynamic_memory_balancer_fields r])] else []) @
     [(''vmDynamicMemoryBalancerAveragePressure'', GaugeValue, PercentageToRatio (num hyperv_dynamic_memory_balancer_fields r ''VmDynamicMemoryBalancerAveragePressure''), [rowName hyperv_dynamic_memory_balancer_fields r]),
      (''vmDynamicMemoryBalancerSystemCurrentPressure'', GaugeValue, PercentageToRatio (num hyperv_dynamic_memory_balancer_fields r ''VmDynamicMemoryBalancerSystemCurrentPressure''), [rowName hyperv_dynamic_memory_balancer_fields r])]"

definition hyperv_dynamic_memory_balancer_build :: "'w pdh_api \<Rightarrow> u16 \<Rightarrow> 'w \<Rightarrow> (go_error option \<times> perfSource \<times> 'w) option" where
  "hyperv_dynamic_memory_balancer_build api osBuild = perfBuild api osBuild ''failed to create Hyper-V Virtual Machine Health Summary collector: %w'' ''Hyper-V Dynamic Memory Balancer'' [''*''] hyperv_dynamic_memory_balancer_fields"

definition hyperv_dynamic_memory_balancer_collect :: "osversion \<Rightarrow> 'w pdh_api \<Rightarrow> perfSource \<Rightarrow> 'w \<Rightarrow> (perfSource, 'w) collected" where
  "hyperv_dynamic_memory_balancer_collect os api = collectWith api hyperv_dynamic_memory_balancer_fields ''failed to collect Hyper-V Dynamic Memory Balancer metrics: %w'' hyperv_dynamic_memory_balancer_descs (eachRow (\<lambda>r. True) (hyperv_dynamic_memory_balancer_lines os))"


section \<open>dynamic_memory_vm\<close>

definition hyperv_dynamic_memory_vm_fields :: "structField list" where
  "hyperv_dynamic_memory_vm_fields =
     [nameField,
      perfField ''VmMemoryAddedMemory'' ''Added Memory'',
      perfField ''VmMemoryCurrentPressure'' ''Current Pressure'',
      perfFieldSince ''VmMemoryGuestAvailableMemory'' ''Guest Available Memory'' ''17763'',
      perfField ''VmMemoryGuestVisiblePhysicalMemory'' ''Guest Visible Physical Memory'',
      perfField ''VmMemoryMaximumPressure'' ''Maximum Pressure'',
      perfField ''VmMemoryMemoryAddOperations'' ''Memory Add Operations'',
      perfField ''VmMemoryMemoryRemoveOperations'' ''Memory Remove Operations'',
      perfField ''VmMemoryMinimumPressure'' ''Minimum Pressure'',
      perfField ''VmMemoryPhysicalMemory'' ''Physical Memory'',
      perfField ''VmMemoryRemovedMemory'' ''Removed Memory'']"

definition hyperv_dynamic_memory_vm_descs :: descTable where
  "hyperv_dynamic_memory_vm_descs =
     [(''vmMemoryAddedMemory'', NewDesc (BuildFQName Namespace ''hyperv'' ''dynamic_memory_vm_added_total'')
        ''Represents the cumulative amount of memory added to the VM.'' [''vm'']),
      (''vmMemoryCurrentPressure'', NewDesc (BuildFQName Namespace ''hyperv'' ''dynamic_memory_vm_pressure_current_ratio'')
        ''Represents the current pressure in the VM.'' [''vm'']),
      (''vmMemoryGuestAvailableMemory'', NewDesc (BuildFQName Namespace ''hyperv'' ''dynamic_memory_vm_guest_available_bytes'')
        ''Represents the current amount of available memory in the VM (reported by the VM).'' [''vm'']),
      (''vmMemoryGuestVisiblePhysicalMemory'', NewDesc (BuildFQName Namespace ''hyperv'' ''dynamic_memory_vm_guest_visible_physical_memory_bytes'')
        (''Represents the amount of memory visible in the VM.'' @ [CHR 0x27]) [''vm'']),
      (''vmMemoryMaximumPressure'', NewDesc (BuildFQName Namespace ''hyperv'' ''dynamic_memory_vm_pressure_maximum_ratio'')
        ''Represents the maximum pressure band in the VM.'' [''vm'']),
      (''vmMemoryMemoryAddOperations'', NewDesc (BuildFQName Namespace ''hyperv'' ''dynamic_memory_vm_add_operations_total'')
        ''Represents the total number of add operations for the VM.'' [''vm'']),
      (''vmMemoryMemoryRemoveOperations'', NewDesc (BuildFQName Namespace ''hyperv'' ''dynamic_memory_vm_remove_operations_total'')
        ''Represents the total number of remove operations for the VM.'' [''vm'']),
      (''vmMemoryMinimumPressure'', NewDesc (BuildFQName Namespace ''hyperv'' ''dynamic_memory_vm_pressure_minimum_ratio'')
        ''Represents the minimum pressure band in the VM.'' [''vm'']),
      (''vmMemoryPhysicalMemory'', NewDesc (BuildFQName Namespace ''hyperv'' ''dynamic_memory_vm_physical_bytes'')
        ''Represents the current amount of memory in the VM.'' [''vm'']),
      (''vmMemoryRemovedMemory'', NewDesc (BuildFQName Namespace ''hyperv'' ''dynamic_memory_vm_removed_bytes_total'')
        ''Represents the cumulative amount of memory removed from the VM.'' [''vm''])]"

definition hyperv_dynamic_memory_vm_lines :: "osversion \<Rightarrow> row \<Rightarrow> line list" where
  "hyperv_dynamic_memory_vm_lines os r =
     [(''vmMemoryAddedMemory'', CounterValue, MBToBytes (num hyperv_dynamic_memory_vm_fields r ''VmMemoryAddedMemory''), [rowName hyperv_dynamic_memory_vm_fields r]),
      (''vmMemoryCurrentPressure'', GaugeValue, PercentageToRatio (num hyperv_dynamic_memory_vm_fields r ''VmMemoryCurrentPressure''), [rowName hyperv_dynamic_memory_vm_fields r])] @
     (if LTSC2019 os \<le> winBuild os then [(''vmMemoryGuestAvailableMemory'', GaugeValue, MBToBytes (num hyperv_dynamic_memory_vm_fields r ''VmMemoryGuestAvailableMemory''), [rowName hyperv_dynamic_memory_vm_fields r])] else []) @
     [(''vmMemoryGuestVisiblePhysicalMemory'', GaugeValue, MBToBytes (num hyperv_dynamic_memory_vm_fields r ''VmMemoryGuestVisiblePhysicalMemory''), [rowName hyperv_dynamic_memory_vm_fields r]),
      (''vmMemoryMaximumPressure'', GaugeValue, PercentageToRatio (num hyperv_dynamic_memory_vm_fields r ''VmMemoryMaximumPressure''), [rowName hyperv_dynamic_memory_vm_fields r]),
      (''vmMemoryMemoryAddOperations'', CounterValue, num hyperv_dynamic_memory_vm_fields r ''VmMemoryMemoryAddOperations'', [rowName hyperv_dynamic_memory_vm_fields r]),
      (''vmMemoryMemoryRemoveOperations'', CounterValue, num hyperv_dynamic_memory_vm_fields r ''VmMemoryMemoryRemoveOperations'', [rowName hyperv_dynamic_memory_vm_fields r]),
      (''vmMemoryMinimumPressure'', GaugeValue, PercentageToRatio (num hyperv_dynamic_memory_vm_fields r ''VmMemoryMinimumPressure''), [rowName hyperv_dynamic_memory_vm_fields r]),
      (''vmMemoryPhysicalMemory'', GaugeValue, MBToBytes (num hyperv_dynamic_memory_vm_fields r ''VmMemoryPhysicalMemory''), [rowName hyperv_dynamic_memory_vm_fields r]),
      (''vmMemoryRemovedMemory'', CounterValue, MBToBytes (num hyperv_dynamic_memory_vm_fields r ''VmMemoryRemovedMemory''), [rowName hyperv_dynamic_memory_vm_fields r])]"

definition hyperv_dynamic_memory_vm_build :: "'w pdh_api \<Rightarrow> u16 \<Rightarrow> 'w \<Rightarrow> (go_error option \<times> perfSource \<times> 'w) option" where
  "hyperv_dynamic_memory_vm_build api osBuild = perfBuild api osBuild ''failed to create Hyper-V Dynamic Memory VM collector: %w'' ''Hyper-V Dynamic Memory VM'' [''*''] hyperv_dynamic_memory_vm_fields"

definition hyperv_dynamic_memory_vm_collect :: "osversion \<Rightarrow> 'w pdh_api \<Rightarrow> perfSource \<Rightarrow> 'w \<Rightarrow> (perfSource, 'w) collected" where
  "hyperv_dynamic_memory_vm_collect os api = collectWith api hyperv_dynamic_memory_vm_fields ''failed to collect Hyper-V Dynamic Memory VM metrics: %w'' hyperv_dynamic_memory_vm_descs (eachRow (\<lambda>r. True) (hyperv_dynamic_memory_vm_lines os))"


section \<open>hypervisor_logical_processor\<close>

definition hyperv_hypervisor_logical_processor_fields :: "structField list" where
  "hyperv_hypervisor_logical_processor_fields =
     [nameField,
      perfField ''HypervisorLogicalProcessorGuestRunTimePercent'' ''% Guest Run Time'',
      perfField ''HypervisorLogicalProcessorHypervisorRunTimePercent'' ''% Hypervisor Run Time'',
      perfField ''HypervisorLogicalProcessorTotalRunTimePercent'' ''% Total Run Time'',
      perfField ''HypervisorLogicalProcessorIdleRunTimePercent'' ''% Idle Time'',
      perfField ''HypervisorLogicalProcessorContextSwitches'' ''Context Switches/sec'']"

definition hyperv_hypervisor_logical_processor_descs :: descTable where
  "hyperv_hypervisor_logical_processor_descs =
     [(''hypervisorLogicalProcessorTimeTotal'', NewDesc (BuildFQName Namespace ''hyperv'' ''hypervisor_logical_processor_time_total'')
        ''Time that processor spent in different modes (hypervisor, guest, idle)'' [''core'', ''state'']),
      (''hypervisorLogicalProcessorTotalRunTimeTotal'', NewDesc (BuildFQName Namespace ''hyperv'' ''hypervisor_logical_processor_total_run_time_total'')
        ''Time that processor spent'' [''core'']),
      (''hypervisorLogicalProcessorContextSwitches'', NewDesc (BuildFQName Namespace ''hyperv'' ''hypervisor_logical_processor_context_switches_total'')
        ''The rate of virtual processor context switches on the processor.'' [''core''])]"

definition hyperv_hypervisor_logical_processor_lines :: "string \<Rightarrow> row \<Rightarrow> line list" where
  "hyperv_hypervisor_logical_processor_lines core r =
     [(''hypervisorLogicalProcessorTimeTotal'', CounterValue, num hyperv_hypervisor_logical_processor_fields r ''HypervisorLogicalProcessorGuestRunTimePercent'', [core, ''guest'']),
      (''hypervisorLogicalProcessorTimeTotal'', CounterValue, num hyperv_hypervisor_logical_processor_fields r ''HypervisorLogicalProcessorHypervisorRunTimePercent'', [core, ''hypervisor'']),
      (''hypervisorLogicalProcessorTimeTotal'', CounterValue, num hyperv_hypervisor_logical_processor_fields r ''HypervisorLogicalProcessorIdleRunTimePercent'', [core, ''idle'']),
      (''hypervisorLogicalProcessorTotalRunTimeTotal'', CounterValue, num hyperv_hypervisor_logical_processor_fields r ''HypervisorLogicalProcessorTotalRunTimePercent'', [core]),
      (''hypervisorLogicalProcessorContextSwitches'', CounterValue, num hyperv_hypervisor_logical_processor_fields r ''HypervisorLogicalProcessorContextSwitches'', [core])]"

definition hyperv_hypervisor_logical_processor_row :: "row \<Rightarrow> go_error + line list" where
  "hyperv_hypervisor_logical_processor_row r =
     (case Split (rowName hyperv_hypervisor_logical_processor_fields r) (CHR '' '') of
        [a, b, core] \<Rightarrow> Inr (hyperv_hypervisor_logical_processor_lines core r)
      | _ \<Rightarrow> Inl (ErrorText ''unexpected Hyper-V Hypervisor Logical Processor name format: %s'' [rowName hyperv_hypervisor_logical_processor_fields r]))"

definition hyperv_hypervisor_logical_processor_build :: "'w pdh_api \<Rightarrow> u16 \<Rightarrow> 'w \<Rightarrow> (go_error option \<times> perfSource \<times> 'w) option" where
  "hyperv_hypervisor_logical_processor_build api osBuild = perfBuild api osBuild ''failed to create Hyper-V Hypervisor Logical Processor collector: %w'' ''Hyper-V Hypervisor Logical Processor'' [''*''] hyperv_hypervisor_logical_processor_fields"

definition hyperv_hypervisor_logical_processor_collect :: "'w pdh_api \<Rightarrow> perfSource \<Rightarrow> 'w \<Rightarrow> (perfSource, 'w) collected" where
  "hyperv_hypervisor_logical_processor_collect api = collectLoop api hyperv_hypervisor_logical_processor_fields ''failed to collect Hyper-V Hypervisor Logical Processor metrics: %w'' hyperv_hypervisor_logical_processor_descs hyperv_hypervisor_logical_processor_row"


section \<open>hypervisor_root_partition\<close>

definition hyperv_hypervisor_root_partition_fields :: "structField list" where
  "hyperv_hypervisor_root_partition_fields =
     [perfField ''HypervisorRootPartitionAddressSpaces'' ''Address Spaces'',
      perfField ''HypervisorRootPartitionAttachedDevices'' ''Attached Devices'',
      perfField ''HypervisorRootPartitionDepositedPages'' ''Deposited Pages'',
      perfField ''HypervisorRootPartitionDeviceDMAErrors'' ''Device DMA Errors'',
      perfField ''HypervisorRootPartitionDeviceInterruptErrors'' ''Device Interrupt Errors'',
      perfField ''HypervisorRootPartitionDeviceInterruptMappings'' ''Device Interrupt Mappings'',
      perfField ''HypervisorRootPartitionDeviceInterruptThrottleEvents'' ''Device Interrupt Throttle Events'',
      perfField ''HypervisorRootPartitionGPAPages'' ''GPA Pages'',
      perfField ''HypervisorRootPartitionGPASpaceModifications'' ''GPA Space Modifications/sec'',
      perfField ''HypervisorRootPartitionIOTLBFlushCost'' ''I/O TLB Flush Cost'',
      perfField ''HypervisorRootPartitionIOTLBFlushes'' ''I/O TLB Flushes/sec'',
      perfField ''HypervisorRootPartitionRecommendedVirtualTLBSize'' ''Recommended Virtual TLB Size'',
      perfField ''HypervisorRootPartitionSkippedTimerTicks'' ''Skipped Timer Ticks'',
      perfField ''HypervisorRootPartition1GDevicePages'' ''1G device pages'',
      perfField ''HypervisorRootPartition1GGPAPages'' ''1G GPA pages'',
      perfField ''HypervisorRootPartition2MDevicePages'' ''2M device pages'',
      perfField ''HypervisorRootPartition2MGPAPages'' ''2M GPA pages'',
      perfField ''HypervisorRootPartition4KDevicePages'' ''4K device pages'',
      perfField ''HypervisorRootPartition4KGPAPages'' ''4K GPA pages'',
      perfField ''HypervisorRootPartitionVirtualTLBFlushEntries'' ''Virtual TLB Flush Entires/sec'',
      perfField ''HypervisorRootPartitionVirtualTLBPages'' ''Virtual TLB Pages'']"

definition hyperv_hypervisor_root_partition_descs :: descTable where
  "hyperv_hypervisor_root_partition_descs =
     [(''hypervisorRootPartitionAddressSpaces'', NewDesc (BuildFQName Namespace ''hyperv'' ''root_partition_address_spaces'')
        ''The number of address spaces in the virtual TLB of the partition'' []),
      (''hypervisorRootPartitionAttachedDevices'', NewDesc (BuildFQName Namespace ''hyperv'' ''root_partition_attached_devices'')
        ''The number of devices attached to the partition'' []),
      (''hypervisorRootPartitionDepositedPages'', NewDesc (BuildFQName Namespace ''hyperv'' ''root_partition_deposited_pages'')
        ''The number of pages deposited into the partition'' []),
      (''hypervisorRootPartitionDeviceDMAErrors'', NewDesc (BuildFQName Namespace ''hyperv'' ''root_partition_device_dma_errors'')
        ''An indicator of illegal DMA requests generated by all devices assigned to the partition'' []),
      (''hypervisorRootPartitionDeviceInterruptErrors'', NewDesc (BuildFQName Namespace ''hyperv'' ''root_partition_device_interrupt_errors'')
        ''An indicator of illegal interrupt requests generated by all devices assigned to the partition'' []),
      (''hypervisorRootPartitionDeviceInterruptMappings'', NewDesc (BuildFQName Namespace ''hyperv'' ''root_partition_device_interrupt_mappings'')
        ''The number of device interrupt mappings used by the partition'' []),
      (''hypervisorRootPartitionDeviceInterruptThrottleEvents'', NewDesc (BuildFQName Namespace ''hyperv'' ''root_partition_device_interrupt_throttle_events'')
        ''The number of times an interrupt from a device assigned to the partition was temporarily throttled because the device was generating too many interrupts'' []),
      (''hypervisorRootPartitionGPAPages'', NewDesc (BuildFQName Namespace ''hyperv'' ''root_partition_preferred_numa_node_index'')
        ''The number of pages present in the GPA space of the partition (zero for root partition)'' []),
      (''hypervisorRootPartitionGPASpaceModifications'', NewDesc (BuildFQName Namespace ''hyperv'' ''root_partition_gpa_space_modifications'')
        ''The rate of modifications to the GPA space of the partition'' []),
      (''hypervisorRootPartitionIOTLBFlushCost'', NewDesc (BuildFQName Namespace ''hyperv'' ''root_partition_io_tlb_flush_cost'')
        ''The average time (in nanoseconds) spent processing an I/O TLB flush'' []),
      (''hypervisorRootPartitionIOTLBFlushes'', NewDesc (BuildFQName Namespace ''hyperv'' ''root_partition_io_tlb_flush'')
        ''The rate of flushes of I/O TLBs of the partition'' []),
      (''hypervisorRootPartitionRecommendedVirtualTLBSize'', NewDesc (BuildFQName Namespace ''hyperv'' ''root_partition_recommended_virtual_tlb_size'')
        ''The recommended number of pages to be deposited for the virtual TLB'' []),
      (''hypervisorRootPartitionSkippedTimerTicks'', NewDesc (BuildFQName Namespace ''hyperv'' ''root_partition_physical_pages_allocated'')
        ''The number of timer interrupts skipped for the partition'' []),
      (''hypervisorRootPartition1GDevicePages'', NewDesc (BuildFQName Namespace ''hyperv'' ''root_partition_1G_device_pages'')
        ''The number of 1G pages present in the device space of the partition'' []),
      (''hypervisorRootPartition1GGPAPages'', NewDesc (BuildFQName Namespace ''hyperv'' ''root_partition_1G_gpa_pages'')
        ''The number of 1G pages present in the GPA space of the partition'' []),
      (''hypervisorRootPartition2MDevicePages'', NewDesc (BuildFQName Namespace ''hyperv'' ''root_partition_2M_device_pages'')
        ''The number of 2M pages present in the device space of the partition'' []),
      (''hypervisorRootPartition2MGPAPages'', NewDesc (BuildFQName Namespace ''hyperv'' ''root_partition_2M_gpa_pages'')
        ''The number of 2M pages present in the GPA space of the partition'' []),
      (''hypervisorRootPartition4KDevicePages'', NewDesc (BuildFQName Namespace ''hyperv'' ''root_partition_4K_device_pages'')
        ''The number of 4K pages present in the device space of the partition'' []),
      (''hypervisorRootPartition4KGPAPages'', NewDesc (BuildFQName Namespace ''hyperv'' ''root_partition_4K_gpa_pages'')
        ''The number of 4K pages present in the GPA space of the partition'' []),
      (''hypervisorRootPartitionVirtualTLBFlushEntries'', NewDesc (BuildFQName Namespace ''hyperv'' ''root_partition_virtual_tlb_flush_entries'')
        ''The rate of flushes of the entire virtual TLB'' []),
      (''hypervisorRootPartitionVirtualTLBPages'', NewDesc (BuildFQName Namespace ''hyperv'' ''root_partition_virtual_tlb_pages'')
        ''The number of pages used by the virtual TLB of the partition'' [])]"

definition hyperv_hypervisor_root_partition_lines :: "row \<Rightarrow> line list" where
  "hyperv_hypervisor_root_partition_lines r =
     [(''hypervisorRootPartitionAddressSpaces'', GaugeValue, num hyperv_hypervisor_root_partition_fields r ''HypervisorRootPartitionAddressSpaces'', []),
      (''hypervisorRootPartitionAttachedDevices'', GaugeValue, num hyperv_hypervisor_root_partition_fields r ''HypervisorRootPartitionAttachedDevices'', []),
      (''hypervisorRootPartitionDepositedPages'', GaugeValue, num hyperv_hypervisor_root_partition_fields r ''HypervisorRootPartitionDepositedPages'', []),
      (''hypervisorRootPartitionDeviceDMAErrors'', GaugeValue, num hyperv_hypervisor_root_partition_fields r ''HypervisorRootPartitionDeviceDMAErrors'', []),
      (''hypervisorRootPartitionDeviceInterruptErrors'', GaugeValue, num hyperv_hypervisor_root_partition_fields r ''HypervisorRootPartitionDeviceInterruptErrors'', []),
      (''hypervisorRootPartitionDeviceInterruptThrottleEvents'', GaugeValue, num hyperv_hypervisor_root_partition_fields r ''HypervisorRootPartitionDeviceInterruptThrottleEvents'', []),
      (''hypervisorRootPartitionGPAPages'', GaugeValue, num hyperv_hypervisor_root_partition_fields r ''HypervisorRootPartitionGPAPages'', []),
      (''hypervisorRootPartitionGPASpaceModifications'', CounterValue, num hyperv_hypervisor_root_partition_fields r ''HypervisorRootPartitionGPASpaceModifications'', []),
      (''hypervisorRootPartitionIOTLBFlushCost'', GaugeValue, num hyperv_hypervisor_root_partition_fields r ''HypervisorRootPartitionIOTLBFlushCost'', []),
      (''hypervisorRootPartitionIOTLBFlushes'', CounterValue, num hyperv_hypervisor_root_partition_fields r ''HypervisorRootPartitionIOTLBFlushes'', []),
      (''hypervisorRootPartitionRecommendedVirtualTLBSize'', GaugeValue, num hyperv_hypervisor_root_partition_fields r ''HypervisorRootPartitionRecommendedVirtualTLBSize'', []),
      (''hypervisorRootPartitionSkippedTimerTicks'', GaugeValue, num hyperv_hypervisor_root_partition_fields r ''HypervisorRootPartitionSkippedTimerTicks'', []),
      (''hypervisorRootPartition1GDevicePages'', GaugeValue, num hyperv_hypervisor_root_partition_fields r ''HypervisorRootPartition1GDevicePages'', []),
      (''hypervisorRootPartition1GGPAPages'', GaugeValue, num hyperv_hypervisor_root_partition_fields r ''HypervisorRootPartition1GGPAPages'', []),
      (''hypervisorRootPartition2MDevicePages'', GaugeValue, num hyperv_hypervisor_root_partition_fields r ''HypervisorRootPartition2MDevicePages'', []),
      (''hypervisorRootPartition2MGPAPages'', GaugeValue, num hyperv_hypervisor_root_partition_fields r ''HypervisorRootPartition2MGPAPages'', []),
      (''hypervisorRootPartition4KDevicePages'', GaugeValue, num hyperv_hypervisor_root_partition_fields r ''HypervisorRootPartition4KDevicePages'', []),
      (''hypervisorRootPartition4KGPAPages'', GaugeValue, num hyperv_hypervisor_root_partition_fields r ''HypervisorRootPartition4KGPAPages'', []),
      (''hypervisorRootPartitionVirtualTLBFlushEntries'', CounterValue, num hyperv_hypervisor_root_partition_fields r ''HypervisorRootPartitionVirtualTLBFlushEntries'', []),
      (''hypervisorRootPartitionVirtualTLBPages'', GaugeValue, num hyperv_hypervisor_root_partition_fields r ''HypervisorRootPartitionVirtualTLBPages'', [])]"

definition hyperv_hypervisor_root_partition_build :: "'w pdh_api \<Rightarrow> u16 \<Rightarrow> 'w \<Rightarrow> (go_error option \<times> perfSource \<times> 'w) option" where
  "hyperv_hypervisor_root_partition_build api osBuild = perfBuild api osBuild ''failed to create Hyper-V Hypervisor Root Partition collector: %w'' ''Hyper-V Hypervisor Root Partition'' [''Root''] hyperv_hypervisor_root_partition_fields"

definition hyperv_hypervisor_root_partition_collect :: "'w pdh_api \<Rightarrow> perfSource \<Rightarrow> 'w \<Rightarrow> (perfSource, 'w) collected" where
  "hyperv_hypervisor_root_partition_collect api = collectIndex api hyperv_hypervisor_root_partition_fields ''failed to collect Hyper-V Hypervisor Root Partition metrics: %w'' hyperv_hypervisor_root_partition_descs hyperv_hypervisor_root_partition_lines"


section \<open>hypervisor_root_virtual_processor\<close>

definition hyperv_hypervisor_root_virtual_processor_fields :: "structField list" where
  "hyperv_hypervisor_root_virtual_processor_fields =
     [nameField,
      perfField ''HypervisorRootVirtualProcessorGuestRunTimePercent'' ''% Guest Run Time'',
      perfField ''HypervisorRootVirtualProcessorHypervisorRunTimePercent'' ''% Hypervisor Run Time'',
      perfField ''HypervisorRootVirtualProcessorTotalRunTimePercent'' ''% Total Run Time'',
      perfField ''HypervisorRootVirtualProcessorRemoteRunTimePercent'' ''% Remote Run Time'',
      perfField ''HypervisorRootVirtualProcessorCPUWaitTimePerDispatch'' ''CPU Wait Time Per Dispatch'']"

definition hyperv_hypervisor_root_virtual_processor_descs :: descTable where
  "hyperv_hypervisor_root_virtual_processor_descs =
     [(''hypervisorRootVirtualProcessorTimeTotal'', NewDesc (BuildFQName Namespace ''hyperv'' ''hypervisor_root_virtual_processor_time_total'')
        ''Time that processor spent in different modes (hypervisor, guest_run, guest_idle, remote)'' [''core'', ''state'']),
      (''hypervisorRootVirtualProcessorTotalRunTimeTotal'', NewDesc (BuildFQName Namespace ''hyperv'' ''hypervisor_root_virtual_processor_total_run_time_total'')
        ''Time that processor spent'' [''core'']),
      (''hypervisorRootVirtualProcessorCPUWaitTimePerDispatch'', NewDesc (BuildFQName Namespace ''hyperv'' ''hypervisor_root_virtual_cpu_wait_time_per_dispatch_total'')
        ''The average time (in nanoseconds) spent waiting for a virtual processor to be dispatched onto a logical processor.'' [''core''])]"

definition hyperv_hypervisor_root_virtual_processor_lines :: "string \<Rightarrow> row \<Rightarrow> line list" where
  "hyperv_hypervisor_root_virtual_processor_lines core r =
     [(''hypervisorRootVirtualProcessorTimeTotal'', CounterValue, num hyperv_hypervisor_root_virtual_processor_fields r ''HypervisorRootVirtualProcessorGuestRunTimePercent'', [core, ''guest_run'']),
      (''hypervisorRootVirtualProcessorTimeTotal'', CounterValue, num hyperv_hypervisor_root_virtual_processor_fields r ''HypervisorRootVirtualProcessorHypervisorRunTimePercent'', [core, ''hypervisor'']),
      (''hypervisorRootVirtualProcessorTimeTotal'', CounterValue, num hyperv_hypervisor_root_virtual_processor_fields r ''HypervisorRootVirtualProcessorRemoteRunTimePercent'', [core, ''remote'']),
      (''hypervisorRootVirtualProcessorTotalRunTimeTotal'', CounterValue, num hyperv_hypervisor_root_virtual_processor_fields r ''HypervisorRootVirtualProcessorTotalRunTimePercent'', [core]),
      (''hypervisorRootVirtualProcessorCPUWaitTimePerDispatch'', CounterValue, num hyperv_hypervisor_root_virtual_processor_fields r ''HypervisorRootVirtualProcessorCPUWaitTimePerDispatch'', [core])]"

definition hyperv_hypervisor_root_virtual_processor_row :: "row \<Rightarrow> go_error + line list" where
  "hyperv_hypervisor_root_virtual_processor_row r =
     (case Split (rowName hyperv_hypervisor_root_virtual_processor_fields r) (CHR '' '') of
        [a, b, core] \<Rightarrow> Inr (hyperv_hypervisor_root_virtual_processor_lines core r)
      | _ \<Rightarrow> Inl (ErrorText ''unexpected Hyper-V Hypervisor Root Virtual Processor name format: %s'' [rowName hyperv_hypervisor_root_virtual_processor_fields r]))"

definition hyperv_hypervisor_root_virtual_processor_build :: "'w pdh_api \<Rightarrow> u16 \<Rightarrow> 'w \<Rightarrow> (go_error option \<times> perfSource \<times> 'w) option" where
  "hyperv_hypervisor_root_virtual_processor_build api osBuild = perfBuild api osBuild ''failed to create Hyper-V Hypervisor Root Virtual Processor collector: %w'' ''Hyper-V Hypervisor Root Virtual Processor'' [''*''] hyperv_hypervisor_root_virtual_processor_fields"

definition hyperv_hypervisor_root_virtual_processor_collect :: "'w pdh_api \<Rightarrow> perfSource \<Rightarrow> 'w \<Rightarrow> (perfSource, 'w) collected" where
  "hyperv_hypervisor_root_virtual_processor_collect api = collectLoop api hyperv_hypervisor_root_virtual_processor_fields ''failed to collect Hyper-V Hypervisor Root Virtual Processor metrics: %w'' hyperv_hypervisor_root_virtual_processor_descs hyperv_hypervisor_root_virtual_processor_row"


section \<open>hypervisor_virtual_processor\<close>

definition hyperv_hypervisor_virtual_processor_fields :: "structField list" where
  "hyperv_hypervisor_virtual_processor_fields =
     [nameField,
      perfField ''HypervisorVirtualProcessorGuestRunTimePercent'' ''% Guest Run Time'',
      perfField ''HypervisorVirtualProcessorHypervisorRunTimePercent'' ''% Hypervisor Run Time'',
      perfField ''HypervisorVirtualProcessorTotalRunTimePercent'' ''% Total Run Time'',
      perfField ''HypervisorVirtualProcessorRemoteRunTimePercent'' ''% Remote Run Time'',
      perfField ''HypervisorVirtualProcessorCPUWaitTimePerDispatch'' ''CPU Wait Time Per Dispatch'']"

definition hyperv_hypervisor_virtual_processor_descs :: descTable where
  "hyperv_hypervisor_virtual_processor_descs =
     [(''hypervisorVirtualProcessorTimeTotal'', NewDesc (BuildFQName Namespace ''hyperv'' ''hypervisor_virtual_processor_time_total'')
        ''Time that processor spent in different modes (hypervisor, guest_run, guest_idle, remote)'' [''vm'', ''core'', ''state'']),
      (''hypervisorVirtualProcessorTotalRunTimeTotal'', NewDesc (BuildFQName Namespace ''hyperv'' ''hypervisor_virtual_processor_total_run_time_total'')
        ''Time that processor spent'' [''vm'', ''core'']),
      (''hypervisorVirtualProcessorContextSwitches'', NewDesc (BuildFQName Namespace ''hyperv'' ''hypervisor_virtual_processor_cpu_wait_time_per_dispatch_total'')
        ''The average time (in nanoseconds) spent waiting for a virtual processor to be dispatched onto a logical processor.'' [''vm'', ''core''])]"

definition hyperv_hypervisor_virtual_processor_lines :: "string \<Rightarrow> string \<Rightarrow> row \<Rightarrow> line list" where
  "hyperv_hypervisor_virtual_processor_lines vm core r =
     [(''hypervisorVirtualProcessorTimeTotal'', CounterValue, num hyperv_hypervisor_virtual_processor_fields r ''HypervisorVirtualProcessorHypervisorRunTimePercent'', [vm, core, ''hypervisor'']),
      (''hypervisorVirtualProcessorTimeTotal'', CounterValue, num hyperv_hypervisor_virtual_processor_fields r ''HypervisorVirtualProcessorGuestRunTimePercent'', [vm, core, ''guest'']),
      (''hypervisorVirtualProcessorTimeTotal'', CounterValue, num hyperv_hypervisor_virtual_processor_fields r ''HypervisorVirtualProcessorRemoteRunTimePercent'', [vm, core, ''remote'']),
      (''hypervisorVirtualProcessorTotalRunTimeTotal'', CounterValue, num hyperv_hypervisor_virtual_processor_fields r ''HypervisorVirtualProcessorTotalRunTimePercent'', [vm, core]),
      (''hypervisorVirtualProcessorContextSwitches'', CounterValue, num hyperv_hypervisor_virtual_processor_fields r ''HypervisorVirtualProcessorCPUWaitTimePerDispatch'', [vm, core])]"

definition hyperv_hypervisor_virtual_processor_row :: "row \<Rightarrow> go_error + line list" where
  "hyperv_hypervisor_virtual_processor_row r =
     (case Split (rowName hyperv_hypervisor_virtual_processor_fields r) (CHR '':'') of
        [vm, corePart] \<Rightarrow>
          (case Split corePart (CHR '' '') of
             [a, b, core] \<Rightarrow> Inr (hyperv_hypervisor_virtual_processor_lines vm core r)
           | _ \<Rightarrow> Inl (ErrorText ''unexpected format of core identifier in Hyper-V Hypervisor Virtual Processor: %q, expected %q'' [corePart, ''Hv VP <vcore id>'']))
      | _ \<Rightarrow> Inl (ErrorText ''unexpected format of Name in Hyper-V Hypervisor Virtual Processor: %q, expected %q'' [rowName hyperv_hypervisor_virtual_processor_fields r, ''<VM Name>:Hv VP <vcore id>'']))"

definition hyperv_hypervisor_virtual_processor_build :: "'w pdh_api \<Rightarrow> u16 \<Rightarrow> 'w \<Rightarrow> (go_error option \<times> perfSource \<times> 'w) option" where
  "hyperv_hypervisor_virtual_processor_build api osBuild = perfBuild api osBuild ''failed to create Hyper-V Hypervisor Virtual Processor collector: %w'' ''Hyper-V Hypervisor Virtual Processor'' [''*''] hyperv_hypervisor_virtual_processor_fields"

definition hyperv_hypervisor_virtual_processor_collect :: "'w pdh_api \<Rightarrow> perfSource \<Rightarrow> 'w \<Rightarrow> (perfSource, 'w) collected" where
  "hyperv_hypervisor_virtual_processor_collect api = collectLoop api hyperv_hypervisor_virtual_processor_fields ''failed to collect Hyper-V Hypervisor Virtual Processor metrics: %w'' hyperv_hypervisor_virtual_processor_descs hyperv_hypervisor_virtual_processor_row"


section \<open>legacy_network_adapter\<close>

definition hyperv_legacy_network_adapter_fields :: "structField list" where
  "hyperv_legacy_network_adapter_fields =
     [nameField,
      perfField ''LegacyNetworkAdapterBytesDropped'' ''Bytes Dropped'',
      perfField ''LegacyNetworkAdapterBytesReceived'' ''Bytes Received/sec'',
      perfField ''LegacyNetworkAdapterBytesSent'' ''Bytes Sent/sec'',
      perfField ''LegacyNetworkAdapterFramesDropped'' ''Frames Dropped'',
      perfField ''LegacyNetworkAdapterFramesReceived'' ''Frames Received/sec'',
      perfField ''LegacyNetworkAdapterFramesSent'' ''Frames Sent/sec'']"

definition hyperv_legacy_network_adapter_descs :: descTable where
  "hyperv_legacy_network_adapter_descs =
     [(''legacyNetworkAdapterBytesDropped'', NewDesc (BuildFQName Namespace ''hyperv'' ''legacy_network_adapter_bytes_dropped_total'')
        ''Bytes Dropped is the number of bytes dropped on the network adapter'' [''adapter'']),
      (''legacyNetworkAdapterBytesReceived'', NewDesc (BuildFQName Namespace ''hyperv'' ''legacy_network_adapter_bytes_received_total'')
        ''Bytes received is the number of bytes received on the network adapter'' [''adapter'']),
      (''legacyNetworkAdapterBytesSent'', NewDesc (BuildFQName Namespace ''hyperv'' ''legacy_network_adapter_bytes_sent_total'')
        ''Bytes sent is the number of bytes sent over the network adapter'' [''adapter'']),
      (''legacyNetworkAdapterFramesDropped'', NewDesc (BuildFQName Namespace ''hyperv'' ''legacy_network_adapter_frames_dropped_total'')
        ''Frames Dropped is the number of frames dropped on the network adapter'' [''adapter'']),
      (''legacyNetworkAdapterFramesReceived'', NewDesc (BuildFQName Namespace ''hyperv'' ''legacy_network_adapter_frames_received_total'')
        ''Frames received is the number of frames received on the network adapter'' [''adapter'']),
      (''legacyNetworkAdapterFramesSent'', NewDesc (BuildFQName Namespace ''hyperv'' ''legacy_network_adapter_frames_sent_total'')
        ''Frames sent is the number of frames sent over the network adapter'' [''adapter''])]"

definition hyperv_legacy_network_adapter_lines :: "row \<Rightarrow> line list" where
  "hyperv_legacy_network_adapter_lines r =
     [(''legacyNetworkAdapterBytesDropped'', GaugeValue, num hyperv_legacy_network_adapter_fields r ''LegacyNetworkAdapterBytesDropped'', [rowName hyperv_legacy_network_adapter_fields r]),
      (''legacyNetworkAdapterBytesReceived'', CounterValue, num hyperv_legacy_network_adapter_fields r ''LegacyNetworkAdapterBytesReceived'', [rowName hyperv_legacy_network_adapter_fields r]),
      (''legacyNetworkAdapterBytesSent'', CounterValue, num hyperv_legacy_network_adapter_fields r ''LegacyNetworkAdapterBytesSent'', [rowName hyperv_legacy_network_adapter_fields r]),
      (''legacyNetworkAdapterFramesReceived'', CounterValue, num hyperv_legacy_network_adapter_fields r ''LegacyNetworkAdapterFramesReceived'', [rowName hyperv_legacy_network_adapter_fields r]),
      (''legacyNetworkAdapterFramesDropped'', CounterValue, num hyperv_legacy_network_adapter_fields r ''LegacyNetworkAdapterFramesDropped'', [rowName hyperv_legacy_network_adapter_fields r]),
      (''legacyNetworkAdapterFramesSent'', CounterValue, num hyperv_legacy_network_adapter_fields r ''LegacyNetworkAdapterFramesSent'', [rowName hyperv_legacy_network_adapter_fields r])]"

definition hyperv_legacy_network_adapter_build :: "'w pdh_api \<Rightarrow> u16 \<Rightarrow> 'w \<Rightarrow> (go_error option \<times> perfSource \<times> 'w) option" where
  "hyperv_legacy_network_adapter_build api osBuild = perfBuild api osBuild ''failed to create Hyper-V Legacy Network Adapter collector: %w'' ''Hyper-V Legacy Network Adapter'' [''*''] hyperv_legacy_network_adapter_fields"

definition hyperv_legacy_network_adapter_collect :: "'w pdh_api \<Rightarrow> perfSource \<Rightarrow> 'w \<Rightarrow> (perfSource, 'w) collected" where
  "hyperv_legacy_network_adapter_collect api = collectWith api hyperv_legacy_network_adapter_fields ''failed to collect Hyper-V Legacy Network Adapter metrics: %w'' hyperv_legacy_network_adapter_descs (eachRow (\<lambda>r. True) hyperv_legacy_network_adapter_lines)"


section \<open>virtual_machine_health_summary\<close>

definition hyperv_virtual_machine_health_summary_fields :: "structField list" where
  "hyperv_virtual_machine_health_summary_fields =
     [perfField ''HealthCritical'' ''Health Critical'',
      perfField ''HealthOk'' ''Health Ok'']"

definition hyperv_virtual_machine_health_summary_descs :: descTable where
  "hyperv_virtual_machine_health_summary_descs =
     [(''health'', NewDesc (BuildFQName Namespace ''hyperv'' ''virtual_machine_health_total_count'')
        ''Represents the number of virtual machines with critical health'' [''state''])]"

definition hyperv_virtual_machine_health_summary_lines :: "row \<Rightarrow> line list" where
  "hyperv_virtual_machine_health_summary_lines r =
     [(''health'', GaugeValue, num hyperv_virtual_machine_health_summary_fields r ''HealthCritical'', [''critical'']),
      (''health'', GaugeValue, num hyperv_virtual_machine_health_summary_fields r ''HealthOk'', [''ok''])]"

definition hyperv_virtual_machine_health_summary_build :: "'w pdh_api \<Rightarrow> u16 \<Rightarrow> 'w \<Rightarrow> (go_error option \<times> perfSource \<times> 'w) option" where
  "hyperv_virtual_machine_health_summary_build api osBuild = perfBuild api osBuild ''failed to create Hyper-V Virtual Machine Health Summary collector: %w'' ''Hyper-V Virtual Machine Health Summary'' [] hyperv_virtual_machine_health_summary_fields"

definition hyperv_virtual_machine_health_summary_collect :: "'w pdh_api \<Rightarrow> perfSource \<Rightarrow> 'w \<Rightarrow> (perfSource, 'w) collected" where
  "hyperv_virtual_machine_health_summary_collect api = collectIndex api hyperv_virtual_machine_health_summary_fields ''failed to collect Hyper-V Virtual Machine Health Summary metrics: %w'' hyperv_virtual_machine_health_summary_descs hyperv_virtual_machine_health_summary_lines"


section \<open>virtual_machine_vid_partition\<close>

definition hyperv_virtual_machine_vid_partition_fields :: "structField list" where
  "hyperv_virtual_machine_vid_partition_fields =
     [nameField,
      perfField ''PhysicalPagesAllocated'' ''Physical Pages Allocated'',
      perfField ''PreferredNUMANodeIndex'' ''Preferred NUMA Node Index'',
      perfField ''RemotePhysicalPages'' ''Remote Physical Pages'']"

definition hyperv_virtual_machine_vid_partition_descs :: descTable where
  "hyperv_virtual_machine_vid_partition_descs =
     [(''physicalPagesAllocated'', NewDesc (BuildFQName Namespace ''hyperv'' ''vid_physical_pages_allocated'')
        ''The number of physical pages allocated'' [''vm'']),
      (''preferredNUMANodeIndex'', NewDesc (BuildFQName Namespace ''hyperv'' ''vid_preferred_numa_node_index'')
        ''The preferred NUMA node index associated with this partition'' [''vm'']),
      (''remotePhysicalPages'', NewDesc (BuildFQName Namespace ''hyperv'' ''vid_remote_physical_pages'')
        ''The number of physical pages not allocated from the preferred NUMA node'' [''vm''])]"

definition hyperv_virtual_machine_vid_partition_lines :: "row \<Rightarrow> line list" where
  "hyperv_virtual_machine_vid_partition_lines r =
     [(''physicalPagesAllocated'', GaugeValue, num hyperv_virtual_machine_vid_partition_fields r ''PhysicalPagesAllocated'', [rowName hyperv_virtual_machine_vid_partition_fields r]),
      (''preferredNUMANodeIndex'', GaugeValue, num hyperv_virtual_machine_vid_partition_fields r ''PreferredNUMANodeIndex'', [rowName hyperv_virtual_machine_vid_partition_fields r]),
      (''remotePhysicalPages'', GaugeValue, num hyperv_virtual_machine_vid_partition_fields r ''RemotePhysicalPages'', [rowName hyperv_virtual_machine_vid_partition_fields r])]"

definition hyperv_virtual_machine_vid_partition_build :: "'w pdh_api \<Rightarrow> u16 \<Rightarrow> 'w \<Rightarrow> (go_error option \<times> perfSource \<times> 'w) option" where
  "hyperv_virtual_machine_vid_partition_build api osBuild = perfBuild api osBuild ''failed to create Hyper-V VM Vid Partition collector: %w'' ''Hyper-V VM Vid Partition'' [''*''] hyperv_virtual_machine_vid_partition_fields"

definition hyperv_virtual_machine_vid_partition_collect :: "'w pdh_api \<Rightarrow> perfSource \<Rightarrow> 'w \<Rightarrow> (perfSource, 'w) collected" where
  "hyperv_virtual_machine_vid_partition_collect api = collectWith api hyperv_virtual_machine_vid_partition_fields ''failed to collect Hyper-V VM Vid Partition metrics: %w'' hyperv_virtual_machine_vid_partition_descs (eachRow (\<lambda>r. True) hyperv_virtual_machine_vid_partition_lines)"


section \<open>virtual_network_adapter\<close>

definition hyperv_virtual_network_adapter_fields :: "structField list" where
  "hyperv_virtual_network_adapter_fields =
     [nameField,
      perfField ''VirtualNetworkAdapterBytesReceived'' ''Bytes Received/sec'',
      perfField ''VirtualNetworkAdapterBytesSent'' ''Bytes Sent/sec'',
      perfField ''VirtualNetworkAdapterDroppedPacketsIncoming'' ''Dropped Packets Incoming/sec'',
      perfField ''VirtualNetworkAdapterDroppedPacketsOutgoing'' ''Dropped Packets Outgoing/sec'',
      perfField ''VirtualNetworkAdapterPacketsReceived'' ''Packets Received/sec'',
      perfField ''VirtualNetworkAdapterPacketsSent'' ''Packets Sent/sec'']"

definition hyperv_virtual_network_adapter_descs :: descTable where
  "hyperv_virtual_network_adapter_descs =
     [(''virtualNetworkAdapterBytesReceived'', NewDesc (BuildFQName Namespace ''hyperv'' ''virtual_network_adapter_received_bytes_total'')
        ''Represents the total number of bytes received per second by the network adapter'' [''adapter'']),
      (''virtualNetworkAdapterBytesSent'', NewDesc (BuildFQName Namespace ''hyperv'' ''virtual_network_adapter_sent_bytes_total'')
        ''Represents the total number of bytes sent per second by the network adapter'' [''adapter'']),
      (''virtualNetworkAdapterDroppedPacketsIncoming'', NewDesc (BuildFQName Namespace ''hyperv'' ''virtual_network_adapter_incoming_dropped_packets_total'')
        ''Represents the total number of dropped packets per second in the incoming direction of the network adapter'' [''adapter'']),
      (''virtualNetworkAdapterDroppedPacketsOutgoing'', NewDesc (BuildFQName Namespace ''hyperv'' ''virtual_network_adapter_outgoing_dropped_packets_total'')
        ''Represents the total number of dropped packets per second in the outgoing direction of the network adapter'' [''adapter'']),
      (''virtualNetworkAdapterPacketsReceived'', NewDesc (BuildFQName Namespace ''hyperv'' ''virtual_network_adapter_received_packets_total'')
        ''Represents the total number of packets received per second by the network adapter'' [''adapter'']),
      (''virtualNetworkAdapterPacketsSent'', NewDesc (BuildFQName Namespace ''hyperv'' ''virtual_network_adapter_sent_packets_total'')
        ''Represents the total number of packets sent per second by the network adapter'' [''adapter''])]"

definition hyperv_virtual_network_adapter_lines :: "row \<Rightarrow> line list" where
  "hyperv_virtual_network_adapter_lines r =
     [(''virtualNetworkAdapterBytesReceived'', CounterValue, num hyperv_virtual_network_adapter_fields r ''VirtualNetworkAdapterBytesReceived'', [rowName hyperv_virtual_network_adapter_fields r]),
      (''virtualNetworkAdapterBytesSent'', CounterValue, num hyperv_virtual_network_adapter_fields r ''VirtualNetworkAdapterBytesSent'', [rowName hyperv_virtual_network_adapter_fields r]),
      (''virtualNetworkAdapterDroppedPacketsIncoming'', CounterValue, num hyperv_virtual_network_adapter_fields r ''VirtualNetworkAdapterDroppedPacketsIncoming'', [rowName hyperv_virtual_network_adapter_fields r]),
      (''virtualNetworkAdapterDroppedPacketsOutgoing'', CounterValue, num hyperv_virtual_network_adapter_fields r ''VirtualNetworkAdapterDroppedPacketsOutgoing'', [rowName hyperv_virtual_network_adapter_fields r]),
      (''virtualNetworkAdapterPacketsReceived'', CounterValue, num hyperv_virtual_network_adapter_fields r ''VirtualNetworkAdapterPacketsReceived'', [rowName hyperv_virtual_network_adapter_fields r]),
      (''virtualNetworkAdapterPacketsSent'', CounterValue, num hyperv_virtual_network_adapter_fields r ''VirtualNetworkAdapterPacketsSent'', [rowName hyperv_virtual_network_adapter_fields r])]"

definition hyperv_virtual_network_adapter_build :: "'w pdh_api \<Rightarrow> u16 \<Rightarrow> 'w \<Rightarrow> (go_error option \<times> perfSource \<times> 'w) option" where
  "hyperv_virtual_network_adapter_build api osBuild = perfBuild api osBuild ''failed to create Hyper-V Virtual Network Adapter collector: %w'' ''Hyper-V Virtual Network Adapter'' [''*''] hyperv_virtual_network_adapter_fields"

definition hyperv_virtual_network_adapter_collect :: "'w pdh_api \<Rightarrow> perfSource \<Rightarrow> 'w \<Rightarrow> (perfSource, 'w) collected" where
  "hyperv_virtual_network_adapter_collect api = collectWith api hyperv_virtual_network_adapter_fields ''failed to collect Hyper-V Virtual Network Adapter metrics: %w'' hyperv_virtual_network_adapter_descs (eachRow (\<lambda>r. True) hyperv_virtual_network_adapter_lines)"


section \<open>virtual_network_adapter_drop_reasons\<close>

definition hyperv_virtual_network_adapter_drop_reasons_fields :: "structField list" where
  "hyperv_virtual_network_adapter_drop_reasons_fields =
     [nameField,
      perfField ''VirtualNetworkAdapterDropReasonsOutgoingNativeFwdingReq'' ''Outgoing NativeFwdingReq'',
      perfField ''VirtualNetworkAdapterDropReasonsIncomingNativeFwdingReq'' ''Incoming NativeFwdingReq'',
      perfField ''VirtualNetworkAdapterDropReasonsOutgoingMTUMismatch'' ''Outgoing MTUMismatch'',
      perfField ''VirtualNetworkAdapterDropReasonsIncomingMTUMismatch'' ''Incoming MTUMismatch'',
      perfField ''VirtualNetworkAdapterDropReasonsOutgoingInvalidConfig'' ''Outgoing InvalidConfig'',
      perfField ''VirtualNetworkAdapterDropReasonsIncomingInvalidConfig'' ''Incoming InvalidConfig'',
      perfField ''VirtualNetworkAdapterDropReasonsOutgoingRequiredExtensionMissing'' ''Outgoing RequiredExtensionMissing'',
      perfField ''VirtualNetworkAdapterDropReasonsIncomingRequiredExtensionMissing'' ''Incoming RequiredExtensionMissing'',
      perfField ''VirtualNetworkAdapterDropReasonsOutgoingVirtualSubnetId'' ''Outgoing VirtualSubnetId'',
      perfField ''VirtualNetworkAdapterDropReasonsIncomingVirtualSubnetId'' ''Incoming VirtualSubnetId'',
      perfField ''VirtualNetworkAdapterDropReasonsOutgoingBridgeReserved'' ''Outgoing BridgeReserved'',
      perfField ''VirtualNetworkAdapterDropReasonsIncomingBridgeReserved'' ''Incoming BridgeReserved'',
      perfField ''VirtualNetworkAdapterDropReasonsOutgoingRouterGuard'' ''Outgoing RouterGuard'',
      perfField ''VirtualNetworkAdapterDropReasonsIncomingRouterGuard'' ''Incoming RouterGuard'',
      perfField ''VirtualNetworkAdapterDropReasonsOutgoingDhcpGuard'' ''Outgoing DhcpGuard'',
      perfField ''VirtualNetworkAdapterDropReasonsIncomingDhcpGuard'' ''Incoming DhcpGuard'',
      perfField ''VirtualNetworkAdapterDropReasonsOutgoingMacSpoofing'' ''Outgoing MacSpoofing'',
      perfField ''VirtualNetworkAdapterDropReasonsIncomingMacSpoofing'' ''Incoming MacSpoofing'',
      perfField ''VirtualNetworkAdapterDropReasonsOutgoingIpsec'' ''Outgoing Ipsec'',
      perfField ''VirtualNetworkAdapterDropReasonsIncomingIpsec'' ''Incoming Ipsec'',
      perfField ''VirtualNetworkAdapterDropReasonsOutgoingQos'' ''Outgoing Qos'',
      perfField ''VirtualNetworkAdapterDropReasonsIncomingQos'' ''Incoming Qos'',
      perfField ''VirtualNetworkAdapterDropReasonsOutgoingFailedPvlanSetting'' ''Outgoing FailedPvlanSetting'',
      perfField ''VirtualNetworkAdapterDropReasonsIncomingFailedPvlanSetting'' ''Incoming FailedPvlanSetting'',
      perfField ''VirtualNetworkAdapterDropReasonsOutgoingFailedSecurityPolicy'' ''Outgoing FailedSecurityPolicy'',
      perfField ''VirtualNetworkAdapterDropReasonsIncomingFailedSecurityPolicy'' ''Incoming FailedSecurityPolicy'',
      perfField ''VirtualNetworkAdapterDropReasonsOutgoingUnauthorizedMAC'' ''Outgoing UnauthorizedMAC'',
      perfField ''VirtualNetworkAdapterDropReasonsIncomingUnauthorizedMAC'' ''Incoming UnauthorizedMAC'',
      perfField ''VirtualNetworkAdapterDropReasonsOutgoingUnauthorizedVLAN'' ''Outgoing UnauthorizedVLAN'',
      perfField ''VirtualNetworkAdapterDropReasonsIncomingUnauthorizedVLAN'' ''Incoming UnauthorizedVLAN'',
      perfField ''VirtualNetworkAdapterDropReasonsOutgoingFilteredVLAN'' ''Outgoing FilteredVLAN'',
      perfField ''VirtualNetworkAdapterDropReasonsIncomingFilteredVLAN'' ''Incoming FilteredVLAN'',
      perfField ''VirtualNetworkAdapterDropReasonsOutgoingFiltered'' ''Outgoing Filtered'',
      perfField ''VirtualNetworkAdapterDropReasonsIncomingFiltered'' ''Incoming Filtered'',
      perfField ''VirtualNetworkAdapterDropReasonsOutgoingBusy'' ''Outgoing Busy'',
      perfField ''VirtualNetworkAdapterDropReasonsIncomingBusy'' ''Incoming Busy'',
      perfField ''VirtualNetworkAdapterDropReasonsOutgoingNotAccepted'' ''Outgoing NotAccepted'',
      perfField ''VirtualNetworkAdapterDropReasonsIncomingNotAccepted'' ''Incoming NotAccepted'',
      perfField ''VirtualNetworkAdapterDropReasonsOutgoingDisconnected'' ''Outgoing Disconnected'',
      perfField ''VirtualNetworkAdapterDropReasonsIncomingDisconnected'' ''Incoming Disconnected'',
      perfField ''VirtualNetworkAdapterDropReasonsOutgoingNotReady'' ''Outgoing NotReady'',
      perfField ''VirtualNetworkAdapterDropReasonsIncomingNotReady'' ''Incoming NotReady'',
      perfField ''VirtualNetworkAdapterDropReasonsOutgoingResources'' ''Outgoing Resources'',
      perfField ''VirtualNetworkAdapterDropReasonsIncomingResources'' ''Incoming Resources'',
      perfField ''VirtualNetworkAdapterDropReasonsOutgoingInvalidPacket'' ''Outgoing InvalidPacket'',
      perfField ''VirtualNetworkAdapterDropReasonsIncomingInvalidPacket'' ''Incoming InvalidPacket'',
      perfField ''VirtualNetworkAdapterDropReasonsOutgoingInvalidData'' ''Outgoing InvalidData'',
      perfField ''VirtualNetworkAdapterDropReasonsIncomingInvalidData'' ''Incoming InvalidData'',
      perfField ''VirtualNetworkAdapterDropReasonsOutgoingUnknown'' ''Outgoing Unknown'',
      perfField ''VirtualNetworkAdapterDropReasonsIncomingUnknown'' ''Incoming Unknown'']"

definition hyperv_virtual_network_adapter_drop_reasons_descs :: descTable where
  "hyperv_virtual_network_adapter_drop_reasons_descs =
     [(''virtualNetworkAdapterDropReasons'', NewDesc (BuildFQName Namespace ''hyperv'' ''virtual_network_adapter_drop_reasons'')
        ''Hyper-V Virtual Network Adapter Drop Reasons'' [''adapter'', ''reason'', ''direction''])]"

definition hyperv_virtual_network_adapter_drop_reasons_lines :: "row \<Rightarrow> line list" where
  "hyperv_virtual_network_adapter_drop_reasons_lines r =
     [(''virtualNetworkAdapterDropReasons'', CounterValue, num hyperv_virtual_network_adapter_drop_reasons_fields r ''VirtualNetworkAdapterDropReasonsOutgoingNativeFwdingReq'', [rowName hyperv_virtual_network_adapter_drop_reasons_fields r, ''NativeFwdingReq'', ''outgoing'']),
      (''virtualNetworkAdapterDropReasons'', CounterValue, num hyperv_virtual_network_adapter_drop_reasons_fields r ''VirtualNetworkAdapterDropReasonsIncomingNativeFwdingReq'', [rowName hyperv_virtual_network_adapter_drop_reasons_fields r, ''NativeFwdingReq'', ''incoming'']),
      (''virtualNetworkAdapterDropReasons'', CounterValue, num hyperv_virtual_network_adapter_drop_reasons_fields r ''VirtualNetworkAdapterDropReasonsOutgoingMTUMismatch'', [rowName hyperv_virtual_network_adapter_drop_reasons_fields r, ''MTUMismatch'', ''outgoing'']),
      (''virtualNetworkAdapterDropReasons'', CounterValue, num hyperv_virtual_network_adapter_drop_reasons_fields r ''VirtualNetworkAdapterDropReasonsIncomingMTUMismatch'', [rowName hyperv_virtual_network_adapter_drop_reasons_fields r, ''MTUMismatch'', ''incoming'']),
      (''virtualNetworkAdapterDropReasons'', CounterValue, num hyperv_virtual_network_adapter_drop_reasons_fields r ''VirtualNetworkAdapterDropReasonsOutgoingInvalidConfig'', [rowName hyperv_virtual_network_adapter_drop_reasons_fields r, ''InvalidConfig'', ''outgoing'']),
      (''virtualNetworkAdapterDropReasons'', CounterValue, num hyperv_virtual_network_adapter_drop_reasons_fields r ''VirtualNetworkAdapterDropReasonsIncomingInvalidConfig'', [rowName hyperv_virtual_network_adapter_drop_reasons_fields r, ''InvalidConfig'', ''incoming'']),
      (''virtualNetworkAdapterDropReasons'', CounterValue, num hyperv_virtual_network_adapter_drop_reasons_fields r ''VirtualNetworkAdapterDropReasonsOutgoingRequiredExtensionMissing'', [rowName hyperv_virtual_network_adapter_drop_reasons_fields r, ''RequiredExtensionMissing'', ''outgoing'']),
      (''virtualNetworkAdapterDropReasons'', CounterValue, num hyperv_virtual_network_adapter_drop_reasons_fields r ''VirtualNetworkAdapterDropReasonsIncomingRequiredExtensionMissing'', [rowName hyperv_virtual_network_adapter_drop_reasons_fields r, ''RequiredExtensionMissing'', ''incoming'']),
      (''virtualNetworkAdapterDropReasons'', CounterValue, num hyperv_virtual_network_adapter_drop_reasons_fields r ''VirtualNetworkAdapterDropReasonsOutgoingVirtualSubnetId'', [rowName hyperv_virtual_network_adapter_drop_reasons_fields r, ''VirtualSubnetId'', ''outgoing'']),
      (''virtualNetworkAdapterDropReasons'', CounterValue, num hyperv_virtual_network_adapter_drop_reasons_fields r ''VirtualNetworkAdapterDropReasonsIncomingVirtualSubnetId'', [rowName hyperv_virtual_network_adapter_drop_reasons_fields r, ''VirtualSubnetId'', ''incoming'']),
      (''virtualNetworkAdapterDropReasons'', CounterValue, num hyperv_virtual_network_adapter_drop_reasons_fields r ''VirtualNetworkAdapterDropReasonsOutgoingBridgeReserved'', [rowName hyperv_virtual_network_adapter_drop_reasons_fields r, ''BridgeReserved'', ''outgoing'']),
      (''virtualNetworkAdapterDropReasons'', CounterValue, num hyperv_virtual_network_adapter_drop_reasons_fields r ''VirtualNetworkAdapterDropReasonsIncomingBridgeReserved'', [rowName hyperv_virtual_network_adapter_drop_reasons_fields r, ''BridgeReserved'', ''incoming'']),
      (''virtualNetworkAdapterDropReasons'', CounterValue, num hyperv_virtual_network_adapter_drop_reasons_fields r ''VirtualNetworkAdapterDropReasonsOutgoingRouterGuard'', [rowName hyperv_virtual_network_adapter_drop_reasons_fields r, ''RouterGuard'', ''outgoing'']),
      (''virtualNetworkAdapterDropReasons'', CounterValue, num hyperv_virtual_network_adapter_drop_reasons_fields r ''VirtualNetworkAdapterDropReasonsIncomingRouterGuard'', [rowName hyperv_virtual_network_adapter_drop_reasons_fields r, ''RouterGuard'', ''incoming'']),
      (''virtualNetworkAdapterDropReasons'', CounterValue, num hyperv_virtual_network_adapter_drop_reasons_fields r ''VirtualNetworkAdapterDropReasonsOutgoingDhcpGuard'', [rowName hyperv_virtual_network_adapter_drop_reasons_fields r, ''DhcpGuard'', ''outgoing'']),
      (''virtualNetworkAdapterDropReasons'', CounterValue, num hyperv_virtual_network_adapter_drop_reasons_fields r ''VirtualNetworkAdapterDropReasonsIncomingDhcpGuard'', [rowName hyperv_virtual_network_adapter_drop_reasons_fields r, ''DhcpGuard'', ''incoming'']),
      (''virtualNetworkAdapterDropReasons'', CounterValue, num hyperv_virtual_network_adapter_drop_reasons_fields r ''VirtualNetworkAdapterDropReasonsOutgoingMacSpoofing'', [rowName hyperv_virtual_network_adapter_drop_reasons_fields r, ''MacSpoofing'', ''outgoing'']),
      (''virtualNetworkAdapterDropReasons'', CounterValue, num hyperv_virtual_network_adapter_drop_reasons_fields r ''VirtualNetworkAdapterDropReasonsIncomingMacSpoofing'', [rowName hyperv_virtual_network_adapter_drop_reasons_fields r, ''MacSpoofing'', ''incoming'']),
      (''virtualNetworkAdapterDropReasons'', CounterValue, num hyperv_virtual_network_adapter_drop_reasons_fields r ''VirtualNetworkAdapterDropReasonsOutgoingIpsec'', [rowName hyperv_virtual_network_adapter_drop_reasons_fields r, ''Ipsec'', ''outgoing'']),
      (''virtualNetworkAdapterDropReasons'', CounterValue, num hyperv_virtual_network_adapter_drop_reasons_fields r ''VirtualNetworkAdapterDropReasonsIncomingIpsec'', [rowName hyperv_virtual_network_adapter_drop_reasons_fields r, ''Ipsec'', ''incoming'']),
      (''virtualNetworkAdapterDropReasons'', CounterValue, num hyperv_virtual_network_adapter_drop_reasons_fields r ''VirtualNetworkAdapterDropReasonsOutgoingQos'', [rowName hyperv_virtual_network_adapter_drop_reasons_fields r, ''Qos'', ''outgoing'']),
      (''virtualNetworkAdapterDropReasons'', CounterValue, num hyperv_virtual_network_adapter_drop_reasons_fields r ''VirtualNetworkAdapterDropReasonsIncomingQos'', [rowName hyperv_virtual_network_adapter_drop_reasons_fields r, ''Qos'', ''incoming'']),
      (''virtualNetworkAdapterDropReasons'', CounterValue, num hyperv_virtual_network_adapter_drop_reasons_fields r ''VirtualNetworkAdapterDropReasonsOutgoingFailedPvlanSetting'', [rowName hyperv_virtual_network_adapter_drop_reasons_fields r, ''FailedPvlanSetting'', ''outgoing'']),
      (''virtualNetworkAdapterDropReasons'', CounterValue, num hyperv_virtual_network_adapter_drop_reasons_fields r ''VirtualNetworkAdapterDropReasonsIncomingFailedPvlanSetting'', [rowName hyperv_virtual_network_adapter_drop_reasons_fields r, ''FailedPvlanSetting'', ''incoming'']),
      (''virtualNetworkAdapterDropReasons'', CounterValue, num hyperv_virtual_network_adapter_drop_reasons_fields r ''VirtualNetworkAdapterDropReasonsOutgoingFailedSecurityPolicy'', [rowName hyperv_virtual_network_adapter_drop_reasons_fields r, ''FailedSecurityPolicy'', ''outgoing'']),
      (''virtualNetworkAdapterDropReasons'', CounterValue, num hyperv_virtual_network_adapter_drop_reasons_fields r ''VirtualNetworkAdapterDropReasonsIncomingFailedSecurityPolicy'', [rowName hyperv_virtual_network_adapter_drop_reasons_fields r, ''FailedSecurityPolicy'', ''incoming'']),
      (''virtualNetworkAdapterDropReasons'', CounterValue, num hyperv_virtual_network_adapter_drop_reasons_fields r ''VirtualNetworkAdapterDropReasonsOutgoingUnauthorizedMAC'', [rowName hyperv_virtual_network_adapter_drop_reasons_fields r, ''UnauthorizedMAC'', ''outgoing'']),
      (''virtualNetworkAdapterDropReasons'', CounterValue, num hyperv_virtual_network_adapter_drop_reasons_fields r ''VirtualNetworkAdapterDropReasonsIncomingUnauthorizedMAC'', [rowName hyperv_virtual_network_adapter_drop_reasons_fields r, ''UnauthorizedMAC'', ''incoming'']),
      (''virtualNetworkAdapterDropReasons'', CounterValue, num hyperv_virtual_network_adapter_drop_reasons_fields r ''VirtualNetworkAdapterDropReasonsOutgoingUnauthorizedVLAN'', [rowName hyperv_virtual_network_adapter_drop_reasons_fields r, ''UnauthorizedVLAN'', ''outgoing'']),
      (''virtualNetworkAdapterDropReasons'', CounterValue, num hyperv_virtual_network_adapter_drop_reasons_fields r ''VirtualNetworkAdapterDropReasonsIncomingUnauthorizedVLAN'', [rowName hyperv_virtual_network_adapter_drop_reasons_fields r, ''UnauthorizedVLAN'', ''incoming'']),
      (''virtualNetworkAdapterDropReasons'', CounterValue, num hyperv_virtual_network_adapter_drop_reasons_fields r ''VirtualNetworkAdapterDropReasonsOutgoingFilteredVLAN'', [rowName hyperv_virtual_network_adapter_drop_reasons_fields r, ''FilteredVLAN'', ''outgoing'']),
      (''virtualNetworkAdapterDropReasons'', CounterValue, num hyperv_virtual_network_adapter_drop_reasons_fields r ''VirtualNetworkAdapterDropReasonsIncomingFilteredVLAN'', [rowName hyperv_virtual_network_adapter_drop_reasons_fields r, ''FilteredVLAN'', ''incoming'']),
      (''virtualNetworkAdapterDropReasons'', CounterValue, num hyperv_virtual_network_adapter_drop_reasons_fields r ''VirtualNetworkAdapterDropReasonsOutgoingFiltered'', [rowName hyperv_virtual_network_adapter_drop_reasons_fields r, ''Filtered'', ''outgoing'']),
      (''virtualNetworkAdapterDropReasons'', CounterValue, num hyperv_virtual_network_adapter_drop_reasons_fields r ''VirtualNetworkAdapterDropReasonsIncomingFiltered'', [rowName hyperv_virtual_network_adapter_drop_reasons_fields r, ''Filtered'', ''incoming'']),
      (''virtualNetworkAdapterDropReasons'', CounterValue, num hyperv_virtual_network_adapter_drop_reasons_fields r ''VirtualNetworkAdapterDropReasonsOutgoingBusy'', [rowName hyperv_virtual_network_adapter_drop_reasons_fields r, ''Busy'', ''outgoing'']),
      (''virtualNetworkAdapterDropReasons'', CounterValue, num hyperv_virtual_network_adapter_drop_reasons_fields r ''VirtualNetworkAdapterDropReasonsIncomingBusy'', [rowName hyperv_virtual_network_adapter_drop_reasons_fields r, ''Busy'', ''incoming'']),
      (''virtualNetworkAdapterDropReasons'', CounterValue, num hyperv_virtual_network_adapter_drop_reasons_fields r ''VirtualNetworkAdapterDropReasonsOutgoingNotAccepted'', [rowName hyperv_virtual_network_adapter_drop_reasons_fields r, ''NotAccepted'', ''outgoing'']),
      (''virtualNetworkAdapterDropReasons'', CounterValue, num hyperv_virtual_network_adapter_drop_reasons_fields r ''VirtualNetworkAdapterDropReasonsIncomingNotAccepted'', [rowName hyperv_virtual_network_adapter_drop_reasons_fields r, ''NotAccepted'', ''incoming'']),
      (''virtualNetworkAdapterDropReasons'', CounterValue, num hyperv_virtual_network_adapter_drop_reasons_fields r ''VirtualNetworkAdapterDropReasonsOutgoingDisconnected'', [rowName hyperv_virtual_network_adapter_drop_reasons_fields r, ''Disconnected'', ''outgoing'']),
      (''virtualNetworkAdapterDropReasons'', CounterValue, num hyperv_virtual_network_adapter_drop_reasons_fields r ''VirtualNetworkAdapterDropReasonsIncomingDisconnected'', [rowName hyperv_virtual_network_adapter_drop_reasons_fields r, ''Disconnected'', ''incoming'']),
      (''virtualNetworkAdapterDropReasons'', CounterValue, num hyperv_virtual_network_adapter_drop_reasons_fields r ''VirtualNetworkAdapterDropReasonsOutgoingNotReady'', [rowName hyperv_virtual_network_adapter_drop_reasons_fields r, ''NotReady'', ''outgoing'']),
      (''virtualNetworkAdapterDropReasons'', CounterValue, num hyperv_virtual_network_adapter_drop_reasons_fields r ''VirtualNetworkAdapterDropReasonsIncomingNotReady'', [rowName hyperv_virtual_network_adapter_drop_reasons_fields r, ''NotReady'', ''incoming'']),
      (''virtualNetworkAdapterDropReasons'', CounterValue, num hyperv_virtual_network_adapter_drop_reasons_fields r ''VirtualNetworkAdapterDropReasonsOutgoingResources'', [rowName hyperv_virtual_network_adapter_drop_reasons_fields r, ''Resources'', ''outgoing'']),
      (''virtualNetworkAdapterDropReasons'', CounterValue, num hyperv_virtual_network_adapter_drop_reasons_fields r ''VirtualNetworkAdapterDropReasonsIncomingResources'', [rowName hyperv_virtual_network_adapter_drop_reasons_fields r, ''Resources'', ''incoming'']),
      (''virtualNetworkAdapterDropReasons'', CounterValue, num hyperv_virtual_network_adapter_drop_reasons_fields r ''VirtualNetworkAdapterDropReasonsOutgoingInvalidPacket'', [rowName hyperv_virtual_network_adapter_drop_reasons_fields r, ''InvalidPacket'', ''outgoing'']),
      (''virtualNetworkAdapterDropReasons'', CounterValue, num hyperv_virtual_network_adapter_drop_reasons_fields r ''VirtualNetworkAdapterDropReasonsIncomingInvalidPacket'', [rowName hyperv_virtual_network_adapter_drop_reasons_fields r, ''InvalidPacket'', ''incoming'']),
      (''virtualNetworkAdapterDropReasons'', CounterValue, num hyperv_virtual_network_adapter_drop_reasons_fields r ''VirtualNetworkAdapterDropReasonsOutgoingInvalidData'', [rowName hyperv_virtual_network_adapter_drop_reasons_fields r, ''InvalidData'', ''outgoing'']),
      (''virtualNetworkAdapterDropReasons'', CounterValue, num hyperv_virtual_network_adapter_drop_reasons_fields r ''VirtualNetworkAdapterDropReasonsIncomingInvalidData'', [rowName hyperv_virtual_network_adapter_drop_reasons_fields r, ''InvalidData'', ''incoming'']),
      (''virtualNetworkAdapterDropReasons'', CounterValue, num hyperv_virtual_network_adapter_drop_reasons_fields r ''VirtualNetworkAdapterDropReasonsOutgoingUnknown'', [rowName hyperv_virtual_network_adapter_drop_reasons_fields r, ''Unknown'', ''outgoing'']),
      (''virtualNetworkAdapterDropReasons'', CounterValue, num hyperv_virtual_network_adapter_drop_reasons_fields r ''VirtualNetworkAdapterDropReasonsIncomingUnknown'', [rowName hyperv_virtual_network_adapter_drop_reasons_fields r, ''Unknown'', ''incoming''])]"

definition hyperv_virtual_network_adapter_drop_reasons_build :: "'w pdh_api \<Rightarrow> u16 \<Rightarrow> 'w \<Rightarrow> (go_error option \<times> perfSource \<times> 'w) option" where
  "hyperv_virtual_network_adapter_drop_reasons_build api osBuild = perfBuild api osBuild ''failed to create Hyper-V Virtual Network Adapter Drop Reasons collector: %w'' ''Hyper-V Virtual Network Adapter Drop Reasons'' [''*''] hyperv_virtual_network_adapter_drop_reasons_fields"

definition hyperv_virtual_network_adapter_drop_reasons_collect :: "'w pdh_api \<Rightarrow> perfSource \<Rightarrow> 'w \<Rightarrow> (perfSource, 'w) collected" where
  "hyperv_virtual_network_adapter_drop_reasons_collect api = collectWith api hyperv_virtual_network_adapter_drop_reasons_fields ''failed to collect Hyper-V Virtual Network Adapter Drop Reasons metrics: %w'' hyperv_virtual_network_adapter_drop_reasons_descs (eachRow (\<lambda>r. True) hyperv_virtual_network_adapter_drop_reasons_lines)"


section \<open>virtual_smb\<close>

definition hyperv_virtual_smb_fields :: "structField list" where
  "hyperv_virtual_smb_fields =
     [nameField,
      perfField ''VirtualSMBDirectMappedSections'' ''Direct-Mapped Sections'',
      perfField ''VirtualSMBDirectMappedPages'' ''Direct-Mapped Pages'',
      perfField ''VirtualSMBWriteBytesRDMA'' ''Write Bytes/sec (RDMA)'',
      perfField ''VirtualSMBWriteBytes'' ''Write Bytes/sec'',
      perfField ''VirtualSMBReadBytesRDMA'' ''Read Bytes/sec (RDMA)'',
      perfField ''VirtualSMBReadBytes'' ''Read Bytes/sec'',
      perfField ''VirtualSMBFlushRequests'' ''Flush Requests/sec'',
      perfField ''VirtualSMBWriteRequestsRDMA'' ''Write Requests/sec (RDMA)'',
      perfField ''VirtualSMBWriteRequests'' ''Write Requests/sec'',
      perfField ''VirtualSMBReadRequestsRDMA'' ''Read Requests/sec (RDMA)'',
      perfField ''VirtualSMBReadRequests'' ''Read Requests/sec'',
      perfField ''VirtualSMBCurrentPendingRequests'' ''Current Pending Requests'',
      perfField ''VirtualSMBCurrentOpenFileCount'' ''Current Open File Count'',
      perfField ''VirtualSMBTreeConnectCount'' ''Tree Connect Count'',
      perfField ''VirtualSMBRequests'' ''Requests/sec'',
      perfField ''VirtualSMBSentBytes'' ''Sent Bytes/sec'',
      perfField ''VirtualSMBReceivedBytes'' ''Received Bytes/sec'']"

definition hyperv_virtual_smb_descs :: descTable where
  "hyperv_virtual_smb_descs =
     [(''virtualSMBDirectMappedSections'', NewDesc (BuildFQName Namespace ''hyperv'' ''virtual_smb_direct_mapped_sections'')
        ''Represents the number of direct-mapped sections in the virtual SMB'' [''instance'']),
      (''virtualSMBDirectMappedPages'', NewDesc (BuildFQName Namespace ''hyperv'' ''virtual_smb_direct_mapped_pages'')
        ''Represents the number of direct-mapped pages in the virtual SMB'' [''instance'']),
      (''virtualSMBWriteBytesRDMA'', NewDesc (BuildFQName Namespace ''hyperv'' ''virtual_smb_write_bytes_rdma'')
        ''Represents the number of bytes written per second using RDMA in the virtual SMB'' [''instance'']),
      (''virtualSMBWriteBytes'', NewDesc (BuildFQName Namespace ''hyperv'' ''virtual_smb_write_bytes'')
        ''Represents the number of bytes written per second in the virtual SMB'' [''instance'']),
      (''virtualSMBReadBytesRDMA'', NewDesc (BuildFQName Namespace ''hyperv'' ''virtual_smb_read_bytes_rdma'')
        ''Represents the number of bytes read per second using RDMA in the virtual SMB'' [''instance'']),
      (''virtualSMBReadBytes'', NewDesc (BuildFQName Namespace ''hyperv'' ''virtual_smb_read_bytes'')
        ''Represents the number of bytes read per second in the virtual SMB'' [''instance'']),
      (''virtualSMBFlushRequests'', NewDesc (BuildFQName Namespace ''hyperv'' ''virtual_smb_flush_requests'')
        ''Represents the number of flush requests per second in the virtual SMB'' [''instance'']),
      (''virtualSMBWriteRequestsRDMA'', NewDesc (BuildFQName Namespace ''hyperv'' ''virtual_smb_write_requests_rdma'')
        ''Represents the number of write requests per second using RDMA in the virtual SMB'' [''instance'']),
      (''virtualSMBWriteRequests'', NewDesc (BuildFQName Namespace ''hyperv'' ''virtual_smb_write_requests'')
        ''Represents the number of write requests per second in the virtual SMB'' [''instance'']),
      (''virtualSMBReadRequestsRDMA'', NewDesc (BuildFQName Namespace ''hyperv'' ''virtual_smb_read_requests_rdma'')
        ''Represents the number of read requests per second using RDMA in the virtual SMB'' [''instance'']),
      (''virtualSMBReadRequests'', NewDesc (BuildFQName Namespace ''hyperv'' ''virtual_smb_read_requests'')
        ''Represents the number of read requests per second in the virtual SMB'' [''instance'']),
      (''virtualSMBCurrentPendingRequests'', NewDesc (BuildFQName Namespace ''hyperv'' ''virtual_smb_current_pending_requests'')
        ''Represents the current number of pending requests in the virtual SMB'' [''instance'']),
      (''virtualSMBCurrentOpenFileCount'', NewDesc (BuildFQName Namespace ''hyperv'' ''virtual_smb_current_open_file_count'')
        ''Represents the current number of open files in the virtual SMB'' [''instance'']),
      (''virtualSMBTreeConnectCount'', NewDesc (BuildFQName Namespace ''hyperv'' ''virtual_smb_tree_connect_count'')
        ''Represents the number of tree connects in the virtual SMB'' [''instance'']),
      (''virtualSMBRequests'', NewDesc (BuildFQName Namespace ''hyperv'' ''virtual_smb_requests'')
        ''Represents the number of requests per second in the virtual SMB'' [''instance'']),
      (''virtualSMBSentBytes'', NewDesc (BuildFQName Namespace ''hyperv'' ''virtual_smb_sent_bytes'')
        ''Represents the number of bytes sent per second in the virtual SMB'' [''instance'']),
      (''virtualSMBReceivedBytes'', NewDesc (BuildFQName Namespace ''hyperv'' ''virtual_smb_received_bytes'')
        ''Represents the number of bytes received per second in the virtual SMB'' [''instance''])]"

definition hyperv_virtual_smb_lines :: "row \<Rightarrow> line list" where
  "hyperv_virtual_smb_lines r =
     [(''virtualSMBDirectMappedSections'', GaugeValue, num hyperv_virtual_smb_fields r ''VirtualSMBDirectMappedSections'', [rowName hyperv_virtual_smb_fields r]),
      (''virtualSMBDirectMappedPages'', GaugeValue, num hyperv_virtual_smb_fields r ''VirtualSMBDirectMappedPages'', [rowName hyperv_virtual_smb_fields r]),
      (''virtualSMBWriteBytesRDMA'', CounterValue, num hyperv_virtual_smb_fields r ''VirtualSMBWriteBytesRDMA'', [rowName hyperv_virtual_smb_fields r]),
      (''virtualSMBWriteBytes'', CounterValue, num hyperv_virtual_smb_fields r ''VirtualSMBWriteBytes'', [rowName hyperv_virtual_smb_fields r]),
      (''virtualSMBReadBytesRDMA'', CounterValue, num hyperv_virtual_smb_fields r ''VirtualSMBReadBytesRDMA'', [rowName hyperv_virtual_smb_fields r]),
      (''virtualSMBReadBytes'', CounterValue, num hyperv_virtual_smb_fields r ''VirtualSMBReadBytes'', [rowName hyperv_virtual_smb_fields r]),
      (''virtualSMBFlushRequests'', CounterValue, num hyperv_virtual_smb_fields r ''VirtualSMBFlushRequests'', [rowName hyperv_virtual_smb_fields r]),
      (''virtualSMBWriteRequestsRDMA'', CounterValue, num hyperv_virtual_smb_fields r ''VirtualSMBWriteRequestsRDMA'', [rowName hyperv_virtual_smb_fields r]),
      (''virtualSMBWriteRequests'', CounterValue, num hyperv_virtual_smb_fields r ''VirtualSMBWriteRequests'', [rowName hyperv_virtual_smb_fields r]),
      (''virtualSMBReadRequestsRDMA'', CounterValue, num hyperv_virtual_smb_fields r ''VirtualSMBReadRequestsRDMA'', [rowName hyperv_virtual_smb_fields r]),
      (''virtualSMBReadRequests'', CounterValue, num hyperv_virtual_smb_fields r ''VirtualSMBReadRequests'', [rowName hyperv_virtual_smb_fields r]),
      (''virtualSMBCurrentPendingRequests'', GaugeValue, num hyperv_virtual_smb_fields r ''VirtualSMBCurrentPendingRequests'', [rowName hyperv_virtual_smb_fields r]),
      (''virtualSMBCurrentOpenFileCount'', GaugeValue, num hyperv_virtual_smb_fields r ''VirtualSMBCurrentOpenFileCount'', [rowName hyperv_virtual_smb_fields r]),
      (''virtualSMBTreeConnectCount'', GaugeValue, num hyperv_virtual_smb_fields r ''VirtualSMBTreeConnectCount'', [rowName hyperv_virtual_smb_fields r]),
      (''virtualSMBRequests'', CounterValue, num hyperv_virtual_smb_fields r ''VirtualSMBRequests'', [rowName hyperv_virtual_smb_fields r]),
      (''virtualSMBSentBytes'', CounterValue, num hyperv_virtual_smb_fields r ''VirtualSMBSentBytes'', [rowName hyperv_virtual_smb_fields r]),
      (''virtualSMBReceivedBytes'', CounterValue, num hyperv_virtual_smb_fields r ''VirtualSMBReceivedBytes'', [rowName hyperv_virtual_smb_fields r])]"

definition hyperv_virtual_smb_build :: "'w pdh_api \<Rightarrow> u16 \<Rightarrow> 'w \<Rightarrow> (go_error option \<times> perfSource \<times> 'w) option" where
  "hyperv_virtual_smb_build api osBuild = perfBuild api osBuild ''failed to create Hyper-V Virtual SMB collector: %w'' ''Hyper-V Virtual SMB'' [''*''] hyperv_virtual_smb_fields"

definition hyperv_virtual_smb_collect :: "'w pdh_api \<Rightarrow> perfSource \<Rightarrow> 'w \<Rightarrow> (perfSource, 'w) collected" where
  "hyperv_virtual_smb_collect api = collectWith api hyperv_virtual_smb_fields ''failed to collect Hyper-V Virtual SMB metrics: %w'' hyperv_virtual_smb_descs (eachRow (\<lambda>r. True) hyperv_virtual_smb_lines)"


section \<open>virtual_storage_device\<close>

definition hyperv_virtual_storage_device_fields :: "structField list" where
  "hyperv_virtual_storage_device_fields =
     [nameField,
      perfField ''VirtualStorageDeviceErrorCount'' ''Error Count'',
      perfField ''VirtualStorageDeviceQueueLength'' ''Queue Length'',
      perfField ''VirtualStorageDeviceReadBytes'' ''Read Bytes/sec'',
      perfField ''VirtualStorageDeviceReadOperations'' ''Read Count'',
      perfField ''VirtualStorageDeviceWriteBytes'' ''Write Bytes/sec'',
      perfField ''VirtualStorageDeviceWriteOperations'' ''Write Count'',
      perfField ''VirtualStorageDeviceLatency'' ''Latency'',
      perfField ''VirtualStorageDeviceThroughput'' ''Throughput'',
      perfField ''VirtualStorageDeviceNormalizedThroughput'' ''Normalized Throughput'',
      perfField ''VirtualStorageDeviceLowerQueueLength'' ''Lower Queue Length'',
      perfField ''VirtualStorageDeviceLowerLatency'' ''Lower Latency'',
      perfField ''VirtualStorageDeviceIOQuotaReplenishmentRate'' ''IO Quota Replenishment Rate'']"

definition hyperv_virtual_storage_device_descs :: descTable where
  "hyperv_virtual_storage_device_descs =
     [(''virtualStorageDeviceErrorCount'', NewDesc (BuildFQName Namespace ''hyperv'' ''virtual_storage_device_error_count_total'')
        ''Represents the total number of errors that have occurred on this virtual device.'' [''device'']),
      (''virtualStorageDeviceQueueLength'', NewDesc (BuildFQName Namespace ''hyperv'' ''virtual_storage_device_queue_length'')
        ''Represents the average queue length on this virtual device.'' [''device'']),
      (''virtualStorageDeviceReadBytes'', NewDesc (BuildFQName Namespace ''hyperv'' ''virtual_storage_device_bytes_read'')
        ''Represents the total number of bytes that have been read on this virtual device.'' [''device'']),
      (''virtualStorageDeviceReadOperations'', NewDesc (BuildFQName Namespace ''hyperv'' ''virtual_storage_device_operations_read_total'')
        ''Represents the total number of read operations that have occurred on this virtual device.'' [''device'']),
      (''virtualStorageDeviceWriteBytes'', NewDesc (BuildFQName Namespace ''hyperv'' ''virtual_storage_device_bytes_written'')
        ''Represents the total number of bytes that have been written on this virtual device.'' [''device'']),
      (''virtualStorageDeviceWriteOperations'', NewDesc (BuildFQName Namespace ''hyperv'' ''virtual_storage_device_operations_written_total'')
        ''Represents the total number of write operations that have occurred on this virtual device.'' [''device'']),
      (''virtualStorageDeviceLatency'', NewDesc (BuildFQName Namespace ''hyperv'' ''virtual_storage_device_latency_seconds'')
        ''Represents the average IO transfer latency for this virtual device.'' [''device'']),
      (''virtualStorageDeviceThroughput'', NewDesc (BuildFQName Namespace ''hyperv'' ''virtual_storage_device_throughput'')
        ''Represents the average number of 8KB IO transfers completed by this virtual device.'' [''device'']),
      (''virtualStorageDeviceNormalizedThroughput'', NewDesc (BuildFQName Namespace ''hyperv'' ''virtual_storage_device_normalized_throughput'')
        ''Represents the average number of IO transfers completed by this virtual device.'' [''device'']),
      (''virtualStorageDeviceLowerQueueLength'', NewDesc (BuildFQName Namespace ''hyperv'' ''virtual_storage_device_lower_queue_length'')
        ''Represents the average queue length on the underlying storage subsystem for this device.'' [''device'']),
      (''virtualStorageDeviceLowerLatency'', NewDesc (BuildFQName Namespace ''hyperv'' ''virtual_storage_device_lower_latency_seconds'')
        ''Represents the average IO transfer latency on the underlying storage subsystem for this virtual device.'' [''device'']),
      (''virtualStorageDeviceIOQuotaReplenishmentRate'', NewDesc (BuildFQName Namespace ''hyperv'' ''io_quota_replenishment_rate'')
        ''Represents the IO quota replenishment rate for this virtual device.'' [''device''])]"

definition hyperv_virtual_storage_device_lines :: "row \<Rightarrow> line list" where
  "hyperv_virtual_storage_device_lines r =
     [(''virtualStorageDeviceErrorCount'', CounterValue, num hyperv_virtual_storage_device_fields r ''VirtualStorageDeviceErrorCount'', [rowName hyperv_virtual_storage_device_fields r]),
      (''virtualStorageDeviceQueueLength'', GaugeValue, num hyperv_virtual_storage_device_fields r ''VirtualStorageDeviceQueueLength'', [rowName hyperv_virtual_storage_device_fields r]),
      (''virtualStorageDeviceReadBytes'', CounterValue, num hyperv_virtual_storage_device_fields r ''VirtualStorageDeviceReadBytes'', [rowName hyperv_virtual_storage_device_fields r]),
      (''virtualStorageDeviceReadOperations'', CounterValue, num hyperv_virtual_storage_device_fields r ''VirtualStorageDeviceReadOperations'', [rowName hyperv_virtual_storage_device_fields r]),
      (''virtualStorageDeviceWriteBytes'', CounterValue, num hyperv_virtual_storage_device_fields r ''VirtualStorageDeviceWriteBytes'', [rowName hyperv_virtual_storage_device_fields r]),
      (''virtualStorageDeviceWriteOperations'', CounterValue, num hyperv_virtual_storage_device_fields r ''VirtualStorageDeviceWriteOperations'', [rowName hyperv_virtual_storage_device_fields r]),
      (''virtualStorageDeviceLatency'', GaugeValue, num hyperv_virtual_storage_device_fields r ''VirtualStorageDeviceLatency'', [rowName hyperv_virtual_storage_device_fields r]),
      (''virtualStorageDeviceThroughput'', GaugeValue, num hyperv_virtual_storage_device_fields r ''VirtualStorageDeviceThroughput'', [rowName hyperv_virtual_storage_device_fields r]),
      (''virtualStorageDeviceNormalizedThroughput'', GaugeValue, num hyperv_virtual_storage_device_fields r ''VirtualStorageDeviceNormalizedThroughput'', [rowName hyperv_virtual_storage_device_fields r]),
      (''virtualStorageDeviceLowerQueueLength'', GaugeValue, num hyperv_virtual_storage_device_fields r ''VirtualStorageDeviceLowerQueueLength'', [rowName hyperv_virtual_storage_device_fields r]),
      (''virtualStorageDeviceLowerLatency'', GaugeValue, num hyperv_virtual_storage_device_fields r ''VirtualStorageDeviceLowerLatency'', [rowName hyperv_virtual_storage_device_fields r]),
      (''virtualStorageDeviceIOQuotaReplenishmentRate'', GaugeValue, num hyperv_virtual_storage_device_fields r ''VirtualStorageDeviceIOQuotaReplenishmentRate'', [rowName hyperv_virtual_storage_device_fields r])]"

definition hyperv_virtual_storage_device_build :: "'w pdh_api \<Rightarrow> u16 \<Rightarrow> 'w \<Rightarrow> (go_error option \<times> perfSource \<times> 'w) option" where
  "hyperv_virtual_storage_device_build api osBuild = perfBuild api osBuild ''failed to create Hyper-V Virtual Storage Device collector: %w'' ''Hyper-V Virtual Storage Device'' [''*''] hyperv_virtual_storage_device_fields"

definition hyperv_virtual_storage_device_collect :: "'w pdh_api \<Rightarrow> perfSource \<Rightarrow> 'w \<Rightarrow> (perfSource, 'w) collected" where
  "hyperv_virtual_storage_device_collect api = collectWith api hyperv_virtual_storage_device_fields ''failed to collect Hyper-V Virtual Storage Device metrics: %w'' hyperv_virtual_storage_device_descs (eachRow (\<lambda>r. True) hyperv_virtual_storage_device_lines)"


section \<open>virtual_switch\<close>

definition hyperv_virtual_switch_fields :: "structField list" where
  "hyperv_virtual_switch_fields =
     [nameField,
      perfField ''VirtualSwitchBroadcastPacketsReceived'' ''Broadcast Packets Received/sec'',
      perfField ''VirtualSwitchBroadcastPacketsSent'' ''Broadcast Packets Sent/sec'',
      perfField ''VirtualSwitchBytes'' ''Bytes/sec'',
      perfField ''VirtualSwitchBytesReceived'' ''Bytes Received/sec'',
      perfField ''VirtualSwitchBytesSent'' ''Bytes Sent/sec'',
      perfField ''VirtualSwitchDirectedPacketsReceived'' ''Directed Packets Received/sec'',
      perfField ''VirtualSwitchDirectedPacketsSent'' ''Directed Packets Sent/sec'',
      perfField ''VirtualSwitchDroppedPacketsIncoming'' ''Dropped Packets Incoming/sec'',
      perfField ''VirtualSwitchDroppedPacketsOutgoing'' ''Dropped Packets Outgoing/sec'',
      perfField ''VirtualSwitchExtensionsDroppedPacketsIncoming'' ''Extensions Dropped Packets Incoming/sec'',
      perfField ''VirtualSwitchExtensionsDroppedPacketsOutgoing'' ''Extensions Dropped Packets Outgoing/sec'',
      perfField ''VirtualSwitchLearnedMacAddresses'' ''Learned Mac Addresses'',
      perfField ''VirtualSwitchMulticastPacketsReceived'' ''Multicast Packets Received/sec'',
      perfField ''VirtualSwitchMulticastPacketsSent'' ''Multicast Packets Sent/sec'',
      perfField ''VirtualSwitchNumberOfSendChannelMoves'' ''Number of Send Channel Moves/sec'',
      perfField ''VirtualSwitchNumberOfVMQMoves'' ''Number of VMQ Moves/sec'',
      perfField ''VirtualSwitchPacketsFlooded'' ''Packets Flooded'',
      perfField ''VirtualSwitchPackets'' ''Packets/sec'',
      perfField ''VirtualSwitchPacketsReceived'' ''Packets Received/sec'',
      perfField ''VirtualSwitchPacketsSent'' ''Packets Sent/sec'',
      perfField ''VirtualSwitchPurgedMacAddresses'' ''Purged Mac Addresses'']"

definition hyperv_virtual_switch_descs :: descTable where
  "hyperv_virtual_switch_descs =
     [(''virtualSwitchBroadcastPacketsReceived'', NewDesc (BuildFQName Namespace ''hyperv'' ''vswitch_broadcast_packets_received_total'')
        ''Represents the total number of broadcast packets received per second by the virtual switch'' [''vswitch'']),
      (''virtualSwitchBroadcastPacketsSent'', NewDesc (BuildFQName Namespace ''hyperv'' ''vswitch_broadcast_packets_sent_total'')
        ''Represents the total number of broadcast packets sent per second by the virtual switch'' [''vswitch'']),
      (''virtualSwitchBytes'', NewDesc (BuildFQName Namespace ''hyperv'' ''vswitch_bytes_total'')
        ''Represents the total number of bytes per second traversing the virtual switch'' [''vswitch'']),
      (''virtualSwitchBytesReceived'', NewDesc (BuildFQName Namespace ''hyperv'' ''vswitch_bytes_received_total'')
        ''Represents the total number of bytes received per second by the virtual switch'' [''vswitch'']),
      (''virtualSwitchBytesSent'', NewDesc (BuildFQName Namespace ''hyperv'' ''vswitch_bytes_sent_total'')
        ''Represents the total number of bytes sent per second by the virtual switch'' [''vswitch'']),
      (''virtualSwitchDirectedPacketsReceived'', NewDesc (BuildFQName Namespace ''hyperv'' ''vswitch_directed_packets_received_total'')
        ''Represents the total number of directed packets received per second by the virtual switch'' [''vswitch'']),
      (''virtualSwitchDirectedPacketsSent'', NewDesc (BuildFQName Namespace ''hyperv'' ''vswitch_directed_packets_send_total'')
        ''Represents the total number of directed packets sent per second by the virtual switch'' [''vswitch'']),
      (''virtualSwitchDroppedPacketsIncoming'', NewDesc (BuildFQName Namespace ''hyperv'' ''vswitch_dropped_packets_incoming_total'')
        ''Represents the total number of packet dropped per second by the virtual switch in the incoming direction'' [''vswitch'']),
      (''virtualSwitchDroppedPacketsOutgoing'', NewDesc (BuildFQName Namespace ''hyperv'' ''vswitch_dropped_packets_outcoming_total'')
        ''Represents the total number of packet dropped per second by the virtual switch in the outgoing direction'' [''vswitch'']),
      (''virtualSwitchExtensionsDroppedPacketsIncoming'', NewDesc (BuildFQName Namespace ''hyperv'' ''vswitch_extensions_dropped_packets_incoming_total'')
        ''Represents the total number of packet dropped per second by the virtual switch extensions in the incoming direction'' [''vswitch'']),
      (''virtualSwitchExtensionsDroppedPacketsOutgoing'', NewDesc (BuildFQName Namespace ''hyperv'' ''vswitch_extensions_dropped_packets_outcoming_total'')
        ''Represents the total number of packet dropped per second by the virtual switch extensions in the outgoing direction'' [''vswitch'']),
      (''virtualSwitchLearnedMacAddresses'', NewDesc (BuildFQName Namespace ''hyperv'' ''vswitch_learned_mac_addresses_total'')
        ''Represents the total number of learned MAC addresses of the virtual switch'' [''vswitch'']),
      (''virtualSwitchMulticastPacketsReceived'', NewDesc (BuildFQName Namespace ''hyperv'' ''vswitch_multicast_packets_received_total'')
        ''Represents the total number of multicast packets received per second by the virtual switch'' [''vswitch'']),
      (''virtualSwitchMulticastPacketsSent'', NewDesc (BuildFQName Namespace ''hyperv'' ''vswitch_multicast_packets_sent_total'')
        ''Represents the total number of multicast packets sent per second by the virtual switch'' [''vswitch'']),
      (''virtualSwitchNumberOfSendChannelMoves'', NewDesc (BuildFQName Namespace ''hyperv'' ''vswitch_number_of_send_channel_moves_total'')
        ''Represents the total number of send channel moves per second on this virtual switch'' [''vswitch'']),
      (''virtualSwitchNumberOfVMQMoves'', NewDesc (BuildFQName Namespace ''hyperv'' ''vswitch_number_of_vmq_moves_total'')
        ''Represents the total number of VMQ moves per second on this virtual switch'' [''vswitch'']),
      (''virtualSwitchPacketsFlooded'', NewDesc (BuildFQName Namespace ''hyperv'' ''vswitch_packets_flooded_total'')
        ''Represents the total number of packets flooded by the virtual switch'' [''vswitch'']),
      (''virtualSwitchPackets'', NewDesc (BuildFQName Namespace ''hyperv'' ''vswitch_packets_total'')
        ''Represents the total number of packets per second traversing the virtual switch'' [''vswitch'']),
      (''virtualSwitchPacketsReceived'', NewDesc (BuildFQName Namespace ''hyperv'' ''vswitch_packets_received_total'')
        ''Represents the total number of packets received per second by the virtual switch'' [''vswitch'']),
      (''virtualSwitchPacketsSent'', NewDesc (BuildFQName Namespace ''hyperv'' ''vswitch_packets_sent_total'')
        ''Represents the total number of packets send per second by the virtual switch'' [''vswitch'']),
      (''virtualSwitchPurgedMacAddresses'', NewDesc (BuildFQName Namespace ''hyperv'' ''vswitch_purged_mac_addresses_total'')
        ''Represents the total number of purged MAC addresses of the virtual switch'' [''vswitch''])]"

definition hyperv_virtual_switch_lines :: "row \<Rightarrow> line list" where
  "hyperv_virtual_switch_lines r =
     [(''virtualSwitchBroadcastPacketsReceived'', CounterValue, num hyperv_virtual_switch_fields r ''VirtualSwitchBroadcastPacketsReceived'', [rowName hyperv_virtual_switch_fields r]),
      (''virtualSwitchBroadcastPacketsSent'', CounterValue, num hyperv_virtual_switch_fields r ''VirtualSwitchBroadcastPacketsSent'', [rowName hyperv_virtual_switch_fields r]),
      (''virtualSwitchBytes'', CounterValue, num hyperv_virtual_switch_fields r ''VirtualSwitchBytes'', [rowName hyperv_virtual_switch_fields r]),
      (''virtualSwitchBytesReceived'', CounterValue, num hyperv_virtual_switch_fields r ''VirtualSwitchBytesReceived'', [rowName hyperv_virtual_switch_fields r]),
      (''virtualSwitchBytesSent'', CounterValue, num hyperv_virtual_switch_fields r ''VirtualSwitchBytesSent'', [rowName hyperv_virtual_switch_fields r]),
      (''virtualSwitchDirectedPacketsReceived'', CounterValue, num hyperv_virtual_switch_fields r ''VirtualSwitchDirectedPacketsReceived'', [rowName hyperv_virtual_switch_fields r]),
      (''virtualSwitchDirectedPacketsSent'', CounterValue, num hyperv_virtual_switch_fields r ''VirtualSwitchDirectedPacketsSent'', [rowName hyperv_virtual_switch_fields r]),
      (''virtualSwitchDroppedPacketsIncoming'', CounterValue, num hyperv_virtual_switch_fields r ''VirtualSwitchDroppedPacketsIncoming'', [rowName hyperv_virtual_switch_fields r]),
      (''virtualSwitchDroppedPacketsOutgoing'', CounterValue, num hyperv_virtual_switch_fields r ''VirtualSwitchDroppedPacketsOutgoing'', [rowName hyperv_virtual_switch_fields r]),
      (''virtualSwitchExtensionsDroppedPacketsIncoming'', CounterValue, num hyperv_virtual_switch_fields r ''VirtualSwitchExtensionsDroppedPacketsIncoming'', [rowName hyperv_virtual_switch_fields r]),
      (''virtualSwitchExtensionsDroppedPacketsOutgoing'', CounterValue, num hyperv_virtual_switch_fields r ''VirtualSwitchExtensionsDroppedPacketsOutgoing'', [rowName hyperv_virtual_switch_fields r]),
      (''virtualSwitchLearnedMacAddresses'', CounterValue, num hyperv_virtual_switch_fields r ''VirtualSwitchLearnedMacAddresses'', [rowName hyperv_virtual_switch_fields r]),
      (''virtualSwitchMulticastPacketsReceived'', CounterValue, num hyperv_virtual_switch_fields r ''VirtualSwitchMulticastPacketsReceived'', [rowName hyperv_virtual_switch_fields r]),
      (''virtualSwitchMulticastPacketsSent'', CounterValue, num hyperv_virtual_switch_fields r ''VirtualSwitchMulticastPacketsSent'', [rowName hyperv_virtual_switch_fields r]),
      (''virtualSwitchNumberOfSendChannelMoves'', CounterValue, num hyperv_virtual_switch_fields r ''VirtualSwitchNumberOfSendChannelMoves'', [rowName hyperv_virtual_switch_fields r]),
      (''virtualSwitchNumberOfVMQMoves'', CounterValue, num hyperv_virtual_switch_fields r ''VirtualSwitchNumberOfVMQMoves'', [rowName hyperv_virtual_switch_fields r]),
      (''virtualSwitchPacketsFlooded'', CounterValue, num hyperv_virtual_switch_fields r ''VirtualSwitchPacketsFlooded'', [rowName hyperv_virtual_switch_fields r]),
      (''virtualSwitchPackets'', CounterValue, num hyperv_virtual_switch_fields r ''VirtualSwitchPackets'', [rowName hyperv_virtual_switch_fields r]),
      (''virtualSwitchPacketsReceived'', CounterValue, num hyperv_virtual_switch_fields r ''VirtualSwitchPacketsReceived'', [rowName hyperv_virtual_switch_fields r]),
      (''virtualSwitchPacketsSent'', CounterValue, num hyperv_virtual_switch_fields r ''VirtualSwitchPacketsSent'', [rowName hyperv_virtual_switch_fields r]),
      (''virtualSwitchPurgedMacAddresses'', CounterValue, num hyperv_virtual_switch_fields r ''VirtualSwitchPurgedMacAddresses'', [rowName hyperv_virtual_switch_fields r])]"

definition hyperv_virtual_switch_build :: "'w pdh_api \<Rightarrow> u16 \<Rightarrow> 'w \<Rightarrow> (go_error option \<times> perfSource \<times> 'w) option" where
  "hyperv_virtual_switch_build api osBuild = perfBuild api osBuild ''failed to create Hyper-V Virtual Switch collector: %w'' ''Hyper-V Virtual Switch'' [''*''] hyperv_virtual_switch_fields"

definition hyperv_virtual_switch_collect :: "'w pdh_api \<Rightarrow> perfSource \<Rightarrow> 'w \<Rightarrow> (perfSource, 'w) collected" where
  "hyperv_virtual_switch_collect api = collectWith api hyperv_virtual_switch_fields ''failed to collect Hyper-V Virtual Switch metrics: %w'' hyperv_virtual_switch_descs (eachRow (\<lambda>r. True) hyperv_virtual_switch_lines)"


section \<open>Build, Collect and Close\<close>

definition hyperv_subCollectors :: "osversion \<Rightarrow> 'w pdh_api \<Rightarrow> 'w subTable" where
  "hyperv_subCollectors os api =
     [(''datastore'', \<lparr>subFields = hyperv_datastore_fields, subDescs = hyperv_datastore_descs, subBuild = hyperv_datastore_build api (winBuild os),
        subCollect = hyperv_datastore_collect api, minBuildNumber = LTSC2022 os\<rparr>),
      (''dynamic_memory_balancer'', \<lparr>subFields = hyperv_dynamic_memory_balancer_fields, subDescs = hyperv_dynamic_memory_balancer_descs, subBuild = hyperv_dynamic_memory_balancer_build api (winBuild os),
        subCollect = hyperv_dynamic_memory_balancer_collect os api, minBuildNumber = 0\<rparr>),
      (''dynamic_memory_vm'', \<lparr>subFields = hyperv_dynamic_memory_vm_fields, subDescs = hyperv_dynamic_memory_vm_descs, subBuild = hyperv_dynamic_memory_vm_build api (winBuild os),
        subCollect = hyperv_dynamic_memory_vm_collect os api, minBuildNumber = 0\<rparr>),
      (''hypervisor_logical_processor'', \<lparr>subFields = hyperv_hypervisor_logical_processor_fields, subDescs = hyperv_hypervisor_logical_processor_descs, subBuild = hyperv_hypervisor_logical_processor_build api (winBuild os),
        subCollect = hyperv_hypervisor_logical_processor_collect api, minBuildNumber = 0\<rparr>),
      (''hypervisor_root_partition'', \<lparr>subFields = hyperv_hypervisor_root_partition_fields, subDescs = hyperv_hypervisor_root_partition_descs, subBuild = hyperv_hypervisor_root_partition_build api (winBuild os),
        subCollect = hyperv_hypervisor_root_partition_collect api, minBuildNumber = 0\<rparr>),
      (''hypervisor_root_virtual_processor'', \<lparr>subFields = hyperv_hypervisor_root_virtual_processor_fields, subDescs = hyperv_hypervisor_root_virtual_processor_descs, subBuild = hyperv_hypervisor_root_virtual_processor_build api (winBuild os),
        subCollect = hyperv_hypervisor_root_virtual_processor_collect api, minBuildNumber = 0\<rparr>),
      (''hypervisor_virtual_processor'', \<lparr>subFields = hyperv_hypervisor_virtual_processor_fields, subDescs = hyperv_hypervisor_virtual_processor_descs, subBuild = hyperv_hypervisor_virtual_processor_build api (winBuild os),
        subCollect = hyperv_hypervisor_virtual_processor_collect api, minBuildNumber = 0\<rparr>),
      (''legacy_network_adapter'', \<lparr>subFields = hyperv_legacy_network_adapter_fields, subDescs = hyperv_legacy_network_adapter_descs, subBuild = hyperv_legacy_network_adapter_build api (winBuild os),
        subCollect = hyperv_legacy_network_adapter_collect api, minBuildNumber = 0\<rparr>),
      (''virtual_machine_health_summary'', \<lparr>subFields = hyperv_virtual_machine_health_summary_fields, subDescs = hyperv_virtual_machine_health_summary_descs, subBuild = hyperv_virtual_machine_health_summary_build api (winBuild os),
        subCollect = hyperv_virtual_machine_health_summary_collect api, minBuildNumber = 0\<rparr>),
      (''virtual_machine_vid_partition'', \<lparr>subFields = hyperv_virtual_machine_vid_partition_fields, subDescs = hyperv_virtual_machine_vid_partition_descs, subBuild = hyperv_virtual_machine_vid_partition_build api (winBuild os),
        subCollect = hyperv_virtual_machine_vid_partition_collect api, minBuildNumber = 0\<rparr>),
      (''virtual_network_adapter'', \<lparr>subFields = hyperv_virtual_network_adapter_fields, subDescs = hyperv_virtual_network_adapter_descs, subBuild = hyperv_virtual_network_adapter_build api (winBuild os),
        subCollect = hyperv_virtual_network_adapter_collect api, minBuildNumber = 0\<rparr>),
      (''virtual_network_adapter_drop_reasons'', \<lparr>subFields = hyperv_virtual_network_adapter_drop_reasons_fields, subDescs = hyperv_virtual_network_adapter_drop_reasons_descs, subBuild = hyperv_virtual_network_adapter_drop_reasons_build api (winBuild os),
        subCollect = hyperv_virtual_network_adapter_drop_reasons_collect api, minBuildNumber = 0\<rparr>),
      (''virtual_smb'', \<lparr>subFields = hyperv_virtual_smb_fields, subDescs = hyperv_virtual_smb_descs, subBuild = hyperv_virtual_smb_build api (winBuild os),
        subCollect = hyperv_virtual_smb_collect api, minBuildNumber = LTSC2022 os\<rparr>),
      (''virtual_storage_device'', \<lparr>subFields = hyperv_virtual_storage_device_fields, subDescs = hyperv_virtual_storage_device_descs, subBuild = hyperv_virtual_storage_device_build api (winBuild os),
        subCollect = hyperv_virtual_storage_device_collect api, minBuildNumber = 0\<rparr>),
      (''virtual_switch'', \<lparr>subFields = hyperv_virtual_switch_fields, subDescs = hyperv_virtual_switch_descs, subBuild = hyperv_virtual_switch_build api (winBuild os),
        subCollect = hyperv_virtual_switch_collect api, minBuildNumber = 0\<rparr>)]"

text \<open>
  \<open>Build\<close> makes the table while the struct holds no PDH collectors yet, so that the method values \<open>close\<close> are bound to what the struct
  holds before the build.
\<close>

definition hyperv_Build :: "osversion \<Rightarrow> 'w pdh_api \<Rightarrow> string list \<Rightarrow> subState \<Rightarrow> 'w \<Rightarrow> (go_error option \<times> subState \<times> 'w) option" where
  "hyperv_Build os api enabled c w =
     (if enabled = [] then Some (None, c\<lparr>collectorFns := [], closeFns := []\<rparr>, w)
      else buildResult
             (buildSubs (hyperv_subCollectors os api) (winBuild os) (\<lambda>n. perfDataCollector (sources c n)) (sort enabled)
                (c\<lparr>collectorFns := [], closeFns := []\<rparr>) w))"

definition hyperv_Collect ::
  "osversion \<Rightarrow> (string list \<Rightarrow> string list) \<Rightarrow> 'w pdh_api \<Rightarrow> subState \<Rightarrow> 'w \<Rightarrow> (subState, 'w) collected" where
  "hyperv_Collect os sched api = collectSubs (hyperv_subCollectors os api) sched"

definition hyperv_Close :: "'w pdh_api \<Rightarrow> subState \<Rightarrow> 'w \<Rightarrow> 'w" where
  "hyperv_Close = closeSubs"

section \<open>The tables\<close>

lemma hyperv_datastore_names: "distinct (map (\<lambda>(n, d). fqName d) hyperv_datastore_descs)"
  by (rule distinct_nameCodes; unfold hyperv_datastore_descs_def) (simp only: name_code_simps)

lemma hyperv_datastore_table: "table_ok hyperv_datastore_descs (hyperv_datastore_lines r)"
  by (rule table_ok_codes; unfold hyperv_datastore_lines_def hyperv_datastore_descs_def) (simp only: table_code_simps)+

interpretation hyperv_datastore: each_row_collector hyperv_datastore_descs "hyperv_datastore_lines" hyperv_datastore_fields "\<lambda>n. 0"
  by unfold_locales (auto simp: hyperv_datastore_names hyperv_datastore_table, simp add: hyperv_datastore_lines_def, simp add: hyperv_datastore_fields_def nameField_def)

lemma hyperv_dynamic_memory_balancer_names: "distinct (map (\<lambda>(n, d). fqName d) hyperv_dynamic_memory_balancer_descs)"
  by (rule distinct_nameCodes; unfold hyperv_dynamic_memory_balancer_descs_def) (simp only: name_code_simps)

lemma hyperv_dynamic_memory_balancer_table: "table_ok hyperv_dynamic_memory_balancer_descs (hyperv_dynamic_memory_balancer_lines os r)"
  unfolding hyperv_dynamic_memory_balancer_lines_def
  by (cases "LTSC2019 os \<le> winBuild os"; simp only: if_True if_False append.simps; rule table_ok_names; unfold line_simps) code_simp+

interpretation hyperv_dynamic_memory_balancer: each_row_collector hyperv_dynamic_memory_balancer_descs "hyperv_dynamic_memory_balancer_lines os" hyperv_dynamic_memory_balancer_fields "\<lambda>n. 0"
  by unfold_locales (auto simp: hyperv_dynamic_memory_balancer_names hyperv_dynamic_memory_balancer_table, simp add: hyperv_dynamic_memory_balancer_lines_def, simp add: hyperv_dynamic_memory_balancer_fields_def nameField_def)

lemma hyperv_dynamic_memory_vm_names: "distinct (map (\<lambda>(n, d). fqName d) hyperv_dynamic_memory_vm_descs)"
  by (rule distinct_nameCodes; unfold hyperv_dynamic_memory_vm_descs_def) (simp only: name_code_simps)

lemma hyperv_dynamic_memory_vm_table: "table_ok hyperv_dynamic_memory_vm_descs (hyperv_dynamic_memory_vm_lines os r)"
  unfolding hyperv_dynamic_memory_vm_lines_def
  by (cases "LTSC2019 os \<le> winBuild os"; simp only: if_True if_False append.simps; rule table_ok_names; unfold line_simps) code_simp+

interpretation hyperv_dynamic_memory_vm: each_row_collector hyperv_dynamic_memory_vm_descs "hyperv_dynamic_memory_vm_lines os" hyperv_dynamic_memory_vm_fields "\<lambda>n. 0"
  by unfold_locales (auto simp: hyperv_dynamic_memory_vm_names hyperv_dynamic_memory_vm_table, simp add: hyperv_dynamic_memory_vm_lines_def, simp add: hyperv_dynamic_memory_vm_fields_def nameField_def)

lemma hyperv_hypervisor_root_partition_names: "distinct (map (\<lambda>(n, d). fqName d) hyperv_hypervisor_root_partition_descs)"
  by (rule distinct_nameCodes; unfold hyperv_hypervisor_root_partition_descs_def) (simp only: name_code_simps)

lemma hyperv_hypervisor_root_partition_table: "table_ok hyperv_hypervisor_root_partition_descs (hyperv_hypervisor_root_partition_lines r)"
  by (rule table_ok_codes; unfold hyperv_hypervisor_root_partition_lines_def hyperv_hypervisor_root_partition_descs_def) (simp only: table_code_simps)+

interpretation hyperv_hypervisor_root_partition: first_row_collector hyperv_hypervisor_root_partition_descs hyperv_hypervisor_root_partition_lines
  by unfold_locales (rule hyperv_hypervisor_root_partition_names hyperv_hypervisor_root_partition_table)+

lemma hyperv_legacy_network_adapter_names: "distinct (map (\<lambda>(n, d). fqName d) hyperv_legacy_network_adapter_descs)"
  by (rule distinct_nameCodes; unfold hyperv_legacy_network_adapter_descs_def) (simp only: name_code_simps)

lemma hyperv_legacy_network_adapter_table: "table_ok hyperv_legacy_network_adapter_descs (hyperv_legacy_network_adapter_lines r)"
  by (rule table_ok_codes; unfold hyperv_legacy_network_adapter_lines_def hyperv_legacy_network_adapter_descs_def) (simp only: table_code_simps)+

interpretation hyperv_legacy_network_adapter: each_row_collector hyperv_legacy_network_adapter_descs "hyperv_legacy_network_adapter_lines" hyperv_legacy_network_adapter_fields "\<lambda>n. 0"
  by unfold_locales (auto simp: hyperv_legacy_network_adapter_names hyperv_legacy_network_adapter_table, simp add: hyperv_legacy_network_adapter_lines_def, simp add: hyperv_legacy_network_adapter_fields_def nameField_def)

lemma hyperv_virtual_machine_health_summary_names: "distinct (map (\<lambda>(n, d). fqName d) hyperv_virtual_machine_health_summary_descs)"
  by (rule distinct_nameCodes; unfold hyperv_virtual_machine_health_summary_descs_def) (simp only: name_code_simps)

lemma hyperv_virtual_machine_health_summary_table: "table_ok hyperv_virtual_machine_health_summary_descs (hyperv_virtual_machine_health_summary_lines r)"
  by (rule table_ok_rests [of _ _ 0]; unfold hyperv_virtual_machine_health_summary_lines_def line_simps rest_simps) code_simp+

interpretation hyperv_virtual_machine_health_summary: first_row_collector hyperv_virtual_machine_health_summary_descs hyperv_virtual_machine_health_summary_lines
  by unfold_locales (rule hyperv_virtual_machine_health_summary_names hyperv_virtual_machine_health_summary_table)+

lemma hyperv_virtual_machine_vid_partition_names: "distinct (map (\<lambda>(n, d). fqName d) hyperv_virtual_machine_vid_partition_descs)"
  by (rule distinct_nameCodes; unfold hyperv_virtual_machine_vid_partition_descs_def) (simp only: name_code_simps)

lemma hyperv_virtual_machine_vid_partition_table: "table_ok hyperv_virtual_machine_vid_partition_descs (hyperv_virtual_machine_vid_partition_lines r)"
  by (rule table_ok_codes; unfold hyperv_virtual_machine_vid_partition_lines_def hyperv_virtual_machine_vid_partition_descs_def) (simp only: table_code_simps)+

interpretation hyperv_virtual_machine_vid_partition: each_row_collector hyperv_virtual_machine_vid_partition_descs "hyperv_virtual_machine_vid_partition_lines" hyperv_virtual_machine_vid_partition_fields "\<lambda>n. 0"
  by unfold_locales (auto simp: hyperv_virtual_machine_vid_partition_names hyperv_virtual_machine_vid_partition_table, simp add: hyperv_virtual_machine_vid_partition_lines_def, simp add: hyperv_virtual_machine_vid_partition_fields_def nameField_def)

lemma hyperv_virtual_network_adapter_names: "distinct (map (\<lambda>(n, d). fqName d) hyperv_virtual_network_adapter_descs)"
  by (rule distinct_nameCodes; unfold hyperv_virtual_network_adapter_descs_def) (simp only: name_code_simps)

lemma hyperv_virtual_network_adapter_table: "table_ok hyperv_virtual_network_adapter_descs (hyperv_virtual_network_adapter_lines r)"
  by (rule table_ok_codes; unfold hyperv_virtual_network_adapter_lines_def hyperv_virtual_network_adapter_descs_def) (simp only: table_code_simps)+

interpretation hyperv_virtual_network_adapter: each_row_collector hyperv_virtual_network_adapter_descs "hyperv_virtual_network_adapter_lines" hyperv_virtual_network_adapter_fields "\<lambda>n. 0"
  by unfold_locales (auto simp: hyperv_virtual_network_adapter_names hyperv_virtual_network_adapter_table, simp add: hyperv_virtual_network_adapter_lines_def, simp add: hyperv_virtual_network_adapter_fields_def nameField_def)

lemma hyperv_virtual_network_adapter_drop_reasons_names: "distinct (map (\<lambda>(n, d). fqName d) hyperv_virtual_network_adapter_drop_reasons_descs)"
  by (rule distinct_nameCodes; unfold hyperv_virtual_network_adapter_drop_reasons_descs_def) (simp only: name_code_simps)

lemma hyperv_virtual_network_adapter_drop_reasons_table: "table_ok hyperv_virtual_network_adapter_drop_reasons_descs (hyperv_virtual_network_adapter_drop_reasons_lines r)"
  by (rule table_ok_codes; unfold hyperv_virtual_network_adapter_drop_reasons_lines_def hyperv_virtual_network_adapter_drop_reasons_descs_def) (simp only: table_code_simps)+

interpretation hyperv_virtual_network_adapter_drop_reasons: each_row_collector hyperv_virtual_network_adapter_drop_reasons_descs "hyperv_virtual_network_adapter_drop_reasons_lines" hyperv_virtual_network_adapter_drop_reasons_fields "\<lambda>n. 0"
  by unfold_locales (auto simp: hyperv_virtual_network_adapter_drop_reasons_names hyperv_virtual_network_adapter_drop_reasons_table, simp add: hyperv_virtual_network_adapter_drop_reasons_lines_def, simp add: hyperv_virtual_network_adapter_drop_reasons_fields_def nameField_def)

lemma hyperv_virtual_smb_names: "distinct (map (\<lambda>(n, d). fqName d) hyperv_virtual_smb_descs)"
  by (rule distinct_nameCodes; unfold hyperv_virtual_smb_descs_def) (simp only: name_code_simps)

lemma hyperv_virtual_smb_table: "table_ok hyperv_virtual_smb_descs (hyperv_virtual_smb_lines r)"
  by (rule table_ok_codes; unfold hyperv_virtual_smb_lines_def hyperv_virtual_smb_descs_def) (simp only: table_code_simps)+

interpretation hyperv_virtual_smb: each_row_collector hyperv_virtual_smb_descs "hyperv_virtual_smb_lines" hyperv_virtual_smb_fields "\<lambda>n. 0"
  by unfold_locales (auto simp: hyperv_virtual_smb_names hyperv_virtual_smb_table, simp add: hyperv_virtual_smb_lines_def, simp add: hyperv_virtual_smb_fields_def nameField_def)

lemma hyperv_virtual_storage_device_names: "distinct (map (\<lambda>(n, d). fqName d) hyperv_virtual_storage_device_descs)"
  by (rule distinct_nameCodes; unfold hyperv_virtual_storage_device_descs_def) (simp only: name_code_simps)

lemma hyperv_virtual_storage_device_table: "table_ok hyperv_virtual_storage_device_descs (hyperv_virtual_storage_device_lines r)"
  by (rule table_ok_codes; unfold hyperv_virtual_storage_device_lines_def hyperv_virtual_storage_device_descs_def) (simp only: table_code_simps)+

interpretation hyperv_virtual_storage_device: each_row_collector hyperv_virtual_storage_device_descs "hyperv_virtual_storage_device_lines" hyperv_virtual_storage_device_fields "\<lambda>n. 0"
  by unfold_locales (auto simp: hyperv_virtual_storage_device_names hyperv_virtual_storage_device_table, simp add: hyperv_virtual_storage_device_lines_def, simp add: hyperv_virtual_storage_device_fields_def nameField_def)

lemma hyperv_virtual_switch_names: "distinct (map (\<lambda>(n, d). fqName d) hyperv_virtual_switch_descs)"
  by (rule distinct_nameCodes; unfold hyperv_virtual_switch_descs_def) (simp only: name_code_simps)

lemma hyperv_virtual_switch_table: "table_ok hyperv_virtual_switch_descs (hyperv_virtual_switch_lines r)"
  by (rule table_ok_codes; unfold hyperv_virtual_switch_lines_def hyperv_virtual_switch_descs_def) (simp only: table_code_simps)+

interpretation hyperv_virtual_switch: each_row_collector hyperv_virtual_switch_descs "hyperv_virtual_switch_lines" hyperv_virtual_switch_fields "\<lambda>n. 0"
  by unfold_locales (auto simp: hyperv_virtual_switch_names hyperv_virtual_switch_table, simp add: hyperv_virtual_switch_lines_def, simp add: hyperv_virtual_switch_fields_def nameField_def)

section \<open>The contract\<close>

text \<open>The sub collectors whose metrics carry the name of the row, or that use the first row only.\<close>

definition hyperv_by_name :: "string set" where
  "hyperv_by_name =
     {''datastore'', ''dynamic_memory_balancer'', ''dynamic_memory_vm'', ''hypervisor_root_partition'', ''legacy_network_adapter'', ''virtual_machine_health_summary'', ''virtual_machine_vid_partition'', ''virtual_network_adapter'', ''virtual_network_adapter_drop_reasons'', ''virtual_smb'', ''virtual_storage_device'', ''virtual_switch''}"

definition hyperv_desc_tables :: "descTable list" where
  "hyperv_desc_tables =
     [hyperv_datastore_descs, hyperv_dynamic_memory_balancer_descs, hyperv_dynamic_memory_vm_descs, hyperv_hypervisor_logical_processor_descs, hyperv_hypervisor_root_partition_descs, hyperv_hypervisor_root_virtual_processor_descs, hyperv_hypervisor_virtual_processor_descs, hyperv_legacy_network_adapter_descs, hyperv_virtual_machine_health_summary_descs, hyperv_virtual_machine_vid_partition_descs, hyperv_virtual_network_adapter_descs, hyperv_virtual_network_adapter_drop_reasons_descs, hyperv_virtual_smb_descs, hyperv_virtual_storage_device_descs, hyperv_virtual_switch_descs]"

lemmas hyperv_desc_defs =
  hyperv_datastore_descs_def
  hyperv_dynamic_memory_balancer_descs_def
  hyperv_dynamic_memory_vm_descs_def
  hyperv_hypervisor_logical_processor_descs_def
  hyperv_hypervisor_root_partition_descs_def
  hyperv_hypervisor_root_virtual_processor_descs_def
  hyperv_hypervisor_virtual_processor_descs_def
  hyperv_legacy_network_adapter_descs_def
  hyperv_virtual_machine_health_summary_descs_def
  hyperv_virtual_machine_vid_partition_descs_def
  hyperv_virtual_network_adapter_descs_def
  hyperv_virtual_network_adapter_drop_reasons_descs_def
  hyperv_virtual_smb_descs_def
  hyperv_virtual_storage_device_descs_def
  hyperv_virtual_switch_descs_def

lemmas hyperv_sub_defs =
  hyperv_datastore_build_def hyperv_datastore_collect_def
  hyperv_dynamic_memory_balancer_build_def hyperv_dynamic_memory_balancer_collect_def
  hyperv_dynamic_memory_vm_build_def hyperv_dynamic_memory_vm_collect_def
  hyperv_hypervisor_root_partition_build_def hyperv_hypervisor_root_partition_collect_def
  hyperv_legacy_network_adapter_build_def hyperv_legacy_network_adapter_collect_def
  hyperv_virtual_machine_health_summary_build_def hyperv_virtual_machine_health_summary_collect_def
  hyperv_virtual_machine_vid_partition_build_def hyperv_virtual_machine_vid_partition_collect_def
  hyperv_virtual_network_adapter_build_def hyperv_virtual_network_adapter_collect_def
  hyperv_virtual_network_adapter_drop_reasons_build_def hyperv_virtual_network_adapter_drop_reasons_collect_def
  hyperv_virtual_smb_build_def hyperv_virtual_smb_collect_def
  hyperv_virtual_storage_device_build_def hyperv_virtual_storage_device_collect_def
  hyperv_virtual_switch_build_def hyperv_virtual_switch_collect_def

lemmas hyperv_sounds =
  hyperv_datastore.each_row_sound
  hyperv_dynamic_memory_balancer.each_row_sound
  hyperv_dynamic_memory_vm.each_row_sound
  hyperv_hypervisor_root_partition.index_sound
  hyperv_legacy_network_adapter.each_row_sound
  hyperv_virtual_machine_health_summary.index_sound
  hyperv_virtual_machine_vid_partition.each_row_sound
  hyperv_virtual_network_adapter.each_row_sound
  hyperv_virtual_network_adapter_drop_reasons.each_row_sound
  hyperv_virtual_smb.each_row_sound
  hyperv_virtual_storage_device.each_row_sound
  hyperv_virtual_switch.each_row_sound

lemma hyperv_sound: "list_all (\<lambda>(n, s). n \<in> hyperv_by_name \<longrightarrow> sub_sound api s) (hyperv_subCollectors os api)"
  by (simp add: hyperv_subCollectors_def hyperv_by_name_def hyperv_sub_defs hyperv_sounds)

lemma hyperv_all_names: "distinct (concat (map (\<lambda>(n, s). descNames (subDescs s)) (hyperv_subCollectors os api)))"
proof -
  have "map (\<lambda>(n, s). descNames (subDescs s)) (hyperv_subCollectors os api) = map descNames hyperv_desc_tables"
    by (simp add: hyperv_subCollectors_def hyperv_desc_tables_def)
  moreover have "distinct (concat (map descNames hyperv_desc_tables))"
    by (rule distinct_nameCodes; unfold hyperv_desc_tables_def descNames_def hyperv_desc_defs) (simp only: name_code_simps)
  ultimately show ?thesis by simp
qed

interpretation hyperv: sub_table api "hyperv_subCollectors os api" hyperv_by_name
  by unfold_locales (rule hyperv_sound hyperv_all_names)+

lemma hyperv_Build_fresh:
  "enabled \<noteq> [] \<Longrightarrow>
   hyperv_Build os api enabled noSubs w = buildResult (buildSubs (hyperv_subCollectors os api) (winBuild os) (\<lambda>n. None) (sort enabled) noSubs w)"
  by (simp add: hyperv_Build_def noSubs_def noSource_def)

text \<open>
  C31: With sub collectors of these kinds enabled, each once, every scrape after a successful build sends metrics that the library accepts,
  in whatever order the goroutines run.
\<close>

theorem hyperv_accepted:
  assumes "distinct enabled" "set enabled \<subseteq> hyperv_by_name" "enabled \<noteq> []" "\<And>ns. mset (sched ns) = mset ns"
  shows "reachable (hyperv_Build os api enabled noSubs) (hyperv_Collect os sched api)
           \<subseteq> {c. \<forall>w. scrape_ok (subsPanic api (hyperv_subCollectors os api) (sched (collectorFns c)) (sources c) w) (hyperv_Collect os sched api c w)}"
proof -
  have b: "hyperv_Build os api enabled noSubs = (\<lambda>w. buildResult (buildSubs (hyperv_subCollectors os api) (winBuild os) (\<lambda>n. None) (sort enabled) noSubs w))"
    by (rule ext, rule hyperv_Build_fresh [OF assms(3)])
  have "perf_contract (hyperv_Build os api enabled noSubs) (hyperv_Collect os sched api) (subState_ok hyperv_by_name (hyperv_subCollectors os api))
          (\<lambda>c w. subsPanic api (hyperv_subCollectors os api) (sched (collectorFns c)) (sources c) w)"
    unfolding b hyperv_Collect_def by (rule hyperv.subs_contract) (use assms in simp_all)
  then show ?thesis by (rule perf_contract.reachable_ok)
qed

theorem hyperv_accepted_witness:
  "\<forall>(api :: unit pdh_api) os.
     reachable (hyperv_Build os api [''virtual_switch'', ''datastore''] noSubs) (hyperv_Collect os rev api)
       \<subseteq> {c. \<forall>w. scrape_ok (subsPanic api (hyperv_subCollectors os api) (rev (collectorFns c)) (sources c) w) (hyperv_Collect os rev api c w)}"
  by (intro allI hyperv_accepted) (simp_all add: hyperv_by_name_def)

text \<open>
  C32: \<open>Close\<close> of a collector that was built once closes none of its queries: whatever \<open>Build\<close> returned, the system stays as it was.
\<close>

theorem hyperv_close_leaks:
  "case hyperv_Build os api enabled noSubs w of None \<Rightarrow> True | Some (err, c, w') \<Rightarrow> hyperv_Close api c w2 = w2"
proof (cases "enabled = []")
  case True
  then show ?thesis by (simp add: hyperv_Build_def hyperv_Close_def closeSubs_def)
next
  case False
  then show ?thesis
    by (auto simp: hyperv_Build_fresh buildResult_def hyperv_Close_def dest: closeSubs_nothing split: option.splits)
qed

end
