(* ===== verification/Perf_Exchange.thy ===== *)
theory Perf_Exchange
  imports Perf_Subs Utils
begin

text \<open>
  The Exchange collector (internal/collector/exchange): ten sub collectors. Their labels are made of the names of the instances, or
  they have none; the contract says when the metrics of a sub collector are accepted, and the last part shows where they are not.
\<close>

section \<open>Label names\<close>

definition toLabelName :: "string \<Rightarrow> string" where
  "toLabelName n = ReplaceAll (ReplaceAll (Join (Fields (ToLower n)) ''_'') ''.'' ''_'') ''__'' ''_''"

section \<open>ADAccessProcesses\<close>

definition exchange_ADAccessProcesses_fields :: "structField list" where
  "exchange_ADAccessProcesses_fields =
     [nameField,
      perfField ''LdapReadTime'' ''LDAP Read Time'',
      perfField ''LdapSearchTime'' ''LDAP Search Time'',
      perfField ''LdapWriteTime'' ''LDAP Write Time'',
      perfField ''LdapTimeoutErrorsPerSec'' ''LDAP Timeout Errors/sec'',
      perfField ''LongRunningLDAPOperationsPerMin'' ''Long Running LDAP Operations/min'']"

definition exchange_ADAccessProcesses_descs :: descTable where
  "exchange_ADAccessProcesses_descs =
     [(''ldapReadTime'', NewDesc (BuildFQName Namespace ''exchange'' ''ldap_read_time_sec'')
        ''Time (sec) to send an LDAP read request and receive a response'' [''name'']),
      (''ldapSearchTime'', NewDesc (BuildFQName Namespace ''exchange'' ''ldap_search_time_sec'')
        ''Time (sec) to send an LDAP search request and receive a response'' [''name'']),
      (''ldapWriteTime'', NewDesc (BuildFQName Namespace ''exchange'' ''ldap_write_time_sec'')
        ''Time (sec) to send an LDAP Add/Modify/Delete request and receive a response'' [''name'']),
      (''ldapTimeoutErrorsPerSec'', NewDesc (BuildFQName Namespace ''exchange'' ''ldap_timeout_errors_total'')
        ''Total number of LDAP timeout errors'' [''name'']),
      (''longRunningLDAPOperationsPerMin'', NewDesc (BuildFQName Namespace ''exchange'' ''ldap_long_running_ops_per_sec'')
        ''Long Running LDAP operations per second'' [''name''])]"

definition exchange_ADAccessProcesses_lines :: "string \<Rightarrow> row \<Rightarrow> line list" where
  "exchange_ADAccessProcesses_lines labelName r =
     [(''ldapReadTime'', CounterValue, MilliSecToSec (num exchange_ADAccessProcesses_fields r ''LdapReadTime''), [labelName]),
      (''ldapSearchTime'', CounterValue, MilliSecToSec (num exchange_ADAccessProcesses_fields r ''LdapSearchTime''), [labelName]),
      (''ldapWriteTime'', CounterValue, MilliSecToSec (num exchange_ADAccessProcesses_fields r ''LdapWriteTime''), [labelName]),
      (''ldapTimeoutErrorsPerSec'', CounterValue, num exchange_ADAccessProcesses_fields r ''LdapTimeoutErrorsPerSec'', [labelName]),
      (''longRunningLDAPOperationsPerMin'', CounterValue, f64_mul (num exchange_ADAccessProcesses_fields r ''LongRunningLDAPOperationsPerMin'') (F_Fin 60), [labelName])]"

fun exchange_ADAccessProcesses_rows :: "(string \<Rightarrow> nat) \<Rightarrow> row list \<Rightarrow> line list" where
  "exchange_ADAccessProcesses_rows labelUseCount [] = []"
| "exchange_ADAccessProcesses_rows labelUseCount (r # rs) =
     (let labelName = toLabelName (rowName exchange_ADAccessProcesses_fields r);
          k = labelUseCount labelName + 1
      in exchange_ADAccessProcesses_lines (if k > 1 then labelName @ ''_'' @ show_nat k else labelName) r @ exchange_ADAccessProcesses_rows (labelUseCount(labelName := k)) rs)"

definition exchange_ADAccessProcesses_build :: "'w pdh_api \<Rightarrow> u16 \<Rightarrow> 'w \<Rightarrow> (go_error option \<times> perfSource \<times> 'w) option" where
  "exchange_ADAccessProcesses_build api osBuild = perfBuild api osBuild ''failed to create MSExchange ADAccess Processes collector: %w'' ''MSExchange ADAccess Processes'' [''*''] exchange_ADAccessProcesses_fields"

definition exchange_ADAccessProcesses_collect :: "'w pdh_api \<Rightarrow> perfSource \<Rightarrow> 'w \<Rightarrow> (perfSource, 'w) collected" where
  "exchange_ADAccessProcesses_collect api = collectWith api exchange_ADAccessProcesses_fields ''failed to collect MSExchange ADAccess Processes metrics: %w'' exchange_ADAccessProcesses_descs (\<lambda>rs. Inr (exchange_ADAccessProcesses_rows (\<lambda>n. 0) rs))"


section \<open>TransportQueues\<close>

definition exchange_TransportQueues_fields :: "structField list" where
  "exchange_TransportQueues_fields =
     [nameField,
      perfField ''ExternalActiveRemoteDeliveryQueueLength'' ''External Active Remote Delivery Queue Length'',
      perfField ''InternalActiveRemoteDeliveryQueueLength'' ''Internal Active Remote Delivery Queue Length'',
      perfField ''ActiveMailboxDeliveryQueueLength'' ''Active Mailbox Delivery Queue Length'',
      perfField ''RetryMailboxDeliveryQueueLength'' ''Retry Mailbox Delivery Queue Length'',
      perfField ''UnreachableQueueLength'' ''Unreachable Queue Length'',
      perfField ''ExternalLargestDeliveryQueueLength'' ''External Largest Delivery Queue Length'',
      perfField ''InternalLargestDeliveryQueueLength'' ''Internal Largest Delivery Queue Length'',
      perfField ''PoisonQueueLength'' ''Poison Queue Length'',
      perfField ''MessagesQueuedForDeliveryTotal'' ''Messages Queued For Delivery Total'',
      perfField ''MessagesSubmittedTotal'' ''Messages Submitted Total'',
      perfField ''MessagesDelayedTotal'' ''Messages Delayed Total'',
      perfField ''MessagesCompletedDeliveryTotal'' ''Messages Completed Delivery Total'',
      perfField ''AggregateShadowQueueLength'' ''Aggregate Shadow Queue Length'',
      perfField ''SubmissionQueueLength'' ''Submission Queue Length'',
      perfField ''DelayQueueLength'' ''Delay Queue Length'',
      perfField ''ItemsCompletedDeliveryTotal'' ''Items Completed Delivery Total'',
      perfField ''ItemsQueuedForDeliveryExpiredTotal'' ''Items Queued For Delivery Expired Total'',
      perfField ''ItemsQueuedForDeliveryTotal'' ''Items Queued For Delivery Total'',
      perfField ''ItemsResubmittedTotal'' ''Items Resubmitted Total'']"

definition exchange_TransportQueues_descs :: descTable where
  "exchange_TransportQueues_descs =
     [(''externalActiveRemoteDeliveryQueueLength'', NewDesc (BuildFQName Namespace ''exchange'' ''transport_queues_external_active_remote_delivery'')
        ''External Active Remote Delivery Queue length'' [''name'']),
      (''internalActiveRemoteDeliveryQueueLength'', NewDesc (BuildFQName Namespace ''exchange'' ''transport_queues_internal_active_remote_delivery'')
        ''Internal Active Remote Delivery Queue length'' [''name'']),
      (''activeMailboxDeliveryQueueLength'', NewDesc (BuildFQName Namespace ''exchange'' ''transport_queues_active_mailbox_delivery'')
        ''Active Mailbox Delivery Queue length'' [''name'']),
      (''retryMailboxDeliveryQueueLength'', NewDesc (BuildFQName Namespace ''exchange'' ''transport_queues_retry_mailbox_delivery'')
        ''Retry Mailbox Delivery Queue length'' [''name'']),
      (''unreachableQueueLength'', NewDesc (BuildFQName Namespace ''exchange'' ''transport_queues_unreachable'')
        ''Unreachable Queue length'' [''name'']),
      (''externalLargestDeliveryQueueLength'', NewDesc (BuildFQName Namespace ''exchange'' ''transport_queues_external_largest_delivery'')
        ''External Largest Delivery Queue length'' [''name'']),
      (''internalLargestDeliveryQueueLength'', NewDesc (BuildFQName Namespace ''exchange'' ''transport_queues_internal_largest_delivery'')
        ''Internal Largest Delivery Queue length'' [''name'']),
      (''poisonQueueLength'', NewDesc (BuildFQName Namespace ''exchange'' ''transport_queues_poison'')
        ''Poison Queue length'' [''name'']),
      (''messagesQueuedForDeliveryTotal'', NewDesc (BuildFQName Namespace ''exchange'' ''transport_queues_messages_queued_for_delivery_total'')
        ''Messages Queued For Delivery Total'' [''name'']),
      (''messagesSubmittedTotal'', NewDesc (BuildFQName Namespace ''exchange'' ''transport_queues_messages_submitted_total'')
        ''Messages Submitted Total'' [''name'']),
      (''messagesDelayedTotal'', NewDesc (BuildFQName Namespace ''exchange'' ''transport_queues_messages_delayed_total'')
        ''Messages Delayed Total'' [''name'']),
      (''messagesCompletedDeliveryTotal'', NewDesc (BuildFQName Namespace ''exchange'' ''transport_queues_messages_completed_delivery_total'')
        ''Messages Completed Delivery Total'' [''name'']),
      (''aggregateShadowQueueLength'', NewDesc (BuildFQName Namespace ''exchange'' ''transport_queues_aggregate_shadow_queue_length'')
        ''The current number of messages in shadow queues.'' [''name'']),
      (''submissionQueueLength'', NewDesc (BuildFQName Namespace ''exchange'' ''transport_queues_submission_queue_length'')
        ''Submission Queue Length'' [''name'']),
      (''delayQueueLength'', NewDesc (BuildFQName Namespace ''exchange'' ''transport_queues_delay_queue_length'')
        ''Delay Queue Length'' [''name'']),
      (''itemsCompletedDeliveryTotal'', NewDesc (BuildFQName Namespace ''exchange'' ''transport_queues_items_completed_delivery_total'')
        ''Items Completed Delivery Total'' [''name'']),
      (''itemsQueuedForDeliveryExpiredTotal'', NewDesc (BuildFQName Namespace ''exchange'' ''transport_queues_items_queued_for_delivery_expired_total'')
        ''Items Queued For Delivery Expired Total'' [''name'']),
      (''itemsQueuedForDeliveryTotal'', NewDesc (BuildFQName Namespace ''exchange'' ''transport_queues_items_queued_for_delivery_total'')
        ''Items Queued For Delivery Total'' [''name'']),
      (''itemsResubmittedTotal'', NewDesc (BuildFQName Namespace ''exchange'' ''transport_queues_items_resubmitted_total'')
        ''Items Resubmitted Total'' [''name''])]"

definition exchange_TransportQueues_lines :: "row \<Rightarrow> line list" where
  "exchange_TransportQueues_lines r =
     [(''externalActiveRemoteDeliveryQueueLength'', GaugeValue, num exchange_TransportQueues_fields r ''ExternalActiveRemoteDeliveryQueueLength'', [toLabelName (rowName exchange_TransportQueues_fields r)]),
      (''internalActiveRemoteDeliveryQueueLength'', GaugeValue, num exchange_TransportQueues_fields r ''InternalActiveRemoteDeliveryQueueLength'', [toLabelName (rowName exchange_TransportQueues_fields r)]),
      (''activeMailboxDeliveryQueueLength'', GaugeValue, num exchange_TransportQueues_fields r ''ActiveMailboxDeliveryQueueLength'', [toLabelName (rowName exchange_TransportQueues_fields r)]),
      (''retryMailboxDeliveryQueueLength'', GaugeValue, num exchange_TransportQueues_fields r ''RetryMailboxDeliveryQueueLength'', [toLabelName (rowName exchange_TransportQueues_fields r)]),
      (''unreachableQueueLength'', GaugeValue, num exchange_TransportQueues_fields r ''UnreachableQueueLength'', [toLabelName (rowName exchange_TransportQueues_fields r)]),
      (''externalLargestDeliveryQueueLength'', GaugeValue, num exchange_TransportQueues_fields r ''ExternalLargestDeliveryQueueLength'', [toLabelName (rowName exchange_TransportQueues_fields r)]),
      (''internalLargestDeliveryQueueLength'', GaugeValue, num exchange_TransportQueues_fields r ''InternalLargestDeliveryQueueLength'', [toLabelName (rowName exchange_TransportQueues_fields r)]),
      (''poisonQueueLength'', GaugeValue, num exchange_TransportQueues_fields r ''PoisonQueueLength'', [toLabelName (rowName exchange_TransportQueues_fields r)]),
      (''messagesQueuedForDeliveryTotal'', CounterValue, num exchange_TransportQueues_fields r ''MessagesQueuedForDeliveryTotal'', [toLabelName (rowName exchange_TransportQueues_fields r)]),
      (''messagesSubmittedTotal'', CounterValue, num exchange_TransportQueues_fields r ''MessagesSubmittedTotal'', [toLabelName (rowName exchange_TransportQueues_fields r)]),
      (''messagesDelayedTotal'', CounterValue, num exchange_TransportQueues_fields r ''MessagesDelayedTotal'', [toLabelName (rowName exchange_TransportQueues_fields r)]),
      (''messagesCompletedDeliveryTotal'', CounterValue, num exchange_TransportQueues_fields r ''MessagesCompletedDeliveryTotal'', [toLabelName (rowName exchange_TransportQueues_fields r)]),
      (''aggregateShadowQueueLength'', GaugeValue, num exchange_TransportQueues_fields r ''AggregateShadowQueueLength'', [toLabelName (rowName exchange_TransportQueues_fields r)]),
      (''submissionQueueLength'', GaugeValue, num exchange_TransportQueues_fields r ''SubmissionQueueLength'', [toLabelName (rowName exchange_TransportQueues_fields r)]),
      (''delayQueueLength'', GaugeValue, num exchange_TransportQueues_fields r ''DelayQueueLength'', [toLabelName (rowName exchange_TransportQueues_fields r)]),
      (''itemsCompletedDeliveryTotal'', CounterValue, num exchange_TransportQueues_fields r ''ItemsCompletedDeliveryTotal'', [toLabelName (rowName exchange_TransportQueues_fields r)]),
      (''itemsQueuedForDeliveryExpiredTotal'', CounterValue, num exchange_TransportQueues_fields r ''ItemsQueuedForDeliveryExpiredTotal'', [toLabelName (rowName exchange_TransportQueues_fields r)]),
      (''itemsQueuedForDeliveryTotal'', CounterValue, num exchange_TransportQueues_fields r ''ItemsQueuedForDeliveryTotal'', [toLabelName (rowName exchange_TransportQueues_fields r)]),
      (''itemsResubmittedTotal'', CounterValue, num exchange_TransportQueues_fields r ''ItemsResubmittedTotal'', [toLabelName (rowName exchange_TransportQueues_fields r)])]"

definition exchange_TransportQueues_build :: "'w pdh_api \<Rightarrow> u16 \<Rightarrow> 'w \<Rightarrow> (go_error option \<times> perfSource \<times> 'w) option" where
  "exchange_TransportQueues_build api osBuild = perfBuild api osBuild ''failed to create MSExchangeTransport Queues collector: %w'' ''MSExchangeTransport Queues'' [''*''] exchange_TransportQueues_fields"

definition exchange_TransportQueues_collect :: "'w pdh_api \<Rightarrow> perfSource \<Rightarrow> 'w \<Rightarrow> (perfSource, 'w) collected" where
  "exchange_TransportQueues_collect api = collectWith api exchange_TransportQueues_fields ''failed to collect MSExchangeTransport Queues: %w'' exchange_TransportQueues_descs (eachRow (\<lambda>r. True) exchange_TransportQueues_lines)"


section \<open>HttpProxy\<close>

definition exchange_HttpProxy_fields :: "structField list" where
  "exchange_HttpProxy_fields =
     [nameField,
      perfField ''MailboxServerLocatorAverageLatency'' ''MailboxServerLocator Average Latency (Moving Average)'',
      perfField ''AverageAuthenticationLatency'' ''Average Authentication Latency'',
      perfField ''AverageCASProcessingLatency'' ''Average ClientAccess Server Processing Latency'',
      perfField ''MailboxServerProxyFailureRate'' ''Mailbox Server Proxy Failure Rate'',
      perfField ''OutstandingProxyRequests'' ''Outstanding Proxy Requests'',
      perfField ''ProxyRequestsPerSec'' ''Proxy Requests/Sec'']"

definition exchange_HttpProxy_descs :: descTable where
  "exchange_HttpProxy_descs =
     [(''mailboxServerLocatorAverageLatency'', NewDesc (BuildFQName Namespace ''exchange'' ''http_proxy_mailbox_server_locator_avg_latency_sec'')
        ''Average latency (sec) of MailboxServerLocator web service calls'' [''name'']),
      (''averageAuthenticationLatency'', NewDesc (BuildFQName Namespace ''exchange'' ''http_proxy_avg_auth_latency'')
        ''Average time spent authenticating CAS requests over the last 200 samples'' [''name'']),
      (''outstandingProxyRequests'', NewDesc (BuildFQName Namespace ''exchange'' ''http_proxy_outstanding_proxy_requests'')
        ''Number of concurrent outstanding proxy requests'' [''name'']),
      (''proxyRequestsPerSec'', NewDesc (BuildFQName Namespace ''exchange'' ''http_proxy_requests_total'')
        ''Number of proxy requests processed each second'' [''name'']),
      (''averageCASProcessingLatency'', NewDesc (BuildFQName Namespace ''exchange'' ''http_proxy_avg_cas_processing_latency_sec'')
        ''Average latency (sec) of CAS processing time over the last 200 reqs'' [''name'']),
      (''mailboxServerProxyFailureRate'', NewDesc (BuildFQName Namespace ''exchange'' ''http_proxy_mailbox_proxy_failure_rate'')
        ''% of failures between this CAS and MBX servers over the last 200 samples'' [''name''])]"

definition exchange_HttpProxy_lines :: "row \<Rightarrow> line list" where
  "exchange_HttpProxy_lines r =
     [(''mailboxServerLocatorAverageLatency'', GaugeValue, MilliSecToSec (num exchange_HttpProxy_fields r ''MailboxServerLocatorAverageLatency''), [toLabelName (rowName exchange_HttpProxy_fields r)]),
      (''averageAuthenticationLatency'', GaugeValue, num exchange_HttpProxy_fields r ''AverageAuthenticationLatency'', [toLabelName (rowName exchange_HttpProxy_fields r)]),
      (''averageCASProcessingLatency'', GaugeValue, MilliSecToSec (num exchange_HttpProxy_fields r ''AverageCASProcessingLatency''), [toLabelName (rowName exchange_HttpProxy_fields r)]),
      (''mailboxServerProxyFailureRate'', GaugeValue, num exchange_HttpProxy_fields r ''MailboxServerProxyFailureRate'', [toLabelName (rowName exchange_HttpProxy_fields r)]),
      (''outstandingProxyRequests'', GaugeValue, num exchange_HttpProxy_fields r ''OutstandingProxyRequests'', [toLabelName (rowName exchange_HttpProxy_fields r)]),
      (''proxyRequestsPerSec'', CounterValue, num exchange_HttpProxy_fields r ''ProxyRequestsPerSec'', [toLabelName (rowName exchange_HttpProxy_fields r)])]"

definition exchange_HttpProxy_build :: "'w pdh_api \<Rightarrow> u16 \<Rightarrow> 'w \<Rightarrow> (go_error option \<times> perfSource \<times> 'w) option" where
  "exchange_HttpProxy_build api osBuild = perfBuild api osBuild ''failed to create MSExchange HttpProxy collector: %w'' ''MSExchange HttpProxy'' [''*''] exchange_HttpProxy_fields"

definition exchange_HttpProxy_collect :: "'w pdh_api \<Rightarrow> perfSource \<Rightarrow> 'w \<Rightarrow> (perfSource, 'w) collected" where
  "exchange_HttpProxy_collect api = collectWith api exchange_HttpProxy_fields ''failed to collect MSExchange HttpProxy Service metrics: %w'' exchange_HttpProxy_descs (eachRow (\<lambda>r. True) exchange_HttpProxy_lines)"


section \<open>ActiveSync\<close>

definition exchange_ActiveSync_fields :: "structField list" where
  "exchange_ActiveSync_fields =
     [perfField ''RequestsPerSec'' ''Requests/sec'',
      perfField ''PingCommandsPending'' ''Ping Commands Pending'',
      perfField ''SyncCommandsPerSec'' ''Sync Commands/sec'']"

definition exchange_ActiveSync_descs :: descTable where
  "exchange_ActiveSync_descs =
     [(''pingCommandsPending'', NewDesc (BuildFQName Namespace ''exchange'' ''activesync_ping_cmds_pending'')
        ''Number of ping commands currently pending in the queue'' []),
      (''syncCommandsPerSec'', NewDesc (BuildFQName Namespace ''exchange'' ''activesync_sync_cmds_total'')
        ''Number of sync commands processed per second. Clients use this command to synchronize items within a folder'' []),
      (''activeSyncRequestsPerSec'', NewDesc (BuildFQName Namespace ''exchange'' ''activesync_requests_total'')
        ''Num HTTP requests received from the client via ASP.NET per sec. Shows Current user load'' [])]"

definition exchange_ActiveSync_lines :: "row \<Rightarrow> line list" where
  "exchange_ActiveSync_lines r =
     [(''activeSyncRequestsPerSec'', CounterValue, num exchange_ActiveSync_fields r ''RequestsPerSec'', []),
      (''pingCommandsPending'', GaugeValue, num exchange_ActiveSync_fields r ''PingCommandsPending'', []),
      (''syncCommandsPerSec'', CounterValue, num exchange_ActiveSync_fields r ''SyncCommandsPerSec'', [])]"

definition exchange_ActiveSync_build :: "'w pdh_api \<Rightarrow> u16 \<Rightarrow> 'w \<Rightarrow> (go_error option \<times> perfSource \<times> 'w) option" where
  "exchange_ActiveSync_build api osBuild = perfBuild api osBuild ''failed to create MSExchange ActiveSync collector: %w'' ''MSExchange ActiveSync'' [''*''] exchange_ActiveSync_fields"

definition exchange_ActiveSync_collect :: "'w pdh_api \<Rightarrow> perfSource \<Rightarrow> 'w \<Rightarrow> (perfSource, 'w) collected" where
  "exchange_ActiveSync_collect api = collectWith api exchange_ActiveSync_fields ''failed to collect MSExchange ActiveSync metrics: %w'' exchange_ActiveSync_descs (eachRow (\<lambda>r. True) exchange_ActiveSync_lines)"


section \<open>AvailabilityService\<close>

definition exchange_AvailabilityService_fields :: "structField list" where
  "exchange_AvailabilityService_fields =
     [perfField ''AvailabilityRequestsPerSec'' ''Availability Requests (sec)'']"

definition exchange_AvailabilityService_descs :: descTable where
  "exchange_AvailabilityService_descs =
     [(''availabilityRequestsSec'', NewDesc (BuildFQName Namespace ''exchange'' ''availability_service_requests_per_sec'')
        ''Number of requests serviced per second'' [])]"

definition exchange_AvailabilityService_lines :: "row \<Rightarrow> line list" where
  "exchange_AvailabilityService_lines r =
     [(''availabilityRequestsSec'', CounterValue, num exchange_AvailabilityService_fields r ''AvailabilityRequestsPerSec'', [])]"

definition exchange_AvailabilityService_build :: "'w pdh_api \<Rightarrow> u16 \<Rightarrow> 'w \<Rightarrow> (go_error option \<times> perfSource \<times> 'w) option" where
  "exchange_AvailabilityService_build api osBuild = perfBuild api osBuild ''failed to create MSExchange Availability Service collector: %w'' ''MSExchange Availability Service'' [''*''] exchange_AvailabilityService_fields"

definition exchange_AvailabilityService_collect :: "'w pdh_api \<Rightarrow> perfSource \<Rightarrow> 'w \<Rightarrow> (perfSource, 'w) collected" where
  "exchange_AvailabilityService_collect api = collectWith api exchange_AvailabilityService_fields ''failed to collect MSExchange Availability Service metrics: %w'' exchange_AvailabilityService_descs (eachRow (\<lambda>r. True) exchange_AvailabilityService_lines)"


section \<open>OutlookWebAccess\<close>

definition exchange_OutlookWebAccess_fields :: "structField list" where
  "exchange_OutlookWebAccess_fields =
     [perfField ''CurrentUniqueUsers'' ''Current Unique Users'',
      perfField ''RequestsPerSec'' ''Requests/sec'']"

definition exchange_OutlookWebAccess_descs :: descTable where
  "exchange_OutlookWebAccess_descs =
     [(''currentUniqueUsers'', NewDesc (BuildFQName Namespace ''exchange'' ''owa_current_unique_users'')
        ''Number of unique users currently logged on to Outlook Web App'' []),
      (''owaRequestsPerSec'', NewDesc (BuildFQName Namespace ''exchange'' ''owa_requests_total'')
        ''Number of requests handled by Outlook Web App per second'' [])]"

definition exchange_OutlookWebAccess_lines :: "row \<Rightarrow> line list" where
  "exchange_OutlookWebAccess_lines r =
     [(''currentUniqueUsers'', GaugeValue, num exchange_OutlookWebAccess_fields r ''CurrentUniqueUsers'', []),
      (''owaRequestsPerSec'', CounterValue, num exchange_OutlookWebAccess_fields r ''RequestsPerSec'', [])]"

definition exchange_OutlookWebAccess_build :: "'w pdh_api \<Rightarrow> u16 \<Rightarrow> 'w \<Rightarrow> (go_error option \<times> perfSource \<times> 'w) option" where
  "exchange_OutlookWebAccess_build api osBuild = perfBuild api osBuild ''failed to create MSExchange OWA collector: %w'' ''MSExchange OWA'' [''*''] exchange_OutlookWebAccess_fields"

definition exchange_OutlookWebAccess_collect :: "'w pdh_api \<Rightarrow> perfSource \<Rightarrow> 'w \<Rightarrow> (perfSource, 'w) collected" where
  "exchange_OutlookWebAccess_collect api = collectWith api exchange_OutlookWebAccess_fields ''failed to collect MSExchange OWA metrics: %w'' exchange_OutlookWebAccess_descs (eachRow (\<lambda>r. True) exchange_OutlookWebAccess_lines)"


section \<open>Autodiscover\<close>

definition exchange_Autodiscover_fields :: "structField list" where
  "exchange_Autodiscover_fields =
     [perfField ''RequestsPerSec'' ''Requests/sec'']"

definition exchange_Autodiscover_descs :: descTable where
  "exchange_Autodiscover_descs =
     [(''autoDiscoverRequestsPerSec'', NewDesc (BuildFQName Namespace ''exchange'' ''autodiscover_requests_total'')
        ''Number of autodiscover service requests processed each second'' [])]"

definition exchange_Autodiscover_lines :: "row \<Rightarrow> line list" where
  "exchange_Autodiscover_lines r =
     [(''autoDiscoverRequestsPerSec'', CounterValue, num exchange_Autodiscover_fields r ''RequestsPerSec'', [])]"

definition exchange_Autodiscover_build :: "'w pdh_api \<Rightarrow> u16 \<Rightarrow> 'w \<Rightarrow> (go_error option \<times> perfSource \<times> 'w) option" where
  "exchange_Autodiscover_build api osBuild = perfBuild api osBuild ''failed to create MSExchange Autodiscover collector: %w'' ''MSExchangeAutodiscover'' [] exchange_Autodiscover_fields"

definition exchange_Autodiscover_collect :: "'w pdh_api \<Rightarrow> perfSource \<Rightarrow> 'w \<Rightarrow> (perfSource, 'w) collected" where
  "exchange_Autodiscover_collect api = collectWith api exchange_Autodiscover_fields ''failed to collect MSExchange Autodiscover metrics: %w'' exchange_Autodiscover_descs (eachRow (\<lambda>r. True) exchange_Autodiscover_lines)"


section \<open>WorkloadManagement\<close>

definition exchange_WorkloadManagement_fields :: "structField list" where
  "exchange_WorkloadManagement_fields =
     [nameField,
      perfField ''ActiveTasks'' ''ActiveTasks'',
      perfField ''CompletedTasks'' ''CompletedTasks'',
      perfField ''QueuedTasks'' ''QueuedTasks'',
      perfField ''YieldedTasks'' ''YieldedTasks'',
      perfField ''IsActive'' ''Active'']"

definition exchange_WorkloadManagement_descs :: descTable where
  "exchange_WorkloadManagement_descs =
     [(''activeTasks'', NewDesc (BuildFQName Namespace ''exchange'' ''workload_active_tasks'')
        ''Number of active tasks currently running in the background for workload management'' [''name'']),
      (''completedTasks'', NewDesc (BuildFQName Namespace ''exchange'' ''workload_completed_tasks'')
        ''Number of workload management tasks that have been completed'' [''name'']),
      (''queuedTasks'', NewDesc (BuildFQName Namespace ''exchange'' ''workload_queued_tasks'')
        ''Number of workload management tasks that are currently queued up waiting to be processed'' [''name'']),
      (''yieldedTasks'', NewDesc (BuildFQName Namespace ''exchange'' ''workload_yielded_tasks'')
        ''The total number of tasks that have been yielded by a workload'' [''name'']),
      (''isActive'', NewDesc (BuildFQName Namespace ''exchange'' ''workload_is_active'')
        ''Active indicates whether the workload is in an active (1) or paused (0) state'' [''name''])]"

definition exchange_WorkloadManagement_lines :: "row \<Rightarrow> line list" where
  "exchange_WorkloadManagement_lines r =
     [(''activeTasks'', GaugeValue, num exchange_WorkloadManagement_fields r ''ActiveTasks'', [toLabelName (rowName exchange_WorkloadManagement_fields r)]),
      (''completedTasks'', CounterValue, num exchange_WorkloadManagement_fields r ''CompletedTasks'', [toLabelName (rowName exchange_WorkloadManagement_fields r)]),
      (''queuedTasks'', CounterValue, num exchange_WorkloadManagement_fields r ''QueuedTasks'', [toLabelName (rowName exchange_WorkloadManagement_fields r)]),
      (''yieldedTasks'', CounterValue, num exchange_WorkloadManagement_fields r ''YieldedTasks'', [toLabelName (rowName exchange_WorkloadManagement_fields r)]),
      (''isActive'', GaugeValue, num exchange_WorkloadManagement_fields r ''IsActive'', [toLabelName (rowName exchange_WorkloadManagement_fields r)])]"

definition exchange_WorkloadManagement_build :: "'w pdh_api \<Rightarrow> u16 \<Rightarrow> 'w \<Rightarrow> (go_error option \<times> perfSource \<times> 'w) option" where
  "exchange_WorkloadManagement_build api osBuild = perfBuild api osBuild ''failed to create MSExchange WorkloadManagement Workloads collector: %w'' ''MSExchange WorkloadManagement Workloads'' [''*''] exchange_WorkloadManagement_fields"

definition exchange_WorkloadManagement_collect :: "'w pdh_api \<Rightarrow> perfSource \<Rightarrow> 'w \<Rightarrow> (perfSource, 'w) collected" where
  "exchange_WorkloadManagement_collect api = collectWith api exchange_WorkloadManagement_fields ''failed to collect MSExchange WorkloadManagement Workloads: %w'' exchange_WorkloadManagement_descs (eachRow (\<lambda>r. True) exchange_WorkloadManagement_lines)"


section \<open>RpcClientAccess\<close>

definition exchange_RpcClientAccess_fields :: "structField list" where
  "exchange_RpcClientAccess_fields =
     [perfField ''RpcAveragedLatency'' ''RPC Averaged Latency'',
      perfField ''RpcRequests'' ''RPC Requests'',
      perfField ''ActiveUserCount'' ''Active User Count'',
      perfField ''ConnectionCount'' ''Connection Count'',
      perfField ''RpcOperationsPerSec'' ''RPC Operations/sec'',
      perfField ''UserCount'' ''User Count'']"

definition exchange_RpcClientAccess_descs :: descTable where
  "exchange_RpcClientAccess_descs =
     [(''rpcAveragedLatency'', NewDesc (BuildFQName Namespace ''exchange'' ''rpc_avg_latency_sec'')
        ''The latency (sec) averaged for the past 1024 packets'' []),
      (''rpcRequests'', NewDesc (BuildFQName Namespace ''exchange'' ''rpc_requests'')
        ''Number of client requests currently being processed by the RPC Client Access service'' []),
      (''activeUserCount'', NewDesc (BuildFQName Namespace ''exchange'' ''rpc_active_user_count'')
        ''Number of unique users that have shown some kind of activity in the last 2 minutes'' []),
      (''connectionCount'', NewDesc (BuildFQName Namespace ''exchange'' ''rpc_connection_count'')
        ''Total number of client connections maintained'' []),
      (''rpcOperationsPerSec'', NewDesc (BuildFQName Namespace ''exchange'' ''rpc_operations_total'')
        ''The rate at which RPC operations occur'' []),
      (''userCount'', NewDesc (BuildFQName Namespace ''exchange'' ''rpc_user_count'')
        ''Number of users'' [])]"

definition exchange_RpcClientAccess_lines :: "row \<Rightarrow> line list" where
  "exchange_RpcClientAccess_lines r =
     [(''rpcAveragedLatency'', GaugeValue, MilliSecToSec (num exchange_RpcClientAccess_fields r ''RpcAveragedLatency''), []),
      (''rpcRequests'', GaugeValue, num exchange_RpcClientAccess_fields r ''RpcRequests'', []),
      (''activeUserCount'', GaugeValue, num exchange_RpcClientAccess_fields r ''ActiveUserCount'', []),
      (''connectionCount'', GaugeValue, num exchange_RpcClientAccess_fields r ''ConnectionCount'', []),
      (''rpcOperationsPerSec'', CounterValue, num exchange_RpcClientAccess_fields r ''RpcOperationsPerSec'', []),
      (''userCount'', GaugeValue, num exchange_RpcClientAccess_fields r ''UserCount'', [])]"

definition exchange_RpcClientAccess_build :: "'w pdh_api \<Rightarrow> u16 \<Rightarrow> 'w \<Rightarrow> (go_error option \<times> perfSource \<times> 'w) option" where
  "exchange_RpcClientAccess_build api osBuild = perfBuild api osBuild ''failed to create MSExchange RpcClientAccess collector: %w'' ''MSExchange RpcClientAccess'' [''*''] exchange_RpcClientAccess_fields"

definition exchange_RpcClientAccess_collect :: "'w pdh_api \<Rightarrow> perfSource \<Rightarrow> 'w \<Rightarrow> (perfSource, 'w) collected" where
  "exchange_RpcClientAccess_collect api = collectWith api exchange_RpcClientAccess_fields ''failed to collect MSExchange RpcClientAccess: %w'' exchange_RpcClientAccess_descs (eachRow (\<lambda>r. True) exchange_RpcClientAccess_lines)"


section \<open>MapiHttpEmsmdb\<close>

definition exchange_MapiHttpEmsmdb_fields :: "structField list" where
  "exchange_MapiHttpEmsmdb_fields =
     [perfField ''ActiveUserCount'' ''Active User Count'']"

definition exchange_MapiHttpEmsmdb_descs :: descTable where
  "exchange_MapiHttpEmsmdb_descs =
     [(''activeUserCountMapiHttpEmsMDB'', NewDesc (BuildFQName Namespace ''exchange'' ''mapihttp_emsmdb_active_user_count'')
        ''Number of unique outlook users that have shown some kind of activity in the last 2 minutes'' [])]"

definition exchange_MapiHttpEmsmdb_lines :: "row \<Rightarrow> line list" where
  "exchange_MapiHttpEmsmdb_lines r =
     [(''activeUserCountMapiHttpEmsMDB'', GaugeValue, num exchange_MapiHttpEmsmdb_fields r ''ActiveUserCount'', [])]"

definition exchange_MapiHttpEmsmdb_build :: "'w pdh_api \<Rightarrow> u16 \<Rightarrow> 'w \<Rightarrow> (go_error option \<times> perfSource \<times> 'w) option" where
  "exchange_MapiHttpEmsmdb_build api osBuild = perfBuild api osBuild ''failed to create MSExchange MapiHttp Emsmdb: %w'' ''MSExchange MapiHttp Emsmdb'' [''*''] exchange_MapiHttpEmsmdb_fields"

definition exchange_MapiHttpEmsmdb_collect :: "'w pdh_api \<Rightarrow> perfSource \<Rightarrow> 'w \<Rightarrow> (perfSource, 'w) collected" where
  "exchange_MapiHttpEmsmdb_collect api = collectWith api exchange_MapiHttpEmsmdb_fields ''failed to collect MSExchange MapiHttp Emsmdb metrics: %w'' exchange_MapiHttpEmsmdb_descs (eachRow (\<lambda>r. True) exchange_MapiHttpEmsmdb_lines)"


section \<open>Build, Collect and Close\<close>

definition exchange_subCollectors :: "'w pdh_api \<Rightarrow> u16 \<Rightarrow> 'w subTable" where
  "exchange_subCollectors api osBuild =
     [(''ADAccessProcesses'', \<lparr>subFields = exchange_ADAccessProcesses_fields, subDescs = exchange_ADAccessProcesses_descs, subBuild = exchange_ADAccessProcesses_build api osBuild,
        subCollect = exchange_ADAccessProcesses_collect api, minBuildNumber = 0\<rparr>),
      (''TransportQueues'', \<lparr>subFields = exchange_TransportQueues_fields, subDescs = exchange_TransportQueues_descs, subBuild = exchange_TransportQueues_build api osBuild,
        subCollect = exchange_TransportQueues_collect api, minBuildNumber = 0\<rparr>),
      (''HttpProxy'', \<lparr>subFields = exchange_HttpProxy_fields, subDescs = exchange_HttpProxy_descs, subBuild = exchange_HttpProxy_build api osBuild,
        subCollect = exchange_HttpProxy_collect api, minBuildNumber = 0\<rparr>),
      (''ActiveSync'', \<lparr>subFields = exchange_ActiveSync_fields, subDescs = exchange_ActiveSync_descs, subBuild = exchange_ActiveSync_build api osBuild,
        subCollect = exchange_ActiveSync_collect api, minBuildNumber = 0\<rparr>),
      (''AvailabilityService'', \<lparr>subFields = exchange_AvailabilityService_fields, subDescs = exchange_AvailabilityService_descs, subBuild = exchange_AvailabilityService_build api osBuild,
        subCollect = exchange_AvailabilityService_collect api, minBuildNumber = 0\<rparr>),
      (''OutlookWebAccess'', \<lparr>subFields = exchange_OutlookWebAccess_fields, subDescs = exchange_OutlookWebAccess_descs, subBuild = exchange_OutlookWebAccess_build api osBuild,
        subCollect = exchange_OutlookWebAccess_collect api, minBuildNumber = 0\<rparr>),
      (''Autodiscover'', \<lparr>subFields = exchange_Autodiscover_fields, subDescs = exchange_Autodiscover_descs, subBuild = exchange_Autodiscover_build api osBuild,
        subCollect = exchange_Autodiscover_collect api, minBuildNumber = 0\<rparr>),
      (''WorkloadManagement'', \<lparr>subFields = exchange_WorkloadManagement_fields, subDescs = exchange_WorkloadManagement_descs, subBuild = exchange_WorkloadManagement_build api osBuild,
        subCollect = exchange_WorkloadManagement_collect api, minBuildNumber = 0\<rparr>),
      (''RpcClientAccess'', \<lparr>subFields = exchange_RpcClientAccess_fields, subDescs = exchange_RpcClientAccess_descs, subBuild = exchange_RpcClientAccess_build api osBuild,
        subCollect = exchange_RpcClientAccess_collect api, minBuildNumber = 0\<rparr>),
      (''MapiHttpEmsmdb'', \<lparr>subFields = exchange_MapiHttpEmsmdb_fields, subDescs = exchange_MapiHttpEmsmdb_descs, subBuild = exchange_MapiHttpEmsmdb_build api osBuild,
        subCollect = exchange_MapiHttpEmsmdb_collect api, minBuildNumber = 0\<rparr>)]"

definition exchange_Build :: "'w pdh_api \<Rightarrow> u16 \<Rightarrow> string list \<Rightarrow> subState \<Rightarrow> 'w \<Rightarrow> (go_error option \<times> subState \<times> 'w) option" where
  "exchange_Build api osBuild enabled c w =
     buildResult (buildSubs (exchange_subCollectors api osBuild) osBuild (\<lambda>n. perfDataCollector (sources c n)) enabled c w)"

definition exchange_Collect :: "u16 \<Rightarrow> (string list \<Rightarrow> string list) \<Rightarrow> 'w pdh_api \<Rightarrow> subState \<Rightarrow> 'w \<Rightarrow> (subState, 'w) collected" where
  "exchange_Collect osBuild sched api = collectSubs (exchange_subCollectors api osBuild) sched"

definition exchange_Close :: "'w pdh_api \<Rightarrow> subState \<Rightarrow> 'w \<Rightarrow> 'w" where
  "exchange_Close = closeSubs"

section \<open>The tables\<close>

lemma exchange_ADAccessProcesses_names: "distinct (map (\<lambda>(n, d). fqName d) exchange_ADAccessProcesses_descs)" by code_simp

lemma exchange_ADAccessProcesses_table: "table_ok exchange_ADAccessProcesses_descs (exchange_ADAccessProcesses_lines labelName r)"
  by (rule table_ok_names; unfold exchange_ADAccessProcesses_lines_def line_simps) code_simp+

interpretation exchange_ADAccessProcesses: keyed_table exchange_ADAccessProcesses_descs "\<lambda>(l, r). exchange_ADAccessProcesses_lines l r" fst "\<lambda>n. 0"
  by unfold_locales (auto simp: exchange_ADAccessProcesses_names exchange_ADAccessProcesses_table, simp add: exchange_ADAccessProcesses_lines_def)

lemma exchange_TransportQueues_names: "distinct (map (\<lambda>(n, d). fqName d) exchange_TransportQueues_descs)" by code_simp

lemma exchange_TransportQueues_table: "table_ok exchange_TransportQueues_descs (exchange_TransportQueues_lines r)"
  by (rule table_ok_names; unfold exchange_TransportQueues_lines_def line_simps) code_simp+

interpretation exchange_TransportQueues: keyed_table exchange_TransportQueues_descs exchange_TransportQueues_lines "\<lambda>r. toLabelName (rowName exchange_TransportQueues_fields r)" "\<lambda>n. 0"
  by unfold_locales (auto simp: exchange_TransportQueues_names exchange_TransportQueues_table, simp add: exchange_TransportQueues_lines_def)

lemma exchange_HttpProxy_names: "distinct (map (\<lambda>(n, d). fqName d) exchange_HttpProxy_descs)" by code_simp

lemma exchange_HttpProxy_table: "table_ok exchange_HttpProxy_descs (exchange_HttpProxy_lines r)"
  by (rule table_ok_names; unfold exchange_HttpProxy_lines_def line_simps) code_simp+

interpretation exchange_HttpProxy: keyed_table exchange_HttpProxy_descs exchange_HttpProxy_lines "\<lambda>r. toLabelName (rowName exchange_HttpProxy_fields r)" "\<lambda>n. 0"
  by unfold_locales (auto simp: exchange_HttpProxy_names exchange_HttpProxy_table, simp add: exchange_HttpProxy_lines_def)

lemma exchange_ActiveSync_names: "distinct (map (\<lambda>(n, d). fqName d) exchange_ActiveSync_descs)" by code_simp

lemma exchange_ActiveSync_table: "table_ok exchange_ActiveSync_descs (exchange_ActiveSync_lines r)"
  by (rule table_ok_names; unfold exchange_ActiveSync_lines_def line_simps) code_simp+

interpretation exchange_ActiveSync: perf_table exchange_ActiveSync_descs exchange_ActiveSync_lines
  by unfold_locales (rule exchange_ActiveSync_names exchange_ActiveSync_table)+

lemma exchange_AvailabilityService_names: "distinct (map (\<lambda>(n, d). fqName d) exchange_AvailabilityService_descs)" by code_simp

lemma exchange_AvailabilityService_table: "table_ok exchange_AvailabilityService_descs (exchange_AvailabilityService_lines r)"
  by (rule table_ok_names; unfold exchange_AvailabilityService_lines_def line_simps) code_simp+

interpretation exchange_AvailabilityService: perf_table exchange_AvailabilityService_descs exchange_AvailabilityService_lines
  by unfold_locales (rule exchange_AvailabilityService_names exchange_AvailabilityService_table)+

lemma exchange_OutlookWebAccess_names: "distinct (map (\<lambda>(n, d). fqName d) exchange_OutlookWebAccess_descs)" by code_simp

lemma exchange_OutlookWebAccess_table: "table_ok exchange_OutlookWebAccess_descs (exchange_OutlookWebAccess_lines r)"
  by (rule table_ok_names; unfold exchange_OutlookWebAccess_lines_def line_simps) code_simp+

interpretation exchange_OutlookWebAccess: perf_table exchange_OutlookWebAccess_descs exchange_OutlookWebAccess_lines
  by unfold_locales (rule exchange_OutlookWebAccess_names exchange_OutlookWebAccess_table)+

lemma exchange_Autodiscover_names: "distinct (map (\<lambda>(n, d). fqName d) exchange_Autodiscover_descs)" by code_simp

lemma exchange_Autodiscover_table: "table_ok exchange_Autodiscover_descs (exchange_Autodiscover_lines r)"
  by (rule table_ok_names; unfold exchange_Autodiscover_lines_def line_simps) code_simp+

interpretation exchange_Autodiscover: perf_table exchange_Autodiscover_descs exchange_Autodiscover_lines
  by unfold_locales (rule exchange_Autodiscover_names exchange_Autodiscover_table)+

lemma exchange_WorkloadManagement_names: "distinct (map (\<lambda>(n, d). fqName d) exchange_WorkloadManagement_descs)" by code_simp

lemma exchange_WorkloadManagement_table: "table_ok exchange_WorkloadManagement_descs (exchange_WorkloadManagement_lines r)"
  by (rule table_ok_names; unfold exchange_WorkloadManagement_lines_def line_simps) code_simp+

interpretation exchange_WorkloadManagement: keyed_table exchange_WorkloadManagement_descs exchange_WorkloadManagement_lines "\<lambda>r. toLabelName (rowName exchange_WorkloadManagement_fields r)" "\<lambda>n. 0"
  by unfold_locales (auto simp: exchange_WorkloadManagement_names exchange_WorkloadManagement_table, simp add: exchange_WorkloadManagement_lines_def)

lemma exchange_RpcClientAccess_names: "distinct (map (\<lambda>(n, d). fqName d) exchange_RpcClientAccess_descs)" by code_simp

lemma exchange_RpcClientAccess_table: "table_ok exchange_RpcClientAccess_descs (exchange_RpcClientAccess_lines r)"
  by (rule table_ok_names; unfold exchange_RpcClientAccess_lines_def line_simps) code_simp+

interpretation exchange_RpcClientAccess: perf_table exchange_RpcClientAccess_descs exchange_RpcClientAccess_lines
  by unfold_locales (rule exchange_RpcClientAccess_names exchange_RpcClientAccess_table)+

lemma exchange_MapiHttpEmsmdb_names: "distinct (map (\<lambda>(n, d). fqName d) exchange_MapiHttpEmsmdb_descs)" by code_simp

lemma exchange_MapiHttpEmsmdb_table: "table_ok exchange_MapiHttpEmsmdb_descs (exchange_MapiHttpEmsmdb_lines r)"
  by (rule table_ok_names; unfold exchange_MapiHttpEmsmdb_lines_def line_simps) code_simp+

interpretation exchange_MapiHttpEmsmdb: perf_table exchange_MapiHttpEmsmdb_descs exchange_MapiHttpEmsmdb_lines
  by unfold_locales (rule exchange_MapiHttpEmsmdb_names exchange_MapiHttpEmsmdb_table)+

section \<open>What is accepted\<close>

text \<open>The labels that the use counts give to the rows.\<close>

fun useLabels :: "(string \<Rightarrow> nat) \<Rightarrow> string list \<Rightarrow> string list" where
  "useLabels u [] = []"
| "useLabels u (n # ns) = (let k = u n + 1 in (if k > 1 then n @ ''_'' @ show_nat k else n) # useLabels (u(n := k)) ns)"

lemma adRows_labels:
  "exchange_ADAccessProcesses_rows u rs =
     concat (map (\<lambda>(l, r). exchange_ADAccessProcesses_lines l r)
       (zip (useLabels u (map (\<lambda>r. toLabelName (rowName exchange_ADAccessProcesses_fields r)) rs)) rs))"
  by (induction rs arbitrary: u) (simp_all add: Let_def)

lemma useLabels_length [simp]: "length (useLabels u ns) = length ns"
  by (induction ns arbitrary: u) (simp_all add: Let_def)

text \<open>The label of the \<open>k\<close>th row with the name \<open>n\<close>.\<close>

definition useLabel :: "string \<Rightarrow> nat \<Rightarrow> string" where
  "useLabel n k = (if k > 1 then n @ ''_'' @ show_nat k else n)"

lemma last_underscore: "m @ ''_'' @ show_nat j = n @ ''_'' @ show_nat k \<longleftrightarrow> m = n \<and> j = k"
proof
  assume eq: "m @ ''_'' @ show_nat j = n @ ''_'' @ show_nat k"
  let ?p = "\<lambda>c. c \<noteq> CHR ''_''"
  have digits: "CHR ''_'' \<notin> set (show_nat i)" for i by (rule show_nat_no_char) (simp add: is_digit_def)
  have tail: "takeWhile ?p (rev (s @ ''_'' @ show_nat i)) = rev (show_nat i)" for s i
  proof -
    have "rev (s @ ''_'' @ show_nat i) = rev (show_nat i) @ CHR ''_'' # rev s" by simp
    moreover have "takeWhile ?p (rev (show_nat i) @ CHR ''_'' # rev s) = rev (show_nat i)"
      using digits [of i] by (subst takeWhile_append2) auto
    ultimately show ?thesis by simp
  qed
  have "rev (show_nat j) = rev (show_nat k)" using tail [of m j] tail [of n k] unfolding eq by (rule trans [OF sym])
  then show "m = n \<and> j = k" using eq by simp
qed simp

lemma useLabels_set: "l \<in> set (useLabels u ns) \<Longrightarrow> \<exists>n\<in>set ns. \<exists>k > u n. l = useLabel n k"
proof (induction ns arbitrary: u)
  case Nil
  then show ?case by simp
next
  case (Cons n ns)
  show ?case
  proof (cases "l = useLabel n (u n + 1)")
    case True
    then show ?thesis by auto
  next
    case False
    then have "l \<in> set (useLabels (u(n := u n + 1)) ns)" using Cons.prems by (auto simp: Let_def useLabel_def split: if_splits)
    then obtain m k where "m \<in> set ns" "(u(n := u n + 1)) m < k" "l = useLabel m k" using Cons.IH by blast
    then show ?thesis by (intro bexI [of _ m] exI [of _ k]) (auto split: if_splits)
  qed
qed

text \<open>
  The counted labels differ when no name is another name with a number behind it. Otherwise they need not: the second \<open>a\<close> and a row named \<open>a_2\<close>
  get the same label.
\<close>

definition no_counted_name :: "string set \<Rightarrow> bool" where
  "no_counted_name ns \<longleftrightarrow> (\<forall>n\<in>ns. \<forall>m\<in>ns. \<forall>k. n \<noteq> m @ ''_'' @ show_nat k)"

lemma useLabels_distinct: "no_counted_name (set ns) \<Longrightarrow> distinct (useLabels u ns)"
proof (induction ns arbitrary: u)
  case Nil
  then show ?case by simp
next
  case (Cons n ns)
  have sub: "no_counted_name (set ns)" using Cons.prems by (simp add: no_counted_name_def)
  have "useLabel n (u n + 1) \<notin> set (useLabels (u(n := u n + 1)) ns)"
  proof
    assume "useLabel n (u n + 1) \<in> set (useLabels (u(n := u n + 1)) ns)"
    then obtain m k where m: "m \<in> set ns" "(u(n := u n + 1)) m < k" "useLabel n (u n + 1) = useLabel m k"
      using useLabels_set by blast
    have "n \<noteq> m @ ''_'' @ show_nat k" "m \<noteq> n @ ''_'' @ show_nat (u n + 1)"
      using Cons.prems m(1) by (simp_all add: no_counted_name_def)
    then have "n = m \<and> u n + 1 = k"
      using m(2,3) last_underscore [of n "u n + 1" m k] by (auto simp: useLabel_def split: if_splits)
    then show False using m(2) by (auto split: if_splits)
  qed
  then show ?case using Cons.IH [OF sub] by (simp add: Let_def useLabel_def)
qed

theorem ad_access_labels:
  assumes "no_counted_name (set (map (\<lambda>r. toLabelName (rowName exchange_ADAccessProcesses_fields r)) rs))"
  shows "accepted (sendAll exchange_ADAccessProcesses_descs (exchange_ADAccessProcesses_rows (\<lambda>n. 0) rs))"
  unfolding adRows_labels
  by (rule exchange_ADAccessProcesses.rows_accepted) (simp add: useLabels_distinct [OF assms] del: list.set_map)

theorem ad_access_labels_clash: "useLabels (\<lambda>n. 0) [''a'', ''a'', ''a_2''] = [''a'', ''a_2'', ''a_2'']"
  by code_simp

text \<open>\<open>Close\<close> of a collector that was built once closes none of its queries.\<close>

theorem exchange_close_leaks:
  "case exchange_Build api osBuild enabled noSubs w of None \<Rightarrow> True | Some (err, c, w') \<Rightarrow> exchange_Close api c w2 = w2"
proof -
  have "exchange_Build api osBuild enabled noSubs w = buildResult (buildSubs (exchange_subCollectors api osBuild) osBuild (\<lambda>n. None) enabled noSubs w)"
    by (simp add: exchange_Build_def noSubs_def noSource_def)
  then show ?thesis
    by (auto simp: buildResult_def exchange_Close_def dest: closeSubs_nothing split: option.splits)
qed

end
