(* ===== verification/Perf_Iis.thy ===== *)
theory Perf_Iis
  imports Perf_Subs Utils
begin

text \<open>
  The IIS collector (internal/collector/iis): sites, application pools, worker processes and the cache, the removal of duplicate names that the
  first three start with, and \<open>Build\<close>, \<open>Collect\<close> and \<open>Close\<close>. The results: names without a number sign are only sorted, and the metrics of the sites are
  accepted; with one in the third place or later the removal panics.
\<close>

section \<open>Removal of duplicate names\<close>

text \<open>
  \<open>deduplicateIISNames\<close>. The slice is sorted by name (names are distinct, so that there is one order). The loop ranges over the sorted slice of \<open>n\<close> rows and reads
  \<open>arr\<close>, the array behind it; \<open>len\<close> is the length of the variable \<open>counterValues\<close>, which \<open>slices.Delete\<close> shortens. The caller keeps
  its slice of \<open>n\<close> rows. A name that \<open>indexes\<close> does not have gives the index 0. \<open>slices.Delete(s, i, 1)\<close> panics unless \<open>i \<le> 1 \<le> len(s)\<close>, and
  leaves the slice as it is for \<open>i = 1\<close>; otherwise it moves the rows down and clears the last one.
\<close>

definition iisBase :: "string \<Rightarrow> string" where
  "iisBase n = hd (Split n (CHR ''#''))"

fun dedupLoop :: "structField list \<Rightarrow> nat \<Rightarrow> nat \<Rightarrow> (string \<rightharpoonup> nat) \<Rightarrow> nat \<Rightarrow> row list \<Rightarrow> row list option" where
  "dedupLoop fs 0 index indexes len arr = Some arr"
| "dedupLoop fs (Suc todo) index indexes len arr =
     (let counterValue = arr ! index; name = iisBase (rowName fs counterValue) in
      if name = rowName fs counterValue then dedupLoop fs todo (index + 1) indexes len arr
      else case indexes name of
             None \<Rightarrow>
               (if len = 0 then None
                else let arr' = arr[0 := counterValue] in
                     if \<not> (index \<le> 1 \<and> 1 \<le> len) then None
                     else if index = 1 then dedupLoop fs todo (index + 1) indexes len arr'
                     else dedupLoop fs todo (index + 1) indexes (len - 1) (drop 1 (take len arr') @ [zeroElem fs] @ drop len arr'))
           | Some originalIndex \<Rightarrow> dedupLoop fs todo (index + 1) (indexes(name \<mapsto> index)) len arr)"

definition deduplicateIISNames :: "structField list \<Rightarrow> row list \<Rightarrow> row list option" where
  "deduplicateIISNames fs rs = dedupLoop fs (length rs) 0 (\<lambda>n. None) (length rs) (sort_key (rowName fs) rs)"

text \<open>Rows, with duplicate names removed, and the metrics of each.\<close>

definition collectDedup ::
  "'w pdh_api \<Rightarrow> structField list \<Rightarrow> string \<Rightarrow> descTable \<Rightarrow> (row \<Rightarrow> line list) \<Rightarrow> perfSource \<Rightarrow> 'w \<Rightarrow> (perfSource, 'w) collected" where
  "collectDedup api fs msg ds lines src w =
     (case perfCollect api fs src w of
        None \<Rightarrow> None
      | Some (Some e, src', w') \<Rightarrow> Some (Some (Wrapf msg [] e), [], src', w')
      | Some (None, src', w') \<Rightarrow>
          (case deduplicateIISNames fs (perfDataObject src') of
             None \<Rightarrow> None
           | Some rs \<Rightarrow>
               (case sendAll ds (concat (map lines rs)) of
                  None \<Rightarrow> None
                | Some ms \<Rightarrow> Some (None, ms, src'\<lparr>perfDataObject := rs\<rparr>, w'))))"

section \<open>Web Service\<close>

definition iis_web_service_fields :: "structField list" where
  "iis_web_service_fields =
     [nameField,
      perfField ''WebServiceCurrentAnonymousUsers'' ''Current Anonymous Users'',
      perfField ''WebServiceCurrentBlockedAsyncIORequests'' ''Current Blocked Async I/O Requests'',
      perfField ''WebServiceCurrentCGIRequests'' ''Current CGI Requests'',
      perfField ''WebServiceCurrentConnections'' ''Current Connections'',
      perfField ''WebServiceCurrentISAPIExtensionRequests'' ''Current ISAPI Extension Requests'',
      perfField ''WebServiceCurrentNonAnonymousUsers'' ''Current NonAnonymous Users'',
      perfField ''WebServiceServiceUptime'' ''Service Uptime'',
      perfField ''WebServiceTotalBytesReceived'' ''Total Bytes Received'',
      perfField ''WebServiceTotalBytesSent'' ''Total Bytes Sent'',
      perfField ''WebServiceTotalAnonymousUsers'' ''Total Anonymous Users'',
      perfField ''WebServiceTotalBlockedAsyncIORequests'' ''Total Blocked Async I/O Requests'',
      perfField ''WebServiceTotalCGIRequests'' ''Total CGI Requests'',
      perfField ''WebServiceTotalConnectionAttemptsAllInstances'' ''Total Connection Attempts (all instances)'',
      perfField ''WebServiceTotalFilesReceived'' ''Total Files Received'',
      perfField ''WebServiceTotalFilesSent'' ''Total Files Sent'',
      perfField ''WebServiceTotalISAPIExtensionRequests'' ''Total ISAPI Extension Requests'',
      perfField ''WebServiceTotalLockedErrors'' ''Total Locked Errors'',
      perfField ''WebServiceTotalLogonAttempts'' ''Total Logon Attempts'',
      perfField ''WebServiceTotalNonAnonymousUsers'' ''Total NonAnonymous Users'',
      perfField ''WebServiceTotalNotFoundErrors'' ''Total Not Found Errors'',
      perfField ''WebServiceTotalRejectedAsyncIORequests'' ''Total Rejected Async I/O Requests'',
      perfField ''WebServiceTotalCopyRequests'' ''Total Copy Requests'',
      perfField ''WebServiceTotalDeleteRequests'' ''Total Delete Requests'',
      perfField ''WebServiceTotalGetRequests'' ''Total Get Requests'',
      perfField ''WebServiceTotalHeadRequests'' ''Total Head Requests'',
      perfField ''WebServiceTotalLockRequests'' ''Total Lock Requests'',
      perfField ''WebServiceTotalMkcolRequests'' ''Total Mkcol Requests'',
      perfField ''WebServiceTotalMoveRequests'' ''Total Move Requests'',
      perfField ''WebServiceTotalOptionsRequests'' ''Total Options Requests'',
      perfField ''WebServiceTotalOtherRequests'' ''Total Other Request Methods'',
      perfField ''WebServiceTotalPostRequests'' ''Total Post Requests'',
      perfField ''WebServiceTotalPropfindRequests'' ''Total Propfind Requests'',
      perfField ''WebServiceTotalProppatchRequests'' ''Total Proppatch Requests'',
      perfField ''WebServiceTotalPutRequests'' ''Total Put Requests'',
      perfField ''WebServiceTotalSearchRequests'' ''Total Search Requests'',
      perfField ''WebServiceTotalTraceRequests'' ''Total Trace Requests'',
      perfField ''WebServiceTotalUnlockRequests'' ''Total Unlock Requests'']"

definition iis_web_service_descs :: descTable where
  "iis_web_service_descs =
     [(''webServiceCurrentAnonymousUsers'', NewDesc (BuildFQName Namespace ''iis'' ''current_anonymous_users'')
        ''Number of users who currently have an anonymous connection using the Web service (WebService.CurrentAnonymousUsers)'' [''site'']),
      (''webServiceCurrentBlockedAsyncIORequests'', NewDesc (BuildFQName Namespace ''iis'' ''current_blocked_async_io_requests'')
        ''Current requests temporarily blocked due to bandwidth throttling settings (WebService.CurrentBlockedAsyncIORequests)'' [''site'']),
      (''webServiceCurrentCGIRequests'', NewDesc (BuildFQName Namespace ''iis'' ''current_cgi_requests'')
        ''Current number of CGI requests being simultaneously processed by the Web service (WebService.CurrentCGIRequests)'' [''site'']),
      (''webServiceCurrentConnections'', NewDesc (BuildFQName Namespace ''iis'' ''current_connections'')
        ''Current number of connections established with the Web service (WebService.CurrentConnections)'' [''site'']),
      (''webServiceCurrentISAPIExtensionRequests'', NewDesc (BuildFQName Namespace ''iis'' ''current_isapi_extension_requests'')
        ''Current number of ISAPI requests being simultaneously processed by the Web service (WebService.CurrentISAPIExtensionRequests)'' [''site'']),
      (''webServiceCurrentNonAnonymousUsers'', NewDesc (BuildFQName Namespace ''iis'' ''current_non_anonymous_users'')
        ''Number of users who currently have a non-anonymous connection using the Web service (WebService.CurrentNonAnonymousUsers)'' [''site'']),
      (''webServiceServiceUptime'', NewDesc (BuildFQName Namespace ''iis'' ''service_uptime'')
        ''Number of seconds the WebService is up (WebService.ServiceUptime)'' [''site'']),
      (''webServiceTotalBytesReceived'', NewDesc (BuildFQName Namespace ''iis'' ''received_bytes_total'')
        ''Number of data bytes that have been received by the Web service (WebService.TotalBytesReceived)'' [''site'']),
      (''webServiceTotalBytesSent'', NewDesc (BuildFQName Namespace ''iis'' ''sent_bytes_total'')
        ''Number of data bytes that have been sent by the Web service (WebService.TotalBytesSent)'' [''site'']),
      (''webServiceTotalAnonymousUsers'', NewDesc (BuildFQName Namespace ''iis'' ''anonymous_users_total'')
        ''Total number of users who established an anonymous connection with the Web service (WebService.TotalAnonymousUsers)'' [''site'']),
      (''webServiceTotalBlockedAsyncIORequests'', NewDesc (BuildFQName Namespace ''iis'' ''blocked_async_io_requests_total'')
        ''Total requests temporarily blocked due to bandwidth throttling settings (WebService.TotalBlockedAsyncIORequests)'' [''site'']),
      (''webServiceTotalCGIRequests'', NewDesc (BuildFQName Namespace ''iis'' ''cgi_requests_total'')
        ''Total CGI requests is the total number of CGI requests (WebService.TotalCGIRequests)'' [''site'']),
      (''webServiceTotalConnectionAttemptsAllInstances'', NewDesc (BuildFQName Namespace ''iis'' ''connection_attempts_all_instances_total'')
        ''Number of connections that have been attempted using the Web service (WebService.TotalConnectionAttemptsAllInstances)'' [''site'']),
      (''webServiceTotalRequests'', NewDesc (BuildFQName Namespace ''iis'' ''requests_total'')
        ''Number of HTTP requests (WebService.TotalRequests)'' [''site'', ''method'']),
      (''webServiceTotalFilesReceived'', NewDesc (BuildFQName Namespace ''iis'' ''files_received_total'')
        ''Number of files received by the Web service (WebService.TotalFilesReceived)'' [''site'']),
      (''webServiceTotalFilesSent'', NewDesc (BuildFQName Namespace ''iis'' ''files_sent_total'')
        ''Number of files sent by the Web service (WebService.TotalFilesSent)'' [''site'']),
      (''webServiceTotalISAPIExtensionRequests'', NewDesc (BuildFQName Namespace ''iis'' ''ipapi_extension_requests_total'')
        ''ISAPI Extension Requests received (WebService.TotalISAPIExtensionRequests)'' [''site'']),
      (''webServiceTotalLockedErrors'', NewDesc (BuildFQName Namespace ''iis'' ''locked_errors_total'')
        ''Number of requests that couldn't be satisfied by the server because the requested resource was locked (WebService.TotalLockedErrors)'' [''site'']),
      (''webServiceTotalLogonAttempts'', NewDesc (BuildFQName Namespace ''iis'' ''logon_attempts_total'')
        ''Number of logons attempts to the Web Service (WebService.TotalLogonAttempts)'' [''site'']),
      (''webServiceTotalNonAnonymousUsers'', NewDesc (BuildFQName Namespace ''iis'' ''non_anonymous_users_total'')
        ''Number of users who established a non-anonymous connection with the Web service (WebService.TotalNonAnonymousUsers)'' [''site'']),
      (''webServiceTotalNotFoundErrors'', NewDesc (BuildFQName Namespace ''iis'' ''not_found_errors_total'')
        ''Number of requests that couldn't be satisfied by the server because the requested document could not be found (WebService.TotalNotFoundErrors)'' [''site'']),
      (''webServiceTotalRejectedAsyncIORequests'', NewDesc (BuildFQName Namespace ''iis'' ''rejected_async_io_requests_total'')
        ''Requests rejected due to bandwidth throttling settings (WebService.TotalRejectedAsyncIORequests)'' [''site''])]"

definition iis_web_service_lines :: "row \<Rightarrow> line list" where
  "iis_web_service_lines r =
     [(''webServiceCurrentAnonymousUsers'', GaugeValue, num iis_web_service_fields r ''WebServiceCurrentAnonymousUsers'', [rowName iis_web_service_fields r]),
      (''webServiceCurrentBlockedAsyncIORequests'', GaugeValue, num iis_web_service_fields r ''WebServiceCurrentBlockedAsyncIORequests'', [rowName iis_web_service_fields r]),
      (''webServiceCurrentCGIRequests'', GaugeValue, num iis_web_service_fields r ''WebServiceCurrentCGIRequests'', [rowName iis_web_service_fields r]),
      (''webServiceCurrentConnections'', GaugeValue, num iis_web_service_fields r ''WebServiceCurrentConnections'', [rowName iis_web_service_fields r]),
      (''webServiceCurrentISAPIExtensionRequests'', GaugeValue, num iis_web_service_fields r ''WebServiceCurrentISAPIExtensionRequests'', [rowName iis_web_service_fields r]),
      (''webServiceCurrentNonAnonymousUsers'', GaugeValue, num iis_web_service_fields r ''WebServiceCurrentNonAnonymousUsers'', [rowName iis_web_service_fields r]),
      (''webServiceServiceUptime'', GaugeValue, num iis_web_service_fields r ''WebServiceServiceUptime'', [rowName iis_web_service_fields r]),
      (''webServiceTotalBytesReceived'', CounterValue, num iis_web_service_fields r ''WebServiceTotalBytesReceived'', [rowName iis_web_service_fields r]),
      (''webServiceTotalBytesSent'', CounterValue, num iis_web_service_fields r ''WebServiceTotalBytesSent'', [rowName iis_web_service_fields r]),
      (''webServiceTotalAnonymousUsers'', CounterValue, num iis_web_service_fields r ''WebServiceTotalAnonymousUsers'', [rowName iis_web_service_fields r]),
      (''webServiceTotalBlockedAsyncIORequests'', CounterValue, num iis_web_service_fields r ''WebServiceTotalBlockedAsyncIORequests'', [rowName iis_web_service_fields r]),
      (''webServiceTotalCGIRequests'', CounterValue, num iis_web_service_fields r ''WebServiceTotalCGIRequests'', [rowName iis_web_service_fields r]),
      (''webServiceTotalConnectionAttemptsAllInstances'', CounterValue, num iis_web_service_fields r ''WebServiceTotalConnectionAttemptsAllInstances'', [rowName iis_web_service_fields r]),
      (''webServiceTotalFilesReceived'', CounterValue, num iis_web_service_fields r ''WebServiceTotalFilesReceived'', [rowName iis_web_service_fields r]),
      (''webServiceTotalFilesSent'', CounterValue, num iis_web_service_fields r ''WebServiceTotalFilesSent'', [rowName iis_web_service_fields r]),
      (''webServiceTotalISAPIExtensionRequests'', CounterValue, num iis_web_service_fields r ''WebServiceTotalISAPIExtensionRequests'', [rowName iis_web_service_fields r]),
      (''webServiceTotalLockedErrors'', CounterValue, num iis_web_service_fields r ''WebServiceTotalLockedErrors'', [rowName iis_web_service_fields r]),
      (''webServiceTotalLogonAttempts'', CounterValue, num iis_web_service_fields r ''WebServiceTotalLogonAttempts'', [rowName iis_web_service_fields r]),
      (''webServiceTotalNonAnonymousUsers'', CounterValue, num iis_web_service_fields r ''WebServiceTotalNonAnonymousUsers'', [rowName iis_web_service_fields r]),
      (''webServiceTotalNotFoundErrors'', CounterValue, num iis_web_service_fields r ''WebServiceTotalNotFoundErrors'', [rowName iis_web_service_fields r]),
      (''webServiceTotalRejectedAsyncIORequests'', CounterValue, num iis_web_service_fields r ''WebServiceTotalRejectedAsyncIORequests'', [rowName iis_web_service_fields r]),
      (''webServiceTotalRequests'', CounterValue, num iis_web_service_fields r ''WebServiceTotalOtherRequests'', [rowName iis_web_service_fields r, ''other'']),
      (''webServiceTotalRequests'', CounterValue, num iis_web_service_fields r ''WebServiceTotalCopyRequests'', [rowName iis_web_service_fields r, ''COPY'']),
      (''webServiceTotalRequests'', CounterValue, num iis_web_service_fields r ''WebServiceTotalDeleteRequests'', [rowName iis_web_service_fields r, ''DELETE'']),
      (''webServiceTotalRequests'', CounterValue, num iis_web_service_fields r ''WebServiceTotalGetRequests'', [rowName iis_web_service_fields r, ''GET'']),
      (''webServiceTotalRequests'', CounterValue, num iis_web_service_fields r ''WebServiceTotalHeadRequests'', [rowName iis_web_service_fields r, ''HEAD'']),
      (''webServiceTotalRequests'', CounterValue, num iis_web_service_fields r ''WebServiceTotalLockRequests'', [rowName iis_web_service_fields r, ''LOCK'']),
      (''webServiceTotalRequests'', CounterValue, num iis_web_service_fields r ''WebServiceTotalMkcolRequests'', [rowName iis_web_service_fields r, ''MKCOL'']),
      (''webServiceTotalRequests'', CounterValue, num iis_web_service_fields r ''WebServiceTotalMoveRequests'', [rowName iis_web_service_fields r, ''MOVE'']),
      (''webServiceTotalRequests'', CounterValue, num iis_web_service_fields r ''WebServiceTotalOptionsRequests'', [rowName iis_web_service_fields r, ''OPTIONS'']),
      (''webServiceTotalRequests'', CounterValue, num iis_web_service_fields r ''WebServiceTotalPostRequests'', [rowName iis_web_service_fields r, ''POST'']),
      (''webServiceTotalRequests'', CounterValue, num iis_web_service_fields r ''WebServiceTotalPropfindRequests'', [rowName iis_web_service_fields r, ''PROPFIND'']),
      (''webServiceTotalRequests'', CounterValue, num iis_web_service_fields r ''WebServiceTotalProppatchRequests'', [rowName iis_web_service_fields r, ''PROPPATCH'']),
      (''webServiceTotalRequests'', CounterValue, num iis_web_service_fields r ''WebServiceTotalPutRequests'', [rowName iis_web_service_fields r, ''PUT'']),
      (''webServiceTotalRequests'', CounterValue, num iis_web_service_fields r ''WebServiceTotalSearchRequests'', [rowName iis_web_service_fields r, ''SEARCH'']),
      (''webServiceTotalRequests'', CounterValue, num iis_web_service_fields r ''WebServiceTotalTraceRequests'', [rowName iis_web_service_fields r, ''TRACE'']),
      (''webServiceTotalRequests'', CounterValue, num iis_web_service_fields r ''WebServiceTotalUnlockRequests'', [rowName iis_web_service_fields r, ''UNLOCK''])]"

definition iis_web_service_build :: "'w pdh_api \<Rightarrow> u16 \<Rightarrow> 'w \<Rightarrow> (go_error option \<times> perfSource \<times> 'w) option" where
  "iis_web_service_build api osBuild = perfBuild api osBuild ''failed to create Web Service collector: %w'' ''Web Service'' [''*''] iis_web_service_fields"

definition iis_web_service_collect ::
  "(string \<Rightarrow> bool) \<Rightarrow> (string \<Rightarrow> bool) \<Rightarrow> 'w pdh_api \<Rightarrow> perfSource \<Rightarrow> 'w \<Rightarrow> (perfSource, 'w) collected" where
  "iis_web_service_collect exclude include api = collectDedup api iis_web_service_fields ''failed to collect Web Service metrics: %w'' iis_web_service_descs (\<lambda>r. if included exclude include (rowName iis_web_service_fields r) then iis_web_service_lines r else [])"

section \<open>APP\_POOL\_WAS\<close>

definition iis_app_pool_fields :: "structField list" where
  "iis_app_pool_fields =
     [nameField,
      perfField ''CurrentApplicationPoolState'' ''Current Application Pool State'',
      perfField ''CurrentApplicationPoolUptime'' ''Current Application Pool Uptime'',
      perfField ''CurrentWorkerProcesses'' ''Current Worker Processes'',
      perfField ''MaximumWorkerProcesses'' ''Maximum Worker Processes'',
      perfField ''RecentWorkerProcessFailures'' ''Recent Worker Process Failures'',
      perfField ''TimeSinceLastWorkerProcessFailure'' ''Time Since Last Worker Process Failure'',
      perfField ''TotalApplicationPoolRecycles'' ''Total Application Pool Recycles'',
      perfField ''TotalApplicationPoolUptime'' ''Total Application Pool Uptime'',
      perfField ''TotalWorkerProcessesCreated'' ''Total Worker Processes Created'',
      perfField ''TotalWorkerProcessFailures'' ''Total Worker Process Failures'',
      perfField ''TotalWorkerProcessPingFailures'' ''Total Worker Process Ping Failures'',
      perfField ''TotalWorkerProcessShutdownFailures'' ''Total Worker Process Shutdown Failures'',
      perfField ''TotalWorkerProcessStartupFailures'' ''Total Worker Process Startup Failures'']"

definition iis_app_pool_descs :: descTable where
  "iis_app_pool_descs =
     [(''currentApplicationPoolState'', NewDesc (BuildFQName Namespace ''iis'' ''current_application_pool_state'')
        ''The current status of the application pool (1 - Uninitialized, 2 - Initialized, 3 - Running, 4 - Disabling, 5 - Disabled, 6 - Shutdown Pending, 7 - Delete Pending) (CurrentApplicationPoolState)'' [''app'', ''state'']),
      (''currentApplicationPoolUptime'', NewDesc (BuildFQName Namespace ''iis'' ''current_application_pool_start_time'')
        ''The unix timestamp for the application pool start time (CurrentApplicationPoolUptime)'' [''app'']),
      (''currentWorkerProcesses'', NewDesc (BuildFQName Namespace ''iis'' ''current_worker_processes'')
        ''The current number of worker processes that are running in the application pool (CurrentWorkerProcesses)'' [''app'']),
      (''maximumWorkerProcesses'', NewDesc (BuildFQName Namespace ''iis'' ''maximum_worker_processes'')
        ''The maximum number of worker processes that have been created for the application pool since Windows Process Activation Service (WAS) started (MaximumWorkerProcesses)'' [''app'']),
      (''recentWorkerProcessFailures'', NewDesc (BuildFQName Namespace ''iis'' ''recent_worker_process_failures'')
        ''The number of times that worker processes for the application pool failed during the rapid-fail protection interval (RecentWorkerProcessFailures)'' [''app'']),
      (''timeSinceLastWorkerProcessFailure'', NewDesc (BuildFQName Namespace ''iis'' ''time_since_last_worker_process_failure'')
        ''The length of time, in seconds, since the last worker process failure occurred for the application pool (TimeSinceLastWorkerProcessFailure)'' [''app'']),
      (''totalApplicationPoolRecycles'', NewDesc (BuildFQName Namespace ''iis'' ''total_application_pool_recycles'')
        ''The number of times that the application pool has been recycled since Windows Process Activation Service (WAS) started (TotalApplicationPoolRecycles)'' [''app'']),
      (''totalApplicationPoolUptime'', NewDesc (BuildFQName Namespace ''iis'' ''total_application_pool_start_time'')
        ''The unix timestamp for the application pool of when the Windows Process Activation Service (WAS) started (TotalApplicationPoolUptime)'' [''app'']),
      (''totalWorkerProcessesCreated'', NewDesc (BuildFQName Namespace ''iis'' ''total_worker_processes_created'')
        ''The number of worker processes created for the application pool since Windows Process Activation Service (WAS) started (TotalWorkerProcessesCreated)'' [''app'']),
      (''totalWorkerProcessFailures'', NewDesc (BuildFQName Namespace ''iis'' ''total_worker_process_failures'')
        ''The number of times that worker processes have crashed since the application pool was started (TotalWorkerProcessFailures)'' [''app'']),
      (''totalWorkerProcessPingFailures'', NewDesc (BuildFQName Namespace ''iis'' ''total_worker_process_ping_failures'')
        ''The number of times that Windows Process Activation Service (WAS) did not receive a response to ping messages sent to a worker process (TotalWorkerProcessPingFailures)'' [''app'']),
      (''totalWorkerProcessShutdownFailures'', NewDesc (BuildFQName Namespace ''iis'' ''total_worker_process_shutdown_failures'')
        ''The number of times that Windows Process Activation Service (WAS) failed to shut down a worker process (TotalWorkerProcessShutdownFailures)'' [''app'']),
      (''totalWorkerProcessStartupFailures'', NewDesc (BuildFQName Namespace ''iis'' ''total_worker_process_startup_failures'')
        ''The number of times that Windows Process Activation Service (WAS) failed to start a worker process (TotalWorkerProcessStartupFailures)'' [''app''])]"

definition iis_app_pool_lines :: "row \<Rightarrow> line list" where
  "iis_app_pool_lines r =
     [(''currentApplicationPoolUptime'', GaugeValue, num iis_app_pool_fields r ''CurrentApplicationPoolUptime'', [rowName iis_app_pool_fields r]),
      (''currentWorkerProcesses'', GaugeValue, num iis_app_pool_fields r ''CurrentWorkerProcesses'', [rowName iis_app_pool_fields r]),
      (''maximumWorkerProcesses'', GaugeValue, num iis_app_pool_fields r ''MaximumWorkerProcesses'', [rowName iis_app_pool_fields r]),
      (''recentWorkerProcessFailures'', GaugeValue, num iis_app_pool_fields r ''RecentWorkerProcessFailures'', [rowName iis_app_pool_fields r]),
      (''timeSinceLastWorkerProcessFailure'', GaugeValue, num iis_app_pool_fields r ''TimeSinceLastWorkerProcessFailure'', [rowName iis_app_pool_fields r]),
      (''totalApplicationPoolRecycles'', CounterValue, num iis_app_pool_fields r ''TotalApplicationPoolRecycles'', [rowName iis_app_pool_fields r]),
      (''totalApplicationPoolUptime'', CounterValue, num iis_app_pool_fields r ''TotalApplicationPoolUptime'', [rowName iis_app_pool_fields r]),
      (''totalWorkerProcessesCreated'', CounterValue, num iis_app_pool_fields r ''TotalWorkerProcessesCreated'', [rowName iis_app_pool_fields r]),
      (''totalWorkerProcessFailures'', CounterValue, num iis_app_pool_fields r ''TotalWorkerProcessFailures'', [rowName iis_app_pool_fields r]),
      (''totalWorkerProcessPingFailures'', CounterValue, num iis_app_pool_fields r ''TotalWorkerProcessPingFailures'', [rowName iis_app_pool_fields r]),
      (''totalWorkerProcessShutdownFailures'', CounterValue, num iis_app_pool_fields r ''TotalWorkerProcessShutdownFailures'', [rowName iis_app_pool_fields r]),
      (''totalWorkerProcessStartupFailures'', CounterValue, num iis_app_pool_fields r ''TotalWorkerProcessStartupFailures'', [rowName iis_app_pool_fields r])]"

text \<open>The states of an application pool, in the order of their numbers; the order of a loop over the map is not specified.\<close>

definition applicationStates :: "(u32 \<times> string) list" where
  "applicationStates =
     [(1, ''Uninitialized''), (2, ''Initialized''), (3, ''Running''), (4, ''Disabling''), (5, ''Disabled''),
      (6, ''Shutdown Pending''), (7, ''Delete Pending'')]"

definition iis_app_pool_states :: "(f64 \<Rightarrow> u32) \<Rightarrow> row \<Rightarrow> line list" where
  "iis_app_pool_states other r =
     map (\<lambda>(key, label). (''currentApplicationPoolState'', GaugeValue,
            F_Fin (if key = toUint other (num iis_app_pool_fields r ''CurrentApplicationPoolState'') then 1 else 0),
            [rowName iis_app_pool_fields r, label]))
       applicationStates"

definition iis_app_pool_build :: "'w pdh_api \<Rightarrow> u16 \<Rightarrow> 'w \<Rightarrow> (go_error option \<times> perfSource \<times> 'w) option" where
  "iis_app_pool_build api osBuild = perfBuild api osBuild ''failed to create APP_POOL_WAS collector: %w'' ''APP_POOL_WAS'' [''*''] iis_app_pool_fields"

definition iis_app_pool_collect ::
  "(f64 \<Rightarrow> u32) \<Rightarrow> (string \<Rightarrow> bool) \<Rightarrow> (string \<Rightarrow> bool) \<Rightarrow> 'w pdh_api \<Rightarrow> perfSource \<Rightarrow> 'w \<Rightarrow> (perfSource, 'w) collected" where
  "iis_app_pool_collect other exclude include api = collectDedup api iis_app_pool_fields ''failed to collect APP_POOL_WAS metrics: %w'' iis_app_pool_descs (\<lambda>r. if included exclude include (rowName iis_app_pool_fields r) then iis_app_pool_states other r @ iis_app_pool_lines r else [])"

section \<open>W3SVC\_W3WP\<close>

text \<open>
  \<open>workerProcessNameExtractor\<close>, the regular expression \<open>^(\d+)_(.+)$\<close>: the digits before the first underscore and what follows it,
  which is not empty and has no line break. Where it does not match, \<open>ReplaceAllString\<close> leaves the string as it is.
\<close>

definition workerProcessName :: "string \<Rightarrow> (string \<times> string) option" where
  "workerProcessName n =
     (let pid = takeWhile is_digit n; rest = dropWhile is_digit n in
      if pid \<noteq> [] \<and> rest \<noteq> [] \<and> hd rest = CHR ''_'' \<and> tl rest \<noteq> [] \<and> CHR 0x0A \<notin> set rest then Some (pid, tl rest) else None)"

definition workerPid :: "string \<Rightarrow> string" where
  "workerPid n = (case workerProcessName n of None \<Rightarrow> n | Some (pid, app) \<Rightarrow> pid)"

definition workerApp :: "string \<Rightarrow> string" where
  "workerApp n = (case workerProcessName n of None \<Rightarrow> n | Some (pid, app) \<Rightarrow> app)"

definition workerKept :: "(string \<Rightarrow> bool) \<Rightarrow> (string \<Rightarrow> bool) \<Rightarrow> string \<Rightarrow> bool" where
  "workerKept exclude include app \<longleftrightarrow> \<not> (app = [] \<or> exclude app \<or> \<not> include app) \<and> CHR ''#'' \<notin> set app"

definition iis_w3wp_fields :: "structField list" where
  "iis_w3wp_fields =
     [nameField,
      perfField ''W3SVCW3WPThreads'' ''Active Threads Count'',
      perfField ''W3SVCW3WPMaximumThreads'' ''Maximum Threads Count'',
      perfField ''W3SVCW3WPRequestsTotal'' ''Total HTTP Requests Served'',
      perfField ''W3SVCW3WPRequestsActive'' ''Active Requests'',
      perfField ''W3SVCW3WPActiveFlushedEntries'' ''Active Flushed Entries'',
      perfField ''W3SVCW3WPCurrentFileCacheMemoryUsage'' ''Current File Cache Memory Usage'',
      perfField ''W3SVCW3WPMaximumFileCacheMemoryUsage'' ''Maximum File Cache Memory Usage'',
      perfField ''W3SVCW3WPFileCacheFlushesTotal'' ''File Cache Flushes'',
      perfField ''W3SVCW3WPFileCacheHitsTotal'' ''File Cache Hits'',
      perfField ''W3SVCW3WPFileCacheMissesTotal'' ''File Cache Misses'',
      perfField ''W3SVCW3WPFilesCached'' ''Current Files Cached'',
      perfField ''W3SVCW3WPFilesCachedTotal'' ''Total Files Cached'',
      perfField ''W3SVCW3WPFilesFlushedTotal'' ''Total Flushed Files'',
      perfField ''W3SVCW3WPURICacheFlushesTotal'' ''Total Flushed URIs'',
      perfField ''W3SVCW3WPURICacheHitsTotal'' ''URI Cache Hits'',
      perfField ''W3SVCW3WPURICacheMissesTotal'' ''URI Cache Misses'',
      perfField ''W3SVCW3WPURIsCached'' ''Current URIs Cached'',
      perfField ''W3SVCW3WPURIsCachedTotal'' ''Total URIs Cached'',
      perfField ''W3SVCW3WPURIsFlushedTotal'' ''Total Flushed URIs'',
      perfField ''W3SVCW3WPMetaDataCacheHits'' ''Metadata Cache Hits'',
      perfField ''W3SVCW3WPMetaDataCacheMisses'' ''Metadata Cache Misses'',
      perfField ''W3SVCW3WPMetadataCached'' ''Current Metadata Cached'',
      perfField ''W3SVCW3WPMetadataCacheFlushes'' ''Metadata Cache Flushes'',
      perfField ''W3SVCW3WPMetadataCachedTotal'' ''Total Metadata Cached'',
      perfField ''W3SVCW3WPMetadataFlushedTotal'' ''Total Flushed Metadata'',
      perfField ''W3SVCW3WPOutputCacheActiveFlushedItems'' ''Output Cache Current Flushed Items'',
      perfField ''W3SVCW3WPOutputCacheItems'' ''Output Cache Current Items'',
      perfField ''W3SVCW3WPOutputCacheMemoryUsage'' ''Output Cache Current Memory Usage'',
      perfField ''W3SVCW3WPOutputCacheHitsTotal'' ''Output Cache Total Hits'',
      perfField ''W3SVCW3WPOutputCacheMissesTotal'' ''Output Cache Total Misses'',
      perfField ''W3SVCW3WPOutputCacheFlushedItemsTotal'' ''Output Cache Total Flushed Items'',
      perfField ''W3SVCW3WPOutputCacheFlushesTotal'' ''Output Cache Total Flushes'']"

definition iis_w3wp_descs :: descTable where
  "iis_w3wp_descs =
     [(''w3SVCW3WPThreads'', NewDesc (BuildFQName Namespace ''iis'' ''worker_threads'')
        ''Number of threads actively processing requests in the worker process'' [''app'', ''pid'', ''state'']),
      (''w3SVCW3WPMaximumThreads'', NewDesc (BuildFQName Namespace ''iis'' ''worker_max_threads'')
        ''Maximum number of threads to which the thread pool can grow as needed'' [''app'', ''pid'']),
      (''w3SVCW3WPRequestsTotal'', NewDesc (BuildFQName Namespace ''iis'' ''worker_requests_total'')
        ''Total number of HTTP requests served by the worker process'' [''app'', ''pid'']),
      (''w3SVCW3WPRequestsActive'', NewDesc (BuildFQName Namespace ''iis'' ''worker_current_requests'')
        ''Current number of requests being processed by the worker process'' [''app'', ''pid'']),
      (''w3SVCW3WPActiveFlushedEntries'', NewDesc (BuildFQName Namespace ''iis'' ''worker_cache_active_flushed_entries'')
        ''Number of file handles cached in user-mode that will be closed when all current transfers complete.'' [''app'', ''pid'']),
      (''w3SVCW3WPCurrentFileCacheMemoryUsage'', NewDesc (BuildFQName Namespace ''iis'' ''worker_file_cache_memory_bytes'')
        ''Current number of bytes used by user-mode file cache'' [''app'', ''pid'']),
      (''w3SVCW3WPMaximumFileCacheMemoryUsage'', NewDesc (BuildFQName Namespace ''iis'' ''worker_file_cache_max_memory_bytes'')
        ''Maximum number of bytes used by user-mode file cache'' [''app'', ''pid'']),
      (''w3SVCW3WPFileCacheFlushesTotal'', NewDesc (BuildFQName Namespace ''iis'' ''worker_file_cache_flushes_total'')
        ''Total number of files removed from the user-mode cache'' [''app'', ''pid'']),
      (''w3SVCW3WPFileCacheQueriesTotal'', NewDesc (BuildFQName Namespace ''iis'' ''worker_file_cache_queries_total'')
        ''Total file cache queries (hits + misses)'' [''app'', ''pid'']),
      (''w3SVCW3WPFileCacheHitsTotal'', NewDesc (BuildFQName Namespace ''iis'' ''worker_file_cache_hits_total'')
        ''Total number of successful lookups in the user-mode file cache'' [''app'', ''pid'']),
      (''w3SVCW3WPFilesCached'', NewDesc (BuildFQName Namespace ''iis'' ''worker_file_cache_items'')
        ''Current number of files whose contents are present in user-mode cache'' [''app'', ''pid'']),
      (''w3SVCW3WPFilesCachedTotal'', NewDesc (BuildFQName Namespace ''iis'' ''worker_file_cache_items_total'')
        ''Total number of files whose contents were ever added to the user-mode cache (since service startup)'' [''app'', ''pid'']),
      (''w3SVCW3WPFilesFlushedTotal'', NewDesc (BuildFQName Namespace ''iis'' ''worker_file_cache_items_flushed_total'')
        ''Total number of file handles that have been removed from the user-mode cache (since service startup)'' [''app'', ''pid'']),
      (''w3SVCW3WPURICacheFlushesTotal'', NewDesc (BuildFQName Namespace ''iis'' ''worker_uri_cache_flushes_total'')
        ''Total number of URI cache flushes (since service startup)'' [''app'', ''pid'']),
      (''w3SVCW3WPURICacheQueriesTotal'', NewDesc (BuildFQName Namespace ''iis'' ''worker_uri_cache_queries_total'')
        ''Total number of uri cache queries (hits + misses)'' [''app'', ''pid'']),
      (''w3SVCW3WPURICacheHitsTotal'', NewDesc (BuildFQName Namespace ''iis'' ''worker_uri_cache_hits_total'')
        ''Total number of successful lookups in the user-mode URI cache (since service startup)'' [''app'', ''pid'']),
      (''w3SVCW3WPURIsCached'', NewDesc (BuildFQName Namespace ''iis'' ''worker_uri_cache_items'')
        ''Number of URI information blocks currently in the user-mode cache'' [''app'', ''pid'']),
      (''w3SVCW3WPURIsCachedTotal'', NewDesc (BuildFQName Namespace ''iis'' ''worker_uri_cache_items_total'')
        ''Total number of URI information blocks added to the user-mode cache (since service startup)'' [''app'', ''pid'']),
      (''w3SVCW3WPURIsFlushedTotal'', NewDesc (BuildFQName Namespace ''iis'' ''worker_uri_cache_items_flushed_total'')
        ''The number of URI information blocks that have been removed from the user-mode cache (since service startup)'' [''app'', ''pid'']),
      (''w3SVCW3WPMetadataCached'', NewDesc (BuildFQName Namespace ''iis'' ''worker_metadata_cache_items'')
        ''Number of metadata information blocks currently present in user-mode cache'' [''app'', ''pid'']),
      (''w3SVCW3WPMetadataCacheFlushes'', NewDesc (BuildFQName Namespace ''iis'' ''worker_metadata_cache_flushes_total'')
        ''Total number of user-mode metadata cache flushes (since service startup)'' [''app'', ''pid'']),
      (''w3SVCW3WPMetadataCacheQueriesTotal'', NewDesc (BuildFQName Namespace ''iis'' ''worker_metadata_cache_queries_total'')
        ''Total metadata cache queries (hits + misses)'' [''app'', ''pid'']),
      (''w3SVCW3WPMetadataCacheHitsTotal'', NewDesc (BuildFQName Namespace ''iis'' ''worker_metadata_cache_hits_total'')
        ''Total number of successful lookups in the user-mode metadata cache (since service startup)'' [''app'', ''pid'']),
      (''w3SVCW3WPMetadataCachedTotal'', NewDesc (BuildFQName Namespace ''iis'' ''worker_metadata_cache_items_cached_total'')
        ''Total number of metadata information blocks added to the user-mode cache (since service startup)'' [''app'', ''pid'']),
      (''w3SVCW3WPMetadataFlushedTotal'', NewDesc (BuildFQName Namespace ''iis'' ''worker_metadata_cache_items_flushed_total'')
        ''Total number of metadata information blocks removed from the user-mode cache (since service startup)'' [''app'', ''pid'']),
      (''w3SVCW3WPOutputCacheActiveFlushedItems'', NewDesc (BuildFQName Namespace ''iis'' ''worker_output_cache_active_flushed_items'')
        '''' [''app'', ''pid'']),
      (''w3SVCW3WPOutputCacheItems'', NewDesc (BuildFQName Namespace ''iis'' ''worker_output_cache_items'')
        ''Number of items current present in output cache'' [''app'', ''pid'']),
      (''w3SVCW3WPOutputCacheMemoryUsage'', NewDesc (BuildFQName Namespace ''iis'' ''worker_output_cache_memory_bytes'')
        ''Current number of bytes used by output cache'' [''app'', ''pid'']),
      (''w3SVCW3WPOutputCacheQueriesTotal'', NewDesc (BuildFQName Namespace ''iis'' ''worker_output_queries_total'')
        ''Total number of output cache queries (hits + misses)'' [''app'', ''pid'']),
      (''w3SVCW3WPOutputCacheHitsTotal'', NewDesc (BuildFQName Namespace ''iis'' ''worker_output_cache_hits_total'')
        ''Total number of successful lookups in output cache (since service startup)'' [''app'', ''pid'']),
      (''w3SVCW3WPOutputCacheFlushedItemsTotal'', NewDesc (BuildFQName Namespace ''iis'' ''worker_output_cache_items_flushed_total'')
        ''Total number of items flushed from output cache (since service startup)'' [''app'', ''pid'']),
      (''w3SVCW3WPOutputCacheFlushesTotal'', NewDesc (BuildFQName Namespace ''iis'' ''worker_output_cache_flushes_total'')
        ''Total number of flushes of output cache (since service startup)'' [''app'', ''pid'']),
      (''w3SVCW3WPRequestErrorsTotal'', NewDesc (BuildFQName Namespace ''iis'' ''worker_request_errors_total'')
        ''Total number of requests that returned an error'' [''app'', ''pid'', ''status_code'']),
      (''w3SVCW3WPWebSocketRequestsActive'', NewDesc (BuildFQName Namespace ''iis'' ''worker_current_websocket_requests'')
        '''' [''app'', ''pid'']),
      (''w3SVCW3WPWebSocketConnectionAttempts'', NewDesc (BuildFQName Namespace ''iis'' ''worker_websocket_connection_attempts_total'')
        '''' [''app'', ''pid'']),
      (''w3SVCW3WPWebSocketConnectionsAccepted'', NewDesc (BuildFQName Namespace ''iis'' ''worker_websocket_connection_accepted_total'')
        '''' [''app'', ''pid'']),
      (''w3SVCW3WPWebSocketConnectionsRejected'', NewDesc (BuildFQName Namespace ''iis'' ''worker_websocket_connection_rejected_total'')
        '''' [''app'', ''pid''])]"

definition iis_w3wp_lines :: "string \<Rightarrow> string \<Rightarrow> row \<Rightarrow> line list" where
  "iis_w3wp_lines name pid r =
     [(''w3SVCW3WPThreads'', GaugeValue, num iis_w3wp_fields r ''W3SVCW3WPThreads'', [name, pid, ''busy'']),
      (''w3SVCW3WPMaximumThreads'', CounterValue, num iis_w3wp_fields r ''W3SVCW3WPMaximumThreads'', [name, pid]),
      (''w3SVCW3WPRequestsTotal'', CounterValue, num iis_w3wp_fields r ''W3SVCW3WPRequestsTotal'', [name, pid]),
      (''w3SVCW3WPRequestsActive'', CounterValue, num iis_w3wp_fields r ''W3SVCW3WPRequestsActive'', [name, pid]),
      (''w3SVCW3WPActiveFlushedEntries'', GaugeValue, num iis_w3wp_fields r ''W3SVCW3WPActiveFlushedEntries'', [name, pid]),
      (''w3SVCW3WPCurrentFileCacheMemoryUsage'', GaugeValue, num iis_w3wp_fields r ''W3SVCW3WPCurrentFileCacheMemoryUsage'', [name, pid]),
      (''w3SVCW3WPMaximumFileCacheMemoryUsage'', CounterValue, num iis_w3wp_fields r ''W3SVCW3WPMaximumFileCacheMemoryUsage'', [name, pid]),
      (''w3SVCW3WPFileCacheFlushesTotal'', CounterValue, num iis_w3wp_fields r ''W3SVCW3WPFileCacheFlushesTotal'', [name, pid]),
      (''w3SVCW3WPFileCacheQueriesTotal'', CounterValue, f64_add (num iis_w3wp_fields r ''W3SVCW3WPFileCacheHitsTotal'') (num iis_w3wp_fields r ''W3SVCW3WPFileCacheMissesTotal''), [name, pid]),
      (''w3SVCW3WPFileCacheHitsTotal'', CounterValue, num iis_w3wp_fields r ''W3SVCW3WPFileCacheHitsTotal'', [name, pid]),
      (''w3SVCW3WPFilesCached'', GaugeValue, num iis_w3wp_fields r ''W3SVCW3WPFilesCached'', [name, pid]),
      (''w3SVCW3WPFilesCachedTotal'', CounterValue, num iis_w3wp_fields r ''W3SVCW3WPFilesCachedTotal'', [name, pid]),
      (''w3SVCW3WPFilesFlushedTotal'', CounterValue, num iis_w3wp_fields r ''W3SVCW3WPFilesFlushedTotal'', [name, pid]),
      (''w3SVCW3WPURICacheFlushesTotal'', CounterValue, num iis_w3wp_fields r ''W3SVCW3WPURICacheFlushesTotal'', [name, pid]),
      (''w3SVCW3WPURICacheQueriesTotal'', CounterValue, f64_add (num iis_w3wp_fields r ''W3SVCW3WPURICacheHitsTotal'') (num iis_w3wp_fields r ''W3SVCW3WPURICacheMissesTotal''), [name, pid]),
      (''w3SVCW3WPURICacheHitsTotal'', CounterValue, num iis_w3wp_fields r ''W3SVCW3WPURICacheHitsTotal'', [name, pid]),
      (''w3SVCW3WPURIsCached'', GaugeValue, num iis_w3wp_fields r ''W3SVCW3WPURIsCached'', [name, pid]),
      (''w3SVCW3WPURIsCachedTotal'', CounterValue, num iis_w3wp_fields r ''W3SVCW3WPURIsCachedTotal'', [name, pid]),
      (''w3SVCW3WPURIsFlushedTotal'', CounterValue, num iis_w3wp_fields r ''W3SVCW3WPURIsFlushedTotal'', [name, pid]),
      (''w3SVCW3WPMetadataCached'', GaugeValue, num iis_w3wp_fields r ''W3SVCW3WPMetadataCached'', [name, pid]),
      (''w3SVCW3WPMetadataCacheFlushes'', CounterValue, num iis_w3wp_fields r ''W3SVCW3WPMetadataCacheFlushes'', [name, pid]),
      (''w3SVCW3WPMetadataCacheQueriesTotal'', CounterValue, f64_add (num iis_w3wp_fields r ''W3SVCW3WPMetaDataCacheHits'') (num iis_w3wp_fields r ''W3SVCW3WPMetaDataCacheMisses''), [name, pid]),
      (''w3SVCW3WPMetadataCacheHitsTotal'', CounterValue, num iis_w3wp_fields r ''W3SVCW3WPMetaDataCacheHits'', [name, pid]),
      (''w3SVCW3WPMetadataCachedTotal'', CounterValue, num iis_w3wp_fields r ''W3SVCW3WPMetadataCachedTotal'', [name, pid]),
      (''w3SVCW3WPMetadataFlushedTotal'', CounterValue, num iis_w3wp_fields r ''W3SVCW3WPMetadataFlushedTotal'', [name, pid]),
      (''w3SVCW3WPOutputCacheActiveFlushedItems'', CounterValue, num iis_w3wp_fields r ''W3SVCW3WPOutputCacheActiveFlushedItems'', [name, pid]),
      (''w3SVCW3WPOutputCacheItems'', CounterValue, num iis_w3wp_fields r ''W3SVCW3WPOutputCacheItems'', [name, pid]),
      (''w3SVCW3WPOutputCacheMemoryUsage'', CounterValue, num iis_w3wp_fields r ''W3SVCW3WPOutputCacheMemoryUsage'', [name, pid]),
      (''w3SVCW3WPOutputCacheQueriesTotal'', CounterValue, f64_add (num iis_w3wp_fields r ''W3SVCW3WPOutputCacheHitsTotal'') (num iis_w3wp_fields r ''W3SVCW3WPOutputCacheMissesTotal''), [name, pid]),
      (''w3SVCW3WPOutputCacheHitsTotal'', CounterValue, num iis_w3wp_fields r ''W3SVCW3WPOutputCacheHitsTotal'', [name, pid]),
      (''w3SVCW3WPOutputCacheFlushedItemsTotal'', CounterValue, num iis_w3wp_fields r ''W3SVCW3WPOutputCacheFlushedItemsTotal'', [name, pid]),
      (''w3SVCW3WPOutputCacheFlushesTotal'', CounterValue, num iis_w3wp_fields r ''W3SVCW3WPOutputCacheFlushesTotal'', [name, pid])]"

definition iis_w3wp_build :: "'w pdh_api \<Rightarrow> u16 \<Rightarrow> 'w \<Rightarrow> (go_error option \<times> perfSource \<times> 'w) option" where
  "iis_w3wp_build api osBuild = perfBuild api osBuild ''failed to create W3SVC_W3WP collector: %w'' ''W3SVC_W3WP'' [''*''] iis_w3wp_fields"

definition iis_w3wp_collect ::
  "(string \<Rightarrow> bool) \<Rightarrow> (string \<Rightarrow> bool) \<Rightarrow> 'w pdh_api \<Rightarrow> perfSource \<Rightarrow> 'w \<Rightarrow> (perfSource, 'w) collected" where
  "iis_w3wp_collect exclude include api = collectDedup api iis_w3wp_fields ''failed to collect APP_POOL_WAS metrics: %w'' iis_w3wp_descs (\<lambda>r. let n = rowName iis_w3wp_fields r in
         if workerKept exclude include (workerApp n) then iis_w3wp_lines (workerApp n) (workerPid n) r else [])"

definition iis_w3wp8_fields :: "structField list" where
  "iis_w3wp8_fields =
     [nameField,
      perfField ''W3SVCW3WPRequestErrors500'' ''% 500 HTTP Response Sent'',
      perfField ''W3SVCW3WPRequestErrors404'' ''% 404 HTTP Response Sent'',
      perfField ''W3SVCW3WPRequestErrors403'' ''% 403 HTTP Response Sent'',
      perfField ''W3SVCW3WPRequestErrors401'' ''% 401 HTTP Response Sent'',
      perfField ''W3SVCW3WPWebSocketRequestsActive'' ''WebSocket Active Requests'',
      perfField ''W3SVCW3WPWebSocketConnectionAttempts'' ''WebSocket Connection Attempts / Sec'',
      perfField ''W3SVCW3WPWebSocketConnectionsAccepted'' ''WebSocket Connections Accepted / Sec'',
      perfField ''W3SVCW3WPWebSocketConnectionsRejected'' ''WebSocket Connections Rejected / Sec'']"

definition iis_w3wp8_lines :: "string \<Rightarrow> string \<Rightarrow> row \<Rightarrow> line list" where
  "iis_w3wp8_lines name pid r =
     [(''w3SVCW3WPRequestErrorsTotal'', CounterValue, num iis_w3wp8_fields r ''W3SVCW3WPRequestErrors401'', [name, pid, ''401'']),
      (''w3SVCW3WPRequestErrorsTotal'', CounterValue, num iis_w3wp8_fields r ''W3SVCW3WPRequestErrors403'', [name, pid, ''403'']),
      (''w3SVCW3WPRequestErrorsTotal'', CounterValue, num iis_w3wp8_fields r ''W3SVCW3WPRequestErrors404'', [name, pid, ''404'']),
      (''w3SVCW3WPRequestErrorsTotal'', CounterValue, num iis_w3wp8_fields r ''W3SVCW3WPRequestErrors500'', [name, pid, ''500'']),
      (''w3SVCW3WPWebSocketRequestsActive'', CounterValue, num iis_w3wp8_fields r ''W3SVCW3WPWebSocketRequestsActive'', [name, pid]),
      (''w3SVCW3WPWebSocketConnectionAttempts'', CounterValue, num iis_w3wp8_fields r ''W3SVCW3WPWebSocketConnectionAttempts'', [name, pid]),
      (''w3SVCW3WPWebSocketConnectionsAccepted'', CounterValue, num iis_w3wp8_fields r ''W3SVCW3WPWebSocketConnectionsAccepted'', [name, pid]),
      (''w3SVCW3WPWebSocketConnectionsRejected'', CounterValue, num iis_w3wp8_fields r ''W3SVCW3WPWebSocketConnectionsRejected'', [name, pid])]"

definition iis_w3wp8_build :: "'w pdh_api \<Rightarrow> u16 \<Rightarrow> 'w \<Rightarrow> (go_error option \<times> perfSource \<times> 'w) option" where
  "iis_w3wp8_build api osBuild = perfBuild api osBuild ''failed to create W3SVC_W3WP collector: %w'' ''W3SVC_W3WP'' [''*''] iis_w3wp8_fields"

definition iis_w3wp8_collect ::
  "(string \<Rightarrow> bool) \<Rightarrow> (string \<Rightarrow> bool) \<Rightarrow> 'w pdh_api \<Rightarrow> perfSource \<Rightarrow> 'w \<Rightarrow> (perfSource, 'w) collected" where
  "iis_w3wp8_collect exclude include api = collectDedup api iis_w3wp8_fields ''failed to collect APP_POOL_WAS metrics: %w'' iis_w3wp_descs (\<lambda>r. let n = rowName iis_w3wp8_fields r in
         if included exclude include n \<and> workerKept exclude include (workerApp n) then iis_w3wp8_lines (workerApp n) (workerPid n) r else [])"

section \<open>Web Service Cache\<close>

definition iis_cache_fields :: "structField list" where
  "iis_cache_fields =
     [perfField ''ServiceCacheActiveFlushedEntries'' ''Active Flushed Entries'',
      perfField ''ServiceCacheCurrentFileCacheMemoryUsage'' ''Current File Cache Memory Usage'',
      perfField ''ServiceCacheMaximumFileCacheMemoryUsage'' ''Maximum File Cache Memory Usage'',
      perfField ''ServiceCacheFileCacheFlushesTotal'' ''File Cache Flushes'',
      perfField ''ServiceCacheFileCacheHitsTotal'' ''File Cache Hits'',
      perfField ''ServiceCacheFileCacheMissesTotal'' ''File Cache Misses'',
      perfField ''ServiceCacheFilesCached'' ''Current Files Cached'',
      perfField ''ServiceCacheFilesCachedTotal'' ''Total Files Cached'',
      perfField ''ServiceCacheFilesFlushedTotal'' ''Total Flushed Files'',
      perfField ''ServiceCacheURICacheFlushesTotal'' ''Total Flushed URIs'',
      perfField ''ServiceCacheURICacheFlushesTotalKernel'' ''Total Flushed URIs'',
      perfField ''ServiceCacheURIsFlushedTotalKernel'' ''Kernel: Total Flushed URIs'',
      perfField ''ServiceCacheURICacheHitsTotal'' ''URI Cache Hits'',
      perfField ''ServiceCacheURICacheHitsTotalKernel'' ''Kernel: URI Cache Hits'',
      perfField ''ServiceCacheURICacheMissesTotal'' ''URI Cache Misses'',
      perfField ''ServiceCacheURICacheMissesTotalKernel'' ''Kernel: URI Cache Misses'',
      perfField ''ServiceCacheURIsCached'' ''Current URIs Cached'',
      perfField ''ServiceCacheURIsCachedKernel'' ''Kernel: Current URIs Cached'',
      perfField ''ServiceCacheURIsCachedTotal'' ''Total URIs Cached'',
      perfField ''ServiceCacheURIsCachedTotalKernel'' ''Total URIs Cached'',
      perfField ''ServiceCacheURIsFlushedTotal'' ''Total Flushed URIs'',
      perfField ''ServiceCacheMetaDataCacheHits'' ''Metadata Cache Hits'',
      perfField ''ServiceCacheMetaDataCacheMisses'' ''Metadata Cache Misses'',
      perfField ''ServiceCacheMetadataCached'' ''Current Metadata Cached'',
      perfField ''ServiceCacheMetadataCacheFlushes'' ''Metadata Cache Flushes'',
      perfField ''ServiceCacheMetadataCachedTotal'' ''Total Metadata Cached'',
      perfField ''ServiceCacheMetadataFlushedTotal'' ''Total Flushed Metadata'',
      perfField ''ServiceCacheOutputCacheActiveFlushedItems'' ''Output Cache Current Flushed Items'',
      perfField ''ServiceCacheOutputCacheItems'' ''Output Cache Current Items'',
      perfField ''ServiceCacheOutputCacheMemoryUsage'' ''Output Cache Current Memory Usage'',
      perfField ''ServiceCacheOutputCacheHitsTotal'' ''Output Cache Total Hits'',
      perfField ''ServiceCacheOutputCacheMissesTotal'' ''Output Cache Total Misses'',
      perfField ''ServiceCacheOutputCacheFlushedItemsTotal'' ''Output Cache Total Flushed Items'',
      perfField ''ServiceCacheOutputCacheFlushesTotal'' ''Output Cache Total Flushes'']"

definition iis_cache_descs :: descTable where
  "iis_cache_descs =
     [(''serviceCacheActiveFlushedEntries'', NewDesc (BuildFQName Namespace ''iis'' ''server_cache_active_flushed_entries'')
        ''Number of file handles cached that will be closed when all current transfers complete.'' []),
      (''serviceCacheCurrentFileCacheMemoryUsage'', NewDesc (BuildFQName Namespace ''iis'' ''server_file_cache_memory_bytes'')
        ''Current number of bytes used by file cache'' []),
      (''serviceCacheMaximumFileCacheMemoryUsage'', NewDesc (BuildFQName Namespace ''iis'' ''server_file_cache_max_memory_bytes'')
        ''Maximum number of bytes used by file cache'' []),
      (''serviceCacheFileCacheFlushesTotal'', NewDesc (BuildFQName Namespace ''iis'' ''server_file_cache_flushes_total'')
        ''Total number of file cache flushes (since service startup)'' []),
      (''serviceCacheFileCacheQueriesTotal'', NewDesc (BuildFQName Namespace ''iis'' ''server_file_cache_queries_total'')
        ''Total number of file cache queries (hits + misses)'' []),
      (''serviceCacheFileCacheHitsTotal'', NewDesc (BuildFQName Namespace ''iis'' ''server_file_cache_hits_total'')
        ''Total number of successful lookups in the user-mode file cache'' []),
      (''serviceCacheFilesCached'', NewDesc (BuildFQName Namespace ''iis'' ''server_file_cache_items'')
        ''Current number of files whose contents are present in cache'' []),
      (''serviceCacheFilesCachedTotal'', NewDesc (BuildFQName Namespace ''iis'' ''server_file_cache_items_total'')
        ''Total number of files whose contents were ever added to the cache (since service startup)'' []),
      (''serviceCacheFilesFlushedTotal'', NewDesc (BuildFQName Namespace ''iis'' ''server_file_cache_items_flushed_total'')
        ''Total number of file handles that have been removed from the cache (since service startup)'' []),
      (''serviceCacheURICacheFlushesTotal'', NewDesc (BuildFQName Namespace ''iis'' ''server_uri_cache_flushes_total'')
        ''Total number of URI cache flushes (since service startup)'' [''mode'']),
      (''serviceCacheURICacheQueriesTotal'', NewDesc (BuildFQName Namespace ''iis'' ''server_uri_cache_queries_total'')
        ''Total number of uri cache queries (hits + misses)'' [''mode'']),
      (''serviceCacheURICacheHitsTotal'', NewDesc (BuildFQName Namespace ''iis'' ''server_uri_cache_hits_total'')
        ''Total number of successful lookups in the URI cache (since service startup)'' [''mode'']),
      (''serviceCacheURIsCached'', NewDesc (BuildFQName Namespace ''iis'' ''server_uri_cache_items'')
        ''Number of URI information blocks currently in the cache'' [''mode'']),
      (''serviceCacheURIsCachedTotal'', NewDesc (BuildFQName Namespace ''iis'' ''server_uri_cache_items_total'')
        ''Total number of URI information blocks added to the cache (since service startup)'' [''mode'']),
      (''serviceCacheURIsFlushedTotal'', NewDesc (BuildFQName Namespace ''iis'' ''server_uri_cache_items_flushed_total'')
        ''The number of URI information blocks that have been removed from the cache (since service startup)'' [''mode'']),
      (''serviceCacheMetadataCached'', NewDesc (BuildFQName Namespace ''iis'' ''server_metadata_cache_items'')
        ''Number of metadata information blocks currently present in cache'' []),
      (''serviceCacheMetadataCacheFlushes'', NewDesc (BuildFQName Namespace ''iis'' ''server_metadata_cache_flushes_total'')
        ''Total number of metadata cache flushes (since service startup)'' []),
      (''serviceCacheMetadataCacheQueriesTotal'', NewDesc (BuildFQName Namespace ''iis'' ''server_metadata_cache_queries_total'')
        ''Total metadata cache queries (hits + misses)'' []),
      (''serviceCacheMetadataCacheHitsTotal'', NewDesc (BuildFQName Namespace ''iis'' ''server_metadata_cache_hits_total'')
        ''Total number of successful lookups in the metadata cache (since service startup)'' []),
      (''serviceCacheMetadataCachedTotal'', NewDesc (BuildFQName Namespace ''iis'' ''server_metadata_cache_items_cached_total'')
        ''Total number of metadata information blocks added to the cache (since service startup)'' []),
      (''serviceCacheMetadataFlushedTotal'', NewDesc (BuildFQName Namespace ''iis'' ''server_metadata_cache_items_flushed_total'')
        ''Total number of metadata information blocks removed from the cache (since service startup)'' []),
      (''serviceCacheOutputCacheActiveFlushedItems'', NewDesc (BuildFQName Namespace ''iis'' ''server_output_cache_active_flushed_items'')
        '''' []),
      (''serviceCacheOutputCacheItems'', NewDesc (BuildFQName Namespace ''iis'' ''server_output_cache_items'')
        ''Number of items current present in output cache'' []),
      (''serviceCacheOutputCacheMemoryUsage'', NewDesc (BuildFQName Namespace ''iis'' ''server_output_cache_memory_bytes'')
        ''Current number of bytes used by output cache'' []),
      (''serviceCacheOutputCacheQueriesTotal'', NewDesc (BuildFQName Namespace ''iis'' ''server_output_cache_queries_total'')
        ''Total output cache queries (hits + misses)'' []),
      (''serviceCacheOutputCacheHitsTotal'', NewDesc (BuildFQName Namespace ''iis'' ''server_output_cache_hits_total'')
        ''Total number of successful lookups in output cache (since service startup)'' []),
      (''serviceCacheOutputCacheFlushedItemsTotal'', NewDesc (BuildFQName Namespace ''iis'' ''server_output_cache_items_flushed_total'')
        ''Total number of items flushed from output cache (since service startup)'' []),
      (''serviceCacheOutputCacheFlushesTotal'', NewDesc (BuildFQName Namespace ''iis'' ''server_output_cache_flushes_total'')
        ''Total number of flushes of output cache (since service startup)'' [])]"

definition iis_cache_lines :: "row \<Rightarrow> line list" where
  "iis_cache_lines r =
     [(''serviceCacheActiveFlushedEntries'', GaugeValue, num iis_cache_fields r ''ServiceCacheActiveFlushedEntries'', []),
      (''serviceCacheCurrentFileCacheMemoryUsage'', GaugeValue, num iis_cache_fields r ''ServiceCacheCurrentFileCacheMemoryUsage'', []),
      (''serviceCacheMaximumFileCacheMemoryUsage'', CounterValue, num iis_cache_fields r ''ServiceCacheMaximumFileCacheMemoryUsage'', []),
      (''serviceCacheFileCacheFlushesTotal'', CounterValue, num iis_cache_fields r ''ServiceCacheFileCacheFlushesTotal'', []),
      (''serviceCacheFileCacheQueriesTotal'', CounterValue, f64_add (num iis_cache_fields r ''ServiceCacheFileCacheHitsTotal'') (num iis_cache_fields r ''ServiceCacheFileCacheMissesTotal''), []),
      (''serviceCacheFileCacheHitsTotal'', CounterValue, num iis_cache_fields r ''ServiceCacheFileCacheHitsTotal'', []),
      (''serviceCacheFilesCached'', GaugeValue, num iis_cache_fields r ''ServiceCacheFilesCached'', []),
      (''serviceCacheFilesCachedTotal'', CounterValue, num iis_cache_fields r ''ServiceCacheFilesCachedTotal'', []),
      (''serviceCacheFilesFlushedTotal'', CounterValue, num iis_cache_fields r ''ServiceCacheFilesFlushedTotal'', []),
      (''serviceCacheURICacheFlushesTotal'', CounterValue, num iis_cache_fields r ''ServiceCacheURICacheFlushesTotal'', [''user'']),
      (''serviceCacheURICacheFlushesTotal'', CounterValue, num iis_cache_fields r ''ServiceCacheURICacheFlushesTotalKernel'', [''kernel'']),
      (''serviceCacheURICacheQueriesTotal'', CounterValue, f64_add (num iis_cache_fields r ''ServiceCacheURICacheHitsTotal'') (num iis_cache_fields r ''ServiceCacheURICacheMissesTotal''), [''user'']),
      (''serviceCacheURICacheQueriesTotal'', CounterValue, f64_add (num iis_cache_fields r ''ServiceCacheURICacheHitsTotalKernel'') (num iis_cache_fields r ''ServiceCacheURICacheMissesTotalKernel''), [''kernel'']),
      (''serviceCacheURICacheHitsTotal'', CounterValue, num iis_cache_fields r ''ServiceCacheURICacheHitsTotal'', [''user'']),
      (''serviceCacheURICacheHitsTotal'', CounterValue, num iis_cache_fields r ''ServiceCacheURICacheHitsTotalKernel'', [''kernel'']),
      (''serviceCacheURIsCached'', GaugeValue, num iis_cache_fields r ''ServiceCacheURIsCached'', [''user'']),
      (''serviceCacheURIsCached'', GaugeValue, num iis_cache_fields r ''ServiceCacheURIsCachedKernel'', [''kernel'']),
      (''serviceCacheURIsCachedTotal'', CounterValue, num iis_cache_fields r ''ServiceCacheURIsCachedTotal'', [''user'']),
      (''serviceCacheURIsCachedTotal'', CounterValue, num iis_cache_fields r ''ServiceCacheURIsCachedTotalKernel'', [''kernel'']),
      (''serviceCacheURIsFlushedTotal'', CounterValue, num iis_cache_fields r ''ServiceCacheURIsFlushedTotal'', [''user'']),
      (''serviceCacheURIsFlushedTotal'', CounterValue, num iis_cache_fields r ''ServiceCacheURIsFlushedTotalKernel'', [''kernel'']),
      (''serviceCacheMetadataCached'', GaugeValue, num iis_cache_fields r ''ServiceCacheMetadataCached'', []),
      (''serviceCacheMetadataCacheFlushes'', CounterValue, num iis_cache_fields r ''ServiceCacheMetadataCacheFlushes'', []),
      (''serviceCacheMetadataCacheQueriesTotal'', CounterValue, f64_add (num iis_cache_fields r ''ServiceCacheMetaDataCacheHits'') (num iis_cache_fields r ''ServiceCacheMetaDataCacheMisses''), []),
      (''serviceCacheMetadataCacheHitsTotal'', CounterValue, F_Fin 0, []),
      (''serviceCacheMetadataCachedTotal'', CounterValue, num iis_cache_fields r ''ServiceCacheMetadataCachedTotal'', []),
      (''serviceCacheMetadataFlushedTotal'', CounterValue, num iis_cache_fields r ''ServiceCacheMetadataFlushedTotal'', []),
      (''serviceCacheOutputCacheActiveFlushedItems'', CounterValue, num iis_cache_fields r ''ServiceCacheOutputCacheActiveFlushedItems'', []),
      (''serviceCacheOutputCacheItems'', CounterValue, num iis_cache_fields r ''ServiceCacheOutputCacheItems'', []),
      (''serviceCacheOutputCacheMemoryUsage'', CounterValue, num iis_cache_fields r ''ServiceCacheOutputCacheMemoryUsage'', []),
      (''serviceCacheOutputCacheQueriesTotal'', CounterValue, f64_add (num iis_cache_fields r ''ServiceCacheOutputCacheHitsTotal'') (num iis_cache_fields r ''ServiceCacheOutputCacheMissesTotal''), []),
      (''serviceCacheOutputCacheHitsTotal'', CounterValue, num iis_cache_fields r ''ServiceCacheOutputCacheHitsTotal'', []),
      (''serviceCacheOutputCacheFlushedItemsTotal'', CounterValue, num iis_cache_fields r ''ServiceCacheOutputCacheFlushedItemsTotal'', []),
      (''serviceCacheOutputCacheFlushesTotal'', CounterValue, num iis_cache_fields r ''ServiceCacheOutputCacheFlushesTotal'', [])]"

definition iis_cache_build :: "'w pdh_api \<Rightarrow> u16 \<Rightarrow> 'w \<Rightarrow> (go_error option \<times> perfSource \<times> 'w) option" where
  "iis_cache_build api osBuild = perfBuild api osBuild ''failed to create Web Service Cache collector: %w'' ''Web Service Cache'' [''*''] iis_cache_fields"

definition iis_cache_collect :: "'w pdh_api \<Rightarrow> perfSource \<Rightarrow> 'w \<Rightarrow> (perfSource, 'w) collected" where
  "iis_cache_collect api = collectWith api iis_cache_fields ''failed to collect Web Service Cache metrics: %w'' iis_cache_descs (eachRow (\<lambda>r. True) iis_cache_lines)"


section \<open>Build, Collect and Close\<close>

record simpleVersion =
  major :: u64
  minor :: u64

text \<open>\<open>getIISVersion\<close>: \<open>key\<close> is the opened registry key, as its integer values.\<close>

definition getIISVersion :: "go_error + (string \<Rightarrow> go_error + u64) \<Rightarrow> simpleVersion" where
  "getIISVersion key =
     (case key of
        Inl e \<Rightarrow> \<lparr>major = 0, minor = 0\<rparr>
      | Inr values \<Rightarrow>
          (case values ''MajorVersion'' of
             Inl e \<Rightarrow> \<lparr>major = 0, minor = 0\<rparr>
           | Inr ma \<Rightarrow> (case values ''MinorVersion'' of Inl e \<Rightarrow> \<lparr>major = 0, minor = 0\<rparr> | Inr mi \<Rightarrow> \<lparr>major = ma, minor = mi\<rparr>)))"

definition iis_info :: "simpleVersion \<Rightarrow> metric" where
  "iis_info v =
     ConstMetric
       \<lparr>fqName = BuildFQName Namespace ''iis'' ''info'', helpText = ''ISS information'', variableLabels = [],
        constLabels = [(''version'', show_nat (unat (major v)) @ ''.'' @ show_nat (unat (minor v)))]\<rparr>
       GaugeValue (F_Fin 1) []"

record iisCollector =
  iisVersion :: simpleVersion
  webService :: perfSource
  appPoolWAS :: perfSource
  w3SVCW3WP :: perfSource
  w3SVCW3WPV8 :: perfSource
  serviceCache :: perfSource

definition buildW3SVCW3WP ::
  "'w pdh_api \<Rightarrow> u16 \<Rightarrow> simpleVersion \<Rightarrow> 'w \<Rightarrow> (go_error option \<times> (perfSource \<times> perfSource) \<times> 'w) option" where
  "buildW3SVCW3WP api osBuild v w =
     (case iis_w3wp_build api osBuild w of
        None \<Rightarrow> None
      | Some (Some e, s, w1) \<Rightarrow> Some (Some e, (s, noSource), w1)
      | Some (None, s, w1) \<Rightarrow>
          (if 8 \<le> major v then map_option (\<lambda>(err, s8, w2). (err, (s, s8), w2)) (iis_w3wp8_build api osBuild w1)
           else Some (None, (s, noSource), w1)))"

definition iis_Build ::
  "'w pdh_api \<Rightarrow> u16 \<Rightarrow> go_error + (string \<Rightarrow> go_error + u64) \<Rightarrow> 'w \<Rightarrow> (go_error option \<times> iisCollector \<times> 'w) option" where
  "iis_Build api osBuild key w =
     (let v = getIISVersion key in
      case iis_web_service_build api osBuild w of
        None \<Rightarrow> None
      | Some (e1, s1, w1) \<Rightarrow>
          (case iis_app_pool_build api osBuild w1 of
             None \<Rightarrow> None
           | Some (e2, s2, w2) \<Rightarrow>
               (case buildW3SVCW3WP api osBuild v w2 of
                  None \<Rightarrow> None
                | Some (e3, (s3, s8), w3) \<Rightarrow>
                    (case iis_cache_build api osBuild w3 of
                       None \<Rightarrow> None
                     | Some (e4, s4, w4) \<Rightarrow>
                         Some (errors_Join (non_nil
                                 [map_option (Wrapf ''failed to build Web Service collector: %w'' []) e1,
                                  map_option (Wrapf ''failed to build APP_POOL_WAS collector: %w'' []) e2,
                                  map_option (Wrapf ''failed to build W3SVC_W3WP collector: %w'' []) e3,
                                  map_option (Wrapf ''failed to build Web Service Cache collector: %w'' []) e4]),
                               \<lparr>iisVersion = v, webService = s1, appPoolWAS = s2, w3SVCW3WP = s3, w3SVCW3WPV8 = s8, serviceCache = s4\<rparr>, w4)))))"

definition collectW3SVCW3WP ::
  "(string \<Rightarrow> bool) \<Rightarrow> (string \<Rightarrow> bool) \<Rightarrow> 'w pdh_api \<Rightarrow> iisCollector \<Rightarrow> 'w \<Rightarrow> (iisCollector, 'w) collected" where
  "collectW3SVCW3WP appExclude appInclude api c w =
     (case iis_w3wp_collect appExclude appInclude api (w3SVCW3WP c) w of
        None \<Rightarrow> None
      | Some (Some e, ms, s, w1) \<Rightarrow> Some (Some e, ms, c\<lparr>w3SVCW3WP := s\<rparr>, w1)
      | Some (None, ms, s, w1) \<Rightarrow>
          (if 8 \<le> major (iisVersion c) then
             map_option (\<lambda>(err, ms8, s8, w2). (err, ms @ ms8, c\<lparr>w3SVCW3WP := s, w3SVCW3WPV8 := s8\<rparr>, w2))
               (iis_w3wp8_collect appExclude appInclude api (w3SVCW3WPV8 c) w1)
           else Some (None, ms, c\<lparr>w3SVCW3WP := s\<rparr>, w1)))"

definition iis_Collect ::
  "(f64 \<Rightarrow> u32) \<Rightarrow> (string \<Rightarrow> bool) \<Rightarrow> (string \<Rightarrow> bool) \<Rightarrow> (string \<Rightarrow> bool) \<Rightarrow> (string \<Rightarrow> bool) \<Rightarrow>
   'w pdh_api \<Rightarrow> iisCollector \<Rightarrow> 'w \<Rightarrow> (iisCollector, 'w) collected" where
  "iis_Collect other siteExclude siteInclude appExclude appInclude api c w =
     (case iis_web_service_collect siteExclude siteInclude api (webService c) w of
        None \<Rightarrow> None
      | Some (e1, ms1, s1, w1) \<Rightarrow>
          (case iis_app_pool_collect other appExclude appInclude api (appPoolWAS c) w1 of
             None \<Rightarrow> None
           | Some (e2, ms2, s2, w2) \<Rightarrow>
               (case collectW3SVCW3WP appExclude appInclude api (c\<lparr>webService := s1, appPoolWAS := s2\<rparr>) w2 of
                  None \<Rightarrow> None
                | Some (e3, ms3, c3, w3) \<Rightarrow>
                    (case iis_cache_collect api (serviceCache c3) w3 of
                       None \<Rightarrow> None
                     | Some (e4, ms4, s4, w4) \<Rightarrow>
                         Some (errors_Join (non_nil
                                 [map_option (Wrapf ''failed to collect Web Service metrics: %w'' []) e1,
                                  map_option (Wrapf ''failed to collect APP_POOL_WAS metrics: %w'' []) e2,
                                  map_option (Wrapf ''failed to collect W3SVC_W3WP metrics: %w'' []) e3,
                                  map_option (Wrapf ''failed to collect Web Service Cache metrics: %w'' []) e4]),
                               iis_info (iisVersion c) # ms1 @ ms2 @ ms3 @ ms4, c3\<lparr>serviceCache := s4\<rparr>, w4)))))"

definition iis_Close :: "'w pdh_api \<Rightarrow> iisCollector \<Rightarrow> 'w \<Rightarrow> iisCollector \<times> 'w" where
  "iis_Close api c w =
     (case perfClose api (webService c) w of
        (s1, w1) \<Rightarrow> (case perfClose api (appPoolWAS c) w1 of
        (s2, w2) \<Rightarrow> (case perfClose api (w3SVCW3WP c) w2 of
        (s3, w3) \<Rightarrow> (case perfClose api (serviceCache c) w3 of
        (s4, w4) \<Rightarrow> (c\<lparr>webService := s1, appPoolWAS := s2, w3SVCW3WP := s3, serviceCache := s4\<rparr>, w4)))))"

section \<open>The tables\<close>

lemma iis_web_service_names: "distinct (map (\<lambda>(n, d). fqName d) iis_web_service_descs)" by code_simp

lemma iis_app_pool_names: "distinct (map (\<lambda>(n, d). fqName d) iis_app_pool_descs)" by code_simp

lemma iis_w3wp_names: "distinct (map (\<lambda>(n, d). fqName d) iis_w3wp_descs)" by code_simp

lemma iis_cache_names: "distinct (map (\<lambda>(n, d). fqName d) iis_cache_descs)" by code_simp

lemma iis_web_service_table: "table_ok iis_web_service_descs (iis_web_service_lines r)"
  by (rule table_ok_tails; unfold iis_web_service_lines_def line_simps) code_simp+

lemma iis_w3wp_table: "table_ok iis_w3wp_descs (iis_w3wp_lines name pid r)"
  by (rule table_ok_names; unfold iis_w3wp_lines_def line_simps) code_simp+

lemma iis_w3wp8_table: "table_ok iis_w3wp_descs (iis_w3wp8_lines name pid r)"
  by (rule table_ok_rests [of _ _ 2]; unfold iis_w3wp8_lines_def line_simps rest_simps) code_simp+

lemma iis_cache_table: "table_ok iis_cache_descs (iis_cache_lines r)"
  by (rule table_ok_rests [of _ _ 0]; unfold iis_cache_lines_def line_simps rest_simps) code_simp+

lemma iis_app_pool_table: "table_ok iis_app_pool_descs (iis_app_pool_states other r @ iis_app_pool_lines r)"
  by (rule table_ok_tails; unfold iis_app_pool_states_def applicationStates_def iis_app_pool_lines_def line_simps prod.case append.simps) code_simp+

interpretation iis_web_service: keyed_table iis_web_service_descs iis_web_service_lines "rowName iis_web_service_fields" "\<lambda>n. 0"
  by unfold_locales (auto simp: iis_web_service_names iis_web_service_table, simp add: iis_web_service_lines_def)

interpretation iis_app_pool: keyed_table iis_app_pool_descs "\<lambda>r. iis_app_pool_states other r @ iis_app_pool_lines r" "rowName iis_app_pool_fields" "\<lambda>n. 0"
  by unfold_locales (rule iis_app_pool_names, rule iis_app_pool_table, simp add: iis_app_pool_lines_def iis_app_pool_states_def applicationStates_def)

interpretation iis_w3wp: labelled_table iis_w3wp_descs "\<lambda>(name, pid, r). iis_w3wp_lines name pid r" "\<lambda>(name, pid, r). (name, pid)" "\<lambda>n ls. (ls ! 0, ls ! 1)"
  by unfold_locales (auto simp: iis_w3wp_names iis_w3wp_table, simp add: iis_w3wp_lines_def)

interpretation iis_w3wp8: labelled_table iis_w3wp_descs "\<lambda>(name, pid, r). iis_w3wp8_lines name pid r" "\<lambda>(name, pid, r). (name, pid)" "\<lambda>n ls. (ls ! 0, ls ! 1)"
  by unfold_locales (auto simp: iis_w3wp_names iis_w3wp8_table, simp add: iis_w3wp8_lines_def)

interpretation iis_cache: first_row_collector iis_cache_descs iis_cache_lines
  by unfold_locales (rule iis_cache_names iis_cache_table)+

section \<open>The removal of duplicate names\<close>

text \<open>A name without a number sign.\<close>

definition plainName :: "structField list \<Rightarrow> row \<Rightarrow> bool" where
  "plainName fs r \<longleftrightarrow> CHR ''#'' \<notin> set (rowName fs r)"

lemma iisBase_plain: "iisBase n = n \<longleftrightarrow> CHR ''#'' \<notin> set n"
proof
  assume "iisBase n = n"
  moreover have "CHR ''#'' \<notin> set (hd (Split n (CHR ''#'')))" by (induction n) (auto split: list.splits)
  ultimately show "CHR ''#'' \<notin> set n" by (simp add: iisBase_def)
qed (simp add: iisBase_def Split_no_sep)

text \<open>The loop passes over plain names.\<close>

lemma dedupLoop_plain:
  assumes "\<forall>j < k. plainName fs (arr ! (i + j))"
  shows "dedupLoop fs (k + todo) i indexes len arr = dedupLoop fs todo (i + k) indexes len arr"
  using assms
proof (induction k arbitrary: i)
  case 0
  then show ?case by simp
next
  case (Suc k)
  have "plainName fs (arr ! i)" using Suc.prems by (metis add.right_neutral zero_less_Suc)
  moreover have "\<forall>j < k. plainName fs (arr ! (i + 1 + j))"
    using Suc.prems by (metis Suc_eq_plus1 Suc_less_eq add.assoc add.commute)
  ultimately show ?case using Suc.IH [of "i + 1"] by (simp add: iisBase_plain plainName_def Let_def)
qed

lemma deduplicateIISNames_plain:
  assumes "list_all (plainName fs) rs"
  shows "deduplicateIISNames fs rs = Some (sort_key (rowName fs) rs)"
proof -
  have "\<forall>j < length rs. plainName fs (sort_key (rowName fs) rs ! (0 + j))"
    using assms nth_mem [of _ "sort_key (rowName fs) rs"] by (simp add: list_all_iff)
  from dedupLoop_plain [OF this, of 0] show ?thesis by (simp add: deduplicateIISNames_def)
qed

lemma deduplicateIISNames_panics:
  assumes "sort_key (rowName fs) rs = xs @ r # ys" and "list_all (plainName fs) xs" and "\<not> plainName fs r" and "2 \<le> length xs"
  shows "deduplicateIISNames fs rs = None"
proof -
  have n: "length rs = length xs + Suc (length ys)"
    using arg_cong [OF assms(1), of length] by simp
  have "\<forall>j < length xs. plainName fs ((xs @ r # ys) ! (0 + j))"
    using assms(2) by (simp add: nth_append list_all_length)
  from dedupLoop_plain [OF this, of "Suc (length ys)" "\<lambda>n. None" "length rs"]
  show ?thesis
    using assms(3,4) by (simp add: deduplicateIISNames_def assms(1) n nth_append iisBase_plain plainName_def Let_def)
qed

section \<open>Properties\<close>

text \<open>The metrics of the rows that the filter keeps.\<close>

definition siteLines :: "(string \<Rightarrow> bool) \<Rightarrow> (string \<Rightarrow> bool) \<Rightarrow> row list \<Rightarrow> line list" where
  "siteLines exclude include rs =
     concat (map (\<lambda>r. if included exclude include (rowName iis_web_service_fields r) then iis_web_service_lines r else []) rs)"

lemma concat_if: "concat (map (\<lambda>r. if P r then f r else []) rs) = concat (map f (filter P rs))"
  by (induction rs) simp_all

text \<open>
  Site names without a number sign are kept: the removal of duplicates only sorts the rows by name, and the metrics of the sites that the
  filter keeps are accepted by the library.
\<close>

theorem plain_sites_accepted:
  assumes "distinct (map (rowName iis_web_service_fields) rs)" and "list_all (plainName iis_web_service_fields) rs"
  shows "\<exists>rs'. deduplicateIISNames iis_web_service_fields rs = Some rs' \<and> mset rs' = mset rs \<and>
           sorted (map (rowName iis_web_service_fields) rs') \<and>
           accepted (sendAll iis_web_service_descs (siteLines exclude include rs'))"
proof (intro exI conjI)
  let ?rs = "sort_key (rowName iis_web_service_fields) rs"
  show "deduplicateIISNames iis_web_service_fields rs = Some ?rs" by (rule deduplicateIISNames_plain [OF assms(2)])
  show "mset ?rs = mset rs" by simp
  show "sorted (map (rowName iis_web_service_fields) ?rs)" by simp
  have "distinct (map (rowName iis_web_service_fields) ?rs)"
    using assms(1) by (simp add: distinct_map)
  then show "accepted (sendAll iis_web_service_descs (siteLines exclude include ?rs))"
    unfolding siteLines_def concat_if by (intro iis_web_service.rows_accepted distinct_filter_names)
qed

text \<open>A row of the Web Service object for a site.\<close>

definition siteRow :: "string \<Rightarrow> row" where
  "siteRow n = VString n # zeroElem (tl iis_web_service_fields)"

lemma rowName_siteRow: "rowName iis_web_service_fields (siteRow n) = n"
  by (simp add: rowName_def siteRow_def iis_web_service_fields_def nameField_def)

theorem plain_sites_accepted_witness:
  "\<exists>rs'. deduplicateIISNames iis_web_service_fields [siteRow ''b'', siteRow ''a''] = Some rs' \<and> mset rs' = mset [siteRow ''b'', siteRow ''a''] \<and>
     sorted (map (rowName iis_web_service_fields) rs') \<and>
     accepted (sendAll iis_web_service_descs (siteLines (\<lambda>n. False) (\<lambda>n. True) rs'))"
  by (rule plain_sites_accepted) (simp_all add: rowName_siteRow plainName_def)

text \<open>
  C34: When the rows, sorted by name, have the first name with a number sign in the third place or later, the removal of duplicates panics. The comment on the function
  documents such a list as its example.
\<close>

theorem dedup_panics:
  assumes "sort_key (rowName fs) rs = xs @ r # ys" and "list_all (plainName fs) xs" and "\<not> plainName fs r" and "2 \<le> length xs"
  shows "deduplicateIISNames fs rs = None"
  using assms by (rule deduplicateIISNames_panics)

theorem dedup_panics_witness:
  "deduplicateIISNames iis_web_service_fields [siteRow ''Site_A'', siteRow ''Site_B'', siteRow ''Site_C'', siteRow ''Site_B#2''] = None"
proof (rule dedup_panics)
  show "sort_key (rowName iis_web_service_fields) [siteRow ''Site_A'', siteRow ''Site_B'', siteRow ''Site_C'', siteRow ''Site_B#2''] =
          [siteRow ''Site_A'', siteRow ''Site_B''] @ siteRow ''Site_B#2'' # [siteRow ''Site_C'']"
    by (simp add: rowName_siteRow)
  show "list_all (plainName iis_web_service_fields) [siteRow ''Site_A'', siteRow ''Site_B'']" by (simp add: rowName_siteRow plainName_def)
  show "\<not> plainName iis_web_service_fields (siteRow ''Site_B#2'')" by (simp add: rowName_siteRow plainName_def)
  show "2 \<le> length [siteRow ''Site_A'', siteRow ''Site_B'']" by simp
qed

text \<open>In the second place it doubles the row instead of replacing it.\<close>

lemma dedup_doubles:
  "deduplicateIISNames iis_web_service_fields [siteRow ''a'', siteRow ''a#1''] = Some [siteRow ''a#1'', siteRow ''a#1'']"
  by (simp add: deduplicateIISNames_def rowName_siteRow Let_def numeral_2_eq_2 iisBase_def)

text \<open>\<open>Close\<close> leaves the collector for the counters of IIS 8 open.\<close>

lemma iis_close_keeps_v8: "w3SVCW3WPV8 (fst (iis_Close api c w)) = w3SVCW3WPV8 c"
  by (simp add: iis_Close_def split: prod.splits)

end
