(* ===== verification/Perf_Directory.thy ===== *)
theory Perf_Directory
  imports Perf_Subs Utils
begin

text \<open>
  The collectors for Active Directory, its federation and certificate services and the DNS server (internal/collector/ad, adfs, adcs and dns).
\<close>

section \<open>ad\<close>

text \<open>\<open>float64(uint64(v) << 32)\<close>\<close>

definition usnHigh :: "(f64 \<Rightarrow> u64) \<Rightarrow> f64 \<Rightarrow> f64" where
  "usnHigh other v = f64_of_int (uint (push_bit 32 (toUint other v)))"

definition ad_fields :: "structField list" where
  "ad_fields =
     [perfField ''AbANRPerSec'' ''AB ANR/sec'',
      perfField ''AbBrowsesPerSec'' ''AB Browses/sec'',
      perfField ''AbClientSessions'' ''AB Client Sessions'',
      perfField ''AbMatchesPerSec'' ''AB Matches/sec'',
      perfField ''AbPropertyReadsPerSec'' ''AB Property Reads/sec'',
      perfField ''AbProxyLookupsPerSec'' ''AB Proxy Lookups/sec'',
      perfField ''AbSearchesPerSec'' ''AB Searches/sec'',
      perfField ''ApproximateHighestDNT'' ''Approximate highest DNT'',
      perfField ''AtqEstimatedQueueDelay'' ''ATQ Estimated Queue Delay'',
      perfField ''AtqOutstandingQueuedRequests'' ''ATQ Outstanding Queued Requests'',
      perfField ''_'' ''ATQ Queue Latency'',
      perfField ''AtqRequestLatency'' ''ATQ Request Latency'',
      perfField ''AtqThreadsLDAP'' ''ATQ Threads LDAP'',
      perfField ''AtqThreadsOther'' ''ATQ Threads Other'',
      perfField ''AtqThreadsTotal'' ''ATQ Threads Total'',
      perfField ''BaseSearchesPerSec'' ''Base searches/sec'',
      perfField ''DatabaseAddsPerSec'' ''Database adds/sec'',
      perfField ''DatabaseDeletesPerSec'' ''Database deletes/sec'',
      perfField ''DatabaseModifiesPerSec'' ''Database modifys/sec'',
      perfField ''DatabaseRecyclesPerSec'' ''Database recycles/sec'',
      perfField ''DigestBindsPerSec'' ''Digest Binds/sec'',
      perfField ''_'' ''DirSync session throttling rate'',
      perfField ''_'' ''DirSync sessions in progress'',
      perfField ''DRAHighestUSNCommittedHighPart'' ''DRA Highest USN Committed (High part)'',
      perfField ''DRAHighestUSNCommittedLowPart'' ''DRA Highest USN Committed (Low part)'',
      perfField ''DRAHighestUSNIssuedHighPart'' ''DRA Highest USN Issued (High part)'',
      perfField ''DRAHighestUSNIssuedLowPart'' ''DRA Highest USN Issued (Low part)'',
      perfField ''DRAInboundBytesCompressedBetweenSitesAfterCompressionSinceBoot'' ''DRA Inbound Bytes Compressed (Between Sites, After Compression) Since Boot'',
      perfField ''DRAInboundBytesCompressedBetweenSitesAfterCompressionPerSec'' ''DRA Inbound Bytes Compressed (Between Sites, After Compression)/sec'',
      perfField ''DRAInboundBytesCompressedBetweenSitesBeforeCompressionSinceBoot'' ''DRA Inbound Bytes Compressed (Between Sites, Before Compression) Since Boot'',
      perfField ''DRAInboundBytesCompressedBetweenSitesBeforeCompressionPerSec'' ''DRA Inbound Bytes Compressed (Between Sites, Before Compression)/sec'',
      perfField ''DRAInboundBytesNotCompressedWithinSiteSinceBoot'' ''DRA Inbound Bytes Not Compressed (Within Site) Since Boot'',
      perfField ''DRAInboundBytesNotCompressedWithinSitePerSec'' ''DRA Inbound Bytes Not Compressed (Within Site)/sec'',
      perfField ''DRAInboundBytesTotalSinceBoot'' ''DRA Inbound Bytes Total Since Boot'',
      perfField ''DRAInboundBytesTotalPerSec'' ''DRA Inbound Bytes Total/sec'',
      perfField ''DRAInboundFullSyncObjectsRemaining'' ''DRA Inbound Full Sync Objects Remaining'',
      perfField ''DRAInboundLinkValueUpdatesRemainingInPacket'' ''DRA Inbound Link Value Updates Remaining in Packet'',
      perfField ''_'' ''DRA Inbound Link Values/sec'',
      perfField ''DRAInboundObjectUpdatesRemainingInPacket'' ''DRA Inbound Object Updates Remaining in Packet'',
      perfField ''DRAInboundObjectsAppliedPerSec'' ''DRA Inbound Objects Applied/sec'',
      perfField ''DRAInboundObjectsFilteredPerSec'' ''DRA Inbound Objects Filtered/sec'',
      perfField ''DRAInboundObjectsPerSec'' ''DRA Inbound Objects/sec'',
      perfField ''DRAInboundPropertiesAppliedPerSec'' ''DRA Inbound Properties Applied/sec'',
      perfField ''DRAInboundPropertiesFilteredPerSec'' ''DRA Inbound Properties Filtered/sec'',
      perfField ''DRAInboundPropertiesTotalPerSec'' ''DRA Inbound Properties Total/sec'',
      perfField ''_'' ''DRA Inbound Sync Link Deletion/sec'',
      perfField ''DRAInboundTotalUpdatesRemainingInPacket'' ''DRA Inbound Total Updates Remaining in Packet'',
      perfField ''DRAInboundValuesDNsOnlyPerSec'' ''DRA Inbound Values (DNs only)/sec'',
      perfField ''DRAInboundValuesTotalPerSec'' ''DRA Inbound Values Total/sec'',
      perfField ''_'' ''DRA number of NC replication calls since boot'',
      perfField ''_'' ''DRA number of successful NC replication calls since boot'',
      perfField ''DRAOutboundBytesCompressedBetweenSitesAfterCompressionSinceBoot'' ''DRA Outbound Bytes Compressed (Between Sites, After Compression) Since Boot'',
      perfField ''DRAOutboundBytesCompressedBetweenSitesAfterCompressionPerSec'' ''DRA Outbound Bytes Compressed (Between Sites, After Compression)/sec'',
      perfField ''DRAOutboundBytesCompressedBetweenSitesBeforeCompressionSinceBoot'' ''DRA Outbound Bytes Compressed (Between Sites, Before Compression) Since Boot'',
      perfField ''DRAOutboundBytesCompressedBetweenSitesBeforeCompressionPerSec'' ''DRA Outbound Bytes Compressed (Between Sites, Before Compression)/sec'',
      perfField ''DRAOutboundBytesNotCompressedWithinSiteSinceBoot'' ''DRA Outbound Bytes Not Compressed (Within Site) Since Boot'',
      perfField ''DRAOutboundBytesNotCompressedWithinSitePerSec'' ''DRA Outbound Bytes Not Compressed (Within Site)/sec'',
      perfField ''DRAOutboundBytesTotalSinceBoot'' ''DRA Outbound Bytes Total Since Boot'',
      perfField ''DRAOutboundBytesTotalPerSec'' ''DRA Outbound Bytes Total/sec'',
      perfField ''DRAOutboundObjectsFilteredPerSec'' ''DRA Outbound Objects Filtered/sec'',
      perfField ''DRAOutboundObjectsPerSec'' ''DRA Outbound Objects/sec'',
      perfField ''DRAOutboundPropertiesPerSec'' ''DRA Outbound Properties/sec'',
      perfField ''DRAOutboundValuesDNsOnlyPerSec'' ''DRA Outbound Values (DNs only)/sec'',
      perfField ''DRAOutboundValuesTotalPerSec'' ''DRA Outbound Values Total/sec'',
      perfField ''DRAPendingReplicationOperations'' ''DRA Pending Replication Operations'',
      perfField ''DRAPendingReplicationSynchronizations'' ''DRA Pending Replication Synchronizations'',
      perfField ''DRASyncFailuresOnSchemaMismatch'' ''DRA Sync Failures on Schema Mismatch'',
      perfField ''DRASyncRequestsMade'' ''DRA Sync Requests Made'',
      perfField ''DRASyncRequestsSuccessful'' ''DRA Sync Requests Successful'',
      perfField ''DRAThreadsGettingNCChanges'' ''DRA Threads Getting NC Changes'',
      perfField ''DRAThreadsGettingNCChangesHoldingSemaphore'' ''DRA Threads Getting NC Changes Holding Semaphore'',
      perfField ''_'' ''DRA total number of Busy failures since boot'',
      perfField ''_'' ''DRA total number of MissingParent failures since boot'',
      perfField ''_'' ''DRA total number of NotEnoughAttrs/MissingObject failures since boot'',
      perfField ''_'' ''DRA total number of Preempted failures since boot'',
      perfField ''_'' ''DRA total time of applying replication package since boot'',
      perfField ''_'' ''DRA total time of NC replication calls since boot'',
      perfField ''_'' ''DRA total time of successful NC replication calls since boot'',
      perfField ''_'' ''DRA total time of successfully applying replication package since boot'',
      perfField ''_'' ''DRA total time on waiting async replication packages since boot'',
      perfField ''_'' ''DRA total time on waiting sync replication packages since boot'',
      perfField ''DsPercentReadsFromDRA'' ''DS % Reads from DRA'',
      perfField ''DsPercentReadsFromKCC'' ''DS % Reads from KCC'',
      perfField ''DsPercentReadsFromLSA'' ''DS % Reads from LSA'',
      perfField ''DsPercentReadsFromNSPI'' ''DS % Reads from NSPI'',
      perfField ''DsPercentReadsFromNTDSAPI'' ''DS % Reads from NTDSAPI'',
      perfField ''DsPercentReadsFromSAM'' ''DS % Reads from SAM'',
      perfField ''DsPercentReadsOther'' ''DS % Reads Other'',
      perfField ''DsPercentSearchesFromDRA'' ''DS % Searches from DRA'',
      perfField ''DsPercentSearchesFromKCC'' ''DS % Searches from KCC'',
      perfField ''DsPercentSearchesFromLDAP'' ''DS % Searches from LDAP'',
      perfField ''DsPercentSearchesFromLSA'' ''DS % Searches from LSA'',
      perfField ''DsPercentSearchesFromNSPI'' ''DS % Searches from NSPI'',
      perfField ''DsPercentSearchesFromNTDSAPI'' ''DS % Searches from NTDSAPI'',
      perfField ''DsPercentSearchesFromSAM'' ''DS % Searches from SAM'',
      perfField ''DsPercentSearchesOther'' ''DS % Searches Other'',
      perfField ''DsPercentWritesFromDRA'' ''DS % Writes from DRA'',
      perfField ''DsPercentWritesFromKCC'' ''DS % Writes from KCC'',
      perfField ''DsPercentWritesFromLDAP'' ''DS % Writes from LDAP'',
      perfField ''DsPercentWritesFromLSA'' ''DS % Writes from LSA'',
      perfField ''DsPercentWritesFromNSPI'' ''DS % Writes from NSPI'',
      perfField ''DsPercentWritesFromNTDSAPI'' ''DS % Writes from NTDSAPI'',
      perfField ''DsPercentWritesFromSAM'' ''DS % Writes from SAM'',
      perfField ''DsPercentWritesOther'' ''DS % Writes Other'',
      perfField ''DsClientBindsPerSec'' ''DS Client Binds/sec'',
      perfField ''DsClientNameTranslationsPerSec'' ''DS Client Name Translations/sec'',
      perfField ''DsDirectoryReadsPerSec'' ''DS Directory Reads/sec'',
      perfField ''DsDirectorySearchesPerSec'' ''DS Directory Searches/sec'',
      perfField ''DsDirectoryWritesPerSec'' ''DS Directory Writes/sec'',
      perfField ''DsMonitorListSize'' ''DS Monitor List Size'',
      perfField ''DsNameCacheHitRate'' ''DS Name Cache hit rate'',
      perfField ''DsNameCacheHitRateSecondValue'' ''DS Name Cache hit rate,secondvalue'',
      perfField ''DsNotifyQueueSize'' ''DS Notify Queue Size'',
      perfField ''DsSearchSubOperationsPerSec'' ''DS Search sub-operations/sec'',
      perfField ''DsSecurityDescriptorPropagationsEvents'' ''DS Security Descriptor Propagations Events'',
      perfField ''DsSecurityDescriptorPropagatorAverageExclusionTime'' ''DS Security Descriptor Propagator Average Exclusion Time'',
      perfField ''DsSecurityDescriptorPropagatorRuntimeQueue'' ''DS Security Descriptor Propagator Runtime Queue'',
      perfField ''DsSecurityDescriptorSubOperationsPerSec'' ''DS Security Descriptor sub-operations/sec'',
      perfField ''DsServerBindsPerSec'' ''DS Server Binds/sec'',
      perfField ''DsServerNameTranslationsPerSec'' ''DS Server Name Translations/sec'',
      perfField ''DsThreadsInUse'' ''DS Threads in Use'',
      perfField ''_'' ''Error eventlogs since boot'',
      perfField ''_'' ''Error events since boot'',
      perfField ''ExternalBindsPerSec'' ''External Binds/sec'',
      perfField ''FastBindsPerSec'' ''Fast Binds/sec'',
      perfField ''_'' ''Fatal events since boot'',
      perfField ''_'' ''Info eventlogs since boot'',
      perfField ''LdapActiveThreads'' ''LDAP Active Threads'',
      perfField ''_'' ''LDAP Add Operations'',
      perfField ''_'' ''LDAP Add Operations/sec'',
      perfField ''_'' ''LDAP batch slots available'',
      perfField ''LdapBindTime'' ''LDAP Bind Time'',
      perfField ''_'' ''LDAP busy retries'',
      perfField ''_'' ''LDAP busy retries/sec'',
      perfField ''LdapClientSessions'' ''LDAP Client Sessions'',
      perfField ''LdapClosedConnectionsPerSec'' ''LDAP Closed Connections/sec'',
      perfField ''_'' ''LDAP Delete Operations'',
      perfField ''_'' ''LDAP Delete Operations/sec'',
      perfField ''_'' ''LDAP Modify DN Operations'',
      perfField ''_'' ''LDAP Modify DN Operations/sec'',
      perfField ''_'' ''LDAP Modify Operations'',
      perfField ''_'' ''LDAP Modify Operations/sec'',
      perfField ''LdapNewConnectionsPerSec'' ''LDAP New Connections/sec'',
      perfField ''LdapNewSSLConnectionsPerSec'' ''LDAP New SSL Connections/sec'',
      perfField ''_'' ''LDAP Outbound Bytes'',
      perfField ''_'' ''LDAP Outbound Bytes/sec'',
      perfField ''_'' ''LDAP Page Search Cache entries count'',
      perfField ''_'' ''LDAP Page Search Cache size'',
      perfField ''LdapSearchesPerSec'' ''LDAP Searches/sec'',
      perfField ''LdapSuccessfulBindsPerSec'' ''LDAP Successful Binds/sec'',
      perfField ''_'' ''LDAP Threads Sleeping on BUSY'',
      perfField ''LdapUDPOperationsPerSec'' ''LDAP UDP operations/sec'',
      perfField ''LdapWritesPerSec'' ''LDAP Writes/sec'',
      perfField ''LinkValuesCleanedPerSec'' ''Link Values Cleaned/sec'',
      perfField ''_'' ''Links added'',
      perfField ''_'' ''Links added/sec'',
      perfField ''_'' ''Links visited'',
      perfField ''_'' ''Links visited/sec'',
      perfField ''_'' ''Logical link deletes'',
      perfField ''_'' ''Logical link deletes/sec'',
      perfField ''NegotiatedBindsPerSec'' ''Negotiated Binds/sec'',
      perfField ''NTLMBindsPerSec'' ''NTLM Binds/sec'',
      perfField ''_'' ''Objects returned'',
      perfField ''_'' ''Objects returned/sec'',
      perfField ''_'' ''Objects visited'',
      perfField ''_'' ''Objects visited/sec'',
      perfField ''OneLevelSearchesPerSec'' ''Onelevel searches/sec'',
      perfField ''_'' ''PDC failed password update notifications'',
      perfField ''_'' ''PDC password update notifications/sec'',
      perfField ''_'' ''PDC successful password update notifications'',
      perfField ''PhantomsCleanedPerSec'' ''Phantoms Cleaned/sec'',
      perfField ''PhantomsVisitedPerSec'' ''Phantoms Visited/sec'',
      perfField ''_'' ''Physical link deletes'',
      perfField ''_'' ''Physical link deletes/sec'',
      perfField ''_'' ''Replicate Single Object operations'',
      perfField ''_'' ''Replicate Single Object operations/sec'',
      perfField ''_'' ''RID Pool invalidations since boot'',
      perfField ''_'' ''RID Pool request failures since boot'',
      perfField ''_'' ''RID Pool request successes since boot'',
      perfField ''SamAccountGroupEvaluationLatency'' ''SAM Account Group Evaluation Latency'',
      perfField ''SamDisplayInformationQueriesPerSec'' ''SAM Display Information Queries/sec'',
      perfField ''SamDomainLocalGroupMembershipEvaluationsPerSec'' ''SAM Domain Local Group Membership Evaluations/sec'',
      perfField ''SamEnumerationsPerSec'' ''SAM Enumerations/sec'',
      perfField ''SamGCEvaluationsPerSec'' ''SAM GC Evaluations/sec'',
      perfField ''SamGlobalGroupMembershipEvaluationsPerSec'' ''SAM Global Group Membership Evaluations/sec'',
      perfField ''SamMachineCreationAttemptsPerSec'' ''SAM Machine Creation Attempts/sec'',
      perfField ''SamMembershipChangesPerSec'' ''SAM Membership Changes/sec'',
      perfField ''SamNonTransitiveMembershipEvaluationsPerSec'' ''SAM Non-Transitive Membership Evaluations/sec'',
      perfField ''SamPasswordChangesPerSec'' ''SAM Password Changes/sec'',
      perfField ''SamResourceGroupEvaluationLatency'' ''SAM Resource Group Evaluation Latency'',
      perfField ''SamSuccessfulComputerCreationsPerSecIncludesAllRequests'' ''SAM Successful Computer Creations/sec: Includes all requests'',
      perfField ''SamSuccessfulUserCreationsPerSec'' ''SAM Successful User Creations/sec'',
      perfField ''SamTransitiveMembershipEvaluationsPerSec'' ''SAM Transitive Membership Evaluations/sec'',
      perfField ''SamUniversalGroupMembershipEvaluationsPerSec'' ''SAM Universal Group Membership Evaluations/sec'',
      perfField ''SamUserCreationAttemptsPerSec'' ''SAM User Creation Attempts/sec'',
      perfField ''SimpleBindsPerSec'' ''Simple Binds/sec'',
      perfField ''SubtreeSearchesPerSec'' ''Subtree searches/sec'',
      perfField ''TombstonesGarbageCollectedPerSec'' ''Tombstones Garbage Collected/sec'',
      perfField ''TombstonesVisitedPerSec'' ''Tombstones Visited/sec'',
      perfField ''TransitiveOperationsMillisecondsRun'' ''Transitive operations milliseconds run'',
      perfField ''TransitiveOperationsPerSec'' ''Transitive operations/sec'',
      perfField ''TransitiveSubOperationsPerSec'' ''Transitive suboperations/sec'',
      perfField ''_'' ''Warning eventlogs since boot'',
      perfField ''_'' ''Warning events since boot'']"

definition ad_descs :: descTable where
  "ad_descs =
     [(''addressBookOperationsTotal'', NewDesc (BuildFQName Namespace ''ad'' ''address_book_operations_total'')
        '''' [''operation'']),
      (''addressBookClientSessions'', NewDesc (BuildFQName Namespace ''ad'' ''address_book_client_sessions'')
        '''' []),
      (''approximateHighestDistinguishedNameTag'', NewDesc (BuildFQName Namespace ''ad'' ''approximate_highest_distinguished_name_tag'')
        '''' []),
      (''atqEstimatedDelaySeconds'', NewDesc (BuildFQName Namespace ''ad'' ''atq_estimated_delay_seconds'')
        '''' []),
      (''atqOutstandingRequests'', NewDesc (BuildFQName Namespace ''ad'' ''atq_outstanding_requests'')
        '''' []),
      (''atqAverageRequestLatency'', NewDesc (BuildFQName Namespace ''ad'' ''atq_average_request_latency'')
        '''' []),
      (''atqCurrentThreads'', NewDesc (BuildFQName Namespace ''ad'' ''atq_current_threads'')
        '''' [''service'']),
      (''searchesTotal'', NewDesc (BuildFQName Namespace ''ad'' ''searches_total'')
        '''' [''scope'']),
      (''databaseOperationsTotal'', NewDesc (BuildFQName Namespace ''ad'' ''database_operations_total'')
        '''' [''operation'']),
      (''bindsTotal'', NewDesc (BuildFQName Namespace ''ad'' ''binds_total'')
        '''' [''bind_method'']),
      (''replicationHighestUsn'', NewDesc (BuildFQName Namespace ''ad'' ''replication_highest_usn'')
        '''' [''state'']),
      (''intraSiteReplicationDataBytesTotal'', NewDesc (BuildFQName Namespace ''ad'' ''replication_data_intrasite_bytes_total'')
        '''' [''direction'']),
      (''interSiteReplicationDataBytesTotal'', NewDesc (BuildFQName Namespace ''ad'' ''replication_data_intersite_bytes_total'')
        '''' [''direction'']),
      (''replicationInboundSyncObjectsRemaining'', NewDesc (BuildFQName Namespace ''ad'' ''replication_inbound_sync_objects_remaining'')
        '''' []),
      (''replicationInboundLinkValueUpdatesRemaining'', NewDesc (BuildFQName Namespace ''ad'' ''replication_inbound_link_value_updates_remaining'')
        '''' []),
      (''replicationInboundObjectsUpdatedTotal'', NewDesc (BuildFQName Namespace ''ad'' ''replication_inbound_objects_updated_total'')
        '''' []),
      (''replicationInboundObjectsFilteredTotal'', NewDesc (BuildFQName Namespace ''ad'' ''replication_inbound_objects_filtered_total'')
        '''' []),
      (''replicationInboundPropertiesUpdatedTotal'', NewDesc (BuildFQName Namespace ''ad'' ''replication_inbound_properties_updated_total'')
        '''' []),
      (''replicationInboundPropertiesFilteredTotal'', NewDesc (BuildFQName Namespace ''ad'' ''replication_inbound_properties_filtered_total'')
        '''' []),
      (''replicationPendingOperations'', NewDesc (BuildFQName Namespace ''ad'' ''replication_pending_operations'')
        '''' []),
      (''replicationPendingSynchronizations'', NewDesc (BuildFQName Namespace ''ad'' ''replication_pending_synchronizations'')
        '''' []),
      (''replicationSyncRequestsTotal'', NewDesc (BuildFQName Namespace ''ad'' ''replication_sync_requests_total'')
        '''' []),
      (''replicationSyncRequestsSuccessTotal'', NewDesc (BuildFQName Namespace ''ad'' ''replication_sync_requests_success_total'')
        '''' []),
      (''replicationSyncRequestsSchemaMismatchFailureTotal'', NewDesc (BuildFQName Namespace ''ad'' ''replication_sync_requests_schema_mismatch_failure_total'')
        '''' []),
      (''nameTranslationsTotal'', NewDesc (BuildFQName Namespace ''ad'' ''name_translations_total'')
        '''' [''target_name'']),
      (''changeMonitorsRegistered'', NewDesc (BuildFQName Namespace ''ad'' ''change_monitors_registered'')
        '''' []),
      (''changeMonitorUpdatesPending'', NewDesc (BuildFQName Namespace ''ad'' ''change_monitor_updates_pending'')
        '''' []),
      (''nameCacheHitsTotal'', NewDesc (BuildFQName Namespace ''ad'' ''name_cache_hits_total'')
        '''' []),
      (''nameCacheLookupsTotal'', NewDesc (BuildFQName Namespace ''ad'' ''name_cache_lookups_total'')
        '''' []),
      (''directoryOperationsTotal'', NewDesc (BuildFQName Namespace ''ad'' ''directory_operations_total'')
        '''' [''operation'', ''origin'']),
      (''directorySearchSubOperationsTotal'', NewDesc (BuildFQName Namespace ''ad'' ''directory_search_suboperations_total'')
        '''' []),
      (''securityDescriptorPropagationEventsTotal'', NewDesc (BuildFQName Namespace ''ad'' ''security_descriptor_propagation_events_total'')
        '''' []),
      (''securityDescriptorPropagationEventsQueued'', NewDesc (BuildFQName Namespace ''ad'' ''security_descriptor_propagation_events_queued'')
        '''' []),
      (''securityDescriptorPropagationAccessWaitTotalSeconds'', NewDesc (BuildFQName Namespace ''ad'' ''security_descriptor_propagation_access_wait_total_seconds'')
        '''' []),
      (''securityDescriptorPropagationItemsQueuedTotal'', NewDesc (BuildFQName Namespace ''ad'' ''security_descriptor_propagation_items_queued_total'')
        '''' []),
      (''directoryServiceThreads'', NewDesc (BuildFQName Namespace ''ad'' ''directory_service_threads'')
        '''' []),
      (''ldapClosedConnectionsTotal'', NewDesc (BuildFQName Namespace ''ad'' ''ldap_closed_connections_total'')
        '''' []),
      (''ldapOpenedConnectionsTotal'', NewDesc (BuildFQName Namespace ''ad'' ''ldap_opened_connections_total'')
        '''' [''type'']),
      (''ldapActiveThreads'', NewDesc (BuildFQName Namespace ''ad'' ''ldap_active_threads'')
        '''' []),
      (''ldapLastBindTimeSeconds'', NewDesc (BuildFQName Namespace ''ad'' ''ldap_last_bind_time_seconds'')
        '''' []),
      (''ldapSearchesTotal'', NewDesc (BuildFQName Namespace ''ad'' ''ldap_searches_total'')
        '''' []),
      (''ldapUdpOperationsTotal'', NewDesc (BuildFQName Namespace ''ad'' ''ldap_udp_operations_total'')
        '''' []),
      (''ldapWritesTotal'', NewDesc (BuildFQName Namespace ''ad'' ''ldap_writes_total'')
        '''' []),
      (''ldapClientSessions'', NewDesc (BuildFQName Namespace ''ad'' ''ldap_client_sessions'')
        (''This is the number of sessions opened by LDAP clients at the time the data is taken. This is helpful in determining LDAP client activity and if the DC is able to handle the load. Of course, spikes during normal periods of authentication '' @ [CHR 0xE2, CHR 0x80, CHR 0x94] @ '' such as first thing in the morning '' @ [CHR 0xE2, CHR 0x80, CHR 0x94] @ '' are not necessarily a problem, but long sustained periods of high values indicate an overworked DC.'') []),
      (''linkValuesCleanedTotal'', NewDesc (BuildFQName Namespace ''ad'' ''link_values_cleaned_total'')
        '''' []),
      (''phantomObjectsCleanedTotal'', NewDesc (BuildFQName Namespace ''ad'' ''phantom_objects_cleaned_total'')
        '''' []),
      (''phantomObjectsVisitedTotal'', NewDesc (BuildFQName Namespace ''ad'' ''phantom_objects_visited_total'')
        '''' []),
      (''samGroupMembershipEvaluationsTotal'', NewDesc (BuildFQName Namespace ''ad'' ''sam_group_membership_evaluations_total'')
        '''' [''group_type'']),
      (''samGroupMembershipGlobalCatalogEvaluationsTotal'', NewDesc (BuildFQName Namespace ''ad'' ''sam_group_membership_global_catalog_evaluations_total'')
        '''' []),
      (''samGroupMembershipEvaluationsNonTransitiveTotal'', NewDesc (BuildFQName Namespace ''ad'' ''sam_group_membership_evaluations_nontransitive_total'')
        '''' []),
      (''samGroupMembershipEvaluationsTransitiveTotal'', NewDesc (BuildFQName Namespace ''ad'' ''sam_group_membership_evaluations_transitive_total'')
        '''' []),
      (''samGroupEvaluationLatency'', NewDesc (BuildFQName Namespace ''ad'' ''sam_group_evaluation_latency'')
        ''The mean latency of the last 100 group evaluations performed for authentication'' [''evaluation_type'']),
      (''samComputerCreationRequestsTotal'', NewDesc (BuildFQName Namespace ''ad'' ''sam_computer_creation_requests_total'')
        '''' []),
      (''samComputerCreationSuccessfulRequestsTotal'', NewDesc (BuildFQName Namespace ''ad'' ''sam_computer_creation_successful_requests_total'')
        '''' []),
      (''samUserCreationRequestsTotal'', NewDesc (BuildFQName Namespace ''ad'' ''sam_user_creation_requests_total'')
        '''' []),
      (''samUserCreationSuccessfulRequestsTotal'', NewDesc (BuildFQName Namespace ''ad'' ''sam_user_creation_successful_requests_total'')
        '''' []),
      (''samQueryDisplayRequestsTotal'', NewDesc (BuildFQName Namespace ''ad'' ''sam_query_display_requests_total'')
        '''' []),
      (''samEnumerationsTotal'', NewDesc (BuildFQName Namespace ''ad'' ''sam_enumerations_total'')
        '''' []),
      (''samMembershipChangesTotal'', NewDesc (BuildFQName Namespace ''ad'' ''sam_membership_changes_total'')
        '''' []),
      (''samPasswordChangesTotal'', NewDesc (BuildFQName Namespace ''ad'' ''sam_password_changes_total'')
        '''' []),
      (''tombstonesObjectsCollectedTotal'', NewDesc (BuildFQName Namespace ''ad'' ''tombstoned_objects_collected_total'')
        '''' []),
      (''tombstonesObjectsVisitedTotal'', NewDesc (BuildFQName Namespace ''ad'' ''tombstoned_objects_visited_total'')
        '''' [])]"

definition ad_lines :: "(f64 \<Rightarrow> u64) \<Rightarrow> row \<Rightarrow> line list" where
  "ad_lines other r =
     [(''addressBookOperationsTotal'', CounterValue, num ad_fields r ''AbANRPerSec'', [''ambiguous_name_resolution'']),
      (''addressBookOperationsTotal'', CounterValue, num ad_fields r ''AbBrowsesPerSec'', [''browse'']),
      (''addressBookOperationsTotal'', CounterValue, num ad_fields r ''AbMatchesPerSec'', [''find'']),
      (''addressBookOperationsTotal'', CounterValue, num ad_fields r ''AbPropertyReadsPerSec'', [''property_read'']),
      (''addressBookOperationsTotal'', CounterValue, num ad_fields r ''AbSearchesPerSec'', [''search'']),
      (''addressBookOperationsTotal'', CounterValue, num ad_fields r ''AbProxyLookupsPerSec'', [''proxy_search'']),
      (''addressBookClientSessions'', GaugeValue, num ad_fields r ''AbClientSessions'', []),
      (''approximateHighestDistinguishedNameTag'', GaugeValue, num ad_fields r ''ApproximateHighestDNT'', []),
      (''atqEstimatedDelaySeconds'', GaugeValue, f64_div (num ad_fields r ''AtqEstimatedQueueDelay'') (F_Fin 1000), []),
      (''atqOutstandingRequests'', GaugeValue, num ad_fields r ''AtqOutstandingQueuedRequests'', []),
      (''atqAverageRequestLatency'', GaugeValue, num ad_fields r ''AtqRequestLatency'', []),
      (''atqCurrentThreads'', GaugeValue, num ad_fields r ''AtqThreadsLDAP'', [''ldap'']),
      (''atqCurrentThreads'', GaugeValue, num ad_fields r ''AtqThreadsOther'', [''other'']),
      (''searchesTotal'', CounterValue, num ad_fields r ''BaseSearchesPerSec'', [''base'']),
      (''searchesTotal'', CounterValue, num ad_fields r ''SubtreeSearchesPerSec'', [''subtree'']),
      (''searchesTotal'', CounterValue, num ad_fields r ''OneLevelSearchesPerSec'', [''one_level'']),
      (''databaseOperationsTotal'', CounterValue, num ad_fields r ''DatabaseAddsPerSec'', [''add'']),
      (''databaseOperationsTotal'', CounterValue, num ad_fields r ''DatabaseDeletesPerSec'', [''delete'']),
      (''databaseOperationsTotal'', CounterValue, num ad_fields r ''DatabaseModifiesPerSec'', [''modify'']),
      (''databaseOperationsTotal'', CounterValue, num ad_fields r ''DatabaseRecyclesPerSec'', [''recycle'']),
      (''bindsTotal'', CounterValue, num ad_fields r ''DigestBindsPerSec'', [''digest'']),
      (''bindsTotal'', CounterValue, num ad_fields r ''DsClientBindsPerSec'', [''ds_client'']),
      (''bindsTotal'', CounterValue, num ad_fields r ''DsServerBindsPerSec'', [''ds_server'']),
      (''bindsTotal'', CounterValue, num ad_fields r ''ExternalBindsPerSec'', [''external'']),
      (''bindsTotal'', CounterValue, num ad_fields r ''FastBindsPerSec'', [''fast'']),
      (''bindsTotal'', CounterValue, num ad_fields r ''NegotiatedBindsPerSec'', [''negotiate'']),
      (''bindsTotal'', CounterValue, num ad_fields r ''NTLMBindsPerSec'', [''ntlm'']),
      (''bindsTotal'', CounterValue, num ad_fields r ''SimpleBindsPerSec'', [''simple'']),
      (''bindsTotal'', CounterValue, num ad_fields r ''LdapSuccessfulBindsPerSec'', [''ldap'']),
      (''replicationHighestUsn'', CounterValue, f64_add (usnHigh other (num ad_fields r ''DRAHighestUSNCommittedHighPart'')) (num ad_fields r ''DRAHighestUSNCommittedLowPart''), [''committed'']),
      (''replicationHighestUsn'', CounterValue, f64_add (usnHigh other (num ad_fields r ''DRAHighestUSNIssuedHighPart'')) (num ad_fields r ''DRAHighestUSNIssuedLowPart''), [''issued'']),
      (''interSiteReplicationDataBytesTotal'', CounterValue, num ad_fields r ''DRAInboundBytesCompressedBetweenSitesAfterCompressionPerSec'', [''inbound'']),
      (''interSiteReplicationDataBytesTotal'', CounterValue, num ad_fields r ''DRAOutboundBytesCompressedBetweenSitesAfterCompressionPerSec'', [''outbound'']),
      (''intraSiteReplicationDataBytesTotal'', CounterValue, num ad_fields r ''DRAInboundBytesNotCompressedWithinSitePerSec'', [''inbound'']),
      (''intraSiteReplicationDataBytesTotal'', CounterValue, num ad_fields r ''DRAOutboundBytesNotCompressedWithinSitePerSec'', [''outbound'']),
      (''replicationInboundSyncObjectsRemaining'', GaugeValue, num ad_fields r ''DRAInboundFullSyncObjectsRemaining'', []),
      (''replicationInboundLinkValueUpdatesRemaining'', GaugeValue, num ad_fields r ''DRAInboundLinkValueUpdatesRemainingInPacket'', []),
      (''replicationInboundObjectsUpdatedTotal'', CounterValue, num ad_fields r ''DRAInboundObjectsAppliedPerSec'', []),
      (''replicationInboundObjectsFilteredTotal'', CounterValue, num ad_fields r ''DRAInboundObjectsFilteredPerSec'', []),
      (''replicationInboundPropertiesUpdatedTotal'', CounterValue, num ad_fields r ''DRAInboundPropertiesAppliedPerSec'', []),
      (''replicationInboundPropertiesFilteredTotal'', CounterValue, num ad_fields r ''DRAInboundPropertiesFilteredPerSec'', []),
      (''replicationPendingOperations'', GaugeValue, num ad_fields r ''DRAPendingReplicationOperations'', []),
      (''replicationPendingSynchronizations'', GaugeValue, num ad_fields r ''DRAPendingReplicationSynchronizations'', []),
      (''replicationSyncRequestsTotal'', CounterValue, num ad_fields r ''DRASyncRequestsMade'', []),
      (''replicationSyncRequestsSuccessTotal'', CounterValue, num ad_fields r ''DRASyncRequestsSuccessful'', []),
      (''replicationSyncRequestsSchemaMismatchFailureTotal'', CounterValue, num ad_fields r ''DRASyncFailuresOnSchemaMismatch'', []),
      (''nameTranslationsTotal'', CounterValue, num ad_fields r ''DsClientNameTranslationsPerSec'', [''client'']),
      (''nameTranslationsTotal'', CounterValue, num ad_fields r ''DsServerNameTranslationsPerSec'', [''server'']),
      (''changeMonitorsRegistered'', GaugeValue, num ad_fields r ''DsMonitorListSize'', []),
      (''changeMonitorUpdatesPending'', GaugeValue, num ad_fields r ''DsNotifyQueueSize'', []),
      (''nameCacheHitsTotal'', CounterValue, num ad_fields r ''DsNameCacheHitRate'', []),
      (''nameCacheLookupsTotal'', CounterValue, num ad_fields r ''DsNameCacheHitRateSecondValue'', []),
      (''directoryOperationsTotal'', CounterValue, num ad_fields r ''DsPercentReadsFromDRA'', [''read'', ''replication_agent'']),
      (''directoryOperationsTotal'', CounterValue, num ad_fields r ''DsPercentReadsFromKCC'', [''read'', ''knowledge_consistency_checker'']),
      (''directoryOperationsTotal'', CounterValue, num ad_fields r ''DsPercentReadsFromLSA'', [''read'', ''local_security_authority'']),
      (''directoryOperationsTotal'', CounterValue, num ad_fields r ''DsPercentReadsFromNSPI'', [''read'', ''name_service_provider_interface'']),
      (''directoryOperationsTotal'', CounterValue, num ad_fields r ''DsPercentReadsFromNTDSAPI'', [''read'', ''directory_service_api'']),
      (''directoryOperationsTotal'', CounterValue, num ad_fields r ''DsPercentReadsFromSAM'', [''read'', ''security_account_manager'']),
      (''directoryOperationsTotal'', CounterValue, num ad_fields r ''DsPercentReadsOther'', [''read'', ''other'']),
      (''directoryOperationsTotal'', CounterValue, num ad_fields r ''DsPercentSearchesFromDRA'', [''search'', ''replication_agent'']),
      (''directoryOperationsTotal'', CounterValue, num ad_fields r ''DsPercentSearchesFromKCC'', [''search'', ''knowledge_consistency_checker'']),
      (''directoryOperationsTotal'', CounterValue, num ad_fields r ''DsPercentSearchesFromLDAP'', [''search'', ''ldap'']),
      (''directoryOperationsTotal'', CounterValue, num ad_fields r ''DsPercentSearchesFromLSA'', [''search'', ''local_security_authority'']),
      (''directoryOperationsTotal'', CounterValue, num ad_fields r ''DsPercentSearchesFromNSPI'', [''search'', ''name_service_provider_interface'']),
      (''directoryOperationsTotal'', CounterValue, num ad_fields r ''DsPercentSearchesFromNTDSAPI'', [''search'', ''directory_service_api'']),
      (''directoryOperationsTotal'', CounterValue, num ad_fields r ''DsPercentSearchesFromSAM'', [''search'', ''security_account_manager'']),
      (''directoryOperationsTotal'', CounterValue, num ad_fields r ''DsPercentSearchesOther'', [''search'', ''other'']),
      (''directoryOperationsTotal'', CounterValue, num ad_fields r ''DsPercentWritesFromDRA'', [''write'', ''replication_agent'']),
      (''directoryOperationsTotal'', CounterValue, num ad_fields r ''DsPercentWritesFromKCC'', [''write'', ''knowledge_consistency_checker'']),
      (''directoryOperationsTotal'', CounterValue, num ad_fields r ''DsPercentWritesFromLDAP'', [''write'', ''ldap'']),
      (''directoryOperationsTotal'', CounterValue, num ad_fields r ''DsPercentSearchesFromLSA'', [''write'', ''local_security_authority'']),
      (''directoryOperationsTotal'', CounterValue, num ad_fields r ''DsPercentWritesFromNSPI'', [''write'', ''name_service_provider_interface'']),
      (''directoryOperationsTotal'', CounterValue, num ad_fields r ''DsPercentWritesFromNTDSAPI'', [''write'', ''directory_service_api'']),
      (''directoryOperationsTotal'', CounterValue, num ad_fields r ''DsPercentWritesFromSAM'', [''write'', ''security_account_manager'']),
      (''directoryOperationsTotal'', CounterValue, num ad_fields r ''DsPercentWritesOther'', [''write'', ''other'']),
      (''directorySearchSubOperationsTotal'', CounterValue, num ad_fields r ''DsSearchSubOperationsPerSec'', []),
      (''securityDescriptorPropagationEventsTotal'', CounterValue, num ad_fields r ''DsSecurityDescriptorSubOperationsPerSec'', []),
      (''securityDescriptorPropagationEventsQueued'', GaugeValue, num ad_fields r ''DsSecurityDescriptorPropagationsEvents'', []),
      (''securityDescriptorPropagationAccessWaitTotalSeconds'', GaugeValue, num ad_fields r ''DsSecurityDescriptorPropagatorAverageExclusionTime'', []),
      (''securityDescriptorPropagationItemsQueuedTotal'', CounterValue, num ad_fields r ''DsSecurityDescriptorPropagatorRuntimeQueue'', []),
      (''directoryServiceThreads'', GaugeValue, num ad_fields r ''DsThreadsInUse'', []),
      (''ldapClosedConnectionsTotal'', CounterValue, num ad_fields r ''LdapClosedConnectionsPerSec'', []),
      (''ldapOpenedConnectionsTotal'', CounterValue, num ad_fields r ''LdapNewConnectionsPerSec'', [''ldap'']),
      (''ldapOpenedConnectionsTotal'', CounterValue, num ad_fields r ''LdapNewSSLConnectionsPerSec'', [''ldaps'']),
      (''ldapActiveThreads'', GaugeValue, num ad_fields r ''LdapActiveThreads'', []),
      (''ldapLastBindTimeSeconds'', GaugeValue, f64_div (num ad_fields r ''LdapBindTime'') (F_Fin 1000), []),
      (''ldapSearchesTotal'', CounterValue, num ad_fields r ''LdapSearchesPerSec'', []),
      (''ldapUdpOperationsTotal'', CounterValue, num ad_fields r ''LdapUDPOperationsPerSec'', []),
      (''ldapWritesTotal'', CounterValue, num ad_fields r ''LdapWritesPerSec'', []),
      (''ldapClientSessions'', GaugeValue, num ad_fields r ''LdapClientSessions'', []),
      (''linkValuesCleanedTotal'', CounterValue, num ad_fields r ''LinkValuesCleanedPerSec'', []),
      (''phantomObjectsCleanedTotal'', CounterValue, num ad_fields r ''PhantomsCleanedPerSec'', []),
      (''phantomObjectsVisitedTotal'', CounterValue, num ad_fields r ''PhantomsVisitedPerSec'', []),
      (''samGroupMembershipEvaluationsTotal'', CounterValue, num ad_fields r ''SamGlobalGroupMembershipEvaluationsPerSec'', [''global'']),
      (''samGroupMembershipEvaluationsTotal'', CounterValue, num ad_fields r ''SamDomainLocalGroupMembershipEvaluationsPerSec'', [''domain_local'']),
      (''samGroupMembershipEvaluationsTotal'', CounterValue, num ad_fields r ''SamUniversalGroupMembershipEvaluationsPerSec'', [''universal'']),
      (''samGroupMembershipGlobalCatalogEvaluationsTotal'', CounterValue, num ad_fields r ''SamGCEvaluationsPerSec'', []),
      (''samGroupMembershipEvaluationsNonTransitiveTotal'', CounterValue, num ad_fields r ''SamNonTransitiveMembershipEvaluationsPerSec'', []),
      (''samGroupMembershipEvaluationsTransitiveTotal'', CounterValue, num ad_fields r ''SamTransitiveMembershipEvaluationsPerSec'', []),
      (''samGroupEvaluationLatency'', GaugeValue, num ad_fields r ''SamAccountGroupEvaluationLatency'', [''account_group'']),
      (''samGroupEvaluationLatency'', GaugeValue, num ad_fields r ''SamResourceGroupEvaluationLatency'', [''resource_group'']),
      (''samComputerCreationRequestsTotal'', CounterValue, num ad_fields r ''SamSuccessfulComputerCreationsPerSecIncludesAllRequests'', []),
      (''samComputerCreationSuccessfulRequestsTotal'', CounterValue, num ad_fields r ''SamMachineCreationAttemptsPerSec'', []),
      (''samUserCreationRequestsTotal'', CounterValue, num ad_fields r ''SamUserCreationAttemptsPerSec'', []),
      (''samUserCreationSuccessfulRequestsTotal'', CounterValue, num ad_fields r ''SamSuccessfulUserCreationsPerSec'', []),
      (''samQueryDisplayRequestsTotal'', CounterValue, num ad_fields r ''SamDisplayInformationQueriesPerSec'', []),
      (''samEnumerationsTotal'', CounterValue, num ad_fields r ''SamEnumerationsPerSec'', []),
      (''samMembershipChangesTotal'', CounterValue, num ad_fields r ''SamMembershipChangesPerSec'', []),
      (''samPasswordChangesTotal'', CounterValue, num ad_fields r ''SamPasswordChangesPerSec'', []),
      (''tombstonesObjectsCollectedTotal'', CounterValue, num ad_fields r ''TombstonesGarbageCollectedPerSec'', []),
      (''tombstonesObjectsVisitedTotal'', CounterValue, num ad_fields r ''TombstonesVisitedPerSec'', [])]"

definition ad_build :: "'w pdh_api \<Rightarrow> u16 \<Rightarrow> 'w \<Rightarrow> (go_error option \<times> perfSource \<times> 'w) option" where
  "ad_build api osBuild = perfBuild api osBuild ''failed to create DirectoryServices collector: %w'' ''DirectoryServices'' [''*''] ad_fields"

definition ad_collect :: "(f64 \<Rightarrow> u64) \<Rightarrow> 'w pdh_api \<Rightarrow> perfSource \<Rightarrow> 'w \<Rightarrow> (perfSource, 'w) collected" where
  "ad_collect other api = collectWith api ad_fields ''failed to collect DirectoryServices (AD) metrics: %w'' ad_descs (firstRow ''failed to collect DirectoryServices (AD) metrics: %w'' (ad_lines other))"

section \<open>adfs\<close>

text \<open>\<open>math.Pow(10, -8)\<close>: the value nearest to $10^{-8}$.\<close>

definition pow10minus8 :: f64 where
  "pow10minus8 = round64 (1 / 100000000)"

definition adfs_fields :: "structField list" where
  "adfs_fields =
     [perfField ''AdLoginConnectionFailures'' ''AD Login Connection Failures'',
      perfField ''ArtifactDBFailures'' ''Artifact Database Connection Failures'',
      perfField ''AvgArtifactDBQueryTime'' ''Average Artifact Database Query Time'',
      perfField ''AvgConfigDBQueryTime'' ''Average Config Database Query Time'',
      perfField ''CertificateAuthentications'' ''Certificate Authentications'',
      perfField ''ConfigDBFailures'' ''Configuration Database Connection Failures'',
      perfField ''DeviceAuthentications'' ''Device Authentications'',
      perfField ''ExternalAuthentications'' ''External Authentications'',
      perfField ''ExternalAuthNFailures'' ''External Authentication Failures'',
      perfField ''ExtranetAccountLockouts'' ''Extranet Account Lockouts'',
      perfField ''FederatedAuthentications'' ''Federated Authentications'',
      perfField ''FederationMetadataRequests'' ''Federation Metadata Requests'',
      perfField ''OAuthAuthZRequests'' ''OAuth AuthZ Requests'',
      perfField ''OAuthClientAuthenticationFailures'' ''OAuth Client Authentications Failures'',
      perfField ''OAuthClientAuthentications'' ''OAuth Client Authentications'',
      perfField ''OAuthClientBasicAuthenticationFailures'' ''OAuth Client Secret Basic Authentication Failures'',
      perfField ''OAuthClientBasicAuthentications'' ''OAuth Client Secret Basic Authentications'',
      perfField ''OAuthClientCredentialRequestFailures'' ''OAuth Client Credentials Request Failures'',
      perfField ''OAuthClientCredentialRequests'' ''OAuth Client Credentials Requests'',
      perfField ''OAuthClientPrivateKeyJWTAuthenticationFailures'' ''OAuth Client Private Key Jwt Authentication Failures'',
      perfField ''OAuthClientPrivateKeyJWTAuthentications'' ''OAuth Client Private Key Jwt Authentications'',
      perfField ''OAuthClientSecretPostAuthenticationFailures'' ''OAuth Client Secret Post Authentication Failures'',
      perfField ''OAuthClientSecretPostAuthentications'' ''OAuth Client Secret Post Authentications'',
      perfField ''OAuthClientWindowsAuthenticationFailures'' ''OAuth Client Windows Integrated Authentication Failures'',
      perfField ''OAuthClientWindowsAuthentications'' ''OAuth Client Windows Integrated Authentications'',
      perfField ''OAuthLogonCertRequestFailures'' ''OAuth Logon Certificate Request Failures'',
      perfField ''OAuthLogonCertTokenRequests'' ''OAuth Logon Certificate Token Requests'',
      perfField ''OAuthPasswordGrantRequestFailures'' ''OAuth Password Grant Request Failures'',
      perfField ''OAuthPasswordGrantRequests'' ''OAuth Password Grant Requests'',
      perfField ''OAuthTokenRequests'' ''OAuth Token Requests'',
      perfField ''PassiveRequests'' ''Passive Requests'',
      perfField ''PassportAuthentications'' ''Microsoft Passport Authentications'',
      perfField ''PasswordChangeFailed'' ''Password Change Failed Requests'',
      perfField ''PasswordChangeSucceeded'' ''Password Change Successful Requests'',
      perfField ''SamlPTokenRequests'' ''SAML-P Token Requests'',
      perfField ''SsoAuthenticationFailures'' ''SSO Authentication Failures'',
      perfField ''SsoAuthentications'' ''SSO Authentications'',
      perfField ''TokenRequests'' ''Token Requests'',
      perfField ''UsernamePasswordAuthenticationFailures'' ''U/P Authentication Failures'',
      perfField ''UsernamePasswordAuthentications'' ''U/P Authentications'',
      perfField ''WindowsIntegratedAuthentications'' ''Windows Integrated Authentications'',
      perfField ''WsFedTokenRequests'' ''WS-Fed Token Requests'',
      perfField ''WsTrustTokenRequests'' ''WS-Trust Token Requests'']"

definition adfs_descs :: descTable where
  "adfs_descs =
     [(''adLoginConnectionFailures'', NewDesc (BuildFQName Namespace ''adfs'' ''ad_login_connection_failures_total'')
        ''Total number of connection failures to an Active Directory domain controller'' []),
      (''certificateAuthentications'', NewDesc (BuildFQName Namespace ''adfs'' ''certificate_authentications_total'')
        ''Total number of User Certificate authentications'' []),
      (''deviceAuthentications'', NewDesc (BuildFQName Namespace ''adfs'' ''device_authentications_total'')
        ''Total number of Device authentications'' []),
      (''extranetAccountLockouts'', NewDesc (BuildFQName Namespace ''adfs'' ''extranet_account_lockouts_total'')
        ''Total number of Extranet Account Lockouts'' []),
      (''federatedAuthentications'', NewDesc (BuildFQName Namespace ''adfs'' ''federated_authentications_total'')
        ''Total number of authentications from a federated source'' []),
      (''passportAuthentications'', NewDesc (BuildFQName Namespace ''adfs'' ''passport_authentications_total'')
        ''Total number of Microsoft Passport SSO authentications'' []),
      (''passiveRequests'', NewDesc (BuildFQName Namespace ''adfs'' ''passive_requests_total'')
        ''Total number of passive (browser-based) requests'' []),
      (''passwordChangeFailed'', NewDesc (BuildFQName Namespace ''adfs'' ''password_change_failed_total'')
        ''Total number of failed password changes'' []),
      (''passwordChangeSucceeded'', NewDesc (BuildFQName Namespace ''adfs'' ''password_change_succeeded_total'')
        ''Total number of successful password changes'' []),
      (''tokenRequests'', NewDesc (BuildFQName Namespace ''adfs'' ''token_requests_total'')
        ''Total number of token requests'' []),
      (''windowsIntegratedAuthentications'', NewDesc (BuildFQName Namespace ''adfs'' ''windows_integrated_authentications_total'')
        ''Total number of Windows integrated authentications (Kerberos/NTLM)'' []),
      (''oAuthAuthZRequests'', NewDesc (BuildFQName Namespace ''adfs'' ''oauth_authorization_requests_total'')
        ''Total number of incoming requests to the OAuth Authorization endpoint'' []),
      (''oAuthClientAuthentications'', NewDesc (BuildFQName Namespace ''adfs'' ''oauth_client_authentication_success_total'')
        ''Total number of successful OAuth client Authentications'' []),
      (''oAuthClientAuthenticationsFailures'', NewDesc (BuildFQName Namespace ''adfs'' ''oauth_client_authentication_failure_total'')
        ''Total number of failed OAuth client Authentications'' []),
      (''oAuthClientCredentialsRequestFailures'', NewDesc (BuildFQName Namespace ''adfs'' ''oauth_client_credentials_failure_total'')
        ''Total number of failed OAuth Client Credentials Requests'' []),
      (''oAuthClientCredentialsRequests'', NewDesc (BuildFQName Namespace ''adfs'' ''oauth_client_credentials_success_total'')
        ''Total number of successful RP tokens issued for OAuth Client Credentials Requests'' []),
      (''oAuthClientPrivateKeyJwtAuthenticationFailures'', NewDesc (BuildFQName Namespace ''adfs'' ''oauth_client_privkey_jwt_authentication_failure_total'')
        ''Total number of failed OAuth Client Private Key Jwt Authentications'' []),
      (''oAuthClientPrivateKeyJwtAuthentications'', NewDesc (BuildFQName Namespace ''adfs'' ''oauth_client_privkey_jwt_authentications_success_total'')
        ''Total number of successful OAuth Client Private Key Jwt Authentications'' []),
      (''oAuthClientSecretBasicAuthenticationFailures'', NewDesc (BuildFQName Namespace ''adfs'' ''oauth_client_secret_basic_authentications_failure_total'')
        ''Total number of failed OAuth Client Secret Basic Authentications'' []),
      (''oAuthClientSecretBasicAuthentications'', NewDesc (BuildFQName Namespace ''adfs'' ''oauth_client_secret_basic_authentications_success_total'')
        ''Total number of successful OAuth Client Secret Basic Authentications'' []),
      (''oAuthClientSecretPostAuthenticationFailures'', NewDesc (BuildFQName Namespace ''adfs'' ''oauth_client_secret_post_authentications_failure_total'')
        ''Total number of failed OAuth Client Secret Post Authentications'' []),
      (''oAuthClientSecretPostAuthentications'', NewDesc (BuildFQName Namespace ''adfs'' ''oauth_client_secret_post_authentications_success_total'')
        ''Total number of successful OAuth Client Secret Post Authentications'' []),
      (''oAuthClientWindowsIntegratedAuthenticationFailures'', NewDesc (BuildFQName Namespace ''adfs'' ''oauth_client_windows_authentications_failure_total'')
        ''Total number of failed OAuth Client Windows Integrated Authentications'' []),
      (''oAuthClientWindowsIntegratedAuthentications'', NewDesc (BuildFQName Namespace ''adfs'' ''oauth_client_windows_authentications_success_total'')
        ''Total number of successful OAuth Client Windows Integrated Authentications'' []),
      (''oAuthLogonCertificateRequestFailures'', NewDesc (BuildFQName Namespace ''adfs'' ''oauth_logon_certificate_requests_failure_total'')
        ''Total number of failed OAuth Logon Certificate Requests'' []),
      (''oAuthLogonCertificateTokenRequests'', NewDesc (BuildFQName Namespace ''adfs'' ''oauth_logon_certificate_token_requests_success_total'')
        ''Total number of successful RP tokens issued for OAuth Logon Certificate Requests'' []),
      (''oAuthPasswordGrantRequestFailures'', NewDesc (BuildFQName Namespace ''adfs'' ''oauth_password_grant_requests_failure_total'')
        ''Total number of failed OAuth Password Grant Requests'' []),
      (''oAuthPasswordGrantRequests'', NewDesc (BuildFQName Namespace ''adfs'' ''oauth_password_grant_requests_success_total'')
        ''Total number of successful OAuth Password Grant Requests'' []),
      (''oAuthTokenRequests'', NewDesc (BuildFQName Namespace ''adfs'' ''oauth_token_requests_success_total'')
        ''Total number of successful RP tokens issued over OAuth protocol'' []),
      (''samlPTokenRequests'', NewDesc (BuildFQName Namespace ''adfs'' ''samlp_token_requests_success_total'')
        ''Total number of successful RP tokens issued over SAML-P protocol'' []),
      (''ssoAuthenticationFailures'', NewDesc (BuildFQName Namespace ''adfs'' ''sso_authentications_failure_total'')
        ''Total number of failed SSO authentications'' []),
      (''ssoAuthentications'', NewDesc (BuildFQName Namespace ''adfs'' ''sso_authentications_success_total'')
        ''Total number of successful SSO authentications'' []),
      (''wsFedTokenRequests'', NewDesc (BuildFQName Namespace ''adfs'' ''wsfed_token_requests_success_total'')
        ''Total number of successful RP tokens issued over WS-Fed protocol'' []),
      (''wsTrustTokenRequests'', NewDesc (BuildFQName Namespace ''adfs'' ''wstrust_token_requests_success_total'')
        ''Total number of successful RP tokens issued over WS-Trust protocol'' []),
      (''upAuthenticationFailures'', NewDesc (BuildFQName Namespace ''adfs'' ''userpassword_authentications_failure_total'')
        ''Total number of failed AD U/P authentications'' []),
      (''upAuthentications'', NewDesc (BuildFQName Namespace ''adfs'' ''userpassword_authentications_success_total'')
        ''Total number of successful AD U/P authentications'' []),
      (''externalAuthenticationFailures'', NewDesc (BuildFQName Namespace ''adfs'' ''external_authentications_failure_total'')
        ''Total number of failed authentications from external MFA providers'' []),
      (''externalAuthentications'', NewDesc (BuildFQName Namespace ''adfs'' ''external_authentications_success_total'')
        ''Total number of successful authentications from external MFA providers'' []),
      (''artifactDBFailures'', NewDesc (BuildFQName Namespace ''adfs'' ''db_artifact_failure_total'')
        ''Total number of failures connecting to the artifact database'' []),
      (''avgArtifactDBQueryTime'', NewDesc (BuildFQName Namespace ''adfs'' ''db_artifact_query_time_seconds_total'')
        ''Accumulator of time taken for an artifact database query'' []),
      (''configDBFailures'', NewDesc (BuildFQName Namespace ''adfs'' ''db_config_failure_total'')
        ''Total number of failures connecting to the configuration database'' []),
      (''avgConfigDBQueryTime'', NewDesc (BuildFQName Namespace ''adfs'' ''db_config_query_time_seconds_total'')
        ''Accumulator of time taken for a configuration database query'' []),
      (''federationMetadataRequests'', NewDesc (BuildFQName Namespace ''adfs'' ''federation_metadata_requests_total'')
        ''Total number of Federation Metadata requests'' [])]"

definition adfs_lines :: "row \<Rightarrow> line list" where
  "adfs_lines r =
     [(''adLoginConnectionFailures'', CounterValue, num adfs_fields r ''AdLoginConnectionFailures'', []),
      (''certificateAuthentications'', CounterValue, num adfs_fields r ''CertificateAuthentications'', []),
      (''deviceAuthentications'', CounterValue, num adfs_fields r ''DeviceAuthentications'', []),
      (''extranetAccountLockouts'', CounterValue, num adfs_fields r ''ExtranetAccountLockouts'', []),
      (''federatedAuthentications'', CounterValue, num adfs_fields r ''FederatedAuthentications'', []),
      (''passportAuthentications'', CounterValue, num adfs_fields r ''PassportAuthentications'', []),
      (''passiveRequests'', CounterValue, num adfs_fields r ''PassiveRequests'', []),
      (''passwordChangeFailed'', CounterValue, num adfs_fields r ''PasswordChangeFailed'', []),
      (''passwordChangeSucceeded'', CounterValue, num adfs_fields r ''PasswordChangeSucceeded'', []),
      (''tokenRequests'', CounterValue, num adfs_fields r ''TokenRequests'', []),
      (''windowsIntegratedAuthentications'', CounterValue, num adfs_fields r ''WindowsIntegratedAuthentications'', []),
      (''oAuthAuthZRequests'', CounterValue, num adfs_fields r ''OAuthAuthZRequests'', []),
      (''oAuthClientAuthentications'', CounterValue, num adfs_fields r ''OAuthClientAuthentications'', []),
      (''oAuthClientAuthenticationsFailures'', CounterValue, num adfs_fields r ''OAuthClientAuthenticationFailures'', []),
      (''oAuthClientCredentialsRequestFailures'', CounterValue, num adfs_fields r ''OAuthClientCredentialRequestFailures'', []),
      (''oAuthClientCredentialsRequests'', CounterValue, num adfs_fields r ''OAuthClientCredentialRequests'', []),
      (''oAuthClientPrivateKeyJwtAuthenticationFailures'', CounterValue, num adfs_fields r ''OAuthClientPrivateKeyJWTAuthenticationFailures'', []),
      (''oAuthClientPrivateKeyJwtAuthentications'', CounterValue, num adfs_fields r ''OAuthClientPrivateKeyJWTAuthentications'', []),
      (''oAuthClientSecretBasicAuthenticationFailures'', CounterValue, num adfs_fields r ''OAuthClientBasicAuthenticationFailures'', []),
      (''oAuthClientSecretBasicAuthentications'', CounterValue, num adfs_fields r ''OAuthClientBasicAuthentications'', []),
      (''oAuthClientSecretPostAuthenticationFailures'', CounterValue, num adfs_fields r ''OAuthClientSecretPostAuthenticationFailures'', []),
      (''oAuthClientSecretPostAuthentications'', CounterValue, num adfs_fields r ''OAuthClientSecretPostAuthentications'', []),
      (''oAuthClientWindowsIntegratedAuthenticationFailures'', CounterValue, num adfs_fields r ''OAuthClientWindowsAuthenticationFailures'', []),
      (''oAuthClientWindowsIntegratedAuthentications'', CounterValue, num adfs_fields r ''OAuthClientWindowsAuthentications'', []),
      (''oAuthLogonCertificateRequestFailures'', CounterValue, num adfs_fields r ''OAuthLogonCertRequestFailures'', []),
      (''oAuthLogonCertificateTokenRequests'', CounterValue, num adfs_fields r ''OAuthLogonCertTokenRequests'', []),
      (''oAuthPasswordGrantRequestFailures'', CounterValue, num adfs_fields r ''OAuthPasswordGrantRequestFailures'', []),
      (''oAuthPasswordGrantRequests'', CounterValue, num adfs_fields r ''OAuthPasswordGrantRequests'', []),
      (''oAuthTokenRequests'', CounterValue, num adfs_fields r ''OAuthTokenRequests'', []),
      (''samlPTokenRequests'', CounterValue, num adfs_fields r ''SamlPTokenRequests'', []),
      (''ssoAuthenticationFailures'', CounterValue, num adfs_fields r ''SsoAuthenticationFailures'', []),
      (''ssoAuthentications'', CounterValue, num adfs_fields r ''SsoAuthentications'', []),
      (''wsFedTokenRequests'', CounterValue, num adfs_fields r ''WsFedTokenRequests'', []),
      (''wsTrustTokenRequests'', CounterValue, num adfs_fields r ''WsTrustTokenRequests'', []),
      (''upAuthenticationFailures'', CounterValue, num adfs_fields r ''UsernamePasswordAuthenticationFailures'', []),
      (''upAuthentications'', CounterValue, num adfs_fields r ''UsernamePasswordAuthentications'', []),
      (''externalAuthenticationFailures'', CounterValue, num adfs_fields r ''ExternalAuthNFailures'', []),
      (''externalAuthentications'', CounterValue, num adfs_fields r ''ExternalAuthentications'', []),
      (''artifactDBFailures'', CounterValue, num adfs_fields r ''ArtifactDBFailures'', []),
      (''avgArtifactDBQueryTime'', CounterValue, f64_mul (num adfs_fields r ''AvgArtifactDBQueryTime'') pow10minus8, []),
      (''configDBFailures'', CounterValue, num adfs_fields r ''ConfigDBFailures'', []),
      (''avgConfigDBQueryTime'', CounterValue, f64_mul (num adfs_fields r ''AvgConfigDBQueryTime'') pow10minus8, []),
      (''federationMetadataRequests'', CounterValue, num adfs_fields r ''FederationMetadataRequests'', [])]"

definition adfs_build :: "'w pdh_api \<Rightarrow> u16 \<Rightarrow> 'w \<Rightarrow> (go_error option \<times> perfSource \<times> 'w) option" where
  "adfs_build api osBuild = perfBuild api osBuild ''failed to create AD FS collector: %w'' ''AD FS'' [] adfs_fields"

definition adfs_collect :: "'w pdh_api \<Rightarrow> perfSource \<Rightarrow> 'w \<Rightarrow> (perfSource, 'w) collected" where
  "adfs_collect api = collectWith api adfs_fields ''failed to collect ADFS metrics: %w'' adfs_descs (firstRow ''failed to collect ADFS metrics: %w'' adfs_lines)"

section \<open>adcs\<close>

definition adcs_fields :: "structField list" where
  "adcs_fields =
     [nameField,
      perfField ''ChallengeResponseProcessingTime'' ''Challenge Response processing time (ms)'',
      perfField ''ChallengeResponsesPerSecond'' ''Challenge Responses/sec'',
      perfField ''FailedRequestsPerSecond'' ''Failed Requests/sec'',
      perfField ''IssuedRequestsPerSecond'' ''Issued Requests/sec'',
      perfField ''PendingRequestsPerSecond'' ''Pending Requests/sec'',
      perfField ''RequestCryptographicSigningTime'' ''Request cryptographic signing time (ms)'',
      perfField ''RequestPolicyModuleProcessingTime'' ''Request policy module processing time (ms)'',
      perfField ''RequestProcessingTime'' ''Request processing time (ms)'',
      perfField ''RequestsPerSecond'' ''Requests/sec'',
      perfField ''RetrievalProcessingTime'' ''Retrieval processing time (ms)'',
      perfField ''RetrievalsPerSecond'' ''Retrievals/sec'',
      perfField ''SignedCertificateTimestampListProcessingTime'' ''Signed Certificate Timestamp List processing time (ms)'',
      perfField ''SignedCertificateTimestampListsPerSecond'' ''Signed Certificate Timestamp Lists/sec'']"

definition adcs_descs :: descTable where
  "adcs_descs =
     [(''requestsPerSecond'', NewDesc (BuildFQName Namespace ''adcs'' ''requests_total'')
        ''Total certificate requests processed'' [''cert_template'']),
      (''requestProcessingTime'', NewDesc (BuildFQName Namespace ''adcs'' ''request_processing_time_seconds'')
        ''Last time elapsed for certificate requests'' [''cert_template'']),
      (''retrievalsPerSecond'', NewDesc (BuildFQName Namespace ''adcs'' ''retrievals_total'')
        ''Total certificate retrieval requests processed'' [''cert_template'']),
      (''retrievalProcessingTime'', NewDesc (BuildFQName Namespace ''adcs'' ''retrievals_processing_time_seconds'')
        ''Last time elapsed for certificate retrieval request'' [''cert_template'']),
      (''failedRequestsPerSecond'', NewDesc (BuildFQName Namespace ''adcs'' ''failed_requests_total'')
        ''Total failed certificate requests processed'' [''cert_template'']),
      (''issuedRequestsPerSecond'', NewDesc (BuildFQName Namespace ''adcs'' ''issued_requests_total'')
        ''Total issued certificate requests processed'' [''cert_template'']),
      (''pendingRequestsPerSecond'', NewDesc (BuildFQName Namespace ''adcs'' ''pending_requests_total'')
        ''Total pending certificate requests processed'' [''cert_template'']),
      (''requestCryptographicSigningTime'', NewDesc (BuildFQName Namespace ''adcs'' ''request_cryptographic_signing_time_seconds'')
        ''Last time elapsed for signing operation request'' [''cert_template'']),
      (''requestPolicyModuleProcessingTime'', NewDesc (BuildFQName Namespace ''adcs'' ''request_policy_module_processing_time_seconds'')
        ''Last time elapsed for policy module processing request'' [''cert_template'']),
      (''challengeResponsesPerSecond'', NewDesc (BuildFQName Namespace ''adcs'' ''challenge_responses_total'')
        ''Total certificate challenge responses processed'' [''cert_template'']),
      (''challengeResponseProcessingTime'', NewDesc (BuildFQName Namespace ''adcs'' ''challenge_response_processing_time_seconds'')
        ''Last time elapsed for challenge response'' [''cert_template'']),
      (''signedCertificateTimestampListsPerSecond'', NewDesc (BuildFQName Namespace ''adcs'' ''signed_certificate_timestamp_lists_total'')
        ''Total Signed Certificate Timestamp Lists processed'' [''cert_template'']),
      (''signedCertificateTimestampListProcessingTime'', NewDesc (BuildFQName Namespace ''adcs'' ''signed_certificate_timestamp_list_processing_time_seconds'')
        ''Last time elapsed for Signed Certificate Timestamp List'' [''cert_template''])]"

definition adcs_lines :: "row \<Rightarrow> line list" where
  "adcs_lines r =
     [(''requestsPerSecond'', CounterValue, num adcs_fields r ''RequestsPerSecond'', [rowName adcs_fields r]),
      (''requestProcessingTime'', GaugeValue, MilliSecToSec (num adcs_fields r ''RequestProcessingTime''), [rowName adcs_fields r]),
      (''retrievalsPerSecond'', CounterValue, num adcs_fields r ''RetrievalsPerSecond'', [rowName adcs_fields r]),
      (''retrievalProcessingTime'', GaugeValue, MilliSecToSec (num adcs_fields r ''RetrievalProcessingTime''), [rowName adcs_fields r]),
      (''failedRequestsPerSecond'', CounterValue, num adcs_fields r ''FailedRequestsPerSecond'', [rowName adcs_fields r]),
      (''issuedRequestsPerSecond'', CounterValue, num adcs_fields r ''IssuedRequestsPerSecond'', [rowName adcs_fields r]),
      (''pendingRequestsPerSecond'', CounterValue, num adcs_fields r ''PendingRequestsPerSecond'', [rowName adcs_fields r]),
      (''requestCryptographicSigningTime'', GaugeValue, MilliSecToSec (num adcs_fields r ''RequestCryptographicSigningTime''), [rowName adcs_fields r]),
      (''requestPolicyModuleProcessingTime'', GaugeValue, MilliSecToSec (num adcs_fields r ''RequestPolicyModuleProcessingTime''), [rowName adcs_fields r]),
      (''challengeResponsesPerSecond'', CounterValue, num adcs_fields r ''ChallengeResponsesPerSecond'', [rowName adcs_fields r]),
      (''challengeResponseProcessingTime'', GaugeValue, MilliSecToSec (num adcs_fields r ''ChallengeResponseProcessingTime''), [rowName adcs_fields r]),
      (''signedCertificateTimestampListsPerSecond'', CounterValue, num adcs_fields r ''SignedCertificateTimestampListsPerSecond'', [rowName adcs_fields r]),
      (''signedCertificateTimestampListProcessingTime'', GaugeValue, MilliSecToSec (num adcs_fields r ''SignedCertificateTimestampListProcessingTime''), [rowName adcs_fields r])]"

definition adcs_build :: "'w pdh_api \<Rightarrow> u16 \<Rightarrow> 'w \<Rightarrow> (go_error option \<times> perfSource \<times> 'w) option" where
  "adcs_build api osBuild = perfBuild api osBuild ''failed to create Certification Authority collector: %w'' ''Certification Authority'' [''*''] adcs_fields"

definition adcs_collect :: "'w pdh_api \<Rightarrow> perfSource \<Rightarrow> 'w \<Rightarrow> (perfSource, 'w) collected" where
  "adcs_collect api = collectWith api adcs_fields ''failed to collect Certification Authority (ADCS) metrics: %w'' adcs_descs (eachRow (\<lambda>r. True) adcs_lines)"

section \<open>dns\<close>

definition dns_fields :: "structField list" where
  "dns_fields =
     [perfField ''_'' ''% User Time'',
      perfField ''_'' ''176'',
      perfField ''_'' ''Async Fast Reads/sec'',
      perfField ''AxfrRequestReceived'' ''AXFR Request Received'',
      perfField ''AxfrRequestSent'' ''AXFR Request Sent'',
      perfField ''AxfrResponseReceived'' ''AXFR Response Received'',
      perfField ''AxfrSuccessReceived'' ''AXFR Success Received'',
      perfField ''AxfrSuccessSent'' ''AXFR Success Sent'',
      perfField ''CachingMemory'' ''Caching Memory'',
      perfField ''_'' ''Data Flush Pages/sec'',
      perfField ''_'' ''Data Flushes/sec'',
      perfField ''DatabaseNodeMemory'' ''Database Node Memory'',
      perfField ''DynamicUpdateNoOperation'' ''Dynamic Update NoOperation'',
      perfField ''_'' ''Dynamic Update NoOperation/sec'',
      perfField ''DynamicUpdateQueued'' ''Dynamic Update Queued'',
      perfField ''_'' ''Dynamic Update Received'',
      perfField ''_'' ''Dynamic Update Received/sec'',
      perfField ''DynamicUpdateRejected'' ''Dynamic Update Rejected'',
      perfField ''DynamicUpdateTimeOuts'' ''Dynamic Update TimeOuts'',
      perfField ''DynamicUpdateWrittenToDatabase'' ''Dynamic Update Written to Database'',
      perfField ''_'' ''Dynamic Update Written to Database/sec'',
      perfField ''_'' ''Enumerations Server/sec'',
      perfField ''_'' ''Fast Read Not Possibles/sec'',
      perfField ''_'' ''Fast Read Resource Misses/sec'',
      perfField ''IxfrRequestReceived'' ''IXFR Request Received'',
      perfField ''IxfrRequestSent'' ''IXFR Request Sent'',
      perfField ''IxfrResponseReceived'' ''IXFR Response Received'',
      perfField ''_'' ''IXFR Success Received'',
      perfField ''IxfrSuccessSent'' ''IXFR Success Sent'',
      perfField ''IxfrTCPSuccessReceived'' ''IXFR TCP Success Received'',
      perfField ''IxfrUDPSuccessReceived'' ''IXFR UDP Success Received'',
      perfField ''_'' ''Lazy Write Flushes/sec'',
      perfField ''_'' ''Lazy Write Pages/sec'',
      perfField ''_'' ''Level 2 TLB Fills/sec'',
      perfField ''NbStatMemory'' ''Nbstat Memory'',
      perfField ''NotifyReceived'' ''Notify Received'',
      perfField ''NotifySent'' ''Notify Sent'',
      perfField ''_'' ''Query Dropped Bad Socket'',
      perfField ''_'' ''Query Dropped Bad Socket/sec'',
      perfField ''_'' ''Query Dropped By Policy'',
      perfField ''_'' ''Query Dropped By Policy/sec'',
      perfField ''_'' ''Query Dropped By Response Rate Limiting'',
      perfField ''_'' ''Query Dropped By Response Rate Limiting/sec'',
      perfField ''_'' ''Query Dropped Send'',
      perfField ''_'' ''Query Dropped Send/sec'',
      perfField ''_'' ''Query Dropped Total'',
      perfField ''_'' ''Query Dropped Total/sec'',
      perfField ''RecordFlowMemory'' ''Record Flow Memory'',
      perfField ''RecursiveQueries'' ''Recursive Queries'',
      perfField ''_'' ''Recursive Queries/sec'',
      perfField ''RecursiveQueryFailure'' ''Recursive Query Failure'',
      perfField ''_'' ''Recursive Query Failure/sec'',
      perfField ''_'' ''Recursive Send TimeOuts'',
      perfField ''RecursiveSendTimeOuts'' ''Recursive TimeOut/sec'',
      perfField ''_'' ''Responses Suppressed'',
      perfField ''_'' ''Responses Suppressed/sec'',
      perfField ''SecureUpdateFailure'' ''Secure Update Failure'',
      perfField ''SecureUpdateReceived'' ''Secure Update Received'',
      perfField ''_'' ''Secure Update Received/sec'',
      perfField ''TcpMessageMemory'' ''TCP Message Memory'',
      perfField ''TcpQueryReceived'' ''TCP Query Received'',
      perfField ''_'' ''TCP Query Received/sec'',
      perfField ''TcpResponseSent'' ''TCP Response Sent'',
      perfField ''_'' ''TCP Response Sent/sec'',
      perfField ''_'' ''Total Query Received'',
      perfField ''_'' ''Total Query Received/sec'',
      perfField ''_'' ''Total Remote Inflight Queries'',
      perfField ''_'' ''Total Response Sent'',
      perfField ''_'' ''Total Response Sent/sec'',
      perfField ''UdpMessageMemory'' ''UDP Message Memory'',
      perfField ''UdpQueryReceived'' ''UDP Query Received'',
      perfField ''_'' ''UDP Query Received/sec'',
      perfField ''UdpResponseSent'' ''UDP Response Sent'',
      perfField ''_'' ''UDP Response Sent/sec'',
      perfField ''UnmatchedResponsesReceived'' ''Unmatched Responses Received'',
      perfField ''_'' ''Virtual Bytes'',
      perfField ''WinsLookupReceived'' ''WINS Lookup Received'',
      perfField ''_'' ''WINS Lookup Received/sec'',
      perfField ''WinsResponseSent'' ''WINS Response Sent'',
      perfField ''_'' ''WINS Response Sent/sec'',
      perfField ''WinsReverseLookupReceived'' ''WINS Reverse Lookup Received'',
      perfField ''_'' ''WINS Reverse Lookup Received/sec'',
      perfField ''WinsReverseResponseSent'' ''WINS Reverse Response Sent'',
      perfField ''_'' ''WINS Reverse Response Sent/sec'',
      perfField ''ZoneTransferFailure'' ''Zone Transfer Failure'',
      perfField ''ZoneTransferSOARequestSent'' ''Zone Transfer Request Received'',
      perfField ''_'' ''Zone Transfer SOA Request Sent'',
      perfField ''_'' ''Zone Transfer Success'']"

definition dns_descs :: descTable where
  "dns_descs =
     [(''zoneTransferRequestsReceived'', NewDesc (BuildFQName Namespace ''dns'' ''zone_transfer_requests_received_total'')
        ''Number of zone transfer requests (AXFR/IXFR) received by the master DNS server'' [''qtype'']),
      (''zoneTransferRequestsSent'', NewDesc (BuildFQName Namespace ''dns'' ''zone_transfer_requests_sent_total'')
        ''Number of zone transfer requests (AXFR/IXFR) sent by the secondary DNS server'' [''qtype'']),
      (''zoneTransferResponsesReceived'', NewDesc (BuildFQName Namespace ''dns'' ''zone_transfer_response_received_total'')
        ''Number of zone transfer responses (AXFR/IXFR) received by the secondary DNS server'' [''qtype'']),
      (''zoneTransferSuccessReceived'', NewDesc (BuildFQName Namespace ''dns'' ''zone_transfer_success_received_total'')
        ''Number of successful zone transfers (AXFR/IXFR) received by the secondary DNS server'' [''qtype'', ''protocol'']),
      (''zoneTransferSuccessSent'', NewDesc (BuildFQName Namespace ''dns'' ''zone_transfer_success_sent_total'')
        ''Number of successful zone transfers (AXFR/IXFR) of the master DNS server'' [''qtype'']),
      (''zoneTransferFailures'', NewDesc (BuildFQName Namespace ''dns'' ''zone_transfer_failures_total'')
        ''Number of failed zone transfers of the master DNS server'' []),
      (''memoryUsedBytes'', NewDesc (BuildFQName Namespace ''dns'' ''memory_used_bytes'')
        ''Current memory used by DNS server'' [''area'']),
      (''dynamicUpdatesQueued'', NewDesc (BuildFQName Namespace ''dns'' ''dynamic_updates_queued'')
        ''Number of dynamic updates queued by the DNS server'' []),
      (''dynamicUpdatesReceived'', NewDesc (BuildFQName Namespace ''dns'' ''dynamic_updates_received_total'')
        ''Number of secure update requests received by the DNS server'' [''operation'']),
      (''dynamicUpdatesFailures'', NewDesc (BuildFQName Namespace ''dns'' ''dynamic_updates_failures_total'')
        ''Number of dynamic updates which timed out or were rejected by the DNS server'' [''reason'']),
      (''notifyReceived'', NewDesc (BuildFQName Namespace ''dns'' ''notify_received_total'')
        ''Number of notifies received by the secondary DNS server'' []),
      (''notifySent'', NewDesc (BuildFQName Namespace ''dns'' ''notify_sent_total'')
        ''Number of notifies sent by the master DNS server'' []),
      (''secureUpdateFailures'', NewDesc (BuildFQName Namespace ''dns'' ''secure_update_failures_total'')
        ''Number of secure updates that failed on the DNS server'' []),
      (''secureUpdateReceived'', NewDesc (BuildFQName Namespace ''dns'' ''secure_update_received_total'')
        ''Number of secure update requests received by the DNS server'' []),
      (''queries'', NewDesc (BuildFQName Namespace ''dns'' ''queries_total'')
        ''Number of queries received by DNS server'' [''protocol'']),
      (''responses'', NewDesc (BuildFQName Namespace ''dns'' ''responses_total'')
        ''Number of responses sent by DNS server'' [''protocol'']),
      (''recursiveQueries'', NewDesc (BuildFQName Namespace ''dns'' ''recursive_queries_total'')
        ''Number of recursive queries received by DNS server'' []),
      (''recursiveQueryFailures'', NewDesc (BuildFQName Namespace ''dns'' ''recursive_query_failures_total'')
        ''Number of recursive query failures'' []),
      (''recursiveQuerySendTimeouts'', NewDesc (BuildFQName Namespace ''dns'' ''recursive_query_send_timeouts_total'')
        ''Number of recursive query sending timeouts'' []),
      (''winsQueries'', NewDesc (BuildFQName Namespace ''dns'' ''wins_queries_total'')
        ''Number of WINS lookup requests received by the server'' [''direction'']),
      (''winsResponses'', NewDesc (BuildFQName Namespace ''dns'' ''wins_responses_total'')
        ''Number of WINS lookup responses sent by the server'' [''direction'']),
      (''unmatchedResponsesReceived'', NewDesc (BuildFQName Namespace ''dns'' ''unmatched_responses_total'')
        ''Number of response packets received by the DNS server that do not match any outstanding remote query'' []),
      (''dnsWMIStats'', NewDesc (BuildFQName Namespace ''dns'' ''wmi_stats_total'')
        ''DNS WMI statistics from MicrosoftDNS_Statistic'' [''name'', ''collection_name'', ''dns_server''])]"

definition dns_lines :: "row \<Rightarrow> line list" where
  "dns_lines r =
     [(''zoneTransferRequestsReceived'', CounterValue, num dns_fields r ''AxfrRequestReceived'', [''full'']),
      (''zoneTransferRequestsReceived'', CounterValue, num dns_fields r ''IxfrRequestReceived'', [''incremental'']),
      (''zoneTransferRequestsSent'', CounterValue, num dns_fields r ''AxfrRequestSent'', [''full'']),
      (''zoneTransferRequestsSent'', CounterValue, num dns_fields r ''IxfrRequestSent'', [''incremental'']),
      (''zoneTransferRequestsSent'', CounterValue, num dns_fields r ''ZoneTransferSOARequestSent'', [''soa'']),
      (''zoneTransferResponsesReceived'', CounterValue, num dns_fields r ''AxfrResponseReceived'', [''full'']),
      (''zoneTransferResponsesReceived'', CounterValue, num dns_fields r ''IxfrResponseReceived'', [''incremental'']),
      (''zoneTransferSuccessReceived'', CounterValue, num dns_fields r ''AxfrSuccessReceived'', [''full'', ''tcp'']),
      (''zoneTransferSuccessReceived'', CounterValue, num dns_fields r ''IxfrTCPSuccessReceived'', [''incremental'', ''tcp'']),
      (''zoneTransferSuccessReceived'', CounterValue, num dns_fields r ''IxfrTCPSuccessReceived'', [''incremental'', ''udp'']),
      (''zoneTransferSuccessSent'', CounterValue, num dns_fields r ''AxfrSuccessSent'', [''full'']),
      (''zoneTransferSuccessSent'', CounterValue, num dns_fields r ''IxfrSuccessSent'', [''incremental'']),
      (''zoneTransferFailures'', CounterValue, num dns_fields r ''ZoneTransferFailure'', []),
      (''memoryUsedBytes'', GaugeValue, num dns_fields r ''CachingMemory'', [''caching'']),
      (''memoryUsedBytes'', GaugeValue, num dns_fields r ''DatabaseNodeMemory'', [''database_node'']),
      (''memoryUsedBytes'', GaugeValue, num dns_fields r ''NbStatMemory'', [''nbstat'']),
      (''memoryUsedBytes'', GaugeValue, num dns_fields r ''RecordFlowMemory'', [''record_flow'']),
      (''memoryUsedBytes'', GaugeValue, num dns_fields r ''TcpMessageMemory'', [''tcp_message'']),
      (''memoryUsedBytes'', GaugeValue, num dns_fields r ''UdpMessageMemory'', [''udp_message'']),
      (''dynamicUpdatesReceived'', CounterValue, num dns_fields r ''DynamicUpdateNoOperation'', [''noop'']),
      (''dynamicUpdatesReceived'', CounterValue, num dns_fields r ''DynamicUpdateWrittenToDatabase'', [''written'']),
      (''dynamicUpdatesQueued'', GaugeValue, num dns_fields r ''DynamicUpdateQueued'', []),
      (''dynamicUpdatesFailures'', CounterValue, num dns_fields r ''DynamicUpdateRejected'', [''rejected'']),
      (''dynamicUpdatesFailures'', CounterValue, num dns_fields r ''DynamicUpdateTimeOuts'', [''timeout'']),
      (''notifyReceived'', CounterValue, num dns_fields r ''NotifyReceived'', []),
      (''notifySent'', CounterValue, num dns_fields r ''NotifySent'', []),
      (''recursiveQueries'', CounterValue, num dns_fields r ''RecursiveQueries'', []),
      (''recursiveQueryFailures'', CounterValue, num dns_fields r ''RecursiveQueryFailure'', []),
      (''recursiveQuerySendTimeouts'', CounterValue, num dns_fields r ''RecursiveSendTimeOuts'', []),
      (''queries'', CounterValue, num dns_fields r ''TcpQueryReceived'', [''tcp'']),
      (''queries'', CounterValue, num dns_fields r ''UdpQueryReceived'', [''udp'']),
      (''responses'', CounterValue, num dns_fields r ''TcpResponseSent'', [''tcp'']),
      (''responses'', CounterValue, num dns_fields r ''UdpResponseSent'', [''udp'']),
      (''unmatchedResponsesReceived'', CounterValue, num dns_fields r ''UnmatchedResponsesReceived'', []),
      (''winsQueries'', CounterValue, num dns_fields r ''WinsLookupReceived'', [''forward'']),
      (''winsQueries'', CounterValue, num dns_fields r ''WinsReverseLookupReceived'', [''reverse'']),
      (''winsResponses'', CounterValue, num dns_fields r ''WinsResponseSent'', [''forward'']),
      (''winsResponses'', CounterValue, num dns_fields r ''WinsReverseResponseSent'', [''reverse'']),
      (''secureUpdateFailures'', CounterValue, num dns_fields r ''SecureUpdateFailure'', []),
      (''secureUpdateReceived'', CounterValue, num dns_fields r ''SecureUpdateReceived'', [])]"

definition dns_build :: "'w pdh_api \<Rightarrow> u16 \<Rightarrow> 'w \<Rightarrow> (go_error option \<times> perfSource \<times> 'w) option" where
  "dns_build api osBuild = perfBuild api osBuild ''failed to create DNS collector: %w'' ''DNS'' [''*''] dns_fields"

definition dns_collect :: "'w pdh_api \<Rightarrow> perfSource \<Rightarrow> 'w \<Rightarrow> (perfSource, 'w) collected" where
  "dns_collect api = collectWith api dns_fields ''failed to collect DNS metrics: %w'' dns_descs (firstRow ''failed to collect DNS metrics: %w'' dns_lines)"

text \<open>The DNS collector: a part for the counters and one for the statistics that WMI has.\<close>

record Statistic =
  statName :: string
  CollectionName :: string
  statValue :: u64
  DnsServerName :: string

text \<open>
  The state: the descriptors that \<open>Build\<close> made, and the PDH collector. All descriptors, that of the WMI statistics too, are made by the build of
  the counters.
\<close>

record dnsCollector =
  dnsEnabled :: "string list"
  dnsMade :: descTable
  dnsSource :: perfSource

definition dns_subCollectors :: "string list" where
  "dns_subCollectors = [''metrics'', ''wmi_stats'']"

text \<open>\<open>newQuery\<close> is the error of \<open>mi.NewQuery\<close>, if there is one.\<close>

definition buildErrorStatsCollector :: "bool \<Rightarrow> go_error option \<Rightarrow> go_error option" where
  "buildErrorStatsCollector haveSession newQuery =
     (if \<not> haveSession then Some (ErrorText ''miSession is nil'' [])
      else map_option (Wrapf ''failed to create query: %w'' []) newQuery)"

definition dns_Build ::
  "'w pdh_api \<Rightarrow> u16 \<Rightarrow> string list \<Rightarrow> bool \<Rightarrow> go_error option \<Rightarrow> 'w \<Rightarrow> (go_error option \<times> dnsCollector \<times> 'w) option" where
  "dns_Build api osBuild enabled haveSession newQuery w =
     (let fresh = \<lparr>dnsEnabled = enabled, dnsMade = [], dnsSource = noSource\<rparr> in
      case find (\<lambda>s. s \<notin> set dns_subCollectors) enabled of
        Some s \<Rightarrow> Some (Some (ErrorText ''unknown sub collector: %s. Possible values: %s'' [s, Join dns_subCollectors '', '']), fresh, w)
      | None \<Rightarrow>
          (case (if ''metrics'' \<in> set enabled
                 then map_option (\<lambda>(err, src, w'). (err, fresh\<lparr>dnsMade := dns_descs, dnsSource := src\<rparr>, w')) (dns_build api osBuild w)
                 else Some (None, fresh, w)) of
             None \<Rightarrow> None
           | Some (Some e, c, w1) \<Rightarrow> Some (Some e, c, w1)
           | Some (None, c, w1) \<Rightarrow>
               Some (if ''wmi_stats'' \<in> set enabled then buildErrorStatsCollector haveSession newQuery else None, c, w1)))"

definition dns_stat_line :: "Statistic \<Rightarrow> line" where
  "dns_stat_line s = (''dnsWMIStats'', CounterValue, f64_of_int (uint (statValue s)), [statName s, CollectionName s, DnsServerName s])"

text \<open>\<open>query\<close> is the query of the MI session, \<^term>\<open>None\<close> if it panics.\<close>

definition collectErrorStats ::
  "('w \<Rightarrow> ((go_error + Statistic list) \<times> 'w) option) \<Rightarrow> dnsCollector \<Rightarrow> 'w \<Rightarrow> (dnsCollector, 'w) collected" where
  "collectErrorStats query c w =
     (case query w of
        None \<Rightarrow> None
      | Some (Inl e, w') \<Rightarrow> Some (Some (Wrapf ''failed to query DNS statistics: %w'' [] e), [], c, w')
      | Some (Inr stats, w') \<Rightarrow>
          (case sendAll (dnsMade c) (map dns_stat_line stats) of None \<Rightarrow> None | Some ms \<Rightarrow> Some (None, ms, c, w')))"

definition dns_Collect ::
  "'w pdh_api \<Rightarrow> ('w \<Rightarrow> ((go_error + Statistic list) \<times> 'w) option) \<Rightarrow> dnsCollector \<Rightarrow> 'w \<Rightarrow> (dnsCollector, 'w) collected" where
  "dns_Collect api query c w =
     (case (if ''metrics'' \<in> set (dnsEnabled c)
            then map_option (\<lambda>(err, ms, src, w'). (err, ms, c\<lparr>dnsSource := src\<rparr>, w')) (dns_collect api (dnsSource c) w)
            else Some (None, [], c, w)) of
        None \<Rightarrow> None
      | Some (e1, ms1, c1, w1) \<Rightarrow>
          (case (if ''wmi_stats'' \<in> set (dnsEnabled c) then collectErrorStats query c1 w1 else Some (None, [], c1, w1)) of
             None \<Rightarrow> None
           | Some (e2, ms2, c2, w2) \<Rightarrow>
               Some (errors_Join (non_nil [map_option (Wrapf ''failed collecting metrics: %w'' []) e1,
                                           map_option (Wrapf ''failed collecting WMI statistics: %w'' []) e2]),
                     ms1 @ ms2, c2, w2)))"

section \<open>The tables\<close>

lemma ad_names: "distinct (map (\<lambda>(n, d). fqName d) ad_descs)"
  by (rule distinct_nameCodes; unfold ad_descs_def) (simp only: name_code_simps)

lemma ad_table: "table_ok ad_descs (ad_lines other r)"
  by (rule table_ok_codes; unfold ad_lines_def ad_descs_def) (simp only: table_code_simps)+

interpretation ad: first_row_collector ad_descs "ad_lines other"
  by unfold_locales (rule ad_names ad_table)+

lemma adfs_names: "distinct (map (\<lambda>(n, d). fqName d) adfs_descs)" by code_simp

lemma adfs_table: "table_ok adfs_descs (adfs_lines r)"
  by (rule table_ok_names; unfold adfs_lines_def line_simps) code_simp+

interpretation adfs: first_row_collector adfs_descs adfs_lines
  by unfold_locales (rule adfs_names adfs_table)+

lemma adcs_names: "distinct (map (\<lambda>(n, d). fqName d) adcs_descs)" by code_simp

lemma adcs_table: "table_ok adcs_descs (adcs_lines r)"
  by (rule table_ok_names; unfold adcs_lines_def line_simps) code_simp+

interpretation adcs: each_row_collector adcs_descs adcs_lines adcs_fields "\<lambda>n. 0"
  by unfold_locales (auto simp: adcs_names adcs_table, simp add: adcs_lines_def, simp add: adcs_fields_def nameField_def)

lemma dns_names: "distinct (map (\<lambda>(n, d). fqName d) dns_descs)" by code_simp

lemma dns_table: "table_ok dns_descs (dns_lines r)"
  by (rule table_ok_rests [of _ _ 0]; unfold dns_lines_def line_simps rest_simps) code_simp+

interpretation dns: first_row_collector dns_descs dns_lines
  by unfold_locales (rule dns_names dns_table)+

section \<open>What is accepted\<close>

text \<open>Every scrape of the directory collectors after a successful build is accepted by the library.\<close>

theorem ad_always_accepted:
  "reachable (ad_build api osBuild) (ad_collect other api) \<subseteq> {c. \<forall>w. scrape_ok (perfCollect api ad_fields c w = None) (ad_collect other api c w)}"
proof -
  have "ad_build api osBuild = perfBuild api osBuild ''failed to create DirectoryServices collector: %w'' ''DirectoryServices'' [''*''] ad_fields"
    by (simp add: ad_build_def)
  then show ?thesis unfolding ad_collect_def by (simp only: perf_contract.reachable_ok [OF ad.first_row_contract])
qed

theorem adfs_always_accepted:
  "reachable (adfs_build api osBuild) (adfs_collect api) \<subseteq> {c. \<forall>w. scrape_ok (perfCollect api adfs_fields c w = None) (adfs_collect api c w)}"
  unfolding adfs_build_def adfs_collect_def by (rule perf_contract.reachable_ok [OF adfs.first_row_contract])

theorem adcs_always_accepted:
  "reachable (adcs_build api osBuild) (adcs_collect api) \<subseteq> {c. \<forall>w. scrape_ok (perfCollect api adcs_fields c w = None) (adcs_collect api c w)}"
  unfolding adcs_build_def adcs_collect_def by (rule adcs.always_accepted)

text \<open>
  C35: With the WMI statistics enabled and the counters not, a successful build of the DNS collector leaves the descriptor of the statistics nil, and every
  scrape that finds a statistic panics.
\<close>

theorem dns_wmi_stats_panics:
  "case dns_Build api osBuild [''wmi_stats''] haveSession newQuery w of
     Some (None, c, w1) \<Rightarrow> dns_Collect api (\<lambda>w. Some (Inr (stat # stats), w)) c w2 = None
   | _ \<Rightarrow> True"
proof -
  have "sendAll [] (map dns_stat_line (stat # stats)) = None"
    by (simp add: sendAll_def MustNewConstMetric_def dns_stat_line_def)
  then show ?thesis
    by (simp add: dns_Build_def dns_Collect_def dns_subCollectors_def collectErrorStats_def split: option.splits)
qed

text \<open>With both, the descriptor is there and the metrics have the right number of labels.\<close>

theorem dns_wmi_stats_sent:
  "case dns_Build api osBuild [''metrics'', ''wmi_stats''] haveSession newQuery w of
     Some (None, c, w1) \<Rightarrow>
       (case collectErrorStats (\<lambda>w. Some (Inr stats, w)) c w2 of
          Some (err, ms, c', w3) \<Rightarrow> err = None \<and> list_all arity_ok ms \<and> map label_values ms = map (\<lambda>s. [statName s, CollectionName s, DnsServerName s]) stats
        | None \<Rightarrow> False)
   | _ \<Rightarrow> True"
proof -
  let ?d = "NewDesc (BuildFQName Namespace ''dns'' ''wmi_stats_total'') ''DNS WMI statistics from MicrosoftDNS_Statistic'' [''name'', ''collection_name'', ''dns_server'']"
  have d: "map_of dns_descs ''dnsWMIStats'' = Some ?d" by (simp add: dns_descs_def)
  have sent: "sendAll dns_descs (map dns_stat_line stats) =
      Some (map (\<lambda>s. ConstMetric ?d CounterValue (f64_of_int (uint (statValue s))) [statName s, CollectionName s, DnsServerName s]) stats)"
    unfolding sendAll_def by (induction stats) (simp_all add: MustNewConstMetric_def dns_stat_line_def d)
  show ?thesis
    by (auto simp: dns_Build_def dns_subCollectors_def collectErrorStats_def sent list_all_iff arity_ok_def comp_def split: option.splits)
qed

end
