(* ===== verification/Perf_Hosts.thy ===== *)
theory Perf_Hosts
  imports Perf_Subs Utils
begin

text \<open>
  Smaller collectors of performance counters: thermal zones, message queues, SMB shares of the server and of the client, network policy
  server, VMware guests, DFS replication and RemoteFX (internal/collector/thermalzone, msmq, smb, smbclient, nps, vmware, dfsr and remote\_fx). The last three put two or
  three parts together.
\<close>

section \<open>thermalzone\<close>

definition thermalzone_fields :: "structField list" where
  "thermalzone_fields =
     [nameField,
      perfField ''HighPrecisionTemperature'' ''High Precision Temperature'',
      perfField ''PercentPassiveLimit'' ''% Passive Limit'',
      perfField ''ThrottleReasons'' ''Throttle Reasons'']"

definition thermalzone_descs :: descTable where
  "thermalzone_descs =
     [(''temperature'', NewDesc (BuildFQName Namespace ''thermalzone'' ''temperature_celsius'')
        ''(Temperature)'' [''name'']),
      (''percentPassiveLimit'', NewDesc (BuildFQName Namespace ''thermalzone'' ''percent_passive_limit'')
        ''(PercentPassiveLimit)'' [''name'']),
      (''throttleReasons'', NewDesc (BuildFQName Namespace ''thermalzone'' ''throttle_reasons'')
        ''(ThrottleReasons)'' [''name''])]"

definition thermalzone_lines :: "row \<Rightarrow> line list" where
  "thermalzone_lines r =
     [(''temperature'', GaugeValue, f64_sub (f64_div (num thermalzone_fields r ''HighPrecisionTemperature'') (F_Fin 10)) (round64 (5463 / 20)), [rowName thermalzone_fields r]),
      (''percentPassiveLimit'', GaugeValue, num thermalzone_fields r ''PercentPassiveLimit'', [rowName thermalzone_fields r]),
      (''throttleReasons'', GaugeValue, num thermalzone_fields r ''ThrottleReasons'', [rowName thermalzone_fields r])]"

definition thermalzone_build :: "'w pdh_api \<Rightarrow> u16 \<Rightarrow> 'w \<Rightarrow> (go_error option \<times> perfSource \<times> 'w) option" where
  "thermalzone_build api osBuild = perfBuild api osBuild ''failed to create Thermal Zone Information collector: %w'' ''Thermal Zone Information'' [''*''] thermalzone_fields"

definition thermalzone_collect :: "'w pdh_api \<Rightarrow> perfSource \<Rightarrow> 'w \<Rightarrow> (perfSource, 'w) collected" where
  "thermalzone_collect api = collectWith api thermalzone_fields ''failed to collect Thermal Zone Information metrics: %w'' thermalzone_descs (eachRow (\<lambda>r. True) thermalzone_lines)"

section \<open>msmq\<close>

definition msmq_fields :: "structField list" where
  "msmq_fields =
     [nameField,
      perfField ''BytesInJournalQueue'' ''Bytes in Journal Queue'',
      perfField ''BytesInQueue'' ''Bytes in Queue'',
      perfField ''MessagesInJournalQueue'' ''Messages in Journal Queue'',
      perfField ''MessagesInQueue'' ''Messages in Queue'']"

definition msmq_descs :: descTable where
  "msmq_descs =
     [(''bytesInJournalQueue'', NewDesc (BuildFQName Namespace ''msmq'' ''bytes_in_journal_queue'')
        ''Size of queue journal in bytes'' [''name'']),
      (''bytesInQueue'', NewDesc (BuildFQName Namespace ''msmq'' ''bytes_in_queue'')
        ''Size of queue in bytes'' [''name'']),
      (''messagesInJournalQueue'', NewDesc (BuildFQName Namespace ''msmq'' ''messages_in_journal_queue'')
        ''Count messages in queue journal'' [''name'']),
      (''messagesInQueue'', NewDesc (BuildFQName Namespace ''msmq'' ''messages_in_queue'')
        ''Count messages in queue'' [''name''])]"

definition msmq_lines :: "row \<Rightarrow> line list" where
  "msmq_lines r =
     [(''bytesInJournalQueue'', GaugeValue, num msmq_fields r ''BytesInJournalQueue'', [rowName msmq_fields r]),
      (''bytesInQueue'', GaugeValue, num msmq_fields r ''BytesInQueue'', [rowName msmq_fields r]),
      (''messagesInJournalQueue'', GaugeValue, num msmq_fields r ''MessagesInJournalQueue'', [rowName msmq_fields r]),
      (''messagesInQueue'', GaugeValue, num msmq_fields r ''MessagesInQueue'', [rowName msmq_fields r])]"

definition msmq_build :: "'w pdh_api \<Rightarrow> u16 \<Rightarrow> 'w \<Rightarrow> (go_error option \<times> perfSource \<times> 'w) option" where
  "msmq_build api osBuild = perfBuild api osBuild ''failed to create MSMQ Queue collector: %w'' ''MSMQ Queue'' [''*''] msmq_fields"

definition msmq_collect :: "'w pdh_api \<Rightarrow> perfSource \<Rightarrow> 'w \<Rightarrow> (perfSource, 'w) collected" where
  "msmq_collect api = collectWith api msmq_fields ''failed to collect MSMQ Queue metrics: %w'' msmq_descs (eachRow (\<lambda>r. True) msmq_lines)"

section \<open>smb\<close>

definition smb_fields :: "structField list" where
  "smb_fields =
     [nameField,
      perfField ''CurrentOpenFileCount'' ''Current Open File Count'',
      perfField ''TreeConnectCount'' ''Tree Connect Count'',
      perfField ''ReceivedBytes'' ''Received Bytes/sec'',
      perfField ''WriteRequests'' ''Write Requests/sec'',
      perfField ''ReadRequests'' ''Read Requests/sec'',
      perfField ''MetadataRequests'' ''Metadata Requests/sec'',
      perfField ''SentBytes'' ''Sent Bytes/sec'',
      perfField ''FilesOpened'' ''Files Opened/sec'']"

definition smb_descs :: descTable where
  "smb_descs =
     [(''currentOpenFileCount'', NewDesc (BuildFQName Namespace ''smb'' ''server_shares_current_open_file_count'')
        ''Current total count open files on the SMB Server Share'' [''share'']),
      (''treeConnectCount'', NewDesc (BuildFQName Namespace ''smb'' ''server_shares_tree_connect_count'')
        ''Count of user connections to the SMB Server Share'' [''share'']),
      (''receivedBytes'', NewDesc (BuildFQName Namespace ''smb'' ''server_shares_received_bytes_total'')
        ''Received bytes on the SMB Server Share'' [''share'']),
      (''writeRequests'', NewDesc (BuildFQName Namespace ''smb'' ''server_shares_write_requests_count_total'')
        ''Writes requests on the SMB Server Share'' [''share'']),
      (''readRequests'', NewDesc (BuildFQName Namespace ''smb'' ''server_shares_read_requests_count_total'')
        ''Read requests on the SMB Server Share'' [''share'']),
      (''metadataRequests'', NewDesc (BuildFQName Namespace ''smb'' ''server_shares_metadata_requests_count_total'')
        ''Metadata requests on the SMB Server Share'' [''share'']),
      (''sentBytes'', NewDesc (BuildFQName Namespace ''smb'' ''server_shares_sent_bytes_total'')
        ''Sent bytes on the SMB Server Share'' [''share'']),
      (''filesOpened'', NewDesc (BuildFQName Namespace ''smb'' ''server_shares_files_opened_count_total'')
        ''Files opened on the SMB Server Share'' [''share''])]"

definition smb_lines :: "row \<Rightarrow> line list" where
  "smb_lines r =
     [(''currentOpenFileCount'', CounterValue, num smb_fields r ''CurrentOpenFileCount'', [rowName smb_fields r]),
      (''treeConnectCount'', CounterValue, num smb_fields r ''TreeConnectCount'', [rowName smb_fields r]),
      (''receivedBytes'', CounterValue, num smb_fields r ''ReceivedBytes'', [rowName smb_fields r]),
      (''writeRequests'', CounterValue, num smb_fields r ''WriteRequests'', [rowName smb_fields r]),
      (''readRequests'', CounterValue, num smb_fields r ''ReadRequests'', [rowName smb_fields r]),
      (''metadataRequests'', CounterValue, num smb_fields r ''MetadataRequests'', [rowName smb_fields r]),
      (''sentBytes'', CounterValue, num smb_fields r ''SentBytes'', [rowName smb_fields r]),
      (''filesOpened'', CounterValue, num smb_fields r ''FilesOpened'', [rowName smb_fields r])]"

definition smb_build :: "'w pdh_api \<Rightarrow> u16 \<Rightarrow> 'w \<Rightarrow> (go_error option \<times> perfSource \<times> 'w) option" where
  "smb_build api osBuild = perfBuild api osBuild ''failed to create SMB Server Shares collector: %w'' ''SMB Server Shares'' [''*''] smb_fields"

definition smb_collect :: "'w pdh_api \<Rightarrow> perfSource \<Rightarrow> 'w \<Rightarrow> (perfSource, 'w) collected" where
  "smb_collect api = collectWith api smb_fields ''failed to collect SMB Server Shares metrics: %w'' smb_descs (eachRow (\<lambda>r. True) smb_lines)"

section \<open>smbclient\<close>

definition smbclient_fields :: "structField list" where
  "smbclient_fields =
     [nameField,
      perfField ''AvgDataQueueLength'' ''Avg. Data Queue Length'',
      perfField ''AvgReadQueueLength'' ''Avg. Read Queue Length'',
      perfField ''AvgSecPerRead'' ''Avg. sec/Read'',
      perfField ''AvgSecPerWrite'' ''Avg. sec/Write'',
      perfField ''AvgSecPerDataRequest'' ''Avg. sec/Data Request'',
      perfField ''AvgWriteQueueLength'' ''Avg. Write Queue Length'',
      perfField ''CreditStallsPerSec'' ''Credit Stalls/sec'',
      perfField ''CurrentDataQueueLength'' ''Current Data Queue Length'',
      perfField ''DataBytesPerSec'' ''Data Bytes/sec'',
      perfField ''DataRequestsPerSec'' ''Data Requests/sec'',
      perfField ''MetadataRequestsPerSec'' ''Metadata Requests/sec'',
      perfField ''ReadBytesTransmittedViaSMBDirectPerSec'' ''Read Bytes transmitted via SMB Direct/sec'',
      perfField ''ReadBytesPerSec'' ''Read Bytes/sec'',
      perfField ''ReadRequestsTransmittedViaSMBDirectPerSec'' ''Read Requests transmitted via SMB Direct/sec'',
      perfField ''ReadRequestsPerSec'' ''Read Requests/sec'',
      perfField ''TurboIOReadsPerSec'' ''Turbo I/O Reads/sec'',
      perfField ''TurboIOWritesPerSec'' ''Turbo I/O Writes/sec'',
      perfField ''WriteBytesTransmittedViaSMBDirectPerSec'' ''Write Bytes transmitted via SMB Direct/sec'',
      perfField ''WriteBytesPerSec'' ''Write Bytes/sec'',
      perfField ''WriteRequestsTransmittedViaSMBDirectPerSec'' ''Write Requests transmitted via SMB Direct/sec'',
      perfField ''WriteRequestsPerSec'' ''Write Requests/sec'']"

definition smbclient_descs :: descTable where
  "smbclient_descs =
     [(''requestQueueSecsTotal'', NewDesc (BuildFQName Namespace ''smbclient'' ''data_queue_seconds_total'')
        ''Seconds requests waited on queue on this share'' [''server'', ''share'']),
      (''readRequestQueueSecsTotal'', NewDesc (BuildFQName Namespace ''smbclient'' ''read_queue_seconds_total'')
        ''Seconds read requests waited on queue on this share'' [''server'', ''share'']),
      (''writeRequestQueueSecsTotal'', NewDesc (BuildFQName Namespace ''smbclient'' ''write_queue_seconds_total'')
        ''Seconds write requests waited on queue on this share'' [''server'', ''share'']),
      (''requestSecs'', NewDesc (BuildFQName Namespace ''smbclient'' ''request_seconds_total'')
        ''Seconds waiting for requests on this share'' [''server'', ''share'']),
      (''creditStallsTotal'', NewDesc (BuildFQName Namespace ''smbclient'' ''stalls_total'')
        ''The number of requests delayed based on insufficient credits on this share'' [''server'', ''share'']),
      (''currentDataQueued'', NewDesc (BuildFQName Namespace ''smbclient'' ''requests_queued'')
        ''The point in time number of requests outstanding on this share'' [''server'', ''share'']),
      (''dataBytesTotal'', NewDesc (BuildFQName Namespace ''smbclient'' ''data_bytes_total'')
        ''The bytes read or written on this share'' [''server'', ''share'']),
      (''dataRequestsTotal'', NewDesc (BuildFQName Namespace ''smbclient'' ''requests_total'')
        ''The requests on this share'' [''server'', ''share'']),
      (''metadataRequestsTotal'', NewDesc (BuildFQName Namespace ''smbclient'' ''metadata_requests_total'')
        ''The metadata requests on this share'' [''server'', ''share'']),
      (''readBytesTransmittedViaSMBDirectTotal'', NewDesc (BuildFQName Namespace ''smbclient'' ''read_bytes_via_smbdirect_total'')
        ''The bytes read from this share via RDMA direct placement'' [''server'', ''share'']),
      (''readBytesTotal'', NewDesc (BuildFQName Namespace ''smbclient'' ''read_bytes_total'')
        ''The bytes read on this share'' [''server'', ''share'']),
      (''readRequestsTransmittedViaSMBDirectTotal'', NewDesc (BuildFQName Namespace ''smbclient'' ''read_requests_via_smbdirect_total'')
        ''The read requests on this share via RDMA direct placement'' [''server'', ''share'']),
      (''readsTotal'', NewDesc (BuildFQName Namespace ''smbclient'' ''read_requests_total'')
        ''The read requests on this share'' [''server'', ''share'']),
      (''turboIOReadsTotal'', NewDesc (BuildFQName Namespace ''smbclient'' ''turbo_io_reads_total'')
        ''The read requests that go through Turbo I/O'' [''server'', ''share'']),
      (''TurboIOWritesTotal'', NewDesc (BuildFQName Namespace ''smbclient'' ''turbo_io_writes_total'')
        ''The write requests that go through Turbo I/O'' [''server'', ''share'']),
      (''writeBytesTransmittedViaSMBDirectTotal'', NewDesc (BuildFQName Namespace ''smbclient'' ''write_bytes_via_smbdirect_total'')
        ''The written bytes to this share via RDMA direct placement'' [''server'', ''share'']),
      (''writeBytesTotal'', NewDesc (BuildFQName Namespace ''smbclient'' ''write_bytes_total'')
        ''The bytes written on this share'' [''server'', ''share'']),
      (''writeRequestsTransmittedViaSMBDirectTotal'', NewDesc (BuildFQName Namespace ''smbclient'' ''write_requests_via_smbdirect_total'')
        ''The write requests to this share via RDMA direct placement'' [''server'', ''share'']),
      (''writesTotal'', NewDesc (BuildFQName Namespace ''smbclient'' ''write_requests_total'')
        ''The write requests on this share'' [''server'', ''share'']),
      (''readSecsTotal'', NewDesc (BuildFQName Namespace ''smbclient'' ''read_seconds_total'')
        ''Seconds waiting for read requests on this share'' [''server'', ''share'']),
      (''writeSecsTotal'', NewDesc (BuildFQName Namespace ''smbclient'' ''write_seconds_total'')
        ''Seconds waiting for write requests on this share'' [''server'', ''share''])]"

definition smbclient_lines :: "string \<Rightarrow> string \<Rightarrow> row \<Rightarrow> line list" where
  "smbclient_lines server share r =
     [(''requestQueueSecsTotal'', CounterValue, f64_mul (num smbclient_fields r ''AvgDataQueueLength'') TicksToSecondScaleFactor, [server, share]),
      (''readRequestQueueSecsTotal'', CounterValue, f64_mul (num smbclient_fields r ''AvgReadQueueLength'') TicksToSecondScaleFactor, [server, share]),
      (''readSecsTotal'', CounterValue, f64_mul (num smbclient_fields r ''AvgSecPerRead'') TicksToSecondScaleFactor, [server, share]),
      (''writeSecsTotal'', CounterValue, f64_mul (num smbclient_fields r ''AvgSecPerWrite'') TicksToSecondScaleFactor, [server, share]),
      (''requestSecs'', CounterValue, f64_mul (num smbclient_fields r ''AvgSecPerDataRequest'') TicksToSecondScaleFactor, [server, share]),
      (''writeRequestQueueSecsTotal'', CounterValue, f64_mul (num smbclient_fields r ''AvgWriteQueueLength'') TicksToSecondScaleFactor, [server, share]),
      (''creditStallsTotal'', CounterValue, num smbclient_fields r ''CreditStallsPerSec'', [server, share]),
      (''currentDataQueued'', GaugeValue, num smbclient_fields r ''CurrentDataQueueLength'', [server, share]),
      (''dataBytesTotal'', CounterValue, num smbclient_fields r ''DataBytesPerSec'', [server, share]),
      (''dataRequestsTotal'', CounterValue, num smbclient_fields r ''DataRequestsPerSec'', [server, share]),
      (''metadataRequestsTotal'', CounterValue, num smbclient_fields r ''MetadataRequestsPerSec'', [server, share]),
      (''readBytesTransmittedViaSMBDirectTotal'', CounterValue, num smbclient_fields r ''ReadBytesTransmittedViaSMBDirectPerSec'', [server, share]),
      (''readBytesTotal'', CounterValue, num smbclient_fields r ''ReadBytesPerSec'', [server, share]),
      (''readRequestsTransmittedViaSMBDirectTotal'', CounterValue, num smbclient_fields r ''ReadRequestsTransmittedViaSMBDirectPerSec'', [server, share]),
      (''readsTotal'', CounterValue, num smbclient_fields r ''ReadRequestsPerSec'', [server, share]),
      (''turboIOReadsTotal'', CounterValue, num smbclient_fields r ''TurboIOReadsPerSec'', [server, share]),
      (''TurboIOWritesTotal'', CounterValue, num smbclient_fields r ''TurboIOWritesPerSec'', [server, share]),
      (''writeBytesTransmittedViaSMBDirectTotal'', CounterValue, num smbclient_fields r ''WriteBytesTransmittedViaSMBDirectPerSec'', [server, share]),
      (''writeBytesTotal'', CounterValue, num smbclient_fields r ''WriteBytesPerSec'', [server, share]),
      (''writeRequestsTransmittedViaSMBDirectTotal'', CounterValue, num smbclient_fields r ''WriteRequestsTransmittedViaSMBDirectPerSec'', [server, share]),
      (''writesTotal'', CounterValue, num smbclient_fields r ''WriteRequestsPerSec'', [server, share])]"

definition smbclient_row :: "row \<Rightarrow> go_error + line list" where
  "smbclient_row r =
     (case FieldsFunc (\<lambda>c. c = CHR 0x5C) (rowName smbclient_fields r) of
        [server, share] \<Rightarrow> Inr (smbclient_lines server share r)
      | _ \<Rightarrow> Inl (ErrorText ''unexpected number of fields in SMB Client Shares instance name: %q'' [rowName smbclient_fields r]))"

definition smbclient_build :: "'w pdh_api \<Rightarrow> u16 \<Rightarrow> 'w \<Rightarrow> (go_error option \<times> perfSource \<times> 'w) option" where
  "smbclient_build api osBuild = perfBuild api osBuild ''failed to create SMB Client Shares collector: %w'' ''SMB Client Shares'' [''*''] smbclient_fields"

definition smbclient_collect :: "'w pdh_api \<Rightarrow> perfSource \<Rightarrow> 'w \<Rightarrow> (perfSource, 'w) collected" where
  "smbclient_collect api = collectLoop api smbclient_fields ''failed to collect SMB Client Shares metrics: %w'' smbclient_descs smbclient_row"

section \<open>nps\<close>

definition nps_access_fields :: "structField list" where
  "nps_access_fields =
     [perfField ''AccessAccepts'' ''Access-Accepts'',
      perfField ''AccessChallenges'' ''Access-Challenges'',
      perfField ''AccessRejects'' ''Access-Rejects'',
      perfField ''AccessRequests'' ''Access-Requests'',
      perfField ''AccessBadAuthenticators'' ''Bad Authenticators'',
      perfField ''AccessDroppedPackets'' ''Dropped Packets'',
      perfField ''AccessInvalidRequests'' ''Invalid Requests'',
      perfField ''AccessMalformedPackets'' ''Malformed Packets'',
      perfField ''AccessPacketsReceived'' ''Packets Received'',
      perfField ''AccessPacketsSent'' ''Packets Sent'',
      perfField ''AccessServerResetTime'' ''Server Reset Time'',
      perfField ''AccessServerUpTime'' ''Server Up Time'',
      perfField ''AccessUnknownType'' ''Unknown Type'']"

definition nps_access_descs :: descTable where
  "nps_access_descs =
     [(''accessAccepts'', NewDesc (BuildFQName Namespace ''nps'' ''access_accepts'')
        ''(AccessAccepts)'' []),
      (''accessChallenges'', NewDesc (BuildFQName Namespace ''nps'' ''access_challenges'')
        ''(AccessChallenges)'' []),
      (''accessRejects'', NewDesc (BuildFQName Namespace ''nps'' ''access_rejects'')
        ''(AccessRejects)'' []),
      (''accessRequests'', NewDesc (BuildFQName Namespace ''nps'' ''access_requests'')
        ''(AccessRequests)'' []),
      (''accessBadAuthenticators'', NewDesc (BuildFQName Namespace ''nps'' ''access_bad_authenticators'')
        ''(BadAuthenticators)'' []),
      (''accessDroppedPackets'', NewDesc (BuildFQName Namespace ''nps'' ''access_dropped_packets'')
        ''(DroppedPackets)'' []),
      (''accessInvalidRequests'', NewDesc (BuildFQName Namespace ''nps'' ''access_invalid_requests'')
        ''(InvalidRequests)'' []),
      (''accessMalformedPackets'', NewDesc (BuildFQName Namespace ''nps'' ''access_malformed_packets'')
        ''(MalformedPackets)'' []),
      (''accessPacketsReceived'', NewDesc (BuildFQName Namespace ''nps'' ''access_packets_received'')
        ''(PacketsReceived)'' []),
      (''accessPacketsSent'', NewDesc (BuildFQName Namespace ''nps'' ''access_packets_sent'')
        ''(PacketsSent)'' []),
      (''accessServerResetTime'', NewDesc (BuildFQName Namespace ''nps'' ''access_server_reset_time'')
        ''(ServerResetTime)'' []),
      (''accessServerUpTime'', NewDesc (BuildFQName Namespace ''nps'' ''access_server_up_time'')
        ''(ServerUpTime)'' []),
      (''accessUnknownType'', NewDesc (BuildFQName Namespace ''nps'' ''access_unknown_type'')
        ''(UnknownType)'' [])]"

definition nps_access_lines :: "row \<Rightarrow> line list" where
  "nps_access_lines r =
     [(''accessAccepts'', CounterValue, num nps_access_fields r ''AccessAccepts'', []),
      (''accessChallenges'', CounterValue, num nps_access_fields r ''AccessChallenges'', []),
      (''accessRejects'', CounterValue, num nps_access_fields r ''AccessRejects'', []),
      (''accessRequests'', CounterValue, num nps_access_fields r ''AccessRequests'', []),
      (''accessBadAuthenticators'', CounterValue, num nps_access_fields r ''AccessBadAuthenticators'', []),
      (''accessDroppedPackets'', CounterValue, num nps_access_fields r ''AccessDroppedPackets'', []),
      (''accessInvalidRequests'', CounterValue, num nps_access_fields r ''AccessInvalidRequests'', []),
      (''accessMalformedPackets'', CounterValue, num nps_access_fields r ''AccessMalformedPackets'', []),
      (''accessPacketsReceived'', CounterValue, num nps_access_fields r ''AccessPacketsReceived'', []),
      (''accessPacketsSent'', CounterValue, num nps_access_fields r ''AccessPacketsSent'', []),
      (''accessServerResetTime'', CounterValue, num nps_access_fields r ''AccessServerResetTime'', []),
      (''accessServerUpTime'', CounterValue, num nps_access_fields r ''AccessServerUpTime'', []),
      (''accessUnknownType'', CounterValue, num nps_access_fields r ''AccessUnknownType'', [])]"

definition nps_access_build :: "'w pdh_api \<Rightarrow> u16 \<Rightarrow> 'w \<Rightarrow> (go_error option \<times> perfSource \<times> 'w) option" where
  "nps_access_build api osBuild = perfBuild api osBuild ''failed to create NPS Authentication Server collector: %w'' ''NPS Authentication Server'' [] nps_access_fields"

definition nps_access_collect :: "'w pdh_api \<Rightarrow> perfSource \<Rightarrow> 'w \<Rightarrow> (perfSource, 'w) collected" where
  "nps_access_collect api = collectIndex api nps_access_fields ''failed to collect NPS Authentication Server metrics: %w'' nps_access_descs nps_access_lines"

definition nps_accounting_fields :: "structField list" where
  "nps_accounting_fields =
     [perfField ''AccountingRequests'' ''Accounting-Requests'',
      perfField ''AccountingResponses'' ''Accounting-Responses'',
      perfField ''AccountingBadAuthenticators'' ''Bad Authenticators'',
      perfField ''AccountingDroppedPackets'' ''Dropped Packets'',
      perfField ''AccountingInvalidRequests'' ''Invalid Requests'',
      perfField ''AccountingMalformedPackets'' ''Malformed Packets'',
      perfField ''AccountingNoRecord'' ''No Record'',
      perfField ''AccountingPacketsReceived'' ''Packets Received'',
      perfField ''AccountingPacketsSent'' ''Packets Sent'',
      perfField ''AccountingServerResetTime'' ''Server Reset Time'',
      perfField ''AccountingServerUpTime'' ''Server Up Time'',
      perfField ''AccountingUnknownType'' ''Unknown Type'']"

definition nps_accounting_descs :: descTable where
  "nps_accounting_descs =
     [(''accountingRequests'', NewDesc (BuildFQName Namespace ''nps'' ''accounting_requests'')
        ''(AccountingRequests)'' []),
      (''accountingResponses'', NewDesc (BuildFQName Namespace ''nps'' ''accounting_responses'')
        ''(AccountingResponses)'' []),
      (''accountingBadAuthenticators'', NewDesc (BuildFQName Namespace ''nps'' ''accounting_bad_authenticators'')
        ''(BadAuthenticators)'' []),
      (''accountingDroppedPackets'', NewDesc (BuildFQName Namespace ''nps'' ''accounting_dropped_packets'')
        ''(DroppedPackets)'' []),
      (''accountingInvalidRequests'', NewDesc (BuildFQName Namespace ''nps'' ''accounting_invalid_requests'')
        ''(InvalidRequests)'' []),
      (''accountingMalformedPackets'', NewDesc (BuildFQName Namespace ''nps'' ''accounting_malformed_packets'')
        ''(MalformedPackets)'' []),
      (''accountingNoRecord'', NewDesc (BuildFQName Namespace ''nps'' ''accounting_no_record'')
        ''(NoRecord)'' []),
      (''accountingPacketsReceived'', NewDesc (BuildFQName Namespace ''nps'' ''accounting_packets_received'')
        ''(PacketsReceived)'' []),
      (''accountingPacketsSent'', NewDesc (BuildFQName Namespace ''nps'' ''accounting_packets_sent'')
        ''(PacketsSent)'' []),
      (''accountingServerResetTime'', NewDesc (BuildFQName Namespace ''nps'' ''accounting_server_reset_time'')
        ''(ServerResetTime)'' []),
      (''accountingServerUpTime'', NewDesc (BuildFQName Namespace ''nps'' ''accounting_server_up_time'')
        ''(ServerUpTime)'' []),
      (''accountingUnknownType'', NewDesc (BuildFQName Namespace ''nps'' ''accounting_unknown_type'')
        ''(UnknownType)'' [])]"

definition nps_accounting_lines :: "row \<Rightarrow> line list" where
  "nps_accounting_lines r =
     [(''accountingRequests'', CounterValue, num nps_accounting_fields r ''AccountingRequests'', []),
      (''accountingResponses'', CounterValue, num nps_accounting_fields r ''AccountingResponses'', []),
      (''accountingBadAuthenticators'', CounterValue, num nps_accounting_fields r ''AccountingBadAuthenticators'', []),
      (''accountingDroppedPackets'', CounterValue, num nps_accounting_fields r ''AccountingDroppedPackets'', []),
      (''accountingInvalidRequests'', CounterValue, num nps_accounting_fields r ''AccountingInvalidRequests'', []),
      (''accountingMalformedPackets'', CounterValue, num nps_accounting_fields r ''AccountingMalformedPackets'', []),
      (''accountingNoRecord'', CounterValue, num nps_accounting_fields r ''AccountingNoRecord'', []),
      (''accountingPacketsReceived'', CounterValue, num nps_accounting_fields r ''AccountingPacketsReceived'', []),
      (''accountingPacketsSent'', CounterValue, num nps_accounting_fields r ''AccountingPacketsSent'', []),
      (''accountingServerResetTime'', CounterValue, num nps_accounting_fields r ''AccountingServerResetTime'', []),
      (''accountingServerUpTime'', CounterValue, num nps_accounting_fields r ''AccountingServerUpTime'', []),
      (''accountingUnknownType'', CounterValue, num nps_accounting_fields r ''AccountingUnknownType'', [])]"

definition nps_accounting_build :: "'w pdh_api \<Rightarrow> u16 \<Rightarrow> 'w \<Rightarrow> (go_error option \<times> perfSource \<times> 'w) option" where
  "nps_accounting_build api osBuild = perfBuild api osBuild ''failed to create NPS Accounting Server collector: %w'' ''NPS Accounting Server'' [] nps_accounting_fields"

definition nps_accounting_collect :: "'w pdh_api \<Rightarrow> perfSource \<Rightarrow> 'w \<Rightarrow> (perfSource, 'w) collected" where
  "nps_accounting_collect api = collectIndex api nps_accounting_fields ''failed to collect NPS Accounting Server metrics: %w'' nps_accounting_descs nps_accounting_lines"

section \<open>vmware\<close>

definition vmware_cpu_fields :: "structField list" where
  "vmware_cpu_fields =
     [perfField ''CPUEffectiveVMSpeedMHz'' ''Effective VM Speed in MHz'',
      perfField ''CPUHostProcessorSpeedMHz'' ''Host processor speed in MHz'',
      perfField ''CPULimitMHz'' ''Limit in MHz'',
      perfField ''CPUReservationMHz'' ''Reservation in MHz'',
      perfField ''CPUShares'' ''Shares'',
      perfField ''CPUStolenMs'' ''CPU stolen time'',
      perfField ''CPUTimePercents'' ''% Processor Time'']"

definition vmware_cpu_descs :: descTable where
  "vmware_cpu_descs =
     [(''cpuLimitMHz'', NewDesc (BuildFQName Namespace ''vmware'' ''cpu_limit_mhz'')
        ''The maximum processing power in MHz allowed to the virtual machine. Assigning a CPU Limit ensures that this virtual machine never consumes more than a certain amount of the available processor power. By limiting the amount of processing power consumed, a portion of the processing power becomes available to other virtual machines.'' []),
      (''cpuReservationMHz'', NewDesc (BuildFQName Namespace ''vmware'' ''cpu_reservation_mhz'')
        ''The minimum processing power in MHz available to the virtual machine. Assigning a CPU Reservation ensures that even as other virtual machines on the same host consume shared processing power, there is still a certain minimum amount for this virtual machine.'' []),
      (''cpuShares'', NewDesc (BuildFQName Namespace ''vmware'' ''cpu_shares'')
        ''The number of CPU shares allocated to the virtual machine.'' []),
      (''cpuStolenTotal'', NewDesc (BuildFQName Namespace ''vmware'' ''cpu_stolen_seconds_total'')
        ''The time that the VM was runnable but not scheduled to run.'' []),
      (''cpuTimeTotal'', NewDesc (BuildFQName Namespace ''vmware'' ''cpu_time_seconds_total'')
        (''Current load of the VM'' @ [CHR 0xE2, CHR 0x80, CHR 0x99] @ ''s virtual processor'') []),
      (''cpuEffectiveVMSpeedMHz'', NewDesc (BuildFQName Namespace ''vmware'' ''cpu_effective_vm_speed_mhz_total'')
        (''The effective speed of the VM'' @ [CHR 0xE2, CHR 0x80, CHR 0x99] @ ''s virtual CPU'') []),
      (''hostProcessorSpeedMHz'', NewDesc (BuildFQName Namespace ''vmware'' ''host_processor_speed_mhz'')
        ''Host Processor speed'' [])]"

definition vmware_cpu_lines :: "row \<Rightarrow> line list" where
  "vmware_cpu_lines r =
     [(''cpuLimitMHz'', GaugeValue, num vmware_cpu_fields r ''CPULimitMHz'', []),
      (''cpuReservationMHz'', GaugeValue, num vmware_cpu_fields r ''CPUReservationMHz'', []),
      (''cpuShares'', GaugeValue, num vmware_cpu_fields r ''CPUShares'', []),
      (''cpuStolenTotal'', CounterValue, MilliSecToSec (num vmware_cpu_fields r ''CPUStolenMs''), []),
      (''cpuTimeTotal'', CounterValue, MilliSecToSec (num vmware_cpu_fields r ''CPUTimePercents''), []),
      (''cpuEffectiveVMSpeedMHz'', GaugeValue, num vmware_cpu_fields r ''CPUEffectiveVMSpeedMHz'', []),
      (''hostProcessorSpeedMHz'', GaugeValue, num vmware_cpu_fields r ''CPUHostProcessorSpeedMHz'', [])]"

definition vmware_cpu_build :: "'w pdh_api \<Rightarrow> u16 \<Rightarrow> 'w \<Rightarrow> (go_error option \<times> perfSource \<times> 'w) option" where
  "vmware_cpu_build api osBuild = perfBuild api osBuild ''failed to create VM Processor collector: %w'' ''VM Processor'' [''_Total''] vmware_cpu_fields"

definition vmware_cpu_collect :: "'w pdh_api \<Rightarrow> perfSource \<Rightarrow> 'w \<Rightarrow> (perfSource, 'w) collected" where
  "vmware_cpu_collect api = collectIndex api vmware_cpu_fields ''failed to collect VM CPU metrics: %w'' vmware_cpu_descs vmware_cpu_lines"

definition vmware_memory_fields :: "structField list" where
  "vmware_memory_fields =
     [perfField ''MemActiveMB'' ''Memory Active in MB'',
      perfField ''MemBalloonedMB'' ''Memory Ballooned in MB'',
      perfField ''MemLimitMB'' ''Memory Limit in MB'',
      perfField ''MemMappedMB'' ''Memory Mapped in MB'',
      perfField ''MemOverheadMB'' ''Memory Overhead in MB'',
      perfField ''MemReservationMB'' ''Memory Reservation in MB'',
      perfField ''MemSharedMB'' ''Memory Shared in MB'',
      perfField ''MemSharedSavedMB'' ''Memory Shared Saved in MB'',
      perfField ''MemShares'' ''Memory Shares'',
      perfField ''MemSwappedMB'' ''Memory Swapped in MB'',
      perfField ''MemTargetSizeMB'' ''Memory Target Size'',
      perfField ''MemUsedMB'' ''Memory Used in MB'']"

definition vmware_memory_descs :: descTable where
  "vmware_memory_descs =
     [(''memActive'', NewDesc (BuildFQName Namespace ''vmware'' ''mem_active_bytes'')
        ''The estimated amount of memory the virtual machine is actively using.'' []),
      (''memBallooned'', NewDesc (BuildFQName Namespace ''vmware'' ''mem_ballooned_bytes'')
        ''The amount of memory that has been reclaimed from this virtual machine via the VMware Memory Balloon mechanism.'' []),
      (''memLimit'', NewDesc (BuildFQName Namespace ''vmware'' ''mem_limit_bytes'')
        ''The maximum amount of memory that is allowed to the virtual machine. Assigning a Memory Limit ensures that this virtual machine never consumes more than a certain amount of the allowed memory. By limiting the amount of memory consumed, a portion of this shared resource is allowed to other virtual machines.'' []),
      (''memMapped'', NewDesc (BuildFQName Namespace ''vmware'' ''mem_mapped_bytes'')
        ''The mapped memory size of this virtual machine. This is the current total amount of guest memory that is backed by physical memory. Note that this number may include pages of memory shared between multiple virtual machines and thus may be an overestimate of the amount of physical host memory consumed by this virtual machine.'' []),
      (''memOverhead'', NewDesc (BuildFQName Namespace ''vmware'' ''mem_overhead_bytes'')
        ''The amount of overhead memory associated with this virtual machine consumed on the host system.'' []),
      (''memReservation'', NewDesc (BuildFQName Namespace ''vmware'' ''mem_reservation_bytes'')
        ''The minimum amount of memory that is guaranteed to the virtual machine. Assigning a Memory Reservation ensures that even as other virtual machines on the same host consume memory, there is still a certain minimum amount for this virtual machine.'' []),
      (''memShared'', NewDesc (BuildFQName Namespace ''vmware'' ''mem_shared_bytes'')
        ''The amount of physical memory associated with this virtual machine that is copy-on-write (COW) shared on the host.'' []),
      (''memSharedSaved'', NewDesc (BuildFQName Namespace ''vmware'' ''mem_shared_saved_bytes'')
        ''The estimated amount of physical memory on the host saved from copy-on-write (COW) shared guest physical memory.'' []),
      (''memShares'', NewDesc (BuildFQName Namespace ''vmware'' ''mem_shares'')
        ''The number of memory shares allocated to the virtual machine.'' []),
      (''memSwapped'', NewDesc (BuildFQName Namespace ''vmware'' ''mem_swapped_bytes'')
        ''The amount of memory associated with this virtual machine that has been swapped by ESX.'' []),
      (''memTargetSize'', NewDesc (BuildFQName Namespace ''vmware'' ''mem_target_size_bytes'')
        ''Memory Target Size.'' []),
      (''memUsed'', NewDesc (BuildFQName Namespace ''vmware'' ''mem_used_bytes'')
        (''The estimated amount of physical host memory currently consumed for this virtual machine'' @ [CHR 0xE2, CHR 0x80, CHR 0x99] @ ''s physical memory.'') [])]"

definition vmware_memory_lines :: "row \<Rightarrow> line list" where
  "vmware_memory_lines r =
     [(''memActive'', GaugeValue, MBToBytes (num vmware_memory_fields r ''MemActiveMB''), []),
      (''memBallooned'', GaugeValue, MBToBytes (num vmware_memory_fields r ''MemBalloonedMB''), []),
      (''memLimit'', GaugeValue, MBToBytes (num vmware_memory_fields r ''MemLimitMB''), []),
      (''memMapped'', GaugeValue, MBToBytes (num vmware_memory_fields r ''MemMappedMB''), []),
      (''memOverhead'', GaugeValue, MBToBytes (num vmware_memory_fields r ''MemOverheadMB''), []),
      (''memReservation'', GaugeValue, MBToBytes (num vmware_memory_fields r ''MemReservationMB''), []),
      (''memShared'', GaugeValue, MBToBytes (num vmware_memory_fields r ''MemSharedMB''), []),
      (''memSharedSaved'', GaugeValue, MBToBytes (num vmware_memory_fields r ''MemSharedSavedMB''), []),
      (''memShares'', GaugeValue, num vmware_memory_fields r ''MemShares'', []),
      (''memSwapped'', GaugeValue, MBToBytes (num vmware_memory_fields r ''MemSwappedMB''), []),
      (''memTargetSize'', GaugeValue, MBToBytes (num vmware_memory_fields r ''MemTargetSizeMB''), []),
      (''memUsed'', GaugeValue, MBToBytes (num vmware_memory_fields r ''MemUsedMB''), [])]"

definition vmware_memory_build :: "'w pdh_api \<Rightarrow> u16 \<Rightarrow> 'w \<Rightarrow> (go_error option \<times> perfSource \<times> 'w) option" where
  "vmware_memory_build api osBuild = perfBuild api osBuild ''failed to create VM Memory collector: %w'' ''VM Memory'' [] vmware_memory_fields"

definition vmware_memory_collect :: "'w pdh_api \<Rightarrow> perfSource \<Rightarrow> 'w \<Rightarrow> (perfSource, 'w) collected" where
  "vmware_memory_collect api = collectIndex api vmware_memory_fields ''failed to collect VM Memory metrics: %w'' vmware_memory_descs vmware_memory_lines"

section \<open>dfsr\<close>

definition dfsr_connection_fields :: "structField list" where
  "dfsr_connection_fields =
     [nameField,
      perfField ''BandwidthSavingsUsingDFSReplicationTotal'' ''Bandwidth Savings Using DFS Replication'',
      perfField ''BytesReceivedTotal'' ''Total Bytes Received'',
      perfField ''CompressedSizeOfFilesReceivedTotal'' ''Compressed Size of Files Received'',
      perfField ''FilesReceivedTotal'' ''Total Files Received'',
      perfField ''RdcBytesReceivedTotal'' ''RDC Bytes Received'',
      perfField ''RdcCompressedSizeOfFilesReceivedTotal'' ''RDC Compressed Size of Files Received'',
      perfField ''RdcNumberOfFilesReceivedTotal'' ''RDC Number of Files Received'',
      perfField ''RdcSizeOfFilesReceivedTotal'' ''RDC Size of Files Received'',
      perfField ''SizeOfFilesReceivedTotal'' ''Size of Files Received'']"

definition dfsr_connection_descs :: descTable where
  "dfsr_connection_descs =
     [(''connectionBandwidthSavingsUsingDFSReplicationTotal'', NewDesc (BuildFQName Namespace ''dfsr'' ''connection_bandwidth_savings_using_dfs_replication_bytes_total'')
        ''Total bytes of bandwidth saved using DFS Replication for this connection'' [''name'']),
      (''connectionBytesReceivedTotal'', NewDesc (BuildFQName Namespace ''dfsr'' ''connection_bytes_received_total'')
        ''Total bytes received for connection'' [''name'']),
      (''connectionCompressedSizeOfFilesReceivedTotal'', NewDesc (BuildFQName Namespace ''dfsr'' ''connection_compressed_size_of_files_received_bytes_total'')
        ''Total compressed size of files received on the connection, in bytes'' [''name'']),
      (''connectionFilesReceivedTotal'', NewDesc (BuildFQName Namespace ''dfsr'' ''connection_received_files_total'')
        ''Total number of files received for connection'' [''name'']),
      (''connectionRDCBytesReceivedTotal'', NewDesc (BuildFQName Namespace ''dfsr'' ''connection_rdc_received_bytes_total'')
        ''Total bytes received on the connection while replicating files using Remote Differential Compression'' [''name'']),
      (''connectionRDCCompressedSizeOfFilesReceivedTotal'', NewDesc (BuildFQName Namespace ''dfsr'' ''connection_rdc_compressed_size_of_received_files_bytes_total'')
        ''Total uncompressed size of files received with Remote Differential Compression for connection'' [''name'']),
      (''connectionRDCNumberOfFilesReceivedTotal'', NewDesc (BuildFQName Namespace ''dfsr'' ''connection_rdc_received_files_total'')
        ''Total number of files received using remote differential compression'' [''name'']),
      (''connectionRDCSizeOfFilesReceivedTotal'', NewDesc (BuildFQName Namespace ''dfsr'' ''connection_rdc_size_of_received_files_bytes_total'')
        ''Total size of received Remote Differential Compression files, in bytes.'' [''name'']),
      (''connectionSizeOfFilesReceivedTotal'', NewDesc (BuildFQName Namespace ''dfsr'' ''connection_files_received_bytes_total'')
        ''Total size of files received, in bytes'' [''name''])]"

definition dfsr_connection_lines :: "row \<Rightarrow> line list" where
  "dfsr_connection_lines r =
     [(''connectionBandwidthSavingsUsingDFSReplicationTotal'', CounterValue, num dfsr_connection_fields r ''BandwidthSavingsUsingDFSReplicationTotal'', [rowName dfsr_connection_fields r]),
      (''connectionBytesReceivedTotal'', CounterValue, num dfsr_connection_fields r ''BytesReceivedTotal'', [rowName dfsr_connection_fields r]),
      (''connectionCompressedSizeOfFilesReceivedTotal'', CounterValue, num dfsr_connection_fields r ''CompressedSizeOfFilesReceivedTotal'', [rowName dfsr_connection_fields r]),
      (''connectionFilesReceivedTotal'', CounterValue, num dfsr_connection_fields r ''FilesReceivedTotal'', [rowName dfsr_connection_fields r]),
      (''connectionRDCBytesReceivedTotal'', CounterValue, num dfsr_connection_fields r ''RdcBytesReceivedTotal'', [rowName dfsr_connection_fields r]),
      (''connectionRDCCompressedSizeOfFilesReceivedTotal'', CounterValue, num dfsr_connection_fields r ''RdcCompressedSizeOfFilesReceivedTotal'', [rowName dfsr_connection_fields r]),
      (''connectionRDCSizeOfFilesReceivedTotal'', CounterValue, num dfsr_connection_fields r ''RdcSizeOfFilesReceivedTotal'', [rowName dfsr_connection_fields r]),
      (''connectionRDCNumberOfFilesReceivedTotal'', CounterValue, num dfsr_connection_fields r ''RdcNumberOfFilesReceivedTotal'', [rowName dfsr_connection_fields r]),
      (''connectionSizeOfFilesReceivedTotal'', CounterValue, num dfsr_connection_fields r ''SizeOfFilesReceivedTotal'', [rowName dfsr_connection_fields r])]"

definition dfsr_connection_build :: "'w pdh_api \<Rightarrow> u16 \<Rightarrow> 'w \<Rightarrow> (go_error option \<times> perfSource \<times> 'w) option" where
  "dfsr_connection_build api osBuild = perfBuild api osBuild ''failed to create DFS Replication Connections collector: %w'' ''DFS Replication Connections'' [''*''] dfsr_connection_fields"

definition dfsr_connection_collect :: "'w pdh_api \<Rightarrow> perfSource \<Rightarrow> 'w \<Rightarrow> (perfSource, 'w) collected" where
  "dfsr_connection_collect api = collectWith api dfsr_connection_fields ''failed to collect DFS Replication Connections metrics: %w'' dfsr_connection_descs (eachRow (\<lambda>r. True) dfsr_connection_lines)"

definition dfsr_folder_fields :: "structField list" where
  "dfsr_folder_fields =
     [nameField,
      perfField ''BandwidthSavingsUsingDFSReplicationTotal'' ''Bandwidth Savings Using DFS Replication'',
      perfField ''CompressedSizeOfFilesReceivedTotal'' ''Compressed Size of Files Received'',
      perfField ''ConflictBytesCleanedUpTotal'' ''Conflict Bytes Cleaned Up'',
      perfField ''ConflictBytesGeneratedTotal'' ''Conflict Bytes Generated'',
      perfField ''ConflictFilesCleanedUpTotal'' ''Conflict Files Cleaned Up'',
      perfField ''ConflictFilesGeneratedTotal'' ''Conflict Files Generated'',
      perfField ''ConflictFolderCleanupsCompletedTotal'' ''Conflict folder Cleanups Completed'',
      perfField ''ConflictSpaceInUse'' ''Conflict Space In Use'',
      perfField ''DeletedSpaceInUse'' ''Deleted Space In Use'',
      perfField ''DeletedBytesCleanedUpTotal'' ''Deleted Bytes Cleaned Up'',
      perfField ''DeletedBytesGeneratedTotal'' ''Deleted Bytes Generated'',
      perfField ''DeletedFilesCleanedUpTotal'' ''Deleted Files Cleaned Up'',
      perfField ''DeletedFilesGeneratedTotal'' ''Deleted Files Generated'',
      perfField ''FileInstallsRetriedTotal'' ''File Installs Retried'',
      perfField ''FileInstallsSucceededTotal'' ''File Installs Succeeded'',
      perfField ''FilesReceivedTotal'' ''Total Files Received'',
      perfField ''RdcBytesReceivedTotal'' ''RDC Bytes Received'',
      perfField ''RdcCompressedSizeOfFilesReceivedTotal'' ''RDC Compressed Size of Files Received'',
      perfField ''RdcNumberOfFilesReceivedTotal'' ''RDC Number of Files Received'',
      perfField ''RdcSizeOfFilesReceivedTotal'' ''RDC Size of Files Received'',
      perfField ''SizeOfFilesReceivedTotal'' ''Size of Files Received'',
      perfField ''StagingSpaceInUse'' ''Staging Space In Use'',
      perfField ''StagingBytesCleanedUpTotal'' ''Staging Bytes Cleaned Up'',
      perfField ''StagingBytesGeneratedTotal'' ''Staging Bytes Generated'',
      perfField ''StagingFilesCleanedUpTotal'' ''Staging Files Cleaned Up'',
      perfField ''StagingFilesGeneratedTotal'' ''Staging Files Generated'',
      perfField ''UpdatesDroppedTotal'' ''Updates Dropped'']"

definition dfsr_folder_descs :: descTable where
  "dfsr_folder_descs =
     [(''folderBandwidthSavingsUsingDFSReplicationTotal'', NewDesc (BuildFQName Namespace ''dfsr'' ''folder_bandwidth_savings_using_dfs_replication_bytes_total'')
        ''Total bytes of bandwidth saved using DFS Replication for this folder'' [''name'']),
      (''folderCompressedSizeOfFilesReceivedTotal'', NewDesc (BuildFQName Namespace ''dfsr'' ''folder_compressed_size_of_received_files_bytes_total'')
        ''Total compressed size of files received on the folder, in bytes'' [''name'']),
      (''folderConflictBytesCleanedUpTotal'', NewDesc (BuildFQName Namespace ''dfsr'' ''folder_conflict_cleaned_up_bytes_total'')
        ''Total size of conflict loser files and folders deleted from the Conflict and Deleted folder, in bytes'' [''name'']),
      (''folderConflictBytesGeneratedTotal'', NewDesc (BuildFQName Namespace ''dfsr'' ''folder_conflict_generated_bytes_total'')
        ''Total size of conflict loser files and folders moved to the Conflict and Deleted folder, in bytes'' [''name'']),
      (''folderConflictFilesCleanedUpTotal'', NewDesc (BuildFQName Namespace ''dfsr'' ''folder_conflict_cleaned_up_files_total'')
        ''Number of conflict loser files deleted from the Conflict and Deleted folder'' [''name'']),
      (''folderConflictFilesGeneratedTotal'', NewDesc (BuildFQName Namespace ''dfsr'' ''folder_conflict_generated_files_total'')
        ''Number of files and folders moved to the Conflict and Deleted folder'' [''name'']),
      (''folderConflictFolderCleanupsCompletedTotal'', NewDesc (BuildFQName Namespace ''dfsr'' ''folder_conflict_folder_cleanups_total'')
        ''Number of deletions of conflict loser files and folders in the Conflict and Deleted'' [''name'']),
      (''folderConflictSpaceInUse'', NewDesc (BuildFQName Namespace ''dfsr'' ''folder_conflict_space_in_use_bytes'')
        ''Total size of the conflict loser files and folders currently in the Conflict and Deleted folder'' [''name'']),
      (''folderDeletedSpaceInUse'', NewDesc (BuildFQName Namespace ''dfsr'' ''folder_deleted_space_in_use_bytes'')
        ''Total size (in bytes) of the deleted files and folders currently in the Conflict and Deleted folder'' [''name'']),
      (''folderDeletedBytesCleanedUpTotal'', NewDesc (BuildFQName Namespace ''dfsr'' ''folder_deleted_cleaned_up_bytes_total'')
        ''Total size (in bytes) of replicating deleted files and folders that were cleaned up from the Conflict and Deleted folder'' [''name'']),
      (''folderDeletedBytesGeneratedTotal'', NewDesc (BuildFQName Namespace ''dfsr'' ''folder_deleted_generated_bytes_total'')
        ''Total size (in bytes) of replicated deleted files and folders that were moved to the Conflict and Deleted folder after they were deleted from a replicated folder on a sending member'' [''name'']),
      (''folderDeletedFilesCleanedUpTotal'', NewDesc (BuildFQName Namespace ''dfsr'' ''folder_deleted_cleaned_up_files_total'')
        ''Number of files and folders that were cleaned up from the Conflict and Deleted folder'' [''name'']),
      (''folderDeletedFilesGeneratedTotal'', NewDesc (BuildFQName Namespace ''dfsr'' ''folder_deleted_generated_files_total'')
        ''Number of deleted files and folders that were moved to the Conflict and Deleted folder'' [''name'']),
      (''folderFileInstallsRetriedTotal'', NewDesc (BuildFQName Namespace ''dfsr'' ''folder_file_installs_retried_total'')
        ''Total number of file installs that are being retried due to sharing violations or other errors encountered when installing the files'' [''name'']),
      (''folderFileInstallsSucceededTotal'', NewDesc (BuildFQName Namespace ''dfsr'' ''folder_file_installs_succeeded_total'')
        ''Total number of files that were successfully received from sending members and installed locally on this server'' [''name'']),
      (''folderFilesReceivedTotal'', NewDesc (BuildFQName Namespace ''dfsr'' ''folder_received_files_total'')
        ''Total number of files received'' [''name'']),
      (''folderRDCBytesReceivedTotal'', NewDesc (BuildFQName Namespace ''dfsr'' ''folder_rdc_received_bytes_total'')
        ''Total number of bytes received in replicating files using Remote Differential Compression'' [''name'']),
      (''folderRDCCompressedSizeOfFilesReceivedTotal'', NewDesc (BuildFQName Namespace ''dfsr'' ''folder_rdc_compressed_size_of_received_files_bytes_total'')
        ''Total compressed size (in bytes) of the files received with Remote Differential Compression'' [''name'']),
      (''folderRDCNumberOfFilesReceivedTotal'', NewDesc (BuildFQName Namespace ''dfsr'' ''folder_rdc_received_files_total'')
        ''Total number of files received with Remote Differential Compression'' [''name'']),
      (''folderRDCSizeOfFilesReceivedTotal'', NewDesc (BuildFQName Namespace ''dfsr'' ''folder_rdc_files_received_bytes_total'')
        ''Total uncompressed size (in bytes) of the files received with Remote Differential Compression'' [''name'']),
      (''folderSizeOfFilesReceivedTotal'', NewDesc (BuildFQName Namespace ''dfsr'' ''folder_files_received_bytes_total'')
        ''Total uncompressed size (in bytes) of the files received'' [''name'']),
      (''folderStagingSpaceInUse'', NewDesc (BuildFQName Namespace ''dfsr'' ''folder_staging_space_in_use_bytes'')
        ''Total size of files and folders currently in the staging folder.'' [''name'']),
      (''folderStagingBytesCleanedUpTotal'', NewDesc (BuildFQName Namespace ''dfsr'' ''folder_staging_cleaned_up_bytes_total'')
        ''Total size (in bytes) of the files and folders that have been cleaned up from the staging folder'' [''name'']),
      (''folderStagingBytesGeneratedTotal'', NewDesc (BuildFQName Namespace ''dfsr'' ''folder_staging_generated_bytes_total'')
        ''Total size (in bytes) of replicated files and folders in the staging folder created by the DFS Replication service since last restart'' [''name'']),
      (''folderStagingFilesCleanedUpTotal'', NewDesc (BuildFQName Namespace ''dfsr'' ''folder_staging_cleaned_up_files_total'')
        ''Total number of files and folders that have been cleaned up from the staging folder'' [''name'']),
      (''folderStagingFilesGeneratedTotal'', NewDesc (BuildFQName Namespace ''dfsr'' ''folder_staging_generated_files_total'')
        ''Total number of times replicated files and folders have been staged by the DFS Replication service'' [''name'']),
      (''folderUpdatesDroppedTotal'', NewDesc (BuildFQName Namespace ''dfsr'' ''folder_dropped_updates_total'')
        ''Total number of redundant file replication update records that have been ignored by the DFS Replication service because they did not change the replicated file or folder'' [''name''])]"

definition dfsr_folder_lines :: "row \<Rightarrow> line list" where
  "dfsr_folder_lines r =
     [(''folderBandwidthSavingsUsingDFSReplicationTotal'', CounterValue, num dfsr_folder_fields r ''BandwidthSavingsUsingDFSReplicationTotal'', [rowName dfsr_folder_fields r]),
      (''folderCompressedSizeOfFilesReceivedTotal'', CounterValue, num dfsr_folder_fields r ''CompressedSizeOfFilesReceivedTotal'', [rowName dfsr_folder_fields r]),
      (''folderConflictBytesCleanedUpTotal'', CounterValue, num dfsr_folder_fields r ''ConflictBytesCleanedUpTotal'', [rowName dfsr_folder_fields r]),
      (''folderConflictBytesGeneratedTotal'', CounterValue, num dfsr_folder_fields r ''ConflictBytesGeneratedTotal'', [rowName dfsr_folder_fields r]),
      (''folderConflictFilesCleanedUpTotal'', CounterValue, num dfsr_folder_fields r ''ConflictFilesCleanedUpTotal'', [rowName dfsr_folder_fields r]),
      (''folderConflictFilesGeneratedTotal'', CounterValue, num dfsr_folder_fields r ''ConflictFilesGeneratedTotal'', [rowName dfsr_folder_fields r]),
      (''folderConflictFolderCleanupsCompletedTotal'', CounterValue, num dfsr_folder_fields r ''ConflictFolderCleanupsCompletedTotal'', [rowName dfsr_folder_fields r]),
      (''folderConflictSpaceInUse'', GaugeValue, num dfsr_folder_fields r ''ConflictSpaceInUse'', [rowName dfsr_folder_fields r]),
      (''folderDeletedSpaceInUse'', GaugeValue, num dfsr_folder_fields r ''DeletedSpaceInUse'', [rowName dfsr_folder_fields r]),
      (''folderDeletedBytesCleanedUpTotal'', CounterValue, num dfsr_folder_fields r ''DeletedBytesCleanedUpTotal'', [rowName dfsr_folder_fields r]),
      (''folderDeletedBytesGeneratedTotal'', CounterValue, num dfsr_folder_fields r ''DeletedBytesGeneratedTotal'', [rowName dfsr_folder_fields r]),
      (''folderDeletedFilesCleanedUpTotal'', CounterValue, num dfsr_folder_fields r ''DeletedFilesCleanedUpTotal'', [rowName dfsr_folder_fields r]),
      (''folderDeletedFilesGeneratedTotal'', CounterValue, num dfsr_folder_fields r ''DeletedFilesGeneratedTotal'', [rowName dfsr_folder_fields r]),
      (''folderFileInstallsRetriedTotal'', CounterValue, num dfsr_folder_fields r ''FileInstallsRetriedTotal'', [rowName dfsr_folder_fields r]),
      (''folderFileInstallsSucceededTotal'', CounterValue, num dfsr_folder_fields r ''FileInstallsSucceededTotal'', [rowName dfsr_folder_fields r]),
      (''folderFilesReceivedTotal'', CounterValue, num dfsr_folder_fields r ''FilesReceivedTotal'', [rowName dfsr_folder_fields r]),
      (''folderRDCBytesReceivedTotal'', CounterValue, num dfsr_folder_fields r ''RdcBytesReceivedTotal'', [rowName dfsr_folder_fields r]),
      (''folderRDCCompressedSizeOfFilesReceivedTotal'', CounterValue, num dfsr_folder_fields r ''RdcCompressedSizeOfFilesReceivedTotal'', [rowName dfsr_folder_fields r]),
      (''folderRDCNumberOfFilesReceivedTotal'', CounterValue, num dfsr_folder_fields r ''RdcNumberOfFilesReceivedTotal'', [rowName dfsr_folder_fields r]),
      (''folderRDCSizeOfFilesReceivedTotal'', CounterValue, num dfsr_folder_fields r ''RdcSizeOfFilesReceivedTotal'', [rowName dfsr_folder_fields r]),
      (''folderSizeOfFilesReceivedTotal'', CounterValue, num dfsr_folder_fields r ''SizeOfFilesReceivedTotal'', [rowName dfsr_folder_fields r]),
      (''folderStagingSpaceInUse'', GaugeValue, num dfsr_folder_fields r ''StagingSpaceInUse'', [rowName dfsr_folder_fields r]),
      (''folderStagingBytesCleanedUpTotal'', CounterValue, num dfsr_folder_fields r ''StagingBytesCleanedUpTotal'', [rowName dfsr_folder_fields r]),
      (''folderStagingBytesGeneratedTotal'', CounterValue, num dfsr_folder_fields r ''StagingBytesGeneratedTotal'', [rowName dfsr_folder_fields r]),
      (''folderStagingFilesCleanedUpTotal'', CounterValue, num dfsr_folder_fields r ''StagingFilesCleanedUpTotal'', [rowName dfsr_folder_fields r]),
      (''folderStagingFilesGeneratedTotal'', CounterValue, num dfsr_folder_fields r ''StagingFilesGeneratedTotal'', [rowName dfsr_folder_fields r]),
      (''folderUpdatesDroppedTotal'', CounterValue, num dfsr_folder_fields r ''UpdatesDroppedTotal'', [rowName dfsr_folder_fields r])]"

definition dfsr_folder_build :: "'w pdh_api \<Rightarrow> u16 \<Rightarrow> 'w \<Rightarrow> (go_error option \<times> perfSource \<times> 'w) option" where
  "dfsr_folder_build api osBuild = perfBuild api osBuild ''failed to create DFS Replicated Folders collector: %w'' ''DFS Replicated Folders'' [''*''] dfsr_folder_fields"

definition dfsr_folder_collect :: "'w pdh_api \<Rightarrow> perfSource \<Rightarrow> 'w \<Rightarrow> (perfSource, 'w) collected" where
  "dfsr_folder_collect api = collectWith api dfsr_folder_fields ''failed to collect DFS Replicated Folders metrics: %w'' dfsr_folder_descs (eachRow (\<lambda>r. True) dfsr_folder_lines)"

definition dfsr_volume_fields :: "structField list" where
  "dfsr_volume_fields =
     [nameField,
      perfField ''DatabaseCommitsTotal'' ''Database Commits'',
      perfField ''DatabaseLookupsTotal'' ''Database Lookups'',
      perfField ''UsnJournalRecordsReadTotal'' ''USN Journal Records Read'',
      perfField ''UsnJournalRecordsAcceptedTotal'' ''USN Journal Records Accepted'',
      perfField ''UsnJournalUnreadPercentage'' ''USN Journal Unread Percentage'']"

definition dfsr_volume_descs :: descTable where
  "dfsr_volume_descs =
     [(''volumeDatabaseCommitsTotal'', NewDesc (BuildFQName Namespace ''dfsr'' ''volume_database_commits_total'')
        ''Total number of DFSR volume database commits'' [''name'']),
      (''volumeDatabaseLookupsTotal'', NewDesc (BuildFQName Namespace ''dfsr'' ''volume_database_lookups_total'')
        ''Total number of DFSR volume database lookups'' [''name'']),
      (''volumeUSNJournalUnreadPercentage'', NewDesc (BuildFQName Namespace ''dfsr'' ''volume_usn_journal_unread_percentage'')
        ''Percentage of DFSR volume USN journal records that are unread'' [''name'']),
      (''volumeUSNJournalRecordsAcceptedTotal'', NewDesc (BuildFQName Namespace ''dfsr'' ''volume_usn_journal_accepted_records_total'')
        ''Total number of USN journal records accepted'' [''name'']),
      (''volumeUSNJournalRecordsReadTotal'', NewDesc (BuildFQName Namespace ''dfsr'' ''volume_usn_journal_read_records_total'')
        ''Total number of DFSR volume USN journal records read'' [''name''])]"

definition dfsr_volume_lines :: "row \<Rightarrow> line list" where
  "dfsr_volume_lines r =
     [(''volumeDatabaseLookupsTotal'', CounterValue, num dfsr_volume_fields r ''DatabaseLookupsTotal'', [rowName dfsr_volume_fields r]),
      (''volumeDatabaseCommitsTotal'', CounterValue, num dfsr_volume_fields r ''DatabaseCommitsTotal'', [rowName dfsr_volume_fields r]),
      (''volumeUSNJournalRecordsAcceptedTotal'', CounterValue, num dfsr_volume_fields r ''UsnJournalRecordsAcceptedTotal'', [rowName dfsr_volume_fields r]),
      (''volumeUSNJournalRecordsReadTotal'', CounterValue, num dfsr_volume_fields r ''UsnJournalRecordsReadTotal'', [rowName dfsr_volume_fields r]),
      (''volumeUSNJournalUnreadPercentage'', GaugeValue, num dfsr_volume_fields r ''UsnJournalUnreadPercentage'', [rowName dfsr_volume_fields r])]"

definition dfsr_volume_build :: "'w pdh_api \<Rightarrow> u16 \<Rightarrow> 'w \<Rightarrow> (go_error option \<times> perfSource \<times> 'w) option" where
  "dfsr_volume_build api osBuild = perfBuild api osBuild ''failed to create DFS Replication Service Volumes collector: %w'' ''DFS Replication Service Volumes'' [''*''] dfsr_volume_fields"

definition dfsr_volume_collect :: "'w pdh_api \<Rightarrow> perfSource \<Rightarrow> 'w \<Rightarrow> (perfSource, 'w) collected" where
  "dfsr_volume_collect api = collectWith api dfsr_volume_fields ''failed to collect DFS Replication Volumes metrics: %w'' dfsr_volume_descs (eachRow (\<lambda>r. True) dfsr_volume_lines)"

section \<open>remote\_fx\<close>

definition normalizeSessionName :: "string \<Rightarrow> string" where
  "normalizeSessionName n = ReplaceFirst n ''RDP-tcp'' ''RDP-Tcp''"

definition namedSession :: "string \<Rightarrow> bool" where
  "namedSession n \<longleftrightarrow> ToLower n \<notin> {[], ''services'', ''console''}"

definition remote_fx_network_fields :: "structField list" where
  "remote_fx_network_fields =
     [nameField,
      perfField ''BaseTCPRTT'' ''Base TCP RTT'',
      perfField ''BaseUDPRTT'' ''Base UDP RTT'',
      perfField ''CurrentTCPBandwidth'' ''Current TCP Bandwidth'',
      perfField ''CurrentTCPRTT'' ''Current TCP RTT'',
      perfField ''CurrentUDPBandwidth'' ''Current UDP Bandwidth'',
      perfField ''CurrentUDPRTT'' ''Current UDP RTT'',
      perfField ''TotalReceivedBytes'' ''Total Received Bytes'',
      perfField ''TotalSentBytes'' ''Total Sent Bytes'',
      perfField ''UDPPacketsReceivedPersec'' ''UDP Packets Received/sec'',
      perfField ''UDPPacketsSentPersec'' ''UDP Packets Sent/sec'',
      perfField ''FECRate'' ''FEC rate'',
      perfField ''LossRate'' ''Loss rate'',
      perfField ''RetransmissionRate'' ''Retransmission rate'']"

definition remote_fx_network_descs :: descTable where
  "remote_fx_network_descs =
     [(''baseTCPRTT'', NewDesc (BuildFQName Namespace ''remote_fx'' ''net_base_tcp_rtt_seconds'')
        ''Base TCP round-trip time (RTT) detected in seconds'' [''session_name'']),
      (''baseUDPRTT'', NewDesc (BuildFQName Namespace ''remote_fx'' ''net_base_udp_rtt_seconds'')
        ''Base UDP round-trip time (RTT) detected in seconds.'' [''session_name'']),
      (''currentTCPBandwidth'', NewDesc (BuildFQName Namespace ''remote_fx'' ''net_current_tcp_bandwidth'')
        ''TCP Bandwidth detected in bytes per second.'' [''session_name'']),
      (''currentTCPRTT'', NewDesc (BuildFQName Namespace ''remote_fx'' ''net_current_tcp_rtt_seconds'')
        ''Average TCP round-trip time (RTT) detected in seconds.'' [''session_name'']),
      (''currentUDPBandwidth'', NewDesc (BuildFQName Namespace ''remote_fx'' ''net_current_udp_bandwidth'')
        ''UDP Bandwidth detected in bytes per second.'' [''session_name'']),
      (''currentUDPRTT'', NewDesc (BuildFQName Namespace ''remote_fx'' ''net_current_udp_rtt_seconds'')
        ''Average UDP round-trip time (RTT) detected in seconds.'' [''session_name'']),
      (''totalReceivedBytes'', NewDesc (BuildFQName Namespace ''remote_fx'' ''net_received_bytes_total'')
        ''(TotalReceivedBytes)'' [''session_name'']),
      (''totalSentBytes'', NewDesc (BuildFQName Namespace ''remote_fx'' ''net_sent_bytes_total'')
        ''(TotalSentBytes)'' [''session_name'']),
      (''udpPacketsReceivedPerSec'', NewDesc (BuildFQName Namespace ''remote_fx'' ''net_udp_packets_received_total'')
        ''Rate in packets per second at which packets are received over UDP.'' [''session_name'']),
      (''udpPacketsSentPerSec'', NewDesc (BuildFQName Namespace ''remote_fx'' ''net_udp_packets_sent_total'')
        ''Rate in packets per second at which packets are sent over UDP.'' [''session_name'']),
      (''fecRate'', NewDesc (BuildFQName Namespace ''remote_fx'' ''net_fec_rate'')
        ''Forward Error Correction (FEC) percentage'' [''session_name'']),
      (''lossRate'', NewDesc (BuildFQName Namespace ''remote_fx'' ''net_loss_rate'')
        ''Loss percentage'' [''session_name'']),
      (''retransmissionRate'', NewDesc (BuildFQName Namespace ''remote_fx'' ''net_retransmission_rate'')
        ''Percentage of packets that have been retransmitted'' [''session_name''])]"

definition remote_fx_network_lines :: "string \<Rightarrow> row \<Rightarrow> line list" where
  "remote_fx_network_lines sessionName r =
     [(''baseTCPRTT'', GaugeValue, MilliSecToSec (num remote_fx_network_fields r ''BaseTCPRTT''), [sessionName]),
      (''baseUDPRTT'', GaugeValue, MilliSecToSec (num remote_fx_network_fields r ''BaseUDPRTT''), [sessionName]),
      (''currentTCPBandwidth'', GaugeValue, f64_div (f64_mul (num remote_fx_network_fields r ''CurrentTCPBandwidth'') (F_Fin 1000)) (F_Fin 8), [sessionName]),
      (''currentTCPRTT'', GaugeValue, MilliSecToSec (num remote_fx_network_fields r ''CurrentTCPRTT''), [sessionName]),
      (''currentUDPBandwidth'', GaugeValue, f64_div (f64_mul (num remote_fx_network_fields r ''CurrentUDPBandwidth'') (F_Fin 1000)) (F_Fin 8), [sessionName]),
      (''currentUDPRTT'', GaugeValue, MilliSecToSec (num remote_fx_network_fields r ''CurrentUDPRTT''), [sessionName]),
      (''totalReceivedBytes'', CounterValue, num remote_fx_network_fields r ''TotalReceivedBytes'', [sessionName]),
      (''totalSentBytes'', CounterValue, num remote_fx_network_fields r ''TotalSentBytes'', [sessionName]),
      (''udpPacketsReceivedPerSec'', CounterValue, num remote_fx_network_fields r ''UDPPacketsReceivedPersec'', [sessionName]),
      (''udpPacketsSentPerSec'', CounterValue, num remote_fx_network_fields r ''UDPPacketsSentPersec'', [sessionName]),
      (''fecRate'', GaugeValue, num remote_fx_network_fields r ''FECRate'', [sessionName]),
      (''lossRate'', GaugeValue, num remote_fx_network_fields r ''LossRate'', [sessionName]),
      (''retransmissionRate'', GaugeValue, num remote_fx_network_fields r ''RetransmissionRate'', [sessionName])]"

definition remote_fx_network_build :: "'w pdh_api \<Rightarrow> u16 \<Rightarrow> 'w \<Rightarrow> (go_error option \<times> perfSource \<times> 'w) option" where
  "remote_fx_network_build api osBuild = perfBuild api osBuild ''failed to create RemoteFX Network collector: %w'' ''RemoteFX Network'' [''*''] remote_fx_network_fields"

definition remote_fx_network_collect :: "'w pdh_api \<Rightarrow> perfSource \<Rightarrow> 'w \<Rightarrow> (perfSource, 'w) collected" where
  "remote_fx_network_collect api = collectWith api remote_fx_network_fields ''failed to collect RemoteFX Network metrics: %w'' remote_fx_network_descs (eachRow (\<lambda>r. namedSession (normalizeSessionName (rowName remote_fx_network_fields r))) (\<lambda>r. remote_fx_network_lines (normalizeSessionName (rowName remote_fx_network_fields r)) r))"

definition remote_fx_graphics_fields :: "structField list" where
  "remote_fx_graphics_fields =
     [nameField,
      perfField ''AverageEncodingTime'' ''Average Encoding Time'',
      perfField ''FrameQuality'' ''Frame Quality'',
      perfField ''FramesSkippedPerSecondInsufficientClientResources'' ''Frames Skipped/Second - Insufficient Server Resources'',
      perfField ''FramesSkippedPerSecondInsufficientNetworkResources'' ''Frames Skipped/Second - Insufficient Network Resources'',
      perfField ''FramesSkippedPerSecondInsufficientServerResources'' ''Frames Skipped/Second - Insufficient Client Resources'',
      perfField ''GraphicsCompressionratio'' ''Graphics Compression ratio'',
      perfField ''InputFramesPerSecond'' ''Input Frames/Second'',
      perfField ''OutputFramesPerSecond'' ''Output Frames/Second'',
      perfField ''SourceFramesPerSecond'' ''Source Frames/Second'']"

definition remote_fx_graphics_descs :: descTable where
  "remote_fx_graphics_descs =
     [(''averageEncodingTime'', NewDesc (BuildFQName Namespace ''remote_fx'' ''gfx_average_encoding_time_seconds'')
        ''Average frame encoding time in seconds'' [''session_name'']),
      (''frameQuality'', NewDesc (BuildFQName Namespace ''remote_fx'' ''gfx_frame_quality'')
        ''Quality of the output frame expressed as a percentage of the quality of the source frame.'' [''session_name'']),
      (''framesSkippedPerSecondInsufficientResources'', NewDesc (BuildFQName Namespace ''remote_fx'' ''gfx_frames_skipped_insufficient_resource_total'')
        ''Number of frames skipped per second due to insufficient client resources.'' [''session_name'', ''resource'']),
      (''graphicsCompressionRatio'', NewDesc (BuildFQName Namespace ''remote_fx'' ''gfx_graphics_compression_ratio'')
        ''Ratio of the number of bytes encoded to the number of bytes input.'' [''session_name'']),
      (''inputFramesPerSecond'', NewDesc (BuildFQName Namespace ''remote_fx'' ''gfx_input_frames_total'')
        ''Number of sources frames provided as input to RemoteFX graphics per second.'' [''session_name'']),
      (''outputFramesPerSecond'', NewDesc (BuildFQName Namespace ''remote_fx'' ''gfx_output_frames_total'')
        ''Number of frames sent to the client per second.'' [''session_name'']),
      (''sourceFramesPerSecond'', NewDesc (BuildFQName Namespace ''remote_fx'' ''gfx_source_frames_total'')
        ''Number of frames composed by the source (DWM) per second.'' [''session_name''])]"

definition remote_fx_graphics_lines :: "string \<Rightarrow> row \<Rightarrow> line list" where
  "remote_fx_graphics_lines sessionName r =
     [(''averageEncodingTime'', GaugeValue, MilliSecToSec (num remote_fx_graphics_fields r ''AverageEncodingTime''), [sessionName]),
      (''frameQuality'', GaugeValue, num remote_fx_graphics_fields r ''FrameQuality'', [sessionName]),
      (''framesSkippedPerSecondInsufficientResources'', CounterValue, num remote_fx_graphics_fields r ''FramesSkippedPerSecondInsufficientClientResources'', [sessionName, ''client'']),
      (''framesSkippedPerSecondInsufficientResources'', CounterValue, num remote_fx_graphics_fields r ''FramesSkippedPerSecondInsufficientNetworkResources'', [sessionName, ''network'']),
      (''framesSkippedPerSecondInsufficientResources'', CounterValue, num remote_fx_graphics_fields r ''FramesSkippedPerSecondInsufficientServerResources'', [sessionName, ''server'']),
      (''graphicsCompressionRatio'', GaugeValue, num remote_fx_graphics_fields r ''GraphicsCompressionratio'', [sessionName]),
      (''inputFramesPerSecond'', CounterValue, num remote_fx_graphics_fields r ''InputFramesPerSecond'', [sessionName]),
      (''outputFramesPerSecond'', CounterValue, num remote_fx_graphics_fields r ''OutputFramesPerSecond'', [sessionName]),
      (''sourceFramesPerSecond'', CounterValue, num remote_fx_graphics_fields r ''SourceFramesPerSecond'', [sessionName])]"

definition remote_fx_graphics_build :: "'w pdh_api \<Rightarrow> u16 \<Rightarrow> 'w \<Rightarrow> (go_error option \<times> perfSource \<times> 'w) option" where
  "remote_fx_graphics_build api osBuild = perfBuild api osBuild ''failed to create RemoteFX Graphics collector: %w'' ''RemoteFX Graphics'' [''*''] remote_fx_graphics_fields"

definition remote_fx_graphics_collect :: "'w pdh_api \<Rightarrow> perfSource \<Rightarrow> 'w \<Rightarrow> (perfSource, 'w) collected" where
  "remote_fx_graphics_collect api = collectWith api remote_fx_graphics_fields ''failed to collect RemoteFX Graphics metrics: %w'' remote_fx_graphics_descs (eachRow (\<lambda>r. namedSession (normalizeSessionName (rowName remote_fx_graphics_fields r))) (\<lambda>r. remote_fx_graphics_lines (normalizeSessionName (rowName remote_fx_graphics_fields r)) r))"

section \<open>Collectors of several parts\<close>

definition nps_parts :: "'w pdh_api \<Rightarrow> u16 \<Rightarrow> 'w subTable" where
  "nps_parts api osBuild =
     [(''access'', \<lparr>subFields = nps_access_fields, subDescs = nps_access_descs, subBuild = nps_access_build api osBuild,
        subCollect = (\<lambda>s w. wrapErr ''failed collecting NPS accept data: %w'' (nps_access_collect api s w)), minBuildNumber = 0\<rparr>),
      (''accounting'', \<lparr>subFields = nps_accounting_fields, subDescs = nps_accounting_descs, subBuild = nps_accounting_build api osBuild,
        subCollect = (\<lambda>s w. wrapErr ''failed collecting NPS accounting data: %w'' (nps_accounting_collect api s w)), minBuildNumber = 0\<rparr>)]"

definition nps_Build :: "'w pdh_api \<Rightarrow> u16 \<Rightarrow> 'w \<Rightarrow> (go_error option \<times> (string \<Rightarrow> perfSource) \<times> 'w) option" where
  "nps_Build api osBuild = (\<lambda>w. partsResult (buildParts (nps_parts api osBuild) [''access'', ''accounting''] (\<lambda>n. noSource) w))"

definition nps_Collect :: "'w pdh_api \<Rightarrow> u16 \<Rightarrow> (string \<Rightarrow> perfSource) \<Rightarrow> 'w \<Rightarrow> (string \<Rightarrow> perfSource, 'w) collected" where
  "nps_Collect api osBuild = collectParts (nps_parts api osBuild) [''access'', ''accounting'']"

definition vmware_parts :: "'w pdh_api \<Rightarrow> u16 \<Rightarrow> 'w subTable" where
  "vmware_parts api osBuild =
     [(''cpu'', \<lparr>subFields = vmware_cpu_fields, subDescs = vmware_cpu_descs, subBuild = vmware_cpu_build api osBuild,
        subCollect = (\<lambda>s w. wrapErr ''failed collecting vmware cpu metrics: %w'' (vmware_cpu_collect api s w)), minBuildNumber = 0\<rparr>),
      (''memory'', \<lparr>subFields = vmware_memory_fields, subDescs = vmware_memory_descs, subBuild = vmware_memory_build api osBuild,
        subCollect = (\<lambda>s w. wrapErr ''failed collecting vmware memory metrics: %w'' (vmware_memory_collect api s w)), minBuildNumber = 0\<rparr>)]"

definition vmware_Build :: "'w pdh_api \<Rightarrow> u16 \<Rightarrow> 'w \<Rightarrow> (go_error option \<times> (string \<Rightarrow> perfSource) \<times> 'w) option" where
  "vmware_Build api osBuild = (\<lambda>w. partsResult (buildParts (vmware_parts api osBuild) [''cpu'', ''memory''] (\<lambda>n. noSource) w))"

definition vmware_Collect :: "'w pdh_api \<Rightarrow> u16 \<Rightarrow> (string \<Rightarrow> perfSource) \<Rightarrow> 'w \<Rightarrow> (string \<Rightarrow> perfSource, 'w) collected" where
  "vmware_Collect api osBuild = collectParts (vmware_parts api osBuild) [''cpu'', ''memory'']"

definition remote_fx_parts :: "'w pdh_api \<Rightarrow> u16 \<Rightarrow> 'w subTable" where
  "remote_fx_parts api osBuild =
     [(''network'', \<lparr>subFields = remote_fx_network_fields, subDescs = remote_fx_network_descs, subBuild = remote_fx_network_build api osBuild,
        subCollect = (\<lambda>s w. wrapErr ''failed collecting RemoteFX Network metrics: %w'' (remote_fx_network_collect api s w)), minBuildNumber = 0\<rparr>),
      (''graphics'', \<lparr>subFields = remote_fx_graphics_fields, subDescs = remote_fx_graphics_descs, subBuild = remote_fx_graphics_build api osBuild,
        subCollect = (\<lambda>s w. wrapErr ''failed collecting RemoteFX Graphics metrics: %w'' (remote_fx_graphics_collect api s w)), minBuildNumber = 0\<rparr>)]"

definition remote_fx_Build :: "'w pdh_api \<Rightarrow> u16 \<Rightarrow> 'w \<Rightarrow> (go_error option \<times> (string \<Rightarrow> perfSource) \<times> 'w) option" where
  "remote_fx_Build api osBuild = (\<lambda>w. partsResult (buildParts (remote_fx_parts api osBuild) [''network'', ''graphics''] (\<lambda>n. noSource) w))"

definition remote_fx_Collect :: "'w pdh_api \<Rightarrow> u16 \<Rightarrow> (string \<Rightarrow> perfSource) \<Rightarrow> 'w \<Rightarrow> (string \<Rightarrow> perfSource, 'w) collected" where
  "remote_fx_Collect api osBuild = collectParts (remote_fx_parts api osBuild) [''network'', ''graphics'']"

definition dfsr_parts :: "'w pdh_api \<Rightarrow> u16 \<Rightarrow> 'w subTable" where
  "dfsr_parts api osBuild =
     [(''connection'', \<lparr>subFields = dfsr_connection_fields, subDescs = dfsr_connection_descs, subBuild = dfsr_connection_build api osBuild,
        subCollect = dfsr_connection_collect api, minBuildNumber = 0\<rparr>),
      (''folder'', \<lparr>subFields = dfsr_folder_fields, subDescs = dfsr_folder_descs, subBuild = dfsr_folder_build api osBuild,
        subCollect = dfsr_folder_collect api, minBuildNumber = 0\<rparr>),
      (''volume'', \<lparr>subFields = dfsr_volume_fields, subDescs = dfsr_volume_descs, subBuild = dfsr_volume_build api osBuild,
        subCollect = dfsr_volume_collect api, minBuildNumber = 0\<rparr>)]"

text \<open>The parts of DFS replication are enabled one by one, and the build ends at the first error.\<close>

definition dfsr_enabled :: "string list \<Rightarrow> string list" where
  "dfsr_enabled enabled = filter (\<lambda>n. n \<in> set enabled) [''connection'', ''folder'', ''volume'']"

definition dfsr_Build :: "'w pdh_api \<Rightarrow> u16 \<Rightarrow> string list \<Rightarrow> 'w \<Rightarrow> (go_error option \<times> (string \<Rightarrow> perfSource) \<times> 'w) option" where
  "dfsr_Build api osBuild enabled = buildUntil (dfsr_parts api osBuild) (dfsr_enabled enabled) (\<lambda>n. noSource)"

definition dfsr_Collect :: "'w pdh_api \<Rightarrow> u16 \<Rightarrow> string list \<Rightarrow> (string \<Rightarrow> perfSource) \<Rightarrow> 'w \<Rightarrow> (string \<Rightarrow> perfSource, 'w) collected" where
  "dfsr_Collect api osBuild enabled = collectParts (dfsr_parts api osBuild) (dfsr_enabled enabled)"

section \<open>The tables\<close>

lemma thermalzone_names: "distinct (map (\<lambda>(n, d). fqName d) thermalzone_descs)" by code_simp

lemma thermalzone_table: "table_ok thermalzone_descs (thermalzone_lines r)"
  by (rule table_ok_names; unfold thermalzone_lines_def line_simps) code_simp+

interpretation thermalzone: each_row_collector thermalzone_descs thermalzone_lines thermalzone_fields "\<lambda>n. 0"
  by unfold_locales (auto simp: thermalzone_names thermalzone_table, simp add: thermalzone_lines_def, simp add: thermalzone_fields_def nameField_def)

lemma msmq_names: "distinct (map (\<lambda>(n, d). fqName d) msmq_descs)" by code_simp

lemma msmq_table: "table_ok msmq_descs (msmq_lines r)"
  by (rule table_ok_names; unfold msmq_lines_def line_simps) code_simp+

interpretation msmq: each_row_collector msmq_descs msmq_lines msmq_fields "\<lambda>n. 0"
  by unfold_locales (auto simp: msmq_names msmq_table, simp add: msmq_lines_def, simp add: msmq_fields_def nameField_def)

lemma smb_names: "distinct (map (\<lambda>(n, d). fqName d) smb_descs)" by code_simp

lemma smb_table: "table_ok smb_descs (smb_lines r)"
  by (rule table_ok_names; unfold smb_lines_def line_simps) code_simp+

interpretation smb: each_row_collector smb_descs smb_lines smb_fields "\<lambda>n. 0"
  by unfold_locales (auto simp: smb_names smb_table, simp add: smb_lines_def, simp add: smb_fields_def nameField_def)

lemma smbclient_names: "distinct (map (\<lambda>(n, d). fqName d) smbclient_descs)" by code_simp

lemma smbclient_table: "table_ok smbclient_descs (smbclient_lines server share r)"
  by (rule table_ok_names; unfold smbclient_lines_def line_simps) code_simp+

lemma nps_access_names: "distinct (map (\<lambda>(n, d). fqName d) nps_access_descs)" by code_simp

lemma nps_access_table: "table_ok nps_access_descs (nps_access_lines r)"
  by (rule table_ok_names; unfold nps_access_lines_def line_simps) code_simp+

interpretation nps_access: first_row_collector nps_access_descs nps_access_lines
  by unfold_locales (rule nps_access_names nps_access_table)+

lemma nps_accounting_names: "distinct (map (\<lambda>(n, d). fqName d) nps_accounting_descs)" by code_simp

lemma nps_accounting_table: "table_ok nps_accounting_descs (nps_accounting_lines r)"
  by (rule table_ok_names; unfold nps_accounting_lines_def line_simps) code_simp+

interpretation nps_accounting: first_row_collector nps_accounting_descs nps_accounting_lines
  by unfold_locales (rule nps_accounting_names nps_accounting_table)+

lemma vmware_cpu_names: "distinct (map (\<lambda>(n, d). fqName d) vmware_cpu_descs)" by code_simp

lemma vmware_cpu_table: "table_ok vmware_cpu_descs (vmware_cpu_lines r)"
  by (rule table_ok_names; unfold vmware_cpu_lines_def line_simps) code_simp+

interpretation vmware_cpu: first_row_collector vmware_cpu_descs vmware_cpu_lines
  by unfold_locales (rule vmware_cpu_names vmware_cpu_table)+

lemma vmware_memory_names: "distinct (map (\<lambda>(n, d). fqName d) vmware_memory_descs)" by code_simp

lemma vmware_memory_table: "table_ok vmware_memory_descs (vmware_memory_lines r)"
  by (rule table_ok_names; unfold vmware_memory_lines_def line_simps) code_simp+

interpretation vmware_memory: first_row_collector vmware_memory_descs vmware_memory_lines
  by unfold_locales (rule vmware_memory_names vmware_memory_table)+

lemma dfsr_connection_names: "distinct (map (\<lambda>(n, d). fqName d) dfsr_connection_descs)" by code_simp

lemma dfsr_connection_table: "table_ok dfsr_connection_descs (dfsr_connection_lines r)"
  by (rule table_ok_names; unfold dfsr_connection_lines_def line_simps) code_simp+

interpretation dfsr_connection: each_row_collector dfsr_connection_descs dfsr_connection_lines dfsr_connection_fields "\<lambda>n. 0"
  by unfold_locales (auto simp: dfsr_connection_names dfsr_connection_table, simp add: dfsr_connection_lines_def, simp add: dfsr_connection_fields_def nameField_def)

lemma dfsr_folder_names: "distinct (map (\<lambda>(n, d). fqName d) dfsr_folder_descs)" by code_simp

lemma dfsr_folder_table: "table_ok dfsr_folder_descs (dfsr_folder_lines r)"
  by (rule table_ok_names; unfold dfsr_folder_lines_def line_simps) code_simp+

interpretation dfsr_folder: each_row_collector dfsr_folder_descs dfsr_folder_lines dfsr_folder_fields "\<lambda>n. 0"
  by unfold_locales (auto simp: dfsr_folder_names dfsr_folder_table, simp add: dfsr_folder_lines_def, simp add: dfsr_folder_fields_def nameField_def)

lemma dfsr_volume_names: "distinct (map (\<lambda>(n, d). fqName d) dfsr_volume_descs)" by code_simp

lemma dfsr_volume_table: "table_ok dfsr_volume_descs (dfsr_volume_lines r)"
  by (rule table_ok_names; unfold dfsr_volume_lines_def line_simps) code_simp+

interpretation dfsr_volume: each_row_collector dfsr_volume_descs dfsr_volume_lines dfsr_volume_fields "\<lambda>n. 0"
  by unfold_locales (auto simp: dfsr_volume_names dfsr_volume_table, simp add: dfsr_volume_lines_def, simp add: dfsr_volume_fields_def nameField_def)

lemma remote_fx_network_names: "distinct (map (\<lambda>(n, d). fqName d) remote_fx_network_descs)" by code_simp

lemma remote_fx_network_table: "table_ok remote_fx_network_descs (remote_fx_network_lines sessionName r)"
  by (rule table_ok_names; unfold remote_fx_network_lines_def line_simps) code_simp+

lemma remote_fx_graphics_names: "distinct (map (\<lambda>(n, d). fqName d) remote_fx_graphics_descs)" by code_simp

lemma remote_fx_graphics_table: "table_ok remote_fx_graphics_descs (remote_fx_graphics_lines sessionName r)"
  by (rule table_ok_rests [of _ _ 0]; unfold remote_fx_graphics_lines_def line_simps rest_simps) code_simp+

section \<open>The contracts\<close>

lemma nps_all_names: "distinct (concat (map (\<lambda>(n, s). descNames (subDescs s)) (nps_parts api osBuild)))"
proof -
  have "map (\<lambda>(n, s). descNames (subDescs s)) (nps_parts api osBuild) = map descNames [nps_access_descs, nps_accounting_descs]"
    by (simp add: nps_parts_def)
  moreover have "distinct (concat (map descNames [nps_access_descs, nps_accounting_descs]))"
    by (rule distinct_nameCodes; unfold descNames_def nps_access_descs_def nps_accounting_descs_def) (simp only: name_code_simps)
  ultimately show ?thesis by simp
qed

interpretation nps: sub_table api "nps_parts api osBuild" "{''access'', ''accounting''}"
proof
  show "list_all (\<lambda>(n, s). n \<in> {''access'', ''accounting''} \<longrightarrow> sub_sound api s) (nps_parts api osBuild)"
    by (simp add: nps_parts_def sub_sound_wrapErr nps_access_build_def nps_access_collect_def nps_accounting_build_def nps_accounting_collect_def nps_access.index_sound nps_accounting.index_sound)
qed (rule nps_all_names)

lemma vmware_all_names: "distinct (concat (map (\<lambda>(n, s). descNames (subDescs s)) (vmware_parts api osBuild)))"
proof -
  have "map (\<lambda>(n, s). descNames (subDescs s)) (vmware_parts api osBuild) = map descNames [vmware_cpu_descs, vmware_memory_descs]"
    by (simp add: vmware_parts_def)
  moreover have "distinct (concat (map descNames [vmware_cpu_descs, vmware_memory_descs]))"
    by (rule distinct_nameCodes; unfold descNames_def vmware_cpu_descs_def vmware_memory_descs_def) (simp only: name_code_simps)
  ultimately show ?thesis by simp
qed

interpretation vmware: sub_table api "vmware_parts api osBuild" "{''cpu'', ''memory''}"
proof
  show "list_all (\<lambda>(n, s). n \<in> {''cpu'', ''memory''} \<longrightarrow> sub_sound api s) (vmware_parts api osBuild)"
    by (simp add: vmware_parts_def sub_sound_wrapErr vmware_cpu_build_def vmware_cpu_collect_def vmware_memory_build_def vmware_memory_collect_def vmware_cpu.index_sound vmware_memory.index_sound)
qed (rule vmware_all_names)

lemma dfsr_all_names: "distinct (concat (map (\<lambda>(n, s). descNames (subDescs s)) (dfsr_parts api osBuild)))"
proof -
  have "map (\<lambda>(n, s). descNames (subDescs s)) (dfsr_parts api osBuild) = map descNames [dfsr_connection_descs, dfsr_folder_descs, dfsr_volume_descs]"
    by (simp add: dfsr_parts_def)
  moreover have "distinct (concat (map descNames [dfsr_connection_descs, dfsr_folder_descs, dfsr_volume_descs]))"
    by (rule distinct_nameCodes; unfold descNames_def dfsr_connection_descs_def dfsr_folder_descs_def dfsr_volume_descs_def) (simp only: name_code_simps)
  ultimately show ?thesis by simp
qed

interpretation dfsr: sub_table api "dfsr_parts api osBuild" "{''connection'', ''folder'', ''volume''}"
proof
  show "list_all (\<lambda>(n, s). n \<in> {''connection'', ''folder'', ''volume''} \<longrightarrow> sub_sound api s) (dfsr_parts api osBuild)"
    by (simp add: dfsr_parts_def dfsr_connection_build_def dfsr_connection_collect_def dfsr_folder_build_def dfsr_folder_collect_def dfsr_volume_build_def dfsr_volume_collect_def dfsr_connection.each_row_sound dfsr_folder.each_row_sound dfsr_volume.each_row_sound)
qed (rule dfsr_all_names)

text \<open>Every scrape of these collectors after a successful build is accepted by the library.\<close>

theorem nps_always_accepted:
  "reachable (nps_Build api osBuild) (nps_Collect api osBuild)
     \<subseteq> {c. \<forall>w. scrape_ok (subsPanic api (nps_parts api osBuild) [''access'', ''accounting''] c w) (nps_Collect api osBuild c w)}"
  unfolding nps_Build_def nps_Collect_def
  by (rule perf_contract.reachable_ok [OF nps.joined_parts_contract]) (simp_all add: nps_parts_def dom_map_of_conv_image_fst)

theorem vmware_always_accepted:
  "reachable (vmware_Build api osBuild) (vmware_Collect api osBuild)
     \<subseteq> {c. \<forall>w. scrape_ok (subsPanic api (vmware_parts api osBuild) [''cpu'', ''memory''] c w) (vmware_Collect api osBuild c w)}"
  unfolding vmware_Build_def vmware_Collect_def
  by (rule perf_contract.reachable_ok [OF vmware.joined_parts_contract]) (simp_all add: vmware_parts_def dom_map_of_conv_image_fst)

theorem dfsr_always_accepted:
  "reachable (dfsr_Build api osBuild enabled) (dfsr_Collect api osBuild enabled)
     \<subseteq> {c. \<forall>w. scrape_ok (subsPanic api (dfsr_parts api osBuild) (dfsr_enabled enabled) c w) (dfsr_Collect api osBuild enabled c w)}"
proof -
  have "distinct (dfsr_enabled enabled)" by (simp add: dfsr_enabled_def)
  moreover have "set (dfsr_enabled enabled) \<subseteq> dom (map_of (dfsr_parts api osBuild)) \<inter> {''connection'', ''folder'', ''volume''}"
    by (auto simp: dfsr_parts_def dfsr_enabled_def dom_map_of_conv_image_fst)
  ultimately show ?thesis
    unfolding dfsr_Build_def dfsr_Collect_def by (rule perf_contract.reachable_ok [OF dfsr.until_parts_contract])
qed

theorem smb_always_accepted:
  "reachable (smb_build api osBuild) (smb_collect api) \<subseteq> {c. \<forall>w. scrape_ok (perfCollect api smb_fields c w = None) (smb_collect api c w)}"
  unfolding smb_build_def smb_collect_def by (rule smb.always_accepted)

theorem msmq_always_accepted:
  "reachable (msmq_build api osBuild) (msmq_collect api) \<subseteq> {c. \<forall>w. scrape_ok (perfCollect api msmq_fields c w = None) (msmq_collect api c w)}"
  unfolding msmq_build_def msmq_collect_def by (rule msmq.always_accepted)

theorem thermalzone_always_accepted:
  "reachable (thermalzone_build api osBuild) (thermalzone_collect api)
     \<subseteq> {c. \<forall>w. scrape_ok (perfCollect api thermalzone_fields c w = None) (thermalzone_collect api c w)}"
  unfolding thermalzone_build_def thermalzone_collect_def by (rule thermalzone.always_accepted)

section \<open>Labels made of the name\<close>

text \<open>
  The shares of the SMB client are labelled with the server and the share that the name is split into, and the sessions of RemoteFX with the normalized name: what is sent
  is accepted when these differ.
\<close>

definition smbShare :: "row \<Rightarrow> string list" where
  "smbShare r = FieldsFunc (\<lambda>c. c = CHR 0x5C) (rowName smbclient_fields r)"

lemma smbclient_row_cases:
  "smbclient_row r = Inr lns \<longleftrightarrow> (\<exists>server share. smbShare r = [server, share] \<and> lns = smbclient_lines server share r)"
  by (auto simp: smbclient_row_def smbShare_def split: list.splits)

interpretation smbclient: loop_collector smbclient_descs smbclient_row smbShare "\<lambda>n ls. ls"
proof
  show "distinct (map (\<lambda>(n, d). fqName d) smbclient_descs)" by (rule smbclient_names)
  show "table_ok smbclient_descs (case smbclient_row r of Inl e \<Rightarrow> [] | Inr ls \<Rightarrow> ls)" for r
    by (auto simp: smbclient_row_cases smbclient_table table_ok_def split: sum.splits) (simp_all add: smbclient_table [unfolded table_ok_def])
  show "list_all (\<lambda>(n, vt, v, ls). ls = smbShare r) lns" if "smbclient_row r = Inr lns" for r lns
    using that by (auto simp: smbclient_row_cases smbclient_lines_def)
qed

theorem smbclient_accepted:
  assumes "distinct (map smbShare rs)"
  shows "accepted (sendAll smbclient_descs (snd (untilError smbclient_row rs))) \<and>
    (fst (untilError smbclient_row rs) = None \<longleftrightarrow> list_all (\<lambda>r. length (smbShare r) = 2) rs)"
proof
  show "accepted (sendAll smbclient_descs (snd (untilError smbclient_row rs)))" by (rule smbclient.loop_accepted [OF assms])
  have "acceptedRow smbclient_row r \<longleftrightarrow> length (smbShare r) = 2" for r
    by (auto simp: acceptedRow_def smbclient_row_def smbShare_def split: list.splits)
  then show "fst (untilError smbclient_row rs) = None \<longleftrightarrow> list_all (\<lambda>r. length (smbShare r) = 2) rs"
    by (simp add: untilError_none list_all_iff)
qed

interpretation remote_fx_network: keyed_table remote_fx_network_descs
    "\<lambda>r. remote_fx_network_lines (normalizeSessionName (rowName remote_fx_network_fields r)) r"
    "\<lambda>r. normalizeSessionName (rowName remote_fx_network_fields r)" "\<lambda>n. 0"
  by unfold_locales (rule remote_fx_network_names, rule remote_fx_network_table, simp add: remote_fx_network_lines_def)

interpretation remote_fx_graphics: labelled_table remote_fx_graphics_descs
    "\<lambda>r. remote_fx_graphics_lines (normalizeSessionName (rowName remote_fx_graphics_fields r)) r"
    "\<lambda>r. normalizeSessionName (rowName remote_fx_graphics_fields r)" "\<lambda>n ls. ls ! 0"
  by unfold_locales (rule remote_fx_graphics_names, rule remote_fx_graphics_table, simp add: remote_fx_graphics_lines_def)

end
