(* ===== verification/Mssql_Class.thy ===== *)
theory Mssql_Class
  imports Perf_Subs Utils "HOL-Library.AList"
begin

text \<open>
  The parts of the SQL Server collector (internal/collector/mssql) that its classes of counters share: the instances found in the registry, and one PDH
  collector per instance. A class is a struct, descriptors and the metrics of a row; the code that builds and runs the classes is the same for all of
  them, so that it is written once over the table of a class. The contract says that what a class sends for its instances is accepted.
\<close>

section \<open>Instances\<close>

definition serverVersion2019 :: int where "serverVersion2019 = 15"

text \<open>\<open>strings.Cut\<close> at a character: what is before it and what is after it.\<close>

definition cutBefore :: "string \<Rightarrow> char \<Rightarrow> string" where
  "cutBefore s c = takeWhile (\<lambda>x. x \<noteq> c) s"

definition cutAfter :: "string \<Rightarrow> char \<Rightarrow> string" where
  "cutAfter s c = tl (dropWhile (\<lambda>x. x \<noteq> c) s)"

definition newMajorVersion :: "string \<Rightarrow> int" where
  "newMajorVersion patchVersion =
     (case map_of [(''11'', 11), (''12'', 12), (''13'', 13), (''14'', 14), (''15'', 15), (''16'', 16), (''17'', 17)] (cutBefore patchVersion (CHR ''.'')) of
        None \<Rightarrow> 0 | Some v \<Rightarrow> v)"

definition majorVersion_String :: "int \<Rightarrow> string" where
  "majorVersion_String v =
     (case map_of [(11, ''2012''), (12, ''2014''), (13, ''2016''), (14, ''2017''), (15, ''2019''), (16, ''2022''), (17, ''2025'')] v of
        None \<Rightarrow> ''unknown'' | Some s \<Rightarrow> s)"

record mssqlInstance =
  instanceName :: string
  majorVersion :: int
  patchVersion :: string
  edition :: string
  isFirstInstance :: bool

text \<open>\<open>openKey\<close> opens a registry key below HKEY\_LOCAL\_MACHINE and gives its string values.\<close>

definition newMssqlInstance ::
  "(string \<Rightarrow> go_error + (string \<Rightarrow> go_error + string)) \<Rightarrow> string \<Rightarrow> string \<Rightarrow> go_error + mssqlInstance" where
  "newMssqlInstance openKey key n =
     (case openKey (''Software'' @ [CHR 0x5C] @ ''Microsoft'' @ [CHR 0x5C] @ ''Microsoft SQL Server'' @ [CHR 0x5C] @ n @ [CHR 0x5C] @ ''Setup'') of
        Inl e \<Rightarrow> Inl (Wrapf (''couldn't open registry Software'' @ [CHR 0x5C] @ ''Microsoft'' @ [CHR 0x5C] @ ''Microsoft SQL Server'' @ [CHR 0x5C] @ ''%s'' @ [CHR 0x5C] @ ''Setup: %w'') [n] e)
      | Inr values \<Rightarrow>
          (case values ''PatchLevel'' of
             Inl e \<Rightarrow> Inl (Wrapf ''couldn't get version from registry: %w'' [] e)
           | Inr patch \<Rightarrow>
               (case values ''Edition'' of
                  Inl e \<Rightarrow> Inl (Wrapf ''couldn't get version from registry: %w'' [] e)
                | Inr ed \<Rightarrow>
                    Inr \<lparr>instanceName = cutAfter n (CHR ''.''), majorVersion = newMajorVersion patch, patchVersion = patch, edition = ed,
                         isFirstInstance = (key = ''MSSQLSERVER'')\<rparr>)))"

fun readInstances ::
  "(string \<Rightarrow> go_error + (string \<Rightarrow> go_error + string)) \<Rightarrow> (string \<Rightarrow> go_error + string) \<Rightarrow> string list \<Rightarrow> go_error + mssqlInstance list" where
  "readInstances openKey values [] = Inr []"
| "readInstances openKey values (n # ns) =
     (case values n of
        Inl e \<Rightarrow> Inl (Wrapf ''couldn't get instance info: %w'' [] e)
      | Inr version \<Rightarrow>
          (case newMssqlInstance openKey n version of
             Inl e \<Rightarrow> Inl e
           | Inr inst \<Rightarrow> (case readInstances openKey values ns of Inl e \<Rightarrow> Inl e | Inr is \<Rightarrow> Inr (inst # is))))"

definition getMSSQLInstances ::
  "(string \<Rightarrow> go_error + (string \<Rightarrow> go_error + string)) \<Rightarrow> go_error + string list \<Rightarrow> go_error + mssqlInstance list" where
  "getMSSQLInstances openKey readValueNames =
     (case openKey (''Software'' @ [CHR 0x5C] @ ''Microsoft'' @ [CHR 0x5C] @ ''Microsoft SQL Server'' @ [CHR 0x5C] @ ''Instance Names'' @ [CHR 0x5C] @ ''SQL'') of
        Inl e \<Rightarrow> Inl (Wrapf ''couldn't open registry to determine SQL instances: %w'' [] e)
      | Inr values \<Rightarrow>
          (case readValueNames of
             Inl e \<Rightarrow> Inl (Wrapf ''couldn't read subkey names: %w'' [] e)
           | Inr ns \<Rightarrow> readInstances openKey values ns))"

definition mssqlGetPerfObjectName :: "mssqlInstance \<Rightarrow> string \<Rightarrow> string" where
  "mssqlGetPerfObjectName inst collector =
     (if isFirstInstance inst then ''SQLServer:'' else ''MSSQL$'' @ instanceName inst @ '':'') @ collector"

section \<open>Classes\<close>

record mssqlSub =
  msFields :: "structField list"
  msDescs :: descTable
  msObject :: string
  msErrObject :: string
  msCreate :: string
  msInstances :: "string list"
  msFirst :: bool
  msLines :: "string \<Rightarrow> row \<Rightarrow> line list"

text \<open>
  What a class keeps: the map from instances to PDH collectors, in the order in which a loop over it goes, and the slice of rows that the
  instances share.
\<close>

record mssqlClass =
  perfDataCollectors :: "(mssqlInstance \<times> pdhCollector option) list"
  classObject :: "row list"

definition mssql_meta_descs :: descTable where
  "mssql_meta_descs =
     [(''mssqlScrapeDurationDesc'', NewDesc (BuildFQName Namespace ''mssql'' ''collector_duration_seconds'')
        ''windows_exporter: Duration of an mssql child collection.'' [''collector'', ''mssql_instance'']),
      (''mssqlScrapeSuccessDesc'', NewDesc (BuildFQName Namespace ''mssql'' ''collector_success'')
        ''windows_exporter: Whether a mssql child collector was successful.'' [''collector'', ''mssql_instance''])]"

text \<open>
  The build functions of the classes: a PDH collector per instance, kept also when it comes with an error. \<open>keep\<close> are the instances that the class is for.
\<close>

fun buildClass ::
  "'w pdh_api \<Rightarrow> u16 \<Rightarrow> mssqlSub \<Rightarrow> (mssqlInstance \<Rightarrow> bool) \<Rightarrow> mssqlInstance list \<Rightarrow> 'w \<Rightarrow>
   (go_error list \<times> (mssqlInstance \<times> pdhCollector option) list \<times> 'w) option" where
  "buildClass api osBuild s keep [] w = Some ([], [], w)"
| "buildClass api osBuild s keep (inst # is) w =
     (if \<not> keep inst then buildClass api osBuild s keep is w
      else case NewCollectorWithReflection api osBuild CounterTypeRaw (mssqlGetPerfObjectName inst (msObject s)) (msInstances s) (msFields s) w of
             None \<Rightarrow> None
           | Some (p, err, w1) \<Rightarrow>
               map_option (\<lambda>(es, m, w2). (non_nil [map_option (Wrapf (msCreate s) [instanceName inst]) err] @ es, AList.update inst p m, w2))
                 (buildClass api osBuild s keep is w1))"

text \<open>The metrics of one instance: those of its first row, where an empty slice panics, or those of every row.\<close>

definition instanceLines :: "mssqlSub \<Rightarrow> string \<Rightarrow> row list \<Rightarrow> line list option" where
  "instanceLines s i rs =
     (if msFirst s then (case rs of [] \<Rightarrow> None | r # _ \<Rightarrow> Some (msLines s i r)) else Some (concat (map (msLines s i) rs)))"

definition collectInstance ::
  "'w pdh_api \<Rightarrow> mssqlSub \<Rightarrow> mssqlInstance \<Rightarrow> perfSource \<Rightarrow> 'w \<Rightarrow> (go_error option \<times> line list \<times> perfSource \<times> 'w) option" where
  "collectInstance api s inst src w =
     (case perfCollect api (msFields s) src w of
        None \<Rightarrow> None
      | Some (Some e, src', w') \<Rightarrow>
          Some (Some (Wrapf ''failed to collect %s metrics: %w'' [mssqlGetPerfObjectName inst (msErrObject s)] e), [], src', w')
      | Some (None, src', w') \<Rightarrow>
          (case instanceLines s (instanceName inst) (perfDataObject src') of None \<Rightarrow> None | Some lns \<Rightarrow> Some (None, lns, src', w')))"

text \<open>
  \<open>collect\<close>: the instances one after the other, with the duration and the success of each. No data is no error. \<open>duration\<close> gives the seconds that
  the step for an instance took.
\<close>

definition metaLines :: "string \<Rightarrow> string \<Rightarrow> f64 \<Rightarrow> bool \<Rightarrow> line list" where
  "metaLines collector i duration success =
     (if collector = [] then []
      else [(''mssqlScrapeDurationDesc'', GaugeValue, duration, [collector, i]),
            (''mssqlScrapeSuccessDesc'', GaugeValue, F_Fin (if success then 1 else 0), [collector, i])])"

definition failed :: "go_error option \<Rightarrow> bool" where
  "failed err \<longleftrightarrow> (case err of None \<Rightarrow> False | Some e \<Rightarrow> \<not> errors_is e pdh_ErrNoData)"

fun collectInstances ::
  "'w pdh_api \<Rightarrow> (mssqlInstance \<Rightarrow> 'w \<Rightarrow> f64) \<Rightarrow> string \<Rightarrow> mssqlSub \<Rightarrow> (mssqlInstance \<times> pdhCollector option) list \<Rightarrow> row list \<Rightarrow> 'w \<Rightarrow>
   (go_error list \<times> line list \<times> (mssqlInstance \<times> pdhCollector option) list \<times> row list \<times> 'w) option" where
  "collectInstances api duration collector s [] obj w = Some ([], [], [], obj, w)"
| "collectInstances api duration collector s ((inst, p) # m) obj w =
     (case collectInstance api s inst \<lparr>perfDataCollector = p, perfDataObject = obj\<rparr> w of
        None \<Rightarrow> None
      | Some (err, lns, src, w1) \<Rightarrow>
          map_option (\<lambda>(es, lns2, m2, obj2, w2).
              ((if failed err then non_nil [err] else []) @ es,
               lns @ metaLines collector (instanceName inst) (duration inst w) (\<not> failed err) @ lns2,
               (inst, perfDataCollector src) # m2, obj2, w2))
            (collectInstances api duration collector s m (perfDataObject src) w1))"

definition collectClass ::
  "'w pdh_api \<Rightarrow> (mssqlInstance \<Rightarrow> 'w \<Rightarrow> f64) \<Rightarrow> string \<Rightarrow> mssqlSub \<Rightarrow> mssqlClass \<Rightarrow> 'w \<Rightarrow> (mssqlClass, 'w) collected" where
  "collectClass api duration collector s c w =
     (case collectInstances api duration collector s (perfDataCollectors c) (classObject c) w of
        None \<Rightarrow> None
      | Some (es, lns, m, obj, w') \<Rightarrow>
          (case sendAll (msDescs s @ mssql_meta_descs) lns of
             None \<Rightarrow> None
           | Some ms \<Rightarrow> Some (errors_Join es, ms, \<lparr>perfDataCollectors = m, classObject = obj\<rparr>, w')))"

definition closeClass :: "'w pdh_api \<Rightarrow> mssqlClass \<Rightarrow> 'w \<Rightarrow> 'w" where
  "closeClass api c w = fold (\<lambda>(inst, p) w. snd (Close api p w)) (perfDataCollectors c) w"

section \<open>The contract of a class\<close>

abbreviation classDescs :: "mssqlSub \<Rightarrow> descTable" where
  "classDescs s \<equiv> msDescs s @ mssql_meta_descs"

definition collector_ok :: "mssqlSub \<Rightarrow> pdhCollector option \<Rightarrow> bool" where
  "collector_ok s p \<longleftrightarrow> source_ok (msFields s) \<lparr>perfDataCollector = p, perfDataObject = []\<rparr>"

lemma collector_ok_source: "source_ok (msFields s) src \<longleftrightarrow> collector_ok s (perfDataCollector src)"
  by (simp add: collector_ok_def source_ok_def)

definition class_inv :: "mssqlSub \<Rightarrow> mssqlClass \<Rightarrow> bool" where
  "class_inv s c \<longleftrightarrow>
     list_all (\<lambda>(inst, p). collector_ok s p) (perfDataCollectors c) \<and> distinct (map (\<lambda>(inst, p). instanceName inst) (perfDataCollectors c))"

text \<open>The worker of the PDH client panics for one of the instances.\<close>

fun classPanics :: "'w pdh_api \<Rightarrow> mssqlSub \<Rightarrow> (mssqlInstance \<times> pdhCollector option) list \<Rightarrow> row list \<Rightarrow> 'w \<Rightarrow> bool" where
  "classPanics api s [] obj w = False"
| "classPanics api s ((inst, p) # m) obj w =
     (perfCollect api (msFields s) \<lparr>perfDataCollector = p, perfDataObject = obj\<rparr> w = None \<or>
      (case collectInstance api s inst \<lparr>perfDataCollector = p, perfDataObject = obj\<rparr> w of
         None \<Rightarrow> False
       | Some (err, lns, src, w1) \<Rightarrow> classPanics api s m (perfDataObject src) w1))"

lemma table_ok_mset: "mset xs = mset ys \<Longrightarrow> table_ok ds xs = table_ok ds ys"
proof -
  assume eq: "mset xs = mset ys"
  let ?k = "\<lambda>(n, vt, v, ls). (n, ls) :: string \<times> string list"
  have "distinct (map ?k xs) = distinct (map ?k ys)" by (rule mset_eq_imp_distinct_iff) (simp add: eq)
  then show ?thesis unfolding table_ok_def list_all_iff mset_eq_setD [OF eq] by (rule arg_cong)
qed

lemma table_ok_append:
  "table_ok ds xs \<Longrightarrow> table_ok ds ys \<Longrightarrow> fst ` set xs \<inter> fst ` set ys = {} \<Longrightarrow> table_ok ds (xs @ ys)"
proof -
  assume xs: "table_ok ds xs" and ys: "table_ok ds ys" and apart: "fst ` set xs \<inter> fst ` set ys = {}"
  let ?k = "\<lambda>(n, vt, v, ls). (n, ls) :: string \<times> string list"
  have names: "fst ` ?k ` A = fst ` A" for A :: "line set" by (force simp: image_image split_def)
  have "?k ` set xs \<inter> ?k ` set ys = {}" using apart names [of "set xs"] names [of "set ys"] by blast
  then show ?thesis using xs ys by (simp add: table_ok_def)
qed

definition metaNames :: "string list" where
  "metaNames = [''mssqlScrapeDurationDesc'', ''mssqlScrapeSuccessDesc'']"

locale mssql_class =
  fixes s :: mssqlSub
  assumes class_names: "distinct (map (\<lambda>(n, d). fqName d) (classDescs s))"
    and class_table: "table_ok (classDescs s) (msLines s i r)"
    and meta_descs: "list_all (\<lambda>n. n \<notin> set metaNames) (map fst (msDescs s))"
    and meta_lines: "list_all (\<lambda>n. n \<notin> set metaNames) (map fst (msLines s i r))"
    and inst_label: "list_all (\<lambda>(n, vt, v, ls). ls ! 0 = i) (msLines s i r)"
    and row_label: "msFirst s \<or>
      fieldIndex ''Name'' KString 0 (msFields s) = Some 0 \<and> (\<forall>i r. list_all (\<lambda>(n, vt, v, ls). ls ! 1 = rowName (msFields s) r) (msLines s i r))"

definition rowKey :: "mssqlSub \<Rightarrow> string \<times> row \<Rightarrow> string \<times> string" where
  "rowKey s ir = (fst ir, if msFirst s then [] else rowName (msFields s) (snd ir))"

sublocale mssql_class \<subseteq> labelled_table "classDescs s" "\<lambda>(i, r). msLines s i r" "rowKey s" "\<lambda>n ls. (ls ! 0, if msFirst s then [] else ls ! 1)"
proof
  show "distinct (map (\<lambda>(n, d). fqName d) (classDescs s))" by (rule class_names)
  show "table_ok (classDescs s) (case x of (i, r) \<Rightarrow> msLines s i r)" for x using class_table by (cases x) simp
  show "list_all (\<lambda>(n, vt, v, ls). (ls ! 0, if msFirst s then [] else ls ! 1) = rowKey s x) (case x of (i, r) \<Rightarrow> msLines s i r)" for x
  proof (cases x)
    case (Pair i r)
    have "list_all (\<lambda>(n, vt, v, ls). ls ! 1 = rowName (msFields s) r) (msLines s i r)" if "\<not> msFirst s" using row_label that by blast
    then show ?thesis using inst_label [of i r] by (cases "msFirst s") (fastforce simp: Pair rowKey_def list_all_iff)+
  qed
qed

context mssql_class begin

lemma class_meta: "n \<in> set metaNames \<Longrightarrow> map_of (classDescs s) n = map_of mssql_meta_descs n"
proof -
  assume "n \<in> set metaNames"
  then have "n \<notin> fst ` set (msDescs s)" using meta_descs by (force simp: list_all_iff)
  then have "map_of (msDescs s) n = None" by (simp add: map_of_eq_None_iff)
  then show ?thesis by (auto simp: map_of_append map_add_def split: option.splits)
qed

lemma meta_table:
  assumes "distinct (map fst ys)"
  shows "table_ok (classDescs s) (concat (map (\<lambda>(i, d, b). metaLines collector i d b) ys))"
proof -
  have one: "table_ok (classDescs s) (metaLines collector i d b)" for i d b
    using class_meta [of "''mssqlScrapeDurationDesc''"] class_meta [of "''mssqlScrapeSuccessDesc''"]
    by (auto simp: table_ok_def metaLines_def metaNames_def mssql_meta_descs_def)
  have "labelled_table (classDescs s) (\<lambda>(i, d, b). metaLines collector i d b) fst (\<lambda>n ls. ls ! 1)"
  proof
    show "distinct (map (\<lambda>(n, d). fqName d) (classDescs s))" by (rule class_names)
    show "table_ok (classDescs s) (case x of (i, d, b) \<Rightarrow> metaLines collector i d b)" for x using one by (cases x) simp
    show "list_all (\<lambda>(n, vt, v, ls). ls ! 1 = fst x) (case x of (i, d, b) \<Rightarrow> metaLines collector i d b)" for x
      by (cases x) (simp add: metaLines_def)
  qed
  then show ?thesis using assms by (rule labelled_table.rows_ok)
qed

lemma metaLines_names: "fst ` set (metaLines collector i d b) \<subseteq> set metaNames"
  by (auto simp: metaLines_def metaNames_def)

text \<open>The metrics of one instance are those of rows with different keys.\<close>

lemma collectInstance_lines:
  assumes "collector_ok s p" and "collectInstance api s inst \<lparr>perfDataCollector = p, perfDataObject = obj\<rparr> w = Some (err, lns, src, w')"
  shows "collector_ok s (perfDataCollector src) \<and>
    (\<exists>xs. lns = concat (map (\<lambda>(i, r). msLines s i r) xs) \<and> distinct (map (rowKey s) xs) \<and> fst ` set xs \<subseteq> {instanceName inst})"
proof -
  let ?src = "\<lparr>perfDataCollector = p, perfDataObject = obj\<rparr>"
  have ok: "source_ok (msFields s) ?src" using assms(1) by (simp add: collector_ok_source)
  obtain e src' w1 where c: "perfCollect api (msFields s) ?src w = Some (e, src', w1)"
    using assms(2) by (auto simp: collectInstance_def split: option.splits)
  have keep: "collector_ok s (perfDataCollector src)"
    using perfCollect_ok [OF ok c] assms(2) c by (auto simp: collectInstance_def collector_ok_source split: option.splits)
  show ?thesis
  proof (cases e)
    case (Some x)
    then have "lns = []" using assms(2) c by (simp add: collectInstance_def)
    then show ?thesis using keep by (intro conjI exI [of _ "[]"]) simp_all
  next
    case None
    let ?i = "instanceName inst"
    have lines: "instanceLines s ?i (perfDataObject src') = Some lns" using assms(2) c None by (auto simp: collectInstance_def split: option.splits)
    show ?thesis
    proof (cases "msFirst s")
      case True
      then obtain r where "lns = msLines s ?i r" using lines by (auto simp: instanceLines_def split: list.splits)
      then show ?thesis using keep by (intro conjI exI [of _ "[(?i, r)]"]) simp_all
    next
      case False
      have "distinct (map (rowName (msFields s)) (perfDataObject src'))"
      proof (rule perfCollect_names [OF ok])
        show "fieldIndex ''Name'' KString 0 (msFields s) = Some 0" using row_label False by simp
        show "perfCollect api (msFields s) ?src w = Some (None, src', w1)" using c None by simp
      qed
      then have "distinct (map (rowKey s) (map (Pair ?i) (perfDataObject src')))"
        using False by (simp add: rowKey_def distinct_map inj_on_def)
      moreover have "lns = concat (map (\<lambda>(i, r). msLines s i r) (map (Pair ?i) (perfDataObject src')))"
        using lines False by (simp add: instanceLines_def comp_def)
      ultimately show ?thesis using keep by (intro conjI exI [of _ "map (Pair ?i) (perfDataObject src')"]) auto
    qed
  qed
qed

lemma collectInstance_panics:
  "collectInstance api s inst src w = None \<Longrightarrow> perfCollect api (msFields s) src w = None"
  using perfCollect_nonempty by (fastforce simp: collectInstance_def instanceLines_def split: option.splits if_splits list.splits)

text \<open>What the loop over the instances sends, in groups: the rows and the meta metrics.\<close>

lemma collectInstances_lines:
  "list_all (\<lambda>(inst, p). collector_ok s p) m \<Longrightarrow> distinct (map (\<lambda>(inst, p). instanceName inst) m) \<Longrightarrow>
   (case collectInstances api duration collector s m obj w of
      None \<Rightarrow> classPanics api s m obj w
    | Some (es, lns, m', obj', w') \<Rightarrow>
        list_all (\<lambda>(inst, p). collector_ok s p) m' \<and> map fst m' = map fst m \<and>
        (\<exists>xs ys. mset lns = mset (concat (map (\<lambda>(i, r). msLines s i r) xs)) + mset (concat (map (\<lambda>(i, d, b). metaLines collector i d b) ys)) \<and>
           distinct (map (rowKey s) xs) \<and> fst ` set xs \<subseteq> set (map (\<lambda>(inst, p). instanceName inst) m) \<and>
           map fst ys = map (\<lambda>(inst, p). instanceName inst) m))"
proof (induction m arbitrary: obj w)
  case Nil
  then show ?case by (auto intro: exI [of _ "[]"])
next
  case (Cons mp m)
  obtain inst p where mp: "mp = (inst, p)" by fastforce
  have ok: "collector_ok s p" using Cons.prems(1) mp by simp
  let ?src = "\<lparr>perfDataCollector = p, perfDataObject = obj\<rparr>"
  show ?case
  proof (cases "collectInstance api s inst ?src w")
    case None
    then show ?thesis using collectInstance_panics mp by simp
  next
    case (Some x)
    then obtain err lns src w1 where x: "collectInstance api s inst ?src w = Some (err, lns, src, w1)" by (metis prod_cases4)
    obtain xs where src: "collector_ok s (perfDataCollector src)" and xs: "lns = concat (map (\<lambda>(i, r). msLines s i r) xs)"
        "distinct (map (rowKey s) xs)" "fst ` set xs \<subseteq> {instanceName inst}"
      using collectInstance_lines [OF ok x] by blast
    show ?thesis
    proof (cases "collectInstances api duration collector s m (perfDataObject src) w1")
      case None
      then show ?thesis using Cons.IH [of "perfDataObject src" w1] Cons.prems mp x by simp
    next
      case (Some y)
      obtain es lns2 m2 obj2 w2 where y: "y = (es, lns2, m2, obj2, w2)" by (metis prod_cases5)
      obtain xs2 ys2 where IH: "list_all (\<lambda>(inst, p). collector_ok s p) m2" "map fst m2 = map fst m"
          "mset lns2 = mset (concat (map (\<lambda>(i, r). msLines s i r) xs2)) + mset (concat (map (\<lambda>(i, d, b). metaLines collector i d b) ys2))"
          "distinct (map (rowKey s) xs2)" "fst ` set xs2 \<subseteq> set (map (\<lambda>(inst, p). instanceName inst) m)"
          "map fst ys2 = map (\<lambda>(inst, p). instanceName inst) m"
        using Cons.IH [of "perfDataObject src" w1] Cons.prems Some y by auto
      let ?y = "(instanceName inst, duration inst w, \<not> failed err)"
      have new: "instanceName inst \<notin> set (map (\<lambda>(inst, p). instanceName inst) m)" using Cons.prems(2) mp by simp
      have "distinct (map (rowKey s) (xs @ xs2))"
      proof -
        have "fst x = instanceName inst" if "x \<in> set xs" for x using xs(3) that by auto
        moreover have "fst x \<noteq> instanceName inst" if "x \<in> set xs2" for x using IH(5) new that by (metis image_subset_iff)
        ultimately have "rowKey s x \<noteq> rowKey s z" if "x \<in> set xs" "z \<in> set xs2" for x z using that by (metis fst_conv rowKey_def)
        then have "rowKey s ` set xs \<inter> rowKey s ` set xs2 = {}" by blast
        then show ?thesis using xs(2) IH(4) by simp
      qed
      moreover have "fst ` set (xs @ xs2) \<subseteq> set (map (\<lambda>(inst, p). instanceName inst) (mp # m))" using xs(3) IH(5) mp by auto
      moreover have "map fst (?y # ys2) = map (\<lambda>(inst, p). instanceName inst) (mp # m)" using IH(6) mp by simp
      moreover have "mset (lns @ metaLines collector (instanceName inst) (duration inst w) (\<not> failed err) @ lns2) =
          mset (concat (map (\<lambda>(i, r). msLines s i r) (xs @ xs2))) + mset (concat (map (\<lambda>(i, d, b). metaLines collector i d b) (?y # ys2)))"
        using IH(3) xs(1) by (simp add: ac_simps)
      ultimately have ex: "\<exists>xs ys. mset (lns @ metaLines collector (instanceName inst) (duration inst w) (\<not> failed err) @ lns2) =
            mset (concat (map (\<lambda>(i, r). msLines s i r) xs)) + mset (concat (map (\<lambda>(i, d, b). metaLines collector i d b) ys)) \<and>
          distinct (map (rowKey s) xs) \<and> fst ` set xs \<subseteq> set (map (\<lambda>(inst, p). instanceName inst) (mp # m)) \<and>
          map fst ys = map (\<lambda>(inst, p). instanceName inst) (mp # m)" by blast
      then show ?thesis using IH(1,2) src x Some y mp by simp
    qed
  qed
qed

lemma class_ok:
  assumes "class_inv s c"
  shows "scrape_ok (classPanics api s (perfDataCollectors c) (classObject c) w) (collectClass api duration collector s c w) \<and>
    (\<forall>err ms c' w'. collectClass api duration collector s c w = Some (err, ms, c', w') \<longrightarrow> class_inv s c')"
proof (cases "collectInstances api duration collector s (perfDataCollectors c) (classObject c) w")
  case None
  then show ?thesis
    using collectInstances_lines [where m = "perfDataCollectors c" and api = api and duration = duration and collector = collector and obj = "classObject c" and w = w] assms
    by (simp add: collectClass_def scrape_ok_def class_inv_def)
next
  case (Some x)
  obtain es lns m obj w' where x: "x = (es, lns, m, obj, w')" by (metis prod_cases5)
  obtain xs ys where r: "list_all (\<lambda>(inst, p). collector_ok s p) m" "map fst m = map fst (perfDataCollectors c)"
      "mset lns = mset (concat (map (\<lambda>(i, r). msLines s i r) xs)) + mset (concat (map (\<lambda>(i, d, b). metaLines collector i d b) ys))"
      "distinct (map (rowKey s) xs)" "map fst ys = map (\<lambda>(inst, p). instanceName inst) (perfDataCollectors c)"
    using collectInstances_lines [where m = "perfDataCollectors c" and api = api and duration = duration and collector = collector and obj = "classObject c" and w = w] assms Some x
    by (auto simp: class_inv_def)
  have names: "distinct (map (\<lambda>(inst, p). instanceName inst) (perfDataCollectors c))" using assms by (simp add: class_inv_def)
  let ?rows = "concat (map (\<lambda>(i, r). msLines s i r) xs)" and ?metas = "concat (map (\<lambda>(i, d, b). metaLines collector i d b) ys)"
  have "fst ` set ?rows \<inter> set metaNames = {}"
    using meta_lines by (fastforce simp: list_all_iff)
  moreover have "fst ` set ?metas \<subseteq> set metaNames" using metaLines_names by fastforce
  ultimately have apart: "fst ` set ?rows \<inter> fst ` set ?metas = {}" by blast
  have "table_ok (classDescs s) (?rows @ ?metas)"
    by (rule table_ok_append [OF rows_ok [OF r(4)] meta_table apart]) (use names r(5) in simp)
  then have "table_ok (classDescs s) lns" using table_ok_mset [of lns "?rows @ ?metas"] r(3) by simp
  then have "accepted (sendAll (classDescs s) lns)" by (rule sendAll_accepted)
  moreover have "map (\<lambda>(inst, p). instanceName inst) m = map (\<lambda>(inst, p). instanceName inst) (perfDataCollectors c)"
    using arg_cong [OF r(2), of "map instanceName"] by (simp add: comp_def split_def)
  ultimately show ?thesis
    using Some x r(1) names by (auto simp: collectClass_def scrape_ok_def accepted_def class_inv_def split: option.splits)
qed

lemma buildClass_inv:
  "buildClass api osBuild s keep is w = Some ([], m, w') \<Longrightarrow> distinct (map instanceName is) \<Longrightarrow>
   list_all (\<lambda>(inst, p). collector_ok s p) m \<and> distinct (map (\<lambda>(inst, p). instanceName inst) m) \<and> fst ` set m \<subseteq> set is"
proof (induction "is" arbitrary: w m)
  case Nil
  then show ?case by simp
next
  case (Cons inst "is")
  show ?case
  proof (cases "keep inst")
    case False
    then show ?thesis using Cons by auto
  next
    case True
    obtain p w1 m2 where b: "NewCollectorWithReflection api osBuild CounterTypeRaw (mssqlGetPerfObjectName inst (msObject s)) (msInstances s) (msFields s) w = Some (p, None, w1)"
        and r: "buildClass api osBuild s keep is w1 = Some ([], m2, w')" and m: "m = AList.update inst p m2"
      using Cons.prems(1) True by (auto simp: non_nil_def map_filter_simps split: option.splits)
    have IH: "list_all (\<lambda>(inst, p). collector_ok s p) m2" "distinct (map (\<lambda>(inst, p). instanceName inst) m2)" "fst ` set m2 \<subseteq> set is"
      using Cons.IH [OF r] Cons.prems(2) by auto
    have "fst x \<in> set is" if "x \<in> set m2" for x using IH(3) that by auto
    then have new: "instanceName (fst x) \<noteq> instanceName inst" if "x \<in> set m2" for x
      using that Cons.prems(2) by (metis distinct.simps(2) image_eqI list.set_map list.simps(9))
    then have "inst \<notin> fst ` set m2" by auto
    then have upd: "m = m2 @ [(inst, p)]" using m by (induction m2 arbitrary: m) auto
    have "collector_ok s p" using b by (cases p) (auto simp: collector_ok_def source_ok_def dest: NewCollector_ok)
    moreover have "instanceName inst \<notin> set (map (\<lambda>(inst, p). instanceName inst) m2)" using new by (force simp: split_def)
    ultimately show ?thesis using IH upd by auto
  qed
qed

text \<open>The contract, for instances with different names.\<close>

lemma class_contract:
  assumes "distinct (map instanceName is)"
  shows "perf_contract
    (\<lambda>w. map_option (\<lambda>(es, m, w'). (errors_Join es, \<lparr>perfDataCollectors = m, classObject = []\<rparr>, w')) (buildClass api osBuild s keep is w))
    (collectClass api duration collector s) (class_inv s) (\<lambda>c w. classPanics api s (perfDataCollectors c) (classObject c) w)"
proof
  show "class_inv s c" if "map_option (\<lambda>(es, m, w'). (errors_Join es, \<lparr>perfDataCollectors = m, classObject = []\<rparr>, w'))
      (buildClass api osBuild s keep is w) = Some (None, c, w')" for w c w'
  proof -
    note built = that
    obtain es m w2 where "buildClass api osBuild s keep is w = Some (es, m, w2)" "(errors_Join es, \<lparr>perfDataCollectors = m, classObject = []\<rparr>, w2) = (None, c, w')"
      using built by auto
    then have m: "buildClass api osBuild s keep is w = Some ([], m, w')" "c = \<lparr>perfDataCollectors = m, classObject = []\<rparr>" by simp_all
    then show ?thesis using buildClass_inv [OF m(1) assms] by (simp add: class_inv_def)
  qed
  show "class_inv s c'" if "class_inv s c" "collectClass api duration collector s c w = Some (err, ms, c', w')" for c w err ms c' w'
    using class_ok [OF that(1), where api = api and duration = duration and collector = collector and w = w] that(2) by simp
  show "scrape_ok (classPanics api s (perfDataCollectors c) (classObject c) w) (collectClass api duration collector s c w)" if "class_inv s c" for c w
    using class_ok [OF that, where api = api and duration = duration and collector = collector and w = w] by simp
qed

end

end
