(* ===== verification/Perf_Mssql.thy ===== *)
theory Perf_Mssql
  imports Mssql_Class
begin

text \<open>
  The SQL Server collector (internal/collector/mssql): its classes of counters, and \<open>Build\<close>, \<open>Collect\<close> and \<open>Close\<close>.
\<close>

section \<open>accessmethods\<close>

definition mssql_accessmethods_fields :: "structField list" where
  "mssql_accessmethods_fields =
     [perfField ''AccessMethodsAUCleanupbatchesPerSec'' ''AU cleanup batches/sec'',
      perfField ''AccessMethodsAUCleanupsPerSec'' ''AU cleanups/sec'',
      perfField ''AccessMethodsByReferenceLobCreateCount'' ''By-reference Lob Create Count'',
      perfField ''AccessMethodsByReferenceLobUseCount'' ''By-reference Lob Use Count'',
      perfField ''AccessMethodsCountLobReadahead'' ''Count Lob Readahead'',
      perfField ''AccessMethodsCountPullInRow'' ''Count Pull In Row'',
      perfField ''AccessMethodsCountPushOffRow'' ''Count Push Off Row'',
      perfField ''AccessMethodsDeferredDroppedAUs'' ''Deferred dropped AUs'',
      perfField ''AccessMethodsDeferredDroppedRowsets'' ''Deferred Dropped rowsets'',
      perfField ''AccessMethodsDroppedRowsetCleanupsPerSec'' ''Dropped rowset cleanups/sec'',
      perfField ''AccessMethodsDroppedRowsetsSkippedPerSec'' ''Dropped rowsets skipped/sec'',
      perfField ''AccessMethodsExtentDeallocationsPerSec'' ''Extent Deallocations/sec'',
      perfField ''AccessMethodsExtentsAllocatedPerSec'' ''Extents Allocated/sec'',
      perfField ''AccessMethodsFailedAUCleanupBatchesPerSec'' ''Failed AU cleanup batches/sec'',
      perfField ''AccessMethodsFailedLeafPageCookie'' ''Failed leaf page cookie'',
      perfField ''AccessMethodsFailedTreePageCookie'' ''Failed tree page cookie'',
      perfField ''AccessMethodsForwardedRecordsPerSec'' ''Forwarded Records/sec'',
      perfField ''AccessMethodsFreeSpacePageFetchesPerSec'' ''FreeSpace Page Fetches/sec'',
      perfField ''AccessMethodsFreeSpaceScansPerSec'' ''FreeSpace Scans/sec'',
      perfField ''AccessMethodsFullScansPerSec'' ''Full Scans/sec'',
      perfField ''AccessMethodsIndexSearchesPerSec'' ''Index Searches/sec'',
      perfField ''AccessMethodsInSysXactWaitsPerSec'' ''InSysXact waits/sec'',
      perfField ''AccessMethodsLobHandleCreateCount'' ''LobHandle Create Count'',
      perfField ''AccessMethodsLobHandleDestroyCount'' ''LobHandle Destroy Count'',
      perfField ''AccessMethodsLobSSProviderCreateCount'' ''LobSS Provider Create Count'',
      perfField ''AccessMethodsLobSSProviderDestroyCount'' ''LobSS Provider Destroy Count'',
      perfField ''AccessMethodsLobSSProviderTruncationCount'' ''LobSS Provider Truncation Count'',
      perfField ''AccessMethodsMixedPageAllocationsPerSec'' ''Mixed page allocations/sec'',
      perfField ''AccessMethodsPageCompressionAttemptsPerSec'' ''Page compression attempts/sec'',
      perfField ''AccessMethodsPageDeallocationsPerSec'' ''Page Deallocations/sec'',
      perfField ''AccessMethodsPagesAllocatedPerSec'' ''Pages Allocated/sec'',
      perfField ''AccessMethodsPagesCompressedPerSec'' ''Pages compressed/sec'',
      perfField ''AccessMethodsPageSplitsPerSec'' ''Page Splits/sec'',
      perfField ''AccessMethodsProbeScansPerSec'' ''Probe Scans/sec'',
      perfField ''AccessMethodsRangeScansPerSec'' ''Range Scans/sec'',
      perfField ''AccessMethodsScanPointRevalidationsPerSec'' ''Scan Point Revalidations/sec'',
      perfField ''AccessMethodsSkippedGhostedRecordsPerSec'' ''Skipped Ghosted Records/sec'',
      perfField ''AccessMethodsTableLockEscalationsPerSec'' ''Table Lock Escalations/sec'',
      perfField ''AccessMethodsUsedLeafPageCookie'' ''Used leaf page cookie'',
      perfField ''AccessMethodsUsedTreePageCookie'' ''Used tree page cookie'',
      perfField ''AccessMethodsWorkfilesCreatedPerSec'' ''Workfiles Created/sec'',
      perfField ''AccessMethodsWorktablesCreatedPerSec'' ''Worktables Created/sec'',
      perfField ''AccessMethodsWorktablesFromCacheRatio'' ''Worktables From Cache Ratio'',
      perfField ''AccessMethodsWorktablesFromCacheRatioBase'' ''Worktables From Cache Ratio,secondvalue'']"

definition mssql_accessmethods_descs :: descTable where
  "mssql_accessmethods_descs =
     [(''accessMethodsAUcleanupbatches'', NewDesc (BuildFQName Namespace ''mssql'' ''accessmethods_au_batch_cleanups'')
        ''(AccessMethods.AUcleanupbatches)'' [''mssql_instance'']),
      (''accessMethodsAUcleanups'', NewDesc (BuildFQName Namespace ''mssql'' ''accessmethods_au_cleanups'')
        ''(AccessMethods.AUcleanups)'' [''mssql_instance'']),
      (''accessMethodsByReferenceLobCreateCount'', NewDesc (BuildFQName Namespace ''mssql'' ''accessmethods_by_reference_lob_creates'')
        ''(AccessMethods.ByreferenceLobCreateCount)'' [''mssql_instance'']),
      (''accessMethodsByReferenceLobUseCount'', NewDesc (BuildFQName Namespace ''mssql'' ''accessmethods_by_reference_lob_uses'')
        ''(AccessMethods.ByreferenceLobUseCount)'' [''mssql_instance'']),
      (''accessMethodsCountLobReadahead'', NewDesc (BuildFQName Namespace ''mssql'' ''accessmethods_lob_read_aheads'')
        ''(AccessMethods.CountLobReadahead)'' [''mssql_instance'']),
      (''accessMethodsCountPullInRow'', NewDesc (BuildFQName Namespace ''mssql'' ''accessmethods_column_value_pulls'')
        ''(AccessMethods.CountPullInRow)'' [''mssql_instance'']),
      (''accessMethodsCountPushOffRow'', NewDesc (BuildFQName Namespace ''mssql'' ''accessmethods_column_value_pushes'')
        ''(AccessMethods.CountPushOffRow)'' [''mssql_instance'']),
      (''accessMethodsDeferreddroppedAUs'', NewDesc (BuildFQName Namespace ''mssql'' ''accessmethods_deferred_dropped_aus'')
        ''(AccessMethods.DeferreddroppedAUs)'' [''mssql_instance'']),
      (''accessMethodsDeferredDroppedrowsets'', NewDesc (BuildFQName Namespace ''mssql'' ''accessmethods_deferred_dropped_rowsets'')
        ''(AccessMethods.DeferredDroppedrowsets)'' [''mssql_instance'']),
      (''accessMethodsDroppedrowsetcleanups'', NewDesc (BuildFQName Namespace ''mssql'' ''accessmethods_dropped_rowset_cleanups'')
        ''(AccessMethods.Droppedrowsetcleanups)'' [''mssql_instance'']),
      (''accessMethodsDroppedrowsetsskipped'', NewDesc (BuildFQName Namespace ''mssql'' ''accessmethods_dropped_rowset_skips'')
        ''(AccessMethods.Droppedrowsetsskipped)'' [''mssql_instance'']),
      (''accessMethodsExtentDeallocations'', NewDesc (BuildFQName Namespace ''mssql'' ''accessmethods_extent_deallocations'')
        ''(AccessMethods.ExtentDeallocations)'' [''mssql_instance'']),
      (''accessMethodsExtentsAllocated'', NewDesc (BuildFQName Namespace ''mssql'' ''accessmethods_extent_allocations'')
        ''(AccessMethods.ExtentsAllocated)'' [''mssql_instance'']),
      (''accessMethodsFailedAUcleanupbatches'', NewDesc (BuildFQName Namespace ''mssql'' ''accessmethods_au_batch_cleanup_failures'')
        ''(AccessMethods.FailedAUcleanupbatches)'' [''mssql_instance'']),
      (''accessMethodsFailedleafpagecookie'', NewDesc (BuildFQName Namespace ''mssql'' ''accessmethods_leaf_page_cookie_failures'')
        ''(AccessMethods.Failedleafpagecookie)'' [''mssql_instance'']),
      (''accessMethodsFailedtreepagecookie'', NewDesc (BuildFQName Namespace ''mssql'' ''accessmethods_tree_page_cookie_failures'')
        ''(AccessMethods.Failedtreepagecookie)'' [''mssql_instance'']),
      (''accessMethodsForwardedRecords'', NewDesc (BuildFQName Namespace ''mssql'' ''accessmethods_forwarded_records'')
        ''(AccessMethods.ForwardedRecords)'' [''mssql_instance'']),
      (''accessMethodsFreeSpacePageFetches'', NewDesc (BuildFQName Namespace ''mssql'' ''accessmethods_free_space_page_fetches'')
        ''(AccessMethods.FreeSpacePageFetches)'' [''mssql_instance'']),
      (''accessMethodsFreeSpaceScans'', NewDesc (BuildFQName Namespace ''mssql'' ''accessmethods_free_space_scans'')
        ''(AccessMethods.FreeSpaceScans)'' [''mssql_instance'']),
      (''accessMethodsFullScans'', NewDesc (BuildFQName Namespace ''mssql'' ''accessmethods_full_scans'')
        ''(AccessMethods.FullScans)'' [''mssql_instance'']),
      (''accessMethodsIndexSearches'', NewDesc (BuildFQName Namespace ''mssql'' ''accessmethods_index_searches'')
        ''(AccessMethods.IndexSearches)'' [''mssql_instance'']),
      (''accessMethodsInSysXactwaits'', NewDesc (BuildFQName Namespace ''mssql'' ''accessmethods_insysxact_waits'')
        ''(AccessMethods.InSysXactwaits)'' [''mssql_instance'']),
      (''accessMethodsLobHandleCreateCount'', NewDesc (BuildFQName Namespace ''mssql'' ''accessmethods_lob_handle_creates'')
        ''(AccessMethods.LobHandleCreateCount)'' [''mssql_instance'']),
      (''accessMethodsLobHandleDestroyCount'', NewDesc (BuildFQName Namespace ''mssql'' ''accessmethods_lob_handle_destroys'')
        ''(AccessMethods.LobHandleDestroyCount)'' [''mssql_instance'']),
      (''accessMethodsLobSSProviderCreateCount'', NewDesc (BuildFQName Namespace ''mssql'' ''accessmethods_lob_ss_provider_creates'')
        ''(AccessMethods.LobSSProviderCreateCount)'' [''mssql_instance'']),
      (''accessMethodsLobSSProviderDestroyCount'', NewDesc (BuildFQName Namespace ''mssql'' ''accessmethods_lob_ss_provider_destroys'')
        ''(AccessMethods.LobSSProviderDestroyCount)'' [''mssql_instance'']),
      (''accessMethodsLobSSProviderTruncationCount'', NewDesc (BuildFQName Namespace ''mssql'' ''accessmethods_lob_ss_provider_truncations'')
        ''(AccessMethods.LobSSProviderTruncationCount)'' [''mssql_instance'']),
      (''accessMethodsMixedPageAllocations'', NewDesc (BuildFQName Namespace ''mssql'' ''accessmethods_mixed_page_allocations'')
        ''(AccessMethods.MixedpageallocationsPersec)'' [''mssql_instance'']),
      (''accessMethodsPageCompressionAttempts'', NewDesc (BuildFQName Namespace ''mssql'' ''accessmethods_page_compression_attempts'')
        ''(AccessMethods.PagecompressionattemptsPersec)'' [''mssql_instance'']),
      (''accessMethodsPageDeallocations'', NewDesc (BuildFQName Namespace ''mssql'' ''accessmethods_page_deallocations'')
        ''(AccessMethods.PageDeallocationsPersec)'' [''mssql_instance'']),
      (''accessMethodsPagesAllocated'', NewDesc (BuildFQName Namespace ''mssql'' ''accessmethods_page_allocations'')
        ''(AccessMethods.PagesAllocatedPersec)'' [''mssql_instance'']),
      (''accessMethodsPagesCompressed'', NewDesc (BuildFQName Namespace ''mssql'' ''accessmethods_page_compressions'')
        ''(AccessMethods.PagescompressedPersec)'' [''mssql_instance'']),
      (''accessMethodsPageSplits'', NewDesc (BuildFQName Namespace ''mssql'' ''accessmethods_page_splits'')
        ''(AccessMethods.PageSplitsPersec)'' [''mssql_instance'']),
      (''accessMethodsProbeScans'', NewDesc (BuildFQName Namespace ''mssql'' ''accessmethods_probe_scans'')
        ''(AccessMethods.ProbeScansPersec)'' [''mssql_instance'']),
      (''accessMethodsRangeScans'', NewDesc (BuildFQName Namespace ''mssql'' ''accessmethods_range_scans'')
        ''(AccessMethods.RangeScansPersec)'' [''mssql_instance'']),
      (''accessMethodsScanPointRevalidations'', NewDesc (BuildFQName Namespace ''mssql'' ''accessmethods_scan_point_revalidations'')
        ''(AccessMethods.ScanPointRevalidationsPersec)'' [''mssql_instance'']),
      (''accessMethodsSkippedGhostedRecords'', NewDesc (BuildFQName Namespace ''mssql'' ''accessmethods_ghost_record_skips'')
        ''(AccessMethods.SkippedGhostedRecordsPersec)'' [''mssql_instance'']),
      (''accessMethodsTableLockEscalations'', NewDesc (BuildFQName Namespace ''mssql'' ''accessmethods_table_lock_escalations'')
        ''(AccessMethods.TableLockEscalationsPersec)'' [''mssql_instance'']),
      (''accessMethodsUsedleafpagecookie'', NewDesc (BuildFQName Namespace ''mssql'' ''accessmethods_leaf_page_cookie_uses'')
        ''(AccessMethods.Usedleafpagecookie)'' [''mssql_instance'']),
      (''accessMethodsUsedtreepagecookie'', NewDesc (BuildFQName Namespace ''mssql'' ''accessmethods_tree_page_cookie_uses'')
        ''(AccessMethods.Usedtreepagecookie)'' [''mssql_instance'']),
      (''accessMethodsWorkfilesCreated'', NewDesc (BuildFQName Namespace ''mssql'' ''accessmethods_workfile_creates'')
        ''(AccessMethods.WorkfilesCreatedPersec)'' [''mssql_instance'']),
      (''accessMethodsWorktablesCreated'', NewDesc (BuildFQName Namespace ''mssql'' ''accessmethods_worktables_creates'')
        ''(AccessMethods.WorktablesCreatedPersec)'' [''mssql_instance'']),
      (''accessMethodsWorktablesFromCacheHits'', NewDesc (BuildFQName Namespace ''mssql'' ''accessmethods_worktables_from_cache_hits'')
        ''(AccessMethods.WorktablesFromCacheRatio)'' [''mssql_instance'']),
      (''accessMethodsWorktablesFromCacheLookups'', NewDesc (BuildFQName Namespace ''mssql'' ''accessmethods_worktables_from_cache_lookups'')
        ''(AccessMethods.WorktablesFromCacheRatio_Base)'' [''mssql_instance''])]"

definition mssql_accessmethods_lines :: "string \<Rightarrow> row \<Rightarrow> line list" where
  "mssql_accessmethods_lines i r =
     [(''accessMethodsAUcleanupbatches'', CounterValue, num mssql_accessmethods_fields r ''AccessMethodsAUCleanupbatchesPerSec'', [i]),
      (''accessMethodsAUcleanups'', CounterValue, num mssql_accessmethods_fields r ''AccessMethodsAUCleanupsPerSec'', [i]),
      (''accessMethodsByReferenceLobCreateCount'', CounterValue, num mssql_accessmethods_fields r ''AccessMethodsByReferenceLobCreateCount'', [i]),
      (''accessMethodsByReferenceLobUseCount'', CounterValue, num mssql_accessmethods_fields r ''AccessMethodsByReferenceLobUseCount'', [i]),
      (''accessMethodsCountLobReadahead'', CounterValue, num mssql_accessmethods_fields r ''AccessMethodsCountLobReadahead'', [i]),
      (''accessMethodsCountPullInRow'', CounterValue, num mssql_accessmethods_fields r ''AccessMethodsCountPullInRow'', [i]),
      (''accessMethodsCountPushOffRow'', CounterValue, num mssql_accessmethods_fields r ''AccessMethodsCountPushOffRow'', [i]),
      (''accessMethodsDeferreddroppedAUs'', GaugeValue, num mssql_accessmethods_fields r ''AccessMethodsDeferredDroppedAUs'', [i]),
      (''accessMethodsDeferredDroppedrowsets'', GaugeValue, num mssql_accessmethods_fields r ''AccessMethodsDeferredDroppedRowsets'', [i]),
      (''accessMethodsDroppedrowsetcleanups'', CounterValue, num mssql_accessmethods_fields r ''AccessMethodsDroppedRowsetCleanupsPerSec'', [i]),
      (''accessMethodsDroppedrowsetsskipped'', CounterValue, num mssql_accessmethods_fields r ''AccessMethodsDroppedRowsetsSkippedPerSec'', [i]),
      (''accessMethodsExtentDeallocations'', CounterValue, num mssql_accessmethods_fields r ''AccessMethodsExtentDeallocationsPerSec'', [i]),
      (''accessMethodsExtentsAllocated'', CounterValue, num mssql_accessmethods_fields r ''AccessMethodsExtentsAllocatedPerSec'', [i]),
      (''accessMethodsFailedAUcleanupbatches'', CounterValue, num mssql_accessmethods_fields r ''AccessMethodsFailedAUCleanupBatchesPerSec'', [i]),
      (''accessMethodsFailedleafpagecookie'', CounterValue, num mssql_accessmethods_fields r ''AccessMethodsFailedLeafPageCookie'', [i]),
      (''accessMethodsFailedtreepagecookie'', CounterValue, num mssql_accessmethods_fields r ''AccessMethodsFailedTreePageCookie'', [i]),
      (''accessMethodsForwardedRecords'', CounterValue, num mssql_accessmethods_fields r ''AccessMethodsForwardedRecordsPerSec'', [i]),
      (''accessMethodsFreeSpacePageFetches'', CounterValue, num mssql_accessmethods_fields r ''AccessMethodsFreeSpacePageFetchesPerSec'', [i]),
      (''accessMethodsFreeSpaceScans'', CounterValue, num mssql_accessmethods_fields r ''AccessMethodsFreeSpaceScansPerSec'', [i]),
      (''accessMethodsFullScans'', CounterValue, num mssql_accessmethods_fields r ''AccessMethodsFullScansPerSec'', [i]),
      (''accessMethodsIndexSearches'', CounterValue, num mssql_accessmethods_fields r ''AccessMethodsIndexSearchesPerSec'', [i]),
      (''accessMethodsInSysXactwaits'', CounterValue, num mssql_accessmethods_fields r ''AccessMethodsInSysXactWaitsPerSec'', [i]),
      (''accessMethodsLobHandleCreateCount'', CounterValue, num mssql_accessmethods_fields r ''AccessMethodsLobHandleCreateCount'', [i]),
      (''accessMethodsLobHandleDestroyCount'', CounterValue, num mssql_accessmethods_fields r ''AccessMethodsLobHandleDestroyCount'', [i]),
      (''accessMethodsLobSSProviderCreateCount'', CounterValue, num mssql_accessmethods_fields r ''AccessMethodsLobSSProviderCreateCount'', [i]),
      (''accessMethodsLobSSProviderDestroyCount'', CounterValue, num mssql_accessmethods_fields r ''AccessMethodsLobSSProviderDestroyCount'', [i]),
      (''accessMethodsLobSSProviderTruncationCount'', CounterValue, num mssql_accessmethods_fields r ''AccessMethodsLobSSProviderTruncationCount'', [i]),
      (''accessMethodsMixedPageAllocations'', CounterValue, num mssql_accessmethods_fields r ''AccessMethodsMixedPageAllocationsPerSec'', [i]),
      (''accessMethodsPageCompressionAttempts'', CounterValue, num mssql_accessmethods_fields r ''AccessMethodsPageCompressionAttemptsPerSec'', [i]),
      (''accessMethodsPageDeallocations'', CounterValue, num mssql_accessmethods_fields r ''AccessMethodsPageDeallocationsPerSec'', [i]),
      (''accessMethodsPagesAllocated'', CounterValue, num mssql_accessmethods_fields r ''AccessMethodsPagesAllocatedPerSec'', [i]),
      (''accessMethodsPagesCompressed'', CounterValue, num mssql_accessmethods_fields r ''AccessMethodsPagesCompressedPerSec'', [i]),
      (''accessMethodsPageSplits'', CounterValue, num mssql_accessmethods_fields r ''AccessMethodsPageSplitsPerSec'', [i]),
      (''accessMethodsProbeScans'', CounterValue, num mssql_accessmethods_fields r ''AccessMethodsProbeScansPerSec'', [i]),
      (''accessMethodsRangeScans'', CounterValue, num mssql_accessmethods_fields r ''AccessMethodsRangeScansPerSec'', [i]),
      (''accessMethodsScanPointRevalidations'', CounterValue, num mssql_accessmethods_fields r ''AccessMethodsScanPointRevalidationsPerSec'', [i]),
      (''accessMethodsSkippedGhostedRecords'', CounterValue, num mssql_accessmethods_fields r ''AccessMethodsSkippedGhostedRecordsPerSec'', [i]),
      (''accessMethodsTableLockEscalations'', CounterValue, num mssql_accessmethods_fields r ''AccessMethodsTableLockEscalationsPerSec'', [i]),
      (''accessMethodsUsedleafpagecookie'', CounterValue, num mssql_accessmethods_fields r ''AccessMethodsUsedLeafPageCookie'', [i]),
      (''accessMethodsUsedtreepagecookie'', CounterValue, num mssql_accessmethods_fields r ''AccessMethodsUsedTreePageCookie'', [i]),
      (''accessMethodsWorkfilesCreated'', CounterValue, num mssql_accessmethods_fields r ''AccessMethodsWorkfilesCreatedPerSec'', [i]),
      (''accessMethodsWorktablesCreated'', CounterValue, num mssql_accessmethods_fields r ''AccessMethodsWorktablesCreatedPerSec'', [i]),
      (''accessMethodsWorktablesFromCacheHits'', CounterValue, num mssql_accessmethods_fields r ''AccessMethodsWorktablesFromCacheRatio'', [i]),
      (''accessMethodsWorktablesFromCacheLookups'', CounterValue, num mssql_accessmethods_fields r ''AccessMethodsWorktablesFromCacheRatioBase'', [i])]"

definition mssql_accessmethods_class :: mssqlSub where
  "mssql_accessmethods_class =
     \<lparr>msFields = mssql_accessmethods_fields, msDescs = mssql_accessmethods_descs, msObject = ''Access Methods'', msErrObject = ''AccessMethods'',
      msCreate = ''failed to create AccessMethods collector for instance %s: %w'', msInstances = [], msFirst = True, msLines = mssql_accessmethods_lines\<rparr>"

section \<open>availreplica\<close>

definition mssql_availreplica_fields :: "structField list" where
  "mssql_availreplica_fields =
     [nameField,
      perfField ''AvailReplicaBytesReceivedFromReplicaPerSec'' ''Bytes Received from Replica/sec'',
      perfField ''AvailReplicaBytesSentToReplicaPerSec'' ''Bytes Sent to Replica/sec'',
      perfField ''AvailReplicaBytesSentToTransportPerSec'' ''Bytes Sent to Transport/sec'',
      perfField ''AvailReplicaFlowControlPerSec'' ''Flow Control/sec'',
      perfField ''AvailReplicaFlowControlTimeMSPerSec'' ''Flow Control Time (ms/sec)'',
      perfField ''AvailReplicaReceivesFromReplicaPerSec'' ''Receives from Replica/sec'',
      perfField ''AvailReplicaResentMessagesPerSec'' ''Resent Messages/sec'',
      perfField ''AvailReplicaSendsToReplicaPerSec'' ''Sends to Replica/sec'',
      perfField ''AvailReplicaSendsToTransportPerSec'' ''Sends to Transport/sec'']"

definition mssql_availreplica_descs :: descTable where
  "mssql_availreplica_descs =
     [(''availReplicaBytesReceivedFromReplica'', NewDesc (BuildFQName Namespace ''mssql'' ''availreplica_received_from_replica_bytes'')
        ''(AvailabilityReplica.BytesReceivedfromReplica)'' [''mssql_instance'', ''replica'']),
      (''availReplicaBytesSentToReplica'', NewDesc (BuildFQName Namespace ''mssql'' ''availreplica_sent_to_replica_bytes'')
        ''(AvailabilityReplica.BytesSenttoReplica)'' [''mssql_instance'', ''replica'']),
      (''availReplicaBytesSentToTransport'', NewDesc (BuildFQName Namespace ''mssql'' ''availreplica_sent_to_transport_bytes'')
        ''(AvailabilityReplica.BytesSenttoTransport)'' [''mssql_instance'', ''replica'']),
      (''availReplicaFlowControl'', NewDesc (BuildFQName Namespace ''mssql'' ''availreplica_initiated_flow_controls'')
        ''(AvailabilityReplica.FlowControl)'' [''mssql_instance'', ''replica'']),
      (''availReplicaFlowControlTimeMS'', NewDesc (BuildFQName Namespace ''mssql'' ''availreplica_flow_control_wait_seconds'')
        ''(AvailabilityReplica.FlowControlTimems)'' [''mssql_instance'', ''replica'']),
      (''availReplicaReceivesFromReplica'', NewDesc (BuildFQName Namespace ''mssql'' ''availreplica_receives_from_replica'')
        ''(AvailabilityReplica.ReceivesfromReplica)'' [''mssql_instance'', ''replica'']),
      (''availReplicaResentMessages'', NewDesc (BuildFQName Namespace ''mssql'' ''availreplica_resent_messages'')
        ''(AvailabilityReplica.ResentMessages)'' [''mssql_instance'', ''replica'']),
      (''availReplicaSendsToReplica'', NewDesc (BuildFQName Namespace ''mssql'' ''availreplica_sends_to_replica'')
        ''(AvailabilityReplica.SendstoReplica)'' [''mssql_instance'', ''replica'']),
      (''availReplicaSendsToTransport'', NewDesc (BuildFQName Namespace ''mssql'' ''availreplica_sends_to_transport'')
        ''(AvailabilityReplica.SendstoTransport)'' [''mssql_instance'', ''replica''])]"

definition mssql_availreplica_lines :: "string \<Rightarrow> row \<Rightarrow> line list" where
  "mssql_availreplica_lines i r =
     [(''availReplicaBytesReceivedFromReplica'', CounterValue, num mssql_availreplica_fields r ''AvailReplicaBytesReceivedFromReplicaPerSec'', [i, rowName mssql_availreplica_fields r]),
      (''availReplicaBytesSentToReplica'', CounterValue, num mssql_availreplica_fields r ''AvailReplicaBytesSentToReplicaPerSec'', [i, rowName mssql_availreplica_fields r]),
      (''availReplicaBytesSentToTransport'', CounterValue, num mssql_availreplica_fields r ''AvailReplicaBytesSentToTransportPerSec'', [i, rowName mssql_availreplica_fields r]),
      (''availReplicaFlowControl'', CounterValue, num mssql_availreplica_fields r ''AvailReplicaFlowControlPerSec'', [i, rowName mssql_availreplica_fields r]),
      (''availReplicaFlowControlTimeMS'', CounterValue, MilliSecToSec (num mssql_availreplica_fields r ''AvailReplicaFlowControlTimeMSPerSec''), [i, rowName mssql_availreplica_fields r]),
      (''availReplicaReceivesFromReplica'', CounterValue, num mssql_availreplica_fields r ''AvailReplicaReceivesFromReplicaPerSec'', [i, rowName mssql_availreplica_fields r]),
      (''availReplicaResentMessages'', CounterValue, num mssql_availreplica_fields r ''AvailReplicaResentMessagesPerSec'', [i, rowName mssql_availreplica_fields r]),
      (''availReplicaSendsToReplica'', CounterValue, num mssql_availreplica_fields r ''AvailReplicaSendsToReplicaPerSec'', [i, rowName mssql_availreplica_fields r]),
      (''availReplicaSendsToTransport'', CounterValue, num mssql_availreplica_fields r ''AvailReplicaSendsToTransportPerSec'', [i, rowName mssql_availreplica_fields r])]"

definition mssql_availreplica_class :: mssqlSub where
  "mssql_availreplica_class =
     \<lparr>msFields = mssql_availreplica_fields, msDescs = mssql_availreplica_descs, msObject = ''Availability Replica'', msErrObject = ''Availability Replica'',
      msCreate = ''failed to create Availability Replica collector for instance %s: %w'', msInstances = [''*''], msFirst = False, msLines = mssql_availreplica_lines\<rparr>"

section \<open>bufman\<close>

definition mssql_bufman_fields :: "structField list" where
  "mssql_bufman_fields =
     [perfField ''BufManBackgroundWriterPagesPerSec'' ''Background writer pages/sec'',
      perfField ''BufManBufferCacheHitRatio'' ''Buffer cache hit ratio'',
      perfField ''BufManBufferCacheHitRatioBase'' ''Buffer cache hit ratio,secondvalue'',
      perfField ''BufManCheckpointPagesPerSec'' ''Checkpoint pages/sec'',
      perfField ''BufManDatabasePages'' ''Database pages'',
      perfField ''BufManExtensionAllocatedPages'' ''Extension allocated pages'',
      perfField ''BufManExtensionFreePages'' ''Extension free pages'',
      perfField ''BufManExtensionInUseAsPercentage'' ''Extension in use as percentage'',
      perfField ''BufManExtensionOutstandingIOCounter'' ''Extension outstanding IO counter'',
      perfField ''BufManExtensionPageEvictionsPerSec'' ''Extension page evictions/sec'',
      perfField ''BufManExtensionPageReadsPerSec'' ''Extension page reads/sec'',
      perfField ''BufManExtensionPageUnreferencedTime'' ''Extension page unreferenced time'',
      perfField ''BufManExtensionPageWritesPerSec'' ''Extension page writes/sec'',
      perfField ''BufManFreeListStallsPerSec'' ''Free list stalls/sec'',
      perfField ''BufManIntegralControllerSlope'' ''Integral Controller Slope'',
      perfField ''BufManLazyWritesPerSec'' ''Lazy writes/sec'',
      perfField ''BufManPageLifeExpectancy'' ''Page life expectancy'',
      perfField ''BufManPageLookupsPerSec'' ''Page lookups/sec'',
      perfField ''BufManPageReadsPerSec'' ''Page reads/sec'',
      perfField ''BufManPageWritesPerSec'' ''Page writes/sec'',
      perfField ''BufManReadaheadPagesPerSec'' ''Readahead pages/sec'',
      perfField ''BufManReadaheadTimePerSec'' ''Readahead time/sec'',
      perfField ''BufManTargetPages'' ''Target pages'']"

definition mssql_bufman_descs :: descTable where
  "mssql_bufman_descs =
     [(''bufManBackgroundwriterpages'', NewDesc (BuildFQName Namespace ''mssql'' ''bufman_background_writer_pages'')
        ''(BufferManager.Backgroundwriterpages)'' [''mssql_instance'']),
      (''bufManBuffercachehits'', NewDesc (BuildFQName Namespace ''mssql'' ''bufman_buffer_cache_hits'')
        ''(BufferManager.Buffercachehitratio)'' [''mssql_instance'']),
      (''bufManBuffercachelookups'', NewDesc (BuildFQName Namespace ''mssql'' ''bufman_buffer_cache_lookups'')
        ''(BufferManager.Buffercachehitratio_Base)'' [''mssql_instance'']),
      (''bufManCheckpointpages'', NewDesc (BuildFQName Namespace ''mssql'' ''bufman_checkpoint_pages'')
        ''(BufferManager.Checkpointpages)'' [''mssql_instance'']),
      (''bufManDatabasepages'', NewDesc (BuildFQName Namespace ''mssql'' ''bufman_database_pages'')
        ''(BufferManager.Databasepages)'' [''mssql_instance'']),
      (''bufManExtensionallocatedpages'', NewDesc (BuildFQName Namespace ''mssql'' ''bufman_extension_allocated_pages'')
        ''(BufferManager.Extensionallocatedpages)'' [''mssql_instance'']),
      (''bufManExtensionfreepages'', NewDesc (BuildFQName Namespace ''mssql'' ''bufman_extension_free_pages'')
        ''(BufferManager.Extensionfreepages)'' [''mssql_instance'']),
      (''bufManExtensioninuseaspercentage'', NewDesc (BuildFQName Namespace ''mssql'' ''bufman_extension_in_use_as_percentage'')
        ''(BufferManager.Extensioninuseaspercentage)'' [''mssql_instance'']),
      (''bufManExtensionoutstandingIOcounter'', NewDesc (BuildFQName Namespace ''mssql'' ''bufman_extension_outstanding_io'')
        ''(BufferManager.ExtensionoutstandingIOcounter)'' [''mssql_instance'']),
      (''bufManExtensionpageevictions'', NewDesc (BuildFQName Namespace ''mssql'' ''bufman_extension_page_evictions'')
        ''(BufferManager.Extensionpageevictions)'' [''mssql_instance'']),
      (''bufManExtensionpagereads'', NewDesc (BuildFQName Namespace ''mssql'' ''bufman_extension_page_reads'')
        ''(BufferManager.Extensionpagereads)'' [''mssql_instance'']),
      (''bufManExtensionpageunreferencedtime'', NewDesc (BuildFQName Namespace ''mssql'' ''bufman_extension_page_unreferenced_seconds'')
        ''(BufferManager.Extensionpageunreferencedtime)'' [''mssql_instance'']),
      (''bufManExtensionpagewrites'', NewDesc (BuildFQName Namespace ''mssql'' ''bufman_extension_page_writes'')
        ''(BufferManager.Extensionpagewrites)'' [''mssql_instance'']),
      (''bufManFreeliststalls'', NewDesc (BuildFQName Namespace ''mssql'' ''bufman_free_list_stalls'')
        ''(BufferManager.Freeliststalls)'' [''mssql_instance'']),
      (''bufManIntegralControllerSlope'', NewDesc (BuildFQName Namespace ''mssql'' ''bufman_integral_controller_slope'')
        ''(BufferManager.IntegralControllerSlope)'' [''mssql_instance'']),
      (''bufManLazywrites'', NewDesc (BuildFQName Namespace ''mssql'' ''bufman_lazywrites'')
        ''(BufferManager.Lazywrites)'' [''mssql_instance'']),
      (''bufManPagelifeexpectancy'', NewDesc (BuildFQName Namespace ''mssql'' ''bufman_page_life_expectancy_seconds'')
        ''(BufferManager.Pagelifeexpectancy)'' [''mssql_instance'']),
      (''bufManPagelookups'', NewDesc (BuildFQName Namespace ''mssql'' ''bufman_page_lookups'')
        ''(BufferManager.Pagelookups)'' [''mssql_instance'']),
      (''bufManPagereads'', NewDesc (BuildFQName Namespace ''mssql'' ''bufman_page_reads'')
        ''(BufferManager.Pagereads)'' [''mssql_instance'']),
      (''bufManPagewrites'', NewDesc (BuildFQName Namespace ''mssql'' ''bufman_page_writes'')
        ''(BufferManager.Pagewrites)'' [''mssql_instance'']),
      (''bufManReadaheadpages'', NewDesc (BuildFQName Namespace ''mssql'' ''bufman_read_ahead_pages'')
        ''(BufferManager.Readaheadpages)'' [''mssql_instance'']),
      (''bufManReadaheadtime'', NewDesc (BuildFQName Namespace ''mssql'' ''bufman_read_ahead_issuing_seconds'')
        ''(BufferManager.Readaheadtime)'' [''mssql_instance'']),
      (''bufManTargetpages'', NewDesc (BuildFQName Namespace ''mssql'' ''bufman_target_pages'')
        ''(BufferManager.Targetpages)'' [''mssql_instance''])]"

definition mssql_bufman_lines :: "string \<Rightarrow> row \<Rightarrow> line list" where
  "mssql_bufman_lines i r =
     [(''bufManBackgroundwriterpages'', CounterValue, num mssql_bufman_fields r ''BufManBackgroundWriterPagesPerSec'', [i]),
      (''bufManBuffercachehits'', GaugeValue, num mssql_bufman_fields r ''BufManBufferCacheHitRatio'', [i]),
      (''bufManBuffercachelookups'', GaugeValue, num mssql_bufman_fields r ''BufManBufferCacheHitRatioBase'', [i]),
      (''bufManCheckpointpages'', CounterValue, num mssql_bufman_fields r ''BufManCheckpointPagesPerSec'', [i]),
      (''bufManDatabasepages'', GaugeValue, num mssql_bufman_fields r ''BufManDatabasePages'', [i]),
      (''bufManExtensionallocatedpages'', GaugeValue, num mssql_bufman_fields r ''BufManExtensionAllocatedPages'', [i]),
      (''bufManExtensionfreepages'', GaugeValue, num mssql_bufman_fields r ''BufManExtensionFreePages'', [i]),
      (''bufManExtensioninuseaspercentage'', GaugeValue, num mssql_bufman_fields r ''BufManExtensionInUseAsPercentage'', [i]),
      (''bufManExtensionoutstandingIOcounter'', GaugeValue, num mssql_bufman_fields r ''BufManExtensionOutstandingIOCounter'', [i]),
      (''bufManExtensionpageevictions'', CounterValue, num mssql_bufman_fields r ''BufManExtensionPageEvictionsPerSec'', [i]),
      (''bufManExtensionpagereads'', CounterValue, num mssql_bufman_fields r ''BufManExtensionPageReadsPerSec'', [i]),
      (''bufManExtensionpageunreferencedtime'', GaugeValue, num mssql_bufman_fields r ''BufManExtensionPageUnreferencedTime'', [i]),
      (''bufManExtensionpagewrites'', CounterValue, num mssql_bufman_fields r ''BufManExtensionPageWritesPerSec'', [i]),
      (''bufManFreeliststalls'', CounterValue, num mssql_bufman_fields r ''BufManFreeListStallsPerSec'', [i]),
      (''bufManIntegralControllerSlope'', GaugeValue, num mssql_bufman_fields r ''BufManIntegralControllerSlope'', [i]),
      (''bufManLazywrites'', CounterValue, num mssql_bufman_fields r ''BufManLazyWritesPerSec'', [i]),
      (''bufManPagelifeexpectancy'', GaugeValue, num mssql_bufman_fields r ''BufManPageLifeExpectancy'', [i]),
      (''bufManPagelookups'', CounterValue, num mssql_bufman_fields r ''BufManPageLookupsPerSec'', [i]),
      (''bufManPagereads'', CounterValue, num mssql_bufman_fields r ''BufManPageReadsPerSec'', [i]),
      (''bufManPagewrites'', CounterValue, num mssql_bufman_fields r ''BufManPageWritesPerSec'', [i]),
      (''bufManReadaheadpages'', CounterValue, num mssql_bufman_fields r ''BufManReadaheadPagesPerSec'', [i]),
      (''bufManReadaheadtime'', CounterValue, num mssql_bufman_fields r ''BufManReadaheadTimePerSec'', [i]),
      (''bufManTargetpages'', GaugeValue, num mssql_bufman_fields r ''BufManTargetPages'', [i])]"

definition mssql_bufman_class :: mssqlSub where
  "mssql_bufman_class =
     \<lparr>msFields = mssql_bufman_fields, msDescs = mssql_bufman_descs, msObject = ''Buffer Manager'', msErrObject = ''Buffer Manager'',
      msCreate = ''failed to create Buffer Manager collector for instance %s: %w'', msInstances = [], msFirst = False, msLines = mssql_bufman_lines\<rparr>"

section \<open>databases\<close>

definition mssql_databases_fields :: "structField list" where
  "mssql_databases_fields =
     [nameField,
      perfField ''DatabasesActiveTransactions'' ''Active Transactions'',
      perfField ''DatabasesBackupPerRestoreThroughputPerSec'' ''Backup/Restore Throughput/sec'',
      perfField ''DatabasesBulkCopyRowsPerSec'' ''Bulk Copy Rows/sec'',
      perfField ''DatabasesBulkCopyThroughputPerSec'' ''Bulk Copy Throughput/sec'',
      perfField ''DatabasesCommitTableEntries'' ''Commit table entries'',
      perfField ''DatabasesDataFilesSizeKB'' ''Data File(s) Size (KB)'',
      perfField ''DatabasesDBCCLogicalScanBytesPerSec'' ''DBCC Logical Scan Bytes/sec'',
      perfField ''DatabasesGroupCommitTimePerSec'' ''Group Commit Time/sec'',
      perfField ''DatabasesLogBytesFlushedPerSec'' ''Log Bytes Flushed/sec'',
      perfField ''DatabasesLogCacheHitRatio'' ''Log Cache Hit Ratio'',
      perfField ''DatabasesLogCacheHitRatioBase'' ''Log Cache Hit Ratio,secondvalue'',
      perfField ''DatabasesLogCacheReadsPerSec'' ''Log Cache Reads/sec'',
      perfField ''DatabasesLogFilesSizeKB'' ''Log File(s) Size (KB)'',
      perfField ''DatabasesLogFilesUsedSizeKB'' ''Log File(s) Used Size (KB)'',
      perfField ''DatabasesLogFlushesPerSec'' ''Log Flushes/sec'',
      perfField ''DatabasesLogFlushWaitsPerSec'' ''Log Flush Waits/sec'',
      perfField ''DatabasesLogFlushWaitTime'' ''Log Flush Wait Time'',
      perfField ''DatabasesLogFlushWriteTimeMS'' ''Log Flush Write Time (ms)'',
      perfField ''DatabasesLogGrowths'' ''Log Growths'',
      perfField ''DatabasesLogPoolCacheMissesPerSec'' ''Log Pool Cache Misses/sec'',
      perfField ''DatabasesLogPoolDiskReadsPerSec'' ''Log Pool Disk Reads/sec'',
      perfField ''DatabasesLogPoolHashDeletesPerSec'' ''Log Pool Hash Deletes/sec'',
      perfField ''DatabasesLogPoolHashInsertsPerSec'' ''Log Pool Hash Inserts/sec'',
      perfField ''DatabasesLogPoolInvalidHashEntryPerSec'' ''Log Pool Invalid Hash Entry/sec'',
      perfField ''DatabasesLogPoolLogScanPushesPerSec'' ''Log Pool Log Scan Pushes/sec'',
      perfField ''DatabasesLogPoolLogWriterPushesPerSec'' ''Log Pool LogWriter Pushes/sec'',
      perfField ''DatabasesLogPoolPushEmptyFreePoolPerSec'' ''Log Pool Push Empty FreePool/sec'',
      perfField ''DatabasesLogPoolPushLowMemoryPerSec'' ''Log Pool Push Low Memory/sec'',
      perfField ''DatabasesLogPoolPushNoFreeBufferPerSec'' ''Log Pool Push No Free Buffer/sec'',
      perfField ''DatabasesLogPoolReqBehindTruncPerSec'' ''Log Pool Req. Behind Trunc/sec'',
      perfField ''DatabasesLogPoolRequestsOldVLFPerSec'' ''Log Pool Requests Old VLF/sec'',
      perfField ''DatabasesLogPoolRequestsPerSec'' ''Log Pool Requests/sec'',
      perfField ''DatabasesLogPoolTotalActiveLogSize'' ''Log Pool Total Active Log Size'',
      perfField ''DatabasesLogPoolTotalSharedPoolSize'' ''Log Pool Total Shared Pool Size'',
      perfField ''DatabasesLogShrinks'' ''Log Shrinks'',
      perfField ''DatabasesLogTruncations'' ''Log Truncations'',
      perfField ''DatabasesPercentLogUsed'' ''Percent Log Used'',
      perfField ''DatabasesReplPendingXacts'' ''Repl. Pending Xacts'',
      perfField ''DatabasesReplTransRate'' ''Repl. Trans. Rate'',
      perfField ''DatabasesShrinkDataMovementBytesPerSec'' ''Shrink Data Movement Bytes/sec'',
      perfField ''DatabasesTrackedTransactionsPerSec'' ''Tracked transactions/sec'',
      perfField ''DatabasesTransactionsPerSec'' ''Transactions/sec'',
      perfField ''DatabasesWriteTransactionsPerSec'' ''Write Transactions/sec'',
      perfField ''DatabasesXTPControllerDLCLatencyPerFetch'' ''XTP Controller DLC Latency/Fetch'',
      perfField ''DatabasesXTPControllerDLCPeakLatency'' ''XTP Controller DLC Peak Latency'',
      perfField ''DatabasesXTPControllerLogProcessedPerSec'' ''XTP Controller Log Processed/sec'',
      perfField ''DatabasesXTPMemoryUsedKB'' ''XTP Memory Used (KB)'']"

definition mssql_databases_descs :: descTable where
  "mssql_databases_descs =
     [(''databasesActiveTransactions'', NewDesc (BuildFQName Namespace ''mssql'' ''databases_active_transactions'')
        ''(Databases.ActiveTransactions)'' [''mssql_instance'', ''database'']),
      (''databasesBackupPerRestoreThroughput'', NewDesc (BuildFQName Namespace ''mssql'' ''databases_backup_restore_operations'')
        ''(Databases.BackupPerRestoreThroughput)'' [''mssql_instance'', ''database'']),
      (''databasesBulkCopyRows'', NewDesc (BuildFQName Namespace ''mssql'' ''databases_bulk_copy_rows'')
        ''(Databases.BulkCopyRows)'' [''mssql_instance'', ''database'']),
      (''databasesBulkCopyThroughput'', NewDesc (BuildFQName Namespace ''mssql'' ''databases_bulk_copy_bytes'')
        ''(Databases.BulkCopyThroughput)'' [''mssql_instance'', ''database'']),
      (''databasesCommitTableEntries'', NewDesc (BuildFQName Namespace ''mssql'' ''databases_commit_table_entries'')
        ''(Databases.Committableentries)'' [''mssql_instance'', ''database'']),
      (''databasesDataFilesSizeKB'', NewDesc (BuildFQName Namespace ''mssql'' ''databases_data_files_size_bytes'')
        ''(Databases.DataFilesSizeKB)'' [''mssql_instance'', ''database'']),
      (''databasesDBCCLogicalScanBytes'', NewDesc (BuildFQName Namespace ''mssql'' ''databases_dbcc_logical_scan_bytes'')
        ''(Databases.DBCCLogicalScanBytes)'' [''mssql_instance'', ''database'']),
      (''databasesGroupCommitTime'', NewDesc (BuildFQName Namespace ''mssql'' ''databases_group_commit_stall_seconds'')
        ''(Databases.GroupCommitTime)'' [''mssql_instance'', ''database'']),
      (''databasesLogBytesFlushed'', NewDesc (BuildFQName Namespace ''mssql'' ''databases_log_flushed_bytes'')
        ''(Databases.LogBytesFlushed)'' [''mssql_instance'', ''database'']),
      (''databasesLogCacheHits'', NewDesc (BuildFQName Namespace ''mssql'' ''databases_log_cache_hits'')
        ''(Databases.LogCacheHitRatio)'' [''mssql_instance'', ''database'']),
      (''databasesLogCacheLookups'', NewDesc (BuildFQName Namespace ''mssql'' ''databases_log_cache_lookups'')
        ''(Databases.LogCacheHitRatio_Base)'' [''mssql_instance'', ''database'']),
      (''databasesLogCacheReads'', NewDesc (BuildFQName Namespace ''mssql'' ''databases_log_cache_reads'')
        ''(Databases.LogCacheReads)'' [''mssql_instance'', ''database'']),
      (''databasesLogFilesSizeKB'', NewDesc (BuildFQName Namespace ''mssql'' ''databases_log_files_size_bytes'')
        ''(Databases.LogFilesSizeKB)'' [''mssql_instance'', ''database'']),
      (''databasesLogFilesUsedSizeKB'', NewDesc (BuildFQName Namespace ''mssql'' ''databases_log_files_used_size_bytes'')
        ''(Databases.LogFilesUsedSizeKB)'' [''mssql_instance'', ''database'']),
      (''databasesLogFlushes'', NewDesc (BuildFQName Namespace ''mssql'' ''databases_log_flushes'')
        ''(Databases.LogFlushes)'' [''mssql_instance'', ''database'']),
      (''databasesLogFlushWaits'', NewDesc (BuildFQName Namespace ''mssql'' ''databases_log_flush_waits'')
        ''(Databases.LogFlushWaits)'' [''mssql_instance'', ''database'']),
      (''databasesLogFlushWaitTime'', NewDesc (BuildFQName Namespace ''mssql'' ''databases_log_flush_wait_seconds'')
        ''(Databases.LogFlushWaitTime)'' [''mssql_instance'', ''database'']),
      (''databasesLogFlushWriteTimeMS'', NewDesc (BuildFQName Namespace ''mssql'' ''databases_log_flush_write_seconds'')
        ''(Databases.LogFlushWriteTimems)'' [''mssql_instance'', ''database'']),
      (''databasesLogGrowths'', NewDesc (BuildFQName Namespace ''mssql'' ''databases_log_growths'')
        ''(Databases.LogGrowths)'' [''mssql_instance'', ''database'']),
      (''databasesLogPoolCacheMisses'', NewDesc (BuildFQName Namespace ''mssql'' ''databases_log_pool_cache_misses'')
        ''(Databases.LogPoolCacheMisses)'' [''mssql_instance'', ''database'']),
      (''databasesLogPoolDiskReads'', NewDesc (BuildFQName Namespace ''mssql'' ''databases_log_pool_disk_reads'')
        ''(Databases.LogPoolDiskReads)'' [''mssql_instance'', ''database'']),
      (''databasesLogPoolHashDeletes'', NewDesc (BuildFQName Namespace ''mssql'' ''databases_log_pool_hash_deletes'')
        ''(Databases.LogPoolHashDeletes)'' [''mssql_instance'', ''database'']),
      (''databasesLogPoolHashInserts'', NewDesc (BuildFQName Namespace ''mssql'' ''databases_log_pool_hash_inserts'')
        ''(Databases.LogPoolHashInserts)'' [''mssql_instance'', ''database'']),
      (''databasesLogPoolInvalidHashEntry'', NewDesc (BuildFQName Namespace ''mssql'' ''databases_log_pool_invalid_hash_entries'')
        ''(Databases.LogPoolInvalidHashEntry)'' [''mssql_instance'', ''database'']),
      (''databasesLogPoolLogScanPushes'', NewDesc (BuildFQName Namespace ''mssql'' ''databases_log_pool_log_scan_pushes'')
        ''(Databases.LogPoolLogScanPushes)'' [''mssql_instance'', ''database'']),
      (''databasesLogPoolLogWriterPushes'', NewDesc (BuildFQName Namespace ''mssql'' ''databases_log_pool_log_writer_pushes'')
        ''(Databases.LogPoolLogWriterPushes)'' [''mssql_instance'', ''database'']),
      (''databasesLogPoolPushEmptyFreePool'', NewDesc (BuildFQName Namespace ''mssql'' ''databases_log_pool_empty_free_pool_pushes'')
        ''(Databases.LogPoolPushEmptyFreePool)'' [''mssql_instance'', ''database'']),
      (''databasesLogPoolPushLowMemory'', NewDesc (BuildFQName Namespace ''mssql'' ''databases_log_pool_low_memory_pushes'')
        ''(Databases.LogPoolPushLowMemory)'' [''mssql_instance'', ''database'']),
      (''databasesLogPoolPushNoFreeBuffer'', NewDesc (BuildFQName Namespace ''mssql'' ''databases_log_pool_no_free_buffer_pushes'')
        ''(Databases.LogPoolPushNoFreeBuffer)'' [''mssql_instance'', ''database'']),
      (''databasesLogPoolReqBehindTrunc'', NewDesc (BuildFQName Namespace ''mssql'' ''databases_log_pool_req_behind_trunc'')
        ''(Databases.LogPoolReqBehindTrunc)'' [''mssql_instance'', ''database'']),
      (''databasesLogPoolRequestsOldVLF'', NewDesc (BuildFQName Namespace ''mssql'' ''databases_log_pool_requests_old_vlf'')
        ''(Databases.LogPoolRequestsOldVLF)'' [''mssql_instance'', ''database'']),
      (''databasesLogPoolRequests'', NewDesc (BuildFQName Namespace ''mssql'' ''databases_log_pool_requests'')
        ''(Databases.LogPoolRequests)'' [''mssql_instance'', ''database'']),
      (''databasesLogPoolTotalActiveLogSize'', NewDesc (BuildFQName Namespace ''mssql'' ''databases_log_pool_total_active_log_bytes'')
        ''(Databases.LogPoolTotalActiveLogSize)'' [''mssql_instance'', ''database'']),
      (''databasesLogPoolTotalSharedPoolSize'', NewDesc (BuildFQName Namespace ''mssql'' ''databases_log_pool_total_shared_pool_bytes'')
        ''(Databases.LogPoolTotalSharedPoolSize)'' [''mssql_instance'', ''database'']),
      (''databasesLogShrinks'', NewDesc (BuildFQName Namespace ''mssql'' ''databases_log_shrinks'')
        ''(Databases.LogShrinks)'' [''mssql_instance'', ''database'']),
      (''databasesLogTruncations'', NewDesc (BuildFQName Namespace ''mssql'' ''databases_log_truncations'')
        ''(Databases.LogTruncations)'' [''mssql_instance'', ''database'']),
      (''databasesPercentLogUsed'', NewDesc (BuildFQName Namespace ''mssql'' ''databases_log_used_percent'')
        ''(Databases.PercentLogUsed)'' [''mssql_instance'', ''database'']),
      (''databasesReplPendingXacts'', NewDesc (BuildFQName Namespace ''mssql'' ''databases_pending_repl_transactions'')
        ''(Databases.ReplPendingTransactions)'' [''mssql_instance'', ''database'']),
      (''databasesReplTransRate'', NewDesc (BuildFQName Namespace ''mssql'' ''databases_repl_transactions'')
        ''(Databases.ReplTranactions)'' [''mssql_instance'', ''database'']),
      (''databasesShrinkDataMovementBytes'', NewDesc (BuildFQName Namespace ''mssql'' ''databases_shrink_data_movement_bytes'')
        ''(Databases.ShrinkDataMovementBytes)'' [''mssql_instance'', ''database'']),
      (''databasesTrackedTransactions'', NewDesc (BuildFQName Namespace ''mssql'' ''databases_tracked_transactions'')
        ''(Databases.Trackedtransactions)'' [''mssql_instance'', ''database'']),
      (''databasesTransactions'', NewDesc (BuildFQName Namespace ''mssql'' ''databases_transactions'')
        ''(Databases.Transactions)'' [''mssql_instance'', ''database'']),
      (''databasesWriteTransactions'', NewDesc (BuildFQName Namespace ''mssql'' ''databases_write_transactions'')
        ''(Databases.WriteTransactions)'' [''mssql_instance'', ''database'']),
      (''databasesXTPControllerDLCLatencyPerFetch'', NewDesc (BuildFQName Namespace ''mssql'' ''databases_xtp_controller_dlc_fetch_latency_seconds'')
        ''(Databases.XTPControllerDLCLatencyPerFetch)'' [''mssql_instance'', ''database'']),
      (''databasesXTPControllerDLCPeakLatency'', NewDesc (BuildFQName Namespace ''mssql'' ''databases_xtp_controller_dlc_peak_latency_seconds'')
        ''(Databases.XTPControllerDLCPeakLatency)'' [''mssql_instance'', ''database'']),
      (''databasesXTPControllerLogProcessed'', NewDesc (BuildFQName Namespace ''mssql'' ''databases_xtp_controller_log_processed_bytes'')
        ''(Databases.XTPControllerLogProcessed)'' [''mssql_instance'', ''database'']),
      (''databasesXTPMemoryUsedKB'', NewDesc (BuildFQName Namespace ''mssql'' ''databases_xtp_memory_used_bytes'')
        ''(Databases.XTPMemoryUsedKB)'' [''mssql_instance'', ''database''])]"

definition mssql_databases_lines :: "string \<Rightarrow> row \<Rightarrow> line list" where
  "mssql_databases_lines i r =
     [(''databasesActiveTransactions'', GaugeValue, num mssql_databases_fields r ''DatabasesActiveTransactions'', [i, rowName mssql_databases_fields r]),
      (''databasesBackupPerRestoreThroughput'', CounterValue, num mssql_databases_fields r ''DatabasesBackupPerRestoreThroughputPerSec'', [i, rowName mssql_databases_fields r]),
      (''databasesBulkCopyRows'', CounterValue, num mssql_databases_fields r ''DatabasesBulkCopyRowsPerSec'', [i, rowName mssql_databases_fields r]),
      (''databasesBulkCopyThroughput'', CounterValue, f64_mul (num mssql_databases_fields r ''DatabasesBulkCopyThroughputPerSec'') (F_Fin 1024), [i, rowName mssql_databases_fields r]),
      (''databasesCommitTableEntries'', GaugeValue, num mssql_databases_fields r ''DatabasesCommitTableEntries'', [i, rowName mssql_databases_fields r]),
      (''databasesDataFilesSizeKB'', GaugeValue, f64_mul (num mssql_databases_fields r ''DatabasesDataFilesSizeKB'') (F_Fin 1024), [i, rowName mssql_databases_fields r]),
      (''databasesDBCCLogicalScanBytes'', CounterValue, num mssql_databases_fields r ''DatabasesDBCCLogicalScanBytesPerSec'', [i, rowName mssql_databases_fields r]),
      (''databasesGroupCommitTime'', CounterValue, f64_div (num mssql_databases_fields r ''DatabasesGroupCommitTimePerSec'') (F_Fin 1000000), [i, rowName mssql_databases_fields r]),
      (''databasesLogBytesFlushed'', CounterValue, num mssql_databases_fields r ''DatabasesLogBytesFlushedPerSec'', [i, rowName mssql_databases_fields r]),
      (''databasesLogCacheHits'', GaugeValue, num mssql_databases_fields r ''DatabasesLogCacheHitRatio'', [i, rowName mssql_databases_fields r]),
      (''databasesLogCacheLookups'', GaugeValue, num mssql_databases_fields r ''DatabasesLogCacheHitRatioBase'', [i, rowName mssql_databases_fields r]),
      (''databasesLogCacheReads'', CounterValue, num mssql_databases_fields r ''DatabasesLogCacheReadsPerSec'', [i, rowName mssql_databases_fields r]),
      (''databasesLogFilesSizeKB'', GaugeValue, f64_mul (num mssql_databases_fields r ''DatabasesLogFilesSizeKB'') (F_Fin 1024), [i, rowName mssql_databases_fields r]),
      (''databasesLogFilesUsedSizeKB'', GaugeValue, f64_mul (num mssql_databases_fields r ''DatabasesLogFilesUsedSizeKB'') (F_Fin 1024), [i, rowName mssql_databases_fields r]),
      (''databasesLogFlushes'', CounterValue, num mssql_databases_fields r ''DatabasesLogFlushesPerSec'', [i, rowName mssql_databases_fields r]),
      (''databasesLogFlushWaits'', CounterValue, num mssql_databases_fields r ''DatabasesLogFlushWaitsPerSec'', [i, rowName mssql_databases_fields r]),
      (''databasesLogFlushWaitTime'', GaugeValue, f64_div (num mssql_databases_fields r ''DatabasesLogFlushWaitTime'') (F_Fin 1000), [i, rowName mssql_databases_fields r]),
      (''databasesLogFlushWriteTimeMS'', GaugeValue, f64_div (num mssql_databases_fields r ''DatabasesLogFlushWriteTimeMS'') (F_Fin 1000), [i, rowName mssql_databases_fields r]),
      (''databasesLogGrowths'', GaugeValue, num mssql_databases_fields r ''DatabasesLogGrowths'', [i, rowName mssql_databases_fields r]),
      (''databasesLogPoolCacheMisses'', CounterValue, num mssql_databases_fields r ''DatabasesLogPoolCacheMissesPerSec'', [i, rowName mssql_databases_fields r]),
      (''databasesLogPoolDiskReads'', CounterValue, num mssql_databases_fields r ''DatabasesLogPoolDiskReadsPerSec'', [i, rowName mssql_databases_fields r]),
      (''databasesLogPoolHashDeletes'', CounterValue, num mssql_databases_fields r ''DatabasesLogPoolHashDeletesPerSec'', [i, rowName mssql_databases_fields r]),
      (''databasesLogPoolHashInserts'', CounterValue, num mssql_databases_fields r ''DatabasesLogPoolHashInsertsPerSec'', [i, rowName mssql_databases_fields r]),
      (''databasesLogPoolInvalidHashEntry'', CounterValue, num mssql_databases_fields r ''DatabasesLogPoolInvalidHashEntryPerSec'', [i, rowName mssql_databases_fields r]),
      (''databasesLogPoolLogScanPushes'', CounterValue, num mssql_databases_fields r ''DatabasesLogPoolLogScanPushesPerSec'', [i, rowName mssql_databases_fields r]),
      (''databasesLogPoolLogWriterPushes'', CounterValue, num mssql_databases_fields r ''DatabasesLogPoolLogWriterPushesPerSec'', [i, rowName mssql_databases_fields r]),
      (''databasesLogPoolPushEmptyFreePool'', CounterValue, num mssql_databases_fields r ''DatabasesLogPoolPushEmptyFreePoolPerSec'', [i, rowName mssql_databases_fields r]),
      (''databasesLogPoolPushLowMemory'', CounterValue, num mssql_databases_fields r ''DatabasesLogPoolPushLowMemoryPerSec'', [i, rowName mssql_databases_fields r]),
      (''databasesLogPoolPushNoFreeBuffer'', CounterValue, num mssql_databases_fields r ''DatabasesLogPoolPushNoFreeBufferPerSec'', [i, rowName mssql_databases_fields r]),
      (''databasesLogPoolReqBehindTrunc'', CounterValue, num mssql_databases_fields r ''DatabasesLogPoolReqBehindTruncPerSec'', [i, rowName mssql_databases_fields r]),
      (''databasesLogPoolRequestsOldVLF'', CounterValue, num mssql_databases_fields r ''DatabasesLogPoolRequestsOldVLFPerSec'', [i, rowName mssql_databases_fields r]),
      (''databasesLogPoolRequests'', CounterValue, num mssql_databases_fields r ''DatabasesLogPoolRequestsPerSec'', [i, rowName mssql_databases_fields r]),
      (''databasesLogPoolTotalActiveLogSize'', GaugeValue, num mssql_databases_fields r ''DatabasesLogPoolTotalActiveLogSize'', [i, rowName mssql_databases_fields r]),
      (''databasesLogPoolTotalSharedPoolSize'', GaugeValue, num mssql_databases_fields r ''DatabasesLogPoolTotalSharedPoolSize'', [i, rowName mssql_databases_fields r]),
      (''databasesLogShrinks'', GaugeValue, num mssql_databases_fields r ''DatabasesLogShrinks'', [i, rowName mssql_databases_fields r]),
      (''databasesLogTruncations'', GaugeValue, num mssql_databases_fields r ''DatabasesLogTruncations'', [i, rowName mssql_databases_fields r]),
      (''databasesPercentLogUsed'', GaugeValue, num mssql_databases_fields r ''DatabasesPercentLogUsed'', [i, rowName mssql_databases_fields r]),
      (''databasesReplPendingXacts'', GaugeValue, num mssql_databases_fields r ''DatabasesReplPendingXacts'', [i, rowName mssql_databases_fields r]),
      (''databasesReplTransRate'', CounterValue, num mssql_databases_fields r ''DatabasesReplTransRate'', [i, rowName mssql_databases_fields r]),
      (''databasesShrinkDataMovementBytes'', CounterValue, num mssql_databases_fields r ''DatabasesShrinkDataMovementBytesPerSec'', [i, rowName mssql_databases_fields r]),
      (''databasesTrackedTransactions'', CounterValue, num mssql_databases_fields r ''DatabasesTrackedTransactionsPerSec'', [i, rowName mssql_databases_fields r]),
      (''databasesTransactions'', CounterValue, num mssql_databases_fields r ''DatabasesTransactionsPerSec'', [i, rowName mssql_databases_fields r]),
      (''databasesWriteTransactions'', CounterValue, num mssql_databases_fields r ''DatabasesWriteTransactionsPerSec'', [i, rowName mssql_databases_fields r]),
      (''databasesXTPControllerDLCLatencyPerFetch'', GaugeValue, num mssql_databases_fields r ''DatabasesXTPControllerDLCLatencyPerFetch'', [i, rowName mssql_databases_fields r]),
      (''databasesXTPControllerDLCPeakLatency'', GaugeValue, f64_mul (num mssql_databases_fields r ''DatabasesXTPControllerDLCPeakLatency'') (F_Fin 1000000), [i, rowName mssql_databases_fields r]),
      (''databasesXTPControllerLogProcessed'', CounterValue, num mssql_databases_fields r ''DatabasesXTPControllerLogProcessedPerSec'', [i, rowName mssql_databases_fields r]),
      (''databasesXTPMemoryUsedKB'', GaugeValue, f64_mul (num mssql_databases_fields r ''DatabasesXTPMemoryUsedKB'') (F_Fin 1024), [i, rowName mssql_databases_fields r])]"

definition mssql_databases_class :: mssqlSub where
  "mssql_databases_class =
     \<lparr>msFields = mssql_databases_fields, msDescs = mssql_databases_descs, msObject = ''Databases'', msErrObject = ''Databases'',
      msCreate = ''failed to create Databases collector for instance %s: %w'', msInstances = [''*''], msFirst = False, msLines = mssql_databases_lines\<rparr>"

section \<open>databases2019\<close>

definition mssql_databases2019_fields :: "structField list" where
  "mssql_databases2019_fields =
     [nameField,
      perfField ''DatabasesActiveParallelRedoThreads'' ''Active parallel redo threads'']"

definition mssql_databases2019_descs :: descTable where
  "mssql_databases2019_descs =
     [(''databasesActiveParallelRedoThreads'', NewDesc (BuildFQName Namespace ''mssql'' ''databases_active_parallel_redo_threads'')
        ''(Databases.ActiveParallelredothreads)'' [''mssql_instance'', ''database''])]"

definition mssql_databases2019_lines :: "string \<Rightarrow> row \<Rightarrow> line list" where
  "mssql_databases2019_lines i r =
     [(''databasesActiveParallelRedoThreads'', GaugeValue, num mssql_databases2019_fields r ''DatabasesActiveParallelRedoThreads'', [i, rowName mssql_databases2019_fields r])]"

definition mssql_databases2019_class :: mssqlSub where
  "mssql_databases2019_class =
     \<lparr>msFields = mssql_databases2019_fields, msDescs = mssql_databases2019_descs, msObject = ''Databases'', msErrObject = ''Databases'',
      msCreate = ''failed to create Databases 2019 collector for instance %s: %w'', msInstances = [''*''], msFirst = False, msLines = mssql_databases2019_lines\<rparr>"

section \<open>dbreplica\<close>

definition mssql_dbreplica_fields :: "structField list" where
  "mssql_dbreplica_fields =
     [nameField,
      perfField ''DbReplicaDatabaseFlowControlDelay'' ''Database Flow Control Delay'',
      perfField ''DbReplicaDatabaseFlowControlsPerSec'' ''Database Flow Controls/sec'',
      perfField ''DbReplicaFileBytesReceivedPerSec'' ''File Bytes Received/sec'',
      perfField ''DbReplicaGroupCommitsPerSec'' ''Group Commits/Sec'',
      perfField ''DbReplicaGroupCommitTime'' ''Group Commit Time'',
      perfField ''DbReplicaLogApplyPendingQueue'' ''Log Apply Pending Queue'',
      perfField ''DbReplicaLogApplyReadyQueue'' ''Log Apply Ready Queue'',
      perfField ''DbReplicaLogBytesCompressedPerSec'' ''Log Bytes Compressed/sec'',
      perfField ''DbReplicaLogBytesDecompressedPerSec'' ''Log Bytes Decompressed/sec'',
      perfField ''DbReplicaLogBytesReceivedPerSec'' ''Log Bytes Received/sec'',
      perfField ''DbReplicaLogCompressionCacheHitsPerSec'' ''Log Compression Cache hits/sec'',
      perfField ''DbReplicaLogCompressionCacheMissesPerSec'' ''Log Compression Cache misses/sec'',
      perfField ''DbReplicaLogCompressionsPerSec'' ''Log Compressions/sec'',
      perfField ''DbReplicaLogDecompressionsPerSec'' ''Log Decompressions/sec'',
      perfField ''DbReplicaLogRemainingForUndo'' ''Log remaining for undo'',
      perfField ''DbReplicaLogSendQueue'' ''Log Send Queue'',
      perfField ''DbReplicaMirroredWriteTransactionsPerSec'' ''Mirrored Write Transactions/sec'',
      perfField ''DbReplicaRecoveryQueue'' ''Recovery Queue'',
      perfField ''DbReplicaRedoBlockedPerSec'' ''Redo blocked/sec'',
      perfField ''DbReplicaRedoBytesRemaining'' ''Redo Bytes Remaining'',
      perfField ''DbReplicaRedoneBytesPerSec'' ''Redone Bytes/sec'',
      perfField ''DbReplicaRedonesPerSec'' ''Redones/sec'',
      perfField ''DbReplicaTotalLogRequiringUndo'' ''Total Log requiring undo'',
      perfField ''DbReplicaTransactionDelay'' ''Transaction Delay'']"

definition mssql_dbreplica_descs :: descTable where
  "mssql_dbreplica_descs =
     [(''dbReplicaDatabaseFlowControlDelay'', NewDesc (BuildFQName Namespace ''mssql'' ''dbreplica_database_flow_control_wait_seconds'')
        ''(DatabaseReplica.DatabaseFlowControlDelay)'' [''mssql_instance'', ''replica'']),
      (''dbReplicaDatabaseFlowControls'', NewDesc (BuildFQName Namespace ''mssql'' ''dbreplica_database_initiated_flow_controls'')
        ''(DatabaseReplica.DatabaseFlowControls)'' [''mssql_instance'', ''replica'']),
      (''dbReplicaFileBytesReceived'', NewDesc (BuildFQName Namespace ''mssql'' ''dbreplica_received_file_bytes'')
        ''(DatabaseReplica.FileBytesReceived)'' [''mssql_instance'', ''replica'']),
      (''dbReplicaGroupCommits'', NewDesc (BuildFQName Namespace ''mssql'' ''dbreplica_group_commits'')
        ''(DatabaseReplica.GroupCommits)'' [''mssql_instance'', ''replica'']),
      (''dbReplicaGroupCommitTime'', NewDesc (BuildFQName Namespace ''mssql'' ''dbreplica_group_commit_stall_seconds'')
        ''(DatabaseReplica.GroupCommitTime)'' [''mssql_instance'', ''replica'']),
      (''dbReplicaLogApplyPendingQueue'', NewDesc (BuildFQName Namespace ''mssql'' ''dbreplica_log_apply_pending_queue'')
        ''(DatabaseReplica.LogApplyPendingQueue)'' [''mssql_instance'', ''replica'']),
      (''dbReplicaLogApplyReadyQueue'', NewDesc (BuildFQName Namespace ''mssql'' ''dbreplica_log_apply_ready_queue'')
        ''(DatabaseReplica.LogApplyReadyQueue)'' [''mssql_instance'', ''replica'']),
      (''dbReplicaLogBytesCompressed'', NewDesc (BuildFQName Namespace ''mssql'' ''dbreplica_log_compressed_bytes'')
        ''(DatabaseReplica.LogBytesCompressed)'' [''mssql_instance'', ''replica'']),
      (''dbReplicaLogBytesDecompressed'', NewDesc (BuildFQName Namespace ''mssql'' ''dbreplica_log_decompressed_bytes'')
        ''(DatabaseReplica.LogBytesDecompressed)'' [''mssql_instance'', ''replica'']),
      (''dbReplicaLogBytesReceived'', NewDesc (BuildFQName Namespace ''mssql'' ''dbreplica_log_received_bytes'')
        ''(DatabaseReplica.LogBytesReceived)'' [''mssql_instance'', ''replica'']),
      (''dbReplicaLogCompressionCachehits'', NewDesc (BuildFQName Namespace ''mssql'' ''dbreplica_log_compression_cachehits'')
        ''(DatabaseReplica.LogCompressionCachehits)'' [''mssql_instance'', ''replica'']),
      (''dbReplicaLogCompressionCachemisses'', NewDesc (BuildFQName Namespace ''mssql'' ''dbreplica_log_compression_cachemisses'')
        ''(DatabaseReplica.LogCompressionCachemisses)'' [''mssql_instance'', ''replica'']),
      (''dbReplicaLogCompressions'', NewDesc (BuildFQName Namespace ''mssql'' ''dbreplica_log_compressions'')
        ''(DatabaseReplica.LogCompressions)'' [''mssql_instance'', ''replica'']),
      (''dbReplicaLogDecompressions'', NewDesc (BuildFQName Namespace ''mssql'' ''dbreplica_log_decompressions'')
        ''(DatabaseReplica.LogDecompressions)'' [''mssql_instance'', ''replica'']),
      (''dbReplicaLogremainingforundo'', NewDesc (BuildFQName Namespace ''mssql'' ''dbreplica_log_remaining_for_undo'')
        ''(DatabaseReplica.Logremainingforundo)'' [''mssql_instance'', ''replica'']),
      (''dbReplicaLogSendQueue'', NewDesc (BuildFQName Namespace ''mssql'' ''dbreplica_log_send_queue'')
        ''(DatabaseReplica.LogSendQueue)'' [''mssql_instance'', ''replica'']),
      (''dbReplicaMirroredWritetransactions'', NewDesc (BuildFQName Namespace ''mssql'' ''dbreplica_mirrored_write_transactions'')
        ''(DatabaseReplica.MirroredWriteTransactions)'' [''mssql_instance'', ''replica'']),
      (''dbReplicaRecoveryQueue'', NewDesc (BuildFQName Namespace ''mssql'' ''dbreplica_recovery_queue_records'')
        ''(DatabaseReplica.RecoveryQueue)'' [''mssql_instance'', ''replica'']),
      (''dbReplicaRedoblocked'', NewDesc (BuildFQName Namespace ''mssql'' ''dbreplica_redo_blocks'')
        ''(DatabaseReplica.Redoblocked)'' [''mssql_instance'', ''replica'']),
      (''dbReplicaRedoBytesRemaining'', NewDesc (BuildFQName Namespace ''mssql'' ''dbreplica_redo_remaining_bytes'')
        ''(DatabaseReplica.RedoBytesRemaining)'' [''mssql_instance'', ''replica'']),
      (''dbReplicaRedoneBytes'', NewDesc (BuildFQName Namespace ''mssql'' ''dbreplica_redone_bytes'')
        ''(DatabaseReplica.RedoneBytes)'' [''mssql_instance'', ''replica'']),
      (''dbReplicaRedones'', NewDesc (BuildFQName Namespace ''mssql'' ''dbreplica_redones'')
        ''(DatabaseReplica.Redones)'' [''mssql_instance'', ''replica'']),
      (''dbReplicaTotalLogrequiringundo'', NewDesc (BuildFQName Namespace ''mssql'' ''dbreplica_total_log_requiring_undo'')
        ''(DatabaseReplica.TotalLogrequiringundo)'' [''mssql_instance'', ''replica'']),
      (''dbReplicaTransactionDelay'', NewDesc (BuildFQName Namespace ''mssql'' ''dbreplica_transaction_delay_seconds'')
        ''(DatabaseReplica.TransactionDelay)'' [''mssql_instance'', ''replica''])]"

definition mssql_dbreplica_lines :: "string \<Rightarrow> row \<Rightarrow> line list" where
  "mssql_dbreplica_lines i r =
     [(''dbReplicaDatabaseFlowControlDelay'', GaugeValue, num mssql_dbreplica_fields r ''DbReplicaDatabaseFlowControlDelay'', [i, rowName mssql_dbreplica_fields r]),
      (''dbReplicaDatabaseFlowControls'', CounterValue, num mssql_dbreplica_fields r ''DbReplicaDatabaseFlowControlsPerSec'', [i, rowName mssql_dbreplica_fields r]),
      (''dbReplicaFileBytesReceived'', CounterValue, num mssql_dbreplica_fields r ''DbReplicaFileBytesReceivedPerSec'', [i, rowName mssql_dbreplica_fields r]),
      (''dbReplicaGroupCommits'', CounterValue, num mssql_dbreplica_fields r ''DbReplicaGroupCommitsPerSec'', [i, rowName mssql_dbreplica_fields r]),
      (''dbReplicaGroupCommitTime'', GaugeValue, num mssql_dbreplica_fields r ''DbReplicaGroupCommitTime'', [i, rowName mssql_dbreplica_fields r]),
      (''dbReplicaLogApplyPendingQueue'', GaugeValue, num mssql_dbreplica_fields r ''DbReplicaLogApplyPendingQueue'', [i, rowName mssql_dbreplica_fields r]),
      (''dbReplicaLogApplyReadyQueue'', GaugeValue, num mssql_dbreplica_fields r ''DbReplicaLogApplyReadyQueue'', [i, rowName mssql_dbreplica_fields r]),
      (''dbReplicaLogBytesCompressed'', CounterValue, num mssql_dbreplica_fields r ''DbReplicaLogBytesCompressedPerSec'', [i, rowName mssql_dbreplica_fields r]),
      (''dbReplicaLogBytesDecompressed'', CounterValue, num mssql_dbreplica_fields r ''DbReplicaLogBytesDecompressedPerSec'', [i, rowName mssql_dbreplica_fields r]),
      (''dbReplicaLogBytesReceived'', CounterValue, num mssql_dbreplica_fields r ''DbReplicaLogBytesReceivedPerSec'', [i, rowName mssql_dbreplica_fields r]),
      (''dbReplicaLogCompressionCachehits'', CounterValue, num mssql_dbreplica_fields r ''DbReplicaLogCompressionCacheHitsPerSec'', [i, rowName mssql_dbreplica_fields r]),
      (''dbReplicaLogCompressionCachemisses'', CounterValue, num mssql_dbreplica_fields r ''DbReplicaLogCompressionCacheMissesPerSec'', [i, rowName mssql_dbreplica_fields r]),
      (''dbReplicaLogCompressions'', CounterValue, num mssql_dbreplica_fields r ''DbReplicaLogCompressionsPerSec'', [i, rowName mssql_dbreplica_fields r]),
      (''dbReplicaLogDecompressions'', CounterValue, num mssql_dbreplica_fields r ''DbReplicaLogDecompressionsPerSec'', [i, rowName mssql_dbreplica_fields r]),
      (''dbReplicaLogremainingforundo'', GaugeValue, num mssql_dbreplica_fields r ''DbReplicaLogRemainingForUndo'', [i, rowName mssql_dbreplica_fields r]),
      (''dbReplicaLogSendQueue'', GaugeValue, num mssql_dbreplica_fields r ''DbReplicaLogSendQueue'', [i, rowName mssql_dbreplica_fields r]),
      (''dbReplicaMirroredWritetransactions'', CounterValue, num mssql_dbreplica_fields r ''DbReplicaMirroredWriteTransactionsPerSec'', [i, rowName mssql_dbreplica_fields r]),
      (''dbReplicaRecoveryQueue'', GaugeValue, num mssql_dbreplica_fields r ''DbReplicaRecoveryQueue'', [i, rowName mssql_dbreplica_fields r]),
      (''dbReplicaRedoblocked'', CounterValue, num mssql_dbreplica_fields r ''DbReplicaRedoBlockedPerSec'', [i, rowName mssql_dbreplica_fields r]),
      (''dbReplicaRedoBytesRemaining'', GaugeValue, num mssql_dbreplica_fields r ''DbReplicaRedoBytesRemaining'', [i, rowName mssql_dbreplica_fields r]),
      (''dbReplicaRedoneBytes'', CounterValue, num mssql_dbreplica_fields r ''DbReplicaRedoneBytesPerSec'', [i, rowName mssql_dbreplica_fields r]),
      (''dbReplicaRedones'', CounterValue, num mssql_dbreplica_fields r ''DbReplicaRedonesPerSec'', [i, rowName mssql_dbreplica_fields r]),
      (''dbReplicaTotalLogrequiringundo'', GaugeValue, num mssql_dbreplica_fields r ''DbReplicaTotalLogRequiringUndo'', [i, rowName mssql_dbreplica_fields r]),
      (''dbReplicaTransactionDelay'', GaugeValue, f64_div (num mssql_dbreplica_fields r ''DbReplicaTransactionDelay'') (F_Fin 1000), [i, rowName mssql_dbreplica_fields r])]"

definition mssql_dbreplica_class :: mssqlSub where
  "mssql_dbreplica_class =
     \<lparr>msFields = mssql_dbreplica_fields, msDescs = mssql_dbreplica_descs, msObject = ''Database Replica'', msErrObject = ''Database Replica'',
      msCreate = ''failed to create Database Replica collector for instance %s: %w'', msInstances = [''*''], msFirst = False, msLines = mssql_dbreplica_lines\<rparr>"

section \<open>genstats\<close>

definition mssql_genstats_fields :: "structField list" where
  "mssql_genstats_fields =
     [perfField ''GenStatsActiveTempTables'' ''Active Temp Tables'',
      perfField ''GenStatsConnectionResetPerSec'' ''Connection Reset/sec'',
      perfField ''GenStatsEventNotificationsDelayedDrop'' ''Event Notifications Delayed Drop'',
      perfField ''GenStatsHTTPAuthenticatedRequests'' ''HTTP Authenticated Requests'',
      perfField ''GenStatsLogicalConnections'' ''Logical Connections'',
      perfField ''GenStatsLoginsPerSec'' ''Logins/sec'',
      perfField ''GenStatsLogoutsPerSec'' ''Logouts/sec'',
      perfField ''GenStatsMarsDeadlocks'' ''Mars Deadlocks'',
      perfField ''GenStatsNonatomicYieldRate'' ''Non-atomic yield rate'',
      perfField ''GenStatsProcessesBlocked'' ''Processes blocked'',
      perfField ''GenStatsSOAPEmptyRequests'' ''SOAP Empty Requests'',
      perfField ''GenStatsSOAPMethodInvocations'' ''SOAP Method Invocations'',
      perfField ''GenStatsSOAPSessionInitiateRequests'' ''SOAP Session Initiate Requests'',
      perfField ''GenStatsSOAPSessionTerminateRequests'' ''SOAP Session Terminate Requests'',
      perfField ''GenStatsSOAPSQLRequests'' ''SOAP SQL Requests'',
      perfField ''GenStatsSOAPWSDLRequests'' ''SOAP WSDL Requests'',
      perfField ''GenStatsSQLTraceIOProviderLockWaits'' ''SQL Trace IO Provider Lock Waits'',
      perfField ''GenStatsTempdbRecoveryUnitID'' ''Tempdb recovery unit id'',
      perfField ''GenStatsTempdbRowsetID'' ''Tempdb rowset id'',
      perfField ''GenStatsTempTablesCreationRate'' ''Temp Tables Creation Rate'',
      perfField ''GenStatsTempTablesForDestruction'' ''Temp Tables For Destruction'',
      perfField ''GenStatsTraceEventNotificationQueue'' ''Trace Event Notification Queue'',
      perfField ''GenStatsTransactions'' ''Transactions'',
      perfField ''GenStatsUserConnections'' ''User Connections'']"

definition mssql_genstats_descs :: descTable where
  "mssql_genstats_descs =
     [(''genStatsActiveTempTables'', NewDesc (BuildFQName Namespace ''mssql'' ''genstats_active_temp_tables'')
        ''(GeneralStatistics.ActiveTempTables)'' [''mssql_instance'']),
      (''genStatsConnectionReset'', NewDesc (BuildFQName Namespace ''mssql'' ''genstats_connection_resets'')
        ''(GeneralStatistics.ConnectionReset)'' [''mssql_instance'']),
      (''genStatsEventNotificationsDelayedDrop'', NewDesc (BuildFQName Namespace ''mssql'' ''genstats_event_notifications_delayed_drop'')
        ''(GeneralStatistics.EventNotificationsDelayedDrop)'' [''mssql_instance'']),
      (''genStatsHTTPAuthenticatedRequests'', NewDesc (BuildFQName Namespace ''mssql'' ''genstats_http_authenticated_requests'')
        ''(GeneralStatistics.HTTPAuthenticatedRequests)'' [''mssql_instance'']),
      (''genStatsLogicalConnections'', NewDesc (BuildFQName Namespace ''mssql'' ''genstats_logical_connections'')
        ''(GeneralStatistics.LogicalConnections)'' [''mssql_instance'']),
      (''genStatsLogins'', NewDesc (BuildFQName Namespace ''mssql'' ''genstats_logins'')
        ''(GeneralStatistics.Logins)'' [''mssql_instance'']),
      (''genStatsLogouts'', NewDesc (BuildFQName Namespace ''mssql'' ''genstats_logouts'')
        ''(GeneralStatistics.Logouts)'' [''mssql_instance'']),
      (''genStatsMarsDeadlocks'', NewDesc (BuildFQName Namespace ''mssql'' ''genstats_mars_deadlocks'')
        ''(GeneralStatistics.MarsDeadlocks)'' [''mssql_instance'']),
      (''genStatsNonAtomicYieldRate'', NewDesc (BuildFQName Namespace ''mssql'' ''genstats_non_atomic_yields'')
        ''(GeneralStatistics.Nonatomicyields)'' [''mssql_instance'']),
      (''genStatsProcessesBlocked'', NewDesc (BuildFQName Namespace ''mssql'' ''genstats_blocked_processes'')
        ''(GeneralStatistics.Processesblocked)'' [''mssql_instance'']),
      (''genStatsSOAPEmptyRequests'', NewDesc (BuildFQName Namespace ''mssql'' ''genstats_soap_empty_requests'')
        ''(GeneralStatistics.SOAPEmptyRequests)'' [''mssql_instance'']),
      (''genStatsSOAPMethodInvocations'', NewDesc (BuildFQName Namespace ''mssql'' ''genstats_soap_method_invocations'')
        ''(GeneralStatistics.SOAPMethodInvocations)'' [''mssql_instance'']),
      (''genStatsSOAPSessionInitiateRequests'', NewDesc (BuildFQName Namespace ''mssql'' ''genstats_soap_session_initiate_requests'')
        ''(GeneralStatistics.SOAPSessionInitiateRequests)'' [''mssql_instance'']),
      (''genStatsSOAPSessionTerminateRequests'', NewDesc (BuildFQName Namespace ''mssql'' ''genstats_soap_session_terminate_requests'')
        ''(GeneralStatistics.SOAPSessionTerminateRequests)'' [''mssql_instance'']),
      (''genStatsSOAPSQLRequests'', NewDesc (BuildFQName Namespace ''mssql'' ''genstats_soapsql_requests'')
        ''(GeneralStatistics.SOAPSQLRequests)'' [''mssql_instance'']),
      (''genStatsSOAPWSDLRequests'', NewDesc (BuildFQName Namespace ''mssql'' ''genstats_soapwsdl_requests'')
        ''(GeneralStatistics.SOAPWSDLRequests)'' [''mssql_instance'']),
      (''genStatsSQLTraceIOProviderLockWaits'', NewDesc (BuildFQName Namespace ''mssql'' ''genstats_sql_trace_io_provider_lock_waits'')
        ''(GeneralStatistics.SQLTraceIOProviderLockWaits)'' [''mssql_instance'']),
      (''genStatsTempDBRecoveryUnitID'', NewDesc (BuildFQName Namespace ''mssql'' ''genstats_tempdb_recovery_unit_ids_generated'')
        ''(GeneralStatistics.Tempdbrecoveryunitid)'' [''mssql_instance'']),
      (''genStatsTempDBrowSetID'', NewDesc (BuildFQName Namespace ''mssql'' ''genstats_tempdb_rowset_ids_generated'')
        ''(GeneralStatistics.Tempdbrowsetid)'' [''mssql_instance'']),
      (''genStatsTempTablesCreationRate'', NewDesc (BuildFQName Namespace ''mssql'' ''genstats_temp_tables_creations'')
        ''(GeneralStatistics.TempTablesCreations)'' [''mssql_instance'']),
      (''genStatsTempTablesForDestruction'', NewDesc (BuildFQName Namespace ''mssql'' ''genstats_temp_tables_awaiting_destruction'')
        ''(GeneralStatistics.TempTablesForDestruction)'' [''mssql_instance'']),
      (''genStatsTraceEventNotificationQueue'', NewDesc (BuildFQName Namespace ''mssql'' ''genstats_trace_event_notification_queue_size'')
        ''(GeneralStatistics.TraceEventNotificationQueue)'' [''mssql_instance'']),
      (''genStatsTransactions'', NewDesc (BuildFQName Namespace ''mssql'' ''genstats_transactions'')
        ''(GeneralStatistics.Transactions)'' [''mssql_instance'']),
      (''genStatsUserConnections'', NewDesc (BuildFQName Namespace ''mssql'' ''genstats_user_connections'')
        ''(GeneralStatistics.UserConnections)'' [''mssql_instance''])]"

definition mssql_genstats_lines :: "string \<Rightarrow> row \<Rightarrow> line list" where
  "mssql_genstats_lines i r =
     [(''genStatsActiveTempTables'', GaugeValue, num mssql_genstats_fields r ''GenStatsActiveTempTables'', [i]),
      (''genStatsConnectionReset'', CounterValue, num mssql_genstats_fields r ''GenStatsConnectionResetPerSec'', [i]),
      (''genStatsEventNotificationsDelayedDrop'', GaugeValue, num mssql_genstats_fields r ''GenStatsEventNotificationsDelayedDrop'', [i]),
      (''genStatsHTTPAuthenticatedRequests'', GaugeValue, num mssql_genstats_fields r ''GenStatsHTTPAuthenticatedRequests'', [i]),
      (''genStatsLogicalConnections'', GaugeValue, num mssql_genstats_fields r ''GenStatsLogicalConnections'', [i]),
      (''genStatsLogins'', CounterValue, num mssql_genstats_fields r ''GenStatsLoginsPerSec'', [i]),
      (''genStatsLogouts'', CounterValue, num mssql_genstats_fields r ''GenStatsLogoutsPerSec'', [i]),
      (''genStatsMarsDeadlocks'', GaugeValue, num mssql_genstats_fields r ''GenStatsMarsDeadlocks'', [i]),
      (''genStatsNonAtomicYieldRate'', CounterValue, num mssql_genstats_fields r ''GenStatsNonatomicYieldRate'', [i]),
      (''genStatsProcessesBlocked'', GaugeValue, num mssql_genstats_fields r ''GenStatsProcessesBlocked'', [i]),
      (''genStatsSOAPEmptyRequests'', GaugeValue, num mssql_genstats_fields r ''GenStatsSOAPEmptyRequests'', [i]),
      (''genStatsSOAPMethodInvocations'', GaugeValue, num mssql_genstats_fields r ''GenStatsSOAPMethodInvocations'', [i]),
      (''genStatsSOAPSessionInitiateRequests'', GaugeValue, num mssql_genstats_fields r ''GenStatsSOAPSessionInitiateRequests'', [i]),
      (''genStatsSOAPSessionTerminateRequests'', GaugeValue, num mssql_genstats_fields r ''GenStatsSOAPSessionTerminateRequests'', [i]),
      (''genStatsSOAPSQLRequests'', GaugeValue, num mssql_genstats_fields r ''GenStatsSOAPSQLRequests'', [i]),
      (''genStatsSOAPWSDLRequests'', GaugeValue, num mssql_genstats_fields r ''GenStatsSOAPWSDLRequests'', [i]),
      (''genStatsSQLTraceIOProviderLockWaits'', GaugeValue, num mssql_genstats_fields r ''GenStatsSQLTraceIOProviderLockWaits'', [i]),
      (''genStatsTempDBRecoveryUnitID'', GaugeValue, num mssql_genstats_fields r ''GenStatsTempdbRecoveryUnitID'', [i]),
      (''genStatsTempDBrowSetID'', GaugeValue, num mssql_genstats_fields r ''GenStatsTempdbRowsetID'', [i]),
      (''genStatsTempTablesCreationRate'', CounterValue, num mssql_genstats_fields r ''GenStatsTempTablesCreationRate'', [i]),
      (''genStatsTempTablesForDestruction'', GaugeValue, num mssql_genstats_fields r ''GenStatsTempTablesForDestruction'', [i]),
      (''genStatsTraceEventNotificationQueue'', GaugeValue, num mssql_genstats_fields r ''GenStatsTraceEventNotificationQueue'', [i]),
      (''genStatsTransactions'', GaugeValue, num mssql_genstats_fields r ''GenStatsTransactions'', [i]),
      (''genStatsUserConnections'', GaugeValue, num mssql_genstats_fields r ''GenStatsUserConnections'', [i])]"

definition mssql_genstats_class :: mssqlSub where
  "mssql_genstats_class =
     \<lparr>msFields = mssql_genstats_fields, msDescs = mssql_genstats_descs, msObject = ''General Statistics'', msErrObject = ''General Statistics'',
      msCreate = ''failed to create General Statistics collector for instance %s: %w'', msInstances = [], msFirst = True, msLines = mssql_genstats_lines\<rparr>"

section \<open>locks\<close>

definition mssql_locks_fields :: "structField list" where
  "mssql_locks_fields =
     [nameField,
      perfField ''LocksAverageWaitTimeMS'' ''Average Wait Time (ms)'',
      perfField ''LocksAverageWaitTimeMSBase'' ''Average Wait Time (ms),secondvalue'',
      perfField ''LocksLockRequestsPerSec'' ''Lock Requests/sec'',
      perfField ''LocksLockTimeoutsPerSec'' ''Lock Timeouts/sec'',
      perfField ''LocksLockTimeoutsTimeout0PerSec'' ''Lock Timeouts (timeout > 0)/sec'',
      perfField ''LocksLockWaitsPerSec'' ''Lock Waits/sec'',
      perfField ''LocksLockWaitTimeMS'' ''Lock Wait Time (ms)'',
      perfField ''LocksNumberOfDeadlocksPerSec'' ''Number of Deadlocks/sec'']"

definition mssql_locks_descs :: descTable where
  "mssql_locks_descs =
     [(''locksWaitTime'', NewDesc (BuildFQName Namespace ''mssql'' ''locks_wait_time_seconds'')
        ''(Locks.AverageWaitTimems Total time in seconds which locks have been holding resources)'' [''mssql_instance'', ''resource'']),
      (''locksCount'', NewDesc (BuildFQName Namespace ''mssql'' ''locks_count'')
        ''(Locks.AverageWaitTimems_Base count of how often requests have run into locks)'' [''mssql_instance'', ''resource'']),
      (''locksLockRequests'', NewDesc (BuildFQName Namespace ''mssql'' ''locks_lock_requests'')
        ''(Locks.LockRequests)'' [''mssql_instance'', ''resource'']),
      (''locksLockTimeouts'', NewDesc (BuildFQName Namespace ''mssql'' ''locks_lock_timeouts'')
        ''(Locks.LockTimeouts)'' [''mssql_instance'', ''resource'']),
      (''locksLockTimeoutstimeout0'', NewDesc (BuildFQName Namespace ''mssql'' ''locks_lock_timeouts_excluding_NOWAIT'')
        ''(Locks.LockTimeoutstimeout0)'' [''mssql_instance'', ''resource'']),
      (''locksLockWaits'', NewDesc (BuildFQName Namespace ''mssql'' ''locks_lock_waits'')
        ''(Locks.LockWaits)'' [''mssql_instance'', ''resource'']),
      (''locksLockWaitTimeMS'', NewDesc (BuildFQName Namespace ''mssql'' ''locks_lock_wait_seconds'')
        ''(Locks.LockWaitTimems)'' [''mssql_instance'', ''resource'']),
      (''locksNumberOfDeadlocks'', NewDesc (BuildFQName Namespace ''mssql'' ''locks_deadlocks'')
        ''(Locks.NumberOfDeadlocks)'' [''mssql_instance'', ''resource''])]"

definition mssql_locks_lines :: "string \<Rightarrow> row \<Rightarrow> line list" where
  "mssql_locks_lines i r =
     [(''locksWaitTime'', GaugeValue, f64_div (num mssql_locks_fields r ''LocksAverageWaitTimeMS'') (F_Fin 1000), [i, rowName mssql_locks_fields r]),
      (''locksCount'', GaugeValue, f64_div (num mssql_locks_fields r ''LocksAverageWaitTimeMSBase'') (F_Fin 1000), [i, rowName mssql_locks_fields r]),
      (''locksLockRequests'', CounterValue, num mssql_locks_fields r ''LocksLockRequestsPerSec'', [i, rowName mssql_locks_fields r]),
      (''locksLockTimeouts'', CounterValue, num mssql_locks_fields r ''LocksLockTimeoutsPerSec'', [i, rowName mssql_locks_fields r]),
      (''locksLockTimeoutstimeout0'', CounterValue, num mssql_locks_fields r ''LocksLockTimeoutsTimeout0PerSec'', [i, rowName mssql_locks_fields r]),
      (''locksLockWaits'', CounterValue, num mssql_locks_fields r ''LocksLockWaitsPerSec'', [i, rowName mssql_locks_fields r]),
      (''locksLockWaitTimeMS'', GaugeValue, f64_div (num mssql_locks_fields r ''LocksLockWaitTimeMS'') (F_Fin 1000), [i, rowName mssql_locks_fields r]),
      (''locksNumberOfDeadlocks'', CounterValue, num mssql_locks_fields r ''LocksNumberOfDeadlocksPerSec'', [i, rowName mssql_locks_fields r])]"

definition mssql_locks_class :: mssqlSub where
  "mssql_locks_class =
     \<lparr>msFields = mssql_locks_fields, msDescs = mssql_locks_descs, msObject = ''Locks'', msErrObject = ''Locks'',
      msCreate = ''failed to create Locks collector for instance %s: %w'', msInstances = [''*''], msFirst = False, msLines = mssql_locks_lines\<rparr>"

section \<open>memmgr\<close>

definition mssql_memmgr_fields :: "structField list" where
  "mssql_memmgr_fields =
     [perfField ''MemMgrConnectionMemoryKB'' ''Connection Memory (KB)'',
      perfField ''MemMgrDatabaseCacheMemoryKB'' ''Database Cache Memory (KB)'',
      perfField ''MemMgrExternalBenefitOfMemory'' ''External benefit of memory'',
      perfField ''MemMgrFreeMemoryKB'' ''Free Memory (KB)'',
      perfField ''MemMgrGrantedWorkspaceMemoryKB'' ''Granted Workspace Memory (KB)'',
      perfField ''MemMgrLockBlocks'' ''Lock Blocks'',
      perfField ''MemMgrLockBlocksAllocated'' ''Lock Blocks Allocated'',
      perfField ''MemMgrLockMemoryKB'' ''Lock Memory (KB)'',
      perfField ''MemMgrLockOwnerBlocks'' ''Lock Owner Blocks'',
      perfField ''MemMgrLockOwnerBlocksAllocated'' ''Lock Owner Blocks Allocated'',
      perfField ''MemMgrLogPoolMemoryKB'' ''Log Pool Memory (KB)'',
      perfField ''MemMgrMaximumWorkspaceMemoryKB'' ''Maximum Workspace Memory (KB)'',
      perfField ''MemMgrMemoryGrantsOutstanding'' ''Memory Grants Outstanding'',
      perfField ''MemMgrMemoryGrantsPending'' ''Memory Grants Pending'',
      perfField ''MemMgrOptimizerMemoryKB'' ''Optimizer Memory (KB)'',
      perfField ''MemMgrReservedServerMemoryKB'' ''Reserved Server Memory (KB)'',
      perfField ''MemMgrSQLCacheMemoryKB'' ''SQL Cache Memory (KB)'',
      perfField ''MemMgrStolenServerMemoryKB'' ''Stolen Server Memory (KB)'',
      perfField ''MemMgrTargetServerMemoryKB'' ''Target Server Memory (KB)'',
      perfField ''MemMgrTotalServerMemoryKB'' ''Total Server Memory (KB)'']"

definition mssql_memmgr_descs :: descTable where
  "mssql_memmgr_descs =
     [(''memMgrConnectionMemoryKB'', NewDesc (BuildFQName Namespace ''mssql'' ''memmgr_connection_memory_bytes'')
        ''(MemoryManager.ConnectionMemoryKB)'' [''mssql_instance'']),
      (''memMgrDatabaseCacheMemoryKB'', NewDesc (BuildFQName Namespace ''mssql'' ''memmgr_database_cache_memory_bytes'')
        ''(MemoryManager.DatabaseCacheMemoryKB)'' [''mssql_instance'']),
      (''memMgrExternalBenefitOfMemory'', NewDesc (BuildFQName Namespace ''mssql'' ''memmgr_external_benefit_of_memory'')
        ''(MemoryManager.Externalbenefitofmemory)'' [''mssql_instance'']),
      (''memMgrFreeMemoryKB'', NewDesc (BuildFQName Namespace ''mssql'' ''memmgr_free_memory_bytes'')
        ''(MemoryManager.FreeMemoryKB)'' [''mssql_instance'']),
      (''memMgrGrantedWorkspaceMemoryKB'', NewDesc (BuildFQName Namespace ''mssql'' ''memmgr_granted_workspace_memory_bytes'')
        ''(MemoryManager.GrantedWorkspaceMemoryKB)'' [''mssql_instance'']),
      (''memMgrLockBlocks'', NewDesc (BuildFQName Namespace ''mssql'' ''memmgr_lock_blocks'')
        ''(MemoryManager.LockBlocks)'' [''mssql_instance'']),
      (''memMgrLockBlocksAllocated'', NewDesc (BuildFQName Namespace ''mssql'' ''memmgr_allocated_lock_blocks'')
        ''(MemoryManager.LockBlocksAllocated)'' [''mssql_instance'']),
      (''memMgrLockMemoryKB'', NewDesc (BuildFQName Namespace ''mssql'' ''memmgr_lock_memory_bytes'')
        ''(MemoryManager.LockMemoryKB)'' [''mssql_instance'']),
      (''memMgrLockOwnerBlocks'', NewDesc (BuildFQName Namespace ''mssql'' ''memmgr_lock_owner_blocks'')
        ''(MemoryManager.LockOwnerBlocks)'' [''mssql_instance'']),
      (''memMgrLockOwnerBlocksAllocated'', NewDesc (BuildFQName Namespace ''mssql'' ''memmgr_allocated_lock_owner_blocks'')
        ''(MemoryManager.LockOwnerBlocksAllocated)'' [''mssql_instance'']),
      (''memMgrLogPoolMemoryKB'', NewDesc (BuildFQName Namespace ''mssql'' ''memmgr_log_pool_memory_bytes'')
        ''(MemoryManager.LogPoolMemoryKB)'' [''mssql_instance'']),
      (''memMgrMaximumWorkspaceMemoryKB'', NewDesc (BuildFQName Namespace ''mssql'' ''memmgr_maximum_workspace_memory_bytes'')
        ''(MemoryManager.MaximumWorkspaceMemoryKB)'' [''mssql_instance'']),
      (''memMgrMemoryGrantsOutstanding'', NewDesc (BuildFQName Namespace ''mssql'' ''memmgr_outstanding_memory_grants'')
        ''(MemoryManager.MemoryGrantsOutstanding)'' [''mssql_instance'']),
      (''memMgrMemoryGrantsPending'', NewDesc (BuildFQName Namespace ''mssql'' ''memmgr_pending_memory_grants'')
        ''(MemoryManager.MemoryGrantsPending)'' [''mssql_instance'']),
      (''memMgrOptimizerMemoryKB'', NewDesc (BuildFQName Namespace ''mssql'' ''memmgr_optimizer_memory_bytes'')
        ''(MemoryManager.OptimizerMemoryKB)'' [''mssql_instance'']),
      (''memMgrReservedServerMemoryKB'', NewDesc (BuildFQName Namespace ''mssql'' ''memmgr_reserved_server_memory_bytes'')
        ''(MemoryManager.ReservedServerMemoryKB)'' [''mssql_instance'']),
      (''memMgrSQLCacheMemoryKB'', NewDesc (BuildFQName Namespace ''mssql'' ''memmgr_sql_cache_memory_bytes'')
        ''(MemoryManager.SQLCacheMemoryKB)'' [''mssql_instance'']),
      (''memMgrStolenServerMemoryKB'', NewDesc (BuildFQName Namespace ''mssql'' ''memmgr_stolen_server_memory_bytes'')
        ''(MemoryManager.StolenServerMemoryKB)'' [''mssql_instance'']),
      (''memMgrTargetServerMemoryKB'', NewDesc (BuildFQName Namespace ''mssql'' ''memmgr_target_server_memory_bytes'')
        ''(MemoryManager.TargetServerMemoryKB)'' [''mssql_instance'']),
      (''memMgrTotalServerMemoryKB'', NewDesc (BuildFQName Namespace ''mssql'' ''memmgr_total_server_memory_bytes'')
        ''(MemoryManager.TotalServerMemoryKB)'' [''mssql_instance''])]"

definition mssql_memmgr_lines :: "string \<Rightarrow> row \<Rightarrow> line list" where
  "mssql_memmgr_lines i r =
     [(''memMgrConnectionMemoryKB'', GaugeValue, f64_mul (num mssql_memmgr_fields r ''MemMgrConnectionMemoryKB'') (F_Fin 1024), [i]),
      (''memMgrDatabaseCacheMemoryKB'', GaugeValue, f64_mul (num mssql_memmgr_fields r ''MemMgrDatabaseCacheMemoryKB'') (F_Fin 1024), [i]),
      (''memMgrExternalBenefitOfMemory'', GaugeValue, num mssql_memmgr_fields r ''MemMgrExternalBenefitOfMemory'', [i]),
      (''memMgrFreeMemoryKB'', GaugeValue, f64_mul (num mssql_memmgr_fields r ''MemMgrFreeMemoryKB'') (F_Fin 1024), [i]),
      (''memMgrGrantedWorkspaceMemoryKB'', GaugeValue, f64_mul (num mssql_memmgr_fields r ''MemMgrGrantedWorkspaceMemoryKB'') (F_Fin 1024), [i]),
      (''memMgrLockBlocks'', GaugeValue, num mssql_memmgr_fields r ''MemMgrLockBlocks'', [i]),
      (''memMgrLockBlocksAllocated'', GaugeValue, num mssql_memmgr_fields r ''MemMgrLockBlocksAllocated'', [i]),
      (''memMgrLockMemoryKB'', GaugeValue, f64_mul (num mssql_memmgr_fields r ''MemMgrLockMemoryKB'') (F_Fin 1024), [i]),
      (''memMgrLockOwnerBlocks'', GaugeValue, num mssql_memmgr_fields r ''MemMgrLockOwnerBlocks'', [i]),
      (''memMgrLockOwnerBlocksAllocated'', GaugeValue, num mssql_memmgr_fields r ''MemMgrLockOwnerBlocksAllocated'', [i]),
      (''memMgrLogPoolMemoryKB'', GaugeValue, f64_mul (num mssql_memmgr_fields r ''MemMgrLogPoolMemoryKB'') (F_Fin 1024), [i]),
      (''memMgrMaximumWorkspaceMemoryKB'', GaugeValue, f64_mul (num mssql_memmgr_fields r ''MemMgrMaximumWorkspaceMemoryKB'') (F_Fin 1024), [i]),
      (''memMgrMemoryGrantsOutstanding'', GaugeValue, num mssql_memmgr_fields r ''MemMgrMemoryGrantsOutstanding'', [i]),
      (''memMgrMemoryGrantsPending'', GaugeValue, num mssql_memmgr_fields r ''MemMgrMemoryGrantsPending'', [i]),
      (''memMgrOptimizerMemoryKB'', GaugeValue, f64_mul (num mssql_memmgr_fields r ''MemMgrOptimizerMemoryKB'') (F_Fin 1024), [i]),
      (''memMgrReservedServerMemoryKB'', GaugeValue, f64_mul (num mssql_memmgr_fields r ''MemMgrReservedServerMemoryKB'') (F_Fin 1024), [i]),
      (''memMgrSQLCacheMemoryKB'', GaugeValue, f64_mul (num mssql_memmgr_fields r ''MemMgrSQLCacheMemoryKB'') (F_Fin 1024), [i]),
      (''memMgrStolenServerMemoryKB'', GaugeValue, f64_mul (num mssql_memmgr_fields r ''MemMgrStolenServerMemoryKB'') (F_Fin 1024), [i]),
      (''memMgrTargetServerMemoryKB'', GaugeValue, f64_mul (num mssql_memmgr_fields r ''MemMgrTargetServerMemoryKB'') (F_Fin 1024), [i]),
      (''memMgrTotalServerMemoryKB'', GaugeValue, f64_mul (num mssql_memmgr_fields r ''MemMgrTotalServerMemoryKB'') (F_Fin 1024), [i])]"

definition mssql_memmgr_class :: mssqlSub where
  "mssql_memmgr_class =
     \<lparr>msFields = mssql_memmgr_fields, msDescs = mssql_memmgr_descs, msObject = ''Memory Manager'', msErrObject = ''Memory Manager'',
      msCreate = ''failed to create Memory Manager collector for instance %s: %w'', msInstances = [''*''], msFirst = True, msLines = mssql_memmgr_lines\<rparr>"

section \<open>sqlerrors\<close>

definition mssql_sqlerrors_fields :: "structField list" where
  "mssql_sqlerrors_fields =
     [nameField,
      perfField ''SqlErrorsErrorsPerSec'' ''Errors/sec'']"

definition mssql_sqlerrors_descs :: descTable where
  "mssql_sqlerrors_descs =
     [(''sqlErrorsTotal'', NewDesc (BuildFQName Namespace ''mssql'' ''sql_errors_total'')
        ''(SQLErrors.Total)'' [''mssql_instance'', ''resource''])]"

definition mssql_sqlerrors_lines :: "string \<Rightarrow> row \<Rightarrow> line list" where
  "mssql_sqlerrors_lines i r =
     [(''sqlErrorsTotal'', CounterValue, num mssql_sqlerrors_fields r ''SqlErrorsErrorsPerSec'', [i, rowName mssql_sqlerrors_fields r])]"

definition mssql_sqlerrors_class :: mssqlSub where
  "mssql_sqlerrors_class =
     \<lparr>msFields = mssql_sqlerrors_fields, msDescs = mssql_sqlerrors_descs, msObject = ''SQL Errors'', msErrObject = ''SQL Errors'',
      msCreate = ''failed to create SQL Errors collector for instance %s: %w'', msInstances = [''*''], msFirst = False, msLines = mssql_sqlerrors_lines\<rparr>"

section \<open>sqlstats\<close>

definition mssql_sqlstats_fields :: "structField list" where
  "mssql_sqlstats_fields =
     [perfField ''SqlStatsAutoParamAttemptsPerSec'' ''Auto-Param Attempts/sec'',
      perfField ''SqlStatsBatchRequestsPerSec'' ''Batch Requests/sec'',
      perfField ''SqlStatsFailedAutoParamsPerSec'' ''Failed Auto-Params/sec'',
      perfField ''SqlStatsForcedParameterizationsPerSec'' ''Forced Parameterizations/sec'',
      perfField ''SqlStatsGuidedplanexecutionsPerSec'' ''Guided plan executions/sec'',
      perfField ''SqlStatsMisguidedplanexecutionsPerSec'' ''Misguided plan executions/sec'',
      perfField ''SqlStatsSafeAutoParamsPerSec'' ''Safe Auto-Params/sec'',
      perfField ''SqlStatsSQLAttentionrate'' ''SQL Attention rate'',
      perfField ''SqlStatsSQLCompilationsPerSec'' ''SQL Compilations/sec'',
      perfField ''SqlStatsSQLReCompilationsPerSec'' ''SQL Re-Compilations/sec'',
      perfField ''SqlStatsUnsafeAutoParamsPerSec'' ''Unsafe Auto-Params/sec'']"

definition mssql_sqlstats_descs :: descTable where
  "mssql_sqlstats_descs =
     [(''sqlStatsAutoParamAttempts'', NewDesc (BuildFQName Namespace ''mssql'' ''sqlstats_auto_parameterization_attempts'')
        ''(SQLStatistics.AutoParamAttempts)'' [''mssql_instance'']),
      (''sqlStatsBatchRequests'', NewDesc (BuildFQName Namespace ''mssql'' ''sqlstats_batch_requests'')
        ''(SQLStatistics.BatchRequests)'' [''mssql_instance'']),
      (''sqlStatsFailedAutoParams'', NewDesc (BuildFQName Namespace ''mssql'' ''sqlstats_failed_auto_parameterization_attempts'')
        ''(SQLStatistics.FailedAutoParams)'' [''mssql_instance'']),
      (''sqlStatsForcedParameterizations'', NewDesc (BuildFQName Namespace ''mssql'' ''sqlstats_forced_parameterizations'')
        ''(SQLStatistics.ForcedParameterizations)'' [''mssql_instance'']),
      (''sqlStatsGuidedplanexecutions'', NewDesc (BuildFQName Namespace ''mssql'' ''sqlstats_guided_plan_executions'')
        ''(SQLStatistics.Guidedplanexecutions)'' [''mssql_instance'']),
      (''sqlStatsMisguidedplanexecutions'', NewDesc (BuildFQName Namespace ''mssql'' ''sqlstats_misguided_plan_executions'')
        ''(SQLStatistics.Misguidedplanexecutions)'' [''mssql_instance'']),
      (''sqlStatsSafeAutoParams'', NewDesc (BuildFQName Namespace ''mssql'' ''sqlstats_safe_auto_parameterization_attempts'')
        ''(SQLStatistics.SafeAutoParams)'' [''mssql_instance'']),
      (''sqlStatsSQLAttentionrate'', NewDesc (BuildFQName Namespace ''mssql'' ''sqlstats_sql_attentions'')
        ''(SQLStatistics.SQLAttentions)'' [''mssql_instance'']),
      (''sqlStatsSQLCompilations'', NewDesc (BuildFQName Namespace ''mssql'' ''sqlstats_sql_compilations'')
        ''(SQLStatistics.SQLCompilations)'' [''mssql_instance'']),
      (''sqlStatsSQLReCompilations'', NewDesc (BuildFQName Namespace ''mssql'' ''sqlstats_sql_recompilations'')
        ''(SQLStatistics.SQLReCompilations)'' [''mssql_instance'']),
      (''sqlStatsUnsafeAutoParams'', NewDesc (BuildFQName Namespace ''mssql'' ''sqlstats_unsafe_auto_parameterization_attempts'')
        ''(SQLStatistics.UnsafeAutoParams)'' [''mssql_instance''])]"

definition mssql_sqlstats_lines :: "string \<Rightarrow> row \<Rightarrow> line list" where
  "mssql_sqlstats_lines i r =
     [(''sqlStatsAutoParamAttempts'', CounterValue, num mssql_sqlstats_fields r ''SqlStatsAutoParamAttemptsPerSec'', [i]),
      (''sqlStatsBatchRequests'', CounterValue, num mssql_sqlstats_fields r ''SqlStatsBatchRequestsPerSec'', [i]),
      (''sqlStatsFailedAutoParams'', CounterValue, num mssql_sqlstats_fields r ''SqlStatsFailedAutoParamsPerSec'', [i]),
      (''sqlStatsForcedParameterizations'', CounterValue, num mssql_sqlstats_fields r ''SqlStatsForcedParameterizationsPerSec'', [i]),
      (''sqlStatsGuidedplanexecutions'', CounterValue, num mssql_sqlstats_fields r ''SqlStatsGuidedplanexecutionsPerSec'', [i]),
      (''sqlStatsMisguidedplanexecutions'', CounterValue, num mssql_sqlstats_fields r ''SqlStatsMisguidedplanexecutionsPerSec'', [i]),
      (''sqlStatsSafeAutoParams'', CounterValue, num mssql_sqlstats_fields r ''SqlStatsSafeAutoParamsPerSec'', [i]),
      (''sqlStatsSQLAttentionrate'', CounterValue, num mssql_sqlstats_fields r ''SqlStatsSQLAttentionrate'', [i]),
      (''sqlStatsSQLCompilations'', CounterValue, num mssql_sqlstats_fields r ''SqlStatsSQLCompilationsPerSec'', [i]),
      (''sqlStatsSQLReCompilations'', CounterValue, num mssql_sqlstats_fields r ''SqlStatsSQLReCompilationsPerSec'', [i]),
      (''sqlStatsUnsafeAutoParams'', CounterValue, num mssql_sqlstats_fields r ''SqlStatsUnsafeAutoParamsPerSec'', [i])]"

definition mssql_sqlstats_class :: mssqlSub where
  "mssql_sqlstats_class =
     \<lparr>msFields = mssql_sqlstats_fields, msDescs = mssql_sqlstats_descs, msObject = ''SQL Statistics'', msErrObject = ''SQL Statistics'',
      msCreate = ''failed to create SQL Statistics collector for instance %s: %w'', msInstances = [], msFirst = True, msLines = mssql_sqlstats_lines\<rparr>"

section \<open>transactions\<close>

definition mssql_transactions_fields :: "structField list" where
  "mssql_transactions_fields =
     [perfField ''TransactionsFreeSpaceintempdbKB'' ''Free Space in tempdb (KB)'',
      perfField ''TransactionsLongestTransactionRunningTime'' ''Longest Transaction Running Time'',
      perfField ''TransactionsNonSnapshotVersionTransactions'' ''NonSnapshot Version Transactions'',
      perfField ''TransactionsSnapshotTransactions'' ''Snapshot Transactions'',
      perfField ''TransactionsTransactions'' ''Transactions'',
      perfField ''TransactionsUpdateconflictratio'' ''Update conflict ratio'',
      perfField ''TransactionsUpdateSnapshotTransactions'' ''Update Snapshot Transactions'',
      perfField ''TransactionsVersionCleanuprateKBPers'' ''Version Cleanup rate (KB/s)'',
      perfField ''TransactionsVersionGenerationrateKBPers'' ''Version Generation rate (KB/s)'',
      perfField ''TransactionsVersionStoreSizeKB'' ''Version Store Size (KB)'',
      perfField ''TransactionsVersionStoreunitcount'' ''Version Store unit count'',
      perfField ''TransactionsVersionStoreunitcreation'' ''Version Store unit creation'',
      perfField ''TransactionsVersionStoreunittruncation'' ''Version Store unit truncation'']"

definition mssql_transactions_descs :: descTable where
  "mssql_transactions_descs =
     [(''transactionsTempDbFreeSpaceBytes'', NewDesc (BuildFQName Namespace ''mssql'' ''transactions_tempdb_free_space_bytes'')
        ''(Transactions.FreeSpaceInTempDbKB)'' [''mssql_instance'']),
      (''transactionsLongestTransactionRunningSeconds'', NewDesc (BuildFQName Namespace ''mssql'' ''transactions_longest_transaction_running_seconds'')
        ''(Transactions.LongestTransactionRunningTime)'' [''mssql_instance'']),
      (''transactionsNonSnapshotVersionActiveTotal'', NewDesc (BuildFQName Namespace ''mssql'' ''transactions_nonsnapshot_version_active_total'')
        ''(Transactions.NonSnapshotVersionTransactions)'' [''mssql_instance'']),
      (''transactionsSnapshotActiveTotal'', NewDesc (BuildFQName Namespace ''mssql'' ''transactions_snapshot_active_total'')
        ''(Transactions.SnapshotTransactions)'' [''mssql_instance'']),
      (''transactionsActive'', NewDesc (BuildFQName Namespace ''mssql'' ''transactions_active'')
        ''(Transactions.Transactions)'' [''mssql_instance'']),
      (''transactionsUpdateConflictsTotal'', NewDesc (BuildFQName Namespace ''mssql'' ''transactions_update_conflicts_total'')
        ''(Transactions.UpdateConflictRatio)'' [''mssql_instance'']),
      (''transactionsUpdateSnapshotActiveTotal'', NewDesc (BuildFQName Namespace ''mssql'' ''transactions_update_snapshot_active_total'')
        ''(Transactions.UpdateSnapshotTransactions)'' [''mssql_instance'']),
      (''transactionsVersionCleanupRateBytes'', NewDesc (BuildFQName Namespace ''mssql'' ''transactions_version_cleanup_rate_bytes'')
        ''(Transactions.VersionCleanupRateKBs)'' [''mssql_instance'']),
      (''transactionsVersionGenerationRateBytes'', NewDesc (BuildFQName Namespace ''mssql'' ''transactions_version_generation_rate_bytes'')
        ''(Transactions.VersionGenerationRateKBs)'' [''mssql_instance'']),
      (''transactionsVersionStoreSizeBytes'', NewDesc (BuildFQName Namespace ''mssql'' ''transactions_version_store_size_bytes'')
        ''(Transactions.VersionStoreSizeKB)'' [''mssql_instance'']),
      (''transactionsVersionStoreUnits'', NewDesc (BuildFQName Namespace ''mssql'' ''transactions_version_store_units'')
        ''(Transactions.VersionStoreUnitCount)'' [''mssql_instance'']),
      (''transactionsVersionStoreCreationUnits'', NewDesc (BuildFQName Namespace ''mssql'' ''transactions_version_store_creation_units'')
        ''(Transactions.VersionStoreUnitCreation)'' [''mssql_instance'']),
      (''transactionsVersionStoreTruncationUnits'', NewDesc (BuildFQName Namespace ''mssql'' ''transactions_version_store_truncation_units'')
        ''(Transactions.VersionStoreUnitTruncation)'' [''mssql_instance''])]"

definition mssql_transactions_lines :: "string \<Rightarrow> row \<Rightarrow> line list" where
  "mssql_transactions_lines i r =
     [(''transactionsTempDbFreeSpaceBytes'', GaugeValue, f64_mul (num mssql_transactions_fields r ''TransactionsFreeSpaceintempdbKB'') (F_Fin 1024), [i]),
      (''transactionsLongestTransactionRunningSeconds'', GaugeValue, num mssql_transactions_fields r ''TransactionsLongestTransactionRunningTime'', [i]),
      (''transactionsNonSnapshotVersionActiveTotal'', CounterValue, num mssql_transactions_fields r ''TransactionsNonSnapshotVersionTransactions'', [i]),
      (''transactionsSnapshotActiveTotal'', CounterValue, num mssql_transactions_fields r ''TransactionsSnapshotTransactions'', [i]),
      (''transactionsActive'', GaugeValue, num mssql_transactions_fields r ''TransactionsTransactions'', [i]),
      (''transactionsUpdateConflictsTotal'', CounterValue, num mssql_transactions_fields r ''TransactionsUpdateconflictratio'', [i]),
      (''transactionsUpdateSnapshotActiveTotal'', CounterValue, num mssql_transactions_fields r ''TransactionsUpdateSnapshotTransactions'', [i]),
      (''transactionsVersionCleanupRateBytes'', GaugeValue, f64_mul (num mssql_transactions_fields r ''TransactionsVersionCleanuprateKBPers'') (F_Fin 1024), [i]),
      (''transactionsVersionGenerationRateBytes'', GaugeValue, f64_mul (num mssql_transactions_fields r ''TransactionsVersionGenerationrateKBPers'') (F_Fin 1024), [i]),
      (''transactionsVersionStoreSizeBytes'', GaugeValue, f64_mul (num mssql_transactions_fields r ''TransactionsVersionStoreSizeKB'') (F_Fin 1024), [i]),
      (''transactionsVersionStoreUnits'', CounterValue, num mssql_transactions_fields r ''TransactionsVersionStoreunitcount'', [i]),
      (''transactionsVersionStoreCreationUnits'', CounterValue, num mssql_transactions_fields r ''TransactionsVersionStoreunitcreation'', [i]),
      (''transactionsVersionStoreTruncationUnits'', CounterValue, num mssql_transactions_fields r ''TransactionsVersionStoreunittruncation'', [i])]"

definition mssql_transactions_class :: mssqlSub where
  "mssql_transactions_class =
     \<lparr>msFields = mssql_transactions_fields, msDescs = mssql_transactions_descs, msObject = ''Transactions'', msErrObject = ''Transactions'',
      msCreate = ''failed to create Transactions collector for instance %s: %w'', msInstances = [], msFirst = True, msLines = mssql_transactions_lines\<rparr>"

section \<open>waitstats\<close>

definition mssql_waitstats_fields :: "structField list" where
  "mssql_waitstats_fields =
     [nameField,
      perfField ''WaitStatsLockWaits'' ''Lock waits'',
      perfField ''WaitStatsMemoryGrantQueueWaits'' ''Memory grant queue waits'',
      perfField ''WaitStatsThreadSafeMemoryObjectsWaits'' ''Thread-safe memory objects waits'',
      perfField ''WaitStatsLogWriteWaits'' ''Log write waits'',
      perfField ''WaitStatsLogBufferWaits'' ''Log buffer waits'',
      perfField ''WaitStatsNetworkIOWaits'' ''Network IO waits'',
      perfField ''WaitStatsPageIOLatchWaits'' ''Page IO latch waits'',
      perfField ''WaitStatsPageLatchWaits'' ''Page latch waits'',
      perfField ''WaitStatsNonpageLatchWaits'' ''Non-Page latch waits'',
      perfField ''WaitStatsWaitForTheWorkerWaits'' ''Wait for the worker'',
      perfField ''WaitStatsWorkspaceSynchronizationWaits'' ''Workspace synchronization waits'',
      perfField ''WaitStatsTransactionOwnershipWaits'' ''Transaction ownership waits'']"

definition mssql_waitstats_descs :: descTable where
  "mssql_waitstats_descs =
     [(''waitStatsLockWaits'', NewDesc (BuildFQName Namespace ''mssql'' ''waitstats_lock_waits'')
        ''(WaitStats.LockWaits)'' [''mssql_instance'', ''item'']),
      (''waitStatsMemoryGrantQueueWaits'', NewDesc (BuildFQName Namespace ''mssql'' ''waitstats_memory_grant_queue_waits'')
        ''(WaitStats.MemoryGrantQueueWaits)'' [''mssql_instance'', ''item'']),
      (''waitStatsThreadSafeMemoryObjectsWaits'', NewDesc (BuildFQName Namespace ''mssql'' ''waitstats_thread_safe_memory_objects_waits'')
        ''(WaitStats.ThreadSafeMemoryObjectsWaits)'' [''mssql_instance'', ''item'']),
      (''waitStatsLogWriteWaits'', NewDesc (BuildFQName Namespace ''mssql'' ''waitstats_log_write_waits'')
        ''(WaitStats.LogWriteWaits)'' [''mssql_instance'', ''item'']),
      (''waitStatsLogBufferWaits'', NewDesc (BuildFQName Namespace ''mssql'' ''waitstats_log_buffer_waits'')
        ''(WaitStats.LogBufferWaits)'' [''mssql_instance'', ''item'']),
      (''waitStatsNetworkIOWaits'', NewDesc (BuildFQName Namespace ''mssql'' ''waitstats_network_io_waits'')
        ''(WaitStats.NetworkIOWaits)'' [''mssql_instance'', ''item'']),
      (''waitStatsPageIOLatchWaits'', NewDesc (BuildFQName Namespace ''mssql'' ''waitstats_page_io_latch_waits'')
        ''(WaitStats.PageIOLatchWaits)'' [''mssql_instance'', ''item'']),
      (''waitStatsPageLatchWaits'', NewDesc (BuildFQName Namespace ''mssql'' ''waitstats_page_latch_waits'')
        ''(WaitStats.PageLatchWaits)'' [''mssql_instance'', ''item'']),
      (''waitStatsNonPageLatchWaits'', NewDesc (BuildFQName Namespace ''mssql'' ''waitstats_nonpage_latch_waits'')
        ''(WaitStats.NonpageLatchWaits)'' [''mssql_instance'', ''item'']),
      (''waitStatsWaitForTheWorkerWaits'', NewDesc (BuildFQName Namespace ''mssql'' ''waitstats_wait_for_the_worker_waits'')
        ''(WaitStats.WaitForTheWorkerWaits)'' [''mssql_instance'', ''item'']),
      (''waitStatsWorkspaceSynchronizationWaits'', NewDesc (BuildFQName Namespace ''mssql'' ''waitstats_workspace_synchronization_waits'')
        ''(WaitStats.WorkspaceSynchronizationWaits)'' [''mssql_instance'', ''item'']),
      (''waitStatsTransactionOwnershipWaits'', NewDesc (BuildFQName Namespace ''mssql'' ''waitstats_transaction_ownership_waits'')
        ''(WaitStats.TransactionOwnershipWaits)'' [''mssql_instance'', ''item''])]"

definition mssql_waitstats_lines :: "string \<Rightarrow> row \<Rightarrow> line list" where
  "mssql_waitstats_lines i r =
     [(''waitStatsLockWaits'', CounterValue, num mssql_waitstats_fields r ''WaitStatsLockWaits'', [i, rowName mssql_waitstats_fields r]),
      (''waitStatsMemoryGrantQueueWaits'', CounterValue, num mssql_waitstats_fields r ''WaitStatsMemoryGrantQueueWaits'', [i, rowName mssql_waitstats_fields r]),
      (''waitStatsThreadSafeMemoryObjectsWaits'', CounterValue, num mssql_waitstats_fields r ''WaitStatsThreadSafeMemoryObjectsWaits'', [i, rowName mssql_waitstats_fields r]),
      (''waitStatsLogWriteWaits'', CounterValue, num mssql_waitstats_fields r ''WaitStatsLogWriteWaits'', [i, rowName mssql_waitstats_fields r]),
      (''waitStatsLogBufferWaits'', CounterValue, num mssql_waitstats_fields r ''WaitStatsLogBufferWaits'', [i, rowName mssql_waitstats_fields r]),
      (''waitStatsNetworkIOWaits'', CounterValue, num mssql_waitstats_fields r ''WaitStatsNetworkIOWaits'', [i, rowName mssql_waitstats_fields r]),
      (''waitStatsPageIOLatchWaits'', CounterValue, num mssql_waitstats_fields r ''WaitStatsPageIOLatchWaits'', [i, rowName mssql_waitstats_fields r]),
      (''waitStatsPageLatchWaits'', CounterValue, num mssql_waitstats_fields r ''WaitStatsPageLatchWaits'', [i, rowName mssql_waitstats_fields r]),
      (''waitStatsNonPageLatchWaits'', CounterValue, num mssql_waitstats_fields r ''WaitStatsNonpageLatchWaits'', [i, rowName mssql_waitstats_fields r]),
      (''waitStatsWaitForTheWorkerWaits'', CounterValue, num mssql_waitstats_fields r ''WaitStatsWaitForTheWorkerWaits'', [i, rowName mssql_waitstats_fields r]),
      (''waitStatsWorkspaceSynchronizationWaits'', CounterValue, num mssql_waitstats_fields r ''WaitStatsWorkspaceSynchronizationWaits'', [i, rowName mssql_waitstats_fields r]),
      (''waitStatsTransactionOwnershipWaits'', CounterValue, num mssql_waitstats_fields r ''WaitStatsTransactionOwnershipWaits'', [i, rowName mssql_waitstats_fields r])]"

definition mssql_waitstats_class :: mssqlSub where
  "mssql_waitstats_class =
     \<lparr>msFields = mssql_waitstats_fields, msDescs = mssql_waitstats_descs, msObject = ''Wait Statistics'', msErrObject = ''Wait Statistics'',
      msCreate = ''failed to create Wait Statistics collector for instance %s: %w'', msInstances = [''*''], msFirst = False, msLines = mssql_waitstats_lines\<rparr>"

section \<open>Build, Collect and Close\<close>

text \<open>
  The collector: the instances, the names of the sub collectors that run, the classes by name, the labels of the children of the instance metric, and the names of the sub collectors to close.
\<close>

record mssqlCollector =
  mssqlInstances :: "mssqlInstance list"
  mssqlFns :: "string list"
  classes :: "string \<Rightarrow> mssqlClass"
  infoChildren :: "string list list"

definition mssql_classes :: "(string \<times> mssqlSub) list" where
  "mssql_classes =
     [(''accessmethods'', mssql_accessmethods_class),
      (''availreplica'', mssql_availreplica_class),
      (''bufman'', mssql_bufman_class),
      (''databases'', mssql_databases_class),
      (''dbreplica'', mssql_dbreplica_class),
      (''genstats'', mssql_genstats_class),
      (''locks'', mssql_locks_class),
      (''memmgr'', mssql_memmgr_class),
      (''sqlerrors'', mssql_sqlerrors_class),
      (''sqlstats'', mssql_sqlstats_class),
      (''transactions'', mssql_transactions_class),
      (''waitstats'', mssql_waitstats_class)]"

definition buildInstance :: "mssqlInstance list \<Rightarrow> string list list" where
  "buildInstance is = remdups (map (\<lambda>inst. [edition inst, instanceName inst, patchVersion inst, majorVersion_String (majorVersion inst)]) is)"

text \<open>The databases have a second class for the servers from version 2019 on; both are built for one instance after the other.\<close>

definition addBuilt :: "(mssqlInstance \<times> pdhCollector option) list \<Rightarrow> (mssqlInstance \<times> pdhCollector option) list \<Rightarrow> (mssqlInstance \<times> pdhCollector option) list" where
  "addBuilt new m = fold (\<lambda>(inst, p). AList.update inst p) new m"

fun buildDatabases ::
  "'w pdh_api \<Rightarrow> u16 \<Rightarrow> mssqlInstance list \<Rightarrow> 'w \<Rightarrow>
   (go_error list \<times> (mssqlInstance \<times> pdhCollector option) list \<times> (mssqlInstance \<times> pdhCollector option) list \<times> 'w) option" where
  "buildDatabases api osBuild [] w = Some ([], [], [], w)"
| "buildDatabases api osBuild (inst # is) w =
     (case buildClass api osBuild mssql_databases_class (\<lambda>i. True) [inst] w of
        None \<Rightarrow> None
      | Some (es, m, w1) \<Rightarrow>
          (case buildClass api osBuild mssql_databases2019_class (\<lambda>i. serverVersion2019 \<le> majorVersion i) [inst] w1 of
             None \<Rightarrow> None
           | Some (es2, m2, w2) \<Rightarrow>
               map_option (\<lambda>(es3, m3, m4, w3). (es @ es2 @ es3, addBuilt m m3, addBuilt m2 m4, w3)) (buildDatabases api osBuild is w2)))"

text \<open>The build of a sub collector.\<close>

definition buildSub ::
  "'w pdh_api \<Rightarrow> u16 \<Rightarrow> string \<Rightarrow> mssqlCollector \<Rightarrow> 'w \<Rightarrow> (go_error option \<times> mssqlCollector \<times> 'w) option" where
  "buildSub api osBuild n c w =
     (if n = ''info'' then Some (None, c\<lparr>infoChildren := buildInstance (mssqlInstances c)\<rparr>, w)
      else if n = ''databases'' then
        map_option (\<lambda>(es, m, m2, w1).
            (errors_Join es, c\<lparr>classes := (classes c)(n := \<lparr>perfDataCollectors = m, classObject = []\<rparr>,
               ''databases2019'' := \<lparr>perfDataCollectors = m2, classObject = []\<rparr>)\<rparr>, w1))
          (buildDatabases api osBuild (mssqlInstances c) w)
      else case map_of mssql_classes n of
             None \<Rightarrow> None
           | Some s \<Rightarrow>
               map_option (\<lambda>(es, m, w1). (errors_Join es, c\<lparr>classes := (classes c)(n := \<lparr>perfDataCollectors = m, classObject = []\<rparr>)\<rparr>, w1))
                 (buildClass api osBuild s (\<lambda>i. True) (mssqlInstances c) w))"

fun buildSubCollectors ::
  "'w pdh_api \<Rightarrow> u16 \<Rightarrow> string list \<Rightarrow> mssqlCollector \<Rightarrow> 'w \<Rightarrow> ((go_error + go_error list) \<times> mssqlCollector \<times> 'w) option" where
  "buildSubCollectors api osBuild [] c w = Some (Inr [], c, w)"
| "buildSubCollectors api osBuild (n # ns) c w =
     (if n \<noteq> ''info'' \<and> map_of mssql_classes n = None then Some (Inl (ErrorText ''unknown collector: %s'' [n]), c, w)
      else case buildSub api osBuild n c w of
             None \<Rightarrow> None
           | Some (err, c1, w1) \<Rightarrow>
               map_option (\<lambda>(r, c2, w2). (map_sum id (\<lambda>es. non_nil [map_option (Wrapf ''failed to build %s collector: %w'' [n]) err] @ es) r, c2, w2))
                 (buildSubCollectors api osBuild ns (c1\<lparr>mssqlFns := mssqlFns c1 @ [n]\<rparr>) w1))"

definition mssql_Build ::
  "'w pdh_api \<Rightarrow> u16 \<Rightarrow> go_error + mssqlInstance list \<Rightarrow> string list \<Rightarrow> mssqlCollector \<Rightarrow> 'w \<Rightarrow> (go_error option \<times> mssqlCollector \<times> 'w) option" where
  "mssql_Build api osBuild found enabled c w =
     (case found of
        Inl e \<Rightarrow> Some (Some (Wrapf ''couldn't get SQL instances: %w'' [] e), c, w)
      | Inr is \<Rightarrow> buildResult (buildSubCollectors api osBuild (sort enabled) (c\<lparr>mssqlInstances := is, mssqlFns := []\<rparr>) w))"

definition infoDesc :: Desc where
  "infoDesc =
     NewDesc (BuildFQName Namespace ''mssql'' ''instance_info'') (''A metric with a constant '' @ [CHR 0x27] @ ''1'' @ [CHR 0x27] @ '' value labeled with mssql instance information'')
       [''edition'', ''mssql_instance'', ''patch'', ''version'']"

text \<open>A sub collector's collect function; the two classes of the databases are joined.\<close>

definition collectSub ::
  "'w pdh_api \<Rightarrow> (mssqlInstance \<Rightarrow> 'w \<Rightarrow> f64) \<Rightarrow> string \<Rightarrow> mssqlCollector \<Rightarrow> 'w \<Rightarrow> (mssqlCollector, 'w) collected" where
  "collectSub api duration n c w =
     (if n = ''info'' then Some (None, map (\<lambda>ls. ConstMetric infoDesc GaugeValue (F_Fin 1) ls) (infoChildren c), c, w)
      else case map_of mssql_classes n of
             None \<Rightarrow> None
           | Some s \<Rightarrow>
               (case collectClass api duration n s (classes c n) w of
                  None \<Rightarrow> None
                | Some (err, ms, k, w1) \<Rightarrow>
                    (let c1 = c\<lparr>classes := (classes c)(n := k)\<rparr> in
                     if n = ''databases'' then
                       (case collectClass api duration [] mssql_databases2019_class (classes c1 ''databases2019'') w1 of
                          None \<Rightarrow> None
                        | Some (err2, ms2, k2, w2) \<Rightarrow>
                            Some (errors_Join (non_nil [err, err2]), ms @ ms2, c1\<lparr>classes := (classes c1)(''databases2019'' := k2)\<rparr>, w2))
                     else Some (err, ms, c1, w1))))"

fun runSubCollectors ::
  "'w pdh_api \<Rightarrow> (mssqlInstance \<Rightarrow> 'w \<Rightarrow> f64) \<Rightarrow> string list \<Rightarrow> mssqlCollector \<Rightarrow> 'w \<Rightarrow> (go_error list \<times> metric list \<times> mssqlCollector \<times> 'w) option" where
  "runSubCollectors api duration [] c w = Some ([], [], c, w)"
| "runSubCollectors api duration (n # ns) c w =
     (case collectSub api duration n c w of
        None \<Rightarrow> None
      | Some (err, ms, c1, w1) \<Rightarrow>
          map_option (\<lambda>(es, ms2, c2, w2). (non_nil [err] @ es, ms @ ms2, c2, w2)) (runSubCollectors api duration ns c1 w1))"

text \<open>The goroutines of the sub collectors, in the order \<open>sched\<close>.\<close>

definition mssql_Collect ::
  "'w pdh_api \<Rightarrow> (mssqlInstance \<Rightarrow> 'w \<Rightarrow> f64) \<Rightarrow> (string list \<Rightarrow> string list) \<Rightarrow> mssqlCollector \<Rightarrow> 'w \<Rightarrow> (mssqlCollector, 'w) collected" where
  "mssql_Collect api duration sched c w =
     (if mssqlInstances c = [] then Some (Some (Wrapf ''no SQL instances found: %w'' [] pdh_ErrNoData), [], c, w)
      else map_option (\<lambda>(es, ms, c', w'). (errors_Join es, ms, c', w')) (runSubCollectors api duration (sched (mssqlFns c)) c w))"

text \<open>\<open>Close\<close>: the second class of the databases is not closed.\<close>

definition mssql_Close :: "'w pdh_api \<Rightarrow> mssqlCollector \<Rightarrow> 'w \<Rightarrow> 'w" where
  "mssql_Close api c w = fold (\<lambda>n w. if n = ''info'' then w else closeClass api (classes c n) w) (mssqlFns c) w"

section \<open>The tables\<close>

lemma mssql_accessmethods_names: "distinct (map (\<lambda>(n, d). fqName d) (mssql_accessmethods_descs @ mssql_meta_descs))"
  by (rule distinct_nameCodes; unfold mssql_accessmethods_descs_def mssql_meta_descs_def) (simp only: name_code_simps)

lemma mssql_accessmethods_table: "table_ok (mssql_accessmethods_descs @ mssql_meta_descs) (mssql_accessmethods_lines i r)"
  by (rule table_ok_codes; unfold mssql_accessmethods_lines_def mssql_accessmethods_descs_def mssql_meta_descs_def) (simp only: table_code_simps)+

lemma mssql_availreplica_names: "distinct (map (\<lambda>(n, d). fqName d) (mssql_availreplica_descs @ mssql_meta_descs))"
  by (rule distinct_nameCodes; unfold mssql_availreplica_descs_def mssql_meta_descs_def) (simp only: name_code_simps)

lemma mssql_availreplica_table: "table_ok (mssql_availreplica_descs @ mssql_meta_descs) (mssql_availreplica_lines i r)"
  by (rule table_ok_codes; unfold mssql_availreplica_lines_def mssql_availreplica_descs_def mssql_meta_descs_def) (simp only: table_code_simps)+

lemma mssql_bufman_names: "distinct (map (\<lambda>(n, d). fqName d) (mssql_bufman_descs @ mssql_meta_descs))"
  by (rule distinct_nameCodes; unfold mssql_bufman_descs_def mssql_meta_descs_def) (simp only: name_code_simps)

lemma mssql_bufman_table: "table_ok (mssql_bufman_descs @ mssql_meta_descs) (mssql_bufman_lines i r)"
  by (rule table_ok_codes; unfold mssql_bufman_lines_def mssql_bufman_descs_def mssql_meta_descs_def) (simp only: table_code_simps)+

lemma mssql_databases_names: "distinct (map (\<lambda>(n, d). fqName d) (mssql_databases_descs @ mssql_meta_descs))"
  by (rule distinct_nameCodes; unfold mssql_databases_descs_def mssql_meta_descs_def) (simp only: name_code_simps)

lemma mssql_databases_table: "table_ok (mssql_databases_descs @ mssql_meta_descs) (mssql_databases_lines i r)"
  by (rule table_ok_codes; unfold mssql_databases_lines_def mssql_databases_descs_def mssql_meta_descs_def) (simp only: table_code_simps)+

lemma mssql_databases2019_names: "distinct (map (\<lambda>(n, d). fqName d) (mssql_databases2019_descs @ mssql_meta_descs))"
  by (rule distinct_nameCodes; unfold mssql_databases2019_descs_def mssql_meta_descs_def) (simp only: name_code_simps)

lemma mssql_databases2019_table: "table_ok (mssql_databases2019_descs @ mssql_meta_descs) (mssql_databases2019_lines i r)"
  by (rule table_ok_codes; unfold mssql_databases2019_lines_def mssql_databases2019_descs_def mssql_meta_descs_def) (simp only: table_code_simps)+

lemma mssql_dbreplica_names: "distinct (map (\<lambda>(n, d). fqName d) (mssql_dbreplica_descs @ mssql_meta_descs))"
  by (rule distinct_nameCodes; unfold mssql_dbreplica_descs_def mssql_meta_descs_def) (simp only: name_code_simps)

lemma mssql_dbreplica_table: "table_ok (mssql_dbreplica_descs @ mssql_meta_descs) (mssql_dbreplica_lines i r)"
  by (rule table_ok_codes; unfold mssql_dbreplica_lines_def mssql_dbreplica_descs_def mssql_meta_descs_def) (simp only: table_code_simps)+

lemma mssql_genstats_names: "distinct (map (\<lambda>(n, d). fqName d) (mssql_genstats_descs @ mssql_meta_descs))"
  by (rule distinct_nameCodes; unfold mssql_genstats_descs_def mssql_meta_descs_def) (simp only: name_code_simps)

lemma mssql_genstats_table: "table_ok (mssql_genstats_descs @ mssql_meta_descs) (mssql_genstats_lines i r)"
  by (rule table_ok_codes; unfold mssql_genstats_lines_def mssql_genstats_descs_def mssql_meta_descs_def) (simp only: table_code_simps)+

lemma mssql_locks_names: "distinct (map (\<lambda>(n, d). fqName d) (mssql_locks_descs @ mssql_meta_descs))"
  by (rule distinct_nameCodes; unfold mssql_locks_descs_def mssql_meta_descs_def) (simp only: name_code_simps)

lemma mssql_locks_table: "table_ok (mssql_locks_descs @ mssql_meta_descs) (mssql_locks_lines i r)"
  by (rule table_ok_codes; unfold mssql_locks_lines_def mssql_locks_descs_def mssql_meta_descs_def) (simp only: table_code_simps)+

lemma mssql_memmgr_names: "distinct (map (\<lambda>(n, d). fqName d) (mssql_memmgr_descs @ mssql_meta_descs))"
  by (rule distinct_nameCodes; unfold mssql_memmgr_descs_def mssql_meta_descs_def) (simp only: name_code_simps)

lemma mssql_memmgr_table: "table_ok (mssql_memmgr_descs @ mssql_meta_descs) (mssql_memmgr_lines i r)"
  by (rule table_ok_codes; unfold mssql_memmgr_lines_def mssql_memmgr_descs_def mssql_meta_descs_def) (simp only: table_code_simps)+

lemma mssql_sqlerrors_names: "distinct (map (\<lambda>(n, d). fqName d) (mssql_sqlerrors_descs @ mssql_meta_descs))"
  by (rule distinct_nameCodes; unfold mssql_sqlerrors_descs_def mssql_meta_descs_def) (simp only: name_code_simps)

lemma mssql_sqlerrors_table: "table_ok (mssql_sqlerrors_descs @ mssql_meta_descs) (mssql_sqlerrors_lines i r)"
  by (rule table_ok_codes; unfold mssql_sqlerrors_lines_def mssql_sqlerrors_descs_def mssql_meta_descs_def) (simp only: table_code_simps)+

lemma mssql_sqlstats_names: "distinct (map (\<lambda>(n, d). fqName d) (mssql_sqlstats_descs @ mssql_meta_descs))"
  by (rule distinct_nameCodes; unfold mssql_sqlstats_descs_def mssql_meta_descs_def) (simp only: name_code_simps)

lemma mssql_sqlstats_table: "table_ok (mssql_sqlstats_descs @ mssql_meta_descs) (mssql_sqlstats_lines i r)"
  by (rule table_ok_codes; unfold mssql_sqlstats_lines_def mssql_sqlstats_descs_def mssql_meta_descs_def) (simp only: table_code_simps)+

lemma mssql_transactions_names: "distinct (map (\<lambda>(n, d). fqName d) (mssql_transactions_descs @ mssql_meta_descs))"
  by (rule distinct_nameCodes; unfold mssql_transactions_descs_def mssql_meta_descs_def) (simp only: name_code_simps)

lemma mssql_transactions_table: "table_ok (mssql_transactions_descs @ mssql_meta_descs) (mssql_transactions_lines i r)"
  by (rule table_ok_codes; unfold mssql_transactions_lines_def mssql_transactions_descs_def mssql_meta_descs_def) (simp only: table_code_simps)+

lemma mssql_waitstats_names: "distinct (map (\<lambda>(n, d). fqName d) (mssql_waitstats_descs @ mssql_meta_descs))"
  by (rule distinct_nameCodes; unfold mssql_waitstats_descs_def mssql_meta_descs_def) (simp only: name_code_simps)

lemma mssql_waitstats_table: "table_ok (mssql_waitstats_descs @ mssql_meta_descs) (mssql_waitstats_lines i r)"
  by (rule table_ok_codes; unfold mssql_waitstats_lines_def mssql_waitstats_descs_def mssql_meta_descs_def) (simp only: table_code_simps)+

section \<open>The contracts\<close>

interpretation mssql_accessmethods: mssql_class mssql_accessmethods_class
proof
  show "distinct (map (\<lambda>(n, d). fqName d) (classDescs mssql_accessmethods_class))" by (simp only: mssql_accessmethods_class_def mssqlSub.simps mssql_accessmethods_names)
  show "table_ok (classDescs mssql_accessmethods_class) (msLines mssql_accessmethods_class i r)" for i r by (simp only: mssql_accessmethods_class_def mssqlSub.simps mssql_accessmethods_table)
  show "list_all (\<lambda>n. n \<notin> set metaNames) (map fst (msDescs mssql_accessmethods_class))"
    by (unfold mssql_accessmethods_class_def mssqlSub.simps) code_simp
  show "list_all (\<lambda>n. n \<notin> set metaNames) (map fst (msLines mssql_accessmethods_class i r))" for i r
    by (unfold mssql_accessmethods_class_def mssqlSub.simps mssql_accessmethods_lines_def list.map fst_conv) code_simp
  show "list_all (\<lambda>(n, vt, v, ls). ls ! 0 = i) (msLines mssql_accessmethods_class i r)" for i r
    by (simp add: mssql_accessmethods_class_def mssql_accessmethods_lines_def)
  show "msFirst mssql_accessmethods_class \<or>
      fieldIndex ''Name'' KString 0 (msFields mssql_accessmethods_class) = Some 0 \<and>
      (\<forall>i r. list_all (\<lambda>(n, vt, v, ls). ls ! 1 = rowName (msFields mssql_accessmethods_class) r) (msLines mssql_accessmethods_class i r))"
    by (simp add: mssql_accessmethods_class_def )
qed

lemma mssql_availreplica_named: "fieldIndex ''Name'' KString 0 mssql_availreplica_fields = Some 0"
  by (simp add: mssql_availreplica_fields_def nameField_def)

interpretation mssql_availreplica: mssql_class mssql_availreplica_class
proof
  show "distinct (map (\<lambda>(n, d). fqName d) (classDescs mssql_availreplica_class))" by (simp only: mssql_availreplica_class_def mssqlSub.simps mssql_availreplica_names)
  show "table_ok (classDescs mssql_availreplica_class) (msLines mssql_availreplica_class i r)" for i r by (simp only: mssql_availreplica_class_def mssqlSub.simps mssql_availreplica_table)
  show "list_all (\<lambda>n. n \<notin> set metaNames) (map fst (msDescs mssql_availreplica_class))"
    by (unfold mssql_availreplica_class_def mssqlSub.simps) code_simp
  show "list_all (\<lambda>n. n \<notin> set metaNames) (map fst (msLines mssql_availreplica_class i r))" for i r
    by (unfold mssql_availreplica_class_def mssqlSub.simps mssql_availreplica_lines_def list.map fst_conv) code_simp
  show "list_all (\<lambda>(n, vt, v, ls). ls ! 0 = i) (msLines mssql_availreplica_class i r)" for i r
    by (simp add: mssql_availreplica_class_def mssql_availreplica_lines_def)
  show "msFirst mssql_availreplica_class \<or>
      fieldIndex ''Name'' KString 0 (msFields mssql_availreplica_class) = Some 0 \<and>
      (\<forall>i r. list_all (\<lambda>(n, vt, v, ls). ls ! 1 = rowName (msFields mssql_availreplica_class) r) (msLines mssql_availreplica_class i r))"
    by (simp add: mssql_availreplica_class_def mssql_availreplica_lines_def mssql_availreplica_named)
qed

lemma mssql_databases_named: "fieldIndex ''Name'' KString 0 mssql_databases_fields = Some 0"
  by (simp add: mssql_databases_fields_def nameField_def)

interpretation mssql_databases: mssql_class mssql_databases_class
proof
  show "distinct (map (\<lambda>(n, d). fqName d) (classDescs mssql_databases_class))" by (simp only: mssql_databases_class_def mssqlSub.simps mssql_databases_names)
  show "table_ok (classDescs mssql_databases_class) (msLines mssql_databases_class i r)" for i r by (simp only: mssql_databases_class_def mssqlSub.simps mssql_databases_table)
  show "list_all (\<lambda>n. n \<notin> set metaNames) (map fst (msDescs mssql_databases_class))"
    by (unfold mssql_databases_class_def mssqlSub.simps) code_simp
  show "list_all (\<lambda>n. n \<notin> set metaNames) (map fst (msLines mssql_databases_class i r))" for i r
    by (unfold mssql_databases_class_def mssqlSub.simps mssql_databases_lines_def list.map fst_conv) code_simp
  show "list_all (\<lambda>(n, vt, v, ls). ls ! 0 = i) (msLines mssql_databases_class i r)" for i r
    by (simp add: mssql_databases_class_def mssql_databases_lines_def)
  show "msFirst mssql_databases_class \<or>
      fieldIndex ''Name'' KString 0 (msFields mssql_databases_class) = Some 0 \<and>
      (\<forall>i r. list_all (\<lambda>(n, vt, v, ls). ls ! 1 = rowName (msFields mssql_databases_class) r) (msLines mssql_databases_class i r))"
    by (simp add: mssql_databases_class_def mssql_databases_lines_def mssql_databases_named)
qed

lemma mssql_databases2019_named: "fieldIndex ''Name'' KString 0 mssql_databases2019_fields = Some 0"
  by (simp add: mssql_databases2019_fields_def nameField_def)

interpretation mssql_databases2019: mssql_class mssql_databases2019_class
proof
  show "distinct (map (\<lambda>(n, d). fqName d) (classDescs mssql_databases2019_class))" by (simp only: mssql_databases2019_class_def mssqlSub.simps mssql_databases2019_names)
  show "table_ok (classDescs mssql_databases2019_class) (msLines mssql_databases2019_class i r)" for i r by (simp only: mssql_databases2019_class_def mssqlSub.simps mssql_databases2019_table)
  show "list_all (\<lambda>n. n \<notin> set metaNames) (map fst (msDescs mssql_databases2019_class))"
    by (unfold mssql_databases2019_class_def mssqlSub.simps) code_simp
  show "list_all (\<lambda>n. n \<notin> set metaNames) (map fst (msLines mssql_databases2019_class i r))" for i r
    by (unfold mssql_databases2019_class_def mssqlSub.simps mssql_databases2019_lines_def list.map fst_conv) code_simp
  show "list_all (\<lambda>(n, vt, v, ls). ls ! 0 = i) (msLines mssql_databases2019_class i r)" for i r
    by (simp add: mssql_databases2019_class_def mssql_databases2019_lines_def)
  show "msFirst mssql_databases2019_class \<or>
      fieldIndex ''Name'' KString 0 (msFields mssql_databases2019_class) = Some 0 \<and>
      (\<forall>i r. list_all (\<lambda>(n, vt, v, ls). ls ! 1 = rowName (msFields mssql_databases2019_class) r) (msLines mssql_databases2019_class i r))"
    by (simp add: mssql_databases2019_class_def mssql_databases2019_lines_def mssql_databases2019_named)
qed

lemma mssql_dbreplica_named: "fieldIndex ''Name'' KString 0 mssql_dbreplica_fields = Some 0"
  by (simp add: mssql_dbreplica_fields_def nameField_def)

interpretation mssql_dbreplica: mssql_class mssql_dbreplica_class
proof
  show "distinct (map (\<lambda>(n, d). fqName d) (classDescs mssql_dbreplica_class))" by (simp only: mssql_dbreplica_class_def mssqlSub.simps mssql_dbreplica_names)
  show "table_ok (classDescs mssql_dbreplica_class) (msLines mssql_dbreplica_class i r)" for i r by (simp only: mssql_dbreplica_class_def mssqlSub.simps mssql_dbreplica_table)
  show "list_all (\<lambda>n. n \<notin> set metaNames) (map fst (msDescs mssql_dbreplica_class))"
    by (unfold mssql_dbreplica_class_def mssqlSub.simps) code_simp
  show "list_all (\<lambda>n. n \<notin> set metaNames) (map fst (msLines mssql_dbreplica_class i r))" for i r
    by (unfold mssql_dbreplica_class_def mssqlSub.simps mssql_dbreplica_lines_def list.map fst_conv) code_simp
  show "list_all (\<lambda>(n, vt, v, ls). ls ! 0 = i) (msLines mssql_dbreplica_class i r)" for i r
    by (simp add: mssql_dbreplica_class_def mssql_dbreplica_lines_def)
  show "msFirst mssql_dbreplica_class \<or>
      fieldIndex ''Name'' KString 0 (msFields mssql_dbreplica_class) = Some 0 \<and>
      (\<forall>i r. list_all (\<lambda>(n, vt, v, ls). ls ! 1 = rowName (msFields mssql_dbreplica_class) r) (msLines mssql_dbreplica_class i r))"
    by (simp add: mssql_dbreplica_class_def mssql_dbreplica_lines_def mssql_dbreplica_named)
qed

interpretation mssql_genstats: mssql_class mssql_genstats_class
proof
  show "distinct (map (\<lambda>(n, d). fqName d) (classDescs mssql_genstats_class))" by (simp only: mssql_genstats_class_def mssqlSub.simps mssql_genstats_names)
  show "table_ok (classDescs mssql_genstats_class) (msLines mssql_genstats_class i r)" for i r by (simp only: mssql_genstats_class_def mssqlSub.simps mssql_genstats_table)
  show "list_all (\<lambda>n. n \<notin> set metaNames) (map fst (msDescs mssql_genstats_class))"
    by (unfold mssql_genstats_class_def mssqlSub.simps) code_simp
  show "list_all (\<lambda>n. n \<notin> set metaNames) (map fst (msLines mssql_genstats_class i r))" for i r
    by (unfold mssql_genstats_class_def mssqlSub.simps mssql_genstats_lines_def list.map fst_conv) code_simp
  show "list_all (\<lambda>(n, vt, v, ls). ls ! 0 = i) (msLines mssql_genstats_class i r)" for i r
    by (simp add: mssql_genstats_class_def mssql_genstats_lines_def)
  show "msFirst mssql_genstats_class \<or>
      fieldIndex ''Name'' KString 0 (msFields mssql_genstats_class) = Some 0 \<and>
      (\<forall>i r. list_all (\<lambda>(n, vt, v, ls). ls ! 1 = rowName (msFields mssql_genstats_class) r) (msLines mssql_genstats_class i r))"
    by (simp add: mssql_genstats_class_def )
qed

lemma mssql_locks_named: "fieldIndex ''Name'' KString 0 mssql_locks_fields = Some 0"
  by (simp add: mssql_locks_fields_def nameField_def)

interpretation mssql_locks: mssql_class mssql_locks_class
proof
  show "distinct (map (\<lambda>(n, d). fqName d) (classDescs mssql_locks_class))" by (simp only: mssql_locks_class_def mssqlSub.simps mssql_locks_names)
  show "table_ok (classDescs mssql_locks_class) (msLines mssql_locks_class i r)" for i r by (simp only: mssql_locks_class_def mssqlSub.simps mssql_locks_table)
  show "list_all (\<lambda>n. n \<notin> set metaNames) (map fst (msDescs mssql_locks_class))"
    by (unfold mssql_locks_class_def mssqlSub.simps) code_simp
  show "list_all (\<lambda>n. n \<notin> set metaNames) (map fst (msLines mssql_locks_class i r))" for i r
    by (unfold mssql_locks_class_def mssqlSub.simps mssql_locks_lines_def list.map fst_conv) code_simp
  show "list_all (\<lambda>(n, vt, v, ls). ls ! 0 = i) (msLines mssql_locks_class i r)" for i r
    by (simp add: mssql_locks_class_def mssql_locks_lines_def)
  show "msFirst mssql_locks_class \<or>
      fieldIndex ''Name'' KString 0 (msFields mssql_locks_class) = Some 0 \<and>
      (\<forall>i r. list_all (\<lambda>(n, vt, v, ls). ls ! 1 = rowName (msFields mssql_locks_class) r) (msLines mssql_locks_class i r))"
    by (simp add: mssql_locks_class_def mssql_locks_lines_def mssql_locks_named)
qed

interpretation mssql_memmgr: mssql_class mssql_memmgr_class
proof
  show "distinct (map (\<lambda>(n, d). fqName d) (classDescs mssql_memmgr_class))" by (simp only: mssql_memmgr_class_def mssqlSub.simps mssql_memmgr_names)
  show "table_ok (classDescs mssql_memmgr_class) (msLines mssql_memmgr_class i r)" for i r by (simp only: mssql_memmgr_class_def mssqlSub.simps mssql_memmgr_table)
  show "list_all (\<lambda>n. n \<notin> set metaNames) (map fst (msDescs mssql_memmgr_class))"
    by (unfold mssql_memmgr_class_def mssqlSub.simps) code_simp
  show "list_all (\<lambda>n. n \<notin> set metaNames) (map fst (msLines mssql_memmgr_class i r))" for i r
    by (unfold mssql_memmgr_class_def mssqlSub.simps mssql_memmgr_lines_def list.map fst_conv) code_simp
  show "list_all (\<lambda>(n, vt, v, ls). ls ! 0 = i) (msLines mssql_memmgr_class i r)" for i r
    by (simp add: mssql_memmgr_class_def mssql_memmgr_lines_def)
  show "msFirst mssql_memmgr_class \<or>
      fieldIndex ''Name'' KString 0 (msFields mssql_memmgr_class) = Some 0 \<and>
      (\<forall>i r. list_all (\<lambda>(n, vt, v, ls). ls ! 1 = rowName (msFields mssql_memmgr_class) r) (msLines mssql_memmgr_class i r))"
    by (simp add: mssql_memmgr_class_def )
qed

lemma mssql_sqlerrors_named: "fieldIndex ''Name'' KString 0 mssql_sqlerrors_fields = Some 0"
  by (simp add: mssql_sqlerrors_fields_def nameField_def)

interpretation mssql_sqlerrors: mssql_class mssql_sqlerrors_class
proof
  show "distinct (map (\<lambda>(n, d). fqName d) (classDescs mssql_sqlerrors_class))" by (simp only: mssql_sqlerrors_class_def mssqlSub.simps mssql_sqlerrors_names)
  show "table_ok (classDescs mssql_sqlerrors_class) (msLines mssql_sqlerrors_class i r)" for i r by (simp only: mssql_sqlerrors_class_def mssqlSub.simps mssql_sqlerrors_table)
  show "list_all (\<lambda>n. n \<notin> set metaNames) (map fst (msDescs mssql_sqlerrors_class))"
    by (unfold mssql_sqlerrors_class_def mssqlSub.simps) code_simp
  show "list_all (\<lambda>n. n \<notin> set metaNames) (map fst (msLines mssql_sqlerrors_class i r))" for i r
    by (unfold mssql_sqlerrors_class_def mssqlSub.simps mssql_sqlerrors_lines_def list.map fst_conv) code_simp
  show "list_all (\<lambda>(n, vt, v, ls). ls ! 0 = i) (msLines mssql_sqlerrors_class i r)" for i r
    by (simp add: mssql_sqlerrors_class_def mssql_sqlerrors_lines_def)
  show "msFirst mssql_sqlerrors_class \<or>
      fieldIndex ''Name'' KString 0 (msFields mssql_sqlerrors_class) = Some 0 \<and>
      (\<forall>i r. list_all (\<lambda>(n, vt, v, ls). ls ! 1 = rowName (msFields mssql_sqlerrors_class) r) (msLines mssql_sqlerrors_class i r))"
    by (simp add: mssql_sqlerrors_class_def mssql_sqlerrors_lines_def mssql_sqlerrors_named)
qed

interpretation mssql_sqlstats: mssql_class mssql_sqlstats_class
proof
  show "distinct (map (\<lambda>(n, d). fqName d) (classDescs mssql_sqlstats_class))" by (simp only: mssql_sqlstats_class_def mssqlSub.simps mssql_sqlstats_names)
  show "table_ok (classDescs mssql_sqlstats_class) (msLines mssql_sqlstats_class i r)" for i r by (simp only: mssql_sqlstats_class_def mssqlSub.simps mssql_sqlstats_table)
  show "list_all (\<lambda>n. n \<notin> set metaNames) (map fst (msDescs mssql_sqlstats_class))"
    by (unfold mssql_sqlstats_class_def mssqlSub.simps) code_simp
  show "list_all (\<lambda>n. n \<notin> set metaNames) (map fst (msLines mssql_sqlstats_class i r))" for i r
    by (unfold mssql_sqlstats_class_def mssqlSub.simps mssql_sqlstats_lines_def list.map fst_conv) code_simp
  show "list_all (\<lambda>(n, vt, v, ls). ls ! 0 = i) (msLines mssql_sqlstats_class i r)" for i r
    by (simp add: mssql_sqlstats_class_def mssql_sqlstats_lines_def)
  show "msFirst mssql_sqlstats_class \<or>
      fieldIndex ''Name'' KString 0 (msFields mssql_sqlstats_class) = Some 0 \<and>
      (\<forall>i r. list_all (\<lambda>(n, vt, v, ls). ls ! 1 = rowName (msFields mssql_sqlstats_class) r) (msLines mssql_sqlstats_class i r))"
    by (simp add: mssql_sqlstats_class_def )
qed

interpretation mssql_transactions: mssql_class mssql_transactions_class
proof
  show "distinct (map (\<lambda>(n, d). fqName d) (classDescs mssql_transactions_class))" by (simp only: mssql_transactions_class_def mssqlSub.simps mssql_transactions_names)
  show "table_ok (classDescs mssql_transactions_class) (msLines mssql_transactions_class i r)" for i r by (simp only: mssql_transactions_class_def mssqlSub.simps mssql_transactions_table)
  show "list_all (\<lambda>n. n \<notin> set metaNames) (map fst (msDescs mssql_transactions_class))"
    by (unfold mssql_transactions_class_def mssqlSub.simps) code_simp
  show "list_all (\<lambda>n. n \<notin> set metaNames) (map fst (msLines mssql_transactions_class i r))" for i r
    by (unfold mssql_transactions_class_def mssqlSub.simps mssql_transactions_lines_def list.map fst_conv) code_simp
  show "list_all (\<lambda>(n, vt, v, ls). ls ! 0 = i) (msLines mssql_transactions_class i r)" for i r
    by (simp add: mssql_transactions_class_def mssql_transactions_lines_def)
  show "msFirst mssql_transactions_class \<or>
      fieldIndex ''Name'' KString 0 (msFields mssql_transactions_class) = Some 0 \<and>
      (\<forall>i r. list_all (\<lambda>(n, vt, v, ls). ls ! 1 = rowName (msFields mssql_transactions_class) r) (msLines mssql_transactions_class i r))"
    by (simp add: mssql_transactions_class_def )
qed

lemma mssql_waitstats_named: "fieldIndex ''Name'' KString 0 mssql_waitstats_fields = Some 0"
  by (simp add: mssql_waitstats_fields_def nameField_def)

interpretation mssql_waitstats: mssql_class mssql_waitstats_class
proof
  show "distinct (map (\<lambda>(n, d). fqName d) (classDescs mssql_waitstats_class))" by (simp only: mssql_waitstats_class_def mssqlSub.simps mssql_waitstats_names)
  show "table_ok (classDescs mssql_waitstats_class) (msLines mssql_waitstats_class i r)" for i r by (simp only: mssql_waitstats_class_def mssqlSub.simps mssql_waitstats_table)
  show "list_all (\<lambda>n. n \<notin> set metaNames) (map fst (msDescs mssql_waitstats_class))"
    by (unfold mssql_waitstats_class_def mssqlSub.simps) code_simp
  show "list_all (\<lambda>n. n \<notin> set metaNames) (map fst (msLines mssql_waitstats_class i r))" for i r
    by (unfold mssql_waitstats_class_def mssqlSub.simps mssql_waitstats_lines_def list.map fst_conv) code_simp
  show "list_all (\<lambda>(n, vt, v, ls). ls ! 0 = i) (msLines mssql_waitstats_class i r)" for i r
    by (simp add: mssql_waitstats_class_def mssql_waitstats_lines_def)
  show "msFirst mssql_waitstats_class \<or>
      fieldIndex ''Name'' KString 0 (msFields mssql_waitstats_class) = Some 0 \<and>
      (\<forall>i r. list_all (\<lambda>(n, vt, v, ls). ls ! 1 = rowName (msFields mssql_waitstats_class) r) (msLines mssql_waitstats_class i r))"
    by (simp add: mssql_waitstats_class_def mssql_waitstats_lines_def mssql_waitstats_named)
qed

lemma mssql_class_all: "list_all (\<lambda>(n, s). n \<noteq> ''bufman'' \<longrightarrow> mssql_class s) mssql_classes"
  by (simp add: mssql_classes_def
    mssql_accessmethods.mssql_class_axioms
    mssql_availreplica.mssql_class_axioms
    mssql_databases.mssql_class_axioms
    mssql_dbreplica.mssql_class_axioms
    mssql_genstats.mssql_class_axioms
    mssql_locks.mssql_class_axioms
    mssql_memmgr.mssql_class_axioms
    mssql_sqlerrors.mssql_class_axioms
    mssql_sqlstats.mssql_class_axioms
    mssql_transactions.mssql_class_axioms
    mssql_waitstats.mssql_class_axioms)

text \<open>What a scrape of the class \<open>n\<close> of counters does after a successful build for the instances \<open>is\<close>.\<close>

definition classBuild :: "'w pdh_api \<Rightarrow> u16 \<Rightarrow> mssqlSub \<Rightarrow> mssqlInstance list \<Rightarrow> 'w \<Rightarrow> (go_error option \<times> mssqlClass \<times> 'w) option" where
  "classBuild api osBuild s is =
     (\<lambda>w. map_option (\<lambda>(es, m, w'). (errors_Join es, \<lparr>perfDataCollectors = m, classObject = []\<rparr>, w')) (buildClass api osBuild s (\<lambda>i. True) is w))"

text \<open>
  C33: For SQL Server instances with different names, every class of counters but that of the buffer manager sends metrics that the library accepts, for all
  instances together with their durations and successes, in every scrape after a successful build. The second class of the databases, for the servers from version 2019 on,
  is not among these classes.
\<close>

theorem mssql_class_accepted:
  assumes "map_of mssql_classes n = Some s" and "n \<noteq> ''bufman''" and "distinct (map instanceName is)"
  shows "reachable (classBuild api osBuild s is) (collectClass api duration n s)
    \<subseteq> {c. \<forall>w. scrape_ok (classPanics api s (perfDataCollectors c) (classObject c) w) (collectClass api duration n s c w)}"
proof -
  have "mssql_class s" using mssql_class_all assms(1,2) by (auto simp: list_all_iff dest: map_of_SomeD)
  then show ?thesis unfolding classBuild_def by (rule perf_contract.reachable_ok [OF mssql_class.class_contract [OF _ assms(3)]])
qed

definition expressInstance :: mssqlInstance where
  "expressInstance = \<lparr>instanceName = ''SQLEXPRESS'', majorVersion = 16, patchVersion = ''16.0.1000.6'', edition = ''Express'', isFirstInstance = False\<rparr>"

theorem mssql_class_accepted_witness:
  "\<forall>(api :: unit pdh_api) osBuild duration.
     reachable (classBuild api osBuild mssql_databases_class [expressInstance]) (collectClass api duration ''databases'' mssql_databases_class)
       \<subseteq> {c. \<forall>w. scrape_ok (classPanics api mssql_databases_class (perfDataCollectors c) (classObject c) w)
                   (collectClass api duration ''databases'' mssql_databases_class c w)}"
  by (intro allI mssql_class_accepted) (simp_all add: mssql_classes_def)

text \<open>The second class of the databases, which is collected with an empty name, is accepted as well.\<close>

lemma mssql_databases2019_accepted:
  assumes "distinct (map instanceName is)"
  shows "reachable
      (\<lambda>w. map_option (\<lambda>(es, m, w'). (errors_Join es, \<lparr>perfDataCollectors = m, classObject = []\<rparr>, w'))
         (buildClass api osBuild mssql_databases2019_class (\<lambda>i. serverVersion2019 \<le> majorVersion i) is w))
      (collectClass api duration [] mssql_databases2019_class)
    \<subseteq> {c. \<forall>w. scrape_ok (classPanics api mssql_databases2019_class (perfDataCollectors c) (classObject c) w)
             (collectClass api duration [] mssql_databases2019_class c w)}"
  by (rule perf_contract.reachable_ok [OF mssql_databases2019.class_contract [OF assms]])

text \<open>The sub collectors of the databases for servers from version 2019 on are never closed.\<close>

lemma mssql_close_skips_2019: "mssql_Close api (c\<lparr>classes := (classes c)(''databases2019'' := k)\<rparr>) w = mssql_Close api c w"
  if "''databases2019'' \<notin> set (mssqlFns c)"
proof -
  have "fold (\<lambda>n w. if n = ''info'' then w else closeClass api (((classes c)(''databases2019'' := k)) n) w) ns w =
      fold (\<lambda>n w. if n = ''info'' then w else closeClass api (classes c n) w) ns w" if "''databases2019'' \<notin> set ns" for ns
    using that by (induction ns arbitrary: w) auto
  from this [OF that] show ?thesis by (simp add: mssql_Close_def cong: if_cong)
qed

text \<open>The parsing of the version: known major versions have a name, others are unknown.\<close>

lemma newMajorVersion_String:
  "majorVersion_String (newMajorVersion v) = ''unknown'' \<longleftrightarrow> cutBefore v (CHR ''.'') \<notin> {''11'', ''12'', ''13'', ''14'', ''15'', ''16'', ''17''}"
  by (auto simp: majorVersion_String_def newMajorVersion_def)

end
