(* ===== verification/Mi_Table.thy ===== *)
theory Mi_Table
  imports Mi Perf_Subs
begin

text \<open>
  What the collectors that send the rows of a query (internal/mi) share. A row is a struct that the callback of the query fills; the metrics of a
  row are a table as for the performance counters. The instances of a class have keys, but nothing makes the system answer with
  instances whose keys are in the rows: what the library accepts depends on the answers.
\<close>

section \<open>Structs and their values\<close>

type_synonym miRow = "Mi.fval list"
type_synonym miStruct = "(string \<times> Mi.field) list"

definition miField :: "string \<Rightarrow> string \<Rightarrow> Mi.fkind \<Rightarrow> string \<times> Mi.field" where
  "miField n tag k = (n, \<lparr>miTag = tag, fkind = k\<rparr>)"

fun miPos :: "string \<Rightarrow> miStruct \<Rightarrow> nat" where
  "miPos n [] = 0"
| "miPos n ((m, f) # fs) = (if m = n then 0 else Suc (miPos n fs))"

definition miVal :: "miStruct \<Rightarrow> miRow \<Rightarrow> string \<Rightarrow> Mi.fval option" where
  "miVal st r n = (if miPos n st < length r then Some (r ! miPos n st) else None)"

text \<open>\<open>float64(v.n)\<close> of an integer field, the field itself as a natural number, and a string field.\<close>

definition miNum :: "miStruct \<Rightarrow> miRow \<Rightarrow> string \<Rightarrow> f64" where
  "miNum st r n = (case miVal st r n of Some (Mi.VUint k) \<Rightarrow> f64_of_int (int k) | Some (Mi.VInt i) \<Rightarrow> f64_of_int i | _ \<Rightarrow> F_Fin 0)"

definition miNat :: "miStruct \<Rightarrow> miRow \<Rightarrow> string \<Rightarrow> nat" where
  "miNat st r n = (case miVal st r n of Some (Mi.VUint k) \<Rightarrow> k | _ \<Rightarrow> 0)"

definition miStr :: "miStruct \<Rightarrow> miRow \<Rightarrow> string \<Rightarrow> string" where
  "miStr st r n = (case miVal st r n of Some (Mi.VString s) \<Rightarrow> s | _ \<Rightarrow> [])"

section \<open>Queries\<close>

text \<open>
  The system behind a session: the functions of mi.dll, strings in its memory, the callbacks with which it answers a query in a namespace, and
  the addresses of the two strings.
\<close>

record 'w mi_system =
  miNative :: "'w native"
  miText :: "u64 \<Rightarrow> string"
  miAnswer :: "string \<Rightarrow> string \<Rightarrow> 'w \<Rightarrow> callback list"
  miArgs :: "string \<Rightarrow> string \<Rightarrow> u64 list"

definition sessionQuery ::
  "'w mi_system \<Rightarrow> Session option \<Rightarrow> string \<Rightarrow> string \<Rightarrow> miStruct \<Rightarrow> 'w \<Rightarrow> (go_error option \<times> miRow list \<times> 'w) exec" where
  "sessionQuery sys s ns q st w = Query (miNative sys) (miText sys) (map snd st) (miAnswer sys ns q w) s (miArgs sys ns q) [] w"

text \<open>The result of a collector that keeps no rows: its error, the metrics that it sent, and the system.\<close>

type_synonym 'w sent = "(go_error option \<times> metric list \<times> 'w) exec"

definition sendQuery :: "descTable \<Rightarrow> (miRow list \<Rightarrow> line list) \<Rightarrow> (go_error option \<times> miRow list \<times> 'w) exec \<Rightarrow> 'w sent" where
  "sendQuery ds lines res =
     (case res of
        Returns (Some e, rs, w) \<Rightarrow> Returns (Some (Wrapf ''WMI query failed: %w'' [] e), [], w)
      | Returns (None, rs, w) \<Rightarrow> (case sendAll ds (lines rs) of None \<Rightarrow> Panics | Some ms \<Rightarrow> Returns (None, ms, w))
      | Panics \<Rightarrow> Panics
      | StillRunning \<Rightarrow> StillRunning)"

section \<open>The contract\<close>

text \<open>The query comes back, and if it has rows they satisfy \<open>P\<close>.\<close>

definition answered :: "(miRow list \<Rightarrow> bool) \<Rightarrow> (go_error option \<times> miRow list \<times> 'w) exec \<Rightarrow> bool" where
  "answered P res = (case res of Returns (err, rs, w) \<Rightarrow> err = None \<longrightarrow> P rs | _ \<Rightarrow> False)"

text \<open>The collector comes back, in a state with \<open>I\<close>, and has sent metrics of its own descriptors that the library accepts.\<close>

definition returns_ok :: "('w \<Rightarrow> bool) \<Rightarrow> fqname set \<Rightarrow> 'w sent \<Rightarrow> bool" where
  "returns_ok I names res =
     (case res of
        Returns (err, ms, w) \<Rightarrow> I w \<and> list_all arity_ok ms \<and> distinct (map series ms) \<and> fqName ` metric_desc ` set ms \<subseteq> names
      | _ \<Rightarrow> False)"

lemma sendAll_names: "sendAll ds lns = Some ms \<Longrightarrow> fqName ` metric_desc ` set ms \<subseteq> set (descNames ds)"
  using image_mono [OF sendAll_descs, of ds lns ms fqName] by (simp add: descNames_def image_image split_def)

lemma sendQuery_ok:
  assumes "answered P res" and "\<And>rs. P rs \<Longrightarrow> accepted (sendAll ds (lines rs))"
  shows "returns_ok (\<lambda>w. True) (set (descNames ds)) (sendQuery ds lines res)"
proof (cases res)
  case (Returns x)
  obtain err rs w where x: "x = (err, rs, w)" by (metis prod_cases3)
  show ?thesis
  proof (cases err)
    case (Some e)
    then show ?thesis using Returns x by (simp add: sendQuery_def returns_ok_def)
  next
    case None
    then have "accepted (sendAll ds (lines rs))" using assms Returns x by (simp add: answered_def)
    then show ?thesis using Returns x None by (auto simp: sendQuery_def returns_ok_def accepted_def dest: sendAll_names split: option.splits)
  qed
qed (use assms(1) in \<open>simp_all add: answered_def\<close>)

text \<open>Conversely, two calls with the same descriptor and labels are never accepted.\<close>

lemma sendAll_arities:
  "list_all (\<lambda>(n, vt, v, ls). case map_of ds n of None \<Rightarrow> False | Some d \<Rightarrow> length ls = length (variableLabels d)) lns \<Longrightarrow> \<exists>ms. sendAll ds lns = Some ms"
  by (induction lns) (auto simp: sendAll_def MustNewConstMetric_def split: option.splits)

lemma sendAll_mem: "sendAll ds lns = Some ms \<Longrightarrow> li \<in> set lns \<Longrightarrow> \<exists>m\<in>set ms. MustNewConstMetric ds li = Some m"
  by (induction lns arbitrary: ms) (auto simp: sendAll_def split: option.splits)

lemma sendAll_distinct:
  "sendAll ds lns = Some ms \<Longrightarrow> distinct (map series ms) \<Longrightarrow> distinct (map (\<lambda>(n, vt, v, ls). (n, ls)) lns)"
proof (induction lns arbitrary: ms)
  case Nil
  then show ?case by simp
next
  case (Cons li lns)
  let ?k = "\<lambda>(n, vt, v, ls). (n, ls) :: string \<times> string list"
  obtain m ms' where m: "MustNewConstMetric ds li = Some m" "sendAll ds lns = Some ms'" "ms = m # ms'"
    using Cons.prems(1) by (auto simp: sendAll_def split: option.splits)
  have same: "series m1 = series m2" if "MustNewConstMetric ds a = Some m1" "MustNewConstMetric ds b = Some m2" "?k a = ?k b" for a b m1 m2
    using that by (auto simp: MustNewConstMetric_def series_def split: prod.splits option.splits if_splits)
  have "?k li \<notin> ?k ` set lns"
  proof
    assume "?k li \<in> ?k ` set lns"
    then obtain li' where li': "li' \<in> set lns" "?k li = ?k li'" by blast
    then obtain m' where m': "m' \<in> set ms'" "MustNewConstMetric ds li' = Some m'" using sendAll_mem [OF m(2)] by blast
    then have "series m \<in> series ` set ms'" using same [OF m(1) m'(2) li'(2)] by simp
    then show False using Cons.prems(2) m(3) by simp
  qed
  then show ?case using Cons.IH [OF m(2)] Cons.prems(2) m(3) by simp
qed

text \<open>Metrics of a further descriptor can be put between those of a table.\<close>

lemma table_ok_between:
  assumes "table_ok ds (xs @ zs)" and "map_of ds n = Some d"
    and "list_all (\<lambda>(m, vt, v, ls). m = n \<and> length ls = length (variableLabels d)) ys" and "distinct (map (\<lambda>(n, vt, v, ls). (n, ls)) ys)"
    and "list_all (\<lambda>(m, vt, v, ls). m \<noteq> n) (xs @ zs)"
  shows "table_ok ds (xs @ ys @ zs)"
proof -
  let ?k = "\<lambda>(n, vt, v, ls). (n, ls) :: string \<times> string list"
  have "fst k = n" if "k \<in> ?k ` set ys" for k using that assms(3) by (force simp: list_all_iff)
  moreover have "fst k \<noteq> n" if "k \<in> ?k ` set (xs @ zs)" for k using that assms(5) by (force simp: list_all_iff)
  ultimately have apart: "?k ` set xs \<inter> ?k ` set ys = {}" "?k ` set ys \<inter> ?k ` set zs = {}" by (simp_all add: image_Un, blast+)
  have "distinct (map ?k (xs @ ys @ zs))"
    using assms(1,4) apart unfolding table_ok_def map_append distinct_append set_append set_map by (simp add: Int_Un_distrib)
  moreover have "list_all (\<lambda>(n, vt, v, ls). case map_of ds n of None \<Rightarrow> False | Some d \<Rightarrow> length ls = length (variableLabels d)) ys"
    using assms(2,3) by (auto simp: list_all_iff)
  ultimately show ?thesis using assms(1) by (simp add: table_ok_def)
qed

text \<open>An error that is wrapped once more does not matter.\<close>

definition wrapSent :: "string \<Rightarrow> string list \<Rightarrow> 'w sent \<Rightarrow> 'w sent" where
  "wrapSent msg args res =
     (case res of
        Returns (err, ms, w) \<Rightarrow> Returns (map_option (Wrapf msg args) err, ms, w)
      | Panics \<Rightarrow> Panics
      | StillRunning \<Rightarrow> StillRunning)"

lemma returns_ok_wrapSent [simp]: "returns_ok I names (wrapSent msg args res) = returns_ok I names res"
  by (simp add: returns_ok_def wrapSent_def split: exec.splits prod.splits)

section \<open>Rows without a property\<close>

text \<open>A field whose property no instance of the answer has keeps its zero value in all rows.\<close>

definition lacks :: "string \<Rightarrow> callback \<Rightarrow> bool" where
  "lacks tag cb = (case cbInstance cb of None \<Rightarrow> True | Some inst \<Rightarrow> getElement inst tag = Inl MI_RESULT_NO_SUCH_PROPERTY)"

text \<open>
  The properties that a query of the form \<open>SELECT a,b,c FROM ...\<close> names, and an answer that has no other properties, as the documentation of WQL says.
\<close>

definition selectedProps :: "string \<Rightarrow> string list" where
  "selectedProps q = Split (takeWhile (\<lambda>c. c \<noteq> CHR '' '') (drop (length ''SELECT '') q)) (CHR '','')"

definition onlySelected :: "string \<Rightarrow> callback \<Rightarrow> bool" where
  "onlySelected q cb \<longleftrightarrow> (\<forall>p. p \<notin> set (selectedProps q) \<longrightarrow> lacks p cb)"

definition headKept :: "Mi.fval \<Rightarrow> unmarshal \<Rightarrow> bool" where
  "headKept v u \<longleftrightarrow> elemValue u \<noteq> [] \<and> hd (elemValue u) = v \<and> list_all (\<lambda>r. r \<noteq> [] \<and> hd r = v) (dv u)"

lemma InstanceResult_headKept:
  assumes "InstanceResult str (f # fs) cb u = Some u'" and "lacks (miTag f) cb" and "miTag f \<noteq> []" and "headKept v u"
  shows "headKept v u'"
proof -
  obtain vs where vs: "elemValue u = v # vs" using assms(4) by (cases "elemValue u") (auto simp: headKept_def)
  have fill: "us \<noteq> [] \<and> hd us = v"
    if "fillFields str inst (f # fs) (v # vs) = Some (e, us)" "getElement inst (miTag f) = Inl MI_RESULT_NO_SUCH_PROPERTY" for inst e us
    using that assms(3) by (auto simp: status_codes)
  show ?thesis
    using assms(1,2,4) vs
    by (auto simp: InstanceResult_def sendErr_def closeErr_def lacks_def headKept_def bind_eq_Some_conv
        dest: fill split: if_splits option.splits sum.splits prod.splits)
qed

lemma runCallbacks_headKept:
  "runCallbacks str (f # fs) cbs u = Some u' \<Longrightarrow> list_all (lacks (miTag f)) cbs \<Longrightarrow> miTag f \<noteq> [] \<Longrightarrow> headKept v u \<Longrightarrow> headKept v u'"
  by (induction cbs arbitrary: u) (auto split: option.splits dest: InstanceResult_headKept)

lemma unnamed_rows:
  assumes "sessionQuery sys s ns q (miField ''Name'' ''Name'' Mi.KString # st) w = Returns (err, rs, w')"
    and "list_all (lacks ''Name'') (miAnswer sys ns q w)"
  shows "list_all (\<lambda>r. miStr (miField ''Name'' ''Name'' Mi.KString # st) r ''Name'' = []) rs"
proof -
  let ?f = "\<lparr>miTag = ''Name'', fkind = Mi.KString\<rparr>"
  have start: "headKept (Mi.VString []) (NewUnmarshalOperationsCallbacks (?f # map snd st))"
    by (simp add: headKept_def NewUnmarshalOperationsCallbacks_def)
  have "rs = [] \<or> (\<exists>u. runCallbacks (miText sys) (?f # map snd st) (miAnswer sys ns q w) (NewUnmarshalOperationsCallbacks (?f # map snd st)) = Some u \<and> rs = dv u)"
    using assms(1) by (auto simp: sessionQuery_def Query_def QueryUnmarshal_def miField_def Let_def split: option.splits exec.splits prod.splits if_splits)
  then have "list_all (\<lambda>r. r \<noteq> [] \<and> hd r = Mi.VString []) rs"
    using runCallbacks_headKept [OF _ _ _ start] assms(2) by (fastforce simp: headKept_def)
  then show ?thesis by (auto simp: list_all_iff miStr_def miVal_def miField_def hd_conv_nth)
qed

section \<open>Several queries\<close>

text \<open>Functions by name, run in the order of a list; the errors are joined and the metrics go to the same channel.\<close>

fun runQueries :: "(string \<times> ('w \<Rightarrow> 'w sent)) list \<Rightarrow> string list \<Rightarrow> 'w \<Rightarrow> (go_error list \<times> metric list \<times> 'w) exec" where
  "runQueries tab [] w = Returns ([], [], w)"
| "runQueries tab (n # ns) w =
     (case map_of tab n of
        None \<Rightarrow> Panics
      | Some f \<Rightarrow>
          (case f w of
             Returns (err, ms, w1) \<Rightarrow>
               (case runQueries tab ns w1 of
                  Returns (es, ms2, w2) \<Rightarrow> Returns (non_nil [err] @ es, ms @ ms2, w2)
                | Panics \<Rightarrow> Panics
                | StillRunning \<Rightarrow> StillRunning)
           | Panics \<Rightarrow> Panics
           | StillRunning \<Rightarrow> StillRunning))"

locale query_table =
  fixes tab :: "(string \<times> ('w \<Rightarrow> 'w sent)) list"
    and names :: "string \<Rightarrow> fqname set"
    and good :: "string set"
    and I :: "'w \<Rightarrow> bool"
  assumes sound: "list_all (\<lambda>(n, f). n \<in> good \<longrightarrow> (\<forall>w. I w \<longrightarrow> returns_ok I (names n) (f w))) tab"
    and apart: "n \<noteq> m \<Longrightarrow> n \<in> fst ` set tab \<Longrightarrow> m \<in> fst ` set tab \<Longrightarrow> names n \<inter> names m = {}"
begin

lemma runQueries_ok:
  "distinct ns \<Longrightarrow> set ns \<subseteq> fst ` set tab \<inter> good \<Longrightarrow> I w \<Longrightarrow>
   \<exists>es ms w'. runQueries tab ns w = Returns (es, ms, w') \<and> list_all arity_ok ms \<and> distinct (map series ms) \<and>
     fqName ` metric_desc ` set ms \<subseteq> (\<Union>n\<in>set ns. names n)"
proof (induction ns arbitrary: w)
  case Nil
  then show ?case by simp
next
  case (Cons n ns)
  then have "map_of tab n \<noteq> None" by (simp add: map_of_eq_None_iff)
  then obtain f where f: "map_of tab n = Some f" by auto
  then have "returns_ok I (names n) (f w)"
    using sound Cons.prems(2,3) by (auto simp: list_all_iff dest!: map_of_SomeD)
  then obtain err ms w1 where r: "f w = Returns (err, ms, w1)" "I w1" "list_all arity_ok ms" "distinct (map series ms)" "fqName ` metric_desc ` set ms \<subseteq> names n"
    by (auto simp: returns_ok_def split: exec.splits)
  obtain es ms2 w2 where r2: "runQueries tab ns w1 = Returns (es, ms2, w2)" "list_all arity_ok ms2" "distinct (map series ms2)"
    "fqName ` metric_desc ` set ms2 \<subseteq> (\<Union>n\<in>set ns. names n)"
    using Cons.IH [of w1] Cons.prems r(2) by auto
  have "names n \<inter> names m = {}" if "m \<in> set ns" for m
    using that Cons.prems by (intro apart) auto
  then have "names n \<inter> (\<Union>n\<in>set ns. names n) = {}" by blast
  then have "fqName ` metric_desc ` set ms \<inter> fqName ` metric_desc ` set ms2 = {}" using r(5) r2(4) by blast
  then have "distinct (map series (ms @ ms2))" using r(4) r2(3) by (intro distinct_series_append) (simp_all add: image_comp)
  moreover have "fqName ` metric_desc ` set (ms @ ms2) \<subseteq> (\<Union>n\<in>set (n # ns). names n)"
    unfolding set_append image_Un set_simps UN_insert using r(5) r2(4) by (rule Un_mono)
  ultimately show ?case using f r r2 by simp
qed

end

end
