(* ===== verification/Netframework.thy ===== *)
theory Netframework
  imports Mi_Table
begin

text \<open>
  The .NET Framework collector (internal/collector/netframework): eight classes of raw counters, each read by a query of its own and sent with the name of the
  process as a label. The last part says when a scrape is accepted, and what happens to a percentage that does not fit in 32 bits.
\<close>

section \<open>Classes\<close>

text \<open>What the eight files have in common: the query, the struct, the descriptors and the metrics of a process.\<close>

record miClass =
  clsQuery :: string
  clsFields :: miStruct
  clsDescs :: descTable
  clsLines :: "miRow \<Rightarrow> line list"

section \<open>clrexceptions\<close>

definition netframework_clrexceptions_fields :: miStruct where
  "netframework_clrexceptions_fields =
     [miField ''Name'' ''Name'' Mi.KString,
      miField ''NumberofExcepsThrown'' ''NumberofExcepsThrown'' (Mi.KUint 32),
      miField ''NumberofExcepsThrownPersec'' ''NumberofExcepsThrownPersec'' (Mi.KUint 32),
      miField ''NumberofFiltersPersec'' ''NumberofFiltersPersec'' (Mi.KUint 32),
      miField ''NumberofFinallysPersec'' ''NumberofFinallysPersec'' (Mi.KUint 32),
      miField ''ThrowToCatchDepthPersec'' ''ThrowToCatchDepthPersec'' (Mi.KUint 32)]"

definition netframework_clrexceptions_descs :: descTable where
  "netframework_clrexceptions_descs =
     [(''numberOfExceptionsThrown'', NewDesc (BuildFQName Namespace ''netframework'' ''clrexceptions_exceptions_thrown_total'')
        ''Displays the total number of exceptions thrown since the application started. This includes both .NET exceptions and unmanaged exceptions that are converted into .NET exceptions.'' [''process'']),
      (''numberOfFilters'', NewDesc (BuildFQName Namespace ''netframework'' ''clrexceptions_exceptions_filters_total'')
        ''Displays the total number of .NET exception filters executed. An exception filter evaluates regardless of whether an exception is handled.'' [''process'']),
      (''numberOfFinally'', NewDesc (BuildFQName Namespace ''netframework'' ''clrexceptions_exceptions_finallys_total'')
        ''Displays the total number of finally blocks executed. Only the finally blocks executed for an exception are counted; finally blocks on normal code paths are not counted by this counter.'' [''process'']),
      (''throwToCatchDepth'', NewDesc (BuildFQName Namespace ''netframework'' ''clrexceptions_throw_to_catch_depth_total'')
        ''Displays the total number of stack frames traversed, from the frame that threw the exception to the frame that handled the exception.'' [''process''])]"

definition netframework_clrexceptions_lines :: "miRow \<Rightarrow> line list" where
  "netframework_clrexceptions_lines r =
     [(''numberOfExceptionsThrown'', CounterValue, miNum netframework_clrexceptions_fields r ''NumberofExcepsThrown'', [miStr netframework_clrexceptions_fields r ''Name'']),
      (''numberOfFilters'', CounterValue, miNum netframework_clrexceptions_fields r ''NumberofFiltersPersec'', [miStr netframework_clrexceptions_fields r ''Name'']),
      (''numberOfFinally'', CounterValue, miNum netframework_clrexceptions_fields r ''NumberofFinallysPersec'', [miStr netframework_clrexceptions_fields r ''Name'']),
      (''throwToCatchDepth'', CounterValue, miNum netframework_clrexceptions_fields r ''ThrowToCatchDepthPersec'', [miStr netframework_clrexceptions_fields r ''Name''])]"

definition netframework_clrexceptions_class :: miClass where
  "netframework_clrexceptions_class = \<lparr>clsQuery = ''SELECT * FROM Win32_PerfRawData_NETFramework_NETCLRExceptions'', clsFields = netframework_clrexceptions_fields, clsDescs = netframework_clrexceptions_descs, clsLines = netframework_clrexceptions_lines\<rparr>"

section \<open>clrjit\<close>

definition netframework_clrjit_fields :: miStruct where
  "netframework_clrjit_fields =
     [miField ''Name'' ''Name'' Mi.KString,
      miField ''Frequency_PerfTime'' ''Frequency_PerfTime'' (Mi.KUint 32),
      miField ''ILBytesJittedPersec'' ''ILBytesJittedPersec'' (Mi.KUint 32),
      miField ''NumberofILBytesJitted'' ''NumberofILBytesJitted'' (Mi.KUint 32),
      miField ''NumberofMethodsJitted'' ''NumberofMethodsJitted'' (Mi.KUint 32),
      miField ''PercentTimeinJit'' ''PercentTimeinJit'' (Mi.KUint 32),
      miField ''StandardJitFailures'' ''StandardJitFailures'' (Mi.KUint 32),
      miField ''TotalNumberofILBytesJitted'' ''TotalNumberofILBytesJitted'' (Mi.KUint 32)]"

definition netframework_clrjit_descs :: descTable where
  "netframework_clrjit_descs =
     [(''numberOfMethodsJitted'', NewDesc (BuildFQName Namespace ''netframework'' ''clrjit_jit_methods_total'')
        ''Displays the total number of methods JIT-compiled since the application started. This counter does not include pre-JIT-compiled methods.'' [''process'']),
      (''timeInJit'', NewDesc (BuildFQName Namespace ''netframework'' ''clrjit_jit_time_percent'')
        ''Displays the percentage of time spent in JIT compilation. This counter is updated at the end of every JIT compilation phase. A JIT compilation phase occurs when a method and its dependencies are compiled.'' [''process'']),
      (''standardJitFailures'', NewDesc (BuildFQName Namespace ''netframework'' ''clrjit_jit_standard_failures_total'')
        ''Displays the peak number of methods the JIT compiler has failed to compile since the application started. This failure can occur if the MSIL cannot be verified or if there is an internal error in the JIT compiler.'' [''process'']),
      (''totalNumberOfILBytesJitted'', NewDesc (BuildFQName Namespace ''netframework'' ''clrjit_jit_il_bytes_total'')
        ''Displays the total number of Microsoft intermediate language (MSIL) bytes compiled by the just-in-time (JIT) compiler since the application started'' [''process''])]"

definition netframework_clrjit_lines :: "miRow \<Rightarrow> line list" where
  "netframework_clrjit_lines r =
     [(''numberOfMethodsJitted'', CounterValue, miNum netframework_clrjit_fields r ''NumberofMethodsJitted'', [miStr netframework_clrjit_fields r ''Name'']),
      (''timeInJit'', GaugeValue, f64_div (miNum netframework_clrjit_fields r ''PercentTimeinJit'') (miNum netframework_clrjit_fields r ''Frequency_PerfTime''), [miStr netframework_clrjit_fields r ''Name'']),
      (''standardJitFailures'', GaugeValue, miNum netframework_clrjit_fields r ''StandardJitFailures'', [miStr netframework_clrjit_fields r ''Name'']),
      (''totalNumberOfILBytesJitted'', CounterValue, miNum netframework_clrjit_fields r ''TotalNumberofILBytesJitted'', [miStr netframework_clrjit_fields r ''Name''])]"

definition netframework_clrjit_class :: miClass where
  "netframework_clrjit_class = \<lparr>clsQuery = ''SELECT * FROM Win32_PerfRawData_NETFramework_NETCLRJit'', clsFields = netframework_clrjit_fields, clsDescs = netframework_clrjit_descs, clsLines = netframework_clrjit_lines\<rparr>"

section \<open>clrloading\<close>

definition netframework_clrloading_fields :: miStruct where
  "netframework_clrloading_fields =
     [miField ''Name'' ''Name'' Mi.KString,
      miField ''AssemblySearchLength'' ''AssemblySearchLength'' (Mi.KUint 32),
      miField ''BytesinLoaderHeap'' ''BytesinLoaderHeap'' (Mi.KUint 64),
      miField ''Currentappdomains'' ''Currentappdomains'' (Mi.KUint 32),
      miField ''CurrentAssemblies'' ''CurrentAssemblies'' (Mi.KUint 32),
      miField ''CurrentClassesLoaded'' ''CurrentClassesLoaded'' (Mi.KUint 32),
      miField ''PercentTimeLoading'' ''PercentTimeLoading'' (Mi.KUint 64),
      miField ''Rateofappdomains'' ''Rateofappdomains'' (Mi.KUint 32),
      miField ''Rateofappdomainsunloaded'' ''Rateofappdomainsunloaded'' (Mi.KUint 32),
      miField ''RateofAssemblies'' ''RateofAssemblies'' (Mi.KUint 32),
      miField ''RateofClassesLoaded'' ''RateofClassesLoaded'' (Mi.KUint 32),
      miField ''RateofLoadFailures'' ''RateofLoadFailures'' (Mi.KUint 32),
      miField ''TotalAppdomains'' ''TotalAppdomains'' (Mi.KUint 32),
      miField ''Totalappdomainsunloaded'' ''Totalappdomainsunloaded'' (Mi.KUint 32),
      miField ''TotalAssemblies'' ''TotalAssemblies'' (Mi.KUint 32),
      miField ''TotalClassesLoaded'' ''TotalClassesLoaded'' (Mi.KUint 32),
      miField ''TotalNumberofLoadFailures'' ''TotalNumberofLoadFailures'' (Mi.KUint 32)]"

definition netframework_clrloading_descs :: descTable where
  "netframework_clrloading_descs =
     [(''bytesInLoaderHeap'', NewDesc (BuildFQName Namespace ''netframework'' ''clrloading_loader_heap_size_bytes'')
        ''Displays the current size, in bytes, of the memory committed by the class loader across all application domains. Committed memory is the physical space reserved in the disk paging file.'' [''process'']),
      (''currentAppDomains'', NewDesc (BuildFQName Namespace ''netframework'' ''clrloading_appdomains_loaded_current'')
        ''Displays the current number of application domains loaded in this application.'' [''process'']),
      (''currentAssemblies'', NewDesc (BuildFQName Namespace ''netframework'' ''clrloading_assemblies_loaded_current'')
        ''Displays the current number of assemblies loaded across all application domains in the currently running application. If the assembly is loaded as domain-neutral from multiple application domains, this counter is incremented only once.'' [''process'']),
      (''currentClassesLoaded'', NewDesc (BuildFQName Namespace ''netframework'' ''clrloading_classes_loaded_current'')
        ''Displays the current number of classes loaded in all assemblies.'' [''process'']),
      (''totalAppDomains'', NewDesc (BuildFQName Namespace ''netframework'' ''clrloading_appdomains_loaded_total'')
        ''Displays the peak number of application domains loaded since the application started.'' [''process'']),
      (''totalAppDomainsUnloaded'', NewDesc (BuildFQName Namespace ''netframework'' ''clrloading_appdomains_unloaded_total'')
        ''Displays the total number of application domains unloaded since the application started. If an application domain is loaded and unloaded multiple times, this counter increments each time the application domain is unloaded.'' [''process'']),
      (''totalAssemblies'', NewDesc (BuildFQName Namespace ''netframework'' ''clrloading_assemblies_loaded_total'')
        ''Displays the total number of assemblies loaded since the application started. If the assembly is loaded as domain-neutral from multiple application domains, this counter is incremented only once.'' [''process'']),
      (''totalClassesLoaded'', NewDesc (BuildFQName Namespace ''netframework'' ''clrloading_classes_loaded_total'')
        ''Displays the cumulative number of classes loaded in all assemblies since the application started.'' [''process'']),
      (''totalNumberOfLoadFailures'', NewDesc (BuildFQName Namespace ''netframework'' ''clrloading_class_load_failures_total'')
        ''Displays the peak number of classes that have failed to load since the application started.'' [''process''])]"

definition netframework_clrloading_lines :: "miRow \<Rightarrow> line list" where
  "netframework_clrloading_lines r =
     [(''bytesInLoaderHeap'', GaugeValue, miNum netframework_clrloading_fields r ''BytesinLoaderHeap'', [miStr netframework_clrloading_fields r ''Name'']),
      (''currentAppDomains'', GaugeValue, miNum netframework_clrloading_fields r ''Currentappdomains'', [miStr netframework_clrloading_fields r ''Name'']),
      (''currentAssemblies'', GaugeValue, miNum netframework_clrloading_fields r ''CurrentAssemblies'', [miStr netframework_clrloading_fields r ''Name'']),
      (''currentClassesLoaded'', GaugeValue, miNum netframework_clrloading_fields r ''CurrentClassesLoaded'', [miStr netframework_clrloading_fields r ''Name'']),
      (''totalAppDomains'', CounterValue, miNum netframework_clrloading_fields r ''TotalAppdomains'', [miStr netframework_clrloading_fields r ''Name'']),
      (''totalAppDomainsUnloaded'', CounterValue, miNum netframework_clrloading_fields r ''Totalappdomainsunloaded'', [miStr netframework_clrloading_fields r ''Name'']),
      (''totalAssemblies'', CounterValue, miNum netframework_clrloading_fields r ''TotalAssemblies'', [miStr netframework_clrloading_fields r ''Name'']),
      (''totalClassesLoaded'', CounterValue, miNum netframework_clrloading_fields r ''TotalClassesLoaded'', [miStr netframework_clrloading_fields r ''Name'']),
      (''totalNumberOfLoadFailures'', CounterValue, miNum netframework_clrloading_fields r ''TotalNumberofLoadFailures'', [miStr netframework_clrloading_fields r ''Name''])]"

definition netframework_clrloading_class :: miClass where
  "netframework_clrloading_class = \<lparr>clsQuery = ''SELECT * FROM Win32_PerfRawData_NETFramework_NETCLRLoading'', clsFields = netframework_clrloading_fields, clsDescs = netframework_clrloading_descs, clsLines = netframework_clrloading_lines\<rparr>"

section \<open>clrinterop\<close>

definition netframework_clrinterop_fields :: miStruct where
  "netframework_clrinterop_fields =
     [miField ''Name'' ''Name'' Mi.KString,
      miField ''NumberofCCWs'' ''NumberofCCWs'' (Mi.KUint 32),
      miField ''Numberofmarshalling'' ''Numberofmarshalling'' (Mi.KUint 32),
      miField ''NumberofStubs'' ''NumberofStubs'' (Mi.KUint 32),
      miField ''NumberofTLBexportsPersec'' ''NumberofTLBexportsPersec'' (Mi.KUint 32),
      miField ''NumberofTLBimportsPersec'' ''NumberofTLBimportsPersec'' (Mi.KUint 32)]"

definition netframework_clrinterop_descs :: descTable where
  "netframework_clrinterop_descs =
     [(''numberOfCCWs'', NewDesc (BuildFQName Namespace ''netframework'' ''clrinterop_com_callable_wrappers_total'')
        ''Displays the current number of COM callable wrappers (CCWs). A CCW is a proxy for a managed object being referenced from an unmanaged COM client.'' [''process'']),
      (''numberOfMarshalling'', NewDesc (BuildFQName Namespace ''netframework'' ''clrinterop_interop_marshalling_total'')
        ''Displays the total number of times arguments and return values have been marshaled from managed to unmanaged code, and vice versa, since the application started.'' [''process'']),
      (''numberOfStubs'', NewDesc (BuildFQName Namespace ''netframework'' ''clrinterop_interop_stubs_created_total'')
        ''Displays the current number of stubs created by the common language runtime. Stubs are responsible for marshaling arguments and return values from managed to unmanaged code, and vice versa, during a COM interop call or a platform invoke call.'' [''process''])]"

definition netframework_clrinterop_lines :: "miRow \<Rightarrow> line list" where
  "netframework_clrinterop_lines r =
     [(''numberOfCCWs'', CounterValue, miNum netframework_clrinterop_fields r ''NumberofCCWs'', [miStr netframework_clrinterop_fields r ''Name'']),
      (''numberOfMarshalling'', CounterValue, miNum netframework_clrinterop_fields r ''Numberofmarshalling'', [miStr netframework_clrinterop_fields r ''Name'']),
      (''numberOfStubs'', CounterValue, miNum netframework_clrinterop_fields r ''NumberofStubs'', [miStr netframework_clrinterop_fields r ''Name''])]"

definition netframework_clrinterop_class :: miClass where
  "netframework_clrinterop_class = \<lparr>clsQuery = ''SELECT * FROM Win32_PerfRawData_NETFramework_NETCLRInterop'', clsFields = netframework_clrinterop_fields, clsDescs = netframework_clrinterop_descs, clsLines = netframework_clrinterop_lines\<rparr>"

section \<open>clrlocksandthreads\<close>

definition netframework_clrlocksandthreads_fields :: miStruct where
  "netframework_clrlocksandthreads_fields =
     [miField ''Name'' ''Name'' Mi.KString,
      miField ''ContentionRatePersec'' ''ContentionRatePersec'' (Mi.KUint 32),
      miField ''CurrentQueueLength'' ''CurrentQueueLength'' (Mi.KUint 32),
      miField ''NumberofcurrentlogicalThreads'' ''NumberofcurrentlogicalThreads'' (Mi.KUint 32),
      miField ''NumberofcurrentphysicalThreads'' ''NumberofcurrentphysicalThreads'' (Mi.KUint 32),
      miField ''Numberofcurrentrecognizedthreads'' ''Numberofcurrentrecognizedthreads'' (Mi.KUint 32),
      miField ''Numberoftotalrecognizedthreads'' ''Numberoftotalrecognizedthreads'' (Mi.KUint 32),
      miField ''QueueLengthPeak'' ''QueueLengthPeak'' (Mi.KUint 32),
      miField ''QueueLengthPersec'' ''QueueLengthPersec'' (Mi.KUint 32),
      miField ''RateOfRecognizedThreadsPersec'' ''RateOfRecognizedThreadsPersec'' (Mi.KUint 32),
      miField ''TotalNumberofContentions'' ''TotalNumberofContentions'' (Mi.KUint 32)]"

definition netframework_clrlocksandthreads_descs :: descTable where
  "netframework_clrlocksandthreads_descs =
     [(''currentQueueLength'', NewDesc (BuildFQName Namespace ''netframework'' ''clrlocksandthreads_current_queue_length'')
        ''Displays the total number of threads that are currently waiting to acquire a managed lock in the application.'' [''process'']),
      (''numberOfCurrentLogicalThreads'', NewDesc (BuildFQName Namespace ''netframework'' ''clrlocksandthreads_current_logical_threads'')
        ''Displays the number of current managed thread objects in the application. This counter maintains the count of both running and stopped threads. '' [''process'']),
      (''numberOfCurrentPhysicalThreads'', NewDesc (BuildFQName Namespace ''netframework'' ''clrlocksandthreads_physical_threads_current'')
        ''Displays the number of native operating system threads created and owned by the common language runtime to act as underlying threads for managed thread objects. This counter's value does not include the threads used by the runtime in its internal operations; it is a subset of the threads in the operating system process.'' [''process'']),
      (''numberOfCurrentRecognizedThreads'', NewDesc (BuildFQName Namespace ''netframework'' ''clrlocksandthreads_recognized_threads_current'')
        ''Displays the number of threads that are currently recognized by the runtime. These threads are associated with a corresponding managed thread object. The runtime does not create these threads, but they have run inside the runtime at least once.'' [''process'']),
      (''numberOfTotalRecognizedThreads'', NewDesc (BuildFQName Namespace ''netframework'' ''clrlocksandthreads_recognized_threads_total'')
        ''Displays the total number of threads that have been recognized by the runtime since the application started. These threads are associated with a corresponding managed thread object. The runtime does not create these threads, but they have run inside the runtime at least once.'' [''process'']),
      (''queueLengthPeak'', NewDesc (BuildFQName Namespace ''netframework'' ''clrlocksandthreads_queue_length_total'')
        ''Displays the total number of threads that waited to acquire a managed lock since the application started.'' [''process'']),
      (''totalNumberOfContentions'', NewDesc (BuildFQName Namespace ''netframework'' ''clrlocksandthreads_contentions_total'')
        ''Displays the total number of times that threads in the runtime have attempted to acquire a managed lock unsuccessfully.'' [''process''])]"

definition netframework_clrlocksandthreads_lines :: "miRow \<Rightarrow> line list" where
  "netframework_clrlocksandthreads_lines r =
     [(''currentQueueLength'', GaugeValue, miNum netframework_clrlocksandthreads_fields r ''CurrentQueueLength'', [miStr netframework_clrlocksandthreads_fields r ''Name'']),
      (''numberOfCurrentLogicalThreads'', GaugeValue, miNum netframework_clrlocksandthreads_fields r ''NumberofcurrentlogicalThreads'', [miStr netframework_clrlocksandthreads_fields r ''Name'']),
      (''numberOfCurrentPhysicalThreads'', GaugeValue, miNum netframework_clrlocksandthreads_fields r ''NumberofcurrentphysicalThreads'', [miStr netframework_clrlocksandthreads_fields r ''Name'']),
      (''numberOfCurrentRecognizedThreads'', GaugeValue, miNum netframework_clrlocksandthreads_fields r ''Numberofcurrentrecognizedthreads'', [miStr netframework_clrlocksandthreads_fields r ''Name'']),
      (''numberOfTotalRecognizedThreads'', CounterValue, miNum netframework_clrlocksandthreads_fields r ''Numberoftotalrecognizedthreads'', [miStr netframework_clrlocksandthreads_fields r ''Name'']),
      (''queueLengthPeak'', CounterValue, miNum netframework_clrlocksandthreads_fields r ''QueueLengthPeak'', [miStr netframework_clrlocksandthreads_fields r ''Name'']),
      (''totalNumberOfContentions'', CounterValue, miNum netframework_clrlocksandthreads_fields r ''TotalNumberofContentions'', [miStr netframework_clrlocksandthreads_fields r ''Name''])]"

definition netframework_clrlocksandthreads_class :: miClass where
  "netframework_clrlocksandthreads_class = \<lparr>clsQuery = ''SELECT * FROM Win32_PerfRawData_NETFramework_NETCLRLocksAndThreads'', clsFields = netframework_clrlocksandthreads_fields, clsDescs = netframework_clrlocksandthreads_descs, clsLines = netframework_clrlocksandthreads_lines\<rparr>"

section \<open>clrmemory\<close>

definition netframework_clrmemory_fields :: miStruct where
  "netframework_clrmemory_fields =
     [miField ''Name'' ''Name'' Mi.KString,
      miField ''AllocatedBytesPersec'' ''AllocatedBytesPersec'' (Mi.KUint 64),
      miField ''FinalizationSurvivors'' ''FinalizationSurvivors'' (Mi.KUint 64),
      miField ''Frequency_PerfTime'' ''Frequency_PerfTime'' (Mi.KUint 64),
      miField ''Gen0heapsize'' ''Gen0heapsize'' (Mi.KUint 64),
      miField ''Gen0PromotedBytesPerSec'' ''Gen0PromotedBytesPersec'' (Mi.KUint 64),
      miField ''Gen1heapsize'' ''Gen1heapsize'' (Mi.KUint 64),
      miField ''Gen1PromotedBytesPerSec'' ''Gen1PromotedBytesPersec'' (Mi.KUint 64),
      miField ''Gen2heapsize'' ''Gen2heapsize'' (Mi.KUint 64),
      miField ''LargeObjectHeapsize'' ''LargeObjectHeapsize'' (Mi.KUint 64),
      miField ''NumberBytesinallHeaps'' ''NumberBytesinallHeaps'' (Mi.KUint 64),
      miField ''NumberGCHandles'' ''NumberGCHandles'' (Mi.KUint 64),
      miField ''NumberGen0Collections'' ''NumberGen0Collections'' (Mi.KUint 64),
      miField ''NumberGen1Collections'' ''NumberGen1Collections'' (Mi.KUint 64),
      miField ''NumberGen2Collections'' ''NumberGen2Collections'' (Mi.KUint 64),
      miField ''NumberInducedGC'' ''NumberInducedGC'' (Mi.KUint 64),
      miField ''NumberofPinnedObjects'' ''NumberofPinnedObjects'' (Mi.KUint 64),
      miField ''NumberofSinkBlocksinuse'' ''NumberofSinkBlocksinuse'' (Mi.KUint 64),
      miField ''NumberTotalcommittedBytes'' ''NumberTotalcommittedBytes'' (Mi.KUint 64),
      miField ''NumberTotalreservedBytes'' ''NumberTotalreservedBytes'' (Mi.KUint 64),
      miField ''PercentTimeinGC'' ''PercentTimeinGC'' (Mi.KUint 32),
      miField ''PercentTimeinGC_base'' ''PercentTimeinGC_base'' (Mi.KUint 32),
      miField ''ProcessID'' ''ProcessID'' (Mi.KUint 64),
      miField ''PromotedFinalizationMemoryfromGen0'' ''PromotedFinalizationMemoryfromGen0'' (Mi.KUint 64),
      miField ''PromotedMemoryfromGen0'' ''PromotedMemoryfromGen0'' (Mi.KUint 64),
      miField ''PromotedMemoryfromGen1'' ''PromotedMemoryfromGen1'' (Mi.KUint 64)]"

definition netframework_clrmemory_descs :: descTable where
  "netframework_clrmemory_descs =
     [(''allocatedBytes'', NewDesc (BuildFQName Namespace ''netframework'' ''clrmemory_allocated_bytes_total'')
        ''Displays the total number of bytes allocated on the garbage collection heap.'' [''process'']),
      (''finalizationSurvivors'', NewDesc (BuildFQName Namespace ''netframework'' ''clrmemory_finalization_survivors'')
        ''Displays the number of garbage-collected objects that survive a collection because they are waiting to be finalized.'' [''process'']),
      (''heapSize'', NewDesc (BuildFQName Namespace ''netframework'' ''clrmemory_heap_size_bytes'')
        ''Displays the maximum bytes that can be allocated; it does not indicate the current number of bytes allocated.'' [''process'', ''area'']),
      (''promotedBytes'', NewDesc (BuildFQName Namespace ''netframework'' ''clrmemory_promoted_bytes'')
        ''Displays the bytes that were promoted from the generation to the next one during the last GC. Memory is promoted when it survives a garbage collection.'' [''process'', ''area'']),
      (''numberGCHandles'', NewDesc (BuildFQName Namespace ''netframework'' ''clrmemory_number_gc_handles'')
        ''Displays the current number of garbage collection handles in use. Garbage collection handles are handles to resources external to the common language runtime and the managed environment.'' [''process'']),
      (''numberCollections'', NewDesc (BuildFQName Namespace ''netframework'' ''clrmemory_collections_total'')
        ''Displays the number of times the generation objects are garbage collected since the application started.'' [''process'', ''area'']),
      (''numberInducedGC'', NewDesc (BuildFQName Namespace ''netframework'' ''clrmemory_induced_gc_total'')
        ''Displays the peak number of times garbage collection was performed because of an explicit call to GC.Collect.'' [''process'']),
      (''numberOfPinnedObjects'', NewDesc (BuildFQName Namespace ''netframework'' ''clrmemory_number_pinned_objects'')
        ''Displays the number of pinned objects encountered in the last garbage collection.'' [''process'']),
      (''numberOfSinkBlocksInUse'', NewDesc (BuildFQName Namespace ''netframework'' ''clrmemory_number_sink_blocksinuse'')
        ''Displays the current number of synchronization blocks in use. Synchronization blocks are per-object data structures allocated for storing synchronization information. They hold weak references to managed objects and must be scanned by the garbage collector.'' [''process'']),
      (''numberTotalCommittedBytes'', NewDesc (BuildFQName Namespace ''netframework'' ''clrmemory_committed_bytes'')
        ''Displays the amount of virtual memory, in bytes, currently committed by the garbage collector. Committed memory is the physical memory for which space has been reserved in the disk paging file.'' [''process'']),
      (''numberTotalReservedBytes'', NewDesc (BuildFQName Namespace ''netframework'' ''clrmemory_reserved_bytes'')
        ''Displays the amount of virtual memory, in bytes, currently reserved by the garbage collector. Reserved memory is the virtual memory space reserved for the application when no disk or main memory pages have been used.'' [''process'']),
      (''timeInGC'', NewDesc (BuildFQName Namespace ''netframework'' ''clrmemory_gc_time_percent'')
        ''Displays the percentage of time that was spent performing a garbage collection in the last sample.'' [''process''])]"

definition netframework_clrmemory_lines :: "miRow \<Rightarrow> line list" where
  "netframework_clrmemory_lines r =
     [(''allocatedBytes'', CounterValue, miNum netframework_clrmemory_fields r ''AllocatedBytesPersec'', [miStr netframework_clrmemory_fields r ''Name'']),
      (''finalizationSurvivors'', GaugeValue, miNum netframework_clrmemory_fields r ''FinalizationSurvivors'', [miStr netframework_clrmemory_fields r ''Name'']),
      (''heapSize'', GaugeValue, miNum netframework_clrmemory_fields r ''Gen0heapsize'', [miStr netframework_clrmemory_fields r ''Name'', ''Gen0'']),
      (''promotedBytes'', GaugeValue, miNum netframework_clrmemory_fields r ''Gen0PromotedBytesPerSec'', [miStr netframework_clrmemory_fields r ''Name'', ''Gen0'']),
      (''heapSize'', GaugeValue, miNum netframework_clrmemory_fields r ''Gen1heapsize'', [miStr netframework_clrmemory_fields r ''Name'', ''Gen1'']),
      (''promotedBytes'', GaugeValue, miNum netframework_clrmemory_fields r ''Gen1PromotedBytesPerSec'', [miStr netframework_clrmemory_fields r ''Name'', ''Gen1'']),
      (''heapSize'', GaugeValue, miNum netframework_clrmemory_fields r ''Gen2heapsize'', [miStr netframework_clrmemory_fields r ''Name'', ''Gen2'']),
      (''heapSize'', GaugeValue, miNum netframework_clrmemory_fields r ''LargeObjectHeapsize'', [miStr netframework_clrmemory_fields r ''Name'', ''LOH'']),
      (''numberGCHandles'', GaugeValue, miNum netframework_clrmemory_fields r ''NumberGCHandles'', [miStr netframework_clrmemory_fields r ''Name'']),
      (''numberCollections'', CounterValue, miNum netframework_clrmemory_fields r ''NumberGen0Collections'', [miStr netframework_clrmemory_fields r ''Name'', ''Gen0'']),
      (''numberCollections'', CounterValue, miNum netframework_clrmemory_fields r ''NumberGen1Collections'', [miStr netframework_clrmemory_fields r ''Name'', ''Gen1'']),
      (''numberCollections'', CounterValue, miNum netframework_clrmemory_fields r ''NumberGen2Collections'', [miStr netframework_clrmemory_fields r ''Name'', ''Gen2'']),
      (''numberInducedGC'', CounterValue, miNum netframework_clrmemory_fields r ''NumberInducedGC'', [miStr netframework_clrmemory_fields r ''Name'']),
      (''numberOfPinnedObjects'', GaugeValue, miNum netframework_clrmemory_fields r ''NumberofPinnedObjects'', [miStr netframework_clrmemory_fields r ''Name'']),
      (''numberOfSinkBlocksInUse'', GaugeValue, miNum netframework_clrmemory_fields r ''NumberofSinkBlocksinuse'', [miStr netframework_clrmemory_fields r ''Name'']),
      (''numberTotalCommittedBytes'', GaugeValue, miNum netframework_clrmemory_fields r ''NumberTotalcommittedBytes'', [miStr netframework_clrmemory_fields r ''Name'']),
      (''numberTotalReservedBytes'', GaugeValue, miNum netframework_clrmemory_fields r ''NumberTotalreservedBytes'', [miStr netframework_clrmemory_fields r ''Name'']),
      (''timeInGC'', GaugeValue, f64_div (f64_of_int (uint (100 * word_of_nat (miNat netframework_clrmemory_fields r ''PercentTimeinGC'') :: u32))) (miNum netframework_clrmemory_fields r ''PercentTimeinGC_base''), [miStr netframework_clrmemory_fields r ''Name''])]"

definition netframework_clrmemory_class :: miClass where
  "netframework_clrmemory_class = \<lparr>clsQuery = ''SELECT * FROM Win32_PerfRawData_NETFramework_NETCLRMemory'', clsFields = netframework_clrmemory_fields, clsDescs = netframework_clrmemory_descs, clsLines = netframework_clrmemory_lines\<rparr>"

section \<open>clrremoting\<close>

definition netframework_clrremoting_fields :: miStruct where
  "netframework_clrremoting_fields =
     [miField ''Name'' ''Name'' Mi.KString,
      miField ''Channels'' ''Channels'' (Mi.KUint 32),
      miField ''ContextBoundClassesLoaded'' ''ContextBoundClassesLoaded'' (Mi.KUint 32),
      miField ''ContextBoundObjectsAllocPersec'' ''ContextBoundObjectsAllocPersec'' (Mi.KUint 32),
      miField ''ContextProxies'' ''ContextProxies'' (Mi.KUint 32),
      miField ''Contexts'' ''Contexts'' (Mi.KUint 32),
      miField ''RemoteCallsPersec'' ''RemoteCallsPersec'' (Mi.KUint 32),
      miField ''TotalRemoteCalls'' ''TotalRemoteCalls'' (Mi.KUint 32)]"

definition netframework_clrremoting_descs :: descTable where
  "netframework_clrremoting_descs =
     [(''channels'', NewDesc (BuildFQName Namespace ''netframework'' ''clrremoting_channels_total'')
        ''Displays the total number of remoting channels registered across all application domains since application started.'' [''process'']),
      (''contextBoundClassesLoaded'', NewDesc (BuildFQName Namespace ''netframework'' ''clrremoting_context_bound_classes_loaded'')
        ''Displays the current number of context-bound classes that are loaded.'' [''process'']),
      (''contextBoundObjects'', NewDesc (BuildFQName Namespace ''netframework'' ''clrremoting_context_bound_objects_total'')
        ''Displays the total number of context-bound objects allocated.'' [''process'']),
      (''contextProxies'', NewDesc (BuildFQName Namespace ''netframework'' ''clrremoting_context_proxies_total'')
        ''Displays the total number of remoting proxy objects in this process since it started.'' [''process'']),
      (''contexts'', NewDesc (BuildFQName Namespace ''netframework'' ''clrremoting_contexts'')
        ''Displays the current number of remoting contexts in the application.'' [''process'']),
      (''totalRemoteCalls'', NewDesc (BuildFQName Namespace ''netframework'' ''clrremoting_remote_calls_total'')
        ''Displays the total number of remote procedure calls invoked since the application started.'' [''process''])]"

definition netframework_clrremoting_lines :: "miRow \<Rightarrow> line list" where
  "netframework_clrremoting_lines r =
     [(''channels'', CounterValue, miNum netframework_clrremoting_fields r ''Channels'', [miStr netframework_clrremoting_fields r ''Name'']),
      (''contextBoundClassesLoaded'', GaugeValue, miNum netframework_clrremoting_fields r ''ContextBoundClassesLoaded'', [miStr netframework_clrremoting_fields r ''Name'']),
      (''contextBoundObjects'', CounterValue, miNum netframework_clrremoting_fields r ''ContextBoundObjectsAllocPersec'', [miStr netframework_clrremoting_fields r ''Name'']),
      (''contextProxies'', CounterValue, miNum netframework_clrremoting_fields r ''ContextProxies'', [miStr netframework_clrremoting_fields r ''Name'']),
      (''contexts'', GaugeValue, miNum netframework_clrremoting_fields r ''Contexts'', [miStr netframework_clrremoting_fields r ''Name'']),
      (''totalRemoteCalls'', CounterValue, miNum netframework_clrremoting_fields r ''TotalRemoteCalls'', [miStr netframework_clrremoting_fields r ''Name''])]"

definition netframework_clrremoting_class :: miClass where
  "netframework_clrremoting_class = \<lparr>clsQuery = ''SELECT * FROM Win32_PerfRawData_NETFramework_NETCLRRemoting'', clsFields = netframework_clrremoting_fields, clsDescs = netframework_clrremoting_descs, clsLines = netframework_clrremoting_lines\<rparr>"

section \<open>clrsecurity\<close>

definition netframework_clrsecurity_fields :: miStruct where
  "netframework_clrsecurity_fields =
     [miField ''Name'' ''Name'' Mi.KString,
      miField ''Frequency_PerfTime'' ''Frequency_PerfTime'' (Mi.KUint 32),
      miField ''NumberLinkTimeChecks'' ''NumberLinkTimeChecks'' (Mi.KUint 32),
      miField ''PercentTimeinRTchecks'' ''PercentTimeinRTchecks'' (Mi.KUint 32),
      miField ''PercentTimeSigAuthenticating'' ''PercentTimeSigAuthenticating'' (Mi.KUint 64),
      miField ''StackWalkDepth'' ''StackWalkDepth'' (Mi.KUint 32),
      miField ''TotalRuntimeChecks'' ''TotalRuntimeChecks'' (Mi.KUint 32)]"

definition netframework_clrsecurity_descs :: descTable where
  "netframework_clrsecurity_descs =
     [(''numberLinkTimeChecks'', NewDesc (BuildFQName Namespace ''netframework'' ''clrsecurity_link_time_checks_total'')
        ''Displays the total number of link-time code access security checks since the application started.'' [''process'']),
      (''timeInRTChecks'', NewDesc (BuildFQName Namespace ''netframework'' ''clrsecurity_rt_checks_time_percent'')
        ''Displays the percentage of time spent performing runtime code access security checks in the last sample.'' [''process'']),
      (''stackWalkDepth'', NewDesc (BuildFQName Namespace ''netframework'' ''clrsecurity_stack_walk_depth'')
        ''Displays the depth of the stack during that last runtime code access security check.'' [''process'']),
      (''totalRuntimeChecks'', NewDesc (BuildFQName Namespace ''netframework'' ''clrsecurity_runtime_checks_total'')
        ''Displays the total number of runtime code access security checks performed since the application started.'' [''process''])]"

definition netframework_clrsecurity_lines :: "miRow \<Rightarrow> line list" where
  "netframework_clrsecurity_lines r =
     [(''numberLinkTimeChecks'', CounterValue, miNum netframework_clrsecurity_fields r ''NumberLinkTimeChecks'', [miStr netframework_clrsecurity_fields r ''Name'']),
      (''timeInRTChecks'', GaugeValue, f64_div (miNum netframework_clrsecurity_fields r ''PercentTimeinRTchecks'') (miNum netframework_clrsecurity_fields r ''Frequency_PerfTime''), [miStr netframework_clrsecurity_fields r ''Name'']),
      (''stackWalkDepth'', GaugeValue, miNum netframework_clrsecurity_fields r ''StackWalkDepth'', [miStr netframework_clrsecurity_fields r ''Name'']),
      (''totalRuntimeChecks'', CounterValue, miNum netframework_clrsecurity_fields r ''TotalRuntimeChecks'', [miStr netframework_clrsecurity_fields r ''Name''])]"

definition netframework_clrsecurity_class :: miClass where
  "netframework_clrsecurity_class = \<lparr>clsQuery = ''SELECT * FROM Win32_PerfRawData_NETFramework_NETCLRSecurity'', clsFields = netframework_clrsecurity_fields, clsDescs = netframework_clrsecurity_descs, clsLines = netframework_clrsecurity_lines\<rparr>"

section \<open>Build and Collect\<close>

definition netframework_classes :: "(string \<times> miClass) list" where
  "netframework_classes =
     [(''clrexceptions'', netframework_clrexceptions_class),
      (''clrjit'', netframework_clrjit_class),
      (''clrloading'', netframework_clrloading_class),
      (''clrinterop'', netframework_clrinterop_class),
      (''clrlocksandthreads'', netframework_clrlocksandthreads_class),
      (''clrmemory'', netframework_clrmemory_class),
      (''clrremoting'', netframework_clrremoting_class),
      (''clrsecurity'', netframework_clrsecurity_class)]"

text \<open>The rows of a class without the sum over all processes.\<close>

definition processRows :: "miClass \<Rightarrow> miRow list \<Rightarrow> miRow list" where
  "processRows cls rs = filter (\<lambda>r. miStr (clsFields cls) r ''Name'' \<noteq> ''_Global_'') rs"

definition classQuery :: "'w mi_system \<Rightarrow> Session option \<Rightarrow> miClass \<Rightarrow> 'w \<Rightarrow> (go_error option \<times> miRow list \<times> 'w) exec" where
  "classQuery sys s cls = sessionQuery sys s ''root/CIMv2'' (clsQuery cls) (clsFields cls)"

definition collectClr :: "'w mi_system \<Rightarrow> Session option \<Rightarrow> miClass \<Rightarrow> 'w \<Rightarrow> 'w sent" where
  "collectClr sys s cls w = sendQuery (clsDescs cls) (\<lambda>rs. concat (map (clsLines cls) (processRows cls rs))) (classQuery sys s cls w)"

record netframework =
  nfSession :: "Session option"
  nfFns :: "string list"

fun buildFns :: "string list \<Rightarrow> netframework \<Rightarrow> go_error option \<times> netframework" where
  "buildFns [] c = (None, c)"
| "buildFns (n # ns) c =
     (if map_of netframework_classes n = None then (Some (ErrorText ''unknown collector: %s'' [n]), c)
      else buildFns ns (c\<lparr>nfFns := nfFns c @ [n]\<rparr>))"

definition netframework_Build :: "Session option \<Rightarrow> string list \<Rightarrow> netframework \<Rightarrow> go_error option \<times> netframework" where
  "netframework_Build s enabled c =
     (if enabled = [] then (None, c)
      else if s = None then (Some (ErrorText ''miSession is nil'' []), c)
      else buildFns (sort enabled) (c\<lparr>nfSession := s, nfFns := []\<rparr>))"

definition netframework_table :: "'w mi_system \<Rightarrow> Session option \<Rightarrow> (string \<times> ('w \<Rightarrow> 'w sent)) list" where
  "netframework_table sys s = map (\<lambda>(n, cls). (n, collectClr sys s cls)) netframework_classes"

text \<open>Each function runs in a goroutine of its own; \<open>sched\<close> orders them.\<close>

definition netframework_Collect :: "(string list \<Rightarrow> string list) \<Rightarrow> 'w mi_system \<Rightarrow> netframework \<Rightarrow> 'w \<Rightarrow> 'w sent" where
  "netframework_Collect sched sys c w =
     (case runQueries (netframework_table sys (nfSession c)) (sched (nfFns c)) w of
        Returns (es, ms, w') \<Rightarrow> Returns (errors_Join es, ms, w')
      | Panics \<Rightarrow> Panics
      | StillRunning \<Rightarrow> StillRunning)"

section \<open>The tables\<close>

lemma netframework_clrexceptions_names: "distinct (map (\<lambda>(n, d). fqName d) netframework_clrexceptions_descs)"
  by (rule distinct_nameCodes; unfold netframework_clrexceptions_descs_def) (simp only: name_code_simps)

lemma netframework_clrexceptions_table: "table_ok netframework_clrexceptions_descs (netframework_clrexceptions_lines r)"
  by (rule table_ok_names; unfold netframework_clrexceptions_lines_def line_simps) code_simp+

interpretation netframework_clrexceptions: keyed_table netframework_clrexceptions_descs netframework_clrexceptions_lines "\<lambda>r. miStr netframework_clrexceptions_fields r ''Name''" "\<lambda>n. 0"
  by unfold_locales (auto simp: netframework_clrexceptions_names netframework_clrexceptions_table, simp add: netframework_clrexceptions_lines_def)

lemma netframework_clrjit_names: "distinct (map (\<lambda>(n, d). fqName d) netframework_clrjit_descs)"
  by (rule distinct_nameCodes; unfold netframework_clrjit_descs_def) (simp only: name_code_simps)

lemma netframework_clrjit_table: "table_ok netframework_clrjit_descs (netframework_clrjit_lines r)"
  by (rule table_ok_names; unfold netframework_clrjit_lines_def line_simps) code_simp+

interpretation netframework_clrjit: keyed_table netframework_clrjit_descs netframework_clrjit_lines "\<lambda>r. miStr netframework_clrjit_fields r ''Name''" "\<lambda>n. 0"
  by unfold_locales (auto simp: netframework_clrjit_names netframework_clrjit_table, simp add: netframework_clrjit_lines_def)

lemma netframework_clrloading_names: "distinct (map (\<lambda>(n, d). fqName d) netframework_clrloading_descs)"
  by (rule distinct_nameCodes; unfold netframework_clrloading_descs_def) (simp only: name_code_simps)

lemma netframework_clrloading_table: "table_ok netframework_clrloading_descs (netframework_clrloading_lines r)"
  by (rule table_ok_names; unfold netframework_clrloading_lines_def line_simps) code_simp+

interpretation netframework_clrloading: keyed_table netframework_clrloading_descs netframework_clrloading_lines "\<lambda>r. miStr netframework_clrloading_fields r ''Name''" "\<lambda>n. 0"
  by unfold_locales (auto simp: netframework_clrloading_names netframework_clrloading_table, simp add: netframework_clrloading_lines_def)

lemma netframework_clrinterop_names: "distinct (map (\<lambda>(n, d). fqName d) netframework_clrinterop_descs)"
  by (rule distinct_nameCodes; unfold netframework_clrinterop_descs_def) (simp only: name_code_simps)

lemma netframework_clrinterop_table: "table_ok netframework_clrinterop_descs (netframework_clrinterop_lines r)"
  by (rule table_ok_names; unfold netframework_clrinterop_lines_def line_simps) code_simp+

interpretation netframework_clrinterop: keyed_table netframework_clrinterop_descs netframework_clrinterop_lines "\<lambda>r. miStr netframework_clrinterop_fields r ''Name''" "\<lambda>n. 0"
  by unfold_locales (auto simp: netframework_clrinterop_names netframework_clrinterop_table, simp add: netframework_clrinterop_lines_def)

lemma netframework_clrlocksandthreads_names: "distinct (map (\<lambda>(n, d). fqName d) netframework_clrlocksandthreads_descs)"
  by (rule distinct_nameCodes; unfold netframework_clrlocksandthreads_descs_def) (simp only: name_code_simps)

lemma netframework_clrlocksandthreads_table: "table_ok netframework_clrlocksandthreads_descs (netframework_clrlocksandthreads_lines r)"
  by (rule table_ok_names; unfold netframework_clrlocksandthreads_lines_def line_simps) code_simp+

interpretation netframework_clrlocksandthreads: keyed_table netframework_clrlocksandthreads_descs netframework_clrlocksandthreads_lines "\<lambda>r. miStr netframework_clrlocksandthreads_fields r ''Name''" "\<lambda>n. 0"
  by unfold_locales (auto simp: netframework_clrlocksandthreads_names netframework_clrlocksandthreads_table, simp add: netframework_clrlocksandthreads_lines_def)

lemma netframework_clrmemory_names: "distinct (map (\<lambda>(n, d). fqName d) netframework_clrmemory_descs)"
  by (rule distinct_nameCodes; unfold netframework_clrmemory_descs_def) (simp only: name_code_simps)

lemma netframework_clrmemory_table: "table_ok netframework_clrmemory_descs (netframework_clrmemory_lines r)"
  by (rule table_ok_tails; unfold netframework_clrmemory_lines_def line_simps) code_simp+

interpretation netframework_clrmemory: keyed_table netframework_clrmemory_descs netframework_clrmemory_lines "\<lambda>r. miStr netframework_clrmemory_fields r ''Name''" "\<lambda>n. 0"
  by unfold_locales (auto simp: netframework_clrmemory_names netframework_clrmemory_table, simp add: netframework_clrmemory_lines_def)

lemma netframework_clrremoting_names: "distinct (map (\<lambda>(n, d). fqName d) netframework_clrremoting_descs)"
  by (rule distinct_nameCodes; unfold netframework_clrremoting_descs_def) (simp only: name_code_simps)

lemma netframework_clrremoting_table: "table_ok netframework_clrremoting_descs (netframework_clrremoting_lines r)"
  by (rule table_ok_names; unfold netframework_clrremoting_lines_def line_simps) code_simp+

interpretation netframework_clrremoting: keyed_table netframework_clrremoting_descs netframework_clrremoting_lines "\<lambda>r. miStr netframework_clrremoting_fields r ''Name''" "\<lambda>n. 0"
  by unfold_locales (auto simp: netframework_clrremoting_names netframework_clrremoting_table, simp add: netframework_clrremoting_lines_def)

lemma netframework_clrsecurity_names: "distinct (map (\<lambda>(n, d). fqName d) netframework_clrsecurity_descs)"
  by (rule distinct_nameCodes; unfold netframework_clrsecurity_descs_def) (simp only: name_code_simps)

lemma netframework_clrsecurity_table: "table_ok netframework_clrsecurity_descs (netframework_clrsecurity_lines r)"
  by (rule table_ok_names; unfold netframework_clrsecurity_lines_def line_simps) code_simp+

interpretation netframework_clrsecurity: keyed_table netframework_clrsecurity_descs netframework_clrsecurity_lines "\<lambda>r. miStr netframework_clrsecurity_fields r ''Name''" "\<lambda>n. 0"
  by unfold_locales (auto simp: netframework_clrsecurity_names netframework_clrsecurity_table, simp add: netframework_clrsecurity_lines_def)

section \<open>What is accepted\<close>

definition classNames :: "string \<Rightarrow> fqname set" where
  "classNames n = (case map_of netframework_classes n of None \<Rightarrow> {} | Some cls \<Rightarrow> set (descNames (clsDescs cls)))"

text \<open>The query of a class comes back, with different names for the processes.\<close>

definition wellAnswered :: "'w mi_system \<Rightarrow> Session option \<Rightarrow> string set" where
  "wellAnswered sys s =
     {n. \<forall>cls w. map_of netframework_classes n = Some cls \<longrightarrow>
           answered (\<lambda>rs. distinct (map (\<lambda>r. miStr (clsFields cls) r ''Name'') (processRows cls rs))) (classQuery sys s cls w)}"

lemma classes_labelled:
  "list_all (\<lambda>(n, cls). labelled_table (clsDescs cls) (clsLines cls) (\<lambda>r. miStr (clsFields cls) r ''Name'') (\<lambda>n ls. ls ! 0)) netframework_classes"
  by (simp add: netframework_classes_def netframework_clrexceptions_class_def netframework_clrjit_class_def netframework_clrloading_class_def netframework_clrinterop_class_def netframework_clrlocksandthreads_class_def netframework_clrmemory_class_def netframework_clrremoting_class_def netframework_clrsecurity_class_def
    netframework_clrexceptions.labelled_table_axioms netframework_clrjit.labelled_table_axioms netframework_clrloading.labelled_table_axioms netframework_clrinterop.labelled_table_axioms netframework_clrlocksandthreads.labelled_table_axioms netframework_clrmemory.labelled_table_axioms netframework_clrremoting.labelled_table_axioms netframework_clrsecurity.labelled_table_axioms)

lemma class_names_distinct: "distinct (concat (map (\<lambda>(n, cls). descNames (clsDescs cls)) netframework_classes))"
  by (rule distinct_nameCodes; unfold netframework_classes_def netframework_clrexceptions_class_def netframework_clrjit_class_def netframework_clrloading_class_def netframework_clrinterop_class_def netframework_clrlocksandthreads_class_def netframework_clrmemory_class_def netframework_clrremoting_class_def netframework_clrsecurity_class_def
      descNames_def netframework_clrexceptions_descs_def netframework_clrjit_descs_def netframework_clrloading_descs_def netframework_clrinterop_descs_def netframework_clrlocksandthreads_descs_def netframework_clrmemory_descs_def netframework_clrremoting_descs_def netframework_clrsecurity_descs_def) (simp only: name_code_simps miClass.simps)

lemma class_keys: "distinct (map fst netframework_classes)"
  by (simp add: netframework_classes_def)

lemma collectClr_ok:
  assumes "(n, cls) \<in> set netframework_classes" and "n \<in> wellAnswered sys s"
  shows "returns_ok (\<lambda>w. True) (classNames n) (collectClr sys s cls w)"
proof -
  have cls: "map_of netframework_classes n = Some cls" using assms(1) class_keys by simp
  have lab: "labelled_table (clsDescs cls) (clsLines cls) (\<lambda>r. miStr (clsFields cls) r ''Name'') (\<lambda>n ls. ls ! 0)"
    using classes_labelled assms(1) by (auto simp: list_all_iff)
  have "returns_ok (\<lambda>w. True) (set (descNames (clsDescs cls))) (collectClr sys s cls w)"
    unfolding collectClr_def
  proof (rule sendQuery_ok)
    show "answered (\<lambda>rs. distinct (map (\<lambda>r. miStr (clsFields cls) r ''Name'') (processRows cls rs))) (classQuery sys s cls w)"
      using assms(2) cls by (simp add: wellAnswered_def)
    show "accepted (sendAll (clsDescs cls) (concat (map (clsLines cls) (processRows cls rs))))"
      if "distinct (map (\<lambda>r. miStr (clsFields cls) r ''Name'') (processRows cls rs))" for rs
      using that by (rule labelled_table.rows_accepted [OF lab])
  qed
  then show ?thesis by (simp add: classNames_def cls)
qed

lemma classNames_apart: "n \<noteq> m \<Longrightarrow> classNames n \<inter> classNames m = {}"
  using distinct_concat_disjoint [OF class_names_distinct] by (fastforce simp: classNames_def dest: map_of_SomeD split: option.splits)

interpretation nf_queries: query_table "netframework_table sys s" classNames "wellAnswered sys s" "\<lambda>w. True"
proof
  show "list_all (\<lambda>(n, f). n \<in> wellAnswered sys s \<longrightarrow> (\<forall>w. True \<longrightarrow> returns_ok (\<lambda>w. True) (classNames n) (f w))) (netframework_table sys s)"
    by (auto simp: netframework_table_def list_all_iff collectClr_ok)
qed (simp add: classNames_apart)

lemma buildFns_fns:
  "buildFns ns c = (None, c') \<Longrightarrow> nfFns c' = nfFns c @ ns \<and> nfSession c' = nfSession c \<and> set ns \<subseteq> fst ` set netframework_classes"
  by (induction ns arbitrary: c) (auto simp: map_of_eq_None_iff split: if_splits)

text \<open>
  When each class of counters that is enabled answers its query with different process names, a scrape after a successful build comes back and the library accepts what
  it sent, in whatever order the goroutines run.
\<close>

theorem netframework_accepted:
  assumes "netframework_Build (Some s) enabled old = (None, c)" and "enabled \<noteq> []" and "distinct enabled"
    and "set enabled \<subseteq> wellAnswered sys (Some s)" and "\<And>ns. mset (sched ns) = mset ns"
  shows "\<exists>err ms w'. netframework_Collect sched sys c w = Returns (err, ms, w') \<and> accepted (Some ms)"
proof -
  have c: "nfFns c = sort enabled" "nfSession c = Some s" "set enabled \<subseteq> fst ` set netframework_classes"
    using assms(1,2) by (auto simp: netframework_Build_def dest!: buildFns_fns)
  have m: "mset (sched (nfFns c)) = mset enabled" using assms(5) c(1) by simp
  then have d: "distinct (sched (nfFns c))" "set (sched (nfFns c)) = set enabled"
    using assms(3) by (metis mset_eq_imp_distinct_iff, metis mset_eq_setD)
  have t: "fst ` set (netframework_table sys (Some s)) = fst ` set netframework_classes"
    by (force simp: netframework_table_def)
  obtain es ms w' where "runQueries (netframework_table sys (Some s)) (sched (nfFns c)) w = Returns (es, ms, w')"
    "list_all arity_ok ms" "distinct (map series ms)"
    using nf_queries.runQueries_ok [OF d(1), of sys "Some s" w] d(2) t c(3) assms(4) by auto
  then show ?thesis by (simp add: netframework_Collect_def c(2) accepted_def)
qed

text \<open>A system with one process, and its name only.\<close>

definition oneProcess :: "unit mi_system" where
  "oneProcess = \<lparr>miNative = sampleNative, miText = (\<lambda>p. ''app''), miAnswer = (\<lambda>ns q w. [sampleCallback False [(''Name'', \<lparr>elemVal = 7, elemType = 13\<rparr>)]]),
     miArgs = (\<lambda>ns q. [])\<rparr>"

theorem netframework_accepted_witness:
  "\<exists>err ms w'. netframework_Collect rev oneProcess \<lparr>nfSession = Some \<lparr>sessionHandle = 1, defaultOperationOptions = None\<rparr>, nfFns = [''clrinterop'']\<rparr> () =
      Returns (err, ms, w') \<and> accepted (Some ms)"
proof (rule netframework_accepted [where enabled = "[''clrinterop'']" and old = "\<lparr>nfSession = None, nfFns = []\<rparr>"])
  let ?s = "\<lparr>sessionHandle = 1, defaultOperationOptions = None\<rparr>"
  show "netframework_Build (Some ?s) [''clrinterop''] \<lparr>nfSession = None, nfFns = []\<rparr> = (None, \<lparr>nfSession = Some ?s, nfFns = [''clrinterop'']\<rparr>)"
    by (simp add: netframework_Build_def netframework_classes_def)
  show "set [''clrinterop''] \<subseteq> wellAnswered oneProcess (Some ?s)"
    by (simp add: wellAnswered_def netframework_classes_def answered_def classQuery_def sessionQuery_def oneProcess_def netframework_clrinterop_class_def
        netframework_clrinterop_fields_def miField_def processRows_def Query_def QueryUnmarshal_def callMethod_def resultErr_def sampleNative_def sampleCallback_def
        sampleInstance_def NewUnmarshalOperationsCallbacks_def InstanceResult_def Mi.setField_def closeErr_def status_codes errors_Join_def Let_def)
qed simp_all

text \<open>
  The percentage of time in the garbage collector is multiplied by 100 in 32 bits: a fraction of 42949673 of 85899346, one half, is sent as 4 divided by
  the base.
\<close>

lemma timeInGC_wraps:
  assumes "miNat netframework_clrmemory_fields r ''PercentTimeinGC'' = 42949673"
  shows "(''timeInGC'', GaugeValue, f64_div (f64_of_int 4) (miNum netframework_clrmemory_fields r ''PercentTimeinGC_base''), [miStr netframework_clrmemory_fields r ''Name''])
           \<in> set (netframework_clrmemory_lines r)"
  by (simp add: netframework_clrmemory_lines_def assms)

end
