(* ===== verification/Mscluster.thy ===== *)
theory Mscluster
  imports Mi_Table
begin

text \<open>
  The failover cluster collector (internal/collector/mscluster): the cluster, its networks, nodes, resources and resource groups, each read by a query. The resources are sent
  with a metric for each node, whose names come from the query for the nodes. The last part says when a scrape is accepted, and what the missing names in
  some of the queries lead to.
\<close>

section \<open>cluster\<close>

definition mscluster_cluster_fields :: miStruct where
  "mscluster_cluster_fields =
     [miField ''Name'' ''Name'' Mi.KString,
      miField ''AddEvictDelay'' ''AddEvictDelay'' (Mi.KUint 64),
      miField ''AdminAccessPoint'' ''AdminAccessPoint'' (Mi.KUint 64),
      miField ''AutoAssignNodeSite'' ''AutoAssignNodeSite'' (Mi.KUint 64),
      miField ''AutoBalancerLevel'' ''AutoBalancerLevel'' (Mi.KUint 64),
      miField ''AutoBalancerMode'' ''AutoBalancerMode'' (Mi.KUint 64),
      miField ''BackupInProgress'' ''BackupInProgress'' (Mi.KUint 64),
      miField ''BlockCacheSize'' ''BlockCacheSize'' (Mi.KUint 64),
      miField ''ClusSvcHangTimeout'' ''ClusSvcHangTimeout'' (Mi.KUint 64),
      miField ''ClusSvcRegroupOpeningTimeout'' ''ClusSvcRegroupOpeningTimeout'' (Mi.KUint 64),
      miField ''ClusSvcRegroupPruningTimeout'' ''ClusSvcRegroupPruningTimeout'' (Mi.KUint 64),
      miField ''ClusSvcRegroupStageTimeout'' ''ClusSvcRegroupStageTimeout'' (Mi.KUint 64),
      miField ''ClusSvcRegroupTickInMilliseconds'' ''ClusSvcRegroupTickInMilliseconds'' (Mi.KUint 64),
      miField ''ClusterEnforcedAntiAffinity'' ''ClusterEnforcedAntiAffinity'' (Mi.KUint 64),
      miField ''ClusterFunctionalLevel'' ''ClusterFunctionalLevel'' (Mi.KUint 64),
      miField ''ClusterGroupWaitDelay'' ''ClusterGroupWaitDelay'' (Mi.KUint 64),
      miField ''ClusterLogLevel'' ''ClusterLogLevel'' (Mi.KUint 64),
      miField ''ClusterLogSize'' ''ClusterLogSize'' (Mi.KUint 64),
      miField ''ClusterUpgradeVersion'' ''ClusterUpgradeVersion'' (Mi.KUint 64),
      miField ''CrossSiteDelay'' ''CrossSiteDelay'' (Mi.KUint 64),
      miField ''CrossSiteThreshold'' ''CrossSiteThreshold'' (Mi.KUint 64),
      miField ''CrossSubnetDelay'' ''CrossSubnetDelay'' (Mi.KUint 64),
      miField ''CrossSubnetThreshold'' ''CrossSubnetThreshold'' (Mi.KUint 64),
      miField ''CsvBalancer'' ''CsvBalancer'' (Mi.KUint 64),
      miField ''DatabaseReadWriteMode'' ''DatabaseReadWriteMode'' (Mi.KUint 64),
      miField ''DefaultNetworkRole'' ''DefaultNetworkRole'' (Mi.KUint 64),
      miField ''DetectedCloudPlatform'' ''DetectedCloudPlatform'' (Mi.KUint 64),
      miField ''DetectManagedEvents'' ''DetectManagedEvents'' (Mi.KUint 64),
      miField ''DetectManagedEventsThreshold'' ''DetectManagedEventsThreshold'' (Mi.KUint 64),
      miField ''DisableGroupPreferredOwnerRandomization'' ''DisableGroupPreferredOwnerRandomization'' (Mi.KUint 64),
      miField ''DrainOnShutdown'' ''DrainOnShutdown'' (Mi.KUint 64),
      miField ''DynamicQuorumEnabled'' ''DynamicQuorumEnabled'' (Mi.KUint 64),
      miField ''EnableSharedVolumes'' ''EnableSharedVolumes'' (Mi.KUint 64),
      miField ''FixQuorum'' ''FixQuorum'' (Mi.KUint 64),
      miField ''GracePeriodEnabled'' ''GracePeriodEnabled'' (Mi.KUint 64),
      miField ''GracePeriodTimeout'' ''GracePeriodTimeout'' (Mi.KUint 64),
      miField ''GroupDependencyTimeout'' ''GroupDependencyTimeout'' (Mi.KUint 64),
      miField ''HangRecoveryAction'' ''HangRecoveryAction'' (Mi.KUint 64),
      miField ''IgnorePersistentStateOnStartup'' ''IgnorePersistentStateOnStartup'' (Mi.KUint 64),
      miField ''LogResourceControls'' ''LogResourceControls'' (Mi.KUint 64),
      miField ''LowerQuorumPriorityNodeId'' ''LowerQuorumPriorityNodeId'' (Mi.KUint 64),
      miField ''MaxNumberOfNodes'' ''MaxNumberOfNodes'' (Mi.KUint 64),
      miField ''MessageBufferLength'' ''MessageBufferLength'' (Mi.KUint 64),
      miField ''MinimumNeverPreemptPriority'' ''MinimumNeverPreemptPriority'' (Mi.KUint 64),
      miField ''MinimumPreemptorPriority'' ''MinimumPreemptorPriority'' (Mi.KUint 64),
      miField ''NetftIPSecEnabled'' ''NetftIPSecEnabled'' (Mi.KUint 64),
      miField ''PlacementOptions'' ''PlacementOptions'' (Mi.KUint 64),
      miField ''PlumbAllCrossSubnetRoutes'' ''PlumbAllCrossSubnetRoutes'' (Mi.KUint 64),
      miField ''PreventQuorum'' ''PreventQuorum'' (Mi.KUint 64),
      miField ''QuarantineDuration'' ''QuarantineDuration'' (Mi.KUint 64),
      miField ''QuarantineThreshold'' ''QuarantineThreshold'' (Mi.KUint 64),
      miField ''QuorumArbitrationTimeMax'' ''QuorumArbitrationTimeMax'' (Mi.KUint 64),
      miField ''QuorumArbitrationTimeMin'' ''QuorumArbitrationTimeMin'' (Mi.KUint 64),
      miField ''QuorumLogFileSize'' ''QuorumLogFileSize'' (Mi.KUint 64),
      miField ''QuorumTypeValue'' ''QuorumTypeValue'' (Mi.KUint 64),
      miField ''RequestReplyTimeout'' ''RequestReplyTimeout'' (Mi.KUint 64),
      miField ''ResiliencyDefaultPeriod'' ''ResiliencyDefaultPeriod'' (Mi.KUint 64),
      miField ''ResiliencyLevel'' ''ResiliencyLevel'' (Mi.KUint 64),
      miField ''ResourceDllDeadlockPeriod'' ''ResourceDllDeadlockPeriod'' (Mi.KUint 64),
      miField ''RootMemoryReserved'' ''RootMemoryReserved'' (Mi.KUint 64),
      miField ''RouteHistoryLength'' ''RouteHistoryLength'' (Mi.KUint 64),
      miField ''S2DBusTypes'' ''S2DBusTypes'' (Mi.KUint 64),
      miField ''S2DCacheDesiredState'' ''S2DCacheDesiredState'' (Mi.KUint 64),
      miField ''S2DCacheFlashReservePercent'' ''S2DCacheFlashReservePercent'' (Mi.KUint 64),
      miField ''S2DCachePageSizeKBytes'' ''S2DCachePageSizeKBytes'' (Mi.KUint 64),
      miField ''S2DEnabled'' ''S2DEnabled'' (Mi.KUint 64),
      miField ''S2DIOLatencyThreshold'' ''S2DIOLatencyThreshold'' (Mi.KUint 64),
      miField ''S2DOptimizations'' ''S2DOptimizations'' (Mi.KUint 64),
      miField ''SameSubnetDelay'' ''SameSubnetDelay'' (Mi.KUint 64),
      miField ''SameSubnetThreshold'' ''SameSubnetThreshold'' (Mi.KUint 64),
      miField ''SecurityLevel'' ''SecurityLevel'' (Mi.KUint 64),
      miField ''SecurityLevelForStorage'' ''SecurityLevelForStorage'' (Mi.KUint 64),
      miField ''SharedVolumeVssWriterOperationTimeout'' ''SharedVolumeVssWriterOperationTimeout'' (Mi.KUint 64),
      miField ''ShutdownTimeoutInMinutes'' ''ShutdownTimeoutInMinutes'' (Mi.KUint 64),
      miField ''UseClientAccessNetworksForSharedVolumes'' ''UseClientAccessNetworksForSharedVolumes'' (Mi.KUint 64),
      miField ''WitnessDatabaseWriteTimeout'' ''WitnessDatabaseWriteTimeout'' (Mi.KUint 64),
      miField ''WitnessDynamicWeight'' ''WitnessDynamicWeight'' (Mi.KUint 64),
      miField ''WitnessRestartInterval'' ''WitnessRestartInterval'' (Mi.KUint 64)]"

definition mscluster_cluster_descs :: descTable where
  "mscluster_cluster_descs =
     [(''clusterAddEvictDelay'', NewDesc (BuildFQName Namespace ''mscluster_cluster'' ''add_evict_delay'')
        ''Provides access to the cluster's AddEvictDelay property, which is the number a seconds that a new node is delayed after an eviction of another node.'' [''name'']),
      (''clusterAdminAccessPoint'', NewDesc (BuildFQName Namespace ''mscluster_cluster'' ''admin_access_point'')
        ''The type of the cluster administrative access point.'' [''name'']),
      (''clusterAutoAssignNodeSite'', NewDesc (BuildFQName Namespace ''mscluster_cluster'' ''auto_assign_node_site'')
        ''Determines whether or not the cluster will attempt to automatically assign nodes to sites based on networks and Active Directory Site information.'' [''name'']),
      (''clusterAutoBalancerLevel'', NewDesc (BuildFQName Namespace ''mscluster_cluster'' ''auto_balancer_level'')
        ''Determines the level of aggressiveness of AutoBalancer.'' [''name'']),
      (''clusterAutoBalancerMode'', NewDesc (BuildFQName Namespace ''mscluster_cluster'' ''auto_balancer_mode'')
        ''Determines whether or not the auto balancer is enabled.'' [''name'']),
      (''clusterBackupInProgress'', NewDesc (BuildFQName Namespace ''mscluster_cluster'' ''backup_in_progress'')
        ''Indicates whether a backup is in progress.'' [''name'']),
      (''clusterBlockCacheSize'', NewDesc (BuildFQName Namespace ''mscluster_cluster'' ''block_cache_size'')
        ''CSV BlockCache Size in MB.'' [''name'']),
      (''clusterClusSvcHangTimeout'', NewDesc (BuildFQName Namespace ''mscluster_cluster'' ''clus_svc_hang_timeout'')
        ''Controls how long the cluster network driver waits between Failover Cluster Service heartbeats before it determines that the Failover Cluster Service has stopped responding.'' [''name'']),
      (''clusterClusSvcRegroupOpeningTimeout'', NewDesc (BuildFQName Namespace ''mscluster_cluster'' ''clus_svc_regroup_opening_timeout'')
        ''Controls how long a node will wait on other nodes in the opening stage before deciding that they failed.'' [''name'']),
      (''clusterClusSvcRegroupPruningTimeout'', NewDesc (BuildFQName Namespace ''mscluster_cluster'' ''clus_svc_regroup_pruning_timeout'')
        ''Controls how long the membership leader will wait to reach full connectivity between cluster nodes.'' [''name'']),
      (''clusterClusSvcRegroupStageTimeout'', NewDesc (BuildFQName Namespace ''mscluster_cluster'' ''clus_svc_regroup_stage_timeout'')
        ''Controls how long a node will wait on other nodes in a membership stage before deciding that they failed.'' [''name'']),
      (''clusterClusSvcRegroupTickInMilliseconds'', NewDesc (BuildFQName Namespace ''mscluster_cluster'' ''clus_svc_regroup_tick_in_milliseconds'')
        ''Controls how frequently the membership algorithm is sending periodic membership messages.'' [''name'']),
      (''clusterClusterEnforcedAntiAffinity'', NewDesc (BuildFQName Namespace ''mscluster_cluster'' ''cluster_enforced_anti_affinity'')
        ''Enables or disables hard enforcement of group anti-affinity classes.'' [''name'']),
      (''clusterClusterFunctionalLevel'', NewDesc (BuildFQName Namespace ''mscluster_cluster'' ''cluster_functional_level'')
        ''The functional level the cluster is currently running in.'' [''name'']),
      (''clusterClusterGroupWaitDelay'', NewDesc (BuildFQName Namespace ''mscluster_cluster'' ''cluster_group_wait_delay'')
        ''Maximum time in seconds that a group waits for its preferred node to come online during cluster startup before coming online on a different node.'' [''name'']),
      (''clusterClusterLogLevel'', NewDesc (BuildFQName Namespace ''mscluster_cluster'' ''cluster_log_level'')
        ''Controls the level of cluster logging.'' [''name'']),
      (''clusterClusterLogSize'', NewDesc (BuildFQName Namespace ''mscluster_cluster'' ''cluster_log_size'')
        ''Controls the maximum size of the cluster log files on each of the nodes.'' [''name'']),
      (''clusterClusterUpgradeVersion'', NewDesc (BuildFQName Namespace ''mscluster_cluster'' ''cluster_upgrade_version'')
        ''Specifies the upgrade version the cluster is currently running in.'' [''name'']),
      (''clusterCrossSiteDelay'', NewDesc (BuildFQName Namespace ''mscluster_cluster'' ''cross_site_delay'')
        ''Controls how long the cluster network driver waits in milliseconds between sending Cluster Service heartbeats across sites.'' [''name'']),
      (''clusterCrossSiteThreshold'', NewDesc (BuildFQName Namespace ''mscluster_cluster'' ''cross_site_threshold'')
        ''Controls how many Cluster Service heartbeats can be missed across sites before it determines that Cluster Service has stopped responding.'' [''name'']),
      (''clusterCrossSubnetDelay'', NewDesc (BuildFQName Namespace ''mscluster_cluster'' ''cross_subnet_delay'')
        ''Controls how long the cluster network driver waits in milliseconds between sending Cluster Service heartbeats across subnets.'' [''name'']),
      (''clusterCrossSubnetThreshold'', NewDesc (BuildFQName Namespace ''mscluster_cluster'' ''cross_subnet_threshold'')
        ''Controls how many Cluster Service heartbeats can be missed across subnets before it determines that Cluster Service has stopped responding.'' [''name'']),
      (''clusterCsvBalancer'', NewDesc (BuildFQName Namespace ''mscluster_cluster'' ''csv_balancer'')
        ''Whether automatic balancing for CSV is enabled.'' [''name'']),
      (''clusterDatabaseReadWriteMode'', NewDesc (BuildFQName Namespace ''mscluster_cluster'' ''database_read_write_mode'')
        ''Sets the database read and write mode.'' [''name'']),
      (''clusterDefaultNetworkRole'', NewDesc (BuildFQName Namespace ''mscluster_cluster'' ''default_network_role'')
        ''Provides access to the cluster's DefaultNetworkRole property.'' [''name'']),
      (''clusterDetectedCloudPlatform'', NewDesc (BuildFQName Namespace ''mscluster_cluster'' ''detected_cloud_platform'')
        ''(DetectedCloudPlatform)'' [''name'']),
      (''clusterDetectManagedEvents'', NewDesc (BuildFQName Namespace ''mscluster_cluster'' ''detect_managed_events'')
        ''(DetectManagedEvents)'' [''name'']),
      (''clusterDetectManagedEventsThreshold'', NewDesc (BuildFQName Namespace ''mscluster_cluster'' ''detect_managed_events_threshold'')
        ''(DetectManagedEventsThreshold)'' [''name'']),
      (''clusterDisableGroupPreferredOwnerRandomization'', NewDesc (BuildFQName Namespace ''mscluster_cluster'' ''disable_group_preferred_owner_randomization'')
        ''(DisableGroupPreferredOwnerRandomization)'' [''name'']),
      (''clusterDrainOnShutdown'', NewDesc (BuildFQName Namespace ''mscluster_cluster'' ''drain_on_shutdown'')
        ''Whether to drain the node when cluster service is being stopped.'' [''name'']),
      (''clusterDynamicQuorumEnabled'', NewDesc (BuildFQName Namespace ''mscluster_cluster'' ''dynamic_quorum_enabled'')
        ''Allows cluster service to adjust node weights as needed to increase availability.'' [''name'']),
      (''clusterEnableSharedVolumes'', NewDesc (BuildFQName Namespace ''mscluster_cluster'' ''enable_shared_volumes'')
        ''Enables or disables cluster shared volumes on this cluster.'' [''name'']),
      (''clusterFixQuorum'', NewDesc (BuildFQName Namespace ''mscluster_cluster'' ''fix_quorum'')
        ''Provides access to the cluster's FixQuorum property, which specifies if the cluster is in a fix quorum state.'' [''name'']),
      (''clusterGracePeriodEnabled'', NewDesc (BuildFQName Namespace ''mscluster_cluster'' ''grace_period_enabled'')
        ''Whether the node grace period feature of this cluster is enabled.'' [''name'']),
      (''clusterGracePeriodTimeout'', NewDesc (BuildFQName Namespace ''mscluster_cluster'' ''grace_period_timeout'')
        ''The grace period timeout in milliseconds.'' [''name'']),
      (''clusterGroupDependencyTimeout'', NewDesc (BuildFQName Namespace ''mscluster_cluster'' ''group_dependency_timeout'')
        ''The timeout after which a group will be brought online despite unsatisfied dependencies'' [''name'']),
      (''clusterHangRecoveryAction'', NewDesc (BuildFQName Namespace ''mscluster_cluster'' ''hang_recovery_action'')
        ''Controls the action to take if the user-mode processes have stopped responding.'' [''name'']),
      (''clusterIgnorePersistentStateOnStartup'', NewDesc (BuildFQName Namespace ''mscluster_cluster'' ''ignore_persistent_state_on_startup'')
        ''Provides access to the cluster's IgnorePersistentStateOnStartup property, which specifies whether the cluster will bring online groups that were online when the cluster was shut down.'' [''name'']),
      (''clusterLogResourceControls'', NewDesc (BuildFQName Namespace ''mscluster_cluster'' ''log_resource_controls'')
        ''Controls the logging of resource controls.'' [''name'']),
      (''clusterLowerQuorumPriorityNodeId'', NewDesc (BuildFQName Namespace ''mscluster_cluster'' ''lower_quorum_priority_node_id'')
        ''Specifies the Node ID that has a lower priority when voting for quorum is performed. If the quorum vote is split 50/50%, the specified node's vote would be ignored to break the tie. If this is not set then the cluster will pick a node at random to break the tie.'' [''name'']),
      (''clusterMaxNumberOfNodes'', NewDesc (BuildFQName Namespace ''mscluster_cluster'' ''max_number_of_nodes'')
        ''Indicates the maximum number of nodes that may participate in the Cluster.'' [''name'']),
      (''clusterMessageBufferLength'', NewDesc (BuildFQName Namespace ''mscluster_cluster'' ''message_buffer_length'')
        ''The maximum unacknowledged message count for GEM.'' [''name'']),
      (''clusterMinimumNeverPreemptPriority'', NewDesc (BuildFQName Namespace ''mscluster_cluster'' ''minimum_never_preempt_priority'')
        ''Groups with this priority or higher cannot be preempted.'' [''name'']),
      (''clusterMinimumPreemptorPriority'', NewDesc (BuildFQName Namespace ''mscluster_cluster'' ''minimum_preemptor_priority'')
        ''Minimum priority a cluster group must have to be able to preempt another group.'' [''name'']),
      (''clusterNetftIPSecEnabled'', NewDesc (BuildFQName Namespace ''mscluster_cluster'' ''netft_ip_sec_enabled'')
        ''Whether IPSec is enabled for cluster internal traffic.cluster'' [''name'']),
      (''clusterPlacementOptions'', NewDesc (BuildFQName Namespace ''mscluster_cluster'' ''placement_options'')
        ''Various option flags to modify default placement behavior.'' [''name'']),
      (''clusterPlumbAllCrossSubnetRoutes'', NewDesc (BuildFQName Namespace ''mscluster_cluster'' ''plumb_all_cross_subnet_routes'')
        ''Plumbs all possible cross subnet routes to all nodes.'' [''name'']),
      (''clusterPreventQuorum'', NewDesc (BuildFQName Namespace ''mscluster_cluster'' ''prevent_quorum'')
        ''Whether the cluster will ignore group persistent state on startup.'' [''name'']),
      (''clusterQuarantineDuration'', NewDesc (BuildFQName Namespace ''mscluster_cluster'' ''quarantine_duration'')
        ''The quarantine period timeout in milliseconds.'' [''name'']),
      (''clusterQuarantineThreshold'', NewDesc (BuildFQName Namespace ''mscluster_cluster'' ''quarantine_threshold'')
        ''Number of node failures before it will be quarantined.'' [''name'']),
      (''clusterQuorumArbitrationTimeMax'', NewDesc (BuildFQName Namespace ''mscluster_cluster'' ''quorum_arbitration_time_max'')
        ''Controls the maximum time necessary to decide the Quorum owner node.'' [''name'']),
      (''clusterQuorumArbitrationTimeMin'', NewDesc (BuildFQName Namespace ''mscluster_cluster'' ''quorum_arbitration_time_min'')
        ''Controls the minimum time necessary to decide the Quorum owner node.'' [''name'']),
      (''clusterQuorumLogFileSize'', NewDesc (BuildFQName Namespace ''mscluster_cluster'' ''quorum_log_file_size'')
        ''This property is obsolete.'' [''name'']),
      (''clusterQuorumTypeValue'', NewDesc (BuildFQName Namespace ''mscluster_cluster'' ''quorum_type_value'')
        ''Get the current quorum type value. -1: Unknown; 1: Node; 2: FileShareWitness; 3: Storage; 4: None'' [''name'']),
      (''clusterRequestReplyTimeout'', NewDesc (BuildFQName Namespace ''mscluster_cluster'' ''request_reply_timeout'')
        ''Controls the request reply time-out period.'' [''name'']),
      (''clusterResiliencyDefaultPeriod'', NewDesc (BuildFQName Namespace ''mscluster_cluster'' ''resiliency_default_period'')
        ''The default resiliency period, in seconds, for the cluster.'' [''name'']),
      (''clusterResiliencyLevel'', NewDesc (BuildFQName Namespace ''mscluster_cluster'' ''resiliency_level'')
        ''The resiliency level for the cluster.'' [''name'']),
      (''clusterResourceDllDeadlockPeriod'', NewDesc (BuildFQName Namespace ''mscluster_cluster'' ''resource_dll_deadlock_period'')
        ''This property is obsolete.'' [''name'']),
      (''clusterRootMemoryReserved'', NewDesc (BuildFQName Namespace ''mscluster_cluster'' ''root_memory_reserved'')
        ''Controls the amount of memory reserved for the parent partition on all cluster nodes.'' [''name'']),
      (''clusterRouteHistoryLength'', NewDesc (BuildFQName Namespace ''mscluster_cluster'' ''route_history_length'')
        ''The history length for routes to help finding network issues.'' [''name'']),
      (''clusterS2DBusTypes'', NewDesc (BuildFQName Namespace ''mscluster_cluster'' ''s2d_bus_types'')
        ''Bus types for storage spaces direct.'' [''name'']),
      (''clusterS2DCacheDesiredState'', NewDesc (BuildFQName Namespace ''mscluster_cluster'' ''s2d_cache_desired_state'')
        ''Desired state of the storage spaces direct cache.'' [''name'']),
      (''clusterS2DCacheFlashReservePercent'', NewDesc (BuildFQName Namespace ''mscluster_cluster'' ''s2d_cache_flash_reserve_percent'')
        ''Percentage of allocated flash space to utilize when caching.'' [''name'']),
      (''clusterS2DCachePageSizeKBytes'', NewDesc (BuildFQName Namespace ''mscluster_cluster'' ''s2d_cache_page_size_k_bytes'')
        ''Page size in KB used by S2D cache.'' [''name'']),
      (''clusterS2DEnabled'', NewDesc (BuildFQName Namespace ''mscluster_cluster'' ''s2d_enabled'')
        ''Whether direct attached storage (DAS) is enabled.'' [''name'']),
      (''clusterS2DIOLatencyThreshold'', NewDesc (BuildFQName Namespace ''mscluster_cluster'' ''s2dio_latency_threshold'')
        ''The I/O latency threshold for storage spaces direct.'' [''name'']),
      (''clusterS2DOptimizations'', NewDesc (BuildFQName Namespace ''mscluster_cluster'' ''s2d_optimizations'')
        ''Optimization flags for storage spaces direct.'' [''name'']),
      (''clusterSameSubnetDelay'', NewDesc (BuildFQName Namespace ''mscluster_cluster'' ''same_subnet_delay'')
        ''Controls how long the cluster network driver waits in milliseconds between sending Cluster Service heartbeats on the same subnet.'' [''name'']),
      (''clusterSameSubnetThreshold'', NewDesc (BuildFQName Namespace ''mscluster_cluster'' ''same_subnet_threshold'')
        ''Controls how many Cluster Service heartbeats can be missed on the same subnet before it determines that Cluster Service has stopped responding.'' [''name'']),
      (''clusterSecurityLevel'', NewDesc (BuildFQName Namespace ''mscluster_cluster'' ''security_level'')
        ''Controls the level of security that should apply to intracluster messages. 0: Clear Text; 1: Sign; 2: Encrypt '' [''name'']),
      (''clusterSecurityLevelForStorage'', NewDesc (BuildFQName Namespace ''mscluster_cluster'' ''security_level_for_storage'')
        ''(SecurityLevelForStorage)'' [''name'']),
      (''clusterSharedVolumeVssWriterOperationTimeout'', NewDesc (BuildFQName Namespace ''mscluster_cluster'' ''shared_volume_vss_writer_operation_timeout'')
        ''CSV VSS Writer operation timeout in seconds.'' [''name'']),
      (''clusterShutdownTimeoutInMinutes'', NewDesc (BuildFQName Namespace ''mscluster_cluster'' ''shutdown_timeout_in_minutes'')
        ''The maximum time in minutes allowed for cluster resources to come offline during cluster service shutdown.'' [''name'']),
      (''clusterUseClientAccessNetworksForSharedVolumes'', NewDesc (BuildFQName Namespace ''mscluster_cluster'' ''use_client_access_networks_for_shared_volumes'')
        ''Whether the use of client access networks for cluster shared volumes feature of this cluster is enabled. 0: Disabled; 1: Enabled; 2: Auto'' [''name'']),
      (''clusterWitnessDatabaseWriteTimeout'', NewDesc (BuildFQName Namespace ''mscluster_cluster'' ''witness_database_write_timeout'')
        ''Controls the maximum time in seconds that a cluster database write to a witness can take before the write is abandoned.'' [''name'']),
      (''clusterWitnessDynamicWeight'', NewDesc (BuildFQName Namespace ''mscluster_cluster'' ''witness_dynamic_weight'')
        ''The weight of the configured witness.'' [''name'']),
      (''clusterWitnessRestartInterval'', NewDesc (BuildFQName Namespace ''mscluster_cluster'' ''witness_restart_interval'')
        ''Controls the witness restart interval.'' [''name''])]"

definition mscluster_cluster_query :: "osversion \<Rightarrow> string" where
  "mscluster_cluster_query os =
     ''SELECT '' @ ''AddEvictDelay,AdminAccessPoint,AutoAssignNodeSite,AutoBalancerLevel,AutoBalancerMode,BackupInProgress,BlockCacheSize,ClusSvcHangTimeout,ClusSvcRegroupOpeningTimeout,ClusSvcRegroupPruningTimeout,ClusSvcRegroupStageTimeout,ClusSvcRegroupTickInMilliseconds,ClusterEnforcedAntiAffinity,ClusterFunctionalLevel,ClusterGroupWaitDelay,ClusterLogLevel,ClusterLogSize,ClusterUpgradeVersion,CrossSiteDelay,CrossSiteThreshold,CrossSubnetDelay,CrossSubnetThreshold,CsvBalancer,DatabaseReadWriteMode,DefaultNetworkRole,DisableGroupPreferredOwnerRandomization,DrainOnShutdown,DynamicQuorumEnabled,EnableSharedVolumes,FixQuorum,GracePeriodEnabled,GracePeriodTimeout,GroupDependencyTimeout,HangRecoveryAction,IgnorePersistentStateOnStartup,LogResourceControls,LowerQuorumPriorityNodeId,MessageBufferLength,MinimumNeverPreemptPriority,MinimumPreemptorPriority,NetftIPSecEnabled,PlacementOptions,PlumbAllCrossSubnetRoutes,PreventQuorum,QuarantineDuration,QuarantineThreshold,QuorumArbitrationTimeMax,QuorumArbitrationTimeMin,QuorumLogFileSize,QuorumTypeValue,RequestReplyTimeout,ResiliencyDefaultPeriod,ResiliencyLevel,ResourceDllDeadlockPeriod,RootMemoryReserved,RouteHistoryLength,S2DBusTypes,S2DCacheDesiredState,S2DCacheFlashReservePercent,S2DCachePageSizeKBytes,S2DEnabled,S2DIOLatencyThreshold,S2DOptimizations,SameSubnetDelay,SameSubnetThreshold,SecurityLevel,SharedVolumeVssWriterOperationTimeout,ShutdownTimeoutInMinutes,UseClientAccessNetworksForSharedVolumes,WitnessDatabaseWriteTimeout,WitnessDynamicWeight,WitnessRestartInterval'' @
     (if LTSC2022 os \<le> winBuild os then '',DetectManagedEvents,SecurityLevelForStorage,MaxNumberOfNodes,DetectManagedEventsThreshold,DetectedCloudPlatform'' else []) @ '' FROM MSCluster_Cluster''"

definition mscluster_cluster_lines :: "osversion \<Rightarrow> miRow \<Rightarrow> line list" where
  "mscluster_cluster_lines os r =
     [(''clusterAddEvictDelay'', GaugeValue, miNum mscluster_cluster_fields r ''AddEvictDelay'', [miStr mscluster_cluster_fields r ''Name'']),
      (''clusterAdminAccessPoint'', GaugeValue, miNum mscluster_cluster_fields r ''AdminAccessPoint'', [miStr mscluster_cluster_fields r ''Name'']),
      (''clusterAutoAssignNodeSite'', GaugeValue, miNum mscluster_cluster_fields r ''AutoAssignNodeSite'', [miStr mscluster_cluster_fields r ''Name'']),
      (''clusterAutoBalancerLevel'', GaugeValue, miNum mscluster_cluster_fields r ''AutoBalancerLevel'', [miStr mscluster_cluster_fields r ''Name'']),
      (''clusterAutoBalancerMode'', GaugeValue, miNum mscluster_cluster_fields r ''AutoBalancerMode'', [miStr mscluster_cluster_fields r ''Name'']),
      (''clusterBackupInProgress'', GaugeValue, miNum mscluster_cluster_fields r ''BackupInProgress'', [miStr mscluster_cluster_fields r ''Name'']),
      (''clusterBlockCacheSize'', GaugeValue, miNum mscluster_cluster_fields r ''BlockCacheSize'', [miStr mscluster_cluster_fields r ''Name'']),
      (''clusterClusSvcHangTimeout'', GaugeValue, miNum mscluster_cluster_fields r ''ClusSvcHangTimeout'', [miStr mscluster_cluster_fields r ''Name'']),
      (''clusterClusSvcRegroupOpeningTimeout'', GaugeValue, miNum mscluster_cluster_fields r ''ClusSvcRegroupOpeningTimeout'', [miStr mscluster_cluster_fields r ''Name'']),
      (''clusterClusSvcRegroupPruningTimeout'', GaugeValue, miNum mscluster_cluster_fields r ''ClusSvcRegroupPruningTimeout'', [miStr mscluster_cluster_fields r ''Name'']),
      (''clusterClusSvcRegroupStageTimeout'', GaugeValue, miNum mscluster_cluster_fields r ''ClusSvcRegroupStageTimeout'', [miStr mscluster_cluster_fields r ''Name'']),
      (''clusterClusSvcRegroupTickInMilliseconds'', GaugeValue, miNum mscluster_cluster_fields r ''ClusSvcRegroupTickInMilliseconds'', [miStr mscluster_cluster_fields r ''Name'']),
      (''clusterClusterEnforcedAntiAffinity'', GaugeValue, miNum mscluster_cluster_fields r ''ClusterEnforcedAntiAffinity'', [miStr mscluster_cluster_fields r ''Name'']),
      (''clusterClusterFunctionalLevel'', GaugeValue, miNum mscluster_cluster_fields r ''ClusterFunctionalLevel'', [miStr mscluster_cluster_fields r ''Name'']),
      (''clusterClusterGroupWaitDelay'', GaugeValue, miNum mscluster_cluster_fields r ''ClusterGroupWaitDelay'', [miStr mscluster_cluster_fields r ''Name'']),
      (''clusterClusterLogLevel'', GaugeValue, miNum mscluster_cluster_fields r ''ClusterLogLevel'', [miStr mscluster_cluster_fields r ''Name'']),
      (''clusterClusterLogSize'', GaugeValue, miNum mscluster_cluster_fields r ''ClusterLogSize'', [miStr mscluster_cluster_fields r ''Name'']),
      (''clusterClusterUpgradeVersion'', GaugeValue, miNum mscluster_cluster_fields r ''ClusterUpgradeVersion'', [miStr mscluster_cluster_fields r ''Name'']),
      (''clusterCrossSiteDelay'', GaugeValue, miNum mscluster_cluster_fields r ''CrossSiteDelay'', [miStr mscluster_cluster_fields r ''Name'']),
      (''clusterCrossSiteThreshold'', GaugeValue, miNum mscluster_cluster_fields r ''CrossSiteThreshold'', [miStr mscluster_cluster_fields r ''Name'']),
      (''clusterCrossSubnetDelay'', GaugeValue, miNum mscluster_cluster_fields r ''CrossSubnetDelay'', [miStr mscluster_cluster_fields r ''Name'']),
      (''clusterCrossSubnetThreshold'', GaugeValue, miNum mscluster_cluster_fields r ''CrossSubnetThreshold'', [miStr mscluster_cluster_fields r ''Name'']),
      (''clusterCsvBalancer'', GaugeValue, miNum mscluster_cluster_fields r ''CsvBalancer'', [miStr mscluster_cluster_fields r ''Name'']),
      (''clusterDatabaseReadWriteMode'', GaugeValue, miNum mscluster_cluster_fields r ''DatabaseReadWriteMode'', [miStr mscluster_cluster_fields r ''Name'']),
      (''clusterDefaultNetworkRole'', GaugeValue, miNum mscluster_cluster_fields r ''DefaultNetworkRole'', [miStr mscluster_cluster_fields r ''Name'']),
      (''clusterDisableGroupPreferredOwnerRandomization'', GaugeValue, miNum mscluster_cluster_fields r ''DisableGroupPreferredOwnerRandomization'', [miStr mscluster_cluster_fields r ''Name'']),
      (''clusterDrainOnShutdown'', GaugeValue, miNum mscluster_cluster_fields r ''DrainOnShutdown'', [miStr mscluster_cluster_fields r ''Name'']),
      (''clusterDynamicQuorumEnabled'', GaugeValue, miNum mscluster_cluster_fields r ''DynamicQuorumEnabled'', [miStr mscluster_cluster_fields r ''Name'']),
      (''clusterEnableSharedVolumes'', GaugeValue, miNum mscluster_cluster_fields r ''EnableSharedVolumes'', [miStr mscluster_cluster_fields r ''Name'']),
      (''clusterFixQuorum'', GaugeValue, miNum mscluster_cluster_fields r ''FixQuorum'', [miStr mscluster_cluster_fields r ''Name'']),
      (''clusterGracePeriodEnabled'', GaugeValue, miNum mscluster_cluster_fields r ''GracePeriodEnabled'', [miStr mscluster_cluster_fields r ''Name'']),
      (''clusterGracePeriodTimeout'', GaugeValue, miNum mscluster_cluster_fields r ''GracePeriodTimeout'', [miStr mscluster_cluster_fields r ''Name'']),
      (''clusterGroupDependencyTimeout'', GaugeValue, miNum mscluster_cluster_fields r ''GroupDependencyTimeout'', [miStr mscluster_cluster_fields r ''Name'']),
      (''clusterHangRecoveryAction'', GaugeValue, miNum mscluster_cluster_fields r ''HangRecoveryAction'', [miStr mscluster_cluster_fields r ''Name'']),
      (''clusterIgnorePersistentStateOnStartup'', GaugeValue, miNum mscluster_cluster_fields r ''IgnorePersistentStateOnStartup'', [miStr mscluster_cluster_fields r ''Name'']),
      (''clusterLogResourceControls'', GaugeValue, miNum mscluster_cluster_fields r ''LogResourceControls'', [miStr mscluster_cluster_fields r ''Name'']),
      (''clusterLowerQuorumPriorityNodeId'', GaugeValue, miNum mscluster_cluster_fields r ''LowerQuorumPriorityNodeId'', [miStr mscluster_cluster_fields r ''Name'']),
      (''clusterMessageBufferLength'', GaugeValue, miNum mscluster_cluster_fields r ''MessageBufferLength'', [miStr mscluster_cluster_fields r ''Name'']),
      (''clusterMinimumNeverPreemptPriority'', GaugeValue, miNum mscluster_cluster_fields r ''MinimumNeverPreemptPriority'', [miStr mscluster_cluster_fields r ''Name'']),
      (''clusterMinimumPreemptorPriority'', GaugeValue, miNum mscluster_cluster_fields r ''MinimumPreemptorPriority'', [miStr mscluster_cluster_fields r ''Name'']),
      (''clusterNetftIPSecEnabled'', GaugeValue, miNum mscluster_cluster_fields r ''NetftIPSecEnabled'', [miStr mscluster_cluster_fields r ''Name'']),
      (''clusterPlacementOptions'', GaugeValue, miNum mscluster_cluster_fields r ''PlacementOptions'', [miStr mscluster_cluster_fields r ''Name'']),
      (''clusterPlumbAllCrossSubnetRoutes'', GaugeValue, miNum mscluster_cluster_fields r ''PlumbAllCrossSubnetRoutes'', [miStr mscluster_cluster_fields r ''Name'']),
      (''clusterPreventQuorum'', GaugeValue, miNum mscluster_cluster_fields r ''PreventQuorum'', [miStr mscluster_cluster_fields r ''Name'']),
      (''clusterQuarantineDuration'', GaugeValue, miNum mscluster_cluster_fields r ''QuarantineDuration'', [miStr mscluster_cluster_fields r ''Name'']),
      (''clusterQuarantineThreshold'', GaugeValue, miNum mscluster_cluster_fields r ''QuarantineThreshold'', [miStr mscluster_cluster_fields r ''Name'']),
      (''clusterQuorumArbitrationTimeMax'', GaugeValue, miNum mscluster_cluster_fields r ''QuorumArbitrationTimeMax'', [miStr mscluster_cluster_fields r ''Name'']),
      (''clusterQuorumArbitrationTimeMin'', GaugeValue, miNum mscluster_cluster_fields r ''QuorumArbitrationTimeMin'', [miStr mscluster_cluster_fields r ''Name'']),
      (''clusterQuorumLogFileSize'', GaugeValue, miNum mscluster_cluster_fields r ''QuorumLogFileSize'', [miStr mscluster_cluster_fields r ''Name'']),
      (''clusterQuorumTypeValue'', GaugeValue, miNum mscluster_cluster_fields r ''QuorumTypeValue'', [miStr mscluster_cluster_fields r ''Name'']),
      (''clusterRequestReplyTimeout'', GaugeValue, miNum mscluster_cluster_fields r ''RequestReplyTimeout'', [miStr mscluster_cluster_fields r ''Name'']),
      (''clusterResiliencyDefaultPeriod'', GaugeValue, miNum mscluster_cluster_fields r ''ResiliencyDefaultPeriod'', [miStr mscluster_cluster_fields r ''Name'']),
      (''clusterResiliencyLevel'', GaugeValue, miNum mscluster_cluster_fields r ''ResiliencyLevel'', [miStr mscluster_cluster_fields r ''Name'']),
      (''clusterResourceDllDeadlockPeriod'', GaugeValue, miNum mscluster_cluster_fields r ''ResourceDllDeadlockPeriod'', [miStr mscluster_cluster_fields r ''Name'']),
      (''clusterRootMemoryReserved'', GaugeValue, miNum mscluster_cluster_fields r ''RootMemoryReserved'', [miStr mscluster_cluster_fields r ''Name'']),
      (''clusterRouteHistoryLength'', GaugeValue, miNum mscluster_cluster_fields r ''RouteHistoryLength'', [miStr mscluster_cluster_fields r ''Name'']),
      (''clusterS2DBusTypes'', GaugeValue, miNum mscluster_cluster_fields r ''S2DBusTypes'', [miStr mscluster_cluster_fields r ''Name'']),
      (''clusterS2DCacheDesiredState'', GaugeValue, miNum mscluster_cluster_fields r ''S2DCacheDesiredState'', [miStr mscluster_cluster_fields r ''Name'']),
      (''clusterS2DCacheFlashReservePercent'', GaugeValue, miNum mscluster_cluster_fields r ''S2DCacheFlashReservePercent'', [miStr mscluster_cluster_fields r ''Name'']),
      (''clusterS2DCachePageSizeKBytes'', GaugeValue, miNum mscluster_cluster_fields r ''S2DCachePageSizeKBytes'', [miStr mscluster_cluster_fields r ''Name'']),
      (''clusterS2DEnabled'', GaugeValue, miNum mscluster_cluster_fields r ''S2DEnabled'', [miStr mscluster_cluster_fields r ''Name'']),
      (''clusterS2DIOLatencyThreshold'', GaugeValue, miNum mscluster_cluster_fields r ''S2DIOLatencyThreshold'', [miStr mscluster_cluster_fields r ''Name'']),
      (''clusterS2DOptimizations'', GaugeValue, miNum mscluster_cluster_fields r ''S2DOptimizations'', [miStr mscluster_cluster_fields r ''Name'']),
      (''clusterSameSubnetDelay'', GaugeValue, miNum mscluster_cluster_fields r ''SameSubnetDelay'', [miStr mscluster_cluster_fields r ''Name'']),
      (''clusterSameSubnetThreshold'', GaugeValue, miNum mscluster_cluster_fields r ''SameSubnetThreshold'', [miStr mscluster_cluster_fields r ''Name'']),
      (''clusterSecurityLevel'', GaugeValue, miNum mscluster_cluster_fields r ''SecurityLevel'', [miStr mscluster_cluster_fields r ''Name'']),
      (''clusterSharedVolumeVssWriterOperationTimeout'', GaugeValue, miNum mscluster_cluster_fields r ''SharedVolumeVssWriterOperationTimeout'', [miStr mscluster_cluster_fields r ''Name'']),
      (''clusterShutdownTimeoutInMinutes'', GaugeValue, miNum mscluster_cluster_fields r ''ShutdownTimeoutInMinutes'', [miStr mscluster_cluster_fields r ''Name'']),
      (''clusterUseClientAccessNetworksForSharedVolumes'', GaugeValue, miNum mscluster_cluster_fields r ''UseClientAccessNetworksForSharedVolumes'', [miStr mscluster_cluster_fields r ''Name'']),
      (''clusterWitnessDatabaseWriteTimeout'', GaugeValue, miNum mscluster_cluster_fields r ''WitnessDatabaseWriteTimeout'', [miStr mscluster_cluster_fields r ''Name'']),
      (''clusterWitnessDynamicWeight'', GaugeValue, miNum mscluster_cluster_fields r ''WitnessDynamicWeight'', [miStr mscluster_cluster_fields r ''Name'']),
      (''clusterWitnessRestartInterval'', GaugeValue, miNum mscluster_cluster_fields r ''WitnessRestartInterval'', [miStr mscluster_cluster_fields r ''Name''])] @
     (if LTSC2022 os \<le> winBuild os then
       [(''clusterDetectManagedEvents'', GaugeValue, miNum mscluster_cluster_fields r ''DetectManagedEvents'', [miStr mscluster_cluster_fields r ''Name'']),
        (''clusterDetectManagedEventsThreshold'', GaugeValue, miNum mscluster_cluster_fields r ''DetectManagedEventsThreshold'', [miStr mscluster_cluster_fields r ''Name'']),
        (''clusterSecurityLevelForStorage'', GaugeValue, miNum mscluster_cluster_fields r ''SecurityLevelForStorage'', [miStr mscluster_cluster_fields r ''Name'']),
        (''clusterMaxNumberOfNodes'', GaugeValue, miNum mscluster_cluster_fields r ''MaxNumberOfNodes'', [miStr mscluster_cluster_fields r ''Name'']),
        (''clusterDetectedCloudPlatform'', GaugeValue, miNum mscluster_cluster_fields r ''DetectedCloudPlatform'', [miStr mscluster_cluster_fields r ''Name''])] else [])"

section \<open>network\<close>

definition mscluster_network_fields :: miStruct where
  "mscluster_network_fields =
     [miField ''Name'' ''Name'' Mi.KString,
      miField ''Characteristics'' ''Characteristics'' (Mi.KUint 64),
      miField ''Flags'' ''Flags'' (Mi.KUint 64),
      miField ''Metric'' ''Metric'' (Mi.KUint 64),
      miField ''Role'' ''Role'' (Mi.KUint 64),
      miField ''State'' ''State'' (Mi.KUint 64)]"

definition mscluster_network_descs :: descTable where
  "mscluster_network_descs =
     [(''networkCharacteristics'', NewDesc (BuildFQName Namespace ''mscluster_network'' ''characteristics'')
        ''Provides the characteristics of the network.'' [''name'']),
      (''networkFlags'', NewDesc (BuildFQName Namespace ''mscluster_network'' ''flags'')
        ''Provides access to the flags set for the node. '' [''name'']),
      (''networkMetric'', NewDesc (BuildFQName Namespace ''mscluster_network'' ''metric'')
        ''The metric of a cluster network (networks with lower values are used first). If this value is set, then the AutoMetric property is set to false.'' [''name'']),
      (''networkRole'', NewDesc (BuildFQName Namespace ''mscluster_network'' ''role'')
        ''Provides access to the network's Role property. The Role property describes the role of the network in the cluster. 0: None; 1: Cluster; 2: Client; 3: Both '' [''name'']),
      (''networkState'', NewDesc (BuildFQName Namespace ''mscluster_network'' ''state'')
        ''Provides the current state of the network. 1-1: Unknown; 0: Unavailable; 1: Down; 2: Partitioned; 3: Up'' [''name''])]"

definition mscluster_network_query :: string where
  "mscluster_network_query = ''SELECT Characteristics,Flags,Metric,Role,State FROM MSCluster_Network''"

definition mscluster_network_lines :: "miRow \<Rightarrow> line list" where
  "mscluster_network_lines r =
     [(''networkCharacteristics'', GaugeValue, miNum mscluster_network_fields r ''Characteristics'', [miStr mscluster_network_fields r ''Name'']),
      (''networkFlags'', GaugeValue, miNum mscluster_network_fields r ''Flags'', [miStr mscluster_network_fields r ''Name'']),
      (''networkMetric'', GaugeValue, miNum mscluster_network_fields r ''Metric'', [miStr mscluster_network_fields r ''Name'']),
      (''networkRole'', GaugeValue, miNum mscluster_network_fields r ''Role'', [miStr mscluster_network_fields r ''Name'']),
      (''networkState'', GaugeValue, miNum mscluster_network_fields r ''State'', [miStr mscluster_network_fields r ''Name''])]"

section \<open>node\<close>

definition mscluster_node_fields :: miStruct where
  "mscluster_node_fields =
     [miField ''Name'' ''Name'' Mi.KString,
      miField ''BuildNumber'' ''BuildNumber'' (Mi.KUint 64),
      miField ''Characteristics'' ''Characteristics'' (Mi.KUint 64),
      miField ''DetectedCloudPlatform'' ''DetectedCloudPlatform'' (Mi.KUint 64),
      miField ''DynamicWeight'' ''DynamicWeight'' (Mi.KUint 64),
      miField ''Flags'' ''Flags'' (Mi.KUint 64),
      miField ''MajorVersion'' ''MajorVersion'' (Mi.KUint 64),
      miField ''MinorVersion'' ''MinorVersion'' (Mi.KUint 64),
      miField ''NeedsPreventQuorum'' ''NeedsPreventQuorum'' (Mi.KUint 64),
      miField ''NodeDrainStatus'' ''NodeDrainStatus'' (Mi.KUint 64),
      miField ''NodeHighestVersion'' ''NodeHighestVersion'' (Mi.KUint 64),
      miField ''NodeLowestVersion'' ''NodeLowestVersion'' (Mi.KUint 64),
      miField ''NodeWeight'' ''NodeWeight'' (Mi.KUint 64),
      miField ''State'' ''State'' (Mi.KUint 64),
      miField ''StatusInformation'' ''StatusInformation'' (Mi.KUint 64)]"

definition mscluster_node_descs :: descTable where
  "mscluster_node_descs =
     [(''nodeBuildNumber'', NewDesc (BuildFQName Namespace ''mscluster_node'' ''build_number'')
        ''Provides access to the node's BuildNumber property.'' [''name'']),
      (''nodeCharacteristics'', NewDesc (BuildFQName Namespace ''mscluster_node'' ''characteristics'')
        ''Provides access to the characteristics set for the node.'' [''name'']),
      (''nodeDetectedCloudPlatform'', NewDesc (BuildFQName Namespace ''mscluster_node'' ''detected_cloud_platform'')
        ''(DetectedCloudPlatform)'' [''name'']),
      (''nodeDynamicWeight'', NewDesc (BuildFQName Namespace ''mscluster_node'' ''dynamic_weight'')
        ''The dynamic vote weight of the node adjusted by dynamic quorum feature.'' [''name'']),
      (''nodeFlags'', NewDesc (BuildFQName Namespace ''mscluster_node'' ''flags'')
        ''Provides access to the flags set for the node.'' [''name'']),
      (''nodeMajorVersion'', NewDesc (BuildFQName Namespace ''mscluster_node'' ''major_version'')
        ''Provides access to the node's MajorVersion property, which specifies the major portion of the Windows version installed.'' [''name'']),
      (''nodeMinorVersion'', NewDesc (BuildFQName Namespace ''mscluster_node'' ''minor_version'')
        ''Provides access to the node's MinorVersion property, which specifies the minor portion of the Windows version installed.'' [''name'']),
      (''nodeNeedsPreventQuorum'', NewDesc (BuildFQName Namespace ''mscluster_node'' ''needs_prevent_quorum'')
        ''Whether the cluster service on that node should be started with prevent quorum flag.'' [''name'']),
      (''nodeNodeDrainStatus'', NewDesc (BuildFQName Namespace ''mscluster_node'' ''node_drain_status'')
        ''The current node drain status of a node. 0: Not Initiated; 1: In Progress; 2: Completed; 3: Failed'' [''name'']),
      (''nodeNodeHighestVersion'', NewDesc (BuildFQName Namespace ''mscluster_node'' ''node_highest_version'')
        ''Provides access to the node's NodeHighestVersion property, which specifies the highest possible version of the cluster service with which the node can join or communicate.'' [''name'']),
      (''nodeNodeLowestVersion'', NewDesc (BuildFQName Namespace ''mscluster_node'' ''node_lowest_version'')
        ''Provides access to the node's NodeLowestVersion property, which specifies the lowest possible version of the cluster service with which the node can join or communicate.'' [''name'']),
      (''nodeNodeWeight'', NewDesc (BuildFQName Namespace ''mscluster_node'' ''node_weight'')
        ''The vote weight of the node.'' [''name'']),
      (''nodeState'', NewDesc (BuildFQName Namespace ''mscluster_node'' ''state'')
        ''Returns the current state of a node. -1: Unknown; 0: Up; 1: Down; 2: Paused; 3: Joining'' [''name'']),
      (''nodeStatusInformation'', NewDesc (BuildFQName Namespace ''mscluster_node'' ''status_information'')
        ''The isolation or quarantine status of the node.'' [''name''])]"

definition mscluster_node_query :: "osversion \<Rightarrow> string" where
  "mscluster_node_query os =
     ''SELECT '' @ ''BuildNumber,Characteristics,DynamicWeight,Flags,MajorVersion,MinorVersion,NeedsPreventQuorum,NodeDrainStatus,NodeHighestVersion,NodeLowestVersion,NodeWeight,State,StatusInformation'' @
     (if LTSC2022 os \<le> winBuild os then '',DetectedCloudPlatform'' else []) @ '' FROM MSCluster_Node''"

definition mscluster_node_lines :: "miRow \<Rightarrow> line list" where
  "mscluster_node_lines r =
     [(''nodeBuildNumber'', GaugeValue, miNum mscluster_node_fields r ''BuildNumber'', [miStr mscluster_node_fields r ''Name'']),
      (''nodeCharacteristics'', GaugeValue, miNum mscluster_node_fields r ''Characteristics'', [miStr mscluster_node_fields r ''Name'']),
      (''nodeDetectedCloudPlatform'', GaugeValue, miNum mscluster_node_fields r ''DetectedCloudPlatform'', [miStr mscluster_node_fields r ''Name'']),
      (''nodeDynamicWeight'', GaugeValue, miNum mscluster_node_fields r ''DynamicWeight'', [miStr mscluster_node_fields r ''Name'']),
      (''nodeFlags'', GaugeValue, miNum mscluster_node_fields r ''Flags'', [miStr mscluster_node_fields r ''Name'']),
      (''nodeMajorVersion'', GaugeValue, miNum mscluster_node_fields r ''MajorVersion'', [miStr mscluster_node_fields r ''Name'']),
      (''nodeMinorVersion'', GaugeValue, miNum mscluster_node_fields r ''MinorVersion'', [miStr mscluster_node_fields r ''Name'']),
      (''nodeNeedsPreventQuorum'', GaugeValue, miNum mscluster_node_fields r ''NeedsPreventQuorum'', [miStr mscluster_node_fields r ''Name'']),
      (''nodeNodeDrainStatus'', GaugeValue, miNum mscluster_node_fields r ''NodeDrainStatus'', [miStr mscluster_node_fields r ''Name'']),
      (''nodeNodeHighestVersion'', GaugeValue, miNum mscluster_node_fields r ''NodeHighestVersion'', [miStr mscluster_node_fields r ''Name'']),
      (''nodeNodeLowestVersion'', GaugeValue, miNum mscluster_node_fields r ''NodeLowestVersion'', [miStr mscluster_node_fields r ''Name'']),
      (''nodeNodeWeight'', GaugeValue, miNum mscluster_node_fields r ''NodeWeight'', [miStr mscluster_node_fields r ''Name'']),
      (''nodeState'', GaugeValue, miNum mscluster_node_fields r ''State'', [miStr mscluster_node_fields r ''Name'']),
      (''nodeStatusInformation'', GaugeValue, miNum mscluster_node_fields r ''StatusInformation'', [miStr mscluster_node_fields r ''Name''])]"

section \<open>resource\<close>

definition mscluster_resource_fields :: miStruct where
  "mscluster_resource_fields =
     [miField ''Name'' ''Name'' Mi.KString,
      miField ''Type'' ''Type'' Mi.KString,
      miField ''OwnerGroup'' ''OwnerGroup'' Mi.KString,
      miField ''OwnerNode'' ''OwnerNode'' Mi.KString,
      miField ''Characteristics'' ''Characteristics'' (Mi.KUint 64),
      miField ''DeadlockTimeout'' ''DeadlockTimeout'' (Mi.KUint 64),
      miField ''EmbeddedFailureAction'' ''EmbeddedFailureAction'' (Mi.KUint 64),
      miField ''Flags'' ''Flags'' (Mi.KUint 64),
      miField ''IsAlivePollInterval'' ''IsAlivePollInterval'' (Mi.KUint 64),
      miField ''LooksAlivePollInterval'' ''LooksAlivePollInterval'' (Mi.KUint 64),
      miField ''MonitorProcessId'' ''MonitorProcessId'' (Mi.KUint 64),
      miField ''PendingTimeout'' ''PendingTimeout'' (Mi.KUint 64),
      miField ''ResourceClass'' ''ResourceClass'' (Mi.KUint 64),
      miField ''RestartAction'' ''RestartAction'' (Mi.KUint 64),
      miField ''RestartDelay'' ''RestartDelay'' (Mi.KUint 64),
      miField ''RestartPeriod'' ''RestartPeriod'' (Mi.KUint 64),
      miField ''RestartThreshold'' ''RestartThreshold'' (Mi.KUint 64),
      miField ''RetryPeriodOnFailure'' ''RetryPeriodOnFailure'' (Mi.KUint 64),
      miField ''State'' ''State'' (Mi.KUint 64),
      miField ''Subclass'' ''Subclass'' (Mi.KUint 64)]"

definition mscluster_resource_descs :: descTable where
  "mscluster_resource_descs =
     [(''resourceCharacteristics'', NewDesc (BuildFQName Namespace ''mscluster_resource'' ''characteristics'')
        ''Provides the characteristics of the object.'' [''type'', ''owner_group'', ''name'']),
      (''resourceDeadlockTimeout'', NewDesc (BuildFQName Namespace ''mscluster_resource'' ''deadlock_timeout'')
        ''Indicates the length of time to wait, in milliseconds, before declaring a deadlock in any call into a resource.'' [''type'', ''owner_group'', ''name'']),
      (''resourceEmbeddedFailureAction'', NewDesc (BuildFQName Namespace ''mscluster_resource'' ''embedded_failure_action'')
        ''The time, in milliseconds, that a resource should remain in a failed state before the Cluster service attempts to restart it.'' [''type'', ''owner_group'', ''name'']),
      (''resourceFlags'', NewDesc (BuildFQName Namespace ''mscluster_resource'' ''flags'')
        ''Provides access to the flags set for the object.'' [''type'', ''owner_group'', ''name'']),
      (''resourceIsAlivePollInterval'', NewDesc (BuildFQName Namespace ''mscluster_resource'' ''is_alive_poll_interval'')
        ''Provides access to the resource's IsAlivePollInterval property, which is the recommended interval in milliseconds at which the Cluster Service should poll the resource to determine whether it is operational. If the property is set to 0xFFFFFFFF, the Cluster Service uses the IsAlivePollInterval property for the resource type associated with the resource.'' [''type'', ''owner_group'', ''name'']),
      (''resourceLooksAlivePollInterval'', NewDesc (BuildFQName Namespace ''mscluster_resource'' ''looks_alive_poll_interval'')
        ''Provides access to the resource's LooksAlivePollInterval property, which is the recommended interval in milliseconds at which the Cluster Service should poll the resource to determine whether it appears operational. If the property is set to 0xFFFFFFFF, the Cluster Service uses the LooksAlivePollInterval property for the resource type associated with the resource.'' [''type'', ''owner_group'', ''name'']),
      (''resourceMonitorProcessId'', NewDesc (BuildFQName Namespace ''mscluster_resource'' ''monitor_process_id'')
        ''Provides the process ID of the resource host service that is currently hosting the resource.'' [''type'', ''owner_group'', ''name'']),
      (''resourceOwnerNode'', NewDesc (BuildFQName Namespace ''mscluster_resource'' ''owner_node'')
        ''The node hosting the resource. 0: Not hosted; 1: Hosted'' [''type'', ''owner_group'', ''node_name'', ''name'']),
      (''resourcePendingTimeout'', NewDesc (BuildFQName Namespace ''mscluster_resource'' ''pending_timeout'')
        ''Provides access to the resource's PendingTimeout property. If a resource cannot be brought online or taken offline in the number of milliseconds specified by the PendingTimeout property, the resource is forcibly terminated.'' [''type'', ''owner_group'', ''name'']),
      (''resourceResourceClass'', NewDesc (BuildFQName Namespace ''mscluster_resource'' ''resource_class'')
        ''Gets or sets the resource class of a resource. 0: Unknown; 1: Storage; 2: Network; 32768: Unknown '' [''type'', ''owner_group'', ''name'']),
      (''resourceRestartAction'', NewDesc (BuildFQName Namespace ''mscluster_resource'' ''restart_action'')
        ''Provides access to the resource's RestartAction property, which is the action to be taken by the Cluster Service if the resource fails.'' [''type'', ''owner_group'', ''name'']),
      (''resourceRestartDelay'', NewDesc (BuildFQName Namespace ''mscluster_resource'' ''restart_delay'')
        ''Indicates the time delay before a failed resource is restarted.'' [''type'', ''owner_group'', ''name'']),
      (''resourceRestartPeriod'', NewDesc (BuildFQName Namespace ''mscluster_resource'' ''restart_period'')
        ''Provides access to the resource's RestartPeriod property, which is interval of time, in milliseconds, during which a specified number of restart attempts can be made on a nonresponsive resource.'' [''type'', ''owner_group'', ''name'']),
      (''resourceRestartThreshold'', NewDesc (BuildFQName Namespace ''mscluster_resource'' ''restart_threshold'')
        ''Provides access to the resource's RestartThreshold property which is the maximum number of restart attempts that can be made on a resource within an interval defined by the RestartPeriod property before the Cluster Service initiates the action specified by the RestartAction property.'' [''type'', ''owner_group'', ''name'']),
      (''resourceRetryPeriodOnFailure'', NewDesc (BuildFQName Namespace ''mscluster_resource'' ''retry_period_on_failure'')
        ''Provides access to the resource's RetryPeriodOnFailure property, which is the interval of time (in milliseconds) that a resource should remain in a failed state before the Cluster service attempts to restart it.'' [''type'', ''owner_group'', ''name'']),
      (''resourceState'', NewDesc (BuildFQName Namespace ''mscluster_resource'' ''state'')
        ''The current state of the resource. -1: Unknown; 0: Inherited; 1: Initializing; 2: Online; 3: Offline; 4: Failed; 128: Pending; 129: Online Pending; 130: Offline Pending '' [''type'', ''owner_group'', ''name'']),
      (''resourceSubClass'', NewDesc (BuildFQName Namespace ''mscluster_resource'' ''subclass'')
        ''Provides the list of references to nodes that can be the owner of this resource.'' [''type'', ''owner_group'', ''name''])]"

definition mscluster_resource_query :: string where
  "mscluster_resource_query = ''SELECT Name,Type,OwnerGroup,OwnerNode,Characteristics,DeadlockTimeout,EmbeddedFailureAction,Flags,IsAlivePollInterval,LooksAlivePollInterval,MonitorProcessId,PendingTimeout,ResourceClass,RestartAction,RestartDelay,RestartPeriod,RestartThreshold,RetryPeriodOnFailure,State,Subclass FROM MSCluster_Resource''"

definition mscluster_resource_before :: "miRow \<Rightarrow> line list" where
  "mscluster_resource_before r =
     [(''resourceCharacteristics'', GaugeValue, miNum mscluster_resource_fields r ''Characteristics'', [miStr mscluster_resource_fields r ''Type'', miStr mscluster_resource_fields r ''OwnerGroup'', miStr mscluster_resource_fields r ''Name'']),
      (''resourceDeadlockTimeout'', GaugeValue, miNum mscluster_resource_fields r ''DeadlockTimeout'', [miStr mscluster_resource_fields r ''Type'', miStr mscluster_resource_fields r ''OwnerGroup'', miStr mscluster_resource_fields r ''Name'']),
      (''resourceEmbeddedFailureAction'', GaugeValue, miNum mscluster_resource_fields r ''EmbeddedFailureAction'', [miStr mscluster_resource_fields r ''Type'', miStr mscluster_resource_fields r ''OwnerGroup'', miStr mscluster_resource_fields r ''Name'']),
      (''resourceFlags'', GaugeValue, miNum mscluster_resource_fields r ''Flags'', [miStr mscluster_resource_fields r ''Type'', miStr mscluster_resource_fields r ''OwnerGroup'', miStr mscluster_resource_fields r ''Name'']),
      (''resourceIsAlivePollInterval'', GaugeValue, miNum mscluster_resource_fields r ''IsAlivePollInterval'', [miStr mscluster_resource_fields r ''Type'', miStr mscluster_resource_fields r ''OwnerGroup'', miStr mscluster_resource_fields r ''Name'']),
      (''resourceLooksAlivePollInterval'', GaugeValue, miNum mscluster_resource_fields r ''LooksAlivePollInterval'', [miStr mscluster_resource_fields r ''Type'', miStr mscluster_resource_fields r ''OwnerGroup'', miStr mscluster_resource_fields r ''Name'']),
      (''resourceMonitorProcessId'', GaugeValue, miNum mscluster_resource_fields r ''MonitorProcessId'', [miStr mscluster_resource_fields r ''Type'', miStr mscluster_resource_fields r ''OwnerGroup'', miStr mscluster_resource_fields r ''Name''])]"

definition mscluster_resource_owner :: "miRow \<Rightarrow> string \<Rightarrow> line" where
  "mscluster_resource_owner r nodeName = (''resourceOwnerNode'', GaugeValue, F_Fin (if miStr mscluster_resource_fields r ''OwnerNode'' = nodeName then 1 else 0), [miStr mscluster_resource_fields r ''Type'', miStr mscluster_resource_fields r ''OwnerGroup'', nodeName, miStr mscluster_resource_fields r ''Name''])"

definition mscluster_resource_after :: "miRow \<Rightarrow> line list" where
  "mscluster_resource_after r =
     [(''resourcePendingTimeout'', GaugeValue, miNum mscluster_resource_fields r ''PendingTimeout'', [miStr mscluster_resource_fields r ''Type'', miStr mscluster_resource_fields r ''OwnerGroup'', miStr mscluster_resource_fields r ''Name'']),
      (''resourceResourceClass'', GaugeValue, miNum mscluster_resource_fields r ''ResourceClass'', [miStr mscluster_resource_fields r ''Type'', miStr mscluster_resource_fields r ''OwnerGroup'', miStr mscluster_resource_fields r ''Name'']),
      (''resourceRestartAction'', GaugeValue, miNum mscluster_resource_fields r ''RestartAction'', [miStr mscluster_resource_fields r ''Type'', miStr mscluster_resource_fields r ''OwnerGroup'', miStr mscluster_resource_fields r ''Name'']),
      (''resourceRestartDelay'', GaugeValue, miNum mscluster_resource_fields r ''RestartDelay'', [miStr mscluster_resource_fields r ''Type'', miStr mscluster_resource_fields r ''OwnerGroup'', miStr mscluster_resource_fields r ''Name'']),
      (''resourceRestartPeriod'', GaugeValue, miNum mscluster_resource_fields r ''RestartPeriod'', [miStr mscluster_resource_fields r ''Type'', miStr mscluster_resource_fields r ''OwnerGroup'', miStr mscluster_resource_fields r ''Name'']),
      (''resourceRestartThreshold'', GaugeValue, miNum mscluster_resource_fields r ''RestartThreshold'', [miStr mscluster_resource_fields r ''Type'', miStr mscluster_resource_fields r ''OwnerGroup'', miStr mscluster_resource_fields r ''Name'']),
      (''resourceRetryPeriodOnFailure'', GaugeValue, miNum mscluster_resource_fields r ''RetryPeriodOnFailure'', [miStr mscluster_resource_fields r ''Type'', miStr mscluster_resource_fields r ''OwnerGroup'', miStr mscluster_resource_fields r ''Name'']),
      (''resourceState'', GaugeValue, miNum mscluster_resource_fields r ''State'', [miStr mscluster_resource_fields r ''Type'', miStr mscluster_resource_fields r ''OwnerGroup'', miStr mscluster_resource_fields r ''Name'']),
      (''resourceSubClass'', GaugeValue, miNum mscluster_resource_fields r ''Subclass'', [miStr mscluster_resource_fields r ''Type'', miStr mscluster_resource_fields r ''OwnerGroup'', miStr mscluster_resource_fields r ''Name''])]"

definition mscluster_resource_lines :: "string list \<Rightarrow> miRow \<Rightarrow> line list" where
  "mscluster_resource_lines nodeNames r = mscluster_resource_before r @ map (mscluster_resource_owner r) nodeNames @ mscluster_resource_after r"

section \<open>resourcegroup\<close>

definition mscluster_resourcegroup_fields :: miStruct where
  "mscluster_resourcegroup_fields =
     [miField ''Name'' ''Name'' Mi.KString,
      miField ''AutoFailbackType'' ''AutoFailbackType'' (Mi.KUint 64),
      miField ''Characteristics'' ''Characteristics'' (Mi.KUint 64),
      miField ''ColdStartSetting'' ''ColdStartSetting'' (Mi.KUint 64),
      miField ''DefaultOwner'' ''DefaultOwner'' (Mi.KUint 64),
      miField ''FailbackWindowEnd'' ''FailbackWindowEnd'' (Mi.KInt 64),
      miField ''FailbackWindowStart'' ''FailbackWindowStart'' (Mi.KInt 64),
      miField ''FailoverPeriod'' ''FailoverPeriod'' (Mi.KUint 64),
      miField ''FailoverThreshold'' ''FailoverThreshold'' (Mi.KUint 64),
      miField ''Flags'' ''Flags'' (Mi.KUint 64),
      miField ''GroupType'' ''GroupType'' (Mi.KUint 64),
      miField ''OwnerNode'' ''OwnerNode'' Mi.KString,
      miField ''Priority'' ''Priority'' (Mi.KUint 64),
      miField ''ResiliencyPeriod'' ''ResiliencyPeriod'' (Mi.KUint 64),
      miField ''State'' ''State'' (Mi.KUint 64)]"

definition mscluster_resourcegroup_descs :: descTable where
  "mscluster_resourcegroup_descs =
     [(''resourceGroupAutoFailbackType'', NewDesc (BuildFQName Namespace ''mscluster_resourcegroup'' ''auto_failback_type'')
        ''Provides access to the group's AutoFailbackType property.'' [''name'']),
      (''resourceGroupCharacteristics'', NewDesc (BuildFQName Namespace ''mscluster_resourcegroup'' ''characteristics'')
        ''Provides the characteristics of the group.'' [''name'']),
      (''resourceGroupColdStartSetting'', NewDesc (BuildFQName Namespace ''mscluster_resourcegroup'' ''cold_start_setting'')
        ''Indicates whether a group can start after a cluster cold start.'' [''name'']),
      (''resourceGroupDefaultOwner'', NewDesc (BuildFQName Namespace ''mscluster_resourcegroup'' ''default_owner'')
        ''Number of the last node the resource group was activated on or explicitly moved to.'' [''name'']),
      (''resourceGroupFailbackWindowEnd'', NewDesc (BuildFQName Namespace ''mscluster_resourcegroup'' ''failback_window_end'')
        ''The FailbackWindowEnd property provides the latest time that the group can be moved back to the node identified as its preferred node.'' [''name'']),
      (''resourceGroupFailbackWindowStart'', NewDesc (BuildFQName Namespace ''mscluster_resourcegroup'' ''failback_window_start'')
        ''The FailbackWindowStart property provides the earliest time (that is, local time as kept by the cluster) that the group can be moved back to the node identified as its preferred node.'' [''name'']),
      (''resourceGroupFailOverPeriod'', NewDesc (BuildFQName Namespace ''mscluster_resourcegroup'' ''failover_period'')
        ''The FailoverPeriod property specifies a number of hours during which a maximum number of failover attempts, specified by the FailoverThreshold property, can occur.'' [''name'']),
      (''resourceGroupFailOverThreshold'', NewDesc (BuildFQName Namespace ''mscluster_resourcegroup'' ''failover_threshold'')
        ''The FailoverThreshold property specifies the maximum number of failover attempts.'' [''name'']),
      (''resourceGroupFlags'', NewDesc (BuildFQName Namespace ''mscluster_resourcegroup'' ''flags'')
        ''Provides access to the flags set for the group. '' [''name'']),
      (''resourceGroupGroupType'', NewDesc (BuildFQName Namespace ''mscluster_resourcegroup'' ''group_type'')
        ''The Type of the resource group.'' [''name'']),
      (''resourceGroupOwnerNode'', NewDesc (BuildFQName Namespace ''mscluster_resourcegroup'' ''owner_node'')
        ''The node hosting the resource group. 0: Not hosted; 1: Hosted'' [''node_name'', ''name'']),
      (''resourceGroupPriority'', NewDesc (BuildFQName Namespace ''mscluster_resourcegroup'' ''priority'')
        ''Priority value of the resource group'' [''name'']),
      (''resourceGroupResiliencyPeriod'', NewDesc (BuildFQName Namespace ''mscluster_resourcegroup'' ''resiliency_period'')
        ''The resiliency period for this group, in seconds.'' [''name'']),
      (''resourceGroupState'', NewDesc (BuildFQName Namespace ''mscluster_resourcegroup'' ''state'')
        ''The current state of the resource group. -1: Unknown; 0: Online; 1: Offline; 2: Failed; 3: Partial Online; 4: Pending'' [''name''])]"

definition mscluster_resourcegroup_query :: string where
  "mscluster_resourcegroup_query = ''SELECT AutoFailbackType,Characteristics,ColdStartSetting,DefaultOwner,FailbackWindowEnd,FailbackWindowStart,FailoverPeriod,FailoverThreshold,Flags,GroupType,OwnerNode,Priority,ResiliencyPeriod,State FROM MSCluster_ResourceGroup''"

definition mscluster_resourcegroup_before :: "miRow \<Rightarrow> line list" where
  "mscluster_resourcegroup_before r =
     [(''resourceGroupAutoFailbackType'', GaugeValue, miNum mscluster_resourcegroup_fields r ''AutoFailbackType'', [miStr mscluster_resourcegroup_fields r ''Name'']),
      (''resourceGroupCharacteristics'', GaugeValue, miNum mscluster_resourcegroup_fields r ''Characteristics'', [miStr mscluster_resourcegroup_fields r ''Name'']),
      (''resourceGroupColdStartSetting'', GaugeValue, miNum mscluster_resourcegroup_fields r ''ColdStartSetting'', [miStr mscluster_resourcegroup_fields r ''Name'']),
      (''resourceGroupDefaultOwner'', GaugeValue, miNum mscluster_resourcegroup_fields r ''DefaultOwner'', [miStr mscluster_resourcegroup_fields r ''Name'']),
      (''resourceGroupFailbackWindowEnd'', GaugeValue, miNum mscluster_resourcegroup_fields r ''FailbackWindowEnd'', [miStr mscluster_resourcegroup_fields r ''Name'']),
      (''resourceGroupFailbackWindowStart'', GaugeValue, miNum mscluster_resourcegroup_fields r ''FailbackWindowStart'', [miStr mscluster_resourcegroup_fields r ''Name'']),
      (''resourceGroupFailOverPeriod'', GaugeValue, miNum mscluster_resourcegroup_fields r ''FailoverPeriod'', [miStr mscluster_resourcegroup_fields r ''Name'']),
      (''resourceGroupFailOverThreshold'', GaugeValue, miNum mscluster_resourcegroup_fields r ''FailoverThreshold'', [miStr mscluster_resourcegroup_fields r ''Name'']),
      (''resourceGroupFlags'', GaugeValue, miNum mscluster_resourcegroup_fields r ''Flags'', [miStr mscluster_resourcegroup_fields r ''Name'']),
      (''resourceGroupGroupType'', GaugeValue, miNum mscluster_resourcegroup_fields r ''GroupType'', [miStr mscluster_resourcegroup_fields r ''Name''])]"

definition mscluster_resourcegroup_owner :: "miRow \<Rightarrow> string \<Rightarrow> line" where
  "mscluster_resourcegroup_owner r nodeName = (''resourceGroupOwnerNode'', GaugeValue, F_Fin (if miStr mscluster_resourcegroup_fields r ''OwnerNode'' = nodeName then 1 else 0), [nodeName, miStr mscluster_resourcegroup_fields r ''Name''])"

definition mscluster_resourcegroup_after :: "miRow \<Rightarrow> line list" where
  "mscluster_resourcegroup_after r =
     [(''resourceGroupPriority'', GaugeValue, miNum mscluster_resourcegroup_fields r ''Priority'', [miStr mscluster_resourcegroup_fields r ''Name'']),
      (''resourceGroupResiliencyPeriod'', GaugeValue, miNum mscluster_resourcegroup_fields r ''ResiliencyPeriod'', [miStr mscluster_resourcegroup_fields r ''Name'']),
      (''resourceGroupState'', GaugeValue, miNum mscluster_resourcegroup_fields r ''State'', [miStr mscluster_resourcegroup_fields r ''Name''])]"

definition mscluster_resourcegroup_lines :: "string list \<Rightarrow> miRow \<Rightarrow> line list" where
  "mscluster_resourcegroup_lines nodeNames r = mscluster_resourcegroup_before r @ map (mscluster_resourcegroup_owner r) nodeNames @ mscluster_resourcegroup_after r"

section \<open>Build\<close>

record mscluster =
  mcSession :: "Session option"

definition clusterParts :: "string list" where
  "clusterParts = [''cluster'', ''network'', ''node'', ''resource'', ''resourcegroup'']"

definition partQuery :: "osversion \<Rightarrow> string \<Rightarrow> string" where
  "partQuery os n =
     (if n = ''cluster'' then mscluster_cluster_query os else if n = ''network'' then mscluster_network_query
      else if n = ''node'' then mscluster_node_query os else if n = ''resource'' then mscluster_resource_query else mscluster_resourcegroup_query)"

definition partFields :: "string \<Rightarrow> miStruct" where
  "partFields n =
     (if n = ''cluster'' then mscluster_cluster_fields else if n = ''network'' then mscluster_network_fields
      else if n = ''node'' then mscluster_node_fields else if n = ''resource'' then mscluster_resource_fields else mscluster_resourcegroup_fields)"

definition partText :: "string \<Rightarrow> string" where
  "partText n = (if n = ''resourcegroup'' then ''resource group'' else n)"

text \<open>The query of a part, which the build functions try once.\<close>

definition clusterQuery :: "'w mi_system \<Rightarrow> osversion \<Rightarrow> Session option \<Rightarrow> string \<Rightarrow> 'w \<Rightarrow> (go_error option \<times> miRow list \<times> 'w) exec" where
  "clusterQuery sys os s n = sessionQuery sys s ''root/MSCluster'' (partQuery os n) (partFields n)"

definition buildClusterPart :: "'w mi_system \<Rightarrow> osversion \<Rightarrow> Session option \<Rightarrow> string \<Rightarrow> 'w \<Rightarrow> 'w sent" where
  "buildClusterPart sys os s n w = sendQuery [] (\<lambda>rs. []) (clusterQuery sys os s n w)"

definition buildClusterParts :: "'w mi_system \<Rightarrow> osversion \<Rightarrow> Session option \<Rightarrow> (string \<times> ('w \<Rightarrow> 'w sent)) list" where
  "buildClusterParts sys os s =
     map (\<lambda>n. (n, \<lambda>w. wrapSent ''failed to build %s collector: %w'' [partText n] (buildClusterPart sys os s n w))) clusterParts"

definition mscluster_Build ::
  "'w mi_system \<Rightarrow> osversion \<Rightarrow> Session option \<Rightarrow> string list \<Rightarrow> mscluster \<Rightarrow> 'w \<Rightarrow> (go_error option \<times> mscluster \<times> 'w) exec" where
  "mscluster_Build sys os s enabled c w =
     (if enabled = [] then Returns (None, c, w)
      else if s = None then Returns (Some (ErrorText ''miSession is nil'' []), c, w)
      else case runQueries (buildClusterParts sys os s) (filter (\<lambda>n. n \<in> set enabled) clusterParts) w of
             Returns (es, ms, w') \<Rightarrow> Returns (errors_Join es, c\<lparr>mcSession := s\<rparr>, w')
           | Panics \<Rightarrow> Panics
           | StillRunning \<Rightarrow> StillRunning)"

section \<open>Collect\<close>

definition collectCluster :: "'w mi_system \<Rightarrow> osversion \<Rightarrow> Session option \<Rightarrow> 'w \<Rightarrow> 'w sent" where
  "collectCluster sys os s w =
     sendQuery mscluster_cluster_descs (\<lambda>rs. concat (map (mscluster_cluster_lines os) rs)) (clusterQuery sys os s ''cluster'' w)"

definition collectNetwork :: "'w mi_system \<Rightarrow> osversion \<Rightarrow> Session option \<Rightarrow> 'w \<Rightarrow> 'w sent" where
  "collectNetwork sys os s w = sendQuery mscluster_network_descs (\<lambda>rs. concat (map mscluster_network_lines rs)) (clusterQuery sys os s ''network'' w)"

text \<open>\<open>collectNode\<close> returns the names of the nodes as well, and no names with an error.\<close>

definition collectNode :: "'w mi_system \<Rightarrow> osversion \<Rightarrow> Session option \<Rightarrow> 'w \<Rightarrow> (string list \<times> 'w) sent" where
  "collectNode sys os s w =
     (case clusterQuery sys os s ''node'' w of
        Returns (Some e, rs, w') \<Rightarrow> Returns (Some (Wrapf ''WMI query failed: %w'' [] e), [], ([], w'))
      | Returns (None, rs, w') \<Rightarrow>
          (case sendAll mscluster_node_descs (concat (map mscluster_node_lines rs)) of
             None \<Rightarrow> Panics
           | Some ms \<Rightarrow> Returns (None, ms, (map (\<lambda>r. miStr mscluster_node_fields r ''Name'') rs, w')))
      | Panics \<Rightarrow> Panics
      | StillRunning \<Rightarrow> StillRunning)"

definition collectResource :: "'w mi_system \<Rightarrow> osversion \<Rightarrow> Session option \<Rightarrow> string list \<Rightarrow> 'w \<Rightarrow> 'w sent" where
  "collectResource sys os s nodeNames w =
     sendQuery mscluster_resource_descs (\<lambda>rs. concat (map (mscluster_resource_lines nodeNames) rs)) (clusterQuery sys os s ''resource'' w)"

definition collectResourceGroup :: "'w mi_system \<Rightarrow> osversion \<Rightarrow> Session option \<Rightarrow> string list \<Rightarrow> 'w \<Rightarrow> 'w sent" where
  "collectResourceGroup sys os s nodeNames w =
     sendQuery mscluster_resourcegroup_descs (\<lambda>rs. concat (map (mscluster_resourcegroup_lines nodeNames) rs)) (clusterQuery sys os s ''resourcegroup'' w)"

text \<open>
  The goroutines share the names of the nodes, which are part of the state here. \<open>sched\<close> is the order in which the five of them run; those of the resources
  are started by that of the nodes.
\<close>

definition withNodes :: "string list \<Rightarrow> 'w sent \<Rightarrow> (string list \<times> 'w) sent" where
  "withNodes nodeNames res =
     (case res of
        Returns (err, ms, w) \<Rightarrow> Returns (err, ms, (nodeNames, w))
      | Panics \<Rightarrow> Panics
      | StillRunning \<Rightarrow> StillRunning)"

definition clusterTable ::
  "'w mi_system \<Rightarrow> osversion \<Rightarrow> Session option \<Rightarrow> (string \<times> (string list \<times> 'w \<Rightarrow> (string list \<times> 'w) sent)) list" where
  "clusterTable sys os s =
     [(''cluster'', \<lambda>(ns, w). wrapSent ''failed to collect cluster metrics: %w'' [] (withNodes ns (collectCluster sys os s w))),
      (''network'', \<lambda>(ns, w). wrapSent ''failed to collect network metrics: %w'' [] (withNodes ns (collectNetwork sys os s w))),
      (''node'', \<lambda>(ns, w). wrapSent ''failed to collect node metrics: %w'' [] (collectNode sys os s w)),
      (''resource'', \<lambda>(ns, w). wrapSent ''failed to collect resource metrics: %w'' [] (withNodes ns (collectResource sys os s ns w))),
      (''resourcegroup'', \<lambda>(ns, w). wrapSent ''failed to collect resource group metrics: %w'' [] (withNodes ns (collectResourceGroup sys os s ns w)))]"

definition clusterSchedule :: "string list \<Rightarrow> bool" where
  "clusterSchedule sched \<longleftrightarrow>
     mset sched = mset clusterParts \<and> list_all (\<lambda>n. n \<noteq> ''resource'' \<and> n \<noteq> ''resourcegroup'') (takeWhile (\<lambda>n. n \<noteq> ''node'') sched)"

definition mscluster_Collect :: "string list \<Rightarrow> 'w mi_system \<Rightarrow> osversion \<Rightarrow> string list \<Rightarrow> mscluster \<Rightarrow> 'w \<Rightarrow> 'w sent" where
  "mscluster_Collect sched sys os enabled c w =
     (if enabled = [] then Returns (None, [], w)
      else case runQueries (clusterTable sys os (mcSession c)) (filter (\<lambda>n. n \<in> set enabled) sched) ([], w) of
             Returns (es, ms, (ns, w')) \<Rightarrow> Returns (errors_Join es, ms, w')
           | Panics \<Rightarrow> Panics
           | StillRunning \<Rightarrow> StillRunning)"

section \<open>The tables\<close>

lemma mscluster_cluster_names: "distinct (map (\<lambda>(n, d). fqName d) mscluster_cluster_descs)"
  by (rule distinct_nameCodes; unfold mscluster_cluster_descs_def) (simp only: name_code_simps)

lemma mscluster_cluster_table: "table_ok mscluster_cluster_descs (mscluster_cluster_lines os r)"
  by (cases "LTSC2022 os \<le> winBuild os"; simp only: mscluster_cluster_lines_def if_True if_False append.simps append_Nil2; rule table_ok_codes) (simp only: table_code_simps mscluster_cluster_descs_def)+

interpretation mscluster_cluster: keyed_table mscluster_cluster_descs "mscluster_cluster_lines os" "\<lambda>r. miStr mscluster_cluster_fields r ''Name''" "\<lambda>n. 0"
  by unfold_locales (auto simp: mscluster_cluster_names mscluster_cluster_table, simp add: mscluster_cluster_lines_def)

lemma mscluster_network_names: "distinct (map (\<lambda>(n, d). fqName d) mscluster_network_descs)"
  by (rule distinct_nameCodes; unfold mscluster_network_descs_def) (simp only: name_code_simps)

lemma mscluster_network_table: "table_ok mscluster_network_descs (mscluster_network_lines r)"
  by (rule table_ok_codes; unfold mscluster_network_lines_def mscluster_network_descs_def) (simp only: table_code_simps)+

interpretation mscluster_network: keyed_table mscluster_network_descs mscluster_network_lines "\<lambda>r. miStr mscluster_network_fields r ''Name''" "\<lambda>n. 0"
  by unfold_locales (auto simp: mscluster_network_names mscluster_network_table, simp add: mscluster_network_lines_def)

lemma mscluster_node_names: "distinct (map (\<lambda>(n, d). fqName d) mscluster_node_descs)"
  by (rule distinct_nameCodes; unfold mscluster_node_descs_def) (simp only: name_code_simps)

lemma mscluster_node_table: "table_ok mscluster_node_descs (mscluster_node_lines r)"
  by (rule table_ok_codes; unfold mscluster_node_lines_def mscluster_node_descs_def) (simp only: table_code_simps)+

interpretation mscluster_node: keyed_table mscluster_node_descs mscluster_node_lines "\<lambda>r. miStr mscluster_node_fields r ''Name''" "\<lambda>n. 0"
  by unfold_locales (auto simp: mscluster_node_names mscluster_node_table, simp add: mscluster_node_lines_def)

lemma mscluster_resource_names: "distinct (map (\<lambda>(n, d). fqName d) mscluster_resource_descs)"
  by (rule distinct_nameCodes; unfold mscluster_resource_descs_def) (simp only: name_code_simps)

lemma mscluster_resource_table: "table_ok mscluster_resource_descs (mscluster_resource_before r @ mscluster_resource_after r)"
  by (simp only: mscluster_resource_before_def mscluster_resource_after_def append.simps; rule table_ok_codes) (simp only: table_code_simps mscluster_resource_descs_def)+

lemma mscluster_resourcegroup_names: "distinct (map (\<lambda>(n, d). fqName d) mscluster_resourcegroup_descs)"
  by (rule distinct_nameCodes; unfold mscluster_resourcegroup_descs_def) (simp only: name_code_simps)

lemma mscluster_resourcegroup_table: "table_ok mscluster_resourcegroup_descs (mscluster_resourcegroup_before r @ mscluster_resourcegroup_after r)"
  by (simp only: mscluster_resourcegroup_before_def mscluster_resourcegroup_after_def append.simps; rule table_ok_codes) (simp only: table_code_simps mscluster_resourcegroup_descs_def)+

definition resourceKey :: "miRow \<Rightarrow> string \<times> string \<times> string" where
  "resourceKey r =
     (miStr mscluster_resource_fields r ''Type'', miStr mscluster_resource_fields r ''OwnerGroup'', miStr mscluster_resource_fields r ''Name'')"

lemma resource_labelled:
  assumes "distinct nodeNames"
  shows "labelled_table mscluster_resource_descs (mscluster_resource_lines nodeNames) resourceKey (\<lambda>n ls. (ls ! 0, ls ! 1, last ls))"
proof
  show "distinct (map (\<lambda>(n, d). fqName d) mscluster_resource_descs)" by (rule mscluster_resource_names)
  obtain d where d: "map_of mscluster_resource_descs ''resourceOwnerNode'' = Some d" "length (variableLabels d) = 4"
    by (simp add: mscluster_resource_descs_def)
  show "table_ok mscluster_resource_descs (mscluster_resource_lines nodeNames r)" for r
    unfolding mscluster_resource_lines_def
  proof (rule table_ok_between [OF mscluster_resource_table d(1)])
    show "list_all (\<lambda>(m, vt, v, ls). m = ''resourceOwnerNode'' \<and> length ls = length (variableLabels d)) (map (mscluster_resource_owner r) nodeNames)"
      by (simp add: list_all_iff mscluster_resource_owner_def d(2))
    show "distinct (map (\<lambda>(n, vt, v, ls). (n, ls)) (map (mscluster_resource_owner r) nodeNames))"
      using assms by (simp add: mscluster_resource_owner_def distinct_map inj_on_def)
    show "list_all (\<lambda>(m, vt, v, ls). m \<noteq> ''resourceOwnerNode'') (mscluster_resource_before r @ mscluster_resource_after r)"
      by (simp add: mscluster_resource_before_def mscluster_resource_after_def)
  qed
  show "list_all (\<lambda>(n, vt, v, ls). (ls ! 0, ls ! 1, last ls) = resourceKey r) (mscluster_resource_lines nodeNames r)" for r
    by (simp add: mscluster_resource_lines_def mscluster_resource_before_def mscluster_resource_after_def mscluster_resource_owner_def
        resourceKey_def list_all_iff)
qed

lemma resourcegroup_labelled:
  assumes "distinct nodeNames"
  shows "labelled_table mscluster_resourcegroup_descs (mscluster_resourcegroup_lines nodeNames)
           (\<lambda>r. miStr mscluster_resourcegroup_fields r ''Name'') (\<lambda>n ls. last ls)"
proof
  show "distinct (map (\<lambda>(n, d). fqName d) mscluster_resourcegroup_descs)" by (rule mscluster_resourcegroup_names)
  obtain d where d: "map_of mscluster_resourcegroup_descs ''resourceGroupOwnerNode'' = Some d" "length (variableLabels d) = 2"
    by (simp add: mscluster_resourcegroup_descs_def)
  show "table_ok mscluster_resourcegroup_descs (mscluster_resourcegroup_lines nodeNames r)" for r
    unfolding mscluster_resourcegroup_lines_def
  proof (rule table_ok_between [OF mscluster_resourcegroup_table d(1)])
    show "list_all (\<lambda>(m, vt, v, ls). m = ''resourceGroupOwnerNode'' \<and> length ls = length (variableLabels d)) (map (mscluster_resourcegroup_owner r) nodeNames)"
      by (simp add: list_all_iff mscluster_resourcegroup_owner_def d(2))
    show "distinct (map (\<lambda>(n, vt, v, ls). (n, ls)) (map (mscluster_resourcegroup_owner r) nodeNames))"
      using assms by (simp add: mscluster_resourcegroup_owner_def distinct_map inj_on_def)
    show "list_all (\<lambda>(m, vt, v, ls). m \<noteq> ''resourceGroupOwnerNode'') (mscluster_resourcegroup_before r @ mscluster_resourcegroup_after r)"
      by (simp add: mscluster_resourcegroup_before_def mscluster_resourcegroup_after_def)
  qed
  show "list_all (\<lambda>(n, vt, v, ls). last ls = miStr mscluster_resourcegroup_fields r ''Name'') (mscluster_resourcegroup_lines nodeNames r)" for r
    by (simp add: mscluster_resourcegroup_lines_def mscluster_resourcegroup_before_def mscluster_resourcegroup_after_def mscluster_resourcegroup_owner_def
        list_all_iff)
qed

section \<open>What is accepted\<close>

definition partDescs :: "string \<Rightarrow> descTable" where
  "partDescs n =
     (if n = ''cluster'' then mscluster_cluster_descs else if n = ''network'' then mscluster_network_descs
      else if n = ''node'' then mscluster_node_descs else if n = ''resource'' then mscluster_resource_descs else mscluster_resourcegroup_descs)"

definition partKeys :: "string \<Rightarrow> miRow list \<Rightarrow> bool" where
  "partKeys n rs \<longleftrightarrow>
     (if n = ''resource'' then distinct (map resourceKey rs) else distinct (map (\<lambda>r. miStr (partFields n) r ''Name'') rs))"

text \<open>The query of a part comes back, with different names.\<close>

definition clusterAnswers :: "'w mi_system \<Rightarrow> osversion \<Rightarrow> Session option \<Rightarrow> string set" where
  "clusterAnswers sys os s = {n. \<forall>w. answered (partKeys n) (clusterQuery sys os s n w)}"

text \<open>The parts use subsystems of their own.\<close>

fun fqSubsystem :: "fqname \<Rightarrow> string" where
  "fqSubsystem (BuildFQName ns sub n) = sub"
| "fqSubsystem (FullName n) = []"

lemma part_subsystem: "n \<in> set clusterParts \<Longrightarrow> list_all (\<lambda>x. fqSubsystem x = ''mscluster_'' @ n) (descNames (partDescs n))"
  by (auto simp: clusterParts_def partDescs_def descNames_def mscluster_cluster_descs_def mscluster_network_descs_def mscluster_node_descs_def mscluster_resource_descs_def mscluster_resourcegroup_descs_def)

lemma part_names_apart:
  "n \<in> set clusterParts \<Longrightarrow> m \<in> set clusterParts \<Longrightarrow> n \<noteq> m \<Longrightarrow> set (descNames (partDescs n)) \<inter> set (descNames (partDescs m)) = {}"
  using part_subsystem [of n] part_subsystem [of m] by (fastforce simp: list_all_iff)

lemma returns_ok_withNodes:
  "returns_ok (\<lambda>w. True) names res \<Longrightarrow> distinct ns \<Longrightarrow> returns_ok (\<lambda>(ns, w). distinct ns) names (withNodes ns res)"
  by (simp add: returns_ok_def withNodes_def split: exec.splits prod.splits)

lemma collectNode_ok:
  assumes "''node'' \<in> clusterAnswers sys os s"
  shows "returns_ok (\<lambda>(ns, w). distinct ns) (set (descNames mscluster_node_descs)) (collectNode sys os s w)"
proof -
  have "answered (partKeys ''node'') (clusterQuery sys os s ''node'' w)" using assms by (simp add: clusterAnswers_def)
  then obtain err rs w' where r: "clusterQuery sys os s ''node'' w = Returns (err, rs, w')" "err = None \<longrightarrow> partKeys ''node'' rs"
    by (auto simp: answered_def split: exec.splits)
  show ?thesis
  proof (cases err)
    case (Some e)
    then show ?thesis using r by (simp add: collectNode_def returns_ok_def)
  next
    case None
    then have d: "distinct (map (\<lambda>r. miStr mscluster_node_fields r ''Name'') rs)" using r by (simp add: partKeys_def partFields_def)
    then have "accepted (sendAll mscluster_node_descs (concat (map mscluster_node_lines rs)))" by (rule mscluster_node.rows_accepted)
    then show ?thesis using r None d by (auto simp: collectNode_def returns_ok_def accepted_def dest: sendAll_names split: option.splits)
  qed
qed

lemma part_ok:
  assumes "n \<in> clusterAnswers sys os s" and "\<And>rs. partKeys n rs \<Longrightarrow> accepted (sendAll ds (lines rs))"
  shows "returns_ok (\<lambda>w. True) (set (descNames ds)) (sendQuery ds lines (clusterQuery sys os s n w))"
  using assms(1) by (intro sendQuery_ok [where P = "partKeys n"] assms(2)) (simp_all add: clusterAnswers_def)

lemmas part_defs = partKeys_def partFields_def partDescs_def collectCluster_def collectNetwork_def collectResource_def collectResourceGroup_def

lemma clusterTable_ok:
  "list_all (\<lambda>(n, f). n \<in> clusterAnswers sys os s \<longrightarrow>
     (\<forall>w. (case w of (ns, w') \<Rightarrow> distinct ns) \<longrightarrow> returns_ok (\<lambda>(ns, w). distinct ns) (set (descNames (partDescs n))) (f w))) (clusterTable sys os s)"
proof -
  have "returns_ok (\<lambda>(ns, w). distinct ns) (set (descNames (partDescs n))) (withNodes ns (sendQuery (partDescs n) lines (clusterQuery sys os s n w)))"
    if "n \<in> clusterAnswers sys os s" "distinct ns" "\<And>rs. partKeys n rs \<Longrightarrow> accepted (sendAll (partDescs n) (lines rs))" for n lines ns w
    by (rule returns_ok_withNodes [OF part_ok [OF that(1)] that(2)]) (rule that(3))
  note part = this
  have "returns_ok (\<lambda>(ns, w). distinct ns) (set (descNames (partDescs ''cluster''))) (withNodes ns (collectCluster sys os s w))"
    if "''cluster'' \<in> clusterAnswers sys os s" "distinct ns" for ns w
    using part [OF that, of "\<lambda>rs. concat (map (mscluster_cluster_lines os) rs)" w] mscluster_cluster.rows_accepted by (simp add: part_defs)
  moreover have "returns_ok (\<lambda>(ns, w). distinct ns) (set (descNames (partDescs ''network''))) (withNodes ns (collectNetwork sys os s w))"
    if "''network'' \<in> clusterAnswers sys os s" "distinct ns" for ns w
    using part [OF that, of "\<lambda>rs. concat (map mscluster_network_lines rs)" w] mscluster_network.rows_accepted by (simp add: part_defs)
  moreover have "returns_ok (\<lambda>(ns, w). distinct ns) (set (descNames (partDescs ''resource''))) (withNodes ns (collectResource sys os s ns w))"
    if "''resource'' \<in> clusterAnswers sys os s" "distinct ns" for ns w
    using part [OF that, of "\<lambda>rs. concat (map (mscluster_resource_lines ns) rs)" w] labelled_table.rows_accepted [OF resource_labelled [OF that(2)]]
    by (simp add: part_defs)
  moreover have "returns_ok (\<lambda>(ns, w). distinct ns) (set (descNames (partDescs ''resourcegroup''))) (withNodes ns (collectResourceGroup sys os s ns w))"
    if "''resourcegroup'' \<in> clusterAnswers sys os s" "distinct ns" for ns w
    using part [OF that, of "\<lambda>rs. concat (map (mscluster_resourcegroup_lines ns) rs)" w] labelled_table.rows_accepted [OF resourcegroup_labelled [OF that(2)]]
    by (simp add: part_defs)
  moreover have "returns_ok (\<lambda>(ns, w). distinct ns) (set (descNames (partDescs ''node''))) (collectNode sys os s w)"
    if "''node'' \<in> clusterAnswers sys os s" for w
    using collectNode_ok [OF that] by (simp add: partDescs_def)
  ultimately show ?thesis by (auto simp: clusterTable_def)
qed

lemma clusterTable_parts: "fst ` set (clusterTable sys os s) = set clusterParts"
  by (simp add: clusterTable_def clusterParts_def)

interpretation mc_queries: query_table "clusterTable sys os s" "\<lambda>n. set (descNames (partDescs n))" "clusterAnswers sys os s" "\<lambda>(ns, w). distinct ns"
proof
  show "list_all (\<lambda>(n, f). n \<in> clusterAnswers sys os s \<longrightarrow>
     (\<forall>w. (case w of (ns, w') \<Rightarrow> distinct ns) \<longrightarrow> returns_ok (\<lambda>(ns, w). distinct ns) (set (descNames (partDescs n))) (f w))) (clusterTable sys os s)"
    by (rule clusterTable_ok)
  show "set (descNames (partDescs n)) \<inter> set (descNames (partDescs m)) = {}"
    if "n \<noteq> m" "n \<in> fst ` set (clusterTable sys os s)" "m \<in> fst ` set (clusterTable sys os s)" for n m
    using that unfolding clusterTable_parts by (intro part_names_apart)
qed

text \<open>
  When the query of each enabled part comes back with different names, a scrape of the cluster comes back and the library accepts what it sent, in
  every order in which the goroutines can run.
\<close>

theorem mscluster_accepted:
  assumes "mscluster_Build sys os (Some s) enabled old v = Returns (None, c, v')" and "enabled \<noteq> []"
    and "set enabled \<subseteq> clusterAnswers sys os (Some s)" and "clusterSchedule sched"
  shows "\<exists>err ms w'. mscluster_Collect sched sys os enabled c w = Returns (err, ms, w') \<and> accepted (Some ms)"
proof -
  have c: "mcSession c = Some s"
    using assms(1,2) by (auto simp: mscluster_Build_def split: exec.splits)
  have "mset sched = mset clusterParts" using assms(4) by (simp add: clusterSchedule_def)
  moreover have "distinct clusterParts" by (simp add: clusterParts_def)
  ultimately have d: "distinct sched" "set sched = set clusterParts" by (metis mset_eq_imp_distinct_iff, metis mset_eq_setD)
  have "\<exists>es ms w'. runQueries (clusterTable sys os (Some s)) (filter (\<lambda>n. n \<in> set enabled) sched) ([], w) = Returns (es, ms, w') \<and>
      list_all arity_ok ms \<and> distinct (map series ms) \<and>
      fqName ` metric_desc ` set ms \<subseteq> (\<Union>n\<in>set (filter (\<lambda>n. n \<in> set enabled) sched). set (descNames (partDescs n)))"
  proof (rule mc_queries.runQueries_ok)
    show "set (filter (\<lambda>n. n \<in> set enabled) sched) \<subseteq> fst ` set (clusterTable sys os (Some s)) \<inter> clusterAnswers sys os (Some s)"
      unfolding clusterTable_parts using d(2) assms(3) by auto
  qed (use d in simp_all)
  then obtain es ms ns w' where "runQueries (clusterTable sys os (Some s)) (filter (\<lambda>n. n \<in> set enabled) sched) ([], w) = Returns (es, ms, (ns, w'))"
    "list_all arity_ok ms" "distinct (map series ms)" by auto
  then show ?thesis using assms(2) by (simp add: mscluster_Collect_def c accepted_def)
qed

text \<open>Systems that answer every query with one network, and with two instances that have a state only.\<close>

definition server2022 :: osversion where
  "server2022 = \<lparr>winBuild = 20348, LTSC2019 = 17763, LTSC2022 = 20348\<rparr>"

abbreviation clusterSession :: Session where
  "clusterSession \<equiv> \<lparr>sessionHandle = 1, defaultOperationOptions = None\<rparr>"

definition answering :: "callback list \<Rightarrow> unit mi_system" where
  "answering cbs = \<lparr>miNative = sampleNative, miText = (\<lambda>p. ''Cluster Network 1''), miAnswer = (\<lambda>ns q w. cbs), miArgs = (\<lambda>ns q. [])\<rparr>"

definition oneNetwork :: "callback list" where
  "oneNetwork = [sampleCallback False [(''Name'', \<lparr>elemVal = 7, elemType = 13\<rparr>), (''State'', \<lparr>elemVal = 3, elemType = 7\<rparr>)]]"

definition twoStates :: "callback list" where
  "twoStates = [sampleCallback True [(''State'', \<lparr>elemVal = 0, elemType = 7\<rparr>)], sampleCallback False [(''State'', \<lparr>elemVal = 1, elemType = 7\<rparr>)]]"

lemmas query_simps = sessionQuery_def Query_def QueryUnmarshal_def callMethod_def resultErr_def sampleNative_def sampleCallback_def sampleInstance_def
  NewUnmarshalOperationsCallbacks_def InstanceResult_def Mi.setField_def closeErr_def status_codes errors_Join_def Let_def miField_def answering_def

lemma network_answer:
  "clusterQuery (answering oneNetwork) server2022 (Some clusterSession) ''network'' () =
     Returns (None, [[Mi.VString ''Cluster Network 1'', Mi.VUint 0, Mi.VUint 0, Mi.VUint 0, Mi.VUint 0, Mi.VUint 3]], ())"
  by (simp add: clusterQuery_def partFields_def partQuery_def mscluster_network_fields_def oneNetwork_def query_simps)

theorem mscluster_accepted_witness:
  "\<exists>err ms w'. mscluster_Collect clusterParts (answering oneNetwork) server2022 [''network''] \<lparr>mcSession = Some clusterSession\<rparr> () = Returns (err, ms, w') \<and> accepted (Some ms)"
proof (rule mscluster_accepted [where old = "\<lparr>mcSession = None\<rparr>" and v = "()" and v' = "()"])
  show "mscluster_Build (answering oneNetwork) server2022 (Some clusterSession) [''network''] \<lparr>mcSession = None\<rparr> () = Returns (None, \<lparr>mcSession = Some clusterSession\<rparr>, ())"
    by (simp add: mscluster_Build_def buildClusterParts_def clusterParts_def buildClusterPart_def network_answer sendQuery_def sendAll_def wrapSent_def errors_Join_def)
  show "set [''network''] \<subseteq> clusterAnswers (answering oneNetwork) server2022 (Some clusterSession)"
    by (simp add: clusterAnswers_def network_answer answered_def partKeys_def)
  show "clusterSchedule clusterParts" by (simp add: clusterSchedule_def clusterParts_def)
qed simp

text \<open>The names of the nodes are not among the properties that the query selects.\<close>

lemma node_names_not_selected: "''Name'' \<notin> set (selectedProps (mscluster_node_query os))"
  by (cases "LTSC2022 os \<le> winBuild os") (simp_all add: selectedProps_def mscluster_node_query_def)

text \<open>
  C37: The query for the nodes does not select their names, by which the metrics are labelled. A system whose answer to it has the selected properties
  only gives every node the empty name: with two nodes or more the library rejects the scrape.
\<close>

theorem unnamed_nodes_rejected:
  assumes "clusterQuery sys os s ''node'' w = Returns (None, rs, w')" and "2 \<le> length rs"
    and "list_all (onlySelected (mscluster_node_query os)) (miAnswer sys ''root/MSCluster'' (mscluster_node_query os) w)"
  shows "\<exists>ms ns. collectNode sys os s w = Returns (None, ms, ns, w') \<and> \<not> accepted (Some ms)"
proof -
  have "list_all (lacks ''Name'') (miAnswer sys ''root/MSCluster'' (mscluster_node_query os) w)"
    using assms(3) node_names_not_selected by (auto simp: list_all_iff onlySelected_def)
  then have "list_all (\<lambda>r. miStr mscluster_node_fields r ''Name'' = []) rs"
    using assms(1) unfolding clusterQuery_def partFields_def partQuery_def mscluster_node_fields_def by (simp add: unnamed_rows)
  moreover obtain r1 r2 rest where rs: "rs = r1 # r2 # rest" using assms(2) by (metis One_nat_def Suc_1 Suc_le_length_iff)
  ultimately have labels: "miStr mscluster_node_fields r1 ''Name'' = miStr mscluster_node_fields r2 ''Name''" by simp
  have lines: "list_all (\<lambda>(n, vt, v, ls). case map_of mscluster_node_descs n of None \<Rightarrow> False | Some d \<Rightarrow> length ls = length (variableLabels d))
      (concat (map mscluster_node_lines rs))"
    using mscluster_node_table by (auto simp: table_ok_def list_all_iff)
  then obtain ms where ms: "sendAll mscluster_node_descs (concat (map mscluster_node_lines rs)) = Some ms" using sendAll_arities by blast
  have "\<not> distinct (map (\<lambda>(n, vt, v, ls). (n, ls)) (concat (map mscluster_node_lines rs)))"
    using labels unfolding rs mscluster_node_lines_def by simp
  then have "\<not> accepted (Some ms)" using sendAll_distinct [OF ms] by (auto simp: accepted_def)
  then show ?thesis using assms(1) ms by (simp add: collectNode_def)
qed

lemma state_selected: "''State'' \<in> set (selectedProps (mscluster_node_query os))"
  by (cases "LTSC2022 os \<le> winBuild os") (simp_all add: selectedProps_def mscluster_node_query_def)

theorem unnamed_nodes_rejected_witness:
  "\<exists>ms ns. collectNode (answering twoStates) server2022 (Some clusterSession) () = Returns (None, ms, ns, ()) \<and> \<not> accepted (Some ms)"
proof -
  obtain rs where rs: "clusterQuery (answering twoStates) server2022 (Some clusterSession) ''node'' () = Returns (None, rs, ())" "2 \<le> length rs"
    by (simp add: clusterQuery_def partFields_def partQuery_def mscluster_node_fields_def twoStates_def query_simps)
  show ?thesis
    by (rule unnamed_nodes_rejected [OF rs])
       (auto simp: answering_def twoStates_def sampleCallback_def sampleInstance_def onlySelected_def lacks_def state_selected)
qed

end
