(* ===== verification/Mi_Devices.thy ===== *)
theory Mi_Devices
  imports Mi_Table Utils
begin

text \<open>
  Collectors of the rows of one or two queries: processors, disk drives, quotas and printers (internal/collector/cpu\_info, diskdrive, fsrmquota and printer). Their state
  is the session. The results: what is accepted for answers with different names, and that the print jobs are counted by printer and status.
\<close>

section \<open>Sessions\<close>

text \<open>The end of \<open>Build\<close>: the session is needed, and the query is tried once.\<close>

definition buildQuery ::
  "'w mi_system \<Rightarrow> string \<Rightarrow> string \<Rightarrow> miStruct \<Rightarrow> Session option \<Rightarrow> 'w \<Rightarrow> (go_error option \<times> Session option \<times> 'w) exec" where
  "buildQuery sys ns q st s w =
     (if s = None then Returns (Some (ErrorText ''miSession is nil'' []), None, w)
      else case sessionQuery sys s ns q st w of
             Returns (err, rs, w') \<Rightarrow> Returns (map_option (Wrapf ''WMI query failed: %w'' []) err, s, w')
           | Panics \<Rightarrow> Panics
           | StillRunning \<Rightarrow> StillRunning)"

text \<open>\<open>strings.TrimRight\<close> and \<open>strings.Trim\<close> with a set of ASCII characters.\<close>

definition TrimRight :: "string \<Rightarrow> string \<Rightarrow> string" where
  "TrimRight s cutset = rev (dropWhile (\<lambda>c. c \<in> set cutset) (rev s))"

definition Trim :: "string \<Rightarrow> string \<Rightarrow> string" where
  "Trim s cutset = TrimRight (dropWhile (\<lambda>c. c \<in> set cutset) s) cutset"

definition miBool :: "miStruct \<Rightarrow> miRow \<Rightarrow> string \<Rightarrow> bool" where
  "miBool st r n = (case miVal st r n of Some (Mi.VBool b) \<Rightarrow> b | _ \<Rightarrow> False)"

section \<open>Processors\<close>

definition cpu_info_fields :: miStruct where
  "cpu_info_fields =
     [miField ''Architecture'' ''Architecture'' (Mi.KUint 32),
      miField ''DeviceID'' ''DeviceID'' Mi.KString,
      miField ''Description'' ''Description'' Mi.KString,
      miField ''Family'' ''Family'' (Mi.KUint 16),
      miField ''L2CacheSize'' ''L2CacheSize'' (Mi.KUint 32),
      miField ''L3CacheSize'' ''L3CacheSize'' (Mi.KUint 32),
      miField ''Name'' ''Name'' Mi.KString,
      miField ''ThreadCount'' ''ThreadCount'' (Mi.KUint 32),
      miField ''NumberOfCores'' ''NumberOfCores'' (Mi.KUint 32),
      miField ''NumberOfEnabledCore'' ''NumberOfEnabledCore'' (Mi.KUint 32),
      miField ''NumberOfLogicalProcessors'' ''NumberOfLogicalProcessors'' (Mi.KUint 32),
      miField ''Total'' '''' (Mi.KInt 64)]"

definition cpu_info_descs :: descTable where
  "cpu_info_descs =
     [(''cpuInfo'', NewDesc (BuildFQName Namespace '''' ''cpu_info'')
        ''Labelled CPU information as provided by Win32_Processor'' [''architecture'', ''device_id'', ''description'', ''family'', ''name'']),
      (''cpuThreadCount'', NewDesc (BuildFQName Namespace ''cpu_info'' ''thread'')
        ''Number of threads per CPU'' [''device_id'']),
      (''cpuCoreCount'', NewDesc (BuildFQName Namespace ''cpu_info'' ''core'')
        ''Number of cores per CPU'' [''device_id'']),
      (''cpuEnabledCoreCount'', NewDesc (BuildFQName Namespace ''cpu_info'' ''enabled_core'')
        ''Number of enabled cores per CPU'' [''device_id'']),
      (''cpuLogicalProcessorsCount'', NewDesc (BuildFQName Namespace ''cpu_info'' ''logical_processor'')
        ''Number of logical processors per CPU'' [''device_id'']),
      (''cpuL2CacheSize'', NewDesc (BuildFQName Namespace ''cpu_info'' ''l2_cache_size'')
        ''Size of L2 cache per CPU'' [''device_id'']),
      (''cpuL3CacheSize'', NewDesc (BuildFQName Namespace ''cpu_info'' ''l3_cache_size'')
        ''Size of L3 cache per CPU'' [''device_id''])]"

definition cpu_info_query :: string where
  "cpu_info_query = ''SELECT Architecture, DeviceId, Description, Family, L2CacheSize, L3CacheSize, Name, ThreadCount, NumberOfCores, NumberOfEnabledCore, NumberOfLogicalProcessors FROM Win32_Processor''"

definition cpu_info_lines :: "miRow \<Rightarrow> line list" where
  "cpu_info_lines r =
     (let st = cpu_info_fields; device = TrimRight (miStr st r ''DeviceID'') '' '' in
      [(''cpuInfo'', GaugeValue, F_Fin 1, [show_nat (miNat st r ''Architecture''), device, TrimRight (miStr st r ''Description'') '' '',
          show_nat (miNat st r ''Family''), TrimRight (miStr st r ''Name'') '' '']),
       (''cpuCoreCount'', GaugeValue, miNum st r ''NumberOfCores'', [device]),
       (''cpuEnabledCoreCount'', GaugeValue, miNum st r ''NumberOfEnabledCore'', [device]),
       (''cpuLogicalProcessorsCount'', GaugeValue, miNum st r ''NumberOfLogicalProcessors'', [device]),
       (''cpuThreadCount'', GaugeValue, miNum st r ''ThreadCount'', [device]),
       (''cpuL2CacheSize'', GaugeValue, miNum st r ''L2CacheSize'', [device]),
       (''cpuL3CacheSize'', GaugeValue, miNum st r ''L3CacheSize'', [device])])"

definition cpu_info_Build :: "'w mi_system \<Rightarrow> Session option \<Rightarrow> 'w \<Rightarrow> (go_error option \<times> Session option \<times> 'w) exec" where
  "cpu_info_Build sys = buildQuery sys ''root/CIMv2'' cpu_info_query cpu_info_fields"

definition cpu_info_Collect :: "'w mi_system \<Rightarrow> Session option \<Rightarrow> 'w \<Rightarrow> 'w sent" where
  "cpu_info_Collect sys s w =
     sendQuery cpu_info_descs (\<lambda>rs. concat (map cpu_info_lines rs)) (sessionQuery sys s ''root/CIMv2'' cpu_info_query cpu_info_fields w)"

section \<open>Disk drives\<close>

definition diskdrive_fields :: miStruct where
  "diskdrive_fields =
     [miField ''DeviceID'' ''DeviceID'' Mi.KString,
      miField ''Model'' ''Model'' Mi.KString,
      miField ''Size'' ''Size'' (Mi.KUint 64),
      miField ''Name'' ''Name'' Mi.KString,
      miField ''Caption'' ''Caption'' Mi.KString,
      miField ''Partitions'' ''Partitions'' (Mi.KUint 32),
      miField ''Status'' ''Status'' Mi.KString,
      miField ''Availability'' ''Availability'' (Mi.KUint 16)]"

definition diskdrive_descs :: descTable where
  "diskdrive_descs =
     [(''diskInfo'', NewDesc (BuildFQName Namespace ''diskdrive'' ''info'')
        ''General drive information'' [''device_id'', ''model'', ''caption'', ''name'']),
      (''status'', NewDesc (BuildFQName Namespace ''diskdrive'' ''status'')
        ''Status of the drive'' [''name'', ''status'']),
      (''size'', NewDesc (BuildFQName Namespace ''diskdrive'' ''size'')
        ''Size of the disk drive. It is calculated by multiplying the total number of cylinders, tracks in each cylinder, sectors in each track, and bytes in each sector.'' [''name'']),
      (''partitions'', NewDesc (BuildFQName Namespace ''diskdrive'' ''partitions'')
        ''Number of partitions'' [''name'']),
      (''availability'', NewDesc (BuildFQName Namespace ''diskdrive'' ''availability'')
        ''Availability Status'' [''name'', ''availability''])]"

definition diskdrive_query :: string where
  "diskdrive_query = ''SELECT DeviceID, Model, Caption, Name, Partitions, Size, Status, Availability FROM WIN32_DiskDrive''"

definition allDiskStatus :: "string list" where
  "allDiskStatus =
     [''OK'', ''Error'', ''Degraded'', ''Unknown'', ''Pred Fail'', ''Starting'', ''Stopping'', ''Service'', ''Stressed'', ''Nonrecover'', ''No Contact'', ''Lost Comm'']"

definition availMap :: "(nat \<times> string) list" where
  "availMap =
     [(1, ''Other''), (2, ''Unknown''), (3, ''Running / Full Power''), (4, ''Warning''), (5, ''In Test''), (6, ''Not Applicable''), (7, ''Power Off''),
      (8, ''Off line''), (9, ''Off Duty''), (10, ''Degraded''), (11, ''Not Installed''), (12, ''Install Error''), (13, ''Power Save - Unknown''),
      (14, ''Power Save - Low Power Mode''), (15, ''Power Save - Standby''), (16, ''Power Cycle''), (17, ''Power Save - Warning''), (18, ''Paused''),
      (19, ''Not Ready''), (20, ''Not Configured''), (21, ''Quiesced'')]"

definition diskName :: "miRow \<Rightarrow> string" where
  "diskName r = Trim (miStr diskdrive_fields r ''Name'') (CHR 0x5C # ''.'')"

definition diskdrive_lines :: "miRow \<Rightarrow> line list" where
  "diskdrive_lines r =
     [(''diskInfo'', GaugeValue, F_Fin 1, [Trim (miStr diskdrive_fields r ''DeviceID'') (CHR 0x5C # ''.''), TrimRight (miStr diskdrive_fields r ''Model'') '' '',
         TrimRight (miStr diskdrive_fields r ''Caption'') '' '', diskName r])] @
     map (\<lambda>status. (''status'', GaugeValue, F_Fin (if status = miStr diskdrive_fields r ''Status'' then 1 else 0), [diskName r, status])) allDiskStatus @
     [(''size'', GaugeValue, miNum diskdrive_fields r ''Size'', [diskName r]), (''partitions'', GaugeValue, miNum diskdrive_fields r ''Partitions'', [diskName r])] @
     map (\<lambda>(availNum, val). (''availability'', GaugeValue, F_Fin (if availNum = miNat diskdrive_fields r ''Availability'' then 1 else 0), [diskName r, val])) availMap"

definition diskdrive_Build :: "'w mi_system \<Rightarrow> Session option \<Rightarrow> 'w \<Rightarrow> (go_error option \<times> Session option \<times> 'w) exec" where
  "diskdrive_Build sys = buildQuery sys ''root/CIMv2'' diskdrive_query diskdrive_fields"

definition diskdrive_Collect :: "'w mi_system \<Rightarrow> Session option \<Rightarrow> 'w \<Rightarrow> 'w sent" where
  "diskdrive_Collect sys s w =
     (case sessionQuery sys s ''root/CIMv2'' diskdrive_query diskdrive_fields w of
        Returns (None, [], w') \<Rightarrow> Returns (Some (ErrorText ''WMI query returned empty result set'' []), [], w')
      | res \<Rightarrow> sendQuery diskdrive_descs (\<lambda>rs. concat (map diskdrive_lines rs)) res)"

section \<open>Quotas\<close>

definition fsrmquota_fields :: miStruct where
  "fsrmquota_fields =
     [miField ''Path'' ''Path'' Mi.KString,
      miField ''PeakUsage'' ''PeakUsage'' (Mi.KUint 64),
      miField ''Size'' ''Size'' (Mi.KUint 64),
      miField ''Usage'' ''Usage'' (Mi.KUint 64),
      miField ''Description'' ''Description'' Mi.KString,
      miField ''Template'' ''Template'' Mi.KString,
      miField ''Disabled'' ''Disabled'' Mi.KBool,
      miField ''MatchesTemplate'' ''MatchesTemplate'' Mi.KBool,
      miField ''SoftLimit'' ''SoftLimit'' Mi.KBool]"

definition fsrmquota_descs :: descTable where
  "fsrmquota_descs =
     [(''quotasCount'', NewDesc (BuildFQName Namespace ''fsrmquota'' ''count'')
        ''Number of Quotas'' []),
      (''peakUsage'', NewDesc (BuildFQName Namespace ''fsrmquota'' ''peak_usage_bytes'')
        ''The highest amount of disk space usage charged to this quota. (PeakUsage)'' [''path'', ''template'']),
      (''size'', NewDesc (BuildFQName Namespace ''fsrmquota'' ''size_bytes'')
        ''The size of the quota. (Size)'' [''path'', ''template'']),
      (''usage'', NewDesc (BuildFQName Namespace ''fsrmquota'' ''usage_bytes'')
        ''The current amount of disk space usage charged to this quota. (Usage)'' [''path'', ''template'']),
      (''description'', NewDesc (BuildFQName Namespace ''fsrmquota'' ''description'')
        ''Description of the quota (Description)'' [''path'', ''template'', ''description'']),
      (''disabled'', NewDesc (BuildFQName Namespace ''fsrmquota'' ''disabled'')
        ''If 1, the quota is disabled. The default value is 0. (Disabled)'' [''path'', ''template'']),
      (''softLimit'', NewDesc (BuildFQName Namespace ''fsrmquota'' ''softlimit'')
        ''If 1, the quota is a soft limit. If 0, the quota is a hard limit. The default value is 0. Optional (SoftLimit)'' [''path'', ''template'']),
      (''template'', NewDesc (BuildFQName Namespace ''fsrmquota'' ''template'')
        ''Quota template name. (Template)'' [''path'', ''template'']),
      (''matchesTemplate'', NewDesc (BuildFQName Namespace ''fsrmquota'' ''matchestemplate'')
        ''If 1, the property values of this quota match those values of the template from which it was derived. (MatchesTemplate)'' [''path'', ''template''])]"

definition fsrmquota_query :: string where
  "fsrmquota_query = ''SELECT * FROM MSFT_FSRMQuota''"

definition quotaKey :: "miRow \<Rightarrow> string \<times> string" where
  "quotaKey r = (miStr fsrmquota_fields r ''Path'', miStr fsrmquota_fields r ''Template'')"

definition fsrmquota_lines :: "miRow \<Rightarrow> line list" where
  "fsrmquota_lines r =
     (let st = fsrmquota_fields; path = miStr st r ''Path''; template = miStr st r ''Template'' in
      [(''peakUsage'', GaugeValue, miNum st r ''PeakUsage'', [path, template]),
       (''size'', GaugeValue, miNum st r ''Size'', [path, template]),
       (''usage'', GaugeValue, miNum st r ''Usage'', [path, template]),
       (''description'', GaugeValue, F_Fin 1, [path, template, miStr st r ''Description'']),
       (''disabled'', GaugeValue, BoolToFloat (miBool st r ''Disabled''), [path, template]),
       (''matchesTemplate'', GaugeValue, BoolToFloat (miBool st r ''MatchesTemplate''), [path, template]),
       (''softLimit'', GaugeValue, BoolToFloat (miBool st r ''SoftLimit''), [path, template])])"

definition fsrmquota_rows :: "miRow list \<Rightarrow> line list" where
  "fsrmquota_rows rs = concat (map fsrmquota_lines rs) @ [(''quotasCount'', GaugeValue, f64_of_int (int (length rs)), [])]"

definition fsrmquota_Build :: "'w mi_system \<Rightarrow> Session option \<Rightarrow> 'w \<Rightarrow> (go_error option \<times> Session option \<times> 'w) exec" where
  "fsrmquota_Build sys = buildQuery sys ''root/microsoft/windows/fsrm'' fsrmquota_query fsrmquota_fields"

definition fsrmquota_Collect :: "'w mi_system \<Rightarrow> Session option \<Rightarrow> 'w \<Rightarrow> 'w sent" where
  "fsrmquota_Collect sys s w =
     sendQuery fsrmquota_descs fsrmquota_rows (sessionQuery sys s ''root/microsoft/windows/fsrm'' fsrmquota_query fsrmquota_fields w)"

section \<open>Printers\<close>

definition printer_fields :: miStruct where
  "printer_fields =
     [miField ''Name'' ''Name'' Mi.KString,
      miField ''Default'' ''Default'' Mi.KBool,
      miField ''PrinterStatus'' ''PrinterStatus'' (Mi.KUint 16),
      miField ''JobCountSinceLastReset'' ''JobCountSinceLastReset'' (Mi.KUint 32)]"

definition printJob_fields :: miStruct where
  "printJob_fields =
     [miField ''Name'' ''Name'' Mi.KString,
      miField ''Status'' ''Status'' Mi.KString]"

definition printer_descs :: descTable where
  "printer_descs =
     [(''printerJobStatus'', NewDesc (BuildFQName Namespace ''printer'' ''job_status'')
        ''A counter of printer jobs by status'' [''printer'', ''status'']),
      (''printerStatus'', NewDesc (BuildFQName Namespace ''printer'' ''status'')
        ''Printer status'' [''printer'', ''status'']),
      (''printerJobCount'', NewDesc (BuildFQName Namespace ''printer'' ''job_count'')
        ''Number of jobs processed by the printer since the last reset'' [''printer''])]"

definition printerStatusMap :: "(nat \<times> string) list" where
  "printerStatusMap =
     [(1, ''Other''), (2, ''Unknown''), (3, ''Idle''), (4, ''Printing''), (5, ''Warmup''), (6, ''Stopped Printing''), (7, ''Offline'')]"

definition printer_query :: string where
  "printer_query = ''SELECT Name, Default, PrinterStatus, JobCountSinceLastReset FROM win32_Printer''"

definition printJob_query :: string where
  "printJob_query = ''SELECT Name, Status FROM win32_PrintJob''"

definition printer_lines :: "miRow \<Rightarrow> line list" where
  "printer_lines r =
     map (\<lambda>(status, name). (''printerStatus'', GaugeValue, F_Fin (if status = miNat printer_fields r ''PrinterStatus'' then 1 else 0),
            [miStr printer_fields r ''Name'', name])) printerStatusMap @
     [(''printerJobCount'', CounterValue, miNum printer_fields r ''JobCountSinceLastReset'', [miStr printer_fields r ''Name''])]"

definition collectPrinterStatus :: "(string \<Rightarrow> bool) \<Rightarrow> (string \<Rightarrow> bool) \<Rightarrow> 'w mi_system \<Rightarrow> Session option \<Rightarrow> 'w \<Rightarrow> 'w sent" where
  "collectPrinterStatus exclude include sys s w =
     sendQuery printer_descs (\<lambda>rs. concat (map printer_lines (filter (\<lambda>r. included exclude include (miStr printer_fields r ''Name'')) rs)))
       (sessionQuery sys s ''root/CIMv2'' printer_query printer_fields w)"

text \<open>The printer and the status of a job. The name of a job is that of the printer and a number, with a comma between them.\<close>

definition jobGroup :: "miRow \<Rightarrow> string \<times> string" where
  "jobGroup r = (hd (Split (miStr printJob_fields r ''Name'') (CHR '','')), miStr printJob_fields r ''Status'')"

definition groupPrintJobs :: "(string \<Rightarrow> bool) \<Rightarrow> (string \<Rightarrow> bool) \<Rightarrow> miRow list \<Rightarrow> (string \<times> string, nat) gomap" where
  "groupPrintJobs exclude include jobs =
     fold (map_inc (\<lambda>n. n + 1) 0) (filter (\<lambda>g. included exclude include (fst g)) (map jobGroup jobs)) []"

definition jobLines :: "(string \<times> string, nat) gomap \<Rightarrow> line list" where
  "jobLines groups = map (\<lambda>((printer, status), n). (''printerJobStatus'', GaugeValue, f64_of_int (int n), [printer, status])) groups"

definition collectPrinterJobStatus :: "(string \<Rightarrow> bool) \<Rightarrow> (string \<Rightarrow> bool) \<Rightarrow> 'w mi_system \<Rightarrow> Session option \<Rightarrow> 'w \<Rightarrow> 'w sent" where
  "collectPrinterJobStatus exclude include sys s w =
     sendQuery printer_descs (\<lambda>jobs. jobLines (groupPrintJobs exclude include jobs)) (sessionQuery sys s ''root/CIMv2'' printJob_query printJob_fields w)"

definition printer_Build :: "Session option \<Rightarrow> go_error option \<times> Session option" where
  "printer_Build s = (if s = None then (Some (ErrorText ''miSession is nil'' []), None) else (None, s))"

definition printerTable :: "(string \<Rightarrow> bool) \<Rightarrow> (string \<Rightarrow> bool) \<Rightarrow> 'w mi_system \<Rightarrow> Session option \<Rightarrow> (string \<times> ('w \<Rightarrow> 'w sent)) list" where
  "printerTable exclude include sys s =
     [(''status'', \<lambda>w. wrapSent ''failed to collect printer status metrics: %w'' [] (collectPrinterStatus exclude include sys s w)),
      (''jobs'', \<lambda>w. wrapSent ''failed to collect printer job status metrics: %w'' [] (collectPrinterJobStatus exclude include sys s w))]"

definition printer_Collect :: "(string \<Rightarrow> bool) \<Rightarrow> (string \<Rightarrow> bool) \<Rightarrow> 'w mi_system \<Rightarrow> Session option \<Rightarrow> 'w \<Rightarrow> 'w sent" where
  "printer_Collect exclude include sys s w =
     (case runQueries (printerTable exclude include sys s) [''status'', ''jobs''] w of
        Returns (es, ms, w') \<Rightarrow> Returns (errors_Join es, ms, w')
      | Panics \<Rightarrow> Panics
      | StillRunning \<Rightarrow> StillRunning)"

section \<open>What is accepted\<close>

lemma cpu_info_names: "distinct (map (\<lambda>(n, d). fqName d) cpu_info_descs)" by code_simp

lemma cpu_info_table: "table_ok cpu_info_descs (cpu_info_lines r)"
  by (simp add: table_ok_def cpu_info_lines_def cpu_info_descs_def Let_def)

interpretation cpu_info: keyed_table cpu_info_descs cpu_info_lines "\<lambda>r. TrimRight (miStr cpu_info_fields r ''DeviceID'') '' ''" "\<lambda>n. if n = ''cpuInfo'' then 1 else 0"
  by unfold_locales (auto simp: cpu_info_names cpu_info_table, simp add: cpu_info_lines_def Let_def)

lemma diskdrive_names: "distinct (map (\<lambda>(n, d). fqName d) diskdrive_descs)" by code_simp

lemma diskdrive_table: "table_ok diskdrive_descs (diskdrive_lines r)"
  by (simp add: table_ok_def diskdrive_lines_def allDiskStatus_def availMap_def diskdrive_descs_def)

interpretation diskdrive: keyed_table diskdrive_descs diskdrive_lines diskName "\<lambda>n. if n = ''diskInfo'' then 3 else 0"
  by unfold_locales (auto simp: diskdrive_names diskdrive_table, simp add: diskdrive_lines_def allDiskStatus_def availMap_def)

lemma fsrmquota_names: "distinct (map (\<lambda>(n, d). fqName d) fsrmquota_descs)" by code_simp

lemma fsrmquota_table: "table_ok fsrmquota_descs (fsrmquota_lines r)"
  by (simp add: table_ok_def fsrmquota_lines_def fsrmquota_descs_def Let_def)

interpretation fsrmquota: labelled_table fsrmquota_descs fsrmquota_lines quotaKey "\<lambda>n ls. (ls ! 0, ls ! 1)"
  by unfold_locales (auto simp: fsrmquota_names fsrmquota_table, simp add: fsrmquota_lines_def quotaKey_def Let_def)

lemma printer_names: "distinct (map (\<lambda>(n, d). fqName d) printer_descs)" by code_simp

lemma printer_table: "table_ok printer_descs (printer_lines r)"
  by (simp add: table_ok_def printer_lines_def printerStatusMap_def printer_descs_def)

interpretation printer: keyed_table printer_descs printer_lines "\<lambda>r. miStr printer_fields r ''Name''" "\<lambda>n. 0"
  by unfold_locales (auto simp: printer_names printer_table, simp add: printer_lines_def printerStatusMap_def)

text \<open>Answers with different names are accepted, and the scrape comes back when the query does.\<close>

theorem cpu_info_accepted:
  assumes "answered (\<lambda>rs. distinct (map (\<lambda>r. TrimRight (miStr cpu_info_fields r ''DeviceID'') '' '') rs))
             (sessionQuery sys s ''root/CIMv2'' cpu_info_query cpu_info_fields w)"
  shows "returns_ok (\<lambda>w. True) (set (descNames cpu_info_descs)) (cpu_info_Collect sys s w)"
  unfolding cpu_info_Collect_def using assms by (rule sendQuery_ok) (rule cpu_info.rows_accepted)

theorem diskdrive_accepted:
  assumes "answered (\<lambda>rs. distinct (map diskName rs)) (sessionQuery sys s ''root/CIMv2'' diskdrive_query diskdrive_fields w)"
  shows "returns_ok (\<lambda>w. True) (set (descNames diskdrive_descs)) (diskdrive_Collect sys s w)"
  using sendQuery_ok [OF assms, of diskdrive_descs "\<lambda>rs. concat (map diskdrive_lines rs)", OF diskdrive.rows_accepted]
  by (auto simp: diskdrive_Collect_def returns_ok_def split: exec.splits prod.splits option.splits list.splits)

lemma fsrmquota_rows_accepted:
  assumes "distinct (map quotaKey rs)"
  shows "accepted (sendAll fsrmquota_descs (fsrmquota_rows rs))"
proof -
  let ?d = "NewDesc (BuildFQName Namespace ''fsrmquota'' ''count'') ''Number of Quotas'' []"
  have "table_ok fsrmquota_descs (concat (map fsrmquota_lines rs) @ [(''quotasCount'', GaugeValue, f64_of_int (int (length rs)), [])] @ [])"
  proof (rule table_ok_between [where d = ?d])
    show "table_ok fsrmquota_descs (concat (map fsrmquota_lines rs) @ [])" using fsrmquota.rows_ok [OF assms] by simp
    show "map_of fsrmquota_descs ''quotasCount'' = Some ?d" by (simp add: fsrmquota_descs_def)
    show "list_all (\<lambda>(m, vt, v, ls). m \<noteq> ''quotasCount'') (concat (map fsrmquota_lines rs) @ [])"
      by (auto simp: list_all_iff fsrmquota_lines_def Let_def)
  qed simp_all
  then show ?thesis unfolding fsrmquota_rows_def by (simp add: fsrmquota.sendAll_accepted)
qed

theorem fsrmquota_accepted:
  assumes "answered (\<lambda>rs. distinct (map quotaKey rs)) (sessionQuery sys s ''root/microsoft/windows/fsrm'' fsrmquota_query fsrmquota_fields w)"
  shows "returns_ok (\<lambda>w. True) (set (descNames fsrmquota_descs)) (fsrmquota_Collect sys s w)"
  unfolding fsrmquota_Collect_def using assms by (rule sendQuery_ok) (rule fsrmquota_rows_accepted)

text \<open>A drive has exactly one status when its status is one of the known ones, and none otherwise.\<close>

lemma diskdrive_one_status:
  "length (filter (\<lambda>(n, vt, v, ls). n = ''status'' \<and> v = F_Fin 1) (diskdrive_lines r)) = (if miStr diskdrive_fields r ''Status'' \<in> set allDiskStatus then 1 else 0)"
proof -
  let ?s = "miStr diskdrive_fields r ''Status''"
  have "length (filter (\<lambda>(n, vt, v, ls). n = ''status'' \<and> v = F_Fin 1)
      (map (\<lambda>status. (''status'', GaugeValue, F_Fin (if status = ?s then 1 else 0), [diskName r, status])) xs)) = (if ?s \<in> set xs then 1 else 0)"
    if "distinct xs" for xs
    using that by (induction xs) (auto simp: filter_empty_conv)
  moreover have "distinct allDiskStatus" by (simp add: allDiskStatus_def)
  ultimately show ?thesis by (simp add: diskdrive_lines_def availMap_def)
qed

section \<open>Print jobs\<close>

lemma wf_groupPrintJobs: "wf_map (groupPrintJobs exclude include jobs)"
proof -
  have "wf_map (fold (map_inc (\<lambda>n. n + 1) 0) gs m)" if "wf_map m" for gs and m :: "(string \<times> string, nat) gomap"
    using that by (induction gs arbitrary: m) simp_all
  then show ?thesis by (simp add: groupPrintJobs_def)
qed

lemma jobLines_table: "wf_map groups \<Longrightarrow> table_ok printer_descs (jobLines groups)"
proof -
  assume "wf_map groups"
  moreover have "map (\<lambda>(n, vt, v, ls). (n, ls)) (jobLines groups) = map (\<lambda>(p, s). (''printerJobStatus'', [p, s])) (map fst groups)"
    by (auto simp: jobLines_def)
  ultimately have "distinct (map (\<lambda>(n, vt, v, ls). (n, ls)) (jobLines groups))"
    by (simp only: distinct_map [of _ "map fst groups"]) (auto simp: wf_map_def inj_on_def)
  moreover have "list_all (\<lambda>(n, vt, v, ls). case map_of printer_descs n of None \<Rightarrow> False | Some d \<Rightarrow> length ls = length (variableLabels d)) (jobLines groups)"
    by (auto simp: list_all_iff jobLines_def printer_descs_def)
  ultimately show ?thesis by (simp add: table_ok_def)
qed

text \<open>
  The print jobs are counted exactly: the number of a printer and a status is that of the jobs with them, for the printers that the filter keeps, and
  the metrics are accepted whatever the jobs are.
\<close>

theorem print_jobs_counted:
  "map_get0 0 (groupPrintJobs exclude include jobs) (p, st) =
     (if included exclude include p then length (filter (\<lambda>r. jobGroup r = (p, st)) jobs) else 0) \<and>
   accepted (sendAll printer_descs (jobLines (groupPrintJobs exclude include jobs)))"
proof
  have "((\<lambda>n. n + 1) ^^ k) 0 = (k :: nat)" for k by (induction k) simp_all
  then have "map_get0 0 (groupPrintJobs exclude include jobs) (p, st) = count_list (filter (\<lambda>g. included exclude include (fst g)) (map jobGroup jobs)) (p, st)"
    by (simp add: groupPrintJobs_def map_get0_incs map_get0_def [of 0 "[]"])
  also have "\<dots> = (if included exclude include p then length (filter (\<lambda>r. jobGroup r = (p, st)) jobs) else 0)"
    by (induction jobs) auto
  finally show "map_get0 0 (groupPrintJobs exclude include jobs) (p, st) =
     (if included exclude include p then length (filter (\<lambda>r. jobGroup r = (p, st)) jobs) else 0)" .
  show "accepted (sendAll printer_descs (jobLines (groupPrintJobs exclude include jobs)))"
    by (intro printer.sendAll_accepted jobLines_table wf_groupPrintJobs)
qed

end
