(* ===== verification/Terminal_Services.thy ===== *)
theory Terminal_Services
  imports Mi_Table
begin

text \<open>
  The terminal services collector (internal/collector/terminal\_services): the sessions, the counters of the sessions and, on a connection broker, its counters. Whether the host
  is a broker is asked with a query. The functions of wtsapi32.dll are parameters. The results: the counters of the sessions are always accepted, and
  the broker is never detected.
\<close>

section \<open>The connection broker\<close>

text \<open>\<open>Win32_ServerFeature\<close> has a field without a tag.\<close>

definition serverFeature_fields :: miStruct where
  "serverFeature_fields = [miField ''ID'' '''' (Mi.KUint 32)]"

definition ConnectionBrokerFeatureID :: nat where
  "ConnectionBrokerFeatureID = 133"

definition isConnectionBrokerServer :: "'w mi_system \<Rightarrow> Session option \<Rightarrow> 'w \<Rightarrow> (bool \<times> 'w) exec" where
  "isConnectionBrokerServer sys s w =
     (case sessionQuery sys s ''root/CIMv2'' ''SELECT * FROM Win32_ServerFeature'' serverFeature_fields w of
        Returns (Some e, rs, w') \<Rightarrow> Returns (False, w')
      | Returns (None, rs, w') \<Rightarrow> Returns (list_ex (\<lambda>r. miNat serverFeature_fields r ''ID'' = ConnectionBrokerFeatureID) rs, w')
      | Panics \<Rightarrow> Panics
      | StillRunning \<Rightarrow> StillRunning)"

section \<open>Tables\<close>

definition ts_session_fields :: "structField list" where
  "ts_session_fields =
     [nameField,
      perfField ''HandleCount'' ''Handle Count'',
      perfField ''PageFaultsPersec'' ''Page Faults/sec'',
      perfField ''PageFileBytes'' ''Page File Bytes'',
      perfField ''PageFileBytesPeak'' ''Page File Bytes Peak'',
      perfField ''PercentPrivilegedTime'' ''% Privileged Time'',
      perfField ''PercentProcessorTime'' ''% Processor Time'',
      perfField ''PercentUserTime'' ''% User Time'',
      perfField ''PoolNonpagedBytes'' ''Pool Nonpaged Bytes'',
      perfField ''PoolPagedBytes'' ''Pool Paged Bytes'',
      perfField ''PrivateBytes'' ''Private Bytes'',
      perfField ''ThreadCount'' ''Thread Count'',
      perfField ''VirtualBytes'' ''Virtual Bytes'',
      perfField ''VirtualBytesPeak'' ''Virtual Bytes Peak'',
      perfField ''WorkingSet'' ''Working Set'',
      perfField ''WorkingSetPeak'' ''Working Set Peak'']"

definition ts_session_descs :: descTable where
  "ts_session_descs =
     [(''handleCount'', NewDesc (BuildFQName Namespace ''terminal_services'' ''handles'')
        ''Total number of handles currently opened by this process. This number is the sum of the handles currently opened by each thread in this process.'' [''session_name'']),
      (''pageFaultsPerSec'', NewDesc (BuildFQName Namespace ''terminal_services'' ''page_fault_total'')
        ''Rate at which page faults occur in the threads executing in this process. A page fault occurs when a thread refers to a virtual memory page that is not in its working set in main memory. The page may not be retrieved from disk if it is on the standby list and therefore already in main memory. The page also may not be retrieved if it is in use by another process which shares the page.'' [''session_name'']),
      (''pageFileBytes'', NewDesc (BuildFQName Namespace ''terminal_services'' ''page_file_bytes'')
        ''Current number of bytes this process has used in the paging file(s). Paging files are used to store pages of memory used by the process that are not contained in other files. Paging files are shared by all processes, and lack of space in paging files can prevent other processes from allocating memory.'' [''session_name'']),
      (''pageFileBytesPeak'', NewDesc (BuildFQName Namespace ''terminal_services'' ''page_file_bytes_peak'')
        ''Maximum number of bytes this process has used in the paging file(s). Paging files are used to store pages of memory used by the process that are not contained in other files. Paging files are shared by all processes, and lack of space in paging files can prevent other processes from allocating memory.'' [''session_name'']),
      (''percentCPUTime'', NewDesc (BuildFQName Namespace ''terminal_services'' ''cpu_time_seconds_total'')
        ''Total elapsed time that this process's threads have spent executing code.'' [''mode'', ''session_name'']),
      (''poolNonPagedBytes'', NewDesc (BuildFQName Namespace ''terminal_services'' ''pool_non_paged_bytes'')
        ''Number of bytes in the non-paged pool, an area of system memory (physical memory used by the operating system) for objects that cannot be written to disk, but must remain in physical memory as long as they are allocated. This property displays the last observed value only; it is not an average.'' [''session_name'']),
      (''poolPagedBytes'', NewDesc (BuildFQName Namespace ''terminal_services'' ''pool_paged_bytes'')
        ''Number of bytes in the paged pool, an area of system memory (physical memory used by the operating system) for objects that can be written to disk when they are not being used. This property displays the last observed value only; it is not an average.'' [''session_name'']),
      (''privateBytes'', NewDesc (BuildFQName Namespace ''terminal_services'' ''private_bytes'')
        ''Current number of bytes this process has allocated that cannot be shared with other processes.'' [''session_name'']),
      (''threadCount'', NewDesc (BuildFQName Namespace ''terminal_services'' ''threads'')
        ''Number of threads currently active in this process. An instruction is the basic unit of execution in a processor, and a thread is the object that executes instructions. Every running process has at least one thread.'' [''session_name'']),
      (''virtualBytes'', NewDesc (BuildFQName Namespace ''terminal_services'' ''virtual_bytes'')
        ''Current size, in bytes, of the virtual address space the process is using. Use of virtual address space does not necessarily imply corresponding use of either disk or main memory pages. Virtual space is finite and, by using too much, the process can limit its ability to load libraries.'' [''session_name'']),
      (''virtualBytesPeak'', NewDesc (BuildFQName Namespace ''terminal_services'' ''virtual_bytes_peak'')
        ''Maximum number of bytes of virtual address space the process has used at any one time. Use of virtual address space does not necessarily imply corresponding use of either disk or main memory pages. Virtual space is finite and, by using too much, the process might limit its ability to load libraries.'' [''session_name'']),
      (''workingSet'', NewDesc (BuildFQName Namespace ''terminal_services'' ''working_set_bytes'')
        ''Current number of bytes in the working set of this process. The working set is the set of memory pages touched recently by the threads in the process. If free memory in the computer is above a threshold, pages are left in the working set of a process even if they are not in use. When free memory falls below a threshold, pages are trimmed from working sets. If they are needed, they are then soft-faulted back into the working set before they leave main memory.'' [''session_name'']),
      (''workingSetPeak'', NewDesc (BuildFQName Namespace ''terminal_services'' ''working_set_bytes_peak'')
        ''Maximum number of bytes in the working set of this process at any point in time. The working set is the set of memory pages touched recently by the threads in the process. If free memory in the computer is above a threshold, pages are left in the working set of a process even if they are not in use. When free memory falls below a threshold, pages are trimmed from working sets. If they are needed, they are then soft-faulted back into the working set before they leave main memory.'' [''session_name''])]"

definition ts_session_lines :: "row \<Rightarrow> line list" where
  "ts_session_lines r =
     [(''handleCount'', GaugeValue, num ts_session_fields r ''HandleCount'', [rowName ts_session_fields r]),
      (''pageFaultsPerSec'', CounterValue, num ts_session_fields r ''PageFaultsPersec'', [rowName ts_session_fields r]),
      (''pageFileBytes'', GaugeValue, num ts_session_fields r ''PageFileBytes'', [rowName ts_session_fields r]),
      (''pageFileBytesPeak'', GaugeValue, num ts_session_fields r ''PageFileBytesPeak'', [rowName ts_session_fields r]),
      (''percentCPUTime'', CounterValue, num ts_session_fields r ''PercentPrivilegedTime'', [rowName ts_session_fields r, ''privileged'']),
      (''percentCPUTime'', CounterValue, num ts_session_fields r ''PercentProcessorTime'', [rowName ts_session_fields r, ''processor'']),
      (''percentCPUTime'', CounterValue, num ts_session_fields r ''PercentUserTime'', [rowName ts_session_fields r, ''user'']),
      (''poolNonPagedBytes'', GaugeValue, num ts_session_fields r ''PoolNonpagedBytes'', [rowName ts_session_fields r]),
      (''poolPagedBytes'', GaugeValue, num ts_session_fields r ''PoolPagedBytes'', [rowName ts_session_fields r]),
      (''privateBytes'', GaugeValue, num ts_session_fields r ''PrivateBytes'', [rowName ts_session_fields r]),
      (''threadCount'', GaugeValue, num ts_session_fields r ''ThreadCount'', [rowName ts_session_fields r]),
      (''virtualBytes'', GaugeValue, num ts_session_fields r ''VirtualBytes'', [rowName ts_session_fields r]),
      (''virtualBytesPeak'', GaugeValue, num ts_session_fields r ''VirtualBytesPeak'', [rowName ts_session_fields r]),
      (''workingSet'', GaugeValue, num ts_session_fields r ''WorkingSet'', [rowName ts_session_fields r]),
      (''workingSetPeak'', GaugeValue, num ts_session_fields r ''WorkingSetPeak'', [rowName ts_session_fields r])]"

definition ts_broker_fields :: "structField list" where
  "ts_broker_fields =
     [perfField ''SuccessfulConnections'' ''Successful Connections'',
      perfField ''PendingConnections'' ''Pending Connections'',
      perfField ''FailedConnections'' ''Failed Connections'']"

definition ts_broker_descs :: descTable where
  "ts_broker_descs =
     [(''connectionBrokerPerformance'', NewDesc (BuildFQName Namespace ''terminal_services'' ''connection_broker_performance_total'')
        ''The total number of connections handled by the Connection Brokers since the service started.'' [''connection''])]"

definition ts_broker_lines :: "row \<Rightarrow> line list" where
  "ts_broker_lines r =
     [(''connectionBrokerPerformance'', CounterValue, num ts_broker_fields r ''SuccessfulConnections'', [''Successful'']),
      (''connectionBrokerPerformance'', CounterValue, num ts_broker_fields r ''PendingConnections'', [''Pending'']),
      (''connectionBrokerPerformance'', CounterValue, num ts_broker_fields r ''FailedConnections'', [''Failed''])]"

definition ts_info_descs :: descTable where
  "ts_info_descs =
     [(''sessionInfo'', NewDesc (BuildFQName Namespace ''terminal_services'' ''session_info'')
        ''Terminal Services sessions info'' [''session_name'', ''user'', ''host'', ''state'', ''id''])]"

section \<open>Sessions\<close>

record WTSSession =
  ExecEnvID :: u32
  wtsState :: u32
  SessionID :: u32
  SessionName :: string
  HostName :: string
  UserName :: string
  DomainName :: string
  FarmName :: string

definition WTSSessionStates :: "(u32 \<times> string) list" where
  "WTSSessionStates =
     [(0, ''active''), (1, ''connected''), (2, ''connect_query''), (3, ''shadow''), (4, ''disconnected''), (5, ''idle''), (6, ''listen''), (7, ''reset''),
      (8, ''down''), (9, ''init'')]"

record 'w wts_api =
  WTSOpenServer :: "'w \<Rightarrow> (go_error + u64) \<times> 'w"
  WTSEnumerateSessionsEx :: "u64 \<Rightarrow> 'w \<Rightarrow> (go_error + WTSSession list) \<times> 'w"
  WTSCloseServer :: "u64 \<Rightarrow> 'w \<Rightarrow> go_error option \<times> 'w"

definition wtsName :: "WTSSession \<Rightarrow> string" where
  "wtsName se = ReplaceAll (SessionName se) ''#'' '' ''"

definition wtsLines :: "WTSSession \<Rightarrow> line list" where
  "wtsLines se =
     (let userName = (if DomainName se \<noteq> [] then DomainName se @ [CHR 0x5C] @ UserName se else UserName se) in
      map (\<lambda>(stateID, stateName). (''sessionInfo'', GaugeValue, F_Fin (if wtsState se = stateID then 1 else 0),
             [wtsName se, userName, HostName se, stateName, show_nat (unat (SessionID se))])) WTSSessionStates)"

text \<open>The rows of the named remote sessions; of names that differ only in case the first is used.\<close>

fun tsRows :: "string list \<Rightarrow> row list \<Rightarrow> row list" where
  "tsRows names [] = []"
| "tsRows names (r # rs) =
     (let n = ToLower (rowName ts_session_fields r) in
      if n = '''' \<or> n = ''services'' \<or> n = ''console'' then tsRows names rs
      else if n \<in> set names then tsRows names rs
      else r # tsRows (n # names) rs)"

section \<open>Build, Collect and Close\<close>

record tsCollector =
  connectionBrokerEnabled :: bool
  sessionSource :: perfSource
  brokerSource :: perfSource
  hServer :: u64

definition terminal_services_Build ::
  "'w mi_system \<Rightarrow> 'w pdh_api \<Rightarrow> 'w wts_api \<Rightarrow> u16 \<Rightarrow> Session option \<Rightarrow> tsCollector \<Rightarrow> 'w \<Rightarrow> (go_error option \<times> tsCollector \<times> 'w) exec" where
  "terminal_services_Build sys api wts osBuild s c w =
     (if s = None then Returns (Some (ErrorText ''miSession is nil'' []), c, w)
      else case isConnectionBrokerServer sys s w of
             Panics \<Rightarrow> Panics
           | StillRunning \<Rightarrow> StillRunning
           | Returns (isBroker, w1) \<Rightarrow>
               (let c1 = c\<lparr>connectionBrokerEnabled := isBroker\<rparr> in
                case (if isBroker
                      then perfBuild api osBuild ''failed to create Remote Desktop Connection Broker Counterset collector: %w''
                             ''Remote Desktop Connection Broker Counterset'' [''*''] ts_broker_fields w1
                      else Some (None, brokerSource c1, w1)) of
                  None \<Rightarrow> Panics
                | Some (Some e, src, w2) \<Rightarrow> Returns (Some e, c1\<lparr>brokerSource := src\<rparr>, w2)
                | Some (None, src, w2) \<Rightarrow>
                    (let c2 = c1\<lparr>brokerSource := src\<rparr> in
                     case WTSOpenServer wts w2 of
                       (Inl e, w3) \<Rightarrow> Returns (Some (Wrapf ''failed to open WTS server: %w'' [] e), c2, w3)
                     | (Inr h, w3) \<Rightarrow>
                         (case perfBuild api osBuild ''failed to create Terminal Services Session collector: %w'' ''Terminal Services Session'' [''*''] ts_session_fields w3 of
                            None \<Rightarrow> Panics
                          | Some (err, src2, w4) \<Rightarrow> Returns (err, c2\<lparr>hServer := h, sessionSource := src2\<rparr>, w4)))))"

definition collectWTSSessions :: "'w wts_api \<Rightarrow> u64 \<Rightarrow> 'w \<Rightarrow> (unit, 'w) collected" where
  "collectWTSSessions wts h w =
     (case WTSEnumerateSessionsEx wts h w of
        (Inl e, w') \<Rightarrow> Some (Some (Wrapf ''failed to enumerate WTS sessions: %w'' [] e), [], (), w')
      | (Inr ss, w') \<Rightarrow>
          (case sendAll ts_info_descs (concat (map wtsLines (filter (\<lambda>se. wtsName se \<noteq> ''Services'') ss))) of
             None \<Rightarrow> None
           | Some ms \<Rightarrow> Some (None, ms, (), w')))"

definition collectTSSessionCounters :: "'w pdh_api \<Rightarrow> perfSource \<Rightarrow> 'w \<Rightarrow> (perfSource, 'w) collected" where
  "collectTSSessionCounters api =
     collectWith api ts_session_fields ''failed to collect Terminal Services Session metrics: %w'' ts_session_descs
       (\<lambda>rs. Inr (concat (map ts_session_lines (tsRows [] rs))))"

definition collectCollectionBrokerPerformanceCounter :: "'w pdh_api \<Rightarrow> perfSource \<Rightarrow> 'w \<Rightarrow> (perfSource, 'w) collected" where
  "collectCollectionBrokerPerformanceCounter api =
     collectIndex api ts_broker_fields ''failed to collect Remote Desktop Connection Broker Counterset metrics: %w'' ts_broker_descs ts_broker_lines"

definition terminal_services_Collect :: "'w pdh_api \<Rightarrow> 'w wts_api \<Rightarrow> tsCollector \<Rightarrow> 'w \<Rightarrow> (tsCollector, 'w) collected" where
  "terminal_services_Collect api wts c w =
     (case wrapErr ''failed collecting terminal services session infos: %w'' (collectWTSSessions wts (hServer c) w) of
        None \<Rightarrow> None
      | Some (e1, ms1, u, w1) \<Rightarrow>
          (case wrapErr ''failed collecting terminal services session count metrics: %w'' (collectTSSessionCounters api (sessionSource c) w1) of
             None \<Rightarrow> None
           | Some (e2, ms2, src, w2) \<Rightarrow>
               (if \<not> connectionBrokerEnabled c then Some (errors_Join (non_nil [e1, e2]), ms1 @ ms2, c\<lparr>sessionSource := src\<rparr>, w2)
                else case wrapErr ''failed collecting Connection Broker performance metrics: %w'' (collectCollectionBrokerPerformanceCounter api (brokerSource c) w2) of
                       None \<Rightarrow> None
                     | Some (e3, ms3, src3, w3) \<Rightarrow>
                         Some (errors_Join (non_nil [e1, e2, e3]), ms1 @ ms2 @ ms3, c\<lparr>sessionSource := src, brokerSource := src3\<rparr>, w3))))"

definition terminal_services_Close :: "'w pdh_api \<Rightarrow> 'w wts_api \<Rightarrow> tsCollector \<Rightarrow> 'w \<Rightarrow> go_error option \<times> tsCollector \<times> 'w" where
  "terminal_services_Close api wts c w =
     (case WTSCloseServer wts (hServer c) w of
        (Some e, w1) \<Rightarrow> (Some (Wrapf ''failed to close WTS server: %w'' [] e), c, w1)
      | (None, w1) \<Rightarrow>
          (case perfClose api (sessionSource c) w1 of
             (src, w2) \<Rightarrow>
               (if connectionBrokerEnabled c
                then case perfClose api (brokerSource c) w2 of (src2, w3) \<Rightarrow> (None, c\<lparr>sessionSource := src, brokerSource := src2\<rparr>, w3)
                else (None, c\<lparr>sessionSource := src\<rparr>, w2))))"

section \<open>The broker is never detected\<close>

lemma untagged_kept:
  "fillFields str inst [\<lparr>miTag = [], fkind = k\<rparr>] [v] = Some (None, [v])"
  by simp

lemma InstanceResult_untagged:
  assumes "InstanceResult str [\<lparr>miTag = [], fkind = k\<rparr>] cb u = Some u'" and "elemValue u = [v]" and "list_all (\<lambda>r. r = [v]) (dv u)"
  shows "elemValue u' = [v] \<and> list_all (\<lambda>r. r = [v]) (dv u')"
  using assms by (auto simp: InstanceResult_def sendErr_def closeErr_def bind_eq_Some_conv split: if_splits option.splits sum.splits)

lemma runCallbacks_untagged:
  "runCallbacks str [\<lparr>miTag = [], fkind = k\<rparr>] cbs u = Some u' \<Longrightarrow> elemValue u = [v] \<Longrightarrow> list_all (\<lambda>r. r = [v]) (dv u) \<Longrightarrow> list_all (\<lambda>r. r = [v]) (dv u')"
  by (induction cbs arbitrary: u) (auto split: option.splits dest: InstanceResult_untagged)

lemma serverFeature_rows:
  assumes "sessionQuery sys s ns q serverFeature_fields w = Returns (err, rs, w')"
  shows "list_all (\<lambda>r. r = [Mi.VUint 0]) rs"
proof -
  let ?f = "[\<lparr>miTag = [], fkind = Mi.KUint 32\<rparr>]"
  have "rs = [] \<or> (\<exists>u. runCallbacks (miText sys) ?f (miAnswer sys ns q w) (NewUnmarshalOperationsCallbacks ?f) = Some u \<and> rs = dv u)"
    using assms by (auto simp: sessionQuery_def Query_def QueryUnmarshal_def serverFeature_fields_def miField_def Let_def split: option.splits exec.splits prod.splits if_splits)
  then show ?thesis using runCallbacks_untagged [where v = "Mi.VUint 0"] by (fastforce simp: NewUnmarshalOperationsCallbacks_def)
qed

text \<open>
  C38: Whatever features the system reports, the host is not taken for a connection broker: the field for the identifier of a feature has no tag, so that it is zero in
  every row. Hence the metrics of the broker are never sent.
\<close>

theorem broker_never_detected:
  "case isConnectionBrokerServer sys s w of Returns (isBroker, w') \<Rightarrow> \<not> isBroker | _ \<Rightarrow> True"
proof (cases "sessionQuery sys s ''root/CIMv2'' ''SELECT * FROM Win32_ServerFeature'' serverFeature_fields w")
  case (Returns x)
  obtain err rs w' where x: "x = (err, rs, w')" by (metis prod_cases3)
  have "list_all (\<lambda>r. r = [Mi.VUint 0]) rs" by (rule serverFeature_rows [OF Returns [unfolded x]])
  then have "\<not> list_ex (\<lambda>r. miNat serverFeature_fields r ''ID'' = ConnectionBrokerFeatureID) rs"
    by (auto simp: list_all_iff list_ex_iff miNat_def miVal_def serverFeature_fields_def miField_def ConnectionBrokerFeatureID_def)
  then show ?thesis using Returns x by (cases err) (simp_all add: isConnectionBrokerServer_def)
qed (simp_all add: isConnectionBrokerServer_def)

section \<open>What is accepted\<close>

lemma ts_session_names: "distinct (map (\<lambda>(n, d). fqName d) ts_session_descs)" by code_simp

lemma ts_session_table: "table_ok ts_session_descs (ts_session_lines r)"
  by (rule table_ok_tails; unfold ts_session_lines_def line_simps) code_simp+

interpretation ts_session: keyed_table ts_session_descs ts_session_lines "rowName ts_session_fields" "\<lambda>n. 0"
  by unfold_locales (auto simp: ts_session_names ts_session_table, simp add: ts_session_lines_def)

lemma ts_broker_names: "distinct (map (\<lambda>(n, d). fqName d) ts_broker_descs)" by code_simp

lemma ts_broker_table: "table_ok ts_broker_descs (ts_broker_lines r)"
  by (rule table_ok_rests [of _ _ 0]; unfold ts_broker_lines_def line_simps rest_simps) code_simp+

interpretation ts_broker: first_row_collector ts_broker_descs ts_broker_lines
  by unfold_locales (rule ts_broker_names ts_broker_table)+

lemma tsRows_names:
  "distinct (map (\<lambda>r. ToLower (rowName ts_session_fields r)) (tsRows names rs)) \<and>
   set (map (\<lambda>r. ToLower (rowName ts_session_fields r)) (tsRows names rs)) \<inter> set names = {}"
proof (induction rs arbitrary: names)
  case Nil
  then show ?case by simp
next
  case (Cons r rs)
  show ?case using Cons.IH [of names] Cons.IH [of "ToLower (rowName ts_session_fields r) # names"] by (auto simp: Let_def)
qed

text \<open>The counters of the sessions are accepted for all rows, whatever their names are.\<close>

theorem session_counters_accepted:
  assumes "source_ok ts_session_fields src"
  shows "scrape_ok (perfCollect api ts_session_fields src w = None) (collectTSSessionCounters api src w)"
  unfolding collectTSSessionCounters_def
proof (rule collectWith_ok [OF assms, where rows_ok = "\<lambda>rs. True"])
  show "accepted (sendAll ts_session_descs lns)" if "Inr (concat (map ts_session_lines (tsRows [] rs))) = Inr lns" for rs lns
  proof -
    have "distinct (map (\<lambda>r. ToLower (rowName ts_session_fields r)) (tsRows [] rs))" using tsRows_names [of "[]" rs] by simp
    then have "distinct (map ToLower (map (rowName ts_session_fields) (tsRows [] rs)))" by (simp add: comp_def)
    then have "distinct (map (rowName ts_session_fields) (tsRows [] rs))" by (simp only: distinct_map)
    then show ?thesis using that ts_session.rows_accepted by auto
  qed
qed simp_all

end
