(* ===== verification/Perf_Local.thy ===== *)
theory Perf_Local
  imports Perf_Subs Utils
begin

text \<open>
  Collectors that put counters together with the answers of other system functions: the DHCP server with its scopes, the time service with the clock,
  and the paging files with their sizes (internal/collector/dhcp, time and pagefile). The system functions are parameters.
\<close>

section \<open>dhcp\<close>

definition dhcp_server_fields :: "structField list" where
  "dhcp_server_fields =
     [perfField ''AcksTotal'' ''Acks/sec'',
      perfField ''ActiveQueueLength'' ''Active Queue Length'',
      perfField ''ConflictCheckQueueLength'' ''Conflict Check Queue Length'',
      perfField ''DeclinesTotal'' ''Declines/sec'',
      perfField ''DeniedDueToMatch'' ''Denied due to match.'',
      perfField ''DeniedDueToNonMatch'' ''Denied due to match.'',
      perfField ''DiscoversTotal'' ''Discovers/sec'',
      perfField ''DuplicatesDroppedTotal'' ''Duplicates Dropped/sec'',
      perfField ''FailoverBndAckReceivedTotal'' ''Failover: BndAck received/sec.'',
      perfField ''FailoverBndAckSentTotal'' ''Failover: BndAck sent/sec.'',
      perfField ''FailoverBndUpdDropped'' ''Failover: BndUpd Dropped.'',
      perfField ''FailoverBndUpdPendingOutboundQueue'' ''Failover: BndUpd pending in outbound queue.'',
      perfField ''FailoverBndUpdReceivedTotal'' ''Failover: BndUpd received/sec.'',
      perfField ''FailoverBndUpdSentTotal'' ''Failover: BndUpd sent/sec.'',
      perfField ''FailoverTransitionsCommunicationInterruptedState'' ''Failover: Transitions to COMMUNICATION-INTERRUPTED state.'',
      perfField ''FailoverTransitionsPartnerDownState'' ''Failover: Transitions to PARTNER-DOWN state.'',
      perfField ''FailoverTransitionsRecoverState'' ''Failover: Transitions to RECOVER state.'',
      perfField ''InformsTotal'' ''Informs/sec'',
      perfField ''NacksTotal'' ''Nacks/sec'',
      perfField ''OfferQueueLength'' ''Offer Queue Length'',
      perfField ''OffersTotal'' ''Offers/sec'',
      perfField ''PacketsExpiredTotal'' ''Packets Expired/sec'',
      perfField ''PacketsReceivedTotal'' ''Packets Received/sec'',
      perfField ''ReleasesTotal'' ''Releases/sec'',
      perfField ''RequestsTotal'' ''Requests/sec'']"

definition dhcp_server_descs :: descTable where
  "dhcp_server_descs =
     [(''packetsReceivedTotal'', NewDesc (BuildFQName Namespace ''dhcp'' ''packets_received_total'')
        ''Total number of packets received by the DHCP server (PacketsReceivedTotal)'' []),
      (''duplicatesDroppedTotal'', NewDesc (BuildFQName Namespace ''dhcp'' ''duplicates_dropped_total'')
        ''Total number of duplicate packets received by the DHCP server (DuplicatesDroppedTotal)'' []),
      (''packetsExpiredTotal'', NewDesc (BuildFQName Namespace ''dhcp'' ''packets_expired_total'')
        ''Total number of packets expired in the DHCP server message queue (PacketsExpiredTotal)'' []),
      (''activeQueueLength'', NewDesc (BuildFQName Namespace ''dhcp'' ''active_queue_length'')
        ''Number of packets in the processing queue of the DHCP server (ActiveQueueLength)'' []),
      (''conflictCheckQueueLength'', NewDesc (BuildFQName Namespace ''dhcp'' ''conflict_check_queue_length'')
        ''Number of packets in the DHCP server queue waiting on conflict detection (ping). (ConflictCheckQueueLength)'' []),
      (''discoversTotal'', NewDesc (BuildFQName Namespace ''dhcp'' ''discovers_total'')
        ''Total DHCP Discovers received by the DHCP server (DiscoversTotal)'' []),
      (''offersTotal'', NewDesc (BuildFQName Namespace ''dhcp'' ''offers_total'')
        ''Total DHCP Offers sent by the DHCP server (OffersTotal)'' []),
      (''requestsTotal'', NewDesc (BuildFQName Namespace ''dhcp'' ''requests_total'')
        ''Total DHCP Requests received by the DHCP server (RequestsTotal)'' []),
      (''informsTotal'', NewDesc (BuildFQName Namespace ''dhcp'' ''informs_total'')
        ''Total DHCP Informs received by the DHCP server (InformsTotal)'' []),
      (''acksTotal'', NewDesc (BuildFQName Namespace ''dhcp'' ''acks_total'')
        ''Total DHCP Acks sent by the DHCP server (AcksTotal)'' []),
      (''nACKsTotal'', NewDesc (BuildFQName Namespace ''dhcp'' ''nacks_total'')
        ''Total DHCP Nacks sent by the DHCP server (NacksTotal)'' []),
      (''declinesTotal'', NewDesc (BuildFQName Namespace ''dhcp'' ''declines_total'')
        ''Total DHCP Declines received by the DHCP server (DeclinesTotal)'' []),
      (''releasesTotal'', NewDesc (BuildFQName Namespace ''dhcp'' ''releases_total'')
        ''Total DHCP Releases received by the DHCP server (ReleasesTotal)'' []),
      (''offerQueueLength'', NewDesc (BuildFQName Namespace ''dhcp'' ''offer_queue_length'')
        ''Number of packets in the offer queue of the DHCP server (OfferQueueLength)'' []),
      (''deniedDueToMatch'', NewDesc (BuildFQName Namespace ''dhcp'' ''denied_due_to_match_total'')
        ''Total number of DHCP requests denied, based on matches from the Deny list (DeniedDueToMatch)'' []),
      (''deniedDueToNonMatch'', NewDesc (BuildFQName Namespace ''dhcp'' ''denied_due_to_nonmatch_total'')
        ''Total number of DHCP requests denied, based on non-matches from the Allow list (DeniedDueToNonMatch)'' []),
      (''failoverBndUpdSentTotal'', NewDesc (BuildFQName Namespace ''dhcp'' ''failover_bndupd_sent_total'')
        ''Number of DHCP fail over Binding Update messages sent (FailoverBndupdSentTotal)'' []),
      (''failoverBndUpdReceivedTotal'', NewDesc (BuildFQName Namespace ''dhcp'' ''failover_bndupd_received_total'')
        ''Number of DHCP fail over Binding Update messages received (FailoverBndupdReceivedTotal)'' []),
      (''failoverBndAckSentTotal'', NewDesc (BuildFQName Namespace ''dhcp'' ''failover_bndack_sent_total'')
        ''Number of DHCP fail over Binding Ack messages sent (FailoverBndackSentTotal)'' []),
      (''failoverBndAckReceivedTotal'', NewDesc (BuildFQName Namespace ''dhcp'' ''failover_bndack_received_total'')
        ''Number of DHCP fail over Binding Ack messages received (FailoverBndackReceivedTotal)'' []),
      (''failoverBndUpdPendingOutboundQueue'', NewDesc (BuildFQName Namespace ''dhcp'' ''failover_bndupd_pending_in_outbound_queue'')
        ''Number of pending outbound DHCP fail over Binding Update messages (FailoverBndupdPendingOutboundQueue)'' []),
      (''failoverTransitionsCommunicationInterruptedState'', NewDesc (BuildFQName Namespace ''dhcp'' ''failover_transitions_communicationinterrupted_state_total'')
        ''Total number of transitions into COMMUNICATION INTERRUPTED state (FailoverTransitionsCommunicationinterruptedState)'' []),
      (''failoverTransitionsPartnerDownState'', NewDesc (BuildFQName Namespace ''dhcp'' ''failover_transitions_partnerdown_state_total'')
        ''Total number of transitions into PARTNER DOWN state (FailoverTransitionsPartnerdownState)'' []),
      (''failoverTransitionsRecoverState'', NewDesc (BuildFQName Namespace ''dhcp'' ''failover_transitions_recover_total'')
        ''Total number of transitions into RECOVER state (FailoverTransitionsRecoverState)'' []),
      (''failoverBndUpdDropped'', NewDesc (BuildFQName Namespace ''dhcp'' ''failover_bndupd_dropped_total'')
        ''Total number of DHCP fail over Binding Updates dropped (FailoverBndupdDropped)'' [])]"

definition dhcp_server_lines :: "row \<Rightarrow> line list" where
  "dhcp_server_lines r =
     [(''packetsReceivedTotal'', CounterValue, num dhcp_server_fields r ''PacketsReceivedTotal'', []),
      (''duplicatesDroppedTotal'', CounterValue, num dhcp_server_fields r ''DuplicatesDroppedTotal'', []),
      (''packetsExpiredTotal'', CounterValue, num dhcp_server_fields r ''PacketsExpiredTotal'', []),
      (''activeQueueLength'', GaugeValue, num dhcp_server_fields r ''ActiveQueueLength'', []),
      (''conflictCheckQueueLength'', GaugeValue, num dhcp_server_fields r ''ConflictCheckQueueLength'', []),
      (''discoversTotal'', CounterValue, num dhcp_server_fields r ''DiscoversTotal'', []),
      (''offersTotal'', CounterValue, num dhcp_server_fields r ''OffersTotal'', []),
      (''requestsTotal'', CounterValue, num dhcp_server_fields r ''RequestsTotal'', []),
      (''informsTotal'', CounterValue, num dhcp_server_fields r ''InformsTotal'', []),
      (''acksTotal'', CounterValue, num dhcp_server_fields r ''AcksTotal'', []),
      (''nACKsTotal'', CounterValue, num dhcp_server_fields r ''NacksTotal'', []),
      (''declinesTotal'', CounterValue, num dhcp_server_fields r ''DeclinesTotal'', []),
      (''releasesTotal'', CounterValue, num dhcp_server_fields r ''ReleasesTotal'', []),
      (''offerQueueLength'', GaugeValue, num dhcp_server_fields r ''OfferQueueLength'', []),
      (''deniedDueToMatch'', CounterValue, num dhcp_server_fields r ''DeniedDueToMatch'', []),
      (''deniedDueToNonMatch'', CounterValue, num dhcp_server_fields r ''DeniedDueToNonMatch'', []),
      (''failoverBndUpdSentTotal'', CounterValue, num dhcp_server_fields r ''FailoverBndUpdSentTotal'', []),
      (''failoverBndUpdReceivedTotal'', CounterValue, num dhcp_server_fields r ''FailoverBndUpdReceivedTotal'', []),
      (''failoverBndAckSentTotal'', CounterValue, num dhcp_server_fields r ''FailoverBndAckSentTotal'', []),
      (''failoverBndAckReceivedTotal'', CounterValue, num dhcp_server_fields r ''FailoverBndAckReceivedTotal'', []),
      (''failoverBndUpdPendingOutboundQueue'', GaugeValue, num dhcp_server_fields r ''FailoverBndUpdPendingOutboundQueue'', []),
      (''failoverTransitionsCommunicationInterruptedState'', CounterValue, num dhcp_server_fields r ''FailoverTransitionsCommunicationInterruptedState'', []),
      (''failoverTransitionsPartnerDownState'', CounterValue, num dhcp_server_fields r ''FailoverTransitionsPartnerDownState'', []),
      (''failoverTransitionsRecoverState'', CounterValue, num dhcp_server_fields r ''FailoverTransitionsRecoverState'', []),
      (''failoverBndUpdDropped'', CounterValue, num dhcp_server_fields r ''FailoverBndUpdDropped'', [])]"

definition dhcp_scope_descs :: descTable where
  "dhcp_scope_descs =
     [(''scopeInfo'', NewDesc (BuildFQName Namespace ''dhcp'' ''scope_info'')
        ''DHCP Scope information'' [''name'', ''superscope_name'', ''superscope_id'', ''scope'']),
      (''scopeState'', NewDesc (BuildFQName Namespace ''dhcp'' ''scope_state'')
        ''DHCP Scope state'' [''scope'', ''state'']),
      (''scopeAddressesFreeTotal'', NewDesc (BuildFQName Namespace ''dhcp'' ''scope_addresses_free'')
        ''DHCP Scope free addresses'' [''scope'']),
      (''scopeAddressesFreeOnPartnerServerTotal'', NewDesc (BuildFQName Namespace ''dhcp'' ''scope_addresses_free_on_partner_server'')
        ''DHCP Scope free addresses on partner server'' [''scope'']),
      (''scopeAddressesFreeOnThisServerTotal'', NewDesc (BuildFQName Namespace ''dhcp'' ''scope_addresses_free_on_this_server'')
        ''DHCP Scope free addresses on this server'' [''scope'']),
      (''scopeAddressesInUseTotal'', NewDesc (BuildFQName Namespace ''dhcp'' ''scope_addresses_in_use'')
        ''DHCP Scope addresses in use'' [''scope'']),
      (''scopeAddressesInUseOnPartnerServerTotal'', NewDesc (BuildFQName Namespace ''dhcp'' ''scope_addresses_in_use_on_partner_server'')
        ''DHCP Scope addresses in use on partner server'' [''scope'']),
      (''scopeAddressesInUseOnThisServerTotal'', NewDesc (BuildFQName Namespace ''dhcp'' ''scope_addresses_in_use_on_this_server'')
        ''DHCP Scope addresses in use on this server'' [''scope'']),
      (''scopePendingOffersTotal'', NewDesc (BuildFQName Namespace ''dhcp'' ''scope_pending_offers'')
        ''DHCP Scope pending offers'' [''scope'']),
      (''scopeReservedAddressTotal'', NewDesc (BuildFQName Namespace ''dhcp'' ''scope_reserved_address'')
        ''DHCP Scope reserved addresses'' [''scope''])]"

record DHCPV4Scope =
  scopeName :: string
  scopeState :: u32
  SuperScopeName :: string
  SuperScopeNumber :: u32
  ScopeIPAddress :: string
  AddressesFree :: f64
  AddressesFreeOnPartnerServer :: f64
  AddressesFreeOnThisServer :: f64
  AddressesInUse :: f64
  AddressesInUseOnPartnerServer :: f64
  AddressesInUseOnThisServer :: f64
  PendingOffers :: f64
  ReservedAddress :: f64

definition DHCP_SUBNET_STATE_NAMES :: "(u32 \<times> string) list" where
  "DHCP_SUBNET_STATE_NAMES = [(0, ''Enabled''), (1, ''Disabled''), (2, ''EnabledSwitched''), (3, ''DisabledSwitched''), (4, ''InvalidState'')]"

text \<open>The address of a scope is given in the form of its \<open>String\<close> method. A number that is not known is \<open>-1\<close> and is not sent.\<close>

definition scopeNumbers :: "DHCPV4Scope \<Rightarrow> (string \<times> f64) list" where
  "scopeNumbers s =
     [(''scopeAddressesFreeTotal'', AddressesFree s), (''scopeAddressesFreeOnPartnerServerTotal'', AddressesFreeOnPartnerServer s),
      (''scopeAddressesFreeOnThisServerTotal'', AddressesFreeOnThisServer s), (''scopeAddressesInUseTotal'', AddressesInUse s),
      (''scopeAddressesInUseOnPartnerServerTotal'', AddressesInUseOnPartnerServer s), (''scopeAddressesInUseOnThisServerTotal'', AddressesInUseOnThisServer s),
      (''scopePendingOffersTotal'', PendingOffers s), (''scopeReservedAddressTotal'', ReservedAddress s)]"

definition scopeHead :: "DHCPV4Scope \<Rightarrow> line list" where
  "scopeHead s =
     [(''scopeInfo'', GaugeValue, F_Fin 1, [scopeName s, SuperScopeName s, show_nat (unat (SuperScopeNumber s)), ScopeIPAddress s])] @
     map (\<lambda>(state, name). (''scopeState'', GaugeValue, F_Fin (if state = scopeState s then 1 else 0), [ScopeIPAddress s, name])) DHCP_SUBNET_STATE_NAMES"

definition scopeLines :: "DHCPV4Scope \<Rightarrow> line list" where
  "scopeLines s = scopeHead s @ map (\<lambda>(n, v). (n, GaugeValue, v, [ScopeIPAddress s])) (filter (\<lambda>(n, v). v \<noteq> F_Fin (- 1)) (scopeNumbers s))"

definition dhcp_Build :: "'w pdh_api \<Rightarrow> u16 \<Rightarrow> string list \<Rightarrow> 'w \<Rightarrow> (go_error option \<times> perfSource \<times> 'w) option" where
  "dhcp_Build api osBuild enabled w =
     (if ''server_metrics'' \<in> set enabled then perfBuild api osBuild ''failed to create DHCP Server collector: %w'' ''DHCP Server'' [] dhcp_server_fields w
      else Some (None, noSource, w))"

definition collectServerMetrics :: "'w pdh_api \<Rightarrow> perfSource \<Rightarrow> 'w \<Rightarrow> (perfSource, 'w) collected" where
  "collectServerMetrics api =
     collectWith api dhcp_server_fields ''failed to collect DHCP Server metrics: %w'' dhcp_server_descs
       (firstRow ''failed to collect DHCP Server metrics: %w'' dhcp_server_lines)"

definition collectScopeMetrics :: "('w \<Rightarrow> (go_error + DHCPV4Scope list) \<times> 'w) \<Rightarrow> 'w \<Rightarrow> (unit, 'w) collected" where
  "collectScopeMetrics scopes w =
     (case scopes w of
        (Inl e, w') \<Rightarrow> Some (Some (Wrapf ''failed to get DHCP scopes: %w'' [] e), [], (), w')
      | (Inr ss, w') \<Rightarrow> (case sendAll dhcp_scope_descs (concat (map scopeLines ss)) of None \<Rightarrow> None | Some ms \<Rightarrow> Some (None, ms, (), w')))"

definition dhcp_Collect ::
  "'w pdh_api \<Rightarrow> ('w \<Rightarrow> (go_error + DHCPV4Scope list) \<times> 'w) \<Rightarrow> string list \<Rightarrow> perfSource \<Rightarrow> 'w \<Rightarrow> (perfSource, 'w) collected" where
  "dhcp_Collect api scopes enabled src w =
     (case (if ''server_metrics'' \<in> set enabled then collectServerMetrics api src w else Some (None, [], src, w)) of
        None \<Rightarrow> None
      | Some (e1, ms1, src1, w1) \<Rightarrow>
          (case (if ''scope_metrics'' \<in> set enabled then collectScopeMetrics scopes w1 else Some (None, [], (), w1)) of
             None \<Rightarrow> None
           | Some (e2, ms2, u, w2) \<Rightarrow> Some (errors_Join (non_nil [e1, e2]), ms1 @ ms2, src1, w2)))"

definition dhcp_Close :: "'w pdh_api \<Rightarrow> string list \<Rightarrow> perfSource \<Rightarrow> 'w \<Rightarrow> perfSource \<times> 'w" where
  "dhcp_Close api enabled src w = (if ''server_metrics'' \<in> set enabled then perfClose api src w else (src, w))"

section \<open>time\<close>

definition time_ntp_fields :: "structField list" where
  "time_ntp_fields =
     [perfField ''ClockFrequencyAdjustment'' ''Clock Frequency Adjustment'',
      perfFieldSince ''ClockFrequencyAdjustmentPPB'' ''Clock Frequency Adjustment (ppb)'' ''17763'',
      perfField ''ComputedTimeOffset'' ''Computed Time Offset'',
      perfField ''NTPClientTimeSourceCount'' ''NTP Client Time Source Count'',
      perfField ''NTPRoundTripDelay'' ''NTP Roundtrip Delay'',
      perfField ''NTPServerIncomingRequestsTotal'' ''NTP Server Incoming Requests'',
      perfField ''NTPServerOutgoingResponsesTotal'' ''NTP Server Outgoing Responses'']"

definition time_ntp_descs :: descTable where
  "time_ntp_descs =
     [(''clockFrequencyAdjustment'', NewDesc (BuildFQName Namespace ''time'' ''clock_frequency_adjustment'')
        ''This value reflects the adjustment made to the local system clock frequency by W32Time in nominal clock units. This counter helps visualize the finer adjustments being made by W32time to synchronize the local clock.'' []),
      (''clockFrequencyAdjustmentPPB'', NewDesc (BuildFQName Namespace ''time'' ''clock_frequency_adjustment_ppb'')
        ''This value reflects the adjustment made to the local system clock frequency by W32Time in Parts Per Billion (PPB) units. 1 PPB adjustment imples the system clock was adjusted at a rate of 1 nanosecond per second. The smallest possible adjustment can vary and can be expected to be in the order of 100&apos;s of PPB. This counter helps visualize the finer actions being taken by W32time to synchronize the local clock.'' []),
      (''computedTimeOffset'', NewDesc (BuildFQName Namespace ''time'' ''computed_time_offset_seconds'')
        ''Absolute time offset between the system clock and the chosen time source, in seconds'' []),
      (''ntpClientTimeSourceCount'', NewDesc (BuildFQName Namespace ''time'' ''ntp_client_time_sources'')
        ''Active number of NTP Time sources being used by the client'' []),
      (''ntpRoundTripDelay'', NewDesc (BuildFQName Namespace ''time'' ''ntp_round_trip_delay_seconds'')
        ''Roundtrip delay experienced by the NTP client in receiving a response from the server for the most recent request, in seconds'' []),
      (''ntpServerOutgoingResponsesTotal'', NewDesc (BuildFQName Namespace ''time'' ''ntp_server_outgoing_responses_total'')
        ''Total number of requests responded to by NTP server'' []),
      (''ntpServerIncomingRequestsTotal'', NewDesc (BuildFQName Namespace ''time'' ''ntp_server_incoming_requests_total'')
        ''Total number of requests received by NTP server'' [])]"

definition time_ntp_lines :: "bool \<Rightarrow> row \<Rightarrow> line list" where
  "time_ntp_lines ppbCounterPresent r =
     [(''clockFrequencyAdjustment'', GaugeValue, num time_ntp_fields r ''ClockFrequencyAdjustment'', [])] @
     (if ppbCounterPresent then [(''clockFrequencyAdjustmentPPB'', GaugeValue, num time_ntp_fields r ''ClockFrequencyAdjustmentPPB'', [])] else []) @
     [(''computedTimeOffset'', GaugeValue, f64_div (num time_ntp_fields r ''ComputedTimeOffset'') (F_Fin 1000000), []),
      (''ntpClientTimeSourceCount'', GaugeValue, num time_ntp_fields r ''NTPClientTimeSourceCount'', []),
      (''ntpRoundTripDelay'', GaugeValue, f64_div (num time_ntp_fields r ''NTPRoundTripDelay'') (F_Fin 1000000), []),
      (''ntpServerIncomingRequestsTotal'', CounterValue, num time_ntp_fields r ''NTPServerIncomingRequestsTotal'', []),
      (''ntpServerOutgoingResponsesTotal'', CounterValue, num time_ntp_fields r ''NTPServerOutgoingResponsesTotal'', [])]"

definition time_descs :: descTable where
  "time_descs =
     [(''currentTime'', NewDesc (BuildFQName Namespace ''time'' ''current_timestamp_seconds'')
        ''OperatingSystem.LocalDateTime'' []),
      (''timezone'', NewDesc (BuildFQName Namespace ''time'' ''timezone'')
        ''OperatingSystem.LocalDateTime'' [''timezone''])]"

record timeCollector =
  timeSource :: perfSource
  ppbPresent :: bool

text \<open>\<open>Build\<close> stops at an unknown name before it does anything else.\<close>

definition timeBuildSource :: "'w pdh_api \<Rightarrow> u16 \<Rightarrow> 'w \<Rightarrow> (go_error option \<times> perfSource \<times> 'w) option" where
  "timeBuildSource api osBuild = perfBuild api osBuild ''failed to create Windows Time Service collector: %w'' ''Windows Time Service'' [] time_ntp_fields"

definition time_Build :: "osversion \<Rightarrow> 'w pdh_api \<Rightarrow> string list \<Rightarrow> timeCollector \<Rightarrow> 'w \<Rightarrow> (go_error option \<times> timeCollector \<times> 'w) option" where
  "time_Build os api enabled c w =
     (case find (\<lambda>n. n \<notin> {''system_time'', ''ntp''}) enabled of
        Some n \<Rightarrow> Some (Some (ErrorText ''unknown collector: %s'' [n]), c, w)
      | None \<Rightarrow>
          map_option (\<lambda>(err, src, w'). (err, c\<lparr>ppbPresent := (LTSC2019 os \<le> winBuild os), timeSource := src\<rparr>, w')) (timeBuildSource api (winBuild os) w))"

text \<open>The clock, in seconds, and the name of the time zone. The time has been sent when the time zone is an error.\<close>

definition collectTime :: "('w \<Rightarrow> int \<times> 'w) \<Rightarrow> ('w \<Rightarrow> (go_error + string) \<times> 'w) \<Rightarrow> 'w \<Rightarrow> (unit, 'w) collected" where
  "collectTime now zone w =
     (case now w of
        (t, w1) \<Rightarrow>
          (case zone w1 of
             (z, w2) \<Rightarrow>
               (case sendAll time_descs ((''currentTime'', GaugeValue, f64_of_int t, []) # (case z of Inl e \<Rightarrow> [] | Inr n \<Rightarrow> [(''timezone'', GaugeValue, F_Fin 1, [n])])) of
                  None \<Rightarrow> None
                | Some ms \<Rightarrow> Some (case z of Inl e \<Rightarrow> Some e | Inr n \<Rightarrow> None, ms, (), w2))))"

definition collectNTP :: "'w pdh_api \<Rightarrow> bool \<Rightarrow> perfSource \<Rightarrow> 'w \<Rightarrow> (perfSource, 'w) collected" where
  "collectNTP api ppb =
     collectWith api time_ntp_fields ''failed to collect Windows Time Service metrics: %w'' time_ntp_descs
       (firstRow ''failed to collect Windows Time Service metrics: %w'' (time_ntp_lines ppb))"

definition time_Collect ::
  "'w pdh_api \<Rightarrow> ('w \<Rightarrow> int \<times> 'w) \<Rightarrow> ('w \<Rightarrow> (go_error + string) \<times> 'w) \<Rightarrow> string list \<Rightarrow> timeCollector \<Rightarrow> 'w \<Rightarrow> (timeCollector, 'w) collected" where
  "time_Collect api now zone enabled c w =
     (case (if ''system_time'' \<in> set enabled then wrapErr ''failed collecting time metrics: %w'' (collectTime now zone w) else Some (None, [], (), w)) of
        None \<Rightarrow> None
      | Some (e1, ms1, u, w1) \<Rightarrow>
          (case (if ''ntp'' \<in> set enabled then wrapErr ''failed collecting time ntp metrics: %w'' (collectNTP api (ppbPresent c) (timeSource c) w1)
                 else Some (None, [], timeSource c, w1)) of
             None \<Rightarrow> None
           | Some (e2, ms2, src, w2) \<Rightarrow> Some (errors_Join (non_nil [e1, e2]), ms1 @ ms2, c\<lparr>timeSource := src\<rparr>, w2)))"

definition time_Close :: "'w pdh_api \<Rightarrow> string list \<Rightarrow> timeCollector \<Rightarrow> 'w \<Rightarrow> timeCollector \<times> 'w" where
  "time_Close api enabled c w =
     (if ''ntp'' \<in> set enabled then (case perfClose api (timeSource c) w of (src, w') \<Rightarrow> (c\<lparr>timeSource := src\<rparr>, w')) else (c, w))"

section \<open>pagefile\<close>

definition pagefile_fields :: "structField list" where
  "pagefile_fields =
     [nameField,
      perfField ''Usage'' ''% Usage'']"

definition pagefile_descs :: descTable where
  "pagefile_descs =
     [(''pagingLimitBytes'', NewDesc (BuildFQName Namespace ''pagefile'' ''limit_bytes'')
        ''Number of bytes that can be stored in the operating system paging files. 0 (zero) indicates that there are no paging files'' [''file'']),
      (''pagingFreeBytes'', NewDesc (BuildFQName Namespace ''pagefile'' ''free_bytes'')
        ''Number of bytes that can be mapped into the operating system paging files without causing any other pages to be swapped out'' [''file''])]"

definition fileString :: "row \<Rightarrow> string" where
  "fileString r = ReplaceAll (rowName pagefile_fields r) [CHR 0x5C, CHR ''?'', CHR ''?'', CHR 0x5C] []"

text \<open>\<open>fsize\<close> is the size of a file; a file that is not there has the size zero.\<close>

definition pagefile_lines :: "(string \<Rightarrow> int option) \<Rightarrow> u64 \<Rightarrow> row \<Rightarrow> line list" where
  "pagefile_lines fsize pageSize r =
     (let fileSize = (case fsize (fileString r) of None \<Rightarrow> F_Fin 0 | Some n \<Rightarrow> f64_of_int n) in
      [(''pagingFreeBytes'', GaugeValue, f64_sub fileSize (f64_mul (num pagefile_fields r ''Usage'') (f64_of_int (uint pageSize))), [fileString r]),
       (''pagingLimitBytes'', GaugeValue, fileSize, [fileString r])])"

definition pagefile_Build :: "'w pdh_api \<Rightarrow> u16 \<Rightarrow> 'w \<Rightarrow> (go_error option \<times> perfSource \<times> 'w) option" where
  "pagefile_Build api osBuild = perfBuild api osBuild ''failed to create Paging File collector: %w'' ''Paging File'' [''*''] pagefile_fields"

definition pagefile_Collect :: "'w pdh_api \<Rightarrow> ('w \<Rightarrow> go_error + u64) \<Rightarrow> ('w \<Rightarrow> string \<Rightarrow> int option) \<Rightarrow> perfSource \<Rightarrow> 'w \<Rightarrow> (perfSource, 'w) collected" where
  "pagefile_Collect api performanceInfo stat src w =
     (case perfCollect api pagefile_fields src w of
        None \<Rightarrow> None
      | Some (Some e, src', w') \<Rightarrow> Some (Some (Wrapf ''failed to collect Paging File metrics: %w'' [] e), [], src', w')
      | Some (None, src', w') \<Rightarrow>
          (case performanceInfo w' of
             Inl e \<Rightarrow> Some (Some e, [], src', w')
           | Inr pageSize \<Rightarrow>
               (case sendAll pagefile_descs (concat (map (pagefile_lines (stat w') pageSize) (perfDataObject src'))) of
                  None \<Rightarrow> None
                | Some ms \<Rightarrow> Some (None, ms, src', w'))))"

definition pagefile_Close :: "'w pdh_api \<Rightarrow> perfSource \<Rightarrow> 'w \<Rightarrow> perfSource \<times> 'w" where
  "pagefile_Close = perfClose"

section \<open>What is accepted\<close>

lemma dhcp_server_names: "distinct (map (\<lambda>(n, d). fqName d) dhcp_server_descs)"
  by (rule distinct_nameCodes; unfold dhcp_server_descs_def) (simp only: name_code_simps)

lemma dhcp_server_table: "table_ok dhcp_server_descs (dhcp_server_lines r)"
  by (rule table_ok_codes; unfold dhcp_server_lines_def dhcp_server_descs_def) (simp only: table_code_simps)+

interpretation dhcp_server: first_row_collector dhcp_server_descs dhcp_server_lines
  by unfold_locales (rule dhcp_server_names dhcp_server_table)+

lemma dhcp_scope_names: "distinct (map (\<lambda>(n, d). fqName d) dhcp_scope_descs)" by code_simp

text \<open>Metrics may be left out of a table.\<close>

lemma table_ok_filter: "table_ok ds (xs @ map g ys) \<Longrightarrow> table_ok ds (xs @ map g (filter P ys))"
proof -
  assume ok: "table_ok ds (xs @ map g ys)"
  let ?k = "\<lambda>(n, vt, v, ls). (n, ls) :: string \<times> string list"
  have xs: "distinct (map ?k xs)" and ys: "distinct (map ?k (map g ys))" and apart: "set (map ?k xs) \<inter> set (map ?k (map g ys)) = {}"
    using ok by (simp_all add: table_ok_def)
  have "distinct (map ?k (map g (filter P ys)))" using ys unfolding map_map by (rule distinct_map_filter)
  moreover have "set (map ?k (map g (filter P ys))) \<subseteq> set (map ?k (map g ys))" unfolding set_map by (intro image_mono) simp
  ultimately have "distinct (map ?k (xs @ map g (filter P ys)))" using xs apart unfolding map_append distinct_append by blast
  moreover have "list_all Q (map g (filter P ys))" if "list_all Q (map g ys)" for Q using that by (simp add: list_all_iff)
  ultimately show ?thesis using ok by (simp add: table_ok_def)
qed

lemma dhcp_scope_table: "table_ok dhcp_scope_descs (scopeLines s)"
  unfolding scopeLines_def
  by (rule table_ok_filter) (simp add: table_ok_def scopeHead_def scopeNumbers_def DHCP_SUBNET_STATE_NAMES_def dhcp_scope_descs_def)

interpretation dhcp_scope: keyed_table dhcp_scope_descs scopeLines ScopeIPAddress "\<lambda>n. if n = ''scopeInfo'' then 3 else 0"
proof
  show "distinct (map (\<lambda>(n, d). fqName d) dhcp_scope_descs)" by (rule dhcp_scope_names)
  show "table_ok dhcp_scope_descs (scopeLines s)" for s by (rule dhcp_scope_table)
  show "list_all (\<lambda>(n, vt, v, ls). (if n = ''scopeInfo'' then 3 else 0) < length ls \<and> ls ! (if n = ''scopeInfo'' then 3 else 0) = ScopeIPAddress s) (scopeLines s)" for s
    by (auto simp: scopeLines_def scopeHead_def scopeNumbers_def DHCP_SUBNET_STATE_NAMES_def list_all_iff)
qed

lemma time_ntp_names: "distinct (map (\<lambda>(n, d). fqName d) time_ntp_descs)" by code_simp

lemma time_ntp_table: "table_ok time_ntp_descs (time_ntp_lines ppb r)"
  by (cases ppb) (simp_all add: table_ok_def time_ntp_lines_def time_ntp_descs_def)

interpretation time_ntp: first_row_collector time_ntp_descs "time_ntp_lines ppb"
  by unfold_locales (rule time_ntp_names time_ntp_table)+

lemma time_names: "distinct (map (\<lambda>(n, d). fqName d) time_descs)" by code_simp

lemma pagefile_names: "distinct (map (\<lambda>(n, d). fqName d) pagefile_descs)" by code_simp

lemma pagefile_table: "table_ok pagefile_descs (pagefile_lines fsize pageSize r)"
  by (simp add: table_ok_def pagefile_lines_def pagefile_descs_def Let_def)

interpretation pagefile: keyed_table pagefile_descs "pagefile_lines fsize pageSize" fileString "\<lambda>n. 0"
  by unfold_locales (auto simp: pagefile_names pagefile_table, simp add: pagefile_lines_def Let_def)

text \<open>Two parts with different descriptors, one after the other.\<close>

lemma parts_accepted:
  assumes "accepted (Some xs)" and "accepted (Some ys)"
    and "fqName ` metric_desc ` set xs \<subseteq> set (descNames ds)" and "fqName ` metric_desc ` set ys \<subseteq> set (descNames ds')"
    and "set (descNames ds) \<inter> set (descNames ds') = {}"
  shows "accepted (Some (xs @ ys))"
proof -
  have "fqName ` metric_desc ` set xs \<inter> fqName ` metric_desc ` set ys = {}" using assms(3-5) by blast
  then have "distinct (map series (xs @ ys))"
    using assms(1,2) by (intro distinct_series_append) (simp_all add: accepted_def image_comp)
  then show ?thesis using assms(1,2) by (simp add: accepted_def)
qed

lemma sent_names: "sendAll ds lns = Some ms \<Longrightarrow> fqName ` metric_desc ` set ms \<subseteq> set (descNames ds)"
  using image_mono [OF sendAll_descs, of ds lns ms fqName] by (simp add: descNames_def image_image split_def)

lemma scope_part:
  assumes "\<And>w. case scopes w of (Inr ss, w') \<Rightarrow> distinct (map ScopeIPAddress ss) | _ \<Rightarrow> True"
  shows "case collectScopeMetrics scopes w of
      None \<Rightarrow> False
    | Some (e, ms, u, w') \<Rightarrow> accepted (Some ms) \<and> fqName ` metric_desc ` set ms \<subseteq> set (descNames dhcp_scope_descs)"
proof -
  obtain a w' where a: "scopes w = (a, w')" by fastforce
  show ?thesis
  proof (cases a)
    case (Inl e)
    then show ?thesis using a by (simp add: collectScopeMetrics_def accepted_def)
  next
    case (Inr ss)
    have "accepted (sendAll dhcp_scope_descs (concat (map scopeLines ss)))"
      using assms [of w] a Inr by (intro dhcp_scope.rows_accepted) simp
    then show ?thesis using a Inr by (auto simp: collectScopeMetrics_def accepted_def dest: sent_names split: option.splits)
  qed
qed

text \<open>
  Every scrape of the DHCP collector is accepted when the scopes have different addresses, whichever parts are enabled.
\<close>

theorem dhcp_accepted:
  assumes "source_ok dhcp_server_fields src" and "\<And>w. case scopes w of (Inr ss, w') \<Rightarrow> distinct (map ScopeIPAddress ss) | _ \<Rightarrow> True"
  shows "scrape_ok (perfCollect api dhcp_server_fields src w = None) (dhcp_Collect api scopes enabled src w)"
proof (cases "if ''server_metrics'' \<in> set enabled then collectServerMetrics api src w else Some (None, [], src, w)")
  case None
  have "scrape_ok (perfCollect api dhcp_server_fields src w = None) (collectServerMetrics api src w)"
    unfolding collectServerMetrics_def by (rule perf_contract.collect_ok [OF dhcp_server.first_row_contract assms(1)])
  then show ?thesis using None by (auto simp: dhcp_Collect_def scrape_ok_def split: if_splits)
next
  case (Some r)
  obtain e1 ms1 src1 w1 where r: "r = (e1, ms1, src1, w1)" by (metis prod_cases4)
  have ok: "scrape_ok (perfCollect api dhcp_server_fields src w = None) (collectServerMetrics api src w)"
    unfolding collectServerMetrics_def by (rule perf_contract.collect_ok [OF dhcp_server.first_row_contract assms(1)])
  have only: "sends_only dhcp_server_descs (collectServerMetrics api)" unfolding collectServerMetrics_def by (rule sends_only_collectWith)
  have s1: "accepted (Some ms1)" "fqName ` metric_desc ` set ms1 \<subseteq> set (descNames dhcp_server_descs)"
    using Some r ok spec [OF spec [OF only [unfolded sends_only_def], of src], of w] by (auto simp: scrape_ok_def accepted_def split: if_splits)
  obtain e2 ms2 w2 where s2: "(if ''scope_metrics'' \<in> set enabled then collectScopeMetrics scopes w1 else Some (None, [], (), w1)) = Some (e2, ms2, (), w2)"
    "accepted (Some ms2)" "fqName ` metric_desc ` set ms2 \<subseteq> set (descNames dhcp_scope_descs)"
  proof (cases "''scope_metrics'' \<in> set enabled")
    case True
    then show ?thesis using that scope_part [where scopes = scopes and w = w1, OF assms(2)] by (auto split: option.splits)
  next
    case False
    then show ?thesis using that [of None "[]" w1] by (simp add: accepted_def)
  qed
  have "set (descNames dhcp_server_descs) \<inter> set (descNames dhcp_scope_descs) = {}"
    by (simp add: descNames_def dhcp_server_descs_def dhcp_scope_descs_def)
  then have "accepted (Some (ms1 @ ms2))" using s1 s2(2,3) by (intro parts_accepted)
  then show ?thesis using Some r s2(1) by (simp add: dhcp_Collect_def scrape_ok_def accepted_def)
qed

text \<open>The paging files are accepted when their names still differ without the prefix.\<close>

theorem pagefiles_accepted:
  "distinct (map fileString rs) \<Longrightarrow> accepted (sendAll pagefile_descs (concat (map (pagefile_lines fsize pageSize) rs)))"
  by (rule pagefile.rows_accepted)

text \<open>The time is sent also when the time zone is not known.\<close>

lemma collectTime_error:
  assumes "now w = (t, w1)" and "zone w1 = (Inl e, w2)"
  shows "\<exists>m. collectTime now zone w = Some (Some e, [m], (), w2) \<and> fqName (metric_desc m) = BuildFQName Namespace ''time'' ''current_timestamp_seconds''"
  by (simp add: collectTime_def assms sendAll_def MustNewConstMetric_def time_descs_def)

end
