(* ===== verification/Ole.thy ===== *)
theory Ole
  imports Perf_Subs
begin

text \<open>
  Automation objects as the scheduled task and update collectors use them through the package go-ole, which is not part of the sources: every operation is a
  parameter on an unknown state of the system. An object is a reference; a variant is what its accessors return. A call that fails returns no variant.
\<close>

type_synonym obj = u64

text \<open>The field \<open>Val\<close> and the results of \<open>ToString()\<close>, \<open>ToIDispatch()\<close> and \<open>Value().(bool)\<close>.\<close>

record variant =
  varVal :: "64 word"
  varString :: string
  varDispatch :: obj
  varBool :: "bool option"

datatype oleArg = IntArg int | StringArg string | BoolArg bool

text \<open>An error of \<open>CoInitializeEx\<close> comes with the code when it is an \<open>ole.OleError\<close>.\<close>

record 'w ole_api =
  CoInitializeEx :: "'w \<Rightarrow> (go_error \<times> u32 option) option \<times> 'w"
  CoUninitialize :: "'w \<Rightarrow> 'w"
  CreateObject :: "string \<Rightarrow> 'w \<Rightarrow> (go_error + obj) \<times> 'w"
  QueryInterface :: "obj \<Rightarrow> 'w \<Rightarrow> (go_error + obj) \<times> 'w"
  CallMethod :: "obj \<Rightarrow> string \<Rightarrow> oleArg list \<Rightarrow> 'w \<Rightarrow> (go_error + variant) \<times> 'w"
  GetProperty :: "obj \<Rightarrow> string \<Rightarrow> oleArg list \<Rightarrow> 'w \<Rightarrow> (go_error + variant) \<times> 'w"
  PutProperty :: "obj \<Rightarrow> string \<Rightarrow> oleArg list \<Rightarrow> 'w \<Rightarrow> go_error option \<times> 'w"
  Release :: "obj \<Rightarrow> 'w \<Rightarrow> 'w"
  Clear :: "variant \<Rightarrow> 'w \<Rightarrow> 'w"

text \<open>The error of the initialisation when it is one that matters: 0 is success, 1 says that the thread was initialised before.\<close>

definition initFailed :: "(go_error \<times> u32 option) option \<Rightarrow> go_error option" where
  "initFailed r =
     (case r of
        Some (e, Some code) \<Rightarrow> if code \<noteq> 0 \<and> code \<noteq> 1 then Some e else None
      | _ \<Rightarrow> None)"

end
