(* ===== verification/Windows_Update.thy ===== *)
theory Windows_Update
  imports Ole Step_System
begin

text \<open>
  The update collector (internal/collector/update): a goroutine searches for pending updates from time to time and keeps the metrics, which \<open>Collect\<close> sends. The goroutine,
  \<open>Build\<close> and \<open>Close\<close> are a step relation. The results: the category of an update is the first one of the least order; what a scrape sends is
  that of the last search; metrics of updates that differ in title, category or severity are accepted; while the search fails the goroutine neither waits nor ends.
\<close>

section \<open>The updates\<close>

record windowsUpdate =
  updCategory :: string
  updSeverity :: string
  updTitle :: string

text \<open>One turn of the loop over the categories: the category is released in any case.\<close>

definition categoryItem :: "'w ole_api \<Rightarrow> obj \<Rightarrow> nat \<Rightarrow> 'w \<Rightarrow> (go_error + string \<times> int) \<times> 'w" where
  "categoryItem api categories i w =
     (case GetProperty api categories ''Item'' [IntArg (int i)] w of
        (Inl e, w1) \<Rightarrow> (Inl (Wrapf ''get Category item: %w'' [] e), w1)
      | (Inr raw, w1) \<Rightarrow>
          (let category = varDispatch raw in
           case GetProperty api category ''Name'' [] w1 of
             (Inl e, w2) \<Rightarrow> (Inl (Wrapf ''get Category item Name: %w'' [] e), Release api category w2)
           | (Inr nameRaw, w2) \<Rightarrow>
               (case GetProperty api category ''Order'' [] w2 of
                  (Inl e, w3) \<Rightarrow> (Inl (Wrapf ''get Category item Order: %w'' [] e), Release api category w3)
                | (Inr orderRaw, w3) \<Rightarrow> (Inr (varString nameRaw, sint (varVal orderRaw)), Release api category w3))))"

fun categoryLoop :: "'w ole_api \<Rightarrow> obj \<Rightarrow> nat list \<Rightarrow> int \<Rightarrow> string \<Rightarrow> 'w \<Rightarrow> (go_error + string) \<times> 'w" where
  "categoryLoop api categories [] order categoryName w = (Inr categoryName, w)"
| "categoryLoop api categories (i # is) order categoryName w =
     (case categoryItem api categories i w of
        (Inl e, w1) \<Rightarrow> (Inl (Wrapf ''get Category item: %w'' [] e), w1)
      | (Inr (name, ord), w1) \<Rightarrow>
          (if ord < order then categoryLoop api categories is ord name w1
           else categoryLoop api categories is order categoryName w1))"

definition getUpdateCategory :: "'w ole_api \<Rightarrow> obj \<Rightarrow> 'w \<Rightarrow> (go_error + string) \<times> 'w" where
  "getUpdateCategory api categories w =
     (case GetProperty api categories ''Count'' [] w of
        (Inl e, w1) \<Rightarrow> (Inl (Wrapf ''get Categories count: %w'' [] e), w1)
      | (Inr cnt, w1) \<Rightarrow> categoryLoop api categories [0..<nat (sint (varVal cnt))] (2 ^ 63 - 1) [] w1)"

text \<open>What follows the deferred release of the item, and what follows that of its categories.\<close>

definition updateCategoryTitle :: "'w ole_api \<Rightarrow> obj \<Rightarrow> variant \<Rightarrow> obj \<Rightarrow> 'w \<Rightarrow> (go_error + windowsUpdate) \<times> 'w" where
  "updateCategoryTitle api updateItem severity categories w =
     (case getUpdateCategory api categories w of
        (Inl e, w1) \<Rightarrow> (Inl (Wrapf ''get Category: %w'' [] e), w1)
      | (Inr category, w1) \<Rightarrow>
          (case GetProperty api updateItem ''Title'' [] w1 of
             (Inl e, w2) \<Rightarrow> (Inl (Wrapf ''get Title: %w'' [] e), w2)
           | (Inr title, w2) \<Rightarrow> (Inr \<lparr>updCategory = category, updSeverity = varString severity, updTitle = varString title\<rparr>, w2)))"

definition updateProperties :: "'w ole_api \<Rightarrow> obj \<Rightarrow> 'w \<Rightarrow> (go_error + windowsUpdate) \<times> 'w" where
  "updateProperties api updateItem w =
     (case GetProperty api updateItem ''MsrcSeverity'' [] w of
        (Inl e, w1) \<Rightarrow> (Inl (Wrapf ''get MsrcSeverity: %w'' [] e), w1)
      | (Inr severity, w1) \<Rightarrow>
          (case GetProperty api updateItem ''Categories'' [] w1 of
             (Inl e, w2) \<Rightarrow> (Inl (Wrapf ''get Categories: %w'' [] e), w2)
           | (Inr raw, w2) \<Rightarrow>
               (case updateCategoryTitle api updateItem severity (varDispatch raw) w2 of (r, w3) \<Rightarrow> (r, Release api (varDispatch raw) w3))))"

definition getUpdateStatus :: "'w ole_api \<Rightarrow> obj \<Rightarrow> nat \<Rightarrow> 'w \<Rightarrow> (go_error + windowsUpdate) \<times> 'w" where
  "getUpdateStatus api updd i w =
     (case GetProperty api updd ''Item'' [IntArg (int i)] w of
        (Inl e, w1) \<Rightarrow> (Inl (Wrapf ''get update item: %w'' [] e), w1)
      | (Inr raw, w1) \<Rightarrow> (case updateProperties api (varDispatch raw) w1 of (r, w2) \<Rightarrow> (r, Release api (varDispatch raw) w2)))"

section \<open>The search\<close>

definition update_descs :: descTable where
  "update_descs =
     [(''pendingUpdate'', NewDesc (BuildFQName Namespace ''update'' ''pending_info'')
        ''Pending Windows Updates'' [''category'', ''severity'', ''title'']),
      (''queryDurationSeconds'', NewDesc (BuildFQName Namespace ''update'' ''scrape_query_duration_seconds'')
        ''Duration of the last scrape query to the Windows Update API'' []),
      (''lastScrapeMetric'', NewDesc (BuildFQName Namespace ''update'' ''scrape_timestamp_seconds'')
        ''Timestamp of the last scrape'' [])]"

text \<open>The clock: the seconds between two states of the system, and the Unix time.\<close>

record 'w update_clock =
  secondsBetween :: "'w \<Rightarrow> 'w \<Rightarrow> f64"
  unixNow :: "'w \<Rightarrow> int"

text \<open>An update that cannot be read is logged and left out.\<close>

fun readUpdates :: "'w ole_api \<Rightarrow> obj \<Rightarrow> nat list \<Rightarrow> 'w \<Rightarrow> windowsUpdate list \<times> 'w" where
  "readUpdates api updd [] w = ([], w)"
| "readUpdates api updd (i # is) w =
     (case getUpdateStatus api updd i w of
        (Inl e, w1) \<Rightarrow> readUpdates api updd is w1
      | (Inr u, w1) \<Rightarrow> (case readUpdates api updd is w1 of (us, w2) \<Rightarrow> (u # us, w2)))"

definition pendingLine :: "windowsUpdate \<Rightarrow> line" where
  "pendingLine u = (''pendingUpdate'', GaugeValue, F_Fin 1, [updCategory u, updSeverity u, updTitle u])"

text \<open>\<^term>\<open>None\<close> is the panic of a metric whose descriptor has not been set.\<close>

definition fetchUpdates ::
  "'w ole_api \<Rightarrow> 'w update_clock \<Rightarrow> descTable \<Rightarrow> obj \<Rightarrow> 'w \<Rightarrow> ((go_error + metric list) \<times> 'w) option" where
  "fetchUpdates api clock ds usd w =
     (case CallMethod api usd ''Search'' [StringArg ''IsInstalled=0 and IsHidden=0''] w of
        (Inl e, w1) \<Rightarrow> Some (Inl (Wrapf ''search for updates: %w'' [] e), w1)
      | (Inr usr, w1) \<Rightarrow>
          (case sendAll ds [(''queryDurationSeconds'', GaugeValue, secondsBetween clock w w1, [])] of
             None \<Rightarrow> None
           | Some ms1 \<Rightarrow>
               (let usrd = varDispatch usr in
                case GetProperty api usrd ''Updates'' [] w1 of
                  (Inl e, w2) \<Rightarrow> Some (Inl (Wrapf ''get updates: %w'' [] e), Release api usrd w2)
                | (Inr upd, w2) \<Rightarrow>
                    (let updd = varDispatch upd in
                     case GetProperty api updd ''Count'' [] w2 of
                       (Inl e, w3) \<Rightarrow> Some (Inl (Wrapf ''get updates count: %w'' [] e), Release api usrd (Release api updd w3))
                     | (Inr cnt, w3) \<Rightarrow>
                         (case readUpdates api updd [0..<nat (sint (varVal cnt))] w3 of
                            (us, w4) \<Rightarrow>
                              (case sendAll ds (map pendingLine us @ [(''lastScrapeMetric'', GaugeValue, f64_of_int (unixNow clock w4), [])]) of
                                 None \<Rightarrow> None
                               | Some ms2 \<Rightarrow> Some (Inr (ms1 @ ms2), Release api usrd (Release api updd w4))))))))"

section \<open>The goroutine\<close>

text \<open>
  The part of \<open>scheduleUpdateStatus\<close> before its loop: the searcher, with the objects that are released when the goroutine ends; or the error for \<open>Build\<close>, with
  everything released.
\<close>

record searcher =
  sessionObj :: obj
  musQueryInterface :: obj
  searcherVar :: variant
  historyCount :: variant

definition releaseSearcher :: "'w ole_api \<Rightarrow> obj \<Rightarrow> obj \<Rightarrow> 'w \<Rightarrow> 'w" where
  "releaseSearcher api session mus w = CoUninitialize api (Release api session (Release api mus w))"

definition openSearcher :: "'w ole_api \<Rightarrow> bool \<Rightarrow> 'w \<Rightarrow> (go_error + searcher) \<times> 'w" where
  "openSearcher api online w =
     (case CoInitializeEx api w of
        (r, w1) \<Rightarrow>
          (case initFailed r of
             Some e \<Rightarrow> (Inl (Wrapf ''CoInitializeEx: %w'' [] e), w1)
           | None \<Rightarrow>
               (case CreateObject api ''Microsoft.Update.Session'' w1 of
                  (Inl e, w2) \<Rightarrow> (Inl (Wrapf ''create Microsoft.Update.Session: %w'' [] e), CoUninitialize api w2)
                | (Inr session, w2) \<Rightarrow>
                    (case QueryInterface api session w2 of
                       (Inl e, w3) \<Rightarrow> (Inl (Wrapf ''IID_IDispatch: %w'' [] e), CoUninitialize api (Release api session w3))
                     | (Inr mus, w3) \<Rightarrow>
                         (case PutProperty api mus ''ClientApplicationID'' [StringArg ''windows_exporter''] w3 of
                            (Some e, w4) \<Rightarrow> (Inl (Wrapf ''put ClientApplicationID: %w'' [] e), releaseSearcher api session mus w4)
                          | (None, w4) \<Rightarrow>
                              (case CallMethod api mus ''CreateUpdateSearcher'' [] w4 of
                                 (Inl e, w5) \<Rightarrow> (Inl (Wrapf ''create update searcher: %w'' [] e), releaseSearcher api session mus w5)
                               | (Inr us, w5) \<Rightarrow>
                                   (let ush = varDispatch us in
                                    case PutProperty api ush ''Online'' [BoolArg online] w5 of
                                      (Some e, w6) \<Rightarrow> (Inl (Wrapf ''put Online: %w'' [] e), releaseSearcher api session mus (Clear api us (Release api ush w6)))
                                    | (None, w6) \<Rightarrow>
                                        (case CallMethod api ush ''GetTotalHistoryCount'' [] w6 of
                                           (Inl e, w7) \<Rightarrow>
                                             (Inl (Sentinel ''update.ErrUpdateServiceDisabled''), releaseSearcher api session mus (Clear api us (Release api ush w7)))
                                         | (Inr hc, w7) \<Rightarrow>
                                             (Inr \<lparr>sessionObj = session, musQueryInterface = mus, searcherVar = us, historyCount = hc\<rparr>, w7)))))))))"

text \<open>The deferred calls at the end of the goroutine.\<close>

definition closeSearcher :: "'w ole_api \<Rightarrow> searcher \<Rightarrow> 'w \<Rightarrow> 'w" where
  "closeSearcher api s w =
     (let o' = varDispatch (searcherVar s) in
      releaseSearcher api (sessionObj s) (musQueryInterface s)
        (Clear api (searcherVar s) (Release api o' (Clear api (historyCount s) (Release api o' w)))))"

text \<open>Where the goroutine is: before the loop, at the search, at the store of its result, at its select, ended; \<open>UpdCrashed\<close> is a panic.\<close>

datatype updater = UpdStarting | UpdSearch searcher | UpdStore searcher "metric list option" | UpdSelect searcher | UpdEnded | UpdCrashed

text \<open>\<open>Build\<close>: at the receive from \<open>initErrCh\<close>, at the assignment of the next descriptor, returned.\<close>

datatype builder = BuildWaits | BuildDescs nat | BuildReturned "go_error option"

text \<open>\<open>initErrCh\<close> has one place: nothing sent, an error in it, closed.\<close>

datatype initChan = InitOpen | InitErr go_error | InitClosed

record 'w updateState =
  updater :: updater
  builder :: builder
  initErrCh :: initChan
  metricsBuf :: "metric list option"
  cancelled :: bool
  sys :: 'w

definition update_init :: "'w \<Rightarrow> 'w updateState" where
  "update_init w = \<lparr>updater = UpdStarting, builder = BuildWaits, initErrCh = InitOpen, metricsBuf = None, cancelled = False, sys = w\<rparr>"

text \<open>The descriptors that \<open>Build\<close> has set so far.\<close>

fun descsSet :: "builder \<Rightarrow> descTable" where
  "descsSet BuildWaits = []"
| "descsSet (BuildDescs n) = take n update_descs"
| "descsSet (BuildReturned (Some e)) = []"
| "descsSet (BuildReturned None) = update_descs"

text \<open>A search is one step; it uses the descriptors that are set when it is made. \<open>Close\<close> comes after \<open>Build\<close>.\<close>

inductive update_step :: "'w ole_api \<Rightarrow> 'w update_clock \<Rightarrow> bool \<Rightarrow> 'w updateState \<Rightarrow> 'w updateState \<Rightarrow> bool"
  for api :: "'w ole_api" and clock :: "'w update_clock" and online :: bool where
  start_fails: "updater s = UpdStarting \<Longrightarrow> openSearcher api online (sys s) = (Inl e, w') \<Longrightarrow>
     update_step api clock online s (s\<lparr>updater := UpdEnded, initErrCh := InitErr e, sys := w'\<rparr>)"
| start_ok: "updater s = UpdStarting \<Longrightarrow> openSearcher api online (sys s) = (Inr sr, w') \<Longrightarrow>
     update_step api clock online s (s\<lparr>updater := UpdSearch sr, initErrCh := InitClosed, sys := w'\<rparr>)"
| search_panics: "updater s = UpdSearch sr \<Longrightarrow> fetchUpdates api clock (descsSet (builder s)) (varDispatch (searcherVar sr)) (sys s) = None \<Longrightarrow>
     update_step api clock online s (s\<lparr>updater := UpdCrashed\<rparr>)"
| search_fails: "updater s = UpdSearch sr \<Longrightarrow>
     fetchUpdates api clock (descsSet (builder s)) (varDispatch (searcherVar sr)) (sys s) = Some (Inl e, w') \<Longrightarrow>
     update_step api clock online s (s\<lparr>updater := UpdStore sr None, sys := w'\<rparr>)"
| search_ok: "updater s = UpdSearch sr \<Longrightarrow>
     fetchUpdates api clock (descsSet (builder s)) (varDispatch (searcherVar sr)) (sys s) = Some (Inr ms, w') \<Longrightarrow>
     update_step api clock online s (s\<lparr>updater := UpdStore sr (Some ms), sys := w'\<rparr>)"
| store_none: "updater s = UpdStore sr None \<Longrightarrow> update_step api clock online s (s\<lparr>updater := UpdSearch sr, metricsBuf := None\<rparr>)"
| store_some: "updater s = UpdStore sr (Some ms) \<Longrightarrow> update_step api clock online s (s\<lparr>updater := UpdSelect sr, metricsBuf := Some ms\<rparr>)"
| timer: "updater s = UpdSelect sr \<Longrightarrow> update_step api clock online s (s\<lparr>updater := UpdSearch sr\<rparr>)"
| cancelled_end: "updater s = UpdSelect sr \<Longrightarrow> cancelled s \<Longrightarrow>
     update_step api clock online s (s\<lparr>updater := UpdEnded, sys := closeSearcher api sr (sys s)\<rparr>)"
| build_err: "builder s = BuildWaits \<Longrightarrow> initErrCh s = InitErr e \<Longrightarrow>
     update_step api clock online s
       (s\<lparr>builder := BuildReturned (Some (Wrapf ''failed to initialize Windows Update collector: %w'' [] e)), initErrCh := InitOpen\<rparr>)"
| build_ok: "builder s = BuildWaits \<Longrightarrow> initErrCh s = InitClosed \<Longrightarrow> update_step api clock online s (s\<lparr>builder := BuildDescs 0\<rparr>)"
| build_desc: "builder s = BuildDescs n \<Longrightarrow> n < 3 \<Longrightarrow> update_step api clock online s (s\<lparr>builder := BuildDescs (Suc n)\<rparr>)"
| build_done: "builder s = BuildDescs 3 \<Longrightarrow> update_step api clock online s (s\<lparr>builder := BuildReturned None\<rparr>)"
| close: "builder s = BuildReturned r \<Longrightarrow> update_step api clock online s (s\<lparr>cancelled := True\<rparr>)"

inductive_cases update_stepE: "update_step api clock online s s'"

text \<open>\<open>Collect\<close> holds the lock for reading.\<close>

definition update_Collect :: "'w updateState \<Rightarrow> go_error option \<times> metric list" where
  "update_Collect s = (case metricsBuf s of None \<Rightarrow> (Some (Sentinel ''update.ErrNoUpdates''), []) | Some ms \<Rightarrow> (None, ms))"

section \<open>The category\<close>

text \<open>The categories up to the first that cannot be read, and the first one of the least order; the greatest number does not count as an order.\<close>

fun categoryItems :: "'w ole_api \<Rightarrow> obj \<Rightarrow> nat list \<Rightarrow> 'w \<Rightarrow> (go_error + (string \<times> int) list) \<times> 'w" where
  "categoryItems api categories [] w = (Inr [], w)"
| "categoryItems api categories (i # is) w =
     (case categoryItem api categories i w of
        (Inl e, w1) \<Rightarrow> (Inl e, w1)
      | (Inr x, w1) \<Rightarrow> (case categoryItems api categories is w1 of (r, w2) \<Rightarrow> (map_sum id (\<lambda>xs. x # xs) r, w2)))"

definition firstLeast :: "int \<Rightarrow> string \<Rightarrow> (string \<times> int) list \<Rightarrow> string" where
  "firstLeast bound none xs =
     (case filter (\<lambda>x. snd x < bound \<and> list_all (\<lambda>y. snd x \<le> snd y) xs) xs of [] \<Rightarrow> none | x # _ \<Rightarrow> fst x)"

lemma firstLeast_Cons:
  "firstLeast bound none (x # xs) = (if snd x < bound then firstLeast (snd x) (fst x) xs else firstLeast bound none xs)"
proof -
  let ?P = "\<lambda>ys b y. snd y < b \<and> list_all (\<lambda>z. snd y \<le> snd z) ys"
  show ?thesis
  proof (cases "snd x < bound")
    case True
    show ?thesis
    proof (cases "list_all (\<lambda>z. snd x \<le> snd z) xs")
      case all: True
      then have "filter (?P xs (snd x)) xs = []" by (auto simp: filter_empty_conv list_all_iff)
      then show ?thesis using True all by (simp add: firstLeast_def)
    next
      case False
      then obtain z where z: "z \<in> set xs" "snd z < snd x" by (auto simp: list_all_iff not_le)
      have "?P (x # xs) bound y = ?P xs (snd x) y" if "y \<in> set xs" for y
        using z True by (auto simp: list_all_iff)
      then have "filter (?P (x # xs) bound) xs = filter (?P xs (snd x)) xs" by (rule filter_cong [OF refl])
      moreover have "filter (?P xs (snd x)) xs \<noteq> []"
      proof -
        have "Min (snd ` set xs) \<in> snd ` set xs" using z(1) by (intro Min_in) auto
        then obtain m where "m \<in> set xs" "\<forall>y\<in>set xs. snd m \<le> snd y" by (metis (no_types) Min_le finite_imageI finite_set imageE image_eqI)
        then show ?thesis using z by (fastforce simp: filter_empty_conv list_all_iff)
      qed
      ultimately show ?thesis using True False by (auto simp: firstLeast_def split: list.splits)
    qed
  next
    case False
    then have "filter (?P (x # xs) bound) xs = filter (?P xs bound) xs" by (intro filter_cong) auto
    then show ?thesis using False by (simp add: firstLeast_def)
  qed
qed

lemma categoryLoop_items:
  "categoryLoop api categories is order name w =
     (case categoryItems api categories is w of
        (Inl e, w') \<Rightarrow> (Inl (Wrapf ''get Category item: %w'' [] e), w')
      | (Inr xs, w') \<Rightarrow> (Inr (firstLeast order name xs), w'))"
proof (induction "is" arbitrary: order name w)
  case Nil
  then show ?case by (simp add: firstLeast_def)
next
  case (Cons i "is")
  obtain r w1 where item: "categoryItem api categories i w = (r, w1)" by fastforce
  show ?case
  proof (cases r)
    case (Inl e)
    then show ?thesis using item by simp
  next
    case (Inr x)
    then show ?thesis using item Cons.IH by (cases x) (auto simp: firstLeast_Cons split: sum.splits prod.splits)
  qed
qed

text \<open>C40: The category of an update is the name of the first of its categories whose order is the least, and the order of the categories and an error are read off the
  objects one after the other.\<close>

theorem category_of_least_order:
  "getUpdateCategory api categories w =
     (case GetProperty api categories ''Count'' [] w of
        (Inl e, w1) \<Rightarrow> (Inl (Wrapf ''get Categories count: %w'' [] e), w1)
      | (Inr cnt, w1) \<Rightarrow>
          (case categoryItems api categories [0..<nat (sint (varVal cnt))] w1 of
             (Inl e, w2) \<Rightarrow> (Inl (Wrapf ''get Category item: %w'' [] e), w2)
           | (Inr xs, w2) \<Rightarrow> (Inr (firstLeast (2 ^ 63 - 1) [] xs), w2)))"
  unfolding getUpdateCategory_def categoryLoop_items ..

section \<open>What a search sends\<close>

lemma update_names: "distinct (map (\<lambda>(n, d). fqName d) update_descs)" by code_simp

text \<open>The metrics of a search, for any updates.\<close>

definition updateLines :: "f64 \<Rightarrow> windowsUpdate list \<Rightarrow> f64 \<Rightarrow> line list" where
  "updateLines d us t = (''queryDurationSeconds'', GaugeValue, d, []) # map pendingLine us @ [(''lastScrapeMetric'', GaugeValue, t, [])]"

definition updateMetrics :: "f64 \<Rightarrow> windowsUpdate list \<Rightarrow> f64 \<Rightarrow> metric list" where
  "updateMetrics d us t =
     ConstMetric (the (map_of update_descs ''queryDurationSeconds'')) GaugeValue d [] #
     map (\<lambda>u. ConstMetric (the (map_of update_descs ''pendingUpdate'')) GaugeValue (F_Fin 1) [updCategory u, updSeverity u, updTitle u]) us @
     [ConstMetric (the (map_of update_descs ''lastScrapeMetric'')) GaugeValue t []]"

lemma sendAll_Cons: "sendAll ds (x # xs) = (case MustNewConstMetric ds x of None \<Rightarrow> None | Some m \<Rightarrow> map_option ((#) m) (sendAll ds xs))"
  by (simp add: sendAll_def split: option.splits)

lemma sendAll_pending:
  "sendAll update_descs (map pendingLine us) =
     Some (map (\<lambda>u. ConstMetric (the (map_of update_descs ''pendingUpdate'')) GaugeValue (F_Fin 1) [updCategory u, updSeverity u, updTitle u]) us)"
  by (induction us) (simp_all add: sendAll_Cons pendingLine_def MustNewConstMetric_def update_descs_def, simp add: sendAll_def)

lemma fetchUpdates_metrics:
  "fetchUpdates api clock update_descs usd w \<noteq> None"
  "fetchUpdates api clock update_descs usd w = Some (Inr ms, w') \<Longrightarrow> \<exists>d us t. ms = updateMetrics d us t"
proof -
  have one: "sendAll update_descs [(''queryDurationSeconds'', GaugeValue, d, [])] =
      Some [ConstMetric (the (map_of update_descs ''queryDurationSeconds'')) GaugeValue d []]" for d
    by (simp add: sendAll_def MustNewConstMetric_def update_descs_def)
  have last: "sendAll update_descs [(''lastScrapeMetric'', GaugeValue, d, [])] =
      Some [ConstMetric (the (map_of update_descs ''lastScrapeMetric'')) GaugeValue d []]" for d
    by (simp add: sendAll_def MustNewConstMetric_def update_descs_def)
  show "fetchUpdates api clock update_descs usd w \<noteq> None"
    by (simp add: fetchUpdates_def one sendAll_append sendAll_pending last Let_def split: prod.splits sum.splits)
  show "\<exists>d us t. ms = updateMetrics d us t" if "fetchUpdates api clock update_descs usd w = Some (Inr ms, w')"
    using that by (auto simp: fetchUpdates_def one sendAll_append sendAll_pending last Let_def updateMetrics_def split: prod.splits sum.splits)
qed

definition isPending :: "metric \<Rightarrow> bool" where
  "isPending m \<longleftrightarrow> fqName (metric_desc m) = BuildFQName Namespace ''update'' ''pending_info''"

lemma updateMetrics_accepted:
  "accepted (Some (updateMetrics d us t)) \<longleftrightarrow> distinct (map label_values (filter isPending (updateMetrics d us t)))"
  by (auto simp: accepted_def updateMetrics_def isPending_def update_descs_def arity_ok_def series_def list_all_iff distinct_map inj_on_def comp_def
      filter_map)

text \<open>With all descriptors set a search does not panic, and the metrics of a search that succeeds are accepted if and only if no two of the pending updates have the same
  category, severity and title.\<close>

theorem update_metrics_accepted:
  "case fetchUpdates api clock update_descs usd w of
     None \<Rightarrow> False
   | Some (Inl e, w') \<Rightarrow> True
   | Some (Inr ms, w') \<Rightarrow> accepted (Some ms) \<longleftrightarrow> distinct (map label_values (filter isPending ms))"
proof (cases "fetchUpdates api clock update_descs usd w")
  case None
  then show ?thesis using fetchUpdates_metrics(1) [of api clock usd w] by blast
next
  case (Some x)
  obtain r w' where x: "x = (r, w')" by fastforce
  show ?thesis
  proof (cases r)
    case (Inl e)
    then show ?thesis using Some x by simp
  next
    case (Inr ms)
    then obtain d us t where "ms = updateMetrics d us t" using fetchUpdates_metrics(2) [OF Some [unfolded x Inr]] by blast
    then show ?thesis using Some x Inr updateMetrics_accepted by simp
  qed
qed

section \<open>The life of the goroutine\<close>

text \<open>The search fails in every state of the system.\<close>

definition searchFails :: "'w ole_api \<Rightarrow> bool" where
  "searchFails api \<longleftrightarrow> (\<forall>o' args w. \<exists>e w'. CallMethod api o' ''Search'' args w = (Inl e, w'))"

definition searching :: "searcher \<Rightarrow> 'w updateState \<Rightarrow> bool" where
  "searching sr s \<longleftrightarrow> (updater s = UpdSearch sr \<or> updater s = UpdStore sr None) \<and> metricsBuf s = None"

lemma searching_step:
  assumes "searchFails api" and "searching sr s" and "update_step api clock online s s'"
  shows "searching sr s'"
proof -
  have fails: "\<exists>e w'. fetchUpdates api clock ds o' w = Some (Inl e, w')" for ds o' w
  proof -
    obtain e w' where "CallMethod api o' ''Search'' [StringArg ''IsInstalled=0 and IsHidden=0''] w = (Inl e, w')"
      using assms(1) unfolding searchFails_def by blast
    then show ?thesis by (simp add: fetchUpdates_def)
  qed
  have no_metrics: "fetchUpdates api clock ds o' w \<noteq> Some (Inr ms, w')" "fetchUpdates api clock ds o' w \<noteq> None" for ds o' w ms w'
    using fails [of ds o' w] by (metis Inl_Inr_False option.distinct(1) option.inject prod.inject)+
  show ?thesis using assms(3,2) by cases (auto simp: searching_def no_metrics)
qed

text \<open>
  C39: While the search fails, the goroutine searches again at once and never reaches the select at which it waits and at which it would see that the
  collector has been closed: from the start of its loop on it does not end, whatever \<open>Close\<close> does, and no metrics are sent.
\<close>

theorem failing_search_never_ends:
  assumes "searchFails api" and "updater s = UpdSearch sr" and "metricsBuf s = None" and "(update_step api clock online)\<^sup>*\<^sup>* s s'"
  shows "updater s' \<in> {UpdSearch sr, UpdStore sr None} \<and> fst (update_Collect s') = Some (Sentinel ''update.ErrNoUpdates'')"
proof -
  have "searching sr s" using assms by (simp add: searching_def)
  from assms(4) this have "searching sr s'"
    by (induction rule: rtranclp_induct) (auto intro: searching_step [OF assms(1)])
  then show ?thesis by (auto simp: searching_def update_Collect_def)
qed

text \<open>A system in which every call fails, and a collector that was built before.\<close>

definition failingOle :: "unit ole_api" where
  "failingOle =
     \<lparr>CoInitializeEx = (\<lambda>w. (None, w)), CoUninitialize = id, CreateObject = (\<lambda>n w. (Inl (Errno 5), w)), QueryInterface = (\<lambda>o' w. (Inl (Errno 5), w)),
      CallMethod = (\<lambda>o' n as w. (Inl (Errno 5), w)), GetProperty = (\<lambda>o' n as w. (Inl (Errno 5), w)), PutProperty = (\<lambda>o' n as w. (Some (Errno 5), w)),
      Release = (\<lambda>o'. id), Clear = (\<lambda>v. id)\<rparr>"

definition someSearcher :: searcher where
  "someSearcher = (let v = \<lparr>varVal = 0, varString = [], varDispatch = 3, varBool = None\<rparr> in
     \<lparr>sessionObj = 1, musQueryInterface = 2, searcherVar = v, historyCount = v\<rparr>)"

definition builtUpdater :: "unit updateState" where
  "builtUpdater = \<lparr>updater = UpdSearch someSearcher, builder = BuildReturned None, initErrCh = InitClosed, metricsBuf = None, cancelled = False, sys = ()\<rparr>"

theorem failing_search_never_ends_witness:
  "updater (builtUpdater\<lparr>cancelled := True\<rparr>) \<in> {UpdSearch someSearcher, UpdStore someSearcher None} \<and>
   fst (update_Collect (builtUpdater\<lparr>cancelled := True\<rparr>)) = Some (Sentinel ''update.ErrNoUpdates'')"
proof (rule failing_search_never_ends [of failingOle builtUpdater])
  show "searchFails failingOle" by (simp add: searchFails_def failingOle_def)
  show "(update_step failingOle \<lparr>secondsBetween = (\<lambda>v w. F_Fin 0), unixNow = (\<lambda>w. 0)\<rparr> False)\<^sup>*\<^sup>* builtUpdater (builtUpdater\<lparr>cancelled := True\<rparr>)"
    by (intro r_into_rtranclp update_step.close [of _ None]) (simp add: builtUpdater_def)
qed (simp_all add: builtUpdater_def)

text \<open>Once \<open>Build\<close> has returned without an error the goroutine does not panic, but before that it may: \<open>Build\<close> sets the descriptors only after it was told that the start succeeded.\<close>

lemma no_panic_after_build: "builder s = BuildReturned None \<Longrightarrow> update_step api clock online s s' \<Longrightarrow> updater s' = UpdCrashed \<Longrightarrow> updater s = UpdCrashed"
  by (elim update_stepE) (auto dest: fetchUpdates_metrics(1) [THEN notE])

theorem update_start_race:
  assumes start: "openSearcher api online w = (Inr sr, w1)"
    and search: "CallMethod api (varDispatch (searcherVar sr)) ''Search'' [StringArg ''IsInstalled=0 and IsHidden=0''] w1 = (Inr usr, w2)"
  shows "\<exists>s. (update_step api clock online)\<^sup>*\<^sup>* (update_init w) s \<and> updater s = UpdCrashed"
proof -
  let ?s = "(update_init w)\<lparr>updater := UpdSearch sr, initErrCh := InitClosed, sys := w1\<rparr>"
  have "update_step api clock online (update_init w) ?s"
    using start by (intro update_step.start_ok) (simp_all add: update_init_def)
  moreover have "update_step api clock online ?s (?s\<lparr>updater := UpdCrashed\<rparr>)"
    using search by (intro update_step.search_panics [of _ sr]) (simp_all add: update_init_def fetchUpdates_def sendAll_def MustNewConstMetric_def)
  ultimately show ?thesis
    by (intro exI [of _ "?s\<lparr>updater := UpdCrashed\<rparr>"]) (auto intro: converse_rtranclp_into_rtranclp)
qed

end
