(* ===== verification/Spec2Isabelle.thy ===== *)
theory Spec2Isabelle
  imports Utils Eventlog_Emission Main_Program Service Textfile Config Pdh_Rows Perf_System Perf_Net Perf_Disk Perf_Services Process_Workers
    Perf_Hyperv Perf_Exchange Perf_Iis Perf_Directory Perf_Hosts Perf_Mssql Netframework Mscluster
    Mi_Devices Terminal_Services Perf_Local Windows_Update
begin

text \<open>
  A verification library for windows_exporter, a Prometheus exporter for Windows.

  \<^bold>\<open>The program.\<close> \<open>cmd/windows_exporter\<close> reads the flags and a configuration file (\<open>internal/config\<close>), sets up logging (\<open>internal/log\<close>), chooses and
  builds the enabled collectors (\<open>pkg/collector\<close>) and serves the HTTP endpoints (\<open>internal/httphandler\<close>), as a console program or as a Windows service. A
  request for metrics runs the collectors it names concurrently and passes their metrics on until a timeout. A collector (\<open>internal/collector/*\<close>)
  reads the system through the performance data helper (\<open>internal/pdh\<close>), the performance data in the registry (\<open>internal/pdh/registry\<close>), the management
  infrastructure (\<open>internal/mi\<close>) or a function of Windows (\<open>internal/headers\<close>), and sends one metric per value. The registry of the Prometheus library
  accepts a scrape only when each metric has the labels of its descriptor and no two metrics have the same name and labels. (It also asks for label values in UTF-8; that part is in
  Sanitize only, where the code can violate it.)

  \<^bold>\<open>Conventions.\<close> Go's integers are words of their width, strings are byte lists, \<open>float64\<close> is exact binary64 (Float64), a Go map is a list of pairs with different
  keys in one iteration order (\<open>gomap\<close>), errors are values (\<open>go_error\<close>, Go_Errors) whose message and wrapped error are kept, and a panic is
  \<^term>\<open>None\<close> or the constructor \<open>Panics\<close>. A function of Windows or of a library that is not part of the sources is a parameter: an operation on
  an unknown system state \<open>'w\<close>, with no assumption unless a theorem states one. Goroutines that share state are step relations whose steps are single
  channel, mutex or variable operations.

  \<^bold>\<open>Shared theories.\<close>
  \<^item> Go_Prelude, Go_Strings, Go_Errors, Float64: the part of Go and of its standard library that the sources use, and the locales \<open>counting_store\<close> (maps used to
    count) and \<open>binary_struct\<close> (structures of fixed size read from bytes), which the event records and the raw structures of the registry interpret.
  \<^item> Step_System: the locales \<open>invariant_system\<close> and \<open>terminating_system\<close>; the scrape, the concurrent build, the service, the workers
    of the process collector and the life of a collector interpret them.
  \<^item> Prom: descriptors, constant metrics and what the library accepts; the locale \<open>emitter\<close>.
  \<^item> Utils: internal/utils. The wrap-around counter reconstructs a monotone quantity from readings modulo \<open>2^32\<close>.

  \<^bold>\<open>The program around the collectors.\<close>
  \<^item> Main_Program: \<open>run\<close>, \<open>expandEnabledCollectors\<close> and \<open>setPriorityWindows\<close> of cmd/windows_exporter/main.go. Which collectors are enabled, and which paths
    for the metrics make the program panic. Mux: the patterns of \<open>http.ServeMux\<close> of the standard library and their conflicts.
  \<^item> Service: \<open>Execute\<close> of 0_service.go and its hand-over with \<open>main\<close>, as a step relation. It comes to rest in one of four ways: both ended, \<open>main\<close> serving on, both
    waiting for ever, or \<open>main\<close> serving on after the service was reported as ended; the last two are reached.
  \<^item> Config, Log, Http: internal/config, internal/log and internal/httphandler. Flattening is a lookup along paths, the defaults that a file sets, the
    bounds of the timeout of a scrape.
  \<^item> Collection: pkg/collector/collection.go, map.go, types.go and handler.go. Selection, the concurrent \<open>Build\<close> with its channel of errors and
    its \<open>WaitGroup\<close> (it ends on every schedule; on one it loses an error), \<open>Close\<close> and the handler of a request.
  \<^item> Scrape: \<open>collectCollector\<close> and \<open>collectAll\<close> of pkg/collector/collect.go, as a step relation of three goroutines and two channels. Every run ends; without a
    timeout all metrics are passed on; always they are a prefix of the collector's output; the status metrics are those of the result.

  \<^bold>\<open>The clients of the system.\<close>
  \<^item> Pdh, Pdh_Collector, Pdh_Names, Pdh_Rows: internal/pdh. Construction from struct tags, the worker with its buffer and its cache of names, \<open>Collect\<close> and \<open>Close\<close>. The worker
    groups the values by instance while an address keeps its name; the rows have different names whatever PDH answers; the locale \<open>perf_contract\<close> is what a collector
    over PDH promises for its whole life.
  \<^item> Perflib_Raw, Perflib, Perflib_Format, Perflib_Collector: internal/pdh/registry. The parser inverts the format of the data block and of the name table, and the collector returns
    one row per instance.
  \<^item> Mi: internal/mi. Sessions, options, result texts, and the callback that fills the rows of a query: the rows are the instances by the layout of \<open>MI_Value\<close>, and
    a property that an instance lacks has the value of the row before.

  \<^bold>\<open>The collectors.\<close>
  \<^item> Eventlog_Filter, Sanitize, Eventlog, Eventlog_Records, Eventlog_Emission: internal/collector/eventlog. The filter of event IDs, the decoding of records, the counters, the
    loops. A scrape counts exactly the events of a log that answers with well-formed records, and emits every series once. The cut of a long name
    can split a character.
  \<^item> Textfile: internal/collector/textfile. Duplicates, conversion of families, files and directories.
  \<^item> Perf, Perf_Table, Perf_Subs: what the collectors of performance counters share. A collector is three tables translated from its sources, the struct with its tags, the
    descriptors and the metrics of a row, and a few functions that combine them. The locales \<open>perf_table\<close>, \<open>labelled_table\<close>, \<open>keyed_table\<close>, \<open>first_row_collector\<close>,
    \<open>each_row_collector\<close>, \<open>loop_collector\<close> and \<open>sub_table\<close> say what a table promises; every collector below interprets one of them and obtains \<open>perf_contract\<close>.
  \<^item> Perf_System (cpu, memory, system), Perf_Disk (physical_disk, logical_disk), Perf_Net (net, tcp, udp), Perf_Services (cache, smtp), Process and Process_Workers (process), Perf_Directory (ad, adfs, adcs, dns),
    Perf_Hosts (thermalzone, msmq, smb, smbclient, nps, vmware, dfsr, remote_fx), Perf_Hyperv (hyperv), Perf_Exchange (exchange), Perf_Iis (iis), Mssql_Class and Perf_Mssql (mssql). For each the
    lemmas named \<open>..._accepted\<close> say that every scrape after a successful build sends metrics that the library accepts, or under which condition on the instance names. The
    rest is particular: volumes and their disks, the connection states, the counters of a core, the owners of processes and the workers that share them, the names of sites, queries that \<open>Close\<close>
    leaves open.

  \<^item> Mi_Table: what the collectors of query rows share, over the model of the MI client. Netframework (netframework), Mscluster (mscluster) and Mi_Devices (cpu_info, diskdrive,
    fsrmquota, printer): when the queries come back with different names a scrape comes back and is accepted; a query that does not ask for the names leads to
    metrics that are rejected; print jobs are counted by printer and status.
  \<^item> Terminal_Services (terminal_services): the connection broker is never detected, the counters of the sessions are always accepted. Perf_Local (dhcp, time, pagefile): counters
    together with the answers of other system functions.
  \<^item> Ole: automation objects as parameters. Windows_Update (update): the goroutine that searches for updates, with \<open>Build\<close> and \<open>Close\<close>, as a step relation. The category of an update is
    the first one of the least order; the goroutine never ends while the search fails; what the library accepts of a search.

  \<^bold>\<open>Loops and bounds.\<close> Loops are structural recursion, except:
  \<^item> \<open>fetchArray\<close> (Pdh) and \<open>adapterAddresses\<close> (Perf_Net) repeat a call with a larger buffer; they terminate because the size of 32 bits grows at every turn.
  \<^item> \<open>flattenInto\<close>, \<open>readPairs\<close>, \<open>ReplaceAll\<close>, \<open>trim_front\<close> terminate by the size of what is left.
  \<^item> The loops of the event log take fuel, and running out is the value \<open>StillRunning\<close>, because they need not end: \<open>readRecords_may_not_end\<close> is such a buffer. On
    well-formed answers one more than the number of records and of answers is enough, and the theorem states the result for all larger fuel.
  \<^item> \<open>queryLoop\<close> (Perflib) takes fuel as the system may be busy for ever; a finite number of busy answers and extensions of the buffer is shown to be enough.

  \<^bold>\<open>Not modelled.\<close>
  \<^item> The collectors container, cs, filetime, license, logon, os, performancecounter, scheduled_task and service. They read rows of a query or of a call into Windows and send them by the patterns of the theories above.
  \<^item> The bindings (\<open>internal/headers\<close>, \<open>internal/pdh/pdh.go\<close>): calls through pointers into Windows; they are the parameters.
  \<^item> \<open>Operation.Unmarshal\<close> and the accessors of instances of internal/mi, the detection of a service in 0_service.go, and \<open>Describe\<close> of the PDH client.
  \<^item> The declaration of flags with kingpin, the compilation of regular expressions (predicates here), log messages, allocation failures and the closing of handles.
  \<^item> The sub collectors that run in goroutines of their own have queries of their own; their calls of the system are ordered by a schedule and each sub collector is one step.
\<close>

end
